(* ===== verification/Prelude.thy ===== *)
theory Prelude
  imports Main "HOL-Library.Word" "HOL-Library.AList"
begin

text \<open>
  Shared vocabulary of the development: the machine integers and byte strings of the Go
  sources, nil-able pointers as options, Go maps as association lists with the update and
  delete operations of \<^theory_text>\<open>HOL-Library.AList\<close>, loops that remember what
  they have already seen, and the fact collections the component theories fill.
\<close>

type_synonym uint64 = "64 word"
type_synonym gostring = string
type_synonym bytes = string
type_synonym ('k, 'v) gomap = "('k \<times> 'v) list"

named_theorems frame_simps "fields an operation leaves unchanged"
named_theorems contract_defs "definitions of the contract validators"
named_theorems step_defs "definitions of the coordinator's steps"

subsection \<open>Pointers\<close>

text \<open>A Go pointer to a value that is only read is an option; \<open>nilp\<close> is the nil test.\<close>

abbreviation nilp :: "'a option \<Rightarrow> bool" where
  "nilp p \<equiv> p = None"

definition ptr_holds :: "('a \<Rightarrow> bool) \<Rightarrow> 'a option \<Rightarrow> bool" where
  "ptr_holds P p = (case p of None \<Rightarrow> False | Some x \<Rightarrow> P x)"

lemma ptr_holds_simps [simp]:
  "ptr_holds P None = False"
  "ptr_holds P (Some x) = P x"
  by (simp_all add: ptr_holds_def)

lemma ptr_holds_iff: "ptr_holds P p \<longleftrightarrow> (\<exists>x. p = Some x \<and> P x)"
  by (cases p) auto

subsection \<open>Go maps\<close>

abbreviation go_lookup :: "('k, 'v) gomap \<Rightarrow> 'k \<Rightarrow> 'v option" where
  "go_lookup m k \<equiv> map_of m k"

abbreviation go_put :: "'k \<Rightarrow> 'v \<Rightarrow> ('k, 'v) gomap \<Rightarrow> ('k, 'v) gomap" where
  "go_put k v m \<equiv> AList.update k v m"

abbreviation go_delete :: "'k \<Rightarrow> ('k, 'v) gomap \<Rightarrow> ('k, 'v) gomap" where
  "go_delete k m \<equiv> AList.delete k m"

definition go_map_ok :: "('k, 'v) gomap \<Rightarrow> bool" where
  "go_map_ok m \<longleftrightarrow> distinct (map fst m)"

lemma go_map_ok_Nil [simp]: "go_map_ok []"
  by (simp add: go_map_ok_def)

lemma go_map_ok_put [simp]: "go_map_ok m \<Longrightarrow> go_map_ok (go_put k v m)"
  by (simp add: go_map_ok_def distinct_update)

lemma go_map_ok_delete [simp]: "go_map_ok m \<Longrightarrow> go_map_ok (go_delete k m)"
  by (simp add: go_map_ok_def distinct_delete)

lemma go_lookup_put [simp]:
  "go_lookup (go_put k v m) k' = (if k' = k then Some v else go_lookup m k')"
  by (simp add: update_conv')

lemma go_lookup_delete [simp]:
  "go_lookup (go_delete k m) k' = (if k' = k then None else go_lookup m k')"
  by (simp add: delete_conv')

text \<open>Ranging over a map in Go visits every key with its value exactly once.\<close>

definition go_map_any :: "('v \<Rightarrow> bool) \<Rightarrow> ('k, 'v) gomap \<Rightarrow> bool" where
  "go_map_any P m = list_ex (\<lambda>kv. P (snd kv)) m"

lemma go_map_any_iff:
  assumes "go_map_ok m"
  shows "go_map_any P m \<longleftrightarrow> (\<exists>k v. go_lookup m k = Some v \<and> P v)"
proof
  assume "go_map_any P m"
  then obtain k v where "(k, v) \<in> set m" and "P v"
    by (auto simp: go_map_any_def list_ex_iff)
  with assms show "\<exists>k v. go_lookup m k = Some v \<and> P v"
    by (auto simp: go_map_ok_def intro!: exI [of _ k] exI [of _ v])
next
  assume "\<exists>k v. go_lookup m k = Some v \<and> P v"
  then show "go_map_any P m"
    by (force simp: go_map_any_def list_ex_iff dest: map_of_SomeD)
qed

subsection \<open>Loops that remember what they have seen\<close>

text \<open>
  The validators share one shape of loop: every element passes a check and none of its keys
  occurs twice, with the keys seen so far kept in a map.
\<close>

fun unique_loop :: "('a \<Rightarrow> bool) \<Rightarrow> ('a \<Rightarrow> 'k) \<Rightarrow> 'k list \<Rightarrow> 'a list \<Rightarrow> bool" where
  "unique_loop ok key seen [] = True"
| "unique_loop ok key seen (x # xs) =
     (if \<not> ok x then False
      else if List.member seen (key x) then False
      else unique_loop ok key (key x # seen) xs)"

lemma unique_loop_iff:
  "unique_loop ok key seen xs \<longleftrightarrow>
     list_all ok xs \<and> distinct (map key xs) \<and> set (map key xs) \<inter> set seen = {}"
  by (induction xs arbitrary: seen) auto

lemma unique_loop_Nil_iff:
  "unique_loop ok key [] xs \<longleftrightarrow> list_all ok xs \<and> distinct (map key xs)"
  by (simp add: unique_loop_iff)

subsection \<open>Words\<close>

lemma word_succ_gt: "x \<noteq> - 1 \<Longrightarrow> unat (x + 1 :: uint64) = Suc (unat x)"
  by (metis unatSuc add.commute add_eq_0_iff2 minus_equation_iff)

end
