(* ===== verification/GoText.thy ===== *)
theory GoText
  imports Prelude
begin

text \<open>
  What the sources use of Go's standard library on text: byte strings, UTF-8 decoding as
  \<^verbatim>\<open>unicode/utf8\<close> does it (an invalid byte is U+FFFD of width one), white space
  as \<^verbatim>\<open>unicode.IsSpace\<close> has it, searching and cutting of \<^verbatim>\<open>strings\<close>, decimal and hexadecimal
  numerals, unpadded base64url, and RFC 3339 time stamps.
\<close>

subsection \<open>UTF-8\<close>

definition cont_byte :: "nat \<Rightarrow> nat \<Rightarrow> char \<Rightarrow> bool" where
  "cont_byte lo hi c \<longleftrightarrow> lo \<le> of_char c \<and> of_char c \<le> hi"

text \<open>\<open>utf8_next c cs\<close>: the rune at the head and the number of further bytes it takes.\<close>

definition utf8_next :: "char \<Rightarrow> string \<Rightarrow> nat \<times> nat" where
  "utf8_next c cs =
     (let b = (of_char c :: nat) in
      if b < 128 then (b, 0)
      else if 194 \<le> b \<and> b \<le> 223 then
        (case cs of
           c1 # _ \<Rightarrow> if cont_byte 128 191 c1 then ((b - 192) * 64 + (of_char c1 - 128), 1) else (65533, 0)
         | _ \<Rightarrow> (65533, 0))
      else if 224 \<le> b \<and> b \<le> 239 then
        (case cs of
           c1 # c2 # _ \<Rightarrow>
             if cont_byte (if b = 224 then 160 else 128) (if b = 237 then 159 else 191) c1 \<and>
                cont_byte 128 191 c2
             then ((b - 224) * 4096 + (of_char c1 - 128) * 64 + (of_char c2 - 128), 2)
             else (65533, 0)
         | _ \<Rightarrow> (65533, 0))
      else if 240 \<le> b \<and> b \<le> 244 then
        (case cs of
           c1 # c2 # c3 # _ \<Rightarrow>
             if cont_byte (if b = 240 then 144 else 128) (if b = 244 then 143 else 191) c1 \<and>
                cont_byte 128 191 c2 \<and> cont_byte 128 191 c3
             then ((b - 240) * 262144 + (of_char c1 - 128) * 4096 + (of_char c2 - 128) * 64 +
                   (of_char c3 - 128), 3)
             else (65533, 0)
         | _ \<Rightarrow> (65533, 0))
      else (65533, 0))"

text \<open>A string as Go's \<^verbatim>\<open>range\<close> loop sees it: each rune with the bytes it was read from.\<close>

function go_chunks :: "string \<Rightarrow> (nat \<times> string) list" where
  "go_chunks [] = []"
| "go_chunks (c # cs) =
     (let rn = utf8_next c cs in (fst rn, c # take (snd rn) cs) # go_chunks (drop (snd rn) cs))"
  by pat_completeness auto
termination
  by (relation "measure length") auto

definition go_runes :: "string \<Rightarrow> nat list" where
  "go_runes s = map fst (go_chunks s)"

definition rune_count :: "string \<Rightarrow> nat" where
  "rune_count s = length (go_chunks s)"

definition chunk_valid :: "nat \<times> string \<Rightarrow> bool" where
  "chunk_valid ch \<longleftrightarrow> \<not> (fst ch = 65533 \<and> length (snd ch) = 1)"

definition utf8_valid :: "string \<Rightarrow> bool" where
  "utf8_valid s = list_all chunk_valid (go_chunks s)"

lemma concat_go_chunks: "concat (map snd (go_chunks s)) = s"
  by (induction s rule: go_chunks.induct) (auto simp: Let_def)

lemma rune_count_le: "rune_count s \<le> length s"
  unfolding rune_count_def
proof (induction s rule: go_chunks.induct)
  case (2 c cs)
  then have "length (go_chunks (drop (snd (utf8_next c cs)) cs)) \<le> length (drop (snd (utf8_next c cs)) cs)"
    by simp
  also have "\<dots> \<le> length cs" by simp
  finally show ?case by (simp add: Let_def)
qed simp

text \<open>An ASCII string is its own list of runes.\<close>

lemma go_chunks_ascii:
  "list_all (\<lambda>c. (of_char c :: nat) < 128) s \<Longrightarrow> go_chunks s = map (\<lambda>c. (of_char c, [c])) s"
proof (induction s rule: go_chunks.induct)
  case (2 c cs)
  have "utf8_next c cs = (of_char c, 0)"
    using "2.prems" by (simp add: utf8_next_def)
  with 2 show ?case by simp
qed simp

subsection \<open>White space and trimming\<close>

definition is_space :: "nat \<Rightarrow> bool" where
  "is_space r \<longleftrightarrow> List.member [9, 10, 11, 12, 13, 32, 133, 160, 5760, 8232, 8233, 8239, 8287, 12288] r
     \<or> (8192 \<le> r \<and> r \<le> 8202)"

definition trim_space :: "string \<Rightarrow> string" where
  "trim_space s =
     concat (map snd (rev (dropWhile (is_space \<circ> fst) (rev (dropWhile (is_space \<circ> fst) (go_chunks s))))))"

fun fields_aux :: "string \<Rightarrow> (nat \<times> string) list \<Rightarrow> string list" where
  "fields_aux w [] = (if w = [] then [] else [w])"
| "fields_aux w ((r, b) # cs) =
     (if is_space r then (if w = [] then [] else [w]) @ fields_aux [] cs
      else fields_aux (w @ b) cs)"

definition go_fields :: "string \<Rightarrow> string list" where
  "go_fields s = fields_aux [] (go_chunks s)"

subsection \<open>Searching\<close>

fun has_prefix :: "string \<Rightarrow> string \<Rightarrow> bool" where
  "has_prefix [] s = True"
| "has_prefix (p # ps) [] = False"
| "has_prefix (p # ps) (c # cs) = (p = c \<and> has_prefix ps cs)"

definition has_suffix :: "string \<Rightarrow> string \<Rightarrow> bool" where
  "has_suffix p s = has_prefix (rev p) (rev s)"

definition trim_prefix :: "string \<Rightarrow> string \<Rightarrow> string" where
  "trim_prefix p s = (if has_prefix p s then drop (length p) s else s)"

text \<open>Cutting at the first occurrence of a separator: the text before it and after it.\<close>

fun go_cut :: "string \<Rightarrow> string \<Rightarrow> (string \<times> string) option" where
  "go_cut p [] = (if p = [] then Some ([], []) else None)"
| "go_cut p (c # cs) =
     (if has_prefix p (c # cs) then Some ([], drop (length p) (c # cs))
      else (case go_cut p cs of None \<Rightarrow> None | Some (b, a) \<Rightarrow> Some (c # b, a)))"

definition go_contains :: "string \<Rightarrow> string \<Rightarrow> bool" where
  "go_contains p s = (go_cut p s \<noteq> None)"

lemma has_prefix_length: "has_prefix p s \<Longrightarrow> length p \<le> length s"
  by (induction p s rule: has_prefix.induct) auto

lemma has_prefix_append [simp]: "has_prefix p (p @ s)"
  by (induction p) auto

lemma go_cut_length:
  "go_cut p s = Some (b, a) \<Longrightarrow> length b + length p + length a = length s"
proof (induction p s arbitrary: b a rule: go_cut.induct)
  case (2 p c cs)
  then show ?case
    by (auto split: if_splits option.splits dest: has_prefix_length)
qed (auto split: if_splits)

subsection \<open>ASCII case\<close>

definition ascii_lower_char :: "char \<Rightarrow> char" where
  "ascii_lower_char c =
     (if 65 \<le> (of_char c :: nat) \<and> (of_char c :: nat) \<le> 90 then char_of (of_char c + 32 :: nat) else c)"

definition ascii_lower :: "string \<Rightarrow> string" where
  "ascii_lower s = map ascii_lower_char s"

definition equal_fold_ascii :: "string \<Rightarrow> string \<Rightarrow> bool" where
  "equal_fold_ascii s t \<longleftrightarrow> ascii_lower s = ascii_lower t"

definition in_range :: "char \<Rightarrow> char \<Rightarrow> char \<Rightarrow> bool" where
  "in_range lo hi c \<longleftrightarrow> (of_char lo :: nat) \<le> of_char c \<and> (of_char c :: nat) \<le> of_char hi"

definition is_upper :: "char \<Rightarrow> bool" where "is_upper = in_range (CHR ''A'') (CHR ''Z'')"
definition is_lower :: "char \<Rightarrow> bool" where "is_lower = in_range (CHR ''a'') (CHR ''z'')"
definition is_digit :: "char \<Rightarrow> bool" where "is_digit = in_range (CHR ''0'') (CHR ''9'')"
definition is_hex_lower :: "char \<Rightarrow> bool" where
  "is_hex_lower c \<longleftrightarrow> is_digit c \<or> in_range (CHR ''a'') (CHR ''f'') c"

subsection \<open>Numerals\<close>

definition digit_char :: "nat \<Rightarrow> char" where
  "digit_char d = char_of (48 + d)"

fun dec_nat :: "nat \<Rightarrow> string" where
  "dec_nat n = (if n < 10 then [digit_char n] else dec_nat (n div 10) @ [digit_char (n mod 10)])"

declare dec_nat.simps [simp del]

definition dec_int :: "int \<Rightarrow> string" where
  "dec_int i = (if i < 0 then CHR ''-'' # dec_nat (nat (- i)) else dec_nat (nat i))"

fun parse_digits :: "nat \<Rightarrow> string \<Rightarrow> nat option" where
  "parse_digits acc [] = Some acc"
| "parse_digits acc (c # cs) =
     (if is_digit c then parse_digits (acc * 10 + (of_char c - 48)) cs else None)"

text \<open>\<^verbatim>\<open>strconv.ParseInt(s, 10, 64)\<close>: an optional sign, digits, and the 64-bit range.\<close>

definition parse_int64 :: "string \<Rightarrow> int option" where
  "parse_int64 s =
     (let neg = (s \<noteq> [] \<and> hd s = CHR ''-'');
          digs = (if s \<noteq> [] \<and> (hd s = CHR ''-'' \<or> hd s = CHR ''+'') then tl s else s) in
      if digs = [] then None
      else (case parse_digits 0 digs of
              None \<Rightarrow> None
            | Some n \<Rightarrow>
                let i = (if neg then - int n else int n) in
                if - (2 ^ 63) \<le> i \<and> i < 2 ^ 63 then Some i else None))"

definition hex_digit :: "nat \<Rightarrow> char" where
  "hex_digit d = (if d < 10 then char_of (48 + d) else char_of (87 + d))"

definition hex_encode :: "bytes \<Rightarrow> string" where
  "hex_encode bs = concat (map (\<lambda>c. [hex_digit (of_char c div 16), hex_digit (of_char c mod 16)]) bs)"

lemma length_hex_encode: "length (hex_encode bs) = 2 * length bs"
  by (induction bs) (auto simp: hex_encode_def)

lemma hex_digit_lower: "d < 16 \<Longrightarrow> is_hex_lower (hex_digit d)"
  by (auto simp: hex_digit_def is_hex_lower_def is_digit_def in_range_def)

lemma hex_encode_lower: "list_all is_hex_lower (hex_encode bs)"
proof (induction bs)
  case (Cons c bs)
  have "(of_char c :: nat) < 256" by simp
  then have "(of_char c :: nat) div 16 < 16" by linarith
  then show ?case
    using Cons by (simp add: hex_encode_def hex_digit_lower)
qed (simp add: hex_encode_def)

subsection \<open>Unpadded base64url\<close>

definition b64_char :: "nat \<Rightarrow> char" where
  "b64_char v = (if v < 26 then char_of (65 + v) else if v < 52 then char_of (71 + v)
     else if v < 62 then char_of (v - 4) else if v = 62 then CHR ''-'' else CHR ''_'')"

definition b64_value :: "char \<Rightarrow> nat option" where
  "b64_value c =
     (if is_upper c then Some (of_char c - 65) else if is_lower c then Some (of_char c - 71)
      else if is_digit c then Some (of_char c + 4) else if c = CHR ''-'' then Some 62
      else if c = CHR ''_'' then Some 63 else None)"

fun b64_encode_nat :: "nat list \<Rightarrow> nat list" where
  "b64_encode_nat (x # y # z # r) =
     [x div 4, x mod 4 * 16 + y div 16, y mod 16 * 4 + z div 64, z mod 64] @ b64_encode_nat r"
| "b64_encode_nat [x, y] = [x div 4, x mod 4 * 16 + y div 16, y mod 16 * 4]"
| "b64_encode_nat [x] = [x div 4, x mod 4 * 16]"
| "b64_encode_nat [] = []"

text \<open>Strict decoding refuses a last sextet whose unused bits are not zero.\<close>

fun b64_decode_nat :: "nat list \<Rightarrow> nat list option" where
  "b64_decode_nat (a # b # c # d # r) =
     (case b64_decode_nat r of
        None \<Rightarrow> None
      | Some bs \<Rightarrow> Some ([a * 4 + b div 16, b mod 16 * 16 + c div 4, c mod 4 * 64 + d] @ bs))"
| "b64_decode_nat [a, b, c] =
     (if c mod 4 = 0 then Some [a * 4 + b div 16, b mod 16 * 16 + c div 4] else None)"
| "b64_decode_nat [a, b] = (if b mod 16 = 0 then Some [a * 4 + b div 16] else None)"
| "b64_decode_nat [a] = None"
| "b64_decode_nat [] = Some []"

definition b64_encode :: "bytes \<Rightarrow> string" where
  "b64_encode bs = map b64_char (b64_encode_nat (map of_char bs))"

definition b64_decode :: "string \<Rightarrow> bytes option" where
  "b64_decode s =
     (if list_all (\<lambda>c. b64_value c \<noteq> None) s
      then map_option (map char_of) (b64_decode_nat (map (the \<circ> b64_value) s)) else None)"

lemma b64_value_char: "v < 64 \<Longrightarrow> b64_value (b64_char v) = Some v"
  by (auto simp: b64_value_def b64_char_def is_upper_def is_lower_def is_digit_def in_range_def)

lemma b64_encode_nat_bound:
  "list_all (\<lambda>x. x < 256) xs \<Longrightarrow> list_all (\<lambda>v. v < 64) (b64_encode_nat xs)"
  by (induction xs rule: b64_encode_nat.induct) auto

lemma b64_decode_encode_nat:
  "list_all (\<lambda>x. x < 256) xs \<Longrightarrow> b64_decode_nat (b64_encode_nat xs) = Some xs"
  by (induction xs rule: b64_encode_nat.induct) auto

lemma length_b64_encode_nat:
  "length (b64_encode_nat xs) = (4 * length xs + 2) div 3"
  by (induction xs rule: b64_encode_nat.induct) auto

lemma bytes_bound: "list_all (\<lambda>x. x < 256) (map (of_char :: char \<Rightarrow> nat) bs)"
  by (induction bs) auto

lemma b64_values_encode:
  "map (the \<circ> b64_value) (b64_encode bs) = b64_encode_nat (map of_char bs)"
  "list_all (\<lambda>c. b64_value c \<noteq> None) (b64_encode bs)"
proof -
  have b: "list_all (\<lambda>v. v < 64) (b64_encode_nat (map of_char bs))"
    by (rule b64_encode_nat_bound [OF bytes_bound])
  then show "map (the \<circ> b64_value) (b64_encode bs) = b64_encode_nat (map of_char bs)"
    by (auto simp: b64_encode_def list_all_iff b64_value_char intro!: map_idI)
  from b show "list_all (\<lambda>c. b64_value c \<noteq> None) (b64_encode bs)"
    by (auto simp: b64_encode_def list_all_iff b64_value_char)
qed

lemma b64_decode_encode: "b64_decode (b64_encode bs) = Some bs"
  using b64_values_encode [of bs] b64_decode_encode_nat [OF bytes_bound, of bs]
  by (simp add: b64_decode_def o_def)

subsection \<open>Time\<close>

text \<open>
  \<^verbatim>\<open>time.Time\<close> without its monotonic reading: nanoseconds since the zero time
  (1 January of year 1, UTC) and the location, UTC or a fixed offset in seconds.
\<close>

datatype location = UTC | Offset int

record gotime =
  t_nsec :: int
  t_loc :: location

definition zero_time :: gotime where
  "zero_time = \<lparr>t_nsec = 0, t_loc = UTC\<rparr>"

definition IsZero :: "gotime \<Rightarrow> bool" where "IsZero t \<longleftrightarrow> t_nsec t = 0"
definition After :: "gotime \<Rightarrow> gotime \<Rightarrow> bool" where "After t u \<longleftrightarrow> t_nsec u < t_nsec t"
definition Before :: "gotime \<Rightarrow> gotime \<Rightarrow> bool" where "Before t u \<longleftrightarrow> t_nsec t < t_nsec u"
definition toUTC :: "gotime \<Rightarrow> gotime" where "toUTC t = t\<lparr>t_loc := UTC\<rparr>"
definition time_add :: "gotime \<Rightarrow> int \<Rightarrow> gotime" where "time_add t d = t\<lparr>t_nsec := t_nsec t + d\<rparr>"

lemmas time_defs = IsZero_def After_def Before_def toUTC_def time_add_def zero_time_def

definition pad :: "nat \<Rightarrow> nat \<Rightarrow> string" where
  "pad w n = (let s = dec_nat n in replicate (w - length s) (CHR ''0'') @ s)"

text \<open>Civil date of a day number, day 0 being 1 January of year 1 (proleptic Gregorian).\<close>

definition civil :: "int \<Rightarrow> int \<times> int \<times> int" where
  "civil d =
     (let z = d + 306; era = z div 146097; doe = z - era * 146097;
          yoe = (doe - doe div 1460 + doe div 36524 - doe div 146096) div 365;
          doy = doe - (365 * yoe + yoe div 4 - yoe div 100);
          mp = (5 * doy + 2) div 153; dd = doy - (153 * mp + 2) div 5 + 1;
          mm = (if mp < 10 then mp + 3 else mp - 9)
      in (yoe + era * 400 + (if mm \<le> 2 then 1 else 0), mm, dd))"

definition fraction :: "int \<Rightarrow> string" where
  "fraction n = (if n = 0 then [] else CHR ''.'' # rev (dropWhile (\<lambda>c. c = CHR ''0'') (rev (pad 9 (nat n)))))"

definition zone_text :: "location \<Rightarrow> string" where
  "zone_text l = (case l of UTC \<Rightarrow> ''Z''
     | Offset o' \<Rightarrow> (if o' = 0 then ''Z'' else
         (let m = \<bar>o'\<bar> div 60 in
          (if o' < 0 then ''-'' else ''+'') @ pad 2 (nat (m div 60)) @ '':'' @ pad 2 (nat (m mod 60)))))"

text \<open>
  \<^verbatim>\<open>Time.MarshalJSON\<close>: RFC 3339 with nanoseconds; a year outside 0..9999 or an offset
  of a day or more is an error.
\<close>

definition rfc3339 :: "gotime \<Rightarrow> string option" where
  "rfc3339 t =
     (let off = (case t_loc t of UTC \<Rightarrow> 0 | Offset o' \<Rightarrow> o');
          l = t_nsec t + off * 1000000000; secs = l div 1000000000; day = secs div 86400;
          sod = secs mod 86400; (y, m, d) = civil day
      in if y < 0 \<or> 9999 < y \<or> 86400 \<le> \<bar>off\<bar> then None
         else Some (pad 4 (nat y) @ ''-'' @ pad 2 (nat m) @ ''-'' @ pad 2 (nat d) @ ''T'' @
           pad 2 (nat (sod div 3600)) @ '':'' @ pad 2 (nat (sod mod 3600 div 60)) @ '':'' @
           pad 2 (nat (sod mod 60)) @ fraction (l mod 1000000000) @ zone_text (t_loc t)))"

end
