(* ===== verification/RawContract.thy ===== *)
theory RawContract
  imports TypedValue
begin

text \<open>
  The data of the raw feature and mutation contracts,
  \<^verbatim>\<open>src/eebusraw/raw_feature_v1.go\<close>, \<^verbatim>\<open>raw_mutation_v1.go\<close> and
  \<^verbatim>\<open>mutation_lab_profile_v1.go\<close>, with the documents \<^verbatim>\<open>encoding/json\<close> makes of
  them and the validators those files hold. Go's string enumerations are datatypes whose last
  constructor holds any other text; a nil-able pointer is an option; nil and empty slices are
  the same list and marshal as null.
\<close>

subsection \<open>String enumerations\<close>

datatype ToolV1 =
    ToolV1FeaturesGet
  | ToolV1FeaturesDataGet
  | ToolV1FeaturesDataSet
  | ToolV1MutationsGet
  | ToolV1MutationsRollback
  | ToolV1Other string

fun toolV1_text :: "ToolV1 \<Rightarrow> string" where
  "toolV1_text ToolV1FeaturesGet = ''eebus.v1.features.get''"
| "toolV1_text ToolV1FeaturesDataGet = ''eebus.v1.features.data.get''"
| "toolV1_text ToolV1FeaturesDataSet = ''eebus.v1.features.data.set''"
| "toolV1_text ToolV1MutationsGet = ''eebus.v1.mutations.get''"
| "toolV1_text ToolV1MutationsRollback = ''eebus.v1.mutations.rollback''"
| "toolV1_text (ToolV1Other s) = s"

datatype AuthScopeV1 =
    AuthScopeV1RawRead
  | AuthScopeV1RawWrite
  | AuthScopeV1Other string

fun authScopeV1_text :: "AuthScopeV1 \<Rightarrow> string" where
  "authScopeV1_text AuthScopeV1RawRead = ''eebus.raw.read''"
| "authScopeV1_text AuthScopeV1RawWrite = ''eebus.raw.write''"
| "authScopeV1_text (AuthScopeV1Other s) = s"

datatype FeatureRoleV1 =
    FeatureRoleV1Client
  | FeatureRoleV1Server
  | FeatureRoleV1Special
  | FeatureRoleV1Other string

fun featureRoleV1_text :: "FeatureRoleV1 \<Rightarrow> string" where
  "featureRoleV1_text FeatureRoleV1Client = ''client''"
| "featureRoleV1_text FeatureRoleV1Server = ''server''"
| "featureRoleV1_text FeatureRoleV1Special = ''special''"
| "featureRoleV1_text (FeatureRoleV1Other s) = s"

datatype OperationV1 =
    OperationV1Read
  | OperationV1Write
  | OperationV1Other string

fun operationV1_text :: "OperationV1 \<Rightarrow> string" where
  "operationV1_text OperationV1Read = ''READ''"
| "operationV1_text OperationV1Write = ''WRITE''"
| "operationV1_text (OperationV1Other s) = s"

datatype ChangeabilityV1 =
    ChangeabilityV1Unknown
  | ChangeabilityV1False
  | ChangeabilityV1True
  | ChangeabilityV1Other string

fun changeabilityV1_text :: "ChangeabilityV1 \<Rightarrow> string" where
  "changeabilityV1_text ChangeabilityV1Unknown = ''unknown''"
| "changeabilityV1_text ChangeabilityV1False = ''false''"
| "changeabilityV1_text ChangeabilityV1True = ''true''"
| "changeabilityV1_text (ChangeabilityV1Other s) = s"

datatype ErrorCodeV1 =
    ErrorCodeV1PermissionDenied
  | ErrorCodeV1InvalidArgument
  | ErrorCodeV1UnsupportedOperation
  | ErrorCodeV1PartialOperationForbidden
  | ErrorCodeV1ConstraintsUnknown
  | ErrorCodeV1ConstraintFailure
  | ErrorCodeV1StaleReadToken
  | ErrorCodeV1CASMismatch
  | ErrorCodeV1RuntimeEpochMismatch
  | ErrorCodeV1ConnectionGenerationMismatch
  | ErrorCodeV1IdempotencyConflict
  | ErrorCodeV1WriterBusy
  | ErrorCodeV1Disconnected
  | ErrorCodeV1Timeout
  | ErrorCodeV1Cancelled
  | ErrorCodeV1RemoteError
  | ErrorCodeV1TypedEmpty
  | ErrorCodeV1DecodeError
  | ErrorCodeV1PartialResult
  | ErrorCodeV1OutcomeUnknown
  | ErrorCodeV1Conflict
  | ErrorCodeV1RollbackFailed
  | ErrorCodeV1NoEffect
  | ErrorCodeV1NotFound
  | ErrorCodeV1SecretDetected
  | ErrorCodeV1Internal
  | ErrorCodeV1Other string

fun errorCodeV1_text :: "ErrorCodeV1 \<Rightarrow> string" where
  "errorCodeV1_text ErrorCodeV1PermissionDenied = ''permission_denied''"
| "errorCodeV1_text ErrorCodeV1InvalidArgument = ''invalid_argument''"
| "errorCodeV1_text ErrorCodeV1UnsupportedOperation = ''unsupported_operation''"
| "errorCodeV1_text ErrorCodeV1PartialOperationForbidden = ''partial_operation_forbidden''"
| "errorCodeV1_text ErrorCodeV1ConstraintsUnknown = ''constraints_unknown''"
| "errorCodeV1_text ErrorCodeV1ConstraintFailure = ''constraint_failure''"
| "errorCodeV1_text ErrorCodeV1StaleReadToken = ''stale_read_token''"
| "errorCodeV1_text ErrorCodeV1CASMismatch = ''cas_mismatch''"
| "errorCodeV1_text ErrorCodeV1RuntimeEpochMismatch = ''runtime_epoch_mismatch''"
| "errorCodeV1_text ErrorCodeV1ConnectionGenerationMismatch = ''connection_generation_mismatch''"
| "errorCodeV1_text ErrorCodeV1IdempotencyConflict = ''idempotency_conflict''"
| "errorCodeV1_text ErrorCodeV1WriterBusy = ''writer_busy''"
| "errorCodeV1_text ErrorCodeV1Disconnected = ''disconnected''"
| "errorCodeV1_text ErrorCodeV1Timeout = ''timeout''"
| "errorCodeV1_text ErrorCodeV1Cancelled = ''cancelled''"
| "errorCodeV1_text ErrorCodeV1RemoteError = ''remote_error''"
| "errorCodeV1_text ErrorCodeV1TypedEmpty = ''typed_empty''"
| "errorCodeV1_text ErrorCodeV1DecodeError = ''decode_error''"
| "errorCodeV1_text ErrorCodeV1PartialResult = ''partial_result''"
| "errorCodeV1_text ErrorCodeV1OutcomeUnknown = ''outcome_unknown''"
| "errorCodeV1_text ErrorCodeV1Conflict = ''conflict''"
| "errorCodeV1_text ErrorCodeV1RollbackFailed = ''rollback_failed''"
| "errorCodeV1_text ErrorCodeV1NoEffect = ''no_effect''"
| "errorCodeV1_text ErrorCodeV1NotFound = ''not_found''"
| "errorCodeV1_text ErrorCodeV1SecretDetected = ''secret_detected''"
| "errorCodeV1_text ErrorCodeV1Internal = ''internal''"
| "errorCodeV1_text (ErrorCodeV1Other s) = s"

datatype SourceLayerV1 =
    SourceLayerV1Runtime
  | SourceLayerV1Executor
  | SourceLayerV1SpineRoundTrip
  | SourceLayerV1Remote
  | SourceLayerV1Other string

fun sourceLayerV1_text :: "SourceLayerV1 \<Rightarrow> string" where
  "sourceLayerV1_text SourceLayerV1Runtime = ''eebusreg-runtime''"
| "sourceLayerV1_text SourceLayerV1Executor = ''eebus-go-executor''"
| "sourceLayerV1_text SourceLayerV1SpineRoundTrip = ''spine-go-round-trip''"
| "sourceLayerV1_text SourceLayerV1Remote = ''remote''"
| "sourceLayerV1_text (SourceLayerV1Other s) = s"

datatype ModeV1 =
    ModeV1Apply
  | ModeV1Probe
  | ModeV1Other string

fun modeV1_text :: "ModeV1 \<Rightarrow> string" where
  "modeV1_text ModeV1Apply = ''apply''"
| "modeV1_text ModeV1Probe = ''probe''"
| "modeV1_text (ModeV1Other s) = s"

datatype MutationStateV1 =
    MutationStateV1Prepared
  | MutationStateV1DispatchIntent
  | MutationStateV1ReplyObserved
  | MutationStateV1VerifyPending
  | MutationStateV1Applied
  | MutationStateV1ProbeActive
  | MutationStateV1RollbackIntent
  | MutationStateV1RollbackDispatchIntent
  | MutationStateV1RollbackReplyObserved
  | MutationStateV1RollbackVerifyPending
  | MutationStateV1RolledBack
  | MutationStateV1OutcomeUnknown
  | MutationStateV1Conflict
  | MutationStateV1FailedNoContact
  | MutationStateV1Rejected
  | MutationStateV1NoEffect
  | MutationStateV1Other string

fun mutationStateV1_text :: "MutationStateV1 \<Rightarrow> string" where
  "mutationStateV1_text MutationStateV1Prepared = ''prepared''"
| "mutationStateV1_text MutationStateV1DispatchIntent = ''dispatch_intent''"
| "mutationStateV1_text MutationStateV1ReplyObserved = ''reply_observed''"
| "mutationStateV1_text MutationStateV1VerifyPending = ''verify_pending''"
| "mutationStateV1_text MutationStateV1Applied = ''applied''"
| "mutationStateV1_text MutationStateV1ProbeActive = ''probe_active''"
| "mutationStateV1_text MutationStateV1RollbackIntent = ''rollback_intent''"
| "mutationStateV1_text MutationStateV1RollbackDispatchIntent = ''rollback_dispatch_intent''"
| "mutationStateV1_text MutationStateV1RollbackReplyObserved = ''rollback_reply_observed''"
| "mutationStateV1_text MutationStateV1RollbackVerifyPending = ''rollback_verify_pending''"
| "mutationStateV1_text MutationStateV1RolledBack = ''rolled_back''"
| "mutationStateV1_text MutationStateV1OutcomeUnknown = ''outcome_unknown''"
| "mutationStateV1_text MutationStateV1Conflict = ''conflict''"
| "mutationStateV1_text MutationStateV1FailedNoContact = ''failed_no_contact''"
| "mutationStateV1_text MutationStateV1Rejected = ''rejected''"
| "mutationStateV1_text MutationStateV1NoEffect = ''no_effect''"
| "mutationStateV1_text (MutationStateV1Other s) = s"

datatype MaskTier = MaskTierRedacted | MaskTierRaw | MaskTierOther string

abbreviation SourceLayerV1Authorization :: SourceLayerV1 where
  "SourceLayerV1Authorization \<equiv> SourceLayerV1Runtime"

abbreviation SourceLayerV1Validation :: SourceLayerV1 where
  "SourceLayerV1Validation \<equiv> SourceLayerV1Runtime"

subsection \<open>Structures of raw features\<close>

record RuntimeBindingV1 =
  rb_RuntimeEpoch :: uint64
  rb_ConnectionGeneration :: uint64

record FeatureTargetV1 =
  ft_RemoteSKI :: string
  ft_SHIPID :: string
  ft_DeviceAddress :: string
  ft_EntityAddress :: "uint64 list"
  ft_FeatureAddress :: uint64
  ft_FeatureType :: string
  ft_FeatureRole :: FeatureRoleV1
  ft_Function :: string
  ft_Operation :: OperationV1

record ReadAuthorizationV1 =
  ra_PrincipalClass :: string
  ra_Scope :: AuthScopeV1
  ra_Tool :: ToolV1
  ra_MaskTier :: MaskTier

record OpaqueObservationV1 =
  oo_Path :: string
  oo_Source :: string
  oo_Value :: TypedValueV1

record ErrorDetailsV1 =
  ed_TargetIndex :: "uint64 option"
  ed_Classification :: string
  ed_Unknown :: "OpaqueObservationV1 list"

record ErrorV1 =
  er_Code :: ErrorCodeV1
  er_Message :: string
  er_Retriable :: bool
  er_SourceLayer :: SourceLayerV1
  er_Details :: "ErrorDetailsV1 option"

definition NewErrorV1 :: "ErrorCodeV1 \<Rightarrow> string \<Rightarrow> bool \<Rightarrow> SourceLayerV1 \<Rightarrow> ErrorV1" where
  "NewErrorV1 code message retriable layer =
     \<lparr>er_Code = code, er_Message = message, er_Retriable = retriable, er_SourceLayer = layer,
      er_Details = None\<rparr>"

lemma NewErrorV1_sel [simp]:
  "er_Code (NewErrorV1 c m r l) = c"
  "er_Message (NewErrorV1 c m r l) = m"
  "er_Retriable (NewErrorV1 c m r l) = r"
  "er_SourceLayer (NewErrorV1 c m r l) = l"
  "er_Details (NewErrorV1 c m r l) = None"
  by (simp_all add: NewErrorV1_def)

subsection \<open>Structures of raw mutations\<close>

record WriteAuthorizationV1 =
  wa_PrincipalClass :: string
  wa_Scope :: AuthScopeV1
  wa_Tool :: ToolV1
  wa_MaskTier :: MaskTier

record ConstraintOverrideV1 =
  co_ProfileID :: string
  co_Justification :: string
  co_ExpiresAt :: gotime

record FeatureDataSetRequestV1 =
  sr_Target :: FeatureTargetV1
  sr_Value :: TypedValueV1
  sr_ReadToken :: string
  sr_ExpectedCurrent :: "TypedValueV1 option"
  sr_IdempotencyKey :: string
  sr_Mode :: ModeV1
  sr_ProbeTTLSeconds :: uint64
  sr_ConstraintsOverride :: "ConstraintOverrideV1 option"

record MutationGetRequestV1 =
  gr_MutationRef :: string

record MutationRollbackRequestV1 =
  rr_MutationRef :: string
  rr_IdempotencyKey :: string

record AuditTransitionV1 =
  at_Sequence :: uint64
  at_State :: MutationStateV1
  at_TransitionedAt :: gotime
  at_Classification :: string
  at_PreviousHash :: "HashV1 option"
  at_TransitionHash :: HashV1

record ApplyVerificationV1 =
  av_Relation :: string
  av_Verified :: bool
  av_EqualValueHash :: HashV1
  av_VerifiedAt :: gotime

record RollbackVerificationV1 =
  rv_Relation :: string
  rv_Verified :: bool
  rv_EqualValueHash :: HashV1
  rv_VerifiedAt :: gotime

record ConflictEvidenceV1 =
  ce_Relation :: string
  ce_Verified :: bool
  ce_BeforeHash :: HashV1
  ce_RequestedHash :: HashV1
  ce_ObservedAfterHash :: HashV1
  ce_VerifiedAt :: gotime

record NoContactEvidenceV1 =
  nc_RemoteFramesSent :: uint64
  nc_LastCompletedPhase :: string
  nc_VerifiedAt :: gotime

record RejectionVerificationV1 =
  jv_Relation :: string
  jv_Verified :: bool
  jv_CorrelatedRejection :: bool
  jv_EqualValueHash :: HashV1
  jv_VerifiedAt :: gotime

record NoEffectVerificationV1 =
  nv_Relation :: string
  nv_Verified :: bool
  nv_EqualValueHash :: HashV1
  nv_VerifiedAt :: gotime

record OutcomeEvidenceV1 =
  oe_PossibleSideEffect :: bool
  oe_BlindRetryForbidden :: bool
  oe_LastDurableState :: MutationStateV1
  oe_RecordedAt :: gotime

record RollbackV1 =
  rb_State :: MutationStateV1
  rb_Before :: TypedValueV1
  rb_ProtocolAccepted :: "bool option"
  rb_ObservedAfter :: "TypedValueV1 option"
  rb_Error :: "ErrorV1 option"
  rb_Verification :: "RollbackVerificationV1 option"

record MutationV1 =
  mu_MutationRef :: string
  mu_State :: MutationStateV1
  mu_Mode :: ModeV1
  mu_Target :: FeatureTargetV1
  mu_Runtime :: RuntimeBindingV1
  mu_Before :: TypedValueV1
  mu_Requested :: TypedValueV1
  mu_ProtocolAccepted :: "bool option"
  mu_ObservedAfter :: "TypedValueV1 option"
  mu_Rollback :: "RollbackV1 option"
  mu_ProbeDeadline :: "gotime option"
  mu_CreatedAt :: gotime
  mu_UpdatedAt :: gotime
  mu_Error :: "ErrorV1 option"
  mu_ApplyVerification :: "ApplyVerificationV1 option"
  mu_ConflictEvidence :: "ConflictEvidenceV1 option"
  mu_NoContactEvidence :: "NoContactEvidenceV1 option"
  mu_RejectionVerification :: "RejectionVerificationV1 option"
  mu_NoEffectVerification :: "NoEffectVerificationV1 option"
  mu_OutcomeEvidence :: "OutcomeEvidenceV1 option"
  mu_Audit :: "AuditTransitionV1 list"

definition binding_zero :: RuntimeBindingV1 where
  "binding_zero = \<lparr>rb_RuntimeEpoch = 0, rb_ConnectionGeneration = 0\<rparr>"

definition target_zero :: FeatureTargetV1 where
  "target_zero = \<lparr>ft_RemoteSKI = [], ft_SHIPID = [], ft_DeviceAddress = [], ft_EntityAddress = [],
     ft_FeatureAddress = 0, ft_FeatureType = [], ft_FeatureRole = FeatureRoleV1Other [],
     ft_Function = [], ft_Operation = OperationV1Other []\<rparr>"

text \<open>The zero value \<^verbatim>\<open>TypedValueV1{}\<close> holds nil.\<close>

definition value_zero :: TypedValueV1 where
  "value_zero = TypedValueV1 GNil"

definition mutation_zero :: MutationV1 where
  "mutation_zero = \<lparr>mu_MutationRef = [], mu_State = MutationStateV1Other [], mu_Mode = ModeV1Other [],
     mu_Target = target_zero, mu_Runtime = binding_zero, mu_Before = value_zero,
     mu_Requested = value_zero, mu_ProtocolAccepted = None, mu_ObservedAfter = None,
     mu_Rollback = None, mu_ProbeDeadline = None, mu_CreatedAt = zero_time,
     mu_UpdatedAt = zero_time, mu_Error = None, mu_ApplyVerification = None,
     mu_ConflictEvidence = None, mu_NoContactEvidence = None, mu_RejectionVerification = None,
     mu_NoEffectVerification = None, mu_OutcomeEvidence = None, mu_Audit = []\<rparr>"

record MutationLabProfileV1 =
  lp_Contract :: string
  lp_ProfileID :: string
  lp_Target :: FeatureTargetV1
  lp_AllowedValueHashes :: "HashV1 list"
  lp_RollbackValueHash :: HashV1
  lp_MaximumProbeTTLSeconds :: uint64
  lp_SafetyPredicates :: "string list"
  lp_EvidenceHashes :: "HashV1 list"
  lp_ExpiresAt :: gotime

subsection \<open>Documents\<close>

text \<open>
  The token tree of the text \<^verbatim>\<open>json.Marshal\<close> writes for each structure, \<open>None\<close> where it
  fails: a time stamp outside the range of RFC 3339 or a typed value without a canonical form.
\<close>

type_synonym jdoc = "gval option"

fun all_some :: "(string \<times> jdoc) list \<Rightarrow> (string \<times> gval) list option" where
  "all_some [] = Some []"
| "all_some ((k, d) # r) =
     (case d of None \<Rightarrow> None | Some v \<Rightarrow> map_option (\<lambda>vs. (k, v) # vs) (all_some r))"

fun all_docs :: "jdoc list \<Rightarrow> gval list option" where
  "all_docs [] = Some []"
| "all_docs (d # r) = (case d of None \<Rightarrow> None | Some v \<Rightarrow> map_option (\<lambda>vs. v # vs) (all_docs r))"

definition jobj :: "(string \<times> jdoc) list list \<Rightarrow> jdoc" where
  "jobj fs = map_option GMap (all_some (concat fs))"

definition jfield :: "string \<Rightarrow> jdoc \<Rightarrow> (string \<times> jdoc) list" where "jfield k d = [(k, d)]"

definition jomit :: "string \<Rightarrow> ('a \<Rightarrow> jdoc) \<Rightarrow> 'a option \<Rightarrow> (string \<times> jdoc) list" where
  "jomit k f p = (case p of None \<Rightarrow> [] | Some x \<Rightarrow> [(k, f x)])"

definition jomit_string :: "string \<Rightarrow> string \<Rightarrow> (string \<times> jdoc) list" where
  "jomit_string k s = (if s = [] then [] else [(k, Some (json_string s))])"

definition jnullable :: "('a \<Rightarrow> jdoc) \<Rightarrow> 'a option \<Rightarrow> jdoc" where
  "jnullable f p = (case p of None \<Rightarrow> Some GNil | Some x \<Rightarrow> f x)"

definition jstr :: "string \<Rightarrow> jdoc" where "jstr s = Some (json_string s)"
definition jbool :: "bool \<Rightarrow> jdoc" where "jbool b = Some (GBool b)"
definition juint :: "uint64 \<Rightarrow> jdoc" where "juint w = Some (GNumber (dec_nat (unat w)))"
definition jtime :: "gotime \<Rightarrow> jdoc" where "jtime t = map_option GString (rfc3339 t)"

definition jlist :: "('a \<Rightarrow> jdoc) \<Rightarrow> 'a list \<Rightarrow> jdoc" where
  "jlist f xs = (if xs = [] then Some GNil else map_option GSlice (all_docs (map f xs)))"

function json_tree :: "gval \<Rightarrow> gval" where
  "json_tree v =
     (case v of
        GInt i \<Rightarrow> GNumber (dec_int i)
      | GSlice xs \<Rightarrow> GSlice (map json_tree xs)
      | GMap kvs \<Rightarrow> GMap (map (\<lambda>kv. (fst kv, json_tree (snd kv))) (sort_members kvs))
      | _ \<Rightarrow> v)"
  by pat_completeness auto
termination
proof (relation "measure size")
  fix v xs x assume "v = GSlice xs" "x \<in> set xs"
  then show "(x, v) \<in> measure size"
    by (auto simp: less_Suc_eq_le intro: size_list_estimation')
next
  fix v kvs kv assume "v = GMap kvs" "kv \<in> set (sort_members kvs)"
  then show "(snd kv, v) \<in> measure size"
    by (cases kv) (auto simp: size_member)
qed auto

declare json_tree.simps [simp del]

definition jvalue :: "golib \<Rightarrow> TypedValueV1 \<Rightarrow> jdoc" where
  "jvalue lib tv =
     (case canonicalJSON lib tv of
        Inl _ \<Rightarrow> None
      | Inr _ \<Rightarrow>
          (case canonicalTypedValueV1 lib (tv_value tv) 1 of Inl _ \<Rightarrow> None | Inr c \<Rightarrow> Some (json_tree c)))"

definition doc_binding :: "RuntimeBindingV1 \<Rightarrow> jdoc" where
  "doc_binding b = jobj [jfield ''runtime_epoch'' (juint (rb_RuntimeEpoch b)),
     jfield ''connection_generation'' (juint (rb_ConnectionGeneration b))]"

definition doc_target :: "FeatureTargetV1 \<Rightarrow> jdoc" where
  "doc_target t = jobj [jfield ''remote_ski'' (jstr (ft_RemoteSKI t)), jfield ''ship_id'' (jstr (ft_SHIPID t)),
     jfield ''device_address'' (jstr (ft_DeviceAddress t)),
     jfield ''entity_address'' (jlist juint (ft_EntityAddress t)),
     jfield ''feature_address'' (juint (ft_FeatureAddress t)), jfield ''feature_type'' (jstr (ft_FeatureType t)),
     jfield ''feature_role'' (jstr (featureRoleV1_text (ft_FeatureRole t))),
     jfield ''function'' (jstr (ft_Function t)), jfield ''operation'' (jstr (operationV1_text (ft_Operation t)))]"

definition doc_data_get_request :: "FeatureTargetV1 list \<Rightarrow> uint64 \<Rightarrow> jdoc" where
  "doc_data_get_request targets timeout = jobj [jfield ''targets'' (jlist doc_target targets),
     (if timeout = 0 then [] else jfield ''timeout_ms'' (juint timeout))]"

definition doc_opaque :: "golib \<Rightarrow> OpaqueObservationV1 \<Rightarrow> jdoc" where
  "doc_opaque lib o' = jobj [jfield ''path'' (jstr (oo_Path o')), jfield ''source'' (jstr (oo_Source o')),
     jfield ''value'' (jvalue lib (oo_Value o'))]"

definition doc_details :: "golib \<Rightarrow> ErrorDetailsV1 \<Rightarrow> jdoc" where
  "doc_details lib d = jobj [jomit ''target_index'' juint (ed_TargetIndex d),
     jomit_string ''classification'' (ed_Classification d),
     (if ed_Unknown d = [] then [] else jfield ''unknown'' (jlist (doc_opaque lib) (ed_Unknown d)))]"

definition doc_error :: "golib \<Rightarrow> ErrorV1 \<Rightarrow> jdoc" where
  "doc_error lib e = jobj [jfield ''code'' (jstr (errorCodeV1_text (er_Code e))),
     jfield ''message'' (jstr (er_Message e)), jfield ''retriable'' (jbool (er_Retriable e)),
     jfield ''source_layer'' (jstr (sourceLayerV1_text (er_SourceLayer e))),
     jomit ''details'' (doc_details lib) (er_Details e)]"

definition doc_override :: "ConstraintOverrideV1 \<Rightarrow> jdoc" where
  "doc_override c = jobj [jfield ''profile_id'' (jstr (co_ProfileID c)),
     jfield ''justification'' (jstr (co_Justification c)), jfield ''expires_at'' (jtime (co_ExpiresAt c))]"

definition doc_set_request :: "golib \<Rightarrow> FeatureDataSetRequestV1 \<Rightarrow> jdoc" where
  "doc_set_request lib r = jobj [jfield ''target'' (doc_target (sr_Target r)),
     jfield ''value'' (jvalue lib (sr_Value r)), jfield ''read_token'' (jstr (sr_ReadToken r)),
     jomit ''expected_current'' (jvalue lib) (sr_ExpectedCurrent r),
     jfield ''idempotency_key'' (jstr (sr_IdempotencyKey r)), jfield ''mode'' (jstr (modeV1_text (sr_Mode r))),
     (if sr_ProbeTTLSeconds r = 0 then [] else jfield ''probe_ttl_seconds'' (juint (sr_ProbeTTLSeconds r))),
     jomit ''constraints_override'' doc_override (sr_ConstraintsOverride r)]"

definition doc_get_request :: "MutationGetRequestV1 \<Rightarrow> jdoc" where
  "doc_get_request r = jobj [jfield ''mutation_ref'' (jstr (gr_MutationRef r))]"

definition doc_rollback_request :: "MutationRollbackRequestV1 \<Rightarrow> jdoc" where
  "doc_rollback_request r = jobj [jfield ''mutation_ref'' (jstr (rr_MutationRef r)),
     jfield ''idempotency_key'' (jstr (rr_IdempotencyKey r))]"

definition doc_audit_commitment ::
  "uint64 \<Rightarrow> MutationStateV1 \<Rightarrow> gotime \<Rightarrow> string \<Rightarrow> HashV1 option \<Rightarrow> jdoc" where
  "doc_audit_commitment sequence state at classification previous =
     jobj [jfield ''sequence'' (juint sequence), jfield ''state'' (jstr (mutationStateV1_text state)),
       jfield ''transitioned_at'' (jtime at), jomit_string ''classification'' classification,
       jfield ''previous_hash'' (jnullable jstr previous)]"

definition doc_audit :: "AuditTransitionV1 \<Rightarrow> jdoc" where
  "doc_audit a =
     jobj [jfield ''sequence'' (juint (at_Sequence a)), jfield ''state'' (jstr (mutationStateV1_text (at_State a))),
       jfield ''transitioned_at'' (jtime (at_TransitionedAt a)),
       jomit_string ''classification'' (at_Classification a),
       jfield ''previous_hash'' (jnullable jstr (at_PreviousHash a)),
       jfield ''transition_hash'' (jstr (at_TransitionHash a))]"

definition doc_verification :: "string \<Rightarrow> bool \<Rightarrow> HashV1 \<Rightarrow> gotime \<Rightarrow> (string \<times> jdoc) list list" where
  "doc_verification relation verified hash at = [jfield ''relation'' (jstr relation),
     jfield ''verified'' (jbool verified), jfield ''equal_value_hash'' (jstr hash), jfield ''verified_at'' (jtime at)]"

definition doc_conflict :: "ConflictEvidenceV1 \<Rightarrow> jdoc" where
  "doc_conflict c = jobj [jfield ''relation'' (jstr (ce_Relation c)), jfield ''verified'' (jbool (ce_Verified c)),
     jfield ''before_hash'' (jstr (ce_BeforeHash c)), jfield ''requested_hash'' (jstr (ce_RequestedHash c)),
     jfield ''observed_after_hash'' (jstr (ce_ObservedAfterHash c)), jfield ''verified_at'' (jtime (ce_VerifiedAt c))]"

definition doc_no_contact :: "NoContactEvidenceV1 \<Rightarrow> jdoc" where
  "doc_no_contact n = jobj [jfield ''remote_frames_sent'' (juint (nc_RemoteFramesSent n)),
     jfield ''last_completed_phase'' (jstr (nc_LastCompletedPhase n)), jfield ''verified_at'' (jtime (nc_VerifiedAt n))]"

definition doc_outcome :: "OutcomeEvidenceV1 \<Rightarrow> jdoc" where
  "doc_outcome o' = jobj [jfield ''possible_side_effect'' (jbool (oe_PossibleSideEffect o')),
     jfield ''blind_retry_forbidden'' (jbool (oe_BlindRetryForbidden o')),
     jfield ''last_durable_state'' (jstr (mutationStateV1_text (oe_LastDurableState o'))),
     jfield ''recorded_at'' (jtime (oe_RecordedAt o'))]"

definition doc_rollback :: "golib \<Rightarrow> RollbackV1 \<Rightarrow> jdoc" where
  "doc_rollback lib r = jobj [jfield ''state'' (jstr (mutationStateV1_text (rb_State r))),
     jfield ''before'' (jvalue lib (rb_Before r)),
     jfield ''protocol_accepted'' (jnullable jbool (rb_ProtocolAccepted r)),
     jfield ''observed_after'' (jnullable (jvalue lib) (rb_ObservedAfter r)),
     jomit ''error'' (doc_error lib) (rb_Error r),
     jomit ''verification'' (\<lambda>v. jobj (doc_verification (rv_Relation v) (rv_Verified v)
       (rv_EqualValueHash v) (rv_VerifiedAt v))) (rb_Verification r)]"

definition doc_mutation :: "golib \<Rightarrow> MutationV1 \<Rightarrow> jdoc" where
  "doc_mutation lib m = jobj [jfield ''mutation_ref'' (jstr (mu_MutationRef m)),
     jfield ''state'' (jstr (mutationStateV1_text (mu_State m))), jfield ''mode'' (jstr (modeV1_text (mu_Mode m))),
     jfield ''target'' (doc_target (mu_Target m)), jfield ''runtime'' (doc_binding (mu_Runtime m)),
     jfield ''before'' (jvalue lib (mu_Before m)), jfield ''requested'' (jvalue lib (mu_Requested m)),
     jfield ''protocol_accepted'' (jnullable jbool (mu_ProtocolAccepted m)),
     jfield ''observed_after'' (jnullable (jvalue lib) (mu_ObservedAfter m)),
     jomit ''rollback'' (doc_rollback lib) (mu_Rollback m), jomit ''probe_deadline'' jtime (mu_ProbeDeadline m),
     jfield ''created_at'' (jtime (mu_CreatedAt m)), jfield ''updated_at'' (jtime (mu_UpdatedAt m)),
     jomit ''error'' (doc_error lib) (mu_Error m),
     jomit ''apply_verification'' (\<lambda>v. jobj (doc_verification (av_Relation v) (av_Verified v)
       (av_EqualValueHash v) (av_VerifiedAt v))) (mu_ApplyVerification m),
     jomit ''conflict_evidence'' doc_conflict (mu_ConflictEvidence m),
     jomit ''no_contact_evidence'' doc_no_contact (mu_NoContactEvidence m),
     jomit ''rejection_verification'' (\<lambda>v. jobj [jfield ''relation'' (jstr (jv_Relation v)),
       jfield ''verified'' (jbool (jv_Verified v)), jfield ''correlated_rejection'' (jbool (jv_CorrelatedRejection v)),
       jfield ''equal_value_hash'' (jstr (jv_EqualValueHash v)), jfield ''verified_at'' (jtime (jv_VerifiedAt v))])
       (mu_RejectionVerification m),
     jomit ''no_effect_verification'' (\<lambda>v. jobj (doc_verification (nv_Relation v) (nv_Verified v)
       (nv_EqualValueHash v) (nv_VerifiedAt v))) (mu_NoEffectVerification m),
     jomit ''outcome_evidence'' doc_outcome (mu_OutcomeEvidence m),
     jfield ''audit'' (jlist doc_audit (mu_Audit m))]"

definition doc_lab_profile :: "MutationLabProfileV1 \<Rightarrow> jdoc" where
  "doc_lab_profile p = jobj [jfield ''contract'' (jstr (lp_Contract p)), jfield ''profile_id'' (jstr (lp_ProfileID p)),
     jfield ''target'' (doc_target (lp_Target p)),
     jfield ''allowed_value_hashes'' (jlist jstr (lp_AllowedValueHashes p)),
     jfield ''rollback_value_hash'' (jstr (lp_RollbackValueHash p)),
     jfield ''maximum_probe_ttl_seconds'' (juint (lp_MaximumProbeTTLSeconds p)),
     jfield ''safety_predicates'' (jlist jstr (lp_SafetyPredicates p)),
     jfield ''evidence_hashes'' (jlist jstr (lp_EvidenceHashes p)), jfield ''expires_at'' (jtime (lp_ExpiresAt p))]"

subsection \<open>Validators of requests\<close>

definition contractValidationErrorV1 :: "ErrorCodeV1 \<Rightarrow> ErrorV1" where
  "contractValidationErrorV1 code =
     NewErrorV1 code
       (if code = ErrorCodeV1SecretDetected then ''secret-classified raw eeBUS value was rejected''
        else ''raw eeBUS contract validation failed'')
       False SourceLayerV1Validation"

definition validateCanonicalDocumentV1 :: "golib \<Rightarrow> jdoc \<Rightarrow> ErrorV1 option" where
  "validateCanonicalDocumentV1 lib doc =
     (case CanonicalSHA256V1 lib doc of
        Inl ErrSecretDetected \<Rightarrow> Some (contractValidationErrorV1 ErrorCodeV1SecretDetected)
      | Inl _ \<Rightarrow> Some (contractValidationErrorV1 ErrorCodeV1InvalidArgument)
      | Inr _ \<Rightarrow> None)"

definition boundedStringV1 :: "string \<Rightarrow> nat \<Rightarrow> bool" where
  "boundedStringV1 v mx =
     (let t = trim_space v in t \<noteq> [] \<and> utf8_valid t \<and> rune_count t \<le> mx)"

definition optionalBoundedStringV1 :: "string \<Rightarrow> nat \<Rightarrow> bool" where
  "optionalBoundedStringV1 v mx \<longleftrightarrow> v = [] \<or> boundedStringV1 v mx"

definition opaqueReferenceV1 :: "string \<Rightarrow> bool" where
  "opaqueReferenceV1 v =
     (if length v \<noteq> 43 then False
      else if \<not> list_all (\<lambda>c. is_upper c \<or> is_lower c \<or> is_digit c \<or> c = CHR ''_'' \<or> c = CHR ''-'') v then False
      else (case b64_decode v of
              None \<Rightarrow> False
            | Some d \<Rightarrow> length d = 32 \<and> b64_encode d = v))"

definition idempotencyKeyV1 :: "string \<Rightarrow> bool" where
  "idempotencyKeyV1 v =
     (if length v < 16 \<or> 128 < length v then False
      else list_all (\<lambda>c. is_upper c \<or> is_lower c \<or> is_digit c \<or> List.member ''._~-'' c) v)"

definition hashV1 :: "HashV1 \<Rightarrow> bool" where
  "hashV1 v =
     (if length v \<noteq> 7 + 64 \<or> \<not> has_prefix ''sha256:'' v then False
      else list_all is_hex_lower (trim_prefix ''sha256:'' v))"

definition runtimeBindingV1 :: "RuntimeBindingV1 \<Rightarrow> bool" where
  "runtimeBindingV1 b \<longleftrightarrow>
     rb_RuntimeEpoch b \<noteq> 0 \<and> rb_ConnectionGeneration b \<noteq> 0 \<and>
     unat (rb_RuntimeEpoch b) \<le> typedValueMaximumSafeInteger \<and>
     unat (rb_ConnectionGeneration b) \<le> typedValueMaximumSafeInteger"

definition timestampV1 :: "gotime \<Rightarrow> bool" where
  "timestampV1 t \<longleftrightarrow> \<not> IsZero t \<and> t_loc t = UTC"

text \<open>
  \<^verbatim>\<open>strings.ToLower\<close> of a SKI is compared before every character is checked to be a
  lower-case hexadecimal digit; on the strings that pass the second check lower-casing ASCII is all it does.
\<close>

definition rawFeatureSKIV1 :: "string \<Rightarrow> bool" where
  "rawFeatureSKIV1 v \<longleftrightarrow> length v = 40 \<and> v = ascii_lower v \<and> list_all is_hex_lower v"

definition rawFeatureBoundedStringV1 :: "string \<Rightarrow> nat \<Rightarrow> bool" where
  "rawFeatureBoundedStringV1 v mx =
     (let t = trim_space v in t \<noteq> [] \<and> utf8_valid t \<and> rune_count t \<le> mx)"

definition validateFeatureLocatorV1 :: "FeatureTargetV1 \<Rightarrow> bool" where
  "validateFeatureLocatorV1 t =
     (if \<not> rawFeatureSKIV1 (ft_RemoteSKI t) \<or> \<not> rawFeatureBoundedStringV1 (ft_SHIPID t) 256 \<or>
         \<not> rawFeatureBoundedStringV1 (ft_DeviceAddress t) 64 \<or>
         length (ft_EntityAddress t) = 0 \<or> 16 < length (ft_EntityAddress t) \<or>
         typedValueMaximumSafeInteger < unat (ft_FeatureAddress t) \<or>
         \<not> rawFeatureBoundedStringV1 (ft_FeatureType t) 128
      then False
      else if list_ex (\<lambda>part. typedValueMaximumSafeInteger < unat part) (ft_EntityAddress t) then False
      else (case ft_FeatureRole t of
              FeatureRoleV1Client \<Rightarrow> True | FeatureRoleV1Server \<Rightarrow> True | FeatureRoleV1Special \<Rightarrow> True
            | _ \<Rightarrow> False))"

definition validateFeatureTargetV1 :: "FeatureTargetV1 \<Rightarrow> bool" where
  "validateFeatureTargetV1 t =
     (if \<not> validateFeatureLocatorV1 t then False
      else if trim_space (ft_Function t) = [] \<or> 256 < rune_count (ft_Function t) then False
      else ft_Operation t = OperationV1Read \<or> ft_Operation t = OperationV1Write)"

definition ValidateWriteAuthorizationV1 :: "WriteAuthorizationV1 \<Rightarrow> ToolV1 \<Rightarrow> ErrorV1 option" where
  "ValidateWriteAuthorizationV1 auth tool =
     (if trim_space (wa_PrincipalClass auth) = [] \<or> 128 < rune_count (wa_PrincipalClass auth) \<or>
         wa_Scope auth \<noteq> AuthScopeV1RawWrite \<or> wa_Tool auth \<noteq> tool \<or> wa_MaskTier auth \<noteq> MaskTierRaw \<or>
         (tool \<noteq> ToolV1FeaturesDataSet \<and> tool \<noteq> ToolV1MutationsRollback)
      then Some (NewErrorV1 ErrorCodeV1PermissionDenied
             ''raw WRITE authorization does not match the required purpose'' False SourceLayerV1Authorization)
      else None)"

definition ValidateReadAuthorizationV1 :: "ReadAuthorizationV1 \<Rightarrow> ToolV1 \<Rightarrow> ErrorV1 option" where
  "ValidateReadAuthorizationV1 auth tool =
     (if trim_space (ra_PrincipalClass auth) = [] \<or> 128 < rune_count (ra_PrincipalClass auth) \<or>
         ra_Scope auth \<noteq> AuthScopeV1RawRead \<or> ra_Tool auth \<noteq> tool \<or> ra_MaskTier auth \<noteq> MaskTierRaw \<or>
         (tool \<noteq> ToolV1FeaturesGet \<and> tool \<noteq> ToolV1FeaturesDataGet \<and> tool \<noteq> ToolV1MutationsGet)
      then Some (NewErrorV1 ErrorCodeV1PermissionDenied
             ''raw READ authorization does not match the required purpose'' False SourceLayerV1Authorization)
      else None)"

definition maximumProbeTTLSecondsV1 :: nat where "maximumProbeTTLSecondsV1 = 900"

definition ValidateFeatureDataSetRequestV1 :: "golib \<Rightarrow> FeatureDataSetRequestV1 \<Rightarrow> ErrorV1 option" where
  "ValidateFeatureDataSetRequestV1 lib r =
     (let invalid = Some (contractValidationErrorV1 ErrorCodeV1InvalidArgument);
          rest = (case sr_ConstraintsOverride r of
                    None \<Rightarrow> None
                  | Some ov \<Rightarrow>
                      if \<not> boundedStringV1 (co_ProfileID ov) 128 \<or> \<not> boundedStringV1 (co_Justification ov) 1024 \<or>
                         \<not> timestampV1 (co_ExpiresAt ov)
                      then invalid else None)
      in
      (case validateCanonicalDocumentV1 lib (doc_set_request lib r) of
         Some e \<Rightarrow> Some e
       | None \<Rightarrow>
           if ft_Operation (sr_Target r) \<noteq> OperationV1Write
           then Some (contractValidationErrorV1 ErrorCodeV1UnsupportedOperation)
           else if \<not> validateFeatureTargetV1 (sr_Target r) \<or> \<not> Validate lib (sr_Value r) \<or>
                   \<not> opaqueReferenceV1 (sr_ReadToken r) \<or> \<not> idempotencyKeyV1 (sr_IdempotencyKey r)
           then invalid
           else if (case sr_ExpectedCurrent r of None \<Rightarrow> False | Some v \<Rightarrow> \<not> Validate lib v) then invalid
           else (case sr_Mode r of
                   ModeV1Apply \<Rightarrow> if sr_ProbeTTLSeconds r \<noteq> 0 then invalid else rest
                 | ModeV1Probe \<Rightarrow>
                     if sr_ProbeTTLSeconds r = 0 \<or> maximumProbeTTLSecondsV1 < unat (sr_ProbeTTLSeconds r)
                     then invalid else rest
                 | _ \<Rightarrow> invalid)))"

definition ValidateMutationGetRequestV1 :: "golib \<Rightarrow> MutationGetRequestV1 \<Rightarrow> ErrorV1 option" where
  "ValidateMutationGetRequestV1 lib r =
     (case validateCanonicalDocumentV1 lib (doc_get_request r) of
        Some e \<Rightarrow> Some e
      | None \<Rightarrow> if \<not> opaqueReferenceV1 (gr_MutationRef r)
                then Some (contractValidationErrorV1 ErrorCodeV1InvalidArgument) else None)"

definition ValidateMutationRollbackRequestV1 :: "golib \<Rightarrow> MutationRollbackRequestV1 \<Rightarrow> ErrorV1 option" where
  "ValidateMutationRollbackRequestV1 lib r =
     (case validateCanonicalDocumentV1 lib (doc_rollback_request r) of
        Some e \<Rightarrow> Some e
      | None \<Rightarrow> if \<not> opaqueReferenceV1 (rr_MutationRef r) \<or> \<not> idempotencyKeyV1 (rr_IdempotencyKey r)
                then Some (contractValidationErrorV1 ErrorCodeV1InvalidArgument) else None)"

subsection \<open>Lab profiles\<close>

definition MutationLabProfileContractV1 :: string where
  "MutationLabProfileContractV1 = ''helianthus.eebus.raw-mutation-lab-profile.v1''"

definition exactBoundedMutationLabStringV1 :: "string \<Rightarrow> nat \<Rightarrow> bool" where
  "exactBoundedMutationLabStringV1 v mx \<longleftrightarrow> v = trim_space v \<and> boundedStringV1 v mx"

definition uniqueMutationLabHashesV1 :: "HashV1 list \<Rightarrow> nat \<Rightarrow> bool" where
  "uniqueMutationLabHashesV1 vs mx =
     (if length vs = 0 \<or> mx < length vs then False else unique_loop hashV1 id [] vs)"

definition uniqueMutationLabStringsV1 :: "string list \<Rightarrow> nat \<Rightarrow> bool" where
  "uniqueMutationLabStringsV1 vs mx =
     (if length vs = 0 \<or> mx < length vs then False
      else unique_loop (\<lambda>v. exactBoundedMutationLabStringV1 v 128) id [] vs)"

definition ValidateMutationLabProfileV1 :: "golib \<Rightarrow> MutationLabProfileV1 \<Rightarrow> ErrorV1 option" where
  "ValidateMutationLabProfileV1 lib p =
     (case validateCanonicalDocumentV1 lib (doc_lab_profile p) of
        Some e \<Rightarrow> Some e
      | None \<Rightarrow>
          if lp_Contract p \<noteq> MutationLabProfileContractV1 \<or>
             \<not> exactBoundedMutationLabStringV1 (lp_ProfileID p) 128 \<or>
             ft_Operation (lp_Target p) \<noteq> OperationV1Write \<or>
             \<not> validateFeatureTargetV1 (lp_Target p) \<or>
             \<not> hashV1 (lp_RollbackValueHash p) \<or>
             lp_MaximumProbeTTLSeconds p = 0 \<or>
             maximumProbeTTLSecondsV1 < unat (lp_MaximumProbeTTLSeconds p) \<or>
             \<not> timestampV1 (lp_ExpiresAt p) \<or>
             \<not> uniqueMutationLabHashesV1 (lp_AllowedValueHashes p) 32 \<or>
             \<not> uniqueMutationLabStringsV1 (lp_SafetyPredicates p) 16 \<or>
             \<not> uniqueMutationLabHashesV1 (lp_EvidenceHashes p) 32
          then Some (contractValidationErrorV1 ErrorCodeV1InvalidArgument)
          else None)"

end
