(* ===== verification/MutationContract.thy ===== *)
theory MutationContract
  imports RawContract
begin

text \<open>
  The mutation part of \<^verbatim>\<open>src/eebusraw/contract_validation_v1.go\<close>: which sequences of states an
  audit trail may hold, which evidence each state carries, and the validator of a whole
  mutation. A helper of the source that returns an error is the predicate that it returns nil.
\<close>

subsection \<open>States and codes\<close>

definition validInitialMutationStateV1 :: "MutationStateV1 \<Rightarrow> bool" where
  "validInitialMutationStateV1 s \<longleftrightarrow> s = MutationStateV1Prepared \<or> s = MutationStateV1FailedNoContact"

fun validMutationTransitionV1 :: "MutationStateV1 \<Rightarrow> MutationStateV1 \<Rightarrow> bool" where
  "validMutationTransitionV1 MutationStateV1Prepared to = (to = MutationStateV1DispatchIntent)"
| "validMutationTransitionV1 MutationStateV1DispatchIntent to =
     (to = MutationStateV1ReplyObserved \<or> to = MutationStateV1OutcomeUnknown \<or> to = MutationStateV1FailedNoContact)"
| "validMutationTransitionV1 MutationStateV1ReplyObserved to =
     (to = MutationStateV1VerifyPending \<or> to = MutationStateV1OutcomeUnknown)"
| "validMutationTransitionV1 MutationStateV1VerifyPending to =
     (to = MutationStateV1Applied \<or> to = MutationStateV1ProbeActive \<or> to = MutationStateV1Rejected \<or>
      to = MutationStateV1Conflict \<or> to = MutationStateV1OutcomeUnknown)"
| "validMutationTransitionV1 MutationStateV1Applied to = (to = MutationStateV1RollbackIntent)"
| "validMutationTransitionV1 MutationStateV1ProbeActive to = (to = MutationStateV1RollbackIntent)"
| "validMutationTransitionV1 MutationStateV1RollbackIntent to =
     (to = MutationStateV1RollbackDispatchIntent \<or> to = MutationStateV1RolledBack \<or>
      to = MutationStateV1Conflict \<or> to = MutationStateV1OutcomeUnknown)"
| "validMutationTransitionV1 MutationStateV1RollbackDispatchIntent to =
     (to = MutationStateV1RollbackReplyObserved \<or> to = MutationStateV1RolledBack \<or>
      to = MutationStateV1Conflict \<or> to = MutationStateV1OutcomeUnknown)"
| "validMutationTransitionV1 MutationStateV1RollbackReplyObserved to =
     (to = MutationStateV1RollbackVerifyPending \<or> to = MutationStateV1RolledBack \<or>
      to = MutationStateV1Conflict \<or> to = MutationStateV1OutcomeUnknown)"
| "validMutationTransitionV1 MutationStateV1RollbackVerifyPending to =
     (to = MutationStateV1RolledBack \<or> to = MutationStateV1Conflict \<or> to = MutationStateV1OutcomeUnknown)"
| "validMutationTransitionV1 MutationStateV1OutcomeUnknown to =
     (to = MutationStateV1Applied \<or> to = MutationStateV1ProbeActive \<or> to = MutationStateV1NoEffect \<or>
      to = MutationStateV1Conflict \<or> to = MutationStateV1RolledBack)"
| "validMutationTransitionV1 _ to = False"

definition validMutationStateV1 :: "MutationStateV1 \<Rightarrow> bool" where
  "validMutationStateV1 s = (case s of MutationStateV1Other _ \<Rightarrow> False | _ \<Rightarrow> True)"

definition validErrorCodeV1 :: "ErrorCodeV1 \<Rightarrow> bool" where
  "validErrorCodeV1 c = (case c of ErrorCodeV1Other _ \<Rightarrow> False | _ \<Rightarrow> True)"

definition validSourceLayerV1 :: "SourceLayerV1 \<Rightarrow> bool" where
  "validSourceLayerV1 l = (case l of SourceLayerV1Other _ \<Rightarrow> False | _ \<Rightarrow> True)"

definition boolPointerV1 :: "bool option \<Rightarrow> bool \<Rightarrow> bool" where
  "boolPointerV1 p expected \<longleftrightarrow> p = Some expected"

definition hashPointersEqualV1 :: "HashV1 option \<Rightarrow> HashV1 option \<Rightarrow> bool" where
  "hashPointersEqualV1 l r =
     (case l of None \<Rightarrow> nilp r | Some a \<Rightarrow> (case r of None \<Rightarrow> False | Some b \<Rightarrow> a = b))"

lemma hashPointersEqualV1_iff [simp]: "hashPointersEqualV1 l r \<longleftrightarrow> l = r"
  by (cases l; cases r) (auto simp: hashPointersEqualV1_def)

definition typedValueNonNullV1 :: "golib \<Rightarrow> TypedValueV1 \<Rightarrow> bool" where
  "typedValueNonNullV1 lib v \<longleftrightarrow> Validate lib v \<and> cloneTypedValueV1 (tv_value v) \<noteq> GNil"

subsection \<open>Errors\<close>

definition validateOpaqueObservationV1 :: "golib \<Rightarrow> OpaqueObservationV1 \<Rightarrow> bool" where
  "validateOpaqueObservationV1 lib o' \<longleftrightarrow>
     boundedStringV1 (oo_Path o') 1024 \<and> boundedStringV1 (oo_Source o') 256 \<and> Validate lib (oo_Value o')"

definition validateErrorV1 :: "golib \<Rightarrow> ErrorV1 \<Rightarrow> bool" where
  "validateErrorV1 lib e =
     (if \<not> validErrorCodeV1 (er_Code e) \<or> \<not> boundedStringV1 (er_Message e) 512 \<or>
         \<not> validSourceLayerV1 (er_SourceLayer e) \<or>
         (er_Code e = ErrorCodeV1TypedEmpty \<and> (er_Retriable e \<or> er_SourceLayer e \<noteq> SourceLayerV1Remote))
      then False
      else (case er_Details e of
              None \<Rightarrow> True
            | Some d \<Rightarrow>
                if ptr_holds (\<lambda>i. 15 < unat i) (ed_TargetIndex d) \<or>
                   \<not> optionalBoundedStringV1 (ed_Classification d) 128 \<or> 256 < length (ed_Unknown d)
                then False
                else list_all (validateOpaqueObservationV1 lib) (ed_Unknown d)))"

subsection \<open>The audit trail\<close>

text \<open>\<open>rawMutationAuditHash\<close> and the commitment \<open>validateAuditV1\<close> recomputes are the same document.\<close>

definition rawMutationAuditHash ::
  "golib \<Rightarrow> uint64 \<Rightarrow> MutationStateV1 \<Rightarrow> gotime \<Rightarrow> string \<Rightarrow> HashV1 option \<Rightarrow> canon_error + HashV1" where
  "rawMutationAuditHash lib sequence state at classification previous =
     CanonicalSHA256V1 lib (doc_audit_commitment sequence state at classification previous)"

definition audit_commitment :: "golib \<Rightarrow> AuditTransitionV1 \<Rightarrow> canon_error + HashV1" where
  "audit_commitment lib a =
     rawMutationAuditHash lib (at_Sequence a) (at_State a) (at_TransitionedAt a) (at_Classification a)
       (at_PreviousHash a)"

definition maximumAuditEntriesV1 :: nat where "maximumAuditEntriesV1 = 256"

fun audit_loop ::
  "golib \<Rightarrow> gotime \<Rightarrow> gotime \<Rightarrow> nat \<Rightarrow> HashV1 option \<Rightarrow> MutationStateV1 \<Rightarrow> gotime \<Rightarrow> AuditTransitionV1 list \<Rightarrow> bool"
where
  "audit_loop lib created updated index previous pstate ptime [] = True"
| "audit_loop lib created updated index previous pstate ptime (a # as) =
     (if at_Sequence a \<noteq> of_nat (Suc index) \<or> \<not> validMutationStateV1 (at_State a) \<or>
         \<not> timestampV1 (at_TransitionedAt a) \<or> \<not> optionalBoundedStringV1 (at_Classification a) 128 \<or>
         Before (at_TransitionedAt a) created \<or> After (at_TransitionedAt a) updated \<or>
         (0 < index \<and> Before (at_TransitionedAt a) ptime) \<or>
         (index = 0 \<and> \<not> validInitialMutationStateV1 (at_State a)) \<or>
         (0 < index \<and> \<not> validMutationTransitionV1 pstate (at_State a)) \<or>
         \<not> hashPointersEqualV1 (at_PreviousHash a) previous
      then False
      else (case audit_commitment lib a of
              Inl _ \<Rightarrow> False
            | Inr computed \<Rightarrow>
                if \<not> hashV1 (at_TransitionHash a) \<or> computed \<noteq> at_TransitionHash a then False
                else audit_loop lib created updated (Suc index) (Some (at_TransitionHash a)) (at_State a)
                       (at_TransitionedAt a) as))"

definition validateAuditV1 :: "golib \<Rightarrow> AuditTransitionV1 list \<Rightarrow> gotime \<Rightarrow> gotime \<Rightarrow> bool" where
  "validateAuditV1 lib audit created updated =
     audit_loop lib created updated 0 None (MutationStateV1Other []) zero_time audit"

subsection \<open>Evidence\<close>

definition validateApplyVerificationV1 ::
  "golib \<Rightarrow> ApplyVerificationV1 option \<Rightarrow> TypedValueV1 option \<Rightarrow> HashV1 \<Rightarrow> bool" where
  "validateApplyVerificationV1 lib verification observed requestedHash =
     (case (verification, observed) of
        (Some v, Some o') \<Rightarrow>
          typedValueNonNullV1 lib o' \<and> av_Relation v = ''observed_after_equals_requested'' \<and> av_Verified v \<and>
          timestampV1 (av_VerifiedAt v) \<and> av_EqualValueHash v = requestedHash \<and>
          ComputeHash lib o' = Some requestedHash
      | _ \<Rightarrow> False)"

definition validateRollbackBeforeV1 :: "golib \<Rightarrow> RollbackV1 option \<Rightarrow> HashV1 \<Rightarrow> bool" where
  "validateRollbackBeforeV1 lib rollback beforeHash =
     (case rollback of
        None \<Rightarrow> False
      | Some r \<Rightarrow> Validate lib (rb_Before r) \<and> ComputeHash lib (rb_Before r) = Some beforeHash)"

definition rollback_verified :: "golib \<Rightarrow> RollbackV1 \<Rightarrow> HashV1 \<Rightarrow> bool" where
  "rollback_verified lib r beforeHash =
     (case (rb_ObservedAfter r, rb_Verification r) of
        (Some o', Some v) \<Rightarrow>
          typedValueNonNullV1 lib o' \<and> nilp (rb_Error r) \<and>
          rv_Relation v = ''rollback_observed_after_equals_before'' \<and> rv_Verified v \<and>
          timestampV1 (rv_VerifiedAt v) \<and> rv_EqualValueHash v = beforeHash \<and>
          ComputeHash lib o' = Some beforeHash
      | _ \<Rightarrow> False)"

definition validateRollbackV1 :: "golib \<Rightarrow> RollbackV1 option \<Rightarrow> MutationStateV1 \<Rightarrow> HashV1 \<Rightarrow> bool" where
  "validateRollbackV1 lib rollback state beforeHash =
     (case rollback of
        None \<Rightarrow> False
      | Some r \<Rightarrow>
          if rb_State r \<noteq> state \<or> \<not> validateRollbackBeforeV1 lib rollback beforeHash then False
          else (case state of
                  MutationStateV1RollbackIntent \<Rightarrow>
                    nilp (rb_ProtocolAccepted r) \<and> nilp (rb_ObservedAfter r) \<and> nilp (rb_Error r) \<and> nilp (rb_Verification r)
                | MutationStateV1RollbackDispatchIntent \<Rightarrow>
                    nilp (rb_ProtocolAccepted r) \<and> nilp (rb_ObservedAfter r) \<and> nilp (rb_Error r) \<and> nilp (rb_Verification r)
                | MutationStateV1RollbackReplyObserved \<Rightarrow>
                    \<not> nilp (rb_ProtocolAccepted r) \<and> nilp (rb_ObservedAfter r) \<and> nilp (rb_Error r) \<and> nilp (rb_Verification r)
                | MutationStateV1RollbackVerifyPending \<Rightarrow>
                    \<not> nilp (rb_ProtocolAccepted r) \<and> nilp (rb_ObservedAfter r) \<and> nilp (rb_Error r) \<and> nilp (rb_Verification r)
                | MutationStateV1RolledBack \<Rightarrow> rollback_verified lib r beforeHash
                | _ \<Rightarrow> False))"

definition validateConflictEvidenceV1 ::
  "golib \<Rightarrow> ConflictEvidenceV1 option \<Rightarrow> TypedValueV1 option \<Rightarrow> HashV1 \<Rightarrow> HashV1 \<Rightarrow> bool" where
  "validateConflictEvidenceV1 lib evidence observed beforeHash requestedHash =
     (case (evidence, observed) of
        (Some e, Some o') \<Rightarrow>
          typedValueNonNullV1 lib o' \<and> ce_Relation e = ''observed_after_differs_from_before_and_requested'' \<and>
          ce_Verified e \<and> timestampV1 (ce_VerifiedAt e) \<and> ce_BeforeHash e = beforeHash \<and>
          ce_RequestedHash e = requestedHash \<and>
          (case ComputeHash lib o' of
             None \<Rightarrow> False
           | Some h \<Rightarrow> h = ce_ObservedAfterHash e \<and> h \<noteq> beforeHash \<and> h \<noteq> requestedHash)
      | _ \<Rightarrow> False)"

definition noContactPhases :: "string list" where
  "noContactPhases = [''shape_validation'', ''scope_validation'', ''authentication'', ''provider_lookup'',
     ''routing'', ''runtime_selection'', ''lease'', ''constraints'', ''cas'', ''waiter_registration'',
     ''send_setup'', ''read_token_verified'', ''dispatch_intent_persisted'']"

definition validateNoContactEvidenceV1 :: "NoContactEvidenceV1 option \<Rightarrow> bool" where
  "validateNoContactEvidenceV1 evidence =
     (case evidence of
        None \<Rightarrow> False
      | Some e \<Rightarrow> nc_RemoteFramesSent e = 0 \<and> timestampV1 (nc_VerifiedAt e) \<and>
                  List.member noContactPhases (nc_LastCompletedPhase e))"

definition validateOriginalOutcomeEvidenceV1 ::
  "golib \<Rightarrow> OutcomeEvidenceV1 option \<Rightarrow> bool option \<Rightarrow> TypedValueV1 option \<Rightarrow> bool" where
  "validateOriginalOutcomeEvidenceV1 lib evidence accepted observed =
     (case evidence of
        None \<Rightarrow> False
      | Some e \<Rightarrow>
          if \<not> oe_PossibleSideEffect e \<or> \<not> oe_BlindRetryForbidden e \<or> \<not> timestampV1 (oe_RecordedAt e) then False
          else (case oe_LastDurableState e of
                  MutationStateV1DispatchIntent \<Rightarrow> nilp accepted \<and> nilp observed
                | MutationStateV1ReplyObserved \<Rightarrow>
                    \<not> nilp accepted \<and>
                    (case observed of None \<Rightarrow> True | Some v \<Rightarrow> typedValueNonNullV1 lib v)
                | _ \<Rightarrow> False))"

definition rollback_failure_durable_ok :: "OutcomeEvidenceV1 \<Rightarrow> RollbackV1 \<Rightarrow> bool" where
  "rollback_failure_durable_ok e r =
     (case oe_LastDurableState e of
        MutationStateV1RollbackIntent \<Rightarrow>
          \<not> oe_PossibleSideEffect e \<and> \<not> oe_BlindRetryForbidden e \<and> nilp (rb_ProtocolAccepted r)
      | MutationStateV1RollbackDispatchIntent \<Rightarrow>
          oe_PossibleSideEffect e \<and> oe_BlindRetryForbidden e \<and> nilp (rb_ProtocolAccepted r)
      | MutationStateV1RollbackReplyObserved \<Rightarrow>
          oe_PossibleSideEffect e \<and> oe_BlindRetryForbidden e \<and> \<not> nilp (rb_ProtocolAccepted r)
      | MutationStateV1RollbackVerifyPending \<Rightarrow>
          oe_PossibleSideEffect e \<and> oe_BlindRetryForbidden e \<and> \<not> nilp (rb_ProtocolAccepted r)
      | _ \<Rightarrow> False)"

definition validateRollbackFailureV1 :: "golib \<Rightarrow> MutationV1 \<Rightarrow> HashV1 \<Rightarrow> HashV1 \<Rightarrow> bool" where
  "validateRollbackFailureV1 lib m beforeHash requestedHash =
     (case (mu_Error m, mu_OutcomeEvidence m, mu_Rollback m) of
        (Some err, Some e, Some r) \<Rightarrow>
          er_Code err = ErrorCodeV1RollbackFailed \<and> mu_ProtocolAccepted m \<noteq> Some False \<and>
          \<not> nilp (mu_ObservedAfter m) \<and>
          validateApplyVerificationV1 lib (mu_ApplyVerification m) (mu_ObservedAfter m) requestedHash \<and>
          timestampV1 (oe_RecordedAt e) \<and> validateRollbackBeforeV1 lib (Some r) beforeHash \<and>
          rb_State r = oe_LastDurableState e \<and> nilp (rb_ObservedAfter r) \<and> nilp (rb_Verification r) \<and>
          ptr_holds (\<lambda>re. er_Code re = ErrorCodeV1RollbackFailed \<and> \<not> er_Retriable re \<and> validateErrorV1 lib re)
            (rb_Error r) \<and>
          rollback_failure_durable_ok e r
      | _ \<Rightarrow> False)"

definition validateOutcomeUnknownV1 :: "golib \<Rightarrow> MutationV1 \<Rightarrow> HashV1 \<Rightarrow> HashV1 \<Rightarrow> bool" where
  "validateOutcomeUnknownV1 lib m beforeHash requestedHash =
     (case mu_Error m of
        None \<Rightarrow> False
      | Some err \<Rightarrow>
          if er_Retriable err \<or> \<not> nilp (mu_ConflictEvidence m) \<or> \<not> nilp (mu_NoContactEvidence m) \<or>
             \<not> nilp (mu_RejectionVerification m) \<or> \<not> nilp (mu_NoEffectVerification m)
          then False
          else if \<not> nilp (mu_Rollback m) then validateRollbackFailureV1 lib m beforeHash requestedHash
          else er_Code err = ErrorCodeV1OutcomeUnknown \<and> nilp (mu_ApplyVerification m) \<and>
               validateOriginalOutcomeEvidenceV1 lib (mu_OutcomeEvidence m) (mu_ProtocolAccepted m)
                 (mu_ObservedAfter m))"

definition validateRejectionVerificationV1 ::
  "golib \<Rightarrow> RejectionVerificationV1 option \<Rightarrow> TypedValueV1 option \<Rightarrow> HashV1 \<Rightarrow> bool" where
  "validateRejectionVerificationV1 lib verification observed beforeHash =
     (case (verification, observed) of
        (Some v, Some o') \<Rightarrow>
          typedValueNonNullV1 lib o' \<and> jv_Relation v = ''observed_after_equals_before'' \<and> jv_Verified v \<and>
          jv_CorrelatedRejection v \<and> timestampV1 (jv_VerifiedAt v) \<and> jv_EqualValueHash v = beforeHash \<and>
          ComputeHash lib o' = Some beforeHash
      | _ \<Rightarrow> False)"

definition validateNoEffectVerificationV1 ::
  "golib \<Rightarrow> NoEffectVerificationV1 option \<Rightarrow> TypedValueV1 option \<Rightarrow> HashV1 \<Rightarrow> bool" where
  "validateNoEffectVerificationV1 lib verification observed beforeHash =
     (case (verification, observed) of
        (Some v, Some o') \<Rightarrow>
          typedValueNonNullV1 lib o' \<and> nv_Relation v = ''observed_after_equals_before'' \<and> nv_Verified v \<and>
          timestampV1 (nv_VerifiedAt v) \<and> nv_EqualValueHash v = beforeHash \<and>
          ComputeHash lib o' = Some beforeHash
      | _ \<Rightarrow> False)"

text \<open>The empty required state of the source, which requires nothing, is \<open>None\<close>.\<close>

definition validateOutcomeEvidenceV1 :: "OutcomeEvidenceV1 option \<Rightarrow> MutationStateV1 option \<Rightarrow> bool" where
  "validateOutcomeEvidenceV1 evidence required =
     (case evidence of
        None \<Rightarrow> False
      | Some e \<Rightarrow>
          if \<not> oe_PossibleSideEffect e \<or> \<not> oe_BlindRetryForbidden e \<or> \<not> timestampV1 (oe_RecordedAt e) then False
          else if (case required of None \<Rightarrow> False | Some s \<Rightarrow> oe_LastDurableState e \<noteq> s) then False
          else oe_LastDurableState e = MutationStateV1DispatchIntent \<or>
               oe_LastDurableState e = MutationStateV1RollbackDispatchIntent)"

definition acceptedOrRecoveredV1 :: "bool option \<Rightarrow> OutcomeEvidenceV1 option \<Rightarrow> bool" where
  "acceptedOrRecoveredV1 accepted outcome =
     (if boolPointerV1 accepted True then nilp outcome
      else nilp accepted \<and> validateOutcomeEvidenceV1 outcome None)"

definition conflictDispositionV1 :: "bool option \<Rightarrow> OutcomeEvidenceV1 option \<Rightarrow> bool" where
  "conflictDispositionV1 accepted outcome =
     (if nilp accepted then validateOutcomeEvidenceV1 outcome None else nilp outcome)"

subsection \<open>The state-dependent part\<close>

definition noCommonEvidence :: "MutationV1 \<Rightarrow> bool" where
  "noCommonEvidence m \<longleftrightarrow>
     nilp (mu_Rollback m) \<and> nilp (mu_Error m) \<and> nilp (mu_ApplyVerification m) \<and> nilp (mu_ConflictEvidence m) \<and>
     nilp (mu_NoContactEvidence m) \<and> nilp (mu_RejectionVerification m) \<and> nilp (mu_NoEffectVerification m) \<and>
     nilp (mu_OutcomeEvidence m)"

definition state_applied_ok :: "golib \<Rightarrow> MutationV1 \<Rightarrow> HashV1 \<Rightarrow> bool" where
  "state_applied_ok lib m requestedHash \<longleftrightarrow>
     \<not> nilp (mu_ObservedAfter m) \<and>
     validateApplyVerificationV1 lib (mu_ApplyVerification m) (mu_ObservedAfter m) requestedHash \<and>
     nilp (mu_Rollback m) \<and> nilp (mu_Error m) \<and> nilp (mu_ConflictEvidence m) \<and> nilp (mu_NoContactEvidence m) \<and>
     nilp (mu_RejectionVerification m) \<and> nilp (mu_NoEffectVerification m) \<and>
     acceptedOrRecoveredV1 (mu_ProtocolAccepted m) (mu_OutcomeEvidence m) \<and>
     \<not> (mu_State m = MutationStateV1ProbeActive \<and> mu_Mode m \<noteq> ModeV1Probe)"

definition state_rollback_ok :: "golib \<Rightarrow> MutationV1 \<Rightarrow> HashV1 \<Rightarrow> HashV1 \<Rightarrow> bool" where
  "state_rollback_ok lib m beforeHash requestedHash \<longleftrightarrow>
     acceptedOrRecoveredV1 (mu_ProtocolAccepted m) (mu_OutcomeEvidence m) \<and> \<not> nilp (mu_ObservedAfter m) \<and>
     validateApplyVerificationV1 lib (mu_ApplyVerification m) (mu_ObservedAfter m) requestedHash \<and>
     validateRollbackV1 lib (mu_Rollback m) (mu_State m) beforeHash \<and>
     nilp (mu_Error m) \<and> nilp (mu_ConflictEvidence m) \<and> nilp (mu_NoContactEvidence m) \<and>
     nilp (mu_RejectionVerification m) \<and> nilp (mu_NoEffectVerification m)"

definition state_conflict_ok :: "golib \<Rightarrow> MutationV1 \<Rightarrow> HashV1 \<Rightarrow> HashV1 \<Rightarrow> bool" where
  "state_conflict_ok lib m beforeHash requestedHash \<longleftrightarrow>
     \<not> nilp (mu_ObservedAfter m) \<and> ptr_holds (\<lambda>e. er_Code e = ErrorCodeV1Conflict) (mu_Error m) \<and>
     validateConflictEvidenceV1 lib (mu_ConflictEvidence m) (mu_ObservedAfter m) beforeHash requestedHash \<and>
     conflictDispositionV1 (mu_ProtocolAccepted m) (mu_OutcomeEvidence m) \<and>
     nilp (mu_NoContactEvidence m) \<and> nilp (mu_RejectionVerification m) \<and> nilp (mu_NoEffectVerification m)"

definition state_no_contact_ok :: "MutationV1 \<Rightarrow> bool" where
  "state_no_contact_ok m \<longleftrightarrow>
     nilp (mu_ProtocolAccepted m) \<and> nilp (mu_ObservedAfter m) \<and> \<not> nilp (mu_Error m) \<and>
     validateNoContactEvidenceV1 (mu_NoContactEvidence m) \<and> nilp (mu_Rollback m) \<and>
     nilp (mu_ApplyVerification m) \<and> nilp (mu_ConflictEvidence m) \<and> nilp (mu_RejectionVerification m) \<and>
     nilp (mu_NoEffectVerification m) \<and> nilp (mu_OutcomeEvidence m)"

definition state_rejected_ok :: "golib \<Rightarrow> MutationV1 \<Rightarrow> HashV1 \<Rightarrow> bool" where
  "state_rejected_ok lib m beforeHash \<longleftrightarrow>
     boolPointerV1 (mu_ProtocolAccepted m) False \<and> \<not> nilp (mu_ObservedAfter m) \<and>
     ptr_holds (\<lambda>e. er_Code e = ErrorCodeV1RemoteError) (mu_Error m) \<and>
     validateRejectionVerificationV1 lib (mu_RejectionVerification m) (mu_ObservedAfter m) beforeHash \<and>
     nilp (mu_Rollback m) \<and> nilp (mu_ApplyVerification m) \<and> nilp (mu_ConflictEvidence m) \<and>
     nilp (mu_NoContactEvidence m) \<and> nilp (mu_NoEffectVerification m) \<and> nilp (mu_OutcomeEvidence m)"

definition state_no_effect_ok :: "golib \<Rightarrow> MutationV1 \<Rightarrow> HashV1 \<Rightarrow> bool" where
  "state_no_effect_ok lib m beforeHash \<longleftrightarrow>
     nilp (mu_ProtocolAccepted m) \<and> \<not> nilp (mu_ObservedAfter m) \<and>
     ptr_holds (\<lambda>e. er_Code e = ErrorCodeV1NoEffect \<and> \<not> er_Retriable e) (mu_Error m) \<and>
     validateOutcomeEvidenceV1 (mu_OutcomeEvidence m) (Some MutationStateV1DispatchIntent) \<and>
     validateNoEffectVerificationV1 lib (mu_NoEffectVerification m) (mu_ObservedAfter m) beforeHash \<and>
     nilp (mu_Rollback m) \<and> nilp (mu_ApplyVerification m) \<and> nilp (mu_ConflictEvidence m) \<and>
     nilp (mu_NoContactEvidence m) \<and> nilp (mu_RejectionVerification m)"

definition validateMutationStateV1 :: "golib \<Rightarrow> MutationV1 \<Rightarrow> HashV1 \<Rightarrow> HashV1 \<Rightarrow> bool" where
  "validateMutationStateV1 lib m beforeHash requestedHash =
     (case mu_State m of
        MutationStateV1Prepared \<Rightarrow> nilp (mu_ProtocolAccepted m) \<and> nilp (mu_ObservedAfter m) \<and> noCommonEvidence m
      | MutationStateV1DispatchIntent \<Rightarrow>
          nilp (mu_ProtocolAccepted m) \<and> nilp (mu_ObservedAfter m) \<and> noCommonEvidence m
      | MutationStateV1ReplyObserved \<Rightarrow>
          \<not> nilp (mu_ProtocolAccepted m) \<and> nilp (mu_ObservedAfter m) \<and> noCommonEvidence m
      | MutationStateV1VerifyPending \<Rightarrow>
          \<not> nilp (mu_ProtocolAccepted m) \<and> nilp (mu_ObservedAfter m) \<and> noCommonEvidence m
      | MutationStateV1Applied \<Rightarrow> state_applied_ok lib m requestedHash
      | MutationStateV1ProbeActive \<Rightarrow> state_applied_ok lib m requestedHash
      | MutationStateV1RollbackIntent \<Rightarrow> state_rollback_ok lib m beforeHash requestedHash
      | MutationStateV1RollbackDispatchIntent \<Rightarrow> state_rollback_ok lib m beforeHash requestedHash
      | MutationStateV1RollbackReplyObserved \<Rightarrow> state_rollback_ok lib m beforeHash requestedHash
      | MutationStateV1RollbackVerifyPending \<Rightarrow> state_rollback_ok lib m beforeHash requestedHash
      | MutationStateV1RolledBack \<Rightarrow> state_rollback_ok lib m beforeHash requestedHash
      | MutationStateV1OutcomeUnknown \<Rightarrow> validateOutcomeUnknownV1 lib m beforeHash requestedHash
      | MutationStateV1Conflict \<Rightarrow> state_conflict_ok lib m beforeHash requestedHash
      | MutationStateV1FailedNoContact \<Rightarrow> state_no_contact_ok m
      | MutationStateV1Rejected \<Rightarrow> state_rejected_ok lib m beforeHash
      | MutationStateV1NoEffect \<Rightarrow> state_no_effect_ok lib m beforeHash
      | MutationStateV1Other _ \<Rightarrow> False)"

subsection \<open>The whole validator\<close>

definition mutation_shape_ok :: "golib \<Rightarrow> MutationV1 \<Rightarrow> bool" where
  "mutation_shape_ok lib m \<longleftrightarrow>
     opaqueReferenceV1 (mu_MutationRef m) \<and> ft_Operation (mu_Target m) = OperationV1Write \<and>
     validateFeatureTargetV1 (mu_Target m) \<and> runtimeBindingV1 (mu_Runtime m) \<and>
     Validate lib (mu_Before m) \<and> Validate lib (mu_Requested m) \<and>
     timestampV1 (mu_CreatedAt m) \<and> timestampV1 (mu_UpdatedAt m) \<and>
     \<not> Before (mu_UpdatedAt m) (mu_CreatedAt m) \<and> mu_Audit m \<noteq> [] \<and>
     length (mu_Audit m) \<le> maximumAuditEntriesV1 \<and>
     validateAuditV1 lib (mu_Audit m) (mu_CreatedAt m) (mu_UpdatedAt m) \<and>
     at_State (last (mu_Audit m)) = mu_State m"

definition mutation_mode_ok :: "MutationV1 \<Rightarrow> bool" where
  "mutation_mode_ok m =
     (case mu_Mode m of
        ModeV1Apply \<Rightarrow> nilp (mu_ProbeDeadline m)
      | ModeV1Probe \<Rightarrow> ptr_holds timestampV1 (mu_ProbeDeadline m)
      | _ \<Rightarrow> False)"

definition ValidateMutationV1 :: "golib \<Rightarrow> MutationV1 \<Rightarrow> ErrorV1 option" where
  "ValidateMutationV1 lib m =
     (let refuse = Some (contractValidationErrorV1 ErrorCodeV1DecodeError) in
      (case validateCanonicalDocumentV1 lib (doc_mutation lib m) of
         Some e \<Rightarrow> Some e
       | None \<Rightarrow>
           if \<not> mutation_shape_ok lib m then refuse
           else if (case mu_ObservedAfter m of None \<Rightarrow> False | Some v \<Rightarrow> \<not> Validate lib v) then refuse
           else if (case mu_Error m of None \<Rightarrow> False | Some e \<Rightarrow> \<not> validateErrorV1 lib e) then refuse
           else if \<not> mutation_mode_ok m then refuse
           else (case (ComputeHash lib (mu_Before m), ComputeHash lib (mu_Requested m)) of
                   (Some beforeHash, Some requestedHash) \<Rightarrow>
                     if \<not> nilp (mu_Rollback m) \<and> \<not> validateRollbackBeforeV1 lib (mu_Rollback m) beforeHash then refuse
                     else if validateMutationStateV1 lib m beforeHash requestedHash then None else refuse
                 | _ \<Rightarrow> refuse)))"

lemmas evidence_defs = validateApplyVerificationV1_def validateRollbackBeforeV1_def rollback_verified_def
  validateRollbackV1_def validateConflictEvidenceV1_def validateNoContactEvidenceV1_def
  validateOriginalOutcomeEvidenceV1_def rollback_failure_durable_ok_def validateRollbackFailureV1_def
  validateOutcomeUnknownV1_def validateRejectionVerificationV1_def validateNoEffectVerificationV1_def
  validateOutcomeEvidenceV1_def acceptedOrRecoveredV1_def conflictDispositionV1_def boolPointerV1_def

lemmas state_ok_defs = noCommonEvidence_def state_applied_ok_def state_rollback_ok_def state_conflict_ok_def
  state_no_contact_ok_def state_rejected_ok_def state_no_effect_ok_def

end
