(* ===== verification/MutationGuards.thy ===== *)
theory MutationGuards
  imports MutationContract
begin

text \<open>
  \<^verbatim>\<open>src/internal/eebusmutation/types.go\<close> and \<^verbatim>\<open>validation.go\<close>: what the
  mutation coordinator is configured with, the interfaces it calls, and the guards that stand
  between a request and the first remote frame. The interfaces (executor, binding authority,
  read-token verifier, policy, clock, crash hook, file operations) are functions on a world of
  any type: a call takes the world and returns its answer with the next world, so two calls
  need not agree. Values are immutable here, so the copies the code makes (\<^verbatim>\<open>clone.go\<close>) are
  the values themselves.
\<close>

subsection \<open>Types\<close>

record rawMutationReadResult =
  rd_Value :: TypedValueV1
  rd_Runtime :: RuntimeBindingV1
  rd_Full :: bool
  rd_Trustworthy :: bool

definition read_zero :: rawMutationReadResult where
  "read_zero = \<lparr>rd_Value = value_zero, rd_Runtime = binding_zero, rd_Full = False, rd_Trustworthy = False\<rparr>"

record rawMutationWriteResult =
  wr_FrameSent :: bool
  wr_Correlated :: bool
  wr_Accepted :: bool

definition write_zero :: rawMutationWriteResult where
  "write_zero = \<lparr>wr_FrameSent = False, wr_Correlated = False, wr_Accepted = False\<rparr>"

record rawMutationReadTokenBinding =
  tb_Runtime :: RuntimeBindingV1
  tb_Target :: FeatureTargetV1
  tb_RequestHash :: HashV1
  tb_BeforeImageHash :: HashV1
  tb_PrincipalClass :: string
  tb_Scope :: AuthScopeV1
  tb_Tool :: ToolV1
  tb_MaskTier :: MaskTier
  tb_ExpiresAt :: gotime
  tb_Reusable :: bool

record rawMutationPolicyDecision =
  pd_FullWrite :: bool
  pd_Changeability :: ChangeabilityV1
  pd_ConstraintsKnown :: bool
  pd_LabAllowlisted :: bool
  pd_RollbackRepresentable :: bool
  pd_ConstraintFailures :: "string list"
  pd_SafetyFailures :: "string list"
  pd_LabProfileID :: string
  pd_EvidenceHashes :: "HashV1 list"
  pd_SafetyPredicates :: "string list"

record rawMutationLabProfile =
  rl_Contract :: string
  rl_ProfileID :: string
  rl_Target :: FeatureTargetV1
  rl_AllowedValueHashes :: "HashV1 list"
  rl_RollbackValueHash :: HashV1
  rl_MaximumProbeTTLSeconds :: uint64
  rl_SafetyPredicates :: "string list"
  rl_EvidenceHashes :: "HashV1 list"
  rl_ExpiresAt :: gotime

definition lab_profile_zero :: rawMutationLabProfile where
  "lab_profile_zero = \<lparr>rl_Contract = [], rl_ProfileID = [], rl_Target = target_zero, rl_AllowedValueHashes = [],
     rl_RollbackValueHash = [], rl_MaximumProbeTTLSeconds = 0, rl_SafetyPredicates = [], rl_EvidenceHashes = [],
     rl_ExpiresAt = zero_time\<rparr>"

text \<open>Durations are nanoseconds.\<close>

record rawMutationCoordinatorConfig =
  cf_StateRoot :: string
  cf_WriterWait :: int
  cf_RecoveryDeadline :: int
  cf_ReferenceKey :: bytes
  cf_LabProfiles :: "rawMutationLabProfile list"

text \<open>
  The dependencies. A flag \<open>True\<close> returned by the crash hook or by a file operation is an error.
  \<open>d_write\<close> returns how many bytes were written, and whether it failed.
\<close>

record 'w rawMutationCoordinatorDependencies =
  d_RuntimeEpoch :: "'w \<Rightarrow> uint64"
  d_Now :: "'w \<Rightarrow> gotime \<times> 'w"
  d_FullReadIfCurrent ::
    "FeatureTargetV1 \<Rightarrow> RuntimeBindingV1 \<Rightarrow> 'w \<Rightarrow> (rawMutationReadResult \<times> ErrorV1 option) \<times> 'w"
  d_FullWriteIfCurrent ::
    "FeatureTargetV1 \<Rightarrow> TypedValueV1 \<Rightarrow> RuntimeBindingV1 \<Rightarrow> 'w \<Rightarrow> (rawMutationWriteResult \<times> ErrorV1 option) \<times> 'w"
  d_CurrentRuntimeBinding :: "FeatureTargetV1 \<Rightarrow> 'w \<Rightarrow> (RuntimeBindingV1 \<times> ErrorV1 option) \<times> 'w"
  d_VerifyReadToken :: "string \<Rightarrow> 'w \<Rightarrow> (rawMutationReadTokenBinding \<times> ErrorV1 option) \<times> 'w"
  d_ConsumeReadToken :: "string \<Rightarrow> 'w \<Rightarrow> ErrorV1 option \<times> 'w"
  d_MutationPolicy ::
    "FeatureDataSetRequestV1 \<Rightarrow> TypedValueV1 \<Rightarrow> 'w \<Rightarrow> (rawMutationPolicyDecision \<times> ErrorV1 option) \<times> 'w"
  d_CrashAfterDurable :: "MutationStateV1 \<Rightarrow> 'w \<Rightarrow> bool \<times> 'w"
  d_WriterFinished :: "'w \<Rightarrow> bool \<times> 'w"
  d_write :: "bytes \<Rightarrow> 'w \<Rightarrow> (nat \<times> bool) \<times> 'w"
  d_SyncFile :: "'w \<Rightarrow> bool \<times> 'w"
  d_SyncDirectory :: "'w \<Rightarrow> bool \<times> 'w"
  d_Truncate :: "'w \<Rightarrow> bool \<times> 'w"
  d_Seek :: "'w \<Rightarrow> bool \<times> 'w"
  d_CloseFile :: "'w \<Rightarrow> bool \<times> 'w"

type_synonym 'w mdeps = "'w rawMutationCoordinatorDependencies"

subsection \<open>Errors\<close>

fun mutation_message :: "ErrorCodeV1 \<Rightarrow> string" where
  "mutation_message ErrorCodeV1PermissionDenied = ''raw mutation authorization denied''"
| "mutation_message ErrorCodeV1InvalidArgument = ''raw mutation request is invalid''"
| "mutation_message ErrorCodeV1UnsupportedOperation = ''raw mutation operation is unsupported''"
| "mutation_message ErrorCodeV1ConstraintsUnknown = ''raw mutation constraints are unknown''"
| "mutation_message ErrorCodeV1ConstraintFailure = ''raw mutation safety constraint failed''"
| "mutation_message ErrorCodeV1StaleReadToken = ''raw mutation read token is stale''"
| "mutation_message ErrorCodeV1CASMismatch = ''raw mutation compare-and-swap guard failed''"
| "mutation_message ErrorCodeV1RuntimeEpochMismatch = ''raw mutation runtime epoch changed''"
| "mutation_message ErrorCodeV1ConnectionGenerationMismatch = ''raw mutation connection generation changed''"
| "mutation_message ErrorCodeV1IdempotencyConflict = ''raw mutation idempotency key conflicts''"
| "mutation_message ErrorCodeV1WriterBusy = ''raw mutation writer is busy''"
| "mutation_message ErrorCodeV1NoEffect = ''raw mutation final value equals the before-image''"
| "mutation_message ErrorCodeV1OutcomeUnknown = ''raw mutation outcome is unknown''"
| "mutation_message ErrorCodeV1Conflict = ''raw mutation readback conflicts''"
| "mutation_message ErrorCodeV1RollbackFailed = ''raw mutation rollback could not be verified''"
| "mutation_message ErrorCodeV1NotFound = ''raw mutation was not found''"
| "mutation_message ErrorCodeV1SecretDetected = ''secret-classified raw mutation input was rejected''"
| "mutation_message ErrorCodeV1Internal = ''raw mutation internal failure''"
| "mutation_message _ = ''raw mutation request failed''"

definition mutationError :: "ErrorCodeV1 \<Rightarrow> bool \<Rightarrow> ErrorV1" where
  "mutationError code retriable = NewErrorV1 code (mutation_message code) retriable SourceLayerV1Runtime"

definition internalMutationError :: ErrorV1 where
  "internalMutationError = mutationError ErrorCodeV1Internal False"

definition sanitizeMutationError :: "ErrorV1 option \<Rightarrow> ErrorV1 option" where
  "sanitizeMutationError t = map_option (\<lambda>e. mutationError (er_Code e) (er_Retriable e)) t"

lemma mutationError_sel [simp]:
  "er_Code (mutationError c r) = c"
  "er_Retriable (mutationError c r) = r"
  "er_SourceLayer (mutationError c r) = SourceLayerV1Runtime"
  "er_Details (mutationError c r) = None"
  "er_Message (mutationError c r) = mutation_message c"
  by (simp_all add: mutationError_def)

lemma mutationError_eq_iff [simp]: "mutationError c r = mutationError c' r' \<longleftrightarrow> c = c' \<and> r = r'"
proof
  assume eq: "mutationError c r = mutationError c' r'"
  from arg_cong [OF eq, of er_Code] arg_cong [OF eq, of er_Retriable] show "c = c' \<and> r = r'"
    by simp
qed simp

lemma internalMutationError_sel [simp]:
  "er_Code internalMutationError = ErrorCodeV1Internal"
  "er_Retriable internalMutationError = False"
  by (simp_all add: internalMutationError_def)

lemma sanitizeMutationError_None [simp]: "sanitizeMutationError t = None \<longleftrightarrow> t = None"
  by (simp add: sanitizeMutationError_def)

subsection \<open>Identities\<close>

text \<open>
  \<open>canonicalBytes\<close> hands the text of the canonical hash, not of the document, to the MAC.
\<close>

definition doc_identity :: "uint64 \<Rightarrow> string \<Rightarrow> ToolV1 \<Rightarrow> string \<Rightarrow> jdoc" where
  "doc_identity epoch princ tool key = jobj [jfield ''runtime_epoch'' (juint epoch),
     jfield ''principal'' (jstr princ), jfield ''tool'' (jstr (toolV1_text tool)),
     jfield ''idempotency_key'' (jstr key)]"

definition canonicalBytes :: "golib \<Rightarrow> jdoc \<Rightarrow> canon_error + bytes" where
  "canonicalBytes lib doc = CanonicalSHA256V1 lib doc"

definition rawMutationIdentityHash ::
  "golib \<Rightarrow> bytes \<Rightarrow> uint64 \<Rightarrow> string \<Rightarrow> ToolV1 \<Rightarrow> string \<Rightarrow> canon_error + HashV1" where
  "rawMutationIdentityHash lib referenceKey epoch princ tool key =
     (case canonicalBytes lib (doc_identity epoch princ tool key) of
        Inl e \<Rightarrow> Inl e
      | Inr encoded \<Rightarrow> Inr (''sha256:'' @ hex_encode (hmac_sha256 lib referenceKey encoded)))"

definition rawMutationReference :: "golib \<Rightarrow> bytes \<Rightarrow> HashV1 \<Rightarrow> string" where
  "rawMutationReference lib referenceKey identity =
     b64_encode (hmac_sha256 lib referenceKey (''mutation-reference-v1'' @ [CHR 0x00] @ identity))"

definition rawMutationPrincipalHash :: "golib \<Rightarrow> string \<Rightarrow> canon_error + HashV1" where
  "rawMutationPrincipalHash lib princ =
     CanonicalSHA256V1 lib (jobj [jfield ''principal'' (jstr princ)])"

subsection \<open>Configuration\<close>

definition publicRawMutationLabProfile :: "rawMutationLabProfile \<Rightarrow> MutationLabProfileV1" where
  "publicRawMutationLabProfile p = \<lparr>lp_Contract = rl_Contract p, lp_ProfileID = rl_ProfileID p,
     lp_Target = rl_Target p, lp_AllowedValueHashes = rl_AllowedValueHashes p,
     lp_RollbackValueHash = rl_RollbackValueHash p, lp_MaximumProbeTTLSeconds = rl_MaximumProbeTTLSeconds p,
     lp_SafetyPredicates = rl_SafetyPredicates p, lp_EvidenceHashes = rl_EvidenceHashes p,
     lp_ExpiresAt = rl_ExpiresAt p\<rparr>"

fun lab_profiles_loop :: "golib \<Rightarrow> string list \<Rightarrow> HashV1 list \<Rightarrow> rawMutationLabProfile list \<Rightarrow> bool" where
  "lab_profiles_loop lib seenProfiles seenCommitments [] = True"
| "lab_profiles_loop lib seenProfiles seenCommitments (p # ps) =
     (let public = publicRawMutationLabProfile p in
      if ValidateMutationLabProfileV1 lib public \<noteq> None then False
      else if List.member seenProfiles (rl_ProfileID p) then False
      else (case CanonicalSHA256V1 lib (doc_lab_profile public) of
              Inl _ \<Rightarrow> False
            | Inr commitment \<Rightarrow>
                if List.member seenCommitments commitment then False
                else lab_profiles_loop lib (rl_ProfileID p # seenProfiles) (commitment # seenCommitments) ps))"

text \<open>The nil checks of the source have no counterpart: every dependency of the model is there.\<close>

definition validateRawMutationConfiguration ::
  "golib \<Rightarrow> 'w mdeps \<Rightarrow> rawMutationCoordinatorConfig \<Rightarrow> 'w \<Rightarrow> ErrorV1 option \<times> 'w" where
  "validateRawMutationConfiguration lib deps config w =
     (let invalid = Some (mutationError ErrorCodeV1InvalidArgument False) in
      if trim_space (cf_StateRoot config) = [] \<or> d_RuntimeEpoch deps w = 0 \<or> length (cf_ReferenceKey config) < 32
      then (invalid, w)
      else
        (let (now, w1) = d_Now deps w in
         if IsZero now then (invalid, w1)
         else if 16 < length (cf_LabProfiles config) then (invalid, w1)
         else if \<not> lab_profiles_loop lib [] [] (cf_LabProfiles config) then (invalid, w1)
         else (None, w1)))"

subsection \<open>The read token\<close>

definition verifyRawMutationReadToken ::
  "golib \<Rightarrow> 'w mdeps \<Rightarrow> WriteAuthorizationV1 \<Rightarrow> FeatureDataSetRequestV1 \<Rightarrow> 'w \<Rightarrow>
     (ErrorV1 + rawMutationReadTokenBinding) \<times> 'w" where
  "verifyRawMutationReadToken lib deps auth request w =
     (let ((binding, terminal), w1) = d_VerifyReadToken deps (sr_ReadToken request) w in
      (case terminal of
         Some e \<Rightarrow> (Inl (mutationError (er_Code e) (er_Retriable e)), w1)
       | None \<Rightarrow>
           if tb_PrincipalClass binding \<noteq> wa_PrincipalClass auth \<or> tb_Scope binding \<noteq> AuthScopeV1RawRead \<or>
              tb_Tool binding \<noteq> ToolV1FeaturesDataGet \<or> tb_MaskTier binding \<noteq> MaskTierRaw
           then (Inl (mutationError ErrorCodeV1PermissionDenied False), w1)
           else if rb_RuntimeEpoch (tb_Runtime binding) \<noteq> d_RuntimeEpoch deps w1
           then (Inl (mutationError ErrorCodeV1RuntimeEpochMismatch False), w1)
           else if rb_ConnectionGeneration (tb_Runtime binding) = 0
           then (Inl (mutationError ErrorCodeV1ConnectionGenerationMismatch False), w1)
           else if IsZero (tb_ExpiresAt binding)
           then (Inl (mutationError ErrorCodeV1StaleReadToken False), w1)
           else
             (let (now, w2) = d_Now deps w1; readTarget = (sr_Target request)\<lparr>ft_Operation := OperationV1Read\<rparr> in
              if \<not> After (tb_ExpiresAt binding) now
              then (Inl (mutationError ErrorCodeV1StaleReadToken False), w2)
              else if tb_Target binding \<noteq> readTarget
              then (Inl (mutationError ErrorCodeV1StaleReadToken False), w2)
              else (case CanonicalSHA256V1 lib (doc_data_get_request [readTarget] 0) of
                      Inl _ \<Rightarrow> (Inl (mutationError ErrorCodeV1StaleReadToken False), w2)
                    | Inr requestHash \<Rightarrow>
                        if tb_RequestHash binding \<noteq> requestHash \<or> tb_BeforeImageHash binding = []
                        then (Inl (mutationError ErrorCodeV1StaleReadToken False), w2)
                        else (Inr binding, w2)))))"

definition validateCurrentRawMutationBinding ::
  "'w mdeps \<Rightarrow> FeatureTargetV1 \<Rightarrow> RuntimeBindingV1 \<Rightarrow> 'w \<Rightarrow> ErrorV1 option \<times> 'w" where
  "validateCurrentRawMutationBinding deps target expected w =
     (let ((current, terminal), w1) = d_CurrentRuntimeBinding deps target w in
      if terminal \<noteq> None then (sanitizeMutationError terminal, w1)
      else if rb_RuntimeEpoch current \<noteq> rb_RuntimeEpoch expected
      then (Some (mutationError ErrorCodeV1RuntimeEpochMismatch False), w1)
      else if rb_ConnectionGeneration current = 0 \<or>
              rb_ConnectionGeneration current \<noteq> rb_ConnectionGeneration expected
      then (Some (mutationError ErrorCodeV1ConnectionGenerationMismatch False), w1)
      else (None, w1))"

subsection \<open>The guard read and the policy\<close>

definition validateGuardRead ::
  "golib \<Rightarrow> rawMutationReadResult \<Rightarrow> ErrorV1 option \<Rightarrow> rawMutationReadTokenBinding \<Rightarrow> FeatureDataSetRequestV1 \<Rightarrow>
     ErrorV1 option" where
  "validateGuardRead lib result terminal binding request =
     (if terminal \<noteq> None then sanitizeMutationError terminal
      else if \<not> rd_Full result \<or> \<not> rd_Trustworthy result \<or> \<not> Validate lib (rd_Value result)
      then Some (mutationError ErrorCodeV1DecodeError False)
      else if rb_RuntimeEpoch (rd_Runtime result) \<noteq> rb_RuntimeEpoch (tb_Runtime binding)
      then Some (mutationError ErrorCodeV1RuntimeEpochMismatch False)
      else if rb_ConnectionGeneration (rd_Runtime result) \<noteq> rb_ConnectionGeneration (tb_Runtime binding)
      then Some (mutationError ErrorCodeV1ConnectionGenerationMismatch False)
      else if ComputeHash lib (rd_Value result) \<noteq> Some (tb_BeforeImageHash binding)
      then Some (mutationError ErrorCodeV1CASMismatch False)
      else if (case sr_ExpectedCurrent request of
                 None \<Rightarrow> False | Some v \<Rightarrow> \<not> typedValuesEqual lib (rd_Value result) v)
      then Some (mutationError ErrorCodeV1CASMismatch False)
      else None)"

text \<open>The search over the configured profiles; the clock is read once per profile that has the identifier.\<close>

fun lab_profile_search ::
  "golib \<Rightarrow> 'w mdeps \<Rightarrow> FeatureDataSetRequestV1 \<Rightarrow> ConstraintOverrideV1 \<Rightarrow> HashV1 \<Rightarrow> HashV1 \<Rightarrow>
     rawMutationLabProfile list \<Rightarrow> rawMutationLabProfile \<times> nat \<Rightarrow> 'w \<Rightarrow> (rawMutationLabProfile \<times> nat) \<times> 'w"
where
  "lab_profile_search lib deps request override requestedHash beforeHash [] acc w = (acc, w)"
| "lab_profile_search lib deps request override requestedHash beforeHash (p # ps) acc w =
     (if rl_ProfileID p \<noteq> co_ProfileID override
      then lab_profile_search lib deps request override requestedHash beforeHash ps acc w
      else
        (let (now, w1) = d_Now deps w in
         if \<not> After (rl_ExpiresAt p) now \<or> After (co_ExpiresAt override) (rl_ExpiresAt p) \<or>
            rl_Target p \<noteq> sr_Target request \<or> rl_RollbackValueHash p \<noteq> beforeHash \<or>
            (sr_Mode request = ModeV1Probe \<and> rl_MaximumProbeTTLSeconds p < sr_ProbeTTLSeconds request) \<or>
            \<not> List.member (rl_AllowedValueHashes p) requestedHash
         then lab_profile_search lib deps request override requestedHash beforeHash ps acc w1
         else lab_profile_search lib deps request override requestedHash beforeHash ps (p, Suc (snd acc)) w1))"

definition exactRawMutationLabProfileForHash ::
  "golib \<Rightarrow> 'w mdeps \<Rightarrow> rawMutationCoordinatorConfig \<Rightarrow> FeatureDataSetRequestV1 \<Rightarrow> HashV1 \<Rightarrow> 'w \<Rightarrow>
     (rawMutationLabProfile \<times> nat) \<times> 'w" where
  "exactRawMutationLabProfileForHash lib deps config request beforeHash w =
     (case sr_ConstraintsOverride request of
        None \<Rightarrow> ((lab_profile_zero, 0), w)
      | Some override \<Rightarrow>
          if trim_space (co_Justification override) = [] then ((lab_profile_zero, 0), w)
          else
            (let (now, w1) = d_Now deps w in
             if \<not> After (co_ExpiresAt override) now then ((lab_profile_zero, 0), w1)
             else (case ComputeHash lib (sr_Value request) of
                     None \<Rightarrow> ((lab_profile_zero, 0), w1)
                   | Some requestedHash \<Rightarrow>
                       lab_profile_search lib deps request override requestedHash beforeHash
                         (cf_LabProfiles config) (lab_profile_zero, 0) w1)))"

definition exactRawMutationLabProfile ::
  "golib \<Rightarrow> 'w mdeps \<Rightarrow> rawMutationCoordinatorConfig \<Rightarrow> FeatureDataSetRequestV1 \<Rightarrow> TypedValueV1 \<Rightarrow> 'w \<Rightarrow>
     (rawMutationLabProfile \<times> nat) \<times> 'w" where
  "exactRawMutationLabProfile lib deps config request before w =
     (case ComputeHash lib before of
        None \<Rightarrow> ((lab_profile_zero, 0), w)
      | Some beforeHash \<Rightarrow> exactRawMutationLabProfileForHash lib deps config request beforeHash w)"

definition validateRawMutationPolicy ::
  "golib \<Rightarrow> 'w mdeps \<Rightarrow> rawMutationCoordinatorConfig \<Rightarrow> rawMutationPolicyDecision \<Rightarrow> FeatureDataSetRequestV1 \<Rightarrow>
     TypedValueV1 \<Rightarrow> 'w \<Rightarrow> ErrorV1 option \<times> 'w" where
  "validateRawMutationPolicy lib deps config decision request before w =
     (if \<not> pd_FullWrite decision then (Some (mutationError ErrorCodeV1UnsupportedOperation False), w)
      else if pd_Changeability decision \<noteq> ChangeabilityV1True \<or> \<not> pd_LabAllowlisted decision \<or>
              \<not> pd_RollbackRepresentable decision \<or> pd_ConstraintFailures decision \<noteq> [] \<or>
              pd_SafetyFailures decision \<noteq> []
      then (Some (mutationError ErrorCodeV1ConstraintFailure False), w)
      else if pd_ConstraintsKnown decision \<and> pd_LabProfileID decision = [] \<and> pd_EvidenceHashes decision = [] \<and>
              pd_SafetyPredicates decision = []
      then (None, w)
      else
        (let ((profile, matches), w1) = exactRawMutationLabProfile lib deps config request before w in
         if matches \<noteq> 1 \<or> pd_LabProfileID decision \<noteq> rl_ProfileID profile \<or>
            pd_EvidenceHashes decision \<noteq> rl_EvidenceHashes profile \<or>
            pd_SafetyPredicates decision \<noteq> rl_SafetyPredicates profile
         then (Some (mutationError ErrorCodeV1ConstraintsUnknown False), w1)
         else (None, w1)))"

definition normalizedNow :: "'w mdeps \<Rightarrow> 'w \<Rightarrow> gotime \<times> 'w" where
  "normalizedNow deps w = (let (now, w1) = d_Now deps w in (toUTC now, w1))"

end
