(* ===== verification/Journal.thy ===== *)
theory Journal
  imports MutationGuards
begin

text \<open>
  The write-ahead journal of \<^verbatim>\<open>src/internal/eebusmutation/journal.go\<close>: a file of JSON
  lines, each with a sequence number and the hash of the line before it. The file is a byte
  string; writing, syncing, truncating and seeking go through the dependencies and may fail.
  Encoding is \<^verbatim>\<open>json.Marshal\<close> of the record (\<open>json_text\<close> of its document); decoding a line into
  the structure and recognising a truncated JSON text are parameters, the fields of \<open>jcodec\<close>.
\<close>

subsection \<open>Records\<close>

record rawMutationJournalRecord =
  jr_Contract :: string
  jr_Sequence :: uint64
  jr_PreviousRecordHash :: "HashV1 option"
  jr_RecordHash :: HashV1
  jr_RuntimeEpoch :: uint64
  jr_PrincipalHash :: HashV1
  jr_Tool :: ToolV1
  jr_IdentityHash :: HashV1
  jr_RequestHash :: HashV1
  jr_Mutation :: MutationV1

type_synonym jrecord = rawMutationJournalRecord

record jcodec =
  jc_decode :: "bytes \<Rightarrow> jrecord option"
  jc_torn :: "bytes \<Rightarrow> bool"

record rawMutationJournal =
  jo_file :: bytes
  jo_sequence :: uint64
  jo_lastHash :: "HashV1 option"
  jo_poisoned :: bool

definition rawMutationJournalContract :: string where
  "rawMutationJournalContract = ''helianthus.eebus.raw-mutation-wal.v1''"

definition rawMutationJournalMaxBytes :: nat where
  "rawMutationJournalMaxBytes = 67108864"

definition doc_record :: "golib \<Rightarrow> jrecord \<Rightarrow> jdoc" where
  "doc_record lib r = jobj [jfield ''contract'' (jstr (jr_Contract r)), jfield ''sequence'' (juint (jr_Sequence r)),
     jfield ''previous_record_hash'' (jnullable jstr (jr_PreviousRecordHash r)),
     jfield ''record_hash'' (jstr (jr_RecordHash r)), jfield ''runtime_epoch'' (juint (jr_RuntimeEpoch r)),
     jfield ''principal_hash'' (jstr (jr_PrincipalHash r)), jfield ''tool'' (jstr (toolV1_text (jr_Tool r))),
     jfield ''identity_hash'' (jstr (jr_IdentityHash r)), jfield ''request_hash'' (jstr (jr_RequestHash r)),
     jfield ''mutation'' (doc_mutation lib (jr_Mutation r))]"

abbreviation newline :: char where "newline \<equiv> CHR 0x0A"

subsection \<open>Appending\<close>

text \<open>The write loop: short writes continue, an error or a write of nothing stops it.\<close>

function write_loop :: "'w mdeps \<Rightarrow> bytes \<Rightarrow> bytes \<Rightarrow> 'w \<Rightarrow> bytes \<times> bool \<times> 'w" where
  "write_loop deps rest file w =
     (if rest = [] then (file, False, w)
      else
        (let ((n, failed), w1) = d_write deps rest w; count = min n (length rest);
             file1 = file @ take count rest
         in if failed then (file1, True, w1)
            else if count = 0 then (file1, True, w1)
            else write_loop deps (drop count rest) file1 w1))"
  by pat_completeness auto
termination
  by (relation "measure (\<lambda>(_, rest, _, _). length rest)") auto

declare write_loop.simps [simp del]

definition restorePrefix :: "'w mdeps \<Rightarrow> nat \<Rightarrow> bytes \<Rightarrow> 'w \<Rightarrow> bytes \<times> bool \<times> 'w" where
  "restorePrefix deps offset file w =
     (let (terr, w1) = d_Truncate deps w in
      if terr then (file, True, w1)
      else
        (let (serr, w2) = d_Seek deps w1 in
         if serr then (take offset file, True, w2)
         else (let (yerr, w3) = d_SyncFile deps w2 in (take offset file, yerr, w3))))"

text \<open>The record as it is committed: contract, sequence, link and hash are the journal's.\<close>

definition seal_record :: "golib \<Rightarrow> rawMutationJournal \<Rightarrow> jrecord \<Rightarrow> jrecord option" where
  "seal_record lib j r =
     (let r1 = r\<lparr>jr_Contract := rawMutationJournalContract, jr_Sequence := jo_sequence j + 1,
                 jr_PreviousRecordHash := jo_lastHash j, jr_RecordHash := []\<rparr> in
      (case CanonicalSHA256V1 lib (doc_record lib r1) of
         Inl _ \<Rightarrow> None
       | Inr h \<Rightarrow> Some (r1\<lparr>jr_RecordHash := h\<rparr>)))"

text \<open>\<open>append\<close>: \<open>Some\<close> the sealed record on success, \<open>None\<close> on an error.\<close>

definition journal_append ::
  "golib \<Rightarrow> 'w mdeps \<Rightarrow> jrecord \<Rightarrow> rawMutationJournal \<Rightarrow> 'w \<Rightarrow> jrecord option \<times> rawMutationJournal \<times> 'w" where
  "journal_append lib deps r j w =
     (if jo_poisoned j then (None, j, w)
      else (case seal_record lib j r of
              None \<Rightarrow> (None, j, w)
            | Some sealed \<Rightarrow>
                (case doc_record lib sealed of
                   None \<Rightarrow> (None, j, w)
                 | Some tree \<Rightarrow>
                     (let encoded = json_text tree @ [newline]; (serr, w1) = d_Seek deps w in
                      if serr then (None, j, w1)
                      else
                        (let offset = length (jo_file j);
                             (file2, werr, w2) = write_loop deps encoded (jo_file j) w1;
                             (aerr, w3) = (if werr then (True, w2) else d_SyncFile deps w2)
                         in if aerr then
                              (let (file4, rerr, w4) = restorePrefix deps offset file2 w3 in
                               (None, j\<lparr>jo_file := file4, jo_poisoned := rerr\<rparr>, w4))
                            else (Some sealed,
                                  j\<lparr>jo_file := file2, jo_sequence := jr_Sequence sealed,
                                    jo_lastHash := Some (jr_RecordHash sealed)\<rparr>, w3))))))"

subsection \<open>Reading\<close>

text \<open>\<open>validateRawMutationAudit\<close>\<close>

fun journal_audit_loop :: "golib \<Rightarrow> nat \<Rightarrow> HashV1 option \<Rightarrow> AuditTransitionV1 list \<Rightarrow> bool" where
  "journal_audit_loop lib index previous [] = True"
| "journal_audit_loop lib index previous (a # as) =
     (if at_Sequence a \<noteq> of_nat (Suc index) \<or> at_State a = MutationStateV1Other [] \<or>
         IsZero (at_TransitionedAt a) \<or> \<not> hashPointersEqualV1 (at_PreviousHash a) previous
      then False
      else (case audit_commitment lib a of
              Inl _ \<Rightarrow> False
            | Inr computed \<Rightarrow>
                if computed \<noteq> at_TransitionHash a then False
                else journal_audit_loop lib (Suc index) (Some (at_TransitionHash a)) as))"

definition validateRawMutationAudit :: "golib \<Rightarrow> AuditTransitionV1 list \<Rightarrow> bool" where
  "validateRawMutationAudit lib audit = journal_audit_loop lib 0 None audit"

definition record_accepted :: "golib \<Rightarrow> uint64 \<Rightarrow> HashV1 option \<Rightarrow> jrecord \<Rightarrow> bool" where
  "record_accepted lib sequence previous r =
     (if jr_Contract r \<noteq> rawMutationJournalContract \<or> jr_Sequence r \<noteq> sequence + 1 \<or>
         \<not> hashPointersEqualV1 (jr_PreviousRecordHash r) previous \<or> jr_RuntimeEpoch r = 0 \<or>
         jr_PrincipalHash r = [] \<or> jr_IdentityHash r = [] \<or> jr_RequestHash r = [] \<or>
         mu_MutationRef (jr_Mutation r) = []
      then False
      else (case CanonicalSHA256V1 lib (doc_record lib (r\<lparr>jr_RecordHash := []\<rparr>)) of
              Inl _ \<Rightarrow> False
            | Inr computed \<Rightarrow>
                computed = jr_RecordHash r \<and> validateRawMutationAudit lib (mu_Audit (jr_Mutation r)) \<and>
                mu_Audit (jr_Mutation r) \<noteq> [] \<and>
                at_State (last (mu_Audit (jr_Mutation r))) = mu_State (jr_Mutation r)))"

fun read_lines ::
  "golib \<Rightarrow> jcodec \<Rightarrow> uint64 \<Rightarrow> HashV1 option \<Rightarrow> bytes list \<Rightarrow> jrecord list option" where
  "read_lines lib jc sequence previous [] = Some []"
| "read_lines lib jc sequence previous (line # ls) =
     (if trim_space line = [] then None
      else (case jc_decode jc line of
              None \<Rightarrow> None
            | Some r \<Rightarrow>
                if \<not> record_accepted lib sequence previous r then None
                else map_option (\<lambda>rs. r # rs)
                       (read_lines lib jc (jr_Sequence r) (Some (jr_RecordHash r)) ls)))"

fun split_lines :: "bytes \<Rightarrow> bytes list" where
  "split_lines [] = [[]]"
| "split_lines (c # cs) =
     (if c = newline then [] # split_lines cs
      else (case split_lines cs of [] \<Rightarrow> [[c]] | l # ls \<Rightarrow> (c # l) # ls))"

text \<open>The complete lines of a file and the bytes after the last newline.\<close>

definition tail_start :: "bytes \<Rightarrow> nat" where
  "tail_start p = length p - length (takeWhile (\<lambda>c. c \<noteq> newline) (rev p))"

definition readable_lines :: "bytes \<Rightarrow> bytes list" where
  "readable_lines payload = (if payload = [] then [] else split_lines (butlast payload))"

text \<open>Truncate, seek, sync the file, sync the directory: the repair of a torn tail.\<close>

definition repair_tail :: "'w mdeps \<Rightarrow> 'w \<Rightarrow> bool \<times> 'w" where
  "repair_tail deps w =
     (let (e1, w1) = d_Truncate deps w in if e1 then (True, w1) else
      (let (e2, w2) = d_Seek deps w1 in if e2 then (True, w2) else
       (let (e3, w3) = d_SyncFile deps w2 in if e3 then (True, w3) else d_SyncDirectory deps w3)))"

text \<open>\<open>readRawMutationJournal\<close>: the file afterwards with the records, or an error.\<close>

definition readRawMutationJournal ::
  "golib \<Rightarrow> jcodec \<Rightarrow> 'w mdeps \<Rightarrow> bytes \<Rightarrow> 'w \<Rightarrow> (bytes \<times> jrecord list) option \<times> 'w" where
  "readRawMutationJournal lib jc deps file w =
     (let (serr, w1) = d_Seek deps w in
      if serr \<or> rawMutationJournalMaxBytes < length file then (None, w1)
      else if file \<noteq> [] \<and> last file \<noteq> newline then
        (let start = tail_start file in
         if \<not> jc_torn jc (drop start file) then (None, w1)
         else
           (let (rerr, w2) = repair_tail deps w1 in
            if rerr then (None, w2)
            else (map_option (\<lambda>rs. (take start file, rs))
                    (read_lines lib jc 0 None (readable_lines (take start file))), w2)))
      else (map_option (\<lambda>rs. (file, rs)) (read_lines lib jc 0 None (readable_lines file)), w1))"

text \<open>The end of \<open>openRawMutationJournal\<close>: the handle continues after the last record.\<close>

definition opened_journal :: "bytes \<Rightarrow> jrecord list \<Rightarrow> rawMutationJournal" where
  "opened_journal file rs =
     (if rs = [] then \<lparr>jo_file = file, jo_sequence = 0, jo_lastHash = None, jo_poisoned = False\<rparr>
      else \<lparr>jo_file = file, jo_sequence = jr_Sequence (last rs), jo_lastHash = Some (jr_RecordHash (last rs)),
             jo_poisoned = False\<rparr>)"

definition openRawMutationJournal ::
  "golib \<Rightarrow> jcodec \<Rightarrow> 'w mdeps \<Rightarrow> bytes \<Rightarrow> 'w \<Rightarrow> (rawMutationJournal \<times> jrecord list) option \<times> 'w" where
  "openRawMutationJournal lib jc deps file w =
     (let (e1, w1) = d_SyncFile deps w in if e1 then (None, w1) else
      (let (e2, w2) = d_SyncDirectory deps w1 in if e2 then (None, w2) else
       (case readRawMutationJournal lib jc deps file w2 of
          (None, w3) \<Rightarrow> (None, w3)
        | (Some (file', rs), w3) \<Rightarrow> (Some (opened_journal file' rs, rs), w3))))"

end
