(* ===== verification/StateHoare.thy ===== *)
theory StateHoare
  imports Prelude "HOL-Library.State_Monad"
begin

text \<open>
  Weakest preconditions and preserved predicates for programs of the state monad. \<open>wp\<close> is
  computed by the simplifier along straight-line code; \<open>keeps\<close> is for predicates that every
  step of a program preserves, whatever values it passes on.
\<close>

definition wp :: "('s, 'a) state \<Rightarrow> ('a \<Rightarrow> 's \<Rightarrow> bool) \<Rightarrow> 's \<Rightarrow> bool" where
  "wp m Q s = (case run_state m s of (a, s') \<Rightarrow> Q a s')"

definition keeps :: "('s \<Rightarrow> bool) \<Rightarrow> ('s, 'a) state \<Rightarrow> bool" where
  "keeps I m \<longleftrightarrow> (\<forall>s. I s \<longrightarrow> wp m (\<lambda>_. I) s)"

lemma wp_return [simp]: "wp (State_Monad.return a) Q = Q a"
  by (simp add: wp_def fun_eq_iff)

lemma wp_bind [simp]: "wp (State_Monad.bind m f) Q = wp m (\<lambda>a. wp (f a) Q)"
  by (simp add: wp_def fun_eq_iff split: prod.splits)

lemma wp_State: "wp (State f) Q s = (case f s of (a, s') \<Rightarrow> Q a s')"
  by (simp add: wp_def)

lemma wp_mono: "wp m Q s \<Longrightarrow> (\<And>a s'. Q a s' \<Longrightarrow> R a s') \<Longrightarrow> wp m R s"
  by (auto simp: wp_def split: prod.splits)

lemma wp_conj: "wp m (\<lambda>a s. Q a s \<and> R a s) s \<longleftrightarrow> wp m Q s \<and> wp m R s"
  by (auto simp: wp_def split: prod.splits)

lemma wp_conjI: "wp m Q s \<Longrightarrow> wp m R s \<Longrightarrow> wp m (\<lambda>a s. Q a s \<and> R a s) s"
  by (simp add: wp_conj)

lemma wp_True [simp]: "wp m (\<lambda>_ _. True) s"
  by (simp add: wp_def split: prod.splits)

lemma wp_run: "wp m Q s \<Longrightarrow> run_state m s = (a, s') \<Longrightarrow> Q a s'"
  by (simp add: wp_def)

lemma wp_iff_run: "wp m Q s \<longleftrightarrow> Q (fst (run_state m s)) (snd (run_state m s))"
  by (simp add: wp_def split: prod.splits)

lemma wp_case_prod [simp]: "wp (case p of (x, y) \<Rightarrow> f x y) Q s = (case p of (x, y) \<Rightarrow> wp (f x y) Q s)"
  by (cases p) simp

lemma wp_if [simp]: "wp (if b then m else n) Q s = (if b then wp m Q s else wp n Q s)"
  by simp

lemma wp_option [simp]:
  "wp (case x of None \<Rightarrow> m | Some y \<Rightarrow> f y) Q s = (case x of None \<Rightarrow> wp m Q s | Some y \<Rightarrow> wp (f y) Q s)"
  by (cases x) auto

lemma wp_sum [simp]:
  "wp (case x of Inl y \<Rightarrow> f y | Inr z \<Rightarrow> g z) Q s = (case x of Inl y \<Rightarrow> wp (f y) Q s | Inr z \<Rightarrow> wp (g z) Q s)"
  by (cases x) auto

subsection \<open>Preserved predicates\<close>

named_theorems keeps_rules "programs that preserve a predicate"

lemma keepsI: "(\<And>s. I s \<Longrightarrow> wp m (\<lambda>_. I) s) \<Longrightarrow> keeps I m"
  by (simp add: keeps_def)

lemma keepsD: "keeps I m \<Longrightarrow> I s \<Longrightarrow> wp m (\<lambda>_. I) s"
  by (simp add: keeps_def)

lemma keeps_run: "keeps I m \<Longrightarrow> I s \<Longrightarrow> run_state m s = (a, s') \<Longrightarrow> I s'"
  by (auto simp: keeps_def wp_def)

lemma keeps_return [keeps_rules]: "keeps I (State_Monad.return a)"
  by (simp add: keeps_def)

lemma keeps_bind [keeps_rules]:
  assumes "keeps I m" and "\<And>a. keeps I (f a)"
  shows "keeps I (State_Monad.bind m f)"
proof (rule keepsI)
  fix s assume "I s"
  with assms(1) have "wp m (\<lambda>_. I) s" by (rule keepsD)
  then have "wp m (\<lambda>a. wp (f a) (\<lambda>_. I)) s"
    by (rule wp_mono) (rule keepsD [OF assms(2)])
  then show "wp (State_Monad.bind m f) (\<lambda>_. I) s" by simp
qed

lemma keeps_if [keeps_rules]: "(b \<Longrightarrow> keeps I m) \<Longrightarrow> (\<not> b \<Longrightarrow> keeps I n) \<Longrightarrow> keeps I (if b then m else n)"
  by simp

lemma keeps_option [keeps_rules]:
  "keeps I m \<Longrightarrow> (\<And>y. x = Some y \<Longrightarrow> keeps I (f y)) \<Longrightarrow> keeps I (case x of None \<Rightarrow> m | Some y \<Rightarrow> f y)"
  by (cases x) auto

lemma keeps_sum [keeps_rules]:
  "(\<And>y. x = Inl y \<Longrightarrow> keeps I (f y)) \<Longrightarrow> (\<And>z. x = Inr z \<Longrightarrow> keeps I (g z)) \<Longrightarrow>
     keeps I (case x of Inl y \<Rightarrow> f y | Inr z \<Rightarrow> g z)"
  by (cases x) auto

lemma keeps_prod [keeps_rules]:
  "(\<And>x y. p = (x, y) \<Longrightarrow> keeps I (f x y)) \<Longrightarrow> keeps I (case p of (x, y) \<Rightarrow> f x y)"
  by (cases p) auto

lemma keeps_conj: "keeps I m \<Longrightarrow> keeps J m \<Longrightarrow> keeps (\<lambda>s. I s \<and> J s) m"
  by (auto simp: keeps_def wp_def split: prod.splits)

subsection \<open>Programs that establish a predicate\<close>

text \<open>\<open>flows I J m\<close>: run from a state in \<open>I\<close>, the program ends in \<open>J\<close>.\<close>

named_theorems flows_rules "programs that lead from one predicate to another"

definition flows :: "('s \<Rightarrow> bool) \<Rightarrow> ('s \<Rightarrow> bool) \<Rightarrow> ('s, 'a) state \<Rightarrow> bool" where
  "flows I J m \<longleftrightarrow> (\<forall>s. I s \<longrightarrow> wp m (\<lambda>_. J) s)"

lemma flowsI: "(\<And>s. I s \<Longrightarrow> wp m (\<lambda>_. J) s) \<Longrightarrow> flows I J m"
  by (simp add: flows_def)

lemma flowsD: "flows I J m \<Longrightarrow> I s \<Longrightarrow> wp m (\<lambda>_. J) s"
  by (simp add: flows_def)

lemma flows_keeps: "flows I I m = keeps I m"
  by (simp add: flows_def keeps_def)

lemma flows_return: "(\<And>s. I s \<Longrightarrow> J s) \<Longrightarrow> flows I J (State_Monad.return a)"
  by (simp add: flows_def)

lemma flows_seq:
  assumes "flows I K m" and "\<And>a. flows K J (f a)"
  shows "flows I J (State_Monad.bind m f)"
proof (rule flowsI)
  fix s assume "I s"
  with assms(1) have "wp m (\<lambda>_. K) s" by (rule flowsD)
  then have "wp m (\<lambda>a. wp (f a) (\<lambda>_. J)) s"
    by (rule wp_mono) (rule flowsD [OF assms(2)])
  then show "wp (State_Monad.bind m f) (\<lambda>_. J) s" by simp
qed

lemma flows_bind: "keeps I m \<Longrightarrow> (\<And>a. flows I J (f a)) \<Longrightarrow> flows I J (State_Monad.bind m f)"
  by (rule flows_seq [where K = I]) (simp_all add: flows_keeps)

lemma flows_if [flows_rules]: "(b \<Longrightarrow> flows I J m) \<Longrightarrow> (\<not> b \<Longrightarrow> flows I J n) \<Longrightarrow> flows I J (if b then m else n)"
  by simp

lemma flows_option [flows_rules]:
  "(x = None \<Longrightarrow> flows I J m) \<Longrightarrow> (\<And>y. x = Some y \<Longrightarrow> flows I J (f y)) \<Longrightarrow>
     flows I J (case x of None \<Rightarrow> m | Some y \<Rightarrow> f y)"
  by (cases x) auto

lemma flows_prod [flows_rules]:
  "(\<And>x y. p = (x, y) \<Longrightarrow> flows I J (f x y)) \<Longrightarrow> flows I J (case p of (x, y) \<Rightarrow> f x y)"
  by (cases p) auto

lemma flows_keep: "keeps I m \<Longrightarrow> (\<And>s. I s \<Longrightarrow> J s) \<Longrightarrow> flows I J m"
  by (auto simp: flows_def keeps_def elim!: wp_mono)

subsection \<open>Programs whose answer has a property\<close>

text \<open>\<open>yields I P m\<close>: run from a state in \<open>I\<close>, the program answers with a value in \<open>P\<close>.\<close>

named_theorems yields_rules "programs that answer with a property"

definition yields :: "('s \<Rightarrow> bool) \<Rightarrow> ('a \<Rightarrow> bool) \<Rightarrow> ('s, 'a) state \<Rightarrow> bool" where
  "yields I P m \<longleftrightarrow> (\<forall>s. I s \<longrightarrow> wp m (\<lambda>a _. P a) s)"

lemma yieldsI: "(\<And>s. I s \<Longrightarrow> wp m (\<lambda>a _. P a) s) \<Longrightarrow> yields I P m"
  by (simp add: yields_def)

lemma yieldsD: "yields I P m \<Longrightarrow> I s \<Longrightarrow> wp m (\<lambda>a _. P a) s"
  by (simp add: yields_def)

lemma yields_run: "yields I P m \<Longrightarrow> I s \<Longrightarrow> P (fst (run_state m s))"
  by (auto simp: yields_def wp_iff_run)

lemma yields_bind:
  assumes "keeps I m" and "\<And>a. yields I P (f a)"
  shows "yields I P (State_Monad.bind m f)"
proof (rule yieldsI)
  fix s assume "I s"
  with assms(1) have "wp m (\<lambda>_. I) s" by (rule keepsD)
  then have "wp m (\<lambda>a. wp (f a) (\<lambda>a _. P a)) s"
    by (rule wp_mono) (rule yieldsD [OF assms(2)])
  then show "wp (State_Monad.bind m f) (\<lambda>a _. P a) s" by simp
qed

lemma yields_if [yields_rules]:
  "(b \<Longrightarrow> yields I P m) \<Longrightarrow> (\<not> b \<Longrightarrow> yields I P n) \<Longrightarrow> yields I P (if b then m else n)"
  by simp

lemma yields_option [yields_rules]:
  "(x = None \<Longrightarrow> yields I P m) \<Longrightarrow> (\<And>y. x = Some y \<Longrightarrow> yields I P (f y)) \<Longrightarrow>
     yields I P (case x of None \<Rightarrow> m | Some y \<Rightarrow> f y)"
  by (cases x) auto

lemma yields_prod [yields_rules]:
  "(\<And>x y. p = (x, y) \<Longrightarrow> yields I P (f x y)) \<Longrightarrow> yields I P (case p of (x, y) \<Rightarrow> f x y)"
  by (cases p) auto

end
