(* ===== verification/Coordinator.thy ===== *)
theory Coordinator
  imports Journal StateHoare
begin

text \<open>
  The mutation coordinator of \<^verbatim>\<open>src/internal/eebusmutation/coordinator.go\<close>: its tables, the
  writer lease, durable state transitions and timers. Every operation is a program of the state
  monad over the coordinator; a call of a dependency (\<open>ask\<close>) passes the world on. A pointer to an
  entry is the reference it is filed under in the table, and an operation that gets one works on the
  entry in the table, so an assignment to a field of \<^verbatim>\<open>entry.mutation\<close> is seen by whoever loads
  that entry later, while readers see the last published copy. The history \<open>c_trace\<close> is not in the
  code: it records the records made durable and the remote writes, in order. Not modelled are the
  contexts (a cancelled call shows up as an error of the dependency it was passed to) and the hook
  \<^verbatim>\<open>CancelInFlight\<close> that \<open>Close\<close> calls for its effect outside.
\<close>

subsection \<open>State\<close>

record rawMutationEntry =
  re_mutation :: MutationV1
  re_published :: "MutationV1 option"
  re_principalHash :: HashV1
  re_durableIdentityHash :: HashV1
  re_durableRequestHash :: HashV1
  re_durableTool :: ToolV1
  re_durable :: bool

definition entry_zero :: rawMutationEntry where
  "entry_zero = \<lparr>re_mutation = mutation_zero, re_published = None, re_principalHash = [],
     re_durableIdentityHash = [], re_durableRequestHash = [], re_durableTool = ToolV1Other [],
     re_durable = False\<rparr>"

definition publish :: "MutationV1 \<Rightarrow> rawMutationEntry \<Rightarrow> rawMutationEntry" where
  "publish m e = e\<lparr>re_published := Some m\<rparr>"

definition snapshot :: "rawMutationEntry \<Rightarrow> MutationV1" where
  "snapshot e = (case re_published e of Some m \<Rightarrow> m | None \<Rightarrow> re_mutation e)"

record rawMutationIdempotencyEntry =
  ie_requestHash :: HashV1
  ie_mutationRef :: string

text \<open>
  The history: a record found in the journal at start, a record made durable, a remote write; the
  flag says whether the writer lease was held.
\<close>

datatype event =
    EvRestored jrecord
  | EvAppend bool jrecord
  | EvWrite bool FeatureTargetV1 TypedValueV1 RuntimeBindingV1

record 'w rawMutationCoordinator =
  c_config :: rawMutationCoordinatorConfig
  c_journal :: rawMutationJournal
  c_entries :: "(string, rawMutationEntry) gomap"
  c_idempotency :: "(HashV1, rawMutationIdempotencyEntry) gomap"
  c_timers :: "(string, gotime) gomap"
  c_writer :: bool
  c_quarantined :: bool
  c_closed :: bool
  c_closeDone :: bool
  c_closeError :: "ErrorV1 option"
  c_world :: 'w
  c_trace :: "event list"

type_synonym 'w coord = "'w rawMutationCoordinator"
type_synonym ('w, 'a) cop = "('w rawMutationCoordinator, 'a) state"
type_synonym outcome = "MutationV1 \<times> ErrorV1 option"

abbreviation ret :: "'a \<Rightarrow> ('w, 'a) cop" where
  "ret \<equiv> State_Monad.return"

definition ask :: "('w \<Rightarrow> 'a \<times> 'w) \<Rightarrow> ('w, 'a) cop" where
  "ask f = State (\<lambda>c. case f (c_world c) of (a, w) \<Rightarrow> (a, c\<lparr>c_world := w\<rparr>))"

definition look :: "('w coord \<Rightarrow> 'a) \<Rightarrow> ('w, 'a) cop" where
  "look f = State (\<lambda>c. (f c, c))"

definition change :: "('w coord \<Rightarrow> 'w coord) \<Rightarrow> ('w, unit) cop" where
  "change f = State (\<lambda>c. ((), f c))"

definition runtimeEpoch :: "'w mdeps \<Rightarrow> 'w coord \<Rightarrow> uint64" where
  "runtimeEpoch deps c = d_RuntimeEpoch deps (c_world c)"

text \<open>Loading an entry through its pointer, and assigning to fields of its mutation.\<close>

definition entry_of :: "string \<Rightarrow> 'w coord \<Rightarrow> rawMutationEntry" where
  "entry_of ref c = (case go_lookup (c_entries c) ref of None \<Rightarrow> entry_zero | Some e \<Rightarrow> e)"

definition mutation_of :: "string \<Rightarrow> 'w coord \<Rightarrow> MutationV1" where
  "mutation_of ref c = re_mutation (entry_of ref c)"

definition edit_entry :: "string \<Rightarrow> (rawMutationEntry \<Rightarrow> rawMutationEntry) \<Rightarrow> ('w, unit) cop" where
  "edit_entry ref f = change (\<lambda>c. c\<lparr>c_entries := AList.map_entry ref f (c_entries c)\<rparr>)"

definition edit :: "string \<Rightarrow> (MutationV1 \<Rightarrow> MutationV1) \<Rightarrow> ('w, unit) cop" where
  "edit ref f = edit_entry ref (\<lambda>e. e\<lparr>re_mutation := f (re_mutation e)\<rparr>)"

text \<open>What most operations return: the mutation of the entry as it now is, with an error.\<close>

definition answer :: "string \<Rightarrow> ErrorV1 option \<Rightarrow> ('w, outcome) cop" where
  "answer ref terminal = do {m \<leftarrow> look (mutation_of ref); ret (m, terminal)}"

definition answer_error :: "string \<Rightarrow> ('w, outcome) cop" where
  "answer_error ref = do {m \<leftarrow> look (mutation_of ref); ret (m, mu_Error m)}"

subsection \<open>States of a mutation\<close>

definition rawMutationStateQuarantinesWrites :: "MutationV1 \<Rightarrow> bool" where
  "rawMutationStateQuarantinesWrites m =
     (if mu_State m = MutationStateV1Conflict then True
      else mu_State m = MutationStateV1OutcomeUnknown \<and> \<not> nilp (mu_Rollback m))"

fun rawMutationStateNeedsRecovery :: "MutationStateV1 \<Rightarrow> bool" where
  "rawMutationStateNeedsRecovery MutationStateV1DispatchIntent = True"
| "rawMutationStateNeedsRecovery MutationStateV1ReplyObserved = True"
| "rawMutationStateNeedsRecovery MutationStateV1VerifyPending = True"
| "rawMutationStateNeedsRecovery MutationStateV1OutcomeUnknown = True"
| "rawMutationStateNeedsRecovery MutationStateV1RollbackIntent = True"
| "rawMutationStateNeedsRecovery MutationStateV1RollbackDispatchIntent = True"
| "rawMutationStateNeedsRecovery MutationStateV1RollbackReplyObserved = True"
| "rawMutationStateNeedsRecovery MutationStateV1RollbackVerifyPending = True"
| "rawMutationStateNeedsRecovery _ = False"

definition terminalForMutation :: "MutationV1 \<Rightarrow> ErrorV1 option" where
  "terminalForMutation m =
     (case mu_State m of
        MutationStateV1Applied \<Rightarrow> None
      | MutationStateV1ProbeActive \<Rightarrow> None
      | MutationStateV1RolledBack \<Rightarrow> None
      | MutationStateV1Prepared \<Rightarrow> None
      | MutationStateV1DispatchIntent \<Rightarrow> None
      | MutationStateV1ReplyObserved \<Rightarrow> None
      | MutationStateV1VerifyPending \<Rightarrow> None
      | MutationStateV1RollbackIntent \<Rightarrow> None
      | MutationStateV1RollbackDispatchIntent \<Rightarrow> None
      | MutationStateV1RollbackReplyObserved \<Rightarrow> None
      | MutationStateV1RollbackVerifyPending \<Rightarrow> None
      | _ \<Rightarrow> mu_Error m)"

subsection \<open>Durable transitions\<close>

definition append_audit :: "golib \<Rightarrow> MutationV1 \<Rightarrow> MutationStateV1 \<Rightarrow> gotime \<Rightarrow> MutationV1 option" where
  "append_audit lib mutation state now =
     (let m = mutation\<lparr>mu_State := state, mu_UpdatedAt := now\<rparr>;
          sequence = of_nat (length (mu_Audit m) + 1);
          previous = (if length (mu_Audit m) \<noteq> 0 then Some (at_TransitionHash (last (mu_Audit m))) else None)
      in (case rawMutationAuditHash lib sequence state now [] previous of
            Inl _ \<Rightarrow> None
          | Inr hash \<Rightarrow>
              Some (m\<lparr>mu_Audit := mu_Audit m @ [\<lparr>at_Sequence = sequence, at_State = state, at_TransitionedAt = now,
                       at_Classification = [], at_PreviousHash = previous, at_TransitionHash = hash\<rparr>]\<rparr>)))"

definition entry_record :: "rawMutationEntry \<Rightarrow> MutationV1 \<Rightarrow> jrecord" where
  "entry_record e m = \<lparr>jr_Contract = [], jr_Sequence = 0, jr_PreviousRecordHash = None, jr_RecordHash = [],
     jr_RuntimeEpoch = rb_RuntimeEpoch (mu_Runtime m), jr_PrincipalHash = re_principalHash e,
     jr_Tool = re_durableTool e, jr_IdentityHash = re_durableIdentityHash e,
     jr_RequestHash = re_durableRequestHash e, jr_Mutation = m\<rparr>"

definition append_record :: "golib \<Rightarrow> 'w mdeps \<Rightarrow> jrecord \<Rightarrow> ('w, bool) cop" where
  "append_record lib deps r = State (\<lambda>c.
     case journal_append lib deps r (c_journal c) (c_world c) of
       (sealed, j, w) \<Rightarrow>
         (\<not> nilp sealed,
          c\<lparr>c_journal := j, c_world := w,
            c_trace := c_trace c @ (case sealed of None \<Rightarrow> [] | Some s \<Rightarrow> [EvAppend (c_writer c) s])\<rparr>))"

text \<open>The critical section of \<open>transition\<close>: publish, file, and recompute the quarantine.\<close>

definition commit_entry :: "string \<Rightarrow> MutationV1 \<Rightarrow> 'w coord \<Rightarrow> 'w coord" where
  "commit_entry ref m c =
     (let e = (entry_of ref c)\<lparr>re_durable := True, re_mutation := m, re_published := Some m\<rparr>;
          entries = go_put (mu_MutationRef m) e (c_entries c)
      in c\<lparr>c_entries := entries,
           c_idempotency := go_put (re_durableIdentityHash e)
             \<lparr>ie_requestHash = re_durableRequestHash e, ie_mutationRef = mu_MutationRef m\<rparr> (c_idempotency c),
           c_quarantined := go_map_any (\<lambda>e. rawMutationStateQuarantinesWrites (snapshot e)) entries\<rparr>)"

definition transition :: "golib \<Rightarrow> 'w mdeps \<Rightarrow> string \<Rightarrow> MutationStateV1 \<Rightarrow> ('w, ErrorV1 option) cop" where
  "transition lib deps ref state = do {
     now \<leftarrow> ask (normalizedNow deps);
     e \<leftarrow> look (entry_of ref);
     (case append_audit lib (re_mutation e) state now of
        None \<Rightarrow> ret (Some internalMutationError)
      | Some m \<Rightarrow> do {
          ok \<leftarrow> append_record lib deps (entry_record e m);
          if \<not> ok then ret (Some internalMutationError)
          else do {
            change (commit_entry ref m);
            crashed \<leftarrow> ask (d_CrashAfterDurable deps state);
            ret (if crashed then Some internalMutationError else None)
          }
        })
   }"

text \<open>The shape of most calls of \<open>transition\<close>: an error returns, with the mutation as it is.\<close>

definition transition_or_return ::
  "golib \<Rightarrow> 'w mdeps \<Rightarrow> string \<Rightarrow> MutationStateV1 \<Rightarrow> ('w, outcome) cop \<Rightarrow> ('w, outcome) cop" where
  "transition_or_return lib deps ref state k = do {
     terminal \<leftarrow> transition lib deps ref state;
     (case terminal of Some e \<Rightarrow> answer ref (Some e) | None \<Rightarrow> k)
   }"

text \<open>The one place a remote write goes out.\<close>

definition full_write ::
  "'w mdeps \<Rightarrow> FeatureTargetV1 \<Rightarrow> TypedValueV1 \<Rightarrow> RuntimeBindingV1 \<Rightarrow>
     ('w, rawMutationWriteResult \<times> ErrorV1 option) cop" where
  "full_write deps target v binding = do {
     change (\<lambda>c. c\<lparr>c_trace := c_trace c @ [EvWrite (c_writer c) target v binding]\<rparr>);
     ask (d_FullWriteIfCurrent deps target v binding)
   }"

subsection \<open>Timers\<close>

definition retryDelay :: "rawMutationCoordinatorConfig \<Rightarrow> int" where
  "retryDelay config =
     (let delay = (if cf_WriterWait config \<le> 0 then 10000000 else cf_WriterWait config)
      in if 1000000000 < delay then 1000000000 else delay)"

definition file_timer :: "string \<Rightarrow> gotime \<Rightarrow> ('w, unit) cop" where
  "file_timer key deadline = change (\<lambda>c.
     if \<not> c_closed c \<and> \<not> c_quarantined c then c\<lparr>c_timers := go_put key deadline (c_timers c)\<rparr> else c)"

definition recovery_key :: "string \<Rightarrow> string" where "recovery_key ref = ''recovery:'' @ ref"
definition probe_key :: "string \<Rightarrow> string" where "probe_key ref = ''probe:'' @ ref"

definition scheduleRecoveryAt :: "string \<Rightarrow> gotime \<Rightarrow> ('w, unit) cop" where
  "scheduleRecoveryAt ref deadline = do {
     e \<leftarrow> look (entry_of ref);
     file_timer (recovery_key (mu_MutationRef (snapshot e))) deadline
   }"

definition scheduleProbeAt :: "string \<Rightarrow> gotime \<Rightarrow> ('w, unit) cop" where
  "scheduleProbeAt ref deadline = do {
     e \<leftarrow> look (entry_of ref);
     file_timer (probe_key (mu_MutationRef (snapshot e))) deadline
   }"

definition scheduleProbe :: "string \<Rightarrow> ('w, unit) cop" where
  "scheduleProbe ref = do {
     e \<leftarrow> look (entry_of ref);
     (case mu_ProbeDeadline (snapshot e) of
        None \<Rightarrow> ret ()
      | Some deadline \<Rightarrow> scheduleProbeAt ref deadline)
   }"

definition cancelProbe :: "string \<Rightarrow> ('w, unit) cop" where
  "cancelProbe ref = change (\<lambda>c. c\<lparr>c_timers := go_delete (probe_key ref) (c_timers c)\<rparr>)"

fun schedule_each :: "(string \<Rightarrow> ('w, unit) cop) \<Rightarrow> string list \<Rightarrow> ('w, unit) cop" where
  "schedule_each f [] = ret ()"
| "schedule_each f (ref # refs) = do {f ref; schedule_each f refs}"

definition entries_where :: "(MutationV1 \<Rightarrow> bool) \<Rightarrow> 'w coord \<Rightarrow> string list" where
  "entries_where P c = map fst (filter (\<lambda>kv. P (snapshot (snd kv))) (c_entries c))"

definition rearmRecovery :: "'w mdeps \<Rightarrow> ('w, unit) cop" where
  "rearmRecovery deps = do {
     refs \<leftarrow> look (\<lambda>c. if c_quarantined c then []
               else entries_where (\<lambda>m. rb_RuntimeEpoch (mu_Runtime m) = runtimeEpoch deps c \<and>
                      rawMutationStateNeedsRecovery (mu_State m)) c);
     schedule_each (\<lambda>ref. do {now \<leftarrow> ask (normalizedNow deps); scheduleRecoveryAt ref now}) refs
   }"

definition rearmProbeTimers :: "'w mdeps \<Rightarrow> ('w, unit) cop" where
  "rearmProbeTimers deps = do {
     refs \<leftarrow> look (\<lambda>c. entries_where (\<lambda>m. rb_RuntimeEpoch (mu_Runtime m) = runtimeEpoch deps c \<and>
                      mu_State m = MutationStateV1ProbeActive \<and> \<not> nilp (mu_ProbeDeadline m)) c);
     schedule_each scheduleProbe refs
   }"

subsection \<open>Restoring the tables from the journal\<close>

definition restore_record :: "golib \<Rightarrow> uint64 \<Rightarrow> jrecord \<Rightarrow> 'w coord \<Rightarrow> 'w coord option" where
  "restore_record lib currentEpoch r c =
     (let m = jr_Mutation r; ref = mu_MutationRef m;
          idem = \<lparr>ie_requestHash = jr_RequestHash r, ie_mutationRef = ref\<rparr> in
      if rb_RuntimeEpoch (mu_Runtime m) \<noteq> jr_RuntimeEpoch r then None
      else if ValidateMutationV1 lib m \<noteq> None then None
      else if jr_RuntimeEpoch r \<noteq> currentEpoch then Some c
      else if (case go_lookup (c_idempotency c) (jr_IdentityHash r) of
                 None \<Rightarrow> False
               | Some previous \<Rightarrow> ie_requestHash previous \<noteq> ie_requestHash idem \<or>
                   ie_mutationRef previous \<noteq> ie_mutationRef idem) then None
      else if (case go_lookup (c_entries c) ref of
                 None \<Rightarrow> False
               | Some e \<Rightarrow> re_principalHash e \<noteq> [] \<and> re_principalHash e \<noteq> jr_PrincipalHash r) then None
      else Some (c\<lparr>c_idempotency := go_put (jr_IdentityHash r) idem (c_idempotency c),
                   c_entries := go_put ref
                     \<lparr>re_mutation = m, re_published = Some m, re_principalHash = jr_PrincipalHash r,
                      re_durableIdentityHash = jr_IdentityHash r, re_durableRequestHash = jr_RequestHash r,
                      re_durableTool = jr_Tool r, re_durable = True\<rparr> (c_entries c),
                   c_trace := c_trace c @ [EvRestored r]\<rparr>))"

fun restore_loop :: "golib \<Rightarrow> uint64 \<Rightarrow> jrecord list \<Rightarrow> 'w coord \<Rightarrow> 'w coord option" where
  "restore_loop lib currentEpoch [] c = Some c"
| "restore_loop lib currentEpoch (r # rs) c =
     (case restore_record lib currentEpoch r c of
        None \<Rightarrow> None
      | Some c1 \<Rightarrow> restore_loop lib currentEpoch rs c1)"

definition restore :: "golib \<Rightarrow> 'w mdeps \<Rightarrow> jrecord list \<Rightarrow> 'w coord \<Rightarrow> 'w coord option" where
  "restore lib deps records c =
     map_option (\<lambda>c1. if go_map_any (\<lambda>e. rawMutationStateQuarantinesWrites (re_mutation e)) (c_entries c1)
                      then c1\<lparr>c_quarantined := True\<rparr> else c1)
       (restore_loop lib (runtimeEpoch deps c) records c)"

definition fresh_coordinator :: "rawMutationCoordinatorConfig \<Rightarrow> rawMutationJournal \<Rightarrow> 'w \<Rightarrow> 'w coord" where
  "fresh_coordinator config j w = \<lparr>c_config = config, c_journal = j, c_entries = [], c_idempotency = [],
     c_timers = [], c_writer = False, c_quarantined = False, c_closed = False, c_closeDone = False,
     c_closeError = None, c_world = w, c_trace = []\<rparr>"

definition newRawMutationCoordinator ::
  "golib \<Rightarrow> jcodec \<Rightarrow> 'w mdeps \<Rightarrow> rawMutationCoordinatorConfig \<Rightarrow> bytes \<Rightarrow> 'w \<Rightarrow> ErrorV1 + 'w coord" where
  "newRawMutationCoordinator lib jc deps config file w =
     (case validateRawMutationConfiguration lib deps config w of
        (Some terminal, w1) \<Rightarrow> Inl terminal
      | (None, w1) \<Rightarrow>
          (case openRawMutationJournal lib jc deps file w1 of
             (None, w2) \<Rightarrow> Inl internalMutationError
           | (Some (j, records), w2) \<Rightarrow>
               (case restore lib deps records (fresh_coordinator config j w2) of
                  None \<Rightarrow> Inl internalMutationError
                | Some c \<Rightarrow>
                    Inr (snd (run_state (do {rearmProbeTimers deps; rearmRecovery deps}) c)))))"

subsection \<open>Reservations and the writer lease\<close>

datatype rawMutationSetAction =
    rawMutationSetInvalid
  | rawMutationSetNew
  | rawMutationSetReplay
  | rawMutationSetInFlight
  | rawMutationSetRecover
  | rawMutationSetVerifyToken

definition take_writer :: "('w, unit) cop" where
  "take_writer = change (\<lambda>c. c\<lparr>c_writer := True\<rparr>)"

definition releaseWriter :: "('w, unit) cop" where
  "releaseWriter = change (\<lambda>c. if c_writer c then c\<lparr>c_writer := False\<rparr> else c)"

text \<open>
  One round of the loop of \<open>acquireInternalWriter\<close>: \<open>Some\<close> its result, or \<open>None\<close> when it waits.
  The wait ends when the holder releases the writer, or at the deadline; which comes first is the
  answer of the world, and the holder's release is its last step.
\<close>

definition acquire_round :: "('w, bool option) cop" where
  "acquire_round = do {
     c \<leftarrow> look id;
     if c_closed c \<or> c_quarantined c then ret (Some False)
     else if \<not> c_writer c then do {take_writer; ret (Some True)}
     else ret None
   }"

definition acquireInternalWriter :: "'w mdeps \<Rightarrow> ('w, bool) cop" where
  "acquireInternalWriter deps = do {
     first \<leftarrow> acquire_round;
     (case first of
        Some b \<Rightarrow> ret b
      | None \<Rightarrow> do {
          released \<leftarrow> ask (d_WriterFinished deps);
          if \<not> released then ret False
          else do {
            releaseWriter;
            second \<leftarrow> acquire_round;
            ret (second = Some True)
          }
        })
   }"

definition newEntry ::
  "golib \<Rightarrow> 'w mdeps \<Rightarrow> HashV1 \<Rightarrow> HashV1 \<Rightarrow> HashV1 \<Rightarrow> ToolV1 \<Rightarrow> FeatureDataSetRequestV1 \<Rightarrow> RuntimeBindingV1 \<Rightarrow>
     TypedValueV1 \<Rightarrow> ('w, rawMutationEntry) cop" where
  "newEntry lib deps principalHash identityHash requestHash tool request runtime before = do {
     now \<leftarrow> ask (normalizedNow deps);
     config \<leftarrow> look c_config;
     ret (entry_zero\<lparr>
       re_mutation := mutation_zero\<lparr>
         mu_MutationRef := rawMutationReference lib (cf_ReferenceKey config) identityHash,
         mu_Mode := sr_Mode request, mu_Target := sr_Target request, mu_Runtime := runtime,
         mu_Before := before, mu_Requested := sr_Value request, mu_CreatedAt := now, mu_UpdatedAt := now,
         mu_ProbeDeadline :=
           (if sr_Mode request = ModeV1Probe
            then Some (time_add now (sint (sr_ProbeTTLSeconds request * 1000000000))) else None)\<rparr>,
       re_principalHash := principalHash, re_durableIdentityHash := identityHash,
       re_durableRequestHash := requestHash, re_durableTool := tool\<rparr>)
   }"

definition adopt_entry :: "rawMutationEntry \<Rightarrow> rawMutationEntry \<Rightarrow> rawMutationEntry" where
  "adopt_entry prepared e =
     (let m = (re_mutation prepared)\<lparr>mu_MutationRef := mu_MutationRef (re_mutation e)\<rparr> in
      publish m (e\<lparr>re_mutation := m, re_principalHash := re_principalHash prepared,
        re_durableIdentityHash := re_durableIdentityHash prepared,
        re_durableRequestHash := re_durableRequestHash prepared, re_durableTool := re_durableTool prepared\<rparr>))"

definition prepareEntry ::
  "golib \<Rightarrow> 'w mdeps \<Rightarrow> string \<Rightarrow> HashV1 \<Rightarrow> HashV1 \<Rightarrow> HashV1 \<Rightarrow> ToolV1 \<Rightarrow> FeatureDataSetRequestV1 \<Rightarrow>
     RuntimeBindingV1 \<Rightarrow> TypedValueV1 \<Rightarrow> ('w, unit) cop" where
  "prepareEntry lib deps ref principalHash identityHash requestHash tool request runtime before = do {
     prepared \<leftarrow> newEntry lib deps principalHash identityHash requestHash tool request runtime before;
     edit_entry ref (adopt_entry prepared)
   }"

definition reserveSet ::
  "golib \<Rightarrow> 'w mdeps \<Rightarrow> HashV1 \<Rightarrow> HashV1 \<Rightarrow> HashV1 \<Rightarrow> FeatureDataSetRequestV1 \<Rightarrow> bool \<Rightarrow>
     ('w, ErrorV1 + (string \<times> rawMutationSetAction)) cop" where
  "reserveSet lib deps principalHash identityHash requestHash request allowNew = do {
     c \<leftarrow> look id;
     if c_closed c then ret (Inl (mutationError ErrorCodeV1Disconnected True))
     else if c_quarantined c then ret (Inl (mutationError ErrorCodeV1Conflict False))
     else (case go_lookup (c_idempotency c) identityHash of
       Some known \<Rightarrow>
         if ie_requestHash known \<noteq> requestHash
         then ret (Inl (mutationError ErrorCodeV1IdempotencyConflict False))
         else (case go_lookup (c_entries c) (ie_mutationRef known) of
           None \<Rightarrow> ret (Inl internalMutationError)
         | Some e \<Rightarrow>
             if c_writer c then ret (Inr (ie_mutationRef known, rawMutationSetInFlight))
             else if rawMutationStateNeedsRecovery (mu_State (snapshot e))
             then do {take_writer; ret (Inr (ie_mutationRef known, rawMutationSetRecover))}
             else ret (Inr (ie_mutationRef known, rawMutationSetReplay)))
     | None \<Rightarrow>
         if \<not> allowNew then ret (Inr ([], rawMutationSetVerifyToken))
         else if c_writer c then ret (Inl (mutationError ErrorCodeV1WriterBusy True))
         else do {
           take_writer;
           e \<leftarrow> newEntry lib deps principalHash identityHash requestHash ToolV1FeaturesDataSet request
                 \<lparr>rb_RuntimeEpoch = runtimeEpoch deps c, rb_ConnectionGeneration = 0\<rparr> value_zero;
           change (\<lambda>c. c\<lparr>
             c_entries := go_put (mu_MutationRef (re_mutation e)) (publish (re_mutation e) e) (c_entries c),
             c_idempotency := go_put identityHash
               \<lparr>ie_requestHash = requestHash, ie_mutationRef = mu_MutationRef (re_mutation e)\<rparr> (c_idempotency c)\<rparr>);
           ret (Inr (mu_MutationRef (re_mutation e), rawMutationSetNew))
         })
   }"

definition releaseUndurableReservation :: "string \<Rightarrow> ('w, unit) cop" where
  "releaseUndurableReservation ref = change (\<lambda>c.
     let e = entry_of ref c; mref = mu_MutationRef (re_mutation e) in
     if re_durable e then c
     else c\<lparr>c_entries := go_delete mref (c_entries c),
            c_idempotency :=
              (case go_lookup (c_idempotency c) (re_durableIdentityHash e) of
                 None \<Rightarrow> c_idempotency c
               | Some known \<Rightarrow>
                   if ie_mutationRef known = mref then go_delete (re_durableIdentityHash e) (c_idempotency c)
                   else c_idempotency c)\<rparr>)"

subsection \<open>Reading and closing\<close>

definition MutationsGetOutcome ::
  "golib \<Rightarrow> 'w mdeps \<Rightarrow> ReadAuthorizationV1 \<Rightarrow> MutationGetRequestV1 \<Rightarrow>
     ('w, MutationV1 \<times> RuntimeBindingV1 option \<times> ErrorV1 option) cop" where
  "MutationsGetOutcome lib deps auth request =
     (let refuse = (\<lambda>e. ret (mutation_zero, None, Some e)) in
      case ValidateReadAuthorizationV1 auth ToolV1MutationsGet of
        Some terminal \<Rightarrow> refuse terminal
      | None \<Rightarrow>
      (case ValidateMutationGetRequestV1 lib request of
        Some terminal \<Rightarrow> refuse terminal
      | None \<Rightarrow>
      (case rawMutationPrincipalHash lib (ra_PrincipalClass auth) of
        Inl _ \<Rightarrow> refuse internalMutationError
      | Inr principalHash \<Rightarrow> do {
          c \<leftarrow> look id;
          if c_closed c then refuse (mutationError ErrorCodeV1Disconnected True)
          else (case go_lookup (c_entries c) (gr_MutationRef request) of
            None \<Rightarrow> refuse (mutationError ErrorCodeV1NotFound False)
          | Some e \<Rightarrow>
              let mutation = snapshot e in
              if re_principalHash e \<noteq> principalHash \<or> rb_RuntimeEpoch (mu_Runtime mutation) \<noteq> runtimeEpoch deps c
              then refuse (mutationError ErrorCodeV1PermissionDenied False)
              else ret (mutation, Some (mu_Runtime mutation), None))
        })))"

definition MutationsGet ::
  "golib \<Rightarrow> 'w mdeps \<Rightarrow> ReadAuthorizationV1 \<Rightarrow> MutationGetRequestV1 \<Rightarrow> ('w, outcome) cop" where
  "MutationsGet lib deps auth request = do {
     r \<leftarrow> MutationsGetOutcome lib deps auth request;
     ret (fst r, snd (snd r))
   }"

definition finish_close :: "ErrorV1 option \<Rightarrow> ('w, ErrorV1 option) cop" where
  "finish_close terminal = do {
     change (\<lambda>c. c\<lparr>c_closeDone := True, c_closeError := terminal\<rparr>);
     ret terminal
   }"

definition Close :: "'w mdeps \<Rightarrow> ('w, ErrorV1 option) cop" where
  "Close deps = do {
     c \<leftarrow> look id;
     if c_closeDone c then ret (c_closeError c)
     else do {
       change (\<lambda>c. c\<lparr>c_closed := True, c_timers := []\<rparr>);
       finished \<leftarrow> (if c_writer c then ask (d_WriterFinished deps) else ret True);
       if \<not> finished then finish_close (Some internalMutationError)
       else do {
         releaseWriter;
         failed \<leftarrow> ask (d_CloseFile deps);
         finish_close (if failed then Some internalMutationError else None)
       }
     }
   }"

end
