(* ===== verification/Execution.thy ===== *)
theory Execution
  imports Coordinator
begin

text \<open>
  \<^verbatim>\<open>src/internal/eebusmutation/execution.go\<close> and the rollback half of the same machine in
  \<^verbatim>\<open>rollback.go\<close>: what the coordinator does with the reply of a write, how it classifies the
  value it reads back, and how it recovers a mutation from its last durable state.
\<close>

subsection \<open>Reading back\<close>

definition readCurrent ::
  "'w mdeps \<Rightarrow> FeatureTargetV1 \<Rightarrow> ('w, rawMutationReadResult \<times> ErrorV1 option) cop" where
  "readCurrent deps target =
     (let readTarget = target\<lparr>ft_Operation := OperationV1Read\<rparr> in do {
        (current, terminal) \<leftarrow> ask (d_CurrentRuntimeBinding deps readTarget);
        if terminal \<noteq> None then ret (read_zero, sanitizeMutationError terminal)
        else ask (d_FullReadIfCurrent deps readTarget current)
      })"

definition read_target_of :: "'w mdeps \<Rightarrow> string \<Rightarrow> ('w, rawMutationReadResult \<times> ErrorV1 option) cop" where
  "read_target_of deps ref = do {m \<leftarrow> look (mutation_of ref); readCurrent deps (mu_Target m)}"

definition readbackIsTrustworthy ::
  "golib \<Rightarrow> uint64 \<Rightarrow> MutationV1 \<Rightarrow> rawMutationReadResult \<Rightarrow> ErrorV1 option \<Rightarrow> bool \<Rightarrow> bool" where
  "readbackIsTrustworthy lib epoch m readback terminal allowGenerationRebind =
     (if terminal \<noteq> None \<or> \<not> rd_Full readback \<or> \<not> rd_Trustworthy readback \<or>
         \<not> Validate lib (rd_Value readback) \<or>
         rb_RuntimeEpoch (rd_Runtime readback) \<noteq> epoch \<or> rb_ConnectionGeneration (rd_Runtime readback) = 0
      then False
      else if \<not> allowGenerationRebind \<and>
              rb_ConnectionGeneration (rd_Runtime readback) \<noteq> rb_ConnectionGeneration (mu_Runtime m)
      then False
      else True)"

definition trustworthy ::
  "golib \<Rightarrow> 'w mdeps \<Rightarrow> string \<Rightarrow> rawMutationReadResult \<Rightarrow> ErrorV1 option \<Rightarrow> bool \<Rightarrow> ('w, bool) cop" where
  "trustworthy lib deps ref readback terminal rebind = look (\<lambda>c.
     readbackIsTrustworthy lib (runtimeEpoch deps c) (mutation_of ref c) readback terminal rebind)"

text \<open>A hash whose error the code drops is the empty string when there is none.\<close>

definition hash_or_empty :: "golib \<Rightarrow> TypedValueV1 \<Rightarrow> HashV1" where
  "hash_or_empty lib v = (case ComputeHash lib v of None \<Rightarrow> [] | Some h \<Rightarrow> h)"

definition with_default :: "ErrorV1 option \<Rightarrow> ErrorV1 \<Rightarrow> ErrorV1" where
  "with_default terminal d = (case sanitizeMutationError terminal of None \<Rightarrow> d | Some e \<Rightarrow> e)"

subsection \<open>Outcomes of the original write\<close>

definition outcome_unknown :: "MutationStateV1 \<Rightarrow> gotime \<Rightarrow> MutationV1 \<Rightarrow> MutationV1" where
  "outcome_unknown lastDurable now m = m\<lparr>
     mu_OutcomeEvidence := Some \<lparr>oe_PossibleSideEffect = True, oe_BlindRetryForbidden = True,
       oe_LastDurableState = lastDurable, oe_RecordedAt = now\<rparr>,
     mu_Error := Some (mutationError ErrorCodeV1OutcomeUnknown False)\<rparr>"

definition persistCorrelatedContradiction ::
  "golib \<Rightarrow> 'w mdeps \<Rightarrow> string \<Rightarrow> TypedValueV1 \<Rightarrow> ('w, outcome) cop" where
  "persistCorrelatedContradiction lib deps ref observed = do {
     now \<leftarrow> ask (normalizedNow deps);
     edit ref (\<lambda>m. outcome_unknown MutationStateV1ReplyObserved now (m\<lparr>
       mu_ObservedAfter := Some observed, mu_ConflictEvidence := None, mu_ApplyVerification := None,
       mu_NoEffectVerification := None, mu_RejectionVerification := None\<rparr>));
     transition_or_return lib deps ref MutationStateV1OutcomeUnknown (answer_error ref)
   }"

definition persistConflict :: "golib \<Rightarrow> 'w mdeps \<Rightarrow> string \<Rightarrow> TypedValueV1 \<Rightarrow> ('w, outcome) cop" where
  "persistConflict lib deps ref observed = do {
     m \<leftarrow> look (mutation_of ref);
     if typedValuesEqual lib observed (mu_Before m) \<or> typedValuesEqual lib observed (mu_Requested m)
     then persistCorrelatedContradiction lib deps ref observed
     else (case (ComputeHash lib (mu_Before m), ComputeHash lib (mu_Requested m), ComputeHash lib observed) of
       (Some beforeHash, Some requestedHash, Some observedHash) \<Rightarrow> do {
         now \<leftarrow> ask (normalizedNow deps);
         edit ref (\<lambda>m. m\<lparr>
           mu_ObservedAfter := Some observed,
           mu_ConflictEvidence := Some \<lparr>ce_Relation = ''observed_after_differs_from_before_and_requested'',
             ce_Verified = True, ce_BeforeHash = beforeHash, ce_RequestedHash = requestedHash,
             ce_ObservedAfterHash = observedHash, ce_VerifiedAt = now\<rparr>,
           mu_ApplyVerification := None, mu_NoEffectVerification := None,
           mu_Error := Some (mutationError ErrorCodeV1Conflict False)\<rparr>);
         transition_or_return lib deps ref MutationStateV1Conflict (answer_error ref)
       }
     | _ \<Rightarrow> answer ref (Some internalMutationError))
   }"

definition persistApplied :: "golib \<Rightarrow> 'w mdeps \<Rightarrow> string \<Rightarrow> TypedValueV1 \<Rightarrow> ('w, outcome) cop" where
  "persistApplied lib deps ref observed =
     (case ComputeHash lib observed of
        None \<Rightarrow> answer ref (Some internalMutationError)
      | Some hash \<Rightarrow> do {
          now \<leftarrow> ask (normalizedNow deps);
          edit ref (\<lambda>m. m\<lparr>
            mu_ObservedAfter := Some observed,
            mu_ApplyVerification := Some \<lparr>av_Relation = ''observed_after_equals_requested'', av_Verified = True,
              av_EqualValueHash = hash, av_VerifiedAt = now\<rparr>,
            mu_ConflictEvidence := None, mu_NoEffectVerification := None, mu_Error := None\<rparr>);
          m \<leftarrow> look (mutation_of ref);
          if mu_Mode m = ModeV1Probe
          then transition_or_return lib deps ref MutationStateV1ProbeActive
                 (do {scheduleProbe ref; answer ref None})
          else transition_or_return lib deps ref MutationStateV1Applied (answer ref None)
        })"

definition resolvePossibleSendReadback ::
  "golib \<Rightarrow> 'w mdeps \<Rightarrow> string \<Rightarrow> rawMutationReadResult \<Rightarrow> ErrorV1 option \<Rightarrow> ('w, outcome) cop" where
  "resolvePossibleSendReadback lib deps ref readback readTerminal = do {
     ok \<leftarrow> trustworthy lib deps ref readback readTerminal True;
     if \<not> ok then do {
       edit ref (\<lambda>m. m\<lparr>mu_Error := Some (mutationError ErrorCodeV1OutcomeUnknown False)\<rparr>);
       answer_error ref
     } else do {
       edit ref (\<lambda>m. m\<lparr>mu_Runtime := rd_Runtime readback, mu_ProtocolAccepted := None,
         mu_ObservedAfter := Some (rd_Value readback)\<rparr>);
       m \<leftarrow> look (mutation_of ref);
       if typedValuesEqual lib (rd_Value readback) (mu_Before m) then do {
         now \<leftarrow> ask (normalizedNow deps);
         edit ref (\<lambda>m. m\<lparr>
           mu_NoEffectVerification := Some \<lparr>nv_Relation = ''observed_after_equals_before'', nv_Verified = True,
             nv_EqualValueHash = hash_or_empty lib (mu_Before m), nv_VerifiedAt = now\<rparr>,
           mu_ApplyVerification := None,
           mu_Error := Some (mutationError ErrorCodeV1NoEffect False)\<rparr>);
         transition_or_return lib deps ref MutationStateV1NoEffect (answer_error ref)
       }
       else if typedValuesEqual lib (rd_Value readback) (mu_Requested m)
       then persistApplied lib deps ref (rd_Value readback)
       else persistConflict lib deps ref (rd_Value readback)
     }
   }"

definition resolveCorrelatedReadback ::
  "golib \<Rightarrow> 'w mdeps \<Rightarrow> string \<Rightarrow> rawMutationReadResult \<Rightarrow> ErrorV1 option \<Rightarrow> ErrorV1 option \<Rightarrow> ('w, outcome) cop" where
  "resolveCorrelatedReadback lib deps ref readback readTerminal writeTerminal = do {
     ok \<leftarrow> trustworthy lib deps ref readback readTerminal False;
     if \<not> ok then do {
       now \<leftarrow> ask (normalizedNow deps);
       edit ref (outcome_unknown MutationStateV1ReplyObserved now);
       transition_or_return lib deps ref MutationStateV1OutcomeUnknown (answer_error ref)
     } else do {
       edit ref (\<lambda>m. m\<lparr>mu_ObservedAfter := Some (rd_Value readback)\<rparr>);
       m \<leftarrow> look (mutation_of ref);
       if mu_ProtocolAccepted m = Some False then
         (if typedValuesEqual lib (rd_Value readback) (mu_Before m) then do {
            now \<leftarrow> ask (normalizedNow deps);
            edit ref (\<lambda>m. m\<lparr>
              mu_RejectionVerification := Some \<lparr>jv_Relation = ''observed_after_equals_before'', jv_Verified = True,
                jv_CorrelatedRejection = True, jv_EqualValueHash = hash_or_empty lib (mu_Before m),
                jv_VerifiedAt = now\<rparr>,
              mu_Error := Some ((with_default writeTerminal (mutationError ErrorCodeV1RemoteError False))
                                  \<lparr>er_Retriable := False\<rparr>)\<rparr>);
            transition_or_return lib deps ref MutationStateV1Rejected (answer_error ref)
          }
          else if typedValuesEqual lib (rd_Value readback) (mu_Requested m)
          then persistCorrelatedContradiction lib deps ref (rd_Value readback)
          else persistConflict lib deps ref (rd_Value readback))
       else if typedValuesEqual lib (rd_Value readback) (mu_Requested m)
       then persistApplied lib deps ref (rd_Value readback)
       else if typedValuesEqual lib (rd_Value readback) (mu_Before m)
       then persistCorrelatedContradiction lib deps ref (rd_Value readback)
       else persistConflict lib deps ref (rd_Value readback)
     }
   }"

definition completeOriginalWrite ::
  "golib \<Rightarrow> 'w mdeps \<Rightarrow> string \<Rightarrow> rawMutationWriteResult \<Rightarrow> ErrorV1 option \<Rightarrow> ('w, outcome) cop" where
  "completeOriginalWrite lib deps ref result writeTerminal =
     (if wr_Correlated result then do {
        edit ref (\<lambda>m. m\<lparr>mu_ProtocolAccepted := Some (wr_Accepted result)\<rparr>);
        transition_or_return lib deps ref MutationStateV1ReplyObserved
          (transition_or_return lib deps ref MutationStateV1VerifyPending (do {
             (readback, terminal) \<leftarrow> read_target_of deps ref;
             resolveCorrelatedReadback lib deps ref readback terminal writeTerminal
           }))
      }
      else if wr_FrameSent result then do {
        now \<leftarrow> ask (normalizedNow deps);
        edit ref (\<lambda>m. outcome_unknown MutationStateV1DispatchIntent now (m\<lparr>mu_ProtocolAccepted := None\<rparr>));
        transition_or_return lib deps ref MutationStateV1OutcomeUnknown (do {
          (readback, terminal) \<leftarrow> read_target_of deps ref;
          resolvePossibleSendReadback lib deps ref readback terminal
        })
      }
      else do {
        now \<leftarrow> ask (normalizedNow deps);
        edit ref (\<lambda>m. m\<lparr>
          mu_Error := Some (with_default writeTerminal (mutationError ErrorCodeV1Disconnected True)),
          mu_NoContactEvidence := Some \<lparr>nc_RemoteFramesSent = 0,
            nc_LastCompletedPhase = ''dispatch_intent_persisted'', nc_VerifiedAt = now\<rparr>\<rparr>);
        transition_or_return lib deps ref MutationStateV1FailedNoContact (answer_error ref)
      })"

subsection \<open>Rolling back\<close>

definition rollback_blank :: "MutationStateV1 \<Rightarrow> TypedValueV1 \<Rightarrow> RollbackV1" where
  "rollback_blank state before = \<lparr>rb_State = state, rb_Before = before, rb_ProtocolAccepted = None,
     rb_ObservedAfter = None, rb_Error = None, rb_Verification = None\<rparr>"

text \<open>The rollback record, made on the spot when there is none, and an assignment through its pointer.\<close>

definition rollback_of :: "MutationV1 \<Rightarrow> RollbackV1" where
  "rollback_of m = (case mu_Rollback m of
     None \<Rightarrow> rollback_blank (MutationStateV1Other []) (mu_Before m) | Some r \<Rightarrow> r)"

definition edit_rollback :: "string \<Rightarrow> (RollbackV1 \<Rightarrow> RollbackV1) \<Rightarrow> ('w, unit) cop" where
  "edit_rollback ref f = edit ref (\<lambda>m. m\<lparr>mu_Rollback := map_option f (mu_Rollback m)\<rparr>)"

definition prepareRollbackUnknown :: "'w mdeps \<Rightarrow> string \<Rightarrow> ('w, unit) cop" where
  "prepareRollbackUnknown deps ref = do {
     now \<leftarrow> ask (normalizedNow deps);
     edit ref (\<lambda>m.
       let lastDurableState =
             (case mu_OutcomeEvidence m of
                Some e \<Rightarrow> if mu_State m = MutationStateV1OutcomeUnknown then oe_LastDurableState e else mu_State m
              | None \<Rightarrow> mu_State m);
           possibleSideEffect = (lastDurableState \<noteq> MutationStateV1RollbackIntent)
       in m\<lparr>mu_Rollback := Some ((rollback_of m)\<lparr>rb_Error := Some (mutationError ErrorCodeV1RollbackFailed False)\<rparr>),
            mu_OutcomeEvidence := Some \<lparr>oe_PossibleSideEffect = possibleSideEffect,
              oe_BlindRetryForbidden = possibleSideEffect, oe_LastDurableState = lastDurableState,
              oe_RecordedAt = now\<rparr>,
            mu_Error := Some (mutationError ErrorCodeV1RollbackFailed False)\<rparr>)
   }"

definition persistRollbackUnknown :: "golib \<Rightarrow> 'w mdeps \<Rightarrow> string \<Rightarrow> ('w, outcome) cop" where
  "persistRollbackUnknown lib deps ref = do {
     e \<leftarrow> look (entry_of ref);
     if mu_State (re_mutation e) = MutationStateV1OutcomeUnknown
     then ret (snapshot e, mu_Error (re_mutation e))
     else do {
       prepareRollbackUnknown deps ref;
       transition_or_return lib deps ref MutationStateV1OutcomeUnknown (answer_error ref)
     }
   }"

definition persistRolledBack ::
  "golib \<Rightarrow> 'w mdeps \<Rightarrow> string \<Rightarrow> TypedValueV1 \<Rightarrow> bool option \<Rightarrow> ('w, outcome) cop" where
  "persistRolledBack lib deps ref observed protocolAccepted =
     (case ComputeHash lib observed of
        None \<Rightarrow> answer ref (Some internalMutationError)
      | Some hash \<Rightarrow> do {
          now \<leftarrow> ask (normalizedNow deps);
          edit ref (\<lambda>m. m\<lparr>
            mu_Rollback := Some ((rollback_of m)\<lparr>
              rb_State := MutationStateV1RolledBack, rb_ProtocolAccepted := protocolAccepted,
              rb_ObservedAfter := Some observed, rb_Error := None,
              rb_Verification := Some \<lparr>rv_Relation = ''rollback_observed_after_equals_before'', rv_Verified = True,
                rv_EqualValueHash = hash, rv_VerifiedAt = now\<rparr>\<rparr>),
            mu_OutcomeEvidence := (if mu_ProtocolAccepted m \<noteq> None then None else mu_OutcomeEvidence m),
            mu_Error := None\<rparr>);
          transition_or_return lib deps ref MutationStateV1RolledBack (do {
            m \<leftarrow> look (mutation_of ref);
            cancelProbe (mu_MutationRef m);
            answer ref None
          })
        })"

definition resolveUncertainRollbackReadback ::
  "golib \<Rightarrow> 'w mdeps \<Rightarrow> string \<Rightarrow> rawMutationReadResult \<Rightarrow> ErrorV1 option \<Rightarrow> ('w, outcome) cop" where
  "resolveUncertainRollbackReadback lib deps ref readback terminal = do {
     ok \<leftarrow> trustworthy lib deps ref readback terminal True;
     if \<not> ok then persistRollbackUnknown lib deps ref
     else do {
       edit ref (\<lambda>m. m\<lparr>mu_Runtime := rd_Runtime readback\<rparr>);
       m \<leftarrow> look (mutation_of ref);
       if typedValuesEqual lib (rd_Value readback) (mu_Before m)
       then persistRolledBack lib deps ref (rd_Value readback) None
       else if typedValuesEqual lib (rd_Value readback) (mu_Requested m)
       then persistRollbackUnknown lib deps ref
       else persistConflict lib deps ref (rd_Value readback)
     }
   }"

text \<open>The readback after a reply to the rollback write was seen.\<close>

definition rollback_reply ::
  "golib \<Rightarrow> 'w mdeps \<Rightarrow> string \<Rightarrow> bool \<Rightarrow> ErrorV1 option \<Rightarrow> ('w, outcome) cop" where
  "rollback_reply lib deps ref accepted writeTerminal = do {
     (readback, terminal) \<leftarrow> read_target_of deps ref;
     ok \<leftarrow> trustworthy lib deps ref readback terminal False;
     m \<leftarrow> look (mutation_of ref);
     if \<not> ok then persistRollbackUnknown lib deps ref
     else if typedValuesEqual lib (rd_Value readback) (mu_Before m) \<and> accepted
     then persistRolledBack lib deps ref (rd_Value readback) (Some accepted)
     else if typedValuesEqual lib (rd_Value readback) (mu_Before m) \<and> \<not> accepted
     then persistRollbackUnknown lib deps ref
     else if typedValuesEqual lib (rd_Value readback) (mu_Requested m) \<and> \<not> accepted
     then do {
       edit_rollback ref (\<lambda>r. r\<lparr>rb_Error :=
         Some (with_default writeTerminal (mutationError ErrorCodeV1RemoteError False))\<rparr>);
       persistRollbackUnknown lib deps ref
     }
     else if typedValuesEqual lib (rd_Value readback) (mu_Requested m) \<and> accepted
     then persistRollbackUnknown lib deps ref
     else persistConflict lib deps ref (rd_Value readback)
   }"

definition completeRollbackWrite ::
  "golib \<Rightarrow> 'w mdeps \<Rightarrow> string \<Rightarrow> rawMutationWriteResult \<Rightarrow> ErrorV1 option \<Rightarrow> ('w, outcome) cop" where
  "completeRollbackWrite lib deps ref result writeTerminal =
     (if wr_Correlated result then do {
        edit_rollback ref (\<lambda>r. r\<lparr>rb_ProtocolAccepted := Some (wr_Accepted result),
          rb_State := MutationStateV1RollbackReplyObserved\<rparr>);
        transition_or_return lib deps ref MutationStateV1RollbackReplyObserved (do {
          edit_rollback ref (\<lambda>r. r\<lparr>rb_State := MutationStateV1RollbackVerifyPending\<rparr>);
          transition_or_return lib deps ref MutationStateV1RollbackVerifyPending
            (rollback_reply lib deps ref (wr_Accepted result) writeTerminal)
        })
      }
      else if wr_FrameSent result then do {
        edit_rollback ref (\<lambda>r. r\<lparr>rb_ProtocolAccepted := None\<rparr>);
        prepareRollbackUnknown deps ref;
        transition_or_return lib deps ref MutationStateV1OutcomeUnknown (do {
          (readback, terminal) \<leftarrow> read_target_of deps ref;
          resolveUncertainRollbackReadback lib deps ref readback terminal
        })
      }
      else do {
        edit_rollback ref (\<lambda>r. r\<lparr>rb_Error :=
          Some (with_default writeTerminal (mutationError ErrorCodeV1Disconnected True))\<rparr>);
        persistRollbackUnknown lib deps ref
      })"

definition continueRollbackFromIntent :: "golib \<Rightarrow> 'w mdeps \<Rightarrow> string \<Rightarrow> ('w, outcome) cop" where
  "continueRollbackFromIntent lib deps ref = do {
     (readback, readTerminal) \<leftarrow> read_target_of deps ref;
     ok \<leftarrow> trustworthy lib deps ref readback readTerminal True;
     if \<not> ok then persistRollbackUnknown lib deps ref
     else do {
       edit ref (\<lambda>m. m\<lparr>mu_Runtime := rd_Runtime readback\<rparr>);
       m \<leftarrow> look (mutation_of ref);
       if typedValuesEqual lib (rd_Value readback) (mu_Before m)
       then persistRolledBack lib deps ref (rd_Value readback) None
       else if \<not> typedValuesEqual lib (rd_Value readback) (mu_Requested m)
       then persistConflict lib deps ref (rd_Value readback)
       else do {
         edit_rollback ref (\<lambda>r. r\<lparr>rb_State := MutationStateV1RollbackDispatchIntent\<rparr>);
         transition_or_return lib deps ref MutationStateV1RollbackDispatchIntent (do {
           m \<leftarrow> look (mutation_of ref);
           (result, writeTerminal) \<leftarrow> full_write deps (mu_Target m) (mu_Before m) (mu_Runtime m);
           completeRollbackWrite lib deps ref result writeTerminal
         })
       }
     }
   }"

definition startRollback :: "golib \<Rightarrow> 'w mdeps \<Rightarrow> string \<Rightarrow> ('w, outcome) cop" where
  "startRollback lib deps ref = do {
     edit ref (\<lambda>m. m\<lparr>mu_Rollback := Some (rollback_blank MutationStateV1RollbackIntent (mu_Before m)),
       mu_Error := None\<rparr>);
     transition_or_return lib deps ref MutationStateV1RollbackIntent
       (continueRollbackFromIntent lib deps ref)
   }"

subsection \<open>Recovery\<close>

definition recover_rollback_reply :: "golib \<Rightarrow> 'w mdeps \<Rightarrow> string \<Rightarrow> ('w, outcome) cop" where
  "recover_rollback_reply lib deps ref = do {
     (readback, terminal) \<leftarrow> read_target_of deps ref;
     ok \<leftarrow> trustworthy lib deps ref readback terminal True;
     m \<leftarrow> look (mutation_of ref);
     if \<not> ok then persistRollbackUnknown lib deps ref
     else if typedValuesEqual lib (rd_Value readback) (mu_Before m)
     then persistRolledBack lib deps ref (rd_Value readback) (rb_ProtocolAccepted (rollback_of m))
     else if typedValuesEqual lib (rd_Value readback) (mu_Requested m) \<and>
             ptr_holds (\<lambda>r. rb_ProtocolAccepted r = Some False) (mu_Rollback m)
     then persistRollbackUnknown lib deps ref
     else persistConflict lib deps ref (rd_Value readback)
   }"

definition answer_terminal :: "string \<Rightarrow> ('w, outcome) cop" where
  "answer_terminal ref = do {m \<leftarrow> look (mutation_of ref); ret (m, terminalForMutation m)}"

definition recoverRollback :: "golib \<Rightarrow> 'w mdeps \<Rightarrow> string \<Rightarrow> ('w, outcome) cop" where
  "recoverRollback lib deps ref = do {
     m \<leftarrow> look (mutation_of ref);
     (case mu_State m of
        MutationStateV1RollbackIntent \<Rightarrow> continueRollbackFromIntent lib deps ref
      | MutationStateV1RollbackDispatchIntent \<Rightarrow> do {
          (readback, terminal) \<leftarrow> read_target_of deps ref;
          resolveUncertainRollbackReadback lib deps ref readback terminal
        }
      | MutationStateV1RollbackReplyObserved \<Rightarrow> recover_rollback_reply lib deps ref
      | MutationStateV1RollbackVerifyPending \<Rightarrow> recover_rollback_reply lib deps ref
      | _ \<Rightarrow> answer_terminal ref)
   }"

definition recover_reply :: "golib \<Rightarrow> 'w mdeps \<Rightarrow> string \<Rightarrow> ('w, outcome) cop" where
  "recover_reply lib deps ref = do {
     (readback, terminal) \<leftarrow> read_target_of deps ref;
     m \<leftarrow> look (mutation_of ref);
     resolveCorrelatedReadback lib deps ref readback terminal (mu_Error m)
   }"

definition recoverEntry :: "golib \<Rightarrow> 'w mdeps \<Rightarrow> string \<Rightarrow> ('w, outcome) cop" where
  "recoverEntry lib deps ref = do {
     m \<leftarrow> look (mutation_of ref);
     (case mu_State m of
        MutationStateV1DispatchIntent \<Rightarrow> do {
          now \<leftarrow> ask (normalizedNow deps);
          edit ref (\<lambda>m. outcome_unknown MutationStateV1DispatchIntent now (m\<lparr>mu_ProtocolAccepted := None\<rparr>));
          transition_or_return lib deps ref MutationStateV1OutcomeUnknown (do {
            (readback, terminal) \<leftarrow> read_target_of deps ref;
            resolvePossibleSendReadback lib deps ref readback terminal
          })
        }
      | MutationStateV1OutcomeUnknown \<Rightarrow> do {
          (readback, terminal) \<leftarrow> read_target_of deps ref;
          m \<leftarrow> look (mutation_of ref);
          if ptr_holds (\<lambda>e. oe_LastDurableState e = MutationStateV1RollbackDispatchIntent) (mu_OutcomeEvidence m)
          then resolveUncertainRollbackReadback lib deps ref readback terminal
          else resolvePossibleSendReadback lib deps ref readback terminal
        }
      | MutationStateV1ReplyObserved \<Rightarrow> recover_reply lib deps ref
      | MutationStateV1VerifyPending \<Rightarrow> recover_reply lib deps ref
      | MutationStateV1RollbackIntent \<Rightarrow> recoverRollback lib deps ref
      | MutationStateV1RollbackDispatchIntent \<Rightarrow> recoverRollback lib deps ref
      | MutationStateV1RollbackReplyObserved \<Rightarrow> recoverRollback lib deps ref
      | MutationStateV1RollbackVerifyPending \<Rightarrow> recoverRollback lib deps ref
      | _ \<Rightarrow> answer_terminal ref)
   }"

end
