(* ===== verification/Handlers.thy ===== *)
theory Handlers
  imports Execution
begin

text \<open>
  The entry points of the coordinator: \<^verbatim>\<open>FeaturesDataSet\<close> of \<^verbatim>\<open>coordinator.go\<close>,
  \<^verbatim>\<open>MutationsRollback\<close> of \<^verbatim>\<open>rollback.go\<close>, and the two timer callbacks. A deferred call of the
  source runs after the body, in the order Go runs them.
\<close>

definition refuse :: "ErrorV1 \<Rightarrow> ('w, outcome) cop" where
  "refuse e = ret (mutation_zero, Some e)"

subsection \<open>Setting a value\<close>

text \<open>
  From the intent to dispatch on: an override that has expired in the meantime is completed as a
  write that sent nothing; otherwise the value goes out.
\<close>

definition dispatch_forward ::
  "golib \<Rightarrow> 'w mdeps \<Rightarrow> string \<Rightarrow> FeatureDataSetRequestV1 \<Rightarrow> RuntimeBindingV1 \<Rightarrow> gotime \<Rightarrow> ('w, outcome) cop" where
  "dispatch_forward lib deps ref request runtime forwardWriteExpiresAt = do {
     expired \<leftarrow> (if IsZero forwardWriteExpiresAt then ret False
                 else do {now \<leftarrow> ask (d_Now deps); ret (\<not> After forwardWriteExpiresAt now)});
     if expired
     then completeOriginalWrite lib deps ref write_zero (Some (mutationError ErrorCodeV1ConstraintsUnknown False))
     else do {
       (writeResult, writeTerminal) \<leftarrow> full_write deps (sr_Target request) (sr_Value request) runtime;
       completeOriginalWrite lib deps ref writeResult writeTerminal
     }
   }"

text \<open>A guard read the executor could not make: the failure itself is made durable.\<close>

definition fail_no_contact ::
  "golib \<Rightarrow> 'w mdeps \<Rightarrow> string \<Rightarrow> HashV1 \<Rightarrow> HashV1 \<Rightarrow> HashV1 \<Rightarrow> FeatureDataSetRequestV1 \<Rightarrow> RuntimeBindingV1 \<Rightarrow>
     ErrorV1 \<Rightarrow> ('w, outcome) cop" where
  "fail_no_contact lib deps ref principalHash identityHash requestHash request runtime terminal = do {
     prepareEntry lib deps ref principalHash identityHash requestHash ToolV1FeaturesDataSet request runtime
       value_zero;
     now \<leftarrow> ask (normalizedNow deps);
     edit ref (\<lambda>m. m\<lparr>mu_Error := sanitizeMutationError (Some terminal),
       mu_NoContactEvidence := Some \<lparr>nc_RemoteFramesSent = 0, nc_LastCompletedPhase = ''read_token_verified'',
         nc_VerifiedAt = now\<rparr>\<rparr>);
     transition_or_return lib deps ref MutationStateV1FailedNoContact (answer_error ref)
   }"

text \<open>When the forward write may be sent at the latest; the zero time stands for no limit.\<close>

definition forward_deadline ::
  "golib \<Rightarrow> 'w mdeps \<Rightarrow> FeatureDataSetRequestV1 \<Rightarrow> HashV1 \<Rightarrow> ('w, gotime option) cop" where
  "forward_deadline lib deps request beforeHash =
     (case sr_ConstraintsOverride request of
        None \<Rightarrow> ret (Some zero_time)
      | Some override \<Rightarrow> do {
          config \<leftarrow> look c_config;
          (profile, matches) \<leftarrow> ask (exactRawMutationLabProfileForHash lib deps config request beforeHash);
          ret (if matches \<noteq> 1 then None
               else Some (if Before (co_ExpiresAt override) (rl_ExpiresAt profile) then co_ExpiresAt override
                          else rl_ExpiresAt profile))
        })"

definition set_reserved ::
  "golib \<Rightarrow> 'w mdeps \<Rightarrow> string \<Rightarrow> HashV1 \<Rightarrow> HashV1 \<Rightarrow> HashV1 \<Rightarrow> FeatureDataSetRequestV1 \<Rightarrow>
     rawMutationReadTokenBinding \<Rightarrow> ('w, outcome) cop" where
  "set_reserved lib deps ref principalHash identityHash requestHash request binding = do {
     deadline \<leftarrow> forward_deadline lib deps request (tb_BeforeImageHash binding);
     (case deadline of
        None \<Rightarrow> refuse (mutationError ErrorCodeV1ConstraintsUnknown False)
      | Some forwardWriteExpiresAt \<Rightarrow> do {
     bound \<leftarrow> ask (validateCurrentRawMutationBinding deps (sr_Target request) (tb_Runtime binding));
     (case bound of
        Some terminal \<Rightarrow> refuse terminal
      | None \<Rightarrow> do {
     consumed \<leftarrow> ask (d_ConsumeReadToken deps (sr_ReadToken request));
     (case sanitizeMutationError consumed of
        Some terminal \<Rightarrow> refuse terminal
      | None \<Rightarrow> do {
     (beforeRead, readTerminal) \<leftarrow> ask (d_FullReadIfCurrent deps
        ((sr_Target request)\<lparr>ft_Operation := OperationV1Read\<rparr>) (tb_Runtime binding));
     (case validateGuardRead lib beforeRead readTerminal binding request of
        Some terminal \<Rightarrow>
          if readTerminal = None then refuse terminal
          else fail_no_contact lib deps ref principalHash identityHash requestHash request (tb_Runtime binding)
                 terminal
      | None \<Rightarrow> do {
     (decision, policyTerminal) \<leftarrow> ask (d_MutationPolicy deps request (rd_Value beforeRead));
     (case sanitizeMutationError policyTerminal of
        Some terminal \<Rightarrow> refuse terminal
      | None \<Rightarrow> do {
     config \<leftarrow> look c_config;
     policy \<leftarrow> ask (validateRawMutationPolicy lib deps config decision request (rd_Value beforeRead));
     (case policy of
        Some terminal \<Rightarrow> refuse terminal
      | None \<Rightarrow> do {
     prepareEntry lib deps ref principalHash identityHash requestHash ToolV1FeaturesDataSet request
       (rd_Runtime beforeRead) (rd_Value beforeRead);
     transition_or_return lib deps ref MutationStateV1Prepared
       (transition_or_return lib deps ref MutationStateV1DispatchIntent
          (dispatch_forward lib deps ref request (rd_Runtime beforeRead) forwardWriteExpiresAt))
     })})})})})})}"

definition answer_snapshot :: "string \<Rightarrow> (MutationV1 \<Rightarrow> ErrorV1 option) \<Rightarrow> ('w, outcome) cop" where
  "answer_snapshot ref f = do {e \<leftarrow> look (entry_of ref); ret (snapshot e, f (snapshot e))}"

definition recover_and_release :: "golib \<Rightarrow> 'w mdeps \<Rightarrow> string \<Rightarrow> ('w, outcome) cop" where
  "recover_and_release lib deps ref = do {r \<leftarrow> recoverEntry lib deps ref; releaseWriter; ret r}"

text \<open>Once the read token has been verified: reserve again, this time for a new mutation.\<close>

definition set_verified ::
  "golib \<Rightarrow> 'w mdeps \<Rightarrow> FeatureDataSetRequestV1 \<Rightarrow> HashV1 \<Rightarrow> HashV1 \<Rightarrow> HashV1 \<Rightarrow> rawMutationReadTokenBinding \<Rightarrow>
     ('w, outcome) cop" where
  "set_verified lib deps request principalHash identityHash requestHash binding = do {
     second \<leftarrow> reserveSet lib deps principalHash identityHash requestHash request True;
     (case second of
        Inl terminal \<Rightarrow> refuse terminal
      | Inr (ref, rawMutationSetReplay) \<Rightarrow> answer_snapshot ref terminalForMutation
      | Inr (ref, rawMutationSetInFlight) \<Rightarrow> answer_snapshot ref (\<lambda>_. None)
      | Inr (ref, rawMutationSetRecover) \<Rightarrow> recover_and_release lib deps ref
      | Inr (ref, rawMutationSetNew) \<Rightarrow> do {
          r \<leftarrow> set_reserved lib deps ref principalHash identityHash requestHash request binding;
          releaseUndurableReservation ref;
          releaseWriter;
          ret r
        }
      | Inr (ref, _) \<Rightarrow> refuse internalMutationError)
   }"

definition set_with_hashes ::
  "golib \<Rightarrow> 'w mdeps \<Rightarrow> WriteAuthorizationV1 \<Rightarrow> FeatureDataSetRequestV1 \<Rightarrow> HashV1 \<Rightarrow> HashV1 \<Rightarrow> HashV1 \<Rightarrow>
     ('w, outcome) cop" where
  "set_with_hashes lib deps auth request principalHash identityHash requestHash = do {
     first \<leftarrow> reserveSet lib deps principalHash identityHash requestHash request False;
     (case first of
        Inl terminal \<Rightarrow> refuse terminal
      | Inr (ref, rawMutationSetReplay) \<Rightarrow> answer_snapshot ref terminalForMutation
      | Inr (ref, rawMutationSetInFlight) \<Rightarrow> answer_snapshot ref (\<lambda>_. None)
      | Inr (ref, rawMutationSetRecover) \<Rightarrow> recover_and_release lib deps ref
      | Inr (ref, rawMutationSetVerifyToken) \<Rightarrow> do {
          verified \<leftarrow> ask (verifyRawMutationReadToken lib deps auth request);
          (case verified of
             Inl terminal \<Rightarrow> refuse terminal
           | Inr binding \<Rightarrow> set_verified lib deps request principalHash identityHash requestHash binding)
        }
      | Inr (ref, _) \<Rightarrow> refuse internalMutationError)
   }"

definition FeaturesDataSet ::
  "golib \<Rightarrow> 'w mdeps \<Rightarrow> WriteAuthorizationV1 \<Rightarrow> FeatureDataSetRequestV1 \<Rightarrow> ('w, outcome) cop" where
  "FeaturesDataSet lib deps auth request =
     (case ValidateWriteAuthorizationV1 auth ToolV1FeaturesDataSet of
        Some terminal \<Rightarrow> refuse terminal
      | None \<Rightarrow>
     (case ValidateFeatureDataSetRequestV1 lib request of
        Some terminal \<Rightarrow> refuse terminal
      | None \<Rightarrow> do {
     c \<leftarrow> look id;
     (case (rawMutationIdentityHash lib (cf_ReferenceKey (c_config c)) (runtimeEpoch deps c)
              (wa_PrincipalClass auth) ToolV1FeaturesDataSet (sr_IdempotencyKey request),
            CanonicalSHA256V1 lib (doc_set_request lib request),
            rawMutationPrincipalHash lib (wa_PrincipalClass auth)) of
        (Inr identityHash, Inr requestHash, Inr principalHash) \<Rightarrow>
          set_with_hashes lib deps auth request principalHash identityHash requestHash
      | _ \<Rightarrow> refuse internalMutationError)
     }))"

subsection \<open>Rolling a mutation back\<close>

text \<open>The entry, whether the answer is a replay, and the runtime binding reported with it.\<close>

definition reserveRollback ::
  "'w mdeps \<Rightarrow> string \<Rightarrow> HashV1 \<Rightarrow> HashV1 \<Rightarrow> HashV1 \<Rightarrow>
     ('w, (string \<times> bool) option \<times> RuntimeBindingV1 option \<times> ErrorV1 option) cop" where
  "reserveRollback deps mutationRef principalHash identityHash requestHash = do {
     c \<leftarrow> look id;
     if c_closed c then ret (None, None, Some (mutationError ErrorCodeV1Disconnected True))
     else if c_quarantined c then ret (None, None, Some (mutationError ErrorCodeV1Conflict False))
     else (case go_lookup (c_idempotency c) identityHash of
       Some known \<Rightarrow>
         if ie_requestHash known \<noteq> requestHash \<or> ie_mutationRef known \<noteq> mutationRef
         then ret (None, None, Some (mutationError ErrorCodeV1IdempotencyConflict False))
         else (case go_lookup (c_entries c) (ie_mutationRef known) of
           None \<Rightarrow> ret (None, None, Some internalMutationError)
         | Some e \<Rightarrow>
             let mutation = snapshot e; runtime = Some (mu_Runtime mutation) in
             if c_writer c then ret (Some (ie_mutationRef known, True), runtime, None)
             else if rawMutationStateNeedsRecovery (mu_State mutation)
             then do {take_writer; ret (Some (ie_mutationRef known, False), runtime, None)}
             else ret (Some (ie_mutationRef known, True), runtime, None))
     | None \<Rightarrow>
         (case go_lookup (c_entries c) mutationRef of
           None \<Rightarrow> ret (None, None, Some (mutationError ErrorCodeV1NotFound False))
         | Some e \<Rightarrow>
             let mutation = snapshot e; runtime = Some (mu_Runtime mutation) in
             if re_principalHash e \<noteq> principalHash \<or> rb_RuntimeEpoch (mu_Runtime mutation) \<noteq> runtimeEpoch deps c
             then ret (None, None, Some (mutationError ErrorCodeV1PermissionDenied False))
             else if c_writer c then ret (None, runtime, Some (mutationError ErrorCodeV1WriterBusy True))
             else do {
               take_writer;
               edit_entry mutationRef (\<lambda>e. e\<lparr>re_durableIdentityHash := identityHash,
                 re_durableRequestHash := requestHash, re_durableTool := ToolV1MutationsRollback\<rparr>);
               ret (Some (mutationRef, False), runtime, None)
             }))
   }"

definition rollback_reserved :: "golib \<Rightarrow> 'w mdeps \<Rightarrow> string \<Rightarrow> ('w, outcome) cop" where
  "rollback_reserved lib deps ref = do {
     e \<leftarrow> look (entry_of ref);
     cancelProbe (mu_MutationRef (snapshot e));
     if re_durableTool e = ToolV1MutationsRollback \<and> rawMutationStateNeedsRecovery (mu_State (snapshot e))
     then recoverEntry lib deps ref
     else startRollback lib deps ref
   }"

definition rollback_with_hashes ::
  "golib \<Rightarrow> 'w mdeps \<Rightarrow> string \<Rightarrow> HashV1 \<Rightarrow> HashV1 \<Rightarrow> HashV1 \<Rightarrow>
     ('w, MutationV1 \<times> RuntimeBindingV1 option \<times> ErrorV1 option) cop" where
  "rollback_with_hashes lib deps mutationRef principalHash identityHash requestHash = do {
     reserved \<leftarrow> reserveRollback deps mutationRef principalHash identityHash requestHash;
     (case reserved of
        (_, runtime, Some terminal) \<Rightarrow> ret (mutation_zero, runtime, Some terminal)
      | (None, runtime, None) \<Rightarrow> ret (mutation_zero, runtime, Some internalMutationError)
      | (Some (ref, True), runtime, None) \<Rightarrow> do {
          e \<leftarrow> look (entry_of ref);
          ret (snapshot e, Some (mu_Runtime (snapshot e)), None)
        }
      | (Some (ref, False), runtime, None) \<Rightarrow> do {
          (mutation, terminal) \<leftarrow> rollback_reserved lib deps ref;
          releaseWriter;
          ret (mutation,
               (if rb_RuntimeEpoch (mu_Runtime mutation) \<noteq> 0 \<and> rb_ConnectionGeneration (mu_Runtime mutation) \<noteq> 0
                then Some (mu_Runtime mutation) else runtime), terminal)
        })
   }"

definition MutationsRollbackOutcome ::
  "golib \<Rightarrow> 'w mdeps \<Rightarrow> WriteAuthorizationV1 \<Rightarrow> MutationRollbackRequestV1 \<Rightarrow>
     ('w, MutationV1 \<times> RuntimeBindingV1 option \<times> ErrorV1 option) cop" where
  "MutationsRollbackOutcome lib deps auth request =
     (case ValidateWriteAuthorizationV1 auth ToolV1MutationsRollback of
        Some terminal \<Rightarrow> ret (mutation_zero, None, Some terminal)
      | None \<Rightarrow>
     (case ValidateMutationRollbackRequestV1 lib request of
        Some terminal \<Rightarrow> ret (mutation_zero, None, Some terminal)
      | None \<Rightarrow> do {
     c \<leftarrow> look id;
     (case (rawMutationIdentityHash lib (cf_ReferenceKey (c_config c)) (runtimeEpoch deps c)
              (wa_PrincipalClass auth) ToolV1MutationsRollback (rr_IdempotencyKey request),
            CanonicalSHA256V1 lib (doc_rollback_request request),
            rawMutationPrincipalHash lib (wa_PrincipalClass auth)) of
        (Inr identityHash, Inr requestHash, Inr principalHash) \<Rightarrow>
          rollback_with_hashes lib deps (rr_MutationRef request) principalHash identityHash requestHash
      | _ \<Rightarrow> ret (mutation_zero, None, Some internalMutationError))
     }))"

definition MutationsRollback ::
  "golib \<Rightarrow> 'w mdeps \<Rightarrow> WriteAuthorizationV1 \<Rightarrow> MutationRollbackRequestV1 \<Rightarrow> ('w, outcome) cop" where
  "MutationsRollback lib deps auth request = do {
     r \<leftarrow> MutationsRollbackOutcome lib deps auth request;
     ret (fst r, snd (snd r))
   }"

subsection \<open>Timer callbacks\<close>

text \<open>Both callbacks have the same shape: the timer, who is eligible, what is done under the lease.\<close>

definition timer_callback ::
  "'w mdeps \<Rightarrow> string \<Rightarrow> (string \<Rightarrow> string) \<Rightarrow> (MutationStateV1 \<Rightarrow> bool) \<Rightarrow> (string \<Rightarrow> gotime \<Rightarrow> ('w, unit) cop) \<Rightarrow>
     (string \<Rightarrow> ('w, outcome) cop) \<Rightarrow> ('w, unit) cop" where
  "timer_callback deps ref key eligible reschedule work = do {
     acquired \<leftarrow> acquireInternalWriter deps;
     if \<not> acquired then do {
       c \<leftarrow> look id;
       if \<not> c_closed c \<and> \<not> c_quarantined c \<and>
          (case go_lookup (c_entries c) ref of None \<Rightarrow> False | Some e \<Rightarrow> eligible (mu_State (snapshot e)))
       then do {
         now \<leftarrow> ask (normalizedNow deps);
         reschedule ref (time_add now (retryDelay (c_config c)))
       }
       else ret ()
     } else do {
       change (\<lambda>c. c\<lparr>c_timers := go_delete (key ref) (c_timers c)\<rparr>);
       c \<leftarrow> look id;
       (if (case go_lookup (c_entries c) ref of None \<Rightarrow> False | Some e \<Rightarrow> eligible (mu_State (snapshot e)))
        then do {work ref; ret ()} else ret ());
       releaseWriter
     }
   }"

definition recovery_callback :: "golib \<Rightarrow> 'w mdeps \<Rightarrow> string \<Rightarrow> ('w, unit) cop" where
  "recovery_callback lib deps ref =
     timer_callback deps ref recovery_key rawMutationStateNeedsRecovery scheduleRecoveryAt (recoverEntry lib deps)"

definition probe_callback :: "golib \<Rightarrow> 'w mdeps \<Rightarrow> string \<Rightarrow> ('w, unit) cop" where
  "probe_callback lib deps ref =
     timer_callback deps ref probe_key (\<lambda>s. s = MutationStateV1ProbeActive) scheduleProbeAt (startRollback lib deps)"

end
