(* ===== verification/WriteAhead.thy ===== *)
theory WriteAhead
  imports Handlers
begin

text \<open>
  What every run of the coordinator keeps true: the tables are well formed, readers see durable
  states only, the quarantine flag is exact, records and remote writes happen under the writer
  lease, and a remote write directly follows the durable record that announces it. The laws an
  invariant has to satisfy for one entry are a locale; the execution and recovery programs are
  shown to preserve such an invariant once, inside the locale.
\<close>

subsection \<open>The primitive steps\<close>

lemma wp_ask [simp]: "wp (ask f) Q = (\<lambda>c. case f (c_world c) of (a, w) \<Rightarrow> Q a (c\<lparr>c_world := w\<rparr>))"
  by (simp add: fun_eq_iff ask_def wp_State split: prod.splits)

lemma wp_look [simp]: "wp (look f) Q = (\<lambda>c. Q (f c) c)"
  by (simp add: fun_eq_iff look_def wp_State)

lemma wp_change [simp]: "wp (change f) Q = (\<lambda>c. Q () (f c))"
  by (simp add: fun_eq_iff change_def wp_State)

lemma keeps_look [keeps_rules]: "keeps I (look f)"
  by (simp add: keeps_def)

lemma lookup_map_entry [simp]:
  "go_lookup (AList.map_entry k f m) k' = (if k' = k then map_option f (go_lookup m k') else go_lookup m k')"
  by (induction m) auto

lemma go_map_ok_map_entry [simp]: "go_map_ok (AList.map_entry k f m) = go_map_ok m"
proof -
  have "map fst (AList.map_entry k f m) = map fst m"
    by (induction m) auto
  then show ?thesis by (simp add: go_map_ok_def)
qed

definition edit_state :: "string \<Rightarrow> (MutationV1 \<Rightarrow> MutationV1) \<Rightarrow> 'w coord \<Rightarrow> 'w coord" where
  "edit_state ref f c =
     c\<lparr>c_entries := AList.map_entry ref (\<lambda>e. e\<lparr>re_mutation := f (re_mutation e)\<rparr>) (c_entries c)\<rparr>"

lemma wp_edit [simp]: "wp (edit ref f) Q = (\<lambda>c. Q () (edit_state ref f c))"
  by (simp add: fun_eq_iff edit_def edit_entry_def edit_state_def)

text \<open>An edit that leaves the identity of the mutation and its history alone.\<close>

definition frame :: "(MutationV1 \<Rightarrow> MutationV1) \<Rightarrow> bool" where
  "frame f \<longleftrightarrow> (\<forall>m. mu_MutationRef (f m) = mu_MutationRef m \<and> mu_State (f m) = mu_State m \<and>
     mu_Mode (f m) = mu_Mode m \<and> mu_Target (f m) = mu_Target m \<and> mu_Before (f m) = mu_Before m \<and>
     mu_Requested (f m) = mu_Requested m \<and> mu_CreatedAt (f m) = mu_CreatedAt m \<and>
     mu_ProbeDeadline (f m) = mu_ProbeDeadline m \<and> mu_Audit (f m) = mu_Audit m)"

lemma append_audit_sel:
  assumes "append_audit lib m0 st now = Some m"
  shows "mu_MutationRef m = mu_MutationRef m0" "mu_State m = st" "mu_Target m = mu_Target m0"
    "mu_Before m = mu_Before m0" "mu_Requested m = mu_Requested m0" "mu_Runtime m = mu_Runtime m0"
    "mu_Rollback m = mu_Rollback m0" "mu_UpdatedAt m = now" "mu_Mode m = mu_Mode m0"
    "mu_OutcomeEvidence m = mu_OutcomeEvidence m0" "mu_Error m = mu_Error m0"
  using assms by (auto simp: append_audit_def Let_def split: sum.splits)

subsection \<open>What a transition does\<close>

lemma seal_record_mutation: "seal_record lib j r = Some s \<Longrightarrow> jr_Mutation s = jr_Mutation r"
  by (auto simp: seal_record_def Let_def split: sum.splits)

lemma journal_append_mutation: "journal_append lib deps r j w = (Some s, j', w') \<Longrightarrow> jr_Mutation s = jr_Mutation r"
  by (auto simp: journal_append_def Let_def seal_record_mutation split: if_splits option.splits prod.splits)

lemma wp_append_record:
  assumes "\<And>j w. Q False (c\<lparr>c_journal := j, c_world := w\<rparr>)"
    and "\<And>j w s. jr_Mutation s = jr_Mutation r \<Longrightarrow>
           Q True (c\<lparr>c_journal := j, c_world := w, c_trace := c_trace c @ [EvAppend (c_writer c) s]\<rparr>)"
  shows "wp (append_record lib deps r) Q c"
proof -
  obtain sealed j w where run: "journal_append lib deps r (c_journal c) (c_world c) = (sealed, j, w)"
    by (metis prod_cases3)
  have frame: "c\<lparr>c_journal := j, c_world := w, c_trace := c_trace c\<rparr> = c\<lparr>c_journal := j, c_world := w\<rparr>"
    by simp
  show ?thesis
  proof (cases sealed)
    case None
    with run assms(1) [where j = j and w = w] show ?thesis
      by (simp add: append_record_def wp_State)
  next
    case (Some s)
    with run have "jr_Mutation s = jr_Mutation r" by (simp add: journal_append_mutation)
    with run Some assms(2) [where s = s and j = j and w = w] show ?thesis
      by (simp add: append_record_def wp_State)
  qed
qed

text \<open>
  Either nothing was made durable and the tables are untouched, or exactly one record was, it holds
  the mutation with one more audit entry, and it is committed to the tables.
\<close>

lemma wp_transition:
  assumes failed: "\<And>j w. Q (Some internalMutationError) (c\<lparr>c_journal := j, c_world := w\<rparr>)"
    and durable: "\<And>t j w s m now. append_audit lib (mutation_of ref c) st now = Some m \<Longrightarrow> jr_Mutation s = m \<Longrightarrow>
        t = None \<or> t = Some internalMutationError \<Longrightarrow>
        Q t (commit_entry ref m (c\<lparr>c_journal := j, c_world := w,
               c_trace := c_trace c @ [EvAppend (c_writer c) s]\<rparr>))"
  shows "wp (transition lib deps ref st) Q c"
proof -
  obtain now w1 where now: "normalizedNow deps (c_world c) = (now, w1)" by fastforce
  define c1 where "c1 = c\<lparr>c_world := w1\<rparr>"
  have sel: "entry_of ref c1 = entry_of ref c" "c_trace c1 = c_trace c" "c_writer c1 = c_writer c"
    by (simp_all add: c1_def entry_of_def)
  have failed1: "Q (Some internalMutationError) (c1\<lparr>c_journal := j, c_world := w\<rparr>)" for j w
    using failed [where j = j and w = w] by (simp add: c1_def)
  show ?thesis
  proof (cases "append_audit lib (mutation_of ref c) st now")
    case None
    have "Q (Some internalMutationError) c1"
      using failed1 [where j = "c_journal c1" and w = "c_world c1"] by simp
    with None now show ?thesis
      by (simp add: transition_def mutation_of_def sel flip: c1_def)
  next
    case (Some m)
    have commit: "Q t (commit_entry ref m (c1\<lparr>c_journal := j, c_world := w,
        c_trace := c_trace c @ [EvAppend (c_writer c) s]\<rparr>)\<lparr>c_world := w'\<rparr>)"
      if "jr_Mutation s = m" "t = None \<or> t = Some internalMutationError" for t j w w' s
    proof -
      have eq: "(commit_entry ref m (c1\<lparr>c_journal := j, c_world := w,
            c_trace := c_trace c @ [EvAppend (c_writer c) s]\<rparr>))\<lparr>c_world := w'\<rparr> =
          commit_entry ref m (c\<lparr>c_journal := j, c_world := w', c_trace := c_trace c @ [EvAppend (c_writer c) s]\<rparr>)"
        by (simp add: commit_entry_def c1_def Let_def entry_of_def)
      show ?thesis unfolding eq by (rule durable [OF Some that])
    qed
    have "wp (append_record lib deps (entry_record (entry_of ref c1) m))
        (\<lambda>ok. wp (if \<not> ok then ret (Some internalMutationError)
           else do {change (commit_entry ref m); crashed \<leftarrow> ask (d_CrashAfterDurable deps st);
                    ret (if crashed then Some internalMutationError else None)}) Q) c1"
      by (rule wp_append_record)
        (auto simp: failed1 sel entry_record_def commit split: prod.splits)
    with Some now show ?thesis
      by (simp add: transition_def mutation_of_def sel flip: c1_def)
  qed
qed


lemma commit_entry_sel [simp]:
  "c_trace (commit_entry ref m c) = c_trace c" "c_writer (commit_entry ref m c) = c_writer c"
  "c_closed (commit_entry ref m c) = c_closed c" "c_world (commit_entry ref m c) = c_world c"
  "c_config (commit_entry ref m c) = c_config c" "c_timers (commit_entry ref m c) = c_timers c"
  "c_journal (commit_entry ref m c) = c_journal c"
  by (simp_all add: commit_entry_def Let_def)

lemma edit_state_sel [simp]:
  "c_trace (edit_state ref f c) = c_trace c" "c_writer (edit_state ref f c) = c_writer c"
  "c_closed (edit_state ref f c) = c_closed c" "c_world (edit_state ref f c) = c_world c"
  "c_config (edit_state ref f c) = c_config c" "c_timers (edit_state ref f c) = c_timers c"
  "c_quarantined (edit_state ref f c) = c_quarantined c" "c_idempotency (edit_state ref f c) = c_idempotency c"
  by (simp_all add: edit_state_def)

text \<open>The entry is in the table under its own reference.\<close>

definition filed :: "string \<Rightarrow> 'w coord \<Rightarrow> bool" where
  "filed ref c \<longleftrightarrow> (\<exists>e. go_lookup (c_entries c) ref = Some e \<and> mu_MutationRef (re_mutation e) = ref)"

lemma filed_edit: "filed ref c \<Longrightarrow> frame f \<Longrightarrow> filed ref (edit_state ref f c)"
  by (auto simp: filed_def edit_state_def frame_def)

lemma mutation_of_edit: "filed ref c \<Longrightarrow> mutation_of ref (edit_state ref f c) = f (mutation_of ref c)"
  by (auto simp: filed_def edit_state_def mutation_of_def entry_of_def)

lemma filed_ref: "filed ref c \<Longrightarrow> mu_MutationRef (mutation_of ref c) = ref"
  by (auto simp: filed_def mutation_of_def entry_of_def)

lemma commit_lookup:
  "go_lookup (c_entries (commit_entry ref m c)) k =
     (if k = mu_MutationRef m
      then Some ((entry_of ref c)\<lparr>re_durable := True, re_mutation := m, re_published := Some m\<rparr>)
      else go_lookup (c_entries c) k)"
  by (simp add: commit_entry_def Let_def)

lemma mutation_of_commit: "mu_MutationRef m = ref \<Longrightarrow> mutation_of ref (commit_entry ref m c) = m"
  by (simp add: mutation_of_def entry_of_def [of _ "commit_entry _ _ _"] commit_lookup)

lemma filed_commit: "mu_MutationRef m = ref \<Longrightarrow> filed ref (commit_entry ref m c)"
  by (simp add: filed_def commit_lookup)

lemma filed_frame [simp]:
  "filed ref (c\<lparr>c_journal := j\<rparr>) = filed ref c" "filed ref (c\<lparr>c_world := w\<rparr>) = filed ref c"
  "filed ref (c\<lparr>c_trace := t\<rparr>) = filed ref c" "filed ref (c\<lparr>c_timers := ts\<rparr>) = filed ref c"
  "filed ref (c\<lparr>c_writer := b\<rparr>) = filed ref c"
  by (simp_all add: filed_def)

lemma mutation_of_frame [simp]:
  "mutation_of ref (c\<lparr>c_journal := j\<rparr>) = mutation_of ref c" "mutation_of ref (c\<lparr>c_world := w\<rparr>) = mutation_of ref c"
  "mutation_of ref (c\<lparr>c_trace := t\<rparr>) = mutation_of ref c" "mutation_of ref (c\<lparr>c_timers := ts\<rparr>) = mutation_of ref c"
  "mutation_of ref (c\<lparr>c_writer := b\<rparr>) = mutation_of ref c"
  by (simp_all add: mutation_of_def entry_of_def)

text \<open>A branch on the state of a mutation.\<close>

lemma keeps_state_case [keeps_rules]:
  assumes "keeps I p" "keeps I di" "keeps I ro" "keeps I vp" "keeps I a" "keeps I pa" "keeps I ri" "keeps I rdi"
    "keeps I rro" "keeps I rvp" "keeps I rb" "keeps I ou" "keeps I co" "keeps I fn" "keeps I rj" "keeps I ne"
    "\<And>x. keeps I (ot x)"
  shows "keeps I (case st of MutationStateV1Prepared \<Rightarrow> p | MutationStateV1DispatchIntent \<Rightarrow> di
    | MutationStateV1ReplyObserved \<Rightarrow> ro | MutationStateV1VerifyPending \<Rightarrow> vp | MutationStateV1Applied \<Rightarrow> a
    | MutationStateV1ProbeActive \<Rightarrow> pa | MutationStateV1RollbackIntent \<Rightarrow> ri
    | MutationStateV1RollbackDispatchIntent \<Rightarrow> rdi | MutationStateV1RollbackReplyObserved \<Rightarrow> rro
    | MutationStateV1RollbackVerifyPending \<Rightarrow> rvp | MutationStateV1RolledBack \<Rightarrow> rb
    | MutationStateV1OutcomeUnknown \<Rightarrow> ou | MutationStateV1Conflict \<Rightarrow> co | MutationStateV1FailedNoContact \<Rightarrow> fn
    | MutationStateV1Rejected \<Rightarrow> rj | MutationStateV1NoEffect \<Rightarrow> ne | MutationStateV1Other x \<Rightarrow> ot x)"
  using assms by (cases st) simp_all

text \<open>The edits of the execution programs are frames.\<close>

lemma frame_outcome_unknown: "frame f \<Longrightarrow> frame (\<lambda>m. outcome_unknown st now (f m))"
  by (simp add: frame_def outcome_unknown_def)

subsection \<open>Invariants of one entry's execution\<close>

text \<open>
  The laws: an invariant that holds of a filed entry does not depend on the world, the journal
  handle or the timers, survives edits of the entry's evidence, and survives the commit of a record
  that extends the entry's audit trail.
\<close>

locale entry_invariant =
  fixes lib :: golib and deps :: "'w mdeps" and ref :: string and I :: "'w coord \<Rightarrow> bool"
  assumes filed: "I c \<Longrightarrow> filed ref c"
    and world: "I c \<Longrightarrow> I (c\<lparr>c_world := w\<rparr>)"
    and journal: "I c \<Longrightarrow> I (c\<lparr>c_journal := j\<rparr>)"
    and timers: "I c \<Longrightarrow> I (c\<lparr>c_timers := t\<rparr>)"
    and edits: "I c \<Longrightarrow> frame f \<Longrightarrow> I (edit_state ref f c)"
    and commit: "I c \<Longrightarrow> append_audit lib (mutation_of ref c) st now = Some m \<Longrightarrow> jr_Mutation s = m \<Longrightarrow>
      I (commit_entry ref m (c\<lparr>c_trace := c_trace c @ [EvAppend (c_writer c) s]\<rparr>))"
begin

lemma journal_world: "I c \<Longrightarrow> I (c\<lparr>c_journal := j, c_world := w\<rparr>)"
  using journal world by blast

lemma committed:
  assumes "I c" "append_audit lib (mutation_of ref c) st now = Some m" "jr_Mutation s = m"
  shows "I (commit_entry ref m (c\<lparr>c_journal := j, c_world := w, c_trace := c_trace c @ [EvAppend (c_writer c) s]\<rparr>))"
  using commit [OF journal_world [OF assms(1)], where st = st and now = now and m = m and s = s] assms(2,3)
  by simp

lemma keeps_ask [keeps_rules]: "keeps I (ask f)"
  by (auto simp: keeps_def world split: prod.splits)

lemma keeps_edit [keeps_rules]: "frame f \<Longrightarrow> keeps I (edit ref f)"
  by (simp add: keeps_def edits)

lemma keeps_file_timer [keeps_rules]: "keeps I (file_timer key deadline)"
  by (simp add: keeps_def file_timer_def timers)

lemma keeps_cancelProbe [keeps_rules]: "keeps I (cancelProbe k)"
  by (simp add: keeps_def cancelProbe_def timers)

lemma keeps_transition [keeps_rules]: "keeps I (transition lib deps ref st)"
proof (rule keepsI)
  fix c assume "I c"
  then show "wp (transition lib deps ref st) (\<lambda>_. I) c"
    by (intro wp_transition) (auto intro: journal_world committed)
qed

lemma keeps_transition_or_return [keeps_rules]: "keeps I k \<Longrightarrow> keeps I (transition_or_return lib deps ref st k)"
  unfolding transition_or_return_def answer_def by (intro keeps_rules)

lemma keeps_answer [keeps_rules]: "keeps I (answer ref t)" "keeps I (answer_error ref)" "keeps I (answer_terminal ref)"
  unfolding answer_def answer_error_def answer_terminal_def by (intro keeps_rules)+

lemma keeps_scheduleProbe [keeps_rules]: "keeps I (scheduleProbe ref)"
  unfolding scheduleProbe_def scheduleProbeAt_def by (intro keeps_rules)

lemma keeps_readCurrent [keeps_rules]: "keeps I (readCurrent deps target)"
  unfolding readCurrent_def Let_def by (intro keeps_rules)

lemma keeps_read_target_of [keeps_rules]: "keeps I (read_target_of deps ref)"
  unfolding read_target_of_def by (intro keeps_rules)

lemma keeps_trustworthy [keeps_rules]: "keeps I (trustworthy lib deps ref rb t b)"
  unfolding trustworthy_def by (intro keeps_rules)

lemma keeps_edit_rollback [keeps_rules]: "keeps I (edit_rollback ref f)"
  unfolding edit_rollback_def by (intro keeps_rules) (simp add: frame_def)

lemma keeps_persistCorrelatedContradiction [keeps_rules]: "keeps I (persistCorrelatedContradiction lib deps ref v)"
  unfolding persistCorrelatedContradiction_def by (intro keeps_rules) (simp add: frame_def outcome_unknown_def)

lemma keeps_persistConflict [keeps_rules]: "keeps I (persistConflict lib deps ref v)"
  unfolding persistConflict_def by (intro keeps_rules) (simp_all add: frame_def)

lemma keeps_persistApplied [keeps_rules]: "keeps I (persistApplied lib deps ref v)"
  unfolding persistApplied_def by (intro keeps_rules) (simp_all add: frame_def)

lemma keeps_resolvePossibleSendReadback [keeps_rules]: "keeps I (resolvePossibleSendReadback lib deps ref rb t)"
  unfolding resolvePossibleSendReadback_def by (intro keeps_rules) (simp_all add: frame_def)

lemma keeps_resolveCorrelatedReadback [keeps_rules]: "keeps I (resolveCorrelatedReadback lib deps ref rb t wt)"
  unfolding resolveCorrelatedReadback_def by (intro keeps_rules) (simp_all add: frame_def outcome_unknown_def)

lemma keeps_completeOriginalWrite [keeps_rules]: "keeps I (completeOriginalWrite lib deps ref result wt)"
  unfolding completeOriginalWrite_def by (intro keeps_rules) (simp_all add: frame_def outcome_unknown_def)

lemma keeps_prepareRollbackUnknown [keeps_rules]: "keeps I (prepareRollbackUnknown deps ref)"
  unfolding prepareRollbackUnknown_def by (intro keeps_rules) (simp_all add: frame_def Let_def)

lemma keeps_persistRollbackUnknown [keeps_rules]: "keeps I (persistRollbackUnknown lib deps ref)"
  unfolding persistRollbackUnknown_def by (intro keeps_rules)

lemma keeps_persistRolledBack [keeps_rules]: "keeps I (persistRolledBack lib deps ref v pa)"
  unfolding persistRolledBack_def by (intro keeps_rules) (simp_all add: frame_def)

lemma keeps_resolveUncertainRollbackReadback [keeps_rules]:
  "keeps I (resolveUncertainRollbackReadback lib deps ref rb t)"
  unfolding resolveUncertainRollbackReadback_def by (intro keeps_rules) (simp_all add: frame_def)

lemma keeps_rollback_reply [keeps_rules]: "keeps I (rollback_reply lib deps ref accepted wt)"
  unfolding rollback_reply_def by (intro keeps_rules)

lemma keeps_completeRollbackWrite [keeps_rules]: "keeps I (completeRollbackWrite lib deps ref result wt)"
  unfolding completeRollbackWrite_def by (intro keeps_rules)

lemma keeps_recover_rollback_reply [keeps_rules]: "keeps I (recover_rollback_reply lib deps ref)"
  unfolding recover_rollback_reply_def by (intro keeps_rules)

lemma keeps_recover_reply [keeps_rules]: "keeps I (recover_reply lib deps ref)"
  unfolding recover_reply_def by (intro keeps_rules)

text \<open>Recovery from any durable state but the intent to roll back sends nothing.\<close>

lemma recoverEntry_silent:
  assumes "I c" "mu_State (mutation_of ref c) \<noteq> MutationStateV1RollbackIntent"
  shows "wp (recoverEntry lib deps ref) (\<lambda>_. I) c"
proof -
  have "keeps I (do {
      now \<leftarrow> ask (normalizedNow deps);
      edit ref (\<lambda>m. outcome_unknown MutationStateV1DispatchIntent now (m\<lparr>mu_ProtocolAccepted := None\<rparr>));
      transition_or_return lib deps ref MutationStateV1OutcomeUnknown (do {
        (readback, terminal) \<leftarrow> read_target_of deps ref;
        resolvePossibleSendReadback lib deps ref readback terminal
      })})"
    by (intro keeps_rules) (simp add: frame_def outcome_unknown_def)
  moreover have "keeps I (do {
      (readback, terminal) \<leftarrow> read_target_of deps ref;
      m \<leftarrow> look (mutation_of ref);
      if ptr_holds (\<lambda>e. oe_LastDurableState e = MutationStateV1RollbackDispatchIntent) (mu_OutcomeEvidence m)
      then resolveUncertainRollbackReadback lib deps ref readback terminal
      else resolvePossibleSendReadback lib deps ref readback terminal})"
    by (intro keeps_rules)
  moreover have "keeps I (do {
      (readback, terminal) \<leftarrow> read_target_of deps ref;
      resolveUncertainRollbackReadback lib deps ref readback terminal})"
    by (intro keeps_rules)
  ultimately show ?thesis
    using assms keeps_recover_reply keeps_recover_rollback_reply keeps_answer(3)
    unfolding recoverEntry_def recoverRollback_def wp_bind wp_look
    by (cases "mu_State (mutation_of ref c)") (simp_all add: keeps_def)
qed

end

text \<open>
  For an invariant that also survives a rollback write right after the record that announces it,
  every program of the entry preserves it.
\<close>

locale execution_invariant = entry_invariant lib deps ref I
  for lib :: golib and deps :: "'w mdeps" and ref :: string and I :: "'w coord \<Rightarrow> bool" +
  assumes rollback_write: "I c \<Longrightarrow> c_trace c \<noteq> [] \<Longrightarrow> last (c_trace c) = EvAppend h s \<Longrightarrow>
      jr_Mutation s = mutation_of ref c \<Longrightarrow> mu_State (mutation_of ref c) = MutationStateV1RollbackDispatchIntent \<Longrightarrow>
      I (c\<lparr>c_trace := c_trace c @ [EvWrite (c_writer c) (mu_Target (mutation_of ref c)) (mu_Before (mutation_of ref c))
                                     (mu_Runtime (mutation_of ref c))]\<rparr>)"
begin

text \<open>The rollback write, reached only after its record is durable.\<close>

lemma keeps_rollback_dispatch [keeps_rules]:
  "keeps I (transition_or_return lib deps ref MutationStateV1RollbackDispatchIntent (do {
     m \<leftarrow> look (mutation_of ref);
     (result, writeTerminal) \<leftarrow> full_write deps (mu_Target m) (mu_Before m) (mu_Runtime m);
     completeRollbackWrite lib deps ref result writeTerminal
   }))" (is "keeps I (transition_or_return lib deps ref _ ?k)")
proof (rule keepsI)
  fix c assume I: "I c"
  let ?Q = "\<lambda>t c'. I c' \<and> (t = None \<longrightarrow> (\<exists>h s. c_trace c' \<noteq> [] \<and> last (c_trace c') = EvAppend h s \<and>
    jr_Mutation s = mutation_of ref c' \<and>
    mu_State (mutation_of ref c') = MutationStateV1RollbackDispatchIntent))"
  have "wp (transition lib deps ref MutationStateV1RollbackDispatchIntent) ?Q c"
  proof (rule wp_transition)
    fix t j w m now and s :: jrecord
    assume m: "append_audit lib (mutation_of ref c) MutationStateV1RollbackDispatchIntent now = Some m"
      and s: "jr_Mutation s = m"
    have "mu_MutationRef m = ref"
      using append_audit_sel(1) [OF m] filed_ref [OF filed [OF I]] by simp
    then show "?Q t (commit_entry ref m (c\<lparr>c_journal := j, c_world := w,
        c_trace := c_trace c @ [EvAppend (c_writer c) s]\<rparr>))"
      using committed [OF I m s] s append_audit_sel(2) [OF m] by (simp add: mutation_of_commit)
  qed (simp add: I journal_world)
  moreover have "wp ?k (\<lambda>_. I) c'" if "?Q None c'" for c'
  proof -
    from that obtain h s where s: "I c'" "c_trace c' \<noteq> []" "last (c_trace c') = EvAppend h s"
      "jr_Mutation s = mutation_of ref c'"
      "mu_State (mutation_of ref c') = MutationStateV1RollbackDispatchIntent" by blast
    show ?thesis
      using rollback_write [OF s]
      by (auto simp: full_write_def world split: prod.splits intro: keepsD [OF keeps_completeRollbackWrite])
  qed
  ultimately show "wp (transition_or_return lib deps ref MutationStateV1RollbackDispatchIntent ?k) (\<lambda>_. I) c"
    unfolding transition_or_return_def answer_def
    by (auto elim!: wp_mono split: option.splits)
qed

lemma keeps_continueRollbackFromIntent [keeps_rules]: "keeps I (continueRollbackFromIntent lib deps ref)"
  unfolding continueRollbackFromIntent_def by (intro keeps_rules) (simp_all add: frame_def)

lemma keeps_startRollback [keeps_rules]: "keeps I (startRollback lib deps ref)"
  unfolding startRollback_def by (intro keeps_rules) (simp_all add: frame_def)

lemma keeps_recoverRollback [keeps_rules]: "keeps I (recoverRollback lib deps ref)"
  unfolding recoverRollback_def by (intro keeps_rules)

lemma keeps_recoverEntry [keeps_rules]: "keeps I (recoverEntry lib deps ref)"
  unfolding recoverEntry_def
  by (intro keeps_rules) (simp_all add: frame_def outcome_unknown_def)

end

end
