(* ===== verification/Safety.thy ===== *)
theory Safety
  imports WriteAhead
begin

text \<open>
  The safety invariant of the coordinator: the history is in write-ahead order and under the
  lease, the tables agree with the history, the quarantine flag is exact. It is an instance of the
  laws of \<open>execution_invariant\<close>, and all entry points preserve it.
\<close>

subsection \<open>Histories\<close>

text \<open>The record that makes a remote write legitimate: the intent to dispatch exactly that value.\<close>

definition announces :: "MutationV1 \<Rightarrow> FeatureTargetV1 \<Rightarrow> TypedValueV1 \<Rightarrow> RuntimeBindingV1 \<Rightarrow> bool" where
  "announces m target v binding \<longleftrightarrow> mu_Target m = target \<and> mu_Runtime m = binding \<and>
     (mu_State m = MutationStateV1DispatchIntent \<and> v = mu_Requested m \<or>
      mu_State m = MutationStateV1RollbackDispatchIntent \<and> v = mu_Before m)"

fun event_ok :: "event option \<Rightarrow> event \<Rightarrow> bool" where
  "event_ok prev (EvRestored r) = True"
| "event_ok prev (EvAppend held r) = held"
| "event_ok (Some (EvAppend h r)) (EvWrite held target v binding) =
     (held \<and> announces (jr_Mutation r) target v binding)"
| "event_ok _ (EvWrite held target v binding) = False"

fun trace_from :: "event option \<Rightarrow> event list \<Rightarrow> bool" where
  "trace_from prev [] = True"
| "trace_from prev (e # es) = (event_ok prev e \<and> trace_from (Some e) es)"

definition trace_ok :: "event list \<Rightarrow> bool" where
  "trace_ok tr = trace_from None tr"

definition last_event :: "event option \<Rightarrow> event list \<Rightarrow> event option" where
  "last_event prev tr = (if tr = [] then prev else Some (last tr))"

lemma trace_from_snoc: "trace_from prev (tr @ [e]) \<longleftrightarrow> trace_from prev tr \<and> event_ok (last_event prev tr) e"
  by (induction tr arbitrary: prev) (auto simp: last_event_def)

lemma trace_ok_snoc: "trace_ok (tr @ [e]) \<longleftrightarrow> trace_ok tr \<and> event_ok (last_event None tr) e"
  by (simp add: trace_ok_def trace_from_snoc)

lemma trace_ok_Nil [simp]: "trace_ok []"
  by (simp add: trace_ok_def)

lemma trace_from_write:
  "trace_from prev (tr @ EvWrite held target v binding # tr') \<Longrightarrow>
     held \<and> (\<exists>h r. last_event prev tr = Some (EvAppend h r) \<and> announces (jr_Mutation r) target v binding)"
proof (induction tr arbitrary: prev)
  case Nil
  then show ?case
    by (cases "(prev, EvWrite held target v binding)" rule: event_ok.cases) (auto simp: last_event_def)
next
  case (Cons e tr)
  then show ?case by (fastforce simp: last_event_def split: if_splits)
qed

text \<open>The mutation the journal holds for a reference: the last record with that reference.\<close>

fun event_mutation :: "event \<Rightarrow> MutationV1 option" where
  "event_mutation (EvRestored r) = Some (jr_Mutation r)"
| "event_mutation (EvAppend h r) = Some (jr_Mutation r)"
| "event_mutation (EvWrite h t v b) = None"

definition last_durable :: "string \<Rightarrow> event list \<Rightarrow> MutationV1 option" where
  "last_durable ref tr =
     find (\<lambda>m. mu_MutationRef m = ref) (List.map_filter event_mutation (rev tr))"

lemma last_durable_snoc:
  "last_durable ref (tr @ [e]) =
     (case event_mutation e of
        Some m \<Rightarrow> if mu_MutationRef m = ref then Some m else last_durable ref tr
      | None \<Rightarrow> last_durable ref tr)"
  by (auto simp: last_durable_def List.map_filter_simps split: option.split)

subsection \<open>The invariant\<close>

definition entry_ok :: "event list \<Rightarrow> string \<Rightarrow> rawMutationEntry \<Rightarrow> bool" where
  "entry_ok tr ref e \<longleftrightarrow>
     mu_MutationRef (re_mutation e) = ref \<and> \<not> nilp (re_published e) \<and>
     (if re_durable e then last_durable ref tr = Some (snapshot e)
      else \<not> rawMutationStateQuarantinesWrites (snapshot e))"

definition tables_ok :: "'w coord \<Rightarrow> bool" where
  "tables_ok c \<longleftrightarrow> go_map_ok (c_entries c) \<and>
     (\<forall>ref e. go_lookup (c_entries c) ref = Some e \<longrightarrow> entry_ok (c_trace c) ref e) \<and>
     (c_quarantined c \<longleftrightarrow>
        (\<exists>ref e. go_lookup (c_entries c) ref = Some e \<and> rawMutationStateQuarantinesWrites (snapshot e)))"

definition coordinator_ok :: "'w coord \<Rightarrow> bool" where
  "coordinator_ok c \<longleftrightarrow> trace_ok (c_trace c) \<and> tables_ok c"

text \<open>
  Between two entry points every entry is durable and nobody holds the lease. Under the lease, all
  entries but the one that is worked on are durable; a new one is not until its first record is.
\<close>

definition others_durable :: "string \<Rightarrow> 'w coord \<Rightarrow> bool" where
  "others_durable ref c \<longleftrightarrow> (\<forall>k e. go_lookup (c_entries c) k = Some e \<longrightarrow> k \<noteq> ref \<longrightarrow> re_durable e)"

definition all_durable :: "'w coord \<Rightarrow> bool" where
  "all_durable c \<longleftrightarrow> (\<forall>k e. go_lookup (c_entries c) k = Some e \<longrightarrow> re_durable e)"

definition unlocked :: "'w coord \<Rightarrow> bool" where
  "unlocked c \<longleftrightarrow> coordinator_ok c \<and> all_durable c"

definition settled :: "'w coord \<Rightarrow> bool" where
  "settled c \<longleftrightarrow> unlocked c \<and> \<not> c_writer c"

definition leased :: "string \<Rightarrow> 'w coord \<Rightarrow> bool" where
  "leased ref c \<longleftrightarrow> c_writer c \<and> filed ref c \<and> coordinator_ok c \<and> others_durable ref c"

definition leased_durable :: "string \<Rightarrow> 'w coord \<Rightarrow> bool" where
  "leased_durable ref c \<longleftrightarrow> leased ref c \<and> re_durable (entry_of ref c)"

lemma durable_frame [simp]:
  "others_durable ref (c\<lparr>c_journal := j\<rparr>) = others_durable ref c" "others_durable ref (c\<lparr>c_world := w\<rparr>) = others_durable ref c"
  "others_durable ref (c\<lparr>c_timers := ts\<rparr>) = others_durable ref c" "others_durable ref (c\<lparr>c_writer := b\<rparr>) = others_durable ref c"
  "others_durable ref (c\<lparr>c_trace := t\<rparr>) = others_durable ref c"
  "all_durable (c\<lparr>c_world := w\<rparr>) = all_durable c" "all_durable (c\<lparr>c_timers := ts\<rparr>) = all_durable c"
  "all_durable (c\<lparr>c_writer := b\<rparr>) = all_durable c" "all_durable (c\<lparr>c_closed := b\<rparr>) = all_durable c"
  "all_durable (c\<lparr>c_closeDone := b\<rparr>) = all_durable c" "all_durable (c\<lparr>c_closeError := x\<rparr>) = all_durable c"
  by (simp_all add: others_durable_def all_durable_def)

lemma entry_of_frame [simp]:
  "entry_of ref (c\<lparr>c_world := w\<rparr>) = entry_of ref c" "entry_of ref (c\<lparr>c_timers := ts\<rparr>) = entry_of ref c"
  "entry_of ref (c\<lparr>c_writer := b\<rparr>) = entry_of ref c" "entry_of ref (c\<lparr>c_idempotency := y\<rparr>) = entry_of ref c"
  "entry_of ref (c\<lparr>c_journal := j\<rparr>) = entry_of ref c" "entry_of ref (c\<lparr>c_trace := t\<rparr>) = entry_of ref c"
  by (simp_all add: entry_of_def)

lemma durable_edit:
  "others_durable ref c \<Longrightarrow> others_durable ref (edit_state ref' f c)"
  "re_durable (entry_of ref (edit_state ref' f c)) = re_durable (entry_of ref c)"
  by (auto simp: others_durable_def edit_state_def entry_of_def entry_zero_def split: option.splits if_splits)

lemma durable_commit:
  "others_durable ref c \<Longrightarrow> mu_MutationRef m = ref \<Longrightarrow> others_durable ref (commit_entry ref m c)"
  "mu_MutationRef m = ref \<Longrightarrow> re_durable (entry_of ref (commit_entry ref m c))"
  by (auto simp: others_durable_def commit_lookup entry_of_def [of _ "commit_entry _ _ _"] split: if_splits)

lemma leased_all_durable:
  assumes "leased_durable ref c"
  shows "unlocked c"
proof -
  have "re_durable e" if "go_lookup (c_entries c) k = Some e" for k e
    using assms that by (cases "k = ref") (auto simp: leased_durable_def leased_def others_durable_def entry_of_def)
  with assms show ?thesis
    by (auto simp: leased_durable_def leased_def unlocked_def all_durable_def)
qed

lemma coordinator_ok_frame [simp]:
  "coordinator_ok (c\<lparr>c_journal := j\<rparr>) = coordinator_ok c" "coordinator_ok (c\<lparr>c_world := w\<rparr>) = coordinator_ok c"
  "coordinator_ok (c\<lparr>c_timers := ts\<rparr>) = coordinator_ok c" "coordinator_ok (c\<lparr>c_writer := b\<rparr>) = coordinator_ok c"
  "coordinator_ok (c\<lparr>c_closed := b\<rparr>) = coordinator_ok c" "coordinator_ok (c\<lparr>c_closeDone := b\<rparr>) = coordinator_ok c"
  "coordinator_ok (c\<lparr>c_closeError := x\<rparr>) = coordinator_ok c"
  "coordinator_ok (c\<lparr>c_idempotency := y\<rparr>) = coordinator_ok c"
  by (simp_all add: coordinator_ok_def tables_ok_def)

lemma tables_entry: "tables_ok c \<Longrightarrow> go_lookup (c_entries c) ref = Some e \<Longrightarrow> entry_ok (c_trace c) ref e"
  by (simp add: tables_ok_def)

lemma filed_entry: "filed ref c \<Longrightarrow> go_lookup (c_entries c) ref = Some (entry_of ref c)"
  by (auto simp: filed_def entry_of_def)

lemma tables_ok_edit:
  assumes "tables_ok c" "frame f"
  shows "tables_ok (edit_state ref f c)"
proof -
  let ?g = "\<lambda>e. e\<lparr>re_mutation := f (re_mutation e)\<rparr>"
  have snap: "snapshot (?g e) = snapshot e" if "entry_ok (c_trace c) k e" for k e
    using that by (auto simp: entry_ok_def snapshot_def split: option.splits)
  have ok: "entry_ok (c_trace c) k (?g e)" if "entry_ok (c_trace c) k e" for k e
    using that snap [OF that] assms(2) by (simp add: entry_ok_def frame_def)
  have lookup: "go_lookup (c_entries (edit_state ref f c)) k =
      map_option (if k = ref then ?g else id) (go_lookup (c_entries c) k)" for k
    by (simp add: edit_state_def option.map_id)
  have same: "(\<exists>e. go_lookup (c_entries (edit_state ref f c)) k = Some e \<and> rawMutationStateQuarantinesWrites (snapshot e))
      \<longleftrightarrow> (\<exists>e. go_lookup (c_entries c) k = Some e \<and> rawMutationStateQuarantinesWrites (snapshot e))" for k
    using tables_entry [OF assms(1), of k] snap [of k]
    by (cases "go_lookup (c_entries c) k") (auto simp: lookup)
  have "entry_ok (c_trace c) k e" if "go_lookup (c_entries (edit_state ref f c)) k = Some e" for k e
    using that tables_entry [OF assms(1), of k] ok [of k] by (auto simp: lookup split: if_splits)
  with assms(1) same show ?thesis
    unfolding tables_ok_def by (simp add: edit_state_def)
qed

lemma quarantined_commit:
  assumes "go_map_ok (c_entries c)"
  shows "c_quarantined (commit_entry ref m c) \<longleftrightarrow>
    (\<exists>k e. go_lookup (c_entries (commit_entry ref m c)) k = Some e \<and> rawMutationStateQuarantinesWrites (snapshot e))"
  using assms by (simp add: commit_entry_def Let_def go_map_any_iff del: go_lookup_put)

lemma tables_ok_commit:
  assumes "tables_ok c" "mu_MutationRef m = ref" "jr_Mutation s = m"
  shows "tables_ok (commit_entry ref m (c\<lparr>c_trace := c_trace c @ [EvAppend h s]\<rparr>))"
proof -
  let ?c = "c\<lparr>c_trace := c_trace c @ [EvAppend h s]\<rparr>"
  have new: "entry_ok (c_trace c @ [EvAppend h s]) k e"
    if "go_lookup (c_entries (commit_entry ref m ?c)) k = Some e" for k e
  proof (cases "k = ref")
    case True
    with that assms(2,3) show ?thesis
      by (auto simp: commit_lookup entry_ok_def last_durable_snoc snapshot_def)
  next
    case False
    with that assms(2) have "entry_ok (c_trace c) k e"
      by (auto simp: commit_lookup intro: tables_entry [OF assms(1)])
    with False assms(2,3) show ?thesis
      by (auto simp: entry_ok_def last_durable_snoc)
  qed
  have ok: "go_map_ok (c_entries (commit_entry ref m ?c))"
    using assms(1) by (simp add: tables_ok_def commit_entry_def Let_def)
  have "go_map_ok (c_entries ?c)" using assms(1) by (simp add: tables_ok_def)
  from quarantined_commit [OF this] new ok show ?thesis
    unfolding tables_ok_def by simp
qed

lemma tables_ok_write: "tables_ok c \<Longrightarrow> tables_ok (c\<lparr>c_trace := c_trace c @ [EvWrite h t v b]\<rparr>)"
  by (simp add: tables_ok_def entry_ok_def last_durable_snoc)

text \<open>The laws hold: the programs of an entry preserve the invariant while the lease is held.\<close>

interpretation lease: execution_invariant lib deps ref "leased ref"
  for lib :: golib and deps :: "'w mdeps" and ref :: string
proof
  fix c :: "'w coord" and f :: "MutationV1 \<Rightarrow> MutationV1"
  assume "leased ref c" and "frame f"
  then show "leased ref (edit_state ref f c)"
    by (auto simp: leased_def coordinator_ok_def filed_edit tables_ok_edit durable_edit)
next
  fix c :: "'w coord" and st now m and s :: jrecord
  assume I: "leased ref c" and m: "append_audit lib (mutation_of ref c) st now = Some m" and s: "jr_Mutation s = m"
  have "mu_MutationRef m = ref"
    using append_audit_sel(1) [OF m] filed_ref [of ref c] I by (simp add: leased_def)
  with I s show "leased ref (commit_entry ref m (c\<lparr>c_trace := c_trace c @ [EvAppend (c_writer c) s]\<rparr>))"
    by (simp add: leased_def coordinator_ok_def filed_commit tables_ok_commit trace_ok_snoc durable_commit)
next
  fix c :: "'w coord" and h and s :: jrecord
  assume I: "leased ref c" and last: "c_trace c \<noteq> []" "last (c_trace c) = EvAppend h s"
    and s: "jr_Mutation s = mutation_of ref c"
    and st: "mu_State (mutation_of ref c) = MutationStateV1RollbackDispatchIntent"
  let ?m = "mutation_of ref c"
  show "leased ref (c\<lparr>c_trace := c_trace c @ [EvWrite (c_writer c) (mu_Target ?m) (mu_Before ?m) (mu_Runtime ?m)]\<rparr>)"
    using I last s st
    by (simp add: leased_def coordinator_ok_def tables_ok_write trace_ok_snoc last_event_def announces_def)
qed (simp_all add: leased_def)

interpretation durable_lease: execution_invariant lib deps ref "leased_durable ref"
  for lib :: golib and deps :: "'w mdeps" and ref :: string
proof
  fix c :: "'w coord" and st now m and s :: jrecord
  assume I: "leased_durable ref c" and m: "append_audit lib (mutation_of ref c) st now = Some m"
    and s: "jr_Mutation s = m"
  have "mu_MutationRef m = ref"
    using append_audit_sel(1) [OF m] filed_ref [of ref c] I by (simp add: leased_durable_def leased_def)
  with I m s show "leased_durable ref (commit_entry ref m (c\<lparr>c_trace := c_trace c @ [EvAppend (c_writer c) s]\<rparr>))"
    using lease.commit [of ref c lib st now m s] by (simp add: leased_durable_def durable_commit)
qed (auto simp: leased_durable_def durable_edit
      intro: lease.filed lease.world lease.journal lease.timers lease.edits lease.rollback_write)

end
