(* ===== verification/EntryPoints.thy ===== *)
theory EntryPoints
  imports Safety
begin

text \<open>
  Every entry point of the coordinator preserves the safety invariant: reservations, the handler
  of a set request, rollbacks, timer callbacks, reading, closing, and the start from a journal.
\<close>

subsection \<open>Reservations\<close>

definition fresh_lease :: "string \<Rightarrow> 'w coord \<Rightarrow> bool" where
  "fresh_lease ref c \<longleftrightarrow> leased ref c \<and> \<not> re_durable (entry_of ref c)"

lemma keeps_fresh_ask [keeps_rules]: "keeps (fresh_lease ref) (ask f)"
  by (auto simp: keeps_def fresh_lease_def leased_def split: prod.splits)

lemma fresh_leased: "fresh_lease ref c \<Longrightarrow> leased ref c"
  by (simp add: fresh_lease_def)

text \<open>Replacing, adding or removing one entry that does not quarantine writes.\<close>

lemma tables_ok_update:
  assumes ok: "tables_ok c" and "go_map_ok m"
    and other: "\<And>k. k \<noteq> ref \<Longrightarrow> go_lookup m k = go_lookup (c_entries c) k"
    and old: "\<And>e. go_lookup (c_entries c) ref = Some e \<Longrightarrow> \<not> rawMutationStateQuarantinesWrites (snapshot e)"
    and new: "\<And>e. go_lookup m ref = Some e \<Longrightarrow> entry_ok (c_trace c) ref e \<and>
       \<not> rawMutationStateQuarantinesWrites (snapshot e)"
  shows "tables_ok (c\<lparr>c_entries := m\<rparr>)"
proof -
  have "entry_ok (c_trace c) k e" if "go_lookup m k = Some e" for k e
    using that new other [of k] tables_entry [OF ok, of k e] by (cases "k = ref") auto
  moreover have "(\<exists>e. go_lookup m k = Some e \<and> rawMutationStateQuarantinesWrites (snapshot e)) \<longleftrightarrow>
      (\<exists>e. go_lookup (c_entries c) k = Some e \<and> rawMutationStateQuarantinesWrites (snapshot e))" for k
    using new old other [of k] by (cases "k = ref") auto
  ultimately show ?thesis
    using ok assms(2) unfolding tables_ok_def by simp
qed

lemma not_quarantined: "tables_ok c \<Longrightarrow> \<not> c_quarantined c \<Longrightarrow> go_lookup (c_entries c) ref = Some e \<Longrightarrow>
    \<not> rawMutationStateQuarantinesWrites (snapshot e)"
  by (auto simp: tables_ok_def)

text \<open>An entry as \<open>newEntry\<close> makes it.\<close>

definition blank_entry :: "FeatureDataSetRequestV1 \<Rightarrow> RuntimeBindingV1 \<Rightarrow> TypedValueV1 \<Rightarrow> rawMutationEntry \<Rightarrow> bool" where
  "blank_entry request runtime before e \<longleftrightarrow> \<not> re_durable e \<and> re_published e = None \<and>
     mu_State (re_mutation e) = MutationStateV1Other [] \<and> mu_Rollback (re_mutation e) = None \<and>
     mu_Audit (re_mutation e) = [] \<and>
     mu_Target (re_mutation e) = sr_Target request \<and> mu_Requested (re_mutation e) = sr_Value request \<and>
     mu_Runtime (re_mutation e) = runtime \<and> mu_Before (re_mutation e) = before"

lemma wp_newEntry:
  assumes "\<And>e w. blank_entry request runtime before e \<Longrightarrow> Q e (c\<lparr>c_world := w\<rparr>)"
  shows "wp (newEntry lib deps ph ih rh tool request runtime before) Q c"
  by (auto simp: newEntry_def blank_entry_def entry_zero_def mutation_zero_def split: prod.splits intro!: assms)

lemma blank_published:
  assumes "blank_entry request runtime before e" "mu_MutationRef (re_mutation e) = ref"
  shows "entry_ok tr ref (publish (re_mutation e) e)"
    "\<not> rawMutationStateQuarantinesWrites (snapshot (publish (re_mutation e) e))"
  using assms
  by (auto simp: entry_ok_def publish_def blank_entry_def snapshot_def rawMutationStateQuarantinesWrites_def)

definition reserved :: "ErrorV1 + (string \<times> rawMutationSetAction) \<Rightarrow> 'w coord \<Rightarrow> bool" where
  "reserved r c \<longleftrightarrow>
     (case r of
        Inr (ref, rawMutationSetNew) \<Rightarrow> fresh_lease ref c
      | Inr (ref, rawMutationSetRecover) \<Rightarrow> leased_durable ref c
      | _ \<Rightarrow> settled c)"

lemma coordinator_ok_lookup:
  "coordinator_ok c \<Longrightarrow> go_lookup (c_entries c) ref = Some e \<Longrightarrow> filed ref c"
  by (auto simp: coordinator_ok_def filed_def entry_ok_def dest!: tables_entry)

lemma unlocked_leased:
  "unlocked c \<Longrightarrow> c_writer c \<Longrightarrow> go_lookup (c_entries c) ref = Some e \<Longrightarrow> leased_durable ref c"
  by (auto simp: leased_def leased_durable_def unlocked_def all_durable_def others_durable_def entry_of_def
      coordinator_ok_lookup)

lemma leased_take:
  "settled c \<Longrightarrow> go_lookup (c_entries c) ref = Some e \<Longrightarrow> leased_durable ref (c\<lparr>c_writer := True\<rparr>)"
  by (auto simp: leased_def leased_durable_def settled_def unlocked_def all_durable_def others_durable_def entry_of_def
      coordinator_ok_lookup)

lemma reserve_new:
  assumes st: "settled c" and q: "\<not> c_quarantined c" and e: "blank_entry request runtime before e"
  shows "fresh_lease (mu_MutationRef (re_mutation e)) (c\<lparr>c_writer := True, c_world := w,
    c_entries := go_put (mu_MutationRef (re_mutation e)) (publish (re_mutation e) e) (c_entries c), c_idempotency := y\<rparr>)"
proof -
  let ?ref = "mu_MutationRef (re_mutation e)" and ?e = "publish (re_mutation e) e"
  have ok: "coordinator_ok c" "\<not> c_quarantined c" "all_durable c"
    using st q by (simp_all add: settled_def unlocked_def)
  have "tables_ok (c\<lparr>c_entries := go_put ?ref ?e (c_entries c)\<rparr>)"
  proof (rule tables_ok_update [where ref = ?ref])
    show "tables_ok c" using ok(1) by (simp add: coordinator_ok_def)
    then show "go_map_ok (go_put ?ref ?e (c_entries c))" by (simp add: tables_ok_def)
  qed (use ok in \<open>auto simp: coordinator_ok_def blank_published [OF e refl] dest: not_quarantined\<close>)
  then show ?thesis
    using ok(1,3) e
    by (simp add: fresh_lease_def leased_def coordinator_ok_def tables_ok_def filed_def publish_def entry_of_def
        blank_entry_def others_durable_def all_durable_def)
qed

lemma reserveSet_reserved:
  assumes "settled c"
  shows "wp (reserveSet lib deps ph ih rh request allowNew)
    (\<lambda>r c'. reserved r c' \<and> (allowNew \<or> (\<forall>ref. r \<noteq> Inr (ref, rawMutationSetNew)))) c"
proof -
  have new: "wp (newEntry lib deps ph ih rh ToolV1FeaturesDataSet request rt value_zero)
      (\<lambda>e c'. reserved (Inr (mu_MutationRef (re_mutation e), rawMutationSetNew))
        (c'\<lparr>c_entries := go_put (mu_MutationRef (re_mutation e)) (publish (re_mutation e) e) (c_entries c'),
            c_idempotency := go_put ih \<lparr>ie_requestHash = rh, ie_mutationRef = mu_MutationRef (re_mutation e)\<rparr>
              (c_idempotency c')\<rparr>)) (c\<lparr>c_writer := True\<rparr>)" if "\<not> c_quarantined c" for rt
  proof (rule wp_newEntry)
    fix e w assume "blank_entry request rt value_zero e"
    from reserve_new [OF assms that this]
    show "reserved (Inr (mu_MutationRef (re_mutation e), rawMutationSetNew))
        (c\<lparr>c_writer := True, c_world := w, c_entries := go_put (mu_MutationRef (re_mutation e))
            (publish (re_mutation e) e) (c_entries (c\<lparr>c_writer := True, c_world := w\<rparr>)),
            c_idempotency := go_put ih \<lparr>ie_requestHash = rh, ie_mutationRef = mu_MutationRef (re_mutation e)\<rparr>
              (c_idempotency (c\<lparr>c_writer := True, c_world := w\<rparr>))\<rparr>)"
      by (simp add: reserved_def)
  qed
  show ?thesis
    using assms new leased_take [OF assms]
    by (auto simp: reserveSet_def take_writer_def reserved_def settled_def split: option.splits)
qed

subsection \<open>Setting a value\<close>

definition carries :: "string \<Rightarrow> FeatureDataSetRequestV1 \<Rightarrow> RuntimeBindingV1 \<Rightarrow> 'w coord \<Rightarrow> bool" where
  "carries ref request runtime c \<longleftrightarrow> leased ref c \<and> mu_Target (mutation_of ref c) = sr_Target request \<and>
     mu_Requested (mutation_of ref c) = sr_Value request \<and> mu_Runtime (mutation_of ref c) = runtime"

lemma prepareEntry_carries:
  "flows (fresh_lease ref) (\<lambda>c. fresh_lease ref c \<and> carries ref request runtime c)
     (prepareEntry lib deps ref ph ih rh tool request runtime before)"
proof (rule flowsI)
  fix c :: "'a coord" assume fresh: "fresh_lease ref c"
  let ?old = "entry_of ref c"
  have ok: "tables_ok c" "filed ref c" "\<not> re_durable ?old"
    using fresh by (simp_all add: fresh_lease_def leased_def coordinator_ok_def)
  have old: "\<not> rawMutationStateQuarantinesWrites (snapshot ?old)" "mu_MutationRef (re_mutation ?old) = ref"
    using tables_entry [OF ok(1) filed_entry [OF ok(2)]] ok(3) by (simp_all add: entry_ok_def)
  show "wp (prepareEntry lib deps ref ph ih rh tool request runtime before)
      (\<lambda>_ c. fresh_lease ref c \<and> carries ref request runtime c) c"
    unfolding prepareEntry_def edit_entry_def wp_bind wp_change
  proof (rule wp_newEntry)
    fix p w assume p: "blank_entry request runtime before p"
    let ?new = "adopt_entry p ?old" and ?es = "AList.map_entry ref (adopt_entry p) (c_entries c)"
    have lookup: "go_lookup ?es ref = Some ?new" by (simp add: filed_entry [OF ok(2)])
    have new: "entry_ok (c_trace c) ref ?new" "\<not> rawMutationStateQuarantinesWrites (snapshot ?new)"
      "re_mutation ?new = (re_mutation p)\<lparr>mu_MutationRef := ref\<rparr>" "\<not> re_durable ?new"
      using p old(2) ok(3)
      by (simp_all add: entry_ok_def adopt_entry_def Let_def publish_def snapshot_def blank_entry_def
          rawMutationStateQuarantinesWrites_def)
    have "tables_ok (c\<lparr>c_entries := ?es\<rparr>)"
    proof (rule tables_ok_update [OF ok(1), where ref = ref])
      show "go_map_ok ?es" using ok(1) by (simp add: tables_ok_def)
      show "entry_ok (c_trace c) ref e \<and> \<not> rawMutationStateQuarantinesWrites (snapshot e)"
        if "go_lookup ?es ref = Some e" for e
        using that new unfolding lookup by simp
    qed (use old filed_entry [OF ok(2)] in auto)
    then have "coordinator_ok (c\<lparr>c_world := w, c_entries := ?es\<rparr>)" "c_writer c"
      "others_durable ref (c\<lparr>c_world := w, c_entries := ?es\<rparr>)"
      using fresh by (simp_all add: fresh_lease_def leased_def coordinator_ok_def tables_ok_def others_durable_def)
    then show "fresh_lease ref (c\<lparr>c_world := w,
          c_entries := AList.map_entry ref (adopt_entry p) (c_entries (c\<lparr>c_world := w\<rparr>))\<rparr>) \<and>
        carries ref request runtime (c\<lparr>c_world := w,
          c_entries := AList.map_entry ref (adopt_entry p) (c_entries (c\<lparr>c_world := w\<rparr>))\<rparr>)"
      using lookup new(3,4) p
      by (simp add: fresh_lease_def leased_def carries_def filed_def mutation_of_def entry_of_def blank_entry_def
          del: lookup_map_entry)
  qed
qed

lemma leased_transition:
  assumes "leased ref c"
  shows "wp (transition lib deps ref st) (\<lambda>_. leased ref) c"
  using lease.keeps_transition assms by (rule keepsD)

text \<open>After a successful transition the last event announces the state the entry is in.\<close>

definition just_recorded :: "string \<Rightarrow> MutationStateV1 \<Rightarrow> 'w coord \<Rightarrow> bool" where
  "just_recorded ref st c \<longleftrightarrow> (\<exists>h s. c_trace c \<noteq> [] \<and> last (c_trace c) = EvAppend h s \<and>
     jr_Mutation s = mutation_of ref c \<and> mu_State (mutation_of ref c) = st)"

lemma carries_transition:
  assumes "carries ref request runtime c"
  shows "wp (transition lib deps ref st) (\<lambda>t c'. carries ref request runtime c' \<and>
    (t = None \<longrightarrow> just_recorded ref st c')) c" (is "wp _ ?Q c")
proof -
  have "wp (transition lib deps ref st) (\<lambda>t c'. leased ref c' \<longrightarrow> ?Q t c') c"
  proof (rule wp_transition)
    fix t j w m now and s :: jrecord
    assume m: "append_audit lib (mutation_of ref c) st now = Some m" and s: "jr_Mutation s = m"
    have ref: "mu_MutationRef m = ref"
      using append_audit_sel(1) [OF m] filed_ref [of ref c] assms by (simp add: carries_def leased_def)
    show "leased ref (commit_entry ref m (c\<lparr>c_journal := j, c_world := w, c_trace := c_trace c @ [EvAppend (c_writer c) s]\<rparr>)) \<longrightarrow>
       ?Q t (commit_entry ref m (c\<lparr>c_journal := j, c_world := w, c_trace := c_trace c @ [EvAppend (c_writer c) s]\<rparr>))"
      using append_audit_sel [OF m] assms s
      by (simp add: carries_def mutation_of_commit [OF ref] just_recorded_def)
  qed (use assms in \<open>simp add: carries_def\<close>)
  with leased_transition [of ref c lib deps st] assms show ?thesis
    by (auto simp: carries_def wp_iff_run)
qed

lemma leased_completeOriginalWrite: "leased ref c \<Longrightarrow> wp (completeOriginalWrite lib deps ref r t) (\<lambda>_. leased ref) c"
  by (rule keepsD [OF lease.keeps_completeOriginalWrite])

lemma leased_world: "leased ref c \<Longrightarrow> leased ref (c\<lparr>c_world := w\<rparr>)"
  by (simp add: leased_def)

lemma dispatch_forward_leased:
  assumes "carries ref request runtime c" "just_recorded ref MutationStateV1DispatchIntent c"
  shows "wp (dispatch_forward lib deps ref request runtime limit) (\<lambda>_. leased ref) c"
proof -
  have "leased ref (c\<lparr>c_trace := c_trace c @ [EvWrite (c_writer c) (sr_Target request) (sr_Value request) runtime]\<rparr>)"
    using assms
    by (auto simp: carries_def just_recorded_def leased_def coordinator_ok_def tables_ok_write trace_ok_snoc
        last_event_def announces_def)
  moreover have "leased ref c" using assms(1) by (simp add: carries_def)
  ultimately show ?thesis
    by (auto simp: dispatch_forward_def full_write_def split: prod.splits
        intro!: leased_completeOriginalWrite leased_world dest: leased_world)
qed

lemma carries_leased: "carries ref request runtime c \<Longrightarrow> leased ref c"
  by (simp add: carries_def)

lemma record_and_dispatch:
  "flows (carries ref request runtime) (leased ref)
     (transition_or_return lib deps ref MutationStateV1Prepared
       (transition_or_return lib deps ref MutationStateV1DispatchIntent
          (dispatch_forward lib deps ref request runtime limit)))"
proof (rule flowsI)
  fix c :: "'a coord" assume c: "carries ref request runtime c"
  have inner: "wp (transition_or_return lib deps ref MutationStateV1DispatchIntent
      (dispatch_forward lib deps ref request runtime limit)) (\<lambda>_. leased ref) c'"
    if "carries ref request runtime c'" for c' :: "'a coord"
    unfolding transition_or_return_def wp_bind answer_def
    by (rule wp_mono [OF carries_transition [OF that]])
      (auto intro: dispatch_forward_leased carries_leased split: option.splits)
  show "wp (transition_or_return lib deps ref MutationStateV1Prepared
      (transition_or_return lib deps ref MutationStateV1DispatchIntent
         (dispatch_forward lib deps ref request runtime limit))) (\<lambda>_. leased ref) c"
    unfolding transition_or_return_def [of lib deps ref MutationStateV1Prepared] wp_bind answer_def
    by (rule wp_mono [OF carries_transition [OF c]])
      (auto intro: inner carries_leased split: option.splits)
qed

lemma flows_weaken: "flows I J m \<Longrightarrow> (\<And>s. I' s \<Longrightarrow> I s) \<Longrightarrow> flows I' J m"
  by (simp add: flows_def)

lemma flows_refuse: "flows (fresh_lease ref) (leased ref) (refuse e)"
  unfolding refuse_def by (rule flows_return) (rule fresh_leased)

lemma prepare_and_dispatch:
  "flows (fresh_lease ref) (leased ref) (do {
     prepareEntry lib deps ref ph ih rh tool request runtime before;
     transition_or_return lib deps ref MutationStateV1Prepared
       (transition_or_return lib deps ref MutationStateV1DispatchIntent
          (dispatch_forward lib deps ref request runtime limit))
   })"
  by (rule flows_seq [OF prepareEntry_carries]) (rule flows_weaken [OF record_and_dispatch], simp)

lemma fail_no_contact_leased:
  "flows (fresh_lease ref) (leased ref) (fail_no_contact lib deps ref ph ih rh request runtime e)"
  unfolding fail_no_contact_def
proof (rule flows_seq [OF prepareEntry_carries])
  show "flows (\<lambda>c. fresh_lease ref c \<and> carries ref request runtime c) (leased ref) (do {
     now \<leftarrow> ask (normalizedNow deps);
     edit ref (\<lambda>m. m\<lparr>mu_Error := sanitizeMutationError (Some e),
       mu_NoContactEvidence := Some \<lparr>nc_RemoteFramesSent = 0, nc_LastCompletedPhase = ''read_token_verified'',
         nc_VerifiedAt = now\<rparr>\<rparr>);
     transition_or_return lib deps ref MutationStateV1FailedNoContact (answer_error ref)
   })"
    by (rule flows_weaken [where I = "leased ref"], unfold flows_keeps, intro keeps_rules)
      (simp_all add: frame_def fresh_leased)
qed

lemma keeps_forward_deadline: "keeps (fresh_lease ref) (forward_deadline lib deps request h)"
  unfolding forward_deadline_def by (intro keeps_rules)

lemma set_reserved_leased:
  "flows (fresh_lease ref) (leased ref) (set_reserved lib deps ref ph ih rh request binding)"
  unfolding set_reserved_def
  by (intro flows_rules flows_refuse fail_no_contact_leased prepare_and_dispatch
      flows_bind [OF keeps_forward_deadline] flows_bind [OF keeps_fresh_ask] flows_bind [OF keeps_look])

lemma releaseUndurable_ok: "flows (leased ref) unlocked (releaseUndurableReservation ref)"
proof (rule flowsI)
  fix c :: "'a coord" assume c: "leased ref c"
  have ok: "tables_ok c" "filed ref c" "trace_ok (c_trace c)" "others_durable ref c"
    using c by (simp_all add: leased_def coordinator_ok_def)
  have e: "entry_ok (c_trace c) ref (entry_of ref c)"
    by (rule tables_entry [OF ok(1) filed_entry [OF ok(2)]])
  show "wp (releaseUndurableReservation ref) (\<lambda>_. unlocked) c"
  proof (cases "re_durable (entry_of ref c)")
    case True
    then have "unlocked c" using c by (intro leased_all_durable) (simp add: leased_durable_def)
    with True show ?thesis by (simp add: releaseUndurableReservation_def Let_def)
  next
    case False
    have "tables_ok (c\<lparr>c_entries := go_delete ref (c_entries c)\<rparr>)"
    proof (rule tables_ok_update [OF ok(1), where ref = ref])
      show "go_map_ok (go_delete ref (c_entries c))" using ok(1) by (simp add: tables_ok_def)
    qed (use False e filed_entry [OF ok(2)] in \<open>auto simp: entry_ok_def\<close>)
    moreover have "all_durable (c\<lparr>c_entries := go_delete ref (c_entries c)\<rparr>)"
      using ok(4) by (simp add: all_durable_def others_durable_def)
    moreover have "mu_MutationRef (re_mutation (entry_of ref c)) = ref" using e by (simp add: entry_ok_def)
    ultimately show ?thesis
      using ok False
      by (simp add: releaseUndurableReservation_def Let_def unlocked_def coordinator_ok_def tables_ok_def all_durable_def)
  qed
qed

lemma settled_frame [simp]:
  "settled (c\<lparr>c_world := w\<rparr>) = settled c" "settled (c\<lparr>c_timers := ts\<rparr>) = settled c"
  "settled (c\<lparr>c_closed := b\<rparr>) = settled c" "settled (c\<lparr>c_closeDone := b\<rparr>) = settled c"
  "settled (c\<lparr>c_closeError := x\<rparr>) = settled c"
  by (simp_all add: settled_def unlocked_def)

lemma settled_release: "unlocked c \<Longrightarrow> settled (c\<lparr>c_writer := False\<rparr>)"
  by (simp add: settled_def unlocked_def)

lemma releaseWriter_settled: "unlocked c \<Longrightarrow> wp releaseWriter (\<lambda>_. settled) c"
  by (simp add: releaseWriter_def settled_release) (simp add: settled_def)

lemma keeps_settled_world [keeps_rules]: "keeps settled (ask f)"
  by (auto simp: keeps_def split: prod.splits)

lemma keeps_settled_refuse [keeps_rules]: "keeps settled (refuse e)"
  unfolding refuse_def by (intro keeps_rules)

lemma keeps_settled_answer_snapshot [keeps_rules]: "keeps settled (answer_snapshot ref f)"
  unfolding answer_snapshot_def by (intro keeps_rules)

lemma flows_release: "flows unlocked settled (do {releaseWriter; ret r})"
  by (rule flowsI) (simp add: releaseWriter_settled)

lemma recover_and_release_ok: "flows (leased_durable ref) settled (recover_and_release lib deps ref)"
  unfolding recover_and_release_def
  by (rule flows_bind [OF durable_lease.keeps_recoverEntry], rule flows_weaken [OF flows_release])
    (rule leased_all_durable)

lemma new_reservation_ok:
  "flows (fresh_lease ref) settled (do {
     r \<leftarrow> set_reserved lib deps ref ph ih rh request binding;
     releaseUndurableReservation ref;
     releaseWriter;
     ret r
   })"
  by (rule flows_seq [OF set_reserved_leased], rule flows_seq [OF releaseUndurable_ok], rule flows_release)

lemma set_with_hashes_ok: "keeps settled (set_with_hashes lib deps auth request ph ih rh)"
proof (rule keepsI)
  fix c :: "'a coord" assume c: "settled c"
  note act = flowsD [OF recover_and_release_ok] flowsD [OF new_reservation_ok, simplified]
    keepsD [OF keeps_settled_answer_snapshot] keepsD [OF keeps_settled_refuse]
  have second: "wp (set_verified lib deps request ph ih rh binding) (\<lambda>_. settled) c'"
    if "settled c'" for c' :: "'a coord" and binding
    unfolding set_verified_def wp_bind
    by (rule wp_mono [OF reserveSet_reserved [OF that]])
      (auto simp: reserved_def intro: act split: sum.splits rawMutationSetAction.splits)
  show "wp (set_with_hashes lib deps auth request ph ih rh) (\<lambda>_. settled) c"
    unfolding set_with_hashes_def wp_bind
    by (rule wp_mono [OF reserveSet_reserved [OF c]])
      (auto simp: reserved_def intro: act second
        split: sum.splits prod.splits rawMutationSetAction.splits)
qed

lemma FeaturesDataSet_ok: "keeps settled (FeaturesDataSet lib deps auth request)"
  unfolding FeaturesDataSet_def by (intro keeps_rules set_with_hashes_ok)

subsection \<open>Rolling back\<close>

lemma tables_ok_rebind:
  assumes ok: "tables_ok c"
    and g: "\<And>e. re_mutation (g e) = re_mutation e" "\<And>e. re_published (g e) = re_published e"
      "\<And>e. re_durable (g e) = re_durable e"
  shows "tables_ok (c\<lparr>c_entries := AList.map_entry ref g (c_entries c)\<rparr>)"
proof -
  have same: "snapshot (g e) = snapshot e" "entry_ok tr k (g e) = entry_ok tr k e" for e tr k
    by (simp_all add: snapshot_def entry_ok_def g split: option.split)
  have "(\<exists>e. go_lookup (AList.map_entry ref g (c_entries c)) k = Some e \<and> rawMutationStateQuarantinesWrites (snapshot e))
      \<longleftrightarrow> (\<exists>e. go_lookup (c_entries c) k = Some e \<and> rawMutationStateQuarantinesWrites (snapshot e))" for k
    by (cases "go_lookup (c_entries c) k") (auto simp: same)
  moreover have "entry_ok (c_trace c) k e" if "go_lookup (AList.map_entry ref g (c_entries c)) k = Some e" for k e
    using that tables_entry [OF ok, of k] by (auto simp: same split: if_splits)
  ultimately show ?thesis
    using ok unfolding tables_ok_def by simp
qed

definition rollback_reserved_ok ::
  "(string \<times> bool) option \<times> RuntimeBindingV1 option \<times> ErrorV1 option \<Rightarrow> 'w coord \<Rightarrow> bool" where
  "rollback_reserved_ok r c \<longleftrightarrow>
     (case r of (Some (ref, False), _, None) \<Rightarrow> leased_durable ref c | _ \<Rightarrow> settled c)"

lemma reserveRollback_ok:
  assumes c: "settled c"
  shows "wp (reserveRollback deps mref ph ih rh) rollback_reserved_ok c"
proof -
  let ?g = "\<lambda>e. e\<lparr>re_durableIdentityHash := ih, re_durableRequestHash := rh,
    re_durableTool := ToolV1MutationsRollback\<rparr>"
  have ok: "coordinator_ok c" "all_durable c" using c by (simp_all add: settled_def unlocked_def)
  have "leased_durable mref (c\<lparr>c_writer := True, c_entries := AList.map_entry mref ?g (c_entries c)\<rparr>)"
    if "go_lookup (c_entries c) mref = Some e" for e
  proof -
    have "tables_ok (c\<lparr>c_entries := AList.map_entry mref ?g (c_entries c)\<rparr>)"
      using ok by (intro tables_ok_rebind) (simp_all add: coordinator_ok_def)
    then show ?thesis
      using ok that coordinator_ok_lookup [OF ok(1) that]
      by (auto simp: leased_def leased_durable_def coordinator_ok_def tables_ok_def filed_def entry_of_def
          others_durable_def all_durable_def)
  qed
  with c leased_take [OF c] show ?thesis
    by (auto simp: reserveRollback_def take_writer_def edit_entry_def rollback_reserved_ok_def Let_def settled_def
        split: option.splits)
qed

lemma keeps_rollback_reserved: "keeps (leased_durable ref) (rollback_reserved lib deps ref)"
  unfolding rollback_reserved_def by (intro keeps_rules)

lemma rollback_with_hashes_ok: "keeps settled (rollback_with_hashes lib deps mref ph ih rh)"
proof (rule keepsI)
  fix c :: "'a coord" assume c: "settled c"
  have work: "wp (rollback_reserved lib deps ref) (\<lambda>r. wp (case r of (mutation, terminal) \<Rightarrow> do {
      releaseWriter; ret (f mutation terminal)}) (\<lambda>_. settled)) c'" if "leased_durable ref c'"
    for ref f and c' :: "'a coord"
    by (rule wp_mono [OF keepsD [OF keeps_rollback_reserved that]])
      (auto intro: releaseWriter_settled leased_all_durable split: prod.splits)
  show "wp (rollback_with_hashes lib deps mref ph ih rh) (\<lambda>_. settled) c"
    unfolding rollback_with_hashes_def wp_bind
  proof (rule wp_mono [OF reserveRollback_ok [OF c]])
    fix r and c' :: "'a coord" assume r: "rollback_reserved_ok r c'"
    obtain a rt t where [simp]: "r = (a, rt, t)" by (cases r)
    show "wp (case r of (_, runtime, Some terminal) \<Rightarrow> ret (mutation_zero, runtime, Some terminal)
      | (None, runtime, None) \<Rightarrow> ret (mutation_zero, runtime, Some internalMutationError)
      | (Some (ref, True), runtime, None) \<Rightarrow> do {
          e \<leftarrow> look (entry_of ref);
          ret (snapshot e, Some (mu_Runtime (snapshot e)), None)
        }
      | (Some (ref, False), runtime, None) \<Rightarrow> do {
          (mutation, terminal) \<leftarrow> rollback_reserved lib deps ref;
          releaseWriter;
          ret (mutation,
               (if rb_RuntimeEpoch (mu_Runtime mutation) \<noteq> 0 \<and> rb_ConnectionGeneration (mu_Runtime mutation) \<noteq> 0
                then Some (mu_Runtime mutation) else runtime), terminal)
        }) (\<lambda>_. settled) c'"
    proof (cases t; cases a)
      fix p assume "t = None" and a: "a = Some p"
      moreover obtain ref replay where "p = (ref, replay)" by (cases p)
      ultimately show ?thesis
        using r by (cases replay) (auto simp: rollback_reserved_ok_def intro: work [unfolded wp_bind])
    qed (use r in \<open>auto simp: rollback_reserved_ok_def split: option.splits bool.splits\<close>)
  qed
qed

lemma MutationsRollbackOutcome_ok: "keeps settled (MutationsRollbackOutcome lib deps auth request)"
  unfolding MutationsRollbackOutcome_def by (intro keeps_rules rollback_with_hashes_ok)

lemma MutationsRollback_ok: "keeps settled (MutationsRollback lib deps auth request)"
  unfolding MutationsRollback_def by (intro keeps_rules MutationsRollbackOutcome_ok)

subsection \<open>Timers, reading, closing\<close>

lemma keeps_settled_file_timer [keeps_rules]: "keeps settled (file_timer key deadline)"
  by (simp add: keeps_def file_timer_def)

lemma keeps_settled_schedule [keeps_rules]:
  "keeps settled (scheduleRecoveryAt ref t)" "keeps settled (scheduleProbeAt ref t)" "keeps settled (scheduleProbe ref)"
  unfolding scheduleRecoveryAt_def scheduleProbe_def scheduleProbeAt_def by (intro keeps_rules)+

lemma acquire_ok:
  assumes "settled c"
  shows "wp (acquireInternalWriter deps) (\<lambda>b c'. if b then unlocked c' \<and> c_writer c' else settled c') c"
  using assms
  by (auto simp: acquireInternalWriter_def acquire_round_def take_writer_def settled_def unlocked_def split: prod.splits)

lemma timer_callback_ok:
  assumes work: "\<And>ref. keeps (leased_durable ref) (work ref)" and resched: "\<And>t. keeps settled (reschedule ref t)"
  shows "keeps settled (timer_callback deps ref key eligible reschedule work)"
proof (rule keepsI)
  fix c :: "'a coord" assume c: "settled c"
  have run: "wp (work ref) (\<lambda>_. unlocked) c'"
    if "unlocked c'" "c_writer c'" "go_lookup (c_entries c') ref = Some e" for c' e
  proof -
    from keepsD [OF work unlocked_leased [OF that]] show ?thesis by (rule wp_mono) (rule leased_all_durable)
  qed
  have timers: "unlocked (c'\<lparr>c_timers := t\<rparr>) = unlocked c'" for c' :: "'a coord" and t
    by (simp add: unlocked_def)
  show "wp (timer_callback deps ref key eligible reschedule work) (\<lambda>_. settled) c"
    unfolding timer_callback_def wp_bind
    by (rule wp_mono [OF acquire_ok [OF c]])
      (auto simp: timers intro!: keepsD [OF resched] releaseWriter_settled wp_mono [OF run]
        split: option.splits prod.splits if_splits)
qed

lemma callbacks_ok:
  "keeps settled (recovery_callback lib deps ref)" "keeps settled (probe_callback lib deps ref)"
  unfolding recovery_callback_def probe_callback_def
  by (intro timer_callback_ok keeps_rules durable_lease.keeps_recoverEntry durable_lease.keeps_startRollback)+

lemma MutationsGetOutcome_same: "wp (MutationsGetOutcome lib deps auth request) (\<lambda>_ c'. c' = c) c"
  by (auto simp: MutationsGetOutcome_def Let_def split: option.splits sum.splits)

lemma MutationsGet_same: "wp (MutationsGet lib deps auth request) (\<lambda>_ c'. c' = c) c"
  using MutationsGetOutcome_same [of lib deps auth request c] by (simp add: MutationsGet_def)

lemma Close_ok: "keeps settled (Close deps)"
proof (rule keepsI)
  fix c :: "'a coord" assume "settled c"
  then show "wp (Close deps) (\<lambda>_. settled) c"
    by (auto simp: Close_def finish_close_def releaseWriter_def settled_def unlocked_def split: prod.splits)
qed

subsection \<open>Starting from a journal\<close>

text \<open>While records are restored nothing is quarantined yet: the flag is set at the end.\<close>

definition restoring :: "'w coord \<Rightarrow> bool" where
  "restoring c \<longleftrightarrow> trace_ok (c_trace c) \<and> go_map_ok (c_entries c) \<and> \<not> c_quarantined c \<and>
     (\<forall>ref e. go_lookup (c_entries c) ref = Some e \<longrightarrow>
        entry_ok (c_trace c) ref e \<and> re_published e = Some (re_mutation e) \<and> re_durable e) \<and> \<not> c_writer c"

lemma restore_record_shape:
  assumes "restore_record lib epoch r c = Some c'"
  shows "c' = c \<or> (\<exists>y e. re_durable e \<and> re_mutation e = jr_Mutation r \<and> re_published e = Some (jr_Mutation r) \<and>
    c' = c\<lparr>c_idempotency := y, c_entries := go_put (mu_MutationRef (jr_Mutation r)) e (c_entries c),
           c_trace := c_trace c @ [EvRestored r]\<rparr>)"
  using assms by (simp add: restore_record_def Let_def split: if_splits) force+

lemma restore_record_restoring:
  assumes "restoring c" "restore_record lib epoch r c = Some c'"
  shows "restoring c'"
  using restore_record_shape [OF assms(2)]
proof (elim disjE exE conjE)
  fix y e
  let ?ref = "mu_MutationRef (jr_Mutation r)" and ?tr = "c_trace c @ [EvRestored r]"
  assume e: "re_durable e" "re_mutation e = jr_Mutation r" "re_published e = Some (jr_Mutation r)"
    and c': "c' = c\<lparr>c_idempotency := y, c_entries := go_put ?ref e (c_entries c), c_trace := ?tr\<rparr>"
  have old: "entry_ok ?tr k e' \<and> re_published e' = Some (re_mutation e') \<and> re_durable e'"
    if "go_lookup (c_entries c) k = Some e'" "k \<noteq> ?ref" for k e'
    using assms(1) that by (auto simp: restoring_def entry_ok_def last_durable_snoc)
  have new: "entry_ok ?tr ?ref e \<and> re_published e = Some (re_mutation e) \<and> re_durable e"
    using e by (simp add: entry_ok_def last_durable_snoc snapshot_def)
  have "entry_ok ?tr k e' \<and> re_published e' = Some (re_mutation e') \<and> re_durable e'"
    if "go_lookup (c_entries c') k = Some e'" for k e'
    using that old [of k e'] new by (cases "k = ?ref") (auto simp: c')
  with assms(1) show ?thesis
    by (simp add: restoring_def c' trace_ok_snoc)
qed (use assms(1) in simp)

lemma restore_loop_restoring: "restore_loop lib epoch rs c = Some c' \<Longrightarrow> restoring c \<Longrightarrow> restoring c'"
  by (induction rs arbitrary: c) (auto split: option.splits intro: restore_record_restoring)

lemma restore_ok:
  assumes "restore lib deps rs (fresh_coordinator config j w) = Some c"
  shows "settled c"
proof -
  obtain c1 where c1: "restore_loop lib (runtimeEpoch deps (fresh_coordinator config j w)) rs
      (fresh_coordinator config j w) = Some c1"
    and c: "c = (if go_map_any (\<lambda>e. rawMutationStateQuarantinesWrites (re_mutation e)) (c_entries c1)
              then c1\<lparr>c_quarantined := True\<rparr> else c1)"
    using assms by (auto simp: restore_def)
  have "restoring (fresh_coordinator config j w)" by (simp add: restoring_def fresh_coordinator_def)
  with c1 have r: "restoring c1" by (rule restore_loop_restoring)
  then have "snapshot e = re_mutation e" if "go_lookup (c_entries c1) k = Some e" for k e
    using that by (auto simp: restoring_def snapshot_def)
  then have "(\<exists>k e. go_lookup (c_entries c1) k = Some e \<and> rawMutationStateQuarantinesWrites (re_mutation e)) \<longleftrightarrow>
      (\<exists>k e. go_lookup (c_entries c1) k = Some e \<and> rawMutationStateQuarantinesWrites (snapshot e))"
    by metis
  with r show ?thesis
    by (auto simp: c restoring_def coordinator_ok_def tables_ok_def go_map_any_iff settled_def unlocked_def
        all_durable_def)
qed

lemma keeps_schedule_each: "(\<And>r. keeps I (f r)) \<Longrightarrow> keeps I (schedule_each f refs)"
  by (induction refs) (auto intro!: keeps_rules)

lemma rearm_ok: "keeps settled (rearmProbeTimers deps)" "keeps settled (rearmRecovery deps)"
  unfolding rearmProbeTimers_def rearmRecovery_def by (intro keeps_rules keeps_schedule_each)+

lemma new_coordinator_ok:
  assumes "newRawMutationCoordinator lib jc deps config file w = Inr c"
  shows "settled c"
proof -
  obtain c1 j rs w2 where c1: "restore lib deps rs (fresh_coordinator config j w2) = Some c1"
    and c: "c = snd (run_state (do {rearmProbeTimers deps; rearmRecovery deps}) c1)"
    using assms
    by (auto simp: newRawMutationCoordinator_def split: prod.splits option.splits)
  have "keeps settled (do {rearmProbeTimers deps; rearmRecovery deps})"
    by (intro keeps_rules rearm_ok)
  from keepsD [OF this restore_ok [OF c1]] show ?thesis
    by (simp only: c wp_iff_run)
qed

end
