(* ===== verification/Sample.thy ===== *)
theory Sample
  imports Handlers "HOL-Library.Code_Target_Nat"
begin

text \<open>
  A concrete deployment, on which the hypotheses of the properties are shown to hold: stand-ins
  for the cryptographic and Unicode functions of the library, a device with one feature whose value
  turns from 1 to 2 when it is written, a request that writes it, a configuration.
\<close>

definition sample_lib :: golib where
  "sample_lib = \<lparr>sha256 = (\<lambda>b. take 32 (rev b @ replicate 32 (CHR 0x00))),
     hmac_sha256 = (\<lambda>k b. take 32 (rev b @ k)), nfkc = (\<lambda>_. []), to_upper = id,
     json_valid = (\<lambda>_. True), json_parse = (\<lambda>_. None)\<rparr>"

definition sample_binding :: RuntimeBindingV1 where
  "sample_binding = \<lparr>rb_RuntimeEpoch = 1, rb_ConnectionGeneration = 7\<rparr>"

definition sample_target :: FeatureTargetV1 where
  "sample_target = \<lparr>ft_RemoteSKI = replicate 40 (CHR ''a''), ft_SHIPID = ''s'', ft_DeviceAddress = ''d'',
     ft_EntityAddress = [1], ft_FeatureAddress = 2, ft_FeatureType = ''t'', ft_FeatureRole = FeatureRoleV1Server,
     ft_Function = ''f'', ft_Operation = OperationV1Write\<rparr>"

definition sample_time :: gotime where
  "sample_time = \<lparr>t_nsec = 63000000000000000000, t_loc = UTC\<rparr>"

definition sample_before :: TypedValueV1 where "sample_before = TypedValueV1 (GInt 1)"
definition sample_requested :: TypedValueV1 where "sample_requested = TypedValueV1 (GInt 2)"

definition sample_token :: string where "sample_token = replicate 43 (CHR ''A'')"

definition sample_request :: FeatureDataSetRequestV1 where
  "sample_request = \<lparr>sr_Target = sample_target, sr_Value = sample_requested, sr_ReadToken = sample_token,
     sr_ExpectedCurrent = None, sr_IdempotencyKey = ''key-0123456789abcdef'', sr_Mode = ModeV1Apply,
     sr_ProbeTTLSeconds = 0, sr_ConstraintsOverride = None\<rparr>"

definition sample_auth :: WriteAuthorizationV1 where
  "sample_auth = \<lparr>wa_PrincipalClass = ''p'', wa_Scope = AuthScopeV1RawWrite, wa_Tool = ToolV1FeaturesDataSet,
     wa_MaskTier = MaskTierRaw\<rparr>"

definition sample_token_binding :: rawMutationReadTokenBinding where
  "sample_token_binding = \<lparr>tb_Runtime = sample_binding, tb_Target = sample_target\<lparr>ft_Operation := OperationV1Read\<rparr>,
     tb_RequestHash = (case CanonicalSHA256V1 sample_lib
         (doc_data_get_request [sample_target\<lparr>ft_Operation := OperationV1Read\<rparr>] 0) of Inr h \<Rightarrow> h | Inl _ \<Rightarrow> []),
     tb_BeforeImageHash = hash_or_empty sample_lib sample_before, tb_PrincipalClass = ''p'', tb_Scope = AuthScopeV1RawRead,
     tb_Tool = ToolV1FeaturesDataGet, tb_MaskTier = MaskTierRaw, tb_ExpiresAt = time_add sample_time 1000000000,
     tb_Reusable = False\<rparr>"

text \<open>The world of the sample: whether the requested value has been written.\<close>

definition sample_deps :: "bool mdeps" where
  "sample_deps = \<lparr>d_RuntimeEpoch = (\<lambda>_. 1), d_Now = (\<lambda>w. (sample_time, w)),
     d_FullReadIfCurrent = (\<lambda>t b w. ((\<lparr>rd_Value = (if w then sample_requested else sample_before), rd_Runtime = sample_binding,
        rd_Full = True, rd_Trustworthy = True\<rparr>, None), w)),
     d_FullWriteIfCurrent = (\<lambda>t v b w. ((\<lparr>wr_FrameSent = True, wr_Correlated = True, wr_Accepted = True\<rparr>, None), True)),
     d_CurrentRuntimeBinding = (\<lambda>t w. ((sample_binding, None), w)),
     d_VerifyReadToken = (\<lambda>t w. ((sample_token_binding, None), w)),
     d_ConsumeReadToken = (\<lambda>t w. (None, w)),
     d_MutationPolicy = (\<lambda>r v w. ((\<lparr>pd_FullWrite = True, pd_Changeability = ChangeabilityV1True,
        pd_ConstraintsKnown = True, pd_LabAllowlisted = True, pd_RollbackRepresentable = True, pd_ConstraintFailures = [],
        pd_SafetyFailures = [], pd_LabProfileID = [], pd_EvidenceHashes = [], pd_SafetyPredicates = []\<rparr>, None), w)),
     d_CrashAfterDurable = (\<lambda>s w. (False, w)), d_WriterFinished = (\<lambda>w. (False, w)),
     d_write = (\<lambda>b w. ((length b, False), w)), d_SyncFile = (\<lambda>w. (False, w)), d_SyncDirectory = (\<lambda>w. (False, w)),
     d_Truncate = (\<lambda>w. (False, w)), d_Seek = (\<lambda>w. (False, w)), d_CloseFile = (\<lambda>w. (False, w))\<rparr>"

definition sample_config :: rawMutationCoordinatorConfig where
  "sample_config = \<lparr>cf_StateRoot = ''/state'', cf_WriterWait = 0, cf_RecoveryDeadline = 0,
     cf_ReferenceKey = replicate 32 (CHR ''k''), cf_LabProfiles = []\<rparr>"

definition sample_start :: "bool coord" where
  "sample_start = fresh_coordinator sample_config
     \<lparr>jo_file = [], jo_sequence = 0, jo_lastHash = None, jo_poisoned = False\<rparr> False"

definition sample_codec :: jcodec where
  "sample_codec = \<lparr>jc_decode = (\<lambda>_. None), jc_torn = (\<lambda>_. True)\<rparr>"

text \<open>A mutation that was applied, the entry that holds it, and a coordinator restored with it.\<close>

definition sample_ref :: string where "sample_ref = replicate 43 (CHR ''A'')"

definition sample_mutation :: MutationV1 where
  "sample_mutation = mutation_zero\<lparr>mu_MutationRef := sample_ref, mu_State := MutationStateV1Applied,
     mu_Mode := ModeV1Apply, mu_Target := sample_target, mu_Runtime := sample_binding, mu_Before := sample_before,
     mu_Requested := sample_requested, mu_ProtocolAccepted := Some True, mu_ObservedAfter := Some sample_requested,
     mu_CreatedAt := sample_time, mu_UpdatedAt := sample_time\<rparr>"

definition sample_principal_hash :: HashV1 where
  "sample_principal_hash = (case rawMutationPrincipalHash sample_lib ''p'' of Inr h \<Rightarrow> h | Inl _ \<Rightarrow> [])"

definition sample_record :: jrecord where
  "sample_record = \<lparr>jr_Contract = rawMutationJournalContract, jr_Sequence = 1, jr_PreviousRecordHash = None,
     jr_RecordHash = [], jr_RuntimeEpoch = 1, jr_PrincipalHash = sample_principal_hash, jr_Tool = ToolV1FeaturesDataSet,
     jr_IdentityHash = ''identity'', jr_RequestHash = ''request'', jr_Mutation = sample_mutation\<rparr>"

definition sample_entry :: rawMutationEntry where
  "sample_entry = \<lparr>re_mutation = sample_mutation, re_published = Some sample_mutation,
     re_principalHash = sample_principal_hash, re_durableIdentityHash = ''identity'',
     re_durableRequestHash = ''request'', re_durableTool = ToolV1FeaturesDataSet, re_durable = True\<rparr>"

definition sample_restored :: "bool coord" where
  "sample_restored = sample_start\<lparr>c_entries := [(sample_ref, sample_entry)],
     c_idempotency := [(''identity'', \<lparr>ie_requestHash = ''request'', ie_mutationRef = sample_ref\<rparr>)],
     c_trace := [EvRestored sample_record]\<rparr>"

lemma sample_mutation_sel [simp]:
  "mu_MutationRef sample_mutation = sample_ref" "mu_State sample_mutation = MutationStateV1Applied"
  "mu_Rollback sample_mutation = None" "mu_Requested sample_mutation = sample_requested"
  "mu_Before sample_mutation = sample_before" "mu_Mode sample_mutation = ModeV1Apply"
  "mu_Audit sample_mutation = []" "mu_Runtime sample_mutation = sample_binding"
  by (simp_all add: sample_mutation_def mutation_zero_def)

lemma sample_start_sel [simp]:
  "c_entries sample_start = []" "c_trace sample_start = []" "c_writer sample_start = False"
  "c_quarantined sample_start = False" "c_closed sample_start = False" "c_world sample_start = False"
  by (simp_all add: sample_start_def fresh_coordinator_def)

lemma sample_starts:
  "newRawMutationCoordinator sample_lib sample_codec sample_deps sample_config [] False = Inr sample_start"
  by code_simp

end
