(* ===== verification/Runs.thy ===== *)
theory Runs
  imports EntryPoints Sample
begin

text \<open>
  Runs of the coordinator: the states reached from a journal by calls of its entry points, with
  anything happening in the world in between, and the properties that hold of every such state.
\<close>

inductive reachable :: "golib \<Rightarrow> jcodec \<Rightarrow> 'w mdeps \<Rightarrow> 'w coord \<Rightarrow> bool"
  for lib :: golib and jc :: jcodec and deps :: "'w mdeps"
where
  start: "newRawMutationCoordinator lib jc deps config file w = Inr c \<Longrightarrow> reachable lib jc deps c"
| set: "reachable lib jc deps c \<Longrightarrow> run_state (FeaturesDataSet lib deps auth request) c = (r, c') \<Longrightarrow>
    reachable lib jc deps c'"
| rollback: "reachable lib jc deps c \<Longrightarrow> run_state (MutationsRollback lib deps auth request') c = (r, c') \<Longrightarrow>
    reachable lib jc deps c'"
| get: "reachable lib jc deps c \<Longrightarrow> run_state (MutationsGet lib deps rauth request'') c = (r, c') \<Longrightarrow>
    reachable lib jc deps c'"
| recovery: "reachable lib jc deps c \<Longrightarrow> run_state (recovery_callback lib deps ref) c = (u, c') \<Longrightarrow>
    reachable lib jc deps c'"
| probe: "reachable lib jc deps c \<Longrightarrow> run_state (probe_callback lib deps ref) c = (u, c') \<Longrightarrow>
    reachable lib jc deps c'"
| close: "reachable lib jc deps c \<Longrightarrow> run_state (Close deps) c = (t, c') \<Longrightarrow> reachable lib jc deps c'"
| outside: "reachable lib jc deps c \<Longrightarrow> reachable lib jc deps (c\<lparr>c_world := w\<rparr>)"

lemma reachable_settled: "reachable lib jc deps c \<Longrightarrow> settled c"
proof (induction rule: reachable.induct)
  case (start config bytes w c)
  then show ?case by (rule new_coordinator_ok)
next
  case (set c auth request r c')
  from keeps_run [OF FeaturesDataSet_ok set.IH set.hyps(2)] show ?case .
next
  case (rollback c auth request' r c')
  from keeps_run [OF MutationsRollback_ok rollback.IH rollback.hyps(2)] show ?case .
next
  case (get c rauth request'' r c')
  with wp_run [OF MutationsGet_same get.hyps(2)] show ?case by simp
next
  case (recovery c ref u c')
  from keeps_run [OF callbacks_ok(1) recovery.IH recovery.hyps(2)] show ?case .
next
  case (probe c ref u c')
  from keeps_run [OF callbacks_ok(2) probe.IH probe.hyps(2)] show ?case .
next
  case (close c t c')
  from keeps_run [OF Close_ok close.IH close.hyps(2)] show ?case .
next
  case (outside c w)
  then show ?case by simp
qed

lemma reachable_after_set:
  "reachable lib jc deps c \<Longrightarrow> reachable lib jc deps (snd (run_state (FeaturesDataSet lib deps auth request) c))"
  by (rule reachable.set [where c = c]) (auto intro: prod.collapse [symmetric])

text \<open>A run of the sample: a coordinator started on an empty journal, after the sample request.\<close>

definition sample_after_set :: "bool coord" where
  "sample_after_set = snd (run_state (FeaturesDataSet sample_lib sample_deps sample_auth sample_request) sample_start)"

lemma sample_after_set_reachable: "reachable sample_lib sample_codec sample_deps sample_after_set"
  unfolding sample_after_set_def
  by (rule reachable_after_set [OF reachable.start [OF sample_starts]])

text \<open>
  C1. Write-ahead order. In the history of any run, every record is made durable and every remote
  write happens under the writer lease, and a remote write directly follows a record made durable
  in the journal that announces it: its target, its runtime binding, and the value, as the requested
  value of a mutation in dispatch_intent or as the before-image of one in rollback_dispatch_intent.
\<close>

theorem write_ahead:
  assumes "reachable lib jc deps c"
  shows "trace_ok (c_trace c)"
  using reachable_settled [OF assms] by (simp add: settled_def unlocked_def coordinator_ok_def)

theorem write_ahead_witness: "trace_ok (c_trace sample_after_set)"
  using write_ahead [OF sample_after_set_reachable] .

text \<open>
  C2. Quarantine. In every reachable state the quarantine flag is set exactly when some mutation is
  in conflict, or has an unknown outcome after a rollback was begun.
\<close>

theorem quarantine_exact:
  assumes "reachable lib jc deps c"
  shows "c_quarantined c \<longleftrightarrow>
    (\<exists>ref e. go_lookup (c_entries c) ref = Some e \<and> rawMutationStateQuarantinesWrites (snapshot e))"
  using reachable_settled [OF assms] by (simp add: settled_def unlocked_def coordinator_ok_def tables_ok_def)

theorem quarantine_exact_witness:
  "c_quarantined sample_after_set \<longleftrightarrow>
    (\<exists>ref e. go_lookup (c_entries sample_after_set) ref = Some e \<and> rawMutationStateQuarantinesWrites (snapshot e))"
  using quarantine_exact [OF sample_after_set_reachable] .

text \<open>
  C3. Leases end. In every reachable state no call holds the writer lease any more, and every entry
  of the table is durable: reservations that did not get that far have been taken back.
\<close>

theorem lease_released:
  assumes "reachable lib jc deps c"
  shows "\<not> c_writer c \<and> list_all (\<lambda>kv. re_durable (snd kv)) (c_entries c)"
proof -
  have ok: "go_map_ok (c_entries c)" "all_durable c" "\<not> c_writer c"
    using reachable_settled [OF assms]
    by (simp_all add: settled_def unlocked_def coordinator_ok_def tables_ok_def)
  have "re_durable e" if "(k, e) \<in> set (c_entries c)" for k e
    using ok that by (auto simp: go_map_ok_def all_durable_def)
  with ok(3) show ?thesis by (auto simp: list_all_iff)
qed

theorem lease_released_witness:
  "\<not> c_writer sample_after_set \<and> list_all (\<lambda>kv. re_durable (snd kv)) (c_entries sample_after_set)"
  using lease_released [OF sample_after_set_reachable] .

end
