(* ===== verification/Requests.thy ===== *)
theory Requests
  imports Runs
begin

text \<open>
  What a request can and cannot do: requests on a quarantined coordinator, requests while another
  call holds the lease, retries of an idempotency key, and how many remote writes a request makes.
\<close>

subsection \<open>Refusals\<close>

lemma wp_same_run: "wp m (\<lambda>r c'. c' = c \<and> P r) c \<Longrightarrow> \<exists>r. run_state m c = (r, c) \<and> P r"
  by (cases "run_state m c") (auto simp: wp_def)

definition refused :: "outcome \<Rightarrow> bool" where
  "refused r \<longleftrightarrow> fst r = mutation_zero \<and> snd r \<noteq> None"

lemma quarantined_set:
  "c_quarantined c \<Longrightarrow> wp (FeaturesDataSet lib deps auth request) (\<lambda>r c'. c' = c \<and> refused r) c"
  by (auto simp: FeaturesDataSet_def set_with_hashes_def reserveSet_def refuse_def refused_def
      split: option.splits sum.splits)

lemma quarantined_rollback:
  "c_quarantined c \<Longrightarrow> wp (MutationsRollback lib deps auth request) (\<lambda>r c'. c' = c \<and> refused r) c"
  by (auto simp: MutationsRollback_def MutationsRollbackOutcome_def rollback_with_hashes_def reserveRollback_def
      refused_def split: option.splits sum.splits)

text \<open>The sample, quarantined.\<close>

definition sample_quarantined :: "bool coord" where
  "sample_quarantined = sample_restored\<lparr>c_quarantined := True\<rparr>"

text \<open>
  C4. Quarantine blocks. While the coordinator is quarantined, a set request and a rollback request
  are refused with an error and leave the whole coordinator, its world included, as it was: nothing
  is read, written or recorded.
\<close>

theorem quarantine_blocks:
  assumes "c_quarantined c"
  shows "(\<exists>r. run_state (FeaturesDataSet lib deps auth request) c = (r, c) \<and> refused r) \<and>
    (\<exists>r. run_state (MutationsRollback lib deps auth' request') c = (r, c) \<and> refused r)"
  by (intro conjI wp_same_run quarantined_set quarantined_rollback assms)

theorem quarantine_blocks_witness:
  "(\<exists>r. run_state (FeaturesDataSet sample_lib sample_deps sample_auth sample_request) sample_quarantined =
      (r, sample_quarantined) \<and> refused r) \<and>
    (\<exists>r. run_state (MutationsRollback sample_lib sample_deps sample_auth \<lparr>rr_MutationRef = sample_ref,
      rr_IdempotencyKey = []\<rparr>) sample_quarantined = (r, sample_quarantined) \<and> refused r)"
  by (rule quarantine_blocks) (simp add: sample_quarantined_def)

subsection \<open>A held lease\<close>

text \<open>Tables, journal, history and lease are the same; the world and the timers may differ.\<close>

definition same_tables :: "'w coord \<Rightarrow> 'w coord \<Rightarrow> bool" where
  "same_tables c c' \<longleftrightarrow> c_entries c' = c_entries c \<and> c_idempotency c' = c_idempotency c \<and>
     c_journal c' = c_journal c \<and> c_trace c' = c_trace c \<and> c_quarantined c' = c_quarantined c \<and>
     c_writer c' = c_writer c"

lemma same_tables_refl [simp]: "same_tables c c"
  by (simp add: same_tables_def)

lemma same_tables_world [simp]:
  "same_tables c (c'\<lparr>c_world := w\<rparr>) = same_tables c c'" "same_tables c (c'\<lparr>c_timers := ts\<rparr>) = same_tables c c'"
  by (simp_all add: same_tables_def)

lemma reserveSet_held:
  assumes "c_writer c"
  shows "wp (reserveSet lib deps ph ih rh request allowNew) (\<lambda>r c'. c' = c \<and>
    (\<forall>ref. r \<noteq> Inr (ref, rawMutationSetNew) \<and> r \<noteq> Inr (ref, rawMutationSetRecover))) c"
  using assms by (auto simp: reserveSet_def split: option.splits)

lemma set_held:
  assumes "c_writer c"
  shows "wp (FeaturesDataSet lib deps auth request) (\<lambda>_. same_tables c) c"
proof -
  have second: "wp (set_verified lib deps request ph ih rh binding) (\<lambda>_. same_tables c) (c\<lparr>c_world := w\<rparr>)"
    for ph ih rh binding w
    unfolding set_verified_def wp_bind
    by (rule wp_mono [OF reserveSet_held])
      (use assms in \<open>auto simp: refuse_def answer_snapshot_def split: sum.splits rawMutationSetAction.splits\<close>)
  have "wp (set_with_hashes lib deps auth request ph ih rh) (\<lambda>_. same_tables c) c" for ph ih rh
    unfolding set_with_hashes_def wp_bind
    by (rule wp_mono [OF reserveSet_held [OF assms]])
      (auto simp: refuse_def answer_snapshot_def intro: second split: sum.splits prod.splits rawMutationSetAction.splits)
  then show ?thesis
    by (auto simp: FeaturesDataSet_def refuse_def split: option.splits sum.splits)
qed

lemma rollback_held:
  assumes "c_writer c"
  shows "wp (MutationsRollback lib deps auth request) (\<lambda>_. same_tables c) c"
proof -
  have "wp (reserveRollback deps mref ph ih rh) (\<lambda>r c'. c' = c \<and> (\<forall>ref rt. r \<noteq> (Some (ref, False), rt, None))) c"
    for mref ph ih rh
    using assms by (auto simp: reserveRollback_def Let_def split: option.splits)
  then have "wp (rollback_with_hashes lib deps mref ph ih rh) (\<lambda>_. same_tables c) c" for mref ph ih rh
    unfolding rollback_with_hashes_def wp_bind
    by (rule wp_mono) (auto split: option.splits bool.splits)
  then show ?thesis
    by (auto simp: MutationsRollback_def MutationsRollbackOutcome_def split: option.splits sum.splits)
qed

lemma callback_held:
  assumes "c_writer c" "\<not> fst (d_WriterFinished deps (c_world c))"
    and "\<And>t c'. same_tables c c' \<Longrightarrow> wp (reschedule ref t) (\<lambda>_. same_tables c) c'"
  shows "wp (timer_callback deps ref key eligible reschedule work) (\<lambda>_. same_tables c) c"
  using assms
  by (auto simp: timer_callback_def acquireInternalWriter_def acquire_round_def split: prod.splits option.splits)

lemma schedule_same:
  "same_tables c c' \<Longrightarrow> wp (scheduleRecoveryAt ref t) (\<lambda>_. same_tables c) c'"
  "same_tables c c' \<Longrightarrow> wp (scheduleProbeAt ref t) (\<lambda>_. same_tables c) c'"
  by (simp_all add: scheduleRecoveryAt_def scheduleProbeAt_def file_timer_def)

text \<open>
  C5. A single writer. While one call holds the writer lease, a set request, a rollback request or a
  timer that fires before the holder is done changes none of the tables, the journal, the history or
  the lease: it answers from what is published, or is refused, or waits.
\<close>

theorem single_writer:
  assumes "c_writer c" and "\<not> fst (d_WriterFinished deps (c_world c))"
  shows "same_tables c (snd (run_state (FeaturesDataSet lib deps auth request) c)) \<and>
    same_tables c (snd (run_state (MutationsRollback lib deps auth' request') c)) \<and>
    same_tables c (snd (run_state (recovery_callback lib deps ref) c)) \<and>
    same_tables c (snd (run_state (probe_callback lib deps ref) c))"
proof -
  have "wp (recovery_callback lib deps ref) (\<lambda>_. same_tables c) c"
    unfolding recovery_callback_def by (intro callback_held assms schedule_same)
  moreover have "wp (probe_callback lib deps ref) (\<lambda>_. same_tables c) c"
    unfolding probe_callback_def by (intro callback_held assms schedule_same)
  ultimately show ?thesis
    using set_held [OF assms(1), of lib deps auth request] rollback_held [OF assms(1), of lib deps auth' request']
    by (simp add: wp_iff_run)
qed

definition sample_held :: "bool coord" where
  "sample_held = sample_restored\<lparr>c_writer := True\<rparr>"

theorem single_writer_witness:
  "same_tables sample_held (snd (run_state (FeaturesDataSet sample_lib sample_deps sample_auth sample_request) sample_held)) \<and>
    same_tables sample_held (snd (run_state (MutationsRollback sample_lib sample_deps sample_auth
      \<lparr>rr_MutationRef = sample_ref, rr_IdempotencyKey = []\<rparr>) sample_held)) \<and>
    same_tables sample_held (snd (run_state (recovery_callback sample_lib sample_deps sample_ref) sample_held)) \<and>
    same_tables sample_held (snd (run_state (probe_callback sample_lib sample_deps sample_ref) sample_held))"
  by (rule single_writer) (simp_all add: sample_held_def sample_deps_def)

subsection \<open>Retries\<close>


definition sample_identity :: HashV1 where
  "sample_identity = (case rawMutationIdentityHash sample_lib (cf_ReferenceKey sample_config) 1 ''p''
     ToolV1FeaturesDataSet (sr_IdempotencyKey sample_request) of Inr h \<Rightarrow> h | Inl _ \<Rightarrow> [])"

definition sample_request_hash :: HashV1 where
  "sample_request_hash = (case CanonicalSHA256V1 sample_lib (doc_set_request sample_lib sample_request) of
     Inr h \<Rightarrow> h | Inl _ \<Rightarrow> [])"

definition sample_known :: "bool coord" where
  "sample_known = sample_restored\<lparr>c_idempotency :=
     [(sample_identity, \<lparr>ie_requestHash = sample_request_hash, ie_mutationRef = sample_ref\<rparr>)]\<rparr>"

lemma sample_hashes:
  "rawMutationIdentityHash sample_lib (cf_ReferenceKey sample_config) 1 ''p'' ToolV1FeaturesDataSet
     (sr_IdempotencyKey sample_request) = Inr sample_identity"
  "CanonicalSHA256V1 sample_lib (doc_set_request sample_lib sample_request) = Inr sample_request_hash"
  "rawMutationPrincipalHash sample_lib ''p'' = Inr sample_principal_hash"
  by code_simp+

lemma sample_request_valid:
  "ValidateWriteAuthorizationV1 sample_auth ToolV1FeaturesDataSet = None"
  "ValidateFeatureDataSetRequestV1 sample_lib sample_request = None"
  by code_simp+

lemma sample_known_sel [simp]:
  "c_config sample_known = sample_config" "runtimeEpoch sample_deps sample_known = 1"
  "\<not> c_closed sample_known" "\<not> c_quarantined sample_known" "\<not> c_writer sample_known"
  "go_lookup (c_idempotency sample_known) sample_identity =
     Some \<lparr>ie_requestHash = sample_request_hash, ie_mutationRef = sample_ref\<rparr>"
  "go_lookup (c_entries sample_known) sample_ref = Some sample_entry" "snapshot sample_entry = sample_mutation"
  "c_trace sample_known = [EvRestored sample_record]" "wa_PrincipalClass sample_auth = ''p''"
  by (simp_all add: sample_known_def sample_restored_def sample_start_def fresh_coordinator_def runtimeEpoch_def
      sample_deps_def sample_entry_def snapshot_def sample_auth_def)


subsection \<open>Counting remote writes\<close>

fun is_write :: "event \<Rightarrow> bool" where
  "is_write (EvWrite h t v b) = True"
| "is_write _ = False"

definition writes :: "'w coord \<Rightarrow> nat" where
  "writes c = length (filter is_write (c_trace c))"

definition quiet :: "nat \<Rightarrow> string \<Rightarrow> 'w coord \<Rightarrow> bool" where
  "quiet n ref c \<longleftrightarrow> filed ref c \<and> writes c = n"

interpretation silent: entry_invariant lib deps ref "quiet n ref"
  for lib :: golib and deps :: "'w mdeps" and ref :: string and n :: nat
proof
  fix c :: "'w coord" and st now m and s :: jrecord
  assume I: "quiet n ref c" and m: "append_audit lib (mutation_of ref c) st now = Some m"
  have "mu_MutationRef m = ref"
    using append_audit_sel(1) [OF m] filed_ref [of ref c] I by (simp add: quiet_def)
  with I show "quiet n ref (commit_entry ref m (c\<lparr>c_trace := c_trace c @ [EvAppend (c_writer c) s]\<rparr>))"
    by (simp add: quiet_def filed_commit writes_def)
qed (auto simp: quiet_def writes_def intro: filed_edit)

lemma full_write_counts: "flows (quiet n ref) (quiet (Suc n) ref) (full_write deps t v b)"
  by (rule flowsI) (auto simp: full_write_def quiet_def writes_def split: prod.splits)

abbreviation at_most :: "nat \<Rightarrow> 'w coord \<Rightarrow> bool" where
  "at_most n c \<equiv> writes c \<le> n"

lemma quietly: "keeps (quiet n ref) m \<Longrightarrow> flows (quiet n ref) (at_most (Suc n)) m"
  by (erule flows_keep) (simp add: quiet_def)

lemma dispatch_counts:
  assumes "\<And>a. flows (quiet (Suc n) ref) (at_most (Suc n)) (f a)"
  shows "flows (quiet n ref) (at_most (Suc n)) (transition_or_return lib deps ref st
    (do {m \<leftarrow> look g; r \<leftarrow> full_write deps (t m) (v m) (b m); f r}))"
  unfolding transition_or_return_def
  by (intro flows_rules flows_bind [OF silent.keeps_transition] flows_bind [OF keeps_look]
      flows_seq [OF full_write_counts] assms quietly [OF silent.keeps_answer(1)])

lemma continueRollback_counts: "flows (quiet n ref) (at_most (Suc n)) (continueRollbackFromIntent lib deps ref)"
  unfolding continueRollbackFromIntent_def
  by (intro flows_rules flows_bind [OF silent.keeps_read_target_of] flows_bind [OF silent.keeps_trustworthy]
      flows_bind [OF keeps_look] flows_bind [OF silent.keeps_edit] flows_bind [OF silent.keeps_edit_rollback]
      dispatch_counts quietly silent.keeps_persistRollbackUnknown silent.keeps_persistRolledBack
      silent.keeps_persistConflict flows_keep [OF silent.keeps_completeRollbackWrite])
    (auto simp: frame_def quiet_def)

lemma startRollback_counts: "flows (quiet n ref) (at_most (Suc n)) (startRollback lib deps ref)"
  unfolding startRollback_def transition_or_return_def
  by (intro flows_rules flows_bind [OF silent.keeps_edit] flows_bind [OF silent.keeps_transition]
      quietly [OF silent.keeps_answer(1)] continueRollback_counts) (simp add: frame_def)

lemma recoverEntry_counts: "flows (quiet n ref) (at_most (Suc n)) (recoverEntry lib deps ref)"
proof (rule flowsI)
  fix c :: "'a coord" assume c: "quiet n ref c"
  show "wp (recoverEntry lib deps ref) (\<lambda>_. at_most (Suc n)) c"
  proof (cases "mu_State (mutation_of ref c) = MutationStateV1RollbackIntent")
    case True
    then show ?thesis
      using flowsD [OF continueRollback_counts c] by (simp add: recoverEntry_def recoverRollback_def)
  next
    case False
    from silent.recoverEntry_silent [OF c False] show ?thesis
      by (rule wp_mono) (simp add: quiet_def)
  qed
qed

lemma keeps_quiet_prepareEntry:
  "keeps (quiet n ref) (prepareEntry lib deps ref ph ih rh tool request runtime before)"
  by (auto simp: keeps_def prepareEntry_def newEntry_def edit_entry_def quiet_def filed_def writes_def adopt_entry_def
      publish_def Let_def split: prod.splits)

lemma dispatch_forward_counts:
  "flows (quiet n ref) (at_most (Suc n)) (dispatch_forward lib deps ref request runtime limit)"
  unfolding dispatch_forward_def
  by (intro flows_rules flows_bind [OF keeps_if] flows_bind [OF silent.keeps_ask] keeps_rules
      quietly [OF silent.keeps_completeOriginalWrite] flows_seq [OF full_write_counts]
      flows_keep [OF silent.keeps_completeOriginalWrite]) (simp add: quiet_def)

lemma set_reserved_counts:
  "flows (quiet n ref) (at_most (Suc n)) (set_reserved lib deps ref ph ih rh request binding)"
proof -
  have refuse: "flows (quiet n ref) (at_most (Suc n)) (refuse e)" for e
    unfolding refuse_def by (intro quietly keeps_rules)
  have fail: "flows (quiet n ref) (at_most (Suc n)) (fail_no_contact lib deps ref ph ih rh request runtime e)" for runtime e
    unfolding fail_no_contact_def
    by (intro quietly keeps_rules keeps_quiet_prepareEntry) (simp add: frame_def)
  have recorded: "flows (quiet n ref) (at_most (Suc n)) (transition_or_return lib deps ref st k)"
    if "flows (quiet n ref) (at_most (Suc n)) k" for st k
    unfolding transition_or_return_def
    by (intro flows_rules flows_bind [OF silent.keeps_transition] quietly [OF silent.keeps_answer(1)] that)
  show ?thesis
    unfolding set_reserved_def forward_deadline_def
    by (intro flows_rules flows_bind [OF silent.keeps_ask] flows_bind [OF keeps_look] flows_bind [OF keeps_option]
        flows_bind [OF keeps_quiet_prepareEntry] refuse fail recorded dispatch_forward_counts keeps_rules)
qed

lemma writes_frame [simp]:
  "writes (c\<lparr>c_writer := b\<rparr>) = writes c" "writes (c\<lparr>c_world := w\<rparr>) = writes c" "writes (c\<lparr>c_timers := ts\<rparr>) = writes c"
  by (simp_all add: writes_def)

lemma keeps_at_most_release [keeps_rules]:
  "keeps (at_most n) releaseWriter" "keeps (at_most n) (releaseUndurableReservation ref)"
  by (simp_all add: keeps_def releaseWriter_def releaseUndurableReservation_def writes_def Let_def)

lemma reserveSet_writes: "wp (reserveSet lib deps ph ih rh request allowNew) (\<lambda>_ c'. writes c' = writes c) c"
  by (auto simp: reserveSet_def newEntry_def take_writer_def writes_def split: option.splits prod.splits)

lemma reserveSet_quiet:
  assumes "settled c"
  shows "wp (reserveSet lib deps ph ih rh request allowNew) (\<lambda>r c'. reserved r c' \<and> writes c' = writes c \<and>
    (\<forall>ref. r = Inr (ref, rawMutationSetNew) \<or> r = Inr (ref, rawMutationSetRecover) \<longrightarrow> quiet (writes c) ref c')) c"
proof -
  have "wp (reserveSet lib deps ph ih rh request allowNew) (\<lambda>r c'. (reserved r c' \<and>
      (allowNew \<or> (\<forall>ref. r \<noteq> Inr (ref, rawMutationSetNew)))) \<and> writes c' = writes c) c"
    by (rule wp_conjI [OF reserveSet_reserved [OF assms] reserveSet_writes])
  then show ?thesis
    by (rule wp_mono)
      (auto simp: reserved_def quiet_def fresh_lease_def leased_def leased_durable_def)
qed

lemma answers_count:
  "at_most n c \<Longrightarrow> wp (refuse e) (\<lambda>_. at_most n) c" "at_most n c \<Longrightarrow> wp (answer_snapshot ref f) (\<lambda>_. at_most n) c"
  by (simp_all add: refuse_def answer_snapshot_def)

lemma recover_and_release_counts:
  assumes "quiet n ref c"
  shows "wp (recover_and_release lib deps ref) (\<lambda>_. at_most (Suc n)) c"
  unfolding recover_and_release_def wp_bind
  by (rule wp_mono [OF flowsD [OF recoverEntry_counts assms]])
    (auto simp: releaseWriter_def)

lemma new_counts:
  assumes "quiet n ref c"
  shows "wp (set_reserved lib deps ref ph ih rh request binding) (\<lambda>r. wp (do {
     releaseUndurableReservation ref; releaseWriter; ret r}) (\<lambda>_. at_most (Suc n))) c"
proof (rule wp_mono [OF flowsD [OF set_reserved_counts assms]])
  fix r and c' :: "'a coord" assume "at_most (Suc n) c'"
  moreover have "keeps (at_most (Suc n)) (do {releaseUndurableReservation ref; releaseWriter; ret r})"
    by (intro keeps_rules)
  ultimately show "wp (do {releaseUndurableReservation ref; releaseWriter; ret r}) (\<lambda>_. at_most (Suc n)) c'"
    by (auto dest: keepsD)
qed

lemma set_verified_counts:
  assumes "settled c" "writes c = n"
  shows "wp (set_verified lib deps request ph ih rh binding) (\<lambda>_. at_most (Suc n)) c"
  unfolding set_verified_def wp_bind
  by (rule wp_mono [OF reserveSet_quiet [OF assms(1)]])
    (use assms(2) in \<open>auto intro: answers_count recover_and_release_counts new_counts [simplified]
      split: sum.splits rawMutationSetAction.splits\<close>)

lemma set_counts:
  assumes "settled c"
  shows "wp (FeaturesDataSet lib deps auth request) (\<lambda>_. at_most (Suc (writes c))) c"
proof -
  have verify: "wp (ask (verifyRawMutationReadToken lib deps auth request)) (\<lambda>v. wp (case v of
      Inl terminal \<Rightarrow> refuse terminal
    | Inr binding \<Rightarrow> set_verified lib deps request ph ih rh binding) (\<lambda>_. at_most (Suc (writes c)))) c'"
    if "settled c'" "writes c' = writes c" for ph ih rh and c' :: "'a coord"
    using that by (auto intro: answers_count set_verified_counts split: prod.splits sum.splits)
  have "wp (set_with_hashes lib deps auth request ph ih rh) (\<lambda>_. at_most (Suc (writes c))) c" for ph ih rh
    unfolding set_with_hashes_def wp_bind
    by (rule wp_mono [OF reserveSet_quiet [OF assms]])
      (auto simp: reserved_def simp del: wp_ask intro: answers_count recover_and_release_counts verify
        split: sum.splits rawMutationSetAction.splits)
  then show ?thesis
    by (auto simp: FeaturesDataSet_def intro: answers_count split: option.splits sum.splits)
qed

lemma reserveRollback_writes: "wp (reserveRollback deps mref ph ih rh) (\<lambda>_ c'. writes c' = writes c) c"
  by (auto simp: reserveRollback_def take_writer_def edit_entry_def writes_def Let_def split: option.splits)

lemma rollback_reserved_counts: "flows (quiet n ref) (at_most (Suc n)) (rollback_reserved lib deps ref)"
  unfolding rollback_reserved_def
  by (intro flows_rules flows_bind [OF keeps_look] flows_bind [OF silent.keeps_cancelProbe] recoverEntry_counts
      startRollback_counts)

lemma rollback_counts:
  assumes "settled c"
  shows "wp (MutationsRollback lib deps auth request) (\<lambda>_. at_most (Suc (writes c))) c"
proof -
  have both: "wp (reserveRollback deps mref ph ih rh) (\<lambda>r c'. rollback_reserved_ok r c' \<and> writes c' = writes c) c"
    for mref ph ih rh
    by (rule wp_conjI [OF reserveRollback_ok [OF assms] reserveRollback_writes])
  have work: "wp (rollback_reserved lib deps ref) (\<lambda>r. wp (case r of (mutation, terminal) \<Rightarrow> do {
      releaseWriter; ret (f mutation terminal)}) (\<lambda>_. at_most (Suc n))) c'" if "quiet n ref c'"
    for ref n f and c' :: "'a coord"
    by (rule wp_mono [OF flowsD [OF rollback_reserved_counts that]])
      (auto simp: releaseWriter_def split: prod.splits)
  have "wp (rollback_with_hashes lib deps mref ph ih rh) (\<lambda>_. at_most (Suc (writes c))) c" for mref ph ih rh
    unfolding rollback_with_hashes_def wp_bind
  proof (rule wp_mono [OF both])
    fix r and c' :: "'a coord" assume r: "rollback_reserved_ok r c' \<and> writes c' = writes c"
    have q: "quiet (writes c) ref c'" if "leased_durable ref c'" for ref
      using that r by (simp add: quiet_def leased_durable_def leased_def)
    show "wp (case r of (_, runtime, Some terminal) \<Rightarrow> ret (mutation_zero, runtime, Some terminal)
      | (None, runtime, None) \<Rightarrow> ret (mutation_zero, runtime, Some internalMutationError)
      | (Some (ref, True), runtime, None) \<Rightarrow> do {
          e \<leftarrow> look (entry_of ref);
          ret (snapshot e, Some (mu_Runtime (snapshot e)), None)
        }
      | (Some (ref, False), runtime, None) \<Rightarrow> do {
          (mutation, terminal) \<leftarrow> rollback_reserved lib deps ref;
          releaseWriter;
          ret (mutation,
               (if rb_RuntimeEpoch (mu_Runtime mutation) \<noteq> 0 \<and> rb_ConnectionGeneration (mu_Runtime mutation) \<noteq> 0
                then Some (mu_Runtime mutation) else runtime), terminal)
        }) (\<lambda>_. at_most (Suc (writes c))) c'"
      using r by (auto simp: rollback_reserved_ok_def intro!: work [unfolded wp_bind] q
          split: option.splits bool.splits)
  qed
  then show ?thesis
    by (auto simp: MutationsRollback_def MutationsRollbackOutcome_def split: option.splits sum.splits)
qed

text \<open>
  C7. One write per request. From any reachable state a set request and a rollback request each make
  at most one remote write, whatever the device, the journal and the other dependencies answer.
\<close>

theorem one_write:
  assumes "reachable lib jc deps c"
  shows "writes (snd (run_state (FeaturesDataSet lib deps auth request) c)) \<le> Suc (writes c) \<and>
    writes (snd (run_state (MutationsRollback lib deps auth' request') c)) \<le> Suc (writes c)"
  using set_counts [OF reachable_settled [OF assms], of lib deps auth request]
    rollback_counts [OF reachable_settled [OF assms], of lib deps auth' request']
  by (simp add: wp_iff_run)

theorem one_write_witness:
  "writes (snd (run_state (FeaturesDataSet sample_lib sample_deps sample_auth sample_request) sample_after_set))
      \<le> Suc (writes sample_after_set) \<and>
    writes (snd (run_state (MutationsRollback sample_lib sample_deps sample_auth
      \<lparr>rr_MutationRef = sample_ref, rr_IdempotencyKey = []\<rparr>) sample_after_set)) \<le> Suc (writes sample_after_set)"
  by (rule one_write [OF sample_after_set_reachable])

text \<open>
  C8. No second write. When the idempotency key of a set request is known, the request makes no
  remote write at all, recovery included, unless the mutation had durably begun to roll back.
\<close>

theorem retry_is_silent:
  assumes "settled c"
    and "rawMutationIdentityHash lib (cf_ReferenceKey (c_config c)) (runtimeEpoch deps c) (wa_PrincipalClass auth)
           ToolV1FeaturesDataSet (sr_IdempotencyKey request) = Inr identityHash"
    and "go_lookup (c_idempotency c) identityHash = Some known"
    and "mu_State (mutation_of (ie_mutationRef known) c) \<noteq> MutationStateV1RollbackIntent"
  shows "writes (snd (run_state (FeaturesDataSet lib deps auth request) c)) = writes c"
proof -
  let ?ref = "ie_mutationRef known" and ?same = "\<lambda>_ c'. writes c' = writes c"
  have recover: "wp (recover_and_release lib deps ?ref) ?same (c\<lparr>c_writer := True\<rparr>)"
    if "go_lookup (c_entries c) ?ref = Some e" for e
  proof -
    have "quiet (writes c) ?ref (c\<lparr>c_writer := True\<rparr>)"
      using leased_take [OF assms(1) that] by (simp add: quiet_def leased_durable_def leased_def)
    from silent.recoverEntry_silent [OF this, of lib deps] assms(4)
    have "wp (recoverEntry lib deps ?ref) (\<lambda>_. quiet (writes c) ?ref) (c\<lparr>c_writer := True\<rparr>)" by simp
    then show ?thesis
      unfolding recover_and_release_def wp_bind
      by (rule wp_mono) (simp add: releaseWriter_def quiet_def)
  qed
  have "wp (set_with_hashes lib deps auth request ph identityHash rh) ?same c" for ph rh
    using assms(3) recover
    by (auto simp: set_with_hashes_def reserveSet_def take_writer_def refuse_def answer_snapshot_def
        split: option.splits)
  then have "wp (FeaturesDataSet lib deps auth request) ?same c"
    using assms(2) by (auto simp: FeaturesDataSet_def refuse_def split: option.splits sum.splits)
  then show ?thesis by (simp add: wp_iff_run)
qed

lemma sample_known_settled: "settled sample_known"
  by (auto simp: settled_def unlocked_def coordinator_ok_def tables_ok_def all_durable_def entry_ok_def
      sample_known_def sample_restored_def sample_start_def fresh_coordinator_def sample_entry_def snapshot_def
      trace_ok_def last_durable_def sample_record_def rawMutationStateQuarantinesWrites_def go_map_ok_def
      List.map_filter_simps split: if_splits)

theorem retry_is_silent_witness:
  "writes (snd (run_state (FeaturesDataSet sample_lib sample_deps sample_auth sample_request) sample_known)) =
    writes sample_known"
  by (rule retry_is_silent [where identityHash = sample_identity and
        known = "\<lparr>ie_requestHash = sample_request_hash, ie_mutationRef = sample_ref\<rparr>"])
    (simp_all add: sample_known_settled sample_hashes mutation_of_def entry_of_def sample_entry_def)

end
