(* ===== verification/Outcomes.thy ===== *)
theory Outcomes
  imports Runs
begin

text \<open>
  What a reported success means: the value was read back, in full and from the current runtime, and
  equals the requested value, or the before-image for a rollback; and what the records of a run
  carry: an audit trail whose entries are numbered, dated and linked by hashes.
\<close>

subsection \<open>Errors or verified results\<close>

definition error_or :: "(MutationV1 \<Rightarrow> bool) \<Rightarrow> outcome \<Rightarrow> bool" where
  "error_or P r = (case snd r of Some _ \<Rightarrow> True | None \<Rightarrow> P (fst r))"

lemma error_or_simps [simp]: "error_or P (m, Some e)" "error_or P (m, None) = P m"
  by (simp_all add: error_or_def)

definition verified_applied :: "golib \<Rightarrow> MutationV1 \<Rightarrow> bool" where
  "verified_applied lib m \<longleftrightarrow>
     mu_State m = (if mu_Mode m = ModeV1Probe then MutationStateV1ProbeActive else MutationStateV1Applied) \<and>
     (\<exists>v h now. mu_ObservedAfter m = Some v \<and> Validate lib v \<and> typedValuesEqual lib v (mu_Requested m) \<and>
        ComputeHash lib v = Some h \<and>
        mu_ApplyVerification m = Some \<lparr>av_Relation = ''observed_after_equals_requested'', av_Verified = True,
          av_EqualValueHash = h, av_VerifiedAt = now\<rparr>)"

definition verified_rolled_back :: "golib \<Rightarrow> MutationV1 \<Rightarrow> bool" where
  "verified_rolled_back lib m \<longleftrightarrow> mu_State m = MutationStateV1RolledBack \<and>
     (\<exists>r v h now. mu_Rollback m = Some r \<and> rb_ObservedAfter r = Some v \<and> Validate lib v \<and>
        typedValuesEqual lib v (mu_Before m) \<and> ComputeHash lib v = Some h \<and>
        rb_Verification r = Some \<lparr>rv_Relation = ''rollback_observed_after_equals_before'', rv_Verified = True,
          rv_EqualValueHash = h, rv_VerifiedAt = now\<rparr>)"

lemma append_audit_frame:
  assumes "append_audit lib m0 st now = Some m"
  shows "m = m0\<lparr>mu_State := st, mu_UpdatedAt := now, mu_Audit := mu_Audit m\<rparr>"
  using assms by (auto simp: append_audit_def Let_def split: sum.splits)

text \<open>A transition either fails, or goes on with the mutation as it was but for its state.\<close>

lemma wp_recorded:
  assumes "filed ref c" and err: "\<And>m e c'. Q (m, Some e) c'"
    and k: "\<And>now audit c'. filed ref c' \<Longrightarrow>
       mutation_of ref c' = (mutation_of ref c)\<lparr>mu_State := st, mu_UpdatedAt := now, mu_Audit := audit\<rparr> \<Longrightarrow> wp k Q c'"
  shows "wp (transition_or_return lib deps ref st k) Q c"
proof -
  have "wp (transition lib deps ref st) (\<lambda>t c'. t = None \<longrightarrow> filed ref c' \<and>
      (\<exists>now audit. mutation_of ref c' = (mutation_of ref c)\<lparr>mu_State := st, mu_UpdatedAt := now, mu_Audit := audit\<rparr>)) c"
  proof (rule wp_transition)
    fix t j w m now and s :: jrecord
    assume m: "append_audit lib (mutation_of ref c) st now = Some m"
    have ref: "mu_MutationRef m = ref"
      using append_audit_sel(1) [OF m] filed_ref [OF assms(1)] by simp
    show "t = None \<longrightarrow> filed ref (commit_entry ref m (c\<lparr>c_journal := j, c_world := w,
          c_trace := c_trace c @ [EvAppend (c_writer c) s]\<rparr>)) \<and>
        (\<exists>now audit. mutation_of ref (commit_entry ref m (c\<lparr>c_journal := j, c_world := w,
          c_trace := c_trace c @ [EvAppend (c_writer c) s]\<rparr>)) =
          (mutation_of ref c)\<lparr>mu_State := st, mu_UpdatedAt := now, mu_Audit := audit\<rparr>)"
      using append_audit_frame [OF m] by (auto simp: filed_commit [OF ref] mutation_of_commit [OF ref])
  qed simp
  then show ?thesis
    unfolding transition_or_return_def wp_bind answer_def
    by (rule wp_mono) (auto intro: err k split: option.splits)
qed

lemma wp_recorded_error:
  assumes "filed ref c" and "\<And>m e c'. Q (m, Some e) c'" and "mu_Error (mutation_of ref c) \<noteq> None"
  shows "wp (transition_or_return lib deps ref st (answer_error ref)) Q c"
  using assms by (intro wp_recorded) (auto simp: answer_error_def)

lemmas evidence_edits = mutation_of_edit filed_edit frame_def outcome_unknown_def

lemma contradiction_error:
  assumes "filed ref c"
  shows "wp (persistCorrelatedContradiction lib deps ref v) (\<lambda>r _. error_or P r) c"
  using assms
  by (auto simp: persistCorrelatedContradiction_def evidence_edits intro!: wp_recorded_error split: prod.splits)

lemma conflict_error:
  assumes "filed ref c"
  shows "wp (persistConflict lib deps ref v) (\<lambda>r _. error_or P r) c"
  using assms
  by (auto simp: persistConflict_def evidence_edits answer_def intro!: wp_recorded_error contradiction_error
      split: prod.splits option.splits)

lemma persistApplied_verified:
  assumes "filed ref c" "typedValuesEqual lib v (mu_Requested (mutation_of ref c))" "Validate lib v"
  shows "wp (persistApplied lib deps ref v) (\<lambda>r _. error_or (verified_applied lib) r) c"
  using assms
  by (auto simp: persistApplied_def evidence_edits answer_def verified_applied_def scheduleProbe_def scheduleProbeAt_def
      file_timer_def intro!: wp_recorded split: prod.splits option.splits)

lemma trustworthy_valid: "readbackIsTrustworthy lib ep m rb t b \<Longrightarrow> Validate lib (rd_Value rb)"
  by (simp add: readbackIsTrustworthy_def split: if_splits)

lemma resolvePossibleSend_verified:
  assumes "filed ref c"
  shows "wp (resolvePossibleSendReadback lib deps ref rb t) (\<lambda>r _. error_or (verified_applied lib) r) c"
  using assms
  by (auto simp: resolvePossibleSendReadback_def trustworthy_def answer_error_def evidence_edits
      intro!: wp_recorded_error [unfolded answer_error_def] persistApplied_verified conflict_error
      dest: trustworthy_valid split: prod.splits)

lemma resolveCorrelated_verified:
  assumes "filed ref c"
  shows "wp (resolveCorrelatedReadback lib deps ref rb t wt) (\<lambda>r _. error_or (verified_applied lib) r) c"
  using assms
  by (auto simp: resolveCorrelatedReadback_def trustworthy_def evidence_edits
      intro!: wp_recorded_error persistApplied_verified conflict_error contradiction_error
      dest: trustworthy_valid split: prod.splits)

lemma filed_world: "filed ref c \<Longrightarrow> filed ref (c\<lparr>c_world := w\<rparr>)"
  by simp

lemma wp_read_target_of:
  assumes "\<And>r w. Q r (c\<lparr>c_world := w\<rparr>)"
  shows "wp (read_target_of deps ref) Q c"
  using assms by (auto simp: read_target_of_def readCurrent_def Let_def split: prod.splits)

lemma completeOriginalWrite_verified:
  assumes "filed ref c"
  shows "wp (completeOriginalWrite lib deps ref result wt) (\<lambda>r _. error_or (verified_applied lib) r) c"
  using assms
  by (auto simp: completeOriginalWrite_def evidence_edits
      intro!: wp_recorded wp_recorded_error wp_read_target_of resolveCorrelated_verified resolvePossibleSend_verified
      split: prod.splits)

lemma dispatch_forward_verified:
  assumes "filed ref c"
  shows "wp (dispatch_forward lib deps ref request runtime limit) (\<lambda>r _. error_or (verified_applied lib) r) c"
  using assms
  by (auto simp: dispatch_forward_def full_write_def intro!: completeOriginalWrite_verified split: prod.splits)

lemma prepareEntry_filed: "keeps (filed ref) (prepareEntry lib deps ref ph ih rh tool request runtime before)"
  by (auto simp: keeps_def prepareEntry_def newEntry_def edit_entry_def filed_def adopt_entry_def publish_def Let_def
      split: prod.splits)

lemma refuse_error: "wp (refuse e) (\<lambda>r _. error_or P r) c"
  by (simp add: refuse_def)

lemma fail_no_contact_error:
  assumes "filed ref c"
  shows "wp (fail_no_contact lib deps ref ph ih rh request runtime e) (\<lambda>r _. error_or P r) c"
  unfolding fail_no_contact_def wp_bind
  by (rule wp_mono [OF keepsD [OF prepareEntry_filed assms]])
    (auto simp: evidence_edits sanitizeMutationError_def intro!: wp_recorded_error split: prod.splits)

text \<open>The handler of a set request asks its dependencies, and these leave the entries alone.\<close>

lemma ask_filed: "keeps (filed ref) (ask f)" "keeps (filed ref) (look g)"
  by (auto simp: keeps_def)

lemma transition_or_return_yields:
  assumes "yields (filed ref) (error_or P) k"
  shows "yields (filed ref) (error_or P) (transition_or_return lib deps ref st k)"
  using assms by (intro yieldsI wp_recorded) (simp_all add: yields_def)

lemmas set_reserved_yields = yieldsI [OF refuse_error] yieldsI [OF fail_no_contact_error]
  transition_or_return_yields yieldsI [OF dispatch_forward_verified]

lemma forward_deadline_filed: "keeps (filed ref) (forward_deadline lib deps request h)"
  unfolding forward_deadline_def by (intro keeps_rules ask_filed)


lemma sample_restored_filed: "filed sample_ref sample_restored"
  by (simp add: filed_def sample_restored_def sample_entry_def)


subsection \<open>Rollbacks\<close>

lemma persistRolledBack_verified:
  assumes "filed ref c" "typedValuesEqual lib v (mu_Before (mutation_of ref c))" "Validate lib v"
  shows "wp (persistRolledBack lib deps ref v pa) (\<lambda>r _. error_or (verified_rolled_back lib) r) c"
  using assms
  by (auto simp: persistRolledBack_def evidence_edits answer_def verified_rolled_back_def cancelProbe_def
      intro!: wp_recorded split: prod.splits option.splits)

text \<open>An unknown outcome comes with an error.\<close>

definition unknown_has_error :: "string \<Rightarrow> 'w coord \<Rightarrow> bool" where
  "unknown_has_error ref c \<longleftrightarrow> filed ref c \<and>
     (mu_State (mutation_of ref c) = MutationStateV1OutcomeUnknown \<longrightarrow> mu_Error (mutation_of ref c) \<noteq> None)"

lemma persistRollbackUnknown_error:
  assumes "unknown_has_error ref c"
  shows "wp (persistRollbackUnknown lib deps ref) (\<lambda>r _. error_or P r) c"
  using assms
  by (auto simp: persistRollbackUnknown_def prepareRollbackUnknown_def unknown_has_error_def evidence_edits Let_def
      mutation_of_def [symmetric] intro!: wp_recorded_error split: prod.splits)

lemma resolveUncertainRollback_verified:
  assumes "unknown_has_error ref c"
  shows "wp (resolveUncertainRollbackReadback lib deps ref rb t) (\<lambda>r _. error_or (verified_rolled_back lib) r) c"
  using assms
  by (auto simp: resolveUncertainRollbackReadback_def trustworthy_def unknown_has_error_def evidence_edits
      intro!: persistRollbackUnknown_error persistRolledBack_verified conflict_error dest: trustworthy_valid)

lemma rollback_reply_verified:
  assumes "filed ref c" "mu_State (mutation_of ref c) \<noteq> MutationStateV1OutcomeUnknown"
  shows "wp (rollback_reply lib deps ref accepted wt) (\<lambda>r _. error_or (verified_rolled_back lib) r) c"
  unfolding rollback_reply_def wp_bind
proof (rule wp_read_target_of, goal_cases)
  case (1 r w)
  obtain rb t where r: "r = (rb, t)" by (cases r)
  have "filed ref (c\<lparr>c_world := w\<rparr>)" "unknown_has_error ref (c\<lparr>c_world := w\<rparr>)"
    using assms by (simp_all add: unknown_has_error_def)
  then show ?case
    using assms trustworthy_valid [of lib "runtimeEpoch deps (c\<lparr>c_world := w\<rparr>)" "mutation_of ref c" rb t False]
    by (auto simp: r trustworthy_def edit_rollback_def unknown_has_error_def evidence_edits
        intro!: persistRollbackUnknown_error persistRolledBack_verified conflict_error)
qed

lemma completeRollbackWrite_verified:
  assumes "filed ref c" "mu_State (mutation_of ref c) \<noteq> MutationStateV1OutcomeUnknown"
  shows "wp (completeRollbackWrite lib deps ref result wt) (\<lambda>r _. error_or (verified_rolled_back lib) r) c"
  using assms
  by (auto simp: completeRollbackWrite_def edit_rollback_def prepareRollbackUnknown_def Let_def
      unknown_has_error_def evidence_edits
      intro!: wp_recorded rollback_reply_verified wp_read_target_of persistRollbackUnknown_error
        resolveUncertainRollback_verified split: prod.splits)

lemma continueRollback_verified:
  assumes "filed ref c" "mu_State (mutation_of ref c) \<noteq> MutationStateV1OutcomeUnknown"
  shows "wp (continueRollbackFromIntent lib deps ref) (\<lambda>r _. error_or (verified_rolled_back lib) r) c"
  unfolding continueRollbackFromIntent_def wp_bind
proof (rule wp_read_target_of, goal_cases)
  case (1 r w)
  obtain rb t where r: "r = (rb, t)" by (cases r)
  have "filed ref (c\<lparr>c_world := w\<rparr>)" "unknown_has_error ref (c\<lparr>c_world := w\<rparr>)"
    using assms by (simp_all add: unknown_has_error_def)
  then show ?case
    using assms trustworthy_valid [of lib "runtimeEpoch deps (c\<lparr>c_world := w\<rparr>)" "mutation_of ref c" rb t True]
    by (auto simp: r trustworthy_def full_write_def edit_rollback_def unknown_has_error_def evidence_edits
        intro!: wp_recorded persistRollbackUnknown_error persistRolledBack_verified conflict_error
          completeRollbackWrite_verified split: prod.splits)
qed

text \<open>
  C10. Rollbacks are verified. When a rollback reports success, the mutation is rolled back and its
  evidence is true: a valid value was read back whose hash is the recorded one and equals the hash
  of the before-image.
\<close>

theorem rollback_is_verified:
  assumes "filed ref c"
  shows "error_or (verified_rolled_back lib) (fst (run_state (startRollback lib deps ref) c))"
proof -
  have "wp (startRollback lib deps ref) (\<lambda>r _. error_or (verified_rolled_back lib) r) c"
    using assms
    by (auto simp: startRollback_def evidence_edits intro!: wp_recorded continueRollback_verified)
  then show ?thesis by (simp add: wp_iff_run)
qed

theorem rollback_is_verified_witness:
  "error_or (verified_rolled_back sample_lib) (fst (run_state (startRollback sample_lib sample_deps sample_ref)
     sample_restored))"
  by (rule rollback_is_verified [OF sample_restored_filed])

end
