(* ===== verification/Paths.thy ===== *)
theory Paths
  imports Outcomes
begin

text \<open>
  Audit trails as paths of the contract's state machine. A restart reads every record back through
  the contract validator, so a record whose trail is no legal path makes the journal unreadable:
  which programs record legal paths only, and which do not.
\<close>

subsection \<open>Legal paths\<close>

abbreviation trail :: "MutationV1 \<Rightarrow> MutationStateV1 list" where
  "trail m \<equiv> map at_State (mu_Audit m)"

definition legal_path :: "MutationStateV1 list \<Rightarrow> bool" where
  "legal_path ss \<longleftrightarrow> (ss = [] \<or> validInitialMutationStateV1 (hd ss)) \<and> successively validMutationTransitionV1 ss"

lemma legal_path_snoc:
  "legal_path (ss @ [s]) \<longleftrightarrow> legal_path ss \<and>
     (if ss = [] then validInitialMutationStateV1 s else validMutationTransitionV1 (last ss) s)"
  by (cases "ss = []") (auto simp: legal_path_def successively_append_iff)

lemma audit_loop_path:
  assumes "audit_loop lib created updated index previous pstate ptime as"
  shows "if index = 0 then legal_path (map at_State as) else successively validMutationTransitionV1 (pstate # map at_State as)"
  using assms
proof (induction as arbitrary: index previous pstate ptime)
  case Nil
  then show ?case by (simp add: legal_path_def)
next
  case (Cons a as)
  then have "successively validMutationTransitionV1 (at_State a # map at_State as)"
    by (auto split: if_splits sum.splits)
  with Cons.prems show ?case by (auto simp: legal_path_def split: if_splits)
qed

lemma ValidateMutation_path:
  assumes "ValidateMutationV1 lib m = None"
  shows "legal_path (trail m)" "mu_Audit m \<noteq> []" "last (trail m) = mu_State m"
proof -
  from assms have ok: "mutation_shape_ok lib m"
    by (auto simp: ValidateMutationV1_def Let_def split: option.splits if_splits)
  then show "legal_path (trail m)" "mu_Audit m \<noteq> []" "last (trail m) = mu_State m"
    using audit_loop_path [of lib _ _ 0] by (auto simp: mutation_shape_ok_def validateAuditV1_def last_map)
qed

lemma restore_refuses:
  assumes "s \<in> set rs" "ValidateMutationV1 lib (jr_Mutation s) \<noteq> None"
  shows "restore lib deps rs c = None"
proof -
  have "restore_loop lib ep rs c' = None" for ep c'
    using assms
    by (induction rs arbitrary: c') (auto simp: restore_record_def Let_def split: option.splits)
  then show ?thesis by (simp add: restore_def)
qed

lemma append_audit_trail:
  assumes "append_audit lib m0 st now = Some m"
  shows "trail m = trail m0 @ [st]" "mu_State m = st"
  using assms by (auto simp: append_audit_def Let_def split: sum.splits)

subsection \<open>Programs that stay on the path\<close>

text \<open>Every record so far has a legal trail; the entry stands at the end of one, in state \<open>s\<close>.\<close>

definition records_legal :: "'w coord \<Rightarrow> bool" where
  "records_legal c \<longleftrightarrow> (\<forall>b s. EvAppend b s \<in> set (c_trace c) \<longrightarrow> legal_path (trail (jr_Mutation s)))"

definition standing :: "string \<Rightarrow> MutationStateV1 \<Rightarrow> 'w coord \<Rightarrow> bool" where
  "standing ref s c \<longleftrightarrow> filed ref c \<and> records_legal c \<and> legal_path (trail (mutation_of ref c)) \<and>
     mu_State (mutation_of ref c) = s \<and> mu_Audit (mutation_of ref c) \<noteq> [] \<and> last (trail (mutation_of ref c)) = s"

definition blank :: "string \<Rightarrow> 'w coord \<Rightarrow> bool" where
  "blank ref c \<longleftrightarrow> filed ref c \<and> records_legal c \<and> mu_Audit (mutation_of ref c) = []"

lemma records_legal_frame [simp]:
  "records_legal (c\<lparr>c_journal := j\<rparr>) = records_legal c" "records_legal (c\<lparr>c_world := w\<rparr>) = records_legal c"
  "records_legal (c\<lparr>c_timers := t\<rparr>) = records_legal c" "records_legal (edit_state ref f c) = records_legal c"
  "records_legal (c\<lparr>c_entries := es\<rparr>) = records_legal c"
  by (simp_all add: records_legal_def)

lemma records_legal_trace:
  "c_trace c' = c_trace c @ [EvAppend b s] \<Longrightarrow> records_legal c' \<longleftrightarrow> records_legal c \<and> legal_path (trail (jr_Mutation s))"
  "c_trace c' = c_trace c @ [EvWrite b t v r] \<Longrightarrow> records_legal c' \<longleftrightarrow> records_legal c"
  by (auto simp: records_legal_def)

lemma standing_frame [simp]:
  "standing ref s (c\<lparr>c_journal := j\<rparr>) = standing ref s c" "standing ref s (c\<lparr>c_world := w\<rparr>) = standing ref s c"
  "standing ref s (c\<lparr>c_timers := t\<rparr>) = standing ref s c"
  by (simp_all add: standing_def)

lemma standing_edit: "standing ref s c \<Longrightarrow> frame f \<Longrightarrow> standing ref s (edit_state ref f c)"
  by (auto simp: standing_def mutation_of_edit filed_edit) (auto simp: frame_def)

text \<open>One step: the record is legal when the step is.\<close>

lemma wp_step:
  assumes c: "filed ref c" "records_legal c" and legal: "legal_path (trail (mutation_of ref c) @ [st])"
    and k: "\<And>c'. standing ref st c' \<Longrightarrow> wp k (\<lambda>_. records_legal) c'"
  shows "wp (transition_or_return lib deps ref st k) (\<lambda>_. records_legal) c"
proof -
  have "wp (transition lib deps ref st) (\<lambda>t c'. records_legal c' \<and> (t = None \<longrightarrow> standing ref st c')) c"
  proof (rule wp_transition)
    fix t j w m now and s :: jrecord
    assume m: "append_audit lib (mutation_of ref c) st now = Some m" and s: "jr_Mutation s = m"
    have "mu_MutationRef m = ref" using append_audit_sel(1) [OF m] filed_ref [OF c(1)] by simp
    moreover have "trail m \<noteq> []" "last (trail m) = st" "legal_path (trail m)"
      using append_audit_trail [OF m] legal by simp_all
    ultimately show "records_legal (commit_entry ref m (c\<lparr>c_journal := j, c_world := w,
          c_trace := c_trace c @ [EvAppend (c_writer c) s]\<rparr>)) \<and>
        (t = None \<longrightarrow> standing ref st (commit_entry ref m (c\<lparr>c_journal := j, c_world := w,
          c_trace := c_trace c @ [EvAppend (c_writer c) s]\<rparr>)))"
      using c s append_audit_trail(2) [OF m]
      by (simp add: standing_def filed_commit mutation_of_commit records_legal_trace(1) [of _ c])
  qed (simp add: c)
  then show ?thesis
    unfolding transition_or_return_def wp_bind answer_def
    by (rule wp_mono) (auto intro: k split: option.splits)
qed

lemma step_legal [flows_rules]:
  fixes deps :: "'w mdeps"
  assumes "validMutationTransitionV1 s st" "flows (standing ref st) records_legal k"
  shows "flows (standing ref s) records_legal (transition_or_return lib deps ref st k)"
proof (rule flowsI)
  fix c :: "'w coord" assume c: "standing ref s c"
  then have "legal_path (trail (mutation_of ref c) @ [st])"
    using assms(1) by (simp add: standing_def legal_path_snoc)
  with c show "wp (transition_or_return lib deps ref st k) (\<lambda>_. records_legal) c"
    by (intro wp_step) (auto simp: standing_def flowsD [OF assms(2)])
qed

lemma first_step_legal:
  fixes deps :: "'w mdeps"
  assumes "validInitialMutationStateV1 st" "flows (standing ref st) records_legal k"
  shows "flows (blank ref) records_legal (transition_or_return lib deps ref st k)"
proof (rule flowsI)
  fix c :: "'w coord" assume c: "blank ref c"
  then show "wp (transition_or_return lib deps ref st k) (\<lambda>_. records_legal) c"
    using assms by (intro wp_step) (auto simp: blank_def legal_path_def flowsD [OF assms(2)])
qed

lemma standing_keeps:
  "keeps (standing ref s) (ask f)" "keeps (standing ref s) (look g)" "frame h \<Longrightarrow> keeps (standing ref s) (edit ref h)"
  "keeps (standing ref s) (file_timer key deadline)" "keeps (standing ref s) (cancelProbe k)"
  by (auto simp: keeps_def standing_edit file_timer_def cancelProbe_def split: prod.splits)

lemma standing_reads:
  "keeps (standing ref s) (readCurrent deps target)" "keeps (standing ref s) (read_target_of deps ref)"
  "keeps (standing ref s) (trustworthy lib deps ref rb t b)" "keeps (standing ref s) (edit_rollback ref f)"
  "keeps (standing ref s) (prepareRollbackUnknown deps ref)" "keeps (standing ref s) (scheduleProbe ref)"
  unfolding readCurrent_def read_target_of_def trustworthy_def edit_rollback_def prepareRollbackUnknown_def Let_def
    scheduleProbe_def scheduleProbeAt_def
  by (intro keeps_rules standing_keeps; simp add: frame_def)+

lemma standing_full_write: "keeps (standing ref s) (full_write deps t v b)"
  by (auto simp: keeps_def full_write_def standing_def records_legal_def split: prod.splits)

lemma standing_legal [flows_rules]: "flows (standing ref s) records_legal (State_Monad.return a)"
  by (simp add: flows_def standing_def)

lemma answer_legal [flows_rules]:
  "flows (standing ref s) records_legal (answer r t)" "flows (standing ref s) records_legal (answer_error r)"
  "flows (standing ref s) records_legal (answer_terminal r)"
  by (simp_all add: flows_def standing_def answer_def answer_error_def answer_terminal_def)

lemmas standing_binds = flows_bind [OF standing_keeps(1)] flows_bind [OF standing_keeps(2)]
  flows_bind [OF standing_keeps(3)] flows_bind [OF standing_reads(2)] flows_bind [OF standing_reads(3)]
  flows_bind [OF standing_reads(4)] flows_bind [OF standing_reads(5)] flows_bind [OF standing_reads(6)]
  flows_bind [OF standing_full_write] flows_bind [OF standing_keeps(5)]

lemma contradiction_legal [flows_rules]:
  "validMutationTransitionV1 s MutationStateV1OutcomeUnknown \<Longrightarrow>
     flows (standing ref s) records_legal (persistCorrelatedContradiction lib deps ref v)"
  unfolding persistCorrelatedContradiction_def
  by (intro flows_rules standing_binds; simp add: frame_def outcome_unknown_def)

lemma conflict_legal:
  "validMutationTransitionV1 s MutationStateV1OutcomeUnknown \<Longrightarrow> validMutationTransitionV1 s MutationStateV1Conflict \<Longrightarrow>
     flows (standing ref s) records_legal (persistConflict lib deps ref v)"
  unfolding persistConflict_def
  by (intro flows_rules standing_binds; simp add: frame_def)

lemma applied_legal [flows_rules]:
  "validMutationTransitionV1 s MutationStateV1Applied \<Longrightarrow> validMutationTransitionV1 s MutationStateV1ProbeActive \<Longrightarrow>
     flows (standing ref s) records_legal (persistApplied lib deps ref v)"
  unfolding persistApplied_def
  by (intro flows_rules standing_binds; simp add: frame_def)

lemma rolled_back_legal [flows_rules]:
  "validMutationTransitionV1 s MutationStateV1RolledBack \<Longrightarrow>
     flows (standing ref s) records_legal (persistRolledBack lib deps ref v pa)"
  unfolding persistRolledBack_def
  by (intro flows_rules standing_binds; simp add: frame_def)

lemma rollback_unknown_legal [flows_rules]:
  assumes "s = MutationStateV1OutcomeUnknown \<or> validMutationTransitionV1 s MutationStateV1OutcomeUnknown"
  shows "flows (standing ref s) records_legal (persistRollbackUnknown lib deps ref)"
proof (cases "s = MutationStateV1OutcomeUnknown")
  case True
  then show ?thesis
    by (auto simp: flows_def persistRollbackUnknown_def standing_def mutation_of_def)
next
  case False
  with assms show ?thesis
    unfolding persistRollbackUnknown_def by (intro flows_rules standing_binds) simp_all
qed

text \<open>A conflict that is none of the two known values does not pass through an unknown outcome.\<close>

lemma conflict_differs:
  assumes "standing ref s c" "validMutationTransitionV1 s MutationStateV1Conflict"
    "\<not> typedValuesEqual lib v (mu_Before (mutation_of ref c))"
    "\<not> typedValuesEqual lib v (mu_Requested (mutation_of ref c))"
  shows "wp (persistConflict lib deps ref v) (\<lambda>_. records_legal) c"
proof -
  have "wp (transition_or_return lib deps ref MutationStateV1Conflict (answer_error ref)) (\<lambda>_. records_legal)
      (edit_state ref f (c\<lparr>c_world := w\<rparr>))" if "frame f" for f w
    using assms(1,2) that by (intro flowsD [OF step_legal] flows_rules) (auto intro: standing_edit)
  with assms show ?thesis
    by (auto simp: persistConflict_def frame_def answer_def standing_def split: prod.splits option.splits)
qed

lemma flows_look_mutation:
  assumes "\<And>m. flows (\<lambda>c. I c \<and> mutation_of ref c = m) J (f m)"
  shows "flows I J (State_Monad.bind (look (mutation_of ref)) f)"
  using assms by (simp add: flows_def)

lemma flows_forget: "flows I J m \<Longrightarrow> flows (\<lambda>c. I c \<and> P c) J m"
  by (simp add: flows_def)

lemma conflict_differs_legal:
  assumes "validMutationTransitionV1 s MutationStateV1Conflict" "\<not> typedValuesEqual lib v (mu_Before m)"
    "\<not> typedValuesEqual lib v (mu_Requested m)"
  shows "flows (\<lambda>c. standing ref s c \<and> mutation_of ref c = m) records_legal (persistConflict lib deps ref v)"
  using assms by (intro flowsI conflict_differs) auto

lemmas known_rules = flows_look_mutation conflict_differs_legal flows_forget [OF applied_legal]
  flows_forget [OF rolled_back_legal] flows_forget [OF rollback_unknown_legal] flows_forget [OF standing_binds(1)]

lemma possible_send_legal [flows_rules]:
  "flows (standing ref MutationStateV1OutcomeUnknown) records_legal (resolvePossibleSendReadback lib deps ref rb t)"
  unfolding resolvePossibleSendReadback_def
  by (intro flows_rules known_rules standing_binds; simp add: frame_def)

lemma uncertain_rollback_legal [flows_rules]:
  assumes "s = MutationStateV1OutcomeUnknown \<or> s = MutationStateV1RollbackDispatchIntent"
  shows "flows (standing ref s) records_legal (resolveUncertainRollbackReadback lib deps ref rb t)"
  using assms unfolding resolveUncertainRollbackReadback_def
  by (intro flows_rules known_rules standing_binds; auto simp: frame_def)

lemma correlated_legal [flows_rules]:
  "flows (standing ref MutationStateV1VerifyPending) records_legal (resolveCorrelatedReadback lib deps ref rb t wt)"
  unfolding resolveCorrelatedReadback_def
  by (intro flows_rules conflict_legal standing_binds; simp add: frame_def outcome_unknown_def)

lemma complete_write_legal [flows_rules]:
  "flows (standing ref MutationStateV1DispatchIntent) records_legal (completeOriginalWrite lib deps ref result wt)"
  unfolding completeOriginalWrite_def
  by (intro flows_rules standing_binds; simp add: frame_def outcome_unknown_def)

lemma dispatch_forward_legal [flows_rules]:
  "flows (standing ref MutationStateV1DispatchIntent) records_legal (dispatch_forward lib deps ref request runtime limit)"
  unfolding dispatch_forward_def
  by (rule flows_bind) (intro keeps_rules standing_keeps flows_rules standing_binds)+

lemma rollback_reply_legal [flows_rules]:
  "flows (standing ref MutationStateV1RollbackVerifyPending) records_legal (rollback_reply lib deps ref accepted wt)"
  unfolding rollback_reply_def
  by (intro flows_rules conflict_legal standing_binds; simp add: frame_def)

lemma complete_rollback_legal [flows_rules]:
  "flows (standing ref MutationStateV1RollbackDispatchIntent) records_legal (completeRollbackWrite lib deps ref result wt)"
  unfolding completeRollbackWrite_def
  by (intro flows_rules standing_binds; simp add: frame_def)

lemma continue_rollback_legal [flows_rules]:
  "flows (standing ref MutationStateV1RollbackIntent) records_legal (continueRollbackFromIntent lib deps ref)"
  unfolding continueRollbackFromIntent_def
  by (intro flows_rules conflict_legal standing_binds; simp add: frame_def)

lemma start_rollback_legal:
  assumes "s = MutationStateV1Applied \<or> s = MutationStateV1ProbeActive"
  shows "flows (standing ref s) records_legal (startRollback lib deps ref)"
  using assms unfolding startRollback_def
  by (intro flows_rules standing_binds; auto simp: frame_def)

lemma recover_rollback_reply_legal [flows_rules]:
  assumes "s = MutationStateV1RollbackReplyObserved \<or> s = MutationStateV1RollbackVerifyPending"
  shows "flows (standing ref s) records_legal (recover_rollback_reply lib deps ref)"
  using assms unfolding recover_rollback_reply_def
  by (intro flows_rules conflict_legal standing_binds; auto simp: frame_def)

lemma recover_reply_legal [flows_rules]:
  "flows (standing ref MutationStateV1VerifyPending) records_legal (recover_reply lib deps ref)"
  unfolding recover_reply_def
  by (intro flows_rules standing_binds)

lemma standing_look:
  assumes "\<And>m. mu_State m = s \<Longrightarrow> flows (standing ref s) J (f m)"
  shows "flows (standing ref s) J (State_Monad.bind (look (mutation_of ref)) f)"
  using assms by (auto simp: flows_def standing_def)

lemma recover_rollback_legal [flows_rules]: "flows (standing ref s) records_legal (recoverRollback lib deps ref)"
  unfolding recoverRollback_def
  by (rule standing_look, cases s; simp only: MutationStateV1.case; intro flows_rules standing_binds; simp)

lemma recover_legal:
  assumes "s \<noteq> MutationStateV1ReplyObserved"
  shows "flows (standing ref s) records_legal (recoverEntry lib deps ref)"
  unfolding recoverEntry_def
  by (rule standing_look, cases s; simp only: MutationStateV1.case;
      (intro flows_rules standing_binds | use assms in simp); simp add: frame_def outcome_unknown_def)

subsection \<open>The set request\<close>

definition ready :: "string \<Rightarrow> 'w coord \<Rightarrow> bool" where
  "ready ref c \<longleftrightarrow> filed ref c \<and> records_legal c"

lemma ready_keeps: "keeps (ready ref) (ask f)" "keeps (ready ref) (look g)"
  by (auto simp: keeps_def ready_def split: prod.splits)

lemma ready_deadline: "keeps (ready ref) (forward_deadline lib deps request h)"
  unfolding forward_deadline_def by (intro keeps_rules ready_keeps)

lemma prepared_blank: "flows (ready ref) (blank ref) (prepareEntry lib deps ref ph ih rh tool request runtime before)"
  by (auto simp: flows_def prepareEntry_def newEntry_def edit_entry_def ready_def blank_def filed_def adopt_entry_def
      publish_def mutation_of_def entry_of_def mutation_zero_def entry_zero_def records_legal_def Let_def
      split: prod.splits)

lemma blank_edit: "blank ref c \<Longrightarrow> frame f \<Longrightarrow> blank ref (edit_state ref f c)"
  by (auto simp: blank_def mutation_of_edit filed_edit) (auto simp: frame_def)

lemma blank_keeps: "keeps (blank ref) (ask f)" "frame h \<Longrightarrow> keeps (blank ref) (edit ref h)"
  by (auto simp: keeps_def blank_edit) (auto simp: blank_def split: prod.splits)

lemma fail_no_contact_legal:
  "flows (ready ref) records_legal (fail_no_contact lib deps ref ph ih rh request runtime e)"
  unfolding fail_no_contact_def
  by (intro flows_rules flows_seq [OF prepared_blank] flows_bind [OF blank_keeps(1)] flows_bind [OF blank_keeps(2)]
      first_step_legal) (auto simp: frame_def validInitialMutationStateV1_def)

lemma refuse_legal: "flows (ready ref) records_legal (refuse e)"
  by (simp add: flows_def refuse_def ready_def)

lemma set_reserved_legal:
  "flows (ready ref) records_legal (set_reserved lib deps ref ph ih rh request binding)"
  unfolding set_reserved_def
  by (intro flows_rules flows_seq [OF prepared_blank] flows_bind [OF ready_keeps(1)] flows_bind [OF ready_keeps(2)]
      flows_bind [OF ready_deadline] fail_no_contact_legal refuse_legal first_step_legal)
    (simp_all add: validInitialMutationStateV1_def)

text \<open>
  C11. Legal trails. The programs of a set request record only mutations whose audit trail is a path
  of the contract's state machine, beginning in an initial state. So do a rollback of a mutation that
  is applied or an active probe, and a recovery from any state but \<open>reply_observed\<close>.
\<close>

theorem trails_legal:
  assumes "filed ref c" "records_legal c"
  shows "records_legal (snd (run_state (set_reserved lib deps ref ph ih rh request binding) c)) \<and>
    (\<forall>s. standing ref s c \<and> s \<in> {MutationStateV1Applied, MutationStateV1ProbeActive} \<longrightarrow>
       records_legal (snd (run_state (startRollback lib deps ref) c))) \<and>
    (\<forall>s. standing ref s c \<and> s \<noteq> MutationStateV1ReplyObserved \<longrightarrow>
       records_legal (snd (run_state (recoverEntry lib deps ref) c)))"
proof (intro conjI allI impI)
  show "records_legal (snd (run_state (set_reserved lib deps ref ph ih rh request binding) c))"
    using flowsD [OF set_reserved_legal] assms by (fastforce simp: ready_def wp_iff_run)
next
  fix s assume "standing ref s c \<and> s \<in> {MutationStateV1Applied, MutationStateV1ProbeActive}"
  then show "records_legal (snd (run_state (startRollback lib deps ref) c))"
    using flowsD [OF start_rollback_legal, of s ref c lib deps] by (auto simp: wp_iff_run)
next
  fix s assume "standing ref s c \<and> s \<noteq> MutationStateV1ReplyObserved"
  then show "records_legal (snd (run_state (recoverEntry lib deps ref) c))"
    using flowsD [OF recover_legal, of s ref c lib deps] by (auto simp: wp_iff_run)
qed

theorem trails_legal_witness:
  "records_legal (snd (run_state (set_reserved sample_lib sample_deps sample_ref sample_principal_hash ''identity''
     ''request'' sample_request sample_token_binding) sample_restored))"
  using trails_legal [OF sample_restored_filed, of sample_lib sample_deps sample_principal_hash "''identity''"
      "''request''" sample_request sample_token_binding]
  by (simp add: records_legal_def sample_restored_def)

subsection \<open>Steps off the path\<close>

text \<open>Every record made since the trace was \<open>old\<close> has a trail that is no legal path; so has the entry.\<close>

definition since :: "(MutationV1 \<Rightarrow> bool) \<Rightarrow> event list \<Rightarrow> 'w coord \<Rightarrow> bool" where
  "since P old c \<longleftrightarrow> (\<exists>new. c_trace c = old @ new \<and> (\<forall>b s. EvAppend b s \<in> set new \<longrightarrow> P (jr_Mutation s)))"

definition astray :: "event list \<Rightarrow> string \<Rightarrow> 'w coord \<Rightarrow> bool" where
  "astray old ref c \<longleftrightarrow> filed ref c \<and> \<not> legal_path (trail (mutation_of ref c)) \<and>
     since (\<lambda>m. \<not> legal_path (trail m)) old c"

lemma since_snoc:
  "since P old c \<Longrightarrow> P (jr_Mutation s) \<Longrightarrow> c_trace c' = c_trace c @ [EvAppend b s] \<Longrightarrow> since P old c'"
  "since P old c \<Longrightarrow> c_trace c' = c_trace c @ [EvWrite b t v r] \<Longrightarrow> since P old c'"
  by (auto simp: since_def)

lemma since_same: "since P old c \<Longrightarrow> c_trace c' = c_trace c \<Longrightarrow> since P old c'"
  by (simp add: since_def)

text \<open>Once off the path, every later record is off the path, whatever the programs do.\<close>

interpretation astray: execution_invariant lib deps ref "astray old ref"
  for lib :: golib and deps :: "'w mdeps" and ref :: string and old :: "event list"
proof
  fix c :: "'w coord" and st now m and s :: jrecord
  assume I: "astray old ref c" and m: "append_audit lib (mutation_of ref c) st now = Some m" and s: "jr_Mutation s = m"
  have ref: "mu_MutationRef m = ref"
    using append_audit_sel(1) [OF m] filed_ref [of ref c] I by (simp add: astray_def)
  have path: "\<not> legal_path (trail m)"
    using I append_audit_trail(1) [OF m] by (simp add: astray_def legal_path_snoc)
  show "astray old ref (commit_entry ref m (c\<lparr>c_trace := c_trace c @ [EvAppend (c_writer c) s]\<rparr>))"
    using I path s by (auto simp: astray_def filed_commit [OF ref] mutation_of_commit [OF ref] elim: since_snoc(1))
next
  fix c :: "'w coord" and f assume "astray old ref c" "frame f"
  then show "astray old ref (edit_state ref f c)"
    by (auto simp: astray_def mutation_of_edit filed_edit elim: since_same) (auto simp: frame_def)
qed (auto simp: astray_def elim: since_same since_snoc(2))

lemma wp_astray:
  assumes c: "filed ref c" and illegal: "\<not> legal_path (trail (mutation_of ref c) @ [st])"
    and k: "\<And>c'. astray (c_trace c) ref c' \<Longrightarrow> wp k (\<lambda>_. since (\<lambda>m. \<not> legal_path (trail m)) (c_trace c)) c'"
  shows "wp (transition_or_return lib deps ref st k) (\<lambda>_. since (\<lambda>m. \<not> legal_path (trail m)) (c_trace c)) c"
proof -
  have "wp (transition lib deps ref st) (\<lambda>t c'. since (\<lambda>m. \<not> legal_path (trail m)) (c_trace c) c' \<and>
      (t = None \<longrightarrow> astray (c_trace c) ref c')) c"
  proof (rule wp_transition)
    fix t j w m now and s :: jrecord
    assume m: "append_audit lib (mutation_of ref c) st now = Some m" and s: "jr_Mutation s = m"
    have "mu_MutationRef m = ref" using append_audit_sel(1) [OF m] filed_ref [OF c] by simp
    then show "since (\<lambda>m. \<not> legal_path (trail m)) (c_trace c) (commit_entry ref m (c\<lparr>c_journal := j, c_world := w,
          c_trace := c_trace c @ [EvAppend (c_writer c) s]\<rparr>)) \<and>
        (t = None \<longrightarrow> astray (c_trace c) ref (commit_entry ref m (c\<lparr>c_journal := j, c_world := w,
          c_trace := c_trace c @ [EvAppend (c_writer c) s]\<rparr>)))"
      using s append_audit_trail(1) [OF m] illegal
      by (simp add: astray_def since_def filed_commit mutation_of_commit)
  qed (simp add: since_def)
  then show ?thesis
    unfolding transition_or_return_def wp_bind answer_def
    by (rule wp_mono) (auto intro: k split: option.splits)
qed

text \<open>
  C12. Rollback of an unsuitable mutation. A rollback request starts whatever the mutation's state is.
  When the mutation is neither applied nor an active probe, every record the rollback makes has an
  illegal trail, and no journal that holds such a record can be restored.
\<close>

theorem rollback_unchecked:
  assumes "standing ref st c" "st \<notin> {MutationStateV1Applied, MutationStateV1ProbeActive}"
  shows "since (\<lambda>m. ValidateMutationV1 lib m \<noteq> None) (c_trace c) (snd (run_state (startRollback lib deps ref) c)) \<and>
    (\<forall>s rs c0. s \<in> set rs \<and> ValidateMutationV1 lib (jr_Mutation s) \<noteq> None \<longrightarrow> restore lib deps' rs c0 = None)"
proof -
  let ?f = "\<lambda>m. m\<lparr>mu_Rollback := Some (rollback_blank MutationStateV1RollbackIntent (mu_Before m)), mu_Error := None\<rparr>"
  have c: "standing ref st (edit_state ref ?f c)"
    using assms(1) by (rule standing_edit) (simp add: frame_def)
  have "\<not> validMutationTransitionV1 st MutationStateV1RollbackIntent"
    using assms(2) by (cases st) simp_all
  with c have "\<not> legal_path (trail (mutation_of ref (edit_state ref ?f c)) @ [MutationStateV1RollbackIntent])"
    by (simp add: standing_def legal_path_snoc)
  moreover have "wp (continueRollbackFromIntent lib deps ref) (\<lambda>_. since (\<lambda>m. \<not> legal_path (trail m)) (c_trace c)) c'"
    if "astray (c_trace c) ref c'" for c'
    by (rule wp_mono [OF keepsD [OF astray.keeps_continueRollbackFromIntent that]]) (simp add: astray_def)
  ultimately have "wp (startRollback lib deps ref) (\<lambda>_. since (\<lambda>m. \<not> legal_path (trail m)) (c_trace c)) c"
    using c wp_astray [of ref "edit_state ref ?f c" MutationStateV1RollbackIntent "continueRollbackFromIntent lib deps ref"]
    by (simp add: startRollback_def standing_def)
  then show ?thesis
    using ValidateMutation_path(1) restore_refuses by (fastforce simp: wp_iff_run since_def)
qed

text \<open>A mutation in a given state, at the end of a given trail, on the sample deployment.\<close>

definition sample_trailed :: "MutationStateV1 list \<Rightarrow> MutationV1" where
  "sample_trailed ss = sample_mutation\<lparr>mu_State := last ss, mu_Audit := map (\<lambda>s. \<lparr>at_Sequence = 0, at_State = s,
     at_TransitionedAt = sample_time, at_Classification = [], at_PreviousHash = None, at_TransitionHash = []\<rparr>) ss\<rparr>"

definition sample_at :: "MutationStateV1 list \<Rightarrow> bool coord" where
  "sample_at ss = sample_restored\<lparr>c_entries := [(sample_ref, sample_entry\<lparr>re_mutation := sample_trailed ss,
     re_published := Some (sample_trailed ss)\<rparr>)]\<rparr>"

lemma sample_at_standing:
  assumes "legal_path ss" "ss \<noteq> []"
  shows "standing sample_ref (last ss) (sample_at ss)"
  using assms
  by (simp add: standing_def filed_def records_legal_def sample_at_def sample_trailed_def sample_restored_def
      mutation_of_def entry_of_def comp_def)

lemma sample_rejected_path:
  "legal_path [MutationStateV1Prepared, MutationStateV1DispatchIntent, MutationStateV1ReplyObserved,
     MutationStateV1VerifyPending, MutationStateV1Rejected]"
  "legal_path [MutationStateV1Prepared, MutationStateV1DispatchIntent, MutationStateV1ReplyObserved]"
  by (simp_all add: legal_path_def validInitialMutationStateV1_def)

theorem rollback_unchecked_witness:
  "since (\<lambda>m. ValidateMutationV1 sample_lib m \<noteq> None) (c_trace (sample_at [MutationStateV1Prepared,
      MutationStateV1DispatchIntent, MutationStateV1ReplyObserved, MutationStateV1VerifyPending, MutationStateV1Rejected]))
    (snd (run_state (startRollback sample_lib sample_deps sample_ref) (sample_at [MutationStateV1Prepared,
      MutationStateV1DispatchIntent, MutationStateV1ReplyObserved, MutationStateV1VerifyPending,
      MutationStateV1Rejected])))"
  by (rule rollback_unchecked [OF sample_at_standing [OF sample_rejected_path(1)], THEN conjunct1]) simp_all

subsection \<open>Recovery from an observed reply\<close>

definition at_reply :: "event list \<Rightarrow> string \<Rightarrow> 'w coord \<Rightarrow> bool" where
  "at_reply old ref c \<longleftrightarrow> standing ref MutationStateV1ReplyObserved c \<and> c_trace c = old"

abbreviation unreadable_or_unknown :: "event list \<Rightarrow> 'w coord \<Rightarrow> bool" where
  "unreadable_or_unknown \<equiv> since (\<lambda>m. mu_State m = MutationStateV1OutcomeUnknown \<or> \<not> legal_path (trail m))"

lemma at_reply_keeps:
  "keeps (at_reply old ref) (ask f)" "keeps (at_reply old ref) (look g)" "frame h \<Longrightarrow> keeps (at_reply old ref) (edit ref h)"
  by (auto simp: keeps_def at_reply_def standing_edit split: prod.splits)

lemma at_reply_reads:
  "keeps (at_reply old ref) (read_target_of deps ref)" "keeps (at_reply old ref) (trustworthy lib deps ref rb t b)"
  unfolding readCurrent_def read_target_of_def trustworthy_def Let_def
  by (intro keeps_rules at_reply_keeps)+

lemma answers_same_trace:
  "flows (since P old) (since P old) (answer ref t)" "flows (since P old) (since P old) (answer_error ref)"
  "flows (since P old) (since P old) (do {scheduleProbe ref; answer ref t})"
  "flows (at_reply old ref) (since P old) (answer ref t)"
  by (auto simp: flows_def answer_def answer_error_def scheduleProbe_def scheduleProbeAt_def file_timer_def at_reply_def
      since_def split: option.splits)

lemma reply_step:
  fixes deps :: "'w mdeps"
  assumes "st \<noteq> MutationStateV1VerifyPending" "flows (unreadable_or_unknown old) (unreadable_or_unknown old) k"
  shows "flows (at_reply old ref) (unreadable_or_unknown old) (transition_or_return lib deps ref st k)"
proof (rule flowsI)
  fix c :: "'w coord" assume c: "at_reply old ref c"
  then have illegal: "st \<noteq> MutationStateV1OutcomeUnknown \<Longrightarrow> \<not> legal_path (trail (mutation_of ref c) @ [st])"
    using assms(1) by (auto simp: at_reply_def standing_def legal_path_snoc)
  have "wp (transition lib deps ref st) (\<lambda>_. unreadable_or_unknown old) c"
    using c illegal append_audit_trail
    by (intro wp_transition) (auto simp: since_def at_reply_def split del: if_split)
  then show "wp (transition_or_return lib deps ref st k) (\<lambda>_. unreadable_or_unknown old) c"
    unfolding transition_or_return_def wp_bind answer_def
    by (rule wp_mono) (auto intro: flowsD [OF assms(2)] split: option.splits)
qed

lemmas at_reply_binds = flows_bind [OF at_reply_keeps(1)] flows_bind [OF at_reply_keeps(2)]
  flows_bind [OF at_reply_keeps(3)] flows_bind [OF at_reply_reads(1)] flows_bind [OF at_reply_reads(2)]

lemma recover_reply_strays: "flows (at_reply old ref) (unreadable_or_unknown old) (recover_reply lib deps ref)"
  unfolding recover_reply_def resolveCorrelatedReadback_def persistApplied_def persistConflict_def
    persistCorrelatedContradiction_def
  by (intro flows_if flows_option flows_prod at_reply_binds reply_step answers_same_trace;
      simp add: frame_def outcome_unknown_def)

text \<open>
  C13. Recovery after a reply. A reply to the write is recorded as \<open>reply_observed\<close>, then
  \<open>verify_pending\<close>. When a crash falls between the two, recovery resolves the mutation straight from
  \<open>reply_observed\<close>: every record it makes, but the record of an unknown outcome, has an illegal
  trail, and no journal that holds such a record can be restored.
\<close>

theorem reply_recovery_unreadable:
  assumes "standing ref MutationStateV1ReplyObserved c"
  shows "since (\<lambda>m. mu_State m = MutationStateV1OutcomeUnknown \<or> ValidateMutationV1 lib m \<noteq> None) (c_trace c)
      (snd (run_state (recoverEntry lib deps ref) c)) \<and>
    (\<forall>s rs c0. s \<in> set rs \<and> ValidateMutationV1 lib (jr_Mutation s) \<noteq> None \<longrightarrow> restore lib deps' rs c0 = None)"
proof -
  have "wp (recover_reply lib deps ref) (\<lambda>_. unreadable_or_unknown (c_trace c)) c"
    using assms by (intro flowsD [OF recover_reply_strays]) (simp add: at_reply_def)
  then have "wp (recoverEntry lib deps ref) (\<lambda>_. unreadable_or_unknown (c_trace c)) c"
    using assms by (simp add: recoverEntry_def standing_def)
  then show ?thesis
    using ValidateMutation_path(1) restore_refuses by (fastforce simp: wp_iff_run since_def)
qed

theorem reply_recovery_unreadable_witness:
  "since (\<lambda>m. mu_State m = MutationStateV1OutcomeUnknown \<or> ValidateMutationV1 sample_lib m \<noteq> None)
     (c_trace (sample_at [MutationStateV1Prepared, MutationStateV1DispatchIntent, MutationStateV1ReplyObserved]))
     (snd (run_state (recoverEntry sample_lib sample_deps sample_ref)
       (sample_at [MutationStateV1Prepared, MutationStateV1DispatchIntent, MutationStateV1ReplyObserved])))"
  by (rule reply_recovery_unreadable [OF sample_at_standing [OF sample_rejected_path(2), simplified], THEN conjunct1])

end
