(* ===== verification/Canonical.thy ===== *)
theory Canonical
  imports TypedValue "HOL-Library.List_Lexorder" "HOL-Library.Multiset" "HOL-Library.Code_Target_Nat"
begin

text \<open>
  What canonicalisation of typed values guarantees: the form of its results, that they are fixed
  points, that the canonical text does not depend on the order in which a Go map lists its members,
  and that the text of a document is a single line.
\<close>

subsection \<open>The form of canonical values\<close>

text \<open>\<open>canonical_form lib depth mx v\<close>: what may occur at nesting depth \<open>depth\<close>, at most \<open>mx\<close>.\<close>

function canonical_form :: "golib \<Rightarrow> nat \<Rightarrow> nat \<Rightarrow> gval \<Rightarrow> bool" where
  "canonical_form lib depth mx v =
     (case v of
        GNil \<Rightarrow> True
      | GBool b \<Rightarrow> True
      | GInt i \<Rightarrow> \<bar>i\<bar> \<le> int typedValueMaximumSafeInteger
      | GString s \<Rightarrow> canonicalTypedStringV1 lib s = Inr s
      | GSlice xs \<Rightarrow> depth \<le> mx \<and> length xs \<le> typedValueMaximumMembers \<and> list_all (canonical_form lib (Suc depth) mx) xs
      | GMap kvs \<Rightarrow> depth \<le> mx \<and> length kvs \<le> typedValueMaximumMembers \<and> distinct (map fst kvs) \<and>
          list_all (\<lambda>kv. \<not> key_invalid (fst kv) \<and> \<not> rawFeatureSecretNameV1 lib (fst kv) \<and>
            canonical_form lib (Suc depth) mx (snd kv)) kvs
      | _ \<Rightarrow> False)"
  by pat_completeness auto
termination
proof (relation "measure (\<lambda>(_, _, _, v). size v)")
  fix lib :: golib and depth mx v xs x assume "v = GSlice xs" "x \<in> set xs"
  then show "((lib, Suc depth, mx, x), lib, depth, mx, v) \<in> measure (\<lambda>(_, _, _, v). size v)"
    by (auto simp: less_Suc_eq_le intro: size_list_estimation')
next
  fix lib :: golib and depth mx v kvs and kv :: "string \<times> gval" assume "v = GMap kvs" "kv \<in> set kvs"
  then show "((lib, Suc depth, mx, snd kv), lib, depth, mx, v) \<in> measure (\<lambda>(_, _, _, v). size v)"
    by (cases kv) (auto simp: size_member)
qed auto

lemma canonical_form_simps [simp]:
  "canonical_form lib d mx GNil" "canonical_form lib d mx (GBool b)"
  "canonical_form lib d mx (GInt i) \<longleftrightarrow> \<bar>i\<bar> \<le> int typedValueMaximumSafeInteger"
  "canonical_form lib d mx (GString s) \<longleftrightarrow> canonicalTypedStringV1 lib s = Inr s"
  "canonical_form lib d mx (GSlice xs) \<longleftrightarrow>
     d \<le> mx \<and> length xs \<le> typedValueMaximumMembers \<and> list_all (canonical_form lib (Suc d) mx) xs"
  "canonical_form lib d mx (GMap kvs) \<longleftrightarrow> d \<le> mx \<and> length kvs \<le> typedValueMaximumMembers \<and> distinct (map fst kvs) \<and>
     list_all (\<lambda>kv. \<not> key_invalid (fst kv) \<and> \<not> rawFeatureSecretNameV1 lib (fst kv) \<and>
       canonical_form lib (Suc d) mx (snd kv)) kvs"
  "\<not> canonical_form lib d mx (GNumber s)" "\<not> canonical_form lib d mx (GUint n)" "\<not> canonical_form lib d mx GFloat"
  "\<not> canonical_form lib d mx GBadMap" "\<not> canonical_form lib d mx (GTyped v)" "\<not> canonical_form lib d mx (GPtr p)"
  "\<not> canonical_form lib d mx GOther"
  by (simp_all add: canonical_form.simps)

declare canonical_form.simps [simp del]

text \<open>
  Integers beyond the safe range become decimal strings. That these pass the secret filter rests on
  the library: normalisation and upper-casing leave ASCII digits and the sign alone.
\<close>

definition decimal_text :: "string \<Rightarrow> bool" where
  "decimal_text s \<longleftrightarrow> s \<noteq> [] \<and> length s \<le> typedValueMaximumStringBytes \<and> list_all is_digit (if hd s = CHR ''-'' then tl s else s)"

definition plain_decimals :: "golib \<Rightarrow> bool" where
  "plain_decimals lib \<longleftrightarrow> (\<forall>s. decimal_text s \<longrightarrow> nfkc lib s = s \<and> to_upper lib s = s)"

lemma canonical_string:
  "canonicalTypedStringV1 lib s = Inr t \<Longrightarrow> t = s" "canonicalTypedStringV1 lib s = Inr t \<Longrightarrow> canonicalTypedStringV1 lib t = Inr t"
  by (auto simp: canonicalTypedStringV1_def Let_def split: if_splits)

lemma has_prefix_split: "has_prefix p s \<Longrightarrow> s = p @ drop (length p) s"
  by (induction p s rule: has_prefix.induct) auto

lemma go_cut_split: "go_cut p s = Some (b, a) \<Longrightarrow> s = b @ p @ a"
proof (induction p s arbitrary: b a rule: go_cut.induct)
  case (2 p c cs)
  then show ?case
    by (auto split: if_splits option.splits dest: has_prefix_split)
qed (auto split: if_splits)

lemma go_cut_absent: "x \<in> set p \<Longrightarrow> x \<notin> set s \<Longrightarrow> go_cut p s = None"
  by (cases "go_cut p s") (auto dest!: go_cut_split)

lemma fields_aux_single: "list_all (\<lambda>ch. \<not> is_space (fst ch)) cs \<Longrightarrow> length (fields_aux w cs) \<le> 1"
  by (induction w cs rule: fields_aux.induct) auto

lemma trim_space_id: "list_all (\<lambda>ch. \<not> is_space (fst ch)) (go_chunks s) \<Longrightarrow> trim_space s = s"
proof -
  assume a: "list_all (\<lambda>ch. \<not> is_space (fst ch)) (go_chunks s)"
  have "dropWhile (is_space \<circ> fst) xs = xs" if "list_all (\<lambda>ch. \<not> is_space (fst ch)) xs" for xs :: "(nat \<times> string) list"
    using that by (cases xs) auto
  with a show ?thesis by (simp add: trim_space_def concat_go_chunks list_all_rev)
qed

lemma decimal_char:
  assumes "decimal_text s" "c \<in> set s"
  shows "(of_char c :: nat) < 128" "\<not> is_space (of_char c)" "c \<noteq> CHR ''B''"
proof -
  have "c = CHR ''-'' \<or> is_digit c"
    using assms by (cases s) (auto simp: decimal_text_def list_all_iff split: if_splits)
  then show "(of_char c :: nat) < 128" "\<not> is_space (of_char c)" "c \<noteq> CHR ''B''"
    by (auto simp: is_digit_def in_range_def is_space_def)
qed

lemma decimal_chunks: "decimal_text s \<Longrightarrow> go_chunks s = map (\<lambda>c. (of_char c, [c])) s"
  by (rule go_chunks_ascii) (auto simp: list_all_iff decimal_char)

lemma decimal_canonical:
  assumes "plain_decimals lib" "decimal_text s"
  shows "canonicalTypedStringV1 lib s = Inr s"
proof -
  have chunks: "list_all (\<lambda>ch. \<not> is_space (fst ch)) (go_chunks s)"
    using assms(2) by (auto simp: decimal_chunks list_all_iff decimal_char)
  have "CHR ''B'' \<notin> set s" using assms(2) decimal_char(3) by blast
  then have "\<not> rawFeaturePrivateKeyBoundaryV1 s"
    by (simp add: rawFeaturePrivateKeyBoundaryV1_def go_contains_def private_key_scan.simps [of s]
        go_cut_absent [where x = "CHR ''B''"])
  moreover have "\<not> 1 < length (go_fields s)"
    using fields_aux_single [OF chunks] by (simp add: go_fields_def not_less)
  moreover have "utf8_valid s"
    using assms(2) by (auto simp: utf8_valid_def decimal_chunks list_all_iff chunk_valid_def dest: decimal_char)
  ultimately show ?thesis
    using assms by (simp add: canonicalTypedStringV1_def plain_decimals_def trim_space_id [OF chunks] Let_def
        decimal_text_def)
qed

lemma digit_char: "d < 10 \<Longrightarrow> is_digit (digit_char d)"
  by (simp add: is_digit_def in_range_def digit_char_def)

lemma dec_nat_digits: "list_all is_digit (dec_nat n)" "dec_nat n \<noteq> []"
  by (induction n rule: dec_nat.induct) (simp_all add: dec_nat.simps digit_char split: if_splits)

lemma dec_nat_length: "n < 10 ^ k \<Longrightarrow> 0 < k \<Longrightarrow> length (dec_nat n) \<le> k"
proof (induction n arbitrary: k rule: dec_nat.induct)
  case (1 n)
  show ?case
  proof (cases "n < 10")
    case False
    with "1.prems" have "1 < k" by (cases "k = 1") auto
    moreover have "n div 10 < 10 ^ (k - 1)"
      using "1.prems" by (cases k) (auto simp: less_mult_imp_div_less mult.commute)
    ultimately have "length (dec_nat (n div 10)) \<le> k - 1" using "1.IH" False by simp
    with False \<open>1 < k\<close> show ?thesis by (simp add: dec_nat.simps [of n])
  qed (use "1.prems" in \<open>simp add: dec_nat.simps [of n]\<close>)
qed

lemma dec_decimal:
  "n < 2 ^ 64 \<Longrightarrow> decimal_text (dec_nat n)" "\<bar>i\<bar> < 2 ^ 64 \<Longrightarrow> decimal_text (dec_int i)"
proof -
  have short: "length (dec_nat n) \<le> 20" if "n < 2 ^ 64" for n
    using that by (intro dec_nat_length) auto
  have hd: "hd (dec_nat n) \<noteq> CHR ''-''" for n
    using dec_nat_digits [of n] by (cases "dec_nat n") (auto simp: is_digit_def in_range_def)
  show "n < 2 ^ 64 \<Longrightarrow> decimal_text (dec_nat n)"
    using dec_nat_digits [of n] short [of n] hd [of n] by (auto simp: decimal_text_def typed_limits)
  show "\<bar>i\<bar> < 2 ^ 64 \<Longrightarrow> decimal_text (dec_int i)"
    using dec_nat_digits [of "nat i"] dec_nat_digits [of "nat (- i)"] short [of "nat \<bar>i\<bar>"] hd [of "nat i"]
    by (auto simp: decimal_text_def typed_limits dec_int_def nat_less_iff abs_if split: if_splits)
qed

text \<open>The values Go can pass: signed and unsigned integers of at most 64 bits.\<close>

function machine_value :: "gval \<Rightarrow> bool" where
  "machine_value v =
     (case v of
        GInt i \<Rightarrow> - (2 ^ 63) \<le> i \<and> i < 2 ^ 63
      | GUint n \<Rightarrow> n < 2 ^ 64
      | GSlice xs \<Rightarrow> list_all machine_value xs
      | GMap kvs \<Rightarrow> list_all (\<lambda>kv. machine_value (snd kv)) kvs
      | GTyped w \<Rightarrow> machine_value w
      | GPtr (Some w) \<Rightarrow> machine_value w
      | _ \<Rightarrow> True)"
  by pat_completeness auto
termination
proof (relation "measure size")
  fix v xs x assume "v = GSlice xs" "x \<in> set xs"
  then show "(x, v) \<in> measure size"
    by (auto simp: less_Suc_eq_le intro: size_list_estimation')
next
  fix v kvs kv assume "v = GMap kvs" "kv \<in> set kvs"
  then show "(snd kv, v) \<in> measure size"
    by (cases kv) (auto simp: size_member)
qed auto

lemma machine_value_simps [simp]:
  "machine_value (GInt i) \<longleftrightarrow> - (2 ^ 63) \<le> i \<and> i < 2 ^ 63" "machine_value (GUint n) \<longleftrightarrow> n < 2 ^ 64"
  "machine_value (GSlice xs) \<longleftrightarrow> list_all machine_value xs"
  "machine_value (GMap kvs) \<longleftrightarrow> list_all (\<lambda>kv. machine_value (snd kv)) kvs"
  "machine_value (GTyped w) = machine_value w" "machine_value (GPtr (Some w)) = machine_value w"
  "machine_value (GBool b)" "machine_value (GString s)" "machine_value GNil"
  by (subst machine_value.simps, simp)+

declare machine_value.simps [simp del]

lemma map_sum_Inr [simp]: "map_sum id f x = Inr y \<longleftrightarrow> (\<exists>z. x = Inr z \<and> y = f z)"
  by (cases x) auto

lemma canonical_number_form: "canonical_number lib s = Inr c \<Longrightarrow> canonical_form lib d mx c"
  by (auto simp: canonical_number_def abs_le_iff split: if_splits option.splits intro: canonical_string(2))

lemma canon_form:
  shows "canon_value lib b v d mx = Inr c \<Longrightarrow> machine_value v \<Longrightarrow> plain_decimals lib \<Longrightarrow> canonical_form lib d mx c"
    and "canon_items lib xs d mx = Inr cs \<Longrightarrow> list_all machine_value xs \<Longrightarrow> plain_decimals lib \<Longrightarrow>
      list_all (canonical_form lib d mx) cs \<and> length cs = length xs"
    and "canon_members lib seen kvs d mx = Inr ms \<Longrightarrow> list_all (\<lambda>kv. machine_value (snd kv)) kvs \<Longrightarrow>
      plain_decimals lib \<Longrightarrow> length ms = length kvs \<and> distinct (map fst ms) \<and> set (map fst ms) \<inter> set seen = {} \<and>
      list_all (\<lambda>kv. \<not> key_invalid (fst kv) \<and> \<not> rawFeatureSecretNameV1 lib (fst kv) \<and>
        canonical_form lib d mx (snd kv)) ms"
proof (induction lib b v d mx and lib xs d mx and lib seen kvs d mx arbitrary: c and cs and ms
    rule: canon_value_canon_items_canon_members.induct)
  case (2 lib deref s depth mx)
  then show ?case by (auto simp: canonical_number_form split: if_splits intro: canonical_string(2))
next
  case (8 lib deref i depth mx)
  then have "\<bar>i\<bar> < 2 ^ 64" by auto
  with 8 show ?case by (auto simp: decimal_canonical dec_decimal abs_le_iff split: if_splits)
next
  case (9 lib deref n depth mx)
  then show ?case by (auto simp: decimal_canonical dec_decimal split: if_splits)
next
  case (12 lib deref kvs depth mx)
  from "12.prems" obtain ms where ms: "c = GMap ms" "canon_members lib [] kvs (Suc depth) mx = Inr ms" "depth \<le> mx"
      "length kvs \<le> typedValueMaximumMembers"
    by (auto split: if_splits)
  have "length ms = length kvs \<and> distinct (map fst ms) \<and> set (map fst ms) \<inter> set [] = {} \<and>
      list_all (\<lambda>kv. \<not> key_invalid (fst kv) \<and> \<not> rawFeatureSecretNameV1 lib (fst kv) \<and>
        canonical_form lib (Suc depth) mx (snd kv)) ms"
    by (rule "12.IH") (use ms "12.prems" in simp_all)
  with ms show ?case by simp
next
  case (7 lib deref s depth mx)
  then show ?case by (auto intro: canonical_string(2))
next
  case (18 lib seen k v kvs depth mx)
  then obtain w ws where w: "\<not> key_invalid k" "\<not> rawFeatureSecretNameV1 lib k" "k \<notin> set seen"
      "canon_value lib False v depth mx = Inr w" "canon_members lib (k # seen) kvs depth mx = Inr ws" "ms = (k, w) # ws"
    by (auto split: if_splits sum.splits)
  then have "canonical_form lib depth mx w" using 18 by simp
  moreover have "length ws = length kvs \<and> distinct (map fst ws) \<and> set (map fst ws) \<inter> set (k # seen) = {} \<and>
      list_all (\<lambda>kv. \<not> key_invalid (fst kv) \<and> \<not> rawFeatureSecretNameV1 lib (fst kv) \<and>
        canonical_form lib depth mx (snd kv)) ws"
    by (rule "18.IH"(2)) (use w "18.prems" in simp_all)
  ultimately show ?case using w by auto
qed (auto split: if_splits sum.splits)

lemma canon_fixed:
  shows "canonical_form lib d mx v \<Longrightarrow> canon_value lib False v d mx = Inr v"
proof (induction v arbitrary: d rule: measure_induct_rule [where f = size])
  case (less v)
  have items: "canon_items lib xs d' mx = Inr xs"
    if "list_all (canonical_form lib d' mx) xs" "\<And>x. x \<in> set xs \<Longrightarrow> size x < size v" for xs d'
    using that by (induction xs) (auto simp: less.IH)
  have members: "canon_members lib seen kvs d' mx = Inr kvs"
    if "list_all (\<lambda>kv. \<not> key_invalid (fst kv) \<and> \<not> rawFeatureSecretNameV1 lib (fst kv) \<and>
        canonical_form lib d' mx (snd kv)) kvs" "distinct (map fst kvs)" "set (map fst kvs) \<inter> set seen = {}"
      "\<And>kv. kv \<in> set kvs \<Longrightarrow> size (snd kv) < size v" for seen kvs d'
    using that
  proof (induction kvs arbitrary: seen)
    case (Cons kv kvs)
    moreover from Cons.prems(4) have "size (snd kv) < size v" by simp
    ultimately show ?case using less.IH [of "snd kv" d'] by (cases kv) auto
  qed simp
  show ?case
  proof (cases v)
    case (GSlice xs)
    then have "size x < size v" if "x \<in> set xs" for x
      using that by (auto simp: less_Suc_eq_le intro: size_list_estimation')
    then show ?thesis using less.prems GSlice by (simp add: items)
  next
    case (GMap kvs)
    then have "size (snd kv) < size v" if "kv \<in> set kvs" for kv
      using that by (cases kv) (auto simp: size_member)
    then show ?thesis using less.prems GMap by (simp add: members)
  qed (use less.prems in \<open>auto simp: abs_le_iff\<close>)
qed

lemma clone_fixed: "canonical_form lib d mx v \<Longrightarrow> cloneTypedValueV1 v = v"
proof (induction v arbitrary: d rule: cloneTypedValueV1.induct)
  case (1 xs)
  then have "cloneTypedValueV1 x = x" if "x \<in> set xs" for x
    using that by (auto simp: list_all_iff)
  then show ?case by (simp add: map_idI)
next
  case (2 kvs)
  have "cloneTypedValueV1 v = v" if "(k, v) \<in> set kvs" for k v
    using 2 that by (fastforce simp: list_all_iff)
  then show ?case by (auto intro: map_idI)
qed simp_all

text \<open>
  C14. Typed values. Whatever Go value is passed, when a typed value can be made of it, the typed
  value is in canonical form (integers in the safe range, strings and keys that passed the secret
  filter, at most four levels of nesting, at most 256 members, no duplicate keys), its canonical
  text exists and keeps the size limit, making a typed value of it again gives the same one, so it
  validates, and its clone is equal to it.
\<close>

theorem typed_value_canonical:
  assumes "plain_decimals lib" "machine_value v" "NewTypedValueV1 lib v = Inr tv"
  shows "canonical_form lib 1 typedValueMaximumDepth (tv_value tv) \<and>
    (\<exists>out. canonicalJSON lib tv = Inr out \<and> length out \<le> typedValueMaximumJCSBytes) \<and>
    NewTypedValueV1 lib (tv_value tv) = Inr tv \<and> Validate lib tv \<and> Clone tv = tv"
proof -
  from assms(3) obtain c out where c: "canonicalTypedValueV1 lib v 1 = Inr c" "canonicalJSON lib (TypedValueV1 c) = Inr out"
      "tv = TypedValueV1 c" "length out \<le> typedValueMaximumJCSBytes"
    by (auto simp: NewTypedValueV1_def split: sum.splits if_splits)
  have form: "canonical_form lib 1 typedValueMaximumDepth c"
    using assms c(1) canon_form(1) by (simp add: canonicalTypedValueV1_def canonicalTypedValueV1WithDepth_def)
  then have "canonicalTypedValueV1 lib c 1 = Inr c"
    by (simp add: canonicalTypedValueV1_def canonicalTypedValueV1WithDepth_def canon_fixed)
  with c form show ?thesis
    by (simp add: NewTypedValueV1_def Validate_def Clone_def clone_fixed)
qed

text \<open>Stand-ins for the library that leave texts as they are.\<close>

definition plain_lib :: golib where
  "plain_lib = \<lparr>sha256 = (\<lambda>_. replicate 32 (CHR 0x00)), hmac_sha256 = (\<lambda>_ _. replicate 32 (CHR 0x00)), nfkc = id,
     to_upper = id, json_valid = (\<lambda>_. True), json_parse = (\<lambda>_. None)\<rparr>"

lemma plain_lib_decimals: "plain_decimals plain_lib"
  by (simp add: plain_decimals_def plain_lib_def)

lemma plain_value:
  "NewTypedValueV1 plain_lib (GSlice [GTyped (GBool True), GPtr (Some (GUint 7))]) =
     Inr (TypedValueV1 (GSlice [GBool True, GInt 7]))"
  by code_simp

theorem typed_value_canonical_witness:
  "Validate plain_lib (TypedValueV1 (GSlice [GBool True, GInt 7]))"
  using typed_value_canonical [OF plain_lib_decimals _ plain_value] by simp

subsection \<open>Canonical text and the order of members\<close>

lemma Nil_less: "[] < ys \<longleftrightarrow> ys \<noteq> []"
  by (cases ys) auto

lemma less_units_less: "less_units xs ys \<longleftrightarrow> xs < ys"
  by (induction xs ys rule: less_units.induct) (auto simp: Nil_less)

definition utf16_key :: "string \<Rightarrow> nat list" where
  "utf16_key k = concat (map utf16_units (go_runes k))"

lemma lessUTF16_key: "lessUTF16V1 k l \<longleftrightarrow> utf16_key k < utf16_key l"
  by (simp add: lessUTF16V1_def utf16_key_def less_units_less)

text \<open>A valid chunk holds the UTF-8 encoding of its rune, which is no surrogate.\<close>

definition utf8_bytes :: "nat \<Rightarrow> string" where
  "utf8_bytes r =
     (if r < 128 then [char_of r]
      else if r < 2048 then [char_of (192 + r div 64), char_of (128 + r mod 64)]
      else if r < 65536 then [char_of (224 + r div 4096), char_of (128 + r div 64 mod 64), char_of (128 + r mod 64)]
      else [char_of (240 + r div 262144), char_of (128 + r div 4096 mod 64), char_of (128 + r div 64 mod 64),
            char_of (128 + r mod 64)])"

definition scalar :: "nat \<Rightarrow> bool" where
  "scalar r \<longleftrightarrow> r < 55296 \<or> (57344 \<le> r \<and> r < 1114112)"

lemma char_offset: "n \<le> (of_char c :: nat) \<Longrightarrow> char_of (n + (of_char c - n)) = c"
  by simp

lemma cont_byte_lower: "cont_byte lo hi c \<Longrightarrow> 128 \<le> lo \<Longrightarrow> 128 \<le> (of_char c :: nat)"
  by (simp add: cont_byte_def)

lemma sextet: "y < 64 \<Longrightarrow> (x * 64 + y) div 64 = x" "y < 64 \<Longrightarrow> (x * 64 + y) mod 64 = (y :: nat)"
  by simp_all

lemma div_sextets: "n div 4096 = n div 64 div (64 :: nat)" "n div 262144 = n div 64 div 64 div (64 :: nat)"
  by (simp_all flip: div_mult2_eq)

lemma sextets:
  fixes x y z w :: nat
  assumes "y < 64" "z < 64" "w < 64"
  shows "(x * 64 + y) div 64 = x" "(x * 64 + y) mod 64 = y"
    "(x * 4096 + y * 64 + z) div 4096 = x" "(x * 4096 + y * 64 + z) div 64 mod 64 = y" "(x * 4096 + y * 64 + z) mod 64 = z"
    "(x * 262144 + y * 4096 + z * 64 + w) div 262144 = x" "(x * 262144 + y * 4096 + z * 64 + w) div 4096 mod 64 = y"
    "(x * 262144 + y * 4096 + z * 64 + w) div 64 mod 64 = z" "(x * 262144 + y * 4096 + z * 64 + w) mod 64 = w"
proof -
  have three: "x * 4096 + y * 64 + z = (x * 64 + y) * 64 + z" by simp
  have four: "x * 262144 + y * 4096 + z * 64 + w = ((x * 64 + y) * 64 + z) * 64 + w" by simp
  show "(x * 64 + y) div 64 = x" "(x * 64 + y) mod 64 = y"
    using assms by (simp_all only: sextet)
  show "(x * 4096 + y * 64 + z) div 4096 = x" "(x * 4096 + y * 64 + z) div 64 mod 64 = y" "(x * 4096 + y * 64 + z) mod 64 = z"
    unfolding three div_sextets using assms by (simp_all only: sextet)
  show "(x * 262144 + y * 4096 + z * 64 + w) div 262144 = x" "(x * 262144 + y * 4096 + z * 64 + w) div 4096 mod 64 = y"
    "(x * 262144 + y * 4096 + z * 64 + w) div 64 mod 64 = z" "(x * 262144 + y * 4096 + z * 64 + w) mod 64 = w"
    unfolding four div_sextets using assms by (simp_all only: sextet)
qed

lemma utf8_next_two:
  assumes "194 \<le> (of_char c :: nat)" "(of_char c :: nat) \<le> 223" "cont_byte 128 191 c1"
  shows "let r = (of_char c - 192) * 64 + (of_char c1 - 128) in utf8_bytes r = [c, c1] \<and> scalar r"
proof -
  let ?x = "(of_char c :: nat) - 192" and ?y = "(of_char c1 :: nat) - 128"
  have "?y < 64" "?x < 32" "2 \<le> ?x" using assms by (auto simp: cont_byte_def)
  moreover from this have "char_of (192 + ?x) = c" "char_of (128 + ?y) = c1"
    using assms by (auto intro!: char_offset elim!: cont_byte_lower)
  ultimately show ?thesis
    by (simp add: Let_def utf8_bytes_def scalar_def sextets [where z = 0 and w = 0])
qed

lemma utf8_next_three:
  assumes "224 \<le> (of_char c :: nat)" "(of_char c :: nat) \<le> 239" "cont_byte 128 191 c2"
    "cont_byte (if (of_char c :: nat) = 224 then 160 else 128) (if (of_char c :: nat) = 237 then 159 else 191) c1"
  shows "let r = (of_char c - 224) * 4096 + (of_char c1 - 128) * 64 + (of_char c2 - 128)
    in utf8_bytes r = [c, c1, c2] \<and> scalar r"
proof -
  let ?x = "(of_char c :: nat) - 224" and ?y = "(of_char c1 :: nat) - 128" and ?z = "(of_char c2 :: nat) - 128"
  have "?y < 64" "?z < 64" "?x < 16" "2048 \<le> ?x * 4096 + ?y * 64 + ?z"
    "?x * 4096 + ?y * 64 + ?z < 55296 \<or> 57344 \<le> ?x * 4096 + ?y * 64 + ?z"
    using assms by (auto simp: cont_byte_def split: if_splits)
  moreover from this have "char_of (224 + ?x) = c" "char_of (128 + ?y) = c1" "char_of (128 + ?z) = c2"
    using assms by (auto intro!: char_offset elim!: cont_byte_lower)
  ultimately show ?thesis
    by (simp add: Let_def utf8_bytes_def scalar_def sextets [where w = 0])
qed

lemma utf8_next_four:
  assumes "240 \<le> (of_char c :: nat)" "(of_char c :: nat) \<le> 244" "cont_byte 128 191 c2" "cont_byte 128 191 c3"
    "cont_byte (if (of_char c :: nat) = 240 then 144 else 128) (if (of_char c :: nat) = 244 then 143 else 191) c1"
  shows "let r = (of_char c - 240) * 262144 + (of_char c1 - 128) * 4096 + (of_char c2 - 128) * 64 + (of_char c3 - 128)
    in utf8_bytes r = [c, c1, c2, c3] \<and> scalar r"
proof -
  let ?x = "(of_char c :: nat) - 240" and ?y = "(of_char c1 :: nat) - 128" and ?z = "(of_char c2 :: nat) - 128"
    and ?w = "(of_char c3 :: nat) - 128"
  have "?y < 64" "?z < 64" "?w < 64" "65536 \<le> ?x * 262144 + ?y * 4096 + ?z * 64 + ?w"
    "?x * 262144 + ?y * 4096 + ?z * 64 + ?w < 1114112"
    using assms by (auto simp: cont_byte_def split: if_splits)
  moreover from this have "char_of (240 + ?x) = c" "char_of (128 + ?y) = c1" "char_of (128 + ?z) = c2"
    "char_of (128 + ?w) = c3"
    using assms by (auto intro!: char_offset elim!: cont_byte_lower)
  ultimately show ?thesis
    by (simp add: Let_def utf8_bytes_def scalar_def sextets)
qed

lemma utf8_next_cases:
  assumes "utf8_next c cs = (r, n)" "\<not> (r = 65533 \<and> n = 0)"
  obtains (one) "(of_char c :: nat) < 128" "r = of_char c" "n = 0"
  | (two) c1 cs1 where "cs = c1 # cs1" "194 \<le> (of_char c :: nat)" "(of_char c :: nat) \<le> 223" "cont_byte 128 191 c1"
      "r = (of_char c - 192) * 64 + (of_char c1 - 128)" "n = 1"
  | (three) c1 c2 cs1 where "cs = c1 # c2 # cs1" "224 \<le> (of_char c :: nat)" "(of_char c :: nat) \<le> 239"
      "cont_byte 128 191 c2"
      "cont_byte (if (of_char c :: nat) = 224 then 160 else 128) (if (of_char c :: nat) = 237 then 159 else 191) c1"
      "r = (of_char c - 224) * 4096 + (of_char c1 - 128) * 64 + (of_char c2 - 128)" "n = 2"
  | (four) c1 c2 c3 cs1 where "cs = c1 # c2 # c3 # cs1" "240 \<le> (of_char c :: nat)" "(of_char c :: nat) \<le> 244"
      "cont_byte 128 191 c2" "cont_byte 128 191 c3"
      "cont_byte (if (of_char c :: nat) = 240 then 144 else 128) (if (of_char c :: nat) = 244 then 143 else 191) c1"
      "r = (of_char c - 240) * 262144 + (of_char c1 - 128) * 4096 + (of_char c2 - 128) * 64 + (of_char c3 - 128)" "n = 3"
  using assms unfolding utf8_next_def Let_def
  by (simp split: if_split_asm list.split_asm del: of_char_of)

lemma utf8_next_bytes:
  assumes "utf8_next c cs = (r, n)" "\<not> (r = 65533 \<and> n = 0)"
  shows "c # take n cs = utf8_bytes r \<and> scalar r"
  using assms
proof (cases rule: utf8_next_cases)
  case one
  then show ?thesis by (simp add: utf8_bytes_def scalar_def)
next
  case (two c1 cs1)
  then show ?thesis using utf8_next_two [of c c1] by (simp add: Let_def)
next
  case (three c1 c2 cs1)
  then show ?thesis using utf8_next_three [of c c2 c1] by (simp add: Let_def)
next
  case (four c1 c2 c3 cs1)
  then show ?thesis using utf8_next_four [of c c2 c3 c1] by (simp add: Let_def)
qed

lemma chunk_bytes:
  "ch \<in> set (go_chunks s) \<Longrightarrow> chunk_valid ch \<Longrightarrow> snd ch = utf8_bytes (fst ch) \<and> scalar (fst ch)"
proof (induction s rule: go_chunks.induct)
  case (2 c cs)
  obtain r n where next': "utf8_next c cs = (r, n)" by fastforce
  show ?case
  proof (cases "ch = (r, c # take n cs)")
    case True
    with "2.prems"(2) have "\<not> (r = 65533 \<and> n = 0)" by (auto simp: chunk_valid_def)
    from utf8_next_bytes [OF next' this] True show ?thesis by simp
  next
    case False
    with 2 next' show ?thesis by (auto simp: Let_def)
  qed
qed simp

lemma valid_chunks: "utf8_valid s \<Longrightarrow> ch \<in> set (go_chunks s) \<Longrightarrow> snd ch = utf8_bytes (fst ch) \<and> scalar (fst ch)"
  using chunk_bytes by (simp add: utf8_valid_def list_all_iff)

lemma valid_runes: "utf8_valid s \<Longrightarrow> s = concat (map utf8_bytes (go_runes s))"
  using valid_chunks [of s] concat_go_chunks [of s] by (simp add: go_runes_def comp_def cong: map_cong)

lemma valid_scalars: "utf8_valid s \<Longrightarrow> r \<in> set (go_runes s) \<Longrightarrow> scalar r"
  using valid_chunks [of s] by (auto simp: go_runes_def)

text \<open>UTF-16 determines the runes: no scalar begins with the unit of another.\<close>

lemma utf16_units_inj:
  assumes "scalar r" "scalar r'" "utf16_units r @ us = utf16_units r' @ us'"
  shows "r = r' \<and> us = us'"
proof -
  have pair: "r = r'" if "65536 \<le> r" "65536 \<le> r'" "(r - 65536) div 1024 = (r' - 65536) div 1024"
    "(r - 65536) mod 1024 = (r' - 65536) mod 1024"
    using that by (metis div_mult_mod_eq eq_diff_iff)
  have "(r - 65536) div 1024 < 1024" "(r' - 65536) div 1024 < 1024"
    using assms(1,2) by (auto simp: scalar_def less_mult_imp_div_less)
  with assms pair show ?thesis
    by (auto simp: utf16_units_def scalar_def split: if_splits)
qed

lemma utf16_inj:
  "list_all scalar rs \<Longrightarrow> list_all scalar rs' \<Longrightarrow> concat (map utf16_units rs) = concat (map utf16_units rs') \<Longrightarrow> rs = rs'"
proof (induction rs arbitrary: rs')
  case Nil
  then show ?case by (cases rs') (auto simp: utf16_units_def split: if_splits)
next
  case (Cons r rs)
  then obtain r' rs'' where rs': "rs' = r' # rs''"
    by (cases rs') (auto simp: utf16_units_def split: if_splits)
  with Cons.prems utf16_units_inj [of r r' "concat (map utf16_units rs)" "concat (map utf16_units rs'')"]
  have "r = r'" "concat (map utf16_units rs) = concat (map utf16_units rs'')" by auto
  with Cons rs' show ?case by simp
qed

lemma utf16_key_inj: "utf8_valid k \<Longrightarrow> utf8_valid l \<Longrightarrow> utf16_key k = utf16_key l \<Longrightarrow> k = l"
  using utf16_inj [of "go_runes k" "go_runes l"] valid_runes [of k] valid_runes [of l] valid_scalars
  by (fastforce simp: utf16_key_def list_all_iff)

subsection \<open>Sorting members\<close>

lemma insert_member_commute:
  assumes "utf16_key (fst x) \<noteq> utf16_key (fst y)"
  shows "insert_member x (insert_member y l) = insert_member y (insert_member x l)"
  using assms by (induction l) (auto simp: lessUTF16_key)

lemma foldr_insert_member:
  assumes "\<And>y. y \<in> set ys \<Longrightarrow> utf16_key (fst x) \<noteq> utf16_key (fst y)"
  shows "foldr insert_member ys (insert_member x l) = insert_member x (foldr insert_member ys l)"
  using assms by (induction ys) (simp_all add: insert_member_commute)

lemma sort_members_mset:
  assumes "mset kvs = mset kvs'" "inj_on utf16_key (fst ` set kvs)" "distinct (map fst kvs)"
  shows "sort_members kvs = sort_members kvs'"
  using assms
proof (induction kvs arbitrary: kvs')
  case (Cons x kvs)
  then have "x \<in> set kvs'" by (metis list.set_intros(1) set_mset_mset)
  then obtain ys zs where split: "kvs' = ys @ x # zs" by (meson split_list)
  with Cons.prems have rest: "mset kvs = mset (ys @ zs)" by simp
  then have keys: "set kvs = set ys \<union> set zs" by (metis set_append set_mset_mset)
  have "utf16_key (fst x) \<noteq> utf16_key (fst y)" if "y \<in> set ys" for y
    using Cons.prems that keys by (auto simp: inj_on_def)
  moreover have "sort_members kvs = sort_members (ys @ zs)"
    using Cons rest by (simp add: inj_on_def)
  ultimately show ?case
    by (simp add: split sort_members_def foldr_insert_member)
qed simp

text \<open>
  C15. Order independence. Go lists the members of a map in an arbitrary order. For keys that are
  valid UTF-8, the canonical text of an object, and so its hash, does not depend on that order.
\<close>

theorem canonical_text_order:
  assumes "mset kvs = mset kvs'" "distinct (map fst kvs)" "list_all (\<lambda>kv. utf8_valid (fst kv)) kvs"
  shows "appendCanonicalJSONV1 (GMap kvs) = appendCanonicalJSONV1 (GMap kvs')"
proof -
  have "inj_on utf16_key (fst ` set kvs)"
    using assms(3) by (auto simp: inj_on_def list_all_iff intro: utf16_key_inj)
  then show ?thesis
    using sort_members_mset [OF assms(1) _ assms(2)] by (simp add: appendCanonicalJSONV1.simps)
qed

theorem canonical_text_order_witness:
  "appendCanonicalJSONV1 (GMap [(''b'', GNil), (''a'', GBool True)]) = appendCanonicalJSONV1 (GMap [(''a'', GBool True), (''b'', GNil)])"
  by (rule canonical_text_order) (simp_all, code_simp)

subsection \<open>Marshalled text is one line\<close>

text \<open>A tree whose number literals hold no line break.\<close>

function plain_numbers :: "gval \<Rightarrow> bool" where
  "plain_numbers v =
     (case v of
        GNumber s \<Rightarrow> CHR 0x0A \<notin> set s
      | GSlice xs \<Rightarrow> list_all plain_numbers xs
      | GMap kvs \<Rightarrow> list_all (\<lambda>kv. plain_numbers (snd kv)) kvs
      | _ \<Rightarrow> True)"
  by pat_completeness auto
termination
proof (relation "measure size")
  fix v xs x assume "v = GSlice xs" "x \<in> set xs"
  then show "(x, v) \<in> measure size"
    by (auto simp: less_Suc_eq_le intro: size_list_estimation')
next
  fix v kvs kv assume "v = GMap kvs" "kv \<in> set kvs"
  then show "(snd kv, v) \<in> measure size"
    by (cases kv) (auto simp: size_member)
qed auto

lemma plain_numbers_simps [simp]:
  "plain_numbers (GNumber s) \<longleftrightarrow> CHR 0x0A \<notin> set s" "plain_numbers (GSlice xs) \<longleftrightarrow> list_all plain_numbers xs"
  "plain_numbers (GMap kvs) \<longleftrightarrow> list_all (\<lambda>kv. plain_numbers (snd kv)) kvs"
  "plain_numbers GNil" "plain_numbers (GBool b)" "plain_numbers (GInt i)" "plain_numbers (GString s)"
  by (subst plain_numbers.simps, simp)+

declare plain_numbers.simps [simp del]

lemma digits_line: "list_all is_digit s \<Longrightarrow> CHR 0x0A \<notin> set s"
  by (auto simp: list_all_iff is_digit_def in_range_def)

lemma dec_line: "CHR 0x0A \<notin> set (dec_nat n)" "CHR 0x0A \<notin> set (dec_int i)"
  using digits_line [OF dec_nat_digits(1)] by (auto simp: dec_int_def)

lemma hex_line: "d < 16 \<Longrightarrow> hex_digit d \<noteq> CHR 0x0A"
  using hex_digit_lower [of d] by (auto simp: is_hex_lower_def is_digit_def in_range_def)

lemma char_of_line: "n < 256 \<Longrightarrow> char_of n = CHR 0x0A \<longleftrightarrow> n = (10 :: nat)"
proof
  assume "n < 256" "char_of n = CHR 0x0A"
  then have "n mod 256 = of_char (CHR 0x0A)" by (metis of_char_of)
  with \<open>n < 256\<close> show "n = 10" by simp
next
  assume "n = 10"
  then have "n = of_char (CHR 0x0A)" by simp
  then show "char_of n = CHR 0x0A" by (simp only: char_of_char)
qed

lemma utf8_bytes_line: "CHR 0x0A \<in> set (utf8_bytes r) \<Longrightarrow> scalar r \<Longrightarrow> r = 10"
proof -
  assume "scalar r" and line: "CHR 0x0A \<in> set (utf8_bytes r)"
  then have "r < 1114112" by (auto simp: scalar_def)
  then have "r div 262144 < 5" "r < 65536 \<Longrightarrow> r div 4096 < 16" "r < 2048 \<Longrightarrow> r div 64 < 32" by auto
  moreover have "n mod 64 < 64" for n :: nat by simp
  ultimately have "char_of n \<noteq> CHR 0x0A" if "char_of n \<in> set (utf8_bytes r)" "128 \<le> r" "128 \<le> n" "n < 256" for n :: nat
    using that by (simp add: char_of_line)
  show "r = 10"
  proof (cases "r < 128")
    case True
    with line show ?thesis by (simp add: utf8_bytes_def eq_commute [of "CHR 0x0A"] char_of_line)
  next
    case False
    have "128 + n mod 64 < 256" for n :: nat
      using mod_less_divisor [of 64 n] by linarith
    moreover have "r < 2048 \<Longrightarrow> 192 + r div 64 < 256" "r < 65536 \<Longrightarrow> 224 + r div 4096 < 256" "240 + r div 262144 < 256"
      using \<open>r < 1114112\<close> by auto
    ultimately show ?thesis
      using line False by (auto simp: utf8_bytes_def eq_commute [of "CHR 0x0A"] char_of_line split: if_splits)
  qed
qed

lemma marshal_escape_line:
  assumes "ch \<in> set (go_chunks s)"
  shows "CHR 0x0A \<notin> set (marshal_escape ch)"
proof -
  have valid: "CHR 0x0A \<notin> set (snd ch)" if "chunk_valid ch" "fst ch \<noteq> 10"
    using chunk_bytes [OF assms that(1)] utf8_bytes_line [of "fst ch"] that(2) by auto
  have hex: "hex_digit (n div 16) \<noteq> CHR 0x0A" "hex_digit (n mod 16) \<noteq> CHR 0x0A" if "n < 256" for n
    using that by (auto intro!: hex_line)
  have quote: "char_of (34 :: nat) \<noteq> CHR 0x0A" "char_of (92 :: nat) \<noteq> CHR 0x0A"
    using char_of_line [of 34] char_of_line [of 92] by simp_all
  show ?thesis
    using valid hex [of "fst ch"] hex [of 60] hex [of 62] hex [of 38] quote
    by (auto simp: marshal_escape_def json_escape_def Let_def eq_commute [of "CHR 0x0A"])
qed

lemma marshal_string_line: "CHR 0x0A \<notin> set (marshal_string s)"
  by (auto simp: marshal_string_def marshal_escape_line)

lemma join_comma_line: "(\<And>t. t \<in> set ts \<Longrightarrow> CHR 0x0A \<notin> set t) \<Longrightarrow> CHR 0x0A \<notin> set (join_comma ts)"
  by (induction ts rule: join_comma.induct) auto

lemma json_text_simps:
  "json_text (GSlice xs) = ''['' @ join_comma (map json_text xs) @ '']''"
  "json_text (GMap kvs) =
     [CHR 0x7B] @ join_comma (map (\<lambda>kv. marshal_string (fst kv) @ '':'' @ json_text (snd kv)) kvs) @ [CHR 0x7D]"
  by (subst json_text.simps, simp)+

lemma json_text_line: "plain_numbers v \<Longrightarrow> CHR 0x0A \<notin> set (json_text v)"
proof (induction v rule: json_text.induct)
  case (1 v)
  show ?case
  proof (cases v)
    case (GSlice xs)
    with 1 have "CHR 0x0A \<notin> set (join_comma (map json_text xs))"
      by (intro join_comma_line) (auto simp: list_all_iff)
    with GSlice show ?thesis by (simp add: json_text_simps)
  next
    case (GMap kvs)
    with 1 have "CHR 0x0A \<notin> set (join_comma (map (\<lambda>kv. marshal_string (fst kv) @ '':'' @ json_text (snd kv)) kvs))"
      by (intro join_comma_line) (auto simp: list_all_iff marshal_string_line)
    with GMap show ?thesis by (simp add: json_text_simps)
  qed (use 1 in \<open>subst json_text.simps, simp add: dec_line marshal_string_line\<close>)+
qed

lemma canon_plain:
  "canon_value lib b v d mx = Inr c \<Longrightarrow> plain_numbers c"
  "canon_items lib xs d mx = Inr cs \<Longrightarrow> list_all plain_numbers cs"
  "canon_members lib seen kvs d mx = Inr ms \<Longrightarrow> list_all (\<lambda>kv. plain_numbers (snd kv)) ms"
  by (induction lib b v d mx and lib xs d mx and lib seen kvs d mx arbitrary: c and cs and ms
      rule: canon_value_canon_items_canon_members.induct)
    (auto simp: canonical_number_def split: if_splits sum.splits option.splits)

end
