(* ===== verification/JournalLog.thy ===== *)
theory JournalLog
  imports Sample Canonical
begin

text \<open>
  The journal as a log: what the file holds after appends that succeed, fail or are cut short, and
  that reading it gives back exactly the records that were made durable. The interface of a durable
  log is a locale; the journal is its interpretation.
\<close>

subsection \<open>A record is one line\<close>

text \<open>Documents whose number literals hold no line break; every document of the contract is one.\<close>

definition line_doc :: "jdoc \<Rightarrow> bool" where
  "line_doc d \<longleftrightarrow> (\<forall>v. d = Some v \<longrightarrow> plain_numbers v)"

definition line_fields :: "(string \<times> jdoc) list \<Rightarrow> bool" where
  "line_fields fs \<longleftrightarrow> list_all (\<lambda>kd. line_doc (snd kd)) fs"

named_theorems line_rules "documents without line breaks"

lemma all_some_line: "line_fields fs \<Longrightarrow> all_some fs = Some kvs \<Longrightarrow> list_all (\<lambda>kv. plain_numbers (snd kv)) kvs"
  by (induction fs arbitrary: kvs rule: all_some.induct) (auto simp: line_fields_def line_doc_def split: option.splits)

lemma all_docs_line: "list_all line_doc ds \<Longrightarrow> all_docs ds = Some vs \<Longrightarrow> list_all plain_numbers vs"
  by (induction ds arbitrary: vs rule: all_docs.induct) (auto simp: line_doc_def split: option.splits)

lemma line_jobj [line_rules]: "list_all line_fields fs \<Longrightarrow> line_doc (jobj fs)"
proof -
  assume "list_all line_fields fs"
  then have "line_fields (concat fs)" by (auto simp: line_fields_def list_all_iff)
  then show ?thesis by (auto simp: jobj_def line_doc_def [of "map_option _ _"] dest: all_some_line)
qed

lemma line_list [line_rules]: "list_all line_fields []" "line_fields f \<Longrightarrow> list_all line_fields fs \<Longrightarrow> list_all line_fields (f # fs)"
  by simp_all

lemma line_jfield [line_rules]:
  "line_doc d \<Longrightarrow> line_fields (jfield k d)" "(\<And>x. line_doc (f x)) \<Longrightarrow> line_fields (jomit k f p)"
  "line_fields (jomit_string k s)"
  by (auto simp: line_fields_def jfield_def jomit_def jomit_string_def line_doc_def json_string_def split: option.splits)

lemma line_leaves [line_rules]:
  "line_doc (jstr s)" "line_doc (jbool b)" "line_doc (juint w)" "line_doc (jtime t)"
  "(\<And>x. line_doc (f x)) \<Longrightarrow> line_doc (jnullable f p)"
  by (auto simp: line_doc_def jstr_def jbool_def juint_def jtime_def jnullable_def json_string_def dec_line
      split: option.splits)

lemma line_jlist [line_rules]: "(\<And>x. line_doc (f x)) \<Longrightarrow> line_doc (jlist f xs)"
  by (auto simp: jlist_def line_doc_def [of "map_option _ _"] line_doc_def [of "Some _"] list_all_iff
      dest!: all_docs_line [rotated])

lemma json_tree_plain: "plain_numbers v \<Longrightarrow> plain_numbers (json_tree v)"
proof (induction v rule: json_tree.induct)
  case (1 v)
  show ?case
    by (cases v) (use 1 in \<open>subst json_tree.simps, auto simp: dec_line list_all_iff\<close>)+
qed

lemma line_jvalue [line_rules]: "line_doc (jvalue lib tv)"
  by (auto simp: line_doc_def jvalue_def canonicalTypedValueV1_def canonicalTypedValueV1WithDepth_def
      intro: json_tree_plain canon_plain(1) split: sum.splits)

lemma line_docs [line_rules]:
  "line_doc (doc_binding b)" "line_doc (doc_target t)" "line_doc (doc_opaque lib o')" "line_doc (doc_audit a)"
  "list_all line_fields (doc_verification rel ver h at)" "line_doc (doc_conflict ce)" "line_doc (doc_no_contact nc)"
  "line_doc (doc_outcome oe)"
  unfolding doc_binding_def doc_target_def doc_opaque_def doc_audit_def doc_verification_def doc_conflict_def
    doc_no_contact_def doc_outcome_def
  by (intro line_rules)+

lemma line_details [line_rules]: "line_doc (doc_details lib d)"
  unfolding doc_details_def
  by (intro line_rules) (auto simp: line_fields_def jfield_def intro!: line_jlist line_docs)

lemma line_mutation [line_rules]: "line_doc (doc_error lib e)" "line_doc (doc_rollback lib r)" "line_doc (doc_mutation lib m)"
proof -
  show err: "line_doc (doc_error lib e)" for e
    unfolding doc_error_def by (intro line_rules)
  show roll: "line_doc (doc_rollback lib r)" for r
    unfolding doc_rollback_def by (intro line_rules err)
  show "line_doc (doc_mutation lib m)"
    unfolding doc_mutation_def by (intro line_rules err roll)
qed

text \<open>The text of a record and its line in the file.\<close>

definition record_text :: "golib \<Rightarrow> jrecord \<Rightarrow> bytes" where
  "record_text lib r = (case doc_record lib r of None \<Rightarrow> [] | Some tree \<Rightarrow> json_text tree)"

definition record_line :: "golib \<Rightarrow> jrecord \<Rightarrow> bytes" where
  "record_line lib r = record_text lib r @ [newline]"

lemma record_one_line: "newline \<notin> set (record_text lib r)"
proof -
  have "line_doc (doc_record lib r)"
    unfolding doc_record_def by (intro line_rules)
  then show ?thesis
    by (cases "doc_record lib r") (simp_all add: record_text_def line_doc_def json_text_line)
qed

lemma record_text_brace:
  assumes "doc_record lib r \<noteq> None"
  obtains rest where "record_text lib r = CHR 0x7B # rest"
  using assms by (auto simp: doc_record_def jobj_def record_text_def json_text_simps)

lemma trim_space_nonempty:
  assumes "(of_char c :: nat) < 128" "\<not> is_space (of_char c)"
  shows "trim_space (c # cs) \<noteq> []"
proof -
  have "utf8_next c cs = (of_char c, 0)" using assms(1) by (simp add: utf8_next_def)
  then have chunks: "go_chunks (c # cs) = (of_char c, [c]) # go_chunks cs" by simp
  let ?P = "is_space \<circ> fst :: nat \<times> string \<Rightarrow> bool"
  have "(of_char c, [c]) \<in> set (dropWhile ?P (rev (go_chunks cs) @ [(of_char c, [c])]))"
    using assms(2) by (simp add: dropWhile_append)
  moreover have "trim_space (c # cs) = concat (map snd (rev (dropWhile ?P (rev (go_chunks cs) @ [(of_char c, [c])]))))"
    unfolding trim_space_def chunks using assms(2) by simp
  ultimately show ?thesis by force
qed

lemma record_text_nonblank: "doc_record lib r \<noteq> None \<Longrightarrow> trim_space (record_text lib r) \<noteq> []"
  by (erule record_text_brace) (simp add: trim_space_nonempty is_space_def)

subsection \<open>Appending\<close>

lemma write_loop_prefix:
  "write_loop deps rest f w = (f', err, w') \<Longrightarrow> (\<exists>k. f' = f @ take k rest) \<and> (\<not> err \<longrightarrow> f' = f @ rest)"
proof (induction deps rest f w rule: write_loop.induct)
  case (1 deps rest f w)
  show ?case
  proof (cases "rest = []")
    case False
    obtain n failed w1 where d: "d_write deps rest w = ((n, failed), w1)" by (metis prod.collapse)
    let ?count = "min n (length rest)"
    show ?thesis
    proof (cases "failed \<or> ?count = 0")
      case True
      with 1 False d show ?thesis by (subst (asm) (2) write_loop.simps) (auto simp: Let_def split: if_splits)
    next
      case goes: False
      with "1.prems" False d have next': "write_loop deps (drop ?count rest) (f @ take ?count rest) w1 = (f', err, w')"
        by (subst (asm) write_loop.simps) (auto simp: Let_def min_def split: if_splits)
      have "(\<exists>k. f' = (f @ take ?count rest) @ take k (drop ?count rest)) \<and>
          (\<not> err \<longrightarrow> f' = (f @ take ?count rest) @ drop ?count rest)"
        using False d goes next' by (intro "1.IH") auto
      then show ?thesis
        by (auto simp: take_add [symmetric])
    qed
  qed (use 1 in \<open>subst (asm) (2) write_loop.simps, auto intro: exI [of _ 0]\<close>)
qed

lemma restorePrefix_file: "restorePrefix deps n f w = (f', err, w') \<Longrightarrow> f' = f \<or> f' = take n f"
  "restorePrefix deps n f w = (f', False, w') \<Longrightarrow> f' = take n f"
  by (auto simp: restorePrefix_def Let_def split: prod.splits if_splits)

lemma all_some_None: "all_some fs = None \<longleftrightarrow> (\<exists>kd \<in> set fs. snd kd = None)"
  by (induction fs rule: all_some.induct) (auto split: option.splits)

lemma doc_record_None: "doc_record lib r = None \<longleftrightarrow> doc_mutation lib (jr_Mutation r) = None"
  by (auto simp: doc_record_def jobj_def jfield_def jstr_def juint_def jnullable_def all_some_None split: option.splits)

lemma hashed_encodes: "CanonicalSHA256V1 lib doc = Inr h \<Longrightarrow> doc \<noteq> None"
  by (cases doc) (simp_all add: CanonicalSHA256V1_def)

lemma seal_encodes:
  assumes "seal_record lib j r = Some s"
  shows "doc_record lib s \<noteq> None"
proof -
  from assms obtain r1 h where r1: "CanonicalSHA256V1 lib (doc_record lib r1) = Inr h" "jr_Mutation r1 = jr_Mutation s"
    unfolding seal_record_def Let_def by (fastforce split: sum.splits)
  from hashed_encodes [OF r1(1)] r1(2) show ?thesis by (simp only: doc_record_None not_False_eq_True)
qed

text \<open>What an append does, by its result.\<close>

lemma append_cases:
  "case journal_append lib deps r j w of
     (Some s, j', w') \<Rightarrow> \<not> jo_poisoned j \<and> seal_record lib j r = Some s \<and> jr_Sequence s = jo_sequence j + 1 \<and>
       jr_PreviousRecordHash s = jo_lastHash j \<and>
       j' = j\<lparr>jo_file := jo_file j @ record_line lib s, jo_sequence := jr_Sequence s, jo_lastHash := Some (jr_RecordHash s)\<rparr>
   | (None, j', w') \<Rightarrow> j' = j \<or>
       jo_poisoned j' \<and> (\<exists>s k. seal_record lib j r = Some s \<and>
         j' = j\<lparr>jo_file := jo_file j @ take k (record_line lib s), jo_poisoned := True\<rparr>) \<and>
       (\<forall>r w. journal_append lib deps r j' w = (None, j', w))"
proof (cases "jo_poisoned j \<or> seal_record lib j r = None")
  case True
  then show ?thesis by (auto simp: journal_append_def)
next
  case False
  then obtain s where s: "\<not> jo_poisoned j" "seal_record lib j r = Some s" by auto
  then obtain tree where tree: "doc_record lib s = Some tree" using seal_encodes by blast
  then have line: "record_line lib s = json_text tree @ [newline]" by (simp add: record_line_def record_text_def)
  have sealed: "jr_Sequence s = jo_sequence j + 1" "jr_PreviousRecordHash s = jo_lastHash j"
    using s(2) by (auto simp: seal_record_def Let_def split: sum.splits)
  obtain serr w1 where seek: "d_Seek deps w = (serr, w1)" by fastforce
  show ?thesis
  proof (cases serr)
    case True
    with s tree seek show ?thesis by (simp add: journal_append_def)
  next
    case no_serr: False
    obtain file2 werr w2 where wl: "write_loop deps (json_text tree @ [newline]) (jo_file j) w1 = (file2, werr, w2)"
      by (metis prod_cases3)
    obtain k where k: "file2 = jo_file j @ take k (record_line lib s)" "\<not> werr \<longrightarrow> file2 = jo_file j @ record_line lib s"
      using write_loop_prefix [OF wl] line by auto
    obtain aerr w3 where sync: "(if werr then (True, w2) else d_SyncFile deps w2) = (aerr, w3)" by fastforce
    show ?thesis
    proof (cases aerr)
      case False
      with sync have "\<not> werr" by (auto split: if_splits)
      with False no_serr s tree seek wl k sync sealed show ?thesis
        by (simp add: journal_append_def)
    next
      case True
      obtain file4 rerr w4 where rp: "restorePrefix deps (length (jo_file j)) file2 w3 = (file4, rerr, w4)"
        by (metis prod_cases3)
      with True no_serr s tree seek wl sync
      have run: "journal_append lib deps r j w = (None, j\<lparr>jo_file := file4, jo_poisoned := rerr\<rparr>, w4)"
        by (simp add: journal_append_def split: if_splits)
      show ?thesis
      proof (cases rerr)
        case True
        have "\<exists>k. file4 = jo_file j @ take k (record_line lib s)"
          using restorePrefix_file(1) [OF rp] k(1) by (auto intro: exI [of _ 0])
        with run True s show ?thesis by (auto simp: journal_append_def)
      next
        case False
        with restorePrefix_file(2) rp k(1) have "file4 = jo_file j" by fastforce
        with run False s show ?thesis by simp
      qed
    qed
  qed
qed

lemma append_some:
  assumes "journal_append lib deps r j w = (Some s, j', w')"
  shows "\<not> jo_poisoned j" "seal_record lib j r = Some s" "jr_Sequence s = jo_sequence j + 1"
    "jr_PreviousRecordHash s = jo_lastHash j"
    "j' = j\<lparr>jo_file := jo_file j @ record_line lib s, jo_sequence := jr_Sequence s, jo_lastHash := Some (jr_RecordHash s)\<rparr>"
  using append_cases [where lib = lib and deps = deps and r = r and j = j and w = w] assms by simp_all

lemma append_none:
  assumes "journal_append lib deps r j w = (None, j', w')"
  shows "j' = j \<or> jo_poisoned j' \<and> (\<exists>s k. seal_record lib j r = Some s \<and>
      j' = j\<lparr>jo_file := jo_file j @ take k (record_line lib s), jo_poisoned := True\<rparr>)"
  using append_cases [where lib = lib and deps = deps and r = r and j = j and w = w] assms by simp blast

subsection \<open>Reading\<close>

lemma split_lines_line: "newline \<notin> set a \<Longrightarrow> split_lines a = [a]"
  by (induction a) auto

lemma split_lines_append: "newline \<notin> set a \<Longrightarrow> split_lines (a @ newline # b) = a # split_lines b"
  by (induction a) auto

lemma split_lines_concat:
  "rs \<noteq> [] \<Longrightarrow> split_lines (butlast (concat (map (record_line lib) rs))) = map (record_text lib) rs"
proof (induction rs)
  case (Cons r rs)
  show ?case
  proof (cases "rs = []")
    case True
    then show ?thesis by (simp add: record_line_def butlast_append split_lines_line record_one_line)
  next
    case False
    then have "concat (map (record_line lib) rs) \<noteq> []" by (cases rs) (simp_all add: record_line_def)
    then have "butlast (concat (map (record_line lib) (r # rs))) =
        record_text lib r @ newline # butlast (concat (map (record_line lib) rs))"
      by (simp add: record_line_def butlast_append)
    with Cons False show ?thesis by (simp add: split_lines_append record_one_line)
  qed
qed simp

lemma lines_end: "rs \<noteq> [] \<Longrightarrow> concat (map (record_line lib) rs) \<noteq> [] \<and> last (concat (map (record_line lib) rs)) = newline"
  by (induction rs) (auto simp: record_line_def)

lemma readable_concat: "readable_lines (concat (map (record_line lib) rs)) = map (record_text lib) rs"
proof (cases "rs = []")
  case False
  with lines_end [OF False, of lib] show ?thesis by (simp add: readable_lines_def split_lines_concat)
qed (simp add: readable_lines_def)

text \<open>Records that follow each other as reading demands.\<close>

fun accepted_chain :: "golib \<Rightarrow> uint64 \<Rightarrow> HashV1 option \<Rightarrow> jrecord list \<Rightarrow> bool" where
  "accepted_chain lib sequence previous [] = True"
| "accepted_chain lib sequence previous (r # rs) \<longleftrightarrow>
     record_accepted lib sequence previous r \<and> accepted_chain lib (jr_Sequence r) (Some (jr_RecordHash r)) rs"

definition chain_end :: "jrecord list \<Rightarrow> uint64 \<times> HashV1 option" where
  "chain_end rs = (if rs = [] then (0, None) else (jr_Sequence (last rs), Some (jr_RecordHash (last rs))))"

lemma accepted_chain_snoc:
  "accepted_chain lib q p (rs @ [r]) \<longleftrightarrow> accepted_chain lib q p rs \<and>
     (if rs = [] then record_accepted lib q p r
      else record_accepted lib (jr_Sequence (last rs)) (Some (jr_RecordHash (last rs))) r)"
  by (induction rs arbitrary: q p) auto

text \<open>The codec reads the text of every one of the records back.\<close>

definition decodes :: "golib \<Rightarrow> jcodec \<Rightarrow> jrecord list \<Rightarrow> bool" where
  "decodes lib jc rs \<longleftrightarrow> list_all (\<lambda>r. doc_record lib r \<noteq> None \<and> jc_decode jc (record_text lib r) = Some r) rs"

lemma read_chain:
  "accepted_chain lib q p rs \<Longrightarrow> decodes lib jc rs \<Longrightarrow> read_lines lib jc q p (map (record_text lib) rs) = Some rs"
  by (induction rs arbitrary: q p) (auto simp: decodes_def record_text_nonblank)

subsection \<open>The log a journal represents\<close>

definition holds_log :: "golib \<Rightarrow> jcodec \<Rightarrow> rawMutationJournal \<Rightarrow> jrecord list \<Rightarrow> bool" where
  "holds_log lib jc j rs \<longleftrightarrow> \<not> jo_poisoned j \<and> jo_file j = concat (map (record_line lib) rs) \<and>
     (jo_sequence j, jo_lastHash j) = chain_end rs \<and> accepted_chain lib 0 None rs \<and> decodes lib jc rs"

text \<open>What a record must have for reading to accept it, beside its seal.\<close>

definition recordable :: "golib \<Rightarrow> jrecord \<Rightarrow> bool" where
  "recordable lib r \<longleftrightarrow> jr_RuntimeEpoch r \<noteq> 0 \<and> jr_PrincipalHash r \<noteq> [] \<and> jr_IdentityHash r \<noteq> [] \<and>
     jr_RequestHash r \<noteq> [] \<and> mu_MutationRef (jr_Mutation r) \<noteq> [] \<and>
     validateRawMutationAudit lib (mu_Audit (jr_Mutation r)) \<and> mu_Audit (jr_Mutation r) \<noteq> [] \<and>
     at_State (last (mu_Audit (jr_Mutation r))) = mu_State (jr_Mutation r)"

lemma sealed_accepted:
  assumes "seal_record lib j r = Some s" "recordable lib r"
  shows "record_accepted lib (jo_sequence j) (jo_lastHash j) s"
  using assms by (auto simp: seal_record_def record_accepted_def recordable_def Let_def split: sum.splits)

lemma append_extends:
  assumes "holds_log lib jc j rs" "recordable lib r" "journal_append lib deps r j w = (Some s, j', w')"
    "jc_decode jc (record_text lib s) = Some s"
  shows "holds_log lib jc j' (rs @ [s])"
proof -
  note s = append_some(2) [OF assms(3)] and j' = append_some(5) [OF assms(3)]
  have "record_accepted lib (jo_sequence j) (jo_lastHash j) s" by (rule sealed_accepted [OF s assms(2)])
  with assms(1,4) j' seal_encodes [OF s] show ?thesis
    by (auto simp: holds_log_def accepted_chain_snoc chain_end_def decodes_def split: if_splits)
qed

text \<open>An append that fails leaves the log, or the journal is out of use.\<close>

lemma append_fails:
  assumes "holds_log lib jc j rs" "journal_append lib deps r j w = (None, j', w')"
  shows "holds_log lib jc j' rs \<or> jo_poisoned j'"
  using append_none [OF assms(2)] assms(1) by auto

lemma poisoned_refuses: "jo_poisoned j \<Longrightarrow> journal_append lib deps r j w = (None, j, w)"
  by (simp add: journal_append_def)

text \<open>
  The interface of a durable log: a state represents a list of records; an append that succeeds adds
  one record at the end, one that fails leaves the list, possibly with the log out of use.
\<close>

fun append_all :: "('q \<Rightarrow> 's \<Rightarrow> 'w \<Rightarrow> 'r option \<times> 's \<times> 'w) \<Rightarrow> 'q list \<Rightarrow> 's \<Rightarrow> 'w \<Rightarrow> 'r list \<times> 's \<times> 'w" where
  "append_all app [] s w = ([], s, w)"
| "append_all app (q # qs) s w =
     (case app q s w of (r, s1, w1) \<Rightarrow>
      (case append_all app qs s1 w1 of (rs, s2, w2) \<Rightarrow>
         ((case r of None \<Rightarrow> rs | Some x \<Rightarrow> x # rs), s2, w2)))"

locale durable_log =
  fixes holds :: "'s \<Rightarrow> 'r list \<Rightarrow> bool" and broken :: "'s \<Rightarrow> 'r list \<Rightarrow> bool"
    and append :: "'q \<Rightarrow> 's \<Rightarrow> 'w \<Rightarrow> 'r option \<times> 's \<times> 'w"
    and usable :: "'q \<Rightarrow> bool" and legible :: "'r \<Rightarrow> bool"
  assumes append_adds: "holds s rs \<Longrightarrow> usable q \<Longrightarrow> append q s w = (Some r, s', w') \<Longrightarrow> legible r \<Longrightarrow> holds s' (rs @ [r])"
    and append_loses: "holds s rs \<Longrightarrow> append q s w = (None, s', w') \<Longrightarrow> holds s' rs \<or> broken s' rs"
    and broken_refuses: "broken s rs \<Longrightarrow> append q s w = (None, s, w)"
begin

lemma broken_all: "broken s rs \<Longrightarrow> append_all append qs s w = ([], s, w)"
  by (induction qs arbitrary: s w) (simp_all add: broken_refuses)

text \<open>After any sequence of appends the log holds what it held, and then the records of the appends that succeeded.\<close>

lemma append_all_holds:
  assumes "holds s rs" "list_all usable qs" "append_all append qs s w = (xs, s', w')" "list_all legible xs"
  shows "holds s' (rs @ xs) \<or> broken s' (rs @ xs)"
  using assms
proof (induction qs arbitrary: s w rs xs)
  case (Cons q qs)
  obtain r s1 w1 where app: "append q s w = (r, s1, w1)" by (metis prod_cases3)
  with Cons.prems(3) obtain ys where rest: "append_all append qs s1 w1 = (ys, s', w')"
      and xs: "xs = (case r of None \<Rightarrow> ys | Some x \<Rightarrow> x # ys)"
    by (auto split: prod.splits)
  show ?case
  proof (cases r)
    case None
    from append_loses [OF Cons.prems(1) app [unfolded None]] show ?thesis
    proof
      assume "holds s1 rs"
      from Cons.IH [OF this _ rest] Cons.prems xs None show ?thesis by simp
    next
      assume "broken s1 rs"
      with broken_all [OF this, of qs w1] Cons.prems app None show ?thesis by simp
    qed
  next
    case (Some x)
    have "holds s1 (rs @ [x])"
      by (rule append_adds [OF Cons.prems(1) _ app [unfolded Some]]) (use Cons.prems xs Some in simp_all)
    from Cons.IH [OF this _ rest] Cons.prems xs Some show ?thesis by simp
  qed
qed simp

end

text \<open>The journal, out of use: the lines of the log and a beginning of one more.\<close>

definition broken_log :: "golib \<Rightarrow> rawMutationJournal \<Rightarrow> jrecord list \<Rightarrow> bool" where
  "broken_log lib j rs \<longleftrightarrow> jo_poisoned j \<and>
     (\<exists>s k. jo_file j = concat (map (record_line lib) rs) @ take k (record_line lib s))"

interpretation journal: durable_log "holds_log lib jc" "broken_log lib" "journal_append lib deps" "recordable lib"
    "\<lambda>s. jc_decode jc (record_text lib s) = Some s"
  for lib :: golib and jc :: jcodec and deps :: "'w mdeps"
proof
  fix j rs r and w :: 'w and s j' w'
  assume "holds_log lib jc j rs" "recordable lib r" "journal_append lib deps r j w = (Some s, j', w')"
    "jc_decode jc (record_text lib s) = Some s"
  then show "holds_log lib jc j' (rs @ [s])" by (rule append_extends)
next
  fix j rs r and w :: 'w and j' w'
  assume "holds_log lib jc j rs" "journal_append lib deps r j w = (None, j', w')"
  from append_none [OF this(2)] show "holds_log lib jc j' rs \<or> broken_log lib j' rs"
  proof
    assume "jo_poisoned j' \<and> (\<exists>s k. seal_record lib j r = Some s \<and>
      j' = j\<lparr>jo_file := jo_file j @ take k (record_line lib s), jo_poisoned := True\<rparr>)"
    then obtain s k where "jo_poisoned j'" "jo_file j' = jo_file j @ take k (record_line lib s)" by auto
    with \<open>holds_log lib jc j rs\<close> have "broken_log lib j' rs" unfolding holds_log_def broken_log_def by metis
    then show ?thesis ..
  qed (use \<open>holds_log lib jc j rs\<close> in simp)
next
  fix j rs r and w :: 'w
  assume "broken_log lib j rs"
  then show "journal_append lib deps r j w = (None, j, w)"
    by (simp add: broken_log_def poisoned_refuses)
qed

lemma holds_log_empty: "holds_log lib jc (opened_journal [] []) []"
  by (simp add: holds_log_def opened_journal_def chain_end_def decodes_def)

lemma holds_log_reads:
  assumes "holds_log lib jc j rs" "d_Seek deps w = (False, w')"
  shows "readRawMutationJournal lib jc deps (jo_file j) w =
      (if rawMutationJournalMaxBytes < length (jo_file j) then None else Some (jo_file j, rs), w')"
    "opened_journal (jo_file j) rs = j"
proof -
  have "jo_file j \<noteq> [] \<Longrightarrow> last (jo_file j) = newline"
    using assms(1) lines_end [of rs lib] by (cases "rs = []") (auto simp: holds_log_def)
  with assms show "readRawMutationJournal lib jc deps (jo_file j) w =
      (if rawMutationJournalMaxBytes < length (jo_file j) then None else Some (jo_file j, rs), w')"
    using read_chain [of lib 0 None rs jc]
    by (auto simp: readRawMutationJournal_def holds_log_def readable_concat)
  show "opened_journal (jo_file j) rs = j"
    using assms(1) by (cases j) (auto simp: holds_log_def opened_journal_def chain_end_def split: if_splits)
qed

text \<open>
  C16. The journal is a log. Append any sequence of records to an empty journal, whatever of the
  writes, syncs, truncations and seeks fails. Unless the journal went out of use, reading its file
  gives back exactly the records whose append succeeded, in order, and reopening it continues where
  it was; only a file that has grown past 64 MiB, which no append prevents, is refused. This needs
  of the decoder only that it reads each of these records' texts back.
\<close>

theorem journal_is_log:
  assumes "list_all (recordable lib) qs" "append_all (journal_append lib deps) qs (opened_journal [] []) w = (xs, j, w1)"
    "\<not> jo_poisoned j" "list_all (\<lambda>s. jc_decode jc (record_text lib s) = Some s) xs" "d_Seek deps' w2 = (False, w3)"
  shows "readRawMutationJournal lib jc deps' (jo_file j) w2 =
      (if rawMutationJournalMaxBytes < length (jo_file j) then None else Some (jo_file j, xs), w3) \<and>
    opened_journal (jo_file j) xs = j"
proof -
  have "holds_log lib jc j ([] @ xs)"
    using journal.append_all_holds [OF holds_log_empty assms(1,2,4)] assms(3) by (auto simp: broken_log_def)
  with holds_log_reads [OF _ assms(5)] show ?thesis by simp
qed

lemma tail_start_lines:
  assumes "newline \<notin> set t" "f = [] \<or> last f = newline"
  shows "tail_start (f @ t) = length f"
proof -
  have "takeWhile (\<lambda>c. c \<noteq> newline) (rev t @ rev f) = rev t @ takeWhile (\<lambda>c. c \<noteq> newline) (rev f)"
    using assms(1) by (intro takeWhile_append2) auto
  also have "takeWhile (\<lambda>c. c \<noteq> newline) (rev f) = []"
    using assms(2) by (cases f rule: rev_cases) auto
  finally show ?thesis by (simp add: tail_start_def)
qed

text \<open>
  C17. Torn tails. After a crash the file may hold, behind the lines of the log, a beginning of one
  more record. When the decoder reports it as cut short and the repair succeeds, reading gives the
  log and the tail is cut off. A tail that is not cut short, such as a complete record that lacks
  only its newline, is refused, and nothing is repaired.
\<close>

theorem torn_tail_repaired:
  assumes "holds_log lib jc j rs" "0 < k" "k \<le> length (record_text lib s)"
    "length (jo_file j) + k \<le> rawMutationJournalMaxBytes" "d_Seek deps w = (False, w1)"
  shows "readRawMutationJournal lib jc deps (jo_file j @ take k (record_text lib s)) w =
    (if \<not> jc_torn jc (take k (record_text lib s)) then (None, w1)
     else (case repair_tail deps w1 of (failed, w2) \<Rightarrow> (if failed then None else Some (jo_file j, rs), w2)))"
proof -
  let ?tail = "take k (record_text lib s)"
  have tail: "?tail \<noteq> []" "newline \<notin> set ?tail"
    using assms record_one_line [of lib s] by (auto dest: in_set_takeD)
  have lines: "jo_file j = concat (map (record_line lib) rs)" using assms(1) by (simp add: holds_log_def)
  then have "jo_file j = [] \<or> last (jo_file j) = newline"
    using lines_end [of rs lib] by (cases "rs = []") auto
  then have start: "tail_start (jo_file j @ ?tail) = length (jo_file j)"
    by (rule tail_start_lines [OF tail(2)])
  have last: "last (jo_file j @ ?tail) \<noteq> newline" using tail by (metis last_appendR last_in_set)
  have reads: "read_lines lib jc 0 None (readable_lines (jo_file j)) = Some rs"
    using assms(1) by (simp add: lines readable_concat read_chain holds_log_def)
  show ?thesis
    unfolding readRawMutationJournal_def start
    using assms tail(1) last reads by (simp split: prod.splits)
qed

subsection \<open>On the sample\<close>

text \<open>A record of a prepared mutation, as it is sealed into the empty journal of the sample.\<close>

definition short_lib :: golib where
  "short_lib = sample_lib\<lparr>sha256 := (\<lambda>_. [])\<rparr>"

definition short_record :: jrecord where
  "short_record = \<lparr>jr_Contract = rawMutationJournalContract, jr_Sequence = 1, jr_PreviousRecordHash = None,
     jr_RecordHash = [], jr_RuntimeEpoch = 1, jr_PrincipalHash = ''p'', jr_Tool = ToolV1FeaturesDataSet,
     jr_IdentityHash = ''i'', jr_RequestHash = ''r'', jr_Mutation = mutation_zero\<lparr>mu_MutationRef := ''m'',
       mu_State := MutationStateV1Prepared, mu_CreatedAt := sample_time, mu_UpdatedAt := sample_time,
       mu_Audit := [\<lparr>at_Sequence = 1, at_State = MutationStateV1Prepared, at_TransitionedAt = sample_time,
         at_Classification = [], at_PreviousHash = None, at_TransitionHash = ''sha256:''\<rparr>]\<rparr>\<rparr>"

definition short_sealed :: jrecord where
  "short_sealed = short_record\<lparr>jr_RecordHash := ''sha256:''\<rparr>"

definition short_codec :: jcodec where
  "short_codec = \<lparr>jc_decode = (\<lambda>b. if b = record_text short_lib short_sealed then Some short_sealed else None), jc_torn = (\<lambda>_. True)\<rparr>"

lemma short_recordable: "recordable short_lib short_record"
  by code_simp

lemma short_hash: "CanonicalSHA256V1 short_lib (doc_record short_lib short_record) = Inr ''sha256:''"
  by code_simp

lemma short_seal: "seal_record short_lib (opened_journal [] []) short_record = Some short_sealed"
proof -
  have "short_record\<lparr>jr_Contract := rawMutationJournalContract, jr_Sequence := 1, jr_PreviousRecordHash := None,
      jr_RecordHash := []\<rparr> = short_record"
    by (simp add: short_record_def)
  then show ?thesis by (simp add: seal_record_def opened_journal_def short_hash short_sealed_def)
qed

text \<open>The sample's disk takes every write.\<close>

lemma sample_write_all: "write_loop sample_deps bs f w = (f @ bs, False, w)"
proof (cases "bs = []")
  case False
  then show ?thesis
    by (subst write_loop.simps, subst write_loop.simps) (simp add: sample_deps_def)
qed (subst write_loop.simps, simp)

lemma sample_append:
  assumes "\<not> jo_poisoned j" "seal_record lib j r = Some s"
  shows "journal_append lib sample_deps r j w = (Some s,
    j\<lparr>jo_file := jo_file j @ record_line lib s, jo_sequence := jr_Sequence s, jo_lastHash := Some (jr_RecordHash s)\<rparr>, w)"
proof -
  have "d_Seek sample_deps w = (False, w)" "d_SyncFile sample_deps w = (False, w)" by (simp_all add: sample_deps_def)
  moreover obtain tree where "doc_record lib s = Some tree" using seal_encodes [OF assms(2)] by blast
  ultimately show ?thesis
    using assms by (simp add: journal_append_def sample_write_all record_line_def record_text_def)
qed

definition short_journal :: rawMutationJournal where
  "short_journal = \<lparr>jo_file = record_line short_lib short_sealed, jo_sequence = 1, jo_lastHash = Some ''sha256:'',
     jo_poisoned = False\<rparr>"

lemma short_append: "journal_append short_lib sample_deps short_record (opened_journal [] []) False =
    (Some short_sealed, short_journal, False)"
  by (subst sample_append [OF _ short_seal])
    (simp_all add: opened_journal_def short_journal_def short_sealed_def short_record_def)

theorem journal_is_log_witness:
  "readRawMutationJournal short_lib short_codec sample_deps (jo_file short_journal) False =
      (if rawMutationJournalMaxBytes < length (jo_file short_journal) then None
       else Some (jo_file short_journal, [short_sealed]), False) \<and>
    opened_journal (jo_file short_journal) [short_sealed] = short_journal"
  by (rule journal_is_log [where qs = "[short_record]" and deps = sample_deps and w = False and ?w1.0 = False])
    (simp_all add: short_recordable short_append, simp_all add: short_journal_def short_codec_def sample_deps_def)

theorem torn_tail_repaired_witness:
  "readRawMutationJournal short_lib short_codec sample_deps
     (jo_file (opened_journal [] []) @ take 1 (record_text short_lib short_sealed)) False = (Some ([], []), False)"
proof -
  obtain rest where "record_text short_lib short_sealed = CHR 0x7B # rest"
    using record_text_brace [OF seal_encodes [OF short_seal]] by metis
  then show ?thesis
    by (subst torn_tail_repaired [OF holds_log_empty, where ?w1.0 = False])
      (simp_all add: sample_deps_def short_codec_def repair_tail_def opened_journal_def rawMutationJournalMaxBytes_def)
qed

end
