(* ===== verification/AdminFraming.thy ===== *)
theory AdminFraming
  imports Prelude
begin

text \<open>
  The frames of the administrator's socket, \<^verbatim>\<open>src/internal/eebusadmin/framing.go\<close>: a version byte,
  the length as eight bytes in big-endian order, the payload. A reader is the list of the bytes it
  still holds; what is left of it is part of the result, also when the read fails.
\<close>

unbundle bit_operations_syntax

datatype adminFrameError = errAdminFrameMalformed | errAdminFrameOversized

definition adminFrameVersion :: nat where "adminFrameVersion = 1"
definition adminFrameHeaderSize :: nat where "adminFrameHeaderSize = 9"
definition maxAdminFrameBytes :: nat where "maxAdminFrameBytes = 65536"

lemmas frame_limits = adminFrameVersion_def adminFrameHeaderSize_def maxAdminFrameBytes_def

text \<open>\<^verbatim>\<open>binary.BigEndian\<close> on 64-bit words.\<close>

fun put_bytes :: "nat \<Rightarrow> uint64 \<Rightarrow> bytes" where
  "put_bytes 0 v = []"
| "put_bytes (Suc n) v = char_of (unat (drop_bit (8 * n) v AND 255)) # put_bytes n v"

definition put_uint64 :: "uint64 \<Rightarrow> bytes" where
  "put_uint64 v = put_bytes 8 v"

fun get_uint64 :: "uint64 \<Rightarrow> bytes \<Rightarrow> uint64" where
  "get_uint64 acc [] = acc"
| "get_uint64 acc (c # cs) = get_uint64 (push_bit 8 acc OR of_nat (of_char c)) cs"

definition adminFrameHeader :: "uint64 \<Rightarrow> bytes" where
  "adminFrameHeader len = char_of adminFrameVersion # put_uint64 len"

definition encodeAdminFrame :: "bytes \<Rightarrow> adminFrameError + bytes" where
  "encodeAdminFrame payload =
     (if maxAdminFrameBytes < length payload then Inl errAdminFrameOversized
      else Inr (adminFrameHeader (of_nat (length payload)) @ payload))"

text \<open>\<^verbatim>\<open>io.ReadFull\<close>: a reader with too few bytes is drained and the read fails.\<close>

definition read_full :: "nat \<Rightarrow> bytes \<Rightarrow> bytes option \<times> bytes" where
  "read_full n r = (if n \<le> length r then (Some (take n r), drop n r) else (None, []))"

text \<open>A nil reader is \<open>None\<close>.\<close>

definition readAdminFrame :: "bytes option \<Rightarrow> (adminFrameError + bytes) \<times> bytes" where
  "readAdminFrame reader =
     (case reader of
        None \<Rightarrow> (Inl errAdminFrameMalformed, [])
      | Some r \<Rightarrow>
          (case read_full adminFrameHeaderSize r of
             (None, r1) \<Rightarrow> (Inl errAdminFrameMalformed, r1)
           | (Some header, r1) \<Rightarrow>
               if of_char (hd header) \<noteq> adminFrameVersion then (Inl errAdminFrameMalformed, r1)
               else
                 (let len = get_uint64 0 (tl header) in
                  if of_nat maxAdminFrameBytes < len then (Inl errAdminFrameOversized, r1)
                  else (case read_full (unat len) r1 of
                          (None, r2) \<Rightarrow> (Inl errAdminFrameMalformed, r2)
                        | (Some payload, r2) \<Rightarrow> (Inr payload, r2)))))"

subsection \<open>Big-endian numbers\<close>

lemma put_bytes_length: "length (put_bytes n v) = n"
  by (induction n) simp_all

lemma put_uint64_length [simp]: "length (put_uint64 v) = 8"
  by (simp add: put_uint64_def put_bytes_length)

lemma low_byte: "x AND 255 = take_bit 8 (x :: uint64)"
  by (simp add: take_bit_eq_mask mask_eq_exp_minus_1)

lemma byte_of: "of_nat (of_char (char_of (unat (drop_bit n v AND 255 :: uint64)))) = take_bit 8 (drop_bit n v :: uint64)"
proof -
  have "unat (take_bit 8 (drop_bit n v :: uint64)) < 256"
    by (simp add: unsigned_take_bit_eq take_bit_nat_less_exp [of 8, simplified])
  then show ?thesis by (simp add: low_byte)
qed

lemma join_byte: "push_bit n (push_bit 8 a OR take_bit 8 (drop_bit n v)) OR take_bit n v =
    push_bit (n + 8) a OR take_bit (n + 8) (v :: uint64)"
  by (rule bit_word_eqI) (auto simp: bit_simps)

lemma get_put_bytes: "get_uint64 a (put_bytes n v) = push_bit (8 * n) a OR take_bit (8 * n) v"
proof (induction n arbitrary: a)
  case (Suc n)
  have "get_uint64 a (put_bytes (Suc n) v) =
      push_bit (8 * n) (push_bit 8 a OR take_bit 8 (drop_bit (8 * n) v)) OR take_bit (8 * n) v"
    by (simp only: put_bytes.simps get_uint64.simps byte_of Suc)
  also have "\<dots> = push_bit (8 * n + 8) a OR take_bit (8 * n + 8) v" by (rule join_byte)
  finally show ?case by (simp only: mult_Suc_right add.commute)
qed simp

lemma get_put_uint64: "get_uint64 0 (put_uint64 v) = v"
  using take_bit_length_eq [of v] by (simp add: put_uint64_def get_put_bytes)

lemma header_get: "get_uint64 0 (tl (adminFrameHeader len)) = len" "length (adminFrameHeader len) = adminFrameHeaderSize"
  "of_char (hd (adminFrameHeader len)) = adminFrameVersion"
  by (simp_all add: adminFrameHeader_def get_put_uint64 frame_limits)

lemma read_encoded:
  assumes "length payload \<le> maxAdminFrameBytes"
  shows "readAdminFrame (Some (adminFrameHeader (of_nat (length payload)) @ payload @ rest)) = (Inr payload, rest)"
proof -
  let ?n = "of_nat (length payload) :: uint64"
  have n: "unat ?n = length payload"
    using assms by (simp add: unat_of_nat frame_limits)
  then have "\<not> of_nat maxAdminFrameBytes < ?n"
    using assms by (simp add: word_less_nat_alt frame_limits)
  with n header_get [of ?n] show ?thesis
    by (simp add: readAdminFrame_def read_full_def)
qed

text \<open>
  C18. Frames. A payload is encoded exactly when it has at most 64 KiB, and reading a stream that
  begins with its frame gives back the payload and leaves the rest of the stream.
\<close>

theorem frame_roundtrip:
  "(case encodeAdminFrame payload of
      Inl e \<Rightarrow> e = errAdminFrameOversized \<and> maxAdminFrameBytes < length payload
    | Inr frame \<Rightarrow> length payload \<le> maxAdminFrameBytes \<and> length frame = adminFrameHeaderSize + length payload \<and>
        readAdminFrame (Some (frame @ rest)) = (Inr payload, rest))"
  using read_encoded [of payload rest] header_get(2) by (simp add: encodeAdminFrame_def)

text \<open>
  C19. Reading is safe. Whatever a peer sends, a payload that is read has at most 64 KiB, and the
  bytes consumed are its frame: nine bytes that hold the version and the length of the payload, and
  the payload. When nothing is read, the stream does not begin with the frame of any payload, and
  the error is "oversized" only when the header asks for more than 64 KiB.
\<close>

theorem read_frame_safe:
  "(case readAdminFrame (Some r) of
      (Inr payload, rest) \<Rightarrow> length payload \<le> maxAdminFrameBytes \<and> r = take adminFrameHeaderSize r @ payload @ rest \<and>
        of_char (hd r) = adminFrameVersion \<and> unat (get_uint64 0 (take 8 (tl r))) = length payload
    | (Inl e, rest) \<Rightarrow>
        (\<forall>payload more. length payload \<le> maxAdminFrameBytes \<longrightarrow> r \<noteq> adminFrameHeader (of_nat (length payload)) @ payload @ more) \<and>
        (e = errAdminFrameOversized \<longrightarrow> maxAdminFrameBytes < unat (get_uint64 0 (take 8 (tl r)))))"
proof (cases "readAdminFrame (Some r)")
  case (Pair res rest)
  show ?thesis
  proof (cases res)
    case (Inl e)
    have "maxAdminFrameBytes < unat (get_uint64 0 (take 8 (tl r)))" if "e = errAdminFrameOversized"
      using Pair Inl that
      by (auto simp: readAdminFrame_def read_full_def frame_limits tl_take word_less_nat_alt Let_def split: if_splits)
    moreover have "r \<noteq> adminFrameHeader (of_nat (length payload)) @ payload @ more" if "length payload \<le> maxAdminFrameBytes"
      for payload more
      using read_encoded [OF that, of more] Pair Inl by auto
    ultimately show ?thesis using Pair Inl by simp
  next
    case (Inr payload)
    then obtain r9: "9 \<le> length r" "of_char (hd r) = adminFrameVersion"
        "\<not> of_nat maxAdminFrameBytes < get_uint64 0 (take 8 (tl r))"
        "unat (get_uint64 0 (take 8 (tl r))) \<le> length r - 9"
        "payload = take (unat (get_uint64 0 (take 8 (tl r)))) (drop 9 r)"
        "rest = drop (unat (get_uint64 0 (take 8 (tl r)))) (drop 9 r)"
      using Pair by (auto simp: readAdminFrame_def read_full_def frame_limits tl_take Let_def hd_take split: if_splits)
    have "r = take 9 r @ payload @ rest"
      unfolding r9(5,6) by (metis append_take_drop_id)
    with r9 show ?thesis
      using Pair Inr by (simp add: word_less_nat_alt frame_limits not_less)
  qed
qed

theorem read_frame_safe_witness:
  "readAdminFrame (Some (adminFrameHeader 1 @ ''ab'')) = (Inr ''a'', ''b'') \<and> length ''a'' \<le> maxAdminFrameBytes"
  using read_frame_safe [of "adminFrameHeader 1 @ ''ab''"] read_encoded [of "''a''" "''b''"]
  by (simp add: frame_limits)

end
