(* ===== verification/Identity.thy ===== *)
theory Identity
  imports RawContract "HOL-Library.Char_ord" "HOL-Library.List_Lexorder" "HOL-Library.Product_Lexorder"
    "HOL-Library.Multiset" "HOL-Library.Code_Target_Nat"
begin

text \<open>
  Redacted identities, \<^verbatim>\<open>src/eebusraw/identity.go\<close> and \<^verbatim>\<open>src/eebusraw/identity_v1.go\<close>:
  identifiers and unknown fields that keep a digest instead of the value, the identity documents
  made of them, their validators, and the canonical order in which version 1 marshals them. Strings
  compare bytewise, as in Go; a stable sort with a comparison of keys is \<open>sort_key\<close>.
\<close>

subsection \<open>Digests\<close>

definition is_hex :: "char \<Rightarrow> bool" where
  "is_hex c \<longleftrightarrow> is_hex_lower c \<or> in_range (CHR ''A'') (CHR ''F'') c"

text \<open>\<^verbatim>\<open>hex.DecodeString\<close> succeeds on an even number of hexadecimal digits.\<close>

definition hex_decodable :: "string \<Rightarrow> bool" where
  "hex_decodable s \<longleftrightarrow> even (length s) \<and> list_all is_hex s"

text \<open>\<open>validSHA256Digest\<close> of the package, which admits upper case digits.\<close>

definition validSHA256Digest_raw :: "string \<Rightarrow> bool" where
  "validSHA256Digest_raw v =
     (if length v \<noteq> length ''sha256:'' + 64 \<or> \<not> has_prefix ''sha256:'' v then False
      else hex_decodable (trim_prefix ''sha256:'' v))"

text \<open>
  \<open>validIdentityDigestV1\<close>. On a text that passes the hexadecimal test, which is ASCII,
  \<^verbatim>\<open>strings.ToLower\<close> is lower-casing of ASCII letters.
\<close>

definition validIdentityDigestV1 :: "string \<Rightarrow> bool" where
  "validIdentityDigestV1 v =
     (if length v \<noteq> length ''sha256:'' + 64 \<or> \<not> has_prefix ''sha256:'' v \<or> v \<noteq> ascii_lower v then False
      else hex_decodable (trim_prefix ''sha256:'' v))"

subsection \<open>Redacted identifiers\<close>

type_synonym IDKind = string

definition IDKindLocalSKI :: IDKind where "IDKindLocalSKI = ''local-ski''"
definition IDKindRemoteSKI :: IDKind where "IDKindRemoteSKI = ''remote-ski''"
definition IDKindCertificateFingerprint :: IDKind where "IDKindCertificateFingerprint = ''certificate-fingerprint''"
definition IDKindPeer :: IDKind where "IDKindPeer = ''peer''"
definition IDKindSession :: IDKind where "IDKindSession = ''session''"

definition IDKind_Validate :: "IDKind \<Rightarrow> bool" where
  "IDKind_Validate k \<longleftrightarrow>
     List.member [IDKindLocalSKI, IDKindRemoteSKI, IDKindCertificateFingerprint, IDKindPeer, IDKindSession] k"

definition IDKind_String :: "IDKind \<Rightarrow> string" where
  "IDKind_String k = (if \<not> IDKind_Validate k then ''invalid-kind'' else k)"

definition IDKind_MarshalJSON :: "IDKind \<Rightarrow> jdoc" where
  "IDKind_MarshalJSON k = (if \<not> IDKind_Validate k then None else jstr k)"

definition redactedValue :: string where "redactedValue = ''[redacted]''"

record RedactedID =
  ri_Kind :: IDKind
  ri_Masked :: string
  ri_Digest :: string

definition RedactID :: "golib \<Rightarrow> IDKind \<Rightarrow> string \<Rightarrow> RedactedID option" where
  "RedactID lib kind raw =
     (if \<not> IDKind_Validate kind then None
      else if trim_space raw = [] then None
      else Some \<lparr>ri_Kind = kind, ri_Masked = redactedValue, ri_Digest = ''sha256:'' @ hex_encode (sha256 lib raw)\<rparr>)"

definition RedactedID_Validate :: "RedactedID \<Rightarrow> bool" where
  "RedactedID_Validate r =
     (if \<not> IDKind_Validate (ri_Kind r) then False
      else if ri_Masked r \<noteq> redactedValue then False
      else if ri_Digest r \<noteq> [] \<and> \<not> validSHA256Digest_raw (ri_Digest r) then False
      else True)"

definition RedactedID_MarshalJSON :: "RedactedID \<Rightarrow> jdoc" where
  "RedactedID_MarshalJSON r =
     (if \<not> RedactedID_Validate r then None
      else jobj [jfield ''kind'' (IDKind_MarshalJSON (ri_Kind r)), jfield ''masked'' (jstr (ri_Masked r)),
        jomit_string ''digest'' (ri_Digest r)])"

definition RedactedID_String :: "RedactedID \<Rightarrow> string" where
  "RedactedID_String r = IDKind_String (ri_Kind r) @ '':'' @ redactedValue"

definition validateRedactedIDV1 :: "RedactedID \<Rightarrow> bool" where
  "validateRedactedIDV1 r =
     (if \<not> RedactedID_Validate r then False
      else if ri_Digest r = [] then False
      else validIdentityDigestV1 (ri_Digest r))"

subsection \<open>Unknown fields\<close>

type_synonym UnknownPath = string

definition UnknownPathDocument :: UnknownPath where "UnknownPathDocument = ''/document/unknown''"
definition UnknownPathDevice :: UnknownPath where "UnknownPathDevice = ''/device/unknown''"
definition UnknownPathLocal :: UnknownPath where "UnknownPathLocal = ''/local/unknown''"
definition UnknownPathRemote :: UnknownPath where "UnknownPathRemote = ''/remote/unknown''"
definition UnknownPathSession :: UnknownPath where "UnknownPathSession = ''/session/unknown''"

definition UnknownPath_Validate :: "UnknownPath \<Rightarrow> bool" where
  "UnknownPath_Validate p \<longleftrightarrow>
     List.member [UnknownPathDocument, UnknownPathDevice, UnknownPathLocal, UnknownPathRemote, UnknownPathSession] p"

definition UnknownPath_String :: "UnknownPath \<Rightarrow> string" where
  "UnknownPath_String p = (if \<not> UnknownPath_Validate p then ''/invalid/unknown'' else p)"

definition UnknownPath_MarshalJSON :: "UnknownPath \<Rightarrow> jdoc" where
  "UnknownPath_MarshalJSON p = (if \<not> UnknownPath_Validate p then None else jstr p)"

record OpaqueValue =
  ov_Masked :: string
  ov_Digest :: string
  ov_Size :: int

record UnknownField =
  uf_Path :: UnknownPath
  uf_Value :: OpaqueValue

definition OpaqueBytes :: "golib \<Rightarrow> bytes \<Rightarrow> OpaqueValue" where
  "OpaqueBytes lib raw = \<lparr>ov_Masked = redactedValue, ov_Digest = ''sha256:'' @ hex_encode (sha256 lib raw),
     ov_Size = int (length raw)\<rparr>"

definition OpaqueValue_Validate :: "OpaqueValue \<Rightarrow> bool" where
  "OpaqueValue_Validate v =
     (if ov_Masked v \<noteq> redactedValue then False
      else if ov_Digest v \<noteq> [] \<and> \<not> validSHA256Digest_raw (ov_Digest v) then False
      else \<not> ov_Size v < 0)"

definition OpaqueValue_MarshalJSON :: "OpaqueValue \<Rightarrow> jdoc" where
  "OpaqueValue_MarshalJSON v =
     (if \<not> OpaqueValue_Validate v then None
      else jobj [jfield ''masked'' (jstr (ov_Masked v)), jomit_string ''digest'' (ov_Digest v),
        (if ov_Size v = 0 then [] else jfield ''size'' (Some (GNumber (dec_int (ov_Size v)))))])"

definition UnknownField_Validate :: "UnknownField \<Rightarrow> bool" where
  "UnknownField_Validate u \<longleftrightarrow> UnknownPath_Validate (uf_Path u) \<and> OpaqueValue_Validate (uf_Value u)"

definition UnknownField_MarshalJSON :: "UnknownField \<Rightarrow> jdoc" where
  "UnknownField_MarshalJSON u =
     (if \<not> UnknownField_Validate u then None
      else jobj [jfield ''path'' (UnknownPath_MarshalJSON (uf_Path u)), jfield ''value'' (OpaqueValue_MarshalJSON (uf_Value u))])"

definition validateUnknownFieldV1 :: "UnknownField \<Rightarrow> bool" where
  "validateUnknownFieldV1 u =
     (if \<not> UnknownPath_Validate (uf_Path u) then False
      else if ov_Masked (uf_Value u) \<noteq> redactedValue then False
      else if ov_Digest (uf_Value u) \<noteq> [] \<and> \<not> validIdentityDigestV1 (ov_Digest (uf_Value u)) then False
      else \<not> ov_Size (uf_Value u) < 0)"

text \<open>The order of unknown fields: path, digest, masked text, size.\<close>

definition unknown_key :: "UnknownField \<Rightarrow> string \<times> string \<times> string \<times> int" where
  "unknown_key u = (uf_Path u, ov_Digest (uf_Value u), ov_Masked (uf_Value u), ov_Size (uf_Value u))"

definition sortedIdentityUnknownFieldsV1 :: "UnknownField list \<Rightarrow> UnknownField list" where
  "sortedIdentityUnknownFieldsV1 us = sort_key unknown_key us"

text \<open>The list of unknown fields of a structure, left out when it is empty.\<close>

definition doc_unknown :: "UnknownField list \<Rightarrow> (string \<times> jdoc) list" where
  "doc_unknown us = (if us = [] then [] else jfield ''unknown'' (jlist UnknownField_MarshalJSON us))"

definition identityUnknownFieldsSortKeyV1 :: "UnknownField list \<Rightarrow> string" where
  "identityUnknownFieldsSortKeyV1 us =
     concat (map (\<lambda>u. uf_Path u @ [CHR 0x00] @ ov_Digest (uf_Value u) @ [CHR 0x00] @ ov_Masked (uf_Value u)
       @ [CHR 0x00] @ dec_int (ov_Size (uf_Value u)) @ [CHR 0x00]) (sortedIdentityUnknownFieldsV1 us))"

subsection \<open>The alpha documents\<close>

fun maskTier_text :: "MaskTier \<Rightarrow> string" where
  "maskTier_text MaskTierRedacted = ''redacted''"
| "maskTier_text MaskTierRaw = ''raw''"
| "maskTier_text (MaskTierOther s) = s"

definition IdentityContractV1Alpha1 :: string where
  "IdentityContractV1Alpha1 = ''helianthus.eebus.raw.identity.v1alpha1''"
definition IdentityContractV1 :: string where
  "IdentityContractV1 = ''helianthus.eebus.raw.identity.v1''"

definition EndpointRoleLocal :: string where "EndpointRoleLocal = ''local''"
definition EndpointRoleRemote :: string where "EndpointRoleRemote = ''remote''"

record PairingObservation =
  po_State :: string

definition PairingObservation_Validate :: "PairingObservation \<Rightarrow> bool" where
  "PairingObservation_Validate p \<longleftrightarrow>
     List.member [[], ''unknown'', ''unpaired'', ''paired'', ''denied''] (po_State p)"

record EndpointIdentity =
  ei_Role :: string
  ei_ID :: RedactedID
  ei_Pairing :: PairingObservation
  ei_Unknown :: "UnknownField list"

definition EndpointIdentity_Validate :: "EndpointIdentity \<Rightarrow> bool" where
  "EndpointIdentity_Validate e =
     (if ei_Role e \<noteq> EndpointRoleLocal \<and> ei_Role e \<noteq> EndpointRoleRemote then False
      else if \<not> RedactedID_Validate (ei_ID e) then False
      else if \<not> PairingObservation_Validate (ei_Pairing e) then False
      else list_all UnknownField_Validate (ei_Unknown e))"

record SessionIdentity =
  si_ID :: RedactedID
  si_RemoteID :: RedactedID
  si_State :: string
  si_Unknown :: "UnknownField list"

definition SessionIdentity_Validate :: "SessionIdentity \<Rightarrow> bool" where
  "SessionIdentity_Validate s =
     (if \<not> RedactedID_Validate (si_ID s) then False
      else if \<not> RedactedID_Validate (si_RemoteID s) then False
      else if \<not> List.member [''unknown'', ''observed'', ''disconnected'', ''degraded''] (si_State s) then False
      else list_all UnknownField_Validate (si_Unknown s))"

record IdentityDocument =
  id_Contract :: string
  id_MaskTier :: MaskTier
  id_CapturedAt :: gotime
  id_Local :: EndpointIdentity
  id_Remotes :: "EndpointIdentity list"
  id_Sessions :: "SessionIdentity list"
  id_Unknown :: "UnknownField list"

definition NewIdentityDocument :: "gotime \<Rightarrow> EndpointIdentity \<Rightarrow> IdentityDocument" where
  "NewIdentityDocument capturedAt lcl =
     \<lparr>id_Contract = IdentityContractV1Alpha1, id_MaskTier = MaskTierRedacted, id_CapturedAt = toUTC capturedAt,
      id_Local = lcl, id_Remotes = [], id_Sessions = [], id_Unknown = []\<rparr>"

definition IdentityDocument_Validate :: "IdentityDocument \<Rightarrow> bool" where
  "IdentityDocument_Validate d =
     (if id_Contract d \<noteq> IdentityContractV1Alpha1 then False
      else if id_MaskTier d \<noteq> MaskTierRedacted then False
      else if IsZero (id_CapturedAt d) then False
      else if \<not> EndpointIdentity_Validate (id_Local d) then False
      else if ei_Role (id_Local d) \<noteq> EndpointRoleLocal then False
      else if \<not> list_all (\<lambda>r. EndpointIdentity_Validate r \<and> ei_Role r = EndpointRoleRemote) (id_Remotes d) then False
      else if \<not> list_all SessionIdentity_Validate (id_Sessions d) then False
      else list_all UnknownField_Validate (id_Unknown d))"

definition doc_endpoint :: "EndpointIdentity \<Rightarrow> jdoc" where
  "doc_endpoint e = jobj [jfield ''role'' (jstr (ei_Role e)), jfield ''id'' (RedactedID_MarshalJSON (ei_ID e)),
     jfield ''pairing'' (jobj [jomit_string ''state'' (po_State (ei_Pairing e))]), doc_unknown (ei_Unknown e)]"

definition doc_session :: "SessionIdentity \<Rightarrow> jdoc" where
  "doc_session s = jobj [jfield ''id'' (RedactedID_MarshalJSON (si_ID s)),
     jfield ''remote_id'' (RedactedID_MarshalJSON (si_RemoteID s)), jfield ''state'' (jstr (si_State s)),
     doc_unknown (si_Unknown s)]"

definition IdentityDocument_MarshalJSON :: "IdentityDocument \<Rightarrow> jdoc" where
  "IdentityDocument_MarshalJSON d =
     (if \<not> IdentityDocument_Validate d then None
      else jobj [jfield ''contract'' (jstr (id_Contract d)), jfield ''mask_tier'' (jstr (maskTier_text (id_MaskTier d))),
        jfield ''captured_at'' (jtime (id_CapturedAt d)), jfield ''local'' (doc_endpoint (id_Local d)),
        (if id_Remotes d = [] then [] else jfield ''remotes'' (jlist doc_endpoint (id_Remotes d))),
        (if id_Sessions d = [] then [] else jfield ''sessions'' (jlist doc_session (id_Sessions d))),
        doc_unknown (id_Unknown d)])"

subsection \<open>The documents of version 1\<close>

type_synonym EndpointRoleV1 = string

definition EndpointRoleV1_Validate :: "EndpointRoleV1 \<Rightarrow> bool" where
  "EndpointRoleV1_Validate r \<longleftrightarrow> List.member [EndpointRoleLocal, EndpointRoleRemote] r"

definition EndpointRoleV1_String :: "EndpointRoleV1 \<Rightarrow> string" where
  "EndpointRoleV1_String r = (if \<not> EndpointRoleV1_Validate r then ''invalid-role'' else r)"

definition EndpointRoleV1_MarshalJSON :: "EndpointRoleV1 \<Rightarrow> jdoc" where
  "EndpointRoleV1_MarshalJSON r = (if \<not> EndpointRoleV1_Validate r then None else jstr r)"

record EndpointIdentityV1 =
  e1_Role :: EndpointRoleV1
  e1_ID :: RedactedID
  e1_Unknown :: "UnknownField list"

definition EndpointIdentityV1_Validate :: "EndpointIdentityV1 \<Rightarrow> bool" where
  "EndpointIdentityV1_Validate e =
     (if \<not> EndpointRoleV1_Validate (e1_Role e) then False
      else if \<not> validateRedactedIDV1 (e1_ID e) then False
      else list_all validateUnknownFieldV1 (e1_Unknown e))"

definition EndpointIdentityV1_MarshalJSON :: "EndpointIdentityV1 \<Rightarrow> jdoc" where
  "EndpointIdentityV1_MarshalJSON e =
     (if \<not> EndpointIdentityV1_Validate e then None
      else jobj [jfield ''role'' (EndpointRoleV1_MarshalJSON (e1_Role e)), jfield ''id'' (RedactedID_MarshalJSON (e1_ID e)),
        doc_unknown (sortedIdentityUnknownFieldsV1 (e1_Unknown e))])"

record SessionIdentityV1 =
  s1_ID :: RedactedID
  s1_RemoteID :: RedactedID
  s1_Unknown :: "UnknownField list"

definition SessionIdentityV1_Validate :: "SessionIdentityV1 \<Rightarrow> bool" where
  "SessionIdentityV1_Validate s =
     (if \<not> validateRedactedIDV1 (s1_ID s) then False
      else if \<not> validateRedactedIDV1 (s1_RemoteID s) then False
      else list_all validateUnknownFieldV1 (s1_Unknown s))"

definition SessionIdentityV1_MarshalJSON :: "SessionIdentityV1 \<Rightarrow> jdoc" where
  "SessionIdentityV1_MarshalJSON s =
     (if \<not> SessionIdentityV1_Validate s then None
      else jobj [jfield ''id'' (RedactedID_MarshalJSON (s1_ID s)), jfield ''remote_id'' (RedactedID_MarshalJSON (s1_RemoteID s)),
        doc_unknown (sortedIdentityUnknownFieldsV1 (s1_Unknown s))])"

record IdentityDocumentV1 =
  d1_Contract :: string
  d1_MaskTier :: MaskTier
  d1_CapturedAt :: gotime
  d1_Local :: EndpointIdentityV1
  d1_Remotes :: "EndpointIdentityV1 list"
  d1_Sessions :: "SessionIdentityV1 list"
  d1_Unknown :: "UnknownField list"

definition copyEndpointIdentityV1 :: "EndpointIdentityV1 \<Rightarrow> EndpointIdentityV1" where
  "copyEndpointIdentityV1 e = e\<lparr>e1_Unknown := e1_Unknown e\<rparr>"

definition NewIdentityDocumentV1 :: "gotime \<Rightarrow> EndpointIdentityV1 \<Rightarrow> IdentityDocumentV1" where
  "NewIdentityDocumentV1 capturedAt lcl =
     \<lparr>d1_Contract = IdentityContractV1, d1_MaskTier = MaskTierRedacted, d1_CapturedAt = toUTC capturedAt,
      d1_Local = copyEndpointIdentityV1 lcl, d1_Remotes = [], d1_Sessions = [], d1_Unknown = []\<rparr>"

definition identityKeyV1 :: "RedactedID \<Rightarrow> string" where
  "identityKeyV1 r = ri_Kind r @ [CHR 0x00] @ ri_Digest r"

definition canonicalEndpointIdentityV1 :: "EndpointIdentityV1 \<Rightarrow> EndpointIdentityV1" where
  "canonicalEndpointIdentityV1 e = e\<lparr>e1_Unknown := sortedIdentityUnknownFieldsV1 (e1_Unknown e)\<rparr>"

definition endpointIdentitySortKeyV1 :: "EndpointIdentityV1 \<Rightarrow> string" where
  "endpointIdentitySortKeyV1 e = e1_Role e @ [CHR 0x00] @ identityKeyV1 (e1_ID e) @ [CHR 0x00]
     @ identityUnknownFieldsSortKeyV1 (e1_Unknown e)"

definition sortedEndpointIdentitiesV1 :: "EndpointIdentityV1 list \<Rightarrow> EndpointIdentityV1 list" where
  "sortedEndpointIdentitiesV1 es = sort_key endpointIdentitySortKeyV1 (map canonicalEndpointIdentityV1 es)"

definition canonical_session :: "SessionIdentityV1 \<Rightarrow> SessionIdentityV1" where
  "canonical_session s = s\<lparr>s1_Unknown := sortedIdentityUnknownFieldsV1 (s1_Unknown s)\<rparr>"

definition sessionIdentitySortKeyV1 :: "SessionIdentityV1 \<Rightarrow> string" where
  "sessionIdentitySortKeyV1 s = identityKeyV1 (s1_ID s) @ [CHR 0x00] @ identityKeyV1 (s1_RemoteID s) @ [CHR 0x00]
     @ identityUnknownFieldsSortKeyV1 (s1_Unknown s)"

definition sortedSessionIdentitiesV1 :: "SessionIdentityV1 list \<Rightarrow> SessionIdentityV1 list" where
  "sortedSessionIdentitiesV1 ss = sort_key sessionIdentitySortKeyV1 (map canonical_session ss)"

definition validateTimestampV1 :: "gotime \<Rightarrow> bool" where
  "validateTimestampV1 t = (if IsZero t then False else rfc3339 (toUTC t) \<noteq> None)"

definition IdentityDocumentV1_Validate :: "IdentityDocumentV1 \<Rightarrow> bool" where
  "IdentityDocumentV1_Validate d =
     (if d1_Contract d \<noteq> IdentityContractV1 then False
      else if d1_MaskTier d \<noteq> MaskTierRedacted then False
      else if \<not> validateTimestampV1 (d1_CapturedAt d) then False
      else if \<not> EndpointIdentityV1_Validate (d1_Local d) then False
      else if e1_Role (d1_Local d) \<noteq> EndpointRoleLocal then False
      else if \<not> unique_loop (\<lambda>r. EndpointIdentityV1_Validate r \<and> e1_Role r = EndpointRoleRemote)
        (\<lambda>r. identityKeyV1 (e1_ID r)) [] (d1_Remotes d) then False
      else if \<not> unique_loop SessionIdentityV1_Validate (\<lambda>s. identityKeyV1 (s1_ID s)) [] (d1_Sessions d) then False
      else list_all validateUnknownFieldV1 (d1_Unknown d))"

definition IdentityDocumentV1_MarshalJSON :: "IdentityDocumentV1 \<Rightarrow> jdoc" where
  "IdentityDocumentV1_MarshalJSON d =
     (if \<not> IdentityDocumentV1_Validate d then None
      else
        (let remotes = sortedEndpointIdentitiesV1 (d1_Remotes d); sessions = sortedSessionIdentitiesV1 (d1_Sessions d) in
         jobj [jfield ''contract'' (jstr (d1_Contract d)), jfield ''mask_tier'' (jstr (maskTier_text (d1_MaskTier d))),
           jfield ''captured_at'' (jtime (toUTC (d1_CapturedAt d))),
           jfield ''local'' (EndpointIdentityV1_MarshalJSON (canonicalEndpointIdentityV1 (d1_Local d))),
           (if remotes = [] then [] else jfield ''remotes'' (jlist EndpointIdentityV1_MarshalJSON remotes)),
           (if sessions = [] then [] else jfield ''sessions'' (jlist SessionIdentityV1_MarshalJSON sessions)),
           doc_unknown (sortedIdentityUnknownFieldsV1 (d1_Unknown d))]))"

subsection \<open>Digests of the standard library pass the validators\<close>

lemma hex_lower_hex: "is_hex_lower c \<Longrightarrow> is_hex c"
  by (simp add: is_hex_def)

lemma hex_lower_fixed: "is_hex_lower c \<Longrightarrow> ascii_lower_char c = c"
  by (auto simp: is_hex_lower_def is_digit_def in_range_def ascii_lower_char_def)

lemma hex_lower_nonzero: "is_hex c \<Longrightarrow> c \<noteq> CHR 0x00"
  by (auto simp: is_hex_def is_hex_lower_def is_digit_def in_range_def)

lemma digest_text_valid:
  assumes "length bs = 32"
  shows "validIdentityDigestV1 (''sha256:'' @ hex_encode bs)" "validSHA256Digest_raw (''sha256:'' @ hex_encode bs)"
proof -
  have "list_all is_hex (hex_encode bs)"
    using hex_encode_lower [of bs] by (auto simp: list_all_iff hex_lower_hex)
  moreover have "ascii_lower (hex_encode bs) = hex_encode bs"
    using hex_encode_lower [of bs] by (auto simp: ascii_lower_def list_all_iff hex_lower_fixed intro!: map_idI)
  ultimately show "validIdentityDigestV1 (''sha256:'' @ hex_encode bs)"
    "validSHA256Digest_raw (''sha256:'' @ hex_encode bs)"
    using assms by (simp_all add: validIdentityDigestV1_def validSHA256Digest_raw_def length_hex_encode
        trim_prefix_def hex_decodable_def ascii_lower_def ascii_lower_char_def)
qed

text \<open>
  C20: redaction. \<open>RedactID\<close> accepts exactly the known kinds of a value that is not blank; what it
  returns satisfies the validators of both contracts and prints as its kind and the mask, whatever
  the value; and the opaque form of any bytes is a valid unknown field under every known path. SHA-256
  is a parameter of which only its output length is used.
\<close>

theorem redaction_valid:
  assumes "\<And>bs. length (sha256 lib bs) = 32"
  shows "(RedactID lib kind raw \<noteq> None) = (IDKind_Validate kind \<and> trim_space raw \<noteq> [])
    \<and> (\<forall>r. RedactID lib kind raw = Some r \<longrightarrow>
         RedactedID_Validate r \<and> validateRedactedIDV1 r \<and> RedactedID_String r = kind @ '':[redacted]'' \<and>
         RedactedID_MarshalJSON r \<noteq> None)
    \<and> validateUnknownFieldV1 \<lparr>uf_Path = path, uf_Value = OpaqueBytes lib bytes\<rparr> = UnknownPath_Validate path"
proof -
  have d: "validIdentityDigestV1 (''sha256:'' @ hex_encode (sha256 lib bs))"
    "validSHA256Digest_raw (''sha256:'' @ hex_encode (sha256 lib bs))" for bs
    using digest_text_valid [OF assms] by blast+
  note [simp] = d [simplified]
  show ?thesis
    by (auto simp: RedactID_def RedactedID_Validate_def validateRedactedIDV1_def RedactedID_String_def
        IDKind_String_def redactedValue_def RedactedID_MarshalJSON_def IDKind_MarshalJSON_def jobj_def jfield_def
        jstr_def jomit_string_def validateUnknownFieldV1_def OpaqueBytes_def)
qed

subsection \<open>Canonical order\<close>

lemma sort_key_perm:
  assumes "mset xs = mset ys" "inj_on f (set xs)"
  shows "sort_key f xs = sort_key f ys"
proof (rule sort_key_inj_key_eq)
  show "mset xs = mset (sort_key f ys)" by (simp add: assms)
  show "inj_on f (set xs)" by (rule assms)
qed simp

lemma unknown_key_inj: "inj unknown_key"
  by (auto simp: inj_def unknown_key_def)

lemma sorted_unknown_perm:
  "mset us = mset vs \<Longrightarrow> sortedIdentityUnknownFieldsV1 us = sortedIdentityUnknownFieldsV1 vs"
  unfolding sortedIdentityUnknownFieldsV1_def by (rule sort_key_perm) (auto intro: inj_on_subset [OF unknown_key_inj])

lemma sorted_unknown_set [simp]: "set (sortedIdentityUnknownFieldsV1 us) = set us"
  by (simp add: sortedIdentityUnknownFieldsV1_def)

lemma canonical_endpoint [simp]:
  "e1_Role (canonicalEndpointIdentityV1 e) = e1_Role e"
  "e1_ID (canonicalEndpointIdentityV1 e) = e1_ID e"
  "EndpointIdentityV1_Validate (canonicalEndpointIdentityV1 e) = EndpointIdentityV1_Validate e"
  by (simp_all add: canonicalEndpointIdentityV1_def EndpointIdentityV1_Validate_def list_all_iff)

lemma canonical_session_simps [simp]:
  "s1_ID (canonical_session s) = s1_ID s"
  "SessionIdentityV1_Validate (canonical_session s) = SessionIdentityV1_Validate s"
  by (simp_all add: canonical_session_def SessionIdentityV1_Validate_def list_all_iff)

lemma valid_kind: "IDKind_Validate k \<Longrightarrow> CHR 0x00 \<notin> set k"
  by (auto simp: IDKind_Validate_def IDKindLocalSKI_def IDKindRemoteSKI_def IDKindCertificateFingerprint_def
      IDKindPeer_def IDKindSession_def)

lemma split_at: "x \<notin> set a \<Longrightarrow> x \<notin> set b \<Longrightarrow> a @ x # r = b @ x # t \<longleftrightarrow> a = b \<and> r = t"
proof (induction a arbitrary: b)
  case Nil
  then show ?case by (cases b) auto
next
  case (Cons y a)
  then show ?case by (cases b) auto
qed

lemma identity_key_prefix:
  assumes "validateRedactedIDV1 r" "validateRedactedIDV1 r'"
    and "identityKeyV1 r @ CHR 0x00 # x = identityKeyV1 r' @ CHR 0x00 # y"
  shows "identityKeyV1 r = identityKeyV1 r'"
proof -
  have "IDKind_Validate (ri_Kind r)" "IDKind_Validate (ri_Kind r')"
    and l: "length (ri_Digest r) = 71" "length (ri_Digest r') = 71"
    using assms(1,2) by (auto simp: validateRedactedIDV1_def RedactedID_Validate_def validIdentityDigestV1_def split: if_splits)
  then have "ri_Kind r = ri_Kind r' \<and> ri_Digest r @ CHR 0x00 # x = ri_Digest r' @ CHR 0x00 # y"
    using assms(3) split_at [OF valid_kind valid_kind] by (simp add: identityKeyV1_def)
  with l show ?thesis by (simp add: identityKeyV1_def)
qed

text \<open>The list a loop of \<open>Validate\<close> accepted is told apart by its sort keys.\<close>

lemma distinct_inj_on:
  assumes "distinct (map k xs)" "\<And>x y. x \<in> set xs \<Longrightarrow> y \<in> set xs \<Longrightarrow> f x = f y \<Longrightarrow> k x = k y"
  shows "inj_on f (set xs)"
proof (rule inj_onI)
  fix x y assume xy: "x \<in> set xs" "y \<in> set xs" "f x = f y"
  then have "k x = k y" by (rule assms(2))
  with assms(1) xy show "x = y" by (simp add: distinct_map inj_on_def)
qed

lemma sorted_endpoints_perm:
  assumes "mset (map canonicalEndpointIdentityV1 es) = mset (map canonicalEndpointIdentityV1 es')"
    and ok: "unique_loop (\<lambda>r. EndpointIdentityV1_Validate r \<and> e1_Role r = EndpointRoleRemote)
      (\<lambda>r. identityKeyV1 (e1_ID r)) [] es"
  shows "sortedEndpointIdentitiesV1 es = sortedEndpointIdentitiesV1 es'"
  unfolding sortedEndpointIdentitiesV1_def
proof (rule sort_key_perm [OF assms(1)], rule distinct_inj_on [where k = "\<lambda>r. identityKeyV1 (e1_ID r)"])
  show "distinct (map (\<lambda>r. identityKeyV1 (e1_ID r)) (map canonicalEndpointIdentityV1 es))"
    using ok by (simp add: unique_loop_Nil_iff o_def)
next
  fix x y assume "x \<in> set (map canonicalEndpointIdentityV1 es)" "y \<in> set (map canonicalEndpointIdentityV1 es)"
  then have "validateRedactedIDV1 (e1_ID x)" "validateRedactedIDV1 (e1_ID y)" "e1_Role x = e1_Role y"
    using ok by (auto simp: unique_loop_Nil_iff list_all_iff EndpointIdentityV1_Validate_def split: if_splits)
  moreover assume "endpointIdentitySortKeyV1 x = endpointIdentitySortKeyV1 y"
  ultimately show "identityKeyV1 (e1_ID x) = identityKeyV1 (e1_ID y)"
    by (auto simp: endpointIdentitySortKeyV1_def intro: identity_key_prefix)
qed

lemma sorted_sessions_perm:
  assumes "mset (map canonical_session ss) = mset (map canonical_session ss')"
    and ok: "unique_loop SessionIdentityV1_Validate (\<lambda>s. identityKeyV1 (s1_ID s)) [] ss"
  shows "sortedSessionIdentitiesV1 ss = sortedSessionIdentitiesV1 ss'"
  unfolding sortedSessionIdentitiesV1_def
proof (rule sort_key_perm [OF assms(1)], rule distinct_inj_on [where k = "\<lambda>s. identityKeyV1 (s1_ID s)"])
  show "distinct (map (\<lambda>s. identityKeyV1 (s1_ID s)) (map canonical_session ss))"
    using ok by (simp add: unique_loop_Nil_iff o_def)
next
  fix x y assume "x \<in> set (map canonical_session ss)" "y \<in> set (map canonical_session ss)"
  then have "validateRedactedIDV1 (s1_ID x)" "validateRedactedIDV1 (s1_ID y)"
    using ok by (auto simp: unique_loop_Nil_iff list_all_iff SessionIdentityV1_Validate_def split: if_splits)
  moreover assume "sessionIdentitySortKeyV1 x = sessionIdentitySortKeyV1 y"
  ultimately show "identityKeyV1 (s1_ID x) = identityKeyV1 (s1_ID y)"
    by (auto simp: sessionIdentitySortKeyV1_def intro: identity_key_prefix)
qed

text \<open>A loop of \<open>Validate\<close> gives the same answer on lists with the same canonical elements.\<close>

lemma unique_loop_perm:
  assumes "mset (map c xs) = mset (map c ys)" "\<And>x. ok (c x) = ok x" "\<And>x. key (c x) = key x"
  shows "unique_loop ok key [] xs = unique_loop ok key [] ys"
proof -
  have eq: "unique_loop ok key [] zs \<longleftrightarrow> (\<forall>z\<in>set (map c zs). ok z) \<and> distinct (map key (map c zs))" for zs
    by (simp add: unique_loop_Nil_iff list_all_iff assms(2,3) o_def)
  have "set (map c xs) = set (map c ys)"
    by (rule mset_eq_setD [OF assms(1)])
  moreover have "mset (map key (map c xs)) = mset (map key (map c ys))"
    by (simp only: mset_map [of key] assms(1))
  then have "distinct (map key (map c xs)) = distinct (map key (map c ys))"
    by (rule mset_eq_imp_distinct_iff)
  ultimately show ?thesis by (simp only: eq)
qed

text \<open>The same document up to the order of its remotes, its sessions and of all unknown fields.\<close>

definition reordered :: "IdentityDocumentV1 \<Rightarrow> IdentityDocumentV1 \<Rightarrow> bool" where
  "reordered d d' \<longleftrightarrow>
     d1_Contract d = d1_Contract d' \<and> d1_MaskTier d = d1_MaskTier d' \<and> toUTC (d1_CapturedAt d) = toUTC (d1_CapturedAt d') \<and>
     canonicalEndpointIdentityV1 (d1_Local d) = canonicalEndpointIdentityV1 (d1_Local d') \<and>
     mset (map canonicalEndpointIdentityV1 (d1_Remotes d)) = mset (map canonicalEndpointIdentityV1 (d1_Remotes d')) \<and>
     mset (map canonical_session (d1_Sessions d)) = mset (map canonical_session (d1_Sessions d')) \<and>
     mset (d1_Unknown d) = mset (d1_Unknown d')"

lemma reordered_valid:
  assumes "reordered d d'"
  shows "IdentityDocumentV1_Validate d = IdentityDocumentV1_Validate d'"
proof -
  have "EndpointIdentityV1_Validate (d1_Local d) = EndpointIdentityV1_Validate (d1_Local d')"
    "e1_Role (d1_Local d) = e1_Role (d1_Local d')"
    using assms by (metis canonical_endpoint reordered_def)+
  moreover have "validateTimestampV1 (d1_CapturedAt d) = validateTimestampV1 (d1_CapturedAt d')"
    using assms unfolding reordered_def validateTimestampV1_def IsZero_def toUTC_def
    by (metis gotime.select_convs(1) gotime.surjective gotime.update_convs(2))
  moreover have "list_all validateUnknownFieldV1 (d1_Unknown d) = list_all validateUnknownFieldV1 (d1_Unknown d')"
    using assms unfolding reordered_def list_all_iff by (metis mset_eq_setD)
  moreover have "unique_loop (\<lambda>r. EndpointIdentityV1_Validate r \<and> e1_Role r = EndpointRoleRemote)
      (\<lambda>r. identityKeyV1 (e1_ID r)) [] (d1_Remotes d) = unique_loop (\<lambda>r. EndpointIdentityV1_Validate r \<and>
      e1_Role r = EndpointRoleRemote) (\<lambda>r. identityKeyV1 (e1_ID r)) [] (d1_Remotes d')"
    by (rule unique_loop_perm [where c = canonicalEndpointIdentityV1]) (use assms in \<open>auto simp: reordered_def\<close>)
  moreover have "unique_loop SessionIdentityV1_Validate (\<lambda>s. identityKeyV1 (s1_ID s)) [] (d1_Sessions d) =
      unique_loop SessionIdentityV1_Validate (\<lambda>s. identityKeyV1 (s1_ID s)) [] (d1_Sessions d')"
    by (rule unique_loop_perm [where c = canonical_session]) (use assms in \<open>auto simp: reordered_def\<close>)
  ultimately show ?thesis
    using assms by (simp add: IdentityDocumentV1_Validate_def reordered_def)
qed

text \<open>
  C21: the marshalled identity document is canonical. Documents that differ only in the order of
  their remote identities, their sessions and the unknown fields at every place, and in the time
  zone of the capture time, are both accepted or both refused and marshal to the same JSON.
\<close>

theorem identity_document_canonical:
  assumes "reordered d d'"
  shows "IdentityDocumentV1_MarshalJSON d = IdentityDocumentV1_MarshalJSON d'"
proof (cases "IdentityDocumentV1_Validate d")
  case True
  then have "sortedEndpointIdentitiesV1 (d1_Remotes d) = sortedEndpointIdentitiesV1 (d1_Remotes d')"
    using assms by (intro sorted_endpoints_perm) (simp_all add: IdentityDocumentV1_Validate_def reordered_def split: if_splits)
  moreover have "sortedSessionIdentitiesV1 (d1_Sessions d) = sortedSessionIdentitiesV1 (d1_Sessions d')"
    using assms True by (intro sorted_sessions_perm) (simp_all add: IdentityDocumentV1_Validate_def reordered_def split: if_splits)
  moreover have "sortedIdentityUnknownFieldsV1 (d1_Unknown d) = sortedIdentityUnknownFieldsV1 (d1_Unknown d')"
    using assms by (intro sorted_unknown_perm) (simp add: reordered_def)
  moreover have "d1_Contract d = d1_Contract d'" "d1_MaskTier d = d1_MaskTier d'"
    "toUTC (d1_CapturedAt d) = toUTC (d1_CapturedAt d')"
    "canonicalEndpointIdentityV1 (d1_Local d) = canonicalEndpointIdentityV1 (d1_Local d')"
    using assms by (simp_all add: reordered_def)
  ultimately show ?thesis
    unfolding IdentityDocumentV1_MarshalJSON_def reordered_valid [OF assms] by (simp only:)
qed (simp add: IdentityDocumentV1_MarshalJSON_def reordered_valid [OF assms, symmetric])

text \<open>Two remotes and two unknown fields in either order.\<close>

definition sample_id :: "IDKind \<Rightarrow> char \<Rightarrow> RedactedID" where
  "sample_id k c = \<lparr>ri_Kind = k, ri_Masked = redactedValue, ri_Digest = ''sha256:'' @ replicate 64 c\<rparr>"

definition sample_remote :: "char \<Rightarrow> EndpointIdentityV1" where
  "sample_remote c = \<lparr>e1_Role = EndpointRoleRemote, e1_ID = sample_id IDKindRemoteSKI c, e1_Unknown = []\<rparr>"

definition sample_unknown :: "int \<Rightarrow> UnknownField" where
  "sample_unknown n = \<lparr>uf_Path = UnknownPathDocument, uf_Value = \<lparr>ov_Masked = redactedValue, ov_Digest = [], ov_Size = n\<rparr>\<rparr>"

definition sample_document :: "EndpointIdentityV1 list \<Rightarrow> UnknownField list \<Rightarrow> IdentityDocumentV1" where
  "sample_document rs us =
     (NewIdentityDocumentV1 \<lparr>t_nsec = 63902908800000000000, t_loc = UTC\<rparr>
       \<lparr>e1_Role = EndpointRoleLocal, e1_ID = sample_id IDKindLocalSKI (CHR ''a''), e1_Unknown = []\<rparr>)
     \<lparr>d1_Remotes := rs, d1_Unknown := us\<rparr>"

lemma sample_document_valid:
  "IdentityDocumentV1_Validate (sample_document [sample_remote (CHR ''1''), sample_remote (CHR ''2'')]
     [sample_unknown 3, sample_unknown 4])"
  by code_simp

lemma sample_reordered:
  "reordered (sample_document [sample_remote (CHR ''1''), sample_remote (CHR ''2'')] [sample_unknown 3, sample_unknown 4])
     (sample_document [sample_remote (CHR ''2''), sample_remote (CHR ''1'')] [sample_unknown 4, sample_unknown 3])"
  by (simp add: reordered_def sample_document_def NewIdentityDocumentV1_def add_mset_commute)

theorem identity_document_canonical_witness:
  "IdentityDocumentV1_Validate (sample_document [sample_remote (CHR ''1''), sample_remote (CHR ''2'')]
     [sample_unknown 3, sample_unknown 4]) \<and>
   IdentityDocumentV1_MarshalJSON (sample_document [sample_remote (CHR ''1''), sample_remote (CHR ''2'')]
     [sample_unknown 3, sample_unknown 4]) =
   IdentityDocumentV1_MarshalJSON (sample_document [sample_remote (CHR ''2''), sample_remote (CHR ''1'')]
     [sample_unknown 4, sample_unknown 3])"
  using identity_document_canonical [OF sample_reordered] sample_document_valid by simp

text \<open>Redaction with a constant digest.\<close>

definition flat_lib :: golib where
  "flat_lib = \<lparr>sha256 = (\<lambda>_. replicate 32 (CHR ''x'')), hmac_sha256 = (\<lambda>_ _. []), nfkc = id, to_upper = id,
     json_valid = (\<lambda>_. True), json_parse = (\<lambda>_. None)\<rparr>"

lemma flat_sha256: "length (sha256 flat_lib bs) = 32"
  by (simp add: flat_lib_def)

theorem redaction_valid_witness:
  "(RedactID flat_lib IDKindPeer ''abc'' \<noteq> None) = (IDKind_Validate IDKindPeer \<and> trim_space ''abc'' \<noteq> []) \<and>
   (validateUnknownFieldV1 \<lparr>uf_Path = UnknownPathDevice, uf_Value = OpaqueBytes flat_lib ''x''\<rparr>
      = UnknownPath_Validate UnknownPathDevice) \<and> RedactID flat_lib IDKindPeer ''abc'' \<noteq> None"
  using redaction_valid [OF flat_sha256, of IDKindPeer "''abc''" UnknownPathDevice "''x''"]
  by (simp add: IDKind_Validate_def trim_space_def go_chunks.simps utf8_next_def is_space_def)

end
