(* ===== verification/Evidence.thy ===== *)
theory Evidence
  imports Identity Canonical
begin

text \<open>
  Evidence envelopes, \<^verbatim>\<open>src/eebusevidence/envelope.go\<close> and \<^verbatim>\<open>src/eebusevidence/envelope_v1.go\<close>:
  references to what was captured, objects with their digests, and the envelope with its data hash
  over the canonical text of reference, data time and objects. A \<^verbatim>\<open>strings.Builder\<close> that is
  only appended to is the text a writer adds. A stable sort is \<open>sort_key\<close>. The package's
  \<open>validateTimestampV1\<close> is, line by line, that of the identities.
\<close>

subsection \<open>Names\<close>

type_synonym ContractVersion = string
type_synonym ToolID = string
type_synonym Scope = string
type_synonym AuthScope = string
type_synonym ObjectKind = string
type_synonym CaptureProvenanceV1 = string
type_synonym RawSnapshotScopeV1 = string

definition EnvelopeContractV1Alpha1 :: ContractVersion where
  "EnvelopeContractV1Alpha1 = ''helianthus.eebus.raw.evidence-envelope.v1alpha1''"
definition EnvelopeContractV1 :: ContractVersion where
  "EnvelopeContractV1 = ''helianthus.eebus.raw.evidence-envelope.v1''"

definition ContractVersion_Validate :: "ContractVersion \<Rightarrow> bool" where
  "ContractVersion_Validate c =
     (if c \<noteq> EnvelopeContractV1Alpha1 \<and> c \<noteq> EnvelopeContractV1 then False else True)"

definition ToolID_Validate :: "ToolID \<Rightarrow> bool" where
  "ToolID_Validate t \<longleftrightarrow> List.member [''eebus.v1.runtime.status.get'', ''eebus.v1.services.list'',
     ''eebus.v1.services.get'', ''eebus.v1.sessions.list'', ''eebus.v1.sessions.get'', ''eebus.v1.topology.get'',
     ''eebus.v1.snapshot.capture'', ''eebus.v1.pairing.status.get''] t"

definition Scope_Validate :: "Scope \<Rightarrow> bool" where
  "Scope_Validate s \<longleftrightarrow> List.member [''whole-root'', ''runtime-status'', ''services'', ''service'', ''sessions'',
     ''session'', ''topology'', ''pairing-status''] s"

definition AuthScopeReadRaw :: AuthScope where "AuthScopeReadRaw = ''eebus.raw.read''"

definition AuthScope_Validate :: "AuthScope \<Rightarrow> bool" where
  "AuthScope_Validate a = (if a \<noteq> AuthScopeReadRaw then False else True)"

definition ObjectKind_Validate :: "ObjectKind \<Rightarrow> bool" where
  "ObjectKind_Validate k \<longleftrightarrow> List.member [''identity'', ''topology'', ''service'', ''session'', ''unknown''] k"

definition CaptureProvenanceRuntimeObservation :: CaptureProvenanceV1 where
  "CaptureProvenanceRuntimeObservation = ''runtime-observation''"

definition CaptureProvenanceV1_Validate :: "CaptureProvenanceV1 \<Rightarrow> bool" where
  "CaptureProvenanceV1_Validate p = (if p \<noteq> CaptureProvenanceRuntimeObservation then False else True)"

definition RawSnapshotScopeV1_Validate :: "RawSnapshotScopeV1 \<Rightarrow> bool" where
  "RawSnapshotScopeV1_Validate s \<longleftrightarrow> List.member [''raw-root'', ''raw-identity'', ''raw-topology'', ''raw-services'',
     ''raw-sessions'', ''raw-unknown''] s"

text \<open>\<open>String\<close> and \<open>MarshalJSON\<close> of a name with its validator.\<close>

definition name_String :: "(string \<Rightarrow> bool) \<Rightarrow> string \<Rightarrow> string \<Rightarrow> string" where
  "name_String valid fallback s = (if \<not> valid s then fallback else s)"

definition name_MarshalJSON :: "(string \<Rightarrow> bool) \<Rightarrow> string \<Rightarrow> jdoc" where
  "name_MarshalJSON valid s = (if \<not> valid s then None else jstr s)"

definition ContractVersion_String :: "ContractVersion \<Rightarrow> string" where
  "ContractVersion_String = name_String ContractVersion_Validate ''invalid-contract''"
definition ToolID_String :: "ToolID \<Rightarrow> string" where
  "ToolID_String = name_String ToolID_Validate ''invalid-tool''"
definition Scope_String :: "Scope \<Rightarrow> string" where
  "Scope_String = name_String Scope_Validate ''invalid-scope''"
definition AuthScope_String :: "AuthScope \<Rightarrow> string" where
  "AuthScope_String = name_String AuthScope_Validate ''invalid-auth-scope''"
definition ObjectKind_String :: "ObjectKind \<Rightarrow> string" where
  "ObjectKind_String = name_String ObjectKind_Validate ''invalid-object-kind''"
definition CaptureProvenanceV1_String :: "CaptureProvenanceV1 \<Rightarrow> string" where
  "CaptureProvenanceV1_String = name_String CaptureProvenanceV1_Validate ''invalid-capture-provenance''"
definition RawSnapshotScopeV1_String :: "RawSnapshotScopeV1 \<Rightarrow> string" where
  "RawSnapshotScopeV1_String = name_String RawSnapshotScopeV1_Validate ''invalid-raw-snapshot-scope''"

lemmas name_strings = ContractVersion_String_def ToolID_String_def Scope_String_def AuthScope_String_def
  ObjectKind_String_def CaptureProvenanceV1_String_def RawSnapshotScopeV1_String_def name_String_def

definition sortedUnknownFields :: "UnknownField list \<Rightarrow> UnknownField list" where
  "sortedUnknownFields us = sort_key unknown_key us"

definition validSHA256Digest :: "string \<Rightarrow> bool" where
  "validSHA256Digest v =
     (if length v \<noteq> length ''sha256:'' + 64 \<or> \<not> has_prefix ''sha256:'' v \<or> v \<noteq> ascii_lower v then False
      else hex_decodable (trim_prefix ''sha256:'' v))"

definition DigestBytes :: "golib \<Rightarrow> bytes \<Rightarrow> string" where
  "DigestBytes lib raw = ''sha256:'' @ hex_encode (sha256 lib raw)"

subsection \<open>References\<close>

record Reference =
  rf_Runtime :: RedactedID
  rf_Contract :: ContractVersion
  rf_Tool :: ToolID
  rf_Scope :: Scope
  rf_MaskTier :: MaskTier
  rf_AuthScope :: AuthScope

definition NewReference :: "RedactedID \<Rightarrow> ToolID \<Rightarrow> Scope \<Rightarrow> AuthScope \<Rightarrow> Reference" where
  "NewReference runtime tool scope authScope = \<lparr>rf_Runtime = runtime, rf_Contract = EnvelopeContractV1Alpha1,
     rf_Tool = tool, rf_Scope = scope, rf_MaskTier = MaskTierRedacted, rf_AuthScope = authScope\<rparr>"

definition Reference_Validate :: "Reference \<Rightarrow> bool" where
  "Reference_Validate r =
     (if \<not> RedactedID_Validate (rf_Runtime r) then False
      else if ri_Digest (rf_Runtime r) = [] then False
      else if \<not> validSHA256Digest (ri_Digest (rf_Runtime r)) then False
      else if rf_Contract r \<noteq> EnvelopeContractV1Alpha1 then False
      else if \<not> ToolID_Validate (rf_Tool r) then False
      else if \<not> Scope_Validate (rf_Scope r) then False
      else if rf_MaskTier r \<noteq> MaskTierRedacted then False
      else AuthScope_Validate (rf_AuthScope r))"

definition Reference_Matches :: "Reference \<Rightarrow> Reference \<Rightarrow> bool" where
  "Reference_Matches r s \<longleftrightarrow>
     rf_Runtime r = rf_Runtime s \<and> rf_Contract r = rf_Contract s \<and> rf_Tool r = rf_Tool s \<and>
     rf_Scope r = rf_Scope s \<and> rf_MaskTier r = rf_MaskTier s \<and> rf_AuthScope r = rf_AuthScope s"

definition Reference_MarshalJSON :: "Reference \<Rightarrow> jdoc" where
  "Reference_MarshalJSON r =
     (if \<not> Reference_Validate r then None
      else jobj [jfield ''runtime'' (RedactedID_MarshalJSON (rf_Runtime r)),
        jfield ''contract'' (name_MarshalJSON ContractVersion_Validate (rf_Contract r)),
        jfield ''tool'' (name_MarshalJSON ToolID_Validate (rf_Tool r)),
        jfield ''scope'' (name_MarshalJSON Scope_Validate (rf_Scope r)),
        jfield ''mask_tier'' (jstr (maskTier_text (rf_MaskTier r))),
        jfield ''auth_scope'' (name_MarshalJSON AuthScope_Validate (rf_AuthScope r))])"

record ReferenceV1 =
  r1_Runtime :: RedactedID
  r1_Contract :: ContractVersion
  r1_CaptureProvenance :: CaptureProvenanceV1
  r1_Scope :: RawSnapshotScopeV1
  r1_MaskTier :: MaskTier
  r1_AuthScope :: AuthScope

definition NewReferenceV1 :: "RedactedID \<Rightarrow> CaptureProvenanceV1 \<Rightarrow> RawSnapshotScopeV1 \<Rightarrow> AuthScope \<Rightarrow> ReferenceV1" where
  "NewReferenceV1 runtime provenance scope authScope = \<lparr>r1_Runtime = runtime, r1_Contract = EnvelopeContractV1,
     r1_CaptureProvenance = provenance, r1_Scope = scope, r1_MaskTier = MaskTierRedacted, r1_AuthScope = authScope\<rparr>"

definition ReferenceV1_Validate :: "ReferenceV1 \<Rightarrow> bool" where
  "ReferenceV1_Validate r =
     (if \<not> RedactedID_Validate (r1_Runtime r) then False
      else if ri_Digest (r1_Runtime r) = [] then False
      else if \<not> validSHA256Digest (ri_Digest (r1_Runtime r)) then False
      else if r1_Contract r \<noteq> EnvelopeContractV1 then False
      else if \<not> CaptureProvenanceV1_Validate (r1_CaptureProvenance r) then False
      else if \<not> RawSnapshotScopeV1_Validate (r1_Scope r) then False
      else if r1_MaskTier r \<noteq> MaskTierRedacted then False
      else r1_AuthScope r = AuthScopeReadRaw)"

definition ReferenceV1_Matches :: "ReferenceV1 \<Rightarrow> ReferenceV1 \<Rightarrow> bool" where
  "ReferenceV1_Matches r s \<longleftrightarrow>
     r1_Runtime r = r1_Runtime s \<and> r1_Contract r = r1_Contract s \<and> r1_CaptureProvenance r = r1_CaptureProvenance s \<and>
     r1_Scope r = r1_Scope s \<and> r1_MaskTier r = r1_MaskTier s \<and> r1_AuthScope r = r1_AuthScope s"

definition ReferenceV1_MarshalJSON :: "ReferenceV1 \<Rightarrow> jdoc" where
  "ReferenceV1_MarshalJSON r =
     (if \<not> ReferenceV1_Validate r then None
      else jobj [jfield ''runtime'' (RedactedID_MarshalJSON (r1_Runtime r)),
        jfield ''contract'' (name_MarshalJSON ContractVersion_Validate (r1_Contract r)),
        jfield ''capture_provenance'' (name_MarshalJSON CaptureProvenanceV1_Validate (r1_CaptureProvenance r)),
        jfield ''scope'' (name_MarshalJSON RawSnapshotScopeV1_Validate (r1_Scope r)),
        jfield ''mask_tier'' (jstr (maskTier_text (r1_MaskTier r))),
        jfield ''auth_scope'' (name_MarshalJSON AuthScope_Validate (r1_AuthScope r))])"

subsection \<open>Objects\<close>

record Object =
  ob_Kind :: ObjectKind
  ob_Digest :: string
  ob_Size :: int
  ob_DataTimestamp :: gotime
  ob_Unknown :: "UnknownField list"

definition NewObject :: "ObjectKind \<Rightarrow> string \<Rightarrow> int \<Rightarrow> gotime \<Rightarrow> Object" where
  "NewObject kind digest sz dataTimestamp = \<lparr>ob_Kind = kind, ob_Digest = digest, ob_Size = sz,
     ob_DataTimestamp = toUTC dataTimestamp, ob_Unknown = []\<rparr>"

definition evidence_unknown_ok :: "UnknownField \<Rightarrow> bool" where
  "evidence_unknown_ok u =
     (if \<not> UnknownField_Validate u then False
      else \<not> (ov_Digest (uf_Value u) \<noteq> [] \<and> \<not> validSHA256Digest (ov_Digest (uf_Value u))))"

definition Object_Validate :: "Object \<Rightarrow> bool" where
  "Object_Validate x =
     (if \<not> ObjectKind_Validate (ob_Kind x) then False
      else if \<not> validSHA256Digest (ob_Digest x) then False
      else if ob_Size x < 0 then False
      else if IsZero (ob_DataTimestamp x) then False
      else list_all evidence_unknown_ok (ob_Unknown x))"

definition newObjectJSON :: "Object \<Rightarrow> jdoc" where
  "newObjectJSON x =
     jobj [jfield ''kind'' (name_MarshalJSON ObjectKind_Validate (ob_Kind x)), jfield ''digest'' (jstr (ob_Digest x)),
       jfield ''size'' (Some (GNumber (dec_int (ob_Size x)))), jfield ''data_timestamp'' (jtime (toUTC (ob_DataTimestamp x))),
       doc_unknown (sortedUnknownFields (ob_Unknown x))]"

definition Object_MarshalJSON :: "Object \<Rightarrow> jdoc" where
  "Object_MarshalJSON x = (if \<not> Object_Validate x then None else newObjectJSON x)"

record ObjectV1 =
  o1_Kind :: ObjectKind
  o1_Digest :: string
  o1_Size :: int
  o1_DataTimestamp :: gotime
  o1_Unknown :: "UnknownField list"

definition NewObjectV1 :: "ObjectKind \<Rightarrow> string \<Rightarrow> int \<Rightarrow> gotime \<Rightarrow> ObjectV1" where
  "NewObjectV1 kind digest sz dataTimestamp = \<lparr>o1_Kind = kind, o1_Digest = digest, o1_Size = sz,
     o1_DataTimestamp = toUTC dataTimestamp, o1_Unknown = []\<rparr>"

definition ObjectV1_Validate :: "ObjectV1 \<Rightarrow> bool" where
  "ObjectV1_Validate x =
     (if \<not> ObjectKind_Validate (o1_Kind x) then False
      else if \<not> validSHA256Digest (o1_Digest x) then False
      else if o1_Size x < 0 then False
      else if \<not> validateTimestampV1 (o1_DataTimestamp x) then False
      else list_all evidence_unknown_ok (o1_Unknown x))"

definition objectV1AsObject :: "ObjectV1 \<Rightarrow> Object" where
  "objectV1AsObject x = \<lparr>ob_Kind = o1_Kind x, ob_Digest = o1_Digest x, ob_Size = o1_Size x,
     ob_DataTimestamp = o1_DataTimestamp x, ob_Unknown = o1_Unknown x\<rparr>"

definition ObjectV1_MarshalJSON :: "ObjectV1 \<Rightarrow> jdoc" where
  "ObjectV1_MarshalJSON x = (if \<not> ObjectV1_Validate x then None else newObjectJSON (objectV1AsObject x))"

subsection \<open>Canonical text\<close>

text \<open>\<^verbatim>\<open>Format(time.RFC3339Nano)\<close>, which knows no limit on the year.\<close>

definition format_rfc3339nano :: "gotime \<Rightarrow> string" where
  "format_rfc3339nano t =
     (let off = (case t_loc t of UTC \<Rightarrow> 0 | Offset o' \<Rightarrow> o');
          l = t_nsec t + off * 1000000000; secs = l div 1000000000; day = secs div 86400;
          sod = secs mod 86400; (y, m, d) = civil day
      in (if y < 0 then CHR ''-'' # pad 4 (nat (- y)) else pad 4 (nat y)) @ ''-'' @ pad 2 (nat m) @ ''-'' @
         pad 2 (nat d) @ ''T'' @ pad 2 (nat (sod div 3600)) @ '':'' @ pad 2 (nat (sod mod 3600 div 60)) @ '':'' @
         pad 2 (nat (sod mod 60)) @ fraction (l mod 1000000000) @ zone_text (t_loc t))"

definition writeCanonicalString :: "string \<Rightarrow> string" where
  "writeCanonicalString value = marshal_string value"

definition writeCanonicalFieldName :: "string \<Rightarrow> string" where
  "writeCanonicalFieldName name = writeCanonicalString name @ '':''"

definition canonicalTime :: "gotime \<Rightarrow> string" where
  "canonicalTime t = format_rfc3339nano (toUTC t)"

definition writeCanonicalOpaqueValue :: "OpaqueValue \<Rightarrow> string" where
  "writeCanonicalOpaqueValue v =
     [CHR 0x7B] @
     (if ov_Digest v \<noteq> [] then writeCanonicalFieldName ''digest'' @ writeCanonicalString (ov_Digest v) @ '','' else []) @
     writeCanonicalFieldName ''masked'' @ writeCanonicalString (ov_Masked v) @
     (if ov_Size v \<noteq> 0 then '','' @ writeCanonicalFieldName ''size'' @ dec_int (ov_Size v) else []) @ [CHR 0x7D]"

definition unknown_text :: "UnknownField \<Rightarrow> string" where
  "unknown_text u = [CHR 0x7B] @ writeCanonicalFieldName ''path'' @ writeCanonicalString (UnknownPath_String (uf_Path u)) @
     '','' @ writeCanonicalFieldName ''value'' @ writeCanonicalOpaqueValue (uf_Value u) @ [CHR 0x7D]"

definition writeCanonicalUnknownFields :: "UnknownField list \<Rightarrow> string" where
  "writeCanonicalUnknownFields us = ''['' @ join_comma (map unknown_text (sortedUnknownFields us)) @ '']''"

definition canonicalUnknownFields :: "UnknownField list \<Rightarrow> string" where
  "canonicalUnknownFields us = writeCanonicalUnknownFields us"

definition writeCanonicalObject :: "Object \<Rightarrow> string" where
  "writeCanonicalObject x =
     [CHR 0x7B] @ writeCanonicalFieldName ''data_timestamp'' @ writeCanonicalString (canonicalTime (ob_DataTimestamp x)) @
     '','' @ writeCanonicalFieldName ''digest'' @ writeCanonicalString (ob_Digest x) @
     '','' @ writeCanonicalFieldName ''kind'' @ writeCanonicalString (ObjectKind_String (ob_Kind x)) @
     '','' @ writeCanonicalFieldName ''size'' @ dec_int (ob_Size x) @
     (if 0 < length (ob_Unknown x)
      then '','' @ writeCanonicalFieldName ''unknown'' @ writeCanonicalUnknownFields (ob_Unknown x) else []) @ [CHR 0x7D]"

definition writeCanonicalRedactedID :: "RedactedID \<Rightarrow> string" where
  "writeCanonicalRedactedID i =
     [CHR 0x7B] @
     (if ri_Digest i \<noteq> [] then writeCanonicalFieldName ''digest'' @ writeCanonicalString (ri_Digest i) @ '','' else []) @
     writeCanonicalFieldName ''kind'' @ writeCanonicalString (IDKind_String (ri_Kind i)) @
     '','' @ writeCanonicalFieldName ''masked'' @ writeCanonicalString (ri_Masked i) @ [CHR 0x7D]"

definition writeCanonicalReference :: "Reference \<Rightarrow> string" where
  "writeCanonicalReference r =
     [CHR 0x7B] @ writeCanonicalFieldName ''auth_scope'' @ writeCanonicalString (AuthScope_String (rf_AuthScope r)) @
     '','' @ writeCanonicalFieldName ''contract'' @ writeCanonicalString (ContractVersion_String (rf_Contract r)) @
     '','' @ writeCanonicalFieldName ''mask_tier'' @ writeCanonicalString (maskTier_text (rf_MaskTier r)) @
     '','' @ writeCanonicalFieldName ''runtime'' @ writeCanonicalRedactedID (rf_Runtime r) @
     '','' @ writeCanonicalFieldName ''scope'' @ writeCanonicalString (Scope_String (rf_Scope r)) @
     '','' @ writeCanonicalFieldName ''tool'' @ writeCanonicalString (ToolID_String (rf_Tool r)) @ [CHR 0x7D]"

definition writeCanonicalReferenceV1 :: "ReferenceV1 \<Rightarrow> string" where
  "writeCanonicalReferenceV1 r =
     [CHR 0x7B] @ writeCanonicalFieldName ''auth_scope'' @ writeCanonicalString (AuthScope_String (r1_AuthScope r)) @
     '','' @ writeCanonicalFieldName ''capture_provenance'' @
       writeCanonicalString (CaptureProvenanceV1_String (r1_CaptureProvenance r)) @
     '','' @ writeCanonicalFieldName ''contract'' @ writeCanonicalString (ContractVersion_String (r1_Contract r)) @
     '','' @ writeCanonicalFieldName ''mask_tier'' @ writeCanonicalString (maskTier_text (r1_MaskTier r)) @
     '','' @ writeCanonicalFieldName ''runtime'' @ writeCanonicalRedactedID (r1_Runtime r) @
     '','' @ writeCanonicalFieldName ''scope'' @ writeCanonicalString (RawSnapshotScopeV1_String (r1_Scope r)) @ [CHR 0x7D]"

subsection \<open>Envelopes\<close>

definition copy_object :: "Object \<Rightarrow> Object" where
  "copy_object x = x\<lparr>ob_DataTimestamp := toUTC (ob_DataTimestamp x), ob_Unknown := sortedUnknownFields (ob_Unknown x)\<rparr>"

definition copyObjects :: "Object list \<Rightarrow> Object list" where
  "copyObjects xs = map copy_object xs"

text \<open>The order of objects: kind, digest, canonical time, size, canonical text of the unknown fields.\<close>

definition object_key :: "Object \<Rightarrow> string \<times> string \<times> string \<times> int \<times> string" where
  "object_key x = (ob_Kind x, ob_Digest x, canonicalTime (ob_DataTimestamp x), ob_Size x, canonicalUnknownFields (ob_Unknown x))"

definition sortedObjects :: "Object list \<Rightarrow> Object list" where
  "sortedObjects xs = sort_key object_key (copyObjects xs)"

definition copy_objectV1 :: "ObjectV1 \<Rightarrow> ObjectV1" where
  "copy_objectV1 x = x\<lparr>o1_DataTimestamp := toUTC (o1_DataTimestamp x), o1_Unknown := sortedUnknownFields (o1_Unknown x)\<rparr>"

definition copyObjectsV1 :: "ObjectV1 list \<Rightarrow> ObjectV1 list" where
  "copyObjectsV1 xs = map copy_objectV1 xs"

definition sortedObjectsV1 :: "ObjectV1 list \<Rightarrow> ObjectV1 list" where
  "sortedObjectsV1 xs = sort_key (\<lambda>x. object_key (objectV1AsObject x)) (copyObjectsV1 xs)"

record Envelope =
  en_Reference :: Reference
  en_CapturedAt :: gotime
  en_DataTimestamp :: gotime
  en_Objects :: "Object list"
  en_DataHash :: string

definition NewEnvelope :: "Reference \<Rightarrow> gotime \<Rightarrow> gotime \<Rightarrow> Object list \<Rightarrow> Envelope" where
  "NewEnvelope ref capturedAt dataTimestamp objects =
     \<lparr>en_Reference = ref, en_CapturedAt = toUTC capturedAt, en_DataTimestamp = toUTC dataTimestamp,
      en_Objects = copyObjects objects, en_DataHash = []\<rparr>"

definition payload_text :: "gotime \<Rightarrow> string list \<Rightarrow> string \<Rightarrow> string" where
  "payload_text t objects ref =
     [CHR 0x7B] @ writeCanonicalFieldName ''data_timestamp'' @ writeCanonicalString (canonicalTime t) @ '','' @
     writeCanonicalFieldName ''objects'' @ ''['' @ join_comma objects @ '']'' @ '','' @
     writeCanonicalFieldName ''ref'' @ ref @ [CHR 0x7D]"

definition canonicalHashPayload :: "Envelope \<Rightarrow> bytes" where
  "canonicalHashPayload e = payload_text (en_DataTimestamp e)
     (map writeCanonicalObject (sortedObjects (en_Objects e))) (writeCanonicalReference (en_Reference e))"

definition Envelope_hash :: "golib \<Rightarrow> Envelope \<Rightarrow> string" where
  "Envelope_hash lib e = ''sha256:'' @ hex_encode (sha256 lib (canonicalHashPayload e))"

definition Envelope_validate :: "golib \<Rightarrow> Envelope \<Rightarrow> bool \<Rightarrow> bool" where
  "Envelope_validate lib e checkDataHash =
     (if \<not> Reference_Validate (en_Reference e) then False
      else if IsZero (en_CapturedAt e) then False
      else if IsZero (en_DataTimestamp e) then False
      else if \<not> list_all Object_Validate (en_Objects e) then False
      else if en_DataHash e \<noteq> [] \<and> \<not> validSHA256Digest (en_DataHash e) then False
      else if checkDataHash \<and> en_DataHash e \<noteq> [] then en_DataHash e = Envelope_hash lib e
      else True)"

definition Envelope_ComputeDataHash :: "golib \<Rightarrow> Envelope \<Rightarrow> string option" where
  "Envelope_ComputeDataHash lib e = (if \<not> Envelope_validate lib e False then None else Some (Envelope_hash lib e))"

definition Envelope_WithDataHash :: "golib \<Rightarrow> Envelope \<Rightarrow> Envelope option" where
  "Envelope_WithDataHash lib e =
     (case Envelope_ComputeDataHash lib e of
        None \<Rightarrow> None
      | Some hash \<Rightarrow> Some (e\<lparr>en_DataHash := hash, en_Objects := copyObjects (en_Objects e)\<rparr>))"

definition Envelope_MarshalJSON :: "golib \<Rightarrow> Envelope \<Rightarrow> jdoc" where
  "Envelope_MarshalJSON lib e =
     (if \<not> Envelope_validate lib e True then None
      else
        (let objects = sortedObjects (en_Objects e) in
         jobj [jfield ''ref'' (Reference_MarshalJSON (en_Reference e)),
           jfield ''captured_at'' (jtime (toUTC (en_CapturedAt e))),
           jfield ''data_timestamp'' (jtime (toUTC (en_DataTimestamp e))),
           (if objects = [] then [] else jfield ''objects'' (jlist Object_MarshalJSON objects)),
           jomit_string ''data_hash'' (en_DataHash e)]))"

record EnvelopeV1 =
  v1_Reference :: ReferenceV1
  v1_CapturedAt :: gotime
  v1_DataTimestamp :: gotime
  v1_Objects :: "ObjectV1 list"
  v1_DataHash :: string

definition NewEnvelopeV1 :: "ReferenceV1 \<Rightarrow> gotime \<Rightarrow> gotime \<Rightarrow> ObjectV1 list \<Rightarrow> EnvelopeV1" where
  "NewEnvelopeV1 ref capturedAt dataTimestamp objects =
     \<lparr>v1_Reference = ref, v1_CapturedAt = toUTC capturedAt, v1_DataTimestamp = toUTC dataTimestamp,
      v1_Objects = copyObjectsV1 objects, v1_DataHash = []\<rparr>"

definition canonicalHashPayloadV1 :: "EnvelopeV1 \<Rightarrow> bytes" where
  "canonicalHashPayloadV1 e = payload_text (v1_DataTimestamp e)
     (map (\<lambda>x. writeCanonicalObject (objectV1AsObject x)) (sortedObjectsV1 (v1_Objects e)))
     (writeCanonicalReferenceV1 (v1_Reference e))"

definition EnvelopeV1_hash :: "golib \<Rightarrow> EnvelopeV1 \<Rightarrow> string" where
  "EnvelopeV1_hash lib e = ''sha256:'' @ hex_encode (sha256 lib (canonicalHashPayloadV1 e))"

definition EnvelopeV1_validate :: "golib \<Rightarrow> EnvelopeV1 \<Rightarrow> bool \<Rightarrow> bool" where
  "EnvelopeV1_validate lib e checkDataHash =
     (if \<not> ReferenceV1_Validate (v1_Reference e) then False
      else if \<not> validateTimestampV1 (v1_CapturedAt e) then False
      else if \<not> validateTimestampV1 (v1_DataTimestamp e) then False
      else if \<not> list_all ObjectV1_Validate (v1_Objects e) then False
      else if v1_DataHash e \<noteq> [] \<and> \<not> validSHA256Digest (v1_DataHash e) then False
      else if checkDataHash \<and> v1_DataHash e \<noteq> [] then v1_DataHash e = EnvelopeV1_hash lib e
      else True)"

definition EnvelopeV1_ComputeDataHash :: "golib \<Rightarrow> EnvelopeV1 \<Rightarrow> string option" where
  "EnvelopeV1_ComputeDataHash lib e =
     (if \<not> EnvelopeV1_validate lib e False then None else Some (EnvelopeV1_hash lib e))"

definition EnvelopeV1_WithDataHash :: "golib \<Rightarrow> EnvelopeV1 \<Rightarrow> EnvelopeV1 option" where
  "EnvelopeV1_WithDataHash lib e =
     (case EnvelopeV1_ComputeDataHash lib e of
        None \<Rightarrow> None
      | Some hash \<Rightarrow> Some (e\<lparr>v1_DataHash := hash, v1_Objects := copyObjectsV1 (v1_Objects e)\<rparr>))"

definition EnvelopeV1_MarshalJSON :: "golib \<Rightarrow> EnvelopeV1 \<Rightarrow> jdoc" where
  "EnvelopeV1_MarshalJSON lib e =
     (if \<not> EnvelopeV1_validate lib e True then None
      else
        (let objects = sortedObjectsV1 (v1_Objects e) in
         jobj [jfield ''ref'' (ReferenceV1_MarshalJSON (v1_Reference e)),
           jfield ''captured_at'' (jtime (toUTC (v1_CapturedAt e))),
           jfield ''data_timestamp'' (jtime (toUTC (v1_DataTimestamp e))),
           (if objects = [] then [] else jfield ''objects'' (jlist ObjectV1_MarshalJSON objects)),
           jomit_string ''data_hash'' (v1_DataHash e)]))"

subsection \<open>Plain texts\<close>

text \<open>Characters that \<open>json.Marshal\<close> writes as they are.\<close>

definition plain_char :: "char \<Rightarrow> bool" where
  "plain_char c \<longleftrightarrow> (let n = (of_char c :: nat) in 32 \<le> n \<and> n < 127 \<and> n \<noteq> 34 \<and> n \<noteq> 38 \<and> n \<noteq> 60 \<and> n \<noteq> 62 \<and> n \<noteq> 92)"

lemma marshal_plain: "list_all plain_char s \<Longrightarrow> marshal_string s = [CHR 0x22] @ s @ [CHR 0x22]"
proof -
  assume p: "list_all plain_char s"
  then have "list_all (\<lambda>c. (of_char c :: nat) < 128) s"
    by (auto simp: list_all_iff plain_char_def Let_def)
  then have "concat (map marshal_escape (go_chunks s)) = concat (map (\<lambda>c. marshal_escape (of_char c, [c])) s)"
    by (simp add: go_chunks_ascii o_def)
  also have "\<dots> = concat (map (\<lambda>c. [c]) s)"
    by (rule arg_cong [of _ _ concat], rule map_cong [OF refl])
      (use p in \<open>auto simp: list_all_iff plain_char_def Let_def marshal_escape_def json_escape_def chunk_valid_def\<close>)
  finally show ?thesis by (simp add: marshal_string_def)
qed

lemma quote_split:
  assumes "list_all plain_char s" "list_all plain_char t"
  shows "writeCanonicalString s @ r = writeCanonicalString t @ u \<longleftrightarrow> s = t \<and> r = u"
proof -
  have "CHR 0x22 \<notin> set s" "CHR 0x22 \<notin> set t"
    using assms by (auto simp: list_all_iff plain_char_def)
  with split_at [of "CHR 0x22" s t r u] show ?thesis
    by (simp add: writeCanonicalString_def marshal_plain assms)
qed

lemma digit_plain: "is_digit c \<Longrightarrow> plain_char c"
  by (auto simp: is_digit_def in_range_def plain_char_def Let_def)

lemma hex_plain: "is_hex c \<Longrightarrow> plain_char c"
  by (auto simp: is_hex_def is_hex_lower_def is_digit_def in_range_def plain_char_def Let_def)

lemma pad_plain: "list_all plain_char (pad w n)"
proof -
  have "plain_char (CHR ''0'')" by (simp add: plain_char_def)
  with dec_nat_digits(1) [of n] show ?thesis by (auto simp: pad_def Let_def list_all_iff digit_plain)
qed

lemma fraction_plain: "list_all plain_char (fraction n)"
proof -
  have "set (dropWhile P (rev (pad 9 (nat n)))) \<subseteq> set (pad 9 (nat n))" for P
    by (metis set_dropWhileD set_rev subsetI)
  with pad_plain [of 9 "nat n"] show ?thesis
    by (auto simp: fraction_def list_all_iff) (simp add: plain_char_def)
qed

lemma canonicalTime_plain: "list_all plain_char (canonicalTime t)"
  by (simp add: canonicalTime_def format_rfc3339nano_def toUTC_def zone_text_def Let_def pad_plain fraction_plain
      split: prod.split) (simp add: plain_char_def)

lemma digest_plain:
  assumes "validSHA256Digest v"
  shows "list_all plain_char v"
proof -
  have p: "has_prefix ''sha256:'' v" and "list_all is_hex (drop (length ''sha256:'') v)"
    using assms by (auto simp: validSHA256Digest_def hex_decodable_def trim_prefix_def split: if_splits)
  then have "list_all plain_char (drop (length ''sha256:'') v)"
    by (auto simp: list_all_iff hex_plain)
  moreover have "list_all plain_char ''sha256:''"
    by (simp add: plain_char_def)
  ultimately show ?thesis
    by (subst has_prefix_split [OF p]) (simp only: list_all_append)
qed

lemma redacted_plain: "list_all plain_char redactedValue"
  by (simp add: redactedValue_def plain_char_def)

lemma IDKind_plain: "IDKind_Validate k \<Longrightarrow> list_all plain_char k"
  by (auto simp: IDKind_Validate_def IDKindLocalSKI_def IDKindRemoteSKI_def IDKindCertificateFingerprint_def
      IDKindPeer_def IDKindSession_def plain_char_def)

lemma UnknownPath_plain: "UnknownPath_Validate k \<Longrightarrow> list_all plain_char k"
  by (auto simp: UnknownPath_Validate_def UnknownPathDocument_def UnknownPathDevice_def UnknownPathLocal_def
      UnknownPathRemote_def UnknownPathSession_def plain_char_def)

lemma ObjectKind_plain: "ObjectKind_Validate k \<Longrightarrow> list_all plain_char k"
  by (auto simp: ObjectKind_Validate_def plain_char_def)

lemma RawSnapshotScopeV1_plain: "RawSnapshotScopeV1_Validate k \<Longrightarrow> list_all plain_char k"
  by (auto simp: RawSnapshotScopeV1_Validate_def plain_char_def)

subsection \<open>Canonical texts can be taken apart\<close>

lemma parse_dec_nat: "parse_digits acc (dec_nat n @ s) = parse_digits (acc * 10 ^ length (dec_nat n) + n) s"
proof (induction n arbitrary: acc s rule: dec_nat.induct)
  case (1 n)
  show ?case
  proof (cases "n < 10")
    case True
    then have "is_digit (digit_char n)" "(of_char (digit_char n) :: nat) = 48 + n"
      by (simp_all add: digit_char) (simp add: digit_char_def)
    with True show ?thesis by (subst (1 2) dec_nat.simps) simp
  next
    case False
    have d: "is_digit (digit_char (n mod 10))" "(of_char (digit_char (n mod 10)) :: nat) = 48 + n mod 10"
      by (simp_all add: digit_char) (simp add: digit_char_def)
    show ?thesis
      using False d 1 [OF False, of acc "digit_char (n mod 10) # s"]
      by (subst (1 2) dec_nat.simps) (simp add: algebra_simps)
  qed
qed

lemma dec_nat_inj: "dec_nat m = dec_nat n \<Longrightarrow> m = n"
  using parse_dec_nat [of 0 m "[]"] parse_dec_nat [of 0 n "[]"] by simp

lemma span_split:
  assumes "list_all P s" "list_all P t" "\<not> P c" "\<not> P d" "s @ c # r = t @ d # u"
  shows "s = t \<and> c # r = d # u"
  using assms
proof (induction s arbitrary: t)
  case Nil
  then show ?case by (cases t) auto
next
  case (Cons a s)
  then show ?case by (cases t) auto
qed

lemma dec_split:
  assumes "0 \<le> i" "0 \<le> j" "\<not> is_digit c" "\<not> is_digit d" "dec_int i @ c # r = dec_int j @ d # u"
  shows "i = j \<and> c # r = d # u"
  using span_split [OF dec_nat_digits(1) dec_nat_digits(1) assms(3,4), of "nat i" r "nat j" u] assms
  by (auto simp: dec_int_def dest!: dec_nat_inj)

text \<open>A writer whose text says where it ends and what was written.\<close>

definition prefix_code :: "('a \<Rightarrow> bool) \<Rightarrow> ('a \<Rightarrow> string) \<Rightarrow> bool" where
  "prefix_code P w \<longleftrightarrow> (\<forall>x y r u. P x \<longrightarrow> P y \<longrightarrow> w x @ r = w y @ u \<longrightarrow> x = y \<and> r = u)"

lemma prefix_codeD: "prefix_code P w \<Longrightarrow> P x \<Longrightarrow> P y \<Longrightarrow> w x @ r = w y @ u \<Longrightarrow> x = y \<and> r = u"
  unfolding prefix_code_def by blast

lemma join_comma_split:
  assumes "prefix_code P w" "\<And>x. P x \<Longrightarrow> \<exists>t. w x = CHR 0x7B # t"
    and "list_all P xs" "list_all P ys" "join_comma (map w xs) @ CHR '']'' # r = join_comma (map w ys) @ CHR '']'' # u"
  shows "xs = ys \<and> r = u"
  using assms(3-5)
proof (induction xs arbitrary: ys)
  case Nil
  then show ?case using assms(2) by (cases ys; cases "tl ys") force+
next
  case (Cons x xs)
  from Cons.prems obtain y ys' where ys: "ys = y # ys'"
    using assms(2) [of x] by (cases ys; cases xs) auto
  have tails: "join_comma (map w (z # zs)) @ CHR '']'' # v =
      w z @ (if zs = [] then CHR '']'' # v else CHR '','' # join_comma (map w zs) @ CHR '']'' # v)" for z zs v
    by (cases zs) simp_all
  have "x = y \<and> (if xs = [] then CHR '']'' # r else CHR '','' # join_comma (map w xs) @ CHR '']'' # r) =
      (if ys' = [] then CHR '']'' # u else CHR '','' # join_comma (map w ys') @ CHR '']'' # u)"
    using Cons.prems unfolding ys tails by (intro prefix_codeD [OF assms(1)]) auto
  then show ?case using Cons.prems Cons.IH [of ys'] by (auto simp: ys split: if_splits)
qed

lemma field_names:
  "list_all plain_char name \<Longrightarrow> writeCanonicalFieldName name = [CHR 0x22] @ name @ [CHR 0x22, CHR '':'']"
  by (simp add: writeCanonicalFieldName_def writeCanonicalString_def marshal_plain)

lemma literal_plain:
  "list_all plain_char ''digest''" "list_all plain_char ''masked''" "list_all plain_char ''size''" "list_all plain_char ''path''"
  "list_all plain_char ''value''" "list_all plain_char ''data_timestamp''" "list_all plain_char ''kind''"
  "list_all plain_char ''unknown''" "list_all plain_char ''objects''" "list_all plain_char ''ref''"
  "list_all plain_char ''runtime''" "list_all plain_char ''scope''"
  by (simp_all add: plain_char_def)

lemmas field_texts = literal_plain [THEN field_names]

lemma brackets_no_digit: "\<not> is_digit (CHR '','')" "\<not> is_digit (CHR 0x7D)"
  by (simp_all add: is_digit_def in_range_def)

text \<open>What is written of an unknown field and of an object, for what passed the validators.\<close>

lemma opaque_code: "prefix_code evidence_unknown_ok unknown_text"
  unfolding prefix_code_def
proof (intro allI impI)
  fix x y r u assume ok: "evidence_unknown_ok x" "evidence_unknown_ok y" and eq: "unknown_text x @ r = unknown_text y @ u"
  have x: "list_all plain_char (uf_Path x)" "list_all plain_char (uf_Path y)" "UnknownPath_String (uf_Path x) = uf_Path x"
    "UnknownPath_String (uf_Path y) = uf_Path y" "ov_Masked (uf_Value x) = redactedValue" "ov_Masked (uf_Value y) = redactedValue"
    "0 \<le> ov_Size (uf_Value x)" "0 \<le> ov_Size (uf_Value y)"
    "ov_Digest (uf_Value x) \<noteq> [] \<longrightarrow> list_all plain_char (ov_Digest (uf_Value x))"
    "ov_Digest (uf_Value y) \<noteq> [] \<longrightarrow> list_all plain_char (ov_Digest (uf_Value y))"
    using ok by (auto simp: evidence_unknown_ok_def UnknownField_Validate_def OpaqueValue_Validate_def UnknownPath_String_def
        UnknownPath_plain digest_plain split: if_splits)
  note dec = dec_split [OF x(7,8) brackets_no_digit(2,2)]
  have "uf_Path x = uf_Path y \<and> ov_Digest (uf_Value x) = ov_Digest (uf_Value y) \<and>
      ov_Size (uf_Value x) = ov_Size (uf_Value y) \<and> r = u"
    using eq x
    by (cases "ov_Digest (uf_Value x) = []"; cases "ov_Digest (uf_Value y) = []"; cases "ov_Size (uf_Value x) = 0";
        cases "ov_Size (uf_Value y) = 0")
      (auto simp: unknown_text_def writeCanonicalOpaqueValue_def field_texts quote_split dest: dec)
  then show "x = y \<and> r = u"
    using x(5,6) by (auto intro!: UnknownField.equality OpaqueValue.equality)
qed

text \<open>The content of an object: what its canonical text shows.\<close>

definition object_content :: "ObjectV1 \<Rightarrow> string \<times> string \<times> string \<times> int \<times> UnknownField list" where
  "object_content x = (o1_Kind x, o1_Digest x, canonicalTime (o1_DataTimestamp x), o1_Size x, sortedUnknownFields (o1_Unknown x))"

fun content_ok :: "string \<times> string \<times> string \<times> int \<times> UnknownField list \<Rightarrow> bool" where
  "content_ok (k, d, t, n, us) \<longleftrightarrow>
     ObjectKind_Validate k \<and> validSHA256Digest d \<and> list_all plain_char t \<and> 0 \<le> n \<and> list_all evidence_unknown_ok us"

fun content_text :: "string \<times> string \<times> string \<times> int \<times> UnknownField list \<Rightarrow> string" where
  "content_text (k, d, t, n, us) =
     [CHR 0x7B] @ writeCanonicalFieldName ''data_timestamp'' @ writeCanonicalString t @
     '','' @ writeCanonicalFieldName ''digest'' @ writeCanonicalString d @
     '','' @ writeCanonicalFieldName ''kind'' @ writeCanonicalString (ObjectKind_String k) @
     '','' @ writeCanonicalFieldName ''size'' @ dec_int n @
     (if us \<noteq> [] then '','' @ writeCanonicalFieldName ''unknown'' @ ''['' @ join_comma (map unknown_text us) @ '']'' else []) @ [CHR 0x7D]"

lemma sortedUnknownFields_idem [simp]: "sortedUnknownFields (sortedUnknownFields us) = sortedUnknownFields us"
  by (simp add: sortedUnknownFields_def sort_key_id_if_sorted)

lemma sortedUnknownFields_set [simp]: "set (sortedUnknownFields us) = set us" "length (sortedUnknownFields us) = length us"
  "sortedUnknownFields us = [] \<longleftrightarrow> us = []"
  by (simp_all add: sortedUnknownFields_def) (metis length_0_conv length_sort)

lemma object_text: "writeCanonicalObject (objectV1AsObject x) = content_text (object_content x)"
  by (simp add: writeCanonicalObject_def objectV1AsObject_def object_content_def writeCanonicalUnknownFields_def)

lemma toUTC_idem [simp]: "toUTC (toUTC t) = toUTC t" and canonicalTime_toUTC [simp]: "canonicalTime (toUTC t) = canonicalTime t"
  by (simp_all add: toUTC_def canonicalTime_def)

lemma content_copy [simp]: "object_content (copy_objectV1 x) = object_content x"
  by (simp add: object_content_def copy_objectV1_def)

lemma content_valid: "ObjectV1_Validate x \<Longrightarrow> content_ok (object_content x)"
  using canonicalTime_plain [of "o1_DataTimestamp x"]
  by (auto simp: ObjectV1_Validate_def object_content_def list_all_iff split: if_splits)

lemma unknown_brace: "\<exists>t. unknown_text u = CHR 0x7B # t"
  by (simp add: unknown_text_def)

lemma content_brace: "\<exists>t. content_text c = CHR 0x7B # t"
  by (cases c rule: content_text.cases) simp

lemma content_code: "prefix_code content_ok content_text"
  unfolding prefix_code_def
proof (intro allI impI)
  fix x y r u assume ok: "content_ok x" "content_ok y" and eq: "content_text x @ r = content_text y @ u"
  obtain k d t n us k' d' t' n' us' where xy: "x = (k, d, t, n, us)" "y = (k', d', t', n', us')"
    by (metis prod_cases5)
  have p: "list_all plain_char k" "list_all plain_char k'" "ObjectKind_String k = k" "ObjectKind_String k' = k'"
    "list_all plain_char d" "list_all plain_char d'" "list_all plain_char t" "list_all plain_char t'" "0 \<le> n" "0 \<le> n'"
    "list_all evidence_unknown_ok us" "list_all evidence_unknown_ok us'"
    using ok by (auto simp: xy ObjectKind_plain digest_plain name_strings)
  note dec = dec_split [OF p(9,10) brackets_no_digit(1,1)] dec_split [OF p(9,10) brackets_no_digit(1,2)]
    dec_split [OF p(9,10) brackets_no_digit(2,1)] dec_split [OF p(9,10) brackets_no_digit(2,2)]
  note items = join_comma_split [OF opaque_code unknown_brace p(11,12)]
  show "x = y \<and> r = u"
    using eq p by (cases "us = []"; cases "us' = []") (auto simp: xy field_texts quote_split dest!: dec dest: items)
qed

lemma reference_code: "prefix_code ReferenceV1_Validate writeCanonicalReferenceV1"
  unfolding prefix_code_def
proof (intro allI impI)
  fix x y r u assume ok: "ReferenceV1_Validate x" "ReferenceV1_Validate y"
    and eq: "writeCanonicalReferenceV1 x @ r = writeCanonicalReferenceV1 y @ u"
  have p: "list_all plain_char (ri_Kind (r1_Runtime x))" "list_all plain_char (ri_Kind (r1_Runtime y))"
    "list_all plain_char (ri_Digest (r1_Runtime x))" "list_all plain_char (ri_Digest (r1_Runtime y))"
    "list_all plain_char (r1_Scope x)" "list_all plain_char (r1_Scope y)"
    using ok by (auto simp: ReferenceV1_Validate_def RedactedID_Validate_def IDKind_plain digest_plain
        RawSnapshotScopeV1_plain split: if_splits)
  have f: "r1_AuthScope x = r1_AuthScope y" "r1_CaptureProvenance x = r1_CaptureProvenance y" "r1_Contract x = r1_Contract y"
    "r1_MaskTier x = r1_MaskTier y" "ri_Masked (r1_Runtime x) = ri_Masked (r1_Runtime y)"
    "ri_Digest (r1_Runtime x) \<noteq> []" "ri_Digest (r1_Runtime y) \<noteq> []"
    "IDKind_String (ri_Kind (r1_Runtime x)) = ri_Kind (r1_Runtime x)" "IDKind_String (ri_Kind (r1_Runtime y)) = ri_Kind (r1_Runtime y)"
    "RawSnapshotScopeV1_String (r1_Scope x) = r1_Scope x" "RawSnapshotScopeV1_String (r1_Scope y) = r1_Scope y"
    using ok by (auto simp: ReferenceV1_Validate_def RedactedID_Validate_def CaptureProvenanceV1_Validate_def IDKind_String_def
        name_strings split: if_splits)
  from eq show "x = y \<and> r = u"
    by (auto simp: writeCanonicalReferenceV1_def writeCanonicalRedactedID_def field_texts quote_split p f
        intro!: ReferenceV1.equality RedactedID.equality)
qed

lemma payload_split:
  assumes "payload_text t (map content_text cs) (writeCanonicalReferenceV1 r) =
      payload_text t' (map content_text cs') (writeCanonicalReferenceV1 r')"
    and "list_all content_ok cs" "list_all content_ok cs'" "ReferenceV1_Validate r" "ReferenceV1_Validate r'"
  shows "canonicalTime t = canonicalTime t' \<and> cs = cs' \<and> r = r'"
proof -
  have "canonicalTime t = canonicalTime t' \<and>
      join_comma (map content_text cs) @ CHR '']'' # '','' @ writeCanonicalFieldName ''ref'' @ writeCanonicalReferenceV1 r @ [CHR 0x7D] =
      join_comma (map content_text cs') @ CHR '']'' # '','' @ writeCanonicalFieldName ''ref'' @ writeCanonicalReferenceV1 r' @ [CHR 0x7D]"
    using assms(1) by (simp add: payload_text_def quote_split canonicalTime_plain)
  moreover note join_comma_split [OF content_code content_brace assms(2,3)]
  ultimately show ?thesis
    using prefix_codeD [OF reference_code assms(4,5)] by blast
qed

lemma hex_digit_inj: "a < 16 \<Longrightarrow> b < 16 \<Longrightarrow> hex_digit a = hex_digit b \<Longrightarrow> a = b"
proof -
  assume "a < 16" "b < 16" "hex_digit a = hex_digit b"
  then have "(of_char (hex_digit a) :: nat) = of_char (hex_digit b)" by simp
  with \<open>a < 16\<close> \<open>b < 16\<close> show ?thesis by (auto simp: hex_digit_def split: if_splits)
qed

lemma hex_encode_inj: "hex_encode a = hex_encode b \<Longrightarrow> a = b"
proof (induction a arbitrary: b)
  case Nil
  then show ?case by (cases b) (auto simp: hex_encode_def)
next
  case (Cons c a)
  then obtain c' b' where b: "b = c' # b'" by (cases b) (auto simp: hex_encode_def)
  have lt: "(of_char x :: nat) div 16 < 16" for x :: char
  proof -
    have "(of_char x :: nat) < 256" by simp
    then show ?thesis by linarith
  qed
  have "(of_char c :: nat) div 16 = of_char c' div 16" "(of_char c :: nat) mod 16 = of_char c' mod 16" "a = b'"
    using Cons.prems Cons.IH [of b'] hex_digit_inj [OF lt [of c] lt [of c']]
      hex_digit_inj [of "of_char c mod 16" "of_char c' mod 16"] by (simp_all add: b hex_encode_def)
  then have "(of_char c :: nat) = of_char c'" by (metis div_mult_mod_eq)
  with \<open>a = b'\<close> show ?case by (simp add: b)
qed

subsection \<open>The data hash\<close>

text \<open>Sorting by a key leaves the list of keys determined by the multiset.\<close>

lemma sorted_keys_perm: "mset (map f xs) = mset (map f ys) \<Longrightarrow> map f (sort_key f xs) = map f (sort_key f ys)"
  using properties_for_sort [of "map f (sort_key f xs)" "map f xs"] properties_for_sort [of "map f (sort_key f ys)" "map f xs"]
  by simp

lemma payloadV1_eq:
  "canonicalHashPayloadV1 e = payload_text (v1_DataTimestamp e)
     (map content_text (map object_content (sortedObjectsV1 (v1_Objects e)))) (writeCanonicalReferenceV1 (v1_Reference e))"
  by (simp add: canonicalHashPayloadV1_def object_text o_def)

lemma content_mset:
  "mset (map object_content (sortedObjectsV1 xs)) = mset (map object_content xs)"
  by (simp add: sortedObjectsV1_def copyObjectsV1_def image_mset.compositionality o_def)

text \<open>The sort key of an object and its text, from its content.\<close>

fun content_key :: "string \<times> string \<times> string \<times> int \<times> UnknownField list \<Rightarrow> string \<times> string \<times> string \<times> int \<times> string" where
  "content_key (k, d, t, n, us) = (k, d, t, n, ''['' @ join_comma (map unknown_text us) @ '']'')"

fun key_text :: "string \<times> string \<times> string \<times> int \<times> string \<Rightarrow> string" where
  "key_text (k, d, t, n, u) =
     [CHR 0x7B] @ writeCanonicalFieldName ''data_timestamp'' @ writeCanonicalString t @
     '','' @ writeCanonicalFieldName ''digest'' @ writeCanonicalString d @
     '','' @ writeCanonicalFieldName ''kind'' @ writeCanonicalString (ObjectKind_String k) @
     '','' @ writeCanonicalFieldName ''size'' @ dec_int n @
     (if u \<noteq> ''[]'' then '','' @ writeCanonicalFieldName ''unknown'' @ u else []) @ [CHR 0x7D]"

lemma unknown_texts_Nil: "join_comma (map unknown_text us) = [] \<longleftrightarrow> us = []"
proof (cases us)
  case (Cons u us')
  then show ?thesis using unknown_brace [of u] by (cases us') auto
qed simp

lemma content_text_key: "content_text c = key_text (content_key c)"
  by (cases c rule: content_text.cases) (simp add: unknown_texts_Nil)

lemma object_key_content: "object_key (objectV1AsObject x) = content_key (object_content x)"
  by (simp add: object_key_def objectV1AsObject_def object_content_def canonicalUnknownFields_def writeCanonicalUnknownFields_def)

lemma object_texts_perm:
  assumes "mset (map object_content xs) = mset (map object_content ys)"
  shows "map content_text (map object_content (sortedObjectsV1 xs)) = map content_text (map object_content (sortedObjectsV1 ys))"
proof -
  let ?key = "\<lambda>x. object_key (objectV1AsObject x)"
  have keys: "map ?key (copyObjectsV1 zs) = map content_key (map object_content zs)" for zs
    by (simp add: object_key_content copyObjectsV1_def)
  have texts: "map content_text (map object_content (sortedObjectsV1 zs)) = map key_text (map ?key (sort_key ?key (copyObjectsV1 zs)))" for zs
    by (simp add: sortedObjectsV1_def content_text_key object_key_content)
  have "mset (map ?key (copyObjectsV1 xs)) = mset (map ?key (copyObjectsV1 ys))"
    unfolding keys mset_map [of content_key] assms by (rule refl)
  from sorted_keys_perm [OF this] show ?thesis unfolding texts by (rule arg_cong)
qed

text \<open>
  C22: the data hash covers the data and nothing else. Envelopes with the same reference, the same
  data time and the same objects in any order, in any time zone and with their unknown fields in
  any order have the same data hash, whenever they were captured.
\<close>

theorem data_hash_order:
  assumes "v1_Reference e = v1_Reference e'" "canonicalTime (v1_DataTimestamp e) = canonicalTime (v1_DataTimestamp e')"
    and "mset (map object_content (v1_Objects e)) = mset (map object_content (v1_Objects e'))"
  shows "EnvelopeV1_hash lib e = EnvelopeV1_hash lib e'"
  using assms(1,2) object_texts_perm [OF assms(3)] by (simp add: EnvelopeV1_hash_def payloadV1_eq payload_text_def)

text \<open>
  C23: the data hash binds the data. Two envelopes that validate with the same data hash have the
  same reference, the same data time and the same objects up to their order, or their canonical
  texts are two different inputs with the same SHA-256 digest.
\<close>

theorem data_hash_binds:
  assumes "EnvelopeV1_validate lib e True" "EnvelopeV1_validate lib e' True"
    and "v1_DataHash e \<noteq> []" "v1_DataHash e = v1_DataHash e'"
  shows "v1_Reference e = v1_Reference e' \<and> canonicalTime (v1_DataTimestamp e) = canonicalTime (v1_DataTimestamp e') \<and>
      mset (map object_content (v1_Objects e)) = mset (map object_content (v1_Objects e'))
    \<or> canonicalHashPayloadV1 e \<noteq> canonicalHashPayloadV1 e' \<and>
      sha256 lib (canonicalHashPayloadV1 e) = sha256 lib (canonicalHashPayloadV1 e')"
proof (cases "canonicalHashPayloadV1 e = canonicalHashPayloadV1 e'")
  case True
  have "list_all content_ok (map object_content (sortedObjectsV1 (v1_Objects d)))" "ReferenceV1_Validate (v1_Reference d)"
    if "EnvelopeV1_validate lib d True" for d
    using that content_valid by (auto simp: EnvelopeV1_validate_def list_all_iff sortedObjectsV1_def copyObjectsV1_def split: if_splits)
  with assms(1,2) True have "v1_Reference e = v1_Reference e' \<and> canonicalTime (v1_DataTimestamp e) = canonicalTime (v1_DataTimestamp e') \<and>
      map object_content (sortedObjectsV1 (v1_Objects e)) = map object_content (sortedObjectsV1 (v1_Objects e'))"
    using payload_split by (simp only: payloadV1_eq)
  then show ?thesis using content_mset by metis
next
  case False
  have "v1_DataHash d = ''sha256:'' @ hex_encode (sha256 lib (canonicalHashPayloadV1 d))"
    if "EnvelopeV1_validate lib d True" "v1_DataHash d \<noteq> []" for d
    using that by (simp add: EnvelopeV1_validate_def EnvelopeV1_hash_def split: if_splits)
  with assms have "hex_encode (sha256 lib (canonicalHashPayloadV1 e)) = hex_encode (sha256 lib (canonicalHashPayloadV1 e'))"
    by (metis same_append_eq)
  then show ?thesis using False hex_encode_inj by blast
qed

lemma copy_objects [simp]: "copyObjectsV1 (copyObjectsV1 xs) = copyObjectsV1 xs"
  by (simp add: copyObjectsV1_def copy_objectV1_def)

lemma digest_eq: "validSHA256Digest = validIdentityDigestV1"
  by (simp add: fun_eq_iff validSHA256Digest_def validIdentityDigestV1_def)

lemma timestamp_toUTC: "validateTimestampV1 (toUTC t) = validateTimestampV1 t"
  by (simp add: validateTimestampV1_def toUTC_def IsZero_def)

lemma valid_copies: "list_all ObjectV1_Validate (copyObjectsV1 xs) = list_all ObjectV1_Validate xs"
  by (simp add: copyObjectsV1_def list_all_iff ObjectV1_Validate_def copy_objectV1_def timestamp_toUTC)

lemma hash_sealed: "EnvelopeV1_hash lib (e\<lparr>v1_DataHash := h, v1_Objects := copyObjectsV1 (v1_Objects e)\<rparr>) = EnvelopeV1_hash lib e"
  by (simp add: EnvelopeV1_hash_def canonicalHashPayloadV1_def sortedObjectsV1_def)

lemma sealed_valid:
  assumes "\<And>bs. length (sha256 lib bs) = 32" "EnvelopeV1_validate lib e False"
  shows "EnvelopeV1_validate lib (e\<lparr>v1_DataHash := EnvelopeV1_hash lib e, v1_Objects := copyObjectsV1 (v1_Objects e)\<rparr>) check"
proof -
  have "validSHA256Digest (EnvelopeV1_hash lib e)"
    using digest_text_valid(1) [OF assms(1)] by (simp only: digest_eq EnvelopeV1_hash_def)
  then show ?thesis
    using assms(2) by (auto simp: EnvelopeV1_validate_def hash_sealed valid_copies split: if_splits)
qed

text \<open>
  C24: sealing. \<open>WithDataHash\<close> succeeds exactly on envelopes whose parts validate; what it returns
  carries the hash of the envelope, validates with the hash checked, and sealing it again changes
  nothing.
\<close>

theorem sealed_envelope:
  assumes "\<And>bs. length (sha256 lib bs) = 32"
  shows "(EnvelopeV1_WithDataHash lib e \<noteq> None) = EnvelopeV1_validate lib e False
    \<and> (\<forall>s. EnvelopeV1_WithDataHash lib e = Some s \<longrightarrow>
         EnvelopeV1_validate lib s True \<and> v1_DataHash s = EnvelopeV1_hash lib e \<and> EnvelopeV1_WithDataHash lib s = Some s)"
  by (auto simp: EnvelopeV1_WithDataHash_def EnvelopeV1_ComputeDataHash_def sealed_valid [OF assms] hash_sealed)

subsection \<open>A sample envelope\<close>

definition sample_object :: "char \<Rightarrow> ObjectV1" where
  "sample_object c = (NewObjectV1 ''service'' (''sha256:'' @ replicate 64 c) 7 \<lparr>t_nsec = 63902908800000000000, t_loc = UTC\<rparr>)
     \<lparr>o1_Unknown := [sample_unknown 3]\<rparr>"

definition sample_envelope :: "int \<Rightarrow> ObjectV1 list \<Rightarrow> EnvelopeV1" where
  "sample_envelope t xs = NewEnvelopeV1 (NewReferenceV1 (sample_id IDKindPeer (CHR ''a'')) CaptureProvenanceRuntimeObservation
     ''raw-root'' AuthScopeReadRaw) \<lparr>t_nsec = t, t_loc = UTC\<rparr> \<lparr>t_nsec = 63902908800000000000, t_loc = UTC\<rparr> xs"

abbreviation sample_one :: EnvelopeV1 where
  "sample_one \<equiv> sample_envelope 63902908801000000000 [sample_object (CHR ''1''), sample_object (CHR ''2'')]"
abbreviation sample_two :: EnvelopeV1 where
  "sample_two \<equiv> sample_envelope 63902908802000000000 [sample_object (CHR ''2''), sample_object (CHR ''1'')]"

abbreviation sealed :: "EnvelopeV1 \<Rightarrow> EnvelopeV1" where
  "sealed e \<equiv> e\<lparr>v1_DataHash := EnvelopeV1_hash flat_lib e, v1_Objects := copyObjectsV1 (v1_Objects e)\<rparr>"

lemma sample_envelopes_valid: "EnvelopeV1_validate flat_lib sample_one False" "EnvelopeV1_validate flat_lib sample_two False"
  by code_simp+

lemma sample_contents:
  "v1_Reference sample_one = v1_Reference sample_two" "v1_DataTimestamp sample_one = v1_DataTimestamp sample_two"
  "mset (map object_content (v1_Objects sample_one)) = mset (map object_content (v1_Objects sample_two))"
  by (simp_all add: sample_envelope_def NewEnvelopeV1_def copyObjectsV1_def add_mset_commute)

lemma flat_hash: "EnvelopeV1_hash flat_lib e = ''sha256:'' @ hex_encode (replicate 32 (CHR ''x''))"
  by (simp add: EnvelopeV1_hash_def flat_lib_def)

theorem data_hash_order_witness:
  "EnvelopeV1_hash plain_lib sample_one = EnvelopeV1_hash plain_lib sample_two \<and> v1_CapturedAt sample_one \<noteq> v1_CapturedAt sample_two"
  using data_hash_order [of sample_one sample_two plain_lib] sample_contents
  by (simp add: sample_envelope_def NewEnvelopeV1_def toUTC_def)

theorem data_hash_binds_witness:
  "EnvelopeV1_validate flat_lib (sealed sample_one) True \<and>
   (v1_Reference (sealed sample_one) = v1_Reference (sealed sample_two) \<and>
    canonicalTime (v1_DataTimestamp (sealed sample_one)) = canonicalTime (v1_DataTimestamp (sealed sample_two)) \<and>
    mset (map object_content (v1_Objects (sealed sample_one))) = mset (map object_content (v1_Objects (sealed sample_two)))
    \<or> canonicalHashPayloadV1 (sealed sample_one) \<noteq> canonicalHashPayloadV1 (sealed sample_two) \<and>
      sha256 flat_lib (canonicalHashPayloadV1 (sealed sample_one)) = sha256 flat_lib (canonicalHashPayloadV1 (sealed sample_two)))"
proof -
  have v: "EnvelopeV1_validate flat_lib (sealed sample_one) True" "EnvelopeV1_validate flat_lib (sealed sample_two) True"
    using sealed_valid [OF flat_sha256] sample_envelopes_valid by blast+
  have h: "v1_DataHash (sealed sample_one) \<noteq> []" "v1_DataHash (sealed sample_one) = v1_DataHash (sealed sample_two)"
    by (simp_all add: flat_hash)
  show ?thesis using data_hash_binds [OF v h] v(1) by (rule conjI [rotated])
qed

theorem sealed_envelope_witness:
  "(EnvelopeV1_WithDataHash flat_lib sample_one \<noteq> None) = EnvelopeV1_validate flat_lib sample_one False \<and>
   EnvelopeV1_WithDataHash flat_lib sample_one \<noteq> None"
  using sealed_envelope [OF flat_sha256, of sample_one] sample_envelopes_valid(1) by blast

end
