(* ===== verification/Participation.thy ===== *)
theory Participation
  imports Evidence
begin

text \<open>
  The participation contract, \<^verbatim>\<open>src/participation_contract_v1.go\<close> and
  \<^verbatim>\<open>src/participation_driver_v1.go\<close>: what a driver is asked to take part in (a configuration with
  its bindings), what it reports (a contribution with its observations), and the checks on a change
  of configuration, on a report, and on the use of a binding for control. An error is its text and
  \<open>None\<close> the nil error. A slice whose nil differs from an empty one is an option. The address checks
  are those of \<^verbatim>\<open>src/runtime.go\<close>; \<^verbatim>\<open>netip.Addr\<close> is its four or sixteen bytes, the latter
  with a zone. (Before Go 1.22.5 a mapped multicast address was not multicast; the second error
  follows then.)
\<close>

type_synonym goerror = "string option"

subsection \<open>Addresses\<close>

datatype Addr = AddrInvalid | Addr4 "nat list" | Addr6 "nat list" string

record AddrPort =
  ap_Addr :: Addr
  ap_Port :: nat

definition is_unspecified :: "Addr \<Rightarrow> bool" where
  "is_unspecified a \<longleftrightarrow> a = Addr4 [0, 0, 0, 0] \<or> a = Addr6 (replicate 16 0) []"

definition is_4in6 :: "Addr \<Rightarrow> bool" where
  "is_4in6 a = (case a of Addr6 bs _ \<Rightarrow> take 12 bs = replicate 10 0 @ [255, 255] | _ \<Rightarrow> False)"

definition is_multicast :: "Addr \<Rightarrow> bool" where
  "is_multicast a =
     (case a of
        AddrInvalid \<Rightarrow> False
      | Addr4 bs \<Rightarrow> hd bs div 16 = 14
      | Addr6 bs _ \<Rightarrow> if is_4in6 a then bs ! 12 div 16 = 14 else hd bs = 255)"

definition validateRuntimeListenAddress :: "AddrPort \<Rightarrow> goerror" where
  "validateRuntimeListenAddress endpoint =
     (if ap_Addr endpoint = AddrInvalid then Some ''runtime listen address must be valid''
      else if ap_Port endpoint = 0 then Some ''runtime listen address port must be non-zero''
      else
        (let address = ap_Addr endpoint in
         if is_unspecified address \<or> is_multicast address then Some ''runtime listen address must be specified unicast''
         else if is_4in6 address then Some ''runtime listen address must not be IPv4-mapped IPv6''
         else (case address of
                 Addr4 octets \<Rightarrow>
                   if hd octets = 0 \<or> octets = [255, 255, 255, 255]
                   then Some ''runtime listen address must not be wildcard or broadcast'' else None
               | _ \<Rightarrow> None)))"

definition runtimeWildcard :: "string \<Rightarrow> bool" where
  "runtimeWildcard value \<longleftrightarrow> List.member [[], ''*'', ''0.0.0.0'', ''::'', ''[::]''] (trim_space value)"

subsection \<open>Configurations\<close>

definition ParticipationContractV1 :: string where
  "ParticipationContractV1 = ''helianthus.eebus.participation.v1''"

definition ParticipationDirectionV1Send :: string where "ParticipationDirectionV1Send = ''send''"
definition ParticipationDirectionV1Receive :: string where "ParticipationDirectionV1Receive = ''receive''"
definition ParticipationPermissionV1Observe :: string where "ParticipationPermissionV1Observe = ''observe''"
definition ParticipationPermissionV1Control :: string where "ParticipationPermissionV1Control = ''control''"

definition ParticipationStateV1Configured :: string where "ParticipationStateV1Configured = ''configured''"
definition ParticipationStateV1Offline :: string where "ParticipationStateV1Offline = ''offline''"
definition ParticipationStateV1Incompatible :: string where "ParticipationStateV1Incompatible = ''incompatible''"
definition ParticipationStateV1Active :: string where "ParticipationStateV1Active = ''active''"
definition ParticipationStateV1Error :: string where "ParticipationStateV1Error = ''error''"

lemmas participation_names = ParticipationDirectionV1Send_def ParticipationDirectionV1Receive_def
  ParticipationPermissionV1Observe_def ParticipationPermissionV1Control_def ParticipationStateV1Configured_def
  ParticipationStateV1Offline_def ParticipationStateV1Incompatible_def ParticipationStateV1Active_def
  ParticipationStateV1Error_def

record ParticipationListenerV1 =
  pl_Interface :: string
  pl_Address :: AddrPort

record ParticipationBindingV1 =
  pb_ID :: string
  pb_PeerParticipant :: string
  pb_LocalCapability :: string
  pb_PeerCapability :: string
  pb_Selection :: string
  pb_Direction :: string
  pb_Permissions :: "string list"

record ParticipationConfigurationV1 =
  pc_Contract :: string
  pc_Revision :: uint64
  pc_LocalParticipant :: string
  pc_Enabled :: bool
  pc_Listener :: ParticipationListenerV1
  pc_DiscoveryEnabled :: bool
  pc_Bindings :: "ParticipationBindingV1 list"

definition listener_zero :: ParticipationListenerV1 where
  "listener_zero = \<lparr>pl_Interface = [], pl_Address = \<lparr>ap_Addr = AddrInvalid, ap_Port = 0\<rparr>\<rparr>"

text \<open>The regular expressions, which match the whole text.\<close>

definition is_alnum :: "char \<Rightarrow> bool" where
  "is_alnum c \<longleftrightarrow> is_upper c \<or> is_lower c \<or> is_digit c"

definition participationIDV1 :: "string \<Rightarrow> bool" where
  "participationIDV1 s \<longleftrightarrow> length s = 32 \<and> list_all is_hex_lower s"

definition participationInterfaceV1 :: "string \<Rightarrow> bool" where
  "participationInterfaceV1 s \<longleftrightarrow> 1 \<le> length s \<and> length s \<le> 64 \<and> list_all (\<lambda>c. is_alnum c \<or> List.member ''_.:-'' c) s"

definition participationVersionV1 :: "string \<Rightarrow> bool" where
  "participationVersionV1 s \<longleftrightarrow> s \<noteq> [] \<and> is_alnum (hd s) \<and> length (tl s) \<le> 63 \<and>
     list_all (\<lambda>c. is_alnum c \<or> List.member ''._-'' c) (tl s)"

text \<open>One or more segments, each a slash and at least one name character.\<close>

fun path_rest :: "bool \<Rightarrow> string \<Rightarrow> bool" where
  "path_rest named [] = named"
| "path_rest named (c # cs) =
     (if c = CHR ''/'' then named \<and> path_rest False cs
      else (is_alnum c \<or> List.member ''_-'' c) \<and> path_rest True cs)"

definition participationPathV1 :: "string \<Rightarrow> bool" where
  "participationPathV1 s = (case s of [] \<Rightarrow> False | c # cs \<Rightarrow> c = CHR ''/'' \<and> path_rest False cs)"

fun permissions_loop :: "string list \<Rightarrow> string list \<Rightarrow> bool" where
  "permissions_loop seen [] = True"
| "permissions_loop seen (p # ps) =
     (if (p \<noteq> ParticipationPermissionV1Observe \<and> p \<noteq> ParticipationPermissionV1Control) \<or> List.member seen p then False
      else permissions_loop (p # seen) ps)"

definition participationPermissionsValidV1 :: "string list \<Rightarrow> bool" where
  "participationPermissionsValidV1 permissions =
     (if 2 < length permissions then False else permissions_loop [] permissions)"

fun bindings_loop :: "string \<Rightarrow> string list \<Rightarrow> ParticipationBindingV1 list \<Rightarrow> goerror" where
  "bindings_loop lcl seen [] = None"
| "bindings_loop lcl seen (b # bs) =
     (if \<not> list_all participationIDV1 [pb_ID b, pb_PeerParticipant b, pb_LocalCapability b, pb_PeerCapability b, pb_Selection b]
      then Some ''participation binding reference is invalid''
      else if List.member seen (pb_ID b) \<or> pb_PeerParticipant b = lcl then Some ''participation binding identity is invalid''
      else if pb_Direction b \<noteq> ParticipationDirectionV1Send \<and> pb_Direction b \<noteq> ParticipationDirectionV1Receive
      then Some ''participation binding direction is invalid''
      else if pb_Permissions b = [] \<or> \<not> participationPermissionsValidV1 (pb_Permissions b)
      then Some ''participation binding permissions are invalid''
      else bindings_loop lcl (pb_ID b # seen) bs)"

definition ParticipationConfigurationV1_Validate :: "ParticipationConfigurationV1 \<Rightarrow> goerror" where
  "ParticipationConfigurationV1_Validate configuration =
     (if pc_Contract configuration \<noteq> ParticipationContractV1 \<or> pc_Revision configuration = 0
      then Some ''participation contract or revision is invalid''
      else if \<not> participationIDV1 (pc_LocalParticipant configuration) then Some ''local participant reference is invalid''
      else
        (let listener = pc_Listener configuration; check = (pc_Enabled configuration \<or> listener \<noteq> listener_zero) in
         if check \<and> (pl_Interface listener \<noteq> trim_space (pl_Interface listener) \<or>
              \<not> participationInterfaceV1 (pl_Interface listener) \<or> runtimeWildcard (pl_Interface listener))
         then Some ''participation listener interface is invalid''
         else if check \<and> validateRuntimeListenAddress (pl_Address listener) \<noteq> None
         then Some ''participation listener address is invalid''
         else if 256 < length (pc_Bindings configuration) then Some ''participation binding limit exceeded''
         else bindings_loop (pc_LocalParticipant configuration) [] (pc_Bindings configuration)))"

definition participationBindingSameTargetV1 :: "ParticipationBindingV1 \<Rightarrow> ParticipationBindingV1 \<Rightarrow> bool" where
  "participationBindingSameTargetV1 l r \<longleftrightarrow>
     pb_ID l = pb_ID r \<and> pb_PeerParticipant l = pb_PeerParticipant r \<and> pb_LocalCapability l = pb_LocalCapability r \<and>
     pb_PeerCapability l = pb_PeerCapability r \<and> pb_Selection l = pb_Selection r \<and> pb_Direction l = pb_Direction r"

text \<open>The map from identities to bindings the checks build.\<close>

definition binding_map :: "ParticipationBindingV1 list \<Rightarrow> (string, ParticipationBindingV1) gomap" where
  "binding_map bs = fold (\<lambda>b m. go_put (pb_ID b) b m) bs []"

definition ValidateParticipationChangeV1 :: "ParticipationConfigurationV1 \<Rightarrow> ParticipationConfigurationV1 \<Rightarrow> goerror" where
  "ValidateParticipationChangeV1 previous nxt =
     (if ParticipationConfigurationV1_Validate previous \<noteq> None then ParticipationConfigurationV1_Validate previous
      else if ParticipationConfigurationV1_Validate nxt \<noteq> None then ParticipationConfigurationV1_Validate nxt
      else if pc_Revision previous = - 1 \<or> pc_Revision nxt \<noteq> pc_Revision previous + 1
      then Some ''participation configuration revision conflict''
      else if pc_LocalParticipant nxt \<noteq> pc_LocalParticipant previous
      then Some ''participation local identity replacement requires separate reset''
      else
        (let old = binding_map (pc_Bindings previous) in
         if list_all (\<lambda>b. case go_lookup old (pb_ID b) of None \<Rightarrow> True | Some prior \<Rightarrow> participationBindingSameTargetV1 prior b)
              (pc_Bindings nxt)
         then None else Some ''participation binding replacement requires a new identity''))"

definition binding_equal :: "(string, ParticipationBindingV1) gomap \<Rightarrow> ParticipationBindingV1 \<Rightarrow> bool" where
  "binding_equal bindings b =
     (case go_lookup bindings (pb_ID b) of
        None \<Rightarrow> False
      | Some other \<Rightarrow>
          if \<not> participationBindingSameTargetV1 b other \<or> length (pb_Permissions b) \<noteq> length (pb_Permissions other) then False
          else list_all (\<lambda>p. List.member (pb_Permissions other) p) (pb_Permissions b))"

definition participationConfigurationsEqualV1 :: "ParticipationConfigurationV1 \<Rightarrow> ParticipationConfigurationV1 \<Rightarrow> bool" where
  "participationConfigurationsEqualV1 l r =
     (if pc_Contract l \<noteq> pc_Contract r \<or> pc_Revision l \<noteq> pc_Revision r \<or> pc_LocalParticipant l \<noteq> pc_LocalParticipant r \<or>
         pc_Enabled l \<noteq> pc_Enabled r \<or> pc_Listener l \<noteq> pc_Listener r \<or> pc_DiscoveryEnabled l \<noteq> pc_DiscoveryEnabled r \<or>
         length (pc_Bindings l) \<noteq> length (pc_Bindings r) then False
      else list_all (binding_equal (binding_map (pc_Bindings r))) (pc_Bindings l))"

subsection \<open>Contributions\<close>

record ParticipationProvenanceV1 =
  pp_Native :: "EnvelopeV1 option"
  pp_TransportVersion :: "string option"
  pp_DataModelVersion :: "string option"

record ParticipationLossV1 =
  ls_NativePath :: string
  ls_Code :: string
  ls_ControlSafe :: bool

record ParticipationBindingObservationV1 =
  bo_ID :: string
  bo_ConfigurationRevision :: uint64
  bo_State :: string
  bo_PeerOnline :: bool
  bo_Trusted :: bool
  bo_Compatibility :: string
  bo_Admission :: string
  bo_Negotiated :: bool
  bo_Granted :: "string list"
  bo_ControlOutcome :: string
  bo_Failure :: string
  bo_Provenance :: ParticipationProvenanceV1
  bo_Losses :: "ParticipationLossV1 list option"

record ParticipationContributionV1 =
  cb_Configuration :: ParticipationConfigurationV1
  cb_AppliedConfiguration :: "ParticipationConfigurationV1 option"
  cb_AppliedRevision :: uint64
  cb_ObservedAt :: gotime
  cb_ListenerState :: string
  cb_Bindings :: "ParticipationBindingObservationV1 list"

definition participationStateValidV1 :: "string \<Rightarrow> bool" where
  "participationStateValidV1 state \<longleftrightarrow> List.member [ParticipationStateV1Configured, ParticipationStateV1Offline,
     ParticipationStateV1Incompatible, ParticipationStateV1Active, ParticipationStateV1Error] state"

definition participationFailureValidV1 :: "string \<Rightarrow> bool" where
  "participationFailureValidV1 failure \<longleftrightarrow>
     List.member [''none'', ''authorization'', ''negotiation'', ''listener'', ''persistence'', ''recovery''] failure"

definition compatibility_valid :: "string \<Rightarrow> bool" where
  "compatibility_valid c \<longleftrightarrow> List.member [''unknown'', ''compatible'', ''incompatible''] c"

definition admission_valid :: "string \<Rightarrow> bool" where
  "admission_valid a \<longleftrightarrow> List.member [''unknown'', ''candidate'', ''qualified'', ''promoted'', ''unsupported''] a"

definition outcome_valid :: "string \<Rightarrow> bool" where
  "outcome_valid x \<longleftrightarrow> List.member [''not_requested'', ''rejected'', ''accepted'', ''outcome_unknown''] x"

record ParticipationApplyResultV1 =
  pr_StateRevision :: uint64
  pr_AppliedRevision :: uint64
  pr_State :: string
  pr_Failure :: string

definition ParticipationApplyResultV1_Validate :: "ParticipationApplyResultV1 \<Rightarrow> goerror" where
  "ParticipationApplyResultV1_Validate result =
     (if pr_StateRevision result = 0 \<or> \<not> participationStateValidV1 (pr_State result) \<or>
         \<not> participationFailureValidV1 (pr_Failure result) then Some ''participation apply result is invalid''
      else if (pr_Failure result \<noteq> ''none'') \<noteq> (pr_State result = ParticipationStateV1Error)
      then Some ''participation apply failure must have an error state''
      else if pr_State result = ParticipationStateV1Active \<and> pr_AppliedRevision result = 0
      then Some ''participation active apply result requires an applied revision''
      else None)"

text \<open>The loop over the losses: the error and whether an unknown loss was seen.\<close>

fun losses_loop :: "bool \<Rightarrow> ParticipationLossV1 list \<Rightarrow> string + bool" where
  "losses_loop unknownLoss [] = Inr unknownLoss"
| "losses_loop unknownLoss (l # ls) =
     (if 256 < length (ls_NativePath l) \<or> \<not> participationPathV1 (ls_NativePath l)
      then Inl ''participation native loss path is invalid''
      else if ls_Code l = ''omitted'' \<or> ls_Code l = ''transformed'' then losses_loop unknownLoss ls
      else if ls_Code l = ''unknown'' then losses_loop True ls
      else Inl ''participation loss code is invalid'')"

definition losses_of :: "ParticipationBindingObservationV1 \<Rightarrow> ParticipationLossV1 list" where
  "losses_of x = (case bo_Losses x of None \<Rightarrow> [] | Some ls \<Rightarrow> ls)"

text \<open>The last part of an observation's check: an active binding is established and has its evidence.\<close>

definition active_check :: "ParticipationContributionV1 \<Rightarrow> bool \<Rightarrow> bool \<Rightarrow> ParticipationBindingObservationV1 \<Rightarrow> goerror" where
  "active_check c isApplied unknownLoss x =
     (if bo_State x = ParticipationStateV1Active then
        (if bo_Granted x = [] \<or> \<not> isApplied \<or> \<not> ptr_holds pc_Enabled (cb_AppliedConfiguration c) \<or>
            cb_ListenerState c \<noteq> ParticipationStateV1Active \<or> \<not> bo_PeerOnline x \<or> \<not> bo_Trusted x \<or>
            bo_Compatibility x \<noteq> ''compatible'' \<or> bo_Admission x \<noteq> ''promoted'' \<or> \<not> bo_Negotiated x
         then Some ''participation active state lacks established operation''
         else if nilp (pp_Native (bo_Provenance x)) \<or> ptr_holds (\<lambda>e. v1_DataHash e = []) (pp_Native (bo_Provenance x)) \<or>
            nilp (pp_TransportVersion (bo_Provenance x)) \<or> nilp (pp_DataModelVersion (bo_Provenance x)) \<or>
            nilp (bo_Losses x) \<or> unknownLoss
         then Some ''participation active state lacks native provenance or explicit loss assessment''
         else None)
      else None)"

definition provenance_check :: "golib \<Rightarrow> ParticipationContributionV1 \<Rightarrow> bool \<Rightarrow> ParticipationBindingObservationV1 \<Rightarrow> goerror" where
  "provenance_check lib c isApplied x =
     (if ptr_holds (\<lambda>e. 256 < length (v1_Objects e)) (pp_Native (bo_Provenance x))
      then Some ''participation native evidence object limit exceeded''
      else if ptr_holds (\<lambda>e. \<not> EnvelopeV1_validate lib e True) (pp_Native (bo_Provenance x))
      then Some ''participation native provenance is invalid''
      else if list_ex (ptr_holds (\<lambda>v. \<not> participationVersionV1 v))
          [pp_TransportVersion (bo_Provenance x), pp_DataModelVersion (bo_Provenance x)]
      then Some ''participation native version is invalid''
      else if 256 < length (losses_of x) then Some ''participation loss limit exceeded''
      else (case losses_loop False (losses_of x) of
              Inl e \<Rightarrow> Some e
            | Inr unknownLoss \<Rightarrow> active_check c isApplied unknownLoss x))"

definition observation_check ::
  "golib \<Rightarrow> ParticipationContributionV1 \<Rightarrow> ParticipationBindingV1 option \<Rightarrow> string list \<Rightarrow>
   ParticipationBindingObservationV1 \<Rightarrow> goerror" where
  "observation_check lib c operated permissions x =
     (let isApplied = (\<not> nilp operated); failed = (bo_Failure x \<noteq> ''none'') in
      if \<not> participationStateValidV1 (bo_State x) \<or> \<not> participationPermissionsValidV1 (bo_Granted x)
      then Some ''participation observation state or grant is invalid''
      else if \<not> isApplied \<and> (bo_Granted x \<noteq> [] \<or> bo_Negotiated x \<or> bo_State x = ParticipationStateV1Active)
      then Some ''participation unapplied binding cannot have operating authority''
      else if \<not> list_all (List.member permissions) (bo_Granted x)
      then Some ''participation grant exceeds observation configuration permission''
      else if \<not> compatibility_valid (bo_Compatibility x) then Some ''participation compatibility is invalid''
      else if \<not> admission_valid (bo_Admission x) then Some ''participation admission is invalid''
      else if \<not> outcome_valid (bo_ControlOutcome x) then Some ''participation control outcome is invalid''
      else if \<not> participationFailureValidV1 (bo_Failure x) then Some ''participation failure is invalid''
      else if failed \<noteq> (bo_State x = ParticipationStateV1Error)
      then Some ''participation failure must have an error state''
      else if (bo_ControlOutcome x = ''rejected'' \<or> bo_ControlOutcome x = ''outcome_unknown'') \<and> \<not> failed
      then Some ''participation rejected or uncertain control requires an error state''
      else if bo_State x = ParticipationStateV1Offline \<and> bo_PeerOnline x
      then Some ''participation offline state contradicts peer observation''
      else if bo_State x = ParticipationStateV1Incompatible \<and> bo_Compatibility x \<noteq> ''incompatible''
      then Some ''participation incompatible state contradicts capability observation''
      else provenance_check lib c isApplied x)"

text \<open>
  The loop over the observations. A binding that is not applied is looked up in the saved
  configuration; the zero binding, with no permissions, stands for one that is in neither.
\<close>

fun observations_loop ::
  "golib \<Rightarrow> ParticipationContributionV1 \<Rightarrow> (string, ParticipationBindingV1) gomap \<Rightarrow> (string, ParticipationBindingV1) gomap \<Rightarrow>
   string list \<Rightarrow> string list \<Rightarrow> ParticipationBindingObservationV1 list \<Rightarrow> goerror" where
  "observations_loop lib c configured operating expected seen [] = None"
| "observations_loop lib c configured operating expected seen (x # xs) =
     (let operated = go_lookup operating (bo_ID x);
          revision = (case operated of None \<Rightarrow> pc_Revision (cb_Configuration c) | Some _ \<Rightarrow> cb_AppliedRevision c);
          permissions = (case operated of
              Some b \<Rightarrow> pb_Permissions b
            | None \<Rightarrow> (case go_lookup configured (bo_ID x) of None \<Rightarrow> [] | Some b \<Rightarrow> pb_Permissions b)) in
      if \<not> List.member expected (bo_ID x) \<or> List.member seen (bo_ID x) \<or> bo_ConfigurationRevision x \<noteq> revision
      then Some ''participation observation identity or revision is invalid''
      else (case observation_check lib c operated permissions x of
              Some e \<Rightarrow> Some e
            | None \<Rightarrow> observations_loop lib c configured operating expected (bo_ID x # seen) xs))"

definition applied_check :: "ParticipationContributionV1 \<Rightarrow> (string, ParticipationBindingV1) gomap \<Rightarrow> goerror" where
  "applied_check c configured =
     (case cb_AppliedConfiguration c of
        None \<Rightarrow> if cb_AppliedRevision c \<noteq> 0 then Some ''participation applied configuration is missing'' else None
      | Some applied \<Rightarrow>
          if ParticipationConfigurationV1_Validate applied \<noteq> None then ParticipationConfigurationV1_Validate applied
          else if pc_Revision applied \<noteq> cb_AppliedRevision c \<or> pc_LocalParticipant applied \<noteq> pc_LocalParticipant (cb_Configuration c)
          then Some ''participation applied revision or local identity is invalid''
          else if pc_Revision applied = pc_Revision (cb_Configuration c) \<and>
              \<not> participationConfigurationsEqualV1 applied (cb_Configuration c)
          then Some ''participation same revision has different configurations''
          else if list_all (\<lambda>b. case go_lookup configured (pb_ID b) of
              None \<Rightarrow> True | Some saved \<Rightarrow> participationBindingSameTargetV1 saved b) (pc_Bindings applied)
          then None else Some ''participation saved and applied binding identities differ'')"

definition ParticipationContributionV1_Validate :: "golib \<Rightarrow> ParticipationContributionV1 \<Rightarrow> goerror" where
  "ParticipationContributionV1_Validate lib c =
     (let configuration = cb_Configuration c; configured = binding_map (pc_Bindings configuration);
          operating = (case cb_AppliedConfiguration c of None \<Rightarrow> [] | Some a \<Rightarrow> binding_map (pc_Bindings a));
          expected = remdups (map fst configured @ map fst operating) in
      if ParticipationConfigurationV1_Validate configuration \<noteq> None then ParticipationConfigurationV1_Validate configuration
      else if IsZero (cb_ObservedAt c) \<or> pc_Revision configuration < cb_AppliedRevision c
      then Some ''participation observation revision or timestamp is invalid''
      else if \<not> participationStateValidV1 (cb_ListenerState c) \<or> cb_ListenerState c = ParticipationStateV1Incompatible
      then Some ''participation listener state is invalid''
      else if applied_check c configured \<noteq> None then applied_check c configured
      else if cb_ListenerState c = ParticipationStateV1Active \<and> \<not> ptr_holds pc_Enabled (cb_AppliedConfiguration c)
      then Some ''participation listener lacks an enabled applied configuration''
      else if length (cb_Bindings c) \<noteq> length expected
      then Some ''participation observations must preserve every saved and applied binding''
      else observations_loop lib c configured operating expected [] (cb_Bindings c))"

definition control_ready :: "string \<Rightarrow> ParticipationBindingObservationV1 \<Rightarrow> bool" where
  "control_ready bindingID x \<longleftrightarrow>
     bo_ID x = bindingID \<and> bo_State x = ParticipationStateV1Active \<and> List.member (bo_Granted x) ParticipationPermissionV1Control"

definition ValidateParticipationControlV1 :: "golib \<Rightarrow> ParticipationContributionV1 \<Rightarrow> string \<Rightarrow> goerror" where
  "ValidateParticipationControlV1 lib c bindingID =
     (if ParticipationContributionV1_Validate lib c \<noteq> None then ParticipationContributionV1_Validate lib c
      else if \<not> pc_Enabled (cb_Configuration c) then Some ''participation control is unavailable''
      else if \<not> list_ex (\<lambda>b. pb_ID b = bindingID \<and> List.member (pb_Permissions b) ParticipationPermissionV1Control)
          (pc_Bindings (cb_Configuration c)) then Some ''participation control is unavailable''
      else (case find (control_ready bindingID) (cb_Bindings c) of
              None \<Rightarrow> Some ''participation control is unavailable''
            | Some x \<Rightarrow>
                if list_ex (\<lambda>l. \<not> ls_ControlSafe l) (losses_of x) then Some ''participation control loss is not qualified''
                else None))"

subsection \<open>What a valid configuration is\<close>

lemma permissions_loop_iff:
  "permissions_loop seen ps \<longleftrightarrow>
     set ps \<subseteq> {ParticipationPermissionV1Observe, ParticipationPermissionV1Control} \<and> distinct ps \<and> set ps \<inter> set seen = {}"
  by (induction ps arbitrary: seen) auto

lemma permissions_distinct: "participationPermissionsValidV1 ps \<Longrightarrow> distinct ps"
  by (auto simp: participationPermissionsValidV1_def permissions_loop_iff split: if_splits)

definition binding_valid :: "string \<Rightarrow> ParticipationBindingV1 \<Rightarrow> bool" where
  "binding_valid lcl b \<longleftrightarrow>
     list_all participationIDV1 [pb_ID b, pb_PeerParticipant b, pb_LocalCapability b, pb_PeerCapability b, pb_Selection b] \<and>
     pb_PeerParticipant b \<noteq> lcl \<and> (pb_Direction b = ParticipationDirectionV1Send \<or> pb_Direction b = ParticipationDirectionV1Receive) \<and>
     pb_Permissions b \<noteq> [] \<and> participationPermissionsValidV1 (pb_Permissions b)"

lemma bindings_loop_iff:
  "bindings_loop lcl seen bs = None \<longleftrightarrow>
     list_all (binding_valid lcl) bs \<and> distinct (map pb_ID bs) \<and> set (map pb_ID bs) \<inter> set seen = {}"
  by (induction bs arbitrary: seen) (auto simp: binding_valid_def)

lemma valid_bindings:
  assumes "ParticipationConfigurationV1_Validate c = None"
  shows "list_all (binding_valid (pc_LocalParticipant c)) (pc_Bindings c)" "distinct (map pb_ID (pc_Bindings c))"
  using assms by (auto simp: ParticipationConfigurationV1_Validate_def Let_def bindings_loop_iff split: if_splits)

lemma binding_map_fold:
  "go_lookup (fold (\<lambda>b m. go_put (pb_ID b) b m) bs m) k =
     (if k \<in> pb_ID ` set bs then Some (last (filter (\<lambda>b. pb_ID b = k) bs)) else go_lookup m k)"
  by (induction bs arbitrary: m) (auto simp: filter_empty_conv)

lemma distinct_filter_key: "distinct (map f xs) \<Longrightarrow> x \<in> set xs \<Longrightarrow> filter (\<lambda>y. f y = f x) xs = [x]"
proof (induction xs)
  case (Cons a xs)
  then show ?case by (cases "a = x") (auto simp: filter_empty_conv image_iff)
qed simp

lemma binding_map_lookup:
  assumes "distinct (map pb_ID bs)"
  shows "go_lookup (binding_map bs) k = Some b \<longleftrightarrow> b \<in> set bs \<and> pb_ID b = k"
proof -
  have "go_lookup (binding_map bs) k = (if k \<in> pb_ID ` set bs then Some (last (filter (\<lambda>b. pb_ID b = k) bs)) else None)"
    by (simp add: binding_map_def binding_map_fold)
  then show ?thesis
    using distinct_filter_key [OF assms] assms by (auto simp: distinct_map inj_on_def split: if_splits)
qed

lemma binding_map_none:
  assumes "distinct (map pb_ID bs)"
  shows "go_lookup (binding_map bs) k = None \<longleftrightarrow> k \<notin> pb_ID ` set bs"
  by (auto simp: binding_map_def binding_map_fold)

subsection \<open>Equality of configurations\<close>

text \<open>A binding up to the order of its permissions.\<close>

definition binding_norm :: "ParticipationBindingV1 \<Rightarrow> ParticipationBindingV1 \<times> string set" where
  "binding_norm b = (b\<lparr>pb_Permissions := []\<rparr>, set (pb_Permissions b))"

lemma same_target_norm:
  assumes "distinct (pb_Permissions b)" "distinct (pb_Permissions c)"
  shows "binding_norm b = binding_norm c \<longleftrightarrow> participationBindingSameTargetV1 b c \<and>
     length (pb_Permissions b) = length (pb_Permissions c) \<and> set (pb_Permissions b) \<subseteq> set (pb_Permissions c)"
proof -
  have "b\<lparr>pb_Permissions := []\<rparr> = c\<lparr>pb_Permissions := []\<rparr> \<longleftrightarrow> participationBindingSameTargetV1 b c"
    by (cases b; cases c) (auto simp: participationBindingSameTargetV1_def)
  moreover have "set (pb_Permissions b) = set (pb_Permissions c) \<longleftrightarrow>
      length (pb_Permissions b) = length (pb_Permissions c) \<and> set (pb_Permissions b) \<subseteq> set (pb_Permissions c)"
    by (metis assms card_subset_eq distinct_card finite_set order_refl)
  ultimately show ?thesis by (simp add: binding_norm_def)
qed

lemma norm_id: "binding_norm b = binding_norm c \<Longrightarrow> pb_ID b = pb_ID c"
  by (cases b; cases c) (simp add: binding_norm_def)

lemma binding_equal_iff:
  assumes "ParticipationConfigurationV1_Validate r = None" "distinct (pb_Permissions b)"
  shows "binding_equal (binding_map (pc_Bindings r)) b \<longleftrightarrow> binding_norm b \<in> binding_norm ` set (pc_Bindings r)"
proof -
  have d: "distinct (map pb_ID (pc_Bindings r))" and p: "\<And>c. c \<in> set (pc_Bindings r) \<Longrightarrow> distinct (pb_Permissions c)"
    using valid_bindings [OF assms(1)] by (auto simp: list_all_iff binding_valid_def permissions_distinct)
  show ?thesis
  proof (cases "go_lookup (binding_map (pc_Bindings r)) (pb_ID b)")
    case None
    then have "pb_ID b \<notin> pb_ID ` set (pc_Bindings r)" by (simp add: binding_map_none [OF d])
    with None show ?thesis by (auto simp: binding_equal_def dest: norm_id)
  next
    case (Some c)
    then have c: "c \<in> set (pc_Bindings r)" "pb_ID c = pb_ID b" by (simp_all add: binding_map_lookup [OF d])
    have "binding_equal (binding_map (pc_Bindings r)) b \<longleftrightarrow> binding_norm b = binding_norm c"
      using Some by (auto simp: binding_equal_def same_target_norm [OF assms(2) p [OF c(1)]] list_all_iff)
    moreover have "c' = c" if "c' \<in> set (pc_Bindings r)" "binding_norm b = binding_norm c'" for c'
      using that c d norm_id [OF that(2)] by (auto simp: distinct_map inj_on_def)
    ultimately show ?thesis using c(1) by blast
  qed
qed

text \<open>
  C25: \<open>participationConfigurationsEqualV1\<close> decides equality up to order. On valid configurations it
  holds exactly when every other field is the same and the two lists hold the same bindings, each
  with the same permissions, in any order.
\<close>

theorem configurations_equal_iff:
  assumes "ParticipationConfigurationV1_Validate l = None" "ParticipationConfigurationV1_Validate r = None"
  shows "participationConfigurationsEqualV1 l r \<longleftrightarrow>
    l\<lparr>pc_Bindings := []\<rparr> = r\<lparr>pc_Bindings := []\<rparr> \<and>
    mset (map binding_norm (pc_Bindings l)) = mset (map binding_norm (pc_Bindings r))"
proof -
  have d: "distinct (map binding_norm (pc_Bindings c))" if "ParticipationConfigurationV1_Validate c = None" for c
  proof -
    have "inj_on binding_norm (set (pc_Bindings c))"
      using valid_bindings(2) [OF that] by (intro distinct_inj_on [where k = pb_ID]) (auto dest: norm_id)
    then show ?thesis using valid_bindings(2) [OF that] by (simp add: distinct_map)
  qed
  have sub: "list_all (binding_equal (binding_map (pc_Bindings r))) (pc_Bindings l) \<longleftrightarrow>
      binding_norm ` set (pc_Bindings l) \<subseteq> binding_norm ` set (pc_Bindings r)"
    using valid_bindings(1) [OF assms(1)] binding_equal_iff [OF assms(2)]
    by (auto simp: list_all_iff binding_valid_def permissions_distinct)
  have "length (pc_Bindings l) = length (pc_Bindings r) \<and> binding_norm ` set (pc_Bindings l) \<subseteq> binding_norm ` set (pc_Bindings r)
      \<longleftrightarrow> mset (map binding_norm (pc_Bindings l)) = mset (map binding_norm (pc_Bindings r))"
    using d [OF assms(1)] d [OF assms(2)]
    by (metis (no_types, lifting) card_subset_eq distinct_card finite_set length_map mset_eq_length order_refl
        set_eq_iff_mset_eq_distinct set_map mset_eq_setD)
  with sub show ?thesis
    by (cases l; cases r) (auto simp: participationConfigurationsEqualV1_def)
qed

subsection \<open>Histories of configurations\<close>

fun accepted_chain :: "ParticipationConfigurationV1 \<Rightarrow> ParticipationConfigurationV1 list \<Rightarrow> bool" where
  "accepted_chain c [] = True"
| "accepted_chain c (d # ds) = (ValidateParticipationChangeV1 c d = None \<and> accepted_chain d ds)"

lemma change_step:
  assumes "ValidateParticipationChangeV1 c d = None"
  shows "unat (pc_Revision d) = Suc (unat (pc_Revision c))" "pc_LocalParticipant d = pc_LocalParticipant c"
    "b \<in> set (pc_Bindings c) \<Longrightarrow> b' \<in> set (pc_Bindings d) \<Longrightarrow> pb_ID b = pb_ID b' \<Longrightarrow> participationBindingSameTargetV1 b b'"
proof -
  have v: "ParticipationConfigurationV1_Validate c = None" "pc_Revision c \<noteq> - 1" "pc_Revision d = pc_Revision c + 1"
    "pc_LocalParticipant d = pc_LocalParticipant c"
    and all: "list_all (\<lambda>b. case go_lookup (binding_map (pc_Bindings c)) (pb_ID b) of None \<Rightarrow> True
      | Some prior \<Rightarrow> participationBindingSameTargetV1 prior b) (pc_Bindings d)"
    using assms by (auto simp: ValidateParticipationChangeV1_def Let_def split: if_splits)
  show "unat (pc_Revision d) = Suc (unat (pc_Revision c))" using v by (simp add: word_succ_gt)
  show "pc_LocalParticipant d = pc_LocalParticipant c" by (rule v(4))
  assume b: "b \<in> set (pc_Bindings c)" "b' \<in> set (pc_Bindings d)" "pb_ID b = pb_ID b'"
  then have "go_lookup (binding_map (pc_Bindings c)) (pb_ID b') = Some b"
    by (simp add: binding_map_lookup [OF valid_bindings(2) [OF v(1)]])
  with all b(2) show "participationBindingSameTargetV1 b b'" by (auto simp: list_all_iff)
qed

lemma same_target_trans:
  "participationBindingSameTargetV1 a b \<Longrightarrow> participationBindingSameTargetV1 b c \<Longrightarrow> participationBindingSameTargetV1 a c"
  by (simp add: participationBindingSameTargetV1_def)

lemma chain_target:
  assumes "accepted_chain c ds" "\<forall>d\<in>set ds. bid \<in> pb_ID ` set (pc_Bindings d)" "ds \<noteq> []"
    and "b \<in> set (pc_Bindings c)" "b' \<in> set (pc_Bindings (last ds))" "pb_ID b = bid" "pb_ID b' = bid"
  shows "participationBindingSameTargetV1 b b'"
  using assms
proof (induction ds arbitrary: c b)
  case (Cons d ds)
  then obtain m where m: "m \<in> set (pc_Bindings d)" "pb_ID m = bid" by auto
  have "participationBindingSameTargetV1 b m"
    using Cons.prems m by (intro change_step(3) [of c d]) auto
  moreover have "participationBindingSameTargetV1 m b'" if "ds \<noteq> []"
    using Cons.prems m that by (intro Cons.IH [of d m]) auto
  moreover have "participationBindingSameTargetV1 b b'" if "ds = []"
    using Cons.prems that by (intro change_step(3) [of c d]) auto
  ultimately show ?case using same_target_trans by blast
qed simp

text \<open>
  C26: histories. Along accepted changes the revision grows by exactly one a step, so the number of
  changes is read off it and no revision is ever used twice; the local participant never changes;
  and a binding that is configured at every step keeps its peer, capabilities, selection and
  direction from the first to the last. (An identity that was dropped on the way is free again.)
\<close>

theorem participation_history:
  assumes "accepted_chain c ds"
  shows "unat (pc_Revision (last (c # ds))) = unat (pc_Revision c) + length ds
    \<and> pc_LocalParticipant (last (c # ds)) = pc_LocalParticipant c
    \<and> distinct (map pc_Revision (c # ds))
    \<and> (\<forall>b\<in>set (pc_Bindings c). \<forall>b'\<in>set (pc_Bindings (last ds)).
         ds \<noteq> [] \<and> pb_ID b = pb_ID b' \<and> (\<forall>d\<in>set ds. pb_ID b \<in> pb_ID ` set (pc_Bindings d)) \<longrightarrow>
         participationBindingSameTargetV1 b b')"
proof -
  have "unat (pc_Revision (last (c # ds))) = unat (pc_Revision c) + length ds
      \<and> pc_LocalParticipant (last (c # ds)) = pc_LocalParticipant c
      \<and> sorted_wrt (\<lambda>x y. unat x < unat y) (map pc_Revision (c # ds))"
    using assms
  proof (induction ds arbitrary: c)
    case (Cons d ds)
    then have d: "ValidateParticipationChangeV1 c d = None" by simp
    note IH = Cons.IH [of d]
    have "sorted_wrt (\<lambda>x y. unat x < unat y) (map pc_Revision (d # ds))"
      using IH Cons.prems by simp
    moreover from this have "\<forall>x\<in>set (map pc_Revision (d # ds)). unat (pc_Revision c) < unat x"
      using change_step(1) [OF d] by auto
    ultimately have "sorted_wrt (\<lambda>x y. unat x < unat y) (map pc_Revision (c # d # ds))"
      by (simp only: list.map sorted_wrt.simps(2) [of _ "pc_Revision c"])
    with IH Cons.prems change_step(1,2) [OF d] show ?case by simp
  qed simp
  note steps = this
  have "distinct xs" if "sorted_wrt (\<lambda>x y. unat x < unat y) xs" for xs :: "uint64 list"
    using that by (induction xs) auto
  then have "distinct (map pc_Revision (c # ds))" using steps by blast
  moreover have "participationBindingSameTargetV1 b b'"
    if "b \<in> set (pc_Bindings c)" "b' \<in> set (pc_Bindings (last ds))" "ds \<noteq> []" "pb_ID b = pb_ID b'"
      "\<forall>d\<in>set ds. pb_ID b \<in> pb_ID ` set (pc_Bindings d)" for b b'
    by (rule chain_target [OF assms that(5,3,1,2) refl that(4) [symmetric]])
  ultimately show ?thesis using steps by blast
qed

subsection \<open>Control\<close>

text \<open>What the loop over the observations asks of one of them.\<close>

definition observation_ok where
  "observation_ok lib c configured operating expected x \<longleftrightarrow>
     bo_ID x \<in> set expected \<and>
     (case go_lookup operating (bo_ID x) of
        Some b \<Rightarrow> bo_ConfigurationRevision x = cb_AppliedRevision c \<and> observation_check lib c (Some b) (pb_Permissions b) x = None
      | None \<Rightarrow> bo_ConfigurationRevision x = pc_Revision (cb_Configuration c) \<and>
          observation_check lib c None (case go_lookup configured (bo_ID x) of None \<Rightarrow> [] | Some b \<Rightarrow> pb_Permissions b) x = None)"

lemma observations_loop_step:
  "observations_loop lib c configured operating expected seen (x # xs) = None \<longleftrightarrow>
     observation_ok lib c configured operating expected x \<and> bo_ID x \<notin> set seen \<and>
     observations_loop lib c configured operating expected (bo_ID x # seen) xs = None"
  by (cases "go_lookup operating (bo_ID x)")
    (auto simp: observation_ok_def Let_def split: option.splits if_splits)

lemma observations_loop_iff:
  "observations_loop lib c configured operating expected seen xs = None \<longleftrightarrow>
     (\<forall>x\<in>set xs. observation_ok lib c configured operating expected x) \<and> distinct (map bo_ID xs) \<and>
     set (map bo_ID xs) \<inter> set seen = {}"
proof (induction xs arbitrary: seen)
  case (Cons x xs)
  show ?case unfolding observations_loop_step Cons.IH by auto
qed simp

lemma losses_loop_sound: "losses_loop u ls = Inr False \<Longrightarrow> \<not> u \<and> (\<forall>l\<in>set ls. ls_Code l \<noteq> ''unknown'')"
proof (induction ls arbitrary: u)
  case (Cons l ls)
  then have "ls_Code l \<noteq> ''unknown'' \<and> losses_loop u ls = Inr False \<or> losses_loop True ls = Inr False"
    by (simp split: if_splits) auto
  with Cons.IH show ?case by auto
qed simp

lemma active_observation:
  assumes "observation_check lib c operated ps x = None" "bo_State x = ParticipationStateV1Active"
  shows "operated \<noteq> None" "set (bo_Granted x) \<subseteq> set ps" "ptr_holds pc_Enabled (cb_AppliedConfiguration c)"
    "cb_ListenerState c = ParticipationStateV1Active" "bo_PeerOnline x \<and> bo_Trusted x \<and> bo_Negotiated x"
    "bo_Compatibility x = ''compatible'' \<and> bo_Admission x = ''promoted'' \<and> bo_Failure x = ''none''"
    "ptr_holds (\<lambda>e. EnvelopeV1_validate lib e True \<and> v1_DataHash e \<noteq> []) (pp_Native (bo_Provenance x))"
    "ptr_holds (list_all (\<lambda>l. ls_Code l \<noteq> ''unknown'')) (bo_Losses x)"
  using assms
  by (auto simp: observation_check_def provenance_check_def active_check_def Let_def participation_names losses_of_def
      list_all_iff ptr_holds_iff split: if_splits sum.splits option.splits dest!: losses_loop_sound)

lemma contribution_valid:
  assumes "ParticipationContributionV1_Validate lib c = None"
  shows "ParticipationConfigurationV1_Validate (cb_Configuration c) = None"
    "applied_check c (binding_map (pc_Bindings (cb_Configuration c))) = None"
    "observations_loop lib c (binding_map (pc_Bindings (cb_Configuration c)))
       (case cb_AppliedConfiguration c of None \<Rightarrow> [] | Some a \<Rightarrow> binding_map (pc_Bindings a))
       (remdups (map fst (binding_map (pc_Bindings (cb_Configuration c))) @
          map fst (case cb_AppliedConfiguration c of None \<Rightarrow> [] | Some a \<Rightarrow> binding_map (pc_Bindings a)))) []
       (cb_Bindings c) = None"
  using assms by (auto simp: ParticipationContributionV1_Validate_def Let_def split: if_splits)

text \<open>
  C27: control is only allowed on an established binding. When \<open>ValidateParticipationControlV1\<close>
  returns no error, participation is enabled in the saved and in the applied configuration, the
  listener is active, both configurations hold the binding with the same target and with the
  permission to control, and its one observation is of the applied revision, active, online,
  trusted, compatible, promoted and negotiated, without failure, with control granted, with sealed
  and valid native evidence, and with losses that are all known and all safe for control.
\<close>

theorem control_is_established:
  assumes "ValidateParticipationControlV1 lib c bid = None"
  shows "pc_Enabled (cb_Configuration c) \<and> cb_ListenerState c = ParticipationStateV1Active \<and>
    (\<exists>a b b' x.
       cb_AppliedConfiguration c = Some a \<and> pc_Enabled a \<and>
       b \<in> set (pc_Bindings (cb_Configuration c)) \<and> b' \<in> set (pc_Bindings a) \<and> pb_ID b = bid \<and>
       participationBindingSameTargetV1 b b' \<and>
       ParticipationPermissionV1Control \<in> set (pb_Permissions b) \<inter> set (pb_Permissions b') \<inter> set (bo_Granted x) \<and>
       x \<in> set (cb_Bindings c) \<and> bo_ID x = bid \<and> (\<forall>y\<in>set (cb_Bindings c). bo_ID y = bid \<longrightarrow> y = x) \<and>
       bo_ConfigurationRevision x = cb_AppliedRevision c \<and> bo_State x = ParticipationStateV1Active \<and>
       bo_PeerOnline x \<and> bo_Trusted x \<and> bo_Negotiated x \<and> bo_Compatibility x = ''compatible'' \<and>
       bo_Admission x = ''promoted'' \<and> bo_Failure x = ''none'' \<and>
       ptr_holds (\<lambda>e. EnvelopeV1_validate lib e True \<and> v1_DataHash e \<noteq> []) (pp_Native (bo_Provenance x)) \<and>
       ptr_holds (list_all (\<lambda>l. ls_ControlSafe l \<and> ls_Code l \<noteq> ''unknown'')) (bo_Losses x))"
proof -
  have v: "ParticipationContributionV1_Validate lib c = None" and en: "pc_Enabled (cb_Configuration c)"
    using assms by (auto simp: ValidateParticipationControlV1_def split: if_splits)
  obtain b where b: "b \<in> set (pc_Bindings (cb_Configuration c))" "pb_ID b = bid"
      "ParticipationPermissionV1Control \<in> set (pb_Permissions b)"
    using assms by (auto simp: ValidateParticipationControlV1_def list_ex_iff split: if_splits)
  obtain x where x: "find (control_ready bid) (cb_Bindings c) = Some x" "list_all ls_ControlSafe (losses_of x)"
    using assms by (auto simp: ValidateParticipationControlV1_def list_ex_iff list_all_iff split: if_splits option.splits)
  then have xs: "x \<in> set (cb_Bindings c)" and ready: "control_ready bid x"
    by (auto simp: find_Some_iff)
  note loop = contribution_valid(3) [OF v, unfolded observations_loop_iff, THEN conjunct1, rule_format, OF xs]
  from ready have id: "bo_ID x = bid" and st: "bo_State x = ParticipationStateV1Active"
    and gr: "ParticipationPermissionV1Control \<in> set (bo_Granted x)" by (simp_all add: control_ready_def)
  obtain a b' where a: "cb_AppliedConfiguration c = Some a" and lk: "go_lookup (binding_map (pc_Bindings a)) bid = Some b'"
    using loop active_observation(1) [OF _ st] by (auto simp: id observation_ok_def split: option.splits)
  have chk: "observation_check lib c (Some b') (pb_Permissions b') x = None"
    and rev: "bo_ConfigurationRevision x = cb_AppliedRevision c"
    using loop lk by (auto simp: a id observation_ok_def)
  note act = active_observation [OF chk st]
  have av: "ParticipationConfigurationV1_Validate a = None" and all: "list_all (\<lambda>b'. case go_lookup
      (binding_map (pc_Bindings (cb_Configuration c))) (pb_ID b') of None \<Rightarrow> True | Some saved \<Rightarrow>
      participationBindingSameTargetV1 saved b') (pc_Bindings a)"
    using contribution_valid(2) [OF v] by (auto simp: applied_check_def a split: if_splits)
  have b': "b' \<in> set (pc_Bindings a)" "pb_ID b' = bid"
    using lk by (simp_all add: binding_map_lookup [OF valid_bindings(2) [OF av]])
  have "go_lookup (binding_map (pc_Bindings (cb_Configuration c))) bid = Some b"
    using b by (simp add: binding_map_lookup [OF valid_bindings(2) [OF contribution_valid(1) [OF v]]])
  then have same: "participationBindingSameTargetV1 b b'"
    using all b' by (auto simp: list_all_iff)
  have uniq: "\<forall>y\<in>set (cb_Bindings c). bo_ID y = bid \<longrightarrow> y = x"
    using contribution_valid(3) [OF v] xs id by (auto simp: observations_loop_iff distinct_map inj_on_def)
  have loss: "ptr_holds (list_all (\<lambda>l. ls_ControlSafe l \<and> ls_Code l \<noteq> ''unknown'')) (bo_Losses x)"
    using act(8) x(2) by (auto simp: ptr_holds_iff losses_of_def list_all_iff)
  have ctl: "ParticipationPermissionV1Control \<in> set (pb_Permissions b) \<inter> set (pb_Permissions b') \<inter> set (bo_Granted x)"
    using b(3) gr act(2) by blast
  have "pc_Enabled a" using act(3) by (simp add: a)
  note facts = en act(4) a this b(1) b'(1) b(2) same ctl xs id uniq rev st act(5) [THEN conjunct1]
    act(5) [THEN conjunct2, THEN conjunct1] act(5) [THEN conjunct2, THEN conjunct2] act(6) [THEN conjunct1]
    act(6) [THEN conjunct2, THEN conjunct1] act(6) [THEN conjunct2, THEN conjunct2] act(7) loss
  show ?thesis
    by (intro conjI exI [of _ a] exI [of _ b] exI [of _ b'] exI [of _ x]) (rule facts)+
qed

subsection \<open>A sample participation\<close>

definition sample_binding :: "char \<Rightarrow> string list \<Rightarrow> ParticipationBindingV1" where
  "sample_binding c ps = \<lparr>pb_ID = replicate 32 c, pb_PeerParticipant = replicate 32 (CHR ''2''), pb_LocalCapability = replicate 32 (CHR ''3''),
     pb_PeerCapability = replicate 32 (CHR ''4''), pb_Selection = replicate 32 (CHR ''5''), pb_Direction = ''send'', pb_Permissions = ps\<rparr>"

definition sample_configuration :: "uint64 \<Rightarrow> ParticipationBindingV1 list \<Rightarrow> ParticipationConfigurationV1" where
  "sample_configuration n bs = \<lparr>pc_Contract = ParticipationContractV1, pc_Revision = n,
     pc_LocalParticipant = replicate 32 (CHR ''1''), pc_Enabled = True,
     pc_Listener = \<lparr>pl_Interface = ''eth0'', pl_Address = \<lparr>ap_Addr = Addr4 [192, 168, 0, 2], ap_Port = 4712\<rparr>\<rparr>,
     pc_DiscoveryEnabled = True, pc_Bindings = bs\<rparr>"

abbreviation configuration_a :: ParticipationConfigurationV1 where
  "configuration_a \<equiv> sample_configuration 1 [sample_binding (CHR ''a'') [''observe'', ''control''], sample_binding (CHR ''b'') [''observe'']]"
abbreviation configuration_b :: ParticipationConfigurationV1 where
  "configuration_b \<equiv> sample_configuration 1 [sample_binding (CHR ''b'') [''observe''], sample_binding (CHR ''a'') [''control'', ''observe'']]"
abbreviation configuration_c :: ParticipationConfigurationV1 where
  "configuration_c \<equiv> sample_configuration 2 [sample_binding (CHR ''a'') [''observe'']]"

lemma sample_configurations_valid:
  "ParticipationConfigurationV1_Validate configuration_a = None" "ParticipationConfigurationV1_Validate configuration_b = None"
  "participationConfigurationsEqualV1 configuration_a configuration_b" "accepted_chain configuration_a [configuration_c]"
  by code_simp+

definition sample_observation :: "EnvelopeV1 \<Rightarrow> ParticipationBindingObservationV1" where
  "sample_observation e = \<lparr>bo_ID = replicate 32 (CHR ''a''), bo_ConfigurationRevision = 2, bo_State = ''active'', bo_PeerOnline = True,
     bo_Trusted = True, bo_Compatibility = ''compatible'', bo_Admission = ''promoted'', bo_Negotiated = True,
     bo_Granted = [''control''], bo_ControlOutcome = ''accepted'', bo_Failure = ''none'',
     bo_Provenance = \<lparr>pp_Native = Some e, pp_TransportVersion = Some ''1.0.1'', pp_DataModelVersion = Some ''1.3.0''\<rparr>,
     bo_Losses = Some [\<lparr>ls_NativePath = ''/a/b'', ls_Code = ''omitted'', ls_ControlSafe = True\<rparr>]\<rparr>"

abbreviation configuration_d :: ParticipationConfigurationV1 where
  "configuration_d \<equiv> sample_configuration 2 [sample_binding (CHR ''a'') [''observe'', ''control'']]"

definition sample_contribution :: ParticipationContributionV1 where
  "sample_contribution = \<lparr>cb_Configuration = configuration_d, cb_AppliedConfiguration = Some configuration_d,
     cb_AppliedRevision = 2, cb_ObservedAt = \<lparr>t_nsec = 63902908800000000000, t_loc = UTC\<rparr>, cb_ListenerState = ''active'',
     cb_Bindings = [sample_observation (sealed sample_one)]\<rparr>"

lemma sample_native:
  "EnvelopeV1_validate flat_lib (sealed sample_one) True" "v1_DataHash (sealed sample_one) \<noteq> []" "length (v1_Objects (sealed sample_one)) = 2"
  using sealed_valid [OF flat_sha256 sample_envelopes_valid(1)]
  by (simp_all add: flat_hash sample_envelope_def NewEnvelopeV1_def copyObjectsV1_def)

lemma sample_losses:
  "participationPathV1 ''/a/b''"
  "participationVersionV1 ''1.0.1''" "participationVersionV1 ''1.3.0''" "participationPermissionsValidV1 [''control'']"
  by code_simp+

lemma sample_observed:
  assumes "EnvelopeV1_validate lib e True" "v1_DataHash e \<noteq> []" "length (v1_Objects e) \<le> 256"
    and "cb_AppliedConfiguration c = Some configuration_d" "cb_ListenerState c = ''active''"
  shows "observation_check lib c (Some b) [''observe'', ''control''] (sample_observation e) = None"
  using assms by (simp add: observation_check_def provenance_check_def active_check_def losses_of_def sample_observation_def
      sample_losses participation_names participationStateValidV1_def participationFailureValidV1_def compatibility_valid_def
      admission_valid_def outcome_valid_def sample_configuration_def)

lemma sample_checks:
  "ParticipationConfigurationV1_Validate configuration_d = None"
  "participationConfigurationsEqualV1 configuration_d configuration_d"
  "binding_map (pc_Bindings configuration_d) = [(replicate 32 (CHR ''a''), sample_binding (CHR ''a'') [''observe'', ''control''])]"
  by code_simp+

lemma sample_control: "ValidateParticipationControlV1 flat_lib sample_contribution (replicate 32 (CHR ''a'')) = None"
proof -
  let ?x = "sample_observation (sealed sample_one)"
  have obs: "observation_check flat_lib sample_contribution (Some b) [''observe'', ''control''] ?x = None" for b
    by (rule sample_observed) (use sample_native in \<open>simp_all add: sample_contribution_def\<close>)
  have fields: "bo_ID ?x = replicate 32 (CHR ''a'')" "bo_ConfigurationRevision ?x = 2" "bo_State ?x = ''active''"
    "bo_Granted ?x = [''control'']" "losses_of ?x = [\<lparr>ls_NativePath = ''/a/b'', ls_Code = ''omitted'', ls_ControlSafe = True\<rparr>]"
    by (simp_all only: sample_observation_def losses_of_def ParticipationBindingObservationV1.simps option.simps)
  have conf: "pc_Revision configuration_d = 2" "pc_Enabled configuration_d"
    "pc_Bindings configuration_d = [sample_binding (CHR ''a'') [''observe'', ''control'']]"
    "pb_ID (sample_binding (CHR ''a'') ps) = replicate 32 (CHR ''a'')" "pb_Permissions (sample_binding (CHR ''a'') ps) = ps" for ps
    by (simp_all add: sample_configuration_def sample_binding_def)
  have contr: "cb_Configuration sample_contribution = configuration_d" "cb_AppliedConfiguration sample_contribution = Some configuration_d"
    "cb_AppliedRevision sample_contribution = 2" "IsZero (cb_ObservedAt sample_contribution) = False"
    "cb_ListenerState sample_contribution = ''active''" "cb_Bindings sample_contribution = [?x]"
    by (simp_all add: sample_contribution_def IsZero_def)
  have map: "binding_map [sample_binding (CHR ''a'') [''observe'', ''control'']] = [(replicate 32 (CHR ''a''), sample_binding (CHR ''a'') [''observe'', ''control''])]"
    using sample_checks(3) by (simp only: conf)
  have "observations_loop flat_lib sample_contribution [(replicate 32 (CHR ''a''), sample_binding (CHR ''a'') [''observe'', ''control''])]
      [(replicate 32 (CHR ''a''), sample_binding (CHR ''a'') [''observe'', ''control''])] [replicate 32 (CHR ''a'')] [] [?x] = None"
    using obs by (simp add: contr fields conf)
  moreover have "applied_check sample_contribution [(replicate 32 (CHR ''a''), sample_binding (CHR ''a'') [''observe'', ''control''])] = None"
    using sample_checks(1,2) by (simp add: applied_check_def contr conf participationBindingSameTargetV1_def)
  ultimately have "ParticipationContributionV1_Validate flat_lib sample_contribution = None"
    using sample_checks(1)
    by (simp add: ParticipationContributionV1_Validate_def contr conf map participationStateValidV1_def participation_names)
  then show ?thesis
    by (simp add: ValidateParticipationControlV1_def contr conf fields control_ready_def participation_names)
qed

theorem configurations_equal_iff_witness:
  "mset (map binding_norm (pc_Bindings configuration_a)) = mset (map binding_norm (pc_Bindings configuration_b)) \<and>
   pc_Bindings configuration_a \<noteq> pc_Bindings configuration_b"
  using configurations_equal_iff [OF sample_configurations_valid(1,2)] sample_configurations_valid(3)
  by (simp add: sample_configuration_def sample_binding_def)

theorem participation_history_witness:
  "accepted_chain configuration_a [configuration_c] \<and>
   unat (pc_Revision configuration_c) = unat (pc_Revision configuration_a) + 1"
  using participation_history [OF sample_configurations_valid(4)] sample_configurations_valid(4) by simp

theorem control_is_established_witness:
  "ValidateParticipationControlV1 flat_lib sample_contribution (replicate 32 (CHR ''a'')) = None \<and>
   cb_ListenerState sample_contribution = ParticipationStateV1Active"
  using control_is_established [OF sample_control] sample_control by blast

end
