(* ===== verification/TrustTypes.thy ===== *)
theory TrustTypes
  imports AdminFraming GoText
begin

text \<open>
  The data of the trust coordinator, \<^verbatim>\<open>src/internal/eebusfacade/msp04c_types.go\<close>: the bindings of
  store generations and manifests, the anchor outside the store with its pending publication, the
  control record with its associations, tombstones, quarantines, receipts and outgoing attempts,
  and the backoff schedule. A \<^verbatim>\<open>[32]byte\<close> array is a byte string, \<^verbatim>\<open>time.Duration\<close> an integer
  number of nanoseconds. The values are immutable, so the source's deep copies are the values
  themselves.
\<close>

subsection \<open>Constants\<close>

definition zero32 :: bytes where "zero32 = replicate 32 (CHR 0x00)"

definition maxInt64 :: int where "maxInt64 = 2 ^ 63 - 1"

definition time_Second :: int where "time_Second = 1000000000"

definition firstTrustBackoffBase :: int where "firstTrustBackoffBase = 3 * time_Second"
definition firstTrustBackoffMaximum :: int where "firstTrustBackoffMaximum = 10 * time_Second"
definition firstTrustBackoffExponentCap :: int where "firstTrustBackoffExponentCap = 2"
definition firstTrustAttemptMaximum :: uint64 where "firstTrustAttemptMaximum = 4"
definition firstTrustMaximumQuarantineRecords :: nat where "firstTrustMaximumQuarantineRecords = 128"
definition firstTrustQuarantineRetention :: int where "firstTrustQuarantineRetention = 24 * 3600 * time_Second"
definition firstTrustMaximumTombstones :: nat where "firstTrustMaximumTombstones = 128"
definition firstTrustMaximumDurableReceipts :: nat where "firstTrustMaximumDurableReceipts = 128"
definition firstTrustMaximumOutgoingAttempts :: nat where "firstTrustMaximumOutgoingAttempts = 128"
definition firstTrustOutgoingAttemptLease :: int where "firstTrustOutgoingAttemptLease = 90 * time_Second"
definition firstTrustAnchorVersion :: uint64 where "firstTrustAnchorVersion = 1"

lemmas trust_limits = time_Second_def firstTrustBackoffBase_def firstTrustBackoffMaximum_def
  firstTrustBackoffExponentCap_def firstTrustAttemptMaximum_def firstTrustMaximumQuarantineRecords_def
  firstTrustQuarantineRetention_def firstTrustMaximumTombstones_def firstTrustMaximumDurableReceipts_def
  firstTrustMaximumOutgoingAttempts_def firstTrustOutgoingAttemptLease_def firstTrustAnchorVersion_def

subsection \<open>Records\<close>

record firstTrustGenerationBinding =
  gb_sequence :: uint64
  gb_filename :: string
  gb_sha256 :: bytes
  gb_schemaVersion :: uint64

record firstTrustManifestBinding =
  mb_epoch :: uint64
  mb_sha256 :: bytes
  mb_current :: firstTrustGenerationBinding
  mb_parent :: "firstTrustGenerationBinding option"

record firstTrustPendingPublication =
  pb_operationID :: bytes
  pb_operationClass :: string
  pb_storeInstance :: bytes
  pb_previousControlEpoch :: uint64
  pb_targetControlEpoch :: uint64
  pb_previousManifest :: firstTrustManifestBinding
  pb_targetManifest :: firstTrustManifestBinding

record firstTrustAnchorRecord =
  ar_version :: uint64
  ar_anchorIdentity :: bytes
  ar_storeInstance :: bytes
  ar_manifestGenerationHighWater :: uint64
  ar_controlEpochHighWater :: uint64
  ar_pending :: "firstTrustPendingPublication option"

record firstTrustAssociationRecord =
  fa_reference :: bytes
  fa_lineage :: bytes
  fa_subject :: bytes
  fa_service :: string
  fa_active :: bool
  fa_trusted :: bool
  fa_allowlisted :: bool
  fa_reconnectable :: bool

record firstTrustRevocationTombstone =
  tb_associationRef :: bytes
  tb_revocationEpoch :: uint64
  tb_operationID :: bytes
  tb_effectiveGeneration :: firstTrustGenerationBinding

record firstTrustQuarantineRecord =
  qr_scope :: bytes
  qr_reason :: string
  qr_state :: string
  qr_attemptCount :: uint64
  qr_backoffStep :: uint64
  qr_remainingDelay :: int
  qr_retentionBudget :: int
  qr_lastControlEpoch :: uint64

record firstTrustDurableReceipt =
  rc_operationID :: bytes
  rc_operationClass :: string
  rc_bindingSHA256 :: bytes
  rc_result :: string
  rc_terminal :: bool

record firstTrustOutgoingAttemptEndpoint =
  ep_host :: string
  ep_port :: "16 word"

record firstTrustOutgoingAttemptRequest =
  aq_remoteSKI :: bytes
  aq_endpoint :: firstTrustOutgoingAttemptEndpoint
  aq_path :: string

record firstTrustOutgoingAttemptMetadata =
  am_attemptID :: bytes
  am_scope :: bytes
  am_controlEpoch :: uint64

record firstTrustOutgoingAttemptRecord =
  oa_state :: string
  oa_attemptID :: bytes
  oa_remoteSKI :: bytes
  oa_scope :: bytes
  oa_controlEpoch :: uint64
  oa_associationLineage :: bytes
  oa_endpoint :: firstTrustOutgoingAttemptEndpoint
  oa_path :: string
  oa_cancellationGeneration :: uint64
  oa_reservationOrder :: uint64
  oa_reservationTimestamp :: int
  oa_attemptCountBefore :: uint64

record firstTrustLocalIdentityBinding =
  lib_certificateChainDER :: "bytes list"
  lib_providerID :: string
  lib_providerVersion :: uint64
  lib_sealedBlob :: bytes
  lib_certificateSPKIHash :: bytes
  lib_localSKI :: bytes

record firstTrustControlRecord =
  cr_storeInstance :: bytes
  cr_controlEpoch :: uint64
  cr_associationLineage :: bytes
  cr_tombstones :: "firstTrustRevocationTombstone list"
  cr_quarantines :: "firstTrustQuarantineRecord list"
  cr_receipts :: "firstTrustDurableReceipt list"
  cr_attempts :: "firstTrustOutgoingAttemptRecord list"
  cr_operationHighWater :: uint64
  cr_repairSequence :: uint64
  cr_replacementIdentity :: "firstTrustLocalIdentityBinding option"

record firstTrustControlView =
  cv_manifest :: firstTrustManifestBinding
  cv_control :: firstTrustControlRecord
  cv_associations :: "firstTrustAssociationRecord list"
  cv_parentAssociations :: "firstTrustAssociationRecord list"

record firstTrustPreparedPublication =
  pr_previous :: firstTrustControlView
  pr_target :: firstTrustControlView
  pr_operationID :: bytes
  pr_operationClass :: string

record firstTrustRevocationRequest =
  rr_operationID :: bytes
  rr_associationRef :: bytes
  rr_associationLineage :: bytes
  rr_expectedGeneration :: firstTrustGenerationBinding
  rr_expectedManifestEpoch :: uint64
  rr_expectedManifestSHA256 :: bytes
  rr_expectedControlEpoch :: uint64

record firstTrustRepairRequest =
  rp_operationID :: bytes
  rp_kind :: string
  rp_scope :: bytes
  rp_expectedState :: string
  rp_expectedReason :: string
  rp_expectedManifest :: firstTrustManifestBinding
  rp_expectedControlEpoch :: uint64
  rp_expectedAnchorVersion :: uint64
  rp_expectedManifestHighWater :: uint64
  rp_expectedControlHighWater :: uint64
  rp_nextRepairSequence :: uint64

record firstTrustBackoffPolicy =
  bp_base :: int
  bp_exponentCap :: int
  bp_maximum :: int
  bp_attemptMaximum :: uint64

record firstTrustRecoveryOperation =
  ro_operationID :: bytes
  ro_operationClass :: string
  ro_bindingSHA256 :: bytes

record firstTrustRetryArm =
  arm_deadline :: int
  arm_armedAt :: int

text \<open>The zero values of Go.\<close>

definition generation_zero :: firstTrustGenerationBinding where
  "generation_zero = \<lparr>gb_sequence = 0, gb_filename = [], gb_sha256 = zero32, gb_schemaVersion = 0\<rparr>"

definition manifest_zero :: firstTrustManifestBinding where
  "manifest_zero = \<lparr>mb_epoch = 0, mb_sha256 = zero32, mb_current = generation_zero, mb_parent = None\<rparr>"

definition control_zero :: firstTrustControlRecord where
  "control_zero = \<lparr>cr_storeInstance = zero32, cr_controlEpoch = 0, cr_associationLineage = zero32,
     cr_tombstones = [], cr_quarantines = [], cr_receipts = [], cr_attempts = [],
     cr_operationHighWater = 0, cr_repairSequence = 0, cr_replacementIdentity = None\<rparr>"

definition view_zero :: firstTrustControlView where
  "view_zero = \<lparr>cv_manifest = manifest_zero, cv_control = control_zero, cv_associations = [],
     cv_parentAssociations = []\<rparr>"

definition anchor_zero :: firstTrustAnchorRecord where
  "anchor_zero = \<lparr>ar_version = 0, ar_anchorIdentity = zero32, ar_storeInstance = zero32,
     ar_manifestGenerationHighWater = 0, ar_controlEpochHighWater = 0, ar_pending = None\<rparr>"

definition prepared_zero :: firstTrustPreparedPublication where
  "prepared_zero = \<lparr>pr_previous = view_zero, pr_target = view_zero, pr_operationID = zero32,
     pr_operationClass = []\<rparr>"

definition association_zero :: firstTrustAssociationRecord where
  "association_zero = \<lparr>fa_reference = zero32, fa_lineage = zero32, fa_subject = [], fa_service = [],
     fa_active = False, fa_trusted = False, fa_allowlisted = False, fa_reconnectable = False\<rparr>"

subsection \<open>Product of phase and recovery\<close>

definition firstTrustProductAllowed :: "string \<Rightarrow> string \<Rightarrow> bool" where
  "firstTrustProductAllowed phase recovery =
     (if phase = ''DISABLED'' then
        recovery = ''NO_LOCAL_IDENTITY'' \<or> recovery = ''QUARANTINED'' \<or> recovery = ''CORRUPT_STORE''
      else if phase = ''PAIRING_CLOSED'' then
        recovery = ''UNPAIRED_LOCKED'' \<or> recovery = ''PAIRED_TRUSTED'' \<or> recovery = ''REVOKED''
      else if phase = ''OPEN_EMPTY'' \<or> phase = ''CANDIDATE_PENDING'' \<or> phase = ''TRANSIENT_TRUSTED'' \<or>
              phase = ''COMMITTING'' then
        recovery = ''UNPAIRED_LOCKED'' \<or> recovery = ''REVOKED''
      else False)"

definition normalizeFirstTrustProduct :: "string \<Rightarrow> string \<Rightarrow> string \<Rightarrow> string \<times> string" where
  "normalizeFirstTrustProduct phase recovery structural =
     (if firstTrustProductAllowed phase recovery then (phase, recovery)
      else if structural = ''CORRUPT_STORE'' then (''DISABLED'', ''CORRUPT_STORE'')
      else (''DISABLED'', ''QUARANTINED''))"

definition firstTrustRecoveryTransitionAllowed :: "string \<Rightarrow> string \<Rightarrow> bool" where
  "firstTrustRecoveryTransitionAllowed prior to =
     (if prior = ''NO_LOCAL_IDENTITY'' then to = ''UNPAIRED_LOCKED'' \<or> to = ''QUARANTINED''
      else if prior = ''UNPAIRED_LOCKED'' then to = ''PAIRED_TRUSTED'' \<or> to = ''QUARANTINED'' \<or> to = ''CORRUPT_STORE''
      else if prior = ''PAIRED_TRUSTED'' then to = ''REVOKED'' \<or> to = ''QUARANTINED'' \<or> to = ''CORRUPT_STORE''
      else if prior = ''REVOKED'' then to = ''PAIRED_TRUSTED'' \<or> to = ''QUARANTINED''
      else if prior = ''QUARANTINED'' then to = ''UNPAIRED_LOCKED'' \<or> to = ''REVOKED'' \<or> to = ''CORRUPT_STORE''
      else if prior = ''CORRUPT_STORE'' then to = ''UNPAIRED_LOCKED'' \<or> to = ''REVOKED'' \<or> to = ''QUARANTINED''
      else False)"

subsection \<open>Comparisons\<close>

definition firstTrustManifestEqual :: "firstTrustManifestBinding \<Rightarrow> firstTrustManifestBinding \<Rightarrow> bool" where
  "firstTrustManifestEqual left right =
     (if mb_epoch left \<noteq> mb_epoch right \<or> mb_sha256 left \<noteq> mb_sha256 right \<or>
         mb_current left \<noteq> mb_current right \<or> nilp (mb_parent left) \<noteq> nilp (mb_parent right)
      then False
      else case mb_parent left of None \<Rightarrow> True | Some p \<Rightarrow> ptr_holds ((=) p) (mb_parent right))"

definition firstTrustPendingPublicationEqual ::
  "firstTrustPendingPublication \<Rightarrow> firstTrustPendingPublication \<Rightarrow> bool" where
  "firstTrustPendingPublicationEqual left right \<longleftrightarrow>
     pb_operationID left = pb_operationID right \<and> pb_operationClass left = pb_operationClass right \<and>
     pb_storeInstance left = pb_storeInstance right \<and>
     pb_previousControlEpoch left = pb_previousControlEpoch right \<and>
     pb_targetControlEpoch left = pb_targetControlEpoch right \<and>
     firstTrustManifestEqual (pb_previousManifest left) (pb_previousManifest right) \<and>
     firstTrustManifestEqual (pb_targetManifest left) (pb_targetManifest right)"

definition firstTrustAnchorRecordEqual :: "firstTrustAnchorRecord \<Rightarrow> firstTrustAnchorRecord \<Rightarrow> bool" where
  "firstTrustAnchorRecordEqual left right =
     (if ar_version left \<noteq> ar_version right \<or> ar_anchorIdentity left \<noteq> ar_anchorIdentity right \<or>
         ar_storeInstance left \<noteq> ar_storeInstance right \<or>
         ar_manifestGenerationHighWater left \<noteq> ar_manifestGenerationHighWater right \<or>
         ar_controlEpochHighWater left \<noteq> ar_controlEpochHighWater right \<or>
         nilp (ar_pending left) \<noteq> nilp (ar_pending right)
      then False
      else case ar_pending left of None \<Rightarrow> True
           | Some p \<Rightarrow> ptr_holds (firstTrustPendingPublicationEqual p) (ar_pending right))"

text \<open>The comparisons through the pointers decide equality of the values.\<close>

lemma manifest_equal_iff [simp]: "firstTrustManifestEqual a b \<longleftrightarrow> a = b"
  by (cases a; cases b) (auto simp: firstTrustManifestEqual_def split: option.splits)

lemma pending_equal_iff [simp]: "firstTrustPendingPublicationEqual a b \<longleftrightarrow> a = b"
  by (cases a; cases b) (auto simp: firstTrustPendingPublicationEqual_def)

lemma anchor_equal_iff [simp]: "firstTrustAnchorRecordEqual a b \<longleftrightarrow> a = b"
  by (cases a; cases b) (auto simp: firstTrustAnchorRecordEqual_def split: option.splits)

subsection \<open>Backoff\<close>

text \<open>The doubling loop, on the number of steps that are left.\<close>

fun backoff_loop :: "int \<Rightarrow> nat \<Rightarrow> int \<Rightarrow> int" where
  "backoff_loop maximum 0 delay = delay"
| "backoff_loop maximum (Suc steps) delay =
     (if delay \<ge> maximum \<or> delay > maxInt64 div 2 \<or> delay > maximum div 2 then maximum
      else backoff_loop maximum steps (delay * 2))"

definition policy_usable :: "firstTrustBackoffPolicy \<Rightarrow> bool" where
  "policy_usable policy \<longleftrightarrow>
     \<not> (bp_base policy \<le> 0 \<or> bp_maximum policy < bp_base policy \<or> bp_exponentCap policy < 0 \<or>
        bp_attemptMaximum policy = 0)"

definition firstTrustNextBackoff :: "firstTrustBackoffPolicy \<Rightarrow> uint64 \<Rightarrow> (uint64 \<times> int) option" where
  "firstTrustNextBackoff policy current =
     (if \<not> policy_usable policy \<or> current > bp_attemptMaximum policy then None
      else let next = (if current < bp_attemptMaximum policy then current + 1 else current) in
        if next = 0 then None
        else if next = bp_attemptMaximum policy then Some (next, 0)
        else let exponent = (if next - 1 > of_int (bp_exponentCap policy) then of_int (bp_exponentCap policy)
                             else next - 1);
                 delay = backoff_loop (bp_maximum policy) (unat exponent) (bp_base policy)
             in Some (next, if delay > bp_maximum policy then bp_maximum policy else delay))"

subsection \<open>Publications\<close>

definition firstTrustPendingFromPrepared :: "firstTrustPreparedPublication \<Rightarrow> firstTrustPendingPublication" where
  "firstTrustPendingFromPrepared publication =
     \<lparr>pb_operationID = pr_operationID publication, pb_operationClass = pr_operationClass publication,
      pb_storeInstance =
        (if pr_operationClass publication = ''recover_unavailable_host_key''
         then cr_storeInstance (cv_control (pr_target publication))
         else cr_storeInstance (cv_control (pr_previous publication))),
      pb_previousControlEpoch = cr_controlEpoch (cv_control (pr_previous publication)),
      pb_targetControlEpoch = cr_controlEpoch (cv_control (pr_target publication)),
      pb_previousManifest = cv_manifest (pr_previous publication),
      pb_targetManifest = cv_manifest (pr_target publication)\<rparr>"

text \<open>\<open>io.ReadFull\<close> of 32 bytes that fails is \<open>None\<close>.\<close>

definition ordinal_ok :: "bytes option \<Rightarrow> bytes option" where
  "ordinal_ok r = (case r of None \<Rightarrow> None | Some b \<Rightarrow> if b \<noteq> zero32 then Some b else None)"

definition firstTrustOperationOrdinal :: "bytes \<Rightarrow> uint64" where
  "firstTrustOperationOrdinal value = get_uint64 0 (drop (length value - 8) value)"

subsection \<open>Bindings of requests\<close>

definition firstTrustWriteUint64 :: "uint64 \<Rightarrow> bytes" where
  "firstTrustWriteUint64 value = put_uint64 value"

definition firstTrustWriteStringHash :: "string \<Rightarrow> bytes" where
  "firstTrustWriteStringHash value = firstTrustWriteUint64 (of_nat (length value)) @ value"

definition firstTrustWriteGenerationHash :: "firstTrustGenerationBinding \<Rightarrow> bytes" where
  "firstTrustWriteGenerationHash g =
     firstTrustWriteUint64 (gb_sequence g) @ firstTrustWriteStringHash (gb_filename g) @ gb_sha256 g @
     firstTrustWriteUint64 (gb_schemaVersion g)"

definition firstTrustWriteManifestHash :: "firstTrustManifestBinding \<Rightarrow> bytes" where
  "firstTrustWriteManifestHash m =
     firstTrustWriteUint64 (mb_epoch m) @ mb_sha256 m @ firstTrustWriteGenerationHash (mb_current m) @
     (case mb_parent m of None \<Rightarrow> firstTrustWriteUint64 0
      | Some p \<Rightarrow> firstTrustWriteUint64 1 @ firstTrustWriteGenerationHash p)"

definition revocation_preimage :: "firstTrustRevocationRequest \<Rightarrow> bytes" where
  "revocation_preimage r =
     rr_operationID r @ rr_associationRef r @ rr_associationLineage r @
     firstTrustWriteGenerationHash (rr_expectedGeneration r) @ firstTrustWriteUint64 (rr_expectedManifestEpoch r) @
     rr_expectedManifestSHA256 r @ firstTrustWriteUint64 (rr_expectedControlEpoch r)"

definition firstTrustHashRevocation :: "(bytes \<Rightarrow> bytes) \<Rightarrow> firstTrustRevocationRequest \<Rightarrow> bytes" where
  "firstTrustHashRevocation sha r = sha (revocation_preimage r)"

definition repair_preimage :: "firstTrustRepairRequest \<Rightarrow> bytes" where
  "repair_preimage r =
     rp_operationID r @ firstTrustWriteStringHash (rp_kind r) @ rp_scope r @
     firstTrustWriteStringHash (rp_expectedState r) @ firstTrustWriteStringHash (rp_expectedReason r) @
     firstTrustWriteManifestHash (rp_expectedManifest r) @ firstTrustWriteUint64 (rp_expectedControlEpoch r) @
     firstTrustWriteUint64 (rp_expectedAnchorVersion r) @ firstTrustWriteUint64 (rp_expectedManifestHighWater r) @
     firstTrustWriteUint64 (rp_expectedControlHighWater r) @ firstTrustWriteUint64 (rp_nextRepairSequence r)"

definition firstTrustHashRepair :: "(bytes \<Rightarrow> bytes) \<Rightarrow> firstTrustRepairRequest \<Rightarrow> bytes" where
  "firstTrustHashRepair sha r = sha (repair_preimage r)"

subsection \<open>The schedule in closed form\<close>

definition backoff_delay :: "firstTrustBackoffPolicy \<Rightarrow> nat \<Rightarrow> int" where
  "backoff_delay policy k =
     (if k = unat (bp_attemptMaximum policy) then 0
      else min (bp_maximum policy) (bp_base policy * 2 ^ min (k - 1) (nat (bp_exponentCap policy))))"

lemma backoff_loop_closed:
  assumes "0 < delay" and "delay \<le> maximum" and "maximum \<le> maxInt64"
  shows "backoff_loop maximum n delay = min maximum (delay * 2 ^ n)"
  using assms
proof (induction n arbitrary: delay)
  case (Suc n)
  have pow: "(1 :: int) \<le> 2 ^ n" by simp
  show ?case
  proof (cases "delay > maximum div 2")
    case True
    then have "maximum \<le> delay * 2" by simp
    also have "delay * 2 \<le> (delay * 2) * 2 ^ n" using pow Suc.prems by (simp add: mult_le_cancel_left)
    finally have "maximum \<le> delay * 2 ^ Suc n" by simp
    with True show ?thesis by simp
  next
    case False
    moreover have "maximum div 2 \<le> maxInt64 div 2" using Suc.prems by (simp add: zdiv_mono1)
    ultimately have small: "delay * 2 \<le> maximum" "\<not> delay > maxInt64 div 2" by simp_all
    show ?thesis
    proof (cases "delay \<ge> maximum")
      case True
      then show ?thesis using Suc.prems small by simp
    next
      case False
      with small \<open>\<not> delay > maximum div 2\<close> have "backoff_loop maximum (Suc n) delay = backoff_loop maximum n (delay * 2)"
        by simp
      also have "\<dots> = min maximum (delay * 2 * 2 ^ n)" using Suc small by simp
      finally show ?thesis by simp
    qed
  qed
qed simp

lemma exponent_cap:
  assumes "0 \<le> cap" and "cap \<le> maxInt64"
  shows "unat (if x > of_int cap then of_int cap else x :: uint64) = min (unat x) (nat cap)"
proof -
  have "unat (of_int cap :: uint64) = nat cap"
    using assms by (simp add: maxInt64_def nat_mod_distrib unat_eq_nat_uint uint_word_of_int_eq take_bit_eq_mod)
  then show ?thesis by (auto simp: word_less_nat_alt min_def)
qed

lemma backoff_delay_bounds:
  assumes "policy_usable policy"
  shows "0 \<le> backoff_delay policy k" and "backoff_delay policy k \<le> bp_maximum policy"
    and "k \<noteq> unat (bp_attemptMaximum policy) \<Longrightarrow> bp_base policy \<le> backoff_delay policy k"
  using assms by (auto simp: backoff_delay_def policy_usable_def min_def)

lemma next_backoff_closed:
  assumes "policy_usable policy" and "bp_maximum policy \<le> maxInt64" and "bp_exponentCap policy \<le> maxInt64"
    and "current \<le> bp_attemptMaximum policy"
  shows "\<exists>n. firstTrustNextBackoff policy current = Some (n, backoff_delay policy (unat n)) \<and>
             unat n = min (Suc (unat current)) (unat (bp_attemptMaximum policy))"
proof -
  let ?max = "bp_attemptMaximum policy"
  define n where "n = (if current < ?max then current + 1 else current)"
  have u: "unat n = min (Suc (unat current)) (unat ?max)"
  proof (cases "current < ?max")
    case True
    then have "unat (current + 1) = Suc (unat current)" by (intro word_succ_gt) (auto simp: word_order.extremum_strict)
    with True show ?thesis by (simp add: n_def word_less_nat_alt)
  next
    case False
    with assms(4) show ?thesis by (simp add: n_def word_less_nat_alt word_le_nat_alt)
  qed
  have pos: "0 < unat ?max" using assms(1) by (simp add: policy_usable_def unat_gt_0)
  with u have nz: "n \<noteq> 0" by auto
  have cap: "0 \<le> bp_exponentCap policy" and base: "0 < bp_base policy" "bp_base policy \<le> bp_maximum policy"
    using assms(1) by (auto simp: policy_usable_def)
  have pred: "unat (n - 1) = unat n - 1" using nz by (simp add: unat_minus_one)
  have "firstTrustNextBackoff policy current = Some (n, backoff_delay policy (unat n))"
  proof (cases "n = ?max")
    case True
    then show ?thesis using assms(1,4) nz by (simp add: firstTrustNextBackoff_def n_def [symmetric] backoff_delay_def Let_def not_less)
  next
    case False
    then have "unat n \<noteq> unat ?max" by (simp add: word_unat_eq_iff)
    then show ?thesis using assms(1,4) nz False
      by (simp add: firstTrustNextBackoff_def n_def [symmetric] backoff_delay_def Let_def not_less
          exponent_cap [OF cap assms(3)] pred backoff_loop_closed [OF base assms(2)])
  qed
  with u show ?thesis by blast
qed

end
