(* ===== verification/TrustState.thy ===== *)
theory TrustState
  imports TrustTypes StateHoare
begin

text \<open>
  The state of the trust coordinator, \<^verbatim>\<open>firstTrustCoordinator\<close> of
  \<^verbatim>\<open>src/internal/eebusfacade/first_trust.go\<close>, and the interfaces it is built over: the store of
  control records, the anchor outside the store, the clock, the random source, the request
  contexts and the effects on the running service. Each interface is a record of functions on an
  environment of any type. Operations are programs of the state monad: a section between
  \<^verbatim>\<open>mu.Lock\<close> and \<^verbatim>\<open>mu.Unlock\<close> is one program, and where the source gives the lock up in the
  middle of an operation the program runs \<open>d_others\<close>, whatever the other goroutines do meanwhile.
\<close>

subsection \<open>Pairing data\<close>

datatype firstTrustPhase =
    firstTrustDisabled
  | firstTrustPairingClosed
  | firstTrustOpenEmpty
  | firstTrustCandidatePending
  | firstTrustTransientTrusted
  | firstTrustCommitting

datatype firstTrustEffectKind =
    firstTrustEffectCancel
  | firstTrustEffectRegister
  | firstTrustEffectCancelUnbound
  | firstTrustEffectTransientRegister
  | firstTrustEffectTransientUnregister
  | firstTrustEffectTransientFinalize

record firstTrustEffect =
  ef_kind :: firstTrustEffectKind
  ef_remote :: bytes
  ef_connection :: uint64

record firstTrustWindow =
  win_key :: string
  win_duration :: int
  win_deadline :: gotime

record firstTrustRequest =
  rq_operation :: string
  rq_duration :: int
  rq_fingerprint :: string
  rq_candidateRef :: string
  rq_expectedSKI :: string
  rq_nonce :: string
  rq_expiresAt :: gotime
  rq_connection :: uint64
  rq_storeGeneration :: uint64

definition request_zero :: firstTrustRequest where
  "request_zero = \<lparr>rq_operation = [], rq_duration = 0, rq_fingerprint = [], rq_candidateRef = [],
     rq_expectedSKI = [], rq_nonce = [], rq_expiresAt = zero_time, rq_connection = 0, rq_storeGeneration = 0\<rparr>"

definition firstTrustRequest_equal :: "firstTrustRequest \<Rightarrow> firstTrustRequest \<Rightarrow> bool" where
  "firstTrustRequest_equal a b \<longleftrightarrow>
     rq_operation a = rq_operation b \<and> rq_duration a = rq_duration b \<and>
     rq_fingerprint a = rq_fingerprint b \<and> rq_candidateRef a = rq_candidateRef b \<and>
     rq_expectedSKI a = rq_expectedSKI b \<and> rq_nonce a = rq_nonce b \<and>
     t_nsec (rq_expiresAt a) = t_nsec (rq_expiresAt b) \<and>
     rq_connection a = rq_connection b \<and> rq_storeGeneration a = rq_storeGeneration b"

record firstTrustCandidate =
  ca_remote :: bytes
  ca_shipID :: string
  ca_tlsBound :: bool
  ca_tlsRequired :: bool
  ca_nonce :: string
  ca_expiresAt :: gotime
  ca_connection :: uint64
  ca_storeGeneration :: uint64
  ca_requests :: "(string, firstTrustRequest) gomap"
  ca_completed :: bool
  ca_transientAuthorized :: bool
  ca_transientRegistrationComplete :: bool
  ca_transientRevocationQueued :: bool
  ca_confirmationKey :: string
  ca_confirmationRequest :: firstTrustRequest

record firstTrustReplay =
  re_request :: firstTrustRequest
  re_result :: string
  re_expiresAt :: gotime
  re_sequence :: uint64

record firstTrustRetired =
  rt_expiresAt :: gotime
  rt_sequence :: uint64

text \<open>An inflight commit is compared by its address; the token of the commit that made it names it.\<close>

record firstTrustInflight =
  if_id :: uint64
  if_key :: string
  if_request :: firstTrustRequest

record firstTrustCommit =
  cm_token :: uint64
  cm_inflight :: firstTrustInflight
  cm_remote :: bytes
  cm_shipID :: string
  cm_connection :: uint64
  cm_storeGeneration :: uint64

record firstTrustDiscoveredCandidate =
  di_ref :: string
  di_claimedSKI :: string
  di_name :: string
  di_identifier :: string
  di_brand :: string
  di_typeName :: string
  di_model :: string
  di_firstReceived :: gotime
  di_lastReceived :: gotime
  di_revision :: uint64
  di_lifecycle :: string

text \<open>A selection, too, is compared by its address, here \<open>se_id\<close>.\<close>

record firstTrustCandidateSelection =
  se_id :: nat
  se_key :: string
  se_request :: firstTrustRequest
  se_candidateRef :: string
  se_expectedSKI :: string
  se_remote :: bytes
  se_completed :: bool
  se_cancelled :: bool
  se_cancelIssued :: bool
  se_abortOutcome :: string
  se_outcome :: string

text \<open>A context is a name the environment gives out; whether it is cancelled is asked of it.\<close>

type_synonym ctx = nat

record firstTrustOutgoingAttemptHandle =
  ha_metadata :: firstTrustOutgoingAttemptMetadata
  ha_context :: ctx
  ha_cancellationGeneration :: uint64

record firstTrustOutgoingAttemptPermit =
  pm_decision :: string
  pm_reason :: string
  pm_metadata :: "firstTrustOutgoingAttemptMetadata option"
  pm_context :: "ctx option"

record firstTrustOutgoingAttemptRuntime =
  ru_metadata :: firstTrustOutgoingAttemptMetadata
  ru_remoteSKI :: bytes
  ru_context :: ctx
  ru_cancellationGeneration :: uint64
  ru_candidateConnection :: uint64
  ru_leaseDeadline :: int
  ru_leaseTimer :: bool
  ru_settlement :: string

subsection \<open>Projection data\<close>

record trustAdminRemoteProjection =
  tr_configuredIndex :: nat
  tr_state :: string
  tr_paired :: bool

record trustAdminProjection =
  tp_contract :: string
  tp_revision :: uint64
  tp_phase :: string
  tp_recovery :: string
  tp_mutationAvailable :: bool
  tp_degradation :: string
  tp_remotes :: "trustAdminRemoteProjection list"

record trustAdminProjectionBinding =
  tpb_remotes :: "bytes list"
  tpb_last :: trustAdminProjection

subsection \<open>The coordinator\<close>

text \<open>
  The history, which no operation reads: a confirmation that matched the candidate, a remote that
  became trusted by a commit, and a remote that was trusted because the store held it at a start.
\<close>

datatype trust_event =
    EvConfirmed bytes firstTrustRequest
  | EvTrusted bytes
  | EvLoaded bytes

record 'w firstTrustCoordinator =
  co_world :: 'w
  co_trace :: "trust_event list"
  co_pendingEffects :: "firstTrustEffect list"
  co_effectQueue :: "firstTrustEffect list"
  co_effectsPresent :: bool
  co_phase :: firstTrustPhase
  co_window :: "firstTrustWindow option"
  co_currentCandidate :: "firstTrustCandidate option"
  co_trustedRemotes :: "(bytes, string) gomap"
  co_storeGeneration :: uint64
  co_replays :: "(string, firstTrustReplay) gomap"
  co_retired :: "(string, firstTrustRetired) gomap"
  co_replaySequence :: uint64
  co_inflight :: "firstTrustInflight option"
  co_commitToken :: uint64
  co_commitFence :: bool
  co_reopening :: bool
  co_timer :: "(uint64 \<times> gotime) option"
  co_timerToken :: uint64
  co_retentionTimer :: "uint64 option"
  co_retentionToken :: uint64
  co_pairingRegistrationKnown :: bool
  co_pairingRegistrationEnabled :: bool
  co_pairingRegistrationFault :: bool
  co_candidateQueuer :: bool
  co_candidateSelectionRequired :: bool
  co_discoveredCandidates :: "(string, firstTrustDiscoveredCandidate) gomap"
  co_candidateSnapshotState :: string
  co_candidateSnapshotInvalidReason :: string
  co_candidateSnapshotRevision :: uint64
  co_candidateSelection :: "firstTrustCandidateSelection option"
  co_recovery :: string
  co_recoveryReasonCode :: string
  co_controlView :: firstTrustControlView
  co_anchorRecord :: firstTrustAnchorRecord
  co_retryArms :: "(bytes, firstTrustRetryArm) gomap"
  co_retryInflight :: "(bytes, bool) gomap"
  co_recoveryOperation :: "firstTrustRecoveryOperation option"
  co_trustAdminProjection :: "trustAdminProjectionBinding option"
  co_trustAdminRevision :: uint64
  co_outgoingAttemptContexts :: "(bytes, firstTrustOutgoingAttemptRuntime) gomap"
  co_outgoingAttemptReservationOrder :: uint64
  co_outgoingAttemptCancellationGeneration :: uint64

type_synonym 'w ftc = "'w firstTrustCoordinator"

text \<open>The zero values of the pieces with no other, and the coordinator as it is made.\<close>

definition newFirstTrustCoordinator :: "'w \<Rightarrow> 'w firstTrustCoordinator" where
  "newFirstTrustCoordinator w = \<lparr>co_world = w, co_trace = [], co_pendingEffects = [], co_effectQueue = [],
     co_effectsPresent = True, co_phase = firstTrustDisabled, co_window = None, co_currentCandidate = None,
     co_trustedRemotes = [], co_storeGeneration = 0, co_replays = [], co_retired = [], co_replaySequence = 0,
     co_inflight = None, co_commitToken = 0, co_commitFence = False, co_reopening = False, co_timer = None,
     co_timerToken = 0, co_retentionTimer = None, co_retentionToken = 0, co_pairingRegistrationKnown = False,
     co_pairingRegistrationEnabled = False, co_pairingRegistrationFault = False, co_candidateQueuer = False,
     co_candidateSelectionRequired = False, co_discoveredCandidates = [], co_candidateSnapshotState = ''empty'',
     co_candidateSnapshotInvalidReason = [], co_candidateSnapshotRevision = 0, co_candidateSelection = None,
     co_recovery = [], co_recoveryReasonCode = [], co_controlView = view_zero, co_anchorRecord = anchor_zero,
     co_retryArms = [], co_retryInflight = [], co_recoveryOperation = None, co_trustAdminProjection = None,
     co_trustAdminRevision = 0, co_outgoingAttemptContexts = [], co_outgoingAttemptReservationOrder = 0,
     co_outgoingAttemptCancellationGeneration = 0\<rparr>"

definition newFirstTrustCoordinatorWithRecovery :: "'w \<Rightarrow> 'w firstTrustCoordinator" where
  "newFirstTrustCoordinatorWithRecovery w = (newFirstTrustCoordinator w)\<lparr>co_recovery := ''NO_LOCAL_IDENTITY''\<rparr>"

type_synonym ('w, 'a) top = "('w firstTrustCoordinator, 'a) state"

subsection \<open>Interfaces\<close>

text \<open>
  \<open>CommitControl\<close> answers \<open>None\<close> when the time allowed for the commit ran out before the outcome
  arrived; the commit may still take place.
\<close>

record 'w firstTrustControlPersistence =
  ReloadControl :: "ctx \<Rightarrow> 'w \<Rightarrow> (firstTrustControlView \<times> string) \<times> 'w"
  SelectedGeneration :: "'w \<Rightarrow> uint64 \<times> 'w"
  PrepareControl :: "ctx \<Rightarrow> firstTrustControlView \<Rightarrow> firstTrustControlRecord \<Rightarrow> bytes \<Rightarrow> string \<Rightarrow> 'w \<Rightarrow>
    (firstTrustPreparedPublication \<times> string) \<times> 'w"
  CommitControl :: "ctx \<Rightarrow> firstTrustPreparedPublication \<Rightarrow> 'w \<Rightarrow> string option \<times> 'w"
  ObserveControlPublication :: "ctx \<Rightarrow> firstTrustPendingPublication \<Rightarrow> 'w \<Rightarrow> string \<times> 'w"

record 'w firstTrustAnchorProvider =
  AnchorOpen :: "ctx \<Rightarrow> 'w \<Rightarrow> (firstTrustAnchorRecord \<times> string) \<times> 'w"
  CompareAndStage :: "ctx \<Rightarrow> firstTrustAnchorRecord \<Rightarrow> firstTrustPendingPublication \<Rightarrow> 'w \<Rightarrow> string \<times> 'w"
  CompareAndFinalize :: "ctx \<Rightarrow> firstTrustPendingPublication \<Rightarrow> 'w \<Rightarrow> string \<times> 'w"
  CompareAndClear :: "ctx \<Rightarrow> firstTrustPendingPublication \<Rightarrow> 'w \<Rightarrow> string \<times> 'w"
  AnchorCreate :: "ctx \<Rightarrow> uint64 \<Rightarrow> bytes \<Rightarrow> 'w \<Rightarrow> (firstTrustAnchorRecord \<times> string) \<times> 'w"

text \<open>
  The store without control records, which an instance without recovery uses; \<open>Commit\<close> answers
  \<open>None\<close> when its time ran out.
\<close>

record 'w firstTrustPersistence =
  Reload :: "ctx \<Rightarrow> 'w \<Rightarrow> (uint64 \<times> (bytes, string) gomap \<times> string) \<times> 'w"
  StoreSelectedGeneration :: "'w \<Rightarrow> uint64 \<times> 'w"
  Commit :: "ctx \<Rightarrow> uint64 \<Rightarrow> bytes \<Rightarrow> string \<Rightarrow> 'w \<Rightarrow> string option \<times> 'w"

text \<open>
  Withdrawal of a remote. \<open>w_disconnectRemote\<close> answers whether the withdrawal started;
  \<open>w_awaitDisconnect\<close> is the select on acknowledgment, cancellation and the timer.
\<close>

datatype disconnect_event = Acknowledged | ContextDone | TimedOut

record 'w firstTrustWithdrawalEffects =
  w_disconnectRemote :: "bytes \<Rightarrow> 'w \<Rightarrow> bool \<times> 'w"
  w_awaitDisconnect :: "ctx \<Rightarrow> bytes \<Rightarrow> 'w \<Rightarrow> disconnect_event \<times> 'w"
  w_cancelDisconnect :: "bytes \<Rightarrow> 'w \<Rightarrow> unit \<times> 'w"
  w_unregisterRemote :: "bytes \<Rightarrow> 'w \<Rightarrow> bool \<times> 'w"

text \<open>
  The effects object behind the queue of effects. The transient operations and
  \<open>e_cancelCandidate\<close> are found by a type assertion, so they may be missing.
\<close>

record 'w firstTrustEffects =
  e_setWaiting :: "bool \<Rightarrow> 'w \<Rightarrow> bool \<times> 'w"
  e_cancelRemote :: "bytes \<Rightarrow> uint64 \<Rightarrow> 'w \<Rightarrow> unit \<times> 'w"
  e_connectionAlive :: "bytes \<Rightarrow> uint64 \<Rightarrow> 'w \<Rightarrow> bool \<times> 'w"
  e_registerRemoteSKI :: "bytes \<Rightarrow> uint64 \<Rightarrow> 'w \<Rightarrow> unit \<times> 'w"
  e_cancelCandidate :: "(bytes \<Rightarrow> 'w \<Rightarrow> unit \<times> 'w) option"
  e_registerTransientRemoteSKI :: "(bytes \<Rightarrow> uint64 \<Rightarrow> 'w \<Rightarrow> bool \<times> 'w) option"
  e_unregisterTransientRemoteSKI :: "(bytes \<Rightarrow> uint64 \<Rightarrow> 'w \<Rightarrow> unit \<times> 'w) option"
  e_finalizeTransientRemoteSKI :: "(bytes \<Rightarrow> uint64 \<Rightarrow> 'w \<Rightarrow> unit \<times> 'w) option"
  e_withdrawalEffects :: "'w firstTrustWithdrawalEffects option"

text \<open>The errors of the transport's candidate queue the coordinator tells apart.\<close>

datatype queue_error =
    ErrPairingCandidateUnavailable
  | ErrPairingCandidateSKIMismatch
  | ErrPairingCandidateConsumed
  | ErrPairingCandidateActive
  | ErrOutgoingAttemptGateRequired
  | ErrRemoteAlreadyTrusted
  | QueueErrorOther

record 'w ftdeps =
  d_sha256 :: "bytes \<Rightarrow> bytes"
  d_now :: "'w \<Rightarrow> gotime \<times> 'w"
  d_monotonicNow :: "'w \<Rightarrow> int \<times> 'w"
  d_random :: "nat \<Rightarrow> 'w \<Rightarrow> bytes option \<times> 'w"
  d_ctxErr :: "ctx \<Rightarrow> 'w \<Rightarrow> bool \<times> 'w"
  d_withCancel :: "ctx \<Rightarrow> 'w \<Rightarrow> ctx \<times> 'w"
  d_cancel :: "ctx \<Rightarrow> 'w \<Rightarrow> unit \<times> 'w"
  d_schedule :: "int \<Rightarrow> firstTrustOutgoingAttemptMetadata \<Rightarrow> 'w \<Rightarrow> bool \<times> 'w"
  d_stopTimer :: "firstTrustOutgoingAttemptMetadata \<Rightarrow> 'w \<Rightarrow> unit \<times> 'w"
  d_store :: "'w firstTrustPersistence option"
  d_recoveryStore :: "'w firstTrustControlPersistence option"
  d_anchor :: "'w firstTrustAnchorProvider option"
  d_identityProvider :: "(ctx \<Rightarrow> 'w \<Rightarrow> (firstTrustLocalIdentityBinding \<times> string) \<times> 'w) option"
  d_backoffPolicy :: firstTrustBackoffPolicy
  d_outgoingAttemptLease :: int
  d_effects :: "'w firstTrustEffects"
  d_queuePairingCandidate :: "string \<Rightarrow> string \<Rightarrow> 'w \<Rightarrow> queue_error option \<times> 'w"
  d_observer :: "trustAdminProjection \<Rightarrow> 'w \<Rightarrow> unit \<times> 'w"
  d_others :: "('w, unit) top"

subsection \<open>Basic programs\<close>

definition call :: "('w \<Rightarrow> 'a \<times> 'w) \<Rightarrow> ('w, 'a) top" where
  "call f = State (\<lambda>c. case f (co_world c) of (a, w) \<Rightarrow> (a, c\<lparr>co_world := w\<rparr>))"

definition peek :: "('w ftc \<Rightarrow> 'a) \<Rightarrow> ('w, 'a) top" where
  "peek f = State (\<lambda>c. (f c, c))"

definition poke :: "('w ftc \<Rightarrow> 'w ftc) \<Rightarrow> ('w, unit) top" where
  "poke f = State (\<lambda>c. ((), f c))"

abbreviation give :: "'a \<Rightarrow> ('w, 'a) top" where
  "give \<equiv> State_Monad.return"

abbreviation nop :: "('w, unit) top" where
  "nop \<equiv> State_Monad.return ()"

definition whenever :: "bool \<Rightarrow> ('w, unit) top \<Rightarrow> ('w, unit) top" where
  "whenever b m = (if b then m else nop)"

lemma wp_call [simp]: "wp (call f) Q c = (case f (co_world c) of (a, w) \<Rightarrow> Q a (c\<lparr>co_world := w\<rparr>))"
  by (simp add: call_def wp_State split: prod.splits)

lemma wp_peek [simp]: "wp (peek f) Q c = Q (f c) c"
  by (simp add: peek_def wp_State)

lemma wp_poke [simp]: "wp (poke f) Q c = Q () (f c)"
  by (simp add: poke_def wp_State)

lemma wp_when [simp]: "wp (whenever b m) Q c = (if b then wp m Q c else Q () c)"
  by (simp add: whenever_def)

lemma keeps_call [keeps_rules]: "(\<And>c w. I (c\<lparr>co_world := w\<rparr>) = I c) \<Longrightarrow> keeps I (call f)"
  by (auto simp: keeps_def split: prod.splits)

lemma keeps_peek [keeps_rules]: "keeps I (peek f)"
  by (simp add: keeps_def)

lemma keeps_poke: "(\<And>c. I c \<Longrightarrow> I (f c)) \<Longrightarrow> keeps I (poke f)"
  by (simp add: keeps_def)

lemma keeps_when [keeps_rules]: "(b \<Longrightarrow> keeps I m) \<Longrightarrow> keeps I (whenever b m)"
  by (simp add: keeps_def)

definition each :: "('x \<Rightarrow> ('w, unit) top) \<Rightarrow> 'x list \<Rightarrow> ('w, unit) top" where
  "each f xs = foldr (\<lambda>x m. do {f x; m}) xs nop"

lemma each_simps [simp]:
  "each f [] = nop"
  "each f (x # xs) = do {f x; each f xs}"
  by (simp_all add: each_def)

lemma keeps_each [keeps_rules]: "(\<And>x. x \<in> set xs \<Longrightarrow> keeps I (f x)) \<Longrightarrow> keeps I (each f xs)"
  by (induction xs) (auto intro: keeps_rules)

text \<open>Reading 32 random bytes; all zero counts as a failure.\<close>

definition firstTrustReadOrdinal :: "'w ftdeps \<Rightarrow> ('w, bytes option) top" where
  "firstTrustReadOrdinal deps = do {r \<leftarrow> call (d_random deps 32); give (ordinal_ok r)}"

text \<open>
  \<open>firstTrustCoordinatorMutex.Unlock\<close>: the effects gathered under the lock join the queue of
  effects, which is worked off outside the lock.
\<close>

definition mu_Unlock :: "('w, unit) top" where
  "mu_Unlock = poke (\<lambda>c. c\<lparr>co_effectQueue := co_effectQueue c @ co_pendingEffects c, co_pendingEffects := []\<rparr>)"

text \<open>
  Where an operation gives the lock up in its middle: its effects are queued, and other goroutines,
  the one that works off the queue among them, run before the lock is taken again.
\<close>

definition unlocked :: "'w ftdeps \<Rightarrow> ('w, unit) top" where
  "unlocked deps = do {mu_Unlock; d_others deps}"

definition witnessed :: "trust_event \<Rightarrow> ('w, unit) top" where
  "witnessed ev = poke (\<lambda>c. c\<lparr>co_trace := co_trace c @ [ev]\<rparr>)"

end
