(* ===== verification/HexText.thy ===== *)
theory HexText
  imports GoText
begin

text \<open>
  \<^verbatim>\<open>encoding/hex\<close>: decoding of pairs of hexadecimal digits of either case, and the two ways in
  which it is inverse to the encoding.
\<close>

definition hex_value :: "char \<Rightarrow> nat option" where
  "hex_value c =
     (if is_digit c then Some (of_char c - 48)
      else if in_range (CHR ''a'') (CHR ''f'') c then Some (of_char c - 87)
      else if in_range (CHR ''A'') (CHR ''F'') c then Some (of_char c - 55)
      else None)"

fun hex_decode :: "string \<Rightarrow> bytes option" where
  "hex_decode [] = Some []"
| "hex_decode [c] = None"
| "hex_decode (c # d # rest) =
     (case (hex_value c, hex_value d, hex_decode rest) of
        (Some h, Some l, Some bs) \<Rightarrow> Some (char_of (16 * h + l) # bs)
      | _ \<Rightarrow> None)"

lemma hex_value_digit: "d < 16 \<Longrightarrow> hex_value (hex_digit d) = Some d"
  by (auto simp: hex_value_def hex_digit_def is_digit_def in_range_def)

lemma hex_decode_encode [simp]: "hex_decode (hex_encode bs) = Some bs"
proof (induction bs)
  case (Cons c bs)
  have "(of_char c :: nat) < 256" by simp
  then have "(of_char c :: nat) div 16 < 16" by linarith
  moreover have "16 * ((of_char c :: nat) div 16) + of_char c mod 16 = of_char c" by simp
  ultimately show ?case using Cons by (simp add: hex_encode_def hex_value_digit)
qed (simp add: hex_encode_def)

lemma hex_digit_value:
  assumes "is_hex_lower c" and "hex_value c = Some v"
  shows "v < 16" and "hex_digit v = c"
proof -
  have "(of_char (CHR ''0'') :: nat) \<le> of_char c \<and> (of_char c :: nat) \<le> of_char (CHR ''9'') \<and> v = of_char c - 48 \<or>
        (of_char (CHR ''a'') :: nat) \<le> of_char c \<and> (of_char c :: nat) \<le> of_char (CHR ''f'') \<and> v = of_char c - 87"
    using assms by (auto simp: hex_value_def is_hex_lower_def is_digit_def in_range_def split: if_splits)
  then show "v < 16" and "hex_digit v = c" by (auto simp: hex_digit_def)
qed

lemma hex_decode_lower: "hex_decode s = Some bs \<Longrightarrow> list_all is_hex_lower s \<Longrightarrow> hex_encode bs = s"
proof (induction s arbitrary: bs rule: hex_decode.induct)
  case (3 c d rest)
  then obtain h l bs' where v: "hex_value c = Some h" "hex_value d = Some l" and r: "hex_decode rest = Some bs'"
    and bs: "bs = char_of (16 * h + l) # bs'"
    by (auto split: option.splits)
  from v 3 have "h < 16" "l < 16" "hex_digit h = c" "hex_digit l = d" by (auto intro: hex_digit_value)
  moreover from this have "(of_char (char_of (16 * h + l) :: char) :: nat) = 16 * h + l" by simp
  ultimately show ?case using 3 v r bs by (simp add: hex_encode_def)
qed (simp_all add: hex_encode_def)

lemma hex_decode_length: "hex_decode s = Some bs \<Longrightarrow> length s = 2 * length bs"
  by (induction s arbitrary: bs rule: hex_decode.induct) (auto split: option.splits)

end
