(* ===== verification/TrustChecks.thy ===== *)
theory TrustChecks
  imports TrustState HexText
begin

text \<open>
  What the trust coordinator reads off its control view and anchor without changing them, from
  \<^verbatim>\<open>msp04c_coordinator.go\<close>, \<^verbatim>\<open>msp04c_backoff.go\<close>, \<^verbatim>\<open>msp04cr2_predial.go\<close> and
  \<^verbatim>\<open>trust_admin_projection.go\<close>: which associations are usable, which records are valid, how a start
  is classified, and the projection shown to administrators.
\<close>

abbreviation control :: "'w ftc \<Rightarrow> firstTrustControlRecord" where
  "control c \<equiv> cv_control (co_controlView c)"

abbreviation sequence_of :: "firstTrustControlView \<Rightarrow> uint64" where
  "sequence_of v \<equiv> gb_sequence (mb_current (cv_manifest v))"

subsection \<open>Scopes\<close>

definition firstTrustNormalizedSKI :: "bytes \<Rightarrow> string" where
  "firstTrustNormalizedSKI remote = hex_encode remote"

definition firstTrustRuntimeRetryScope :: "'w ftdeps \<Rightarrow> string \<Rightarrow> bytes" where
  "firstTrustRuntimeRetryScope deps normalized =
     d_sha256 deps (''helianthus:first-trust:runtime-retry:v1:'' @ normalized)"

definition retry_scope :: "'w ftdeps \<Rightarrow> bytes \<Rightarrow> bytes" where
  "retry_scope deps remote = firstTrustRuntimeRetryScope deps (firstTrustNormalizedSKI remote)"

text \<open>The identifier of a remote in text: forty lower case hexadecimal digits.\<close>

definition decodeFirstTrustSKI :: "string \<Rightarrow> (bytes \<times> string) option" where
  "decodeFirstTrustSKI value =
     (if length value \<noteq> 40 then None
      else if \<not> list_all is_hex_lower value then None
      else case hex_decode value of
        None \<Rightarrow> None
      | Some decoded \<Rightarrow> if length decoded \<noteq> 20 then None else Some (decoded, value))"

definition constantTimeFingerprintMatch :: "string \<Rightarrow> bytes \<Rightarrow> bool" where
  "constantTimeFingerprintMatch value remote =
     (if length value \<noteq> 40 \<or> length remote \<noteq> 20 then False
      else if \<not> list_all is_hex_lower value then False
      else case hex_decode value of
        None \<Rightarrow> False
      | Some decoded \<Rightarrow> if length decoded \<noteq> length remote then False else decoded = remote)"

text \<open>The comparison accepts exactly the text of the remote.\<close>

lemma fingerprint_match_iff:
  "constantTimeFingerprintMatch value remote \<longleftrightarrow> length remote = 20 \<and> value = firstTrustNormalizedSKI remote"
proof
  assume "constantTimeFingerprintMatch value remote"
  then show "length remote = 20 \<and> value = firstTrustNormalizedSKI remote"
    by (auto simp: constantTimeFingerprintMatch_def firstTrustNormalizedSKI_def hex_decode_lower
        split: if_splits option.splits)
next
  assume "length remote = 20 \<and> value = firstTrustNormalizedSKI remote"
  then show "constantTimeFingerprintMatch value remote"
    by (simp add: constantTimeFingerprintMatch_def firstTrustNormalizedSKI_def length_hex_encode hex_encode_lower)
qed

subsection \<open>Associations\<close>

definition firstTrustAssociationUsable :: "firstTrustAssociationRecord \<Rightarrow> bytes \<Rightarrow> bool" where
  "firstTrustAssociationUsable a lineage \<longleftrightarrow>
     fa_lineage a = lineage \<and> fa_active a \<and> fa_trusted a \<and> fa_allowlisted a \<and> fa_reconnectable a"

definition firstTrustTombstonedLocked :: "'w ftc \<Rightarrow> firstTrustAssociationRecord \<Rightarrow> bool" where
  "firstTrustTombstonedLocked c a =
     (if fa_lineage a \<noteq> cr_associationLineage (control c) then False
      else list_ex (\<lambda>t. tb_associationRef t = fa_reference a) (cr_tombstones (control c)))"

definition association_usable :: "'w ftc \<Rightarrow> firstTrustAssociationRecord \<Rightarrow> bool" where
  "association_usable c a = firstTrustAssociationUsable a (cr_associationLineage (control c))"

definition firstTrustSubjectTombstoned :: "firstTrustControlView \<Rightarrow> bytes \<Rightarrow> bool" where
  "firstTrustSubjectTombstoned view subject =
     list_ex (\<lambda>a. fa_subject a = subject \<and>
        list_ex (\<lambda>t. tb_associationRef t = fa_reference a) (cr_tombstones (cv_control view)))
       (cv_associations view)"

text \<open>An association the coordinator may load as trusted.\<close>

definition association_loadable :: "'w ftc \<Rightarrow> firstTrustAssociationRecord \<Rightarrow> bool" where
  "association_loadable c a \<longleftrightarrow>
     \<not> (\<not> association_usable c a \<or> firstTrustTombstonedLocked c a \<or> length (fa_subject a) \<noteq> 20 \<or> fa_service a = [])"

subsection \<open>Quarantines and receipts\<close>

definition firstTrustQuarantineRecordValid :: "firstTrustQuarantineRecord \<Rightarrow> firstTrustBackoffPolicy \<Rightarrow> bool" where
  "firstTrustQuarantineRecordValid r policy =
     (if bp_base policy \<le> 0 \<or> bp_maximum policy < bp_base policy \<or> bp_exponentCap policy < 0 \<or>
         bp_attemptMaximum policy = 0 \<or> qr_scope r = zero32 \<or> qr_attemptCount r > bp_attemptMaximum policy \<or>
         qr_backoffStep r > of_int (bp_exponentCap policy) \<or> qr_remainingDelay r < 0 \<or>
         qr_remainingDelay r > bp_maximum policy \<or> qr_retentionBudget r < 0
      then False
      else if qr_state r = ''BACKOFF_ACTIVE'' then qr_remainingDelay r > 0
      else if qr_state r = ''RETRY_READY'' then qr_remainingDelay r = 0
      else if qr_state r = ''ADMIN_HOLD'' then True
      else False)"

fun quarantine_at :: "bytes \<Rightarrow> firstTrustQuarantineRecord list \<Rightarrow> (nat \<times> firstTrustQuarantineRecord) option" where
  "quarantine_at scope [] = None"
| "quarantine_at scope (r # rs) =
     (if qr_scope r = scope then Some (0, r)
      else map_option (\<lambda>(i, r). (Suc i, r)) (quarantine_at scope rs))"

definition firstTrustQuarantineLocked :: "'w ftc \<Rightarrow> bytes \<Rightarrow> (nat \<times> firstTrustQuarantineRecord) option" where
  "firstTrustQuarantineLocked c scope = quarantine_at scope (cr_quarantines (control c))"

definition durableReceiptLocked :: "'w ftc \<Rightarrow> bytes \<Rightarrow> firstTrustDurableReceipt option" where
  "durableReceiptLocked c operationID = find (\<lambda>r. rc_operationID r = operationID) (cr_receipts (control c))"

definition firstTrustAppendReceipt ::
  "firstTrustControlRecord \<Rightarrow> firstTrustDurableReceipt \<Rightarrow> firstTrustControlRecord option" where
  "firstTrustAppendReceipt r receipt =
     (if length (cr_receipts r) \<ge> firstTrustMaximumDurableReceipts then None
      else Some (r\<lparr>cr_receipts := cr_receipts r @ [receipt]\<rparr>))"

definition firstTrustRepairKindAllowed :: "string \<Rightarrow> bool" where
  "firstTrustRepairKindAllowed kind =
     List.member [''reconcile_pending_publication'', ''publish_inactive_parent'', ''adopt_copied_current'',
       ''recover_unavailable_host_key'', ''release_retry_quarantine''] kind"

definition reconciliationRequiredLocked :: "'w ftc \<Rightarrow> bool" where
  "reconciliationRequiredLocked c \<longleftrightarrow> ar_pending (co_anchorRecord c) \<noteq> None"

definition firstTrustSaturatingDurationAdd :: "int \<Rightarrow> int \<Rightarrow> int" where
  "firstTrustSaturatingDurationAdd left right =
     (if right > 0 \<and> left > maxInt64 - right then maxInt64 else left + right)"

subsection \<open>Classification of a start\<close>

definition firstTrustStructuralStoreOutcome :: "string \<Rightarrow> string" where
  "firstTrustStructuralStoreOutcome outcome =
     (if List.member [''opened_empty'', ''opened_current'', ''commit_applied_maintenance_failed'',
         ''commit_durability_unknown'', ''bootstrap_durability_unknown'', ''key_provider_unavailable'',
         ''key_material_unavailable''] outcome
      then [] else ''CORRUPT_STORE'')"

definition firstTrustDurabilityUnknownOutcome :: "string \<Rightarrow> bool" where
  "firstTrustDurabilityUnknownOutcome outcome \<longleftrightarrow>
     outcome = ''commit_applied_maintenance_failed'' \<or> outcome = ''commit_durability_unknown'' \<or>
     outcome = ''bootstrap_durability_unknown''"

definition firstTrustAnchorProductReasonLocked :: "'w ftc \<Rightarrow> string" where
  "firstTrustAnchorProductReasonLocked c =
     (let anchor = co_anchorRecord c; ctl = control c in
      if ar_pending anchor \<noteq> None \<or> ar_version anchor \<noteq> firstTrustAnchorVersion \<or>
         ar_anchorIdentity anchor = zero32 \<or> ar_storeInstance anchor = zero32 \<or> cr_storeInstance ctl = zero32
      then ''DURABILITY_UNKNOWN''
      else if ar_storeInstance anchor \<noteq> cr_storeInstance ctl then ''CLONE_DETECTED''
      else if sequence_of (co_controlView c) < ar_manifestGenerationHighWater anchor
      then ''MANIFEST_GENERATION_ROLLBACK''
      else if sequence_of (co_controlView c) \<noteq> ar_manifestGenerationHighWater anchor
      then ''DURABILITY_UNKNOWN''
      else if cr_controlEpoch ctl < ar_controlEpochHighWater anchor then ''CONTROL_EPOCH_ROLLBACK''
      else if cr_controlEpoch ctl \<noteq> ar_controlEpochHighWater anchor then ''DURABILITY_UNKNOWN''
      else [])"

definition firstTrustRecoveredAnchorLocked :: "'w ftc \<Rightarrow> bool" where
  "firstTrustRecoveredAnchorLocked c =
     (if ar_version (co_anchorRecord c) = 0 \<or>
         ar_storeInstance (co_anchorRecord c) \<noteq> cr_storeInstance (control c)
      then False
      else list_ex (\<lambda>r. rc_terminal r \<and> rc_operationClass r = ''recover_unavailable_host_key'' \<and>
             rc_result r = ''repaired_unpaired'') (cr_receipts (control c)))"

text \<open>The loop over the receipts: a revocation withdraws what an earlier repair established.\<close>

fun inherited_terminal :: "bool \<Rightarrow> firstTrustDurableReceipt list \<Rightarrow> bool" where
  "inherited_terminal terminal [] = terminal"
| "inherited_terminal terminal (r # rs) =
     (if rc_operationClass r = ''revocation'' then inherited_terminal False rs
      else if \<not> rc_terminal r \<or> rc_result r \<noteq> ''repaired_unpaired'' then inherited_terminal terminal rs
      else if List.member [''publish_inactive_parent'', ''adopt_copied_current'', ''recover_unavailable_host_key'']
                (rc_operationClass r)
      then inherited_terminal True rs
      else inherited_terminal terminal rs)"

definition firstTrustInheritedRepairTerminalLocked :: "'w ftc \<Rightarrow> bool" where
  "firstTrustInheritedRepairTerminalLocked c =
     (if \<not> inherited_terminal False (cr_receipts (control c)) then False
      else \<not> list_ex (\<lambda>a. fa_active a \<or> fa_trusted a \<or> fa_allowlisted a \<or> fa_reconnectable a)
             (cv_associations (co_controlView c)))"

text \<open>The loop over the associations: \<open>None\<close> when a usable one is tombstoned.\<close>

fun trusted_lineage :: "'w ftc \<Rightarrow> bool \<Rightarrow> firstTrustAssociationRecord list \<Rightarrow> bool option" where
  "trusted_lineage c trusted [] = Some trusted"
| "trusted_lineage c trusted (a # as) =
     (if \<not> association_usable c a then trusted_lineage c trusted as
      else if firstTrustTombstonedLocked c a then None
      else trusted_lineage c True as)"

text \<open>The loop over the quarantines: the reason of the first that holds the start up.\<close>

fun quarantine_hold :: "firstTrustBackoffPolicy \<Rightarrow> firstTrustQuarantineRecord list \<Rightarrow> string option" where
  "quarantine_hold policy [] = None"
| "quarantine_hold policy (q # qs) =
     (if \<not> firstTrustQuarantineRecordValid q policy then Some ''ADMIN_HOLD''
      else if qr_state q = ''ADMIN_HOLD'' \<or> qr_state q = ''BACKOFF_ACTIVE'' then Some (qr_reason q)
      else quarantine_hold policy qs)"

definition persistedRepairReceiptCountLocked :: "'w ftc \<Rightarrow> nat" where
  "persistedRepairReceiptCountLocked c =
     length (filter (\<lambda>r. firstTrustRepairKindAllowed (rc_operationClass r)) (cr_receipts (control c)))"

fun release_receipts :: "bool \<Rightarrow> firstTrustDurableReceipt list \<Rightarrow> bool \<times> bool" where
  "release_receipts found [] = (found, found)"
| "release_receipts found (r # rs) =
     (if rc_operationClass r \<noteq> ''release_retry_quarantine'' then release_receipts found rs
      else if found \<or> \<not> rc_terminal r \<or> rc_operationID r = zero32 \<or> rc_bindingSHA256 r = zero32 \<or>
              rc_result r \<noteq> ''repaired_unpaired''
      then (True, False)
      else release_receipts True rs)"

definition persistedRetryReadyReleaseReceiptLocked :: "'w ftc \<Rightarrow> bool \<times> bool" where
  "persistedRetryReadyReleaseReceiptLocked c = release_receipts False (cr_receipts (control c))"

text \<open>
  The loop over the associations counts the usable ones and those whose scope is the quarantined
  one; \<open>None\<close> when a usable one cannot be loaded.
\<close>

fun retry_matches ::
  "'w ftdeps \<Rightarrow> 'w ftc \<Rightarrow> bytes \<Rightarrow> nat \<Rightarrow> nat \<Rightarrow> firstTrustAssociationRecord \<Rightarrow> firstTrustAssociationRecord list \<Rightarrow>
     (nat \<times> nat \<times> firstTrustAssociationRecord) option" where
  "retry_matches deps c scope usable matched result [] = Some (usable, matched, result)"
| "retry_matches deps c scope usable matched result (a # as) =
     (if \<not> association_usable c a then retry_matches deps c scope usable matched result as
      else if firstTrustTombstonedLocked c a \<or> length (fa_subject a) \<noteq> 20 \<or> fa_service a = [] then None
      else if scope = retry_scope deps (fa_subject a)
      then retry_matches deps c scope (Suc usable) (Suc matched) a as
      else retry_matches deps c scope (Suc usable) matched result as)"

definition persistedRetryReadyRecordAssociationLocked ::
  "'w ftdeps \<Rightarrow> 'w ftc \<Rightarrow> (firstTrustAssociationRecord \<times> bytes) option" where
  "persistedRetryReadyRecordAssociationLocked deps c =
     (case cr_quarantines (control c) of
        [retry] \<Rightarrow>
          if qr_state retry \<noteq> ''RETRY_READY'' \<or> qr_reason retry \<noteq> ''RETRYABLE_FAILURE'' \<or>
             qr_remainingDelay retry \<noteq> 0 \<or> \<not> firstTrustQuarantineRecordValid retry (d_backoffPolicy deps)
          then None
          else (case retry_matches deps c (qr_scope retry) 0 0 association_zero (cv_associations (co_controlView c)) of
              None \<Rightarrow> None
            | Some (usable, matched, result) \<Rightarrow>
                if usable \<noteq> 1 \<or> matched \<noteq> 1 then None else Some (result, qr_scope retry))
      | _ \<Rightarrow> None)"

definition persistedRetryReadyAssociationLocked ::
  "'w ftdeps \<Rightarrow> 'w ftc \<Rightarrow> (firstTrustAssociationRecord \<times> bytes) option" where
  "persistedRetryReadyAssociationLocked deps c =
     (case persistedRetryReadyRecordAssociationLocked deps c of
        None \<Rightarrow> None
      | Some r \<Rightarrow>
          if of_nat (persistedRepairReceiptCountLocked c) \<noteq> cr_repairSequence (control c) \<or>
             \<not> snd (persistedRetryReadyReleaseReceiptLocked c)
          then None else Some r)"

definition retryReadyRecoveryAssociationLocked ::
  "'w ftdeps \<Rightarrow> 'w ftc \<Rightarrow> (firstTrustAssociationRecord \<times> bytes) option" where
  "retryReadyRecoveryAssociationLocked deps c =
     (if co_phase c \<noteq> firstTrustDisabled \<or> co_recovery c \<noteq> ''QUARANTINED'' \<or>
         co_recoveryReasonCode c \<noteq> ''RETRYABLE_FAILURE''
      then None else persistedRetryReadyAssociationLocked deps c)"

definition classifyFirstTrustStartupLocked ::
  "'w ftdeps \<Rightarrow> 'w ftc \<Rightarrow> string \<Rightarrow> string \<Rightarrow> bool \<Rightarrow> string \<times> string" where
  "classifyFirstTrustStartupLocked deps c storeOutcome anchorOutcome retryReadyRecordAtReload =
     (if firstTrustStructuralStoreOutcome storeOutcome \<noteq> [] then
        (''CORRUPT_STORE'', firstTrustStructuralStoreOutcome storeOutcome)
      else if firstTrustDurabilityUnknownOutcome storeOutcome \<or> ar_pending (co_anchorRecord c) \<noteq> None then
        (''QUARANTINED'', ''DURABILITY_UNKNOWN'')
      else if storeOutcome = ''key_provider_unavailable'' \<or> storeOutcome = ''key_material_unavailable'' then
        (''NO_LOCAL_IDENTITY'', ''HOST_KEY_UNAVAILABLE'')
      else if anchorOutcome = ''anchor_unavailable'' \<and> \<not> firstTrustRecoveredAnchorLocked c \<or>
              cr_controlEpoch (control c) = 0 then
        (''NO_LOCAL_IDENTITY'', ''HOST_KEY_UNAVAILABLE'')
      else if anchorOutcome = ''host_binding_mismatch'' then (''QUARANTINED'', ''HOST_BINDING_MISMATCH'')
      else if anchorOutcome \<noteq> ''opened_anchor'' \<and> \<not> firstTrustRecoveredAnchorLocked c then
        (''QUARANTINED'', ''DURABILITY_UNKNOWN'')
      else if firstTrustAnchorProductReasonLocked c \<noteq> [] then
        (''QUARANTINED'', firstTrustAnchorProductReasonLocked c)
      else if firstTrustInheritedRepairTerminalLocked c then (''UNPAIRED_LOCKED'', [])
      else case trusted_lineage c False (cv_associations (co_controlView c)) of
        None \<Rightarrow> (''REVOKED'', ''REVOKED_ASSOCIATION'')
      | Some trusted \<Rightarrow>
          if \<not> trusted \<and> cr_tombstones (control c) \<noteq> [] then (''REVOKED'', ''REVOKED_ASSOCIATION'')
          else (case quarantine_hold (d_backoffPolicy deps) (cr_quarantines (control c)) of
            Some reason \<Rightarrow> (''QUARANTINED'', reason)
          | None \<Rightarrow>
              if trusted then
                if retryReadyRecordAtReload then
                  if of_nat (persistedRepairReceiptCountLocked c) \<noteq> cr_repairSequence (control c) then
                    (''QUARANTINED'', ''DURABILITY_UNKNOWN'')
                  else case persistedRetryReadyReleaseReceiptLocked c of
                    (present, exact) \<Rightarrow>
                      if present then
                        if exact then (''QUARANTINED'', ''RETRYABLE_FAILURE'')
                        else (''QUARANTINED'', ''DURABILITY_UNKNOWN'')
                      else (''PAIRED_TRUSTED'', [])
                else (''PAIRED_TRUSTED'', [])
              else (''UNPAIRED_LOCKED'', [])))"

end
