(* ===== verification/TrustReplays.thy ===== *)
theory TrustReplays
  imports TrustChecks
begin

text \<open>
  The bookkeeping half of \<^verbatim>\<open>first_trust.go\<close> and \<^verbatim>\<open>first_trust_candidates.go\<close>: answers kept for
  replay and keys retired after them, the two timers, the queue of effects, the selection of a
  candidate, and the closing of the pairing window. Ranging over a Go map is ranging over the
  association list.
\<close>

definition time_Minute :: int where "time_Minute = 60 * time_Second"
definition firstTrustMaximumWindow :: int where "firstTrustMaximumWindow = 5 * time_Minute"
definition firstTrustMaximumCandidate :: int where "firstTrustMaximumCandidate = 2 * time_Minute"
definition firstTrustReplayTTL :: int where "firstTrustReplayTTL = 5 * time_Minute"
definition firstTrustRetiredTTL :: int where "firstTrustRetiredTTL = 5 * time_Minute"
definition firstTrustMaximumReplayEntries :: nat where "firstTrustMaximumReplayEntries = 128"
definition firstTrustMaximumIdempotency :: nat where "firstTrustMaximumIdempotency = 256"
definition firstTrustMaximumRetiredKeys :: nat where "firstTrustMaximumRetiredKeys = firstTrustMaximumIdempotency"
definition firstTrustMaximumActiveKeys :: nat where "firstTrustMaximumActiveKeys = 32"
definition firstTrustMaximumKeyBytes :: nat where "firstTrustMaximumKeyBytes = 128"

definition validFirstTrustKey :: "string \<Rightarrow> bool" where
  "validFirstTrustKey value \<longleftrightarrow> length value > 0 \<and> length value \<le> firstTrustMaximumKeyBytes"

subsection \<open>The oldest entry\<close>

definition byte_less :: "string \<Rightarrow> string \<Rightarrow> bool" where
  "byte_less a b = lexordp (\<lambda>x y. (of_char x :: nat) < of_char y) a b"

definition older :: "('v \<Rightarrow> uint64) \<Rightarrow> string \<times> 'v \<Rightarrow> string \<times> uint64 \<Rightarrow> string \<times> uint64" where
  "older seq = (\<lambda>(key, entry) (oldestKey, oldestSequence).
     if oldestKey = [] \<or> seq entry < oldestSequence \<or> seq entry = oldestSequence \<and> byte_less key oldestKey
     then (key, seq entry) else (oldestKey, oldestSequence))"

definition oldest_key :: "('v \<Rightarrow> uint64) \<Rightarrow> (string, 'v) gomap \<Rightarrow> string" where
  "oldest_key seq m = fst (fold (older seq) m ([], 0))"

lemma older_key: "fst (older seq e a) = fst e \<or> fst (older seq e a) = fst a"
  by (auto simp: older_def split: prod.splits)

lemma fold_older_key: "fst (fold (older seq) m a) \<in> insert (fst a) (fst ` set m)"
proof (induction m arbitrary: a)
  case (Cons e m)
  show ?case using Cons.IH [of "older seq e a"] older_key [of seq e a] by auto
qed simp

lemma oldest_key_in: "m \<noteq> [] \<Longrightarrow> oldest_key seq m \<in> fst ` set m"
proof (cases m)
  case (Cons e m')
  have "older seq e ([], 0) = (fst e, seq (snd e))" by (simp add: older_def split: prod.splits)
  then show ?thesis using fold_older_key [of seq m' "(fst e, seq (snd e))"] Cons
    by (auto simp: oldest_key_def)
qed simp

lemma delete_shorter: "k \<in> fst ` set m \<Longrightarrow> length (go_delete k m) < length m"
  unfolding AList.delete_eq by (auto intro: length_filter_less)

subsection \<open>Replays and retired keys\<close>

function evict_retired :: "(string, firstTrustRetired) gomap \<Rightarrow> (string, firstTrustRetired) gomap" where
  "evict_retired m =
     (if length m > firstTrustMaximumRetiredKeys then evict_retired (go_delete (oldest_key rt_sequence m) m) else m)"
  by pat_completeness auto
termination
  by (relation "measure length") (auto intro!: delete_shorter oldest_key_in)

declare evict_retired.simps [simp del]

definition retireReplayLocked ::
  "string \<Rightarrow> firstTrustReplay \<Rightarrow> gotime \<Rightarrow> (string, firstTrustRetired) gomap \<Rightarrow> (string, firstTrustRetired) gomap" where
  "retireReplayLocked key replay now retired =
     (let expiresAt = time_add (re_expiresAt replay) firstTrustRetiredTTL in
      if \<not> Before now expiresAt then retired
      else evict_retired (go_put key \<lparr>rt_expiresAt = expiresAt, rt_sequence = re_sequence replay\<rparr> retired))"

fun prune_expired ::
  "gotime \<Rightarrow> (string \<times> firstTrustReplay) list \<Rightarrow> (string, firstTrustReplay) gomap \<times> (string, firstTrustRetired) gomap \<Rightarrow>
     (string, firstTrustReplay) gomap \<times> (string, firstTrustRetired) gomap" where
  "prune_expired now [] maps = maps"
| "prune_expired now ((key, entry) # rest) (replays, retired) =
     (if \<not> Before now (re_expiresAt entry)
      then prune_expired now rest (go_delete key replays, retireReplayLocked key entry now retired)
      else prune_expired now rest (replays, retired))"

function evict_replays ::
  "gotime \<Rightarrow> (string, firstTrustReplay) gomap \<times> (string, firstTrustRetired) gomap \<Rightarrow>
     (string, firstTrustReplay) gomap \<times> (string, firstTrustRetired) gomap" where
  "evict_replays now (replays, retired) =
     (if length replays > firstTrustMaximumReplayEntries then
        let oldest = oldest_key re_sequence replays in
        evict_replays now (go_delete oldest replays,
          case go_lookup replays oldest of
            None \<Rightarrow> retired | Some entry \<Rightarrow> retireReplayLocked oldest entry now retired)
      else (replays, retired))"
  by pat_completeness auto
termination
  by (relation "measure (\<lambda>(_, replays, _). length replays)") (auto intro!: delete_shorter oldest_key_in)

declare evict_replays.simps [simp del]

definition stopRetentionTimerLocked :: "('w, unit) top" where
  "stopRetentionTimerLocked = poke (\<lambda>c. c\<lparr>co_retentionToken := co_retentionToken c + 1, co_retentionTimer := None\<rparr>)"

definition earliest :: "gotime list \<Rightarrow> gotime" where
  "earliest ts = fold (\<lambda>t deadline. if IsZero deadline \<or> Before t deadline then t else deadline) ts zero_time"

text \<open>The clock is read for the delay of the timer only; the timer carries its token.\<close>

definition scheduleRetentionExpiryLocked :: "'w ftdeps \<Rightarrow> ('w, unit) top" where
  "scheduleRetentionExpiryLocked deps = do {
     stopRetentionTimerLocked;
     deadline \<leftarrow> peek (\<lambda>c. earliest (map (re_expiresAt \<circ> snd) (co_replays c) @ map (rt_expiresAt \<circ> snd) (co_retired c)));
     if IsZero deadline then nop
     else do {
       poke (\<lambda>c. c\<lparr>co_retentionToken := co_retentionToken c + 1\<rparr>);
       now \<leftarrow> call (d_now deps);
       poke (\<lambda>c. c\<lparr>co_retentionTimer := Some (co_retentionToken c)\<rparr>)
     }
   }"

definition pruneReplaysLocked :: "'w ftdeps \<Rightarrow> gotime \<Rightarrow> ('w, unit) top" where
  "pruneReplaysLocked deps now = do {
     poke (\<lambda>c. let maps = prune_expired now (co_replays c) (co_replays c, co_retired c) in
       c\<lparr>co_replays := fst maps, co_retired := filter (\<lambda>kv. Before now (rt_expiresAt (snd kv))) (snd maps)\<rparr>);
     scheduleRetentionExpiryLocked deps
   }"

definition recordReplayLocked ::
  "'w ftdeps \<Rightarrow> string \<Rightarrow> firstTrustRequest \<Rightarrow> string \<Rightarrow> gotime \<Rightarrow> ('w, unit) top" where
  "recordReplayLocked deps key request result now =
     (if \<not> validFirstTrustKey key then nop
      else do {
        pruneReplaysLocked deps now;
        poke (\<lambda>c. c\<lparr>co_replaySequence := co_replaySequence c + 1\<rparr>);
        poke (\<lambda>c. c\<lparr>co_replays := go_put key \<lparr>re_request = request, re_result = result,
            re_expiresAt = time_add now firstTrustReplayTTL, re_sequence = co_replaySequence c\<rparr> (co_replays c)\<rparr>);
        poke (\<lambda>c. let maps = evict_replays now (co_replays c, co_retired c) in
          c\<lparr>co_replays := fst maps, co_retired := snd maps\<rparr>);
        scheduleRetentionExpiryLocked deps
      })"

text \<open>The answer kept for a key: a conflict when the request differs, stale when the key is retired.\<close>

definition replayLocked :: "'w ftdeps \<Rightarrow> string \<Rightarrow> firstTrustRequest \<Rightarrow> gotime \<Rightarrow> ('w, string option) top" where
  "replayLocked deps key request now = do {
     pruneReplaysLocked deps now;
     peek (\<lambda>c. case go_lookup (co_replays c) key of
         Some entry \<Rightarrow>
           if \<not> firstTrustRequest_equal (re_request entry) request then Some ''idempotency_conflict''
           else Some (re_result entry)
       | None \<Rightarrow> (case go_lookup (co_retired c) key of None \<Rightarrow> None | Some _ \<Rightarrow> Some ''stale_request''))
   }"

text \<open>The callback of the retention timer.\<close>

definition retention_fired :: "'w ftdeps \<Rightarrow> uint64 \<Rightarrow> ('w, unit) top" where
  "retention_fired deps token = do {
     current \<leftarrow> peek co_retentionToken;
     (if current \<noteq> token then nop
      else do {
        poke (\<lambda>c. c\<lparr>co_retentionTimer := None\<rparr>);
        now \<leftarrow> call (d_now deps);
        pruneReplaysLocked deps now
      });
     mu_Unlock
   }"

subsection \<open>Timer of the window\<close>

definition stopTimerLocked :: "('w, unit) top" where
  "stopTimerLocked = poke (\<lambda>c. c\<lparr>co_timerToken := co_timerToken c + 1, co_timer := None\<rparr>)"

definition scheduleExpiryLocked :: "'w ftdeps \<Rightarrow> gotime \<Rightarrow> ('w, unit) top" where
  "scheduleExpiryLocked deps deadline = do {
     stopTimerLocked;
     poke (\<lambda>c. c\<lparr>co_timerToken := co_timerToken c + 1\<rparr>);
     now \<leftarrow> call (d_now deps);
     poke (\<lambda>c. c\<lparr>co_timer := Some (co_timerToken c, deadline)\<rparr>)
   }"

subsection \<open>Effects\<close>

definition queue_effect :: "firstTrustEffectKind \<Rightarrow> bytes \<Rightarrow> uint64 \<Rightarrow> ('w, unit) top" where
  "queue_effect kind remote connection = poke (\<lambda>c.
     if co_effectsPresent c
     then c\<lparr>co_pendingEffects := co_pendingEffects c @ [\<lparr>ef_kind = kind, ef_remote = remote, ef_connection = connection\<rparr>]\<rparr>
     else c)"

definition cancelRemoteLocked :: "bytes \<Rightarrow> uint64 \<Rightarrow> ('w, unit) top" where
  "cancelRemoteLocked remote connection = queue_effect firstTrustEffectCancel remote connection"

definition cancelUnboundRemoteLocked :: "bytes \<Rightarrow> ('w, unit) top" where
  "cancelUnboundRemoteLocked remote = queue_effect firstTrustEffectCancelUnbound remote 0"

definition registerRemoteLocked :: "bytes \<Rightarrow> uint64 \<Rightarrow> ('w, unit) top" where
  "registerRemoteLocked remote connection = queue_effect firstTrustEffectRegister remote connection"

definition registerTransientRemoteLocked :: "bytes \<Rightarrow> uint64 \<Rightarrow> ('w, unit) top" where
  "registerTransientRemoteLocked remote connection = queue_effect firstTrustEffectTransientRegister remote connection"

definition finalizeTransientRemoteLocked :: "bytes \<Rightarrow> uint64 \<Rightarrow> ('w, unit) top" where
  "finalizeTransientRemoteLocked remote connection = queue_effect firstTrustEffectTransientFinalize remote connection"

text \<open>The callers pass the current candidate, whose flag records that the revocation is queued.\<close>

definition revokeTransientTrustLocked :: "('w, unit) top" where
  "revokeTransientTrustLocked = do {
     candidate \<leftarrow> peek co_currentCandidate;
     case candidate of
       None \<Rightarrow> nop
     | Some ca \<Rightarrow>
         if \<not> ca_transientAuthorized ca \<or> ca_transientRevocationQueued ca then nop
         else do {
           poke (\<lambda>c. c\<lparr>co_currentCandidate := Some (ca\<lparr>ca_transientRevocationQueued := True\<rparr>)\<rparr>);
           queue_effect firstTrustEffectTransientUnregister (ca_remote ca) (ca_connection ca)
         }
   }"

definition cancel_current_remote :: "('w, unit) top" where
  "cancel_current_remote = do {
     candidate \<leftarrow> peek co_currentCandidate;
     case candidate of None \<Rightarrow> nop | Some ca \<Rightarrow> cancelRemoteLocked (ca_remote ca) (ca_connection ca)
   }"

subsection \<open>Selection of a candidate\<close>

definition cancelCandidateSelectionLocked :: "('w, unit) top" where
  "cancelCandidateSelectionLocked = do {
     selection \<leftarrow> peek co_candidateSelection;
     case selection of
       None \<Rightarrow> nop
     | Some se \<Rightarrow>
         if se_cancelIssued se then nop
         else do {
           poke (\<lambda>c. c\<lparr>co_candidateSelection := Some (se\<lparr>se_cancelled := True, se_cancelIssued := True\<rparr>)\<rparr>);
           cancelUnboundRemoteLocked (se_remote se)
         }
   }"

definition finishCandidateSelectionLocked :: "string \<Rightarrow> bool \<Rightarrow> ('w, unit) top" where
  "finishCandidateSelectionLocked outcome cancel = do {
     present \<leftarrow> peek (\<lambda>c. co_candidateSelection c \<noteq> None);
     if \<not> present then nop
     else do {
       whenever cancel cancelCandidateSelectionLocked;
       poke (\<lambda>c. case co_candidateSelection c of
           None \<Rightarrow> c
         | Some se \<Rightarrow>
             if \<not> se_completed se then
               c\<lparr>co_candidateSelection := Some (if se_abortOutcome se = [] then se\<lparr>se_abortOutcome := outcome\<rparr> else se)\<rparr>
             else c\<lparr>co_candidateSelection := None\<rparr>)
     }
   }"

definition resetCandidateDiscoveryLocked :: "string \<Rightarrow> ('w, unit) top" where
  "resetCandidateDiscoveryLocked state = do {
     poke (\<lambda>c. c\<lparr>co_discoveredCandidates := [],
       co_candidateSnapshotState := (if state = [] then ''empty'' else state),
       co_candidateSnapshotInvalidReason := [], co_candidateSnapshotRevision := 0\<rparr>);
     finishCandidateSelectionLocked ''stale_request'' True;
     poke (\<lambda>c. case co_candidateSelection c of
         Some se \<Rightarrow> if se_completed se then c\<lparr>co_candidateSelection := None\<rparr> else c
       | None \<Rightarrow> c)
   }"

definition phase_pairing :: "firstTrustPhase \<Rightarrow> bool" where
  "phase_pairing phase = (phase = firstTrustOpenEmpty \<or> phase = firstTrustCandidatePending \<or>
     phase = firstTrustTransientTrusted \<or> phase = firstTrustCommitting)"

definition selectedCandidateMatchesLocked :: "'w ftc \<Rightarrow> bytes \<Rightarrow> bool" where
  "selectedCandidateMatchesLocked c remote =
     (case co_candidateSelection c of
        None \<Rightarrow> False
      | Some se \<Rightarrow> \<not> se_cancelled se \<and> length remote = 20 \<and> se_remote se = remote \<and> phase_pairing (co_phase c))"

subsection \<open>Requests of the candidate\<close>

definition finish_requests :: "'w ftdeps \<Rightarrow> (string \<Rightarrow> bool) \<Rightarrow> string \<Rightarrow> gotime \<Rightarrow> ('w, unit) top" where
  "finish_requests deps included result now = do {
     candidate \<leftarrow> peek co_currentCandidate;
     case candidate of
       None \<Rightarrow> nop
     | Some ca \<Rightarrow> each (\<lambda>(key, request). whenever (included key) (recordReplayLocked deps key request result now))
                    (ca_requests ca)
   }"

definition finishCandidateRequestsLocked :: "'w ftdeps \<Rightarrow> string \<Rightarrow> gotime \<Rightarrow> ('w, unit) top" where
  "finishCandidateRequestsLocked deps result now = finish_requests deps (\<lambda>_. True) result now"

definition finishCandidateRequestsExceptLocked ::
  "'w ftdeps \<Rightarrow> string \<Rightarrow> string \<Rightarrow> gotime \<Rightarrow> ('w, unit) top" where
  "finishCandidateRequestsExceptLocked deps excludedKey result now =
     finish_requests deps (\<lambda>key. key \<noteq> excludedKey) result now"

subsection \<open>Registration for pairing\<close>

definition failPairingRegistrationLocked :: "('w, unit) top" where
  "failPairingRegistrationLocked = do {
     revokeTransientTrustLocked;
     cancel_current_remote;
     poke (\<lambda>c. c\<lparr>co_pairingRegistrationFault := True, co_phase := firstTrustDisabled, co_window := None,
       co_currentCandidate := None\<rparr>);
     finishCandidateSelectionLocked ''pairing_registration_failed'' True;
     poke (\<lambda>c. c\<lparr>co_reopening := False, co_recovery := ''QUARANTINED'',
       co_recoveryReasonCode := ''PAIRING_REGISTRATION_FAILED'', co_trustedRemotes := []\<rparr>);
     stopTimerLocked
   }"

text \<open>The lock is given up around the effect; the answer is whether it succeeded.\<close>

definition setWaitingLocked :: "'w ftdeps \<Rightarrow> bool \<Rightarrow> ('w, bool) top" where
  "setWaitingLocked deps value = do {
     fault \<leftarrow> peek co_pairingRegistrationFault;
     if fault then do {failPairingRegistrationLocked; give False}
     else do {
       present \<leftarrow> peek co_effectsPresent;
       same \<leftarrow> peek (\<lambda>c. co_pairingRegistrationKnown c \<and> co_pairingRegistrationEnabled c = value);
       if \<not> present then give True
       else if same then give True
       else do {
         d_others deps;
         ok \<leftarrow> call (e_setWaiting (d_effects deps) value);
         d_others deps;
         if \<not> ok then do {failPairingRegistrationLocked; give False}
         else do {
           poke (\<lambda>c. c\<lparr>co_pairingRegistrationKnown := True, co_pairingRegistrationEnabled := value\<rparr>);
           give True
         }
       }
     }
   }"

definition pairingRegistrationInitialized :: "bool \<Rightarrow> ('w, unit) top" where
  "pairingRegistrationInitialized value = do {
     poke (\<lambda>c. if co_pairingRegistrationFault c then c
       else c\<lparr>co_pairingRegistrationKnown := True, co_pairingRegistrationEnabled := value\<rparr>);
     mu_Unlock
   }"

definition pairingRegistrationFailed :: "('w, unit) top" where
  "pairingRegistrationFailed = do {failPairingRegistrationLocked; mu_Unlock}"

subsection \<open>Closing the window\<close>

definition open_request :: "int \<Rightarrow> firstTrustRequest" where
  "open_request duration = request_zero\<lparr>rq_operation := ''open'', rq_duration := duration\<rparr>"

definition closeWindowLocked :: "'w ftdeps \<Rightarrow> string \<Rightarrow> gotime \<Rightarrow> bool \<Rightarrow> ('w, bool) top" where
  "closeWindowLocked deps result now cancelCandidate = do {
     window \<leftarrow> peek co_window;
     (case window of None \<Rightarrow> nop
      | Some w \<Rightarrow> recordReplayLocked deps (win_key w) (open_request (win_duration w)) result now);
     present \<leftarrow> peek (\<lambda>c. co_currentCandidate c \<noteq> None);
     whenever (cancelCandidate \<and> present) (do {
       finishCandidateRequestsLocked deps result now;
       revokeTransientTrustLocked;
       cancel_current_remote
     });
     whenever (cancelCandidate \<or> \<not> present) (finishCandidateSelectionLocked result True);
     poke (\<lambda>c. c\<lparr>co_window := None, co_currentCandidate := None, co_phase := firstTrustPairingClosed\<rparr>);
     stopTimerLocked;
     setWaitingLocked deps False
   }"

text \<open>Back to an open window without candidate, or to a closed one when its time is over.\<close>

definition reopen_or_close :: "'w ftdeps \<Rightarrow> gotime \<Rightarrow> ('w, bool \<times> bool) top" where
  "reopen_or_close deps now = do {
     window \<leftarrow> peek co_window;
     case window of
       Some w \<Rightarrow>
         if Before now (win_deadline w) then do {
           poke (\<lambda>c. c\<lparr>co_phase := firstTrustOpenEmpty\<rparr>);
           scheduleExpiryLocked deps (win_deadline w);
           give (True, True)
         }
         else do {ok \<leftarrow> closeWindowLocked deps ''pairing_closed'' now False; give (False, ok)}
     | None \<Rightarrow> do {ok \<leftarrow> closeWindowLocked deps ''pairing_closed'' now False; give (False, ok)}
   }"

definition expire_candidate :: "'w ftdeps \<Rightarrow> gotime \<Rightarrow> ('w, unit) top" where
  "expire_candidate deps now = do {
     finishCandidateRequestsLocked deps ''candidate_expired'' now;
     revokeTransientTrustLocked;
     cancel_current_remote;
     poke (\<lambda>c. c\<lparr>co_currentCandidate := None\<rparr>);
     finishCandidateSelectionLocked ''candidate_expired'' True;
     _ \<leftarrow> reopen_or_close deps now;
     nop
   }"

definition expireLocked :: "'w ftdeps \<Rightarrow> gotime \<Rightarrow> ('w, unit) top" where
  "expireLocked deps now = do {
     pruneReplaysLocked deps now;
     expired \<leftarrow> peek (\<lambda>c. (co_phase c = firstTrustCandidatePending \<or> co_phase c = firstTrustTransientTrusted) \<and>
       (case co_currentCandidate c of None \<Rightarrow> False | Some ca \<Rightarrow> \<not> Before now (ca_expiresAt ca)));
     whenever expired (expire_candidate deps now);
     over \<leftarrow> peek (\<lambda>c. (case co_window c of None \<Rightarrow> False | Some w \<Rightarrow> \<not> Before now (win_deadline w)) \<and>
       co_phase c \<noteq> firstTrustCommitting);
     whenever over (do {_ \<leftarrow> closeWindowLocked deps ''pairing_closed'' now True; nop})
   }"

definition expire_now :: "'w ftdeps \<Rightarrow> ('w, gotime) top" where
  "expire_now deps = do {now \<leftarrow> call (d_now deps); expireLocked deps now; give now}"

text \<open>The callback of the window's timer.\<close>

definition expiry_fired :: "'w ftdeps \<Rightarrow> uint64 \<Rightarrow> gotime \<Rightarrow> ('w, unit) top" where
  "expiry_fired deps token deadline = do {
     current \<leftarrow> peek co_timerToken;
     (if current \<noteq> token then nop
      else do {poke (\<lambda>c. c\<lparr>co_timer := None\<rparr>); expireLocked deps deadline});
     mu_Unlock
   }"

end
