(* ===== verification/TrustProjection.thy ===== *)
theory TrustProjection
  imports TrustReplays
begin

text \<open>
  \<^verbatim>\<open>src/internal/eebusfacade/trust_admin_projection.go\<close>: what administrators and the runtime graph
  are shown of the trust state, when they are told of a change, and how a projection is applied
  to the graph.
\<close>

definition trustAdminProjectionContract :: string where
  "trustAdminProjectionContract = ''helianthus.eebus.trust-admin-projection.v1''"

definition firstTrustProjectionPhase :: "firstTrustPhase \<Rightarrow> string \<times> bool" where
  "firstTrustProjectionPhase phase =
     (case phase of
        firstTrustDisabled \<Rightarrow> (''DISABLED'', True)
      | firstTrustPairingClosed \<Rightarrow> (''PAIRING_CLOSED'', True)
      | firstTrustOpenEmpty \<Rightarrow> (''OPEN_EMPTY'', True)
      | firstTrustCandidatePending \<Rightarrow> (''CANDIDATE_PENDING'', True)
      | firstTrustTransientTrusted \<Rightarrow> (''TRANSIENT_TRUSTED'', True)
      | firstTrustCommitting \<Rightarrow> (''COMMITTING'', True))"

definition phaseNameLocked :: "'w ftc \<Rightarrow> string" where
  "phaseNameLocked c =
     (case co_phase c of
        firstTrustPairingClosed \<Rightarrow> ''PAIRING_CLOSED''
      | firstTrustOpenEmpty \<Rightarrow> ''OPEN_EMPTY''
      | firstTrustCandidatePending \<Rightarrow> ''CANDIDATE_PENDING''
      | firstTrustTransientTrusted \<Rightarrow> ''TRANSIENT_TRUSTED''
      | firstTrustCommitting \<Rightarrow> ''COMMITTING''
      | firstTrustDisabled \<Rightarrow> ''DISABLED'')"

definition firstTrustPhaseFromName :: "string \<Rightarrow> firstTrustPhase" where
  "firstTrustPhaseFromName value =
     (if value = ''PAIRING_CLOSED'' then firstTrustPairingClosed
      else if value = ''OPEN_EMPTY'' then firstTrustOpenEmpty
      else if value = ''CANDIDATE_PENDING'' then firstTrustCandidatePending
      else if value = ''TRANSIENT_TRUSTED'' then firstTrustTransientTrusted
      else if value = ''COMMITTING'' then firstTrustCommitting
      else firstTrustDisabled)"

lemma phase_from_name [simp]: "firstTrustPhaseFromName (phaseNameLocked c) = co_phase c"
  by (simp add: firstTrustPhaseFromName_def phaseNameLocked_def split: firstTrustPhase.splits)

subsection \<open>What the quarantines say\<close>

definition candidate_phase :: "firstTrustPhase \<Rightarrow> bool" where
  "candidate_phase phase \<longleftrightarrow> phase = firstTrustCandidatePending \<or> phase = firstTrustTransientTrusted \<or>
     phase = firstTrustCommitting"

definition trustAdminVolatileCandidateQuarantineLocked :: "'w ftdeps \<Rightarrow> 'w ftc \<Rightarrow> firstTrustQuarantineRecord \<Rightarrow> bool" where
  "trustAdminVolatileCandidateQuarantineLocked deps c r =
     (case co_currentCandidate c of
        None \<Rightarrow> False
      | Some ca \<Rightarrow>
          if length (ca_remote ca) \<noteq> 20 \<or> \<not> candidate_phase (co_phase c) then False
          else qr_scope r = retry_scope deps (ca_remote ca))"

definition trustAdminHasQuarantineStateLocked :: "'w ftdeps \<Rightarrow> 'w ftc \<Rightarrow> string \<Rightarrow> bool" where
  "trustAdminHasQuarantineStateLocked deps c state =
     list_ex (\<lambda>r. qr_state r = state \<and> firstTrustQuarantineRecordValid r (d_backoffPolicy deps)) (cr_quarantines (control c))"

definition trustAdminHasRetryQuarantineLocked :: "'w ftdeps \<Rightarrow> 'w ftc \<Rightarrow> bool" where
  "trustAdminHasRetryQuarantineLocked deps c =
     list_ex (\<lambda>r. (qr_state r = ''BACKOFF_ACTIVE'' \<or> qr_state r = ''RETRY_READY'') \<and>
        firstTrustQuarantineRecordValid r (d_backoffPolicy deps)) (cr_quarantines (control c))"

definition trustAdminHasTerminalQuarantineLocked :: "'w ftc \<Rightarrow> bool" where
  "trustAdminHasTerminalQuarantineLocked c = list_ex (\<lambda>r. qr_state r = ''ADMIN_HOLD'') (cr_quarantines (control c))"

definition trustAdminTerminalDenialLocked :: "'w ftc \<Rightarrow> bool" where
  "trustAdminTerminalDenialLocked c =
     (if co_recovery c = ''REVOKED'' \<or> trustAdminHasTerminalQuarantineLocked c then True
      else list_ex (\<lambda>a. fa_lineage a = cr_associationLineage (control c) \<and> firstTrustTombstonedLocked c a)
             (cv_associations (co_controlView c)))"

text \<open>The usable associations of a remote.\<close>

definition remote_matches :: "'w ftc \<Rightarrow> bytes \<Rightarrow> nat" where
  "remote_matches c remote =
     length (filter (\<lambda>a. fa_subject a = remote \<and> association_usable c a \<and> \<not> firstTrustTombstonedLocked c a)
       (cv_associations (co_controlView c)))"

definition quarantine_indeterminate :: "'w ftdeps \<Rightarrow> 'w ftc \<Rightarrow> bytes list \<Rightarrow> firstTrustQuarantineRecord \<Rightarrow> bool" where
  "quarantine_indeterminate deps c remotes r =
     (if \<not> firstTrustQuarantineRecordValid r (d_backoffPolicy deps) then True
      else if trustAdminVolatileCandidateQuarantineLocked deps c r then False
      else if qr_state r = ''RETRY_READY'' \<or> qr_state r = ''BACKOFF_ACTIVE'' then
        length (filter (\<lambda>remote. qr_scope r = retry_scope deps remote) remotes) \<noteq> 1
      else if qr_state r = ''ADMIN_HOLD'' then False
      else True)"

definition recovery_indeterminate :: "'w ftdeps \<Rightarrow> 'w ftc \<Rightarrow> bool" where
  "recovery_indeterminate deps c =
     (if co_recovery c = ''CORRUPT_STORE'' then True
      else if co_recovery c = ''QUARANTINED'' then
        if List.member [''DURABILITY_UNKNOWN'', ''HOST_BINDING_MISMATCH'', ''CLONE_DETECTED'',
             ''MANIFEST_GENERATION_ROLLBACK'', ''CONTROL_EPOCH_ROLLBACK''] (co_recoveryReasonCode c) then True
        else if co_recoveryReasonCode c = ''ADMIN_HOLD'' \<or> co_recoveryReasonCode c = ''HANDSHAKE_ATTEMPT_LIMIT'' then
          \<not> trustAdminHasQuarantineStateLocked deps c ''ADMIN_HOLD''
        else if co_recoveryReasonCode c = ''RETRYABLE_FAILURE'' then \<not> trustAdminHasRetryQuarantineLocked deps c
        else True
      else if co_recovery c = ''NO_LOCAL_IDENTITY'' then
        co_recoveryReasonCode c \<noteq> [] \<and> co_recoveryReasonCode c \<noteq> ''HOST_KEY_UNAVAILABLE''
      else if co_recovery c = ''UNPAIRED_LOCKED'' \<or> co_recovery c = ''PAIRED_TRUSTED'' then
        co_recoveryReasonCode c \<noteq> []
      else if co_recovery c = ''REVOKED'' then co_recoveryReasonCode c \<noteq> ''REVOKED_ASSOCIATION''
      else True)"

definition trustAdminStructuralIndeterminateLocked ::
  "'w ftdeps \<Rightarrow> 'w ftc \<Rightarrow> bytes list \<Rightarrow> string \<Rightarrow> bool \<Rightarrow> bool" where
  "trustAdminStructuralIndeterminateLocked deps c remotes phase phaseKnown =
     (if \<not> phaseKnown \<or> \<not> firstTrustProductAllowed phase (co_recovery c) \<or> co_reopening c \<or>
         ar_pending (co_anchorRecord c) \<noteq> None then True
      else if (case co_recoveryOperation c of None \<Rightarrow> False
               | Some operation \<Rightarrow> ro_operationClass operation \<noteq> ''first_trust'' \<and> ro_operationClass operation \<noteq> ''revocation'')
      then True
      else if list_ex (quarantine_indeterminate deps c remotes) (cr_quarantines (control c)) then True
      else if list_ex (\<lambda>remote. remote_matches c remote > 1) remotes then True
      else if co_recovery c \<noteq> ''NO_LOCAL_IDENTITY'' \<and> firstTrustAnchorProductReasonLocked c \<noteq> [] then True
      else recovery_indeterminate deps c)"

subsection \<open>The projection\<close>

definition mutation_available :: "'w ftc \<Rightarrow> bool" where
  "mutation_available c \<longleftrightarrow> snd (firstTrustProjectionPhase (co_phase c)) \<and> co_phase c \<noteq> firstTrustDisabled \<and>
     \<not> co_reopening c \<and> co_recoveryOperation c = None \<and> ar_pending (co_anchorRecord c) = None"

definition remote_projections :: "(nat \<Rightarrow> bytes \<Rightarrow> string \<times> bool) \<Rightarrow> bytes list \<Rightarrow> trustAdminRemoteProjection list" where
  "remote_projections f remotes =
     map (\<lambda>(index, remote). \<lparr>tr_configuredIndex = index, tr_state = fst (f index remote), tr_paired = snd (f index remote)\<rparr>)
       (enumerate 0 remotes)"

definition captureTrustAdminProjectionLocked :: "'w ftdeps \<Rightarrow> 'w ftc \<Rightarrow> trustAdminProjection" where
  "captureTrustAdminProjectionLocked deps c =
     (case co_trustAdminProjection c of
        None \<Rightarrow> \<lparr>tp_contract = trustAdminProjectionContract, tp_revision = co_trustAdminRevision c, tp_phase = [],
          tp_recovery = [], tp_mutationAvailable = False, tp_degradation = ''denied-trust'', tp_remotes = []\<rparr>
      | Some binding \<Rightarrow>
          (let phase = firstTrustProjectionPhase (co_phase c);
               shown = (\<lambda>degradation f.
                 \<lparr>tp_contract = trustAdminProjectionContract, tp_revision = co_trustAdminRevision c,
                  tp_phase = fst phase, tp_recovery = co_recovery c, tp_mutationAvailable = mutation_available c,
                  tp_degradation = degradation, tp_remotes = remote_projections f (tpb_remotes binding)\<rparr>)
           in if trustAdminStructuralIndeterminateLocked deps c (tpb_remotes binding) (fst phase) (snd phase)
              then shown ''denied-trust'' (\<lambda>_ _. (''unknown'', False))
              else if trustAdminTerminalDenialLocked c then shown ''denied-trust'' (\<lambda>_ _. (''denied'', False))
              else if co_recovery c = ''NO_LOCAL_IDENTITY''
              then shown ''certificate-unavailable'' (\<lambda>_ _. (''unknown'', False))
              else if co_recovery c \<noteq> ''PAIRED_TRUSTED'' \<and>
                      \<not> (co_recovery c = ''QUARANTINED'' \<and> co_recoveryReasonCode c = ''RETRYABLE_FAILURE'')
              then shown [] (\<lambda>_ _. (''unpaired'', False))
              else shown [] (\<lambda>_ remote. if remote_matches c remote = 1 then (''paired'', True) else (''unpaired'', False))))"

definition trustAdminProjectionEqual :: "trustAdminProjection \<Rightarrow> trustAdminProjection \<Rightarrow> bool" where
  "trustAdminProjectionEqual left right =
     (if tp_contract left \<noteq> tp_contract right \<or> tp_phase left \<noteq> tp_phase right \<or>
         tp_recovery left \<noteq> tp_recovery right \<or> tp_mutationAvailable left \<noteq> tp_mutationAvailable right \<or>
         tp_degradation left \<noteq> tp_degradation right \<or> length (tp_remotes left) \<noteq> length (tp_remotes right)
      then False
      else list_all2 (=) (tp_remotes left) (tp_remotes right))"

text \<open>Two projections that count as equal differ in their revision at most.\<close>

lemma projection_equal_iff:
  "trustAdminProjectionEqual left right \<longleftrightarrow> right = left\<lparr>tp_revision := tp_revision right\<rparr>"
  by (cases left; cases right) (auto simp: trustAdminProjectionEqual_def list_all2_eq [symmetric])

definition record_projection :: "trustAdminProjectionBinding \<Rightarrow> trustAdminProjection \<Rightarrow> ('w, trustAdminProjection) top" where
  "record_projection binding projection = do {
     poke (\<lambda>c. c\<lparr>co_trustAdminRevision := co_trustAdminRevision c + 1\<rparr>);
     revision \<leftarrow> peek co_trustAdminRevision;
     poke (\<lambda>c. c\<lparr>co_trustAdminProjection := Some (binding\<lparr>tpb_last := projection\<lparr>tp_revision := revision\<rparr>\<rparr>)\<rparr>);
     give (projection\<lparr>tp_revision := revision\<rparr>)
   }"

definition notifyTrustAdminProjection :: "'w ftdeps \<Rightarrow> ('w, unit) top" where
  "notifyTrustAdminProjection deps = do {
     binding \<leftarrow> peek co_trustAdminProjection;
     case binding of
       None \<Rightarrow> mu_Unlock
     | Some b \<Rightarrow> do {
         projection \<leftarrow> peek (captureTrustAdminProjectionLocked deps);
         if trustAdminProjectionEqual (tpb_last b) projection then mu_Unlock
         else do {
           told \<leftarrow> record_projection b projection;
           mu_Unlock;
           call (d_observer deps told)
         }
       }
   }"

definition unlockAndNotifyTrustAdminProjectionChange :: "'w ftdeps \<Rightarrow> ('w, unit) top" where
  "unlockAndNotifyTrustAdminProjectionChange deps = do {
     after \<leftarrow> peek (captureTrustAdminProjectionLocked deps);
     binding \<leftarrow> peek co_trustAdminProjection;
     case binding of
       None \<Rightarrow> mu_Unlock
     | Some b \<Rightarrow>
         if trustAdminProjectionEqual (tpb_last b) after then mu_Unlock
         else do {
           told \<leftarrow> record_projection b after;
           mu_Unlock;
           call (d_observer deps told)
         }
   }"

text \<open>Binding the projection to the configured remotes, which must be 20 bytes each and in order.\<close>

fun remotes_ordered :: "bytes list \<Rightarrow> bool" where
  "remotes_ordered (a # b # rest) = (byte_less a b \<and> remotes_ordered (b # rest))"
| "remotes_ordered _ = True"

definition bindTrustAdminProjection :: "'w ftdeps \<Rightarrow> bytes list \<Rightarrow> ('w, bool) top" where
  "bindTrustAdminProjection deps remotes =
     (if \<not> list_all (\<lambda>remote. length remote = 20) remotes \<or> \<not> remotes_ordered remotes then give False
      else do {
        bound \<leftarrow> peek (\<lambda>c. co_trustAdminProjection c \<noteq> None);
        if bound then do {mu_Unlock; give False}
        else do {
          unshown \<leftarrow> peek (captureTrustAdminProjectionLocked deps);
          poke (\<lambda>c. c\<lparr>co_trustAdminProjection := Some \<lparr>tpb_remotes = remotes, tpb_last = unshown\<rparr>,
            co_trustAdminRevision := co_trustAdminRevision c + 1\<rparr>);
          projection \<leftarrow> peek (captureTrustAdminProjectionLocked deps);
          poke (\<lambda>c. c\<lparr>co_trustAdminProjection := Some \<lparr>tpb_remotes = remotes, tpb_last = projection\<rparr>\<rparr>);
          mu_Unlock;
          call (d_observer deps projection);
          give True
        }
      })"

definition trustAdminLivenessAllowed :: "'w ftc \<Rightarrow> string \<Rightarrow> bool" where
  "trustAdminLivenessAllowed c ski =
     (case hex_decode ski of
        None \<Rightarrow> False
      | Some remote \<Rightarrow>
          if length remote \<noteq> 20 then False
          else case co_currentCandidate c of
            None \<Rightarrow> True
          | Some ca \<Rightarrow> ca_remote ca \<noteq> remote \<or> \<not> candidate_phase (co_phase c))"

subsection \<open>The runtime graph\<close>

text \<open>The fields of an observation that a projection sets; the others are the record's extension.\<close>

record runtimeGraphObservation =
  go_RemoteSKI :: string
  go_PairingState :: string
  go_Paired :: bool
  go_TrustDegradation :: string

fun remotes_valid :: "nat \<Rightarrow> trustAdminRemoteProjection list \<Rightarrow> bool" where
  "remotes_valid index [] = True"
| "remotes_valid index (r # rs) =
     (if tr_configuredIndex r \<noteq> index \<or>
         tr_state r \<noteq> ''unknown'' \<and> tr_state r \<noteq> ''denied'' \<and> tr_state r \<noteq> ''paired'' \<and> tr_state r \<noteq> ''unpaired'' \<or>
         tr_paired r \<noteq> (tr_state r = ''paired'')
      then False else remotes_valid (Suc index) rs)"

definition projection_valid :: "string list \<Rightarrow> trustAdminProjection \<Rightarrow> bool" where
  "projection_valid remotes projection \<longleftrightarrow>
     tp_contract projection = trustAdminProjectionContract \<and> tp_revision projection \<noteq> 0 \<and>
     length (tp_remotes projection) = length remotes \<and>
     (tp_degradation projection = [] \<or> tp_degradation projection = ''denied-trust'' \<or>
      tp_degradation projection = ''certificate-unavailable'') \<and>
     remotes_valid 0 (tp_remotes projection)"

definition applyTrustAdminProjection ::
  "'m runtimeGraphObservation_scheme list \<Rightarrow> string list \<Rightarrow> trustAdminProjection \<Rightarrow>
     'm runtimeGraphObservation_scheme list" where
  "applyTrustAdminProjection graph remotes projection =
     (if \<not> projection_valid remotes projection then
        map (\<lambda>g. g\<lparr>go_PairingState := ''unknown'', go_Paired := False, go_TrustDegradation := ''denied-trust''\<rparr>) graph
      else let byRemote = fold (\<lambda>(remote, r) m. go_put remote r m) (zip remotes (tp_remotes projection)) [] in
        map (\<lambda>g. case go_lookup byRemote (go_RemoteSKI g) of
            None \<Rightarrow> g
          | Some r \<Rightarrow> g\<lparr>go_PairingState := tr_state r, go_Paired := tr_paired r,
                        go_TrustDegradation := tp_degradation projection\<rparr>) graph)"

end
