(* ===== verification/TrustRecovery.thy ===== *)
theory TrustRecovery
  imports TrustProjection
begin

text \<open>
  Publication of control records, retries with backoff and the classification at start:
  \<^verbatim>\<open>msp04c_coordinator.go\<close>, \<^verbatim>\<open>msp04c_backoff.go\<close> and the parts of
  \<^verbatim>\<open>msp04cr2_predial.go\<close> they call. A publication is prepared by the store, staged at the anchor,
  committed by the store and finalised at the anchor.
\<close>

subsection \<open>Publication\<close>

definition firstTrustPreparedPublicationValid ::
  "firstTrustPreparedPublication \<Rightarrow> firstTrustControlView \<Rightarrow> bytes \<Rightarrow> string \<Rightarrow> bool" where
  "firstTrustPreparedPublicationValid publication selected operationID operationClass \<longleftrightarrow>
     pr_operationID publication = operationID \<and> pr_operationClass publication = operationClass \<and>
     firstTrustManifestEqual (cv_manifest (pr_previous publication)) (cv_manifest selected) \<and>
     cr_controlEpoch (cv_control (pr_previous publication)) = cr_controlEpoch (cv_control selected) \<and>
     cr_storeInstance (cv_control (pr_previous publication)) = cr_storeInstance (cv_control selected) \<and>
     cr_controlEpoch (cv_control (pr_target publication)) = cr_controlEpoch (cv_control (pr_previous publication)) + 1 \<and>
     mb_epoch (cv_manifest (pr_target publication)) = mb_epoch (cv_manifest (pr_previous publication)) + 1 \<and>
     sequence_of (pr_target publication) \<noteq> sequence_of (pr_previous publication)"

definition publish_staged ::
  "'w firstTrustControlPersistence \<Rightarrow> 'w firstTrustAnchorProvider \<Rightarrow> ctx \<Rightarrow> firstTrustPreparedPublication \<Rightarrow>
     firstTrustAnchorRecord \<Rightarrow> ('w, firstTrustPreparedPublication \<times> string \<times> firstTrustAnchorRecord) top" where
  "publish_staged st an ctx publication anchor =
     (let pending = firstTrustPendingFromPrepared publication; staged = anchor\<lparr>ar_pending := Some pending\<rparr> in do {
        storeOutcome \<leftarrow> call (CommitControl st ctx publication);
        if storeOutcome = Some ''commit_durable'' then do {
          finalized \<leftarrow> call (CompareAndFinalize an ctx pending);
          if finalized \<noteq> ''anchor_durable'' then give (publication, ''unknown'', staged)
          else give (publication, ''durable'',
            staged\<lparr>ar_manifestGenerationHighWater := gb_sequence (mb_current (pb_targetManifest pending)),
                   ar_controlEpochHighWater := pb_targetControlEpoch pending, ar_pending := None\<rparr>)
        }
        else if storeOutcome = Some ''commit_not_published'' then do {
          cleared \<leftarrow> call (CompareAndClear an ctx pending);
          if cleared \<noteq> ''anchor_durable'' then give (publication, ''unknown'', staged)
          else give (publication, ''unchanged'', staged\<lparr>ar_pending := None\<rparr>)
        }
        else give (publication, ''unknown'', staged)
      })"

definition publishFirstTrustControl ::
  "'w firstTrustControlPersistence \<Rightarrow> 'w firstTrustAnchorProvider \<Rightarrow> ctx \<Rightarrow> firstTrustControlView \<Rightarrow>
     firstTrustControlRecord \<Rightarrow> bytes \<Rightarrow> string \<Rightarrow> firstTrustControlView \<Rightarrow> firstTrustAnchorRecord \<Rightarrow>
     ('w, firstTrustPreparedPublication \<times> string \<times> firstTrustAnchorRecord) top" where
  "publishFirstTrustControl st an ctx working target operationID operationClass selected anchor = do {
     (publication, outcome) \<leftarrow> call (PrepareControl st ctx working target operationID operationClass);
     if outcome = ''validation_failed'' \<or> outcome = ''commit_not_published'' then
       give (publication, ''prepare_failed'', anchor)
     else if outcome \<noteq> ''prepared'' then give (publication, ''unknown'', anchor)
     else if \<not> firstTrustPreparedPublicationValid publication selected operationID operationClass then
       give (publication, ''unknown'', anchor)
     else do {
       stageOutcome \<leftarrow> call (CompareAndStage an ctx anchor (firstTrustPendingFromPrepared publication));
       if stageOutcome = ''anchor_not_published'' then give (publication, ''unchanged'', anchor)
       else if stageOutcome \<noteq> ''anchor_durable'' then
         give (publication, ''unknown'', anchor\<lparr>ar_pending := Some (firstTrustPendingFromPrepared publication)\<rparr>)
       else publish_staged st an ctx publication anchor
     }
   }"

subsection \<open>Failing closed\<close>

definition quarantine_unknown :: "'w ftc \<Rightarrow> 'w ftc" where
  "quarantine_unknown c = c\<lparr>co_phase := firstTrustDisabled, co_recovery := ''QUARANTINED'',
     co_recoveryReasonCode := ''DURABILITY_UNKNOWN'', co_trustedRemotes := []\<rparr>"

definition closeVolatileFirstTrustLocked :: "'w ftdeps \<Rightarrow> ('w, unit) top" where
  "closeVolatileFirstTrustLocked deps = do {
     now \<leftarrow> call (d_now deps);
     present \<leftarrow> peek (\<lambda>c. co_currentCandidate c \<noteq> None);
     whenever present (do {
       finishCandidateRequestsLocked deps ''stale_request'' now;
       revokeTransientTrustLocked;
       cancel_current_remote
     });
     finishCandidateSelectionLocked ''stale_request'' True;
     poke (\<lambda>c. c\<lparr>co_window := None, co_currentCandidate := None\<rparr>);
     stopTimerLocked;
     _ \<leftarrow> setWaitingLocked deps False;
     poke (\<lambda>c. c\<lparr>co_phase :=
       (if co_recovery c = ''UNPAIRED_LOCKED'' \<or> co_recovery c = ''PAIRED_TRUSTED'' \<or> co_recovery c = ''REVOKED''
        then firstTrustPairingClosed else firstTrustDisabled)\<rparr>)
   }"

definition enterFirstTrustQuarantineLocked :: "'w ftdeps \<Rightarrow> firstTrustPendingPublication option \<Rightarrow> ('w, unit) top" where
  "enterFirstTrustQuarantineLocked deps pending = do {
     poke quarantine_unknown;
     (case pending of None \<Rightarrow> nop
      | Some p \<Rightarrow> poke (\<lambda>c. c\<lparr>co_anchorRecord := (co_anchorRecord c)\<lparr>ar_pending := Some p\<rparr>\<rparr>));
     closeVolatileFirstTrustLocked deps
   }"

subsection \<open>Retries\<close>

definition publishFirstTrustRetryLocked ::
  "'w ftdeps \<Rightarrow> 'w firstTrustControlPersistence \<Rightarrow> 'w firstTrustAnchorProvider \<Rightarrow> ctx \<Rightarrow> firstTrustControlRecord \<Rightarrow>
     ('w, string) top" where
  "publishFirstTrustRetryLocked deps st an ctx target = do {
     ordinal \<leftarrow> firstTrustReadOrdinal deps;
     case ordinal of
       None \<Rightarrow> give ''prepare_failed''
     | Some operationID \<Rightarrow> do {
         view \<leftarrow> peek co_controlView;
         anchor \<leftarrow> peek co_anchorRecord;
         (publication, outcome, anchor') \<leftarrow>
           publishFirstTrustControl st an ctx view target operationID ''first_trust'' view anchor;
         poke (\<lambda>c. c\<lparr>co_anchorRecord := anchor'\<rparr>);
         if outcome = ''durable'' then do {
           poke (\<lambda>c. c\<lparr>co_controlView := pr_target publication, co_storeGeneration := sequence_of (pr_target publication)\<rparr>);
           give ''durable''
         }
         else do {
           whenever (outcome = ''unknown'') (poke quarantine_unknown);
           give outcome
         }
       }
   }"

definition stageFirstTrustRetryFailureHoldLocked ::
  "'w ftdeps \<Rightarrow> 'w firstTrustControlPersistence \<Rightarrow> 'w firstTrustAnchorProvider \<Rightarrow> ctx \<Rightarrow> bytes \<Rightarrow> ('w, bool) top" where
  "stageFirstTrustRetryFailureHoldLocked deps st an ctx scope =
     (let fail = (do {enterFirstTrustQuarantineLocked deps None; give False}) in do {
        ordinal \<leftarrow> firstTrustReadOrdinal deps;
        exhausted \<leftarrow> peek (\<lambda>c. cr_controlEpoch (control c) = - 1);
        case ordinal of
          None \<Rightarrow> fail
        | Some operationID \<Rightarrow>
          if exhausted then fail
          else do {
            selected \<leftarrow> peek co_controlView;
            let target = (cv_control selected)\<lparr>cr_controlEpoch := cr_controlEpoch (cv_control selected) + 1\<rparr> in
            case (case quarantine_at scope (cr_quarantines (cv_control selected)) of
                Some (index, r) \<Rightarrow> Some (index, r, cr_quarantines target)
              | None \<Rightarrow>
                  if length (cr_quarantines target) \<ge> firstTrustMaximumQuarantineRecords then None
                  else let r = \<lparr>qr_scope = scope, qr_reason = [], qr_state = [], qr_attemptCount = 0, qr_backoffStep = 0,
                                qr_remainingDelay = 0, qr_retentionBudget = firstTrustQuarantineRetention,
                                qr_lastControlEpoch = 0\<rparr>
                       in Some (length (cr_quarantines target), r, cr_quarantines target @ [r])) of
              None \<Rightarrow> fail
            | Some (index, r, quarantines) \<Rightarrow> do {
                let held = r\<lparr>qr_state := ''ADMIN_HOLD'', qr_reason := ''DURABILITY_UNKNOWN'', qr_remainingDelay := 0,
                             qr_lastControlEpoch := cr_controlEpoch target\<rparr> in do {
                (publication, outcome) \<leftarrow> call (PrepareControl st ctx selected
                   (target\<lparr>cr_quarantines := quarantines[index := held]\<rparr>) operationID ''first_trust'');
                if outcome \<noteq> ''prepared'' \<or>
                   \<not> firstTrustPreparedPublicationValid publication selected operationID ''first_trust''
                then fail
                else do {
                  anchor \<leftarrow> peek co_anchorRecord;
                  stageOutcome \<leftarrow> call (CompareAndStage an ctx anchor (firstTrustPendingFromPrepared publication));
                  if stageOutcome \<noteq> ''anchor_durable'' then fail
                  else do {
                    enterFirstTrustQuarantineLocked deps (Some (firstTrustPendingFromPrepared publication));
                    give True
                  }
                }
              }
            }
          }
      })"

definition retry_arm :: "int \<Rightarrow> int \<Rightarrow> firstTrustRetryArm" where
  "retry_arm now delay = \<lparr>arm_deadline = firstTrustSaturatingDurationAdd now delay, arm_armedAt = now\<rparr>"

definition inflight :: "bytes \<Rightarrow> 'w ftc \<Rightarrow> bool" where
  "inflight scope c = (case go_lookup (co_retryInflight c) scope of None \<Rightarrow> False | Some b \<Rightarrow> b)"

definition set_inflight :: "bytes \<Rightarrow> ('w, unit) top" where
  "set_inflight scope = poke (\<lambda>c. c\<lparr>co_retryInflight := go_put scope True (co_retryInflight c)\<rparr>)"

definition clear_inflight :: "bytes \<Rightarrow> ('w, unit) top" where
  "clear_inflight scope = poke (\<lambda>c. c\<lparr>co_retryInflight := go_delete scope (co_retryInflight c)\<rparr>)"

definition set_arm :: "bytes \<Rightarrow> firstTrustRetryArm \<Rightarrow> ('w, unit) top" where
  "set_arm scope arm = poke (\<lambda>c. c\<lparr>co_retryArms := go_put scope arm (co_retryArms c)\<rparr>)"

definition clear_arm :: "bytes \<Rightarrow> ('w, unit) top" where
  "clear_arm scope = poke (\<lambda>c. c\<lparr>co_retryArms := go_delete scope (co_retryArms c)\<rparr>)"

definition firstTrustOutgoingAttemptForScopeLocked :: "'w ftc \<Rightarrow> bytes \<Rightarrow> nat option" where
  "firstTrustOutgoingAttemptForScopeLocked c scope =
     (case filter (\<lambda>(_, a). oa_scope a = scope) (enumerate 0 (cr_attempts (control c))) of
        [] \<Rightarrow> None | (index, _) # _ \<Rightarrow> Some index)"

text \<open>The arm of a scope whose backoff runs; it is set when it is missing.\<close>

definition armed :: "'w ftdeps \<Rightarrow> bytes \<Rightarrow> int \<Rightarrow> ('w, firstTrustRetryArm) top" where
  "armed deps scope remainingDelay = do {
     present \<leftarrow> peek (\<lambda>c. go_lookup (co_retryArms c) scope);
     case present of
       Some arm \<Rightarrow> give arm
     | None \<Rightarrow> do {
         now \<leftarrow> call (d_monotonicNow deps);
         set_arm scope (retry_arm now remainingDelay);
         give (retry_arm now remainingDelay)
       }
   }"

definition bump :: "firstTrustControlRecord \<Rightarrow> firstTrustControlRecord" where
  "bump r = r\<lparr>cr_controlEpoch := cr_controlEpoch r + 1\<rparr>"

definition new_quarantine :: "bytes \<Rightarrow> uint64 \<Rightarrow> firstTrustQuarantineRecord" where
  "new_quarantine scope epoch = \<lparr>qr_scope = scope, qr_reason = ''RETRYABLE_FAILURE'', qr_state = ''RETRY_READY'',
     qr_attemptCount = 0, qr_backoffStep = 0, qr_remainingDelay = 0,
     qr_retentionBudget = firstTrustQuarantineRetention, qr_lastControlEpoch = epoch\<rparr>"

definition admit_retry ::
  "'w ftdeps \<Rightarrow> 'w firstTrustControlPersistence \<Rightarrow> 'w firstTrustAnchorProvider \<Rightarrow> ctx \<Rightarrow> bytes \<Rightarrow> ('w, string) top" where
  "admit_retry deps st an ctx scope = do {
     ctl \<leftarrow> peek control;
     found \<leftarrow> peek (\<lambda>c. firstTrustQuarantineLocked c scope);
     case found of
       None \<Rightarrow>
         if length (cr_quarantines ctl) \<ge> firstTrustMaximumQuarantineRecords then give ''quarantine_capacity''
         else do {
           published \<leftarrow> publishFirstTrustRetryLocked deps st an ctx
             ((bump ctl)\<lparr>cr_quarantines := cr_quarantines ctl @ [new_quarantine scope (cr_controlEpoch ctl + 1)]\<rparr>);
           if published \<noteq> ''durable'' then give ''retry_state_failed_closed''
           else do {set_inflight scope; give ''retry_admitted''}
         }
     | Some (index, r) \<Rightarrow> do {
         running \<leftarrow> peek (inflight scope);
         attempt \<leftarrow> peek (\<lambda>c. firstTrustOutgoingAttemptForScopeLocked c scope);
         if running then
           if attempt \<noteq> None then give ''retry_admitted'' else give ''attempt_in_progress''
         else if qr_state r = ''ADMIN_HOLD'' then give ''admin_hold''
         else if qr_state r = ''RETRY_READY'' then do {set_inflight scope; give ''retry_admitted''}
         else if qr_state r = ''BACKOFF_ACTIVE'' then do {
           arm \<leftarrow> armed deps scope (qr_remainingDelay r);
           now \<leftarrow> call (d_monotonicNow deps);
           if now < arm_deadline arm then give ''backoff_active''
           else do {
             published \<leftarrow> publishFirstTrustRetryLocked deps st an ctx
               ((bump ctl)\<lparr>cr_quarantines := (cr_quarantines ctl)[index := r\<lparr>qr_state := ''RETRY_READY'',
                  qr_remainingDelay := 0, qr_lastControlEpoch := cr_controlEpoch ctl + 1\<rparr>]\<rparr>);
             if published \<noteq> ''durable'' then give ''ready_transition_failed_closed''
             else do {clear_arm scope; set_inflight scope; give ''retry_admitted''}
           }
         }
         else give ''admin_hold''
       }
   }"

text \<open>
  The guards the three retry operations share, and the notification their \<^verbatim>\<open>defer\<close> makes. The
  second guard of \<^verbatim>\<open>admitRetry\<close> is its own.
\<close>

definition with_recovery ::
  "'w ftdeps \<Rightarrow> ctx \<Rightarrow> ('w firstTrustControlPersistence \<Rightarrow> 'w firstTrustAnchorProvider \<Rightarrow> ('w, string) top) \<Rightarrow>
     ('w, string) top" where
  "with_recovery deps ctx body = do {
     cancelled \<leftarrow> call (d_ctxErr deps ctx);
     if cancelled then give ''request_cancelled''
     else do {
       pending \<leftarrow> peek reconciliationRequiredLocked;
       result \<leftarrow> (case (d_recoveryStore deps, d_anchor deps) of
           (Some st, Some an) \<Rightarrow>
             if pending then give ''reconciliation_required'' else body st an
         | _ \<Rightarrow> give ''mutation_disabled'');
       unlockAndNotifyTrustAdminProjectionChange deps;
       give result
     }
   }"

definition admitRetry :: "'w ftdeps \<Rightarrow> ctx \<Rightarrow> bytes \<Rightarrow> ('w, string) top" where
  "admitRetry deps ctx scope = with_recovery deps ctx (\<lambda>st an. do {
     operation \<leftarrow> peek co_recoveryOperation;
     if operation \<noteq> None then give ''operation_in_progress'' else admit_retry deps st an ctx scope
   })"

text \<open>The record after one more failure, with the delay.\<close>

definition charge :: "firstTrustBackoffPolicy \<Rightarrow> uint64 \<Rightarrow> uint64 \<Rightarrow> int \<Rightarrow> firstTrustQuarantineRecord \<Rightarrow> firstTrustQuarantineRecord" where
  "charge policy epoch next delay r =
     (let capped = (if next - 1 > of_int (bp_exponentCap policy) then of_int (bp_exponentCap policy) else next - 1) in
      if next = bp_attemptMaximum policy then
        r\<lparr>qr_reason := ''HANDSHAKE_ATTEMPT_LIMIT'', qr_state := ''ADMIN_HOLD'', qr_attemptCount := next,
          qr_backoffStep := capped, qr_remainingDelay := 0, qr_retentionBudget := firstTrustQuarantineRetention,
          qr_lastControlEpoch := epoch\<rparr>
      else
        r\<lparr>qr_reason := ''RETRYABLE_FAILURE'', qr_state := ''BACKOFF_ACTIVE'', qr_attemptCount := next,
          qr_backoffStep := capped, qr_remainingDelay := delay, qr_retentionBudget := firstTrustQuarantineRetention,
          qr_lastControlEpoch := epoch\<rparr>)"

definition record_failure ::
  "'w ftdeps \<Rightarrow> 'w firstTrustControlPersistence \<Rightarrow> 'w firstTrustAnchorProvider \<Rightarrow> ctx \<Rightarrow> bytes \<Rightarrow> ('w, string) top" where
  "record_failure deps st an ctx scope = do {
     running \<leftarrow> peek (inflight scope);
     found \<leftarrow> peek (\<lambda>c. firstTrustQuarantineLocked c scope);
     ctl \<leftarrow> peek control;
     if \<not> running then give ''attempt_not_in_progress''
     else case found of
       None \<Rightarrow> give ''attempt_not_in_progress''
     | Some (index, r) \<Rightarrow>
         if qr_state r \<noteq> ''RETRY_READY'' then give ''attempt_not_in_progress''
         else case firstTrustNextBackoff (d_backoffPolicy deps) (qr_attemptCount r) of
           None \<Rightarrow> give ''admin_hold''
         | Some (next, delay) \<Rightarrow>
             if cr_controlEpoch ctl = - 1 then give ''admin_hold''
             else let charged = charge (d_backoffPolicy deps) (cr_controlEpoch ctl + 1) next delay r in do {
               published \<leftarrow> publishFirstTrustRetryLocked deps st an ctx
                 ((bump ctl)\<lparr>cr_quarantines := (cr_quarantines ctl)[index := charged]\<rparr>);
               if published \<noteq> ''durable'' then do {
                 whenever (published = ''unchanged'')
                   (do {_ \<leftarrow> stageFirstTrustRetryFailureHoldLocked deps st an ctx scope; nop});
                 clear_inflight scope;
                 give ''failure_state_failed_closed''
               }
               else do {
                 clear_inflight scope;
                 if qr_state charged = ''ADMIN_HOLD'' then do {clear_arm scope; give ''admin_hold''}
                 else do {
                   now \<leftarrow> call (d_monotonicNow deps);
                   set_arm scope (retry_arm now delay);
                   give ''backoff_active''
                 }
               }
             }
   }"

definition recordRetryFailure :: "'w ftdeps \<Rightarrow> ctx \<Rightarrow> bytes \<Rightarrow> ('w, string) top" where
  "recordRetryFailure deps ctx scope = with_recovery deps ctx (\<lambda>st an. record_failure deps st an ctx scope)"

definition completeRetry :: "bytes \<Rightarrow> ('w, unit) top" where
  "completeRetry scope = do {clear_inflight scope; mu_Unlock}"

definition checkpoint ::
  "'w ftdeps \<Rightarrow> 'w firstTrustControlPersistence \<Rightarrow> 'w firstTrustAnchorProvider \<Rightarrow> ctx \<Rightarrow> bytes \<Rightarrow> ('w, string) top" where
  "checkpoint deps st an ctx scope = do {
     found \<leftarrow> peek (\<lambda>c. firstTrustQuarantineLocked c scope);
     arm \<leftarrow> peek (\<lambda>c. go_lookup (co_retryArms c) scope);
     ctl \<leftarrow> peek control;
     case (found, arm) of
       (Some (index, r), Some a) \<Rightarrow>
         if qr_state r \<noteq> ''BACKOFF_ACTIVE'' then give ''checkpoint_not_applicable''
         else do {
           now \<leftarrow> call (d_monotonicNow deps);
           let remaining = (if now < arm_deadline a then arm_deadline a - now else 0) in
           if remaining \<ge> qr_remainingDelay r then give ''checkpoint_durable''
           else do {
             published \<leftarrow> publishFirstTrustRetryLocked deps st an ctx
               ((bump ctl)\<lparr>cr_quarantines := (cr_quarantines ctl)[index := r\<lparr>
                  qr_state := (if remaining = 0 then ''RETRY_READY'' else qr_state r),
                  qr_remainingDelay := remaining, qr_lastControlEpoch := cr_controlEpoch ctl + 1\<rparr>]\<rparr>);
             if published \<noteq> ''durable'' then give ''checkpoint_failed_closed''
             else do {
               (if remaining = 0 then clear_arm scope else set_arm scope (retry_arm now remaining));
               give ''checkpoint_durable''
             }
           }
         }
     | _ \<Rightarrow> give ''checkpoint_not_applicable''
   }"

definition checkpointRetry :: "'w ftdeps \<Rightarrow> ctx \<Rightarrow> bytes \<Rightarrow> ('w, string) top" where
  "checkpointRetry deps ctx scope = with_recovery deps ctx (\<lambda>st an. checkpoint deps st an ctx scope)"

definition retryRuntimeEnabled :: "'w ftdeps \<Rightarrow> bool" where
  "retryRuntimeEnabled deps \<longleftrightarrow> d_recoveryStore deps \<noteq> None \<and> d_anchor deps \<noteq> None"

definition retryState :: "'w ftc \<Rightarrow> bytes \<Rightarrow> (string \<times> uint64 \<times> int) option" where
  "retryState c scope = (case firstTrustQuarantineLocked c scope of
      None \<Rightarrow> None | Some (_, r) \<Rightarrow> Some (qr_state r, qr_attemptCount r, qr_remainingDelay r))"

end
