(* ===== verification/TrustAnchor.thy ===== *)
theory TrustAnchor
  imports TrustState HexText
begin

text \<open>
  The anchor outside the store: the witness file of \<^verbatim>\<open>runtime_protected_witness_native.go\<close> with its
  authenticated encoding, and the anchor operations of \<^verbatim>\<open>nativeProtectedIdentityProvider\<close> in
  \<^verbatim>\<open>runtime_protected_identity_native.go\<close>. The directory of the witness is a map from file names to
  contents. Each system call the code makes may fail, as an oracle on the environment decides; a
  rename replaces the file at once, and a later failure to sync the directory does not undo it.
  HMAC-SHA256 and \<^verbatim>\<open>encoding/json\<close> on the wire structure are parameters.
\<close>

subsection \<open>Wire form\<close>

record nativeWitnessGenerationWire =
  gw_Sequence :: uint64
  gw_Filename :: string
  gw_SHA256 :: string
  gw_SchemaVersion :: uint64

record nativeWitnessManifestWire =
  mw_Epoch :: uint64
  mw_SHA256 :: string
  mw_Current :: nativeWitnessGenerationWire
  mw_Parent :: "nativeWitnessGenerationWire option"

record nativeWitnessPendingWire =
  pw_OperationID :: string
  pw_OperationClass :: string
  pw_StoreInstance :: string
  pw_PreviousControlEpoch :: uint64
  pw_TargetControlEpoch :: uint64
  pw_PreviousManifest :: nativeWitnessManifestWire
  pw_TargetManifest :: nativeWitnessManifestWire

record nativeWitnessAnchorWire =
  aw_Version :: uint64
  aw_AnchorIdentity :: string
  aw_StoreInstance :: string
  aw_ManifestGenerationHighWater :: uint64
  aw_ControlEpochHighWater :: uint64
  aw_Pending :: "nativeWitnessPendingWire option"

definition nativeWitnessMaximumAnchor :: nat where "nativeWitnessMaximumAnchor = 65536"
definition nativeWitnessMaximumClass :: nat where "nativeWitnessMaximumClass = 64"
definition nativeWitnessMaximumName :: nat where "nativeWitnessMaximumName = 128"
definition nativeWitnessAnchorVersion :: uint64 where "nativeWitnessAnchorVersion = 1"
definition nativeWitnessKeyFileVersion :: nat where "nativeWitnessKeyFileVersion = 1"

definition nativeWitnessGenerationToWire :: "firstTrustGenerationBinding \<Rightarrow> nativeWitnessGenerationWire" where
  "nativeWitnessGenerationToWire g = \<lparr>gw_Sequence = gb_sequence g, gw_Filename = gb_filename g,
     gw_SHA256 = hex_encode (gb_sha256 g), gw_SchemaVersion = gb_schemaVersion g\<rparr>"

definition nativeWitnessManifestToWire :: "firstTrustManifestBinding \<Rightarrow> nativeWitnessManifestWire" where
  "nativeWitnessManifestToWire m = \<lparr>mw_Epoch = mb_epoch m, mw_SHA256 = hex_encode (mb_sha256 m),
     mw_Current = nativeWitnessGenerationToWire (mb_current m),
     mw_Parent = map_option nativeWitnessGenerationToWire (mb_parent m)\<rparr>"

definition nativeWitnessPendingToWire :: "firstTrustPendingPublication \<Rightarrow> nativeWitnessPendingWire" where
  "nativeWitnessPendingToWire p = \<lparr>pw_OperationID = hex_encode (pb_operationID p), pw_OperationClass = pb_operationClass p,
     pw_StoreInstance = hex_encode (pb_storeInstance p), pw_PreviousControlEpoch = pb_previousControlEpoch p,
     pw_TargetControlEpoch = pb_targetControlEpoch p,
     pw_PreviousManifest = nativeWitnessManifestToWire (pb_previousManifest p),
     pw_TargetManifest = nativeWitnessManifestToWire (pb_targetManifest p)\<rparr>"

definition nativeWitnessAnchorToWire :: "firstTrustAnchorRecord \<Rightarrow> nativeWitnessAnchorWire" where
  "nativeWitnessAnchorToWire a = \<lparr>aw_Version = ar_version a, aw_AnchorIdentity = hex_encode (ar_anchorIdentity a),
     aw_StoreInstance = hex_encode (ar_storeInstance a),
     aw_ManifestGenerationHighWater = ar_manifestGenerationHighWater a,
     aw_ControlEpochHighWater = ar_controlEpochHighWater a,
     aw_Pending = map_option nativeWitnessPendingToWire (ar_pending a)\<rparr>"

definition nativeWitnessDigest :: "string \<Rightarrow> bytes option" where
  "nativeWitnessDigest value =
     (case hex_decode value of None \<Rightarrow> None | Some d \<Rightarrow> if length d \<noteq> 32 then None else Some d)"

text \<open>\<^verbatim>\<open>filepath.Base(name) == name\<close> for a name that is not empty.\<close>

definition path_base_same :: "string \<Rightarrow> bool" where
  "path_base_same name \<longleftrightarrow> CHR ''/'' \<notin> set name \<or> name = ''/''"

definition nativeWitnessGenerationFromWire :: "nativeWitnessGenerationWire \<Rightarrow> firstTrustGenerationBinding option" where
  "nativeWitnessGenerationFromWire w =
     (case nativeWitnessDigest (gw_SHA256 w) of
        None \<Rightarrow> None
      | Some digest \<Rightarrow>
          if gw_Sequence w = 0 \<or> gw_SchemaVersion w = 0 \<or> gw_Filename w = [] \<or>
             length (gw_Filename w) > nativeWitnessMaximumName \<or> \<not> path_base_same (gw_Filename w)
          then None
          else Some \<lparr>gb_sequence = gw_Sequence w, gb_filename = gw_Filename w, gb_sha256 = digest,
                     gb_schemaVersion = gw_SchemaVersion w\<rparr>)"

definition nativeWitnessManifestFromWire :: "nativeWitnessManifestWire \<Rightarrow> firstTrustManifestBinding option" where
  "nativeWitnessManifestFromWire w =
     (case (nativeWitnessDigest (mw_SHA256 w), nativeWitnessGenerationFromWire (mw_Current w)) of
        (Some digest, Some current) \<Rightarrow>
          (case mw_Parent w of
             None \<Rightarrow> Some \<lparr>mb_epoch = mw_Epoch w, mb_sha256 = digest, mb_current = current, mb_parent = None\<rparr>
           | Some p \<Rightarrow>
               (case nativeWitnessGenerationFromWire p of
                  None \<Rightarrow> None
                | Some parent \<Rightarrow>
                    Some \<lparr>mb_epoch = mw_Epoch w, mb_sha256 = digest, mb_current = current, mb_parent = Some parent\<rparr>))
      | _ \<Rightarrow> None)"

definition nativeWitnessPendingFromWire :: "nativeWitnessPendingWire \<Rightarrow> firstTrustPendingPublication option" where
  "nativeWitnessPendingFromWire w =
     (case (nativeWitnessDigest (pw_OperationID w), nativeWitnessDigest (pw_StoreInstance w),
            nativeWitnessManifestFromWire (pw_PreviousManifest w), nativeWitnessManifestFromWire (pw_TargetManifest w)) of
        (Some operationID, Some storeInstance, Some previous, Some target) \<Rightarrow>
          Some \<lparr>pb_operationID = operationID, pb_operationClass = pw_OperationClass w, pb_storeInstance = storeInstance,
                pb_previousControlEpoch = pw_PreviousControlEpoch w, pb_targetControlEpoch = pw_TargetControlEpoch w,
                pb_previousManifest = previous, pb_targetManifest = target\<rparr>
      | _ \<Rightarrow> None)"

definition nativeWitnessAnchorFromWire :: "nativeWitnessAnchorWire \<Rightarrow> firstTrustAnchorRecord option" where
  "nativeWitnessAnchorFromWire w =
     (case (nativeWitnessDigest (aw_AnchorIdentity w), nativeWitnessDigest (aw_StoreInstance w)) of
        (Some anchorIdentity, Some storeInstance) \<Rightarrow>
          (let anchor = \<lparr>ar_version = aw_Version w, ar_anchorIdentity = anchorIdentity, ar_storeInstance = storeInstance,
                 ar_manifestGenerationHighWater = aw_ManifestGenerationHighWater w,
                 ar_controlEpochHighWater = aw_ControlEpochHighWater w, ar_pending = None\<rparr> in
           case aw_Pending w of
             None \<Rightarrow> Some anchor
           | Some p \<Rightarrow>
               (case nativeWitnessPendingFromWire p of
                  None \<Rightarrow> None
                | Some pending \<Rightarrow> Some (anchor\<lparr>ar_pending := Some pending\<rparr>)))
      | _ \<Rightarrow> None)"

definition validNativeWitnessAnchor :: "firstTrustAnchorRecord \<Rightarrow> bool" where
  "validNativeWitnessAnchor a =
     (if ar_version a \<noteq> nativeWitnessAnchorVersion \<or> ar_anchorIdentity a = zero32 \<or> ar_storeInstance a = zero32 then False
      else case ar_pending a of
        None \<Rightarrow> True
      | Some p \<Rightarrow>
          pb_operationID p \<noteq> zero32 \<and> pb_storeInstance p = ar_storeInstance a \<and> pb_operationClass p \<noteq> [] \<and>
          length (pb_operationClass p) \<le> nativeWitnessMaximumClass \<and>
          pb_targetControlEpoch p = pb_previousControlEpoch p + 1 \<and>
          mb_epoch (pb_targetManifest p) = mb_epoch (pb_previousManifest p) + 1 \<and>
          gb_sequence (mb_current (pb_previousManifest p)) \<noteq> 0 \<and>
          gb_sequence (mb_current (pb_targetManifest p)) \<noteq> 0 \<and>
          gb_sequence (mb_current (pb_targetManifest p)) \<noteq> gb_sequence (mb_current (pb_previousManifest p)))"

subsection \<open>Authenticated encoding\<close>

record witness_crypto =
  wc_hmac :: "bytes \<Rightarrow> bytes \<Rightarrow> bytes"
  wc_marshal :: "nativeWitnessAnchorWire \<Rightarrow> bytes option"
  wc_unmarshal :: "bytes \<Rightarrow> nativeWitnessAnchorWire option"

definition anchor_label :: bytes where
  "anchor_label = ''helianthus-eebusreg/anchor-witness/v1'' @ [CHR 0x00]"

definition anchor_mac :: "witness_crypto \<Rightarrow> bytes \<Rightarrow> bytes \<Rightarrow> bytes" where
  "anchor_mac wc key payload = wc_hmac wc key (anchor_label @ payload)"

definition encodeNativeWitnessAnchor :: "witness_crypto \<Rightarrow> firstTrustAnchorRecord \<Rightarrow> bytes \<Rightarrow> bytes option" where
  "encodeNativeWitnessAnchor wc anchor key =
     (if \<not> validNativeWitnessAnchor anchor \<or> key = zero32 then None
      else case wc_marshal wc (nativeWitnessAnchorToWire anchor) of
        None \<Rightarrow> None
      | Some payload \<Rightarrow>
          if payload = [] \<or> length payload > nativeWitnessMaximumAnchor - 40 then None
          else Some (''HWAN'' @ put_bytes 4 (of_nat (length payload)) @ payload @ anchor_mac wc key payload))"

definition decodeNativeWitnessAnchor :: "witness_crypto \<Rightarrow> bytes \<Rightarrow> bytes \<Rightarrow> firstTrustAnchorRecord option" where
  "decodeNativeWitnessAnchor wc encoded key =
     (if length encoded < 8 + 32 \<or> length encoded > nativeWitnessMaximumAnchor \<or> take 4 encoded \<noteq> ''HWAN'' \<or> key = zero32
      then None
      else let len = unat (get_uint64 0 (take 4 (drop 4 encoded))) in
        if len = 0 \<or> 8 + len + 32 \<noteq> length encoded then None
        else let payload = take len (drop 8 encoded); receivedMAC = drop (8 + len) encoded in
          if receivedMAC \<noteq> anchor_mac wc key payload then None
          else case wc_unmarshal wc payload of
            None \<Rightarrow> None
          | Some wire \<Rightarrow>
              (case nativeWitnessAnchorFromWire wire of
                 None \<Rightarrow> None
               | Some anchor \<Rightarrow> if \<not> validNativeWitnessAnchor anchor then None else Some anchor))"

definition deriveNativeWitnessKey :: "witness_crypto \<Rightarrow> bytes \<Rightarrow> bytes \<Rightarrow> string \<Rightarrow> bytes" where
  "deriveNativeWitnessKey wc hostSecret machineIdentity stateRoot =
     wc_hmac wc hostSecret (''helianthus-eebusreg/host-witness/v1'' @ [CHR 0x00] @ machineIdentity @ [CHR 0x00] @ stateRoot)"

subsection \<open>The witness on disk\<close>

datatype io_point =
    PointPath
  | PointDirectory
  | PointLock
  | PointRead
  | PointStat
  | PointSuffix
  | PointCreate
  | PointWrite
  | PointRename
  | PointOpenDirectory
  | PointSyncDirectory

record 'e nworld =
  nw_env :: 'e
  nw_files :: "(string, bytes) gomap"
  nw_key :: bytes
  nw_anchor :: firstTrustAnchorRecord
  nw_anchorReady :: bool
  nw_anchorIdentity :: bytes

record 'e wdeps =
  wd_crypto :: witness_crypto
  wd_fails :: "io_point \<Rightarrow> 'e \<Rightarrow> bool \<times> 'e"
  wd_ctxErr :: "ctx \<Rightarrow> 'e \<Rightarrow> bool \<times> 'e"
  wd_random :: "nat \<Rightarrow> 'e \<Rightarrow> bytes option \<times> 'e"

type_synonym ('e, 'a) wop = "('e nworld, 'a) state"

definition env_call :: "('e \<Rightarrow> 'a \<times> 'e) \<Rightarrow> ('e, 'a) wop" where
  "env_call f = State (\<lambda>w. case f (nw_env w) of (a, e) \<Rightarrow> (a, w\<lparr>nw_env := e\<rparr>))"

definition wpeek :: "('e nworld \<Rightarrow> 'a) \<Rightarrow> ('e, 'a) wop" where
  "wpeek f = State (\<lambda>w. (f w, w))"

definition wpoke :: "('e nworld \<Rightarrow> 'e nworld) \<Rightarrow> ('e, unit) wop" where
  "wpoke f = State (\<lambda>w. ((), f w))"

definition fails :: "'e wdeps \<Rightarrow> io_point \<Rightarrow> ('e, bool) wop" where
  "fails wd p = env_call (wd_fails wd p)"

text \<open>What reading a file gives: nothing there, an error, or the contents within the limit.\<close>

datatype read_result = ReadMissing | ReadFailed | ReadOk bytes

definition readNativeWitnessFile :: "'e wdeps \<Rightarrow> string \<Rightarrow> nat \<Rightarrow> ('e, read_result) wop" where
  "readNativeWitnessFile wd name maximum = do {
     contents \<leftarrow> wpeek (\<lambda>w. go_lookup (nw_files w) name);
     case contents of
       None \<Rightarrow> State_Monad.return ReadMissing
     | Some payload \<Rightarrow> do {
         failed \<leftarrow> fails wd PointRead;
         if failed \<or> length payload > maximum then State_Monad.return ReadFailed
         else State_Monad.return (ReadOk payload)
       }
   }"

text \<open>The system calls of a write in order; the answer is whether all of them succeeded.\<close>

definition writeNativeWitnessFileAtomic :: "'e wdeps \<Rightarrow> string \<Rightarrow> bytes \<Rightarrow> bool \<Rightarrow> ('e, bool) wop" where
  "writeNativeWitnessFileAtomic wd name payload createOnly =
     (if name \<noteq> ''KEY'' \<and> name \<noteq> ''ANCHOR'' \<or> payload = [] then State_Monad.return False
      else do {
        present \<leftarrow> wpeek (\<lambda>w. go_lookup (nw_files w) name \<noteq> None);
        stat \<leftarrow> fails wd PointStat;
        if stat \<or> present \<and> createOnly then State_Monad.return False
        else do {
          suffix \<leftarrow> fails wd PointSuffix;
          if suffix then State_Monad.return False
          else do {
            create \<leftarrow> fails wd PointCreate;
            if create then State_Monad.return False
            else do {
              written \<leftarrow> fails wd PointWrite;
              if written then State_Monad.return False
              else do {
                rename \<leftarrow> fails wd PointRename;
                if rename then State_Monad.return False
                else do {
                  wpoke (\<lambda>w. w\<lparr>nw_files := go_put name payload (nw_files w)\<rparr>);
                  directory \<leftarrow> fails wd PointOpenDirectory;
                  if directory then State_Monad.return False
                  else do {
                    sync \<leftarrow> fails wd PointSyncDirectory;
                    State_Monad.return (\<not> sync)
                  }
                }
              }
            }
          }
        }
      })"

definition withLock :: "'e wdeps \<Rightarrow> ('e, 'a option) wop \<Rightarrow> ('e, 'a option) wop" where
  "withLock wd operation = do {
     directory \<leftarrow> fails wd PointDirectory;
     if directory then State_Monad.return None
     else do {
       lock \<leftarrow> fails wd PointLock;
       if lock then State_Monad.return None else operation
     }
   }"

text \<open>
  Opening the witness of a state root (whose path is cleaned, absolute and free of links, or
  \<open>PointPath\<close> fails): the secret of the host is read, or made when there is none, and the key
  derived from it.
\<close>

definition host_secret :: "'e wdeps \<Rightarrow> ('e, bytes option) wop" where
  "host_secret wd = do {
     result \<leftarrow> readNativeWitnessFile wd ''KEY'' (5 + 32);
     case result of
       ReadOk loaded \<Rightarrow>
         if length loaded \<noteq> 5 + 32 \<or> take 4 loaded \<noteq> ''HWKY'' \<or> of_char (loaded ! 4) \<noteq> nativeWitnessKeyFileVersion
         then State_Monad.return None
         else State_Monad.return (Some (drop 5 loaded))
     | ReadMissing \<Rightarrow> do {
         secret \<leftarrow> env_call (wd_random wd 32);
         case ordinal_ok secret of
           None \<Rightarrow> State_Monad.return None
         | Some hostSecret \<Rightarrow> do {
             ok \<leftarrow> writeNativeWitnessFileAtomic wd ''KEY''
               (''HWKY'' @ [char_of nativeWitnessKeyFileVersion] @ hostSecret) True;
             State_Monad.return (if ok then Some hostSecret else None)
           }
       }
     | ReadFailed \<Rightarrow> State_Monad.return None
   }"

definition openNativeProtectedWitness :: "'e wdeps \<Rightarrow> string \<Rightarrow> bytes \<Rightarrow> ('e, bool) wop" where
  "openNativeProtectedWitness wd stateRoot machineIdentity = do {
     path \<leftarrow> fails wd PointPath;
     if machineIdentity = zero32 \<or> path then State_Monad.return False
     else do {
       directory \<leftarrow> fails wd PointDirectory;
       if directory then State_Monad.return False
       else do {
         secret \<leftarrow> withLock wd (host_secret wd);
         case secret of
           None \<Rightarrow> State_Monad.return False
         | Some hostSecret \<Rightarrow>
             let key = deriveNativeWitnessKey (wd_crypto wd) hostSecret machineIdentity stateRoot in
             if key = zero32 then State_Monad.return False
             else do {
               wpoke (\<lambda>w. w\<lparr>nw_key := key\<rparr>);
               State_Monad.return True
             }
       }
     }
   }"

text \<open>\<open>None\<close> is an error; otherwise the anchor, when there is one.\<close>

definition loadAnchor :: "'e wdeps \<Rightarrow> ('e, firstTrustAnchorRecord option option) wop" where
  "loadAnchor wd = do {
     key \<leftarrow> wpeek nw_key;
     if key = zero32 then State_Monad.return None
     else withLock wd (do {
       result \<leftarrow> readNativeWitnessFile wd ''ANCHOR'' nativeWitnessMaximumAnchor;
       case result of
         ReadMissing \<Rightarrow> State_Monad.return (Some None)
       | ReadFailed \<Rightarrow> State_Monad.return None
       | ReadOk payload \<Rightarrow> State_Monad.return (map_option Some (decodeNativeWitnessAnchor (wd_crypto wd) payload key))
     })
   }"

definition compare_and_swap ::
  "'e wdeps \<Rightarrow> bytes \<Rightarrow> firstTrustAnchorRecord option \<Rightarrow> firstTrustAnchorRecord \<Rightarrow> ('e, unit option) wop" where
  "compare_and_swap wd key expected target = do {
     result \<leftarrow> readNativeWitnessFile wd ''ANCHOR'' nativeWitnessMaximumAnchor;
     case (case result of
         ReadMissing \<Rightarrow> Some None
       | ReadFailed \<Rightarrow> None
       | ReadOk payload \<Rightarrow> map_option Some (decodeNativeWitnessAnchor (wd_crypto wd) payload key)) of
       None \<Rightarrow> State_Monad.return None
     | Some current \<Rightarrow>
         if (case expected of None \<Rightarrow> current \<noteq> None
             | Some e \<Rightarrow> \<not> ptr_holds (\<lambda>a. firstTrustAnchorRecordEqual a e) current)
         then State_Monad.return None
         else (case encodeNativeWitnessAnchor (wd_crypto wd) target key of
             None \<Rightarrow> State_Monad.return None
           | Some encoded \<Rightarrow> do {
               ok \<leftarrow> writeNativeWitnessFileAtomic wd ''ANCHOR'' encoded False;
               State_Monad.return (if ok then Some () else None)
             })
   }"

definition compareAndStoreAnchor ::
  "'e wdeps \<Rightarrow> firstTrustAnchorRecord option \<Rightarrow> firstTrustAnchorRecord \<Rightarrow> ('e, bool) wop" where
  "compareAndStoreAnchor wd expected target = do {
     key \<leftarrow> wpeek nw_key;
     if key = zero32 \<or> \<not> validNativeWitnessAnchor target then State_Monad.return False
     else do {
       stored \<leftarrow> withLock wd (compare_and_swap wd key expected target);
       State_Monad.return (stored \<noteq> None)
     }
   }"

subsection \<open>The anchor provider\<close>

text \<open>
  The provider is built with its witness (\<^verbatim>\<open>newNativeProtectedIdentityProvider\<close> fails without one),
  so the nil tests on it do not occur here.
\<close>

definition nativeProtectedContextCancelled :: "'e wdeps \<Rightarrow> ctx \<Rightarrow> ('e, bool) wop" where
  "nativeProtectedContextCancelled wd ctx = env_call (wd_ctxErr wd ctx)"

definition provider_Open :: "'e wdeps \<Rightarrow> ctx \<Rightarrow> ('e, firstTrustAnchorRecord \<times> string) wop" where
  "provider_Open wd ctx = do {
     cancelled \<leftarrow> nativeProtectedContextCancelled wd ctx;
     if cancelled then State_Monad.return (anchor_zero, ''anchor_unavailable'')
     else do {
       loaded \<leftarrow> loadAnchor wd;
       identity \<leftarrow> wpeek nw_anchorIdentity;
       case loaded of
         Some (Some durable) \<Rightarrow>
           if ar_anchorIdentity durable \<noteq> identity then State_Monad.return (anchor_zero, ''anchor_unavailable'')
           else do {
             wpoke (\<lambda>w. w\<lparr>nw_anchor := durable, nw_anchorReady := True\<rparr>);
             State_Monad.return (durable, ''opened_anchor'')
           }
       | _ \<Rightarrow> State_Monad.return (anchor_zero, ''anchor_unavailable'')
     }
   }"

text \<open>Replacing the anchor in memory by a target that was stored.\<close>

definition store_and_keep :: "'e wdeps \<Rightarrow> firstTrustAnchorRecord \<Rightarrow> ('e, string) wop" where
  "store_and_keep wd target = do {
     current \<leftarrow> wpeek nw_anchor;
     stored \<leftarrow> compareAndStoreAnchor wd (Some current) target;
     if \<not> stored then State_Monad.return ''anchor_not_published''
     else do {
       wpoke (\<lambda>w. w\<lparr>nw_anchor := target\<rparr>);
       State_Monad.return ''anchor_durable''
     }
   }"

definition provider_CompareAndStage ::
  "'e wdeps \<Rightarrow> ctx \<Rightarrow> firstTrustAnchorRecord \<Rightarrow> firstTrustPendingPublication \<Rightarrow> ('e, string) wop" where
  "provider_CompareAndStage wd ctx expected pending = do {
     cancelled \<leftarrow> nativeProtectedContextCancelled wd ctx;
     ready \<leftarrow> wpeek nw_anchorReady;
     anchor \<leftarrow> wpeek nw_anchor;
     if cancelled \<or> \<not> ready \<or> ar_pending anchor \<noteq> None \<or> \<not> firstTrustAnchorRecordEqual anchor expected \<or>
        pb_storeInstance pending \<noteq> ar_storeInstance anchor
     then State_Monad.return ''anchor_not_published''
     else store_and_keep wd (anchor\<lparr>ar_pending := Some pending\<rparr>)
   }"

definition pending_is :: "firstTrustPendingPublication \<Rightarrow> firstTrustAnchorRecord \<Rightarrow> bool" where
  "pending_is pending anchor = ptr_holds (\<lambda>p. firstTrustPendingPublicationEqual p pending) (ar_pending anchor)"

definition provider_CompareAndFinalize :: "'e wdeps \<Rightarrow> ctx \<Rightarrow> firstTrustPendingPublication \<Rightarrow> ('e, string) wop" where
  "provider_CompareAndFinalize wd ctx pending = do {
     cancelled \<leftarrow> nativeProtectedContextCancelled wd ctx;
     ready \<leftarrow> wpeek nw_anchorReady;
     anchor \<leftarrow> wpeek nw_anchor;
     if cancelled \<or> \<not> ready \<or> \<not> pending_is pending anchor then State_Monad.return ''anchor_not_published''
     else store_and_keep wd (anchor\<lparr>
       ar_manifestGenerationHighWater := gb_sequence (mb_current (pb_targetManifest pending)),
       ar_controlEpochHighWater := pb_targetControlEpoch pending, ar_pending := None\<rparr>)
   }"

definition provider_CompareAndClear :: "'e wdeps \<Rightarrow> ctx \<Rightarrow> firstTrustPendingPublication \<Rightarrow> ('e, string) wop" where
  "provider_CompareAndClear wd ctx pending = do {
     cancelled \<leftarrow> nativeProtectedContextCancelled wd ctx;
     ready \<leftarrow> wpeek nw_anchorReady;
     anchor \<leftarrow> wpeek nw_anchor;
     if cancelled \<or> \<not> ready \<or> \<not> pending_is pending anchor then State_Monad.return ''anchor_not_published''
     else store_and_keep wd (anchor\<lparr>ar_pending := None\<rparr>)
   }"

definition provider_Create :: "'e wdeps \<Rightarrow> ctx \<Rightarrow> uint64 \<Rightarrow> bytes \<Rightarrow> ('e, firstTrustAnchorRecord \<times> string) wop" where
  "provider_Create wd ctx version storeInstance = do {
     cancelled \<leftarrow> nativeProtectedContextCancelled wd ctx;
     identity \<leftarrow> wpeek nw_anchorIdentity;
     ready \<leftarrow> wpeek nw_anchorReady;
     anchor \<leftarrow> wpeek nw_anchor;
     if cancelled \<or> version \<noteq> firstTrustAnchorVersion \<or> storeInstance = zero32 \<or> identity = zero32 then
       State_Monad.return (anchor_zero, ''anchor_not_published'')
     else if ready \<and> (ar_pending anchor \<noteq> None \<or> ar_manifestGenerationHighWater anchor \<noteq> 0 \<or>
                      ar_controlEpochHighWater anchor \<noteq> 0) then
       State_Monad.return (anchor_zero, ''anchor_not_published'')
     else let target = anchor_zero\<lparr>ar_version := version, ar_anchorIdentity := identity, ar_storeInstance := storeInstance\<rparr> in do {
       stored \<leftarrow> compareAndStoreAnchor wd (if ready then Some anchor else None) target;
       if \<not> stored then State_Monad.return (anchor_zero, ''anchor_not_published'')
       else do {
         wpoke (\<lambda>w. w\<lparr>nw_anchor := target, nw_anchorReady := True\<rparr>);
         State_Monad.return (target, ''anchor_durable'')
       }
     }
   }"

definition native_provider :: "'e wdeps \<Rightarrow> 'e nworld firstTrustAnchorProvider" where
  "native_provider wd = \<lparr>
     AnchorOpen = (\<lambda>ctx. run_state (provider_Open wd ctx)),
     CompareAndStage = (\<lambda>ctx expected pending. run_state (provider_CompareAndStage wd ctx expected pending)),
     CompareAndFinalize = (\<lambda>ctx pending. run_state (provider_CompareAndFinalize wd ctx pending)),
     CompareAndClear = (\<lambda>ctx pending. run_state (provider_CompareAndClear wd ctx pending)),
     AnchorCreate = (\<lambda>ctx version storeInstance. run_state (provider_Create wd ctx version storeInstance))\<rparr>"

subsection \<open>Encoding is inverse to decoding\<close>

text \<open>What JSON keeps: texts of valid UTF-8 come back as they were, and only such texts are read.\<close>

definition generation_text :: "nativeWitnessGenerationWire \<Rightarrow> bool" where
  "generation_text g \<longleftrightarrow> utf8_valid (gw_Filename g) \<and> utf8_valid (gw_SHA256 g)"

definition manifest_text :: "nativeWitnessManifestWire \<Rightarrow> bool" where
  "manifest_text m \<longleftrightarrow> utf8_valid (mw_SHA256 m) \<and> generation_text (mw_Current m) \<and> pred_option generation_text (mw_Parent m)"

definition pending_text :: "nativeWitnessPendingWire \<Rightarrow> bool" where
  "pending_text p \<longleftrightarrow> utf8_valid (pw_OperationID p) \<and> utf8_valid (pw_OperationClass p) \<and> utf8_valid (pw_StoreInstance p) \<and>
     manifest_text (pw_PreviousManifest p) \<and> manifest_text (pw_TargetManifest p)"

definition anchor_text :: "nativeWitnessAnchorWire \<Rightarrow> bool" where
  "anchor_text a \<longleftrightarrow> utf8_valid (aw_AnchorIdentity a) \<and> utf8_valid (aw_StoreInstance a) \<and> pred_option pending_text (aw_Pending a)"

definition crypto_laws :: "witness_crypto \<Rightarrow> bool" where
  "crypto_laws wc \<longleftrightarrow>
     (\<forall>key m. length (wc_hmac wc key m) = 32) \<and>
     (\<forall>wire payload. wc_marshal wc wire = Some payload \<longrightarrow> anchor_text wire \<longrightarrow> wc_unmarshal wc payload = Some wire) \<and>
     (\<forall>wire payload. wc_unmarshal wc payload = Some wire \<longrightarrow> anchor_text wire)"

definition generation_ok :: "firstTrustGenerationBinding \<Rightarrow> bool" where
  "generation_ok g \<longleftrightarrow> length (gb_sha256 g) = 32 \<and> gb_sequence g \<noteq> 0 \<and> gb_schemaVersion g \<noteq> 0 \<and> gb_filename g \<noteq> [] \<and>
     length (gb_filename g) \<le> nativeWitnessMaximumName \<and> path_base_same (gb_filename g) \<and> utf8_valid (gb_filename g)"

definition manifest_ok :: "firstTrustManifestBinding \<Rightarrow> bool" where
  "manifest_ok m \<longleftrightarrow> length (mb_sha256 m) = 32 \<and> generation_ok (mb_current m) \<and> pred_option generation_ok (mb_parent m)"

definition pending_ok :: "firstTrustPendingPublication \<Rightarrow> bool" where
  "pending_ok p \<longleftrightarrow> length (pb_operationID p) = 32 \<and> length (pb_storeInstance p) = 32 \<and> utf8_valid (pb_operationClass p) \<and>
     manifest_ok (pb_previousManifest p) \<and> manifest_ok (pb_targetManifest p)"

definition anchor_ok :: "firstTrustAnchorRecord \<Rightarrow> bool" where
  "anchor_ok a \<longleftrightarrow> length (ar_anchorIdentity a) = 32 \<and> length (ar_storeInstance a) = 32 \<and> pred_option pending_ok (ar_pending a)"

lemma hex_lower_ascii: "is_hex_lower ch \<Longrightarrow> (of_char ch :: nat) < 128"
  by (auto simp: is_hex_lower_def is_digit_def in_range_def)

lemma utf8_hex: "utf8_valid (hex_encode b)"
proof -
  have "list_all (\<lambda>ch. (of_char ch :: nat) < 128) (hex_encode b)"
    using hex_encode_lower [of b] by (auto simp: list_all_iff hex_lower_ascii)
  then show ?thesis by (auto simp: utf8_valid_def go_chunks_ascii chunk_valid_def list_all_iff)
qed

lemma digest_hex [simp]: "length b = 32 \<Longrightarrow> nativeWitnessDigest (hex_encode b) = Some b"
  by (simp add: nativeWitnessDigest_def)

lemma digest_length: "nativeWitnessDigest v = Some b \<Longrightarrow> length b = 32"
  by (auto simp: nativeWitnessDigest_def split: option.splits if_splits)

lemma generation_wire: "generation_ok g \<Longrightarrow> nativeWitnessGenerationFromWire (nativeWitnessGenerationToWire g) = Some g"
  by (simp add: nativeWitnessGenerationFromWire_def nativeWitnessGenerationToWire_def generation_ok_def)

lemma manifest_wire: "manifest_ok m \<Longrightarrow> nativeWitnessManifestFromWire (nativeWitnessManifestToWire m) = Some m"
  by (cases m) (auto simp: nativeWitnessManifestFromWire_def nativeWitnessManifestToWire_def manifest_ok_def generation_wire
      split: option.splits)

lemma pending_wire: "pending_ok p \<Longrightarrow> nativeWitnessPendingFromWire (nativeWitnessPendingToWire p) = Some p"
  by (simp add: nativeWitnessPendingFromWire_def nativeWitnessPendingToWire_def pending_ok_def manifest_wire)

lemma anchor_wire: "anchor_ok a \<Longrightarrow> nativeWitnessAnchorFromWire (nativeWitnessAnchorToWire a) = Some a"
  by (cases a) (auto simp: nativeWitnessAnchorFromWire_def nativeWitnessAnchorToWire_def anchor_ok_def pending_wire Let_def
      split: option.splits)

lemma anchor_wire_text: "anchor_ok a \<Longrightarrow> anchor_text (nativeWitnessAnchorToWire a)"
  by (auto simp: anchor_ok_def anchor_text_def pending_ok_def pending_text_def manifest_ok_def manifest_text_def
      generation_ok_def generation_text_def nativeWitnessAnchorToWire_def nativeWitnessPendingToWire_def
      nativeWitnessManifestToWire_def nativeWitnessGenerationToWire_def utf8_hex option.pred_map pred_option_def)

lemma generation_read: "nativeWitnessGenerationFromWire w = Some g \<Longrightarrow> generation_text w \<Longrightarrow> generation_ok g"
  by (auto simp: nativeWitnessGenerationFromWire_def generation_ok_def generation_text_def digest_length
      split: option.splits if_splits)

lemma manifest_read: "nativeWitnessManifestFromWire w = Some m \<Longrightarrow> manifest_text w \<Longrightarrow> manifest_ok m"
  by (auto simp: nativeWitnessManifestFromWire_def manifest_ok_def manifest_text_def digest_length generation_read
      split: option.splits)

lemma pending_read: "nativeWitnessPendingFromWire w = Some p \<Longrightarrow> pending_text w \<Longrightarrow> pending_ok p"
  by (auto simp: nativeWitnessPendingFromWire_def pending_ok_def pending_text_def digest_length manifest_read
      split: option.splits)

lemma anchor_read: "nativeWitnessAnchorFromWire w = Some a \<Longrightarrow> anchor_text w \<Longrightarrow> anchor_ok a"
  by (auto simp: nativeWitnessAnchorFromWire_def anchor_ok_def anchor_text_def digest_length pending_read Let_def
      split: option.splits)

lemma put4_get: "n < 2 ^ 32 \<Longrightarrow> unat (get_uint64 0 (put_bytes 4 (of_nat n))) = n"
proof -
  assume n: "n < 2 ^ 32"
  then have "take_bit 32 (of_nat n :: uint64) = of_nat n"
    by (simp add: take_bit_of_nat take_bit_nat_eq_self)
  then have "get_uint64 0 (put_bytes 4 (of_nat n)) = (of_nat n :: uint64)" by (simp add: get_put_bytes)
  then show ?thesis using n by (simp add: unat_of_nat)
qed

lemma decode_encode:
  assumes "crypto_laws wc" and "anchor_ok a" and "encodeNativeWitnessAnchor wc a key = Some encoded"
  shows "decodeNativeWitnessAnchor wc encoded key = Some a"
proof -
  from assms(3) obtain payload where v: "validNativeWitnessAnchor a" "key \<noteq> zero32"
    and m: "wc_marshal wc (nativeWitnessAnchorToWire a) = Some payload"
    and p: "payload \<noteq> []" "length payload \<le> nativeWitnessMaximumAnchor - 40"
    and e: "encoded = ''HWAN'' @ put_bytes 4 (of_nat (length payload)) @ payload @ anchor_mac wc key payload"
    by (auto simp: encodeNativeWitnessAnchor_def split: if_splits option.splits)
  have u: "wc_unmarshal wc payload = Some (nativeWitnessAnchorToWire a)"
    using assms(1) m anchor_wire_text [OF assms(2)] by (auto simp: crypto_laws_def)
  have mac: "length (anchor_mac wc key payload) = 32" using assms(1) by (simp add: crypto_laws_def anchor_mac_def)
  define header where "header = ''HWAN'' @ put_bytes 4 (of_nat (length payload))"
  have "length header = 8" "take 4 header = ''HWAN''" "encoded = header @ payload @ anchor_mac wc key payload"
    by (simp_all add: header_def e put_bytes_length)
  moreover have "unat (get_uint64 0 (drop 4 header)) = length payload"
    using p put4_get [of "length payload"] by (simp add: header_def nativeWitnessMaximumAnchor_def)
  ultimately show ?thesis using v u mac p assms(2)
    by (simp add: decodeNativeWitnessAnchor_def nativeWitnessMaximumAnchor_def anchor_wire Let_def)
qed

lemma decode_ok: "crypto_laws wc \<Longrightarrow> decodeNativeWitnessAnchor wc encoded key = Some a \<Longrightarrow> anchor_ok a \<and> validNativeWitnessAnchor a"
  by (auto simp: decodeNativeWitnessAnchor_def crypto_laws_def Let_def split: if_splits option.splits intro: anchor_read)

lemma decode_authentic:
  assumes "decodeNativeWitnessAnchor wc encoded key = Some a"
  shows "\<exists>payload. encoded = take 8 encoded @ payload @ anchor_mac wc key payload"
proof -
  let ?len = "unat (get_uint64 0 (take 4 (drop 4 encoded)))"
  have l: "8 + ?len + 32 = length encoded" and m: "drop (8 + ?len) encoded = anchor_mac wc key (take ?len (drop 8 encoded))"
    using assms by (auto simp: decodeNativeWitnessAnchor_def Let_def split: if_splits option.splits)
  have "encoded = take 8 encoded @ take ?len (drop 8 encoded) @ drop ?len (drop 8 encoded)"
    by (simp only: append_take_drop_id)
  also have "drop ?len (drop 8 encoded) = anchor_mac wc key (take ?len (drop 8 encoded))"
    using m by (simp add: add.commute)
  finally show ?thesis by blast
qed

subsection \<open>The durable anchor\<close>

definition native_durable :: "'e wdeps \<Rightarrow> 'e nworld \<Rightarrow> firstTrustAnchorRecord option" where
  "native_durable wd w =
     (case go_lookup (nw_files w) ''ANCHOR'' of
        None \<Rightarrow> None | Some payload \<Rightarrow> decodeNativeWitnessAnchor (wd_crypto wd) payload (nw_key w))"

text \<open>What the provider holds in memory and its key.\<close>

definition same_memory :: "'e nworld \<Rightarrow> 'e nworld \<Rightarrow> bool" where
  "same_memory w w' \<longleftrightarrow> nw_key w' = nw_key w \<and> nw_anchor w' = nw_anchor w \<and> nw_anchorReady w' = nw_anchorReady w \<and>
     nw_anchorIdentity w' = nw_anchorIdentity w"

lemma wp_wpeek [simp]: "wp (wpeek f) Q w = Q (f w) w"
  by (simp add: wpeek_def wp_State)

lemma wp_wpoke [simp]: "wp (wpoke f) Q w = Q () (f w)"
  by (simp add: wpoke_def wp_State)

lemma wp_env_call [simp]: "wp (env_call f) Q w = (case f (nw_env w) of (a, e) \<Rightarrow> Q a (w\<lparr>nw_env := e\<rparr>))"
  by (simp add: env_call_def wp_State split: prod.splits)

text \<open>A program that reads files and asks the environment only leaves files and memory alone.\<close>

definition untouched :: "'e nworld \<Rightarrow> 'e nworld \<Rightarrow> bool" where
  "untouched w w' \<longleftrightarrow> nw_files w' = nw_files w \<and> same_memory w w'"

lemma untouched_refl [simp]: "untouched w w"
  by (simp add: untouched_def same_memory_def)

lemma untouched_trans: "untouched w w' \<Longrightarrow> untouched w' w'' \<Longrightarrow> untouched w w''"
  by (simp add: untouched_def same_memory_def)

lemma wp_fails: "(\<And>b w'. untouched w w' \<Longrightarrow> Q b w') \<Longrightarrow> wp (fails wd p) Q w"
  by (auto simp: fails_def untouched_def same_memory_def split: prod.splits)

lemma wp_cancelled: "(\<And>b w'. untouched w w' \<Longrightarrow> Q b w') \<Longrightarrow> wp (nativeProtectedContextCancelled wd ctx) Q w"
  by (auto simp: nativeProtectedContextCancelled_def untouched_def same_memory_def split: prod.splits)

lemma write_effect:
  "wp (writeNativeWitnessFileAtomic wd name payload createOnly) (\<lambda>ok w'. same_memory w w' \<and>
     (nw_files w' = nw_files w \<and> \<not> ok \<or> nw_files w' = go_put name payload (nw_files w))) w"
  unfolding writeNativeWitnessFileAtomic_def
  by (auto simp: untouched_def same_memory_def intro!: wp_fails)

lemma read_effect:
  "wp (readNativeWitnessFile wd name maximum) (\<lambda>r w'. untouched w w' \<and>
     (case r of ReadMissing \<Rightarrow> go_lookup (nw_files w) name = None
      | ReadFailed \<Rightarrow> True
      | ReadOk payload \<Rightarrow> go_lookup (nw_files w) name = Some payload)) w"
  unfolding readNativeWitnessFile_def
  by (auto simp: untouched_def same_memory_def intro!: wp_fails split: option.splits)

text \<open>The heart of the compare-and-store, under the lock.\<close>

definition swaps :: "'e wdeps \<Rightarrow> firstTrustAnchorRecord option \<Rightarrow> firstTrustAnchorRecord \<Rightarrow> 'e nworld \<Rightarrow> bool \<Rightarrow> 'e nworld \<Rightarrow> bool" where
  "swaps wd expected target w ok w' \<longleftrightarrow> same_memory w w' \<and>
     (native_durable wd w = expected \<and> native_durable wd w' = Some target \<or>
      native_durable wd w' = native_durable wd w \<and> \<not> ok)"

lemma durable_untouched: "untouched w w' \<Longrightarrow> native_durable wd w' = native_durable wd w"
  by (auto simp: untouched_def same_memory_def native_durable_def split: option.splits)

lemma swaps_untouched: "untouched w w' \<Longrightarrow> swaps wd expected target w False w'"
  by (simp add: swaps_def durable_untouched untouched_def)

lemma durable_put:
  assumes "crypto_laws (wd_crypto wd)" and "anchor_ok target"
    and "encodeNativeWitnessAnchor (wd_crypto wd) target (nw_key w) = Some encoded"
    and "nw_files w' = go_put ''ANCHOR'' encoded fs" and "nw_key w' = nw_key w"
  shows "native_durable wd w' = Some target"
  using decode_encode [OF assms(1-3)] assms(4,5) by (simp add: native_durable_def)

lemma write_swaps:
  assumes laws: "crypto_laws (wd_crypto wd)" and good: "anchor_ok target"
    and enc: "encodeNativeWitnessAnchor (wd_crypto wd) target (nw_key w) = Some encoded"
    and eq: "native_durable wd w = expected" and un: "untouched w w1"
  shows "wp (writeNativeWitnessFileAtomic wd ''ANCHOR'' encoded False)
           (\<lambda>ok w'. swaps wd expected target w ok w') w1"
proof (rule wp_mono [OF write_effect])
  fix ok w'
  assume *: "same_memory w1 w' \<and>
    (nw_files w' = nw_files w1 \<and> \<not> ok \<or> nw_files w' = go_put ''ANCHOR'' encoded (nw_files w1))"
  then have m: "same_memory w w'" using un by (auto simp: same_memory_def untouched_def)
  from * consider "nw_files w' = nw_files w" "\<not> ok" | "nw_files w' = go_put ''ANCHOR'' encoded (nw_files w1)"
    using un by (auto simp: untouched_def)
  then show "swaps wd expected target w ok w'"
  proof cases
    case 1
    with m have "untouched w w'" by (simp add: untouched_def)
    with 1 show ?thesis by (simp add: swaps_untouched)
  next
    case 2
    then have "native_durable wd w' = Some target" using m by (intro durable_put [OF laws good enc]) (auto simp: same_memory_def)
    with m eq show ?thesis by (simp add: swaps_def)
  qed
qed

lemma read_decides:
  assumes "untouched w w1"
    and "case r of ReadMissing \<Rightarrow> go_lookup (nw_files w) ''ANCHOR'' = None
         | ReadFailed \<Rightarrow> True | ReadOk payload \<Rightarrow> go_lookup (nw_files w) ''ANCHOR'' = Some payload"
    and "(case r of ReadMissing \<Rightarrow> Some None | ReadFailed \<Rightarrow> None
          | ReadOk payload \<Rightarrow> map_option Some (decodeNativeWitnessAnchor (wd_crypto wd) payload (nw_key w))) = Some current"
  shows "native_durable wd w = current"
  using assms by (auto simp: native_durable_def split: read_result.splits)

lemma compare_and_swap_swaps:
  assumes laws: "crypto_laws (wd_crypto wd)" and good: "native_durable wd w = expected \<Longrightarrow> anchor_ok target"
    and un: "untouched w w1"
  shows "wp (compare_and_swap wd (nw_key w) expected target) (\<lambda>stored w'. swaps wd expected target w (stored \<noteq> None) w') w1"
  unfolding compare_and_swap_def
proof (simp only: wp_bind, rule wp_mono [OF read_effect], elim conjE)
  let ?Q = "\<lambda>stored w'. swaps wd expected target w (stored \<noteq> None) w'"
  let ?result = "\<lambda>r. case r of ReadMissing \<Rightarrow> Some None | ReadFailed \<Rightarrow> None
    | ReadOk payload \<Rightarrow> map_option Some (decodeNativeWitnessAnchor (wd_crypto wd) payload (nw_key w))"
  fix r w2
  assume un2: "untouched w1 w2" and r: "case r of ReadMissing \<Rightarrow> go_lookup (nw_files w1) ''ANCHOR'' = None
    | ReadFailed \<Rightarrow> True | ReadOk payload \<Rightarrow> go_lookup (nw_files w1) ''ANCHOR'' = Some payload"
  have un': "untouched w w2" using un un2 by (rule untouched_trans)
  have no: "swaps wd expected target w False w2" using un' by (rule swaps_untouched)
  show "wp (case ?result r of
      None \<Rightarrow> State_Monad.return None
    | Some current \<Rightarrow>
        if (case expected of None \<Rightarrow> current \<noteq> None | Some e \<Rightarrow> \<not> ptr_holds (\<lambda>a. firstTrustAnchorRecordEqual a e) current)
        then State_Monad.return None
        else (case encodeNativeWitnessAnchor (wd_crypto wd) target (nw_key w) of
            None \<Rightarrow> State_Monad.return None
          | Some encoded \<Rightarrow> do {
              ok \<leftarrow> writeNativeWitnessFileAtomic wd ''ANCHOR'' encoded False;
              State_Monad.return (if ok then Some () else None)})) ?Q w2"
  proof (cases "?result r")
    case None
    then show ?thesis using no by simp
  next
    case (Some current)
    have cur: "native_durable wd w = current"
      using un r Some by (intro read_decides [OF un', of r]) (auto simp: untouched_def split: read_result.splits)
    show ?thesis
    proof (cases "encodeNativeWitnessAnchor (wd_crypto wd) target (nw_key w) = None \<or> current \<noteq> expected")
      case True
      then show ?thesis using Some no by (auto simp: ptr_holds_iff split: option.splits)
    next
      case False
      then obtain encoded where enc: "encodeNativeWitnessAnchor (wd_crypto wd) target (nw_key w) = Some encoded"
        and eq: "current = expected" by auto
      have "wp (writeNativeWitnessFileAtomic wd ''ANCHOR'' encoded False)
             (\<lambda>ok w'. swaps wd expected target w ok w') w2"
        using cur eq good un' by (intro write_swaps [OF laws _ enc]) auto
      then have "wp (writeNativeWitnessFileAtomic wd ''ANCHOR'' encoded False)
             (\<lambda>ok w'. ?Q (if ok then Some () else None) w') w2"
        by (rule wp_mono) auto
      then show ?thesis using Some enc eq by (auto split: option.splits)
    qed
  qed
qed

lemma compare_and_store_swaps:
  assumes "crypto_laws (wd_crypto wd)" and "native_durable wd w = expected \<Longrightarrow> anchor_ok target"
  shows "wp (compareAndStoreAnchor wd expected target) (swaps wd expected target w) w"
proof -
  have "untouched w w1 \<Longrightarrow> untouched w1 w2 \<Longrightarrow>
      wp (compare_and_swap wd (nw_key w) expected target) (\<lambda>stored. swaps wd expected target w (stored \<noteq> None)) w2" for w1 w2
    using assms by (intro compare_and_swap_swaps) (auto intro: untouched_trans)
  moreover have "untouched w w1 \<Longrightarrow> untouched w1 w2 \<Longrightarrow> swaps wd expected target w False w2" for w1 w2
    by (rule swaps_untouched) (rule untouched_trans)
  ultimately show ?thesis
    unfolding compareAndStoreAnchor_def withLock_def by (auto simp: swaps_untouched intro!: wp_fails)
qed

subsection \<open>The interface of the anchor\<close>

definition finalized :: "firstTrustPendingPublication \<Rightarrow> firstTrustAnchorRecord \<Rightarrow> firstTrustAnchorRecord" where
  "finalized p a = a\<lparr>ar_manifestGenerationHighWater := gb_sequence (mb_current (pb_targetManifest p)),
     ar_controlEpochHighWater := pb_targetControlEpoch p, ar_pending := None\<rparr>"

definition staged :: "firstTrustPendingPublication \<Rightarrow> firstTrustAnchorRecord \<Rightarrow> firstTrustAnchorRecord" where
  "staged p a = a\<lparr>ar_pending := Some p\<rparr>"

definition cleared :: "firstTrustAnchorRecord \<Rightarrow> firstTrustAnchorRecord" where
  "cleared a = a\<lparr>ar_pending := None\<rparr>"

text \<open>
  What a publication relies on: an operation that answers \<^verbatim>\<open>anchor_durable\<close> replaced the durable
  anchor, and found it as it should be; any other answer leaves it, or replaced it all the same.
\<close>

locale anchor_provider =
  fixes an :: "'w firstTrustAnchorProvider"
    and durable :: "'w \<Rightarrow> firstTrustAnchorRecord option"
    and good :: "firstTrustPendingPublication \<Rightarrow> bool"
  assumes stage: "good p \<Longrightarrow> CompareAndStage an ctx e p w = (r, w') \<Longrightarrow>
      durable w = Some e \<and> ar_pending e = None \<and> durable w' = Some (staged p e) \<or>
      durable w' = durable w \<and> r \<noteq> ''anchor_durable''"
    and finalize: "good p \<Longrightarrow> CompareAndFinalize an ctx p w = (r, w') \<Longrightarrow>
      (\<exists>a. durable w = Some a \<and> ar_pending a = Some p \<and> durable w' = Some (finalized p a)) \<or>
      durable w' = durable w \<and> r \<noteq> ''anchor_durable''"
    and clear: "good p \<Longrightarrow> CompareAndClear an ctx p w = (r, w') \<Longrightarrow>
      (\<exists>a. durable w = Some a \<and> ar_pending a = Some p \<and> durable w' = Some (cleared a)) \<or>
      durable w' = durable w \<and> r \<noteq> ''anchor_durable''"
begin

lemma stage_durable:
  "good p \<Longrightarrow> CompareAndStage an ctx e p w = (''anchor_durable'', w') \<Longrightarrow> durable w' = Some (staged p e)"
  using stage by fastforce

lemma finalize_durable:
  assumes "good p" and "CompareAndFinalize an ctx p w = (''anchor_durable'', w')" and "durable w = Some (staged p e)"
  shows "durable w' = Some (finalized p e)"
  using finalize [OF assms(1,2)] assms(3) by (auto simp: staged_def finalized_def)

lemma clear_durable:
  assumes "good p" and "CompareAndClear an ctx p w = (''anchor_durable'', w')" and "durable w = Some (staged p e)"
    and "ar_pending e = None"
  shows "durable w' = Some e"
  using clear [OF assms(1,2)] assms(3,4) by (cases e) (auto simp: staged_def cleared_def)

end

text \<open>Publications the witness can keep: their parts have the shapes the decoder demands.\<close>

definition native_good :: "'e wdeps \<Rightarrow> firstTrustPendingPublication \<Rightarrow> bool" where
  "native_good wd p \<longleftrightarrow> crypto_laws (wd_crypto wd) \<and> pending_ok p"

lemma durable_ok: "crypto_laws (wd_crypto wd) \<Longrightarrow> native_durable wd w = Some a \<Longrightarrow> anchor_ok a"
  by (auto simp: native_durable_def decode_ok split: option.splits)

lemma durable_memory [simp]: "native_durable wd (w\<lparr>nw_anchor := a\<rparr>) = native_durable wd w"
  by (auto simp: native_durable_def split: option.splits)

lemma store_and_keep_swaps:
  assumes "crypto_laws (wd_crypto wd)" and "anchor_ok (nw_anchor w) \<Longrightarrow> anchor_ok target"
  shows "wp (store_and_keep wd target) (\<lambda>r w'.
           native_durable wd w = Some (nw_anchor w) \<and> native_durable wd w' = Some target \<or>
           native_durable wd w' = native_durable wd w \<and> r \<noteq> ''anchor_durable'') w"
proof -
  have "wp (compareAndStoreAnchor wd (Some (nw_anchor w)) target) (swaps wd (Some (nw_anchor w)) target w) w"
    using assms durable_ok by (intro compare_and_store_swaps) auto
  then have "wp (compareAndStoreAnchor wd (Some (nw_anchor w)) target) (\<lambda>stored w1.
      wp (if \<not> stored then State_Monad.return ''anchor_not_published''
          else do {wpoke (\<lambda>w. w\<lparr>nw_anchor := target\<rparr>); State_Monad.return ''anchor_durable''})
        (\<lambda>r w'. native_durable wd w = Some (nw_anchor w) \<and> native_durable wd w' = Some target \<or>
           native_durable wd w' = native_durable wd w \<and> r \<noteq> ''anchor_durable'') w1) w"
    by (rule wp_mono) (auto simp: swaps_def)
  then show ?thesis by (simp only: store_and_keep_def wp_bind wp_wpeek)
qed

text \<open>The guard of an operation on the anchor in memory, and what follows when it lets it pass.\<close>

lemma guarded_swap:
  assumes laws: "crypto_laws (wd_crypto wd)"
    and pass: "\<not> guard (nw_anchorReady w) (nw_anchor w) \<Longrightarrow> P (nw_anchor w)"
    and ok: "anchor_ok (nw_anchor w) \<Longrightarrow> P (nw_anchor w) \<Longrightarrow> anchor_ok (f (nw_anchor w))"
  shows "wp (do {cancelled \<leftarrow> nativeProtectedContextCancelled wd ctx; ready \<leftarrow> wpeek nw_anchorReady; anchor \<leftarrow> wpeek nw_anchor;
      if cancelled \<or> guard ready anchor then State_Monad.return ''anchor_not_published'' else store_and_keep wd (f anchor)})
    (\<lambda>r w'. (\<exists>a. native_durable wd w = Some a \<and> P a \<and> native_durable wd w' = Some (f a)) \<or>
      native_durable wd w' = native_durable wd w \<and> r \<noteq> ''anchor_durable'') w"
proof (simp only: wp_bind, rule wp_cancelled)
  fix b w1 assume un: "untouched w w1"
  then have a: "nw_anchor w1 = nw_anchor w" "nw_anchorReady w1 = nw_anchorReady w"
    by (auto simp: untouched_def same_memory_def)
  have d: "native_durable wd w1 = native_durable wd w" using un by (rule durable_untouched)
  let ?R = "\<lambda>r w'. (\<exists>a. native_durable wd w = Some a \<and> P a \<and> native_durable wd w' = Some (f a)) \<or>
      native_durable wd w' = native_durable wd w \<and> r \<noteq> ''anchor_durable''"
  have "wp (store_and_keep wd (f (nw_anchor w1))) ?R w1" if "\<not> guard (nw_anchorReady w1) (nw_anchor w1)"
  proof -
    have "P (nw_anchor w)" using that pass a by simp
    then show ?thesis using store_and_keep_swaps [OF laws, of w1 "f (nw_anchor w1)"] ok a d by (auto elim!: wp_mono)
  qed
  then show "wp (wpeek nw_anchorReady) (\<lambda>ready. wp (wpeek nw_anchor) (\<lambda>anchor. wp (if b \<or> guard ready anchor
      then State_Monad.return ''anchor_not_published'' else store_and_keep wd (f anchor)) ?R)) w1"
    using d by simp
qed

interpretation native: anchor_provider "native_provider wd" "native_durable wd" "native_good wd" for wd :: "'e wdeps"
proof unfold_locales
  fix p ctx e w r w'
  assume good: "native_good wd p" and run: "CompareAndStage (native_provider wd) ctx e p w = (r, w')"
  have "wp (provider_CompareAndStage wd ctx e p) (\<lambda>r w'.
      (\<exists>a. native_durable wd w = Some a \<and> (a = e \<and> ar_pending e = None) \<and> native_durable wd w' = Some (staged p a)) \<or>
      native_durable wd w' = native_durable wd w \<and> r \<noteq> ''anchor_durable'') w"
    using good unfolding provider_CompareAndStage_def native_good_def staged_def
    by (intro guarded_swap [where guard = "\<lambda>ready anchor. \<not> ready \<or> ar_pending anchor \<noteq> None \<or>
          \<not> firstTrustAnchorRecordEqual anchor e \<or> pb_storeInstance p \<noteq> ar_storeInstance anchor"])
       (auto simp: anchor_ok_def)
  then show "native_durable wd w = Some e \<and> ar_pending e = None \<and> native_durable wd w' = Some (staged p e) \<or>
      native_durable wd w' = native_durable wd w \<and> r \<noteq> ''anchor_durable''"
    using run by (auto simp: native_provider_def dest: wp_run)
next
  fix p ctx w r w'
  assume good: "native_good wd p" and run: "CompareAndFinalize (native_provider wd) ctx p w = (r, w')"
  have "wp (provider_CompareAndFinalize wd ctx p) (\<lambda>r w'.
      (\<exists>a. native_durable wd w = Some a \<and> ar_pending a = Some p \<and> native_durable wd w' = Some (finalized p a)) \<or>
      native_durable wd w' = native_durable wd w \<and> r \<noteq> ''anchor_durable'') w"
    using good unfolding provider_CompareAndFinalize_def native_good_def finalized_def
    by (intro guarded_swap [where guard = "\<lambda>ready anchor. \<not> ready \<or> \<not> pending_is p anchor"])
       (auto simp: anchor_ok_def pending_is_def ptr_holds_iff)
  then show "(\<exists>a. native_durable wd w = Some a \<and> ar_pending a = Some p \<and> native_durable wd w' = Some (finalized p a)) \<or>
      native_durable wd w' = native_durable wd w \<and> r \<noteq> ''anchor_durable''"
    using run by (auto simp: native_provider_def dest: wp_run)
next
  fix p ctx w r w'
  assume good: "native_good wd p" and run: "CompareAndClear (native_provider wd) ctx p w = (r, w')"
  have "wp (provider_CompareAndClear wd ctx p) (\<lambda>r w'.
      (\<exists>a. native_durable wd w = Some a \<and> ar_pending a = Some p \<and> native_durable wd w' = Some (cleared a)) \<or>
      native_durable wd w' = native_durable wd w \<and> r \<noteq> ''anchor_durable'') w"
    using good unfolding provider_CompareAndClear_def native_good_def cleared_def
    by (intro guarded_swap [where guard = "\<lambda>ready anchor. \<not> ready \<or> \<not> pending_is p anchor"])
       (auto simp: anchor_ok_def pending_is_def ptr_holds_iff)
  then show "(\<exists>a. native_durable wd w = Some a \<and> ar_pending a = Some p \<and> native_durable wd w' = Some (cleared a)) \<or>
      native_durable wd w' = native_durable wd w \<and> r \<noteq> ''anchor_durable''"
    using run by (auto simp: native_provider_def dest: wp_run)
qed

end
