(* ===== verification/TrustPublication.thy ===== *)
theory TrustPublication
  imports TrustRecovery TrustAnchor
begin

text \<open>
  Publication across the store and the anchor: whatever fails and wherever, the store stays in
  step with the anchor, so that the next start tells a publication that took place from one that
  did not. The client of the anchor's interface is proved once against its laws and applied to the
  native provider.
\<close>

text \<open>What the store has selected: its manifest and control epoch.\<close>

type_synonym selection = "firstTrustManifestBinding \<times> uint64"

definition selection_of :: "firstTrustControlView \<Rightarrow> selection" where
  "selection_of v = (cv_manifest v, cr_controlEpoch (cv_control v))"

definition previous_of :: "firstTrustPendingPublication \<Rightarrow> selection" where
  "previous_of p = (pb_previousManifest p, pb_previousControlEpoch p)"

definition target_of :: "firstTrustPendingPublication \<Rightarrow> selection" where
  "target_of p = (pb_targetManifest p, pb_targetControlEpoch p)"

text \<open>
  The two are in step: with nothing pending the marks of the anchor are those of the store; with a
  publication pending the store has selected what was before it or what it publishes.
\<close>

definition in_step :: "selection \<Rightarrow> firstTrustAnchorRecord option \<Rightarrow> bool" where
  "in_step s anchor \<longleftrightarrow> (\<exists>a. anchor = Some a \<and>
     (case ar_pending a of
        None \<Rightarrow> gb_sequence (mb_current (fst s)) = ar_manifestGenerationHighWater a \<and> snd s = ar_controlEpochHighWater a
      | Some p \<Rightarrow> s = previous_of p \<or> s = target_of p))"

text \<open>
  What is documented of the store: preparing selects nothing; a commit selects the target of its
  publication or nothing, and says so when it is certain of it.
\<close>

definition store_laws ::
  "'w firstTrustControlPersistence \<Rightarrow> ('w \<Rightarrow> selection) \<Rightarrow> ('w \<Rightarrow> firstTrustAnchorRecord option) \<Rightarrow>
     (firstTrustPendingPublication \<Rightarrow> bool) \<Rightarrow> bool" where
  "store_laws st sel durable good \<longleftrightarrow>
     (\<forall>ctx view target oid cls w publication outcome w'.
        PrepareControl st ctx view target oid cls w = ((publication, outcome), w') \<longrightarrow>
        sel w' = sel w \<and> durable w' = durable w \<and>
        (outcome = ''prepared'' \<longrightarrow> good (firstTrustPendingFromPrepared publication))) \<and>
     (\<forall>ctx publication w outcome w'. CommitControl st ctx publication w = (outcome, w') \<longrightarrow>
        durable w' = durable w \<and> (sel w' = sel w \<or> sel w' = selection_of (pr_target publication)) \<and>
        (outcome = Some ''commit_durable'' \<longrightarrow> sel w' = selection_of (pr_target publication)) \<and>
        (outcome = Some ''commit_not_published'' \<longrightarrow> sel w' = sel w))"

definition anchor_frame :: "'w firstTrustAnchorProvider \<Rightarrow> ('w \<Rightarrow> selection) \<Rightarrow> bool" where
  "anchor_frame an sel \<longleftrightarrow>
     (\<forall>ctx e p w. sel (snd (CompareAndStage an ctx e p w)) = sel w) \<and>
     (\<forall>ctx p w. sel (snd (CompareAndFinalize an ctx p w)) = sel w) \<and>
     (\<forall>ctx p w. sel (snd (CompareAndClear an ctx p w)) = sel w)"

text \<open>What a publication leaves, by its outcome.\<close>

definition published ::
  "('w \<Rightarrow> selection) \<Rightarrow> ('w \<Rightarrow> firstTrustAnchorRecord option) \<Rightarrow> firstTrustAnchorRecord \<Rightarrow> selection \<Rightarrow>
     firstTrustPreparedPublication \<times> string \<times> firstTrustAnchorRecord \<Rightarrow> 'w \<Rightarrow> bool" where
  "published sel durable anchor s result w' =
     (case result of (publication, outcome, anchor') \<Rightarrow>
        in_step (sel w') (durable w') \<and>
        List.member [''durable'', ''prepare_failed'', ''unchanged'', ''unknown''] outcome \<and>
        (outcome = ''durable'' \<longrightarrow> sel w' = selection_of (pr_target publication) \<and> durable w' = Some anchor' \<and>
           ar_pending anchor' = None) \<and>
        (outcome = ''prepare_failed'' \<longrightarrow> sel w' = s \<and> durable w' = Some anchor \<and> anchor' = anchor) \<and>
        (outcome = ''unchanged'' \<longrightarrow> sel w' = s \<and> anchor' = anchor \<and>
           (durable w' = Some anchor \<or> durable w' = Some (staged (firstTrustPendingFromPrepared publication) anchor))))"

lemma prepared_selections:
  assumes "firstTrustPreparedPublicationValid publication selected oid cls"
  shows "previous_of (firstTrustPendingFromPrepared publication) = selection_of selected"
    and "target_of (firstTrustPendingFromPrepared publication) = selection_of (pr_target publication)"
  using assms by (auto simp: firstTrustPreparedPublicationValid_def firstTrustPendingFromPrepared_def previous_of_def
      target_of_def selection_of_def)

lemma in_step_staged:
  "in_step s (Some (staged p a)) \<longleftrightarrow> s = previous_of p \<or> s = target_of p"
  by (simp add: in_step_def staged_def)

lemma in_step_finalized: "in_step (target_of p) (Some (finalized p a))"
  by (simp add: in_step_def finalized_def target_of_def)

lemma staged_anchor: "anchor\<lparr>ar_pending := Some p\<rparr> = staged p anchor"
  by (simp add: staged_def)

lemma cleared_staged: "ar_pending anchor = None \<Longrightarrow> (staged p anchor)\<lparr>ar_pending := None\<rparr> = anchor"
  by (cases anchor) (simp add: staged_def)

context anchor_provider
begin

lemma commit_phase:
  assumes laws: "store_laws st sel durable good" and frame: "anchor_frame an sel"
    and valid: "firstTrustPreparedPublicationValid publication selected oid cls"
    and good: "good (firstTrustPendingFromPrepared publication)"
    and start: "durable (co_world c) = Some (staged (firstTrustPendingFromPrepared publication) anchor)"
      "ar_pending anchor = None" "sel (co_world c) = selection_of selected"
    and before: "in_step (selection_of selected) (Some anchor)"
  shows "wp (publish_staged st an ctx publication anchor)
    (\<lambda>result c'. published sel durable anchor (selection_of selected) result (co_world c') \<and>
       c' = c\<lparr>co_world := co_world c'\<rparr>) c"
proof -
  let ?p = "firstTrustPendingFromPrepared publication"
  note sels = prepared_selections [OF valid]
  obtain outcome w1 where commit: "CommitControl st ctx publication (co_world c) = (outcome, w1)" by fastforce
  from laws commit have d1: "durable w1 = Some (staged ?p anchor)"
    and s1: "sel w1 = previous_of ?p \<or> sel w1 = target_of ?p"
    and applied: "outcome = Some ''commit_durable'' \<Longrightarrow> sel w1 = target_of ?p"
    and undone: "outcome = Some ''commit_not_published'' \<Longrightarrow> sel w1 = selection_of selected"
    using start sels unfolding store_laws_def by fastforce+
  obtain f w2 where fin: "CompareAndFinalize an ctx ?p w1 = (f, w2)" by fastforce
  obtain r w3 where clr: "CompareAndClear an ctx ?p w1 = (r, w3)" by fastforce
  have "sel (snd (CompareAndFinalize an ctx ?p w1)) = sel w1" "sel (snd (CompareAndClear an ctx ?p w1)) = sel w1"
    using frame unfolding anchor_frame_def by blast+
  then have s2: "sel w2 = sel w1" and s3: "sel w3 = sel w1" by (simp_all add: fin clr)
  have d2: "durable w2 = Some (finalized ?p anchor) \<or> durable w2 = durable w1 \<and> f \<noteq> ''anchor_durable''"
    using finalize [OF good fin] d1 by (auto simp: staged_def finalized_def)
  have d3: "durable w3 = Some anchor \<or> durable w3 = durable w1 \<and> r \<noteq> ''anchor_durable''"
    using clear [OF good clr] d1 start(2) by (cases anchor) (auto simp: staged_def cleared_def)
  have result: "(staged ?p anchor)\<lparr>ar_manifestGenerationHighWater := gb_sequence (mb_current (pb_targetManifest ?p)),
      ar_controlEpochHighWater := pb_targetControlEpoch ?p, ar_pending := None\<rparr> = finalized ?p anchor"
    by (simp add: staged_def finalized_def)
  consider "outcome = Some ''commit_durable''" | "outcome = Some ''commit_not_published''"
    | "outcome \<noteq> Some ''commit_durable''" "outcome \<noteq> Some ''commit_not_published''" by blast
  then show ?thesis
  proof cases
    case 1
    have "in_step (sel w2) (durable w2)" using applied [OF 1] s2 d1 d2 by (auto simp: in_step_staged in_step_finalized)
    moreover have "ar_pending (finalized ?p anchor) = None" by (simp add: finalized_def)
    ultimately show ?thesis using 1 commit fin applied [OF 1] s2 d2 sels
      by (auto simp: publish_staged_def Let_def published_def staged_anchor result)
  next
    case 2
    have "in_step (sel w3) (durable w3)" using undone [OF 2] s3 d1 d3 before sels by (auto simp: in_step_staged)
    then show ?thesis using 2 commit clr undone [OF 2] s3 d3 start
      by (auto simp: publish_staged_def Let_def published_def staged_anchor cleared_staged)
  next
    case 3
    then show ?thesis using commit s1 d1
      by (auto simp: publish_staged_def Let_def published_def in_step_staged staged_anchor split: option.splits)
  qed
qed

lemma publish_consistent:
  assumes laws: "store_laws st sel durable good" and frame: "anchor_frame an sel"
    and start: "durable (co_world c) = Some anchor" "ar_pending anchor = None" "sel (co_world c) = selection_of selected"
    and before: "in_step (selection_of selected) (Some anchor)"
  shows "wp (publishFirstTrustControl st an ctx working target oid cls selected anchor)
    (\<lambda>result c'. published sel durable anchor (selection_of selected) result (co_world c') \<and>
       c' = c\<lparr>co_world := co_world c'\<rparr>) c"
proof -
  obtain publication outcome w1 where
    prep: "PrepareControl st ctx working target oid cls (co_world c) = ((publication, outcome), w1)"
    by (metis surj_pair)
  let ?p = "firstTrustPendingFromPrepared publication"
  obtain r w2 where stg: "CompareAndStage an ctx anchor ?p w1 = (r, w2)" by fastforce
  from laws prep have p1: "sel w1 = selection_of selected" "durable w1 = Some anchor"
    and good: "outcome = ''prepared'' \<Longrightarrow> good ?p"
    using start unfolding store_laws_def by fastforce+
  have "sel (snd (CompareAndStage an ctx anchor ?p w1)) = sel w1" using frame unfolding anchor_frame_def by blast
  then have s2: "sel w2 = selection_of selected" using p1 by (simp add: stg)
  show ?thesis
  proof (cases "outcome = ''prepared'' \<and> firstTrustPreparedPublicationValid publication selected oid cls")
    case False
    then show ?thesis using prep p1 before start
      by (auto simp: publishFirstTrustControl_def published_def)
  next
    case True
    then have d2: "durable w2 = Some (staged ?p anchor) \<or> durable w2 = Some anchor \<and> r \<noteq> ''anchor_durable''"
      using stage [OF good stg] p1 by auto
    have prev: "previous_of ?p = selection_of selected" using True prepared_selections by blast
    show ?thesis
    proof (cases "r = ''anchor_durable''")
      case True
      then have "durable w2 = Some (staged ?p anchor)" using d2 by simp
      then have "wp (publish_staged st an ctx publication anchor)
          (\<lambda>result c'. published sel durable anchor (selection_of selected) result (co_world c') \<and>
             c' = (c\<lparr>co_world := w2\<rparr>)\<lparr>co_world := co_world c'\<rparr>) (c\<lparr>co_world := w2\<rparr>)"
        using \<open>outcome = _ \<and> _\<close> good s2 start(2)
        by (intro commit_phase [OF laws frame _ _ _ _ _ before, where oid = oid and cls = cls]) auto
      then show ?thesis using True \<open>outcome = _ \<and> _\<close> prep stg by (simp add: publishFirstTrustControl_def)
    next
      case False
      have "in_step (sel w2) (durable w2)" using d2 s2 prev before by (auto simp: in_step_staged)
      then show ?thesis using False \<open>outcome = _ \<and> _\<close> prep stg d2 s2
        by (auto simp: publishFirstTrustControl_def published_def)
    qed
  qed
qed

end

subsection \<open>The native anchor\<close>

text \<open>The calls on the witness leave the store alone.\<close>

definition witness_apart :: "'e wdeps \<Rightarrow> ('e \<Rightarrow> selection) \<Rightarrow> bool" where
  "witness_apart wd sel \<longleftrightarrow> (\<forall>p e. sel (snd (wd_fails wd p e)) = sel e) \<and> (\<forall>ctx e. sel (snd (wd_ctxErr wd ctx e)) = sel e)"

lemma keeps_fails: "witness_apart wd sel \<Longrightarrow> keeps (\<lambda>w. sel (nw_env w) = s) (fails wd p)"
  by (auto simp: keeps_def fails_def witness_apart_def split: prod.splits) (metis snd_conv)

lemma keeps_cancelled: "witness_apart wd sel \<Longrightarrow> keeps (\<lambda>w. sel (nw_env w) = s) (nativeProtectedContextCancelled wd ctx)"
  by (auto simp: keeps_def nativeProtectedContextCancelled_def witness_apart_def split: prod.splits) (metis snd_conv)

lemma keeps_wpeek: "keeps I (wpeek f)"
  by (simp add: keeps_def)

lemma keeps_wpoke: "(\<And>w. I w \<Longrightarrow> I (f w)) \<Longrightarrow> keeps I (wpoke f)"
  by (simp add: keeps_def)

lemmas apart_rules = keeps_rules keeps_fails keeps_cancelled keeps_wpeek keeps_wpoke

lemma keeps_store_and_keep: "witness_apart wd sel \<Longrightarrow> keeps (\<lambda>w. sel (nw_env w) = s) (store_and_keep wd target)"
  unfolding store_and_keep_def compareAndStoreAnchor_def withLock_def compare_and_swap_def readNativeWitnessFile_def
    writeNativeWitnessFileAtomic_def
  by (intro apart_rules) (auto intro: apart_rules)

lemma native_frame: "witness_apart wd sel \<Longrightarrow> anchor_frame (native_provider wd) (\<lambda>w. sel (nw_env w))"
proof -
  assume a: "witness_apart wd sel"
  have k: "keeps (\<lambda>w. sel (nw_env w) = s) (provider_CompareAndStage wd ctx e p)"
      "keeps (\<lambda>w. sel (nw_env w) = s) (provider_CompareAndFinalize wd ctx p)"
      "keeps (\<lambda>w. sel (nw_env w) = s) (provider_CompareAndClear wd ctx p)" for s ctx e p
    unfolding provider_CompareAndStage_def provider_CompareAndFinalize_def provider_CompareAndClear_def
    using a by (auto intro!: apart_rules keeps_store_and_keep)
  show ?thesis unfolding anchor_frame_def native_provider_def
    using k by (auto simp: keeps_def wp_iff_run)
qed

subsection \<open>A failed sync of the directory\<close>

definition sync_fails :: "'e wdeps \<Rightarrow> bool" where
  "sync_fails wd \<longleftrightarrow> (\<forall>p e. wd_fails wd p e = (p = PointSyncDirectory, e)) \<and> (\<forall>ctx e. wd_ctxErr wd ctx e = (False, e))"

lemma run_fails: "sync_fails wd \<Longrightarrow> wp (fails wd p) Q w = Q (p = PointSyncDirectory) w"
  by (simp add: fails_def sync_fails_def)

lemma run_cancelled: "sync_fails wd \<Longrightarrow> wp (nativeProtectedContextCancelled wd ctx) Q w = Q False w"
  by (simp add: nativeProtectedContextCancelled_def sync_fails_def)

text \<open>The provider holds the anchor its file holds.\<close>

definition provider_ready :: "'e wdeps \<Rightarrow> firstTrustAnchorRecord \<Rightarrow> 'e nworld \<Rightarrow> bool" where
  "provider_ready wd anchor w \<longleftrightarrow> nw_anchorReady w \<and> nw_anchor w = anchor \<and> nw_key w \<noteq> zero32 \<and>
     (\<exists>payload. go_lookup (nw_files w) ''ANCHOR'' = Some payload \<and> length payload \<le> nativeWitnessMaximumAnchor \<and>
        decodeNativeWitnessAnchor (wd_crypto wd) payload (nw_key w) = Some anchor)"

lemma stage_sync_lost:
  assumes "sync_fails wd" and "provider_ready wd anchor w" and "ar_pending anchor = None"
    and "pb_storeInstance p = ar_storeInstance anchor"
    and "encodeNativeWitnessAnchor (wd_crypto wd) (staged p anchor) (nw_key w) = Some encoded"
  shows "run_state (provider_CompareAndStage wd ctx anchor p) w =
      (''anchor_not_published'', w\<lparr>nw_files := go_put ''ANCHOR'' encoded (nw_files w)\<rparr>)"
proof -
  have v: "validNativeWitnessAnchor (staged p anchor)" and e: "encoded \<noteq> []"
    using assms(5) by (auto simp: encodeNativeWitnessAnchor_def split: if_splits option.splits)
  have "wp (provider_CompareAndStage wd ctx anchor p)
     (\<lambda>r w'. r = ''anchor_not_published'' \<and> w' = w\<lparr>nw_files := go_put ''ANCHOR'' encoded (nw_files w)\<rparr>) w"
    using assms v e
    by (auto simp: provider_CompareAndStage_def store_and_keep_def compareAndStoreAnchor_def withLock_def compare_and_swap_def
        readNativeWitnessFile_def writeNativeWitnessFileAtomic_def run_fails run_cancelled provider_ready_def staged_anchor)
  then show ?thesis by (simp add: wp_def split: prod.splits)
qed

text \<open>A provider whose memory differs from its file never stages again.\<close>

lemma stage_stuck:
  assumes "crypto_laws (wd_crypto wd)" and "native_durable wd w \<noteq> Some (nw_anchor w)" and "pending_ok p"
  shows "fst (run_state (provider_CompareAndStage wd ctx e p) w) \<noteq> ''anchor_durable''"
proof -
  have "wp (provider_CompareAndStage wd ctx e p) (\<lambda>r w'.
      (\<exists>a. native_durable wd w = Some a \<and> a = nw_anchor w \<and> native_durable wd w' = Some (staged p a)) \<or>
      native_durable wd w' = native_durable wd w \<and> r \<noteq> ''anchor_durable'') w"
    using assms unfolding provider_CompareAndStage_def staged_def
    by (intro guarded_swap [where guard = "\<lambda>ready anchor. \<not> ready \<or> ar_pending anchor \<noteq> None \<or>
          \<not> firstTrustAnchorRecordEqual anchor e \<or> pb_storeInstance p \<noteq> ar_storeInstance anchor"])
       (auto simp: anchor_ok_def)
  then show ?thesis using assms(2) by (auto simp: wp_iff_run)
qed

end
