(* ===== verification/TrustSafety.thy ===== *)
theory TrustSafety
  imports TrustPublication
begin

text \<open>
  What the trust coordinator guarantees of its schedule of retries, of the state it starts in and
  of what it shows: the properties with the inputs they are exercised on.
\<close>

subsection \<open>The anchor in step with the control view\<close>

lemma anchor_product_reason:
  "firstTrustAnchorProductReasonLocked c = [] \<longleftrightarrow>
     ar_pending (co_anchorRecord c) = None \<and> ar_version (co_anchorRecord c) = firstTrustAnchorVersion \<and>
     ar_anchorIdentity (co_anchorRecord c) \<noteq> zero32 \<and> cr_storeInstance (control c) \<noteq> zero32 \<and>
     ar_storeInstance (co_anchorRecord c) = cr_storeInstance (control c) \<and>
     sequence_of (co_controlView c) = ar_manifestGenerationHighWater (co_anchorRecord c) \<and>
     cr_controlEpoch (control c) = ar_controlEpochHighWater (co_anchorRecord c)"
  by (auto simp: firstTrustAnchorProductReasonLocked_def Let_def)

lemma trusted_lineage_iff:
  "trusted_lineage c t as = Some t' \<longleftrightarrow>
     (\<forall>a \<in> set as. association_usable c a \<longrightarrow> \<not> firstTrustTombstonedLocked c a) \<and>
     t' = (t \<or> (\<exists>a \<in> set as. association_usable c a))"
  by (induction c t as rule: trusted_lineage.induct) auto

lemma quarantine_hold_none:
  "quarantine_hold policy qs = None \<longleftrightarrow>
     (\<forall>q \<in> set qs. firstTrustQuarantineRecordValid q policy \<and> qr_state q = ''RETRY_READY'')"
  by (induction policy qs rule: quarantine_hold.induct)
     (auto simp: firstTrustQuarantineRecordValid_def split: if_splits)

subsection \<open>A sample\<close>

text \<open>A paired coordinator: one remote is trusted and the anchor is in step with the store.\<close>

definition sample_bytes :: "nat \<Rightarrow> char \<Rightarrow> bytes" where
  "sample_bytes n b = replicate n b"

definition sample_manifest :: firstTrustManifestBinding where
  "sample_manifest = manifest_zero\<lparr>mb_epoch := 7, mb_current := generation_zero\<lparr>gb_sequence := 7\<rparr>\<rparr>"

definition sample_association :: firstTrustAssociationRecord where
  "sample_association = association_zero\<lparr>fa_reference := sample_bytes 32 (CHR ''3''), fa_subject := sample_bytes 20 (CHR ''4''),
     fa_service := ''ship'', fa_lineage := sample_bytes 32 (CHR ''5''), fa_active := True, fa_trusted := True,
     fa_allowlisted := True, fa_reconnectable := True\<rparr>"

definition sample_control :: firstTrustControlRecord where
  "sample_control = control_zero\<lparr>cr_storeInstance := sample_bytes 32 (CHR ''1''), cr_controlEpoch := 9,
     cr_associationLineage := sample_bytes 32 (CHR ''5'')\<rparr>"

definition sample_view :: firstTrustControlView where
  "sample_view = view_zero\<lparr>cv_manifest := sample_manifest, cv_control := sample_control,
     cv_associations := [sample_association]\<rparr>"

definition sample_anchor :: firstTrustAnchorRecord where
  "sample_anchor = anchor_zero\<lparr>ar_version := 1, ar_anchorIdentity := sample_bytes 32 (CHR ''2''),
     ar_storeInstance := sample_bytes 32 (CHR ''1''), ar_manifestGenerationHighWater := 7, ar_controlEpochHighWater := 9\<rparr>"

definition sample_policy :: firstTrustBackoffPolicy where
  "sample_policy = \<lparr>bp_base = firstTrustBackoffBase, bp_exponentCap = firstTrustBackoffExponentCap,
     bp_maximum = firstTrustBackoffMaximum, bp_attemptMaximum = firstTrustAttemptMaximum\<rparr>"

lemmas sample_defs = sample_bytes_def sample_manifest_def sample_association_def sample_control_def sample_view_def
  sample_anchor_def sample_policy_def trust_limits

subsection \<open>Properties\<close>

text \<open>
  C28. The doubling loop of the retry schedule, with its checks against overflow, computes the
  closed form: a usable policy answers every count up to the limit with the next count and the
  base delay doubled once per failure, capped at the exponent cap and the maximum; it never waits
  less than the base before the limit nor more than the maximum, and at the limit it does not wait
  but holds. A count beyond the limit, or a policy that is not usable, has no answer.
\<close>

theorem backoff_schedule:
  assumes "bp_maximum policy \<le> maxInt64" and "bp_exponentCap policy \<le> maxInt64"
  shows "(if policy_usable policy \<and> current \<le> bp_attemptMaximum policy
          then \<exists>n. firstTrustNextBackoff policy current = Some (n, backoff_delay policy (unat n)) \<and>
                 unat n = min (Suc (unat current)) (unat (bp_attemptMaximum policy)) \<and>
                 0 \<le> backoff_delay policy (unat n) \<and> backoff_delay policy (unat n) \<le> bp_maximum policy \<and>
                 (if n = bp_attemptMaximum policy then backoff_delay policy (unat n) = 0
                  else bp_base policy \<le> backoff_delay policy (unat n))
          else firstTrustNextBackoff policy current = None)"
proof (cases "policy_usable policy \<and> current \<le> bp_attemptMaximum policy")
  case True
  then obtain n where n: "firstTrustNextBackoff policy current = Some (n, backoff_delay policy (unat n))"
      "unat n = min (Suc (unat current)) (unat (bp_attemptMaximum policy))"
    using next_backoff_closed assms by blast
  have "n = bp_attemptMaximum policy \<longleftrightarrow> unat n = unat (bp_attemptMaximum policy)"
    by (simp add: word_unat_eq_iff)
  then show ?thesis
    using True n backoff_delay_bounds [of policy "unat n"] by (auto simp: backoff_delay_def [of policy "unat (bp_attemptMaximum policy)"])
next
  case False
  then show ?thesis by (auto simp: firstTrustNextBackoff_def not_less)
qed

text \<open>The product's own policy waits 3, 6 and 10 seconds and then holds.\<close>

theorem backoff_schedule_witness:
  "firstTrustNextBackoff sample_policy 0 = Some (1, 3000000000) \<and>
   firstTrustNextBackoff sample_policy 1 = Some (2, 6000000000) \<and>
   firstTrustNextBackoff sample_policy 2 = Some (3, 10000000000) \<and>
   firstTrustNextBackoff sample_policy 3 = Some (4, 0) \<and> firstTrustNextBackoff sample_policy 5 = None"
proof -
  have "policy_usable sample_policy" "bp_maximum sample_policy \<le> maxInt64" "bp_exponentCap sample_policy \<le> maxInt64"
      "bp_attemptMaximum sample_policy = 4"
    by (simp_all add: sample_defs policy_usable_def maxInt64_def)
  note s = backoff_schedule [OF this(2,3)] this
  show ?thesis
    using s(1) [of 0] s(1) [of 1] s(1) [of 2] s(1) [of 3] s(1) [of 5] s(2-)
    by (auto simp: backoff_delay_def sample_defs word_unat_eq_iff)
qed

text \<open>
  C29. A start is classified as paired and trusted only when the store and the anchor were both
  read without doubt, nothing is pending, the store is the one the anchor knows and its generation
  and control epoch are exactly the anchor's, so that neither a clone nor a rolled back store
  starts trusted, some association is usable, no usable association was revoked, and no quarantine
  is invalid, held or waiting.
\<close>

theorem trusted_start:
  assumes "classifyFirstTrustStartupLocked deps c storeOutcome anchorOutcome ready = (''PAIRED_TRUSTED'', reason)"
  shows "reason = [] \<and> List.member [''opened_empty'', ''opened_current''] storeOutcome \<and>
    (anchorOutcome = ''opened_anchor'' \<or> firstTrustRecoveredAnchorLocked c) \<and>
    ar_pending (co_anchorRecord c) = None \<and>
    ar_storeInstance (co_anchorRecord c) = cr_storeInstance (control c) \<and>
    sequence_of (co_controlView c) = ar_manifestGenerationHighWater (co_anchorRecord c) \<and>
    cr_controlEpoch (control c) = ar_controlEpochHighWater (co_anchorRecord c) \<and>
    (\<exists>a \<in> set (cv_associations (co_controlView c)). association_usable c a) \<and>
    (\<forall>a \<in> set (cv_associations (co_controlView c)). association_usable c a \<longrightarrow> \<not> firstTrustTombstonedLocked c a) \<and>
    (\<forall>q \<in> set (cr_quarantines (control c)).
       firstTrustQuarantineRecordValid q (d_backoffPolicy deps) \<and> qr_state q = ''RETRY_READY'')"
proof -
  have s: "firstTrustStructuralStoreOutcome storeOutcome = []" "\<not> firstTrustDurabilityUnknownOutcome storeOutcome"
      "storeOutcome \<noteq> ''key_provider_unavailable''" "storeOutcome \<noteq> ''key_material_unavailable''"
    and a: "anchorOutcome = ''opened_anchor'' \<or> firstTrustRecoveredAnchorLocked c"
    and p: "firstTrustAnchorProductReasonLocked c = []"
    and l: "trusted_lineage c False (cv_associations (co_controlView c)) = Some True"
    and q: "quarantine_hold (d_backoffPolicy deps) (cr_quarantines (control c)) = None" and r: "reason = []"
    using assms by (auto simp: classifyFirstTrustStartupLocked_def split: if_splits option.splits prod.splits)
  have "List.member [''opened_empty'', ''opened_current''] storeOutcome"
    using s by (auto simp: firstTrustStructuralStoreOutcome_def firstTrustDurabilityUnknownOutcome_def
        split: if_splits)
  with a p l q r show ?thesis
    by (simp add: anchor_product_reason trusted_lineage_iff quarantine_hold_none)
qed

text \<open>The sample starts trusted; a store one generation behind its anchor does not.\<close>

definition sample_deps :: "unit ftdeps" where
  "sample_deps = \<lparr>d_sha256 = (\<lambda>b. zero32), d_now = (\<lambda>w. (zero_time, w)), d_monotonicNow = (\<lambda>w. (0, w)),
     d_random = (\<lambda>n w. (Some (sample_bytes n (CHR ''6'')), w)), d_ctxErr = (\<lambda>ctx w. (False, w)), d_withCancel = (\<lambda>ctx w. (ctx, w)),
     d_cancel = (\<lambda>ctx w. ((), w)), d_schedule = (\<lambda>delay m w. (True, w)), d_stopTimer = (\<lambda>m w. ((), w)),
     d_store = None, d_recoveryStore = None, d_anchor = None, d_identityProvider = None,
     d_backoffPolicy = sample_policy, d_outgoingAttemptLease = firstTrustOutgoingAttemptLease,
     d_effects = \<lparr>e_setWaiting = (\<lambda>b w. (True, w)), e_cancelRemote = (\<lambda>r k w. ((), w)), e_connectionAlive = (\<lambda>r k w. (True, w)),
       e_registerRemoteSKI = (\<lambda>r k w. ((), w)), e_cancelCandidate = None, e_registerTransientRemoteSKI = None,
       e_unregisterTransientRemoteSKI = None, e_finalizeTransientRemoteSKI = None, e_withdrawalEffects = None\<rparr>,
     d_queuePairingCandidate = (\<lambda>k s w. (None, w)), d_observer = (\<lambda>p w. ((), w)), d_others = nop\<rparr>"

definition sample_paired :: "unit ftc" where
  "sample_paired = (newFirstTrustCoordinatorWithRecovery ())\<lparr>co_controlView := sample_view, co_anchorRecord := sample_anchor\<rparr>"

theorem trusted_start_witness:
  "classifyFirstTrustStartupLocked sample_deps sample_paired ''opened_current'' ''opened_anchor'' False = (''PAIRED_TRUSTED'', []) \<and>
   cr_controlEpoch (control sample_paired) = ar_controlEpochHighWater (co_anchorRecord sample_paired)"
proof -
  have "classifyFirstTrustStartupLocked sample_deps sample_paired ''opened_current'' ''opened_anchor'' False = (''PAIRED_TRUSTED'', [])"
    by code_simp
  with trusted_start [OF this] show ?thesis by simp
qed

subsection \<open>What is shown\<close>

lemma lookup_fold_put:
  "go_lookup (fold (\<lambda>(k, v) m. go_put k v m) xs m) k = Some v \<Longrightarrow> (k, v) \<in> set xs \<or> go_lookup m k = Some v"
proof (induction xs arbitrary: m)
  case (Cons x xs)
  then show ?case using Cons.IH [of "go_put (fst x) (snd x) m"] by (cases x) (auto split: if_splits)
qed simp

lemma lookup_fold_put_in:
  "k \<in> fst ` set xs \<Longrightarrow> go_lookup (fold (\<lambda>(k, v) m. go_put k v m) xs m) k \<noteq> None"
proof (induction xs arbitrary: m)
  case (Cons x xs)
  have keep: "go_lookup m k \<noteq> None \<Longrightarrow> go_lookup (fold (\<lambda>(k, v) m. go_put k v m) xs m) k \<noteq> None" for m xs
    by (induction xs arbitrary: m) auto
  show ?case
  proof (cases "k \<in> fst ` set xs")
    case False
    with Cons.prems have "k = fst x" by auto
    then show ?thesis using keep [of "go_put k (snd x) m" xs] by (cases x) auto
  qed (use Cons.IH in \<open>cases x, auto\<close>)
qed simp

lemma zip_remote_projections:
  assumes "(ski, r) \<in> set (zip (map hex_encode remotes) (remote_projections f remotes))"
  shows "\<exists>i < length remotes. ski = hex_encode (remotes ! i) \<and> tr_state r = fst (f i (remotes ! i)) \<and>
           tr_paired r = snd (f i (remotes ! i))"
proof -
  obtain i where "i < length remotes" "ski = hex_encode (remotes ! i)" "r = remote_projections f remotes ! i"
    using assms by (auto simp: set_zip remote_projections_def)
  then show ?thesis by (auto simp: remote_projections_def nth_enumerate_eq)
qed

lemma remotes_valid_projections:
  assumes "\<And>i remote. List.member [''unknown'', ''denied'', ''paired'', ''unpaired''] (fst (f i remote)) \<and>
             snd (f i remote) = (fst (f i remote) = ''paired'')"
  shows "remotes_valid n (map (\<lambda>(index, remote). \<lparr>tr_configuredIndex = index, tr_state = fst (f index remote),
           tr_paired = snd (f index remote)\<rparr>) (enumerate n remotes))"
  using assms by (induction remotes arbitrary: n) auto

text \<open>What is true of a remote that is shown as paired.\<close>

definition established :: "'w ftdeps \<Rightarrow> 'w ftc \<Rightarrow> bytes list \<Rightarrow> bytes \<Rightarrow> bool" where
  "established deps c remotes remote \<longleftrightarrow>
     \<not> trustAdminStructuralIndeterminateLocked deps c remotes (fst (firstTrustProjectionPhase (co_phase c)))
         (snd (firstTrustProjectionPhase (co_phase c))) \<and>
     \<not> trustAdminTerminalDenialLocked c \<and> co_recovery c \<noteq> ''NO_LOCAL_IDENTITY'' \<and>
     (co_recovery c = ''PAIRED_TRUSTED'' \<or> co_recovery c = ''QUARANTINED'' \<and> co_recoveryReasonCode c = ''RETRYABLE_FAILURE'') \<and>
     remote_matches c remote = 1"

lemma capture_form:
  assumes "co_trustAdminProjection c = Some b"
  obtains f d where "captureTrustAdminProjectionLocked deps c =
      \<lparr>tp_contract = trustAdminProjectionContract, tp_revision = co_trustAdminRevision c,
       tp_phase = fst (firstTrustProjectionPhase (co_phase c)), tp_recovery = co_recovery c,
       tp_mutationAvailable = mutation_available c, tp_degradation = d, tp_remotes = remote_projections f (tpb_remotes b)\<rparr>"
    and "d = [] \<or> d = ''denied-trust'' \<or> d = ''certificate-unavailable''"
    and "\<And>i remote. List.member [''unknown'', ''denied'', ''paired'', ''unpaired''] (fst (f i remote)) \<and>
           snd (f i remote) = (fst (f i remote) = ''paired'')"
    and "\<And>i remote. snd (f i remote) = established deps c (tpb_remotes b) remote"
    and "\<And>i remote. snd (f i remote) \<Longrightarrow> d = []"
proof -
  show thesis
    apply (rule that [of "if trustAdminStructuralIndeterminateLocked deps c (tpb_remotes b)
          (fst (firstTrustProjectionPhase (co_phase c))) (snd (firstTrustProjectionPhase (co_phase c))) then ''denied-trust''
          else if trustAdminTerminalDenialLocked c then ''denied-trust''
          else if co_recovery c = ''NO_LOCAL_IDENTITY'' then ''certificate-unavailable'' else []"
        "if trustAdminStructuralIndeterminateLocked deps c (tpb_remotes b)
          (fst (firstTrustProjectionPhase (co_phase c))) (snd (firstTrustProjectionPhase (co_phase c))) then (\<lambda>_ _. (''unknown'', False))
          else if trustAdminTerminalDenialLocked c then (\<lambda>_ _. (''denied'', False))
          else if co_recovery c = ''NO_LOCAL_IDENTITY'' then (\<lambda>_ _. (''unknown'', False))
          else if co_recovery c \<noteq> ''PAIRED_TRUSTED'' \<and>
                  \<not> (co_recovery c = ''QUARANTINED'' \<and> co_recoveryReasonCode c = ''RETRYABLE_FAILURE'')
          then (\<lambda>_ _. (''unpaired'', False))
          else (\<lambda>_ remote. if remote_matches c remote = 1 then (''paired'', True) else (''unpaired'', False))"])
    using assms by (auto simp: captureTrustAdminProjectionLocked_def Let_def established_def split: if_splits)
qed

lemma hex_encode_inject [simp]: "hex_encode a = hex_encode b \<longleftrightarrow> a = b"
  by (metis hex_decode_encode option.inject)

text \<open>The projection as it reaches an observation of a configured remote.\<close>

lemma applied_projection:
  fixes deps :: "'w ftdeps" and c :: "'w ftc"
  assumes bound: "co_trustAdminProjection c = Some b" and revised: "co_trustAdminRevision c \<noteq> 0"
    and i: "i < length graph" "go_RemoteSKI (graph ! i) = hex_encode remote" "remote \<in> set (tpb_remotes b)"
  defines "g \<equiv> applyTrustAdminProjection graph (map hex_encode (tpb_remotes b)) (captureTrustAdminProjectionLocked deps c) ! i"
  shows "go_Paired g = established deps c (tpb_remotes b) remote \<and> go_Paired g = (go_PairingState g = ''paired'') \<and>
    (go_Paired g \<longrightarrow> go_TrustDegradation g = [])"
proof -
  obtain f d where cap: "captureTrustAdminProjectionLocked deps c =
      \<lparr>tp_contract = trustAdminProjectionContract, tp_revision = co_trustAdminRevision c,
       tp_phase = fst (firstTrustProjectionPhase (co_phase c)), tp_recovery = co_recovery c,
       tp_mutationAvailable = mutation_available c, tp_degradation = d, tp_remotes = remote_projections f (tpb_remotes b)\<rparr>"
    and d: "d = [] \<or> d = ''denied-trust'' \<or> d = ''certificate-unavailable''"
    and f: "\<And>i remote. List.member [''unknown'', ''denied'', ''paired'', ''unpaired''] (fst (f i remote)) \<and>
           snd (f i remote) = (fst (f i remote) = ''paired'')"
    and e: "\<And>i remote. snd (f i remote) = established deps c (tpb_remotes b) remote"
    and p: "\<And>i remote. snd (f i remote) \<Longrightarrow> d = []"
    using capture_form [OF bound, of deps thesis] by blast
  let ?zip = "zip (map hex_encode (tpb_remotes b)) (remote_projections f (tpb_remotes b))"
  have len: "length (remote_projections f (tpb_remotes b)) = length (tpb_remotes b)"
    by (simp add: remote_projections_def)
  have valid: "projection_valid (map hex_encode (tpb_remotes b)) (captureTrustAdminProjectionLocked deps c)"
    using d revised remotes_valid_projections [of f 0 "tpb_remotes b", OF f] by (auto simp: projection_valid_def cap remote_projections_def)
  have "map fst ?zip = map hex_encode (tpb_remotes b)" using len by simp
  then have "fst ` set ?zip = hex_encode ` set (tpb_remotes b)" by (metis list.set_map)
  then have "hex_encode remote \<in> fst ` set ?zip" using i(3) by blast
  then obtain r where r: "go_lookup (fold (\<lambda>(k, v) m. go_put k v m) ?zip []) (hex_encode remote) = Some r"
    using lookup_fold_put_in [of "hex_encode remote" ?zip "[]"] by (auto simp del: set_zip)
  have "(hex_encode remote, r) \<in> set ?zip" using lookup_fold_put [OF r] by simp
  from zip_remote_projections [OF this] obtain k where "tr_state r = fst (f k remote)" "tr_paired r = snd (f k remote)"
    by auto
  then show ?thesis
    using valid r i f [of k remote] e [of k remote] p [of k remote] by (auto simp: g_def applyTrustAdminProjection_def cap)
qed

lemma invalid_indeterminate:
  "\<not> quarantine_indeterminate deps c remotes q \<Longrightarrow> firstTrustQuarantineRecordValid q (d_backoffPolicy deps)"
  by (simp add: quarantine_indeterminate_def split: if_splits)

text \<open>
  C30. The runtime graph shows a configured remote as paired exactly when trust in it is
  established. In particular, the coordinator is then paired and trusted or waits for a retry, in a
  phase that state allows, is not reopening, has exactly one usable association of that remote that
  was not revoked, no publication pending and an anchor in step with the store, and no quarantine
  that is invalid or held by an administrator; and no degradation is shown with it.
\<close>

theorem shown_as_paired:
  assumes "co_trustAdminProjection c = Some b" and "co_trustAdminRevision c \<noteq> 0"
    and "i < length graph" and "go_RemoteSKI (graph ! i) = hex_encode remote" and "remote \<in> set (tpb_remotes b)"
    and "go_Paired (applyTrustAdminProjection graph (map hex_encode (tpb_remotes b))
           (captureTrustAdminProjectionLocked deps c) ! i)"
  shows "go_PairingState (applyTrustAdminProjection graph (map hex_encode (tpb_remotes b))
           (captureTrustAdminProjectionLocked deps c) ! i) = ''paired'' \<and>
    go_TrustDegradation (applyTrustAdminProjection graph (map hex_encode (tpb_remotes b))
           (captureTrustAdminProjectionLocked deps c) ! i) = [] \<and>
    (co_recovery c = ''PAIRED_TRUSTED'' \<or> co_recovery c = ''QUARANTINED'' \<and> co_recoveryReasonCode c = ''RETRYABLE_FAILURE'') \<and>
    firstTrustProductAllowed (fst (firstTrustProjectionPhase (co_phase c))) (co_recovery c) \<and> \<not> co_reopening c \<and>
    length (filter (\<lambda>a. fa_subject a = remote \<and> association_usable c a \<and> \<not> firstTrustTombstonedLocked c a)
      (cv_associations (co_controlView c))) = 1 \<and>
    ar_pending (co_anchorRecord c) = None \<and> ar_storeInstance (co_anchorRecord c) = cr_storeInstance (control c) \<and>
    sequence_of (co_controlView c) = ar_manifestGenerationHighWater (co_anchorRecord c) \<and>
    cr_controlEpoch (control c) = ar_controlEpochHighWater (co_anchorRecord c) \<and>
    (\<forall>q \<in> set (cr_quarantines (control c)). firstTrustQuarantineRecordValid q (d_backoffPolicy deps) \<and>
       qr_state q \<noteq> ''ADMIN_HOLD'')"
proof -
  note shown = applied_projection [OF assms(1-5), of deps] assms(6)
  then have est: "established deps c (tpb_remotes b) remote" by simp
  then have clear: "\<not> list_ex (quarantine_indeterminate deps c (tpb_remotes b)) (cr_quarantines (control c))"
      "firstTrustAnchorProductReasonLocked c = []" "\<not> co_reopening c"
      "firstTrustProductAllowed (fst (firstTrustProjectionPhase (co_phase c))) (co_recovery c)"
      "\<not> trustAdminHasTerminalQuarantineLocked c"
    by (auto simp: established_def trustAdminStructuralIndeterminateLocked_def trustAdminTerminalDenialLocked_def
        simp del: list_ex_iff split: if_splits)
  have valid: "\<forall>q \<in> set (cr_quarantines (control c)). firstTrustQuarantineRecordValid q (d_backoffPolicy deps) \<and>
      qr_state q \<noteq> ''ADMIN_HOLD''"
    using clear(1,5) by (auto simp: list_ex_iff invalid_indeterminate trustAdminHasTerminalQuarantineLocked_def)
  show ?thesis
    using shown est clear valid unfolding anchor_product_reason established_def remote_matches_def by blast
qed

definition sample_shown :: "unit ftc" where
  "sample_shown = sample_paired\<lparr>co_recovery := ''PAIRED_TRUSTED'', co_phase := firstTrustPairingClosed,
     co_trustAdminRevision := 1, co_trustAdminProjection := Some \<lparr>tpb_remotes = [sample_bytes 20 (CHR ''4'')],
       tpb_last = \<lparr>tp_contract = [], tp_revision = 0, tp_phase = [], tp_recovery = [], tp_mutationAvailable = False,
         tp_degradation = [], tp_remotes = []\<rparr>\<rparr>\<rparr>"

definition sample_graph :: "runtimeGraphObservation list" where
  "sample_graph = [\<lparr>go_RemoteSKI = hex_encode (sample_bytes 20 (CHR ''4'')), go_PairingState = [], go_Paired = False, go_TrustDegradation = []\<rparr>]"

theorem shown_as_paired_witness:
  "go_Paired (applyTrustAdminProjection sample_graph [hex_encode (sample_bytes 20 (CHR ''4''))]
     (captureTrustAdminProjectionLocked sample_deps sample_shown) ! 0) \<and>
   sequence_of (co_controlView sample_shown) = ar_manifestGenerationHighWater (co_anchorRecord sample_shown)"
proof -
  obtain b where b: "co_trustAdminProjection sample_shown = Some b" "tpb_remotes b = [sample_bytes 20 (CHR ''4'')]"
    by (simp add: sample_shown_def)
  have paired: "go_Paired (applyTrustAdminProjection sample_graph [hex_encode (sample_bytes 20 (CHR ''4''))]
     (captureTrustAdminProjectionLocked sample_deps sample_shown) ! 0)"
    by code_simp
  then show ?thesis
    using shown_as_paired [OF b(1), of 0 sample_graph "sample_bytes 20 (CHR ''4'')" sample_deps] b(2)
    by (simp add: sample_shown_def sample_graph_def)
qed

end
