(* ===== verification/TrustCrash.thy ===== *)
theory TrustCrash
  imports TrustSafety
begin

text \<open>
  The native anchor under faults: its authenticated encoding, publications interrupted anywhere,
  and the one fault it reports as something else.
\<close>

subsection \<open>A sample witness\<close>

text \<open>
  A cipher suite for a few known records: each marshals to its number, and the authentication code
  is constant.
\<close>

definition table_crypto :: "nativeWitnessAnchorWire list \<Rightarrow> witness_crypto" where
  "table_crypto wires = \<lparr>wc_hmac = (\<lambda>key m. sample_bytes 32 (CHR ''8'')),
     wc_marshal = (\<lambda>wire. map_option (\<lambda>(i, _). sample_bytes (Suc i) (CHR ''1'')) (find (\<lambda>(_, w). w = wire) (enumerate 0 wires))),
     wc_unmarshal = (\<lambda>payload. if payload \<noteq> [] \<and> payload = sample_bytes (length payload) (CHR ''1'') \<and> length payload \<le> length wires
        then Some (wires ! (length payload - 1)) else None)\<rparr>"

lemma find_enumerate:
  "find (\<lambda>(_, w). w = wire) (enumerate n wires) = Some (i, w) \<Longrightarrow> n \<le> i \<and> i < n + length wires \<and> wires ! (i - n) = wire \<and> w = wire"
  by (auto simp: find_Some_iff nth_enumerate_eq)

lemma table_crypto_laws:
  assumes "list_all anchor_text wires"
  shows "crypto_laws (table_crypto wires)"
proof -
  have "wc_unmarshal (table_crypto wires) payload = Some wire" if "wc_marshal (table_crypto wires) wire = Some payload" for wire payload
    using that find_enumerate [of wire 0 wires] by (auto simp: table_crypto_def sample_bytes_def)
  moreover have "anchor_text wire" if "wc_unmarshal (table_crypto wires) payload = Some wire" for wire payload
    using that assms by (auto simp: table_crypto_def list_all_length split: if_splits) (metis Suc_le_eq Suc_pred length_greater_0_conv)
  moreover have "length (wc_hmac (table_crypto wires) key m) = 32" for key m
    by (simp add: table_crypto_def sample_bytes_def)
  ultimately show ?thesis unfolding crypto_laws_def by blast
qed

lemma table_encodes:
  assumes "nativeWitnessAnchorToWire a \<in> set wires" and "validNativeWitnessAnchor a" and "key \<noteq> zero32" and "length wires < 100"
  shows "\<exists>encoded. encodeNativeWitnessAnchor (table_crypto wires) a key = Some encoded"
proof -
  have "find (\<lambda>(_, w). w = nativeWitnessAnchorToWire a) (enumerate 0 wires) \<noteq> None"
    using assms(1) by (auto simp: find_None_iff in_set_conv_nth [of "nativeWitnessAnchorToWire a"] in_set_enumerate_eq)
  then obtain i w where f: "find (\<lambda>(_, w). w = nativeWitnessAnchorToWire a) (enumerate 0 wires) = Some (i, w)" by auto
  with find_enumerate [OF f] assms show ?thesis
    by (simp add: encodeNativeWitnessAnchor_def table_crypto_def sample_bytes_def nativeWitnessMaximumAnchor_def)
qed

definition sample_generation :: "uint64 \<Rightarrow> firstTrustGenerationBinding" where
  "sample_generation n = \<lparr>gb_sequence = n, gb_filename = ''generation'', gb_sha256 = sample_bytes 32 (CHR ''7''), gb_schemaVersion = 1\<rparr>"

definition sample_selected :: firstTrustControlView where
  "sample_selected = sample_view\<lparr>cv_manifest := \<lparr>mb_epoch = 7, mb_sha256 = sample_bytes 32 (CHR ''7''),
     mb_current = sample_generation 7, mb_parent = None\<rparr>\<rparr>"

definition sample_target :: firstTrustControlView where
  "sample_target = sample_selected\<lparr>cv_manifest := \<lparr>mb_epoch = 8, mb_sha256 = sample_bytes 32 (CHR ''7''),
     mb_current = sample_generation 8, mb_parent = Some (sample_generation 7)\<rparr>, cv_control := sample_control\<lparr>cr_controlEpoch := 10\<rparr>\<rparr>"

definition sample_publication :: firstTrustPreparedPublication where
  "sample_publication = \<lparr>pr_previous = sample_selected, pr_target = sample_target, pr_operationID = sample_bytes 32 (CHR ''6''),
     pr_operationClass = ''first_trust''\<rparr>"

definition sample_pending :: firstTrustPendingPublication where
  "sample_pending = firstTrustPendingFromPrepared sample_publication"

definition sample_wires :: "nativeWitnessAnchorWire list" where
  "sample_wires = map nativeWitnessAnchorToWire [sample_anchor, staged sample_pending sample_anchor, finalized sample_pending sample_anchor]"

definition sample_witness :: "(io_point \<Rightarrow> bool) \<Rightarrow> selection wdeps" where
  "sample_witness faults = \<lparr>wd_crypto = table_crypto sample_wires, wd_fails = (\<lambda>p e. (faults p, e)), wd_ctxErr = (\<lambda>ctx e. (False, e)),
     wd_random = (\<lambda>n e. (Some (sample_bytes n (CHR ''9'')), e))\<rparr>"

definition sample_world :: "selection nworld" where
  "sample_world = \<lparr>nw_env = selection_of sample_selected,
     nw_files = [(''ANCHOR'', the (encodeNativeWitnessAnchor (table_crypto sample_wires) sample_anchor (sample_bytes 32 (CHR ''9''))))],
     nw_key = sample_bytes 32 (CHR ''9''), nw_anchor = sample_anchor, nw_anchorReady = True, nw_anchorIdentity = sample_bytes 32 (CHR ''2'')\<rparr>"

definition sample_store :: "selection nworld firstTrustControlPersistence" where
  "sample_store = \<lparr>ReloadControl = (\<lambda>ctx w. ((sample_selected, ''opened_current''), w)), SelectedGeneration = (\<lambda>w. (7, w)),
     PrepareControl = (\<lambda>ctx view target oid cls w. ((sample_publication, ''prepared''), w)),
     CommitControl = (\<lambda>ctx publication w. (Some ''commit_durable'', w\<lparr>nw_env := selection_of (pr_target publication)\<rparr>)),
     ObserveControlPublication = (\<lambda>ctx p w. (''observed_target'', w))\<rparr>"

lemma utf8_ascii: "list_all (\<lambda>ch. (of_char ch :: nat) < 128) s \<Longrightarrow> utf8_valid s"
  by (auto simp: utf8_valid_def go_chunks_ascii chunk_valid_def list_all_iff)

lemmas sample_publication_defs = sample_defs sample_generation_def sample_selected_def sample_target_def sample_publication_def
  sample_pending_def firstTrustPendingFromPrepared_def control_zero_def view_zero_def anchor_zero_def manifest_zero_def
  generation_zero_def zero32_def

lemma sample_pending_ok: "pending_ok sample_pending"
  by (simp add: sample_publication_defs pending_ok_def manifest_ok_def generation_ok_def utf8_ascii path_base_same_def
      nativeWitnessMaximumName_def)

lemma sample_anchor_ok: "anchor_ok sample_anchor"
  by (simp add: sample_publication_defs anchor_ok_def)

lemma sample_anchors_ok:
  "anchor_ok (staged sample_pending sample_anchor)" "anchor_ok (finalized sample_pending sample_anchor)"
  using sample_anchor_ok sample_pending_ok by (simp_all add: anchor_ok_def staged_def finalized_def)

lemma sample_crypto_laws: "crypto_laws (table_crypto sample_wires)"
  using sample_anchor_ok sample_anchors_ok by (intro table_crypto_laws) (simp add: sample_wires_def anchor_wire_text)

lemma sample_key: "sample_bytes 32 (CHR ''9'') \<noteq> zero32"
  by (simp add: sample_bytes_def zero32_def)

lemma sample_anchors_valid:
  "validNativeWitnessAnchor sample_anchor" "validNativeWitnessAnchor (staged sample_pending sample_anchor)"
  by (simp_all add: sample_publication_defs validNativeWitnessAnchor_def staged_def nativeWitnessAnchorVersion_def nativeWitnessMaximumClass_def)

lemma sample_encodes:
  assumes "a = sample_anchor \<or> a = staged sample_pending sample_anchor"
  shows "\<exists>encoded. encodeNativeWitnessAnchor (table_crypto sample_wires) a (sample_bytes 32 (CHR ''9'')) = Some encoded"
  using assms sample_anchors_valid sample_key by (intro table_encodes) (auto simp: sample_wires_def)

subsection \<open>Properties\<close>

text \<open>
  C31. The anchor's file: what is encoded is decoded again as the same anchor under the same key,
  within the size a reader accepts; and whatever is decoded is a valid anchor whose bytes end in
  the authentication code of its payload under that key, so that a file not made with the key is
  refused unless its code was forged.
\<close>

theorem anchor_file_roundtrip:
  assumes "crypto_laws wc"
  shows "(\<forall>a key encoded. anchor_ok a \<longrightarrow> encodeNativeWitnessAnchor wc a key = Some encoded \<longrightarrow>
            decodeNativeWitnessAnchor wc encoded key = Some a \<and> length encoded \<le> nativeWitnessMaximumAnchor) \<and>
    (\<forall>a key encoded. decodeNativeWitnessAnchor wc encoded key = Some a \<longrightarrow>
            validNativeWitnessAnchor a \<and> anchor_ok a \<and> key \<noteq> zero32 \<and>
            (\<exists>payload. encoded = take 8 encoded @ payload @ anchor_mac wc key payload))"
proof -
  have key: "key \<noteq> zero32" if "decodeNativeWitnessAnchor wc encoded key = Some a" for a key encoded
    using that by (auto simp: decodeNativeWitnessAnchor_def split: if_splits)
  have "length encoded \<le> nativeWitnessMaximumAnchor" if "encodeNativeWitnessAnchor wc a key = Some encoded" for a key encoded
    using that assms by (auto simp: encodeNativeWitnessAnchor_def crypto_laws_def anchor_mac_def put_bytes_length
        nativeWitnessMaximumAnchor_def split: if_splits option.splits)
  with key show ?thesis using decode_encode decode_ok decode_authentic assms by blast
qed

theorem anchor_file_roundtrip_witness:
  "\<exists>encoded. encodeNativeWitnessAnchor (table_crypto sample_wires) (staged sample_pending sample_anchor) (sample_bytes 32 (CHR ''9'')) = Some encoded \<and>
     decodeNativeWitnessAnchor (table_crypto sample_wires) encoded (sample_bytes 32 (CHR ''9'')) = Some (staged sample_pending sample_anchor)"
proof -
  obtain encoded where
    "encodeNativeWitnessAnchor (table_crypto sample_wires) (staged sample_pending sample_anchor) (sample_bytes 32 (CHR ''9'')) = Some encoded"
    using sample_encodes by blast
  then show ?thesis using anchor_file_roundtrip [OF sample_crypto_laws] sample_anchors_ok by blast
qed


text \<open>
  C32. Whatever fails and wherever, be it the store, a file operation of the anchor, the time
  allowed or the context, a publication over the native anchor leaves store and anchor in step:
  with nothing pending the store has selected what the anchor's marks say, and with a publication
  pending the store has selected what was before it or what it publishes, so that the next start
  can tell. The outcome is one of four; \<^verbatim>\<open>durable\<close> means that the store has selected the target and
  the anchor is finalised on it, \<^verbatim>\<open>prepare_failed\<close> that nothing has changed, and \<^verbatim>\<open>unchanged\<close> that
  the store has not moved. Nothing of the coordinator itself is changed by a publication.
\<close>

theorem publication_in_step:
  assumes "store_laws st (\<lambda>w. sel (nw_env w)) (native_durable wd) (native_good wd)" and "witness_apart wd sel"
    and "native_durable wd (co_world c) = Some anchor" and "ar_pending anchor = None"
    and "sel (nw_env (co_world c)) = selection_of selected" and "in_step (selection_of selected) (Some anchor)"
    and "run_state (publishFirstTrustControl st (native_provider wd) ctx working target oid cls selected anchor) c = (result, c')"
  shows "published (\<lambda>w. sel (nw_env w)) (native_durable wd) anchor (selection_of selected) result (co_world c') \<and>
    c' = c\<lparr>co_world := co_world c'\<rparr>"
  by (rule wp_run [OF native.publish_consistent [OF assms(1) native_frame [OF assms(2)] assms(3-6)] assms(7)])

definition sample_coordinator :: "selection nworld ftc" where
  "sample_coordinator = (newFirstTrustCoordinatorWithRecovery sample_world)\<lparr>co_controlView := sample_selected,
     co_anchorRecord := sample_anchor\<rparr>"

lemma sample_durable: "native_durable (sample_witness faults) sample_world = Some sample_anchor"
proof -
  obtain encoded where "encodeNativeWitnessAnchor (table_crypto sample_wires) sample_anchor (sample_bytes 32 (CHR ''9'')) = Some encoded"
    using sample_encodes by blast
  then show ?thesis using decode_encode [OF sample_crypto_laws sample_anchor_ok]
    by (simp add: native_durable_def sample_witness_def sample_world_def)
qed

lemma sample_store_laws:
  "store_laws sample_store nw_env (native_durable (sample_witness faults)) (native_good (sample_witness faults))"
  using sample_crypto_laws sample_pending_ok
  by (auto simp: store_laws_def sample_store_def native_good_def sample_witness_def native_durable_def sample_pending_def split: option.splits)

lemma sample_apart: "witness_apart (sample_witness faults) (\<lambda>s. s)"
  by (simp add: witness_apart_def sample_witness_def)

lemma sample_in_step: "in_step (selection_of sample_selected) (Some sample_anchor)"
  by (simp add: in_step_def selection_of_def sample_publication_defs)

text \<open>With the directory not syncing, the sample publication ends with store and anchor in step all the same.\<close>

theorem publication_in_step_witness:
  "\<exists>result c'. run_state (publishFirstTrustControl sample_store (native_provider (sample_witness (\<lambda>p. p = PointSyncDirectory))) 0
       sample_selected sample_control (sample_bytes 32 (CHR ''6'')) ''first_trust'' sample_selected sample_anchor) sample_coordinator
       = (result, c') \<and>
     in_step (nw_env (co_world c')) (native_durable (sample_witness (\<lambda>p. p = PointSyncDirectory)) (co_world c'))"
proof -
  let ?wd = "sample_witness (\<lambda>p. p = PointSyncDirectory)"
  obtain result c' where run: "run_state (publishFirstTrustControl sample_store (native_provider ?wd) 0
       sample_selected sample_control (sample_bytes 32 (CHR ''6'')) ''first_trust'' sample_selected sample_anchor) sample_coordinator
       = (result, c')" by fastforce
  have "sel (nw_env (co_world sample_coordinator)) = selection_of sample_selected" if "sel = (\<lambda>s. s)" for sel
    using that by (simp add: sample_coordinator_def newFirstTrustCoordinatorWithRecovery_def newFirstTrustCoordinator_def sample_world_def)
  moreover have "native_durable ?wd (co_world sample_coordinator) = Some sample_anchor"
    by (simp add: sample_coordinator_def newFirstTrustCoordinatorWithRecovery_def newFirstTrustCoordinator_def sample_durable)
  moreover have "ar_pending sample_anchor = None" by (simp add: sample_publication_defs)
  ultimately have "published nw_env (native_durable ?wd) sample_anchor (selection_of sample_selected) result (co_world c')"
    using publication_in_step [OF sample_store_laws sample_apart _ _ _ sample_in_step run] by simp
  then show ?thesis using run by (auto simp: published_def split: prod.splits)
qed




end
