(* ===== verification/TrustPairing.thy ===== *)
theory TrustPairing
  imports TrustRecovery
begin

text \<open>
  Pairing, \<^verbatim>\<open>src/internal/eebusfacade/first_trust.go\<close> with the confirmation of
  \<^verbatim>\<open>msp04c_coordinator.go\<close>: an administrator opens a window, a remote that connects becomes the
  candidate, the administrator confirms it by its fingerprint and the association is committed to
  the store. A result of \<open>None\<close> is a run-time panic: the source dereferences a nil pointer.
\<close>

subsection \<open>Keys\<close>

definition openStateLocked :: "'w ftc \<Rightarrow> string" where
  "openStateLocked c =
     (if co_phase c = firstTrustCandidatePending then ''candidate_pending''
      else if co_phase c = firstTrustTransientTrusted then ''transient_trusted''
      else ''open_empty'')"

text \<open>The selection under way, if there is one.\<close>

definition running_selection :: "'w ftc \<Rightarrow> firstTrustCandidateSelection option" where
  "running_selection c = (case co_candidateSelection c of
      None \<Rightarrow> None | Some se \<Rightarrow> if se_completed se then None else Some se)"

definition activeKeyConflictLocked :: "'w ftc \<Rightarrow> string \<Rightarrow> firstTrustRequest \<Rightarrow> bool" where
  "activeKeyConflictLocked c key request =
     (let selection = (case running_selection c of
             Some se \<Rightarrow> if se_key se = key then \<not> firstTrustRequest_equal (se_request se) request else False
           | None \<Rightarrow> False);
          candidate = (case co_currentCandidate c of
             Some ca \<Rightarrow> (case go_lookup (ca_requests ca) key of
                 Some existing \<Rightarrow> \<not> firstTrustRequest_equal existing request | None \<Rightarrow> selection)
           | None \<Rightarrow> selection) in
      case co_window c of
        Some w \<Rightarrow> if win_key w = key then \<not> firstTrustRequest_equal (open_request (win_duration w)) request else candidate
      | None \<Rightarrow> candidate)"

definition candidate_knows :: "'w ftc \<Rightarrow> string \<Rightarrow> bool" where
  "candidate_knows c key = (case co_currentCandidate c of None \<Rightarrow> False | Some ca \<Rightarrow> go_lookup (ca_requests ca) key \<noteq> None)"

definition idempotencyCapacityLocked :: "'w ftc \<Rightarrow> string \<Rightarrow> nat \<Rightarrow> bool" where
  "idempotencyCapacityLocked c key reserve =
     (if go_lookup (co_replays c) key \<noteq> None then False
      else if (case co_window c of None \<Rightarrow> False | Some w \<Rightarrow> win_key w = key) then False
      else if candidate_knows c key then False
      else if (case running_selection c of None \<Rightarrow> False | Some se \<Rightarrow> se_key se = key) then False
      else length (co_replays c) + (if co_window c = None then 0 else 1) +
           (case co_currentCandidate c of None \<Rightarrow> 0 | Some ca \<Rightarrow> length (ca_requests ca)) +
           (if running_selection c = None then 0 else 1) + 1 + reserve > firstTrustMaximumIdempotency)"

definition set_candidate :: "(firstTrustCandidate \<Rightarrow> firstTrustCandidate) \<Rightarrow> ('w, unit) top" where
  "set_candidate f = poke (\<lambda>c. c\<lparr>co_currentCandidate := map_option f (co_currentCandidate c)\<rparr>)"

text \<open>The answer is empty when the request is bound to the candidate, which is present.\<close>

definition bindCandidateRequestLocked :: "firstTrustCandidate \<Rightarrow> string \<Rightarrow> firstTrustRequest \<Rightarrow> ('w, string) top" where
  "bindCandidateRequestLocked ca key request =
     (case go_lookup (ca_requests ca) key of
        Some existing \<Rightarrow> give (if firstTrustRequest_equal existing request then [] else ''idempotency_conflict'')
      | None \<Rightarrow>
          if length (ca_requests ca) \<ge> firstTrustMaximumActiveKeys then give ''idempotency_capacity''
          else do {set_candidate (\<lambda>ca. ca\<lparr>ca_requests := go_put key request (ca_requests ca)\<rparr>); give []})"

definition selectedFirstTrustGenerationLocked :: "'w ftdeps \<Rightarrow> ('w, uint64) top" where
  "selectedFirstTrustGenerationLocked deps =
     (case d_recoveryStore deps of
        Some st \<Rightarrow> call (SelectedGeneration st)
      | None \<Rightarrow> (case d_store deps of None \<Rightarrow> give 0 | Some st \<Rightarrow> call (StoreSelectedGeneration st)))"

subsection \<open>The window\<close>

text \<open>
  The window is read again after the registration, during which the lock was given up; when it is
  gone by then, reading its deadline panics.
\<close>

definition open_window :: "'w ftdeps \<Rightarrow> string \<Rightarrow> int \<Rightarrow> gotime \<Rightarrow> ('w, string option) top" where
  "open_window deps key duration now = do {
     poke (\<lambda>c. c\<lparr>co_window := Some \<lparr>win_key = key, win_duration = duration, win_deadline = time_add now duration\<rparr>,
       co_phase := firstTrustOpenEmpty\<rparr>);
     ok \<leftarrow> setWaitingLocked deps True;
     if \<not> ok then do {
       recordReplayLocked deps key (open_request duration) ''pairing_registration_failed'' now;
       give (Some ''pairing_registration_failed'')
     }
     else do {
       window \<leftarrow> peek co_window;
       case window of
         None \<Rightarrow> give None
       | Some w \<Rightarrow> do {scheduleExpiryLocked deps (win_deadline w); give (Some ''open_empty'')}
     }
   }"

text \<open>Why a window cannot be opened; empty when it can.\<close>

definition open_refused :: "'w ftdeps \<Rightarrow> 'w ftc \<Rightarrow> string \<Rightarrow> int \<Rightarrow> string" where
  "open_refused deps c key duration =
     (if activeKeyConflictLocked c key (open_request duration) then ''idempotency_conflict''
      else if d_recoveryStore deps \<noteq> None \<and> co_recoveryOperation c \<noteq> None then ''operation_in_progress''
      else if d_recoveryStore deps \<noteq> None \<and> reconciliationRequiredLocked c then ''reconciliation_required''
      else if co_phase c = firstTrustDisabled \<or> co_reopening c then ''mutation_disabled''
      else if idempotencyCapacityLocked c key 1 then ''idempotency_capacity''
      else case co_window c of
        Some w \<Rightarrow>
          if win_key w = key \<and> win_duration w = duration then openStateLocked c else ''idempotency_conflict''
      | None \<Rightarrow> if co_phase c \<noteq> firstTrustPairingClosed then ''window_conflict'' else [])"

definition openPairingWindowLocked :: "'w ftdeps \<Rightarrow> string \<Rightarrow> int \<Rightarrow> ('w, string option) top" where
  "openPairingWindowLocked deps key duration = do {
     now \<leftarrow> expire_now deps;
     replay \<leftarrow> replayLocked deps key (open_request duration) now;
     case replay of
       Some result \<Rightarrow> give (Some result)
     | None \<Rightarrow> do {
         refused \<leftarrow> peek (\<lambda>c. open_refused deps c key duration);
         if refused \<noteq> [] then give (Some refused) else open_window deps key duration now
       }
   }"

definition openPairingWindow :: "'w ftdeps \<Rightarrow> ctx \<Rightarrow> string \<Rightarrow> int \<Rightarrow> ('w, string option) top" where
  "openPairingWindow deps ctx key duration = do {
     cancelled \<leftarrow> call (d_ctxErr deps ctx);
     if cancelled then give (Some ''request_cancelled'')
     else if \<not> validFirstTrustKey key then give (Some ''invalid_idempotency_key'')
     else if duration \<le> 0 \<or> duration > firstTrustMaximumWindow then give (Some ''duration_out_of_range'')
     else do {
       result \<leftarrow> openPairingWindowLocked deps key duration;
       (if result = None then nop else mu_Unlock);
       give result
     }
   }"

definition close_request :: firstTrustRequest where
  "close_request = request_zero\<lparr>rq_operation := ''close''\<rparr>"

definition close_refused :: "'w ftc \<Rightarrow> string \<Rightarrow> string" where
  "close_refused c key =
     (if activeKeyConflictLocked c key close_request then ''idempotency_conflict''
      else if co_phase c = firstTrustCommitting then ''commit_in_progress''
      else if co_phase c = firstTrustDisabled then ''mutation_disabled''
      else if idempotencyCapacityLocked c key 0 then ''idempotency_capacity''
      else [])"

definition close_locked :: "'w ftdeps \<Rightarrow> string \<Rightarrow> ('w, string) top" where
  "close_locked deps key = do {
     now \<leftarrow> expire_now deps;
     replay \<leftarrow> replayLocked deps key close_request now;
     case replay of
       Some result \<Rightarrow> give result
     | None \<Rightarrow> do {
         refused \<leftarrow> peek (\<lambda>c. close_refused c key);
         absent \<leftarrow> peek (\<lambda>c. co_window c = None);
         if refused \<noteq> [] then give refused
         else if absent then do {
           recordReplayLocked deps key close_request ''pairing_closed'' now;
           give ''pairing_closed''
         }
         else do {
           ok \<leftarrow> closeWindowLocked deps ''pairing_closed'' now True;
           let result = (if ok then ''pairing_closed'' else ''pairing_registration_failed'') in do {
             recordReplayLocked deps key close_request result now;
             give result
           }
         }
       }
   }"

definition closePairingWindow :: "'w ftdeps \<Rightarrow> ctx \<Rightarrow> string \<Rightarrow> ('w, string) top" where
  "closePairingWindow deps ctx key = do {
     cancelled \<leftarrow> call (d_ctxErr deps ctx);
     if cancelled then give ''request_cancelled''
     else if \<not> validFirstTrustKey key then give ''invalid_idempotency_key''
     else do {
       result \<leftarrow> close_locked deps key;
       mu_Unlock;
       give result
     }
   }"

subsection \<open>The candidate\<close>

text \<open>The connection is the candidate's.\<close>

definition is_candidate :: "bytes \<Rightarrow> uint64 \<Rightarrow> firstTrustCandidate \<Rightarrow> bool" where
  "is_candidate remote connection ca \<longleftrightarrow> connection = ca_connection ca \<and> remote = ca_remote ca"

text \<open>Why a remote is turned away before the candidate is looked at; empty when it is not.\<close>

definition admit_refused :: "'w ftdeps \<Rightarrow> 'w ftc \<Rightarrow> bytes \<Rightarrow> uint64 \<Rightarrow> string" where
  "admit_refused deps c remote connection =
     (if d_recoveryStore deps \<noteq> None \<and> co_recoveryOperation c \<noteq> None then ''operation_in_progress''
      else if d_recoveryStore deps \<noteq> None \<and> reconciliationRequiredLocked c then ''reconciliation_required''
      else if d_recoveryStore deps \<noteq> None \<and> co_recovery c \<noteq> ''REVOKED'' \<and>
              firstTrustSubjectTombstoned (co_controlView c) remote then ''association_revoked''
      else if length remote \<noteq> 20 \<or> connection = 0 then ''candidate_ineligible''
      else if co_candidateSelectionRequired c \<and> \<not> selectedCandidateMatchesLocked c remote then ''candidate_not_selected''
      else [])"

text \<open>The answer to a connection that is the candidate's already; empty when it is not.\<close>

definition already_admitted :: "'w ftc \<Rightarrow> bytes \<Rightarrow> uint64 \<Rightarrow> string" where
  "already_admitted c remote connection =
     (case co_currentCandidate c of
        None \<Rightarrow> []
      | Some ca \<Rightarrow>
          if \<not> is_candidate remote connection ca then []
          else if co_phase c = firstTrustCandidatePending then ''candidate_pending''
          else if co_phase c = firstTrustTransientTrusted then ''transient_trusted''
          else if co_phase c = firstTrustCommitting then ''commit_in_progress''
          else [])"

definition closed_to_candidates :: "'w ftc \<Rightarrow> bytes \<Rightarrow> string" where
  "closed_to_candidates c remote =
     (if co_phase c \<noteq> firstTrustOpenEmpty \<or> co_window c = None then
        if candidate_phase (co_phase c) then ''candidate_busy''
        else if co_phase c = firstTrustDisabled then ''mutation_disabled''
        else ''pairing_closed''
      else if go_lookup (co_trustedRemotes c) remote \<noteq> None then ''already_trusted''
      else [])"

definition turn_away :: "bytes \<Rightarrow> uint64 \<Rightarrow> string \<Rightarrow> ('w, string) top" where
  "turn_away remote connection result = do {cancelRemoteLocked remote connection; give result}"

definition window_deadline :: "'w ftc \<Rightarrow> gotime" where
  "window_deadline c = (case co_window c of None \<Rightarrow> zero_time | Some w \<Rightarrow> win_deadline w)"

definition new_candidate :: "'w ftdeps \<Rightarrow> bytes \<Rightarrow> uint64 \<Rightarrow> bytes \<Rightarrow> ('w, string) top" where
  "new_candidate deps remote connection nonceBytes = do {
     now \<leftarrow> call (d_now deps);
     deadline \<leftarrow> peek window_deadline;
     selectedGeneration \<leftarrow> selectedFirstTrustGenerationLocked deps;
     if selectedGeneration = 0 then turn_away remote connection ''candidate_unavailable''
     else let expiresAt = (if Before deadline (time_add now firstTrustMaximumCandidate) then deadline
                           else time_add now firstTrustMaximumCandidate) in do {
       poke (\<lambda>c. c\<lparr>co_currentCandidate := Some
           \<lparr>ca_remote = remote, ca_shipID = [], ca_tlsBound = False, ca_tlsRequired = co_candidateSelectionRequired c,
            ca_nonce = hex_encode nonceBytes, ca_expiresAt = expiresAt, ca_connection = connection,
            ca_storeGeneration = selectedGeneration, ca_requests = [], ca_completed = False,
            ca_transientAuthorized = False, ca_transientRegistrationComplete = False,
            ca_transientRevocationQueued = False, ca_confirmationKey = [], ca_confirmationRequest = request_zero\<rparr>,
         co_phase := firstTrustCandidatePending\<rparr>);
       scheduleExpiryLocked deps expiresAt;
       give ''candidate_pending''
     }
   }"

definition admit :: "'w ftdeps \<Rightarrow> bytes \<Rightarrow> uint64 \<Rightarrow> ('w, string) top" where
  "admit deps remote connection = do {
     _ \<leftarrow> expire_now deps;
     refused \<leftarrow> peek (\<lambda>c. admit_refused deps c remote connection);
     known \<leftarrow> peek (\<lambda>c. already_admitted c remote connection);
     closed \<leftarrow> peek (\<lambda>c. closed_to_candidates c remote);
     result \<leftarrow> (if refused \<noteq> [] then turn_away remote connection refused
       else if known \<noteq> [] then give known
       else if closed \<noteq> [] then turn_away remote connection closed
       else do {
         nonce \<leftarrow> call (d_random deps 32);
         case nonce of
           None \<Rightarrow> turn_away remote connection ''candidate_unavailable''
         | Some nonceBytes \<Rightarrow> new_candidate deps remote connection nonceBytes
       });
     mu_Unlock;
     give result
   }"

definition remoteSKIConnected :: "'w ftdeps \<Rightarrow> bytes \<Rightarrow> uint64 \<Rightarrow> ('w, string) top" where
  "remoteSKIConnected deps remote connection = do {
     _ \<leftarrow> expire_now deps;
     bound \<leftarrow> peek (\<lambda>c. case co_currentCandidate c of
         None \<Rightarrow> False
       | Some ca \<Rightarrow> co_phase c = firstTrustCandidatePending \<and> connection \<noteq> 0 \<and> is_candidate remote connection ca \<and>
           \<not> (ca_tlsRequired ca \<and> \<not> selectedCandidateMatchesLocked c remote));
     whenever bound (set_candidate (\<lambda>ca. ca\<lparr>ca_tlsBound := True\<rparr>));
     mu_Unlock;
     give (if bound then ''tls_bound'' else ''ignored'')
   }"

subsection \<open>Commits\<close>

definition finishTransientCandidateLocked :: "'w ftdeps \<Rightarrow> string \<Rightarrow> gotime \<Rightarrow> bool \<Rightarrow> ('w, unit) top" where
  "finishTransientCandidateLocked deps result now cancel = do {
     present \<leftarrow> peek (\<lambda>c. co_currentCandidate c \<noteq> None);
     if \<not> present then nop
     else do {
       revokeTransientTrustLocked;
       finishCandidateRequestsLocked deps result now;
       whenever cancel cancel_current_remote;
       poke (\<lambda>c. c\<lparr>co_currentCandidate := None\<rparr>);
       finishCandidateSelectionLocked result True;
       _ \<leftarrow> reopen_or_close deps now;
       nop
     }
   }"

text \<open>A commit begins: the window is gone and the commit's token is its own.\<close>

definition begin_commit :: "string \<Rightarrow> firstTrustRequest \<Rightarrow> bytes \<Rightarrow> string \<Rightarrow> uint64 \<Rightarrow> uint64 \<Rightarrow> ('w, firstTrustCommit) top" where
  "begin_commit key request remote shipID connection storeGeneration = do {
     poke (\<lambda>c. c\<lparr>co_phase := firstTrustCommitting, co_window := None\<rparr>);
     stopTimerLocked;
     poke (\<lambda>c. c\<lparr>co_commitToken := co_commitToken c + 1\<rparr>);
     token \<leftarrow> peek co_commitToken;
     let inflight = \<lparr>if_id = token, if_key = key, if_request = request\<rparr> in do {
       poke (\<lambda>c. c\<lparr>co_inflight := Some inflight\<rparr>);
       give \<lparr>cm_token = token, cm_inflight = inflight, cm_remote = remote, cm_shipID = shipID,
             cm_connection = connection, cm_storeGeneration = storeGeneration\<rparr>
     }
   }"

definition beginTransientCommitLocked :: "'w ftdeps \<Rightarrow> ('w, firstTrustCommit option \<times> string) top" where
  "beginTransientCommitLocked deps = do {
     candidate \<leftarrow> peek co_currentCandidate;
     phase \<leftarrow> peek co_phase;
     case candidate of
       None \<Rightarrow> give (None, ''association_incomplete'')
     | Some ca \<Rightarrow>
         if phase \<noteq> firstTrustTransientTrusted \<or> \<not> ca_transientAuthorized ca \<or> \<not> ca_transientRegistrationComplete ca \<or>
            ca_shipID ca = [] \<or> \<not> ca_completed ca
         then give (None, ''association_incomplete'')
         else do {
           selected \<leftarrow> selectedFirstTrustGenerationLocked deps;
           if selected \<noteq> ca_storeGeneration ca then do {
             now \<leftarrow> call (d_now deps);
             finishTransientCandidateLocked deps ''store_generation_conflict'' now True;
             give (None, ''store_generation_conflict'')
           }
           else do {
             commit \<leftarrow> begin_commit (ca_confirmationKey ca) (ca_confirmationRequest ca) (ca_remote ca) (ca_shipID ca)
               (ca_connection ca) (ca_storeGeneration ca);
             give (Some commit, ''commit_in_progress'')
           }
         }
   }"

definition current_commit :: "firstTrustCommit \<Rightarrow> 'w ftc \<Rightarrow> bool" where
  "current_commit commit c \<longleftrightarrow> co_commitToken c = cm_token commit \<and>
     (case co_inflight c of None \<Rightarrow> False | Some i \<Rightarrow> if_id i = if_id (cm_inflight commit))"

definition transient_candidate :: "'w ftc \<Rightarrow> bool" where
  "transient_candidate c = (case co_currentCandidate c of None \<Rightarrow> False | Some ca \<Rightarrow> ca_transientAuthorized ca)"

text \<open>What becomes of the remote at the end of a commit.\<close>

definition settle_remote :: "firstTrustCommit \<Rightarrow> string \<Rightarrow> bool \<Rightarrow> ('w, unit) top" where
  "settle_remote commit result transient =
     (if result = ''trusted'' \<and> \<not> transient then registerRemoteLocked (cm_remote commit) (cm_connection commit)
      else if result = ''trusted'' then finalizeTransientRemoteLocked (cm_remote commit) (cm_connection commit)
      else cancelRemoteLocked (cm_remote commit) (cm_connection commit))"

definition failed_closed_outcomes :: "string list" where
  "failed_closed_outcomes = [''commit_not_published'', ''validation_failed'', ''key_provider_unavailable'',
     ''key_material_unavailable'', ''maintenance_failed'', ''path_rejected'', ''filesystem_capability_unavailable'',
     ''permissions_rejected'', ''layout_rejected'', ''writer_busy'', ''lock_unavailable'', ''malformed_state'', ''io_failed'']"

definition trust_remote :: "bytes \<Rightarrow> string \<Rightarrow> ('w, unit) top" where
  "trust_remote remote shipID = do {
     poke (\<lambda>c. c\<lparr>co_trustedRemotes := go_put remote shipID (co_trustedRemotes c)\<rparr>);
     witnessed (EvTrusted remote)
   }"

text \<open>
  The outcome of the store, as the result and the new trust; \<open>None\<close> when a durable commit finds no
  candidate, whose name is then read through a nil pointer.
\<close>

definition apply_outcome :: "'w firstTrustPersistence \<Rightarrow> firstTrustCommit \<Rightarrow> string \<Rightarrow> ('w, string option) top" where
  "apply_outcome st commit storeOutcome = do {
     poke (\<lambda>c. c\<lparr>co_phase := firstTrustPairingClosed\<rparr>);
     if storeOutcome = ''commit_durable'' then do {
       candidate \<leftarrow> peek co_currentCandidate;
       case candidate of
         None \<Rightarrow> give None
       | Some ca \<Rightarrow> do {
           trust_remote (cm_remote commit) (ca_shipID ca);
           generation \<leftarrow> call (StoreSelectedGeneration st);
           poke (\<lambda>c. c\<lparr>co_storeGeneration := generation\<rparr>);
           give (Some ''trusted'')
         }
     }
     else if storeOutcome = ''commit_applied_maintenance_failed'' then do {
       poke (\<lambda>c. c\<lparr>co_phase := firstTrustDisabled\<rparr>);
       give (Some ''applied_reopen_required'')
     }
     else if List.member failed_closed_outcomes storeOutcome then give (Some ''failed_closed_unchanged'')
     else do {
       poke (\<lambda>c. c\<lparr>co_phase := firstTrustDisabled\<rparr>);
       give (Some ''trust_outcome_unknown'')
     }
   }"

definition finishCommit ::
  "'w ftdeps \<Rightarrow> 'w firstTrustPersistence \<Rightarrow> firstTrustCommit \<Rightarrow> string \<Rightarrow> ('w, string option) top" where
  "finishCommit deps st commit storeOutcome = do {
     current \<leftarrow> peek (current_commit commit);
     if \<not> current then do {mu_Unlock; give (Some ''trust_outcome_unknown'')}
     else do {
       applied \<leftarrow> apply_outcome st commit storeOutcome;
       case applied of
         None \<Rightarrow> give None
       | Some stored \<Rightarrow> do {
           now \<leftarrow> call (d_now deps);
           finishCandidateRequestsExceptLocked deps (if_key (cm_inflight commit)) ''stale_request'' now;
           transient \<leftarrow> peek transient_candidate;
           whenever (transient \<and> stored \<noteq> ''trusted'') revokeTransientTrustLocked;
           poke (\<lambda>c. c\<lparr>co_currentCandidate := None, co_window := None\<rparr>);
           stopTimerLocked;
           ok \<leftarrow> setWaitingLocked deps False;
           let result = (if ok then stored else ''pairing_registration_failed'') in do {
             finishCandidateSelectionLocked result (result \<noteq> ''trusted'');
             recordReplayLocked deps (if_key (cm_inflight commit)) (if_request (cm_inflight commit)) result now;
             settle_remote commit result transient;
             poke (\<lambda>c. c\<lparr>co_inflight := None\<rparr>);
             unlocked deps;
             notifyTrustAdminProjection deps;
             give (Some result)
           }
         }
     }
   }"

text \<open>The time allowed ran out: the outcome is unknown, and a fence stays until the store answers.\<close>

definition commit_timed_out :: "'w ftdeps \<Rightarrow> firstTrustCommit \<Rightarrow> ('w, string) top" where
  "commit_timed_out deps commit = do {
     current \<leftarrow> peek (current_commit commit);
     if \<not> current then do {mu_Unlock; give ''trust_outcome_unknown''}
     else do {
       poke (\<lambda>c. c\<lparr>co_phase := firstTrustDisabled, co_window := None\<rparr>);
       now \<leftarrow> call (d_now deps);
       finishCandidateRequestsExceptLocked deps (if_key (cm_inflight commit)) ''stale_request'' now;
       revokeTransientTrustLocked;
       poke (\<lambda>c. c\<lparr>co_currentCandidate := None\<rparr>);
       stopTimerLocked;
       ok \<leftarrow> setWaitingLocked deps False;
       let result = (if ok then ''trust_outcome_unknown'' else ''pairing_registration_failed'') in do {
         finishCandidateSelectionLocked result True;
         cancelRemoteLocked (cm_remote commit) (cm_connection commit);
         now2 \<leftarrow> call (d_now deps);
         recordReplayLocked deps (if_key (cm_inflight commit)) (if_request (cm_inflight commit)) result now2;
         poke (\<lambda>c. c\<lparr>co_commitFence := True, co_inflight := None\<rparr>);
         unlocked deps;
         notifyTrustAdminProjection deps;
         give result
       }
     }
   }"

text \<open>The late answer of the store removes the fence.\<close>

definition commit_settled :: "('w, unit) top" where
  "commit_settled = poke (\<lambda>c. c\<lparr>co_commitFence := False\<rparr>)"

subsection \<open>Commits over the recovery store\<close>

fun reset_retry :: "uint64 \<Rightarrow> bytes \<Rightarrow> firstTrustQuarantineRecord list \<Rightarrow> firstTrustQuarantineRecord list" where
  "reset_retry epoch scope [] = []"
| "reset_retry epoch scope (q # qs) =
     (if qr_scope q \<noteq> scope then q # reset_retry epoch scope qs
      else q\<lparr>qr_reason := ''RETRYABLE_FAILURE'', qr_state := ''RETRY_READY'', qr_attemptCount := 0, qr_backoffStep := 0,
             qr_remainingDelay := 0, qr_retentionBudget := firstTrustQuarantineRetention,
             qr_lastControlEpoch := epoch\<rparr> # qs)"

definition firstTrustResetOutgoingAttemptRetryLocked :: "firstTrustControlRecord \<Rightarrow> bytes \<Rightarrow> firstTrustControlRecord" where
  "firstTrustResetOutgoingAttemptRetryLocked target scope =
     target\<lparr>cr_quarantines := reset_retry (cr_controlEpoch target) scope (cr_quarantines target)\<rparr>"

text \<open>The recovery state and the result that follow from a publication.\<close>

definition apply_publication :: "firstTrustCommit \<Rightarrow> string \<Rightarrow> string \<Rightarrow> ('w, string) top" where
  "apply_publication commit previousRecovery outcome =
     (if outcome = ''durable'' then do {
        poke (\<lambda>c. c\<lparr>co_phase := firstTrustPairingClosed, co_recovery := ''PAIRED_TRUSTED'', co_recoveryReasonCode := []\<rparr>);
        candidate \<leftarrow> peek co_currentCandidate;
        (case candidate of None \<Rightarrow> nop | Some ca \<Rightarrow> trust_remote (cm_remote commit) (ca_shipID ca));
        give ''trusted''
      }
      else if outcome = ''unknown'' then do {poke quarantine_unknown; give ''trust_outcome_unknown''}
      else do {
        poke (\<lambda>c. c\<lparr>co_phase := firstTrustPairingClosed, co_recovery := previousRecovery,
          co_recoveryReasonCode := (if previousRecovery \<noteq> ''REVOKED'' then [] else co_recoveryReasonCode c)\<rparr>);
        give ''failed_closed_unchanged''
      })"

definition finishRecoveryConfirmationLocked ::
  "'w ftdeps \<Rightarrow> firstTrustCommit \<Rightarrow> string \<Rightarrow> string \<Rightarrow> ('w, string) top" where
  "finishRecoveryConfirmationLocked deps commit previousRecovery outcome = do {
     current \<leftarrow> peek (current_commit commit);
     if \<not> current then do {mu_Unlock; give ''trust_outcome_unknown''}
     else do {
       result \<leftarrow> apply_publication commit previousRecovery outcome;
       now \<leftarrow> call (d_now deps);
       finishCandidateRequestsExceptLocked deps (if_key (cm_inflight commit)) ''stale_request'' now;
       recordReplayLocked deps (if_key (cm_inflight commit)) (if_request (cm_inflight commit)) result now;
       transient \<leftarrow> peek transient_candidate;
       whenever (transient \<and> result \<noteq> ''trusted'') revokeTransientTrustLocked;
       poke (\<lambda>c. c\<lparr>co_currentCandidate := None\<rparr>);
       finishCandidateSelectionLocked result (result \<noteq> ''trusted'');
       poke (\<lambda>c. c\<lparr>co_window := None\<rparr>);
       stopTimerLocked;
       _ \<leftarrow> setWaitingLocked deps False;
       settle_remote commit result transient;
       poke (\<lambda>c. c\<lparr>co_recoveryOperation := None, co_inflight := None\<rparr>);
       unlocked deps;
       notifyTrustAdminProjection deps;
       give result
     }
   }"

definition no_operation :: "bytes \<Rightarrow> string \<Rightarrow> firstTrustRecoveryOperation" where
  "no_operation operationID operationClass =
     \<lparr>ro_operationID = operationID, ro_operationClass = operationClass, ro_bindingSHA256 = zero32\<rparr>"

definition trusted_association :: "bytes \<Rightarrow> bytes \<Rightarrow> bytes \<Rightarrow> string \<Rightarrow> firstTrustAssociationRecord" where
  "trusted_association reference lineage remote shipID =
     \<lparr>fa_reference = reference, fa_lineage = lineage, fa_subject = remote, fa_service = shipID, fa_active = True,
      fa_trusted = True, fa_allowlisted = True, fa_reconnectable = True\<rparr>"

text \<open>A new lineage, when the last association was revoked, and a reference; \<open>None\<close> when randomness fails.\<close>

definition association_ordinals :: "'w ftdeps \<Rightarrow> bool \<Rightarrow> bytes \<Rightarrow> ('w, (bytes \<times> bytes) option) top" where
  "association_ordinals deps revoked lineage = do {
     chosen \<leftarrow> (if revoked then firstTrustReadOrdinal deps else give (Some lineage));
     case chosen of
       None \<Rightarrow> give None
     | Some l \<Rightarrow> do {
         reference \<leftarrow> firstTrustReadOrdinal deps;
         give (map_option (\<lambda>r. (l, r)) reference)
       }
   }"

text \<open>The anchor is dereferenced by the publication.\<close>

definition publish_confirmation ::
  "'w ftdeps \<Rightarrow> 'w firstTrustControlPersistence \<Rightarrow> 'w firstTrustAnchorProvider \<Rightarrow> ctx \<Rightarrow> firstTrustCommit \<Rightarrow> bytes \<Rightarrow> bytes \<Rightarrow>
     bytes \<Rightarrow> ('w, string) top" where
  "publish_confirmation deps st an ctx commit operationID lineage reference = do {
     selected \<leftarrow> peek co_controlView;
     anchor \<leftarrow> peek co_anchorRecord;
     let target = firstTrustResetOutgoingAttemptRetryLocked ((bump (cv_control selected))\<lparr>cr_associationLineage := lineage\<rparr>)
           (retry_scope deps (cm_remote commit));
         working = selected\<lparr>cv_associations := cv_associations selected @
           [trusted_association reference lineage (cm_remote commit) (cm_shipID commit)]\<rparr> in do {
       poke (\<lambda>c. c\<lparr>co_recoveryOperation := Some (no_operation operationID ''first_trust'')\<rparr>);
       unlocked deps;
       (publication, outcome, anchor') \<leftarrow>
         publishFirstTrustControl st an ctx working target operationID ''first_trust'' selected anchor;
       d_others deps;
       poke (\<lambda>c. c\<lparr>co_anchorRecord := anchor'\<rparr>);
       whenever (outcome = ''durable'')
         (poke (\<lambda>c. c\<lparr>co_controlView := pr_target publication, co_storeGeneration := sequence_of (pr_target publication)\<rparr>));
       give outcome
     }
   }"

definition confirmWithRecoveryLocked ::
  "'w ftdeps \<Rightarrow> 'w firstTrustControlPersistence \<Rightarrow> ctx \<Rightarrow> firstTrustCommit \<Rightarrow> ('w, string option) top" where
  "confirmWithRecoveryLocked deps st ctx commit = do {
     ordinal \<leftarrow> firstTrustReadOrdinal deps;
     exhausted \<leftarrow> peek (\<lambda>c. cr_controlEpoch (control c) = - 1);
     previousRecovery \<leftarrow> peek co_recovery;
     let fail = (do {
       result \<leftarrow> finishRecoveryConfirmationLocked deps commit previousRecovery ''prepare_failed'';
       give (Some result)
     }) in
     case ordinal of
       None \<Rightarrow> fail
     | Some operationID \<Rightarrow>
         if exhausted then fail
         else do {
           lineage \<leftarrow> peek (\<lambda>c. cr_associationLineage (control c));
           ordinals \<leftarrow> association_ordinals deps (previousRecovery = ''REVOKED'') lineage;
           case (ordinals, d_anchor deps) of
             (None, _) \<Rightarrow> fail
           | (Some _, None) \<Rightarrow> give None
           | (Some (l, reference), Some an) \<Rightarrow> do {
               outcome \<leftarrow> publish_confirmation deps st an ctx commit operationID l reference;
               result \<leftarrow> finishRecoveryConfirmationLocked deps commit previousRecovery outcome;
               give (Some result)
             }
         }
   }"

definition executeCommit :: "'w ftdeps \<Rightarrow> ctx \<Rightarrow> firstTrustCommit \<Rightarrow> ('w, string option) top" where
  "executeCommit deps ctx commit =
     (case d_recoveryStore deps of
        Some st \<Rightarrow> do {
          result \<leftarrow> confirmWithRecoveryLocked deps st ctx commit;
          d_others deps;
          fault \<leftarrow> peek co_pairingRegistrationFault;
          if result = None then give None
          else if fault then do {
            failPairingRegistrationLocked;
            now \<leftarrow> call (d_now deps);
            recordReplayLocked deps (if_key (cm_inflight commit)) (if_request (cm_inflight commit))
              ''pairing_registration_failed'' now;
            mu_Unlock;
            give (Some ''pairing_registration_failed'')
          }
          else do {mu_Unlock; give result}
        }
      | None \<Rightarrow>
          (case d_store deps of
             None \<Rightarrow> give None
           | Some st \<Rightarrow> do {
               outcome \<leftarrow> call (Commit st ctx (cm_storeGeneration commit) (cm_remote commit) (cm_shipID commit));
               d_others deps;
               case outcome of
                 Some o' \<Rightarrow> finishCommit deps st commit o'
               | None \<Rightarrow> do {result \<leftarrow> commit_timed_out deps commit; give (Some result)}
             }))"

text \<open>
  The end of an operation that may have begun a commit: the lock is given up and the commit runs.
  Its own answer is dropped unless it panics.
\<close>

definition commit_unlocked :: "'w ftdeps \<Rightarrow> ctx \<Rightarrow> firstTrustCommit option \<times> string \<Rightarrow> ('w, string option) top" where
  "commit_unlocked deps background begun =
     (case begun of (commit, result) \<Rightarrow>
        (case commit of
           None \<Rightarrow> do {mu_Unlock; give (Some result)}
         | Some cm \<Rightarrow> do {
             unlocked deps;
             executed \<leftarrow> executeCommit deps background cm;
             give (if executed = None then None else Some result)
           }))"

subsection \<open>Events of the connection\<close>

text \<open>\<open>background\<close> is \<^verbatim>\<open>context.Background()\<close>.\<close>

definition serviceShipIDUpdate :: "'w ftdeps \<Rightarrow> ctx \<Rightarrow> bytes \<Rightarrow> uint64 \<Rightarrow> string \<Rightarrow> ('w, string option) top" where
  "serviceShipIDUpdate deps background remote connection shipID = do {
     _ \<leftarrow> expire_now deps;
     phase \<leftarrow> peek co_phase;
     candidate \<leftarrow> peek co_currentCandidate;
     case candidate of
       None \<Rightarrow> do {mu_Unlock; give (Some ''ignored'')}
     | Some ca \<Rightarrow>
         if phase \<noteq> firstTrustCandidatePending \<and> phase \<noteq> firstTrustTransientTrusted then do {mu_Unlock; give (Some ''ignored'')}
         else if shipID = [] \<or> \<not> is_candidate remote connection ca then do {mu_Unlock; give (Some ''ignored'')}
         else do {
           set_candidate (\<lambda>ca. ca\<lparr>ca_shipID := shipID\<rparr>);
           if phase = firstTrustTransientTrusted \<and> ca_completed ca then do {
             begun \<leftarrow> beginTransientCommitLocked deps;
             commit_unlocked deps background begun
           }
           else do {mu_Unlock; give (Some ''association_complete'')}
         }
   }"

definition connectionCompleted :: "'w ftdeps \<Rightarrow> ctx \<Rightarrow> bytes \<Rightarrow> uint64 \<Rightarrow> ('w, string option) top" where
  "connectionCompleted deps background remote connection = do {
     _ \<leftarrow> expire_now deps;
     phase \<leftarrow> peek co_phase;
     candidate \<leftarrow> peek co_currentCandidate;
     case candidate of
       None \<Rightarrow> do {mu_Unlock; give (Some ''ignored'')}
     | Some ca \<Rightarrow>
         if phase \<noteq> firstTrustCandidatePending \<and> phase \<noteq> firstTrustTransientTrusted \<or> connection = 0 \<or>
            \<not> is_candidate remote connection ca
         then do {mu_Unlock; give (Some ''ignored'')}
         else do {
           set_candidate (\<lambda>ca. ca\<lparr>ca_completed := True\<rparr>);
           if ca_shipID ca = [] then do {mu_Unlock; give (Some ''association_incomplete'')}
           else if phase = firstTrustCandidatePending then do {mu_Unlock; give (Some ''association_complete'')}
           else do {
             begun \<leftarrow> beginTransientCommitLocked deps;
             commit_unlocked deps background begun
           }
         }
   }"

definition connectionClosed :: "'w ftdeps \<Rightarrow> bytes \<Rightarrow> uint64 \<Rightarrow> ('w, string) top" where
  "connectionClosed deps remote connection = do {
     now \<leftarrow> expire_now deps;
     phase \<leftarrow> peek co_phase;
     candidate \<leftarrow> peek co_currentCandidate;
     result \<leftarrow> (case candidate of
         None \<Rightarrow> give ''ignored''
       | Some ca \<Rightarrow>
           if \<not> is_candidate remote connection ca then give ''ignored''
           else if phase = firstTrustCommitting then give ''commit_in_progress''
           else do {
             revokeTransientTrustLocked;
             finishCandidateRequestsLocked deps ''connection_closed'' now;
             poke (\<lambda>c. c\<lparr>co_currentCandidate := None\<rparr>);
             finishCandidateSelectionLocked ''connection_closed'' True;
             (reopened, ok) \<leftarrow> reopen_or_close deps now;
             give (if reopened then ''open_empty'' else if ok then ''pairing_closed'' else ''pairing_registration_failed'')
           });
     mu_Unlock;
     give result
   }"

definition completeTransientRegistration :: "'w ftdeps \<Rightarrow> ctx \<Rightarrow> bytes \<Rightarrow> uint64 \<Rightarrow> ('w, unit option) top" where
  "completeTransientRegistration deps background remote connection = do {
     _ \<leftarrow> expire_now deps;
     ready \<leftarrow> peek (\<lambda>c. case co_currentCandidate c of
         None \<Rightarrow> False
       | Some ca \<Rightarrow> co_phase c = firstTrustTransientTrusted \<and> connection \<noteq> 0 \<and> is_candidate remote connection ca \<and>
           ca_tlsBound ca \<and> selectedCandidateMatchesLocked c (ca_remote ca));
     if \<not> ready then do {mu_Unlock; give (Some ())}
     else do {
       set_candidate (\<lambda>ca. ca\<lparr>ca_transientRegistrationComplete := True\<rparr>);
       begun \<leftarrow> beginTransientCommitLocked deps;
       executed \<leftarrow> commit_unlocked deps background begun;
       give (map_option (\<lambda>_. ()) executed)
     }
   }"

subsection \<open>Confirmation\<close>

definition confirm_request :: "string \<Rightarrow> string \<Rightarrow> gotime \<Rightarrow> uint64 \<Rightarrow> uint64 \<Rightarrow> firstTrustRequest" where
  "confirm_request fingerprint nonce expiresAt connection storeGeneration =
     request_zero\<lparr>rq_operation := ''confirm'', rq_fingerprint := fingerprint, rq_nonce := nonce, rq_expiresAt := expiresAt,
       rq_connection := connection, rq_storeGeneration := storeGeneration\<rparr>"

definition bindings_match :: "firstTrustRequest \<Rightarrow> firstTrustCandidate \<Rightarrow> bool" where
  "bindings_match request ca \<longleftrightarrow>
     rq_nonce request = ca_nonce ca \<and> t_nsec (rq_expiresAt request) = t_nsec (ca_expiresAt ca) \<and>
     rq_connection request = ca_connection ca \<and> rq_storeGeneration request = ca_storeGeneration ca \<and>
     constantTimeFingerprintMatch (rq_fingerprint request) (ca_remote ca)"

text \<open>
  A confirmation that finds the same one under way waits for it, or for its own context; the wait
  is given up as soon as the context is cancelled.
\<close>

definition await_confirmation :: "'w ftdeps \<Rightarrow> ctx \<Rightarrow> string \<Rightarrow> firstTrustRequest \<Rightarrow> ('w, string) top" where
  "await_confirmation deps ctx key request = do {
     unlocked deps;
     cancelled \<leftarrow> call (d_ctxErr deps ctx);
     if cancelled then give ''request_cancelled''
     else do {
       now \<leftarrow> call (d_now deps);
       replay \<leftarrow> replayLocked deps key request now;
       mu_Unlock;
       give (case replay of Some result \<Rightarrow> result | None \<Rightarrow> ''stale_request'')
     }
   }"

text \<open>
  The candidate and the request match and the request is bound to the candidate: trust on trial
  when the candidate was selected, a commit otherwise.
\<close>

definition accept_confirmation ::
  "'w ftdeps \<Rightarrow> ctx \<Rightarrow> firstTrustCandidate \<Rightarrow> string \<Rightarrow> firstTrustRequest \<Rightarrow> gotime \<Rightarrow> ('w, string option) top" where
  "accept_confirmation deps ctx ca key request now = do {
     witnessed (EvConfirmed (ca_remote ca) request);
     if ca_tlsRequired ca then do {
       set_candidate (\<lambda>ca. ca\<lparr>ca_transientAuthorized := True, ca_transientRegistrationComplete := False,
         ca_confirmationKey := key, ca_confirmationRequest := request\<rparr>);
       poke (\<lambda>c. c\<lparr>co_phase := firstTrustTransientTrusted\<rparr>);
       recordReplayLocked deps key request ''transient_trusted'' now;
       registerTransientRemoteLocked (ca_remote ca) (ca_connection ca);
       mu_Unlock;
       give (Some ''transient_trusted'')
     }
     else do {
       commit \<leftarrow> begin_commit key request (ca_remote ca) (ca_shipID ca) (rq_connection request) (rq_storeGeneration request);
       unlocked deps;
       executeCommit deps ctx commit
     }
   }"

definition confirm_candidate ::
  "'w ftdeps \<Rightarrow> ctx \<Rightarrow> firstTrustCandidate \<Rightarrow> string \<Rightarrow> firstTrustRequest \<Rightarrow> gotime \<Rightarrow> ('w, string option) top" where
  "confirm_candidate deps ctx ca key request now =
     (let answer = (\<lambda>result. do {mu_Unlock; give (Some result)}) in
      if \<not> bindings_match request ca then answer ''confirmation_mismatch''
      else do {
        selected \<leftarrow> peek (\<lambda>c. selectedCandidateMatchesLocked c (ca_remote ca));
        if ca_tlsRequired ca \<and> (\<not> ca_tlsBound ca \<or> \<not> selected) then answer ''association_incomplete''
        else do {
          generation \<leftarrow> selectedFirstTrustGenerationLocked deps;
          if generation \<noteq> ca_storeGeneration ca then answer ''store_generation_conflict''
          else do {
            bound \<leftarrow> bindCandidateRequestLocked ca key request;
            if bound \<noteq> [] then answer bound
            else if \<not> ca_tlsRequired ca \<and> ca_shipID ca = [] then answer ''association_incomplete''
            else accept_confirmation deps ctx ca key request now
          }
        }
      })"

definition confirm ::
  "'w ftdeps \<Rightarrow> ctx \<Rightarrow> string \<Rightarrow> string \<Rightarrow> string \<Rightarrow> gotime \<Rightarrow> uint64 \<Rightarrow> uint64 \<Rightarrow> ('w, string option) top" where
  "confirm deps ctx key fingerprint nonce expiresAt connection storeGeneration =
     (let request = confirm_request fingerprint nonce expiresAt connection storeGeneration;
          answer = (\<lambda>result. do {mu_Unlock; give (Some result)}) in do {
      cancelled \<leftarrow> call (d_ctxErr deps ctx);
      if cancelled then give (Some ''request_cancelled'')
      else if \<not> validFirstTrustKey key then give (Some ''invalid_idempotency_key'')
      else do {
        now \<leftarrow> expire_now deps;
        replay \<leftarrow> replayLocked deps key request now;
        inflight \<leftarrow> peek co_inflight;
        phase \<leftarrow> peek co_phase;
        candidate \<leftarrow> peek co_currentCandidate;
        conflict \<leftarrow> peek (\<lambda>c. activeKeyConflictLocked c key request);
        full \<leftarrow> peek (\<lambda>c. idempotencyCapacityLocked c key 1);
        case (replay, inflight) of
          (Some result, _) \<Rightarrow> answer result
        | (None, Some i) \<Rightarrow>
            if if_key i \<noteq> key \<or> \<not> firstTrustRequest_equal (if_request i) request then answer ''idempotency_conflict''
            else do {result \<leftarrow> await_confirmation deps ctx key request; give (Some result)}
        | (None, None) \<Rightarrow>
            if phase = firstTrustDisabled then answer ''mutation_disabled''
            else if phase \<noteq> firstTrustCandidatePending then answer ''stale_request''
            else (case candidate of
                None \<Rightarrow> answer ''stale_request''
              | Some ca \<Rightarrow>
                  if conflict then answer ''idempotency_conflict''
                  else if full then answer ''idempotency_capacity''
                  else confirm_candidate deps ctx ca key request now)
      }
   })"

definition cancel_request :: "string \<Rightarrow> uint64 \<Rightarrow> uint64 \<Rightarrow> firstTrustRequest" where
  "cancel_request nonce connection storeGeneration =
     request_zero\<lparr>rq_operation := ''cancel'', rq_nonce := nonce, rq_connection := connection,
       rq_storeGeneration := storeGeneration\<rparr>"

definition cancel_candidate :: "'w ftdeps \<Rightarrow> string \<Rightarrow> firstTrustRequest \<Rightarrow> gotime \<Rightarrow> ('w, string) top" where
  "cancel_candidate deps key request now = do {
     revokeTransientTrustLocked;
     finishCandidateRequestsLocked deps ''cancelled'' now;
     cancel_current_remote;
     poke (\<lambda>c. c\<lparr>co_currentCandidate := None\<rparr>);
     finishCandidateSelectionLocked ''cancelled'' True;
     (reopened, ok) \<leftarrow> reopen_or_close deps now;
     let result = (if reopened \<or> ok then ''cancelled'' else ''pairing_registration_failed'') in do {
       recordReplayLocked deps key request result now;
       give result
     }
   }"

definition cancel_locked :: "'w ftdeps \<Rightarrow> string \<Rightarrow> firstTrustRequest \<Rightarrow> ('w, string) top" where
  "cancel_locked deps key request = do {
     now \<leftarrow> expire_now deps;
     replay \<leftarrow> replayLocked deps key request now;
     conflict \<leftarrow> peek (\<lambda>c. activeKeyConflictLocked c key request);
     full \<leftarrow> peek (\<lambda>c. idempotencyCapacityLocked c key 0);
     phase \<leftarrow> peek co_phase;
     candidate \<leftarrow> peek co_currentCandidate;
     case replay of
       Some result \<Rightarrow> give result
     | None \<Rightarrow>
         if conflict then give ''idempotency_conflict''
         else if phase = firstTrustCommitting then give ''commit_in_progress''
         else if phase \<noteq> firstTrustCandidatePending \<and> phase \<noteq> firstTrustTransientTrusted then give ''stale_request''
         else (case candidate of
             None \<Rightarrow> give ''stale_request''
           | Some ca \<Rightarrow>
               if rq_nonce request \<noteq> ca_nonce ca \<or> rq_connection request \<noteq> ca_connection ca \<or>
                  rq_storeGeneration request \<noteq> ca_storeGeneration ca
               then give ''confirmation_mismatch''
               else if full then give ''idempotency_capacity''
               else do {
                 bound \<leftarrow> bindCandidateRequestLocked ca key request;
                 if bound \<noteq> [] then give bound else cancel_candidate deps key request now
               })
   }"

definition cancel_pairing :: "'w ftdeps \<Rightarrow> ctx \<Rightarrow> string \<Rightarrow> string \<Rightarrow> uint64 \<Rightarrow> uint64 \<Rightarrow> ('w, string) top" where
  "cancel_pairing deps ctx key nonce connection storeGeneration = do {
     cancelled \<leftarrow> call (d_ctxErr deps ctx);
     if cancelled then give ''request_cancelled''
     else if \<not> validFirstTrustKey key then give ''invalid_idempotency_key''
     else do {
       result \<leftarrow> cancel_locked deps key (cancel_request nonce connection storeGeneration);
       mu_Unlock;
       give result
     }
   }"

subsection \<open>What is reported\<close>

definition candidate_view :: "'w ftc \<Rightarrow> (string \<times> string \<times> gotime \<times> uint64 \<times> uint64 \<times> bool) option" where
  "candidate_view c =
     (case co_currentCandidate c of
        None \<Rightarrow> None
      | Some ca \<Rightarrow>
          if co_phase c \<noteq> firstTrustCandidatePending \<and> co_phase c \<noteq> firstTrustTransientTrusted then None
          else Some (hex_encode (ca_remote ca), ca_nonce ca, ca_expiresAt ca, ca_connection ca, ca_storeGeneration ca,
            ca_shipID ca \<noteq> [] \<and> (\<not> ca_transientAuthorized ca \<or> ca_completed ca) \<and> (\<not> ca_tlsRequired ca \<or> ca_tlsBound ca)))"

definition candidate :: "'w ftdeps \<Rightarrow> ('w, (string \<times> string \<times> gotime \<times> uint64 \<times> uint64 \<times> bool) option) top" where
  "candidate deps = do {_ \<leftarrow> expire_now deps; view \<leftarrow> peek candidate_view; mu_Unlock; give view}"

definition coordinator_state :: "'w ftdeps \<Rightarrow> ('w, string) top" where
  "coordinator_state deps = do {
     _ \<leftarrow> expire_now deps;
     name \<leftarrow> peek (\<lambda>c. if co_pairingRegistrationFault c then ''DISABLED'' else phaseNameLocked c);
     mu_Unlock;
     give name
   }"

definition trusted :: "bytes \<Rightarrow> ('w, bool) top" where
  "trusted remote = do {present \<leftarrow> peek (\<lambda>c. go_lookup (co_trustedRemotes c) remote \<noteq> None); mu_Unlock; give present}"

subsection \<open>Effects\<close>

text \<open>
  One turn of \<^verbatim>\<open>drainEffects\<close>: the first effect is taken off the queue and carried out; \<open>None\<close>
  when a registration on trial completes a commit that panics.
\<close>

definition run_effect :: "'w ftdeps \<Rightarrow> ctx \<Rightarrow> firstTrustEffect \<Rightarrow> ('w, unit option) top" where
  "run_effect deps background e =
     (let remote = ef_remote e; connection = ef_connection e; eff = d_effects deps;
          after = (\<lambda>m. do {call m; give (Some ())}) in
      case ef_kind e of
        firstTrustEffectCancel \<Rightarrow> after (e_cancelRemote eff remote connection)
      | firstTrustEffectRegister \<Rightarrow> do {
          alive \<leftarrow> call (e_connectionAlive eff remote connection);
          if alive then after (e_registerRemoteSKI eff remote connection) else give (Some ())
        }
      | firstTrustEffectCancelUnbound \<Rightarrow>
          (case e_cancelCandidate eff of
             Some f \<Rightarrow> after (f remote) | None \<Rightarrow> after (e_cancelRemote eff remote 0))
      | firstTrustEffectTransientRegister \<Rightarrow>
          (case e_registerTransientRemoteSKI eff of
             None \<Rightarrow> give (Some ())
           | Some f \<Rightarrow> do {
               alive \<leftarrow> call (e_connectionAlive eff remote connection);
               if \<not> alive then give (Some ())
               else do {
                 registered \<leftarrow> call (f remote connection);
                 if registered then completeTransientRegistration deps background remote connection else give (Some ())
               }
             })
      | firstTrustEffectTransientUnregister \<Rightarrow>
          (case e_unregisterTransientRemoteSKI eff of None \<Rightarrow> give (Some ()) | Some f \<Rightarrow> after (f remote connection))
      | firstTrustEffectTransientFinalize \<Rightarrow>
          (case e_finalizeTransientRemoteSKI eff of None \<Rightarrow> give (Some ()) | Some f \<Rightarrow> after (f remote connection)))"

definition drain_step :: "'w ftdeps \<Rightarrow> ctx \<Rightarrow> ('w, unit option) top" where
  "drain_step deps background = do {
     queue \<leftarrow> peek co_effectQueue;
     case queue of
       [] \<Rightarrow> give (Some ())
     | e # rest \<Rightarrow> do {poke (\<lambda>c. c\<lparr>co_effectQueue := rest\<rparr>); run_effect deps background e}
   }"

text \<open>
  The loop, by one goroutine at a time; others run between two effects. The fuel counts the
  effects.
\<close>

datatype drain_end = Drained | Draining | Panicked

fun drainEffects :: "'w ftdeps \<Rightarrow> ctx \<Rightarrow> nat \<Rightarrow> ('w, drain_end) top" where
  "drainEffects deps background 0 = give Draining"
| "drainEffects deps background (Suc n) = do {
     queue \<leftarrow> peek co_effectQueue;
     if queue = [] then give Drained
     else do {
       result \<leftarrow> drain_step deps background;
       case result of
         None \<Rightarrow> give Panicked
       | Some _ \<Rightarrow> do {d_others deps; drainEffects deps background n}
     }
   }"

end
