(* ===== verification/TrustAttempts.thy ===== *)
theory TrustAttempts
  imports TrustPairing
begin

text \<open>
  Outgoing connection attempts, \<^verbatim>\<open>src/internal/eebusfacade/msp04cr2_predial.go\<close>: an attempt is
  reserved in the store before the transport dials, authorised before it launches, and settled with
  a charge on the backoff or a reset of it when it ends, when its lease runs out, when the process
  restarts or when it shuts down. Attempts of one remote are serialised by a lane, so the other
  goroutines that run while the coordinator's lock is given up are those of other lanes.
\<close>

subsection \<open>Attempts\<close>

definition firstTrustAttemptReserved :: string where "firstTrustAttemptReserved = ''ATTEMPT_RESERVED''"
definition firstTrustAttemptLaunchAuthorized :: string where "firstTrustAttemptLaunchAuthorized = ''ATTEMPT_LAUNCH_AUTHORIZED''"

record firstTrustCandidateGenerationRebind =
  rb_remote :: bytes
  rb_connection :: uint64
  rb_storeGeneration :: uint64

definition firstTrustOutgoingAttemptRequestValid :: "firstTrustOutgoingAttemptRequest \<Rightarrow> bool" where
  "firstTrustOutgoingAttemptRequestValid request \<longleftrightarrow>
     length (aq_remoteSKI request) = 20 \<and> ep_host (aq_endpoint request) \<noteq> [] \<and>
     length (ep_host (aq_endpoint request)) \<le> 255 \<and> ep_port (aq_endpoint request) \<noteq> 0 \<and>
     length (aq_path request) \<le> 1024 \<and> (aq_path request = [] \<or> take 1 (aq_path request) = ''/'')"

fun index_where :: "('a \<Rightarrow> bool) \<Rightarrow> 'a list \<Rightarrow> nat option" where
  "index_where P [] = None"
| "index_where P (x # xs) = (if P x then Some 0 else map_option Suc (index_where P xs))"

definition metadata_of :: "firstTrustOutgoingAttemptRecord \<Rightarrow> firstTrustOutgoingAttemptMetadata" where
  "metadata_of a = \<lparr>am_attemptID = oa_attemptID a, am_scope = oa_scope a, am_controlEpoch = oa_controlEpoch a\<rparr>"

definition firstTrustOutgoingAttemptMetadataLocked :: "'w ftc \<Rightarrow> firstTrustOutgoingAttemptMetadata \<Rightarrow> nat option" where
  "firstTrustOutgoingAttemptMetadataLocked c metadata =
     index_where (\<lambda>a. oa_attemptID a = am_attemptID metadata \<and> oa_scope a = am_scope metadata \<and>
       oa_controlEpoch a = am_controlEpoch metadata) (cr_attempts (control c))"

definition firstTrustOutgoingAttemptExactLocked :: "'w ftc \<Rightarrow> firstTrustOutgoingAttemptMetadata \<Rightarrow> uint64 \<Rightarrow> nat option" where
  "firstTrustOutgoingAttemptExactLocked c metadata cancellationGeneration =
     (case firstTrustOutgoingAttemptMetadataLocked c metadata of
        None \<Rightarrow> None
      | Some index \<Rightarrow>
          if oa_cancellationGeneration (cr_attempts (control c) ! index) \<noteq> cancellationGeneration then None else Some index)"

definition runtime_at :: "'w ftc \<Rightarrow> firstTrustOutgoingAttemptMetadata \<Rightarrow> firstTrustOutgoingAttemptRuntime option" where
  "runtime_at c metadata = go_lookup (co_outgoingAttemptContexts c) (am_attemptID metadata)"

definition attempt_at :: "'w ftc \<Rightarrow> nat \<Rightarrow> firstTrustOutgoingAttemptRecord" where
  "attempt_at c index = cr_attempts (control c) ! index"

definition outgoingAttemptOwnerCountLocked :: "'w ftc \<Rightarrow> nat" where
  "outgoingAttemptOwnerCountLocked c = length (co_outgoingAttemptContexts c) +
     length (filter (\<lambda>a. go_lookup (co_outgoingAttemptContexts c) (oa_attemptID a) = None) (cr_attempts (control c)))"

definition successfulOutgoingAttemptOwnerLocked :: "'w ftc \<Rightarrow> bytes \<Rightarrow> bool" where
  "successfulOutgoingAttemptOwnerLocked c remote =
     list_ex (\<lambda>(_, r). ru_settlement r = ''success'' \<and> ru_remoteSKI r = remote) (co_outgoingAttemptContexts c)"

definition firstTrustOutgoingAttemptRemote :: "'w ftc \<Rightarrow> firstTrustOutgoingAttemptMetadata \<Rightarrow> bytes option" where
  "firstTrustOutgoingAttemptRemote c metadata =
     map_option (\<lambda>index. oa_remoteSKI (attempt_at c index)) (firstTrustOutgoingAttemptMetadataLocked c metadata)"

subsection \<open>Eligibility\<close>

text \<open>The first association of the remote that is usable decides, when there is one.\<close>

definition has_usable_association :: "'w ftc \<Rightarrow> bytes \<Rightarrow> bool" where
  "has_usable_association c remote = list_ex (\<lambda>a. fa_subject a = remote \<and> association_usable c a \<and>
     \<not> firstTrustTombstonedLocked c a \<and> co_recovery c = ''PAIRED_TRUSTED'') (cv_associations (co_controlView c))"

definition eligible_at :: "'w ftc \<Rightarrow> gotime \<Rightarrow> bytes \<Rightarrow> bool" where
  "eligible_at c now remote =
     (if (case co_window c of None \<Rightarrow> True | Some w \<Rightarrow> \<not> Before now (win_deadline w)) then False
      else if (case co_currentCandidate c of None \<Rightarrow> False | Some ca \<Rightarrow> \<not> Before now (ca_expiresAt ca)) then False
      else selectedCandidateMatchesLocked c remote)"

definition firstTrustOutgoingAttemptEligibleLocked :: "'w ftdeps \<Rightarrow> bytes \<Rightarrow> ('w, bool) top" where
  "firstTrustOutgoingAttemptEligibleLocked deps remote = do {
     c \<leftarrow> peek (\<lambda>c. c);
     if length remote \<noteq> 20 \<or> d_recoveryStore deps = None \<or> d_anchor deps = None \<or> co_reopening c \<or>
        co_recoveryOperation c \<noteq> None \<or> reconciliationRequiredLocked c \<or> co_recovery c = ''REVOKED'' \<or>
        co_recovery c = ''CORRUPT_STORE'' \<or> co_recovery c = ''NO_LOCAL_IDENTITY''
     then give False
     else if co_recovery c = ''QUARANTINED'' then
       give (case retryReadyRecoveryAssociationLocked deps c of
           None \<Rightarrow> False | Some (association, scope) \<Rightarrow> inflight scope c \<and> fa_subject association = remote)
     else if co_phase c = firstTrustDisabled then give False
     else if has_usable_association c remote then give (go_lookup (co_trustedRemotes c) remote \<noteq> None)
     else if co_recovery c \<noteq> ''UNPAIRED_LOCKED'' then give False
     else do {now \<leftarrow> call (d_now deps); give (eligible_at c now remote)}
   }"

definition firstTrustOutgoingAttemptRecordEligibleLocked :: "'w ftdeps \<Rightarrow> 'w ftc \<Rightarrow> firstTrustOutgoingAttemptRecord \<Rightarrow> bool" where
  "firstTrustOutgoingAttemptRecordEligibleLocked deps c a =
     (if oa_associationLineage a \<noteq> cr_associationLineage (control c) \<or> oa_scope a \<noteq> retry_scope deps (oa_remoteSKI a)
      then False
      else case firstTrustQuarantineLocked c (oa_scope a) of
        None \<Rightarrow> False | Some (_, q) \<Rightarrow> qr_state q = ''RETRY_READY'' \<and> qr_remainingDelay q = 0)"

definition firstTrustOutgoingAttemptRetryReadyLocked :: "'w ftdeps \<Rightarrow> firstTrustQuarantineRecord \<Rightarrow> ('w, bool) top" where
  "firstTrustOutgoingAttemptRetryReadyLocked deps q =
     (if qr_state q = ''RETRY_READY'' then give (qr_remainingDelay q = 0)
      else if qr_state q = ''BACKOFF_ACTIVE'' then do {
        arm \<leftarrow> armed deps (qr_scope q) (qr_remainingDelay q);
        now \<leftarrow> call (d_monotonicNow deps);
        give (now \<ge> arm_deadline arm)
      }
      else give False)"

subsection \<open>Charges\<close>

text \<open>The record of a scope with one more failure charged, and the answer; \<open>None\<close> when it cannot be.\<close>

definition charge_failure ::
  "firstTrustBackoffPolicy \<Rightarrow> uint64 \<Rightarrow> uint64 \<Rightarrow> firstTrustQuarantineRecord \<Rightarrow> (firstTrustQuarantineRecord \<times> string) option" where
  "charge_failure policy epoch before q =
     (let current = (if qr_attemptCount q < before then before else qr_attemptCount q) in
      case firstTrustNextBackoff policy current of
        None \<Rightarrow> None
      | Some (next, delay) \<Rightarrow>
          Some (charge policy epoch next delay q, if next = bp_attemptMaximum policy then ''admin_hold'' else ''backoff_active''))"

definition firstTrustChargeOutgoingAttemptFailureLocked ::
  "firstTrustBackoffPolicy \<Rightarrow> firstTrustControlRecord \<Rightarrow> firstTrustOutgoingAttemptRecord \<Rightarrow>
     (firstTrustControlRecord \<times> string) option" where
  "firstTrustChargeOutgoingAttemptFailureLocked policy target a =
     (case (case quarantine_at (oa_scope a) (cr_quarantines target) of
          Some (index, q) \<Rightarrow> Some (index, q, cr_quarantines target)
        | None \<Rightarrow>
            if length (cr_quarantines target) \<ge> firstTrustMaximumQuarantineRecords then None
            else let q = new_quarantine (oa_scope a) 0 in Some (length (cr_quarantines target), q, cr_quarantines target @ [q])) of
        None \<Rightarrow> None
      | Some (index, q, quarantines) \<Rightarrow>
          (case charge_failure policy (cr_controlEpoch target) (oa_attemptCountBefore a) q of
             None \<Rightarrow> None
           | Some (charged, result) \<Rightarrow> Some (target\<lparr>cr_quarantines := quarantines[index := charged]\<rparr>, result)))"

definition updateOutgoingAttemptRetryArmLocked :: "'w ftdeps \<Rightarrow> bytes \<Rightarrow> ('w, unit) top" where
  "updateOutgoingAttemptRetryArmLocked deps scope = do {
     found \<leftarrow> peek (\<lambda>c. firstTrustQuarantineLocked c scope);
     case found of
       None \<Rightarrow> clear_arm scope
     | Some (_, q) \<Rightarrow>
         if qr_state q \<noteq> ''BACKOFF_ACTIVE'' then clear_arm scope
         else do {now \<leftarrow> call (d_monotonicNow deps); set_arm scope (retry_arm now (qr_remainingDelay q))}
   }"

definition cancelOutgoingAttemptRuntime :: "'w ftdeps \<Rightarrow> firstTrustOutgoingAttemptMetadata \<Rightarrow> ('w, unit) top" where
  "cancelOutgoingAttemptRuntime deps metadata = do {
     found \<leftarrow> peek (\<lambda>c. runtime_at c metadata);
     poke (\<lambda>c. c\<lparr>co_outgoingAttemptContexts := go_delete (am_attemptID metadata) (co_outgoingAttemptContexts c)\<rparr>);
     mu_Unlock;
     case found of
       None \<Rightarrow> nop
     | Some r \<Rightarrow> do {
         whenever (ru_leaseTimer r) (call (d_stopTimer deps (ru_metadata r)));
         call (d_cancel deps (ru_context r))
       }
   }"

definition cancelAllOutgoingAttemptContextsLocked :: "'w ftdeps \<Rightarrow> ('w, unit) top" where
  "cancelAllOutgoingAttemptContextsLocked deps = do {
     runtimes \<leftarrow> peek co_outgoingAttemptContexts;
     each (\<lambda>(_, r). do {
       whenever (ru_leaseTimer r) (call (d_stopTimer deps (ru_metadata r)));
       call (d_cancel deps (ru_context r))
     }) runtimes;
     poke (\<lambda>c. c\<lparr>co_outgoingAttemptContexts := []\<rparr>)
   }"

definition cancelAllOutgoingAttemptContexts :: "'w ftdeps \<Rightarrow> ('w, unit) top" where
  "cancelAllOutgoingAttemptContexts deps = do {cancelAllOutgoingAttemptContextsLocked deps; mu_Unlock}"

subsection \<open>Publication\<close>

definition rebind_refused :: "'w ftc \<Rightarrow> bytes \<Rightarrow> uint64 \<Rightarrow> bool" where
  "rebind_refused c remote connection =
     (case co_currentCandidate c of
        None \<Rightarrow> True
      | Some ca \<Rightarrow> co_phase c \<noteq> firstTrustCandidatePending \<or> ca_transientAuthorized ca \<or> connection = 0 \<or>
          \<not> is_candidate remote connection ca)"

definition outgoingAttemptCandidateGenerationRebindLocked ::
  "'w ftdeps \<Rightarrow> bytes \<Rightarrow> uint64 \<Rightarrow> ('w, firstTrustCandidateGenerationRebind option) top" where
  "outgoingAttemptCandidateGenerationRebindLocked deps remote connection = do {
     c \<leftarrow> peek (\<lambda>c. c);
     case co_currentCandidate c of
       None \<Rightarrow> give None
     | Some ca \<Rightarrow>
         if rebind_refused c remote connection \<or> ca_storeGeneration ca = 0 \<or>
            ca_storeGeneration ca \<noteq> sequence_of (co_controlView c)
         then give None
         else do {
           selected \<leftarrow> selectedFirstTrustGenerationLocked deps;
           give (if ca_storeGeneration ca \<noteq> selected then None
             else Some \<lparr>rb_remote = remote, rb_connection = connection, rb_storeGeneration = ca_storeGeneration ca\<rparr>)
         }
   }"

definition rebindOutgoingAttemptCandidateGenerationLocked ::
  "'w ftdeps \<Rightarrow> firstTrustCandidateGenerationRebind option \<Rightarrow> firstTrustPreparedPublication \<Rightarrow> ('w, bool) top" where
  "rebindOutgoingAttemptCandidateGenerationLocked deps rebind publication = do {
     c \<leftarrow> peek (\<lambda>c. c);
     let previous = sequence_of (pr_previous publication); target = sequence_of (pr_target publication) in
     case (rebind, co_currentCandidate c) of
       (Some rb, Some ca) \<Rightarrow>
         if rebind_refused c (rb_remote rb) (rb_connection rb) \<or> rb_storeGeneration rb = 0 \<or>
            rb_storeGeneration rb \<noteq> previous \<or> ca_storeGeneration ca \<noteq> previous \<or> target = 0 \<or> target = previous \<or>
            sequence_of (co_controlView c) \<noteq> target
         then give False
         else do {
           selected \<leftarrow> selectedFirstTrustGenerationLocked deps;
           if selected \<noteq> target then give False
           else do {set_candidate (\<lambda>ca. ca\<lparr>ca_storeGeneration := target\<rparr>); give True}
         }
     | _ \<Rightarrow> give False
   }"

definition publishSelectedOutgoingAttemptControl ::
  "'w ftdeps \<Rightarrow> ctx \<Rightarrow> uint64 \<Rightarrow> firstTrustControlRecord \<Rightarrow> bytes \<Rightarrow> string \<Rightarrow> firstTrustCandidateGenerationRebind option \<Rightarrow>
     ('w, firstTrustPreparedPublication \<times> string) top" where
  "publishSelectedOutgoingAttemptControl deps ctx expectedEpoch target operationID operationClass rebind = do {
     c \<leftarrow> peek (\<lambda>c. c);
     case (d_recoveryStore deps, d_anchor deps) of
       (Some st, Some an) \<Rightarrow>
         if cr_controlEpoch (control c) \<noteq> expectedEpoch then do {mu_Unlock; give (prepared_zero, ''unchanged'')}
         else do {
           unlocked deps;
           (publication, outcome, anchor) \<leftarrow> publishFirstTrustControl st an ctx (co_controlView c) target operationID
             operationClass (co_controlView c) (co_anchorRecord c);
           d_others deps;
           poke (\<lambda>c. c\<lparr>co_anchorRecord := anchor\<rparr>);
           (if outcome = ''durable'' then do {
              poke (\<lambda>c. c\<lparr>co_controlView := pr_target publication, co_storeGeneration := sequence_of (pr_target publication)\<rparr>);
              _ \<leftarrow> rebindOutgoingAttemptCandidateGenerationLocked deps rebind publication;
              nop
            }
            else whenever (outcome = ''unknown'') (poke quarantine_unknown));
           mu_Unlock;
           give (publication, outcome)
         }
     | _ \<Rightarrow> do {mu_Unlock; give (prepared_zero, ''unchanged'')}
   }"

definition publishOutgoingAttemptControl ::
  "'w ftdeps \<Rightarrow> ctx \<Rightarrow> uint64 \<Rightarrow> firstTrustControlRecord \<Rightarrow> bytes \<Rightarrow> string \<Rightarrow>
     ('w, firstTrustPreparedPublication \<times> string) top" where
  "publishOutgoingAttemptControl deps ctx expectedEpoch target operationID operationClass =
     publishSelectedOutgoingAttemptControl deps ctx expectedEpoch target operationID operationClass None"

subsection \<open>The lease\<close>

definition set_runtime :: "firstTrustOutgoingAttemptMetadata \<Rightarrow> firstTrustOutgoingAttemptRuntime \<Rightarrow> ('w, unit) top" where
  "set_runtime metadata r =
     poke (\<lambda>c. c\<lparr>co_outgoingAttemptContexts := go_put (am_attemptID metadata) r (co_outgoingAttemptContexts c)\<rparr>)"

text \<open>The scheduler answers whether it gave a timer, which fires \<^verbatim>\<open>expireOutgoingAttemptLease\<close> later.\<close>

definition armOutgoingAttemptLease ::
  "'w ftdeps \<Rightarrow> firstTrustOutgoingAttemptMetadata \<Rightarrow> uint64 \<Rightarrow> int \<Rightarrow> ('w, unit) top" where
  "armOutgoingAttemptLease deps metadata cancellationGeneration deadline = do {
     now \<leftarrow> call (d_monotonicNow deps);
     timer \<leftarrow> call (d_schedule deps (if deadline - now < 0 then 0 else deadline - now) metadata);
     d_others deps;
     found \<leftarrow> peek (\<lambda>c. runtime_at c metadata);
     let stop = (do {mu_Unlock; whenever timer (call (d_stopTimer deps metadata))}) in
     case found of
       None \<Rightarrow> stop
     | Some r \<Rightarrow>
         if ru_metadata r = metadata \<and> ru_cancellationGeneration r = cancellationGeneration \<and>
            ru_leaseDeadline r = deadline \<and> \<not> ru_leaseTimer r
         then do {set_runtime metadata (r\<lparr>ru_leaseTimer := timer\<rparr>); mu_Unlock}
         else stop
   }"

subsection \<open>Reservation\<close>

text \<open>The attempt that failed before this one, which a fallback replaces, checked; \<open>None\<close> when it may not.\<close>

definition failed_ok :: "'w ftc \<Rightarrow> bytes \<Rightarrow> bytes \<Rightarrow> firstTrustOutgoingAttemptMetadata \<Rightarrow> nat option" where
  "failed_ok c scope remote failed =
     (case firstTrustOutgoingAttemptMetadataLocked c failed of
        None \<Rightarrow> None
      | Some index \<Rightarrow>
          (case runtime_at c failed of
             None \<Rightarrow> None
           | Some r \<Rightarrow>
               if oa_state (attempt_at c index) \<noteq> firstTrustAttemptLaunchAuthorized \<or> oa_scope (attempt_at c index) \<noteq> scope \<or>
                  oa_remoteSKI (attempt_at c index) \<noteq> remote \<or> ru_metadata r \<noteq> failed \<or>
                  ru_cancellationGeneration r \<noteq> oa_cancellationGeneration (attempt_at c index)
               then None else Some index))"

definition reservation_open :: "'w ftdeps \<Rightarrow> 'w ftc \<Rightarrow> bytes \<Rightarrow> bytes \<Rightarrow> firstTrustOutgoingAttemptMetadata option \<Rightarrow> bool" where
  "reservation_open deps c scope remote failed \<longleftrightarrow>
     (case failed of
        Some f \<Rightarrow> failed_ok c scope remote f \<noteq> None
      | None \<Rightarrow> firstTrustOutgoingAttemptForScopeLocked c scope = None) \<and>
     (if failed = None then outgoingAttemptOwnerCountLocked c else outgoingAttemptOwnerCountLocked c - 1)
       < firstTrustMaximumOutgoingAttempts"

definition retry_expected :: "'w ftdeps \<Rightarrow> 'w ftc \<Rightarrow> bytes \<Rightarrow> bool \<Rightarrow> bool" where
  "retry_expected deps c scope fallback \<longleftrightarrow>
     fallback \<or> co_recovery c = ''QUARANTINED'' \<and>
       (case retryReadyRecoveryAssociationLocked deps c of None \<Rightarrow> False | Some (_, recoveryScope) \<Rightarrow> recoveryScope = scope)"

definition UnixNano :: "gotime \<Rightarrow> int" where
  "UnixNano t = sint (of_int (t_nsec t - 62135596800 * time_Second) :: uint64)"

text \<open>The quarantines of the target with the scope ready, and the count of failures before the attempt.\<close>

definition ready_quarantines ::
  "uint64 \<Rightarrow> bytes \<Rightarrow> firstTrustQuarantineRecord list \<Rightarrow> (firstTrustQuarantineRecord list \<times> uint64) option" where
  "ready_quarantines epoch scope qs =
     (case quarantine_at scope qs of
        None \<Rightarrow>
          if length qs \<ge> firstTrustMaximumQuarantineRecords then None else Some (qs @ [new_quarantine scope epoch], 0)
      | Some (index, q) \<Rightarrow>
          if qr_state q = ''BACKOFF_ACTIVE''
          then Some (qs[index := q\<lparr>qr_state := ''RETRY_READY'', qr_remainingDelay := 0, qr_lastControlEpoch := epoch\<rparr>],
                 qr_attemptCount q)
          else Some (qs, qr_attemptCount q))"

definition remove_at :: "nat \<Rightarrow> 'a list \<Rightarrow> 'a list" where
  "remove_at index xs = take index xs @ drop (Suc index) xs"

definition drop_failed ::
  "'w ftc \<Rightarrow> bytes \<Rightarrow> bytes \<Rightarrow> firstTrustOutgoingAttemptMetadata option \<Rightarrow> firstTrustOutgoingAttemptRecord list \<Rightarrow>
     firstTrustOutgoingAttemptRecord list" where
  "drop_failed c scope remote failed attempts =
     (case failed of
        None \<Rightarrow> attempts
      | Some f \<Rightarrow> (case failed_ok c scope remote f of None \<Rightarrow> attempts | Some index \<Rightarrow> remove_at index attempts))"

definition reserve_record ::
  "'w ftc \<Rightarrow> bytes \<Rightarrow> bytes \<Rightarrow> firstTrustOutgoingAttemptRequest \<Rightarrow> uint64 \<Rightarrow> uint64 \<Rightarrow> gotime \<Rightarrow> firstTrustOutgoingAttemptRecord" where
  "reserve_record c attemptID scope request epoch before now =
     \<lparr>oa_state = firstTrustAttemptReserved, oa_attemptID = attemptID, oa_remoteSKI = aq_remoteSKI request, oa_scope = scope,
      oa_controlEpoch = epoch, oa_associationLineage = cr_associationLineage (control c), oa_endpoint = aq_endpoint request,
      oa_path = aq_path request, oa_cancellationGeneration = co_outgoingAttemptCancellationGeneration c,
      oa_reservationOrder = co_outgoingAttemptReservationOrder c,
      oa_reservationTimestamp = (if UnixNano now < 0 then 0 else UnixNano now), oa_attemptCountBefore = before\<rparr>"

text \<open>The reservation is durable: its runtime is registered and its lease armed, unless it was cancelled meanwhile.\<close>

definition register_attempt ::
  "'w ftdeps \<Rightarrow> firstTrustOutgoingAttemptRequest \<Rightarrow> firstTrustOutgoingAttemptRecord \<Rightarrow> ctx \<Rightarrow> uint64 \<Rightarrow>
     firstTrustPreparedPublication \<Rightarrow> ('w, firstTrustOutgoingAttemptHandle option \<times> string) top" where
  "register_attempt deps request reserved attemptContext candidateConnection publication =
     (let metadata = metadata_of reserved; generation = oa_cancellationGeneration reserved in do {
        now \<leftarrow> call (d_monotonicNow deps);
        d_others deps;
        exact \<leftarrow> peek (\<lambda>c. firstTrustOutgoingAttemptExactLocked c metadata generation);
        owners \<leftarrow> peek outgoingAttemptOwnerCountLocked;
        let leaseDeadline = firstTrustSaturatingDurationAdd now (d_outgoingAttemptLease deps) in
        if exact = None \<or> owners > firstTrustMaximumOutgoingAttempts then do {
          mu_Unlock;
          call (d_cancel deps attemptContext);
          give (None, ''attempt_denied'')
        }
        else do {
          set_runtime metadata \<lparr>ru_metadata = metadata, ru_remoteSKI = aq_remoteSKI request, ru_context = attemptContext,
            ru_cancellationGeneration = generation, ru_candidateConnection = candidateConnection,
            ru_leaseDeadline = leaseDeadline, ru_leaseTimer = False, ru_settlement = []\<rparr>;
          set_inflight (am_scope metadata);
          poke (\<lambda>c. c\<lparr>co_storeGeneration := sequence_of (pr_target publication)\<rparr>);
          unlocked deps;
          armOutgoingAttemptLease deps metadata generation leaseDeadline;
          give (Some \<lparr>ha_metadata = metadata, ha_context = attemptContext, ha_cancellationGeneration = generation\<rparr>,
            ''attempt_reserved'')
        }
      })"

definition publish_reservation ::
  "'w ftdeps \<Rightarrow> ctx \<Rightarrow> firstTrustOutgoingAttemptRequest \<Rightarrow> firstTrustOutgoingAttemptMetadata option \<Rightarrow> bytes \<Rightarrow> bytes \<Rightarrow>
     firstTrustCandidateGenerationRebind option \<Rightarrow> uint64 \<Rightarrow> ('w, firstTrustOutgoingAttemptHandle option \<times> string) top" where
  "publish_reservation deps ctx request failed attemptID publicationID rebind candidateConnection =
     (let scope = retry_scope deps (aq_remoteSKI request); remote = aq_remoteSKI request in do {
        c0 \<leftarrow> peek (\<lambda>c. c);
        case ready_quarantines (cr_controlEpoch (control c0) + 1) scope (cr_quarantines (control c0)) of
          None \<Rightarrow> do {mu_Unlock; give (None, ''attempt_denied'')}
        | Some (quarantines, before) \<Rightarrow> do {
            poke (\<lambda>c. c\<lparr>co_outgoingAttemptCancellationGeneration := co_outgoingAttemptCancellationGeneration c + 1,
              co_outgoingAttemptReservationOrder := co_outgoingAttemptReservationOrder c + 1\<rparr>);
            now \<leftarrow> call (d_now deps);
            c \<leftarrow> peek (\<lambda>c. c);
            attemptContext \<leftarrow> call (d_withCancel deps ctx);
            let reserved = reserve_record c attemptID scope request (cr_controlEpoch (control c0) + 1) before now;
                target = (bump (control c0))\<lparr>cr_quarantines := quarantines,
                  cr_attempts := drop_failed c0 scope remote failed (cr_attempts (control c0)) @ [reserved]\<rparr> in do {
              unlocked deps;
              (publication, outcome) \<leftarrow> publishSelectedOutgoingAttemptControl deps ctx (cr_controlEpoch (control c0)) target
                publicationID (if failed = None then ''attempt_prepare'' else ''attempt_fallback_prepare'') rebind;
              if outcome \<noteq> ''durable'' then do {call (d_cancel deps attemptContext); give (None, ''attempt_denied'')}
              else do {
                (case failed of None \<Rightarrow> nop | Some f \<Rightarrow> cancelOutgoingAttemptRuntime deps f);
                register_attempt deps request reserved attemptContext candidateConnection publication
              }
            }
          }
      })"

definition prepareOutgoingAttemptLocked ::
  "'w ftdeps \<Rightarrow> ctx \<Rightarrow> firstTrustOutgoingAttemptRequest \<Rightarrow> firstTrustOutgoingAttemptMetadata option \<Rightarrow>
     ('w, firstTrustOutgoingAttemptHandle option \<times> string) top" where
  "prepareOutgoingAttemptLocked deps ctx request failed =
     (let remote = aq_remoteSKI request; scope = retry_scope deps remote;
          denied = (do {mu_Unlock; give (None, ''attempt_denied'')}) in do {
      cancelled \<leftarrow> call (d_ctxErr deps ctx);
      if cancelled \<or> \<not> firstTrustOutgoingAttemptRequestValid request then give (None, ''attempt_denied'')
      else do {
        eligible \<leftarrow> firstTrustOutgoingAttemptEligibleLocked deps remote;
        exhausted \<leftarrow> peek (\<lambda>c. cr_controlEpoch (control c) = - 1 \<or> successfulOutgoingAttemptOwnerLocked c remote);
        if \<not> eligible \<or> d_outgoingAttemptLease deps \<le> 0 \<or> exhausted then denied
        else do {
          candidateConnection \<leftarrow> peek (\<lambda>c. case co_currentCandidate c of
              None \<Rightarrow> 0 | Some ca \<Rightarrow> if ca_remote ca = remote then ca_connection ca else 0);
          rebind \<leftarrow> outgoingAttemptCandidateGenerationRebindLocked deps remote candidateConnection;
          open' \<leftarrow> peek (\<lambda>c. reservation_open deps c scope remote failed);
          found \<leftarrow> peek (\<lambda>c. firstTrustQuarantineLocked c scope);
          if \<not> open' then denied
          else do {
            ready \<leftarrow> (case found of None \<Rightarrow> give True | Some (_, q) \<Rightarrow> firstTrustOutgoingAttemptRetryReadyLocked deps q);
            expected \<leftarrow> peek (\<lambda>c. inflight scope c = retry_expected deps c scope (failed \<noteq> None));
            if \<not> ready \<or> \<not> expected then denied
            else do {
              attemptID \<leftarrow> firstTrustReadOrdinal deps;
              publicationID \<leftarrow> firstTrustReadOrdinal deps;
              full \<leftarrow> peek (\<lambda>c. co_outgoingAttemptCancellationGeneration c = - 1 \<or> co_outgoingAttemptReservationOrder c = - 1);
              case (attemptID, publicationID) of
                (Some a, Some p) \<Rightarrow> do {
                  taken \<leftarrow> peek (\<lambda>c. list_ex (\<lambda>x. oa_attemptID x = a) (cr_attempts (control c)));
                  if full \<or> taken then denied
                  else publish_reservation deps ctx request failed a p rebind candidateConnection
                }
              | _ \<Rightarrow> denied
            }
          }
        }
      }
   })"

definition prepareOutgoingAttempt ::
  "'w ftdeps \<Rightarrow> ctx \<Rightarrow> firstTrustOutgoingAttemptRequest \<Rightarrow> ('w, firstTrustOutgoingAttemptHandle option \<times> string) top" where
  "prepareOutgoingAttempt deps ctx request =
     (let trimmed = request\<lparr>aq_endpoint := (aq_endpoint request)\<lparr>ep_host := trim_space (ep_host (aq_endpoint request))\<rparr>\<rparr> in do {
        cancelled \<leftarrow> call (d_ctxErr deps ctx);
        if cancelled \<or> \<not> firstTrustOutgoingAttemptRequestValid trimmed then give (None, ''attempt_denied'')
        else prepareOutgoingAttemptLocked deps ctx trimmed None
      })"

subsection \<open>Abort\<close>

text \<open>The target without an attempt, charged with its failure.\<close>

definition settled_target :: "'w ftdeps \<Rightarrow> 'w ftc \<Rightarrow> nat \<Rightarrow> (firstTrustControlRecord \<times> string) option" where
  "settled_target deps c index =
     firstTrustChargeOutgoingAttemptFailureLocked (d_backoffPolicy deps)
       ((bump (control c))\<lparr>cr_attempts := remove_at index (cr_attempts (control c))\<rparr>) (attempt_at c index)"

definition abortPreparedOutgoingAttemptLocked ::
  "'w ftdeps \<Rightarrow> ctx \<Rightarrow> firstTrustOutgoingAttemptHandle \<Rightarrow> string \<Rightarrow> ('w, string) top" where
  "abortPreparedOutgoingAttemptLocked deps ctx handle operationClass =
     (let metadata = ha_metadata handle;
          failed = (do {unlocked deps; cancelOutgoingAttemptRuntime deps metadata; give ''attempt_abort_failed_closed''}) in do {
      c \<leftarrow> peek (\<lambda>c. c);
      case firstTrustOutgoingAttemptExactLocked c metadata (ha_cancellationGeneration handle) of
        None \<Rightarrow> do {mu_Unlock; give ''stale_attempt''}
      | Some index \<Rightarrow>
          if oa_state (attempt_at c index) \<noteq> firstTrustAttemptReserved \<or> cr_controlEpoch (control c) = - 1
          then do {mu_Unlock; give ''stale_attempt''}
          else do {
            ordinal \<leftarrow> firstTrustReadOrdinal deps;
            case (ordinal, settled_target deps c index) of
              (Some publicationID, Some (target, _)) \<Rightarrow> do {
                unlocked deps;
                (_, outcome) \<leftarrow> publishOutgoingAttemptControl deps ctx (cr_controlEpoch (control c)) target publicationID operationClass;
                d_others deps;
                cancelOutgoingAttemptRuntime deps metadata;
                if outcome \<noteq> ''durable'' then give ''attempt_abort_failed_closed''
                else do {
                  d_others deps;
                  clear_inflight (am_scope metadata);
                  updateOutgoingAttemptRetryArmLocked deps (am_scope metadata);
                  mu_Unlock;
                  give ''attempt_aborted''
                }
              }
            | _ \<Rightarrow> failed
          }
      })"

definition abortPreparedOutgoingAttempt :: "'w ftdeps \<Rightarrow> ctx \<Rightarrow> firstTrustOutgoingAttemptHandle \<Rightarrow> ('w, string) top" where
  "abortPreparedOutgoingAttempt deps ctx handle = do {
     cancelled \<leftarrow> call (d_ctxErr deps ctx);
     known \<leftarrow> peek (\<lambda>c. firstTrustOutgoingAttemptRemote c (ha_metadata handle) \<noteq> None);
     if cancelled then give ''stale_attempt''
     else if \<not> known then do {mu_Unlock; give ''stale_attempt''}
     else do {
       unlocked deps;
       abortPreparedOutgoingAttemptLocked deps ctx handle ''attempt_abort_synthetic_failure''
     }
   }"

subsection \<open>Completion\<close>

text \<open>The runtime of an attempt is that of its record and has not been settled.\<close>

definition runtime_matches :: "firstTrustOutgoingAttemptMetadata \<Rightarrow> bytes \<Rightarrow> firstTrustOutgoingAttemptRuntime option \<Rightarrow> bool" where
  "runtime_matches metadata remote r =
     (case r of None \<Rightarrow> False
      | Some rt \<Rightarrow> ru_metadata rt = metadata \<and> ru_settlement rt = [] \<and> ru_remoteSKI rt = remote)"

definition launched_at :: "'w ftc \<Rightarrow> firstTrustOutgoingAttemptMetadata \<Rightarrow> bytes \<Rightarrow> nat option" where
  "launched_at c metadata remote =
     (case firstTrustOutgoingAttemptMetadataLocked c metadata of
        None \<Rightarrow> None
      | Some index \<Rightarrow>
          if oa_state (attempt_at c index) \<noteq> firstTrustAttemptLaunchAuthorized \<or> oa_remoteSKI (attempt_at c index) \<noteq> remote \<or>
             cr_controlEpoch (control c) = - 1 \<or> \<not> runtime_matches metadata remote (runtime_at c metadata) \<or>
             (case runtime_at c metadata of None \<Rightarrow> True
              | Some r \<Rightarrow> ru_cancellationGeneration r \<noteq> oa_cancellationGeneration (attempt_at c index))
          then None else Some index)"

definition complete_failed ::
  "'w ftdeps \<Rightarrow> ctx \<Rightarrow> firstTrustOutgoingAttemptMetadata \<Rightarrow> bytes \<Rightarrow> ('w, string) top" where
  "complete_failed deps ctx metadata remote = do {
     c \<leftarrow> peek (\<lambda>c. c);
     case launched_at c metadata remote of
       None \<Rightarrow> do {mu_Unlock; give ''stale_attempt''}
     | Some index \<Rightarrow> do {
         ordinal \<leftarrow> firstTrustReadOrdinal deps;
         case (ordinal, settled_target deps c index) of
           (Some publicationID, Some (target, result)) \<Rightarrow> do {
             unlocked deps;
             (_, outcome) \<leftarrow> publishOutgoingAttemptControl deps ctx (cr_controlEpoch (control c)) target publicationID
               ''attempt_complete_failure'';
             d_others deps;
             cancelOutgoingAttemptRuntime deps metadata;
             d_others deps;
             clear_inflight (oa_scope (attempt_at c index));
             whenever (outcome = ''durable'') (updateOutgoingAttemptRetryArmLocked deps (oa_scope (attempt_at c index)));
             mu_Unlock;
             give (if outcome \<noteq> ''durable'' then ''failure_state_failed_closed'' else result)
           }
         | _ \<Rightarrow> do {unlocked deps; cancelOutgoingAttemptRuntime deps metadata; give ''failure_state_failed_closed''}
       }
   }"

definition settle_runtime :: "'w ftdeps \<Rightarrow> firstTrustOutgoingAttemptMetadata \<Rightarrow> string \<Rightarrow> ('w, bool) top" where
  "settle_runtime deps metadata settlement = do {
     found \<leftarrow> peek (\<lambda>c. runtime_at c metadata);
     case found of
       None \<Rightarrow> give False
     | Some r \<Rightarrow> do {
         set_runtime metadata (r\<lparr>ru_leaseTimer := False, ru_leaseDeadline := 0, ru_settlement := settlement\<rparr>);
         clear_inflight (am_scope metadata);
         give (ru_leaseTimer r)
       }
   }"

definition markSuccessfulOutgoingAttempt :: "'w ftdeps \<Rightarrow> firstTrustOutgoingAttemptMetadata \<Rightarrow> bytes \<Rightarrow> ('w, bool) top" where
  "markSuccessfulOutgoingAttempt deps metadata remote = do {
     ok \<leftarrow> peek (\<lambda>c. runtime_matches metadata remote (runtime_at c metadata) \<and>
       firstTrustOutgoingAttemptMetadataLocked c metadata = None);
     if \<not> ok then do {mu_Unlock; give False}
     else do {
       timer \<leftarrow> settle_runtime deps metadata ''success'';
       updateOutgoingAttemptRetryArmLocked deps (am_scope metadata);
       mu_Unlock;
       whenever timer (call (d_stopTimer deps metadata));
       give True
     }
   }"

definition failClosedSuccessfulOutgoingAttempt :: "'w ftdeps \<Rightarrow> firstTrustOutgoingAttemptMetadata \<Rightarrow> bytes \<Rightarrow> ('w, unit) top" where
  "failClosedSuccessfulOutgoingAttempt deps metadata remote = do {
     ok \<leftarrow> peek (\<lambda>c. runtime_matches metadata remote (runtime_at c metadata));
     if \<not> ok then mu_Unlock
     else do {
       timer \<leftarrow> settle_runtime deps metadata ''durability_unknown'';
       poke quarantine_unknown;
       unlocked deps;
       whenever timer (call (d_stopTimer deps metadata));
       notifyTrustAdminProjection deps
     }
   }"

text \<open>The loop of at most two publications; \<open>publications\<close> counts those that are left.\<close>

fun complete_succeeded ::
  "'w ftdeps \<Rightarrow> nat \<Rightarrow> ctx \<Rightarrow> firstTrustOutgoingAttemptMetadata \<Rightarrow> bytes \<Rightarrow> ('w, string) top" where
  "complete_succeeded deps 0 ctx metadata remote = do {
     failClosedSuccessfulOutgoingAttempt deps metadata remote;
     give ''failure_state_failed_closed''
   }"
| "complete_succeeded deps (Suc publications) ctx metadata remote = do {
     c \<leftarrow> peek (\<lambda>c. c);
     cancelled \<leftarrow> (case runtime_at c metadata of None \<Rightarrow> give True | Some r \<Rightarrow> call (d_ctxErr deps (ru_context r)));
     case launched_at c metadata remote of
       None \<Rightarrow> do {mu_Unlock; give ''stale_attempt''}
     | Some index \<Rightarrow>
         if cancelled then do {mu_Unlock; give ''stale_attempt''}
         else do {
           ordinal \<leftarrow> firstTrustReadOrdinal deps;
           case ordinal of
             None \<Rightarrow> do {
               unlocked deps;
               failClosedSuccessfulOutgoingAttempt deps metadata remote;
               give ''failure_state_failed_closed''
             }
           | Some publicationID \<Rightarrow> do {
               rebind \<leftarrow> outgoingAttemptCandidateGenerationRebindLocked deps (oa_remoteSKI (attempt_at c index))
                 (case runtime_at c metadata of None \<Rightarrow> 0 | Some r \<Rightarrow> ru_candidateConnection r);
               unlocked deps;
               (_, outcome) \<leftarrow> publishSelectedOutgoingAttemptControl deps ctx (cr_controlEpoch (control c))
                 (firstTrustResetOutgoingAttemptRetryLocked
                   ((bump (control c))\<lparr>cr_attempts := remove_at index (cr_attempts (control c))\<rparr>) (oa_scope (attempt_at c index)))
                 publicationID ''attempt_complete_success'' rebind;
               d_others deps;
               if outcome = ''durable'' then do {
                 marked \<leftarrow> markSuccessfulOutgoingAttempt deps metadata remote;
                 give (if marked then ''attempt_succeeded'' else ''stale_attempt'')
               }
               else if outcome = ''unchanged'' then complete_succeeded deps publications ctx metadata remote
               else do {
                 failClosedSuccessfulOutgoingAttempt deps metadata remote;
                 give ''failure_state_failed_closed''
               }
             }
         }
   }"

definition completeSuccessfulOutgoingAttemptLocked ::
  "'w ftdeps \<Rightarrow> ctx \<Rightarrow> firstTrustOutgoingAttemptMetadata \<Rightarrow> bytes \<Rightarrow> ('w, string) top" where
  "completeSuccessfulOutgoingAttemptLocked deps ctx metadata remote = complete_succeeded deps 2 ctx metadata remote"

definition completeOutgoingAttemptLocked ::
  "'w ftdeps \<Rightarrow> ctx \<Rightarrow> firstTrustOutgoingAttemptMetadata \<Rightarrow> bytes \<Rightarrow> bool \<Rightarrow> ('w, string) top" where
  "completeOutgoingAttemptLocked deps ctx metadata remote succeeded =
     (if succeeded then completeSuccessfulOutgoingAttemptLocked deps ctx metadata remote
      else complete_failed deps ctx metadata remote)"

definition completeOutgoingAttempt ::
  "'w ftdeps \<Rightarrow> ctx \<Rightarrow> firstTrustOutgoingAttemptMetadata \<Rightarrow> bool \<Rightarrow> ('w, string) top" where
  "completeOutgoingAttempt deps ctx metadata succeeded = do {
     cancelled \<leftarrow> call (d_ctxErr deps ctx);
     remote \<leftarrow> peek (\<lambda>c. firstTrustOutgoingAttemptRemote c metadata);
     if cancelled then give ''stale_attempt''
     else (case remote of
         None \<Rightarrow> do {mu_Unlock; give ''stale_attempt''}
       | Some r \<Rightarrow> do {unlocked deps; completeOutgoingAttemptLocked deps ctx metadata r succeeded})
   }"

subsection \<open>Authorisation\<close>

definition deny :: "string \<Rightarrow> firstTrustOutgoingAttemptPermit" where
  "deny reason = \<lparr>pm_decision = ''DENY'', pm_reason = reason, pm_metadata = None, pm_context = None\<rparr>"

definition permit :: "firstTrustOutgoingAttemptHandle \<Rightarrow> firstTrustOutgoingAttemptPermit" where
  "permit handle = \<lparr>pm_decision = ''PERMIT'', pm_reason = ''AUTHORIZED'', pm_metadata = Some (ha_metadata handle),
     pm_context = Some (ha_context handle)\<rparr>"

definition runtime_is_handle :: "firstTrustOutgoingAttemptHandle \<Rightarrow> firstTrustOutgoingAttemptRuntime option \<Rightarrow> bool" where
  "runtime_is_handle handle r =
     (case r of None \<Rightarrow> False
      | Some rt \<Rightarrow> ru_cancellationGeneration rt = ha_cancellationGeneration handle \<and> ru_context rt = ha_context handle \<and>
          ru_metadata rt = ha_metadata handle)"

definition lease_deadline :: "firstTrustOutgoingAttemptRuntime option \<Rightarrow> int" where
  "lease_deadline r = (case r of None \<Rightarrow> 0 | Some rt \<Rightarrow> ru_leaseDeadline rt)"

text \<open>The authorisation is durable: whether the attempt may still launch is checked once more.\<close>

definition confirm_launch ::
  "'w ftdeps \<Rightarrow> ctx \<Rightarrow> firstTrustOutgoingAttemptHandle \<Rightarrow> bytes \<Rightarrow> ('w, firstTrustOutgoingAttemptPermit \<times> string) top" where
  "confirm_launch deps ctx handle remote = do {
     c \<leftarrow> peek (\<lambda>c. c);
     cancelled \<leftarrow> call (d_ctxErr deps (ha_context handle));
     now \<leftarrow> call (d_monotonicNow deps);
     eligible \<leftarrow> firstTrustOutgoingAttemptEligibleLocked deps remote;
     let ok = (case firstTrustOutgoingAttemptExactLocked c (ha_metadata handle) (ha_cancellationGeneration handle) of
           None \<Rightarrow> False
         | Some index \<Rightarrow> oa_state (attempt_at c index) = firstTrustAttemptLaunchAuthorized \<and>
             firstTrustOutgoingAttemptRecordEligibleLocked deps c (attempt_at c index)) \<and>
         runtime_is_handle handle (runtime_at c (ha_metadata handle)) \<and> \<not> cancelled \<and>
         lease_deadline (runtime_at c (ha_metadata handle)) > now \<and> eligible in
     if \<not> ok then do {
       unlocked deps;
       _ \<leftarrow> completeOutgoingAttemptLocked deps ctx (ha_metadata handle) remote False;
       give (deny ''POLICY_DENIED'', ''attempt_denied'')
     }
     else do {mu_Unlock; give (permit handle, ''attempt_permitted'')}
   }"

definition authorize_locked ::
  "'w ftdeps \<Rightarrow> ctx \<Rightarrow> firstTrustOutgoingAttemptHandle \<Rightarrow> ('w, firstTrustOutgoingAttemptPermit \<times> string) top" where
  "authorize_locked deps ctx handle =
     (let aborted = (do {
        unlocked deps;
        _ \<leftarrow> abortPreparedOutgoingAttemptLocked deps ctx handle ''attempt_abort_synthetic_failure'';
        give (deny ''POLICY_DENIED'', ''attempt_denied'')
      }) in do {
      c \<leftarrow> peek (\<lambda>c. c);
      case firstTrustOutgoingAttemptExactLocked c (ha_metadata handle) (ha_cancellationGeneration handle) of
        None \<Rightarrow> do {mu_Unlock; give (deny ''STALE_HANDLE'', ''attempt_denied'')}
      | Some index \<Rightarrow>
          if oa_state (attempt_at c index) \<noteq> firstTrustAttemptReserved
          then do {mu_Unlock; give (deny ''STALE_HANDLE'', ''attempt_denied'')}
          else do {
            now \<leftarrow> call (d_monotonicNow deps);
            if \<not> runtime_is_handle handle (runtime_at c (ha_metadata handle)) \<or>
               lease_deadline (runtime_at c (ha_metadata handle)) \<le> now
            then aborted
            else do {
              eligible \<leftarrow> firstTrustOutgoingAttemptEligibleLocked deps (oa_remoteSKI (attempt_at c index));
              if \<not> eligible \<or> \<not> firstTrustOutgoingAttemptRecordEligibleLocked deps c (attempt_at c index) \<or>
                 cr_controlEpoch (control c) = - 1
              then aborted
              else do {
                ordinal \<leftarrow> firstTrustReadOrdinal deps;
                case ordinal of
                  None \<Rightarrow> aborted
                | Some publicationID \<Rightarrow> do {
                    rebind \<leftarrow> outgoingAttemptCandidateGenerationRebindLocked deps (oa_remoteSKI (attempt_at c index))
                      (case runtime_at c (ha_metadata handle) of None \<Rightarrow> 0 | Some r \<Rightarrow> ru_candidateConnection r);
                    unlocked deps;
                    (_, outcome) \<leftarrow> publishSelectedOutgoingAttemptControl deps ctx (cr_controlEpoch (control c))
                      ((bump (control c))\<lparr>cr_attempts := (cr_attempts (control c))
                        [index := (attempt_at c index)\<lparr>oa_state := firstTrustAttemptLaunchAuthorized\<rparr>]\<rparr>)
                      publicationID ''attempt_authorize'' rebind;
                    if outcome \<noteq> ''durable'' then aborted
                    else do {d_others deps; confirm_launch deps ctx handle (oa_remoteSKI (attempt_at c index))}
                  }
              }
            }
          }
   })"

definition authorizeOutgoingAttempt ::
  "'w ftdeps \<Rightarrow> ctx \<Rightarrow> firstTrustOutgoingAttemptHandle \<Rightarrow> ('w, firstTrustOutgoingAttemptPermit \<times> string) top" where
  "authorizeOutgoingAttempt deps ctx handle = do {
     cancelled \<leftarrow> call (d_ctxErr deps ctx);
     remote \<leftarrow> peek (\<lambda>c. firstTrustOutgoingAttemptRemote c (ha_metadata handle));
     if cancelled then give (deny ''STALE_HANDLE'', ''attempt_denied'')
     else (case remote of
         None \<Rightarrow> do {mu_Unlock; give (deny ''STALE_HANDLE'', ''attempt_denied'')}
       | Some _ \<Rightarrow> do {unlocked deps; authorize_locked deps ctx handle})
   }"

subsection \<open>Callbacks of the transport\<close>

definition consumeSuccessfulOutgoingAttemptLocked ::
  "'w ftdeps \<Rightarrow> firstTrustOutgoingAttemptMetadata \<Rightarrow> bytes \<Rightarrow> ('w, uint64 option) top" where
  "consumeSuccessfulOutgoingAttemptLocked deps metadata remote = do {
     c \<leftarrow> peek (\<lambda>c. c);
     case runtime_at c metadata of
       None \<Rightarrow> do {mu_Unlock; give None}
     | Some r \<Rightarrow>
         if ru_metadata r \<noteq> metadata \<or> ru_settlement r \<noteq> ''success'' \<or> ru_cancellationGeneration r = 0 \<or> ru_remoteSKI r \<noteq> remote \<or>
            list_ex (\<lambda>a. oa_remoteSKI a = remote \<and> metadata_of a \<noteq> metadata) (cr_attempts (control c))
         then do {mu_Unlock; give None}
         else do {
           poke (\<lambda>c. c\<lparr>co_outgoingAttemptContexts := go_delete (am_attemptID metadata) (co_outgoingAttemptContexts c)\<rparr>);
           clear_inflight (am_scope metadata);
           mu_Unlock;
           whenever (ru_leaseTimer r) (call (d_stopTimer deps metadata));
           call (d_cancel deps (ru_context r));
           give (Some (ru_candidateConnection r))
         }
   }"

definition outgoingAttemptCallbackExactConnectionLocked ::
  "'w ftdeps \<Rightarrow> firstTrustOutgoingAttemptMetadata \<Rightarrow> bytes \<Rightarrow> ('w, uint64 option) top" where
  "outgoingAttemptCallbackExactConnectionLocked deps metadata remote = do {
     c \<leftarrow> peek (\<lambda>c. c);
     cancelled \<leftarrow> (case runtime_at c metadata of None \<Rightarrow> give True | Some r \<Rightarrow> call (d_ctxErr deps (ru_context r)));
     mu_Unlock;
     give (case (firstTrustOutgoingAttemptMetadataLocked c metadata, runtime_at c metadata) of
         (Some index, Some r) \<Rightarrow>
           if oa_state (attempt_at c index) = firstTrustAttemptLaunchAuthorized \<and> oa_remoteSKI (attempt_at c index) = remote \<and>
              runtime_matches metadata remote (Some r) \<and>
              ru_cancellationGeneration r = oa_cancellationGeneration (attempt_at c index) \<and> \<not> cancelled
           then Some (ru_candidateConnection r) else None
       | _ \<Rightarrow> None)
   }"

definition outgoingAttemptCallbackExactLocked ::
  "'w ftdeps \<Rightarrow> firstTrustOutgoingAttemptMetadata \<Rightarrow> bytes \<Rightarrow> ('w, bool) top" where
  "outgoingAttemptCallbackExactLocked deps metadata remote = do {
     connection \<leftarrow> outgoingAttemptCallbackExactConnectionLocked deps metadata remote;
     give (connection \<noteq> None)
   }"

text \<open>
  The key identifier of a callback. Lower case is taken of ASCII letters only: no other letter has
  a lower case that is a hexadecimal digit.
\<close>

definition callback_remote :: "string \<Rightarrow> bytes option" where
  "callback_remote remoteSKI =
     (case decodeFirstTrustSKI (ascii_lower (trim_space remoteSKI)) of
        None \<Rightarrow> None
      | Some (remote, normalized) \<Rightarrow> if normalized \<noteq> firstTrustNormalizedSKI remote then None else Some remote)"

definition with_callback ::
  "'w ftdeps \<Rightarrow> ctx \<Rightarrow> string \<Rightarrow> firstTrustOutgoingAttemptMetadata \<Rightarrow> (bytes \<Rightarrow> ('w, string) top) \<Rightarrow> ('w, string) top" where
  "with_callback deps ctx remoteSKI metadata body =
     (case callback_remote remoteSKI of
        None \<Rightarrow> give ''stale_attempt''
      | Some remote \<Rightarrow> do {
          cancelled \<leftarrow> call (d_ctxErr deps ctx);
          if cancelled then give ''stale_attempt''
          else do {
            exact \<leftarrow> outgoingAttemptCallbackExactLocked deps metadata remote;
            if \<not> exact then give ''stale_attempt'' else do {d_others deps; body remote}
          }
        })"

definition outgoingAttemptConnectionClosed ::
  "'w ftdeps \<Rightarrow> ctx \<Rightarrow> string \<Rightarrow> bool \<Rightarrow> firstTrustOutgoingAttemptMetadata \<Rightarrow> ('w, string) top" where
  "outgoingAttemptConnectionClosed deps ctx remoteSKI complete metadata =
     with_callback deps ctx remoteSKI metadata
       (\<lambda>remote. completeOutgoingAttemptLocked deps ctx metadata remote complete)"

definition outgoingAttemptHandshakeStateUpdate ::
  "'w ftdeps \<Rightarrow> ctx \<Rightarrow> string \<Rightarrow> string \<Rightarrow> firstTrustOutgoingAttemptMetadata \<Rightarrow> ('w, string) top" where
  "outgoingAttemptHandshakeStateUpdate deps ctx remoteSKI state metadata =
     with_callback deps ctx remoteSKI metadata
       (\<lambda>remote. if ascii_lower state = ''error'' then completeOutgoingAttemptLocked deps ctx metadata remote False
         else give ''attempt_observed'')"

subsection \<open>Leases, restarts, revocations, shutdown\<close>

definition expireOutgoingAttemptLease ::
  "'w ftdeps \<Rightarrow> ctx \<Rightarrow> bytes \<Rightarrow> firstTrustOutgoingAttemptMetadata \<Rightarrow> uint64 \<Rightarrow> ('w, unit) top" where
  "expireOutgoingAttemptLease deps background remote metadata cancellationGeneration = do {
     c \<leftarrow> peek (\<lambda>c. c);
     case (firstTrustOutgoingAttemptExactLocked c metadata cancellationGeneration, runtime_at c metadata) of
       (Some index, Some r) \<Rightarrow>
         if ru_metadata r \<noteq> metadata \<or> ru_cancellationGeneration r \<noteq> cancellationGeneration \<or> ru_settlement r \<noteq> [] then mu_Unlock
         else do {
           now \<leftarrow> call (d_monotonicNow deps);
           if ru_leaseDeadline r - now > 0 then do {
             set_runtime metadata (r\<lparr>ru_leaseTimer := False\<rparr>);
             unlocked deps;
             armOutgoingAttemptLease deps metadata cancellationGeneration (ru_leaseDeadline r)
           }
           else do {
             unlocked deps;
             if oa_state (attempt_at c index) = firstTrustAttemptReserved then do {
               _ \<leftarrow> abortPreparedOutgoingAttemptLocked deps background
                 \<lparr>ha_metadata = metadata, ha_context = ru_context r, ha_cancellationGeneration = cancellationGeneration\<rparr>
                 ''attempt_lease_synthetic_failure'';
               nop
             }
             else if oa_state (attempt_at c index) = firstTrustAttemptLaunchAuthorized then do {
               _ \<leftarrow> completeOutgoingAttemptLocked deps background metadata remote False;
               nop
             }
             else nop
           }
         }
     | _ \<Rightarrow> mu_Unlock
   }"

text \<open>The loop over the attempts found at a start: all are charged, or none.\<close>

fun charge_all ::
  "firstTrustBackoffPolicy \<Rightarrow> firstTrustControlRecord \<Rightarrow> firstTrustOutgoingAttemptRecord list \<Rightarrow> firstTrustControlRecord option" where
  "charge_all policy target [] = Some target"
| "charge_all policy target (a # as) =
     (case firstTrustChargeOutgoingAttemptFailureLocked policy target a of
        None \<Rightarrow> None | Some (charged, _) \<Rightarrow> charge_all policy charged as)"

definition raise_counters :: "firstTrustOutgoingAttemptRecord list \<Rightarrow> 'w ftc \<Rightarrow> 'w ftc" where
  "raise_counters as c = fold (\<lambda>a c. c\<lparr>
     co_outgoingAttemptReservationOrder := max (co_outgoingAttemptReservationOrder c) (oa_reservationOrder a),
     co_outgoingAttemptCancellationGeneration := max (co_outgoingAttemptCancellationGeneration c) (oa_cancellationGeneration a)\<rparr>) as c"

text \<open>The attempts before the first that cannot be charged have raised the counters.\<close>

fun charged_prefix ::
  "firstTrustBackoffPolicy \<Rightarrow> firstTrustControlRecord \<Rightarrow> firstTrustOutgoingAttemptRecord list \<Rightarrow> firstTrustOutgoingAttemptRecord list" where
  "charged_prefix policy target [] = []"
| "charged_prefix policy target (a # as) =
     (case firstTrustChargeOutgoingAttemptFailureLocked policy target a of
        None \<Rightarrow> [] | Some (charged, _) \<Rightarrow> a # charged_prefix policy charged as)"

definition chargeRestartedOutgoingAttempts :: "'w ftdeps \<Rightarrow> ctx \<Rightarrow> ('w, string) top" where
  "chargeRestartedOutgoingAttempts deps ctx = do {
     c \<leftarrow> peek (\<lambda>c. c);
     if cr_attempts (control c) = [] then do {mu_Unlock; give ''not_required''}
     else if d_recoveryStore deps = None \<or> d_anchor deps = None \<or> ar_pending (co_anchorRecord c) \<noteq> None \<or>
             cr_controlEpoch (control c) = - 1
     then do {mu_Unlock; give ''failed_closed''}
     else do {
       ordinal \<leftarrow> firstTrustReadOrdinal deps;
       let target = (bump (control c))\<lparr>cr_attempts := []\<rparr> in
       case ordinal of
         None \<Rightarrow> do {mu_Unlock; give ''failed_closed''}
       | Some publicationID \<Rightarrow> do {
           poke (raise_counters (charged_prefix (d_backoffPolicy deps) target (cr_attempts (control c))));
           case charge_all (d_backoffPolicy deps) target (cr_attempts (control c)) of
             None \<Rightarrow> do {mu_Unlock; give ''failed_closed''}
           | Some charged \<Rightarrow> do {
               unlocked deps;
               (_, outcome) \<leftarrow> publishOutgoingAttemptControl deps ctx (cr_controlEpoch (control c)) charged publicationID
                 ''attempt_restart_synthetic_failure'';
               give (if outcome \<noteq> ''durable'' then ''failed_closed'' else ''charged'')
             }
         }
     }
   }"

definition removeRevokedOutgoingAttemptsLocked ::
  "'w ftc \<Rightarrow> firstTrustControlRecord \<Rightarrow> bytes \<Rightarrow> firstTrustControlRecord \<times> bytes list" where
  "removeRevokedOutgoingAttemptsLocked c target remote =
     (let removed = map oa_attemptID (filter (\<lambda>a. oa_remoteSKI a = remote) (cr_attempts target)) in
      (target\<lparr>cr_attempts := filter (\<lambda>a. oa_remoteSKI a \<noteq> remote) (cr_attempts target)\<rparr>,
       removed @ map fst (filter (\<lambda>(attemptID, r). ru_remoteSKI r = remote \<and> attemptID \<notin> set removed)
         (co_outgoingAttemptContexts c))))"

definition cancelRevokedOutgoingAttemptsLocked :: "'w ftdeps \<Rightarrow> bytes list \<Rightarrow> ('w, unit) top" where
  "cancelRevokedOutgoingAttemptsLocked deps attemptIDs = each (\<lambda>attemptID. do {
     found \<leftarrow> peek (\<lambda>c. go_lookup (co_outgoingAttemptContexts c) attemptID);
     case found of
       None \<Rightarrow> nop
     | Some r \<Rightarrow> do {
         poke (\<lambda>c. c\<lparr>co_outgoingAttemptContexts := go_delete attemptID (co_outgoingAttemptContexts c)\<rparr>);
         clear_inflight (am_scope (ru_metadata r));
         whenever (ru_leaseTimer r) (call (d_stopTimer deps (ru_metadata r)));
         call (d_cancel deps (ru_context r))
       }
   }) attemptIDs"

definition firstTrustOutgoingAttemptCompletionDurable :: "string \<Rightarrow> bool" where
  "firstTrustOutgoingAttemptCompletionDurable result = List.member [''attempt_succeeded'', ''backoff_active'', ''admin_hold''] result"

text \<open>
  Settling the attempts at shutdown, with the bound of the loop; the answer is the outcome that
  stopped it, or empty when no attempt is left.
\<close>

definition settle_one :: "'w ftdeps \<Rightarrow> ctx \<Rightarrow> firstTrustOutgoingAttemptRecord \<Rightarrow> ('w, string) top" where
  "settle_one deps ctx a = do {
     c \<leftarrow> peek (\<lambda>c. c);
     case firstTrustOutgoingAttemptExactLocked c (metadata_of a) (oa_cancellationGeneration a) of
       None \<Rightarrow> do {mu_Unlock; give ''attempt_aborted''}
     | Some index \<Rightarrow> do {
         unlocked deps;
         if oa_state (attempt_at c index) = firstTrustAttemptReserved then
           abortPreparedOutgoingAttemptLocked deps ctx \<lparr>ha_metadata = metadata_of a,
             ha_context = (case runtime_at c (metadata_of a) of None \<Rightarrow> 0 | Some r \<Rightarrow> ru_context r),
             ha_cancellationGeneration = oa_cancellationGeneration a\<rparr> ''attempt_abort_synthetic_failure''
         else if oa_state (attempt_at c index) = firstTrustAttemptLaunchAuthorized then
           completeOutgoingAttemptLocked deps ctx (metadata_of a) (oa_remoteSKI (attempt_at c index)) False
         else give ''invalid_attempt_state''
       }
   }"

fun settle_loop :: "'w ftdeps \<Rightarrow> nat \<Rightarrow> ctx \<Rightarrow> ('w, string) top" where
  "settle_loop deps 0 ctx = give ''exceeded_bounded_attempt_count''"
| "settle_loop deps (Suc n) ctx = do {
     attempts \<leftarrow> peek (\<lambda>c. cr_attempts (control c));
     case attempts of
       [] \<Rightarrow> do {mu_Unlock; give []}
     | a # _ \<Rightarrow> do {
         unlocked deps;
         outcome \<leftarrow> settle_one deps ctx a;
         if outcome = ''attempt_aborted'' \<or> firstTrustOutgoingAttemptCompletionDurable outcome
         then do {d_others deps; settle_loop deps n ctx} else give outcome
       }
   }"

definition settleOutgoingAttemptsForShutdown :: "'w ftdeps \<Rightarrow> ctx \<Rightarrow> ('w, string) top" where
  "settleOutgoingAttemptsForShutdown deps ctx = settle_loop deps (Suc firstTrustMaximumOutgoingAttempts) ctx"

end
