(* ===== verification/TrustCandidates.thy ===== *)
theory TrustCandidates
  imports TrustPairing "HOL-Library.List_Lexorder" "HOL-Library.Char_ord"
begin

text \<open>
  Discovery and selection of candidates, \<^verbatim>\<open>src/internal/eebusfacade/first_trust_candidates.go\<close>: the
  remotes the transport sees are kept as a snapshot, an administrator selects one of them by its
  reference and its expected key identifier, and it is queued at the transport. A selection is an
  object that several operations hold by its address; the address a new one is given is an argument.
\<close>

subsection \<open>The snapshot\<close>

definition firstTrustMaximumDiscoveredCandidates :: nat where "firstTrustMaximumDiscoveredCandidates = 128"
definition firstTrustMaximumCandidateRefBytes :: nat where "firstTrustMaximumCandidateRefBytes = 128"

definition ref_byte :: "char \<Rightarrow> bool" where
  "ref_byte ch \<longleftrightarrow> \<not> ((of_char ch :: nat) < of_char (CHR ''!'') \<or> (of_char ch :: nat) > of_char (CHR ''~'') \<or>
     ch = CHR 0x22 \<or> ch = CHR ''&'' \<or> ch = CHR ''<'' \<or> ch = CHR ''>'' \<or> ch = CHR 0x5C)"

definition validFirstTrustCandidateRef :: "string \<Rightarrow> bool" where
  "validFirstTrustCandidateRef value =
     (if length value < 1 \<or> length value > firstTrustMaximumCandidateRefBytes \<or> \<not> utf8_valid value then False
      else list_all ref_byte value)"

text \<open>What the transport reports of a remote it sees.\<close>

record PairingCandidateRef =
  pc_CandidateRef :: string
  pc_SKI :: string
  pc_Name :: string
  pc_Identifier :: string
  pc_Brand :: string
  pc_Type :: string
  pc_Model :: string

definition configureCandidateSelection :: "('w, unit) top" where
  "configureCandidateSelection = do {
     poke (\<lambda>c. c\<lparr>co_candidateQueuer := True, co_candidateSelectionRequired := True,
       co_candidateSnapshotState := (if co_candidateSnapshotState c = [] then ''empty'' else co_candidateSnapshotState c)\<rparr>);
     mu_Unlock
   }"

definition invalidateCandidateSnapshotLocked :: "string \<Rightarrow> ('w, unit) top" where
  "invalidateCandidateSnapshotLocked reason = poke (\<lambda>c. c\<lparr>co_discoveredCandidates := [],
     co_candidateSnapshotState := ''invalid'', co_candidateSnapshotInvalidReason := reason\<rparr>)"

definition entry_lifecycle :: "'w ftc \<Rightarrow> PairingCandidateRef \<Rightarrow> string" where
  "entry_lifecycle c pc =
     (let kept = (case go_lookup (co_discoveredCandidates c) (pc_CandidateRef pc) of
            None \<Rightarrow> ''visible''
          | Some previous \<Rightarrow> if di_claimedSKI previous = pc_SKI pc \<and> di_lifecycle previous = ''consumed'' then ''consumed'' else ''visible'') in
      case co_candidateSelection c of
        None \<Rightarrow> kept
      | Some se \<Rightarrow>
          if se_candidateRef se = pc_CandidateRef pc \<and> se_expectedSKI se = pc_SKI pc
          then if se_completed se then ''consumed'' else ''reserved''
          else kept)"

definition discovered_entry :: "'w ftc \<Rightarrow> gotime \<Rightarrow> uint64 \<Rightarrow> PairingCandidateRef \<Rightarrow> firstTrustDiscoveredCandidate" where
  "discovered_entry c now revision pc =
     \<lparr>di_ref = pc_CandidateRef pc, di_claimedSKI = pc_SKI pc, di_name = pc_Name pc, di_identifier = pc_Identifier pc,
      di_brand = pc_Brand pc, di_typeName = pc_Type pc, di_model = pc_Model pc,
      di_firstReceived = (case go_lookup (co_discoveredCandidates c) (pc_CandidateRef pc) of
          None \<Rightarrow> now | Some previous \<Rightarrow> if di_claimedSKI previous = pc_SKI pc then di_firstReceived previous else now),
      di_lastReceived = now, di_revision = revision, di_lifecycle = entry_lifecycle c pc\<rparr>"

text \<open>The loop over the reported remotes: the snapshot, or the reason it is invalid.\<close>

fun snapshot_entries ::
  "'w ftc \<Rightarrow> gotime \<Rightarrow> uint64 \<Rightarrow> (string, firstTrustDiscoveredCandidate) gomap \<Rightarrow> PairingCandidateRef list \<Rightarrow>
     string + (string, firstTrustDiscoveredCandidate) gomap" where
  "snapshot_entries c now revision next [] = Inr next"
| "snapshot_entries c now revision next (pc # pcs) =
     (if \<not> validFirstTrustCandidateRef (pc_CandidateRef pc) then Inl ''invalid_candidate_ref''
      else if decodeFirstTrustSKI (pc_SKI pc) = None then Inl ''invalid_claimed_ski''
      else if go_lookup next (pc_CandidateRef pc) \<noteq> None then Inl ''duplicate_candidate_ref''
      else snapshot_entries c now revision (go_put (pc_CandidateRef pc) (discovered_entry c now revision pc) next) pcs)"

definition visiblePairingCandidatesUpdated :: "'w ftdeps \<Rightarrow> PairingCandidateRef list \<Rightarrow> ('w, unit) top" where
  "visiblePairingCandidatesUpdated deps candidates = do {
     poke (\<lambda>c. c\<lparr>co_candidateSnapshotRevision :=
       (if co_candidateSnapshotRevision c + 1 = 0 then 1 else co_candidateSnapshotRevision c + 1)\<rparr>);
     now \<leftarrow> call (d_now deps);
     (if candidates = [] then
        poke (\<lambda>c. c\<lparr>co_discoveredCandidates := [], co_candidateSnapshotState := ''empty'', co_candidateSnapshotInvalidReason := []\<rparr>)
      else if length candidates > firstTrustMaximumDiscoveredCandidates then
        invalidateCandidateSnapshotLocked ''candidate_snapshot_overflow''
      else do {
        entries \<leftarrow> peek (\<lambda>c. snapshot_entries c now (co_candidateSnapshotRevision c) [] candidates);
        case entries of
          Inl reason \<Rightarrow> invalidateCandidateSnapshotLocked reason
        | Inr next \<Rightarrow> poke (\<lambda>c. c\<lparr>co_discoveredCandidates := next, co_candidateSnapshotState := ''valid'',
            co_candidateSnapshotInvalidReason := []\<rparr>)
      });
     mu_Unlock
   }"

text \<open>The snapshot as it is shown: without the claimed key identifiers, in the order of the references.\<close>

record firstTrustDiscoveredCandidateView =
  dv_ref :: string
  dv_name :: string
  dv_identifier :: string
  dv_brand :: string
  dv_typeName :: string
  dv_model :: string
  dv_firstReceived :: gotime
  dv_lastReceived :: gotime
  dv_revision :: uint64
  dv_lifecycle :: string

record firstTrustCandidateSnapshotView =
  sv_state :: string
  sv_invalidReason :: string
  sv_revision :: uint64
  sv_candidates :: "firstTrustDiscoveredCandidateView list"

definition candidate_shown :: "firstTrustDiscoveredCandidate \<Rightarrow> firstTrustDiscoveredCandidateView" where
  "candidate_shown d = \<lparr>dv_ref = di_ref d, dv_name = di_name d, dv_identifier = di_identifier d, dv_brand = di_brand d,
     dv_typeName = di_typeName d, dv_model = di_model d, dv_firstReceived = di_firstReceived d,
     dv_lastReceived = di_lastReceived d, dv_revision = di_revision d, dv_lifecycle = di_lifecycle d\<rparr>"

definition snapshot_view :: "'w ftc \<Rightarrow> firstTrustCandidateSnapshotView" where
  "snapshot_view c = \<lparr>sv_state = (if co_candidateSnapshotState c = [] then ''empty'' else co_candidateSnapshotState c),
     sv_invalidReason = co_candidateSnapshotInvalidReason c, sv_revision = co_candidateSnapshotRevision c,
     sv_candidates = sort_key dv_ref (map (candidate_shown \<circ> snd) (co_discoveredCandidates c))\<rparr>"

definition discoveredCandidateSnapshot :: "('w, firstTrustCandidateSnapshotView) top" where
  "discoveredCandidateSnapshot = do {view \<leftarrow> peek snapshot_view; mu_Unlock; give view}"

subsection \<open>Selections\<close>

definition select_request :: "string \<Rightarrow> string \<Rightarrow> firstTrustRequest" where
  "select_request candidateRef expectedSKI =
     request_zero\<lparr>rq_operation := ''select_candidate'', rq_candidateRef := candidateRef, rq_expectedSKI := expectedSKI\<rparr>"

definition new_selection :: "nat \<Rightarrow> string \<Rightarrow> string \<Rightarrow> string \<Rightarrow> bytes \<Rightarrow> firstTrustCandidateSelection" where
  "new_selection address key candidateRef expectedSKI remote =
     \<lparr>se_id = address, se_key = key, se_request = select_request candidateRef expectedSKI, se_candidateRef = candidateRef,
      se_expectedSKI = expectedSKI, se_remote = remote, se_completed = False, se_cancelled = False, se_cancelIssued = False,
      se_abortOutcome = [], se_outcome = []\<rparr>"

definition set_lifecycle :: "string \<Rightarrow> string \<Rightarrow> ('w, unit) top" where
  "set_lifecycle candidateRef lifecycle = poke (\<lambda>c. case go_lookup (co_discoveredCandidates c) candidateRef of
      None \<Rightarrow> c
    | Some d \<Rightarrow> c\<lparr>co_discoveredCandidates := go_put candidateRef (d\<lparr>di_lifecycle := lifecycle\<rparr>) (co_discoveredCandidates c)\<rparr>)"

definition consume_candidate :: "string \<Rightarrow> string \<Rightarrow> ('w, unit) top" where
  "consume_candidate candidateRef expectedSKI = do {
     found \<leftarrow> peek (\<lambda>c. go_lookup (co_discoveredCandidates c) candidateRef);
     case found of
       None \<Rightarrow> nop
     | Some d \<Rightarrow> whenever (di_claimedSKI d = expectedSKI) (set_lifecycle candidateRef ''consumed'')
   }"

text \<open>Why a discovered candidate cannot be selected; empty when it can.\<close>

definition candidate_refused :: "'w ftc \<Rightarrow> string \<Rightarrow> string \<Rightarrow> bytes \<Rightarrow> string" where
  "candidate_refused c candidateRef expectedSKI remote =
     (if co_candidateSnapshotState c = ''invalid'' then ''candidate_snapshot_invalid''
      else case go_lookup (co_discoveredCandidates c) candidateRef of
        None \<Rightarrow> ''candidate_unavailable''
      | Some d \<Rightarrow>
          if di_lifecycle d = ''consumed'' then ''candidate_consumed''
          else if di_lifecycle d \<noteq> ''visible'' then ''candidate_busy''
          else if di_claimedSKI d \<noteq> expectedSKI \<or> \<not> constantTimeFingerprintMatch (di_claimedSKI d) remote
          then ''candidate_ski_mismatch''
          else [])"

definition mapFirstTrustCandidateQueueError :: "queue_error option \<Rightarrow> string" where
  "mapFirstTrustCandidateQueueError err =
     (case err of
        None \<Rightarrow> ''candidate_queued''
      | Some ErrPairingCandidateUnavailable \<Rightarrow> ''candidate_unavailable''
      | Some ErrPairingCandidateSKIMismatch \<Rightarrow> ''candidate_ski_mismatch''
      | Some ErrPairingCandidateConsumed \<Rightarrow> ''candidate_consumed''
      | Some ErrPairingCandidateActive \<Rightarrow> ''candidate_active''
      | Some ErrOutgoingAttemptGateRequired \<Rightarrow> ''transport_gate_unavailable''
      | Some ErrRemoteAlreadyTrusted \<Rightarrow> ''already_trusted''
      | Some QueueErrorOther \<Rightarrow> ''candidate_queue_failed'')"

text \<open>The object at an address: the coordinator's selection, or what its holder last saw of it.\<close>

definition selection_object :: "firstTrustCandidateSelection \<Rightarrow> 'w ftc \<Rightarrow> firstTrustCandidateSelection" where
  "selection_object mine c = (case co_candidateSelection c of
      None \<Rightarrow> mine | Some se \<Rightarrow> if se_id se = se_id mine then se else mine)"

definition owns_selection :: "firstTrustCandidateSelection \<Rightarrow> 'w ftc \<Rightarrow> bool" where
  "owns_selection mine c = (case co_candidateSelection c of None \<Rightarrow> False | Some se \<Rightarrow> se_id se = se_id mine)"

definition put_selection :: "firstTrustCandidateSelection \<Rightarrow> ('w, unit) top" where
  "put_selection se = poke (\<lambda>c. if owns_selection se c then c\<lparr>co_candidateSelection := Some se\<rparr> else c)"

text \<open>Cancelling a selection that need not be the coordinator's any more.\<close>

definition cancel_object :: "firstTrustCandidateSelection \<Rightarrow> ('w, unit) top" where
  "cancel_object se =
     (if se_cancelIssued se then nop
      else do {
        put_selection (se\<lparr>se_cancelled := True, se_cancelIssued := True\<rparr>);
        cancelUnboundRemoteLocked (se_remote se)
      })"

definition failCandidateQueueLocked :: "'w ftdeps \<Rightarrow> firstTrustCandidateSelection \<Rightarrow> string \<Rightarrow> ('w, unit) top" where
  "failCandidateQueueLocked deps se result = do {
     mine \<leftarrow> peek (\<lambda>c. case co_currentCandidate c of None \<Rightarrow> False | Some ca \<Rightarrow> ca_remote ca = se_remote se);
     if mine then do {
       now \<leftarrow> call (d_now deps);
       finishCandidateRequestsLocked deps result now;
       revokeTransientTrustLocked;
       cancel_current_remote;
       poke (\<lambda>c. c\<lparr>co_currentCandidate := None\<rparr>);
       put_selection (se\<lparr>se_cancelled := True, se_cancelIssued := True\<rparr>);
       window \<leftarrow> peek co_window;
       case window of
         None \<Rightarrow> nop
       | Some w \<Rightarrow> whenever (Before now (win_deadline w)) (do {
           poke (\<lambda>c. c\<lparr>co_phase := firstTrustOpenEmpty\<rparr>);
           scheduleExpiryLocked deps (win_deadline w)
         })
     }
     else cancel_object se
   }"

text \<open>The end of a selection: the transport has answered.\<close>

definition finish_selection ::
  "'w ftdeps \<Rightarrow> ctx \<Rightarrow> firstTrustCandidateSelection \<Rightarrow> queue_error option \<Rightarrow> ('w, string) top" where
  "finish_selection deps ctx mine err = do {
     cancelled \<leftarrow> call (d_ctxErr deps ctx);
     se \<leftarrow> peek (selection_object mine);
     let abort = (if cancelled \<and> se_abortOutcome se = [] then ''request_cancelled'' else se_abortOutcome se);
         result = (if abort \<noteq> [] then abort else mapFirstTrustCandidateQueueError err);
         ended = se\<lparr>se_abortOutcome := abort, se_outcome := result, se_completed := True\<rparr> in do {
       put_selection ended;
       (if result = ''candidate_queued'' then consume_candidate (se_candidateRef mine) (se_expectedSKI mine)
        else do {
          failCandidateQueueLocked deps ended result;
          invalidateCandidateSnapshotLocked ''candidate_queue_failed'';
          poke (\<lambda>c. if owns_selection mine c then c\<lparr>co_candidateSelection := None\<rparr> else c)
        });
       now \<leftarrow> call (d_now deps);
       recordReplayLocked deps (se_key mine) (se_request mine) result now;
       mu_Unlock;
       give result
     }
   }"

text \<open>Why nothing can be selected at this time; empty when it can.\<close>

definition select_refused :: "'w ftc \<Rightarrow> string \<Rightarrow> string \<Rightarrow> string \<Rightarrow> bytes \<Rightarrow> string" where
  "select_refused c key candidateRef expectedSKI remote =
     (if activeKeyConflictLocked c key (select_request candidateRef expectedSKI) then ''idempotency_conflict''
      else if co_phase c = firstTrustDisabled \<or> co_reopening c then ''mutation_disabled''
      else if co_phase c \<noteq> firstTrustOpenEmpty \<or> co_window c = None then ''pairing_closed''
      else if candidate_refused c candidateRef expectedSKI remote \<noteq> [] then candidate_refused c candidateRef expectedSKI remote
      else if idempotencyCapacityLocked c key 1 then ''idempotency_capacity''
      else if \<not> co_candidateQueuer c then ''candidate_queue_unavailable''
      else [])"

definition select_new ::
  "'w ftdeps \<Rightarrow> ctx \<Rightarrow> nat \<Rightarrow> string \<Rightarrow> string \<Rightarrow> string \<Rightarrow> bytes \<Rightarrow> ('w, string) top" where
  "select_new deps ctx address key candidateRef expectedSKI remote =
     (let mine = new_selection address key candidateRef expectedSKI remote in do {
        set_lifecycle candidateRef ''reserved'';
        poke (\<lambda>c. c\<lparr>co_candidateSelection := Some mine\<rparr>);
        unlocked deps;
        err \<leftarrow> call (d_queuePairingCandidate deps candidateRef expectedSKI);
        d_others deps;
        finish_selection deps ctx mine err
      })"

text \<open>
  The loop: a request that finds its own selection under way waits for it and starts over. The
  fuel counts the waits; \<open>None\<close> is a request that still waits.
\<close>

fun select_loop :: "'w ftdeps \<Rightarrow> nat \<Rightarrow> ctx \<Rightarrow> nat \<Rightarrow> string \<Rightarrow> string \<Rightarrow> string \<Rightarrow> bytes \<Rightarrow> ('w, string option) top" where
  "select_loop deps 0 ctx address key candidateRef expectedSKI remote = give None"
| "select_loop deps (Suc waits) ctx address key candidateRef expectedSKI remote =
     (let request = select_request candidateRef expectedSKI;
          answer = (\<lambda>result. do {mu_Unlock; give (Some result)}) in do {
      now \<leftarrow> expire_now deps;
      replay \<leftarrow> replayLocked deps key request now;
      selection \<leftarrow> peek co_candidateSelection;
      refused \<leftarrow> peek (\<lambda>c. select_refused c key candidateRef expectedSKI remote);
      case (replay, selection) of
        (Some result, _) \<Rightarrow> answer result
      | (None, Some se) \<Rightarrow>
          if se_key se = key then
            if \<not> firstTrustRequest_equal (se_request se) request then answer ''idempotency_conflict''
            else if se_completed se then answer (se_outcome se)
            else do {
              unlocked deps;
              cancelled \<leftarrow> call (d_ctxErr deps ctx);
              if cancelled then give (Some ''request_cancelled'')
              else select_loop deps waits ctx address key candidateRef expectedSKI remote
            }
          else if se_completed se \<and> se_candidateRef se = candidateRef then answer ''candidate_consumed''
          else answer ''candidate_busy''
      | (None, None) \<Rightarrow>
          if refused \<noteq> [] then answer refused
          else do {
            result \<leftarrow> select_new deps ctx address key candidateRef expectedSKI remote;
            give (Some result)
          }
   })"

definition selectCandidate :: "'w ftdeps \<Rightarrow> nat \<Rightarrow> ctx \<Rightarrow> nat \<Rightarrow> string \<Rightarrow> string \<Rightarrow> string \<Rightarrow> ('w, string option) top" where
  "selectCandidate deps waits ctx address key candidateRef expectedSKI = do {
     cancelled \<leftarrow> call (d_ctxErr deps ctx);
     if cancelled then give (Some ''request_cancelled'')
     else if \<not> validFirstTrustKey key then give (Some ''invalid_idempotency_key'')
     else if \<not> validFirstTrustCandidateRef candidateRef then give (Some ''invalid_candidate_ref'')
     else (case decodeFirstTrustSKI expectedSKI of
         None \<Rightarrow> give (Some ''invalid_expected_ski'')
       | Some (remote, _) \<Rightarrow> select_loop deps waits ctx address key candidateRef expectedSKI remote)
   }"

subsection \<open>Selections of the operator protocol\<close>

definition operatorAdminV1ObservationCurrent :: "'w ftdeps \<Rightarrow> string \<Rightarrow> string \<Rightarrow> uint64 \<Rightarrow> ('w, bool) top" where
  "operatorAdminV1ObservationCurrent deps candidateRef expectedSKI revision =
     (if revision = 0 \<or> \<not> validFirstTrustCandidateRef candidateRef then give False
      else case decodeFirstTrustSKI expectedSKI of
        None \<Rightarrow> give False
      | Some (remote, normalized) \<Rightarrow>
          if normalized \<noteq> expectedSKI then give False
          else do {
            _ \<leftarrow> expire_now deps;
            current \<leftarrow> peek (\<lambda>c.
              if co_phase c \<noteq> firstTrustOpenEmpty \<or> co_window c = None \<or> co_candidateSnapshotState c \<noteq> ''valid'' \<or>
                 co_candidateSelection c \<noteq> None
              then False
              else case go_lookup (co_discoveredCandidates c) candidateRef of
                None \<Rightarrow> False
              | Some d \<Rightarrow> di_lifecycle d = ''visible'' \<and> di_revision d = revision \<and> di_claimedSKI d = expectedSKI \<and>
                  constantTimeFingerprintMatch (di_claimedSKI d) remote);
            mu_Unlock;
            give current
          })"

definition reserveOperatorAdminV1Selection ::
  "'w ftdeps \<Rightarrow> nat \<Rightarrow> string \<Rightarrow> string \<Rightarrow> ('w, firstTrustCandidateSelection option \<times> string) top" where
  "reserveOperatorAdminV1Selection deps address candidateRef expectedSKI =
     (if \<not> validFirstTrustCandidateRef candidateRef then give (None, ''candidate_unavailable'')
      else case decodeFirstTrustSKI expectedSKI of
        None \<Rightarrow> give (None, ''candidate_ski_mismatch'')
      | Some (remote, normalized) \<Rightarrow>
          if normalized \<noteq> expectedSKI then give (None, ''candidate_ski_mismatch'')
          else do {
            _ \<leftarrow> expire_now deps;
            refused \<leftarrow> peek (\<lambda>c.
              if co_phase c = firstTrustDisabled \<or> co_reopening c then ''mutation_disabled''
              else if co_phase c \<noteq> firstTrustOpenEmpty \<or> co_window c = None then ''pairing_closed''
              else if co_candidateSelection c \<noteq> None then ''candidate_busy''
              else candidate_refused c candidateRef expectedSKI remote);
            result \<leftarrow> (if refused \<noteq> [] then give (None, refused)
              else let mine = new_selection address [] candidateRef expectedSKI remote in do {
                poke (\<lambda>c. c\<lparr>co_candidateSelection := Some mine\<rparr>);
                set_lifecycle candidateRef ''reserved'';
                give (Some mine, [])
              });
            mu_Unlock;
            give result
          })"

definition finishOperatorAdminV1Selection :: "firstTrustCandidateSelection \<Rightarrow> bool \<Rightarrow> ('w, string) top" where
  "finishOperatorAdminV1Selection mine accepted = do {
     stale \<leftarrow> peek (\<lambda>c. \<not> owns_selection mine c \<or> se_completed (selection_object mine c));
     result \<leftarrow> (if stale then give ''stale_request''
       else do {
         se \<leftarrow> peek (selection_object mine);
         let outcome = (if se_abortOutcome se \<noteq> [] then se_abortOutcome se
               else if se_cancelled se then ''pairing_closed''
               else if accepted then ''candidate_selected'' else ''candidate_queue_failed'');
             ended = se\<lparr>se_outcome := outcome, se_completed := True\<rparr> in do {
           put_selection ended;
           (if outcome = ''candidate_selected'' then consume_candidate (se_candidateRef se) (se_expectedSKI se)
            else do {
              cancel_object ended;
              invalidateCandidateSnapshotLocked ''candidate_selection_failed'';
              poke (\<lambda>c. c\<lparr>co_candidateSelection := None\<rparr>)
            });
           give outcome
         }
       });
     mu_Unlock;
     give result
   }"

definition operatorAdminV1SelectionCurrent :: "'w ftdeps \<Rightarrow> string \<Rightarrow> string \<Rightarrow> ('w, bool) top" where
  "operatorAdminV1SelectionCurrent deps candidateRef expectedSKI =
     (case decodeFirstTrustSKI expectedSKI of
        None \<Rightarrow> give False
      | Some (remote, normalized) \<Rightarrow>
          if normalized \<noteq> expectedSKI then give False
          else do {
            _ \<leftarrow> expire_now deps;
            current \<leftarrow> peek (\<lambda>c. case co_candidateSelection c of
                None \<Rightarrow> False
              | Some se \<Rightarrow> \<not> se_cancelled se \<and> se_completed se \<and> se_outcome se = ''candidate_selected'' \<and>
                  se_candidateRef se = candidateRef \<and> se_expectedSKI se = expectedSKI \<and> se_remote se = remote \<and>
                  phase_pairing (co_phase c));
            mu_Unlock;
            give current
          })"

end
