(* ===== verification/TrustReopen.thy ===== *)
theory TrustReopen
  imports TrustAttempts TrustCandidates
begin

text \<open>
  Starting and stopping the trust coordinator: the reopening over the recovery store of
  \<^verbatim>\<open>msp04c_coordinator.go\<close>, the reopening over the plain store and the shutdown of
  \<^verbatim>\<open>first_trust.go\<close>, and what may be attempted in the state that follows.
\<close>

subsection \<open>Loading\<close>

definition resetVolatileFirstTrustLocked :: "'w ftdeps \<Rightarrow> ('w, unit) top" where
  "resetVolatileFirstTrustLocked deps = do {
     revokeTransientTrustLocked;
     cancel_current_remote;
     poke (\<lambda>c. c\<lparr>co_phase := firstTrustDisabled, co_window := None, co_currentCandidate := None, co_inflight := None,
       co_recoveryOperation := None, co_replays := [], co_retired := []\<rparr>);
     resetCandidateDiscoveryLocked ''empty'';
     stopTimerLocked;
     stopRetentionTimerLocked;
     _ \<leftarrow> setWaitingLocked deps False;
     nop
   }"

definition loadFirstTrustAssociationsLocked :: "('w, unit) top" where
  "loadFirstTrustAssociationsLocked = do {
     associations \<leftarrow> peek (\<lambda>c. filter (association_loadable c) (cv_associations (co_controlView c)));
     each (\<lambda>a. do {
       poke (\<lambda>c. c\<lparr>co_trustedRemotes := go_put (fa_subject a) (fa_service a) (co_trustedRemotes c)\<rparr>);
       witnessed (EvLoaded (fa_subject a))
     }) associations
   }"

definition loadFirstTrustRetryArmsLocked :: "'w ftdeps \<Rightarrow> ('w, unit) top" where
  "loadFirstTrustRetryArmsLocked deps = do {
     now \<leftarrow> call (d_monotonicNow deps);
     quarantines \<leftarrow> peek (\<lambda>c. cr_quarantines (control c));
     each (\<lambda>q. whenever (\<not> (qr_state q \<noteq> ''BACKOFF_ACTIVE'' \<or> qr_remainingDelay q < 0))
       (set_arm (qr_scope q) (retry_arm now (qr_remainingDelay q)))) quarantines
   }"

text \<open>An attempt that was staged but never selected is cleared from the anchor.\<close>

definition clearable_attempt :: "firstTrustControlView \<Rightarrow> firstTrustPendingPublication \<Rightarrow> bool" where
  "clearable_attempt view p \<longleftrightarrow>
     pb_operationClass p = ''attempt_prepare'' \<and> pb_storeInstance p = cr_storeInstance (cv_control view) \<and>
     pb_previousControlEpoch p = cr_controlEpoch (cv_control view) \<and>
     firstTrustManifestEqual (pb_previousManifest p) (cv_manifest view)"

definition clearKnownUnappliedAttemptOnReopen ::
  "'w ftdeps \<Rightarrow> ctx \<Rightarrow> firstTrustControlView \<Rightarrow> firstTrustAnchorRecord \<Rightarrow> string \<Rightarrow> ('w, firstTrustAnchorRecord) top" where
  "clearKnownUnappliedAttemptOnReopen deps ctx view anchor anchorOutcome = do {
     cancelled \<leftarrow> call (d_ctxErr deps ctx);
     case (d_recoveryStore deps, d_anchor deps, ar_pending anchor) of
       (Some st, Some an, Some p) \<Rightarrow>
         if cancelled \<or> anchorOutcome \<noteq> ''opened_anchor'' \<or> \<not> clearable_attempt view p then give anchor
         else do {
           observation \<leftarrow> call (ObserveControlPublication st ctx p);
           if observation \<noteq> ''exact_previous_selected_and_target_absent'' then give anchor
           else do {
             cleared \<leftarrow> call (CompareAndClear an ctx p);
             give (if cleared \<noteq> ''anchor_durable'' then anchor else anchor\<lparr>ar_pending := None\<rparr>)
           }
         }
     | _ \<Rightarrow> give anchor
   }"

text \<open>The scopes of the associations that can be loaded.\<close>

definition trusted_scopes :: "'w ftdeps \<Rightarrow> 'w ftc \<Rightarrow> bytes list" where
  "trusted_scopes deps c = map (\<lambda>a. retry_scope deps (fa_subject a))
     (filter (association_loadable c) (cv_associations (co_controlView c)))"

definition reset_scopes :: "bytes list \<Rightarrow> firstTrustQuarantineRecord list \<Rightarrow> bytes list" where
  "reset_scopes scopes qs = map qr_scope (filter (\<lambda>q. qr_scope q \<in> set scopes \<and>
     (qr_state q = ''ADMIN_HOLD'' \<or> qr_state q = ''BACKOFF_ACTIVE'')) qs)"

definition reconcile_applies :: "'w ftdeps \<Rightarrow> 'w ftc \<Rightarrow> string \<Rightarrow> string \<Rightarrow> bool" where
  "reconcile_applies deps c storeOutcome anchorOutcome \<longleftrightarrow>
     \<not> (firstTrustStructuralStoreOutcome storeOutcome \<noteq> [] \<or> firstTrustDurabilityUnknownOutcome storeOutcome \<or>
        anchorOutcome \<noteq> ''opened_anchor'' \<or> ar_pending (co_anchorRecord c) \<noteq> None \<or>
        firstTrustAnchorProductReasonLocked c \<noteq> [] \<or> cr_attempts (control c) \<noteq> [] \<or> cr_controlEpoch (control c) = - 1) \<and>
     trusted_scopes deps c \<noteq> [] \<and>
     list_all (\<lambda>q. firstTrustQuarantineRecordValid q (d_backoffPolicy deps)) (cr_quarantines (control c)) \<and>
     reset_scopes (trusted_scopes deps c) (cr_quarantines (control c)) \<noteq> []"

text \<open>An anchor that was opened is there, and so is the store.\<close>

definition reconcileTrustedRetryQuarantinesLocked :: "'w ftdeps \<Rightarrow> ctx \<Rightarrow> string \<Rightarrow> string \<Rightarrow> ('w, unit) top" where
  "reconcileTrustedRetryQuarantinesLocked deps ctx storeOutcome anchorOutcome = do {
     c \<leftarrow> peek (\<lambda>c. c);
     if \<not> reconcile_applies deps c storeOutcome anchorOutcome then nop
     else do {
       ordinal \<leftarrow> firstTrustReadOrdinal deps;
       case (ordinal, d_recoveryStore deps, d_anchor deps) of
         (Some operationID, Some st, Some an) \<Rightarrow>
           (let target = fold (\<lambda>scope t. firstTrustResetOutgoingAttemptRetryLocked t scope)
                  (reset_scopes (trusted_scopes deps c) (cr_quarantines (control c))) (bump (control c)) in do {
              poke (\<lambda>c. c\<lparr>co_recoveryOperation := Some (no_operation operationID ''release_retry_quarantine'')\<rparr>);
              unlocked deps;
              (publication, outcome, anchor) \<leftarrow> publishFirstTrustControl st an ctx (co_controlView c) target operationID
                ''release_retry_quarantine'' (co_controlView c) (co_anchorRecord c);
              d_others deps;
              poke (\<lambda>c. c\<lparr>co_anchorRecord := anchor\<rparr>);
              whenever (outcome = ''durable'') (poke (\<lambda>c. c\<lparr>co_controlView := pr_target publication,
                co_storeGeneration := sequence_of (pr_target publication)\<rparr>));
              poke (\<lambda>c. c\<lparr>co_recoveryOperation := None\<rparr>)
            })
       | _ \<Rightarrow> nop
     }
   }"

subsection \<open>Reopening over the recovery store\<close>

definition charge_allowed :: "string \<times> string \<Rightarrow> bool" where
  "charge_allowed classified =
     (case classified of (state, reason) \<Rightarrow>
        state = ''PAIRED_TRUSTED'' \<or> state = ''UNPAIRED_LOCKED'' \<or>
        state = ''QUARANTINED'' \<and> \<not> List.member [''DURABILITY_UNKNOWN'', ''HOST_BINDING_MISMATCH'', ''CLONE_DETECTED'',
          ''MANIFEST_GENERATION_ROLLBACK'', ''CONTROL_EPOCH_ROLLBACK''] reason)"

text \<open>The end of a start: the state it is classified in, the phase that goes with it, and what is loaded.\<close>

definition enter_classified :: "'w ftdeps \<Rightarrow> string \<times> string \<Rightarrow> ('w, string) top" where
  "enter_classified deps classified = do {
     poke (\<lambda>c. c\<lparr>co_recovery := fst classified, co_recoveryReasonCode := snd classified,
       co_phase := (if List.member [''UNPAIRED_LOCKED'', ''PAIRED_TRUSTED'', ''REVOKED''] (fst classified)
                    then firstTrustPairingClosed else firstTrustDisabled)\<rparr>);
     loadFirstTrustRetryArmsLocked deps;
     whenever (fst classified = ''PAIRED_TRUSTED'') loadFirstTrustAssociationsLocked;
     name \<leftarrow> peek phaseNameLocked;
     recovery \<leftarrow> peek co_recovery;
     let product = normalizeFirstTrustProduct name recovery (if fst classified = ''CORRUPT_STORE'' then ''CORRUPT_STORE'' else []) in do {
       poke (\<lambda>c. c\<lparr>co_phase := firstTrustPhaseFromName (fst product), co_recovery := snd product\<rparr>);
       give (fst product)
     }
   }"

text \<open>What was read from the store and the anchor becomes the coordinator's.\<close>

definition adopt_reload :: "'w ftdeps \<Rightarrow> firstTrustControlView \<Rightarrow> firstTrustAnchorRecord \<Rightarrow> ('w, unit) top" where
  "adopt_reload deps view anchor = do {
     poke (\<lambda>c. c\<lparr>co_controlView := view, co_anchorRecord := anchor, co_storeGeneration := sequence_of view,
       co_retryArms := [], co_retryInflight := [], co_trustedRemotes := []\<rparr>);
     cancelAllOutgoingAttemptContextsLocked deps
   }"

definition start_locked :: "'w ftdeps \<Rightarrow> ctx \<Rightarrow> string \<Rightarrow> string \<Rightarrow> ('w, string) top" where
  "start_locked deps ctx storeOutcome anchorOutcome = do {
     ready \<leftarrow> peek (\<lambda>c. persistedRetryReadyRecordAssociationLocked deps c \<noteq> None);
     reconcileTrustedRetryQuarantinesLocked deps ctx storeOutcome anchorOutcome;
     allowed \<leftarrow> peek (\<lambda>c. charge_allowed (classifyFirstTrustStartupLocked deps c storeOutcome anchorOutcome ready));
     unresolved \<leftarrow> peek (\<lambda>c. cr_attempts (control c) \<noteq> []);
     unlocked deps;
     chargeOutcome \<leftarrow> (if unresolved \<and> allowed then chargeRestartedOutgoingAttempts deps ctx else give ''not_required'');
     d_others deps;
     poke (\<lambda>c. c\<lparr>co_reopening := False\<rparr>);
     if unresolved \<and> (\<not> allowed \<or> chargeOutcome \<noteq> ''charged'') then do {
       poke (\<lambda>c. c\<lparr>co_phase := firstTrustDisabled, co_recovery := ''QUARANTINED'', co_recoveryReasonCode := ''DURABILITY_UNKNOWN''\<rparr>);
       mu_Unlock;
       give storeOutcome
     }
     else do {
       classified \<leftarrow> peek (\<lambda>c. classifyFirstTrustStartupLocked deps c storeOutcome anchorOutcome ready);
       phase \<leftarrow> enter_classified deps classified;
       mu_Unlock;
       give (if chargeOutcome = ''charged'' \<or> phase = ''PAIRING_CLOSED'' then ''pairing_closed'' else storeOutcome)
     }
   }"

definition open_anchor :: "'w ftdeps \<Rightarrow> ctx \<Rightarrow> string \<Rightarrow> ('w, firstTrustAnchorRecord \<times> string) top" where
  "open_anchor deps ctx storeOutcome =
     (case d_anchor deps of
        Some an \<Rightarrow> if firstTrustStructuralStoreOutcome storeOutcome = [] then call (AnchorOpen an ctx)
                   else give (anchor_zero, ''anchor_unavailable'')
      | None \<Rightarrow> give (anchor_zero, ''anchor_unavailable''))"

definition reopenWithRecovery :: "'w ftdeps \<Rightarrow> ctx \<Rightarrow> ('w, string) top" where
  "reopenWithRecovery deps ctx = do {
     reopening \<leftarrow> peek co_reopening;
     phase \<leftarrow> peek co_phase;
     if reopening then do {mu_Unlock; give ''reopen_in_progress''}
     else if phase \<noteq> firstTrustDisabled then do {mu_Unlock; give ''reopen_not_required''}
     else (case d_recoveryStore deps of
         None \<Rightarrow> do {mu_Unlock; give ''store_unavailable''}
       | Some st \<Rightarrow> do {
           poke (\<lambda>c. c\<lparr>co_reopening := True\<rparr>);
           resetVolatileFirstTrustLocked deps;
           unlocked deps;
           (view, storeOutcome) \<leftarrow> call (ReloadControl st ctx);
           (opened, anchorOutcome) \<leftarrow> open_anchor deps ctx storeOutcome;
           anchor \<leftarrow> clearKnownUnappliedAttemptOnReopen deps ctx view opened anchorOutcome;
           d_others deps;
           cancelled \<leftarrow> call (d_ctxErr deps ctx);
           if cancelled then do {
             poke (\<lambda>c. c\<lparr>co_reopening := False\<rparr>);
             mu_Unlock;
             give ''reopen_cancelled''
           }
           else do {
             adopt_reload deps view anchor;
             start_locked deps ctx storeOutcome anchorOutcome
           }
         })
   }"

definition preparePairingRegistrationReopen :: "'w ftdeps \<Rightarrow> ('w, string) top" where
  "preparePairingRegistrationReopen deps = do {
     fault \<leftarrow> peek co_pairingRegistrationFault;
     idle \<leftarrow> peek (\<lambda>c. co_reopening c \<or> co_phase c \<noteq> firstTrustDisabled \<or> d_recoveryStore deps = None);
     result \<leftarrow> (if fault then do {failPairingRegistrationLocked; give ''pairing_registration_failed''}
       else if idle then give []
       else do {
         ok \<leftarrow> setWaitingLocked deps False;
         if ok then give []
         else do {poke (\<lambda>c. c\<lparr>co_reopening := False\<rparr>); give ''pairing_registration_failed''}
       });
     mu_Unlock;
     give result
   }"

text \<open>The end of either reopening: a registration that failed meanwhile disables everything.\<close>

definition unless_fault :: "('w, string) top \<Rightarrow> ('w, string) top" where
  "unless_fault m = do {
     fault \<leftarrow> peek co_pairingRegistrationFault;
     if fault then do {failPairingRegistrationLocked; give ''pairing_registration_failed''} else m
   }"

subsection \<open>Reopening over the plain store\<close>

definition load_trusted :: "uint64 \<Rightarrow> (bytes, string) gomap \<Rightarrow> ('w, unit) top" where
  "load_trusted generation associations = do {
     poke (\<lambda>c. c\<lparr>co_trustedRemotes := [], co_storeGeneration := generation, co_phase := firstTrustPairingClosed\<rparr>);
     each (\<lambda>(remote, shipID). whenever (length remote = 20 \<and> shipID \<noteq> []) (do {
       poke (\<lambda>c. c\<lparr>co_trustedRemotes := go_put remote shipID (co_trustedRemotes c)\<rparr>);
       witnessed (EvLoaded remote)
     })) associations
   }"

definition reload_plain :: "'w ftdeps \<Rightarrow> 'w firstTrustPersistence \<Rightarrow> ctx \<Rightarrow> ('w, string) top" where
  "reload_plain deps st ctx = do {
     poke (\<lambda>c. c\<lparr>co_reopening := True, co_phase := firstTrustDisabled, co_window := None, co_currentCandidate := None,
       co_inflight := None, co_replays := [], co_retired := []\<rparr>);
     resetCandidateDiscoveryLocked ''empty'';
     stopTimerLocked;
     stopRetentionTimerLocked;
     ok \<leftarrow> setWaitingLocked deps False;
     if \<not> ok then do {
       poke (\<lambda>c. c\<lparr>co_reopening := False\<rparr>);
       mu_Unlock;
       give ''pairing_registration_failed''
     }
     else do {
       unlocked deps;
       (generation, associations, outcome) \<leftarrow> call (Reload st ctx);
       d_others deps;
       poke (\<lambda>c. c\<lparr>co_reopening := False\<rparr>);
       result \<leftarrow> unless_fault (do {
         cancelled \<leftarrow> call (d_ctxErr deps ctx);
         if cancelled then give ''reopen_cancelled''
         else if outcome \<noteq> ''opened_empty'' \<and> outcome \<noteq> ''opened_current'' then give outcome
         else do {load_trusted generation associations; give ''pairing_closed''}
       });
       mu_Unlock;
       give result
     }
   }"

definition reopen_plain :: "'w ftdeps \<Rightarrow> ctx \<Rightarrow> ('w, string) top" where
  "reopen_plain deps ctx = do {
     c \<leftarrow> peek (\<lambda>c. c);
     if co_reopening c then do {mu_Unlock; give ''reopen_in_progress''}
     else if co_phase c \<noteq> firstTrustDisabled then do {mu_Unlock; give ''reopen_not_required''}
     else if co_pairingRegistrationFault c then do {failPairingRegistrationLocked; mu_Unlock; give ''pairing_registration_failed''}
     else if co_commitFence c then do {mu_Unlock; give ''reopen_pending''}
     else (case d_store deps of
         None \<Rightarrow> do {mu_Unlock; give ''store_unavailable''}
       | Some st \<Rightarrow> reload_plain deps st ctx)
   }"

definition reopen :: "'w ftdeps \<Rightarrow> ctx \<Rightarrow> ('w, string) top" where
  "reopen deps ctx =
     (if d_recoveryStore deps \<noteq> None then do {
        prepared \<leftarrow> preparePairingRegistrationReopen deps;
        if prepared \<noteq> [] then give prepared
        else do {
          d_others deps;
          outcome \<leftarrow> reopenWithRecovery deps ctx;
          d_others deps;
          result \<leftarrow> unless_fault (give outcome);
          mu_Unlock;
          give result
        }
      }
      else reopen_plain deps ctx)"

subsection \<open>Shutdown\<close>

text \<open>The source makes the retry tables nil, which read as empty; nothing retries after a shutdown.\<close>

definition shutdown :: "'w ftdeps \<Rightarrow> ('w, bool) top" where
  "shutdown deps = do {
     stopTimerLocked;
     stopRetentionTimerLocked;
     revokeTransientTrustLocked;
     cancel_current_remote;
     resetCandidateDiscoveryLocked ''terminal'';
     ok \<leftarrow> setWaitingLocked deps False;
     poke (\<lambda>c. c\<lparr>co_phase := firstTrustDisabled, co_window := None, co_currentCandidate := None, co_trustedRemotes := [],
       co_storeGeneration := 0, co_replays := [], co_retired := [], co_inflight := None, co_commitFence := False,
       co_reopening := False, co_recoveryOperation := None, co_retryArms := [], co_retryInflight := []\<rparr>);
     cancelAllOutgoingAttemptContextsLocked deps;
     poke (\<lambda>c. c\<lparr>co_effectsPresent := False\<rparr>);
     unlockAndNotifyTrustAdminProjectionChange deps;
     give ok
   }"

subsection \<open>What may be attempted\<close>

definition quarantined_attempt :: "'w ftdeps \<Rightarrow> 'w ftc \<Rightarrow> bytes \<Rightarrow> bool" where
  "quarantined_attempt deps c remote =
     (case retryReadyRecoveryAssociationLocked deps c of
        None \<Rightarrow> False
      | Some (association, scope) \<Rightarrow>
          inflight scope c \<and> fa_subject association = remote \<and>
          (case firstTrustOutgoingAttemptForScopeLocked c scope of
             None \<Rightarrow> False
           | Some index \<Rightarrow> oa_state (attempt_at c index) = firstTrustAttemptLaunchAuthorized \<and>
               oa_remoteSKI (attempt_at c index) = remote))"

definition runtime_attempt :: "'w ftdeps \<Rightarrow> 'w ftc \<Rightarrow> bytes \<Rightarrow> string" where
  "runtime_attempt deps c remote =
     (let recovering = d_recoveryStore deps \<noteq> None in
      if length remote \<noteq> 20 \<or> co_reopening c \<or> co_recoveryOperation c \<noteq> None then ''attempt_denied''
      else if recovering \<and> (reconciliationRequiredLocked c \<or>
              co_recovery c \<noteq> ''REVOKED'' \<and> firstTrustSubjectTombstoned (co_controlView c) remote) then ''attempt_denied''
      else if recovering \<and> co_recovery c = ''QUARANTINED'' then
        if quarantined_attempt deps c remote then ''reconnect_authorized'' else ''attempt_denied''
      else if recovering \<and> \<not> List.member [''UNPAIRED_LOCKED'', ''PAIRED_TRUSTED'', ''REVOKED''] (co_recovery c) then ''attempt_denied''
      else if go_lookup (co_trustedRemotes c) remote \<noteq> None then
        if \<not> recovering \<or> co_recovery c = ''PAIRED_TRUSTED'' then ''reconnect_authorized'' else ''attempt_denied''
      else if co_candidateSelectionRequired c then
        if selectedCandidateMatchesLocked c remote then ''pairing_authorized'' else ''attempt_denied''
      else if co_phase c = firstTrustOpenEmpty \<and> co_window c \<noteq> None then ''pairing_authorized''
      else if (case co_currentCandidate c of None \<Rightarrow> False | Some ca \<Rightarrow> ca_remote ca = remote \<and> candidate_phase (co_phase c))
      then ''pairing_authorized''
      else ''attempt_denied'')"

definition authorizeRuntimeAttempt :: "'w ftdeps \<Rightarrow> bytes \<Rightarrow> ('w, string) top" where
  "authorizeRuntimeAttempt deps remote = do {
     _ \<leftarrow> expire_now deps;
     result \<leftarrow> peek (\<lambda>c. runtime_attempt deps c remote);
     mu_Unlock;
     give result
   }"

definition outgoingAttemptOwnsRetry :: "'w ftc \<Rightarrow> bytes \<Rightarrow> bool" where
  "outgoingAttemptOwnsRetry c remote \<longleftrightarrow> co_candidateSelectionRequired c \<and> selectedCandidateMatchesLocked c remote"

definition runtimeStartAuthorized :: "'w ftdeps \<Rightarrow> 'w ftc \<Rightarrow> bool" where
  "runtimeStartAuthorized deps c =
     (if d_recoveryStore deps = None then co_phase c \<noteq> firstTrustDisabled \<and> \<not> co_reopening c
      else if co_reopening c \<or> co_recoveryOperation c \<noteq> None \<or> reconciliationRequiredLocked c then False
      else if co_recovery c = ''UNPAIRED_LOCKED'' \<or> co_recovery c = ''PAIRED_TRUSTED'' then True
      else retryReadyRecoveryAssociationLocked deps c \<noteq> None)"

end
