(* ===== verification/TrustRevocation.thy ===== *)
theory TrustRevocation
  imports TrustReopen
begin

text \<open>
  Revocation and repair, \<^verbatim>\<open>src/internal/eebusfacade/msp04c_revocation_repair.go\<close>: an association is
  revoked by a tombstone that is published before the remote is disconnected, and a state that a
  start cannot resolve is repaired on request, each with a receipt that makes the request
  idempotent.
\<close>

subsection \<open>Receipts and requests\<close>

definition firstTrustManifestRequestMatches :: "firstTrustControlView \<Rightarrow> firstTrustRevocationRequest \<Rightarrow> bool" where
  "firstTrustManifestRequestMatches view request \<longleftrightarrow>
     rr_associationLineage request = cr_associationLineage (cv_control view) \<and>
     mb_current (cv_manifest view) = rr_expectedGeneration request \<and>
     mb_epoch (cv_manifest view) = rr_expectedManifestEpoch request \<and>
     mb_sha256 (cv_manifest view) = rr_expectedManifestSHA256 request \<and>
     cr_controlEpoch (cv_control view) = rr_expectedControlEpoch request"

definition firstTrustOperationReplayLocked :: "'w ftc \<Rightarrow> bytes \<Rightarrow> string \<Rightarrow> bytes \<Rightarrow> string option" where
  "firstTrustOperationReplayLocked c operationID operationClass binding =
     (case durableReceiptLocked c operationID of
        Some r \<Rightarrow>
          if rc_operationClass r \<noteq> operationClass \<or> rc_bindingSHA256 r \<noteq> binding then Some ''idempotency_conflict''
          else Some (rc_result r)
      | None \<Rightarrow>
          (case co_recoveryOperation c of
             None \<Rightarrow> None
           | Some op \<Rightarrow>
               if ro_operationID op = operationID \<and> (ro_operationClass op \<noteq> operationClass \<or> ro_bindingSHA256 op \<noteq> binding)
               then Some ''idempotency_conflict'' else Some ''operation_in_progress''))"

definition firstTrustRevocationSubjectLocked :: "'w ftc \<Rightarrow> firstTrustRevocationRequest \<Rightarrow> bytes option" where
  "firstTrustRevocationSubjectLocked c request =
     map_option fa_subject (find (\<lambda>a. fa_reference a = rr_associationRef request \<and> fa_lineage a = rr_associationLineage request \<and>
       length (fa_subject a) = 20) (cv_associations (co_controlView c) @ cv_parentAssociations (co_controlView c)))"

text \<open>The generation a tombstone takes effect in, as the store would assign it.\<close>

definition bind_tombstone ::
  "bytes \<Rightarrow> firstTrustRevocationTombstone list \<Rightarrow> firstTrustRevocationTombstone \<Rightarrow> firstTrustRevocationTombstone" where
  "bind_tombstone operationID drafted t =
     (if tb_operationID t = operationID \<and> gb_sequence (tb_effectiveGeneration t) = 0 then
        (case find (\<lambda>p. tb_operationID p = operationID \<and> tb_associationRef p = tb_associationRef t \<and>
             gb_sequence (tb_effectiveGeneration p) \<noteq> 0) drafted of
           None \<Rightarrow> t | Some p \<Rightarrow> t\<lparr>tb_effectiveGeneration := tb_effectiveGeneration p\<rparr>)
      else t)"

definition firstTrustBindEffectiveGeneration ::
  "'w firstTrustControlPersistence \<Rightarrow> ctx \<Rightarrow> firstTrustControlView \<Rightarrow> firstTrustControlRecord \<Rightarrow> bytes \<Rightarrow> string \<Rightarrow>
     ('w, firstTrustControlRecord) top" where
  "firstTrustBindEffectiveGeneration st ctx working target operationID operationClass = do {
     (draft, outcome) \<leftarrow> call (PrepareControl st ctx working target operationID operationClass);
     give (if outcome \<noteq> ''prepared'' then target
       else target\<lparr>cr_tombstones := map (bind_tombstone operationID (cr_tombstones (cv_control (pr_target draft))))
              (cr_tombstones target)\<rparr>)
   }"

subsection \<open>The end of a revocation\<close>

definition revoked_state :: "'w ftc \<Rightarrow> 'w ftc" where
  "revoked_state c = c\<lparr>co_phase := firstTrustPairingClosed, co_recovery := ''REVOKED'', co_recoveryReasonCode := ''REVOKED_ASSOCIATION''\<rparr>"

definition end_operation :: "('w, unit) top" where
  "end_operation = poke (\<lambda>c. c\<lparr>co_recoveryOperation := None\<rparr>)"

definition unlock_and_notify :: "'w ftdeps \<Rightarrow> ('w, unit) top" where
  "unlock_and_notify deps = do {unlocked deps; notifyTrustAdminProjection deps}"

definition finishIncompleteRevocation :: "'w ftdeps \<Rightarrow> ('w, unit) top" where
  "finishIncompleteRevocation deps = do {end_operation; poke revoked_state; unlock_and_notify deps}"

text \<open>The first receipt of the revocation becomes terminal; \<open>None\<close> when there is none.\<close>

fun terminal_receipt :: "bytes \<Rightarrow> bytes \<Rightarrow> firstTrustDurableReceipt list \<Rightarrow> firstTrustDurableReceipt list option" where
  "terminal_receipt operationID binding [] = None"
| "terminal_receipt operationID binding (r # rs) =
     (if rc_operationID r = operationID \<and> rc_operationClass r = ''revocation'' \<and> rc_bindingSHA256 r = binding
      then Some (r\<lparr>rc_result := ''revoked'', rc_terminal := True\<rparr> # rs)
      else map_option ((#) r) (terminal_receipt operationID binding rs))"

definition finalizeRevocationReceipt ::
  "'w ftdeps \<Rightarrow> 'w firstTrustControlPersistence \<Rightarrow> 'w firstTrustAnchorProvider \<Rightarrow> ctx \<Rightarrow> firstTrustRevocationRequest \<Rightarrow> bytes \<Rightarrow>
     ('w, string) top" where
  "finalizeRevocationReceipt deps st an ctx request binding = do {
     ordinal \<leftarrow> firstTrustReadOrdinal deps;
     c \<leftarrow> peek (\<lambda>c. c);
     let incomplete = (do {end_operation; mu_Unlock; give ''revocation_withdrawal_incomplete''}) in
     case (ordinal, terminal_receipt (rr_operationID request) binding (cr_receipts (control c))) of
       (Some publicationID, Some receipts) \<Rightarrow>
         if cr_controlEpoch (control c) = - 1 then incomplete
         else do {
           unlocked deps;
           (publication, outcome, anchor) \<leftarrow> publishFirstTrustControl st an ctx (co_controlView c)
             ((bump (control c))\<lparr>cr_receipts := receipts\<rparr>) publicationID ''revocation'' (co_controlView c) (co_anchorRecord c);
           d_others deps;
           poke (\<lambda>c. c\<lparr>co_anchorRecord := anchor\<rparr>);
           end_operation;
           result \<leftarrow> (if outcome = ''durable'' then do {
               poke (\<lambda>c. revoked_state (c\<lparr>co_controlView := pr_target publication,
                 co_storeGeneration := sequence_of (pr_target publication)\<rparr>));
               give ''revoked''
             }
             else if outcome = ''unknown'' then do {poke quarantine_unknown; give ''revocation_outcome_unknown''}
             else do {poke revoked_state; give ''revocation_withdrawal_incomplete''});
           unlock_and_notify deps;
           give result
         }
     | _ \<Rightarrow> incomplete
   }"

definition finishRevocationWithdrawal ::
  "'w ftdeps \<Rightarrow> 'w firstTrustControlPersistence \<Rightarrow> 'w firstTrustAnchorProvider \<Rightarrow> ctx \<Rightarrow> firstTrustRevocationRequest \<Rightarrow> bytes \<Rightarrow>
     bytes \<Rightarrow> ('w, string) top" where
  "finishRevocationWithdrawal deps st an ctx request binding subject =
     (let incomplete = (\<lambda>result. do {finishIncompleteRevocation deps; give result}) in do {
      present \<leftarrow> peek co_effectsPresent;
      case e_withdrawalEffects (d_effects deps) of
        None \<Rightarrow> incomplete ''revocation_withdrawal_incomplete''
      | Some w \<Rightarrow>
          if \<not> present then incomplete ''revocation_withdrawal_incomplete''
          else do {
            started \<leftarrow> call (w_disconnectRemote w subject);
            if \<not> started then incomplete ''revocation_withdrawal_incomplete''
            else do {
              event \<leftarrow> call (w_awaitDisconnect w ctx subject);
              d_others deps;
              case event of
                ContextDone \<Rightarrow> do {
                  call (w_cancelDisconnect w subject);
                  incomplete ''revocation_withdrawal_incomplete''
                }
              | TimedOut \<Rightarrow> do {call (w_cancelDisconnect w subject); incomplete ''disconnect_ack_timeout''}
              | Acknowledged \<Rightarrow> do {
                  unregistered \<leftarrow> call (w_unregisterRemote w subject);
                  if \<not> unregistered then incomplete ''revocation_withdrawal_incomplete''
                  else finalizeRevocationReceipt deps st an ctx request binding
                }
            }
          }
   })"

subsection \<open>Revocation\<close>

definition revocation_operation :: "firstTrustRevocationRequest \<Rightarrow> bytes \<Rightarrow> firstTrustRecoveryOperation" where
  "revocation_operation request binding =
     \<lparr>ro_operationID = rr_operationID request, ro_operationClass = ''revocation'', ro_bindingSHA256 = binding\<rparr>"

text \<open>Why a revocation is refused; empty when it is not.\<close>

definition revocation_refused :: "'w ftc \<Rightarrow> firstTrustRevocationRequest \<Rightarrow> bytes \<Rightarrow> string" where
  "revocation_refused c request binding =
     (case firstTrustOperationReplayLocked c (rr_operationID request) ''revocation'' binding of
        Some result \<Rightarrow> result
      | None \<Rightarrow>
          if reconciliationRequiredLocked c then ''reconciliation_required''
          else if rr_operationID request = zero32 \<or>
                  firstTrustOperationOrdinal (rr_operationID request) \<le> cr_operationHighWater (control c)
          then ''idempotency_expired''
          else if \<not> firstTrustManifestRequestMatches (co_controlView c) request then ''revocation_conflict''
          else if \<not> list_ex (\<lambda>a. fa_reference a = rr_associationRef request \<and> fa_lineage a = rr_associationLineage request)
                     (cv_associations (co_controlView c)) then ''revocation_conflict''
          else if length (cr_tombstones (control c)) \<ge> firstTrustMaximumTombstones \<or>
                  length (cr_receipts (control c)) \<ge> firstTrustMaximumDurableReceipts \<or> cr_controlEpoch (control c) = - 1
          then ''tombstone_capacity''
          else [])"

definition deactivate :: "firstTrustAssociationRecord \<Rightarrow> firstTrustAssociationRecord" where
  "deactivate a = a\<lparr>fa_active := False, fa_trusted := False, fa_allowlisted := False, fa_reconnectable := False\<rparr>"

text \<open>The first association of the request, deactivated.\<close>

fun revoke_first ::
  "firstTrustRevocationRequest \<Rightarrow> firstTrustAssociationRecord list \<Rightarrow> firstTrustAssociationRecord list \<times> bytes" where
  "revoke_first request [] = ([], [])"
| "revoke_first request (a # as) =
     (if fa_reference a = rr_associationRef request \<and> fa_lineage a = rr_associationLineage request
      then (deactivate a # as, fa_subject a)
      else apfst ((#) a) (revoke_first request as))"

definition revocation_target ::
  "'w ftc \<Rightarrow> firstTrustRevocationRequest \<Rightarrow> bytes \<Rightarrow> bytes \<Rightarrow> firstTrustControlRecord \<times> bytes list" where
  "revocation_target c request binding subject =
     (let (target, removed) = removeRevokedOutgoingAttemptsLocked c (bump (control c)) subject in
      (target\<lparr>cr_operationHighWater := firstTrustOperationOrdinal (rr_operationID request),
         cr_tombstones := cr_tombstones target @ [\<lparr>tb_associationRef = rr_associationRef request,
           tb_revocationEpoch = cr_controlEpoch target, tb_operationID = rr_operationID request,
           tb_effectiveGeneration = generation_zero\<rparr>],
         cr_receipts := cr_receipts target @ [\<lparr>rc_operationID = rr_operationID request, rc_operationClass = ''revocation'',
           rc_bindingSHA256 = binding, rc_result = ''revocation_withdrawal_incomplete'', rc_terminal = False\<rparr>]\<rparr>, removed))"

definition revoke_published ::
  "'w ftdeps \<Rightarrow> 'w firstTrustControlPersistence \<Rightarrow> 'w firstTrustAnchorProvider \<Rightarrow> ctx \<Rightarrow> firstTrustRevocationRequest \<Rightarrow> bytes \<Rightarrow>
     ('w, string) top" where
  "revoke_published deps st an ctx request binding = do {
     previousRecovery \<leftarrow> peek co_recovery;
     c0 \<leftarrow> peek (\<lambda>c. c);
     let (associations, subject) = revoke_first request (cv_associations (co_controlView c0));
         (target, removed) = revocation_target c0 request binding subject;
         working = (co_controlView c0)\<lparr>cv_associations := associations\<rparr> in do {
       poke (\<lambda>c. c\<lparr>co_trustedRemotes := go_delete subject (co_trustedRemotes c)\<rparr>);
       closeVolatileFirstTrustLocked deps;
       poke (\<lambda>c. c\<lparr>co_recoveryOperation := Some (revocation_operation request binding)\<rparr>);
       selected \<leftarrow> peek co_controlView;
       anchor0 \<leftarrow> peek co_anchorRecord;
       unlocked deps;
       bound \<leftarrow> firstTrustBindEffectiveGeneration st ctx working target (rr_operationID request) ''revocation'';
       (publication, outcome, anchor) \<leftarrow> publishFirstTrustControl st an ctx working bound (rr_operationID request) ''revocation''
         selected anchor0;
       d_others deps;
       poke (\<lambda>c. c\<lparr>co_anchorRecord := anchor\<rparr>);
       if outcome = ''durable'' then do {
         poke (\<lambda>c. c\<lparr>co_controlView := pr_target publication\<rparr>);
         cancelRevokedOutgoingAttemptsLocked deps removed;
         poke revoked_state;
         unlock_and_notify deps;
         finishRevocationWithdrawal deps st an ctx request binding subject
       }
       else if outcome = ''unknown'' then do {
         end_operation;
         poke quarantine_unknown;
         unlock_and_notify deps;
         give ''revocation_outcome_unknown''
       }
       else do {
         end_operation;
         poke (\<lambda>c. c\<lparr>co_phase := firstTrustPairingClosed, co_recovery := previousRecovery,
           co_recoveryReasonCode := (if previousRecovery = ''PAIRED_TRUSTED'' then [] else co_recoveryReasonCode c)\<rparr>);
         unlock_and_notify deps;
         give ''failed_closed_unchanged''
       }
     }
   }"

text \<open>A revocation whose receipt says that the withdrawal is not complete goes on with it.\<close>

definition resume_revocation ::
  "'w ftdeps \<Rightarrow> 'w firstTrustControlPersistence \<Rightarrow> 'w firstTrustAnchorProvider \<Rightarrow> ctx \<Rightarrow> firstTrustRevocationRequest \<Rightarrow> bytes \<Rightarrow>
     firstTrustDurableReceipt \<Rightarrow> ('w, string) top" where
  "resume_revocation deps st an ctx request binding receipt =
     (let answer = (\<lambda>result. do {mu_Unlock; give result}) in do {
      busy \<leftarrow> peek (\<lambda>c. co_recoveryOperation c \<noteq> None);
      subject \<leftarrow> peek (\<lambda>c. firstTrustRevocationSubjectLocked c request);
      if rc_operationClass receipt \<noteq> ''revocation'' \<or> rc_bindingSHA256 receipt \<noteq> binding then answer ''idempotency_conflict''
      else if rc_terminal receipt then answer (rc_result receipt)
      else if rc_result receipt \<noteq> ''revocation_withdrawal_incomplete'' then answer ''revocation_withdrawal_incomplete''
      else if busy then answer ''operation_in_progress''
      else do {
        poke (\<lambda>c. c\<lparr>co_recoveryOperation := Some (revocation_operation request binding)\<rparr>);
        unlocked deps;
        case subject of
          None \<Rightarrow> do {finishIncompleteRevocation deps; give ''revocation_withdrawal_incomplete''}
        | Some s \<Rightarrow> finishRevocationWithdrawal deps st an ctx request binding s
      }
   })"

definition revokeSerialized :: "'w ftdeps \<Rightarrow> ctx \<Rightarrow> firstTrustRevocationRequest \<Rightarrow> ('w, string) top" where
  "revokeSerialized deps ctx request =
     (let binding = firstTrustHashRevocation (d_sha256 deps) request in do {
      cancelled \<leftarrow> call (d_ctxErr deps ctx);
      if cancelled then give ''request_cancelled''
      else (case (d_recoveryStore deps, d_anchor deps) of
          (Some st, Some an) \<Rightarrow> do {
            receipt \<leftarrow> peek (\<lambda>c. durableReceiptLocked c (rr_operationID request));
            refused \<leftarrow> peek (\<lambda>c. revocation_refused c request binding);
            case receipt of
              Some r \<Rightarrow> resume_revocation deps st an ctx request binding r
            | None \<Rightarrow> if refused \<noteq> [] then do {mu_Unlock; give refused} else revoke_published deps st an ctx request binding
          }
        | _ \<Rightarrow> do {mu_Unlock; give ''mutation_disabled''})
   })"

definition revoke :: "'w ftdeps \<Rightarrow> ctx \<Rightarrow> firstTrustRevocationRequest \<Rightarrow> ('w, string) top" where
  "revoke deps ctx request =
     (let binding = firstTrustHashRevocation (d_sha256 deps) request in do {
      operation \<leftarrow> peek co_recoveryOperation;
      case operation of
        Some op \<Rightarrow> do {
          mu_Unlock;
          give (if op = revocation_operation request binding then ''operation_in_progress''
            else if ro_operationID op = rr_operationID request then ''idempotency_conflict''
            else ''operation_in_progress'')
        }
      | None \<Rightarrow> do {unlocked deps; revokeSerialized deps ctx request}
   })"

subsection \<open>Repair\<close>

definition firstTrustRepairRequestMatchesLocked :: "'w ftc \<Rightarrow> firstTrustRepairRequest \<Rightarrow> bool" where
  "firstTrustRepairRequestMatchesLocked c request \<longleftrightarrow>
     rp_operationID request \<noteq> zero32 \<and> rp_expectedState request = co_recovery c \<and>
     rp_expectedReason request = co_recoveryReasonCode c \<and>
     firstTrustManifestEqual (rp_expectedManifest request) (cv_manifest (co_controlView c)) \<and>
     rp_expectedControlEpoch request = cr_controlEpoch (control c) \<and>
     rp_expectedAnchorVersion request = ar_version (co_anchorRecord c) \<and>
     rp_expectedManifestHighWater request = ar_manifestGenerationHighWater (co_anchorRecord c) \<and>
     rp_expectedControlHighWater request = ar_controlEpochHighWater (co_anchorRecord c) \<and>
     rp_nextRepairSequence request = cr_repairSequence (control c) + 1"

definition firstTrustRepairApplicableLocked :: "'w ftc \<Rightarrow> firstTrustRepairRequest \<Rightarrow> bool" where
  "firstTrustRepairApplicableLocked c request =
     (if rp_kind request = ''publish_inactive_parent'' then
        co_recoveryReasonCode c = ''MANIFEST_GENERATION_ROLLBACK'' \<and> mb_parent (cv_manifest (co_controlView c)) \<noteq> None
      else if rp_kind request = ''adopt_copied_current'' then co_recoveryReasonCode c = ''CLONE_DETECTED''
      else if rp_kind request = ''recover_unavailable_host_key'' then co_recoveryReasonCode c = ''HOST_KEY_UNAVAILABLE''
      else if rp_kind request = ''release_retry_quarantine'' then
        (case firstTrustQuarantineLocked c (rp_scope request) of
           None \<Rightarrow> False | Some (_, q) \<Rightarrow> qr_state q = ''BACKOFF_ACTIVE'' \<or> qr_state q = ''ADMIN_HOLD'')
      else False)"

definition inherited :: "firstTrustAssociationRecord \<Rightarrow> bool" where
  "inherited a \<longleftrightarrow> fa_active a \<or> fa_trusted a \<or> fa_allowlisted a \<or> fa_reconnectable a"

definition inherit_association :: "bytes \<Rightarrow> firstTrustAssociationRecord \<Rightarrow> firstTrustAssociationRecord" where
  "inherit_association lineage a = (if inherited a then deactivate a else a)\<lparr>fa_lineage := lineage\<rparr>"

definition inherit_tombstone :: "bytes \<Rightarrow> uint64 \<Rightarrow> firstTrustAssociationRecord \<Rightarrow> firstTrustRevocationTombstone" where
  "inherit_tombstone operationID epoch a = \<lparr>tb_associationRef = fa_reference a, tb_revocationEpoch = epoch,
     tb_operationID = operationID, tb_effectiveGeneration = generation_zero\<rparr>"

definition repair_receipt :: "firstTrustRepairRequest \<Rightarrow> bytes \<Rightarrow> string \<Rightarrow> firstTrustDurableReceipt" where
  "repair_receipt request binding result = \<lparr>rc_operationID = rp_operationID request, rc_operationClass = rp_kind request,
     rc_bindingSHA256 = binding, rc_result = result, rc_terminal = True\<rparr>"

definition repair_base :: "'w ftc \<Rightarrow> firstTrustRepairRequest \<Rightarrow> firstTrustControlRecord" where
  "repair_base c request = (bump (control c))\<lparr>cr_repairSequence := rp_nextRepairSequence request\<rparr>"

text \<open>The repair that takes nothing over: the quarantine of a scope is released.\<close>

definition release_target :: "'w ftc \<Rightarrow> firstTrustRepairRequest \<Rightarrow> firstTrustControlRecord option" where
  "release_target c request =
     (case firstTrustQuarantineLocked c (rp_scope request) of
        None \<Rightarrow> None
      | Some (index, q) \<Rightarrow> Some ((repair_base c request)\<lparr>cr_quarantines := (cr_quarantines (control c))
          [index := q\<lparr>qr_state := ''RETRY_READY'', qr_remainingDelay := 0,
            qr_lastControlEpoch := cr_controlEpoch (repair_base c request)\<rparr>]\<rparr>))"

text \<open>The instance of the store a repair publishes; \<open>None\<close> when randomness fails.\<close>

definition repaired_instance :: "'w ftdeps \<Rightarrow> 'w ftc \<Rightarrow> string \<Rightarrow> ('w, bytes option) top" where
  "repaired_instance deps c kind =
     (if kind = ''adopt_copied_current'' then give (Some (ar_storeInstance (co_anchorRecord c)))
      else if kind = ''recover_unavailable_host_key'' \<and> cr_storeInstance (control c) = zero32 then firstTrustReadOrdinal deps
      else give (Some (cr_storeInstance (control c))))"

definition prepareFirstTrustRepairLocked ::
  "'w ftdeps \<Rightarrow> firstTrustRepairRequest \<Rightarrow> bytes \<Rightarrow> ('w, (firstTrustControlView \<times> firstTrustControlRecord) option) top" where
  "prepareFirstTrustRepairLocked deps request binding = do {
     c \<leftarrow> peek (\<lambda>c. c);
     let view = co_controlView c;
         receipted = (\<lambda>working target. map_option (\<lambda>t. (working, t))
           (firstTrustAppendReceipt target (repair_receipt request binding ''repaired_unpaired''))) in
     if cr_controlEpoch (control c) = - 1 \<or> length (cr_receipts (control c)) \<ge> firstTrustMaximumDurableReceipts then give None
     else if rp_kind request = ''release_retry_quarantine'' then
       give (case release_target c request of None \<Rightarrow> None | Some target \<Rightarrow> receipted view target)
     else do {
       chosen \<leftarrow> firstTrustReadOrdinal deps;
       case chosen of
         None \<Rightarrow> give None
       | Some lineage \<Rightarrow> do {
           inst \<leftarrow> repaired_instance deps c (rp_kind request);
           let source = (if rp_kind request = ''publish_inactive_parent'' then cv_parentAssociations view else cv_associations view) in
           give (case inst of
               None \<Rightarrow> None
             | Some storeInstance \<Rightarrow>
                 if length (cr_tombstones (control c)) + length (filter inherited source) > firstTrustMaximumTombstones then None
                 else receipted (view\<lparr>cv_associations := map (inherit_association lineage) source\<rparr>)
                   ((repair_base c request)\<lparr>cr_associationLineage := lineage, cr_storeInstance := storeInstance,
                      cr_tombstones := cr_tombstones (control c) @
                        map (inherit_tombstone (rp_operationID request) (cr_controlEpoch (repair_base c request)))
                          (filter inherited source)\<rparr>))
         }
     }
   }"

text \<open>The host key is replaced: a new identity and a new anchor, before anything is published.\<close>

definition replace_host_key ::
  "'w ftdeps \<Rightarrow> 'w firstTrustAnchorProvider \<Rightarrow> ctx \<Rightarrow> firstTrustControlRecord \<Rightarrow>
     ('w, (firstTrustControlRecord \<times> firstTrustAnchorRecord) option) top" where
  "replace_host_key deps an ctx target = do {
     identity \<leftarrow> (case d_identityProvider deps of
         None \<Rightarrow> give (Some target)
       | Some f \<Rightarrow> do {
           (identity, outcome) \<leftarrow> call (f ctx);
           give (if outcome \<noteq> ''identity_durable'' then None else Some (target\<lparr>cr_replacementIdentity := Some identity\<rparr>))
         });
     case identity of
       None \<Rightarrow> give None
     | Some t \<Rightarrow> do {
         (created, outcome) \<leftarrow> call (AnchorCreate an ctx firstTrustAnchorVersion (cr_storeInstance t));
         give (if outcome \<noteq> ''anchor_durable'' then None else Some (t, created))
       }
   }"

definition repair_operation :: "firstTrustRepairRequest \<Rightarrow> bytes \<Rightarrow> firstTrustRecoveryOperation" where
  "repair_operation request binding =
     \<lparr>ro_operationID = rp_operationID request, ro_operationClass = rp_kind request, ro_bindingSHA256 = binding\<rparr>"

definition publish_repair ::
  "'w ftdeps \<Rightarrow> 'w firstTrustControlPersistence \<Rightarrow> 'w firstTrustAnchorProvider \<Rightarrow> ctx \<Rightarrow> firstTrustRepairRequest \<Rightarrow>
     firstTrustControlView \<Rightarrow> firstTrustControlRecord \<Rightarrow> firstTrustControlView \<Rightarrow> firstTrustAnchorRecord \<Rightarrow> ('w, string) top" where
  "publish_repair deps st an ctx request working target selected anchor = do {
     bound \<leftarrow> firstTrustBindEffectiveGeneration st ctx working target (rp_operationID request) (rp_kind request);
     (publication, outcome, anchor') \<leftarrow> publishFirstTrustControl st an ctx working bound (rp_operationID request) (rp_kind request)
       selected anchor;
     d_others deps;
     poke (\<lambda>c. c\<lparr>co_anchorRecord := anchor'\<rparr>);
     end_operation;
     result \<leftarrow> (if outcome = ''durable'' then do {
         poke (\<lambda>c. c\<lparr>co_controlView := pr_target publication, co_phase := firstTrustPairingClosed, co_recovery := ''UNPAIRED_LOCKED'',
           co_recoveryReasonCode := [], co_trustedRemotes := []\<rparr>);
         give ''repaired_unpaired''
       }
       else if outcome = ''unknown'' then do {poke quarantine_unknown; give ''repair_outcome_unknown''}
       else give ''failed_closed_unchanged'');
     unlock_and_notify deps;
     give result
   }"

definition repair_started ::
  "'w ftdeps \<Rightarrow> 'w firstTrustControlPersistence \<Rightarrow> 'w firstTrustAnchorProvider \<Rightarrow> ctx \<Rightarrow> firstTrustRepairRequest \<Rightarrow> bytes \<Rightarrow>
     firstTrustControlView \<Rightarrow> firstTrustControlRecord \<Rightarrow> ('w, string) top" where
  "repair_started deps st an ctx request binding working target = do {
     poke (\<lambda>c. c\<lparr>co_recoveryOperation := Some (repair_operation request binding)\<rparr>);
     selected \<leftarrow> peek co_controlView;
     anchor \<leftarrow> peek co_anchorRecord;
     unlocked deps;
     replaced \<leftarrow> (if rp_kind request = ''recover_unavailable_host_key'' then replace_host_key deps an ctx target
       else give (Some (target, anchor)));
     case replaced of
       None \<Rightarrow> do {
         d_others deps;
         poke (\<lambda>c. c\<lparr>co_recoveryOperation := None, co_phase := firstTrustDisabled, co_recovery := ''QUARANTINED'',
           co_recoveryReasonCode := ''DURABILITY_UNKNOWN''\<rparr>);
         unlock_and_notify deps;
         give ''repair_outcome_unknown''
       }
     | Some (t, a) \<Rightarrow> publish_repair deps st an ctx request working t selected a
   }"

subsection \<open>Reconciliation\<close>

text \<open>What the store selected decides what becomes of the pending publication: the result and the new anchor.\<close>

definition resolve_pending ::
  "'w firstTrustControlPersistence \<Rightarrow> 'w firstTrustAnchorProvider \<Rightarrow> ctx \<Rightarrow> firstTrustAnchorRecord \<Rightarrow>
     firstTrustPendingPublication \<Rightarrow> ('w, string \<times> bool \<times> firstTrustAnchorRecord) top" where
  "resolve_pending st an ctx anchor p = do {
     observation \<leftarrow> call (ObserveControlPublication st ctx p);
     if observation = ''exact_target_selected'' then do {
       finalized \<leftarrow> call (CompareAndFinalize an ctx p);
       give (if finalized = ''anchor_durable''
         then (''operation_terminal'', True, anchor\<lparr>ar_manifestGenerationHighWater := gb_sequence (mb_current (pb_targetManifest p)),
                 ar_controlEpochHighWater := pb_targetControlEpoch p, ar_pending := None\<rparr>)
         else (''repair_outcome_unknown'', False, anchor))
     }
     else if observation = ''exact_previous_selected_and_target_absent'' then do {
       cleared \<leftarrow> call (CompareAndClear an ctx p);
       give (if cleared = ''anchor_durable'' then (''failed_closed_unchanged'', True, anchor\<lparr>ar_pending := None\<rparr>)
         else (''repair_outcome_unknown'', False, anchor))
     }
     else give (''repair_outcome_unknown'', False, anchor)
   }"

text \<open>The receipt of the reconciliation is published in its turn; the answer is whether it is durable, and the anchor.\<close>

definition publish_resolution ::
  "'w ftdeps \<Rightarrow> 'w firstTrustControlPersistence \<Rightarrow> 'w firstTrustAnchorProvider \<Rightarrow> ctx \<Rightarrow> firstTrustRepairRequest \<Rightarrow> bytes \<Rightarrow> string \<Rightarrow>
     firstTrustAnchorRecord \<Rightarrow> ('w, bool \<times> firstTrustAnchorRecord) top" where
  "publish_resolution deps st an ctx request binding result anchor = do {
     c \<leftarrow> peek (\<lambda>c. c);
     if cr_controlEpoch (control c) = - 1 \<or> length (cr_receipts (control c)) \<ge> firstTrustMaximumDurableReceipts
     then do {mu_Unlock; give (False, anchor)}
     else (case firstTrustAppendReceipt (repair_base c request) (repair_receipt request binding result) of
         None \<Rightarrow> do {mu_Unlock; give (False, anchor)}
       | Some target \<Rightarrow> do {
           unlocked deps;
           (publication, outcome, anchor') \<leftarrow> publishFirstTrustControl st an ctx (co_controlView c) target (rp_operationID request)
             (rp_kind request) (co_controlView c) anchor;
           d_others deps;
           if outcome = ''durable'' then do {
             poke (\<lambda>c. c\<lparr>co_controlView := pr_target publication, co_storeGeneration := sequence_of (pr_target publication)\<rparr>);
             mu_Unlock;
             give (True, anchor')
           }
           else give (False, anchor')
         })
   }"

definition reconcileFirstTrustPublication ::
  "'w ftdeps \<Rightarrow> 'w firstTrustControlPersistence \<Rightarrow> 'w firstTrustAnchorProvider \<Rightarrow> ctx \<Rightarrow> firstTrustRepairRequest \<Rightarrow> bytes \<Rightarrow>
     ('w, string) top" where
  "reconcileFirstTrustPublication deps st an ctx request binding = do {
     anchor \<leftarrow> peek co_anchorRecord;
     unlocked deps;
     case ar_pending anchor of
       None \<Rightarrow> do {end_operation; mu_Unlock; give ''repair_conflict''}
     | Some p \<Rightarrow> do {
         (result, resolved, anchor1) \<leftarrow> resolve_pending st an ctx anchor p;
         d_others deps;
         (durable, anchor2) \<leftarrow> (if resolved then publish_resolution deps st an ctx request binding result anchor1
           else give (False, anchor1));
         d_others deps;
         end_operation;
         poke (\<lambda>c. c\<lparr>co_anchorRecord := anchor2\<rparr>);
         poke (\<lambda>c. if durable then c\<lparr>co_phase := firstTrustPairingClosed, co_recovery := ''UNPAIRED_LOCKED'', co_recoveryReasonCode := []\<rparr>
           else c\<lparr>co_phase := firstTrustDisabled, co_recovery := ''QUARANTINED'', co_recoveryReasonCode := ''DURABILITY_UNKNOWN''\<rparr>);
         unlock_and_notify deps;
         give result
       }
   }"

text \<open>Why a repair is refused; empty when it is not.\<close>

definition repair_refused :: "'w ftc \<Rightarrow> firstTrustRepairRequest \<Rightarrow> bytes \<Rightarrow> string" where
  "repair_refused c request binding =
     (if reconciliationRequiredLocked c \<and> rp_kind request \<noteq> ''reconcile_pending_publication'' then ''reconciliation_required''
      else case firstTrustOperationReplayLocked c (rp_operationID request) (rp_kind request) binding of
        Some result \<Rightarrow> result
      | None \<Rightarrow>
          if rp_nextRepairSequence request \<le> cr_repairSequence (control c) then ''idempotency_expired''
          else if \<not> firstTrustRepairRequestMatchesLocked c request then ''repair_conflict''
          else if rp_kind request \<noteq> ''reconcile_pending_publication'' \<and> \<not> firstTrustRepairApplicableLocked c request
          then ''repair_conflict''
          else [])"

definition repair_locked ::
  "'w ftdeps \<Rightarrow> 'w firstTrustControlPersistence \<Rightarrow> 'w firstTrustAnchorProvider \<Rightarrow> ctx \<Rightarrow> firstTrustRepairRequest \<Rightarrow> ('w, string) top" where
  "repair_locked deps st an ctx request =
     (let binding = firstTrustHashRepair (d_sha256 deps) request in do {
      closeVolatileFirstTrustLocked deps;
      refused \<leftarrow> peek (\<lambda>c. repair_refused c request binding);
      if refused \<noteq> [] then do {mu_Unlock; give refused}
      else if rp_kind request = ''reconcile_pending_publication'' then do {
        poke (\<lambda>c. c\<lparr>co_recoveryOperation := Some (repair_operation request binding)\<rparr>);
        unlocked deps;
        reconcileFirstTrustPublication deps st an ctx request binding
      }
      else do {
        prepared \<leftarrow> prepareFirstTrustRepairLocked deps request binding;
        case prepared of
          None \<Rightarrow> do {mu_Unlock; give ''repair_conflict''}
        | Some (working, target) \<Rightarrow> repair_started deps st an ctx request binding working target
      }
   })"

definition repair :: "'w ftdeps \<Rightarrow> ctx \<Rightarrow> firstTrustRepairRequest \<Rightarrow> ('w, string) top" where
  "repair deps ctx request = do {
     cancelled \<leftarrow> call (d_ctxErr deps ctx);
     if cancelled then give ''request_cancelled''
     else if \<not> firstTrustRepairKindAllowed (rp_kind request) then give ''repair_conflict''
     else (case (d_recoveryStore deps, d_anchor deps) of
         (Some st, Some an) \<Rightarrow> repair_locked deps st an ctx request
       | _ \<Rightarrow> do {mu_Unlock; give ''mutation_disabled''})
   }"

end
