(* ===== verification/TrustFrames.thy ===== *)
theory TrustFrames
  imports TrustPairing
begin

text \<open>
  Much of what the trust coordinator does is bookkeeping: answers kept for replay, timers, the
  queue of effects, selections, the pairing window, the projection. A predicate that the
  bookkeeping leaves alone is kept by all those operations, provided the goroutines that run
  while the lock is given up keep it. The properties of the coordinator use this once per
  predicate.
\<close>

subsection \<open>The interface\<close>

text \<open>The two states differ in bookkeeping fields only.\<close>

definition same_core :: "'w ftc \<Rightarrow> 'w ftc \<Rightarrow> bool" where
  "same_core c c' \<longleftrightarrow>
     co_trace c' = co_trace c \<and> co_pendingEffects c' = co_pendingEffects c \<and>
     co_effectQueue c' = co_effectQueue c \<and> co_currentCandidate c' = co_currentCandidate c \<and>
     co_trustedRemotes c' = co_trustedRemotes c \<and> co_storeGeneration c' = co_storeGeneration c \<and>
     co_inflight c' = co_inflight c \<and> co_commitToken c' = co_commitToken c \<and>
     co_commitFence c' = co_commitFence c \<and> co_recovery c' = co_recovery c \<and>
     co_recoveryReasonCode c' = co_recoveryReasonCode c \<and> co_controlView c' = co_controlView c \<and>
     co_anchorRecord c' = co_anchorRecord c \<and> co_retryArms c' = co_retryArms c \<and>
     co_retryInflight c' = co_retryInflight c \<and> co_recoveryOperation c' = co_recoveryOperation c \<and>
     co_outgoingAttemptContexts c' = co_outgoingAttemptContexts c \<and>
     co_outgoingAttemptReservationOrder c' = co_outgoingAttemptReservationOrder c \<and>
     co_outgoingAttemptCancellationGeneration c' = co_outgoingAttemptCancellationGeneration c"

text \<open>The effects that make a remote a partner of the transport.\<close>

definition partner_kind :: "firstTrustEffectKind \<Rightarrow> bool" where
  "partner_kind k \<longleftrightarrow> k = firstTrustEffectRegister \<or> k = firstTrustEffectTransientRegister \<or> k = firstTrustEffectTransientFinalize"

locale bookkeeping =
  fixes I :: "'w ftc \<Rightarrow> bool"
  assumes core: "same_core c c' \<Longrightarrow> I c \<Longrightarrow> I c'"
    and forget: "I c \<Longrightarrow> I (c\<lparr>co_currentCandidate := None\<rparr>)"
    and flagged: "I c \<Longrightarrow> co_currentCandidate c = Some ca \<Longrightarrow>
      I (c\<lparr>co_currentCandidate := Some (ca\<lparr>ca_transientRevocationQueued := True\<rparr>)\<rparr>)"
    and withdrawn: "I c \<Longrightarrow> I (c\<lparr>co_recovery := ''QUARANTINED'', co_recoveryReasonCode := reason, co_trustedRemotes := []\<rparr>)"
    and effect: "\<not> partner_kind k \<Longrightarrow> keeps I (queue_effect k r n)"
    and unlock: "keeps I mu_Unlock"
begin

lemma fields:
  "I c \<Longrightarrow> I (c\<lparr>co_world := x0\<rparr>)"
  "I c \<Longrightarrow> I (c\<lparr>co_effectsPresent := x1\<rparr>)"
  "I c \<Longrightarrow> I (c\<lparr>co_phase := x2\<rparr>)"
  "I c \<Longrightarrow> I (c\<lparr>co_window := x3\<rparr>)"
  "I c \<Longrightarrow> I (c\<lparr>co_replays := x4\<rparr>)"
  "I c \<Longrightarrow> I (c\<lparr>co_retired := x5\<rparr>)"
  "I c \<Longrightarrow> I (c\<lparr>co_replaySequence := x6\<rparr>)"
  "I c \<Longrightarrow> I (c\<lparr>co_timer := x7\<rparr>)"
  "I c \<Longrightarrow> I (c\<lparr>co_timerToken := x8\<rparr>)"
  "I c \<Longrightarrow> I (c\<lparr>co_retentionTimer := x9\<rparr>)"
  "I c \<Longrightarrow> I (c\<lparr>co_retentionToken := x10\<rparr>)"
  "I c \<Longrightarrow> I (c\<lparr>co_pairingRegistrationKnown := x11\<rparr>)"
  "I c \<Longrightarrow> I (c\<lparr>co_pairingRegistrationEnabled := x12\<rparr>)"
  "I c \<Longrightarrow> I (c\<lparr>co_pairingRegistrationFault := x13\<rparr>)"
  "I c \<Longrightarrow> I (c\<lparr>co_candidateQueuer := x14\<rparr>)"
  "I c \<Longrightarrow> I (c\<lparr>co_candidateSelectionRequired := x15\<rparr>)"
  "I c \<Longrightarrow> I (c\<lparr>co_discoveredCandidates := x16\<rparr>)"
  "I c \<Longrightarrow> I (c\<lparr>co_candidateSnapshotState := x17\<rparr>)"
  "I c \<Longrightarrow> I (c\<lparr>co_candidateSnapshotInvalidReason := x18\<rparr>)"
  "I c \<Longrightarrow> I (c\<lparr>co_candidateSnapshotRevision := x19\<rparr>)"
  "I c \<Longrightarrow> I (c\<lparr>co_candidateSelection := x20\<rparr>)"
  "I c \<Longrightarrow> I (c\<lparr>co_reopening := x21\<rparr>)"
  "I c \<Longrightarrow> I (c\<lparr>co_trustAdminProjection := x22\<rparr>)"
  "I c \<Longrightarrow> I (c\<lparr>co_trustAdminRevision := x23\<rparr>)"
  by (auto elim: core [rotated] simp: same_core_def)

lemmas changes = fields forget withdrawn

lemma calls: "keeps I (call f)"
  by (auto simp: keeps_def intro: fields split: prod.splits)

lemma pokes: "(\<And>c. I c \<Longrightarrow> I (f c)) \<Longrightarrow> keeps I (poke f)"
  by (simp add: keeps_def)

lemma effects: "keeps I (cancelRemoteLocked r n)" "keeps I (cancelUnboundRemoteLocked r)"
  by (simp_all add: cancelRemoteLocked_def cancelUnboundRemoteLocked_def effect partner_kind_def)

lemma unlocked_keeps: "keeps I (d_others deps) \<Longrightarrow> keeps I (unlocked deps)"
  unfolding unlocked_def by (intro keeps_rules unlock)

lemma revocation_queued: "keeps I revokeTransientTrustLocked"
  unfolding keeps_def revokeTransientTrustLocked_def
  by (auto split: option.splits intro: flagged keepsD [OF effect] simp: partner_kind_def)

subsection \<open>Bookkeeping\<close>

lemma timers:
  "keeps I stopRetentionTimerLocked"
  "keeps I stopTimerLocked"
  "keeps I cancel_current_remote"
  "keeps I cancelCandidateSelectionLocked"
  unfolding stopRetentionTimerLocked_def stopTimerLocked_def cancel_current_remote_def
    cancelCandidateSelectionLocked_def Let_def
  by (intro calls pokes effects unlock unlocked_keeps revocation_queued keeps_rules; auto intro: changes split: option.splits)+

lemmas steps1 = timers calls pokes effects unlock unlocked_keeps revocation_queued

lemma schedules:
  "keeps I (scheduleRetentionExpiryLocked deps)"
  "keeps I (scheduleExpiryLocked deps deadline)"
  "keeps I (finishCandidateSelectionLocked outcome cancel)"
  unfolding scheduleRetentionExpiryLocked_def scheduleExpiryLocked_def finishCandidateSelectionLocked_def Let_def
  by (intro steps1 keeps_rules; auto intro: changes split: option.splits)+

lemmas steps2 = schedules steps1

lemma prunes:
  "keeps I (pruneReplaysLocked deps now)"
  "keeps I (resetCandidateDiscoveryLocked state)"
  "keeps I failPairingRegistrationLocked"
  "keeps I (pairingRegistrationInitialized value)"
  unfolding pruneReplaysLocked_def resetCandidateDiscoveryLocked_def failPairingRegistrationLocked_def
    pairingRegistrationInitialized_def Let_def
  by (intro steps2 keeps_rules; auto intro: changes split: option.splits)+

lemmas steps3 = prunes steps2

lemma replays:
  "keeps I (recordReplayLocked deps key request result now)"
  "keeps I (replayLocked deps key request now)"
  "keeps I (retention_fired deps token)"
  "keeps I pairingRegistrationFailed"
  "keeps I (d_others deps) \<Longrightarrow> keeps I (setWaitingLocked deps value)"
  unfolding recordReplayLocked_def replayLocked_def retention_fired_def pairingRegistrationFailed_def
    setWaitingLocked_def Let_def
  by (intro steps3 keeps_rules; auto intro: changes split: option.splits)+

lemmas steps4 = replays steps3

lemma requests:
  "keeps I (finish_requests deps included result now)"
  unfolding finish_requests_def Let_def
  by (intro steps4 keeps_rules; auto intro: changes split: option.splits)+

lemmas steps5 = requests steps4

lemma finishes:
  "keeps I (finishCandidateRequestsLocked deps result now)"
  "keeps I (finishCandidateRequestsExceptLocked deps excluded result now)"
  unfolding finishCandidateRequestsLocked_def finishCandidateRequestsExceptLocked_def Let_def
  by (intro steps5 keeps_rules; auto intro: changes split: option.splits)+

lemmas steps6 = finishes steps5

lemma closings:
  "keeps I (d_others deps) \<Longrightarrow> keeps I (closeWindowLocked deps result now cancelCandidate)"
  unfolding closeWindowLocked_def Let_def
  by (intro steps6 keeps_rules; auto intro: changes split: option.splits)+

lemmas steps7 = closings steps6

lemma reopenings:
  "keeps I (d_others deps) \<Longrightarrow> keeps I (reopen_or_close deps now)"
  unfolding reopen_or_close_def Let_def
  by (intro steps7 keeps_rules; auto intro: changes split: option.splits)+

lemmas steps8 = reopenings steps7

lemma expirations:
  "keeps I (d_others deps) \<Longrightarrow> keeps I (expire_candidate deps now)"
  "keeps I (d_others deps) \<Longrightarrow> keeps I (finishTransientCandidateLocked deps result now cancel)"
  unfolding expire_candidate_def finishTransientCandidateLocked_def Let_def
  by (intro steps8 keeps_rules; auto intro: changes split: option.splits)+

lemmas steps9 = expirations steps8

lemma expiry:
  "keeps I (d_others deps) \<Longrightarrow> keeps I (expireLocked deps now)"
  unfolding expireLocked_def Let_def
  by (intro steps9 keeps_rules; auto intro: changes split: option.splits)+

lemmas steps10 = expiry steps9

lemma expiries:
  "keeps I (d_others deps) \<Longrightarrow> keeps I (expire_now deps)"
  "keeps I (d_others deps) \<Longrightarrow> keeps I (expiry_fired deps token deadline)"
  unfolding expire_now_def expiry_fired_def Let_def
  by (intro steps10 keeps_rules; auto intro: changes split: option.splits)+

lemmas steps11 = expiries steps10

subsection \<open>Projection and publication\<close>

lemma projections:
  "keeps I (record_projection binding projection)"
  "keeps I (firstTrustReadOrdinal deps)"
  unfolding record_projection_def firstTrustReadOrdinal_def Let_def
  by (intro steps11 keeps_rules; auto intro: changes split: option.splits)+

lemmas steps12 = projections steps11

lemma notifications:
  "keeps I (notifyTrustAdminProjection deps)"
  "keeps I (unlockAndNotifyTrustAdminProjectionChange deps)"
  "keeps I (bindTrustAdminProjection deps remotes)"
  "keeps I (publish_staged st an ctx publication anchor)"
  "keeps I (selectedFirstTrustGenerationLocked deps)"
  "keeps I (association_ordinals deps revoked lineage)"
  unfolding notifyTrustAdminProjection_def unlockAndNotifyTrustAdminProjectionChange_def bindTrustAdminProjection_def
    publish_staged_def selectedFirstTrustGenerationLocked_def association_ordinals_def Let_def
  by (intro steps12 keeps_rules; auto intro: changes split: option.splits)+

lemmas steps13 = notifications steps12

lemma publications:
  "keeps I (publishFirstTrustControl st an ctx working target operationID operationClass selected anchor)"
  "keeps I (d_others deps) \<Longrightarrow> keeps I (closeVolatileFirstTrustLocked deps)"
  unfolding publishFirstTrustControl_def closeVolatileFirstTrustLocked_def Let_def
  by (intro steps13 keeps_rules; auto intro: changes split: option.splits)+

lemmas steps14 = publications steps13

subsection \<open>Windows\<close>

lemma answers:
  "keeps I (d_others deps) \<Longrightarrow> keeps I (await_confirmation deps ctx key request)"
  "keeps I (d_others deps) \<Longrightarrow> keeps I (open_window deps key duration now)"
  "keeps I (d_others deps) \<Longrightarrow> keeps I (close_locked deps key)"
  "keeps I (d_others deps) \<Longrightarrow> keeps I (cancel_candidate deps key request now)"
  "keeps I (d_others deps) \<Longrightarrow> keeps I (candidate deps)"
  "keeps I (d_others deps) \<Longrightarrow> keeps I (coordinator_state deps)"
  "keeps I (trusted remote)"
  "keeps I (turn_away remote connection result)"
  unfolding await_confirmation_def open_window_def close_locked_def cancel_candidate_def candidate_def
    coordinator_state_def trusted_def turn_away_def Let_def
  by (intro steps14 keeps_rules; auto intro: changes split: option.splits)+

lemmas steps15 = answers steps14

lemma windows:
  "keeps I (d_others deps) \<Longrightarrow> keeps I (openPairingWindowLocked deps key duration)"
  "keeps I (d_others deps) \<Longrightarrow> keeps I (closePairingWindow deps ctx key)"
  unfolding openPairingWindowLocked_def closePairingWindow_def Let_def
  by (intro steps15 keeps_rules; auto intro: changes split: option.splits)+

lemmas steps16 = windows steps15

lemma openings:
  "keeps I (d_others deps) \<Longrightarrow> keeps I (openPairingWindow deps ctx key duration)"
  unfolding openPairingWindow_def Let_def
  by (intro steps16 keeps_rules; auto intro: changes split: option.splits)+

lemmas all_steps = openings steps16

end

subsection \<open>Commits\<close>

text \<open>
  A commit moves its remote into trust. A predicate that allows this for the remotes in \<open>P\<close>, and
  that does not read the fields a commit changes, is kept by a commit of such a remote.
\<close>

locale committing = bookkeeping I for I :: "'w ftc \<Rightarrow> bool" +
  fixes P :: "bytes \<Rightarrow> bool"
  assumes partner: "P r \<Longrightarrow> k \<noteq> firstTrustEffectTransientRegister \<Longrightarrow> keeps I (queue_effect k r n)"
    and trust: "P r \<Longrightarrow> keeps I (trust_remote r shipID)"
    and committed:
      "I c \<Longrightarrow> I (c\<lparr>co_storeGeneration := x1\<rparr>)"
      "I c \<Longrightarrow> I (c\<lparr>co_inflight := x2\<rparr>)"
      "I c \<Longrightarrow> I (c\<lparr>co_commitToken := x3\<rparr>)"
      "I c \<Longrightarrow> I (c\<lparr>co_commitFence := x4\<rparr>)"
      "I c \<Longrightarrow> I (c\<lparr>co_recoveryOperation := x5\<rparr>)"
      "I c \<Longrightarrow> I (c\<lparr>co_anchorRecord := x6\<rparr>)"
      "I c \<Longrightarrow> I (c\<lparr>co_controlView := x7\<rparr>)"
      "I c \<Longrightarrow> I (c\<lparr>co_recovery := x8\<rparr>)"
      "I c \<Longrightarrow> I (c\<lparr>co_recoveryReasonCode := x9\<rparr>)"
      "I c \<Longrightarrow> I (c\<lparr>co_trustedRemotes := []\<rparr>)"
begin

lemma registrations:
  "P r \<Longrightarrow> keeps I (registerRemoteLocked r n)"
  "P r \<Longrightarrow> keeps I (finalizeTransientRemoteLocked r n)"
  unfolding registerRemoteLocked_def finalizeTransientRemoteLocked_def by (auto intro: partner)

lemmas commit_rules = registrations trust all_steps

lemma quarantined: "I c \<Longrightarrow> I (quarantine_unknown c)"
  by (auto simp: quarantine_unknown_def intro: committed changes)

lemma commit_steps:
  "P (cm_remote commit) \<Longrightarrow> keeps I (settle_remote commit result transient)"
  "P (cm_remote commit) \<Longrightarrow> keeps I (apply_outcome st commit outcome)"
  "P (cm_remote commit) \<Longrightarrow> keeps I (apply_publication commit previous outcome)"
  "keeps I (begin_commit key request remote shipID connection generation)"
  "keeps I commit_settled"
  unfolding settle_remote_def apply_outcome_def apply_publication_def begin_commit_def commit_settled_def Let_def
  by (intro commit_rules keeps_rules; auto intro: committed changes quarantined)+

lemma commit_ends:
  "keeps I (d_others deps) \<Longrightarrow> P (cm_remote commit) \<Longrightarrow> keeps I (finishCommit deps plain commit outcome)"
  "keeps I (d_others deps) \<Longrightarrow> keeps I (commit_timed_out deps commit)"
  "keeps I (d_others deps) \<Longrightarrow> P (cm_remote commit) \<Longrightarrow> keeps I (finishRecoveryConfirmationLocked deps commit previous outcome)"
  "keeps I (d_others deps) \<Longrightarrow> keeps I (publish_confirmation deps st an ctx commit operationID lineage reference)"
  unfolding finishCommit_def commit_timed_out_def finishRecoveryConfirmationLocked_def publish_confirmation_def Let_def
  by (intro commit_steps commit_rules keeps_rules; auto intro: committed changes)+

lemma confirmations:
  "keeps I (d_others deps) \<Longrightarrow> P (cm_remote commit) \<Longrightarrow> keeps I (confirmWithRecoveryLocked deps st ctx commit)"
  unfolding confirmWithRecoveryLocked_def Let_def
  by (intro commit_ends commit_rules keeps_rules; auto)

lemma executions:
  "keeps I (d_others deps) \<Longrightarrow> P (cm_remote commit) \<Longrightarrow> keeps I (executeCommit deps ctx commit)"
  unfolding executeCommit_def by (intro confirmations commit_ends commit_rules keeps_rules; auto)

lemma unlocked_commits:
  "keeps I (d_others deps) \<Longrightarrow> (\<And>cm. fst begun = Some cm \<Longrightarrow> P (cm_remote cm)) \<Longrightarrow>
     keeps I (commit_unlocked deps background begun)"
  unfolding commit_unlocked_def by (intro executions commit_rules keeps_rules; auto)

lemmas all_commits = commit_steps commit_ends confirmations executions unlocked_commits

end

end
