(* ===== verification/TrustHonesty.thy ===== *)
theory TrustHonesty
  imports TrustRevocation TrustFrames
begin

text \<open>
  Nothing is trusted without a confirmation. The history of the coordinator records the
  confirmations that matched a candidate, the remotes that became trusted by a commit and those
  that were loaded at a start; \<open>honest\<close> relates it to the state: whoever is trusted was loaded or
  confirmed, whoever is handed to the transport as a partner was confirmed. Every operation keeps
  it, provided the goroutines that run meanwhile do.
\<close>

subsection \<open>The invariant\<close>

definition confirmed :: "trust_event list \<Rightarrow> bytes set" where
  "confirmed t = {r. \<exists>q. EvConfirmed r q \<in> set t \<and> constantTimeFingerprintMatch (rq_fingerprint q) r}"

definition loaded :: "trust_event list \<Rightarrow> bytes set" where
  "loaded t = {r. EvLoaded r \<in> set t}"

text \<open>A remote becomes trusted after a confirmation only.\<close>

definition events_ok :: "trust_event list \<Rightarrow> bool" where
  "events_ok t \<longleftrightarrow> (\<forall>pre r post. t = pre @ EvTrusted r # post \<longrightarrow> r \<in> confirmed pre)"

definition honest :: "bytes set \<Rightarrow> 'w ftc \<Rightarrow> bool" where
  "honest R c \<longleftrightarrow>
     R \<subseteq> confirmed (co_trace c) \<and> events_ok (co_trace c) \<and>
     fst ` set (co_trustedRemotes c) \<subseteq> confirmed (co_trace c) \<union> loaded (co_trace c) \<and>
     (\<forall>e \<in> set (co_pendingEffects c) \<union> set (co_effectQueue c). partner_kind (ef_kind e) \<longrightarrow> ef_remote e \<in> confirmed (co_trace c)) \<and>
     (\<forall>ca. co_currentCandidate c = Some ca \<and> ca_transientAuthorized ca \<longrightarrow> ca_remote ca \<in> confirmed (co_trace c))"

definition others_honest :: "'w ftdeps \<Rightarrow> bool" where
  "others_honest deps \<longleftrightarrow> (\<forall>R. keeps (honest R) (d_others deps))"

lemma confirmed_simps [simp]:
  "confirmed [] = {}"
  "confirmed (t @ [EvTrusted r]) = confirmed t"
  "confirmed (t @ [EvLoaded r]) = confirmed t"
  by (auto simp: confirmed_def)

lemma confirmed_confirm:
  "constantTimeFingerprintMatch (rq_fingerprint q) r \<Longrightarrow> confirmed (t @ [EvConfirmed r q]) = insert r (confirmed t)"
  by (auto simp: confirmed_def)

lemma loaded_simps [simp]:
  "loaded [] = {}"
  "loaded (t @ [EvTrusted r]) = loaded t"
  "loaded (t @ [EvConfirmed r q]) = loaded t"
  "loaded (t @ [EvLoaded r]) = insert r (loaded t)"
  by (auto simp: loaded_def)

lemma snoc_split: "t @ [x] = pre @ y # post \<longleftrightarrow>
    post = [] \<and> t = pre \<and> x = y \<or> (\<exists>post'. post = post' @ [x] \<and> t = pre @ y # post')"
  by (cases post rule: rev_cases) (auto simp flip: append_Cons append_assoc)

lemma events_ok_simps [simp]:
  "events_ok []"
  "events_ok (t @ [EvConfirmed r q]) = events_ok t"
  "events_ok (t @ [EvLoaded r]) = events_ok t"
  "events_ok (t @ [EvTrusted r]) \<longleftrightarrow> events_ok t \<and> r \<in> confirmed t"
  by (auto simp: events_ok_def snoc_split)

lemma put_keys: "fst ` set (go_put k v m) \<subseteq> insert k (fst ` set m)"
  by (induction m) auto

lemma delete_keys: "fst ` set (go_delete k m) \<subseteq> fst ` set m"
  by (auto simp: AList.delete_eq)

subsection \<open>Steps\<close>

named_theorems honest_rules "programs that keep honesty"

declare keeps_return [honest_rules] keeps_bind [honest_rules] keeps_if [honest_rules] keeps_option [honest_rules]
  keeps_sum [honest_rules] keeps_prod [honest_rules] keeps_peek [honest_rules] keeps_when [honest_rules]
  keeps_each [honest_rules] keeps_poke [honest_rules]

lemma keeps_list [honest_rules]:
  "keeps I m \<Longrightarrow> (\<And>y ys. x = y # ys \<Longrightarrow> keeps I (f y ys)) \<Longrightarrow> keeps I (case x of [] \<Rightarrow> m | y # ys \<Rightarrow> f y ys)"
  by (cases x) auto

lemma keeps_event [honest_rules]:
  "keeps I a \<Longrightarrow> keeps I b \<Longrightarrow> keeps I d \<Longrightarrow>
     keeps I (case e of Acknowledged \<Rightarrow> a | ContextDone \<Rightarrow> b | TimedOut \<Rightarrow> d)"
  by (cases e) auto

lemma wp_keeps: "keeps I m \<Longrightarrow> I s \<Longrightarrow> (\<And>a s'. I s' \<Longrightarrow> Q a s') \<Longrightarrow> wp m Q s"
  by (blast intro: wp_mono keepsD)

lemma honest_call [honest_rules]: "keeps (honest R) (call f)"
  by (rule keeps_call) (simp add: honest_def)

lemma honest_others [honest_rules]: "others_honest deps \<Longrightarrow> keeps (honest R) (d_others deps)"
  by (simp add: others_honest_def)

text \<open>The fields that the invariant does not read.\<close>

lemma honest_simps [simp]:
  "honest R (c\<lparr>co_world := v1\<rparr>) = honest R c"
  "honest R (c\<lparr>co_effectsPresent := v2\<rparr>) = honest R c"
  "honest R (c\<lparr>co_phase := v3\<rparr>) = honest R c"
  "honest R (c\<lparr>co_window := v4\<rparr>) = honest R c"
  "honest R (c\<lparr>co_replays := v5\<rparr>) = honest R c"
  "honest R (c\<lparr>co_retired := v6\<rparr>) = honest R c"
  "honest R (c\<lparr>co_replaySequence := v7\<rparr>) = honest R c"
  "honest R (c\<lparr>co_timer := v8\<rparr>) = honest R c"
  "honest R (c\<lparr>co_timerToken := v9\<rparr>) = honest R c"
  "honest R (c\<lparr>co_retentionTimer := v10\<rparr>) = honest R c"
  "honest R (c\<lparr>co_retentionToken := v11\<rparr>) = honest R c"
  "honest R (c\<lparr>co_pairingRegistrationKnown := v12\<rparr>) = honest R c"
  "honest R (c\<lparr>co_pairingRegistrationEnabled := v13\<rparr>) = honest R c"
  "honest R (c\<lparr>co_pairingRegistrationFault := v14\<rparr>) = honest R c"
  "honest R (c\<lparr>co_candidateQueuer := v15\<rparr>) = honest R c"
  "honest R (c\<lparr>co_candidateSelectionRequired := v16\<rparr>) = honest R c"
  "honest R (c\<lparr>co_discoveredCandidates := v17\<rparr>) = honest R c"
  "honest R (c\<lparr>co_candidateSnapshotState := v18\<rparr>) = honest R c"
  "honest R (c\<lparr>co_candidateSnapshotInvalidReason := v19\<rparr>) = honest R c"
  "honest R (c\<lparr>co_candidateSnapshotRevision := v20\<rparr>) = honest R c"
  "honest R (c\<lparr>co_candidateSelection := v21\<rparr>) = honest R c"
  "honest R (c\<lparr>co_reopening := v22\<rparr>) = honest R c"
  "honest R (c\<lparr>co_trustAdminProjection := v23\<rparr>) = honest R c"
  "honest R (c\<lparr>co_trustAdminRevision := v24\<rparr>) = honest R c"
  "honest R (c\<lparr>co_storeGeneration := v25\<rparr>) = honest R c"
  "honest R (c\<lparr>co_inflight := v26\<rparr>) = honest R c"
  "honest R (c\<lparr>co_commitToken := v27\<rparr>) = honest R c"
  "honest R (c\<lparr>co_commitFence := v28\<rparr>) = honest R c"
  "honest R (c\<lparr>co_recovery := v29\<rparr>) = honest R c"
  "honest R (c\<lparr>co_recoveryReasonCode := v30\<rparr>) = honest R c"
  "honest R (c\<lparr>co_controlView := v31\<rparr>) = honest R c"
  "honest R (c\<lparr>co_anchorRecord := v32\<rparr>) = honest R c"
  "honest R (c\<lparr>co_retryArms := v33\<rparr>) = honest R c"
  "honest R (c\<lparr>co_retryInflight := v34\<rparr>) = honest R c"
  "honest R (c\<lparr>co_recoveryOperation := v35\<rparr>) = honest R c"
  "honest R (c\<lparr>co_outgoingAttemptContexts := v36\<rparr>) = honest R c"
  "honest R (c\<lparr>co_outgoingAttemptReservationOrder := v37\<rparr>) = honest R c"
  "honest R (c\<lparr>co_outgoingAttemptCancellationGeneration := v38\<rparr>) = honest R c"
  by (simp_all add: honest_def)

text \<open>Forgetting trust and candidates.\<close>

lemma honest_forget [simp]:
  "honest R c \<Longrightarrow> honest R (c\<lparr>co_trustedRemotes := []\<rparr>)"
  "honest R c \<Longrightarrow> honest R (c\<lparr>co_currentCandidate := None\<rparr>)"
  "honest R c \<Longrightarrow> honest R (c\<lparr>co_trustedRemotes := go_delete k (co_trustedRemotes c)\<rparr>)"
  using delete_keys [of k "co_trustedRemotes c"] by (auto simp: honest_def)

lemma honest_candidates [simp]:
  "honest R c \<Longrightarrow> \<not> ca_transientAuthorized ca \<Longrightarrow> honest R (c\<lparr>co_currentCandidate := Some ca\<rparr>)"
  by (auto simp: honest_def)

lemma honest_authorised:
  "honest R c \<Longrightarrow> co_currentCandidate c = Some ca \<Longrightarrow> ca_transientAuthorized ca \<Longrightarrow> ca_remote ca \<in> confirmed (co_trace c)"
  by (auto simp: honest_def)

lemma honest_unlock [honest_rules]: "keeps (honest R) mu_Unlock"
  unfolding mu_Unlock_def by (rule keeps_poke) (auto simp: honest_def)

lemma honest_unlocked [honest_rules]: "others_honest deps \<Longrightarrow> keeps (honest R) (unlocked deps)"
  unfolding unlocked_def by (intro honest_rules)

lemma honest_loaded: "honest R c \<Longrightarrow> honest R (c\<lparr>co_trustedRemotes := go_put r s (co_trustedRemotes c),
    co_trace := co_trace c @ [EvLoaded r]\<rparr>)"
  using put_keys [of r s "co_trustedRemotes c"] by (auto simp: honest_def)

lemma honest_trusted: "honest R c \<Longrightarrow> r \<in> R \<Longrightarrow> honest R (c\<lparr>co_trustedRemotes := go_put r s (co_trustedRemotes c),
    co_trace := co_trace c @ [EvTrusted r]\<rparr>)"
  using put_keys [of r s "co_trustedRemotes c"] by (auto simp: honest_def)

lemma honest_confirmed:
  "honest R c \<Longrightarrow> constantTimeFingerprintMatch (rq_fingerprint q) r \<Longrightarrow>
     honest (insert r R) (c\<lparr>co_trace := co_trace c @ [EvConfirmed r q]\<rparr>)"
  by (auto simp: honest_def confirmed_confirm)

lemma honest_mono: "honest R c \<Longrightarrow> S \<subseteq> R \<Longrightarrow> honest S c"
  by (auto simp: honest_def)

lemma honest_effect [honest_rules]:
  "(partner_kind k \<Longrightarrow> r \<in> R) \<Longrightarrow> keeps (honest R) (queue_effect k r n)"
  unfolding queue_effect_def by (rule keeps_poke) (auto simp: honest_def)

lemma honest_effects [honest_rules]:
  "keeps (honest R) (cancelRemoteLocked r n)"
  "keeps (honest R) (cancelUnboundRemoteLocked r)"
  "r \<in> R \<Longrightarrow> keeps (honest R) (registerRemoteLocked r n)"
  "r \<in> R \<Longrightarrow> keeps (honest R) (registerTransientRemoteLocked r n)"
  "r \<in> R \<Longrightarrow> keeps (honest R) (finalizeTransientRemoteLocked r n)"
  unfolding cancelRemoteLocked_def cancelUnboundRemoteLocked_def registerRemoteLocked_def registerTransientRemoteLocked_def
    finalizeTransientRemoteLocked_def
  by (auto intro!: honest_rules simp: partner_kind_def)

text \<open>Changes of the candidate that leave its remote and its authorisation alone.\<close>

lemma honest_candidate [honest_rules]:
  "(\<And>ca. ca_remote (f ca) = ca_remote ca \<and> ca_transientAuthorized (f ca) = ca_transientAuthorized ca) \<Longrightarrow>
     keeps (honest R) (set_candidate f)"
  unfolding set_candidate_def by (rule keeps_poke) (auto simp: honest_def)

interpretation honest: bookkeeping "honest R" for R
proof
  show "honest R c'" if "same_core c c'" "honest R c" for c c' :: "'a ftc"
    using that by (simp add: honest_def same_core_def)
  show "honest R (c\<lparr>co_currentCandidate := Some (ca\<lparr>ca_transientRevocationQueued := True\<rparr>)\<rparr>)"
    if "honest R c" "co_currentCandidate c = Some ca" for c ca
    using that by (auto simp: honest_def)
qed (auto intro!: honest_effect honest_unlock)

declare honest.all_steps [honest_rules]

subsection \<open>Publication and retries\<close>

lemma honest_marks [honest_rules]:
  "keeps (honest R) (set_inflight scope)"
  "keeps (honest R) (clear_inflight scope)"
  "keeps (honest R) (set_arm scope arm)"
  "keeps (honest R) (clear_arm scope)"
  unfolding set_inflight_def clear_inflight_def set_arm_def clear_arm_def
  by (intro honest_rules; auto)+

lemma honest_quarantine [simp]: "honest R c \<Longrightarrow> honest R (quarantine_unknown c)"
  by (simp add: quarantine_unknown_def)

lemma honest_quarantines [honest_rules]:
  "others_honest deps \<Longrightarrow> keeps (honest R) (enterFirstTrustQuarantineLocked deps pending)"
  "keeps (honest R) (publishFirstTrustRetryLocked deps st an ctx target)"
  "keeps (honest R) (armed deps scope delay)"
  unfolding enterFirstTrustQuarantineLocked_def publishFirstTrustRetryLocked_def armed_def Let_def
  by (intro honest_rules; auto split: option.splits)+

lemma honest_retry_steps [honest_rules]:
  "others_honest deps \<Longrightarrow> keeps (honest R) (stageFirstTrustRetryFailureHoldLocked deps st an ctx scope)"
  "keeps (honest R) (admit_retry deps st an ctx scope)"
  "keeps (honest R) (checkpoint deps st an ctx scope)"
  unfolding stageFirstTrustRetryFailureHoldLocked_def admit_retry_def checkpoint_def Let_def
  by (intro honest_rules; auto split: option.splits)+

lemma honest_failure [honest_rules]:
  "others_honest deps \<Longrightarrow> keeps (honest R) (record_failure deps st an ctx scope)"
  "(\<And>st an. keeps (honest R) (body st an)) \<Longrightarrow> keeps (honest R) (with_recovery deps ctx body)"
  unfolding record_failure_def with_recovery_def Let_def
  by (intro honest_rules; auto split: option.splits)+

lemma honest_retries [honest_rules]:
  "keeps (honest R) (admitRetry deps ctx scope)"
  "others_honest deps \<Longrightarrow> keeps (honest R) (recordRetryFailure deps ctx scope)"
  "keeps (honest R) (completeRetry scope)"
  "keeps (honest R) (checkpointRetry deps ctx scope)"
  unfolding admitRetry_def recordRetryFailure_def completeRetry_def checkpointRetry_def Let_def
  by (intro honest_rules; auto split: option.splits)+

subsection \<open>Outgoing attempts\<close>

lemma honest_attempts [honest_rules]:
  "keeps (honest R) (set_runtime metadata r)"
  "keeps (honest R) (cancelOutgoingAttemptRuntime deps metadata)"
  "keeps (honest R) (cancelAllOutgoingAttemptContextsLocked deps)"
  unfolding set_runtime_def cancelOutgoingAttemptRuntime_def
    cancelAllOutgoingAttemptContextsLocked_def Let_def
  by (intro honest_rules; auto split: option.splits)+

lemma honest_attempt_reads [honest_rules]:
  "keeps (honest R) (firstTrustOutgoingAttemptEligibleLocked deps remote)"
  "keeps (honest R) (firstTrustOutgoingAttemptRetryReadyLocked deps q)"
  "keeps (honest R) (updateOutgoingAttemptRetryArmLocked deps scope)"
  "keeps (honest R) (cancelAllOutgoingAttemptContexts deps)"
  "keeps (honest R) (outgoingAttemptCandidateGenerationRebindLocked deps remote connection)"
  "keeps (honest R) (rebindOutgoingAttemptCandidateGenerationLocked deps rebind publication)"
  unfolding firstTrustOutgoingAttemptEligibleLocked_def firstTrustOutgoingAttemptRetryReadyLocked_def
    updateOutgoingAttemptRetryArmLocked_def cancelAllOutgoingAttemptContexts_def
    outgoingAttemptCandidateGenerationRebindLocked_def rebindOutgoingAttemptCandidateGenerationLocked_def Let_def
  by (intro honest_rules; auto split: option.splits)+

lemma honest_publish_selected [honest_rules]:
  "others_honest deps \<Longrightarrow> keeps (honest R) (publishSelectedOutgoingAttemptControl deps ctx expectedEpoch target operationID operationClass rebind)"
  "others_honest deps \<Longrightarrow> keeps (honest R) (armOutgoingAttemptLease deps metadata generation deadline)"
  unfolding publishSelectedOutgoingAttemptControl_def armOutgoingAttemptLease_def Let_def
  by (intro honest_rules; auto split: option.splits)+

lemma honest_publish_attempt [honest_rules]:
  "others_honest deps \<Longrightarrow> keeps (honest R) (publishOutgoingAttemptControl deps ctx expectedEpoch target operationID operationClass)"
  "others_honest deps \<Longrightarrow> keeps (honest R) (register_attempt deps request reserved attemptContext candidateConnection publication)"
  unfolding publishOutgoingAttemptControl_def register_attempt_def Let_def
  by (intro honest_rules; auto split: option.splits)+

lemma honest_reservation [honest_rules]:
  "others_honest deps \<Longrightarrow> keeps (honest R) (publish_reservation deps ctx request failed attemptID publicationID rebind candidateConnection)"
  unfolding publish_reservation_def Let_def
  by (intro honest_rules; auto split: option.splits)+

lemma honest_prepare_locked [honest_rules]:
  "others_honest deps \<Longrightarrow> keeps (honest R) (prepareOutgoingAttemptLocked deps ctx request failed)"
  unfolding prepareOutgoingAttemptLocked_def Let_def
  by (intro honest_rules; auto split: option.splits)+

lemma honest_settle [honest_rules]:
  "others_honest deps \<Longrightarrow> keeps (honest R) (prepareOutgoingAttempt deps ctx request)"
  "others_honest deps \<Longrightarrow> keeps (honest R) (abortPreparedOutgoingAttemptLocked deps ctx handle operationClass)"
  "others_honest deps \<Longrightarrow> keeps (honest R) (complete_failed deps ctx metadata remote)"
  "keeps (honest R) (settle_runtime deps metadata settlement)"
  unfolding prepareOutgoingAttempt_def abortPreparedOutgoingAttemptLocked_def complete_failed_def settle_runtime_def
    Let_def
  by (intro honest_rules; auto split: option.splits)+

lemma honest_success [honest_rules]:
  "others_honest deps \<Longrightarrow> keeps (honest R) (abortPreparedOutgoingAttempt deps ctx handle)"
  "keeps (honest R) (markSuccessfulOutgoingAttempt deps metadata remote)"
  "others_honest deps \<Longrightarrow> keeps (honest R) (failClosedSuccessfulOutgoingAttempt deps metadata remote)"
  unfolding abortPreparedOutgoingAttempt_def markSuccessfulOutgoingAttempt_def failClosedSuccessfulOutgoingAttempt_def
    Let_def
  by (intro honest_rules; auto split: option.splits)+

lemma honest_succeeded [honest_rules]: "others_honest deps \<Longrightarrow> keeps (honest R) (complete_succeeded deps n ctx metadata remote)"
  by (induction n) (simp_all only: complete_succeeded.simps, (intro honest_rules; auto)+)

lemma honest_complete_locked [honest_rules]:
  "others_honest deps \<Longrightarrow> keeps (honest R) (completeOutgoingAttemptLocked deps ctx metadata remote succeeded)"
  unfolding completeOutgoingAttemptLocked_def completeSuccessfulOutgoingAttemptLocked_def Let_def
  by (intro honest_rules; auto split: option.splits)+

lemma honest_launch [honest_rules]:
  "others_honest deps \<Longrightarrow> keeps (honest R) (completeOutgoingAttempt deps ctx metadata succeeded)"
  "others_honest deps \<Longrightarrow> keeps (honest R) (confirm_launch deps ctx handle remote)"
  unfolding completeOutgoingAttempt_def confirm_launch_def Let_def
  by (intro honest_rules; auto split: option.splits)+

lemma honest_authorize_locked [honest_rules]:
  "others_honest deps \<Longrightarrow> keeps (honest R) (authorize_locked deps ctx handle)"
  "keeps (honest R) (consumeSuccessfulOutgoingAttemptLocked deps metadata remote)"
  "keeps (honest R) (outgoingAttemptCallbackExactConnectionLocked deps metadata remote)"
  unfolding authorize_locked_def consumeSuccessfulOutgoingAttemptLocked_def
    outgoingAttemptCallbackExactConnectionLocked_def Let_def
  by (intro honest_rules; auto split: option.splits)+

lemma honest_callbacks [honest_rules]:
  "others_honest deps \<Longrightarrow> keeps (honest R) (authorizeOutgoingAttempt deps ctx handle)"
  "keeps (honest R) (outgoingAttemptCallbackExactLocked deps metadata remote)"
  unfolding authorizeOutgoingAttempt_def outgoingAttemptCallbackExactLocked_def Let_def
  by (intro honest_rules; auto split: option.splits)+

lemma honest_with_callback [honest_rules]:
  "others_honest deps \<Longrightarrow> (\<And>remote. keeps (honest R) (body remote)) \<Longrightarrow>
     keeps (honest R) (with_callback deps ctx remoteSKI metadata body)"
  unfolding with_callback_def by (intro honest_rules; auto)

lemma honest_leases [honest_rules]:
  "others_honest deps \<Longrightarrow> keeps (honest R) (outgoingAttemptConnectionClosed deps ctx remoteSKI complete metadata)"
  "others_honest deps \<Longrightarrow> keeps (honest R) (outgoingAttemptHandshakeStateUpdate deps ctx remoteSKI state metadata)"
  "others_honest deps \<Longrightarrow> keeps (honest R) (expireOutgoingAttemptLease deps background remote metadata generation)"
  unfolding outgoingAttemptConnectionClosed_def outgoingAttemptHandshakeStateUpdate_def expireOutgoingAttemptLease_def
    Let_def
  by (intro honest_rules; auto split: option.splits)+

lemma honest_raise_counters [simp]: "honest R c \<Longrightarrow> honest R (raise_counters as c)"
  unfolding raise_counters_def by (induction as arbitrary: c) auto

lemma honest_restart [honest_rules]:
  "others_honest deps \<Longrightarrow> keeps (honest R) (chargeRestartedOutgoingAttempts deps ctx)"
  "keeps (honest R) (cancelRevokedOutgoingAttemptsLocked deps attemptIDs)"
  "others_honest deps \<Longrightarrow> keeps (honest R) (settle_one deps ctx a)"
  unfolding chargeRestartedOutgoingAttempts_def cancelRevokedOutgoingAttemptsLocked_def settle_one_def Let_def
  by (intro honest_rules; auto split: option.splits)+

lemma honest_settle_loop [honest_rules]: "others_honest deps \<Longrightarrow> keeps (honest R) (settle_loop deps n ctx)"
  by (induction n) (simp_all only: settle_loop.simps, (intro honest_rules; auto)+)

lemma honest_settle_shutdown [honest_rules]:
  "others_honest deps \<Longrightarrow> keeps (honest R) (settleOutgoingAttemptsForShutdown deps ctx)"
  unfolding settleOutgoingAttemptsForShutdown_def Let_def
  by (intro honest_rules; auto split: option.splits)+

subsection \<open>Commits\<close>

text \<open>A commit is made for a confirmed remote.\<close>

lemma honest_trust [honest_rules]: "r \<in> R \<Longrightarrow> keeps (honest R) (trust_remote r shipID)"
  unfolding trust_remote_def witnessed_def by (auto simp: keeps_def honest_trusted)

interpretation honest: committing "honest R" "\<lambda>r. r \<in> R" for R
  by unfold_locales (auto intro!: honest_effect honest_trust)

declare honest.all_commits [honest_rules]

lemma honest_extend: "honest R c \<Longrightarrow> r \<in> confirmed (co_trace c) \<Longrightarrow> honest (insert r R) c"
  by (auto simp: honest_def)

text \<open>A commit that begins by itself is of a candidate that was authorised.\<close>

lemma wp_begin_transient:
  assumes "others_honest deps" and "honest R c"
  shows "wp (beginTransientCommitLocked deps) (\<lambda>begun c'. honest R c' \<and>
    (\<forall>cm. fst begun = Some cm \<longrightarrow> cm_remote cm \<in> confirmed (co_trace c'))) c"
  using assms
  by (auto simp: beginTransientCommitLocked_def begin_commit_def Let_def selectedFirstTrustGenerationLocked_def stopTimerLocked_def
      split: option.splits prod.splits
      intro!: wp_keeps [OF honest.expirations(2)] honest_others dest: honest_authorised)

lemma honest_begin:
  fixes deps :: "'w ftdeps"
  assumes "others_honest deps"
    and "\<And>begun S. R \<subseteq> S \<Longrightarrow> (\<And>cm. fst begun = Some cm \<Longrightarrow> cm_remote cm \<in> S) \<Longrightarrow> keeps (honest S) (f begun)"
  shows "keeps (honest R) (State_Monad.bind (beginTransientCommitLocked deps) f)"
proof (rule keepsI)
  fix c :: "'w ftc" assume "honest R c"
  then have "wp (beginTransientCommitLocked deps) (\<lambda>begun c'. honest R c' \<and>
      (\<forall>cm. fst begun = Some cm \<longrightarrow> cm_remote cm \<in> confirmed (co_trace c'))) c"
    by (rule wp_begin_transient [OF assms(1)])
  then have "wp (beginTransientCommitLocked deps) (\<lambda>begun. wp (f begun) (\<lambda>_. honest R)) c"
  proof (rule wp_mono)
    fix begun :: "firstTrustCommit option \<times> string" and c' :: "'w ftc"
    let ?S = "R \<union> cm_remote ` {cm. fst begun = Some cm}"
    assume *: "honest R c' \<and> (\<forall>cm. fst begun = Some cm \<longrightarrow> cm_remote cm \<in> confirmed (co_trace c'))"
    then have "honest ?S c'" by (auto simp: honest_def)
    then have "wp (f begun) (\<lambda>_. honest ?S) c'" by (intro keepsD [OF assms(2)]) auto
    then show "wp (f begun) (\<lambda>_. honest R) c'" by (rule wp_mono) (auto elim: honest_mono)
  qed
  then show "wp (State_Monad.bind (beginTransientCommitLocked deps) f) (\<lambda>_. honest R) c" by simp
qed

lemma honest_connection_events [honest_rules]:
  "others_honest deps \<Longrightarrow> keeps (honest R) (serviceShipIDUpdate deps background remote connection shipID)"
  "others_honest deps \<Longrightarrow> keeps (honest R) (connectionCompleted deps background remote connection)"
  "others_honest deps \<Longrightarrow> keeps (honest R) (completeTransientRegistration deps background remote connection)"
  unfolding serviceShipIDUpdate_def connectionCompleted_def completeTransientRegistration_def
  by (intro honest_begin honest_rules; auto)+

lemma honest_connection_closed [honest_rules]:
  "others_honest deps \<Longrightarrow> keeps (honest R) (connectionClosed deps remote connection)"
  unfolding connectionClosed_def Let_def
  by (intro honest_rules; auto split: option.splits)+

subsection \<open>Windows, admission and confirmation\<close>

lemma honest_windows [honest_rules]:
  "keeps (honest R) (bindCandidateRequestLocked ca key request)"
  "keeps (honest R) (new_candidate deps remote connection nonce)"
  "others_honest deps \<Longrightarrow> keeps (honest R) (remoteSKIConnected deps remote connection)"
  unfolding bindCandidateRequestLocked_def new_candidate_def remoteSKIConnected_def Let_def
  by (intro honest_rules; auto split: option.splits)+

lemma honest_admissions [honest_rules]:
  "others_honest deps \<Longrightarrow> keeps (honest R) (admit deps remote connection)"
  "others_honest deps \<Longrightarrow> keeps (honest R) (cancel_pairing deps ctx key nonce connection generation)"
  unfolding admit_def cancel_pairing_def cancel_locked_def Let_def
  by (intro honest_rules; auto split: option.splits)+

lemma honest_authorise:
  assumes "honest R c" and "\<And>x. co_currentCandidate c = Some x \<Longrightarrow> ca_remote (f x) \<in> R"
  shows "honest R (c\<lparr>co_currentCandidate := map_option f (co_currentCandidate c)\<rparr>)"
proof (cases "co_currentCandidate c")
  case (Some x)
  then have "ca_remote (f x) \<in> confirmed (co_trace c)" using assms by (auto simp: honest_def)
  then show ?thesis using assms(1) Some by (simp add: honest_def)
qed (use assms in simp)

text \<open>The confirmation: the candidate the request matched is the current one.\<close>

lemma wp_accept:
  assumes "others_honest deps" and "honest R c" and "constantTimeFingerprintMatch (rq_fingerprint request) (ca_remote ca)"
    and current: "map_option ca_remote (co_currentCandidate c) = Some (ca_remote ca)"
  shows "wp (accept_confirmation deps ctx ca key request now) (\<lambda>_. honest R) c"
proof -
  let ?R = "insert (ca_remote ca) R" and ?c = "c\<lparr>co_trace := co_trace c @ [EvConfirmed (ca_remote ca) request]\<rparr>"
  have h: "honest ?R ?c" using assms by (intro honest_confirmed)
  have weaken: "wp m (\<lambda>_. honest ?R) c' \<Longrightarrow> wp m (\<lambda>_. honest R) c'" for m :: "('a, string option) top" and c'
    by (erule wp_mono) (auto elim: honest_mono)
  have commit: "keeps (honest ?R) (State_Monad.bind (begin_commit key request (ca_remote ca) shipID n g)
      (\<lambda>commit. do {unlocked deps; executeCommit deps ctx commit}))" for shipID n g
    by (rule keepsI, simp add: begin_commit_def stopTimerLocked_def Let_def,
        rule wp_keeps [OF honest_unlocked [OF assms(1)]], simp,
        rule keepsD [OF honest.executions [OF honest_others [OF assms(1)]]]) simp_all
  show ?thesis
  proof (cases "ca_tlsRequired ca")
    case True
    let ?f = "\<lambda>ca. ca\<lparr>ca_transientAuthorized := True, ca_transientRegistrationComplete := False,
         ca_confirmationKey := key, ca_confirmationRequest := request\<rparr>"
    have "honest ?R (?c\<lparr>co_currentCandidate := map_option ?f (co_currentCandidate c), co_phase := firstTrustTransientTrusted\<rparr>)"
      by (simp, rule honest_authorise [OF h, of ?f, simplified], use current in auto)
    then have "wp (do {recordReplayLocked deps key request ''transient_trusted'' now;
        registerTransientRemoteLocked (ca_remote ca) (ca_connection ca); mu_Unlock; give (Some ''transient_trusted'')})
        (\<lambda>_. honest ?R) (?c\<lparr>co_currentCandidate := map_option ?f (co_currentCandidate c), co_phase := firstTrustTransientTrusted\<rparr>)"
      by (intro keepsD) (intro honest_rules; simp)
    from weaken [OF this] True show ?thesis by (simp add: accept_confirmation_def witnessed_def set_candidate_def)
  next
    case False
    then show ?thesis using weaken [OF keepsD [OF commit h]] by (simp add: accept_confirmation_def witnessed_def)
  qed
qed

definition about :: "bytes set \<Rightarrow> firstTrustCandidate \<Rightarrow> 'w ftc \<Rightarrow> bool" where
  "about R ca c \<longleftrightarrow> honest R c \<and> map_option ca_remote (co_currentCandidate c) = Some (ca_remote ca)"

lemma keeps_about: "keeps (honest R) m \<Longrightarrow>
    keeps (\<lambda>c. map_option ca_remote (co_currentCandidate c) = Some (ca_remote ca)) m \<Longrightarrow> keeps (about R ca) m"
  unfolding about_def [abs_def] by (rule keeps_conj)

lemma keeps_about_peek: "keeps (about R ca) (peek g)"
  by (rule keeps_peek)

lemma keeps_about_generation: "keeps (about R ca) (selectedFirstTrustGenerationLocked deps)"
  by (rule keeps_about [OF honest.notifications(5)])
     (simp add: keeps_def selectedFirstTrustGenerationLocked_def split: option.split prod.split)

lemma keeps_about_bind: "keeps (about R ca) (bindCandidateRequestLocked ca' key request)"
  by (rule keeps_about [OF honest_windows(1)])
     (auto simp: keeps_def bindCandidateRequestLocked_def set_candidate_def split: option.split)

lemmas keeps_about_steps = keeps_about_peek keeps_about_generation keeps_about_bind

lemma flows_answer: "flows (about R ca) (honest R) (do {mu_Unlock; give x})"
  by (rule flowsI) (auto simp: about_def intro!: keepsD [OF honest_unlock])

lemma flows_accept:
  "others_honest deps \<Longrightarrow> bindings_match request ca \<Longrightarrow>
     flows (about R ca) (honest R) (accept_confirmation deps ctx ca key request now)"
  by (rule flowsI) (auto simp: about_def bindings_match_def intro!: wp_accept)

lemma flows_confirm_candidate:
  "others_honest deps \<Longrightarrow> flows (about R ca) (honest R) (confirm_candidate deps ctx ca key request now)"
  unfolding confirm_candidate_def Let_def
  by (intro flows_rules flows_answer flows_accept flows_bind keeps_about_steps; simp)

lemma honest_confirm [honest_rules]:
  assumes "others_honest deps"
  shows "keeps (honest R) (confirm deps ctx key fingerprint nonce expiresAt connection generation)"
proof -
  note answer = keepsD [OF honest_unlock] and await = keepsD [OF honest.answers(1) [OF honest_others [OF assms]]]
    and candidate = flowsD [OF flows_confirm_candidate [OF assms]]
  show ?thesis
    by (rule keepsI, simp add: confirm_def Let_def split: prod.split)
       (auto intro!: wp_keeps [OF honest.expiries(1) [OF honest_others [OF assms]]] wp_keeps [OF honest.replays(2)] answer await candidate
         simp: about_def split: option.split)
qed

subsection \<open>Selections\<close>

lemma honest_snapshots [honest_rules]:
  "keeps (honest R) (configureCandidateSelection)"
  "keeps (honest R) (invalidateCandidateSnapshotLocked reason)"
  "keeps (honest R) (discoveredCandidateSnapshot)"
  "keeps (honest R) (set_lifecycle ref lifecycle)"
  "keeps (honest R) (put_selection se)"
  unfolding configureCandidateSelection_def invalidateCandidateSnapshotLocked_def discoveredCandidateSnapshot_def
    set_lifecycle_def put_selection_def Let_def
  by (intro honest_rules; auto split: option.splits)+

lemma honest_selections [honest_rules]:
  "keeps (honest R) (visiblePairingCandidatesUpdated deps candidates)"
  "keeps (honest R) (consume_candidate ref ski)"
  "keeps (honest R) (cancel_object se)"
  unfolding visiblePairingCandidatesUpdated_def consume_candidate_def cancel_object_def Let_def
  by (intro honest_rules; auto split: option.splits)+

lemma honest_fail_queue [honest_rules]:
  "keeps (honest R) (failCandidateQueueLocked deps se result)"
  "others_honest deps \<Longrightarrow> keeps (honest R) (operatorAdminV1ObservationCurrent deps ref ski revision)"
  "others_honest deps \<Longrightarrow> keeps (honest R) (reserveOperatorAdminV1Selection deps address ref ski)"
  "keeps (honest R) (finishOperatorAdminV1Selection mine accepted)"
  "others_honest deps \<Longrightarrow> keeps (honest R) (operatorAdminV1SelectionCurrent deps ref ski)"
  unfolding failCandidateQueueLocked_def operatorAdminV1ObservationCurrent_def reserveOperatorAdminV1Selection_def
    finishOperatorAdminV1Selection_def operatorAdminV1SelectionCurrent_def Let_def
  by (intro honest_rules; auto split: option.splits)+

lemma honest_finish_selection [honest_rules]:
  "keeps (honest R) (finish_selection deps ctx mine err)"
  unfolding finish_selection_def Let_def
  by (intro honest_rules; auto split: option.splits)+

lemma honest_select_new [honest_rules]:
  "others_honest deps \<Longrightarrow> keeps (honest R) (select_new deps ctx address key ref ski remote)"
  unfolding select_new_def Let_def
  by (intro honest_rules; auto split: option.splits)+

lemma honest_select_loop [honest_rules]:
  "others_honest deps \<Longrightarrow> keeps (honest R) (select_loop deps n ctx address key ref ski remote)"
  by (induction n) (simp_all only: select_loop.simps Let_def, (intro honest_rules; auto)+)

lemma honest_select [honest_rules]:
  "others_honest deps \<Longrightarrow> keeps (honest R) (selectCandidate deps n ctx address key ref ski)"
  unfolding selectCandidate_def Let_def
  by (intro honest_rules; auto split: option.splits)+

subsection \<open>Start and stop\<close>

lemma honest_load_step: "keeps (honest R) (do {
    poke (\<lambda>c. c\<lparr>co_trustedRemotes := go_put r s (co_trustedRemotes c)\<rparr>); witnessed (EvLoaded r)})"
  unfolding witnessed_def by (auto simp: keeps_def honest_loaded)

lemma honest_load [honest_rules]:
  "keeps (honest R) loadFirstTrustAssociationsLocked"
  "keeps (honest R) (load_trusted generation associations)"
  unfolding loadFirstTrustAssociationsLocked_def load_trusted_def by (intro honest_load_step honest_rules; auto)+

lemma honest_reset [honest_rules]:
  "others_honest deps \<Longrightarrow> keeps (honest R) (resetVolatileFirstTrustLocked deps)"
  "keeps (honest R) (loadFirstTrustRetryArmsLocked deps)"
  "keeps (honest R) (clearKnownUnappliedAttemptOnReopen deps ctx view anchor outcome)"
  "others_honest deps \<Longrightarrow> keeps (honest R) (reconcileTrustedRetryQuarantinesLocked deps ctx storeOutcome anchorOutcome)"
  "keeps (honest R) (adopt_reload deps view anchor)"
  "keeps (honest R) (open_anchor deps ctx storeOutcome)"
  "others_honest deps \<Longrightarrow> keeps (honest R) (preparePairingRegistrationReopen deps)"
  "others_honest deps \<Longrightarrow> keeps (honest R) (authorizeRuntimeAttempt deps remote)"
  unfolding resetVolatileFirstTrustLocked_def loadFirstTrustRetryArmsLocked_def clearKnownUnappliedAttemptOnReopen_def
    reconcileTrustedRetryQuarantinesLocked_def adopt_reload_def open_anchor_def preparePairingRegistrationReopen_def
    authorizeRuntimeAttempt_def Let_def
  by (intro honest_rules; auto split: option.splits)+

lemma honest_classified [honest_rules]:
  "keeps (honest R) (enter_classified deps classified)"
  "keeps (honest R) m \<Longrightarrow> keeps (honest R) (unless_fault m)"
  "others_honest deps \<Longrightarrow> keeps (honest R) (shutdown deps)"
  unfolding enter_classified_def unless_fault_def shutdown_def Let_def
  by (intro honest_rules; auto split: option.splits)+

lemma honest_starts [honest_rules]:
  "others_honest deps \<Longrightarrow> keeps (honest R) (start_locked deps ctx storeOutcome anchorOutcome)"
  "others_honest deps \<Longrightarrow> keeps (honest R) (reload_plain deps plain ctx)"
  unfolding start_locked_def reload_plain_def Let_def
  by (intro honest_rules; auto split: option.splits)+

lemma honest_reopenings [honest_rules]:
  "others_honest deps \<Longrightarrow> keeps (honest R) (reopenWithRecovery deps ctx)"
  "others_honest deps \<Longrightarrow> keeps (honest R) (reopen_plain deps ctx)"
  unfolding reopenWithRecovery_def reopen_plain_def Let_def
  by (intro honest_rules; auto split: option.splits)+

lemma honest_reopen [honest_rules]:
  "others_honest deps \<Longrightarrow> keeps (honest R) (reopen deps ctx)"
  unfolding reopen_def Let_def
  by (intro honest_rules; auto split: option.splits)+

subsection \<open>Revocation and repair\<close>

lemma honest_revoked_state [simp]: "honest R (revoked_state c) = honest R c"
  by (simp add: revoked_state_def)

lemma honest_revocation_steps [honest_rules]:
  "keeps (honest R) (firstTrustBindEffectiveGeneration st ctx working target operationID operationClass)"
  "keeps (honest R) (end_operation)"
  "others_honest deps \<Longrightarrow> keeps (honest R) (unlock_and_notify deps)"
  "keeps (honest R) (repaired_instance deps c kind)"
  "keeps (honest R) (replace_host_key deps an ctx target)"
  "keeps (honest R) (resolve_pending st an ctx anchor p)"
  unfolding firstTrustBindEffectiveGeneration_def end_operation_def unlock_and_notify_def repaired_instance_def
    replace_host_key_def resolve_pending_def Let_def
  by (intro honest_rules; auto split: option.splits)+

lemma honest_revocation_ends [honest_rules]:
  "others_honest deps \<Longrightarrow> keeps (honest R) (finishIncompleteRevocation deps)"
  "others_honest deps \<Longrightarrow> keeps (honest R) (finalizeRevocationReceipt deps st an ctx request binding)"
  "keeps (honest R) (prepareFirstTrustRepairLocked deps repairRequest binding)"
  "others_honest deps \<Longrightarrow> keeps (honest R) (publish_repair deps st an ctx repairRequest working target selected anchor)"
  "others_honest deps \<Longrightarrow> keeps (honest R) (publish_resolution deps st an ctx repairRequest binding result anchor)"
  unfolding finishIncompleteRevocation_def finalizeRevocationReceipt_def prepareFirstTrustRepairLocked_def
    publish_repair_def publish_resolution_def Let_def
  by (intro honest_rules; auto split: option.splits)+

lemma honest_withdrawal [honest_rules]:
  "others_honest deps \<Longrightarrow> keeps (honest R) (finishRevocationWithdrawal deps st an ctx request binding subject)"
  "others_honest deps \<Longrightarrow> keeps (honest R) (repair_started deps st an ctx repairRequest binding working target)"
  "others_honest deps \<Longrightarrow> keeps (honest R) (reconcileFirstTrustPublication deps st an ctx repairRequest binding)"
  unfolding finishRevocationWithdrawal_def repair_started_def reconcileFirstTrustPublication_def Let_def
  by (intro honest_rules; auto split: option.splits)+

lemma honest_revocations [honest_rules]:
  "others_honest deps \<Longrightarrow> keeps (honest R) (revoke_published deps st an ctx request binding)"
  "others_honest deps \<Longrightarrow> keeps (honest R) (resume_revocation deps st an ctx request binding receipt)"
  "others_honest deps \<Longrightarrow> keeps (honest R) (repair_locked deps st an ctx repairRequest)"
  unfolding revoke_published_def resume_revocation_def repair_locked_def Let_def
  by (intro honest_rules; auto split: option.splits)+

lemma honest_revoke_serialized [honest_rules]:
  "others_honest deps \<Longrightarrow> keeps (honest R) (revokeSerialized deps ctx request)"
  "others_honest deps \<Longrightarrow> keeps (honest R) (repair deps ctx repairRequest)"
  unfolding revokeSerialized_def repair_def Let_def
  by (intro honest_rules; auto split: option.splits)+

lemma honest_revoking [honest_rules]:
  "others_honest deps \<Longrightarrow> keeps (honest R) (revoke deps ctx request)"
  unfolding revoke_def Let_def
  by (intro honest_rules; auto split: option.splits)+

subsection \<open>Effects\<close>

lemma keeps_kind [honest_rules]:
  "keeps I a \<Longrightarrow> keeps I b \<Longrightarrow> keeps I d \<Longrightarrow> keeps I e \<Longrightarrow> keeps I f \<Longrightarrow> keeps I g \<Longrightarrow>
     keeps I (case k of firstTrustEffectCancel \<Rightarrow> a | firstTrustEffectRegister \<Rightarrow> b | firstTrustEffectCancelUnbound \<Rightarrow> d
       | firstTrustEffectTransientRegister \<Rightarrow> e | firstTrustEffectTransientUnregister \<Rightarrow> f
       | firstTrustEffectTransientFinalize \<Rightarrow> g)"
  by (cases k) auto

lemma honest_run_effect [honest_rules]:
  "others_honest deps \<Longrightarrow> keeps (honest R) (run_effect deps background e)"
  unfolding run_effect_def Let_def
  by (intro honest_rules; auto split: option.splits)+

lemma honest_drain [honest_rules]: "others_honest deps \<Longrightarrow> keeps (honest R) (drain_step deps background)"
  by (rule keepsI, simp add: drain_step_def split: list.split)
     (auto intro!: keepsD [OF honest_run_effect] simp: honest_def)

end
