(* ===== verification/TrustRuns.thy ===== *)
theory TrustRuns
  imports TrustHonesty TrustSafety
begin

text \<open>
  Runs of the trust coordinator: any sequence of its operations from a new coordinator, where at
  every place an operation gives the lock up a scheduler in the environment picks other operations
  to run, to any depth. The properties about trust hold of every state such a run reaches.
\<close>

subsection \<open>Operations\<close>

datatype trust_op =
    OpReopen ctx
  | OpShutdown
  | OpOpenWindow ctx string int
  | OpCloseWindow ctx string
  | OpAdmit bytes uint64
  | OpSKIConnected bytes uint64
  | OpShipID ctx bytes uint64 string
  | OpConnectionCompleted ctx bytes uint64
  | OpConnectionClosed bytes uint64
  | OpConfirm ctx string string string gotime uint64 uint64
  | OpCancel ctx string string uint64 uint64
  | OpCandidate
  | OpState
  | OpConfigureSelection
  | OpVisible "PairingCandidateRef list"
  | OpSelect nat ctx nat string string string
  | OpReserve nat string string
  | OpFinishSelection firstTrustCandidateSelection bool
  | OpPrepareAttempt ctx firstTrustOutgoingAttemptRequest
  | OpFallback ctx firstTrustOutgoingAttemptRequest firstTrustOutgoingAttemptMetadata
  | OpAuthorizeAttempt ctx firstTrustOutgoingAttemptHandle
  | OpAbortAttempt ctx firstTrustOutgoingAttemptHandle
  | OpCompleteAttempt ctx firstTrustOutgoingAttemptMetadata bool
  | OpAttemptClosed ctx string bool firstTrustOutgoingAttemptMetadata
  | OpAttemptState ctx string string firstTrustOutgoingAttemptMetadata
  | OpConsumeAttempt firstTrustOutgoingAttemptMetadata bytes
  | OpLeaseExpired ctx bytes firstTrustOutgoingAttemptMetadata uint64
  | OpSettleAttempts ctx
  | OpAuthorizeRuntime bytes
  | OpAdmitRetry ctx bytes
  | OpRetryFailure ctx bytes
  | OpCompleteRetry bytes
  | OpCheckpointRetry ctx bytes
  | OpRevoke ctx firstTrustRevocationRequest
  | OpRepair ctx firstTrustRepairRequest
  | OpRetentionFired uint64
  | OpExpiryFired uint64 gotime
  | OpRegistrationInitialized bool
  | OpRegistrationFailed
  | OpCommitSettled
  | OpBindProjection "bytes list"
  | OpNotifyProjection
  | OpDrain ctx

text \<open>The answers are dropped; an answer of an operation that panics is dropped as well.\<close>

definition silent :: "('w, 'a) top \<Rightarrow> ('w, unit) top" where
  "silent m = do {_ \<leftarrow> m; nop}"

lemma keeps_silent [honest_rules]: "keeps I m \<Longrightarrow> keeps I (silent m)"
  unfolding silent_def by (intro keeps_rules)

fun perform :: "'w ftdeps \<Rightarrow> trust_op \<Rightarrow> ('w, unit) top" where
  "perform deps (OpReopen a1) = silent (reopen deps a1)"
| "perform deps OpShutdown = silent (shutdown deps)"
| "perform deps (OpOpenWindow a1 a2 a3) = silent (openPairingWindow deps a1 a2 a3)"
| "perform deps (OpCloseWindow a1 a2) = silent (closePairingWindow deps a1 a2)"
| "perform deps (OpAdmit a1 a2) = silent (admit deps a1 a2)"
| "perform deps (OpSKIConnected a1 a2) = silent (remoteSKIConnected deps a1 a2)"
| "perform deps (OpShipID a1 a2 a3 a4) = silent (serviceShipIDUpdate deps a1 a2 a3 a4)"
| "perform deps (OpConnectionCompleted a1 a2 a3) = silent (connectionCompleted deps a1 a2 a3)"
| "perform deps (OpConnectionClosed a1 a2) = silent (connectionClosed deps a1 a2)"
| "perform deps (OpConfirm a1 a2 a3 a4 a5 a6 a7) = silent (confirm deps a1 a2 a3 a4 a5 a6 a7)"
| "perform deps (OpCancel a1 a2 a3 a4 a5) = silent (cancel_pairing deps a1 a2 a3 a4 a5)"
| "perform deps OpCandidate = silent (candidate deps)"
| "perform deps OpState = silent (coordinator_state deps)"
| "perform deps OpConfigureSelection = silent (configureCandidateSelection)"
| "perform deps (OpVisible a1) = silent (visiblePairingCandidatesUpdated deps a1)"
| "perform deps (OpSelect a1 a2 a3 a4 a5 a6) = silent (selectCandidate deps a1 a2 a3 a4 a5 a6)"
| "perform deps (OpReserve a1 a2 a3) = silent (reserveOperatorAdminV1Selection deps a1 a2 a3)"
| "perform deps (OpFinishSelection a1 a2) = silent (finishOperatorAdminV1Selection a1 a2)"
| "perform deps (OpPrepareAttempt a1 a2) = silent (prepareOutgoingAttempt deps a1 a2)"
| "perform deps (OpFallback a1 a2 a3) = silent (prepareOutgoingAttemptLocked deps a1 a2 (Some a3))"
| "perform deps (OpAuthorizeAttempt a1 a2) = silent (authorizeOutgoingAttempt deps a1 a2)"
| "perform deps (OpAbortAttempt a1 a2) = silent (abortPreparedOutgoingAttempt deps a1 a2)"
| "perform deps (OpCompleteAttempt a1 a2 a3) = silent (completeOutgoingAttempt deps a1 a2 a3)"
| "perform deps (OpAttemptClosed a1 a2 a3 a4) = silent (outgoingAttemptConnectionClosed deps a1 a2 a3 a4)"
| "perform deps (OpAttemptState a1 a2 a3 a4) = silent (outgoingAttemptHandshakeStateUpdate deps a1 a2 a3 a4)"
| "perform deps (OpConsumeAttempt a1 a2) = silent (consumeSuccessfulOutgoingAttemptLocked deps a1 a2)"
| "perform deps (OpLeaseExpired a1 a2 a3 a4) = silent (expireOutgoingAttemptLease deps a1 a2 a3 a4)"
| "perform deps (OpSettleAttempts a1) = silent (settleOutgoingAttemptsForShutdown deps a1)"
| "perform deps (OpAuthorizeRuntime a1) = silent (authorizeRuntimeAttempt deps a1)"
| "perform deps (OpAdmitRetry a1 a2) = silent (admitRetry deps a1 a2)"
| "perform deps (OpRetryFailure a1 a2) = silent (recordRetryFailure deps a1 a2)"
| "perform deps (OpCompleteRetry a1) = silent (completeRetry a1)"
| "perform deps (OpCheckpointRetry a1 a2) = silent (checkpointRetry deps a1 a2)"
| "perform deps (OpRevoke a1 a2) = silent (revoke deps a1 a2)"
| "perform deps (OpRepair a1 a2) = silent (repair deps a1 a2)"
| "perform deps (OpRetentionFired a1) = silent (retention_fired deps a1)"
| "perform deps (OpExpiryFired a1 a2) = silent (expiry_fired deps a1 a2)"
| "perform deps (OpRegistrationInitialized a1) = silent (pairingRegistrationInitialized a1)"
| "perform deps OpRegistrationFailed = silent (pairingRegistrationFailed)"
| "perform deps OpCommitSettled = silent (commit_settled)"
| "perform deps (OpBindProjection a1) = silent (bindTrustAdminProjection deps a1)"
| "perform deps OpNotifyProjection = silent (notifyTrustAdminProjection deps)"
| "perform deps (OpDrain a1) = silent (drain_step deps a1)"

definition perform_all :: "'w ftdeps \<Rightarrow> trust_op list \<Rightarrow> ('w, unit) top" where
  "perform_all deps ops = each (perform deps) ops"

text \<open>
  The operations of other goroutines, \<open>n\<close> deep: where one of them gives the lock up in its turn,
  those of depth \<open>n - 1\<close> run.
\<close>

fun interleaved :: "'w ftdeps \<Rightarrow> ('w \<Rightarrow> trust_op list \<times> 'w) \<Rightarrow> nat \<Rightarrow> 'w ftdeps" where
  "interleaved deps schedule 0 = deps\<lparr>d_others := nop\<rparr>"
| "interleaved deps schedule (Suc n) =
     deps\<lparr>d_others := do {ops \<leftarrow> call schedule; perform_all (interleaved deps schedule n) ops}\<rparr>"

definition coordinator_start :: "bool \<Rightarrow> 'w \<Rightarrow> 'w ftc" where
  "coordinator_start recovering w = (if recovering then newFirstTrustCoordinatorWithRecovery w else newFirstTrustCoordinator w)"

definition coordinator_after :: "'w ftdeps \<Rightarrow> ('w \<Rightarrow> trust_op list \<times> 'w) \<Rightarrow> nat \<Rightarrow> bool \<Rightarrow> 'w \<Rightarrow> trust_op list \<Rightarrow> 'w ftc" where
  "coordinator_after deps schedule n recovering w ops =
     snd (run_state (perform_all (interleaved deps schedule n) ops) (coordinator_start recovering w))"

subsection \<open>Every reached state is honest\<close>

lemma honest_perform [honest_rules]: "others_honest deps \<Longrightarrow> keeps (honest R) (perform deps op)"
  by (cases op; simp; intro honest_rules)

lemma honest_perform_all [honest_rules]: "others_honest deps \<Longrightarrow> keeps (honest R) (perform_all deps ops)"
  unfolding perform_all_def by (intro honest_rules)

lemma interleaved_honest: "others_honest (interleaved deps schedule n)"
proof (induction n)
  case (Suc n)
  then have "keeps (honest R) (do {ops \<leftarrow> call schedule; perform_all (interleaved deps schedule n) ops})" for R
    by (intro honest_rules)
  then show ?case by (simp add: others_honest_def)
qed (simp add: others_honest_def keeps_return)

lemma honest_start: "honest {} (coordinator_start recovering w)"
  by (simp add: coordinator_start_def newFirstTrustCoordinatorWithRecovery_def)
     (simp add: honest_def newFirstTrustCoordinator_def)

lemma honest_after: "honest {} (coordinator_after deps schedule n recovering w ops)"
  using keepsD [OF honest_perform_all [OF interleaved_honest] honest_start]
  by (simp add: coordinator_after_def wp_iff_run)

text \<open>
  C34: whoever the coordinator trusts was in the store at a start, or an administrator confirmed it
  with its key identifier in full.
\<close>

theorem trusted_when_confirmed:
  assumes "go_lookup (co_trustedRemotes (coordinator_after deps schedule n recovering w ops)) r = Some shipID"
  shows "EvLoaded r \<in> set (co_trace (coordinator_after deps schedule n recovering w ops)) \<or>
    (\<exists>request. EvConfirmed r request \<in> set (co_trace (coordinator_after deps schedule n recovering w ops)) \<and>
       rq_fingerprint request = firstTrustNormalizedSKI r)"
proof -
  have "r \<in> fst ` set (co_trustedRemotes (coordinator_after deps schedule n recovering w ops))"
    using assms by (force dest!: map_of_SomeD)
  then show ?thesis using honest_after [of deps schedule n recovering w ops]
    by (auto simp: honest_def confirmed_def loaded_def fingerprint_match_iff)
qed

text \<open>A run over the plain store: an empty store is opened, a remote is admitted, named and confirmed.\<close>

definition sample_remote :: bytes where "sample_remote = sample_bytes 20 (CHR ''4'')"

definition pairing_deps :: "unit ftdeps" where
  "pairing_deps = sample_deps\<lparr>d_store := Some \<lparr>Reload = (\<lambda>ctx w. ((1, [], ''opened_empty''), w)),
     StoreSelectedGeneration = (\<lambda>w. (1, w)), Commit = (\<lambda>ctx g remote shipID w. (Some ''commit_durable'', w))\<rparr>\<rparr>"

definition pairing_ops :: "trust_op list" where
  "pairing_ops = [OpReopen 0, OpOpenWindow 0 ''open'' 1000, OpAdmit sample_remote 7, OpShipID 0 sample_remote 7 ''ship'',
     OpConfirm 0 ''confirm'' (firstTrustNormalizedSKI sample_remote) (hex_encode (sample_bytes 32 (CHR ''6'')))
       (time_add zero_time 1000) 7 1]"

lemma pairing_run:
  "go_lookup (co_trustedRemotes (coordinator_after pairing_deps (Pair []) 0 False () pairing_ops)) sample_remote = Some ''ship''"
  by code_simp

theorem trusted_when_confirmed_witness:
  "go_lookup (co_trustedRemotes (coordinator_after pairing_deps (Pair []) 0 False () pairing_ops)) sample_remote = Some ''ship'' \<and>
   (EvLoaded sample_remote \<in> set (co_trace (coordinator_after pairing_deps (Pair []) 0 False () pairing_ops)) \<or>
    (\<exists>request. EvConfirmed sample_remote request \<in> set (co_trace (coordinator_after pairing_deps (Pair []) 0 False () pairing_ops)) \<and>
       rq_fingerprint request = firstTrustNormalizedSKI sample_remote))"
  using pairing_run trusted_when_confirmed [OF pairing_run] by simp


definition sample_effect :: firstTrustEffect where
  "sample_effect = \<lparr>ef_kind = firstTrustEffectRegister, ef_remote = sample_remote, ef_connection = 7\<rparr>"


end
