(* ===== verification/TrustDrain.thy ===== *)
theory TrustDrain
  imports TrustFrames TrustSafety
begin

text \<open>
  The queue of effects is worked off to the end. An effect may queue others: a registration on
  trial that succeeds starts a commit, whose end queues effects in its turn. None of those is a
  registration on trial, so their number and the length of the queue bound the loop.
\<close>

subsection \<open>Registrations on trial\<close>

definition on_trial :: "firstTrustEffect \<Rightarrow> bool" where
  "on_trial e \<longleftrightarrow> ef_kind e = firstTrustEffectTransientRegister"

definition trials :: "'w ftc \<Rightarrow> nat" where
  "trials c = length (filter on_trial (co_effectQueue c @ co_pendingEffects c))"

text \<open>The other goroutines leave the queue alone.\<close>

definition others_idle :: "'w ftdeps \<Rightarrow> bool" where
  "others_idle deps \<longleftrightarrow> (\<forall>c. wp (d_others deps) (\<lambda>_ c'.
     co_effectQueue c' = co_effectQueue c \<and> co_pendingEffects c' = co_pendingEffects c) c)"

lemma trials_effect: "k \<noteq> firstTrustEffectTransientRegister \<Longrightarrow> keeps (\<lambda>c. trials c \<le> m) (queue_effect k r n)"
  unfolding queue_effect_def by (rule keeps_poke) (simp add: trials_def on_trial_def)

interpretation trials: committing "\<lambda>c. trials c \<le> m" "\<lambda>_. True" for m
proof
  show "trials c' \<le> m" if "same_core c c'" "trials c \<le> m" for c c' :: "'a ftc"
    using that by (simp add: trials_def same_core_def)
  show "keeps (\<lambda>c. trials c \<le> m) (queue_effect k r n)" if "\<not> partner_kind k" for k r n
    using that by (intro trials_effect) (auto simp: partner_kind_def)
  show "keeps (\<lambda>c. trials c \<le> m) mu_Unlock"
    unfolding mu_Unlock_def by (rule keeps_poke) (simp add: trials_def)
  show "keeps (\<lambda>c. trials c \<le> m) (trust_remote r shipID)" for r shipID
    unfolding trust_remote_def witnessed_def by (simp add: keeps_def trials_def)
  show "keeps (\<lambda>c. trials c \<le> m) (queue_effect k r n)" if "k \<noteq> firstTrustEffectTransientRegister" for k r n
    using that by (rule trials_effect)
qed (simp_all add: trials_def)

lemma others_idleD:
  "others_idle deps \<Longrightarrow> wp (d_others deps) (\<lambda>_ c'.
     co_effectQueue c' = co_effectQueue c \<and> co_pendingEffects c' = co_pendingEffects c) c"
  by (simp add: others_idle_def)

lemma trials_others: "others_idle deps \<Longrightarrow> keeps (\<lambda>c. trials c \<le> m) (d_others deps)"
  unfolding keeps_def by (auto simp: trials_def intro: wp_mono [OF others_idleD])

lemma trials_world [simp]: "trials (c\<lparr>co_world := w\<rparr>) = trials c"
  by (simp add: trials_def)

lemma trials_candidate: "keeps (\<lambda>c. trials c \<le> m) (set_candidate f)"
  unfolding set_candidate_def by (rule keeps_poke) (simp add: trials_def)

lemma trials_begin: "others_idle deps \<Longrightarrow> keeps (\<lambda>c. trials c \<le> m) (beginTransientCommitLocked deps)"
  unfolding beginTransientCommitLocked_def
  by (intro trials.all_commits trials.all_steps trials_others keeps_rules; simp)

lemma trials_registration:
  "others_idle deps \<Longrightarrow> keeps (\<lambda>c. trials c \<le> m) (completeTransientRegistration deps background remote connection)"
  unfolding completeTransientRegistration_def
  by (intro trials_begin trials_candidate trials.all_commits trials.all_steps trials_others keeps_rules; simp)

subsection \<open>One effect\<close>

lemma effect_not_trial:
  "\<not> on_trial e \<Longrightarrow> wp (run_effect deps background e)
     (\<lambda>r c'. r = Some () \<and> co_effectQueue c' = co_effectQueue c \<and> co_pendingEffects c' = co_pendingEffects c) c"
  unfolding run_effect_def Let_def on_trial_def
  by (cases "ef_kind e") (auto split: option.splits prod.splits)

lemma effect_trial:
  "others_idle deps \<Longrightarrow> trials c \<le> m \<Longrightarrow> wp (run_effect deps background e) (\<lambda>_ c'. trials c' \<le> m) c"
  unfolding run_effect_def Let_def
  by (cases "ef_kind e")
     (auto split: option.splits prod.splits intro!: keepsD [OF trials_registration])

text \<open>What the loop gets closer to its end by.\<close>

definition effects_left :: "'w ftc \<Rightarrow> nat \<times> nat" where
  "effects_left c = (trials c, length (co_effectQueue c))"

lemma step_progress:
  assumes "others_idle deps" and "co_effectQueue c \<noteq> []"
  shows "wp (do {result \<leftarrow> drain_step deps background; case result of None \<Rightarrow> give False | Some _ \<Rightarrow> do {d_others deps; give True}})
    (\<lambda>on c'. on \<longrightarrow> (effects_left c', effects_left c) \<in> less_than <*lex*> less_than) c"
proof -
  obtain e rest where queue: "co_effectQueue c = e # rest" using assms(2) by (cases "co_effectQueue c") auto
  let ?c = "c\<lparr>co_effectQueue := rest\<rparr>"
  have others: "wp (d_others deps) (\<lambda>_ c''. effects_left c'' = effects_left c') c'" for c'
    by (rule wp_mono [OF others_idleD [OF assms(1)]]) (simp add: effects_left_def trials_def)
  have run: "wp (run_effect deps background e) (\<lambda>_ c'. (effects_left c', effects_left c) \<in> less_than <*lex*> less_than) ?c"
  proof (cases "on_trial e")
    case True
    then have "trials ?c \<le> trials c - 1" "trials c > 0" by (simp_all add: trials_def queue)
    with effect_trial [OF assms(1), of ?c "trials c - 1"] show ?thesis
      by (intro wp_mono [OF effect_trial [OF assms(1), of ?c "trials c - 1"]]) (auto simp: effects_left_def)
  next
    case False
    show ?thesis by (rule wp_mono [OF effect_not_trial [OF False]]) (use False in \<open>auto simp: effects_left_def trials_def queue\<close>)
  qed
  show ?thesis unfolding drain_step_def
    by (simp add: queue, rule wp_mono [OF run])
       (auto split: option.split intro!: wp_mono [OF others])
qed

text \<open>
  C36: while no other goroutine queues effects, the queue is worked off after finitely many of them,
  or an effect panics; the loop does not run forever.
\<close>

theorem drain_ends:
  assumes "others_idle deps"
  shows "\<exists>n. wp (drainEffects deps background n)
    (\<lambda>result c'. result = Panicked \<or> result = Drained \<and> co_effectQueue c' = []) c"
proof (induction "effects_left c" arbitrary: c rule: wf_induct_rule [OF wf_lex_prod [OF wf_less_than wf_less_than]])
  case (1 c)
  show ?case
  proof (cases "co_effectQueue c = []")
    case True
    then show ?thesis by (intro exI [of _ 1]) simp
  next
    case False
    obtain result c1 where step: "run_state (drain_step deps background) c = (result, c1)" by fastforce
    obtain c2 where others: "run_state (d_others deps) c1 = ((), c2)" by (metis surj_pair unit.exhaust)
    show ?thesis
    proof (cases result)
      case None
      then show ?thesis using False step by (intro exI [of _ 1]) (simp add: wp_iff_run [of "drain_step deps background"])
    next
      case (Some u)
      have "(effects_left c2, effects_left c) \<in> less_than <*lex*> less_than"
        using step_progress [OF assms False, of background] step others Some by (simp add: wp_iff_run)
      from 1 [OF this] obtain n where "wp (drainEffects deps background n)
          (\<lambda>result c'. result = Panicked \<or> result = Drained \<and> co_effectQueue c' = []) c2" by blast
      then show ?thesis using False step others Some
        by (intro exI [of _ "Suc n"])
           (simp add: wp_iff_run [of "drain_step deps background"] wp_iff_run [of "d_others deps"])
    qed
  qed
qed

definition sample_queue :: "unit ftc" where
  "sample_queue = sample_paired\<lparr>co_effectQueue :=
     [\<lparr>ef_kind = firstTrustEffectTransientRegister, ef_remote = sample_bytes 20 (CHR ''4''), ef_connection = 7\<rparr>,
      \<lparr>ef_kind = firstTrustEffectCancel, ef_remote = sample_bytes 20 (CHR ''5''), ef_connection = 8\<rparr>]\<rparr>"

theorem drain_ends_witness:
  "others_idle sample_deps \<and> trials sample_queue = 1 \<and> (\<exists>n. wp (drainEffects sample_deps 0 n)
     (\<lambda>result c'. result = Panicked \<or> result = Drained \<and> co_effectQueue c' = []) sample_queue)"
proof -
  have idle: "others_idle sample_deps" by (simp add: others_idle_def sample_deps_def)
  moreover have "trials sample_queue = 1" by code_simp
  ultimately show ?thesis using drain_ends [OF idle, of 0 sample_queue] by blast
qed

end
