(* ===== verification/GoJson.thy ===== *)
theory GoJson
  imports TypedValue
begin

text \<open>
  What the credential store uses of \<^verbatim>\<open>encoding/json\<close> and \<^verbatim>\<open>encoding/base64\<close>: the reader of JSON values
  as \<^verbatim>\<open>json.Decoder\<close> does it, strings with their escapes and the repair of invalid UTF-8 included,
  the fields of a structure, and padded base64. A reader returns the value and the rest of the
  text. The members of an object keep the text of their value, which is what a
  \<^verbatim>\<open>json.RawMessage\<close> holds.
\<close>

subsection \<open>Runes\<close>

text \<open>\<^verbatim>\<open>utf8.AppendRune\<close>\<close>

definition utf8_encode :: "nat \<Rightarrow> string" where
  "utf8_encode r =
     (if r < 128 then [char_of r]
      else if r < 2048 then [char_of (192 + r div 64), char_of (128 + r mod 64)]
      else if 1114111 < r \<or> 55296 \<le> r \<and> r \<le> 57343 then [CHR 0xEF, CHR 0xBF, CHR 0xBD]
      else if r < 65536 then [char_of (224 + r div 4096), char_of (128 + r div 64 mod 64), char_of (128 + r mod 64)]
      else [char_of (240 + r div 262144), char_of (128 + r div 4096 mod 64), char_of (128 + r div 64 mod 64), char_of (128 + r mod 64)])"

definition replacement :: string where "replacement = [CHR 0xEF, CHR 0xBF, CHR 0xBD]"

text \<open>The bytes a range loop writes back for a rune.\<close>

definition chunk_bytes :: "nat \<times> string \<Rightarrow> string" where
  "chunk_bytes ch = (if chunk_valid ch then snd ch else replacement)"

subsection \<open>Strings\<close>

definition hex_nat :: "char \<Rightarrow> nat option" where
  "hex_nat c = (if is_digit c then Some (of_char c - 48)
     else if in_range (CHR ''a'') (CHR ''f'') c then Some (of_char c - 87)
     else if in_range (CHR ''A'') (CHR ''F'') c then Some (of_char c - 55) else None)"

text \<open>Four hexadecimal digits; the unread rest is the text after them.\<close>

definition read_hex4 :: "string \<Rightarrow> nat option" where
  "read_hex4 s = (case map hex_nat (take 4 s) of
      [Some a, Some b, Some c, Some d] \<Rightarrow> Some (a * 4096 + b * 256 + c * 16 + d) | _ \<Rightarrow> None)"

definition simple_escape :: "char \<Rightarrow> char option" where
  "simple_escape e =
     (if e = CHR 0x22 \<or> e = CHR 0x5C \<or> e = CHR ''/'' then Some e
      else if e = CHR ''b'' then Some (CHR 0x08) else if e = CHR ''f'' then Some (CHR 0x0C)
      else if e = CHR ''n'' then Some (CHR 0x0A) else if e = CHR ''r'' then Some (CHR 0x0D)
      else if e = CHR ''t'' then Some (CHR 0x09) else None)"

text \<open>
  A high surrogate followed by the escape of a low one is one rune; any other surrogate is
  U+FFFD. The second component is the number of characters of the text that the pair takes.
\<close>

definition escaped_rune :: "nat \<Rightarrow> string \<Rightarrow> nat \<times> nat" where
  "escaped_rune u rest =
     (if u < 55296 \<or> 57343 < u then (u, 0)
      else case (take 2 rest = [CHR 0x5C, CHR ''u''], read_hex4 (drop 2 rest)) of
        (True, Some v) \<Rightarrow>
          if u < 56320 \<and> 56320 \<le> v \<and> v \<le> 57343 then ((u - 55296) * 1024 + (v - 56320) + 65536, 6) else (65533, 0)
      | _ \<Rightarrow> (65533, 0))"

text \<open>The text after the opening quote up to the closing one.\<close>

function read_string :: "string \<Rightarrow> (string \<times> string) option" where
  "read_string [] = None"
| "read_string (c # cs) =
     (if c = CHR 0x22 then Some ([], cs)
      else if c = CHR 0x5C then
        (case cs of
           [] \<Rightarrow> None
         | e # r \<Rightarrow>
             if e = CHR ''u'' then
               (case read_hex4 r of
                  None \<Rightarrow> None
                | Some u \<Rightarrow> let x = escaped_rune u (drop 4 r) in
                    map_option (apfst ((@) (utf8_encode (fst x)))) (read_string (drop (4 + snd x) r)))
             else (case simple_escape e of
                 None \<Rightarrow> None
               | Some x \<Rightarrow> map_option (apfst ((#) x)) (read_string r)))
      else if (of_char c :: nat) < 32 then None
      else let rn = utf8_next c cs in
        map_option (apfst ((@) (chunk_bytes (fst rn, c # take (snd rn) cs)))) (read_string (drop (snd rn) cs)))"
  by pat_completeness auto
termination
  by (relation "measure length") auto

declare read_string.simps [simp del]

subsection \<open>Values\<close>

datatype json =
    JNull
  | JBool bool
  | JNumber string
  | JString string
  | JArray "json list"
  | JObject "(string \<times> string \<times> json) list"

definition is_ws :: "char \<Rightarrow> bool" where
  "is_ws c \<longleftrightarrow> c = CHR '' '' \<or> c = CHR 0x09 \<or> c = CHR 0x0A \<or> c = CHR 0x0D"

definition skip_ws :: "string \<Rightarrow> string" where "skip_ws = dropWhile is_ws"

text \<open>
  A number: a sign, digits without a leading zero, a fraction, an exponent. The first component is
  its text.
\<close>

definition number_digits :: "string \<Rightarrow> (string \<times> string) option" where
  "number_digits s = (let d = takeWhile is_digit s in if d = [] then None else Some (d, dropWhile is_digit s))"

definition number_integer :: "string \<Rightarrow> (string \<times> string) option" where
  "number_integer s = (case s of
      [] \<Rightarrow> None
    | c # r \<Rightarrow> if c = CHR ''0'' then Some ([c], r) else number_digits s)"

definition number_fraction :: "string \<Rightarrow> (string \<times> string) option" where
  "number_fraction s = (case s of
      c # r \<Rightarrow> if c = CHR ''.'' then map_option (apfst ((#) c)) (number_digits r) else Some ([], s)
    | [] \<Rightarrow> Some ([], s))"

definition number_exponent :: "string \<Rightarrow> (string \<times> string) option" where
  "number_exponent s = (case s of
      c # r \<Rightarrow>
        if c = CHR ''e'' \<or> c = CHR ''E'' then
          let sign = (case r of g # _ \<Rightarrow> if g = CHR ''+'' \<or> g = CHR ''-'' then [g] else [] | [] \<Rightarrow> []) in
          map_option (apfst ((@) (c # sign))) (number_digits (drop (length sign) r))
        else Some ([], s)
    | [] \<Rightarrow> Some ([], s))"

definition read_number :: "string \<Rightarrow> (string \<times> string) option" where
  "read_number s = (let sign = (case s of c # _ \<Rightarrow> if c = CHR ''-'' then [c] else [] | [] \<Rightarrow> []) in
     case number_integer (drop (length sign) s) of
       None \<Rightarrow> None
     | Some (i, s1) \<Rightarrow>
         case number_fraction s1 of
           None \<Rightarrow> None
         | Some (f, s2) \<Rightarrow>
             case number_exponent s2 of
               None \<Rightarrow> None
             | Some (e, s3) \<Rightarrow> Some (sign @ i @ f @ e, s3))"

definition read_literal :: "string \<Rightarrow> json \<Rightarrow> string \<Rightarrow> (json \<times> string) option" where
  "read_literal text v s = (if has_prefix text s then Some (v, drop (length text) s) else None)"

text \<open>
  The fuel bounds the nesting and the number of members; every step takes at least one character,
  so the length of the text is enough.
\<close>

fun read_value :: "nat \<Rightarrow> string \<Rightarrow> (json \<times> string) option"
  and read_members :: "nat \<Rightarrow> string \<Rightarrow> ((string \<times> string \<times> json) list \<times> string) option"
  and read_items :: "nat \<Rightarrow> string \<Rightarrow> (json list \<times> string) option" where
  "read_value 0 s = None"
| "read_value (Suc n) s =
     (case skip_ws s of
        [] \<Rightarrow> None
      | c # r \<Rightarrow>
          if c = CHR 0x22 then map_option (apfst JString) (read_string r)
          else if c = CHR 0x7B then
            (case skip_ws r of
               [] \<Rightarrow> None
             | d # r' \<Rightarrow> if d = CHR 0x7D then Some (JObject [], r') else map_option (apfst JObject) (read_members n r))
          else if c = CHR ''['' then
            (case skip_ws r of
               [] \<Rightarrow> None
             | d # r' \<Rightarrow> if d = CHR '']'' then Some (JArray [], r') else map_option (apfst JArray) (read_items n r))
          else if c = CHR ''n'' then read_literal ''null'' JNull (c # r)
          else if c = CHR ''t'' then read_literal ''true'' (JBool True) (c # r)
          else if c = CHR ''f'' then read_literal ''false'' (JBool False) (c # r)
          else map_option (apfst JNumber) (read_number (c # r)))"
| "read_members 0 s = None"
| "read_members (Suc n) s =
     (case skip_ws s of
        [] \<Rightarrow> None
      | q # s1 \<Rightarrow>
          if q \<noteq> CHR 0x22 then None
          else (case read_string s1 of
              None \<Rightarrow> None
            | Some (key, s2) \<Rightarrow>
                (case skip_ws s2 of
                   [] \<Rightarrow> None
                 | k # s3 \<Rightarrow>
                     if k \<noteq> CHR '':'' then None
                     else let s4 = skip_ws s3 in
                       (case read_value n s4 of
                          None \<Rightarrow> None
                        | Some (v, s5) \<Rightarrow>
                            let member = (key, take (length s4 - length s5) s4, v) in
                            (case skip_ws s5 of
                               [] \<Rightarrow> None
                             | e # s6 \<Rightarrow>
                                 if e = CHR 0x7D then Some ([member], s6)
                                 else if e = CHR '','' then map_option (apfst ((#) member)) (read_members n s6)
                                 else None)))))"
| "read_items 0 s = None"
| "read_items (Suc n) s =
     (case read_value n s of
        None \<Rightarrow> None
      | Some (v, s1) \<Rightarrow>
          (case skip_ws s1 of
             [] \<Rightarrow> None
           | e # s2 \<Rightarrow>
               if e = CHR '']'' then Some ([v], s2)
               else if e = CHR '','' then map_option (apfst ((#) v)) (read_items n s2)
               else None))"

declare read_value.simps [simp del] read_members.simps [simp del] read_items.simps [simp del]

text \<open>One value, and nothing but white space after it.\<close>

definition read_document :: "string \<Rightarrow> json option" where
  "read_document s = (case read_value (Suc (length s)) s of
      Some (v, rest) \<Rightarrow> if skip_ws rest = [] then Some v else None
    | None \<Rightarrow> None)"

subsection \<open>Fields of a structure\<close>

text \<open>
  A closed structure has no members but its own. Go also takes a member whose name differs in case
  only, and joins members of the same name; the store compares the text with the canonical one
  afterwards, which refuses both, so refusing them here gives the same answer.
\<close>

definition closed_fields :: "string list \<Rightarrow> json \<Rightarrow> (string \<times> string \<times> json) list option" where
  "closed_fields names v = (case v of
      JNull \<Rightarrow> Some []
    | JObject ms \<Rightarrow> if list_all (\<lambda>m. List.member names (fst m)) ms \<and> distinct (map fst ms) then Some ms else None
    | _ \<Rightarrow> None)"

text \<open>A missing member and null leave the zero value.\<close>

definition field_with :: "(json \<Rightarrow> 'a option) \<Rightarrow> 'a \<Rightarrow> (string \<times> string \<times> json) list \<Rightarrow> string \<Rightarrow> 'a option" where
  "field_with f zero ms name = (case map_of ms name of
      None \<Rightarrow> Some zero
    | Some (_, v) \<Rightarrow> if v = JNull then Some zero else f v)"

definition json_uint :: "nat \<Rightarrow> json \<Rightarrow> nat option" where
  "json_uint limit v = (case v of
      JNumber t \<Rightarrow> (if t = [] then None else case parse_digits 0 t of
          None \<Rightarrow> None | Some n \<Rightarrow> if n < limit then Some n else None)
    | _ \<Rightarrow> None)"

definition json_uint64 :: "json \<Rightarrow> uint64 option" where
  "json_uint64 v = map_option of_nat (json_uint (2 ^ 64) v)"

definition json_int64 :: "json \<Rightarrow> int option" where
  "json_int64 v = (case v of JNumber t \<Rightarrow> parse_int64 t | _ \<Rightarrow> None)"

definition json_str :: "json \<Rightarrow> string option" where
  "json_str v = (case v of JString s \<Rightarrow> Some s | _ \<Rightarrow> None)"

definition json_boolean :: "json \<Rightarrow> bool option" where
  "json_boolean v = (case v of JBool b \<Rightarrow> Some b | _ \<Rightarrow> None)"

fun all_some :: "'a option list \<Rightarrow> 'a list option" where
  "all_some [] = Some []"
| "all_some (x # xs) = (case x of None \<Rightarrow> None | Some y \<Rightarrow> map_option ((#) y) (all_some xs))"

definition json_list :: "(json \<Rightarrow> 'a option) \<Rightarrow> json \<Rightarrow> 'a list option" where
  "json_list f v = (case v of JArray vs \<Rightarrow> all_some (map f vs) | _ \<Rightarrow> None)"

lemma all_some_map: "(\<And>x. x \<in> set xs \<Longrightarrow> f x = Some (g x)) \<Longrightarrow> all_some (map f xs) = Some (map g xs)"
  by (induction xs) auto

subsection \<open>Padded base64\<close>

definition std_char :: "nat \<Rightarrow> char" where
  "std_char v = (if v = 62 then CHR ''+'' else if v = 63 then CHR ''/'' else b64_char v)"

definition std_value :: "char \<Rightarrow> nat option" where
  "std_value c = (if c = CHR ''+'' then Some 62 else if c = CHR ''/'' then Some 63
     else if c = CHR ''-'' \<or> c = CHR ''_'' then None else b64_value c)"

text \<open>The number of padding characters after \<open>n\<close> sextet_parts.\<close>

definition std_padding :: "nat \<Rightarrow> nat" where "std_padding n = (4 - n mod 4) mod 4"

definition base64_encode :: "bytes \<Rightarrow> string" where
  "base64_encode bs = (let v = b64_encode_nat (map of_char bs) in map std_char v @ replicate (std_padding (length v)) (CHR ''=''))"

text \<open>Line ends are skipped; the padding is required and its unused bits are zero.\<close>

definition base64_decode :: "string \<Rightarrow> bytes option" where
  "base64_decode s =
     (let t = filter (\<lambda>c. c \<noteq> CHR 0x0A \<and> c \<noteq> CHR 0x0D) s;
          body = takeWhile (\<lambda>c. c \<noteq> CHR ''='') t in
      if list_all (\<lambda>c. std_value c \<noteq> None) body \<and> drop (length body) t = replicate (std_padding (length body)) (CHR ''='')
      then map_option (map char_of) (b64_decode_nat (map (the \<circ> std_value) body)) else None)"

end
