(* ===== verification/StoreSchema.thy ===== *)
theory StoreSchema
  imports GoJson "HOL-Library.List_Lexorder" "HOL-Library.Char_ord"
begin

text \<open>
  The data of the credential store, \<^verbatim>\<open>src/internal/eebusstore\<close>: generations, manifests and their
  envelopes (\<^verbatim>\<open>schema.go\<close>), control records (\<^verbatim>\<open>control.go\<close>, \<^verbatim>\<open>control_v3.go\<close>) and what makes
  them valid (\<^verbatim>\<open>codec.go\<close>). Every error of the validators and codecs has the outcome
  \<open>malformed_state\<close>, so a check is a truth value and a codec an option. SHA-256 and the test for
  normal form C, which is \<^verbatim>\<open>golang.org/x/text\<close>, are parameters.
\<close>

record slib =
  sl_sha256 :: "bytes \<Rightarrow> bytes"
  sl_nfc :: "string \<Rightarrow> bool"

subsection \<open>Data\<close>

definition currentSchemaVersion :: uint64 where "currentSchemaVersion = 3"
definition currentManifestVersion :: uint64 where "currentManifestVersion = 1"
definition currentSlotVersion :: uint64 where "currentSlotVersion = 1"

record generationMetadata =
  gm_sequence :: uint64
  gm_parentSequence :: "uint64 option"
  gm_parentSHA256 :: "string option"

record protectedKeyReference =
  pk_providerID :: string
  pk_providerVersion :: uint64
  pk_sealedBlob :: bytes
  pk_certificateSPKISHA256 :: string

record localIdentityV1 =
  lid_certificateChainDER :: "bytes list"
  lid_keyReference :: protectedKeyReference
  lid_localSKI :: bytes

record remoteIdentityV1 =
  rid_recordID :: bytes
  rid_remoteSKI :: bytes
  rid_remoteSHIPID :: string

record stateV1 =
  sd_localIdentity :: "localIdentityV1 option"
  sd_remoteIdentities :: "remoteIdentityV1 list"
  sd_controlEnvelope :: bytes

record generationV1 =
  gn_metadata :: generationMetadata
  gn_state :: stateV1
  gn_schemaVersion :: uint64

record generationReference =
  gf_generation :: uint64
  gf_generationFile :: string
  gf_generationSHA256 :: string
  gf_schemaVersion :: uint64

record manifestPayloadV1 =
  mp_manifestVersion :: uint64
  mp_current :: generationReference
  mp_parent :: "generationReference option"

record manifestEnvelope =
  me_slotFormatVersion :: uint64
  me_manifestEpoch :: uint64
  me_manifestPayload :: bytes
  me_manifestSHA256 :: string

record controlTombstone =
  kt_associationRef :: bytes
  kt_revocationEpoch :: uint64
  kt_operationID :: bytes
  kt_effectiveGeneration :: generationReference

record controlQuarantine =
  kq_scope :: bytes
  kq_reasonCode :: uint64
  kq_stateCode :: uint64
  kq_attemptCount :: uint64
  kq_backoffStep :: uint64
  kq_remainingDelay :: int
  kq_retentionBudget :: int
  kq_lastControlEpoch :: uint64

record controlReceipt =
  kr_operationID :: bytes
  kr_operationClass :: uint64
  kr_bindingSHA256 :: bytes
  kr_resultCode :: uint64
  kr_terminal :: bool

record controlAttempt =
  ka_stateCode :: uint64
  ka_attemptID :: bytes
  ka_remoteSKI :: bytes
  ka_scope :: bytes
  ka_controlEpoch :: uint64
  ka_associationLineage :: bytes
  ka_endpointHost :: string
  ka_endpointPort :: "16 word"
  ka_path :: string
  ka_cancellationGeneration :: uint64
  ka_reservationOrder :: uint64
  ka_reservationTimestamp :: int
  ka_attemptCountBefore :: uint64

record controlPublication =
  kp_operationID :: bytes
  kp_operationClass :: uint64
  kp_storeInstance :: bytes
  kp_previousControlEpoch :: uint64
  kp_targetControlEpoch :: uint64
  kp_previousGeneration :: generationReference
  kp_targetGeneration :: generationReference

record controlRecordV3 =
  kc_storeInstance :: bytes
  kc_controlEpoch :: uint64
  kc_associationLineage :: bytes
  kc_tombstones :: "controlTombstone list"
  kc_quarantines :: "controlQuarantine list"
  kc_receipts :: "controlReceipt list"
  kc_attempts :: "controlAttempt list"
  kc_operationHighWater :: uint64
  kc_repairSequence :: uint64
  kc_publication :: "controlPublication option"

text \<open>The zero value of the state, with which a store is created.\<close>

definition state_zero :: stateV1 where
  "state_zero = \<lparr>sd_localIdentity = None, sd_remoteIdentities = [], sd_controlEnvelope = []\<rparr>"

subsection \<open>Limits\<close>

definition maxManifestEnvelopeBytes :: nat where "maxManifestEnvelopeBytes = 16384"
definition maxManifestPayloadBytes :: nat where "maxManifestPayloadBytes = 8192"
definition maxGenerationBytes :: nat where "maxGenerationBytes = 4194304"
definition maxJSONDepth :: nat where "maxJSONDepth = 8"
definition maxCertificateCount :: nat where "maxCertificateCount = 16"
definition maxCertificateBytes :: nat where "maxCertificateBytes = 1048576"
definition maxSealedBlobBytes :: nat where "maxSealedBlobBytes = 262144"
definition maxOpaqueIDBytes :: nat where "maxOpaqueIDBytes = 128"
definition maxRemoteSHIPIDBytes :: nat where "maxRemoteSHIPIDBytes = 512"
definition maxRemoteIdentityCount :: nat where "maxRemoteIdentityCount = 1024"
definition controlOpaqueBytes :: nat where "controlOpaqueBytes = 32"
definition maxControlRecords :: nat where "maxControlRecords = 128"
definition maxControlEndpointHost :: nat where "maxControlEndpointHost = 255"
definition maxControlAttemptPath :: nat where "maxControlAttemptPath = 1024"

lemmas store_limits = maxManifestEnvelopeBytes_def maxManifestPayloadBytes_def maxGenerationBytes_def maxJSONDepth_def
  maxCertificateCount_def maxCertificateBytes_def maxSealedBlobBytes_def maxOpaqueIDBytes_def maxRemoteSHIPIDBytes_def
  maxRemoteIdentityCount_def controlOpaqueBytes_def maxControlRecords_def maxControlEndpointHost_def maxControlAttemptPath_def

text \<open>\<^verbatim>\<open>math.MaxInt64\<close> and \<^verbatim>\<open>math.MaxUint16\<close> as counters\<close>

definition int64_max :: uint64 where "int64_max = 0x7FFFFFFFFFFFFFFF"
definition uint16_max :: uint64 where "uint16_max = 0xFFFF"

subsection \<open>Text\<close>

definition sha256Hex :: "slib \<Rightarrow> bytes \<Rightarrow> string" where
  "sha256Hex lib payload = hex_encode (sl_sha256 lib payload)"

definition generationFilename :: "uint64 \<Rightarrow> string" where
  "generationFilename sequence = ''g-'' @ pad 20 (unat sequence) @ ''.json''"

definition digestPattern :: "string \<Rightarrow> bool" where
  "digestPattern s \<longleftrightarrow> length s = 64 \<and> list_all is_hex_lower s"

definition providerIDPattern :: "string \<Rightarrow> bool" where
  "providerIDPattern s \<longleftrightarrow> s \<noteq> [] \<and> is_lower (hd s) \<and> length s \<le> 64 \<and>
     list_all (\<lambda>c. is_lower c \<or> is_digit c \<or> c = CHR ''.'' \<or> c = CHR ''-'') (tl s)"

text \<open>The categories Cc and Cf of Unicode 15.\<close>

definition rune_control :: "nat \<Rightarrow> bool" where
  "rune_control r \<longleftrightarrow> r < 32 \<or> 127 \<le> r \<and> r < 160"

definition rune_format :: "nat \<Rightarrow> bool" where
  "rune_format r \<longleftrightarrow> list_ex (\<lambda>(lo, hi). lo \<le> r \<and> r \<le> hi)
     [(0xAD, 0xAD), (0x600, 0x605), (0x61C, 0x61C), (0x6DD, 0x6DD), (0x70F, 0x70F), (0x890, 0x891), (0x8E2, 0x8E2),
      (0x180E, 0x180E), (0x200B, 0x200F), (0x202A, 0x202E), (0x2060, 0x2064), (0x2066, 0x206F), (0xFEFF, 0xFEFF),
      (0xFFF9, 0xFFFB), (0x110BD, 0x110BD), (0x110CD, 0x110CD), (0x13430, 0x1343F), (0x1BCA0, 0x1BCA3),
      (0x1D173, 0x1D17A), (0xE0001, 0xE0001), (0xE0020, 0xE007F)]"

definition validSchemaString :: "slib \<Rightarrow> string \<Rightarrow> bool" where
  "validSchemaString lib s \<longleftrightarrow> utf8_valid s \<and> sl_nfc lib s \<and> list_all (\<lambda>r. \<not> rune_control r \<and> \<not> rune_format r) (go_runes s)"

subsection \<open>Validity\<close>

definition validateGenerationReference :: "generationReference \<Rightarrow> bool" where
  "validateGenerationReference r \<longleftrightarrow> gf_generation r \<noteq> 0 \<and> gf_generation r \<le> int64_max \<and>
     gf_generationFile r = generationFilename (gf_generation r) \<and> digestPattern (gf_generationSHA256 r) \<and>
     gf_schemaVersion r \<le> int64_max"

definition validateGenerationMetadata :: "generationMetadata \<Rightarrow> bool" where
  "validateGenerationMetadata m \<longleftrightarrow> gm_sequence m \<noteq> 0 \<and> gm_sequence m \<le> int64_max \<and>
     (gm_parentSequence m = None \<longleftrightarrow> gm_parentSHA256 m = None) \<and>
     (case (gm_parentSequence m, gm_parentSHA256 m) of
        (Some p, Some d) \<Rightarrow> p \<noteq> 0 \<and> p < gm_sequence m \<and> p \<le> int64_max \<and> digestPattern d
      | _ \<Rightarrow> True)"

definition validControlEndpointHost :: "string \<Rightarrow> bool" where
  "validControlEndpointHost s \<longleftrightarrow> s \<noteq> [] \<and> length s \<le> maxControlEndpointHost \<and> utf8_valid s \<and> trim_space s = s \<and>
     \<not> List.member (go_runes s) 0"

definition validControlAttemptPath :: "string \<Rightarrow> bool" where
  "validControlAttemptPath s \<longleftrightarrow> length s \<le> maxControlAttemptPath \<and> utf8_valid s \<and> \<not> List.member (go_runes s) 0 \<and>
     (s = [] \<or> has_prefix ''/'' s)"

definition control_counter :: "uint64 \<Rightarrow> bool" where "control_counter x \<longleftrightarrow> x \<noteq> 0 \<and> x \<le> uint16_max"

definition tombstone_ok :: "controlRecordV3 \<Rightarrow> controlTombstone \<Rightarrow> bool" where
  "tombstone_ok rec t \<longleftrightarrow> length (kt_associationRef t) = controlOpaqueBytes \<and> length (kt_operationID t) = controlOpaqueBytes \<and>
     kt_revocationEpoch t \<noteq> 0 \<and> kt_revocationEpoch t \<le> kc_controlEpoch rec \<and> validateGenerationReference (kt_effectiveGeneration t)"

definition quarantine_ok :: "controlRecordV3 \<Rightarrow> controlQuarantine \<Rightarrow> bool" where
  "quarantine_ok rec q \<longleftrightarrow> length (kq_scope q) = controlOpaqueBytes \<and> control_counter (kq_reasonCode q) \<and>
     control_counter (kq_stateCode q) \<and> kq_attemptCount q \<le> uint16_max \<and> kq_backoffStep q \<le> uint16_max \<and>
     0 \<le> kq_remainingDelay q \<and> 0 \<le> kq_retentionBudget q \<and> kq_lastControlEpoch q \<le> kc_controlEpoch rec"

definition receipt_ok :: "controlReceipt \<Rightarrow> bool" where
  "receipt_ok r \<longleftrightarrow> length (kr_operationID r) = controlOpaqueBytes \<and> length (kr_bindingSHA256 r) = controlOpaqueBytes \<and>
     control_counter (kr_operationClass r) \<and> control_counter (kr_resultCode r)"

definition publication_ok :: "controlRecordV3 \<Rightarrow> controlPublication \<Rightarrow> bool" where
  "publication_ok rec p \<longleftrightarrow> length (kp_operationID p) = controlOpaqueBytes \<and> control_counter (kp_operationClass p) \<and>
     kp_storeInstance p = kc_storeInstance rec \<and> kp_previousControlEpoch p \<noteq> - 1 \<and>
     kp_targetControlEpoch p = kp_previousControlEpoch p + 1 \<and> kp_targetControlEpoch p = kc_controlEpoch rec \<and>
     validateGenerationReference (kp_previousGeneration p) \<and> validateGenerationReference (kp_targetGeneration p) \<and>
     gf_generation (kp_previousGeneration p) \<noteq> gf_generation (kp_targetGeneration p)"

definition validateControlRecordBase :: "controlRecordV3 \<Rightarrow> bool" where
  "validateControlRecordBase rec \<longleftrightarrow>
     length (kc_storeInstance rec) = controlOpaqueBytes \<and> length (kc_associationLineage rec) = controlOpaqueBytes \<and>
     kc_controlEpoch rec \<noteq> 0 \<and> kc_controlEpoch rec \<noteq> - 1 \<and>
     length (kc_tombstones rec) \<le> maxControlRecords \<and> length (kc_quarantines rec) \<le> maxControlRecords \<and>
     length (kc_receipts rec) \<le> maxControlRecords \<and> kc_operationHighWater rec \<le> int64_max \<and> kc_repairSequence rec \<le> int64_max \<and>
     unique_loop (tombstone_ok rec) kt_associationRef [] (kc_tombstones rec) \<and>
     unique_loop (quarantine_ok rec) kq_scope [] (kc_quarantines rec) \<and>
     unique_loop receipt_ok kr_operationID [] (kc_receipts rec) \<and>
     (case kc_publication rec of None \<Rightarrow> True | Some p \<Rightarrow> publication_ok rec p)"

definition attempt_ok :: "controlRecordV3 \<Rightarrow> controlAttempt \<Rightarrow> bool" where
  "attempt_ok rec a \<longleftrightarrow> ka_stateCode a \<noteq> 0 \<and> ka_stateCode a \<le> 2 \<and> length (ka_attemptID a) = controlOpaqueBytes \<and>
     length (ka_remoteSKI a) = 20 \<and> length (ka_scope a) = controlOpaqueBytes \<and> ka_controlEpoch a \<noteq> 0 \<and>
     ka_controlEpoch a \<le> kc_controlEpoch rec \<and> length (ka_associationLineage a) = controlOpaqueBytes \<and>
     validControlEndpointHost (ka_endpointHost a) \<and> ka_endpointPort a \<noteq> 0 \<and> validControlAttemptPath (ka_path a) \<and>
     ka_cancellationGeneration a \<noteq> 0 \<and> ka_reservationOrder a \<noteq> 0 \<and> 0 \<le> ka_reservationTimestamp a \<and>
     ka_attemptCountBefore a \<le> uint16_max"

fun attempts_loop :: "controlRecordV3 \<Rightarrow> bytes list \<Rightarrow> bytes list \<Rightarrow> uint64 list \<Rightarrow> controlAttempt list \<Rightarrow> bool" where
  "attempts_loop rec ids scopes orders [] = True"
| "attempts_loop rec ids scopes orders (a # as) =
     (if \<not> attempt_ok rec a then False
      else if List.member ids (ka_attemptID a) then False
      else if List.member scopes (ka_scope a) then False
      else if List.member orders (ka_reservationOrder a) then False
      else attempts_loop rec (ka_attemptID a # ids) (ka_scope a # scopes) (ka_reservationOrder a # orders) as)"

definition validateControlAttempts :: "controlRecordV3 \<Rightarrow> bool" where
  "validateControlAttempts rec \<longleftrightarrow> length (kc_attempts rec) \<le> maxControlRecords \<and> attempts_loop rec [] [] [] (kc_attempts rec)"

definition validateControlRecordV3 :: "controlRecordV3 \<Rightarrow> bool" where
  "validateControlRecordV3 rec \<longleftrightarrow> validateControlRecordBase rec \<and> validateControlAttempts rec"

end
