(* ===== verification/StoreCodec.thy ===== *)
theory StoreCodec
  imports StoreSchema "HOL-Library.Monad_Syntax"
begin

text \<open>
  The documents of the credential store, \<^verbatim>\<open>src/internal/eebusstore/codec.go\<close> and
  \<^verbatim>\<open>control_v3.go\<close>: how generations, manifests, envelopes and control records are written, and how
  they are read. A document that is read is written again and compared, so only one text is
  accepted for a value.
\<close>

subsection \<open>Canonical text\<close>

definition canonical_escape :: "nat \<times> string \<Rightarrow> string" where
  "canonical_escape ch = (if fst ch = 34 \<or> fst ch = 92 then [CHR 0x5C, char_of (fst ch)] else chunk_bytes ch)"

definition write_canonical :: "string \<Rightarrow> string" where
  "write_canonical s = [CHR 0x22] @ concat (map canonical_escape (go_chunks s)) @ [CHR 0x22]"

definition uint_text :: "uint64 \<Rightarrow> string" where "uint_text x = dec_nat (unat x)"

definition writeGenerationReference :: "generationReference \<Rightarrow> string" where
  \<open>writeGenerationReference r =
     ''{"generation":'' @ uint_text (gf_generation r) @ '',"generation_file":'' @ write_canonical (gf_generationFile r) @
     '',"generation_sha256":'' @ write_canonical (gf_generationSHA256 r) @
     '',"schema_version":'' @ uint_text (gf_schemaVersion r) @ ''}''\<close>

definition writeLocalIdentity :: "localIdentityV1 \<Rightarrow> string" where
  \<open>writeLocalIdentity i = (let k = lid_keyReference i in
     ''{"certificate_chain_der":['' @ join_comma (map (\<lambda>c. write_canonical (base64_encode c)) (lid_certificateChainDER i)) @
     ''],"key_reference":{"certificate_spki_sha256":'' @ write_canonical (pk_certificateSPKISHA256 k) @
     '',"provider_id":'' @ write_canonical (pk_providerID k) @ '',"provider_version":'' @ uint_text (pk_providerVersion k) @
     '',"sealed_blob":'' @ write_canonical (base64_encode (pk_sealedBlob k)) @
     ''},"local_ski":'' @ write_canonical (base64_encode (lid_localSKI i)) @ ''}'')\<close>

definition writeRemoteIdentity :: "remoteIdentityV1 \<Rightarrow> string" where
  \<open>writeRemoteIdentity i =
     ''{"record_id":'' @ write_canonical (base64_encode (rid_recordID i)) @
     '',"remote_ship_id":'' @ write_canonical (rid_remoteSHIPID i) @
     '',"remote_ski":'' @ write_canonical (base64_encode (rid_remoteSKI i)) @ ''}''\<close>

definition optional_text :: "('a \<Rightarrow> string) \<Rightarrow> 'a option \<Rightarrow> string" where
  "optional_text f x = (case x of None \<Rightarrow> ''null'' | Some y \<Rightarrow> f y)"

subsection \<open>The canonical form of a document\<close>

fun lexemes_ok :: "bool \<Rightarrow> string \<Rightarrow> bool" where
  "lexemes_ok False [] = True"
| "lexemes_ok True [] = False"
| "lexemes_ok False (c # r) = (if c = CHR 0x22 then lexemes_ok True r else if is_ws c then False else lexemes_ok False r)"
| "lexemes_ok True (c # r) =
     (if c = CHR 0x5C then (case r of [] \<Rightarrow> False | e # r' \<Rightarrow> (e = CHR 0x22 \<or> e = CHR 0x5C) \<and> lexemes_ok True r')
      else if c = CHR 0x22 then lexemes_ok False r
      else if (of_char c :: nat) < 32 then False
      else lexemes_ok True r)"

definition validateCanonicalJSONLexemes :: "string \<Rightarrow> bool" where
  "validateCanonicalJSONLexemes payload = lexemes_ok False (butlast payload)"

definition canonical_json_number :: "string \<Rightarrow> bool" where
  "canonical_json_number t \<longleftrightarrow> t \<noteq> [] \<and> (t = ''0'' \<or> hd t \<noteq> CHR ''0'') \<and> \<not> list_ex (\<lambda>c. List.member ''+-.eE'' c) t \<and>
     (case parse_digits 0 t of None \<Rightarrow> False | Some n \<Rightarrow> n \<le> unat int64_max)"

fun increasing :: "string list \<Rightarrow> bool" where
  "increasing (x # y # r) \<longleftrightarrow> x < y \<and> increasing (y # r)"
| "increasing _ \<longleftrightarrow> True"

fun validateJSONValue :: "slib \<Rightarrow> nat \<Rightarrow> nat \<Rightarrow> json \<Rightarrow> bool" where
  "validateJSONValue lib depth maximum JNull \<longleftrightarrow> depth \<le> maximum"
| "validateJSONValue lib depth maximum (JBool b) \<longleftrightarrow> depth \<le> maximum"
| "validateJSONValue lib depth maximum (JNumber t) \<longleftrightarrow> depth \<le> maximum \<and> canonical_json_number t"
| "validateJSONValue lib depth maximum (JString s) \<longleftrightarrow> depth \<le> maximum \<and> validSchemaString lib s"
| "validateJSONValue lib depth maximum (JArray vs) \<longleftrightarrow> depth \<le> maximum \<and> list_all (validateJSONValue lib (depth + 1) maximum) vs"
| "validateJSONValue lib depth maximum (JObject ms) \<longleftrightarrow> depth \<le> maximum \<and> list_all (validSchemaString lib) (map fst ms) \<and>
     increasing (map fst ms) \<and> list_all (\<lambda>m. validateJSONValue lib (depth + 1) maximum (snd (snd m))) ms"

text \<open>The value of a document in canonical form.\<close>

definition validateCanonicalJSON :: "slib \<Rightarrow> string \<Rightarrow> nat \<Rightarrow> nat \<Rightarrow> json option" where
  "validateCanonicalJSON lib payload maximum depth =
     (if payload = [] \<or> maximum < length payload \<or> last payload \<noteq> CHR 0x0A \<or>
         1 < length payload \<and> payload ! (length payload - 2) = CHR 0x0A \<or> \<not> utf8_valid payload then None
      else if \<not> validateCanonicalJSONLexemes payload then None
      else case read_document payload of
        None \<Rightarrow> None
      | Some v \<Rightarrow> if validateJSONValue lib 1 depth v then Some v else None)"

definition decodeCanonicalBase64 :: "string \<Rightarrow> nat \<Rightarrow> nat \<Rightarrow> bytes option" where
  "decodeCanonicalBase64 encoded minimum maximum =
     (if (maximum + 2) div 3 * 4 < length encoded then None
      else case base64_decode encoded of
        None \<Rightarrow> None
      | Some d \<Rightarrow> if length d < minimum \<or> maximum < length d \<or> base64_encode d \<noteq> encoded then None else Some d)"

subsection \<open>Fields\<close>

abbreviation uint_field where "uint_field \<equiv> field_with json_uint64 0"
abbreviation text_field where "text_field \<equiv> field_with json_str []"

definition struct_field :: "(json \<Rightarrow> 'a option) \<Rightarrow> (string \<times> string \<times> json) list \<Rightarrow> string \<Rightarrow> 'a option" where
  "struct_field f ms name = f (case map_of ms name of None \<Rightarrow> JNull | Some (_, v) \<Rightarrow> v)"

definition pointer_field :: "(json \<Rightarrow> 'a option) \<Rightarrow> (string \<times> string \<times> json) list \<Rightarrow> string \<Rightarrow> 'a option option" where
  "pointer_field f = field_with (\<lambda>v. map_option Some (f v)) None"

definition base64_field :: "nat \<Rightarrow> nat \<Rightarrow> (string \<times> string \<times> json) list \<Rightarrow> string \<Rightarrow> bytes option" where
  "base64_field minimum maximum ms name =
     (case text_field ms name of None \<Rightarrow> None | Some s \<Rightarrow> decodeCanonicalBase64 s minimum maximum)"

abbreviation opaque_field where "opaque_field \<equiv> base64_field controlOpaqueBytes controlOpaqueBytes"

definition check :: "bool \<Rightarrow> 'a \<Rightarrow> 'a option" where "check b x = (if b then Some x else None)"

definition decodeGenerationReference :: "json \<Rightarrow> generationReference option" where
  "decodeGenerationReference v = do {
     ms \<leftarrow> closed_fields [''generation'', ''generation_file'', ''generation_sha256'', ''schema_version''] v;
     g \<leftarrow> uint_field ms ''generation'';
     f \<leftarrow> text_field ms ''generation_file'';
     d \<leftarrow> text_field ms ''generation_sha256'';
     s \<leftarrow> uint_field ms ''schema_version'';
     let r = \<lparr>gf_generation = g, gf_generationFile = f, gf_generationSHA256 = d, gf_schemaVersion = s\<rparr> in
     check (validateGenerationReference r) r
   }"

subsection \<open>Control records\<close>

text \<open>\<^verbatim>\<open>json.Marshal\<close> of a structure\<close>

definition json_obj :: "(string \<times> string) list \<Rightarrow> string" where
  "json_obj kts = CHR 0x7B # join_comma (map (\<lambda>(k, t). CHR 0x22 # k @ CHR 0x22 # CHR '':'' # t) kts) @ [CHR 0x7D]"

definition json_arr :: "string list \<Rightarrow> string" where
  "json_arr ts = CHR ''['' # join_comma ts @ [CHR '']'']"

definition opaque_text :: "bytes \<Rightarrow> string" where "opaque_text b = marshal_string (base64_encode b)"

definition reference_text :: "generationReference \<Rightarrow> string" where
  "reference_text r = json_obj [(''generation'', uint_text (gf_generation r)), (''generation_file'', marshal_string (gf_generationFile r)),
     (''generation_sha256'', marshal_string (gf_generationSHA256 r)), (''schema_version'', uint_text (gf_schemaVersion r))]"

definition attempt_text :: "controlAttempt \<Rightarrow> string" where
  "attempt_text a = json_obj [(''association_lineage'', opaque_text (ka_associationLineage a)),
     (''attempt_count_before'', uint_text (ka_attemptCountBefore a)), (''attempt_id'', opaque_text (ka_attemptID a)),
     (''cancellation_generation'', uint_text (ka_cancellationGeneration a)), (''control_epoch'', uint_text (ka_controlEpoch a)),
     (''endpoint_host'', marshal_string (ka_endpointHost a)), (''endpoint_port'', dec_nat (unat (ka_endpointPort a))),
     (''path'', marshal_string (ka_path a)), (''remote_ski'', opaque_text (ka_remoteSKI a)),
     (''reservation_order'', uint_text (ka_reservationOrder a)), (''reservation_timestamp'', dec_int (ka_reservationTimestamp a)),
     (''scope'', opaque_text (ka_scope a)), (''state_code'', uint_text (ka_stateCode a))]"

definition tombstone_text :: "controlTombstone \<Rightarrow> string" where
  "tombstone_text t = json_obj [(''association_ref'', opaque_text (kt_associationRef t)),
     (''effective_generation'', reference_text (kt_effectiveGeneration t)), (''operation_id'', opaque_text (kt_operationID t)),
     (''revocation_epoch'', uint_text (kt_revocationEpoch t))]"

definition quarantine_text :: "controlQuarantine \<Rightarrow> string" where
  "quarantine_text q = json_obj [(''attempt_count'', uint_text (kq_attemptCount q)), (''backoff_step'', uint_text (kq_backoffStep q)),
     (''last_control_epoch'', uint_text (kq_lastControlEpoch q)), (''reason_code'', uint_text (kq_reasonCode q)),
     (''remaining_delay'', dec_int (kq_remainingDelay q)), (''retention_budget'', dec_int (kq_retentionBudget q)),
     (''scope'', opaque_text (kq_scope q)), (''state_code'', uint_text (kq_stateCode q))]"

definition receipt_text :: "controlReceipt \<Rightarrow> string" where
  "receipt_text r = json_obj [(''binding_sha256'', opaque_text (kr_bindingSHA256 r)), (''operation_class'', uint_text (kr_operationClass r)),
     (''operation_id'', opaque_text (kr_operationID r)), (''result_code'', uint_text (kr_resultCode r)),
     (''terminal'', if kr_terminal r then ''true'' else ''false'')]"

definition publication_text :: "controlPublication \<Rightarrow> string" where
  "publication_text p = json_obj [(''operation_class'', uint_text (kp_operationClass p)), (''operation_id'', opaque_text (kp_operationID p)),
     (''previous_control_epoch'', uint_text (kp_previousControlEpoch p)), (''previous_generation'', reference_text (kp_previousGeneration p)),
     (''store_instance'', opaque_text (kp_storeInstance p)), (''target_control_epoch'', uint_text (kp_targetControlEpoch p)),
     (''target_generation'', reference_text (kp_targetGeneration p))]"

text \<open>Attempts are written by their reservation order, then by their identifier.\<close>

definition sorted_attempts :: "controlAttempt list \<Rightarrow> controlAttempt list" where
  "sorted_attempts as = sort_key (\<lambda>a. unat (ka_reservationOrder a)) (sort_key ka_attemptID as)"

definition encodeControlRecordV3Unchecked :: "controlRecordV3 \<Rightarrow> bytes" where
  "encodeControlRecordV3Unchecked rec = json_obj [(''association_lineage'', opaque_text (kc_associationLineage rec)),
     (''attempts'', json_arr (map attempt_text (sorted_attempts (kc_attempts rec)))), (''control_epoch'', uint_text (kc_controlEpoch rec)),
     (''operation_high_water'', uint_text (kc_operationHighWater rec)),
     (''publication'', optional_text publication_text (kc_publication rec)),
     (''quarantines'', json_arr (map quarantine_text (kc_quarantines rec))),
     (''receipts'', json_arr (map receipt_text (kc_receipts rec))), (''repair_sequence'', uint_text (kc_repairSequence rec)),
     (''store_instance'', opaque_text (kc_storeInstance rec)), (''tombstones'', json_arr (map tombstone_text (kc_tombstones rec)))]"

definition encodeControlRecordV3 :: "controlRecordV3 \<Rightarrow> bytes option" where
  "encodeControlRecordV3 rec = check (validateControlRecordV3 rec) (encodeControlRecordV3Unchecked rec)"

definition decode_attempt :: "json \<Rightarrow> controlAttempt option" where
  "decode_attempt v = do {
     ms \<leftarrow> closed_fields [''association_lineage'', ''attempt_count_before'', ''attempt_id'', ''cancellation_generation'', ''control_epoch'',
       ''endpoint_host'', ''endpoint_port'', ''path'', ''remote_ski'', ''reservation_order'', ''reservation_timestamp'', ''scope'', ''state_code''] v;
     lineage \<leftarrow> opaque_field ms ''association_lineage'';
     before \<leftarrow> uint_field ms ''attempt_count_before'';
     attemptID \<leftarrow> opaque_field ms ''attempt_id'';
     cancellation \<leftarrow> uint_field ms ''cancellation_generation'';
     epoch \<leftarrow> uint_field ms ''control_epoch'';
     host \<leftarrow> text_field ms ''endpoint_host'';
     port \<leftarrow> field_with (json_uint 65536) 0 ms ''endpoint_port'';
     path \<leftarrow> text_field ms ''path'';
     remote \<leftarrow> base64_field 20 20 ms ''remote_ski'';
     order \<leftarrow> uint_field ms ''reservation_order'';
     timestamp \<leftarrow> field_with json_int64 0 ms ''reservation_timestamp'';
     scope \<leftarrow> opaque_field ms ''scope'';
     stateCode \<leftarrow> uint_field ms ''state_code'';
     Some \<lparr>ka_stateCode = stateCode, ka_attemptID = attemptID, ka_remoteSKI = remote, ka_scope = scope, ka_controlEpoch = epoch,
       ka_associationLineage = lineage, ka_endpointHost = host, ka_endpointPort = of_nat port, ka_path = path,
       ka_cancellationGeneration = cancellation, ka_reservationOrder = order, ka_reservationTimestamp = timestamp,
       ka_attemptCountBefore = before\<rparr>
   }"

definition decode_tombstone :: "json \<Rightarrow> controlTombstone option" where
  "decode_tombstone v = do {
     ms \<leftarrow> closed_fields [''association_ref'', ''effective_generation'', ''operation_id'', ''revocation_epoch''] v;
     reference \<leftarrow> opaque_field ms ''association_ref'';
     operationID \<leftarrow> opaque_field ms ''operation_id'';
     generation \<leftarrow> struct_field decodeGenerationReference ms ''effective_generation'';
     epoch \<leftarrow> uint_field ms ''revocation_epoch'';
     Some \<lparr>kt_associationRef = reference, kt_revocationEpoch = epoch, kt_operationID = operationID, kt_effectiveGeneration = generation\<rparr>
   }"

definition decode_quarantine :: "json \<Rightarrow> controlQuarantine option" where
  "decode_quarantine v = do {
     ms \<leftarrow> closed_fields [''attempt_count'', ''backoff_step'', ''last_control_epoch'', ''reason_code'', ''remaining_delay'',
       ''retention_budget'', ''scope'', ''state_code''] v;
     attempts \<leftarrow> uint_field ms ''attempt_count'';
     step \<leftarrow> uint_field ms ''backoff_step'';
     lastEpoch \<leftarrow> uint_field ms ''last_control_epoch'';
     reason \<leftarrow> uint_field ms ''reason_code'';
     delay \<leftarrow> field_with json_int64 0 ms ''remaining_delay'';
     budget \<leftarrow> field_with json_int64 0 ms ''retention_budget'';
     scope \<leftarrow> opaque_field ms ''scope'';
     stateCode \<leftarrow> uint_field ms ''state_code'';
     Some \<lparr>kq_scope = scope, kq_reasonCode = reason, kq_stateCode = stateCode, kq_attemptCount = attempts, kq_backoffStep = step,
       kq_remainingDelay = delay, kq_retentionBudget = budget, kq_lastControlEpoch = lastEpoch\<rparr>
   }"

definition decode_receipt :: "json \<Rightarrow> controlReceipt option" where
  "decode_receipt v = do {
     ms \<leftarrow> closed_fields [''binding_sha256'', ''operation_class'', ''operation_id'', ''result_code'', ''terminal''] v;
     binding \<leftarrow> opaque_field ms ''binding_sha256'';
     operationClass \<leftarrow> uint_field ms ''operation_class'';
     operationID \<leftarrow> opaque_field ms ''operation_id'';
     result \<leftarrow> uint_field ms ''result_code'';
     terminal \<leftarrow> field_with json_boolean False ms ''terminal'';
     Some \<lparr>kr_operationID = operationID, kr_operationClass = operationClass, kr_bindingSHA256 = binding, kr_resultCode = result,
       kr_terminal = terminal\<rparr>
   }"

definition decode_publication :: "json \<Rightarrow> controlPublication option" where
  "decode_publication v = do {
     ms \<leftarrow> closed_fields [''operation_class'', ''operation_id'', ''previous_control_epoch'', ''previous_generation'', ''store_instance'',
       ''target_control_epoch'', ''target_generation''] v;
     operationClass \<leftarrow> uint_field ms ''operation_class'';
     operationID \<leftarrow> opaque_field ms ''operation_id'';
     previousEpoch \<leftarrow> uint_field ms ''previous_control_epoch'';
     previous \<leftarrow> struct_field decodeGenerationReference ms ''previous_generation'';
     storeInstance \<leftarrow> opaque_field ms ''store_instance'';
     targetEpoch \<leftarrow> uint_field ms ''target_control_epoch'';
     target \<leftarrow> struct_field decodeGenerationReference ms ''target_generation'';
     Some \<lparr>kp_operationID = operationID, kp_operationClass = operationClass, kp_storeInstance = storeInstance,
       kp_previousControlEpoch = previousEpoch, kp_targetControlEpoch = targetEpoch, kp_previousGeneration = previous,
       kp_targetGeneration = target\<rparr>
   }"

abbreviation list_field where "list_field f \<equiv> field_with (json_list f) []"

definition decode_control :: "json \<Rightarrow> controlRecordV3 option" where
  "decode_control v = do {
     ms \<leftarrow> closed_fields [''association_lineage'', ''attempts'', ''control_epoch'', ''operation_high_water'', ''publication'',
       ''quarantines'', ''receipts'', ''repair_sequence'', ''store_instance'', ''tombstones''] v;
     lineage \<leftarrow> opaque_field ms ''association_lineage'';
     attempts \<leftarrow> list_field decode_attempt ms ''attempts'';
     epoch \<leftarrow> uint_field ms ''control_epoch'';
     highWater \<leftarrow> uint_field ms ''operation_high_water'';
     publication \<leftarrow> pointer_field decode_publication ms ''publication'';
     quarantines \<leftarrow> list_field decode_quarantine ms ''quarantines'';
     receipts \<leftarrow> list_field decode_receipt ms ''receipts'';
     repairs \<leftarrow> uint_field ms ''repair_sequence'';
     storeInstance \<leftarrow> opaque_field ms ''store_instance'';
     tombstones \<leftarrow> list_field decode_tombstone ms ''tombstones'';
     Some \<lparr>kc_storeInstance = storeInstance, kc_controlEpoch = epoch, kc_associationLineage = lineage, kc_tombstones = tombstones,
       kc_quarantines = quarantines, kc_receipts = receipts, kc_attempts = attempts, kc_operationHighWater = highWater,
       kc_repairSequence = repairs, kc_publication = publication\<rparr>
   }"

definition decodeControlRecordV3 :: "bytes \<Rightarrow> controlRecordV3 option" where
  "decodeControlRecordV3 payload = do {
     v \<leftarrow> read_document payload;
     rec \<leftarrow> decode_control v;
     check (validateControlRecordV3 rec \<and> encodeControlRecordV3Unchecked rec = payload) rec
   }"

definition withControlRecordV3 :: "stateV1 \<Rightarrow> controlRecordV3 \<Rightarrow> stateV1" where
  "withControlRecordV3 source rec = source\<lparr>sd_controlEnvelope := encodeControlRecordV3Unchecked rec\<rparr>"

definition controlRecordV3FromStateV1 :: "stateV1 \<Rightarrow> controlRecordV3 option" where
  "controlRecordV3FromStateV1 source =
     (if sd_controlEnvelope source = [] then None else decodeControlRecordV3 (sd_controlEnvelope source))"

definition validControlRecordV3Envelope :: "bytes \<Rightarrow> bool" where
  "validControlRecordV3Envelope payload \<longleftrightarrow> decodeControlRecordV3 payload \<noteq> None"

subsection \<open>The state\<close>

definition local_identity_ok :: "localIdentityV1 \<Rightarrow> bool" where
  "local_identity_ok i \<longleftrightarrow> (let k = lid_keyReference i in
     lid_certificateChainDER i \<noteq> [] \<and> length (lid_certificateChainDER i) \<le> maxCertificateCount \<and>
     lid_localSKI i \<noteq> [] \<and> length (lid_localSKI i) \<le> maxOpaqueIDBytes \<and>
     list_all (\<lambda>c. c \<noteq> []) (lid_certificateChainDER i) \<and>
     sum_list (map length (lid_certificateChainDER i)) \<le> maxCertificateBytes \<and>
     providerIDPattern (pk_providerID k) \<and> pk_providerVersion k \<noteq> 0 \<and> pk_providerVersion k \<le> int64_max \<and>
     pk_sealedBlob k \<noteq> [] \<and> length (pk_sealedBlob k) \<le> maxSealedBlobBytes \<and> digestPattern (pk_certificateSPKISHA256 k))"

definition remote_identity_ok :: "slib \<Rightarrow> remoteIdentityV1 \<Rightarrow> bool" where
  "remote_identity_ok lib i \<longleftrightarrow> rid_recordID i \<noteq> [] \<and> length (rid_recordID i) \<le> maxOpaqueIDBytes \<and>
     rid_remoteSKI i \<noteq> [] \<and> length (rid_remoteSKI i) \<le> maxOpaqueIDBytes \<and>
     rid_remoteSHIPID i \<noteq> [] \<and> length (rid_remoteSHIPID i) \<le> maxRemoteSHIPIDBytes \<and> validSchemaString lib (rid_remoteSHIPID i)"

text \<open>The remote identities in the order of their records, with no key twice.\<close>

fun remotes_loop :: "slib \<Rightarrow> bytes option \<Rightarrow> bytes list \<Rightarrow> bytes list \<Rightarrow> string list \<Rightarrow> remoteIdentityV1 list \<Rightarrow> bool" where
  "remotes_loop lib previous recs skis ships [] = True"
| "remotes_loop lib previous recs skis ships (i # is) =
     (if \<not> remote_identity_ok lib i then False
      else if (case previous of None \<Rightarrow> False | Some p \<Rightarrow> p \<ge> rid_recordID i) then False
      else if List.member recs (rid_recordID i) then False
      else if List.member skis (rid_remoteSKI i) then False
      else if List.member ships (rid_remoteSHIPID i) then False
      else remotes_loop lib (Some (rid_recordID i)) (rid_recordID i # recs) (rid_remoteSKI i # skis) (rid_remoteSHIPID i # ships) is)"

definition validateStateV1 :: "slib \<Rightarrow> stateV1 \<Rightarrow> bool" where
  "validateStateV1 lib s \<longleftrightarrow> length (sd_remoteIdentities s) \<le> maxRemoteIdentityCount \<and>
     (sd_controlEnvelope s \<noteq> [] \<longrightarrow> validControlRecordV3Envelope (sd_controlEnvelope s)) \<and>
     (case sd_localIdentity s of None \<Rightarrow> True | Some i \<Rightarrow> local_identity_ok i) \<and>
     remotes_loop lib None [] [] [] (sd_remoteIdentities s)"

definition decode_local :: "json \<Rightarrow> localIdentityV1 option" where
  "decode_local v = do {
     ms \<leftarrow> closed_fields [''certificate_chain_der'', ''key_reference'', ''local_ski''] v;
     chain \<leftarrow> list_field (\<lambda>x. Option.bind (if x = JNull then Some [] else json_str x) (\<lambda>s. decodeCanonicalBase64 s 1 maxCertificateBytes))
       ms ''certificate_chain_der'';
     ski \<leftarrow> base64_field 1 maxOpaqueIDBytes ms ''local_ski'';
     key \<leftarrow> struct_field (\<lambda>k. do {
         ks \<leftarrow> closed_fields [''certificate_spki_sha256'', ''provider_id'', ''provider_version'', ''sealed_blob''] k;
         spki \<leftarrow> text_field ks ''certificate_spki_sha256'';
         provider \<leftarrow> text_field ks ''provider_id'';
         version \<leftarrow> uint_field ks ''provider_version'';
         blob \<leftarrow> base64_field 1 maxSealedBlobBytes ks ''sealed_blob'';
         Some \<lparr>pk_providerID = provider, pk_providerVersion = version, pk_sealedBlob = blob, pk_certificateSPKISHA256 = spki\<rparr>
       }) ms ''key_reference'';
     Some \<lparr>lid_certificateChainDER = chain, lid_keyReference = key, lid_localSKI = ski\<rparr>
   }"

definition decode_remote :: "json \<Rightarrow> remoteIdentityV1 option" where
  "decode_remote v = do {
     ms \<leftarrow> closed_fields [''record_id'', ''remote_ship_id'', ''remote_ski''] v;
     recordID \<leftarrow> base64_field 1 maxOpaqueIDBytes ms ''record_id'';
     shipID \<leftarrow> text_field ms ''remote_ship_id'';
     ski \<leftarrow> base64_field 1 maxOpaqueIDBytes ms ''remote_ski'';
     Some \<lparr>rid_recordID = recordID, rid_remoteSKI = ski, rid_remoteSHIPID = shipID\<rparr>
   }"

definition decodeStateV1 :: "slib \<Rightarrow> localIdentityV1 option \<Rightarrow> remoteIdentityV1 list \<Rightarrow> stateV1 option" where
  "decodeStateV1 lib loc remotes = (let s = \<lparr>sd_localIdentity = loc, sd_remoteIdentities = remotes, sd_controlEnvelope = []\<rparr> in
     check (validateStateV1 lib s) s)"

subsection \<open>Generations\<close>

definition encodeGenerationV1 :: "slib \<Rightarrow> generationV1 \<Rightarrow> bytes option" where
  \<open>encodeGenerationV1 lib g = (let m = gn_metadata g; s = gn_state g in
     if \<not> validateGenerationMetadata m \<or> \<not> validateStateV1 lib s \<or> gn_schemaVersion g \<noteq> currentSchemaVersion then None
     else case (if sd_controlEnvelope s = [] then Some ''null''
                else Option.bind (controlRecordV3FromStateV1 s) encodeControlRecordV3) of
       None \<Rightarrow> None
     | Some control \<Rightarrow>
         let out = ''{"control":'' @ control @ '',"generation":{"parent_sequence":'' @ optional_text uint_text (gm_parentSequence m) @
           '',"parent_sha256":'' @ optional_text write_canonical (gm_parentSHA256 m) @ '',"sequence":'' @ uint_text (gm_sequence m) @
           ''},"local_identity":'' @ optional_text writeLocalIdentity (sd_localIdentity s) @
           '',"remote_identities":['' @ join_comma (map writeRemoteIdentity (sd_remoteIdentities s)) @
           ''],"schema_version":'' @ uint_text (gn_schemaVersion g) @ ''}'' @ [CHR 0x0A] in
         check (length out \<le> maxGenerationBytes) out)\<close>

text \<open>The bounds of the arrays, before anything is kept of them.\<close>

fun skipPreflightJSONValue :: "nat \<Rightarrow> json \<Rightarrow> bool" where
  "skipPreflightJSONValue depth (JArray vs) \<longleftrightarrow> depth \<le> maxJSONDepth \<and> list_all (skipPreflightJSONValue (depth + 1)) vs"
| "skipPreflightJSONValue depth (JObject ms) \<longleftrightarrow> depth \<le> maxJSONDepth \<and> list_all (\<lambda>m. skipPreflightJSONValue (depth + 1) (snd (snd m))) ms"
| "skipPreflightJSONValue depth _ \<longleftrightarrow> depth \<le> maxJSONDepth"

definition preflightBoundedArray :: "nat \<Rightarrow> nat \<Rightarrow> json \<Rightarrow> bool" where
  "preflightBoundedArray maximum depth v = (case v of
      JArray vs \<Rightarrow> length vs \<le> maximum \<and> list_all (skipPreflightJSONValue (depth + 1)) vs | _ \<Rightarrow> False)"

definition preflightLocalIdentity :: "json \<Rightarrow> bool" where
  "preflightLocalIdentity v = (case v of
      JNull \<Rightarrow> True
    | JObject ms \<Rightarrow> list_all (\<lambda>m. if fst m = ''certificate_chain_der'' then preflightBoundedArray maxCertificateCount 3 (snd (snd m))
        else skipPreflightJSONValue 3 (snd (snd m))) ms
    | _ \<Rightarrow> False)"

definition preflightGenerationArrayBounds :: "bytes \<Rightarrow> bool" where
  "preflightGenerationArrayBounds payload =
     (if payload = [] \<or> maxGenerationBytes < length payload then False
      else case read_value (Suc (length payload)) payload of
        Some (JObject ms, _) \<Rightarrow> list_all (\<lambda>m.
          if fst m = ''local_identity'' then preflightLocalIdentity (snd (snd m))
          else if fst m = ''remote_identities'' then preflightBoundedArray maxRemoteIdentityCount 2 (snd (snd m))
          else skipPreflightJSONValue 2 (snd (snd m))) ms
      | _ \<Rightarrow> False)"

definition generationSchemaVersion :: "bytes \<Rightarrow> uint64" where
  "generationSchemaVersion payload = (case read_document payload of
      Some (JObject ms) \<Rightarrow> (case uint_field ms ''schema_version'' of None \<Rightarrow> 0 | Some x \<Rightarrow> x) | _ \<Rightarrow> 0)"

definition decodeGenerationMetadata :: "json \<Rightarrow> generationMetadata option" where
  "decodeGenerationMetadata v = do {
     ms \<leftarrow> closed_fields [''parent_sequence'', ''parent_sha256'', ''sequence''] v;
     parent \<leftarrow> pointer_field json_uint64 ms ''parent_sequence'';
     digest \<leftarrow> pointer_field json_str ms ''parent_sha256'';
     sequence \<leftarrow> uint_field ms ''sequence'';
     let m = \<lparr>gm_sequence = sequence, gm_parentSequence = parent, gm_parentSHA256 = digest\<rparr> in
     check (validateGenerationMetadata m) m
   }"

text \<open>The control field is kept as the text it was written as.\<close>

definition decode_generation_control :: "(string \<times> string \<times> json) list \<Rightarrow> controlRecordV3 option option" where
  "decode_generation_control ms = (case map_of ms ''control'' of
      None \<Rightarrow> None
    | Some (raw, _) \<Rightarrow> if raw = ''null'' then Some None else map_option Some (decodeControlRecordV3 raw))"

definition decodeGenerationV1 :: "slib \<Rightarrow> bytes \<Rightarrow> generationV1 option" where
  "decodeGenerationV1 lib payload =
     (if \<not> preflightGenerationArrayBounds payload then None
      else do {
        v \<leftarrow> validateCanonicalJSON lib payload maxGenerationBytes maxJSONDepth;
        _ \<leftarrow> check (generationSchemaVersion payload = currentSchemaVersion) ();
        ms \<leftarrow> closed_fields [''control'', ''generation'', ''local_identity'', ''remote_identities'', ''schema_version''] v;
        control \<leftarrow> decode_generation_control ms;
        metadata \<leftarrow> struct_field decodeGenerationMetadata ms ''generation'';
        loc \<leftarrow> pointer_field decode_local ms ''local_identity'';
        remotes \<leftarrow> list_field decode_remote ms ''remote_identities'';
        s \<leftarrow> decodeStateV1 lib loc remotes;
        envelope \<leftarrow> (case control of None \<Rightarrow> Some [] | Some rec \<Rightarrow> encodeControlRecordV3 rec);
        let g = \<lparr>gn_metadata = metadata, gn_state = s\<lparr>sd_controlEnvelope := envelope\<rparr>, gn_schemaVersion = currentSchemaVersion\<rparr> in
        check (encodeGenerationV1 lib g = Some payload) g
      })"

subsection \<open>Manifests\<close>

definition encodeManifestPayloadV1 :: "manifestPayloadV1 \<Rightarrow> bytes option" where
  \<open>encodeManifestPayloadV1 m =
     (if mp_manifestVersion m \<noteq> currentManifestVersion \<or> \<not> validateGenerationReference (mp_current m) \<or>
         \<not> (case mp_parent m of None \<Rightarrow> True | Some p \<Rightarrow> validateGenerationReference p) then None
      else let out = ''{"current":'' @ writeGenerationReference (mp_current m) @ '',"manifest_version":1,"parent":'' @
             optional_text writeGenerationReference (mp_parent m) @ ''}'' @ [CHR 0x0A] in
        check (length out \<le> maxManifestPayloadBytes) out)\<close>

definition decodeManifestPayloadV1 :: "slib \<Rightarrow> bytes \<Rightarrow> manifestPayloadV1 option" where
  "decodeManifestPayloadV1 lib payload = do {
     v \<leftarrow> validateCanonicalJSON lib payload maxManifestPayloadBytes maxJSONDepth;
     ms \<leftarrow> closed_fields [''current'', ''manifest_version'', ''parent''] v;
     version \<leftarrow> uint_field ms ''manifest_version'';
     _ \<leftarrow> check (version = currentManifestVersion) ();
     current \<leftarrow> struct_field decodeGenerationReference ms ''current'';
     parent \<leftarrow> pointer_field decodeGenerationReference ms ''parent'';
     let m = \<lparr>mp_manifestVersion = version, mp_current = current, mp_parent = parent\<rparr> in
     check (encodeManifestPayloadV1 m = Some payload) m
   }"

text \<open>Reading the references of a manifest of any version: further members are ignored.\<close>

definition decodeManifestVersion :: "bytes \<Rightarrow> uint64 option" where
  "decodeManifestVersion payload = (case read_document payload of
      Some (JObject ms) \<Rightarrow> (case map_of ms ''manifest_version'' of
          None \<Rightarrow> None | Some (_, v) \<Rightarrow> if v = JNull then Some 0 else json_uint64 v)
    | _ \<Rightarrow> None)"

definition decodeForwardGenerationReference :: "json \<Rightarrow> generationReference option" where
  "decodeForwardGenerationReference v = (case v of
      JObject ms \<Rightarrow>
        if list_all (\<lambda>name. map_of ms name \<noteq> None) [''generation'', ''generation_file'', ''generation_sha256'', ''schema_version''] then do {
          g \<leftarrow> uint_field ms ''generation'';
          f \<leftarrow> text_field ms ''generation_file'';
          d \<leftarrow> text_field ms ''generation_sha256'';
          s \<leftarrow> uint_field ms ''schema_version'';
          let r = \<lparr>gf_generation = g, gf_generationFile = f, gf_generationSHA256 = d, gf_schemaVersion = s\<rparr> in
          check (validateGenerationReference r) r
        } else None
    | _ \<Rightarrow> None)"

definition extractManifestGenerationReferences :: "slib \<Rightarrow> bytes \<Rightarrow> generationReference list option" where
  "extractManifestGenerationReferences lib payload = do {
     v \<leftarrow> validateCanonicalJSON lib payload maxManifestPayloadBytes maxJSONDepth;
     _ \<leftarrow> decodeManifestVersion payload;
     (case v of
        JObject ms \<Rightarrow> (case (map_of ms ''current'', map_of ms ''parent'') of
            (Some (_, c), Some (raw, p)) \<Rightarrow> do {
              current \<leftarrow> decodeForwardGenerationReference c;
              (if raw = ''null'' then Some [current]
               else map_option (\<lambda>parent. [current, parent]) (decodeForwardGenerationReference p))
            }
          | _ \<Rightarrow> None)
      | _ \<Rightarrow> None)
   }"

subsection \<open>Envelopes\<close>

definition encodeManifestSlot :: "slib \<Rightarrow> manifestEnvelope \<Rightarrow> bytes option" where
  \<open>encodeManifestSlot lib e =
     (if me_manifestEpoch e = 0 \<or> int64_max < me_manifestEpoch e \<or> me_manifestPayload e = [] \<or>
         maxManifestPayloadBytes < length (me_manifestPayload e) then None
      else let digest = sha256Hex lib (me_manifestPayload e) in
        if me_manifestSHA256 e \<noteq> [] \<and> me_manifestSHA256 e \<noteq> digest then None
        else let out = ''{"manifest_epoch":'' @ uint_text (me_manifestEpoch e) @ '',"manifest_payload":'' @
               write_canonical (base64_encode (me_manifestPayload e)) @ '',"manifest_sha256":'' @ write_canonical digest @
               '',"slot_format_version":'' @ uint_text (me_slotFormatVersion e) @ ''}'' @ [CHR 0x0A] in
          check (length out \<le> maxManifestEnvelopeBytes) out)\<close>

definition decodeManifestSlot :: "slib \<Rightarrow> bytes \<Rightarrow> manifestEnvelope option" where
  "decodeManifestSlot lib payload = do {
     v \<leftarrow> validateCanonicalJSON lib payload maxManifestEnvelopeBytes maxJSONDepth;
     ms \<leftarrow> closed_fields [''manifest_epoch'', ''manifest_payload'', ''manifest_sha256'', ''slot_format_version''] v;
     epoch \<leftarrow> uint_field ms ''manifest_epoch'';
     encoded \<leftarrow> text_field ms ''manifest_payload'';
     digest \<leftarrow> text_field ms ''manifest_sha256'';
     version \<leftarrow> uint_field ms ''slot_format_version'';
     _ \<leftarrow> check (epoch \<noteq> 0 \<and> epoch \<le> int64_max) ();
     body \<leftarrow> decodeCanonicalBase64 encoded 1 maxManifestPayloadBytes;
     _ \<leftarrow> check (digestPattern digest \<and> sha256Hex lib body = digest) ();
     let e = \<lparr>me_slotFormatVersion = version, me_manifestEpoch = epoch, me_manifestPayload = body, me_manifestSHA256 = digest\<rparr> in
     check (encodeManifestSlot lib e = Some payload) e
   }"

end
