(* ===== verification/StoreDisk.thy ===== *)
theory StoreDisk
  imports StoreCodec StateHoare
begin

text \<open>
  The files of the credential store and the calls the store makes on them,
  \<^verbatim>\<open>src/internal/eebusstore/filesystem.go\<close> and \<^verbatim>\<open>outcome.go\<close>. A directory keeps what it held since it
  was last synchronised: after a crash every name is found as it was at some moment since then, and
  a file that was not synchronised with any content. What each call meets is given by a tape: it
  succeeds, fails, writes a part, or the process dies there, after which no call has an effect.
\<close>

subsection \<open>Outcomes\<close>

datatype storeOutcome =
    outcomeOpenedEmpty
  | outcomeOpenedCurrent
  | outcomeRecoveryCandidateAvailable
  | outcomeCommitDurable
  | outcomeCommitAppliedMaintenanceFailed
  | outcomePathRejected
  | outcomeBootstrapDurabilityUnknown
  | outcomeFilesystemCapabilityUnavailable
  | outcomePermissionsRejected
  | outcomeLayoutRejected
  | outcomeWriterBusy
  | outcomeLockUnavailable
  | outcomeManifestAmbiguous
  | outcomeNoValidManifest
  | outcomeUnsupportedLegacyVersion
  | outcomeUnsupportedFutureVersion
  | outcomeMalformedState
  | outcomeNoValidCurrent
  | outcomeKeyProviderUnavailable
  | outcomeKeyMaterialUnavailable
  | outcomeMaintenanceFailed
  | outcomeCommitNotPublished
  | outcomeCommitDurabilityUnknown
  | outcomeIOFailed

text \<open>An error of the store, or one of the operating system.\<close>

datatype storeError = PlainError | StoreError storeOutcome string

definition capabilityCategory :: "string \<Rightarrow> string" where
  "capabilityCategory operation =
     (if operation = ''select_backend'' then ''backend_selection''
      else if operation = ''probe_backend_policy'' then ''backend_policy''
      else if List.member [''root_identity'', ''lock_identity'', ''stat_object'', ''stat_created_object'', ''resume_bootstrap'',
        ''probe_stable_identity''] operation then ''stable_identity''
      else if operation = ''probe_atomic_replacement'' then ''atomic_replacement''
      else if operation = ''probe_process_lock'' then ''process_lock''
      else if operation = ''probe_nofollow_create'' then ''nofollow_create''
      else if operation = ''probe_file_fsync'' then ''file_fsync''
      else if operation = ''probe_directory_fsync'' then ''directory_fsync''
      else if List.member [''inspect_acl'', ''probe_acl''] operation then ''acl_inspection''
      else if operation = ''probe_cleanup'' then ''cleanup''
      else if operation = ''probe_create'' then ''file_create''
      else if operation = ''probe_close'' then ''file_close''
      else if operation = ''probe_file_write'' then ''file_write''
      else if operation = ''random_temp_name'' then ''temporary_name''
      else ''unknown'')"

definition newStoreError :: "storeOutcome \<Rightarrow> string \<Rightarrow> storeError" where
  "newStoreError result operation =
     (if result = outcomeFilesystemCapabilityUnavailable \<and> capabilityCategory operation = ''unknown'' then StoreError result ''unknown''
      else StoreError result operation)"

definition outcomeOf :: "storeError \<Rightarrow> storeOutcome" where
  "outcomeOf e = (case e of PlainError \<Rightarrow> outcomeIOFailed | StoreError r _ \<Rightarrow> r)"

definition filesystemCapabilityDiagnostic :: "storeError \<Rightarrow> string" where
  "filesystemCapabilityDiagnostic e = (case e of
      StoreError outcomeFilesystemCapabilityUnavailable operation \<Rightarrow> capabilityCategory operation
    | _ \<Rightarrow> ''unknown'')"

definition malformed :: "string \<Rightarrow> storeError" where
  "malformed operation = newStoreError outcomeMalformedState operation"

lemma outcomeOf_new [simp]: "outcomeOf (newStoreError r operation) = r"
  by (simp add: outcomeOf_def newStoreError_def)

subsection \<open>Directories\<close>

record stored_file =
  fl_data :: bytes
  fl_synced :: bool

type_synonym entries = "(string \<times> stored_file) list"

record directory =
  dr_now :: entries
  dr_past :: "entries list"

datatype directoryRole = directoryRoot | directoryGenerations

datatype verdict = Good | Fails storeError | Partial nat | Crash

datatype manifestSlot = manifestSlotA | manifestSlotB

record selectedManifest =
  sm_slot :: manifestSlot
  sm_epoch :: uint64
  sm_payload :: bytes
  sm_envelope :: manifestEnvelope
  sm_envelopeRaw :: bytes

text \<open>
  The open store with its two directories, the further names in its root, the random bytes still to
  come and the tape.
\<close>

record store =
  os_root :: directory
  os_generations :: directory
  os_others :: "string list"
  os_random :: "bytes list"
  os_tape :: "verdict list"
  os_dead :: bool
  os_selected :: "selectedManifest option"
  os_manifest :: "manifestPayloadV1 option"
  os_state :: stateV1
  os_closed :: bool
  os_poisoned :: bool

type_synonym 'a fsop = "(store, 'a) state"

definition dir_of :: "directoryRole \<Rightarrow> store \<Rightarrow> directory" where
  "dir_of role s = (case role of directoryRoot \<Rightarrow> os_root s | directoryGenerations \<Rightarrow> os_generations s)"

definition set_dir :: "directoryRole \<Rightarrow> directory \<Rightarrow> store \<Rightarrow> store" where
  "set_dir role d s = (case role of directoryRoot \<Rightarrow> s\<lparr>os_root := d\<rparr> | directoryGenerations \<Rightarrow> s\<lparr>os_generations := d\<rparr>)"

text \<open>A change of the names of a directory leaves the old names to be found after a crash.\<close>

definition rename_entries :: "(entries \<Rightarrow> entries) \<Rightarrow> directory \<Rightarrow> directory" where
  "rename_entries f d = d\<lparr>dr_now := f (dr_now d), dr_past := dr_now d # dr_past d\<rparr>"

definition put_entry :: "string \<Rightarrow> stored_file \<Rightarrow> entries \<Rightarrow> entries" where
  "put_entry name f es = (name, f) # filter (\<lambda>e. fst e \<noteq> name) es"

definition drop_entry :: "string \<Rightarrow> entries \<Rightarrow> entries" where
  "drop_entry name es = filter (\<lambda>e. fst e \<noteq> name) es"

definition lookup :: "directoryRole \<Rightarrow> string \<Rightarrow> store \<Rightarrow> stored_file option" where
  "lookup role name s = map_of (dr_now (dir_of role s)) name"

definition update_dir :: "directoryRole \<Rightarrow> (directory \<Rightarrow> directory) \<Rightarrow> unit fsop" where
  "update_dir role f = State_Monad.update (\<lambda>s. set_dir role (f (dir_of role s)) s)"

definition next_verdict :: "verdict fsop" where
  "next_verdict = State (\<lambda>s.
     if os_dead s then (Fails PlainError, s)
     else case os_tape s of
       [] \<Rightarrow> (Good, s)
     | v # vs \<Rightarrow> if v = Crash then (Fails PlainError, s\<lparr>os_tape := vs, os_dead := True\<rparr>) else (v, s\<lparr>os_tape := vs\<rparr>))"

definition reading :: "(store \<Rightarrow> 'a) \<Rightarrow> 'a fsop" where
  "reading f = State_Monad.bind State_Monad.get (\<lambda>s. State_Monad.return (f s))"

text \<open>The call and its error.\<close>

definition called :: "storeError option fsop" where
  "called = do {v \<leftarrow> next_verdict; State_Monad.return (case v of Good \<Rightarrow> None | Fails e \<Rightarrow> Some e | _ \<Rightarrow> Some PlainError)}"

definition orelse :: "(storeError + 'a) fsop \<Rightarrow> (storeError \<Rightarrow> 'b fsop) \<Rightarrow> ('a \<Rightarrow> 'b fsop) \<Rightarrow> 'b fsop" where
  "orelse m h k = do {r \<leftarrow> m; case r of Inl e \<Rightarrow> h e | Inr x \<Rightarrow> k x}"

abbreviation ok :: "'a \<Rightarrow> (storeError + 'a) fsop" where "ok x \<equiv> State_Monad.return (Inr x)"
abbreviation err :: "storeError \<Rightarrow> (storeError + 'a) fsop" where "err e \<equiv> State_Monad.return (Inl e)"

definition guarded :: "storeError option fsop \<Rightarrow> (storeError + unit) fsop" where
  "guarded m = do {e \<leftarrow> m; State_Monad.return (case e of None \<Rightarrow> Inr () | Some x \<Rightarrow> Inl x)}"

text \<open>\<open>attempt\<close> passes an error on.\<close>

definition attempt :: "(storeError + 'a) fsop \<Rightarrow> ('a \<Rightarrow> (storeError + 'b) fsop) \<Rightarrow> (storeError + 'b) fsop" where
  "attempt m k = orelse m (\<lambda>e. err e) k"

subsection \<open>Calls\<close>

definition syncFile :: "directoryRole \<Rightarrow> string \<Rightarrow> (storeError + unit) fsop" where
  "syncFile role name = attempt (guarded called) (\<lambda>_. do {
     update_dir role (\<lambda>d. d\<lparr>dr_now := map (\<lambda>(n, f). (n, if n = name then f\<lparr>fl_synced := True\<rparr> else f)) (dr_now d)\<rparr>);
     ok ()
   })"

definition syncDirectory :: "directoryRole \<Rightarrow> (storeError + unit) fsop" where
  "syncDirectory role = attempt (guarded called) (\<lambda>_. do {update_dir role (\<lambda>d. d\<lparr>dr_past := []\<rparr>); ok ()})"

definition fs_rename :: "directoryRole \<Rightarrow> string \<Rightarrow> string \<Rightarrow> (storeError + unit) fsop" where
  "fs_rename role oldName newName = attempt (guarded called) (\<lambda>_. do {
     f \<leftarrow> reading (lookup role oldName);
     case f of
       None \<Rightarrow> err PlainError
     | Some x \<Rightarrow> do {update_dir role (rename_entries (\<lambda>es. put_entry newName x (drop_entry oldName es))); ok ()}
   })"

definition fs_remove :: "directoryRole \<Rightarrow> string \<Rightarrow> (storeError + unit) fsop" where
  "fs_remove role name = attempt (guarded called) (\<lambda>_. do {
     f \<leftarrow> reading (lookup role name);
     if f = None then err PlainError
     else do {update_dir role (rename_entries (drop_entry name)); ok ()}
   })"

text \<open>A write that fails may have written a part.\<close>

definition append_data :: "string \<Rightarrow> bytes \<Rightarrow> directory \<Rightarrow> directory" where
  "append_data name data d =
     d\<lparr>dr_now := map (\<lambda>(n, f). (n, if n = name then \<lparr>fl_data = fl_data f @ data, fl_synced = False\<rparr> else f)) (dr_now d)\<rparr>"

definition writeAll :: "directoryRole \<Rightarrow> string \<Rightarrow> bytes \<Rightarrow> (storeError + unit) fsop" where
  "writeAll role name payload = do {
     v \<leftarrow> next_verdict;
     case v of
       Good \<Rightarrow> do {update_dir role (append_data name payload); ok ()}
     | Partial n \<Rightarrow> do {
         update_dir role (append_data name (take n payload));
         if length payload \<le> n then ok () else err PlainError
       }
     | Fails e \<Rightarrow> err e
     | Crash \<Rightarrow> err PlainError
   }"

definition rand_Read :: "bytes option fsop" where
  "rand_Read = State (\<lambda>s. case os_random s of [] \<Rightarrow> (None, s) | r # rs \<Rightarrow> (Some (take 12 (r @ replicate 12 (CHR 0x00))), s\<lparr>os_random := rs\<rparr>))"

text \<open>\<open>openat\<close> with \<open>O_CREAT\<close> and \<open>O_EXCL\<close>: whether the file was made; \<open>None\<close> when the name exists.\<close>

definition create_exclusive :: "directoryRole \<Rightarrow> string \<Rightarrow> (storeError + unit) option fsop" where
  "create_exclusive role name = do {
     e \<leftarrow> called;
     f \<leftarrow> reading (lookup role name);
     case e of
       Some x \<Rightarrow> State_Monad.return (Some (Inl x))
     | None \<Rightarrow> if f \<noteq> None then State_Monad.return None
         else do {
           update_dir role (rename_entries (put_entry name \<lparr>fl_data = [], fl_synced = False\<rparr>));
           State_Monad.return (Some (Inr ()))
         }
   }"

definition verifyOpenedDescriptor :: "(storeError + unit) fsop" where
  "verifyOpenedDescriptor = guarded called"

fun create_loop :: "nat \<Rightarrow> directoryRole \<Rightarrow> string \<Rightarrow> (storeError + string) fsop" where
  "create_loop 0 role prefix = err (newStoreError outcomeIOFailed ''create_temp'')"
| "create_loop (Suc n) role prefix = do {
     r \<leftarrow> rand_Read;
     case r of
       None \<Rightarrow> err (newStoreError outcomeFilesystemCapabilityUnavailable ''random_temp_name'')
     | Some random \<Rightarrow> do {
         c \<leftarrow> create_exclusive role (prefix @ hex_encode random);
         case c of
           None \<Rightarrow> create_loop n role prefix
         | Some (Inl e) \<Rightarrow> err (newStoreError outcomeIOFailed ''create_temp'')
         | Some (Inr _) \<Rightarrow> orelse verifyOpenedDescriptor
             (\<lambda>e. do {_ \<leftarrow> fs_remove role (prefix @ hex_encode random); err e})
             (\<lambda>_. ok (prefix @ hex_encode random))
       }
   }"

definition createTemporary :: "directoryRole \<Rightarrow> string \<Rightarrow> (storeError + string) fsop" where
  "createTemporary role prefix = create_loop 16 role prefix"

definition directoryNames :: "directoryRole \<Rightarrow> (storeError + string list) fsop" where
  "directoryNames role = attempt (guarded called) (\<lambda>_. do {
     names \<leftarrow> reading (\<lambda>s. (if role = directoryRoot then os_others s else []) @ map fst (dr_now (dir_of role s)));
     if 132 < length names then err PlainError else ok (sort names)
   })"

definition objectExistsAt :: "directoryRole \<Rightarrow> string \<Rightarrow> (storeError + bool) fsop" where
  "objectExistsAt role name = orelse (guarded called) (\<lambda>_. err (newStoreError outcomeIOFailed ''inspect_object''))
     (\<lambda>_. do {f \<leftarrow> reading (lookup role name); ok (f \<noteq> None)})"

text \<open>The checks of the type, the mode, the owner and the identity of the object are the verdict.\<close>

definition openVerifiedAt :: "directoryRole \<Rightarrow> string \<Rightarrow> (storeError + stored_file) fsop" where
  "openVerifiedAt role name = attempt (guarded called) (\<lambda>_. do {
     f \<leftarrow> reading (lookup role name);
     case f of None \<Rightarrow> err (newStoreError outcomeLayoutRejected ''inspect_object'') | Some x \<Rightarrow> ok x
   })"

definition readVerifiedFile :: "directoryRole \<Rightarrow> string \<Rightarrow> nat \<Rightarrow> (storeError + bytes) fsop" where
  "readVerifiedFile role name maximum = attempt (openVerifiedAt role name) (\<lambda>f.
     orelse (guarded called) (\<lambda>_. err (newStoreError outcomeIOFailed ''read_object''))
       (\<lambda>_. if maximum < length (fl_data f) then err (newStoreError outcomeMalformedState ''read_object'') else ok (fl_data f)))"

subsection \<open>Names\<close>

definition is_temp_rest :: "string \<Rightarrow> bool" where
  "is_temp_rest r \<longleftrightarrow> r \<noteq> [] \<and> list_all (\<lambda>c. is_lower c \<or> is_digit c) r"

definition generationTempPattern :: "string \<Rightarrow> bool" where
  "generationTempPattern name \<longleftrightarrow> has_prefix ''.tmp-generation-'' name \<and> is_temp_rest (drop 16 name)"

definition manifestTempPattern :: "string \<Rightarrow> bool" where
  "manifestTempPattern name \<longleftrightarrow> has_prefix ''.tmp-manifest-'' name \<and> is_temp_rest (drop 14 name)"

definition generationNamePattern :: "string \<Rightarrow> bool" where
  "generationNamePattern name \<longleftrightarrow> length name = 27 \<and> has_prefix ''g-'' name \<and> list_all is_digit (take 20 (drop 2 name)) \<and>
     drop 22 name = ''.json''"

definition parseGenerationName :: "string \<Rightarrow> uint64 option" where
  "parseGenerationName name =
     (if \<not> generationNamePattern name then None
      else case parse_digits 0 (take 20 (drop 2 name)) of
        None \<Rightarrow> None
      | Some n \<Rightarrow> if 2 ^ 64 \<le> n \<or> n = 0 \<or> unat int64_max < n \<or> generationFilename (of_nat n) \<noteq> name then None else Some (of_nat n))"

definition manifestSlotFilename :: "manifestSlot \<Rightarrow> string" where
  "manifestSlotFilename slot = (if slot = manifestSlotB then ''MANIFEST.B'' else ''MANIFEST.A'')"

definition otherManifestSlot :: "manifestSlot \<Rightarrow> manifestSlot" where
  "otherManifestSlot slot = (if slot = manifestSlotA then manifestSlotB else manifestSlotA)"

end
