(* ===== verification/StoreCommit.thy ===== *)
theory StoreCommit
  imports StoreDisk
begin

text \<open>
  Opening the credential store and committing a state to it, \<^verbatim>\<open>src/internal/eebusstore/manifest.go\<close>,
  \<^verbatim>\<open>store.go\<close>, \<^verbatim>\<open>commit.go\<close> and \<^verbatim>\<open>provider.go\<close>. A commit writes a new generation, then the manifest slot
  that is not in use, and synchronises each directory after its rename.
\<close>

subsection \<open>Manifest slots\<close>

definition publicationValidSlot :: "slib \<Rightarrow> manifestSlot \<Rightarrow> bytes \<Rightarrow> selectedManifest option" where
  "publicationValidSlot lib slot raw =
     (if raw = [] then None
      else case decodeManifestSlot lib raw of
        None \<Rightarrow> None
      | Some envelope \<Rightarrow> Some \<lparr>sm_slot = slot, sm_epoch = me_manifestEpoch envelope, sm_payload = me_manifestPayload envelope,
          sm_envelope = envelope, sm_envelopeRaw = raw\<rparr>)"

definition selectManifestSlots :: "slib \<Rightarrow> bytes \<Rightarrow> bytes \<Rightarrow> storeError + selectedManifest" where
  "selectManifestSlots lib slotA slotB =
     (case (publicationValidSlot lib manifestSlotA slotA, publicationValidSlot lib manifestSlotB slotB) of
        (None, None) \<Rightarrow> Inl (newStoreError outcomeNoValidManifest ''select_manifest'')
      | (Some a, None) \<Rightarrow> Inr a
      | (None, Some b) \<Rightarrow> Inr b
      | (Some a, Some b) \<Rightarrow>
          if sm_epoch a > sm_epoch b then Inr a
          else if sm_epoch b > sm_epoch a then Inr b
          else if sm_envelopeRaw a = sm_envelopeRaw b then Inr a
          else Inl (newStoreError outcomeManifestAmbiguous ''select_manifest''))"

subsection \<open>Keys\<close>

text \<open>
  The certificate parser gives the public key of a certificate; a provider of protected keys can be
  asked whether it is there, whether a blob is for a key, and for the public key of the blob.
\<close>

record keyProvider =
  kv_probe :: "string \<Rightarrow> uint64 \<Rightarrow> bool"
  kv_validate :: "bytes \<Rightarrow> bytes \<Rightarrow> bool"
  kv_unseal :: "bytes \<Rightarrow> bytes option"

record keys =
  ky_certificate :: "bytes \<Rightarrow> bytes option"
  ky_providers :: "string \<times> uint64 \<Rightarrow> keyProvider option"

definition keyMaterialError :: "string \<Rightarrow> storeError" where
  "keyMaterialError operation = newStoreError outcomeKeyMaterialUnavailable operation"

definition validateProtectedKeys :: "slib \<Rightarrow> keys \<Rightarrow> stateV1 \<Rightarrow> storeError option" where
  "validateProtectedKeys lib keys s = (case sd_localIdentity s of
      None \<Rightarrow> None
    | Some identity \<Rightarrow> let k = lid_keyReference identity in
        (case lid_certificateChainDER identity of
           [] \<Rightarrow> Some (keyMaterialError ''validate_certificate'')
         | leaf # _ \<Rightarrow>
             (case all_some (map (ky_certificate keys) (lid_certificateChainDER identity)) of
                None \<Rightarrow> Some (keyMaterialError ''validate_certificate'')
              | Some spkis \<Rightarrow> let spki = hd spkis in
                  if sha256Hex lib spki \<noteq> pk_certificateSPKISHA256 k then Some (keyMaterialError ''validate_certificate'')
                  else (case ky_providers keys (pk_providerID k, pk_providerVersion k) of
                      None \<Rightarrow> Some (newStoreError outcomeKeyProviderUnavailable ''probe_provider'')
                    | Some provider \<Rightarrow>
                        if \<not> kv_probe provider (pk_providerID k) (pk_providerVersion k)
                        then Some (newStoreError outcomeKeyProviderUnavailable ''probe_provider'')
                        else if \<not> kv_validate provider (pk_sealedBlob k) spki then Some (keyMaterialError ''validate_key'')
                        else (case kv_unseal provider (pk_sealedBlob k) of
                            None \<Rightarrow> Some (keyMaterialError ''unseal_key'')
                          | Some publicDER \<Rightarrow> if publicDER \<noteq> spki then Some (keyMaterialError ''bind_key'') else None)))))"

subsection \<open>The layout of the directories\<close>

record layoutSnapshot =
  ls_slotA :: bytes
  ls_slotB :: bytes
  ls_generationEntries :: nat
  ls_temporaryEntries :: nat
  ls_generationNames :: "string list"

definition emptySnapshot :: layoutSnapshot where
  "emptySnapshot = \<lparr>ls_slotA = [], ls_slotB = [], ls_generationEntries = 0, ls_temporaryEntries = 0, ls_generationNames = []\<rparr>"

definition maximumArtifactEntries :: nat where "maximumArtifactEntries = 128"
definition maximumPublicationGenerationRefs :: nat where "maximumPublicationGenerationRefs = 4"
definition mutationStateDirectory :: string where "mutationStateDirectory = ''eebusmutation''"

fun root_loop :: "layoutSnapshot \<Rightarrow> string list \<Rightarrow> (storeError + layoutSnapshot) fsop" where
  "root_loop snapshot [] = ok snapshot"
| "root_loop snapshot (name # names) =
     (if name = ''LOCK'' \<or> name = ''generations'' then root_loop snapshot names
      else if name = mutationStateDirectory then attempt (guarded called) (\<lambda>_. root_loop snapshot names)
      else if name = ''MANIFEST.A'' \<or> name = ''MANIFEST.B'' then
        attempt (readVerifiedFile directoryRoot name maxManifestEnvelopeBytes) (\<lambda>payload.
          root_loop (if name = ''MANIFEST.A'' then snapshot\<lparr>ls_slotA := payload\<rparr> else snapshot\<lparr>ls_slotB := payload\<rparr>) names)
      else if manifestTempPattern name then
        attempt (openVerifiedAt directoryRoot name) (\<lambda>_.
          root_loop (snapshot\<lparr>ls_temporaryEntries := ls_temporaryEntries snapshot + 1\<rparr>) names)
      else err (newStoreError outcomeLayoutRejected ''enumerate_root''))"

fun generation_loop :: "layoutSnapshot \<Rightarrow> string list \<Rightarrow> (storeError + layoutSnapshot) fsop" where
  "generation_loop snapshot [] = ok snapshot"
| "generation_loop snapshot (name # names) =
     (if parseGenerationName name = None \<and> \<not> generationTempPattern name
      then err (newStoreError outcomeLayoutRejected ''enumerate_generations'')
      else attempt (openVerifiedAt directoryGenerations name) (\<lambda>_.
        generation_loop
          (if generationTempPattern name then snapshot\<lparr>ls_temporaryEntries := ls_temporaryEntries snapshot + 1\<rparr>
           else snapshot\<lparr>ls_generationEntries := ls_generationEntries snapshot + 1,
                  ls_generationNames := ls_generationNames snapshot @ [name]\<rparr>) names))"

definition verifyLayout :: "(storeError + layoutSnapshot) fsop" where
  "verifyLayout = attempt (guarded called) (\<lambda>_.
     orelse (guarded called) (\<lambda>_. err (newStoreError outcomeLayoutRejected ''verify_generations'')) (\<lambda>_.
     orelse (directoryNames directoryRoot) (\<lambda>_. err (newStoreError outcomeIOFailed ''enumerate_root'')) (\<lambda>rootNames.
     attempt (root_loop emptySnapshot rootNames) (\<lambda>snapshot.
     orelse (directoryNames directoryGenerations) (\<lambda>_. err (newStoreError outcomeIOFailed ''enumerate_generations'')) (\<lambda>names.
     attempt (generation_loop snapshot names) (\<lambda>snapshot.
       if maximumArtifactEntries + maximumPublicationGenerationRefs < ls_temporaryEntries snapshot + ls_generationEntries snapshot
       then err (newStoreError outcomeLayoutRejected ''enumerate_layout'')
       else ok snapshot))))))"

fun references_loop :: "slib \<Rightarrow> bool \<Rightarrow> bytes list \<Rightarrow> string list \<Rightarrow> storeError + string list" where
  "references_loop lib requireSafe [] referenced = Inr referenced"
| "references_loop lib requireSafe (raw # raws) referenced =
     (if raw = [] then references_loop lib requireSafe raws referenced
      else case decodeManifestSlot lib raw of
        None \<Rightarrow> references_loop lib requireSafe raws referenced
      | Some envelope \<Rightarrow>
          (case extractManifestGenerationReferences lib (me_manifestPayload envelope) of
             None \<Rightarrow> if requireSafe then Inl (newStoreError outcomeMalformedState ''extract_manifest_references'')
               else references_loop lib requireSafe raws referenced
           | Some references \<Rightarrow> references_loop lib requireSafe raws (map gf_generationFile references @ referenced)))"

definition publicationGenerationReferences :: "slib \<Rightarrow> layoutSnapshot \<Rightarrow> bool \<Rightarrow> storeError + string list" where
  "publicationGenerationReferences lib layout requireSafe =
     references_loop lib requireSafe [ls_slotA layout, ls_slotB layout] []"

definition enforceArtifactBound :: "slib \<Rightarrow> layoutSnapshot \<Rightarrow> storeError option" where
  "enforceArtifactBound lib layout =
     (let referenced = (case publicationGenerationReferences lib layout False of Inl _ \<Rightarrow> [] | Inr r \<Rightarrow> r);
          artifacts = ls_temporaryEntries layout + length (filter (\<lambda>n. \<not> List.member referenced n) (ls_generationNames layout)) in
      if maximumArtifactEntries < artifacts then Some (newStoreError outcomeLayoutRejected ''enumerate_layout'') else None)"

text \<open>The nine checks that the held root and lock are still those of the configured path.\<close>

fun checks :: "nat \<Rightarrow> (storeError + unit) fsop" where
  "checks 0 = ok ()"
| "checks (Suc n) = attempt (guarded called) (\<lambda>_. checks n)"

definition revalidateWriterIdentity :: "(storeError + unit) fsop" where
  "revalidateWriterIdentity = checks 9"

subsection \<open>Maintenance\<close>

fun remove_loop :: "directoryRole \<Rightarrow> (string \<Rightarrow> bool) \<Rightarrow> string list \<Rightarrow> bool \<Rightarrow> (storeError + bool) fsop" where
  "remove_loop role doomed [] changed = ok changed"
| "remove_loop role doomed (name # names) changed =
     (if \<not> doomed name then remove_loop role doomed names changed
      else attempt (fs_remove role name) (\<lambda>_. remove_loop role doomed names True))"

definition sync_if :: "directoryRole \<Rightarrow> bool \<Rightarrow> (storeError + unit) fsop" where
  "sync_if role changed = (if changed then syncDirectory role else ok ())"

definition maintenance :: "slib \<Rightarrow> (storeError + unit) fsop" where
  "maintenance lib = attempt verifyLayout (\<lambda>layout.
     case enforceArtifactBound lib layout of
       Some e \<Rightarrow> err e
     | None \<Rightarrow>
         (case publicationGenerationReferences lib layout True of
            Inl e \<Rightarrow> err e
          | Inr preserve \<Rightarrow>
              attempt (directoryNames directoryRoot) (\<lambda>rootNames.
              attempt (remove_loop directoryRoot manifestTempPattern rootNames False) (\<lambda>rootChanged.
              attempt (directoryNames directoryGenerations) (\<lambda>names.
              attempt (remove_loop directoryGenerations
                (\<lambda>name. generationTempPattern name \<or> parseGenerationName name \<noteq> None \<and> \<not> List.member preserve name)
                names False) (\<lambda>generationChanged.
              attempt (sync_if directoryRoot rootChanged) (\<lambda>_. sync_if directoryGenerations generationChanged)))))))"

subsection \<open>Commit\<close>

record commitResult =
  cr_outcome :: storeOutcome
  cr_err :: "storeError option"

definition commitFailure :: "storeOutcome \<Rightarrow> string \<Rightarrow> commitResult" where
  "commitFailure result operation = \<lparr>cr_outcome = result, cr_err = Some (newStoreError result operation)\<rparr>"

definition commitError :: "storeError \<Rightarrow> commitResult" where
  "commitError e = \<lparr>cr_outcome = outcomeOf e, cr_err = Some e\<rparr>"

definition commitDurable :: commitResult where
  "commitDurable = \<lparr>cr_outcome = outcomeCommitDurable, cr_err = None\<rparr>"

definition refusing :: "commitResult \<Rightarrow> (storeError + 'a) fsop \<Rightarrow> ('a \<Rightarrow> commitResult fsop) \<Rightarrow> commitResult fsop" where
  "refusing r m k = orelse m (\<lambda>_. State_Monad.return r) k"

definition publishGeneration :: "generationReference \<Rightarrow> bytes \<Rightarrow> commitResult fsop" where
  "publishGeneration reference payload =
     refusing (commitFailure outcomeCommitNotPublished ''create_generation'') (createTemporary directoryGenerations ''.tmp-generation-'') (\<lambda>name.
     refusing (commitFailure outcomeCommitNotPublished ''write_generation'') (writeAll directoryGenerations name payload) (\<lambda>_.
     refusing (commitFailure outcomeCommitNotPublished ''fsync_generation'') (syncFile directoryGenerations name) (\<lambda>_.
     refusing (commitFailure outcomeCommitNotPublished ''rename_generation'')
       (fs_rename directoryGenerations name (gf_generationFile reference)) (\<lambda>_.
     refusing (commitFailure outcomeCommitNotPublished ''fsync_generations'') (syncDirectory directoryGenerations) (\<lambda>_.
       State_Monad.return commitDurable)))))"

definition publishManifest :: "manifestSlot \<Rightarrow> bytes \<Rightarrow> commitResult fsop" where
  "publishManifest target payload =
     refusing (commitFailure outcomeCommitNotPublished ''create_manifest'') (createTemporary directoryRoot ''.tmp-manifest-'') (\<lambda>name.
     refusing (commitFailure outcomeCommitNotPublished ''write_manifest'') (writeAll directoryRoot name payload) (\<lambda>_.
     refusing (commitFailure outcomeCommitNotPublished ''fsync_manifest'') (syncFile directoryRoot name) (\<lambda>_.
     refusing (commitFailure outcomeCommitNotPublished ''rename_manifest'')
       (fs_rename directoryRoot name (manifestSlotFilename target)) (\<lambda>_.
       State_Monad.return commitDurable))))"

definition nextSequence :: "store \<Rightarrow> storeError + uint64" where
  "nextSequence s = (case os_manifest s of
      None \<Rightarrow> Inr 1
    | Some m \<Rightarrow>
        if gf_generation (mp_current m) = int64_max then Inl (newStoreError outcomeCommitNotPublished ''next_generation'')
        else Inr (gf_generation (mp_current m) + 1))"

definition poison :: "commitResult \<Rightarrow> commitResult fsop" where
  "poison r = do {State_Monad.update (\<lambda>s. s\<lparr>os_poisoned := True\<rparr>); State_Monad.return r}"

text \<open>The documents of a commit: the new generation and the manifest that names it and its parent.\<close>

definition commit_generation :: "manifestPayloadV1 option \<Rightarrow> uint64 \<Rightarrow> stateV1 \<Rightarrow> generationV1" where
  "commit_generation m sequence state =
     \<lparr>gn_metadata = \<lparr>gm_sequence = sequence, gm_parentSequence = map_option (\<lambda>p. gf_generation (mp_current p)) m,
        gm_parentSHA256 = map_option (\<lambda>p. gf_generationSHA256 (mp_current p)) m\<rparr>,
      gn_state = state, gn_schemaVersion = currentSchemaVersion\<rparr>"

definition commit_manifest :: "slib \<Rightarrow> manifestPayloadV1 option \<Rightarrow> uint64 \<Rightarrow> bytes \<Rightarrow> manifestPayloadV1" where
  "commit_manifest lib m sequence payload =
     \<lparr>mp_manifestVersion = currentManifestVersion,
      mp_current = \<lparr>gf_generation = sequence, gf_generationFile = generationFilename sequence,
        gf_generationSHA256 = sha256Hex lib payload, gf_schemaVersion = currentSchemaVersion\<rparr>,
      mp_parent = map_option mp_current m\<rparr>"

definition commit_envelope :: "slib \<Rightarrow> uint64 \<Rightarrow> bytes \<Rightarrow> manifestEnvelope" where
  "commit_envelope lib epoch payload =
     \<lparr>me_slotFormatVersion = currentSlotVersion, me_manifestEpoch = epoch, me_manifestPayload = payload,
      me_manifestSHA256 = sha256Hex lib payload\<rparr>"

text \<open>What follows the publication of the generation.\<close>

definition commit_published :: "slib \<Rightarrow> stateV1 \<Rightarrow> manifestPayloadV1 \<Rightarrow> uint64 \<Rightarrow> manifestSlot \<Rightarrow> commitResult fsop" where
  "commit_published lib state manifest epoch target = (case encodeManifestPayloadV1 manifest of
      None \<Rightarrow> State_Monad.return (commitFailure outcomeCommitNotPublished ''encode_manifest'')
    | Some manifestBytes \<Rightarrow> let envelope = commit_envelope lib epoch manifestBytes in
        (case encodeManifestSlot lib envelope of
           None \<Rightarrow> State_Monad.return (commitFailure outcomeCommitNotPublished ''encode_manifest_slot'')
         | Some envelopeBytes \<Rightarrow> do {
             published \<leftarrow> publishManifest target envelopeBytes;
             if cr_err published \<noteq> None then State_Monad.return published
             else orelse (syncDirectory directoryRoot)
               (\<lambda>_. poison (commitFailure outcomeCommitDurabilityUnknown ''commit_root_fsync''))
               (\<lambda>_. do {
                 State_Monad.update (\<lambda>s. s\<lparr>os_selected := Some \<lparr>sm_slot = target, sm_epoch = epoch, sm_payload = manifestBytes,
                     sm_envelope = envelope, sm_envelopeRaw = envelopeBytes\<rparr>, os_manifest := Some manifest, os_state := state\<rparr>);
                 orelse (maintenance lib)
                   (\<lambda>_. poison (commitFailure outcomeCommitAppliedMaintenanceFailed ''commit_post_maintenance''))
                   (\<lambda>_. State_Monad.return commitDurable)
               })
           }))"

definition commit_prepared :: "slib \<Rightarrow> stateV1 \<Rightarrow> uint64 \<Rightarrow> uint64 \<Rightarrow> commitResult fsop" where
  "commit_prepared lib state sequence epoch =
     refusing (commitFailure outcomeMaintenanceFailed ''commit_pre_maintenance'') (maintenance lib) (\<lambda>_. do {
       m \<leftarrow> reading os_manifest;
       selected \<leftarrow> reading os_selected;
       case encodeGenerationV1 lib (commit_generation m sequence state) of
         None \<Rightarrow> State_Monad.return (commitFailure outcomeCommitNotPublished ''commit_validate'')
       | Some generationBytes \<Rightarrow> do {
           let manifest = commit_manifest lib m sequence generationBytes;
           published \<leftarrow> publishGeneration (mp_current manifest) generationBytes;
           if cr_err published \<noteq> None then State_Monad.return published
           else commit_published lib state manifest epoch
             (case selected of None \<Rightarrow> manifestSlotA | Some sel \<Rightarrow> otherManifestSlot (sm_slot sel))
         }
     })"

definition commit :: "slib \<Rightarrow> keys \<Rightarrow> stateV1 \<Rightarrow> commitResult fsop" where
  "commit lib keys state = do {
     unusable \<leftarrow> reading (\<lambda>s. os_closed s \<or> os_poisoned s);
     if unusable then State_Monad.return (commitFailure outcomeCommitNotPublished ''commit_state'')
     else orelse revalidateWriterIdentity (\<lambda>e. State_Monad.return (commitError e)) (\<lambda>_.
       if \<not> validateStateV1 lib state then State_Monad.return (commitFailure outcomeCommitNotPublished ''commit_validate'')
       else case validateProtectedKeys lib keys state of
         Some e \<Rightarrow> State_Monad.return (commitError e)
       | None \<Rightarrow> do {
           sequence \<leftarrow> reading nextSequence;
           selected \<leftarrow> reading os_selected;
           case sequence of
             Inl e \<Rightarrow> State_Monad.return (commitError e)
           | Inr n \<Rightarrow>
               (case selected of
                  None \<Rightarrow> commit_prepared lib state n 1
                | Some sel \<Rightarrow>
                    if sm_epoch sel = int64_max then State_Monad.return (commitFailure outcomeCommitNotPublished ''commit_validate'')
                    else commit_prepared lib state n (sm_epoch sel + 1))
         })
   }"

subsection \<open>Opening\<close>

record openResult =
  or_outcome :: storeOutcome
  or_err :: "storeError option"
  or_opened :: bool
  or_state :: "stateV1 option"
  or_recovery :: "uint64 option"

definition openFailure :: "storeError \<Rightarrow> openResult" where
  "openFailure e = \<lparr>or_outcome = outcomeOf e, or_err = Some e, or_opened = False, or_state = None, or_recovery = None\<rparr>"

definition versionError :: "string \<Rightarrow> uint64 \<Rightarrow> uint64 \<Rightarrow> storeError" where
  "versionError operation found current =
     (if found > current then newStoreError outcomeUnsupportedFutureVersion operation
      else newStoreError outcomeUnsupportedLegacyVersion operation)"

definition validateCurrentManifestSchemas :: "manifestPayloadV1 \<Rightarrow> storeError option" where
  "validateCurrentManifestSchemas m =
     (if gf_schemaVersion (mp_current m) \<noteq> currentSchemaVersion
      then Some (versionError ''schema_version'' (gf_schemaVersion (mp_current m)) currentSchemaVersion)
      else case mp_parent m of
        None \<Rightarrow> None
      | Some p \<Rightarrow> if gf_schemaVersion p \<noteq> currentSchemaVersion
          then Some (versionError ''parent_schema_version'' (gf_schemaVersion p) currentSchemaVersion) else None)"

definition decodeSelectedManifest :: "slib \<Rightarrow> bytes \<Rightarrow> storeError + manifestPayloadV1" where
  "decodeSelectedManifest lib payload =
     (if validateCanonicalJSON lib payload maxManifestPayloadBytes maxJSONDepth = None then Inl (malformed ''validate_json'')
      else case decodeManifestVersion payload of
        None \<Rightarrow> Inl (malformed ''decode_manifest_version'')
      | Some version \<Rightarrow>
          if version \<noteq> currentManifestVersion then Inl (versionError ''manifest_version'' version currentManifestVersion)
          else (case decodeManifestPayloadV1 lib payload of None \<Rightarrow> Inl (malformed ''decode_manifest'') | Some m \<Rightarrow> Inr m))"

definition hasDirectParentChronology :: "manifestPayloadV1 \<Rightarrow> bool" where
  "hasDirectParentChronology m =
     (if gf_generation (mp_current m) = 1 then mp_parent m = None
      else case mp_parent m of None \<Rightarrow> False | Some p \<Rightarrow> gf_generation p < gf_generation (mp_current m))"

definition generationMatchesManifest :: "generationV1 \<Rightarrow> manifestPayloadV1 \<Rightarrow> bool" where
  "generationMatchesManifest g m = (let meta = gn_metadata g in
     if gm_sequence meta \<noteq> gf_generation (mp_current m) \<or> \<not> hasDirectParentChronology m then False
     else case mp_parent m of
       None \<Rightarrow> gm_parentSequence meta = None \<and> gm_parentSHA256 meta = None
     | Some p \<Rightarrow> gm_parentSequence meta = Some (gf_generation p) \<and> gm_parentSHA256 meta = Some (gf_generationSHA256 p))"

definition loadCurrentGeneration :: "slib \<Rightarrow> manifestPayloadV1 \<Rightarrow> (storeError + generationV1) fsop" where
  "loadCurrentGeneration lib m = (let reference = mp_current m in
     if gf_schemaVersion reference \<noteq> currentSchemaVersion
     then err (versionError ''schema_version'' (gf_schemaVersion reference) currentSchemaVersion)
     else attempt (objectExistsAt directoryGenerations (gf_generationFile reference)) (\<lambda>exists.
       if \<not> exists then err (newStoreError outcomeNoValidCurrent ''read_current'')
       else attempt (readVerifiedFile directoryGenerations (gf_generationFile reference) maxGenerationBytes) (\<lambda>payload.
         if sha256Hex lib payload \<noteq> gf_generationSHA256 reference then err (newStoreError outcomeNoValidCurrent ''read_current'')
         else case decodeGenerationV1 lib payload of
           None \<Rightarrow> err (newStoreError outcomeNoValidCurrent ''validate_current'')
         | Some g \<Rightarrow>
             if generationSchemaVersion payload \<noteq> gf_schemaVersion reference \<or> \<not> generationMatchesManifest g m
             then err (newStoreError outcomeNoValidCurrent ''validate_current'')
             else ok g)))"

definition abort :: "unit fsop" where
  "abort = State_Monad.update (\<lambda>s. s\<lparr>os_closed := True\<rparr>)"

definition refuse_open :: "storeError \<Rightarrow> openResult fsop" where
  "refuse_open e = do {abort; State_Monad.return (openFailure e)}"

definition classifyRecovery :: "slib \<Rightarrow> manifestPayloadV1 \<Rightarrow> storeError \<Rightarrow> openResult fsop" where
  "classifyRecovery lib m currentErr =
     (if outcomeOf currentErr \<noteq> outcomeNoValidCurrent then refuse_open currentErr
      else case mp_parent m of
        None \<Rightarrow> refuse_open (newStoreError outcomeNoValidCurrent ''classify_recovery'')
      | Some parent \<Rightarrow>
          if \<not> hasDirectParentChronology m \<or> gf_schemaVersion parent \<noteq> currentSchemaVersion
          then refuse_open (newStoreError outcomeNoValidCurrent ''classify_recovery'')
          else orelse (objectExistsAt directoryGenerations (gf_generationFile parent)) refuse_open (\<lambda>exists.
            if \<not> exists then refuse_open (newStoreError outcomeNoValidCurrent ''validate_recovery'')
            else orelse (readVerifiedFile directoryGenerations (gf_generationFile parent) maxGenerationBytes)
              (\<lambda>e. if outcomeOf e = outcomeMalformedState then refuse_open (newStoreError outcomeNoValidCurrent ''validate_recovery'')
                   else refuse_open e)
              (\<lambda>payload.
                if sha256Hex lib payload \<noteq> gf_generationSHA256 parent then refuse_open (newStoreError outcomeNoValidCurrent ''validate_recovery'')
                else case decodeGenerationV1 lib payload of
                  None \<Rightarrow> refuse_open (newStoreError outcomeNoValidCurrent ''validate_recovery'')
                | Some g \<Rightarrow>
                    if gm_sequence (gn_metadata g) \<noteq> gf_generation parent
                    then refuse_open (newStoreError outcomeNoValidCurrent ''validate_recovery'')
                    else do {
                      abort;
                      State_Monad.return \<lparr>or_outcome = outcomeRecoveryCandidateAvailable,
                        or_err = Some (newStoreError outcomeRecoveryCandidateAvailable ''classify_recovery''), or_opened = False,
                        or_state = None, or_recovery = Some (gf_generation parent)\<rparr>
                    })))"

text \<open>The store takes up what it found.\<close>

definition open_with :: "selectedManifest \<Rightarrow> manifestPayloadV1 \<Rightarrow> stateV1 \<Rightarrow> storeOutcome \<Rightarrow> storeError option \<Rightarrow> openResult fsop" where
  "open_with selected m state result e = do {
     State_Monad.update (\<lambda>s. s\<lparr>os_selected := Some selected, os_manifest := Some m, os_state := state\<rparr>);
     State_Monad.return \<lparr>or_outcome = result, or_err = e, or_opened = True, or_state = Some state, or_recovery = None\<rparr>
   }"

definition open_selected :: "slib \<Rightarrow> keys \<Rightarrow> bool \<Rightarrow> layoutSnapshot \<Rightarrow> openResult fsop" where
  "open_selected lib keys retain layout = (case selectManifestSlots lib (ls_slotA layout) (ls_slotB layout) of
      Inl e \<Rightarrow> refuse_open e
    | Inr selected \<Rightarrow>
        if me_slotFormatVersion (sm_envelope selected) \<noteq> currentSlotVersion
        then refuse_open (versionError ''slot_version'' (me_slotFormatVersion (sm_envelope selected)) currentSlotVersion)
        else case decodeSelectedManifest lib (sm_payload selected) of
          Inl e \<Rightarrow> refuse_open e
        | Inr m \<Rightarrow>
            (case validateCurrentManifestSchemas m of
               Some e \<Rightarrow> refuse_open e
             | None \<Rightarrow> orelse (loadCurrentGeneration lib m) (classifyRecovery lib m) (\<lambda>current.
                 case validateProtectedKeys lib keys (gn_state current) of
                   None \<Rightarrow> open_with selected m (gn_state current) outcomeOpenedCurrent None
                 | Some e \<Rightarrow>
                     if retain \<and> (outcomeOf e = outcomeKeyProviderUnavailable \<or> outcomeOf e = outcomeKeyMaterialUnavailable)
                     then open_with selected m (gn_state current) (outcomeOf e) (Some e)
                     else refuse_open e)))"

definition open_empty :: "slib \<Rightarrow> keys \<Rightarrow> layoutSnapshot \<Rightarrow> openResult fsop" where
  "open_empty lib keys layout =
     (if ls_generationEntries layout \<noteq> 0 \<or> ls_temporaryEntries layout \<noteq> 0
      then refuse_open (newStoreError outcomeNoValidManifest ''open_manifest'')
      else do {
        committed \<leftarrow> commit lib keys state_zero;
        if cr_outcome committed \<noteq> outcomeCommitDurable
        then do {
          abort;
          State_Monad.return \<lparr>or_outcome = cr_outcome committed, or_err = cr_err committed, or_opened = False, or_state = None,
            or_recovery = None\<rparr>
        }
        else do {
          state \<leftarrow> reading os_state;
          State_Monad.return \<lparr>or_outcome = outcomeOpenedEmpty, or_err = None, or_opened = True, or_state = Some state, or_recovery = None\<rparr>
        }
      })"

text \<open>Opening, once the root is prepared, the locks are held and the capabilities were probed.\<close>

definition openStore :: "slib \<Rightarrow> keys \<Rightarrow> bool \<Rightarrow> openResult fsop" where
  "openStore lib keys retain = orelse verifyLayout refuse_open (\<lambda>layout.
     case enforceArtifactBound lib layout of
       Some e \<Rightarrow> refuse_open e
     | None \<Rightarrow>
         if ls_slotA layout = [] \<and> ls_slotB layout = [] then open_empty lib keys layout else open_selected lib keys retain layout)"

end
