(* ===== verification/StoreFiles.thy ===== *)
theory StoreFiles
  imports StoreCommit
begin

text \<open>
  What the calls of the store do to its files. \<open>guards C G\<close> says what can be found after a crash
  at any moment: in a manifest slot one of the contents of \<open>C\<close>, in a generation file of \<open>G\<close> its
  content, and otherwise only names of the store. Every call keeps this for the names it does not
  touch, whether it succeeds, fails or the process dies.
\<close>

subsection \<open>Weakest preconditions\<close>

lemma wp_reading [simp]: "wp (reading f) Q s = Q (f s) s"
  by (simp add: reading_def wp_def State_Monad.get_def)

lemma wp_update [simp]: "wp (State_Monad.update f) Q s = Q () (f s)"
  by (simp add: State_Monad.update_def wp_def State_Monad.get_def State_Monad.set_def)

lemma wp_seq: "wp m P s \<Longrightarrow> (\<And>a s'. P a s' \<Longrightarrow> wp (f a) Q s') \<Longrightarrow> wp (State_Monad.bind m f) Q s"
  by (simp add: wp_mono)

lemma wp_orelse:
  assumes "wp m P s" and "\<And>e s'. P (Inl e) s' \<Longrightarrow> wp (h e) Q s'" and "\<And>x s'. P (Inr x) s' \<Longrightarrow> wp (k x) Q s'"
  shows "wp (orelse m h k) Q s"
  unfolding orelse_def by (rule wp_seq [OF assms(1)]) (auto intro: assms(2,3) split: sum.split)

lemma wp_attempt:
  assumes "wp m P s" and "\<And>e s'. P (Inl e) s' \<Longrightarrow> Q (Inl e) s'" and "\<And>x s'. P (Inr x) s' \<Longrightarrow> wp (k x) Q s'"
  shows "wp (attempt m k) Q s"
  unfolding attempt_def by (rule wp_orelse [OF assms(1)]) (auto intro: assms(2,3))

lemma wp_refusing:
  assumes "wp m P s" and "\<And>e s'. P (Inl e) s' \<Longrightarrow> Q r s'" and "\<And>x s'. P (Inr x) s' \<Longrightarrow> wp (k x) Q s'"
  shows "wp (refusing r m k) Q s"
  unfolding refusing_def by (rule wp_orelse [OF assms(1)]) (auto intro: assms(2,3))

text \<open>Only the tape, the random bytes and the life of the process differ.\<close>

definition same :: "store \<Rightarrow> store \<Rightarrow> bool" where
  "same s s' \<longleftrightarrow> (\<exists>t d r. s' = s\<lparr>os_tape := t, os_dead := d, os_random := r\<rparr>)"

lemma same_refl [simp]: "same s s"
  unfolding same_def by (intro exI [of _ "os_tape s"] exI [of _ "os_dead s"] exI [of _ "os_random s"]) simp

lemma same_trans [trans]: "same s s' \<Longrightarrow> same s' s'' \<Longrightarrow> same s s''"
  unfolding same_def by fastforce

lemma sameE:
  assumes "same s s'"
  obtains "os_root s' = os_root s" "os_generations s' = os_generations s" "os_others s' = os_others s" "os_selected s' = os_selected s"
    "os_manifest s' = os_manifest s" "os_state s' = os_state s" "os_closed s' = os_closed s" "os_poisoned s' = os_poisoned s"
  using assms unfolding same_def by fastforce

lemma same_dir: "same s s' \<Longrightarrow> dir_of role s' = dir_of role s" "same s s' \<Longrightarrow> lookup role name s' = lookup role name s"
  by (auto simp: dir_of_def lookup_def elim!: sameE split: directoryRole.splits)

lemma next_verdict_same: "wp next_verdict (\<lambda>v s'. same s s' \<and> v \<noteq> Crash) s"
proof -
  have "same s (s\<lparr>os_tape := t\<rparr>)" "same s (s\<lparr>os_tape := t, os_dead := True\<rparr>)" for t
    unfolding same_def
    by (intro exI [of _ t] exI [of _ "os_dead s"] exI [of _ "os_random s"], simp)
       (intro exI [of _ t] exI [of _ True] exI [of _ "os_random s"], simp)
  then show ?thesis by (auto simp: next_verdict_def wp_State split: list.split)
qed

lemma called_same: "wp called (\<lambda>_. same s) s"
  unfolding called_def by (rule wp_seq [OF next_verdict_same]) simp

lemma guarded_same: "wp (guarded called) (\<lambda>_. same s) s"
  unfolding guarded_def by (rule wp_seq [OF called_same]) simp

lemma rand_same: "wp rand_Read (\<lambda>_. same s) s"
proof -
  have "same s (s\<lparr>os_random := r\<rparr>)" for r
    unfolding same_def by (intro exI [of _ "os_tape s"] exI [of _ "os_dead s"] exI [of _ r]) simp
  then show ?thesis by (auto simp: rand_Read_def wp_State split: list.split)
qed

subsection \<open>Reading\<close>

lemma directoryNames_spec:
  "wp (directoryNames role) (\<lambda>r s'. same s s' \<and> (\<forall>ns. r = Inr ns \<longrightarrow>
     set ns = (if role = directoryRoot then set (os_others s) else {}) \<union> fst ` set (dr_now (dir_of role s)))) s"
  unfolding directoryNames_def
  by (rule wp_attempt [OF guarded_same]) (auto simp: same_dir elim!: sameE)

lemma objectExists_spec: "wp (objectExistsAt role name) (\<lambda>r s'. same s s' \<and> (\<forall>b. r = Inr b \<longrightarrow> (b \<longleftrightarrow> lookup role name s \<noteq> None))) s"
  unfolding objectExistsAt_def by (rule wp_orelse [OF guarded_same]) (auto simp: same_dir)

lemma openVerified_spec: "wp (openVerifiedAt role name) (\<lambda>r s'. same s s' \<and> (\<forall>f. r = Inr f \<longrightarrow> lookup role name s = Some f)) s"
  unfolding openVerifiedAt_def by (rule wp_attempt [OF guarded_same]) (auto simp: same_dir split: option.split)

lemma readVerified_spec:
  "wp (readVerifiedFile role name maximum) (\<lambda>r s'. same s s' \<and>
     (\<forall>b. r = Inr b \<longrightarrow> (\<exists>f. lookup role name s = Some f \<and> fl_data f = b) \<and> length b \<le> maximum)) s"
  unfolding readVerifiedFile_def
proof (rule wp_attempt [OF openVerified_spec])
  fix f s' assume a: "same s s' \<and> (\<forall>g. Inr f = Inr g \<longrightarrow> lookup role name s = Some g)"
  show "wp (orelse (guarded called) (\<lambda>_. err (newStoreError outcomeIOFailed ''read_object''))
      (\<lambda>_. if maximum < length (fl_data f) then err (newStoreError outcomeMalformedState ''read_object'') else ok (fl_data f)))
     (\<lambda>r s'. same s s' \<and> (\<forall>b. r = Inr b \<longrightarrow> (\<exists>f. lookup role name s = Some f \<and> fl_data f = b) \<and> length b \<le> maximum)) s'"
    by (rule wp_orelse [OF guarded_same]) (use a same_trans in auto)
qed auto

definition content :: "string \<Rightarrow> store \<Rightarrow> bytes" where
  "content name s = (case lookup directoryRoot name s of None \<Rightarrow> [] | Some f \<Rightarrow> fl_data f)"

abbreviation slot_bytes :: "manifestSlot \<Rightarrow> store \<Rightarrow> bytes" where
  "slot_bytes slot \<equiv> content (manifestSlotFilename slot)"

lemma content_same: "same s s' \<Longrightarrow> content name s' = content name s"
  by (simp add: content_def same_dir)

lemma root_loop_spec:
  "wp (root_loop snapshot names) (\<lambda>r s'. same s s' \<and> (\<forall>l. r = Inr l \<longrightarrow>
      ls_slotA l = (if ''MANIFEST.A'' \<in> set names then content ''MANIFEST.A'' s else ls_slotA snapshot) \<and>
      ls_slotB l = (if ''MANIFEST.B'' \<in> set names then content ''MANIFEST.B'' s else ls_slotB snapshot) \<and>
      (\<forall>n \<in> set names. n = ''MANIFEST.A'' \<or> n = ''MANIFEST.B'' \<longrightarrow> length (content n s) \<le> maxManifestEnvelopeBytes))) s"
proof (induction names arbitrary: snapshot s)
  case (Cons name names)
  let ?post = "\<lambda>r s'. same s s' \<and> (\<forall>l. r = Inr l \<longrightarrow>
      ls_slotA l = (if ''MANIFEST.A'' \<in> set (name # names) then content ''MANIFEST.A'' s else ls_slotA snapshot) \<and>
      ls_slotB l = (if ''MANIFEST.B'' \<in> set (name # names) then content ''MANIFEST.B'' s else ls_slotB snapshot) \<and>
      (\<forall>n \<in> set (name # names). n = ''MANIFEST.A'' \<or> n = ''MANIFEST.B'' \<longrightarrow> length (content n s) \<le> maxManifestEnvelopeBytes))"
  have step: "wp (root_loop snap names) ?post s1"
    if "same s s1" "ls_slotA snap = (if name = ''MANIFEST.A'' then content name s else ls_slotA snapshot)"
      "ls_slotB snap = (if name = ''MANIFEST.B'' then content name s else ls_slotB snapshot)"
      "name = ''MANIFEST.A'' \<or> name = ''MANIFEST.B'' \<Longrightarrow> length (content name s) \<le> maxManifestEnvelopeBytes" for snap s1
    using Cons.IH [of snap s1] that(2-4) same_trans [OF that(1)] content_same [OF that(1)]
    by (auto elim!: wp_mono split: if_splits)
  have read: "content name s = b" if "\<exists>f. lookup directoryRoot name s = Some f \<and> fl_data f = b" for b
    using that by (auto simp: content_def)
  consider "name = ''LOCK'' \<or> name = ''generations''" | "name = mutationStateDirectory" | "name = ''MANIFEST.A'' \<or> name = ''MANIFEST.B''"
    | "\<not> List.member [''LOCK'', ''generations'', mutationStateDirectory, ''MANIFEST.A'', ''MANIFEST.B''] name" by auto
  then show ?case
  proof cases
    case 1
    then have eq: "root_loop snapshot (name # names) = root_loop snapshot names" by simp
    show ?thesis unfolding eq using 1 by (intro step) auto
  next
    case 2
    then have eq: "root_loop snapshot (name # names) = attempt (guarded called) (\<lambda>_. root_loop snapshot names)"
      by (simp add: mutationStateDirectory_def)
    show ?thesis unfolding eq using 2 by (intro wp_attempt [OF guarded_same] step) (auto simp: mutationStateDirectory_def)
  next
    case 3
    then have eq: "root_loop snapshot (name # names) = attempt (readVerifiedFile directoryRoot name maxManifestEnvelopeBytes) (\<lambda>payload.
        root_loop (if name = ''MANIFEST.A'' then snapshot\<lparr>ls_slotA := payload\<rparr> else snapshot\<lparr>ls_slotB := payload\<rparr>) names)"
      by (auto simp: mutationStateDirectory_def)
    show ?thesis unfolding eq
    proof (rule wp_attempt [OF readVerified_spec], goal_cases)
      case (2 b s1)
      then have "content name s = b" "length b \<le> maxManifestEnvelopeBytes" "same s s1" using read by auto
      then show ?case using \<open>name = ''MANIFEST.A'' \<or> name = ''MANIFEST.B''\<close> by (intro step) auto
    qed auto
  next
    case 4
    have temp: "wp (attempt (openVerifiedAt directoryRoot name) (\<lambda>_.
        root_loop (snapshot\<lparr>ls_temporaryEntries := ls_temporaryEntries snapshot + 1\<rparr>) names)) ?post s"
    proof (rule wp_attempt [OF openVerified_spec], goal_cases)
      case (2 f s1)
      then show ?case using \<open>\<not> List.member _ name\<close> by (intro step) auto
    qed auto
    show ?thesis using 4 temp by (cases "manifestTempPattern name") simp_all
  qed
qed simp

lemma generation_loop_spec:
  "wp (generation_loop snapshot names) (\<lambda>r s'. same s s' \<and> (\<forall>l. r = Inr l \<longrightarrow>
      ls_slotA l = ls_slotA snapshot \<and> ls_slotB l = ls_slotB snapshot)) s"
proof (induction names arbitrary: snapshot s)
  case (Cons name names)
  have step: "wp (generation_loop snap names) (\<lambda>r s'. same s s' \<and>
      (\<forall>l. r = Inr l \<longrightarrow> ls_slotA l = ls_slotA snapshot \<and> ls_slotB l = ls_slotB snapshot)) s1"
    if "same s s1" "ls_slotA snap = ls_slotA snapshot" "ls_slotB snap = ls_slotB snapshot" for snap s1
    using Cons.IH [of snap s1] that same_trans [OF that(1)] by (auto elim!: wp_mono)
  show ?case by (auto intro!: wp_attempt [OF openVerified_spec] step)
qed simp

text \<open>A layout shows the manifest slots as they are.\<close>

definition shows_slots :: "store \<Rightarrow> layoutSnapshot \<Rightarrow> bool" where
  "shows_slots s l \<longleftrightarrow> ls_slotA l = slot_bytes manifestSlotA s \<and> ls_slotB l = slot_bytes manifestSlotB s \<and>
     (\<forall>slot. length (slot_bytes slot s) \<le> maxManifestEnvelopeBytes)"

lemma shows_slots_same: "same s s' \<Longrightarrow> shows_slots s' l = shows_slots s l"
  by (simp add: shows_slots_def content_same)

lemma slot_names [simp]: "manifestSlotFilename manifestSlotA = ''MANIFEST.A''" "manifestSlotFilename manifestSlotB = ''MANIFEST.B''"
  by (simp_all add: manifestSlotFilename_def)

lemma content_absent: "name \<notin> fst ` set (dr_now (os_root s)) \<Longrightarrow> content name s = []"
  by (simp add: content_def lookup_def dir_of_def flip: map_of_eq_None_iff)

lemma all_slots: "(\<forall>slot. P slot) \<longleftrightarrow> P manifestSlotA \<and> P manifestSlotB"
  by (metis manifestSlot.exhaust)

lemma verifyLayout_spec: "wp verifyLayout (\<lambda>r s'. same s s' \<and> (\<forall>l. r = Inr l \<longrightarrow> shows_slots s l)) s"
  unfolding verifyLayout_def
proof (rule wp_attempt [OF guarded_same], simp, rule wp_orelse [OF guarded_same], simp)
  fix s1 s2 assume "same s s1" "same s1 s2"
  then have a: "same s s2" by (rule same_trans)
  let ?N = "set (os_others s) \<union> fst ` set (dr_now (os_root s))"
  show "wp (orelse (directoryNames directoryRoot) (\<lambda>_. err (newStoreError outcomeIOFailed ''enumerate_root'')) (\<lambda>rootNames.
     attempt (root_loop emptySnapshot rootNames) (\<lambda>snapshot.
     orelse (directoryNames directoryGenerations) (\<lambda>_. err (newStoreError outcomeIOFailed ''enumerate_generations'')) (\<lambda>names.
     attempt (generation_loop snapshot names) (\<lambda>snapshot.
       if maximumArtifactEntries + maximumPublicationGenerationRefs < ls_temporaryEntries snapshot + ls_generationEntries snapshot
       then err (newStoreError outcomeLayoutRejected ''enumerate_layout'')
       else ok snapshot))))) (\<lambda>r s'. same s s' \<and> (\<forall>l. r = Inr l \<longrightarrow> shows_slots s l)) s2"
  proof (rule wp_orelse [OF directoryNames_spec])
    fix names s3 assume "same s2 s3 \<and> (\<forall>ns. Inr names = Inr ns \<longrightarrow>
      set ns = (if directoryRoot = directoryRoot then set (os_others s2) else {}) \<union> fst ` set (dr_now (dir_of directoryRoot s2)))"
    then have b: "same s s3" and ns: "set names = ?N"
      using a same_trans by (auto simp: dir_of_def elim!: sameE)
    show "wp (attempt (root_loop emptySnapshot names) (\<lambda>snapshot.
     orelse (directoryNames directoryGenerations) (\<lambda>_. err (newStoreError outcomeIOFailed ''enumerate_generations'')) (\<lambda>names.
     attempt (generation_loop snapshot names) (\<lambda>snapshot.
       if maximumArtifactEntries + maximumPublicationGenerationRefs < ls_temporaryEntries snapshot + ls_generationEntries snapshot
       then err (newStoreError outcomeLayoutRejected ''enumerate_layout'')
       else ok snapshot)))) (\<lambda>r s'. same s s' \<and> (\<forall>l. r = Inr l \<longrightarrow> shows_slots s l)) s3"
    proof (rule wp_attempt [OF root_loop_spec])
      fix snapshot :: layoutSnapshot and s4 assume "same s3 s4 \<and> (\<forall>l. Inr snapshot = Inr l \<longrightarrow>
        ls_slotA l = (if ''MANIFEST.A'' \<in> set names then content ''MANIFEST.A'' s3 else ls_slotA emptySnapshot) \<and>
        ls_slotB l = (if ''MANIFEST.B'' \<in> set names then content ''MANIFEST.B'' s3 else ls_slotB emptySnapshot) \<and>
        (\<forall>n \<in> set names. n = ''MANIFEST.A'' \<or> n = ''MANIFEST.B'' \<longrightarrow> length (content n s3) \<le> maxManifestEnvelopeBytes))"
      then have c: "same s s4" and snap: "shows_slots s snapshot"
        using b same_trans content_absent [of _ s] ns content_same [OF b]
        by (auto simp: shows_slots_def emptySnapshot_def all_slots split: if_splits)
      have d: "shows_slots s l" if "ls_slotA l = ls_slotA snapshot" "ls_slotB l = ls_slotB snapshot" for l
        using snap that by (simp add: shows_slots_def)
      show "wp (orelse (directoryNames directoryGenerations) (\<lambda>_. err (newStoreError outcomeIOFailed ''enumerate_generations'')) (\<lambda>names.
        attempt (generation_loop snapshot names) (\<lambda>snapshot.
          if maximumArtifactEntries + maximumPublicationGenerationRefs < ls_temporaryEntries snapshot + ls_generationEntries snapshot
          then err (newStoreError outcomeLayoutRejected ''enumerate_layout'')
          else ok snapshot))) (\<lambda>r s'. same s s' \<and> (\<forall>l. r = Inr l \<longrightarrow> shows_slots s l)) s4"
      proof (rule wp_orelse [OF directoryNames_spec], goal_cases)
        case (2 names s5)
        then have e: "same s s5" using c same_trans by blast
        show ?case
        proof (rule wp_attempt [OF generation_loop_spec], goal_cases)
          case (2 l s6)
          then have "same s s6" "shows_slots s l" using e same_trans d by auto
          then show ?case by simp
        qed (use e same_trans in auto)
      qed (use c same_trans in auto)
    qed (use b same_trans in auto)
  qed (use a same_trans in auto)
qed (auto intro: same_trans)

subsection \<open>What a crash can leave\<close>

definition entry :: "bytes option \<Rightarrow> stored_file option" where
  "entry c = map_option (\<lambda>b. \<lparr>fl_data = b, fl_synced = True\<rparr>) c"

definition among :: "string \<Rightarrow> bytes option set \<Rightarrow> directory \<Rightarrow> bool" where
  "among name C d \<longleftrightarrow> (\<forall>es \<in> set (dr_now d # dr_past d). map_of es name \<in> entry ` C)"

definition all_named :: "(string \<Rightarrow> bool) \<Rightarrow> directory \<Rightarrow> bool" where
  "all_named P d \<longleftrightarrow> (\<forall>es \<in> set (dr_now d # dr_past d). \<forall>n \<in> fst ` set es. P n)"

definition root_name :: "string \<Rightarrow> bool" where
  "root_name n \<longleftrightarrow> n = ''MANIFEST.A'' \<or> n = ''MANIFEST.B'' \<or> manifestTempPattern n"

definition generation_name :: "string \<Rightarrow> bool" where
  "generation_name n \<longleftrightarrow> parseGenerationName n \<noteq> None \<or> generationTempPattern n"

text \<open>What a directory keeps: in the root the slots, of the generations those of \<open>G\<close>.\<close>

definition fit :: "directoryRole \<Rightarrow> (manifestSlot \<Rightarrow> bytes option set) \<Rightarrow> (string \<times> bytes) set \<Rightarrow> directory \<Rightarrow> bool" where
  "fit role C G d = (case role of
      directoryRoot \<Rightarrow> (\<forall>slot. among (manifestSlotFilename slot) (C slot) d) \<and> all_named root_name d
    | directoryGenerations \<Rightarrow> (\<forall>(f, c) \<in> G. parseGenerationName f \<noteq> None \<and> among f {Some c} d) \<and> all_named generation_name d)"

definition guards :: "(manifestSlot \<Rightarrow> bytes option set) \<Rightarrow> (string \<times> bytes) set \<Rightarrow> store \<Rightarrow> bool" where
  "guards C G s \<longleftrightarrow> (\<forall>role. fit role C G (dir_of role s))"

lemma map_of_put: "map_of (put_entry n f es) m = (if m = n then Some f else map_of es m)"
  by (induction es) (auto simp: put_entry_def)

lemma map_of_drop: "map_of (drop_entry n es) m = (if m = n then None else map_of es m)"
  by (induction es) (auto simp: drop_entry_def)

lemma map_of_each: "map_of (map (\<lambda>(n, f). (n, g n f)) es) m = map_option (g m) (map_of es m)"
  by (induction es) auto

lemma among_rename: "among name C d \<Longrightarrow> map_of (f (dr_now d)) name \<in> entry ` C \<Longrightarrow> among name C (rename_entries f d)"
  by (auto simp: among_def rename_entries_def)

lemma all_named_rename: "all_named P d \<Longrightarrow> \<forall>n \<in> fst ` set (f (dr_now d)). P n \<Longrightarrow> all_named P (rename_entries f d)"
  by (auto simp: all_named_def rename_entries_def)

lemma names_put: "fst ` set (put_entry n f es) = insert n (fst ` set es)"
  by (auto simp: put_entry_def image_iff)

lemma names_drop: "fst ` set (drop_entry n es) = fst ` set es - {n}"
  by (auto simp: drop_entry_def image_iff)

lemma names_each: "fst ` set (map (\<lambda>(n, f). (n, g n f)) es) = fst ` set es"
  by (force simp: image_iff)

lemma now_names: "all_named P d \<Longrightarrow> n \<in> fst ` set (dr_now d) \<Longrightarrow> P n"
  by (auto simp: all_named_def)

lemma among_now: "among name C d \<Longrightarrow> map_of (dr_now d) name \<in> entry ` C"
  by (simp add: among_def)

lemma among_mono: "among n C d \<Longrightarrow> C \<subseteq> C' \<Longrightarrow> among n C' d"
  unfolding among_def by (meson image_mono subsetD)

lemma fit_mono: "fit role C G d \<Longrightarrow> (\<And>slot. C slot \<subseteq> C' slot) \<Longrightarrow> G' \<subseteq> G \<Longrightarrow> fit role C' G' d"
  using among_mono [of "manifestSlotFilename slot" "C slot" d "C' slot" for slot]
  by (cases role) (auto simp: fit_def)

lemma guards_mono: "guards C G s \<Longrightarrow> (\<And>slot. C slot \<subseteq> C' slot) \<Longrightarrow> G' \<subseteq> G \<Longrightarrow> guards C' G' s"
  using fit_mono unfolding guards_def by blast

lemma guards_same: "same s s' \<Longrightarrow> guards C G s' = guards C G s"
  by (simp add: guards_def same_dir)

definition protected :: "directoryRole \<Rightarrow> (string \<times> bytes) set \<Rightarrow> string \<Rightarrow> bool" where
  "protected role G n \<longleftrightarrow> (case role of
      directoryRoot \<Rightarrow> n = ''MANIFEST.A'' \<or> n = ''MANIFEST.B'' | directoryGenerations \<Rightarrow> n \<in> fst ` G)"

definition proper :: "directoryRole \<Rightarrow> string \<Rightarrow> bool" where
  "proper role n = (case role of directoryRoot \<Rightarrow> root_name n | directoryGenerations \<Rightarrow> generation_name n)"

definition temporary :: "directoryRole \<Rightarrow> string \<Rightarrow> bool" where
  "temporary role n = (case role of directoryRoot \<Rightarrow> manifestTempPattern n | directoryGenerations \<Rightarrow> generationTempPattern n)"

lemma slot_file: "(\<exists>slot. n = manifestSlotFilename slot) \<longleftrightarrow> n = ''MANIFEST.A'' \<or> n = ''MANIFEST.B''"
  by (metis manifestSlot.exhaust slot_names)

lemma slot_file_protected [simp]: "protected directoryRoot G (manifestSlotFilename slot)"
  by (cases slot) (simp_all add: protected_def)

lemma fit_rename:
  assumes "fit role C G d" and "\<And>m. protected role G m \<Longrightarrow> map_of (f (dr_now d)) m = map_of (dr_now d) m"
    and "\<And>n. n \<in> fst ` set (f (dr_now d)) \<Longrightarrow> n \<in> fst ` set (dr_now d) \<or> proper role n"
  shows "fit role C G (rename_entries f d)"
proof (cases role)
  case directoryRoot
  then have a: "among (manifestSlotFilename slot) (C slot) d" "all_named root_name d" for slot using assms(1) by (auto simp: fit_def)
  have "among (manifestSlotFilename slot) (C slot) (rename_entries f d)" for slot
    using assms(2) [of "manifestSlotFilename slot"] directoryRoot among_now [OF a(1)] by (intro among_rename a(1)) simp
  moreover have "all_named root_name (rename_entries f d)"
    using assms(3) directoryRoot now_names [OF a(2)] by (intro all_named_rename a(2)) (auto simp: proper_def)
  ultimately show ?thesis using directoryRoot by (simp add: fit_def)
next
  case directoryGenerations
  then have a: "\<And>x c. (x, c) \<in> G \<Longrightarrow> parseGenerationName x \<noteq> None \<and> among x {Some c} d" "all_named generation_name d"
    using assms(1) by (auto simp: fit_def)
  have "among x {Some c} (rename_entries f d)" if "(x, c) \<in> G" for x c
  proof -
    have "protected role G x" using that directoryGenerations by (force simp: protected_def)
    then show ?thesis using a(1) [OF that] assms(2) among_now [of x "{Some c}" d] by (intro among_rename) auto
  qed
  moreover have "all_named generation_name (rename_entries f d)"
    using assms(3) directoryGenerations now_names [OF a(2)] by (intro all_named_rename a(2)) (auto simp: proper_def)
  ultimately show ?thesis using directoryGenerations a(1) by (auto simp: fit_def)
qed

lemma among_each:
  assumes "among m C d" "\<And>x. x \<in> entry ` C \<Longrightarrow> map_option (g m) x \<in> entry ` C"
  shows "among m C (d\<lparr>dr_now := map (\<lambda>(n, f). (n, g n f)) (dr_now d)\<rparr>)"
  using assms by (auto simp: among_def map_of_each)

lemma all_named_each: "all_named P d \<Longrightarrow> all_named P (d\<lparr>dr_now := map (\<lambda>(n, f). (n, g n f)) (dr_now d)\<rparr>)"
  using names_each [of g "dr_now d"] by (auto simp: all_named_def)

text \<open>An update in place: the names stay, and so do the files that are protected.\<close>

lemma fit_each:
  assumes "fit role C G d"
    and "\<And>m x. protected role G m \<Longrightarrow> fl_synced x \<Longrightarrow> g m x = x"
  shows "fit role C G (d\<lparr>dr_now := map (\<lambda>(n, f). (n, g n f)) (dr_now d)\<rparr>)"
proof -
  have e: "map_option (g m) x = x" if "protected role G m" "x \<in> entry ` X" for m x X
    using assms(2) [OF that(1)] that(2) by (auto simp: entry_def image_iff option.map_comp o_def)
  have each: "among m X (d\<lparr>dr_now := map (\<lambda>(n, f). (n, g n f)) (dr_now d)\<rparr>)" if "protected role G m" "among m X d" for m X
    using e [OF that(1)] by (intro among_each that(2)) auto
  have "protected directoryGenerations G f" if "(f, c) \<in> G" for f c using that by (force simp: protected_def)
  then show ?thesis using assms(1) each by (cases role) (auto simp: fit_def all_named_each)
qed

lemma temporary_not_protected:
  assumes "fit role C G d" "temporary role n"
  shows "\<not> protected role G n"
proof (cases role)
  case directoryRoot
  then show ?thesis using assms(2) by (auto simp: temporary_def protected_def manifestTempPattern_def)
next
  case directoryGenerations
  have "\<not> generationTempPattern f" if "parseGenerationName f \<noteq> None" for f
    using that by (cases f) (auto simp: parseGenerationName_def generationNamePattern_def generationTempPattern_def split: if_splits)
  then show ?thesis using assms directoryGenerations by (auto simp: temporary_def protected_def fit_def)
qed

lemma temporary_proper: "temporary role n \<Longrightarrow> proper role n"
  by (auto simp: temporary_def proper_def root_name_def generation_name_def split: directoryRole.splits)

subsection \<open>Calls with an effect\<close>

definition fields_of :: "store \<Rightarrow> selectedManifest option \<times> manifestPayloadV1 option \<times> stateV1 \<times> bool \<times> bool \<times> string list" where
  "fields_of s = (os_selected s, os_manifest s, os_state s, os_closed s, os_poisoned s, os_others s)"

definition held :: "(manifestSlot \<Rightarrow> bytes option set) \<Rightarrow> (string \<times> bytes) set \<Rightarrow> store \<Rightarrow> store \<Rightarrow> bool" where
  "held C G s s' \<longleftrightarrow> guards C G s' \<and> fields_of s' = fields_of s"

lemma fields_same: "same s s' \<Longrightarrow> fields_of s' = fields_of s"
  by (auto simp: fields_of_def elim!: sameE)

lemma held_same: "held C G z s \<Longrightarrow> same s s' \<Longrightarrow> held C G z s'"
  by (simp add: held_def guards_same fields_same)

lemma dir_of_set [simp]: "dir_of r (set_dir r' d s) = (if r = r' then d else dir_of r s)"
  by (cases r; cases r') (simp_all add: dir_of_def set_dir_def)

lemma fields_set [simp]: "fields_of (set_dir r d s) = fields_of s"
  by (cases r) (simp_all add: fields_of_def set_dir_def)

lemma held_set: "held C G z s \<Longrightarrow> fit role C G d \<Longrightarrow> held C G z (set_dir role d s)"
  by (simp add: held_def guards_def)

lemma held_fit: "held C G z s \<Longrightarrow> fit role C G (dir_of role s)"
  by (simp add: held_def guards_def)

lemma lookup_set [simp]: "lookup r n (set_dir r d s) = map_of (dr_now d) n"
  by (simp add: lookup_def)

lemma wp_update_dir [simp]: "wp (update_dir role f) Q s = Q () (set_dir role (f (dir_of role s)) s)"
  by (simp add: update_dir_def)

lemma held_guarded: "held C G z s \<Longrightarrow> wp (guarded called) (\<lambda>_. held C G z) s"
  using guarded_same [of s] held_same by (auto elim!: wp_mono)

lemma syncFile_spec:
  assumes "held C G z s"
  shows "wp (syncFile role n) (\<lambda>r s'. held C G z s' \<and>
     (r = Inr () \<longrightarrow> lookup role n s' = map_option (\<lambda>f. f\<lparr>fl_synced := True\<rparr>) (lookup role n s))) s"
  unfolding syncFile_def
proof (rule wp_attempt [OF guarded_same], goal_cases)
  case (2 x s')
  have h: "held C G z s'" using held_same [OF assms 2] .
  show ?case
    using h same_dir(2) [OF 2, of role n] held_set [OF h fit_each [OF held_fit [OF h], where g = "\<lambda>m f. if m = n then f\<lparr>fl_synced := True\<rparr> else f"]]
    by (auto simp: map_of_each lookup_def)
qed (use assms held_same in auto)

lemma fit_synced: "fit role C G d \<Longrightarrow> fit role C G (d\<lparr>dr_past := []\<rparr>)"
  by (cases role) (auto simp: fit_def among_def all_named_def)

lemma syncDirectory_spec:
  assumes "held C G z s"
  shows "wp (syncDirectory role) (\<lambda>r s'. held C G z s' \<and>
     (r = Inr () \<longrightarrow> dir_of role s' = (dir_of role s)\<lparr>dr_past := []\<rparr> \<and> (\<forall>r'. r' \<noteq> role \<longrightarrow> dir_of r' s' = dir_of r' s))) s"
  unfolding syncDirectory_def
proof (rule wp_attempt [OF guarded_same], goal_cases)
  case (2 x s')
  have h: "held C G z s'" using held_same [OF assms 2] .
  show ?case using same_dir(1) [OF 2] held_set [OF h fit_synced [OF held_fit [OF h]]] by simp
qed (use assms held_same in auto)

lemma append_spec:
  assumes "held C G z s" "temporary role n"
  shows "held C G z (set_dir role (append_data n data (dir_of role s)) s)"
proof -
  note f = held_fit [OF assms(1), of role]
  have "\<not> protected role G n" by (rule temporary_not_protected [OF f assms(2)])
  then show ?thesis unfolding append_data_def
    by (intro held_set [OF assms(1)] fit_each [OF f]) auto
qed

lemma writeAll_spec:
  assumes "held C G z s" "temporary role n" "lookup role n s = Some f"
  shows "wp (writeAll role n payload) (\<lambda>r s'. held C G z s' \<and>
     (r = Inr () \<longrightarrow> lookup role n s' = Some \<lparr>fl_data = fl_data f @ payload, fl_synced = False\<rparr>)) s"
  unfolding writeAll_def
proof (rule wp_seq [OF next_verdict_same], goal_cases)
  case (1 v s')
  then have h: "held C G z s'" and l: "lookup role n s' = Some f" using held_same [OF assms(1)] assms(3) same_dir by auto
  have "held C G z (set_dir role (append_data n data (dir_of role s')) s')" for data by (rule append_spec [OF h assms(2)])
  moreover have "map_of (dr_now (append_data n data (dir_of role s'))) n = Some \<lparr>fl_data = fl_data f @ data, fl_synced = False\<rparr>" for data
    using l by (simp add: append_data_def map_of_each lookup_def)
  ultimately show ?case using h by (cases v) simp_all
qed

lemma fs_rename_spec:
  assumes "held C G z s" "temporary role n" "\<not> protected role G new" "proper role new" "lookup role n s = Some f"
  shows "wp (fs_rename role n new) (\<lambda>r s'. held C G z s' \<and> (r = Inr () \<longrightarrow> lookup role new s' = Some f)) s"
  unfolding fs_rename_def
proof (rule wp_attempt [OF guarded_same], goal_cases)
  case (2 x s')
  have h: "held C G z s'" using held_same [OF assms(1) 2] .
  have l: "lookup role n s' = Some f" using same_dir(2) [OF 2] assms(5) by simp
  have "\<not> protected role G n" by (rule temporary_not_protected [OF held_fit [OF h] assms(2)])
  then have "fit role C G (rename_entries (\<lambda>es. put_entry new f (drop_entry n es)) (dir_of role s'))"
    using assms(3,4) by (intro fit_rename held_fit [OF h]) (auto simp: map_of_put map_of_drop names_put names_drop)
  then show ?case using l held_set [OF h] by (simp add: rename_entries_def map_of_put)
qed (use assms(1) held_same in auto)

lemma fs_remove_held:
  assumes "held C G z s" "\<not> protected role G n"
  shows "wp (fs_remove role n) (\<lambda>_. held C G z) s"
  unfolding fs_remove_def
proof (rule wp_attempt [OF guarded_same], goal_cases)
  case (2 x s')
  have h: "held C G z s'" using held_same [OF assms(1) 2] .
  have "fit role C G (rename_entries (drop_entry n) (dir_of role s'))"
    using assms(2) by (intro fit_rename held_fit [OF h]) (auto simp: map_of_drop names_drop)
  then show ?case using h held_set [OF h] by simp
qed (use assms(1) held_same in auto)

text \<open>The names of temporary files.\<close>

definition temp_prefix :: "directoryRole \<Rightarrow> string" where
  "temp_prefix role = (case role of directoryRoot \<Rightarrow> ''.tmp-manifest-'' | directoryGenerations \<Rightarrow> ''.tmp-generation-'')"

lemma temp_rest: "r \<noteq> [] \<Longrightarrow> is_temp_rest (hex_encode r)"
proof -
  assume "r \<noteq> []"
  then have "hex_encode r \<noteq> []" using length_hex_encode [of r] by auto
  moreover have "is_hex_lower c \<Longrightarrow> is_lower c \<or> is_digit c" for c
    by (auto simp: is_hex_lower_def is_lower_def is_digit_def in_range_def)
  ultimately show ?thesis using hex_encode_lower [of r] by (auto simp: is_temp_rest_def list_all_iff)
qed

lemma temporary_made: "r \<noteq> [] \<Longrightarrow> temporary role (temp_prefix role @ hex_encode r)"
  using temp_rest [of r]
  by (cases role) (simp_all add: temporary_def temp_prefix_def manifestTempPattern_def generationTempPattern_def)

lemma rand_spec: "wp rand_Read (\<lambda>r s'. same s s' \<and> r \<noteq> Some []) s"
proof -
  have "wp rand_Read (\<lambda>r _. r \<noteq> Some []) s" by (auto simp: rand_Read_def wp_State split: list.split)
  then show ?thesis by (simp add: wp_conj rand_same)
qed

lemma create_spec:
  "held C G z s \<Longrightarrow> wp (create_loop k role (temp_prefix role)) (\<lambda>r s'. held C G z s' \<and>
     (\<forall>n. r = Inr n \<longrightarrow> temporary role n \<and> lookup role n s' = Some \<lparr>fl_data = [], fl_synced = False\<rparr>)) s"
proof (induction k arbitrary: s)
  case (Suc k)
  let ?post = "\<lambda>r s'. held C G z s' \<and>
     (\<forall>n. r = Inr n \<longrightarrow> temporary role n \<and> lookup role n s' = Some \<lparr>fl_data = [], fl_synced = False\<rparr>)"
  show ?case unfolding create_loop.simps
  proof (rule wp_seq [OF rand_spec], goal_cases)
    case (1 r s1)
    have h1: "held C G z s1" using held_same [OF Suc.prems] 1 by blast
    show ?case
    proof (cases r)
      case (Some random)
      let ?n = "temp_prefix role @ hex_encode random"
      have t: "temporary role ?n" using 1 Some by (intro temporary_made) auto
      have made: "held C G z (set_dir role (rename_entries (put_entry ?n f) (dir_of role s2)) s2)" if "held C G z s2" for f s2
        using temporary_proper [OF t] temporary_not_protected [OF held_fit [OF that] t]
        by (intro held_set [OF that] fit_rename held_fit [OF that]) (auto simp: map_of_put names_put)
      have ver: "wp (orelse verifyOpenedDescriptor (\<lambda>e. do {_ \<leftarrow> fs_remove role ?n; err e}) (\<lambda>_. ok ?n)) ?post s3"
        if h3: "held C G z s3" and l3: "lookup role ?n s3 = Some \<lparr>fl_data = [], fl_synced = False\<rparr>" for s3
        unfolding verifyOpenedDescriptor_def
      proof (rule wp_orelse [OF guarded_same], goal_cases)
        case (1 e s4)
        have h4: "held C G z s4" by (rule held_same [OF h3 1])
        then have "\<not> protected role G ?n" using temporary_not_protected [OF held_fit t] by blast
        then show ?case by (rule wp_seq [OF fs_remove_held [OF h4]]) simp
      next
        case (2 x s4)
        then show ?case using held_same [OF h3 2] l3 t by (simp add: same_dir)
      qed
      have "wp (create_exclusive role ?n) (\<lambda>c s3. held C G z s3 \<and> (c = Some (Inr ()) \<longrightarrow> lookup role ?n s3 = Some \<lparr>fl_data = [], fl_synced = False\<rparr>)) s1"
        unfolding create_exclusive_def
      proof (rule wp_seq [OF called_same], goal_cases)
        case (1 e s2)
        have "held C G z s2" by (rule held_same [OF h1 1])
        then show ?case using made by (auto simp: rename_entries_def map_of_put split: option.split)
      qed
      then have "wp (State_Monad.bind (create_exclusive role ?n) (\<lambda>c. case c of None \<Rightarrow> create_loop k role (temp_prefix role)
           | Some (Inl e) \<Rightarrow> err (newStoreError outcomeIOFailed ''create_temp'')
           | Some (Inr _) \<Rightarrow> orelse verifyOpenedDescriptor (\<lambda>e. do {_ \<leftarrow> fs_remove role ?n; err e}) (\<lambda>_. ok ?n))) ?post s1"
        by (rule wp_seq) (use Suc.IH ver in \<open>auto split: option.split sum.split\<close>)
      then show ?thesis using Some by simp
    qed (use h1 in simp)
  qed
qed simp

lemma createTemporary_spec:
  "held C G z s \<Longrightarrow> wp (createTemporary role (temp_prefix role)) (\<lambda>r s'. held C G z s' \<and>
     (\<forall>n. r = Inr n \<longrightarrow> temporary role n \<and> lookup role n s' = Some \<lparr>fl_data = [], fl_synced = False\<rparr>)) s"
  unfolding createTemporary_def by (rule create_spec)

end
