(* ===== verification/GoJsonLaws.thy ===== *)
theory GoJsonLaws
  imports GoJson
begin

text \<open>
  Texts and the values they are read as. A text denotes a value when the reader returns the value
  and leaves what follows; the texts the store writes are composed of such texts.
\<close>

subsection \<open>Texts that denote values\<close>

definition follow :: "string \<Rightarrow> bool" where
  "follow rest \<longleftrightarrow> rest = [] \<or> List.member [CHR '','', CHR 0x7D, CHR '']'', CHR 0x0A] (hd rest)"

definition denotes :: "string \<Rightarrow> json \<Rightarrow> bool" where
  "denotes t v \<longleftrightarrow> t \<noteq> [] \<and> \<not> is_ws (hd t) \<and>
     (\<forall>n rest. length t \<le> n \<longrightarrow> follow rest \<longrightarrow> read_value n (t @ rest) = Some (v, rest))"

lemma follow_simps [simp]:
  "follow []" "follow (CHR '','' # r)" "follow (CHR 0x7D # r)" "follow (CHR '']'' # r)" "follow (CHR 0x0A # r)"
  by (simp_all add: follow_def)

lemma skip_ws_nop: "t \<noteq> [] \<Longrightarrow> \<not> is_ws (hd t) \<Longrightarrow> skip_ws (t @ r) = t @ r"
  by (cases t) (simp_all add: skip_ws_def)

lemma skip_ws_Cons: "\<not> is_ws c \<Longrightarrow> skip_ws (c # r) = c # r"
  by (simp add: skip_ws_def)

lemma not_ws [simp]:
  "\<not> is_ws (CHR 0x22)" "\<not> is_ws (CHR 0x7B)" "\<not> is_ws (CHR 0x7D)" "\<not> is_ws (CHR ''['')" "\<not> is_ws (CHR '']'')"
  "\<not> is_ws (CHR '':'')" "\<not> is_ws (CHR '','')" "\<not> is_ws (CHR ''n'')" "\<not> is_ws (CHR ''t'')" "\<not> is_ws (CHR ''f'')"
  by (simp_all add: is_ws_def)

lemma denotesD: "denotes t v \<Longrightarrow> length t \<le> n \<Longrightarrow> follow rest \<Longrightarrow> read_value n (t @ rest) = Some (v, rest)"
  by (simp add: denotes_def)

lemma denotes_skip: "denotes t v \<Longrightarrow> skip_ws (t @ r) = t @ r"
  by (simp add: denotes_def skip_ws_nop)

lemma denotes_Nil [simp]: "\<not> denotes [] v"
  by (simp add: denotes_def)

lemma denotesI:
  assumes "\<And>m rest. length t \<le> m \<Longrightarrow> follow rest \<Longrightarrow> read_value (Suc m) (c # t @ rest) = Some (v, rest)"
    and "\<not> is_ws c"
  shows "denotes (c # t) v"
  unfolding denotes_def
proof (intro conjI allI impI)
  fix n rest assume "length (c # t) \<le> n" "follow rest"
  then show "read_value n ((c # t) @ rest) = Some (v, rest)" using assms(1) [of "n - 1" rest] by (cases n) auto
qed (use assms(2) in auto)

lemma denotes_null: "denotes ''null'' JNull"
  by (rule denotesI) (simp_all add: read_value.simps skip_ws_Cons read_literal_def)

lemma denotes_true: "denotes ''true'' (JBool True)"
  by (rule denotesI) (simp_all add: read_value.simps skip_ws_Cons read_literal_def)

lemma denotes_false: "denotes ''false'' (JBool False)"
  by (rule denotesI) (simp_all add: read_value.simps skip_ws_Cons read_literal_def)

subsection \<open>Numbers\<close>

lemma digit_char_simps: "d < 10 \<Longrightarrow> is_digit (digit_char d)" "d < 10 \<Longrightarrow> of_char (digit_char d) = (48 + d :: nat)"
  by (simp_all add: is_digit_def in_range_def digit_char_def)

lemma decimal_digits: "list_all is_digit (dec_nat n)"
  by (induction n rule: dec_nat.induct) (subst dec_nat.simps, simp add: digit_char_simps)

lemma dec_nat_nonempty [simp]: "dec_nat n \<noteq> []"
  by (subst dec_nat.simps) auto

lemma hd_dec_nat: "n \<noteq> 0 \<Longrightarrow> hd (dec_nat n) \<noteq> CHR ''0''"
proof (induction n rule: dec_nat.induct)
  case (1 n)
  show ?case
  proof (cases "n < 10")
    case True
    then have "of_char (digit_char n) = (48 + n :: nat)" by (simp add: digit_char_def)
    moreover have "of_char (CHR ''0'') = (48 :: nat)" by simp
    ultimately have "digit_char n \<noteq> CHR ''0''" using 1(2) by force
    with True show ?thesis by (subst dec_nat.simps) simp
  next
    case False
    then have "hd (dec_nat (n div 10)) \<noteq> CHR ''0''" using 1 by auto
    with False show ?thesis by (subst dec_nat.simps) simp
  qed
qed

lemma dec_nat_0 [simp]: "dec_nat 0 = ''0''"
  by code_simp

lemma parse_digits_append:
  "parse_digits acc (xs @ ys) = (case parse_digits acc xs of None \<Rightarrow> None | Some n \<Rightarrow> parse_digits n ys)"
  by (induction acc xs rule: parse_digits.induct) auto

lemma parse_decimal: "parse_digits 0 (dec_nat n) = Some n"
proof (induction n rule: dec_nat.induct)
  case (1 n)
  have d: "is_digit (digit_char (n mod 10))" "of_char (digit_char (n mod 10)) = (48 + n mod 10 :: nat)" for n
    by (simp_all add: is_digit_def in_range_def digit_char_def)
  show ?case
  proof (cases "n < 10")
    case True
    then show ?thesis using d [of n] by (subst dec_nat.simps) simp
  next
    case False
    then show ?thesis using 1 d [of n] by (subst dec_nat.simps) (simp add: parse_digits_append)
  qed
qed

lemma digits_before: "list_all is_digit d \<Longrightarrow> follow rest \<Longrightarrow> takeWhile is_digit (d @ rest) = d \<and> dropWhile is_digit (d @ rest) = rest"
  by (induction d) (cases rest; auto simp: follow_def is_digit_def in_range_def)+

lemma number_end: "follow rest \<Longrightarrow> number_fraction rest = Some ([], rest) \<and> number_exponent rest = Some ([], rest)"
  by (cases rest) (auto simp: follow_def number_fraction_def number_exponent_def)

lemma is_digit_not: "is_digit c \<Longrightarrow> c \<noteq> CHR ''-'' \<and> c \<noteq> CHR 0x22 \<and> c \<noteq> CHR 0x7B \<and> c \<noteq> CHR ''['' \<and>
   c \<noteq> CHR ''n'' \<and> c \<noteq> CHR ''t'' \<and> c \<noteq> CHR ''f'' \<and> \<not> is_ws c"
  by (auto simp: is_digit_def in_range_def is_ws_def)

lemma read_number_dec: "follow rest \<Longrightarrow> read_number (dec_nat n @ rest) = Some (dec_nat n, rest)"
proof -
  assume f: "follow rest"
  obtain c r where d: "dec_nat n = c # r" by (cases "dec_nat n") auto
  have digits: "is_digit c" "list_all is_digit (c # r)" using decimal_digits [of n] d by auto
  have "number_integer (dec_nat n @ rest) = Some (dec_nat n, rest)"
  proof (cases "n = 0")
    case False
    then have "c \<noteq> CHR ''0''" using hd_dec_nat [of n] d by simp
    then show ?thesis using digits_before [OF digits(2) f]
      by (simp add: d number_integer_def number_digits_def Let_def)
  qed (simp add: number_integer_def)
  then show ?thesis
    using number_end [OF f] is_digit_not [OF digits(1)] by (simp add: read_number_def d)
qed

lemma denotes_number: "denotes (dec_nat n) (JNumber (dec_nat n))"
proof -
  obtain c r where d: "dec_nat n = c # r" by (cases "dec_nat n") auto
  have c: "is_digit c" using decimal_digits [of n] d by auto
  show ?thesis unfolding d
  proof (rule denotesI)
    fix m rest assume "follow rest"
    then show "read_value (Suc m) (c # r @ rest) = Some (JNumber (c # r), rest)"
      using read_number_dec [of rest n] is_digit_not [OF c] by (simp add: d read_value.simps skip_ws_Cons)
  qed (use is_digit_not [OF c] in auto)
qed

subsection \<open>Strings\<close>

definition string_text :: "string \<Rightarrow> string \<Rightarrow> bool" where
  "string_text body s \<longleftrightarrow> (\<forall>rest. read_string (body @ CHR 0x22 # rest) = Some (s, rest))"

lemma denotes_string: "string_text body s \<Longrightarrow> denotes (CHR 0x22 # body @ [CHR 0x22]) (JString s)"
  by (rule denotesI) (simp_all add: read_value.simps skip_ws_Cons string_text_def)

text \<open>Encoding is the inverse of decoding, width by width.\<close>

lemma sextet_parts: "w < 64 \<Longrightarrow> (a * 64 + w) div 64 = (a :: nat)" "w < 64 \<Longrightarrow> (a * 64 + w) mod 64 = (w :: nat)"
  by auto

lemma utf8_encode_2:
  assumes "194 \<le> b" "b \<le> 223" "128 \<le> x" "x \<le> 191"
  shows "utf8_encode ((b - 192) * 64 + (x - 128)) = [char_of b, char_of x]"
proof -
  obtain q y where "b = 192 + q" "x = 128 + y" "2 \<le> q" "q < 32" "y < 64"
    using assms by (intro that [of "b - 192" "x - 128"]) auto
  then show ?thesis by (simp add: utf8_encode_def)
qed

lemma utf8_encode_3:
  assumes "224 \<le> b" "b \<le> 239" "128 \<le> x" "x \<le> 191" "b \<noteq> 224 \<or> 160 \<le> x" "b \<noteq> 237 \<or> x \<le> 159" "128 \<le> z" "z \<le> 191"
  shows "utf8_encode ((b - 224) * 4096 + (x - 128) * 64 + (z - 128)) = [char_of b, char_of x, char_of z]"
proof -
  obtain q y w where v: "b = 224 + q" "x = 128 + y" "z = 128 + w" "q < 16" "y < 64" "w < 64" "q \<noteq> 0 \<or> 32 \<le> y" "q \<noteq> 13 \<or> y < 32"
    using assms by (intro that [of "b - 224" "x - 128" "z - 128"]; linarith)
  let ?r = "q * 4096 + y * 64 + w"
  have "2048 \<le> ?r" using v by (cases "q = 0") auto
  moreover have "?r < 65536" using v by linarith
  moreover have "\<not> (55296 \<le> ?r \<and> ?r \<le> 57343)"
    using v by (cases "q = 13"; cases "q < 13") auto
  moreover have "?r div 4096 = q" "?r div 64 mod 64 = y" "?r mod 64 = w"
  proof -
    have r: "?r = (q * 64 + y) * 64 + w" and k: "(4096 :: nat) = 64 * 64" by simp_all
    show "?r div 4096 = q" "?r div 64 mod 64 = y" "?r mod 64 = w"
      unfolding r using v by (simp_all only: k div_mult2_eq sextet_parts)
  qed
  ultimately show ?thesis using v(1,2,3) by (auto simp: utf8_encode_def)
qed

lemma utf8_encode_4:
  assumes "240 \<le> b" "b \<le> 244" "128 \<le> x" "x \<le> 191" "b \<noteq> 240 \<or> 144 \<le> x" "b \<noteq> 244 \<or> x \<le> 143"
    "128 \<le> z" "z \<le> 191" "128 \<le> u" "u \<le> 191"
  shows "utf8_encode ((b - 240) * 262144 + (x - 128) * 4096 + (z - 128) * 64 + (u - 128)) =
    [char_of b, char_of x, char_of z, char_of u]"
proof -
  obtain q y w t where v: "b = 240 + q" "x = 128 + y" "z = 128 + w" "u = 128 + t" "q < 5" "y < 64" "w < 64" "t < 64"
      "q \<noteq> 0 \<or> 16 \<le> y" "q \<noteq> 4 \<or> y < 16"
    using assms by (intro that [of "b - 240" "x - 128" "z - 128" "u - 128"]; linarith)
  let ?r = "q * 262144 + y * 4096 + w * 64 + t"
  have "65536 \<le> ?r" using v by (cases "q = 0") auto
  moreover have "?r \<le> 1114111" using v by (cases "q = 4") auto
  moreover have "?r div 262144 = q" "?r div 4096 mod 64 = y" "?r div 64 mod 64 = w" "?r mod 64 = t"
  proof -
    have r: "?r = ((q * 64 + y) * 64 + w) * 64 + t" and k: "(4096 :: nat) = 64 * 64" "(262144 :: nat) = 64 * 64 * 64" by simp_all
    show "?r div 262144 = q" "?r div 4096 mod 64 = y" "?r div 64 mod 64 = w" "?r mod 64 = t"
      unfolding r using v by (simp_all only: k div_mult2_eq sextet_parts)
  qed
  ultimately show ?thesis using v(1,2,3,4) by (simp add: utf8_encode_def)
qed

lemma rune_bytes:
  assumes "utf8_next c cs = (r, n)" and "chunk_valid (r, c # take n cs)"
  shows "c # take n cs = utf8_encode r" and "utf8_next c (take n cs @ rest) = (r, n)" and "length (take n cs) = n"
    and "r < 128 \<longleftrightarrow> (of_char c :: nat) < 128"
proof -
  have "c # take n cs = utf8_encode r \<and> utf8_next c (take n cs @ rest) = (r, n) \<and> length (take n cs) = n \<and>
      (r < 128 \<longleftrightarrow> (of_char c :: nat) < 128)"
    using assms utf8_encode_2 [of "of_char c" "of_char (cs ! 0)"]
      utf8_encode_3 [of "of_char c" "of_char (cs ! 0)" "of_char (cs ! 1)"]
      utf8_encode_4 [of "of_char c" "of_char (cs ! 0)" "of_char (cs ! 1)" "of_char (cs ! 2)"]
    unfolding utf8_next_def cont_byte_def chunk_valid_def Let_def
    by (auto split: if_splits list.splits simp: utf8_encode_def [of "of_char c"])
  then show "c # take n cs = utf8_encode r" and "utf8_next c (take n cs @ rest) = (r, n)" and "length (take n cs) = n"
    and "r < 128 \<longleftrightarrow> (of_char c :: nat) < 128" by blast+
qed

text \<open>
  Two ways of escaping: \<^verbatim>\<open>json.Marshal\<close> and the store's own \<^verbatim>\<open>writeCanonicalString\<close>. Both write what
  the reader gives back for the chunks of a valid string; the second one for chunks that are no
  control characters.
\<close>

definition escape_ok :: "(nat \<Rightarrow> bool) \<Rightarrow> (nat \<times> string \<Rightarrow> string) \<Rightarrow> bool" where
  "escape_ok P esc \<longleftrightarrow> (\<forall>c cs r n rest. utf8_next c cs = (r, n) \<longrightarrow> chunk_valid (r, c # take n cs) \<longrightarrow> P r \<longrightarrow>
     read_string (esc (r, c # take n cs) @ rest) = map_option (apfst ((@) (c # take n cs))) (read_string rest))"

lemma escape_okD:
  "escape_ok P esc \<Longrightarrow> utf8_next c cs = (r, n) \<Longrightarrow> chunk_valid (r, c # take n cs) \<Longrightarrow> P r \<Longrightarrow>
   read_string (esc (r, c # take n cs) @ rest) = map_option (apfst ((@) (c # take n cs))) (read_string rest)"
  by (simp add: escape_ok_def)

lemma string_text_escaped:
  "escape_ok P esc \<Longrightarrow> utf8_valid s \<Longrightarrow> list_all P (go_runes s) \<Longrightarrow> string_text (concat (map esc (go_chunks s))) s"
  unfolding string_text_def
proof (induction s rule: go_chunks.induct)
  case 1
  then show ?case by (simp add: read_string.simps)
next
  case (2 c cs)
  obtain r n where rn: "utf8_next c cs = (r, n)" by fastforce
  have v: "chunk_valid (r, c # take n cs)" "utf8_valid (drop n cs)" "P r" "list_all P (go_runes (drop n cs))"
    using "2.prems" rn by (simp_all add: utf8_valid_def go_runes_def)
  show ?case
  proof
    fix rest
    have "read_string (concat (map esc (go_chunks (drop n cs))) @ CHR 0x22 # rest) = Some (drop n cs, rest)"
      using 2 rn v by auto
    then show "read_string (concat (map esc (go_chunks (c # cs))) @ CHR 0x22 # rest) = Some (c # cs, rest)"
      using escape_okD [OF "2.prems"(1) rn v(1,3)] rn by (simp add: Let_def)
  qed
qed

text \<open>A chunk that is copied, one that is escaped by a backslash, and one written as its number.\<close>

lemma read_copied:
  assumes "utf8_next c cs = (r, n)" and "chunk_valid (r, c # take n cs)" and "32 \<le> r" and "r \<noteq> 34" and "r \<noteq> 92"
  shows "read_string ((c # take n cs) @ rest) = map_option (apfst ((@) (c # take n cs))) (read_string rest)"
proof -
  note b = rune_bytes [OF assms(1,2)]
  have big: "\<not> (of_char c :: nat) < 32 \<and> c \<noteq> CHR 0x22 \<and> c \<noteq> CHR 0x5C"
  proof (cases "r < 128")
    case True
    then have "r = of_char c" using b(4) assms(1) by (auto simp: utf8_next_def)
    then show ?thesis using assms(3-5) by auto
  next
    case False
    then have "\<not> (of_char c :: nat) < 128" using b(4) by simp
    then show ?thesis by auto
  qed
  have "n \<le> length cs" using b(3) by simp
  then show ?thesis using big b(2) [of rest] assms(2)
    by (simp add: read_string.simps(2) Let_def chunk_bytes_def)
qed

lemma read_ascii:
  assumes "utf8_next c cs = (r, n)" and "chunk_valid (r, c # take n cs)" and "r < 128"
  shows "c # take n cs = [c]" and "r = of_char c" and "c = char_of r"
proof -
  have "(of_char c :: nat) < 128" using rune_bytes(4) [OF assms(1,2)] assms(3) by simp
  then have "r = of_char c \<and> n = 0" using assms(1) by (simp add: utf8_next_def)
  then show "c # take n cs = [c]" and "r = of_char c" and "c = char_of r" by simp_all
qed

lemma hex_nat_digit: "d < 16 \<Longrightarrow> hex_nat (hex_digit d) = Some d"
  by (auto simp: hex_nat_def hex_digit_def is_digit_def in_range_def)

lemma read_unicode:
  assumes "read_hex4 (h1 # h2 # h3 # h4 # rest) = Some u" and "u < 55296"
  shows "read_string (CHR 0x5C # CHR ''u'' # h1 # h2 # h3 # h4 # rest) =
    map_option (apfst ((@) (utf8_encode u))) (read_string rest)"
  using assms by (simp add: read_string.simps(2) escaped_rune_def Let_def)

lemma read_number_escape:
  assumes "r < 128"
  shows "read_string (CHR 0x5C # CHR ''u'' # CHR ''0'' # CHR ''0'' # hex_digit (r div 16) # hex_digit (r mod 16) # rest) =
    map_option (apfst ((@) [char_of r])) (read_string rest)"
proof -
  have "r div 16 < 16" using assms by auto
  then have "read_hex4 (CHR ''0'' # CHR ''0'' # hex_digit (r div 16) # hex_digit (r mod 16) # rest) = Some r"
    using hex_nat_digit [of "r div 16"] hex_nat_digit [of "r mod 16"]
    by (simp add: read_hex4_def hex_nat_def [of "CHR ''0''"] is_digit_def in_range_def)
  moreover have "utf8_encode r = [char_of r]" "r < 55296" using assms by (simp add: utf8_encode_def, linarith)
  ultimately show ?thesis using read_unicode by simp
qed

lemma read_simple_escape:
  "simple_escape e = Some x \<Longrightarrow> e \<noteq> CHR ''u'' \<Longrightarrow> read_string (CHR 0x5C # e # rest) = map_option (apfst ((@) [x])) (read_string rest)"
proof -
  have "(#) x = (@) [x]" by (rule ext) simp
  then show "simple_escape e = Some x \<Longrightarrow> e \<noteq> CHR ''u'' \<Longrightarrow> ?thesis" by (simp add: read_string.simps(2))
qed

lemma separators: "read_hex4 (''2028'' @ rest) = Some 8232" "read_hex4 (''2029'' @ rest) = Some 8233"
  by (simp_all add: read_hex4_def hex_nat_def is_digit_def in_range_def)

lemma control_chars:
  "char_of (34 :: nat) = CHR 0x22" "char_of (92 :: nat) = CHR 0x5C" "char_of (8 :: nat) = CHR 0x08" "char_of (9 :: nat) = CHR 0x09"
  "char_of (10 :: nat) = CHR 0x0A" "char_of (12 :: nat) = CHR 0x0C" "char_of (13 :: nat) = CHR 0x0D"
  by code_simp+

lemma escape_ok_marshal: "escape_ok (\<lambda>_. True) marshal_escape"
  unfolding escape_ok_def
proof (intro allI impI)
  fix c cs r n rest assume rn: "utf8_next c cs = (r, n)" "chunk_valid (r, c # take n cs)"
  note ascii = read_ascii [OF rn]
  let ?goal = "read_string (marshal_escape (r, c # take n cs) @ rest) = map_option (apfst ((@) (c # take n cs))) (read_string rest)"
  consider "r = 8232" | "r = 8233" | "r = 60 \<or> r = 62 \<or> r = 38 \<or> r < 32 \<and> \<not> List.member [8, 9, 10, 12, 13] r"
    | "r = 34 \<or> r = 92" | "List.member [8, 9, 10, 12, 13] r"
    | "32 \<le> r \<and> r \<noteq> 34 \<and> r \<noteq> 92 \<and> r \<noteq> 60 \<and> r \<noteq> 62 \<and> r \<noteq> 38 \<and> r \<noteq> 8232 \<and> r \<noteq> 8233"
    by fastforce
  then show ?goal
  proof cases
    case 1
    then show ?thesis using rune_bytes(1) [OF rn] separators(1) [of rest]
      by (simp add: marshal_escape_def read_unicode)
  next
    case 2
    then show ?thesis using rune_bytes(1) [OF rn] separators(2) [of rest]
      by (simp add: marshal_escape_def read_unicode)
  next
    case 3
    then have "marshal_escape (r, c # take n cs) = CHR 0x5C # ''u00'' @ [hex_digit (r div 16), hex_digit (r mod 16)]"
      using rn(2) by (auto simp: marshal_escape_def json_escape_def)
    moreover have "r < 128" using 3 by auto
    moreover from this have "take n cs = []" "c = char_of r" using ascii by simp_all
    ultimately show ?thesis using read_number_escape [of r rest] by auto
  next
    case 4
    then have "marshal_escape (r, c # take n cs) = [CHR 0x5C, c]" using rn(2) ascii(3)
      by (auto simp: marshal_escape_def json_escape_def)
    moreover have "simple_escape c = Some c" "c \<noteq> CHR ''u''"
      using 4 ascii(3) by (auto simp: simple_escape_def control_chars)
    ultimately show ?thesis using 4 ascii(1) read_simple_escape [of c c rest] by auto
  next
    case 5
    then have r: "r = 8 \<or> r = 9 \<or> r = 10 \<or> r = 12 \<or> r = 13" by auto
    then show ?thesis using ascii rn(2)
      by (auto simp: marshal_escape_def json_escape_def read_simple_escape simple_escape_def control_chars)
  next
    case 6
    then have "marshal_escape (r, c # take n cs) = c # take n cs" using rn(2)
      by (simp add: marshal_escape_def json_escape_def)
    then show ?thesis using read_copied [OF rn, of rest] 6 by simp
  qed
qed

lemma denotes_marshal: "utf8_valid s \<Longrightarrow> denotes (marshal_string s) (JString s)"
  using denotes_string [OF string_text_escaped [OF escape_ok_marshal]] by (simp add: marshal_string_def list_all_iff)

subsection \<open>Arrays and objects\<close>

lemma join_comma_Cons: "ts \<noteq> [] \<Longrightarrow> join_comma (t # ts) = t @ '','' @ join_comma ts"
  by (cases ts) auto

lemma read_items_join:
  "list_all2 denotes ts vs \<Longrightarrow> ts \<noteq> [] \<Longrightarrow> length (join_comma ts) < n \<Longrightarrow>
   read_items n (join_comma ts @ CHR '']'' # rest) = Some (vs, rest)"
proof (induction ts arbitrary: vs n)
  case (Cons t ts)
  obtain v vs' where v: "vs = v # vs'" "denotes t v" "list_all2 denotes ts vs'"
    using Cons.prems(1) by (auto simp: list_all2_Cons1)
  obtain m where m: "n = Suc m" using Cons.prems(3) by (cases n) auto
  show ?case
  proof (cases "ts = []")
    case True
    then show ?thesis using v m Cons.prems(3) denotesD [OF v(2), of m "CHR '']'' # rest"]
      by (simp add: read_items.simps skip_ws_Cons)
  next
    case False
    then have l: "length t \<le> m" "length (join_comma ts) < m" using Cons.prems(3) m by (simp_all add: join_comma_Cons)
    show ?thesis
      using v m False denotesD [OF v(2) l(1), of "CHR '','' # join_comma ts @ CHR '']'' # rest"] Cons.IH [OF v(3) False l(2)]
      by (simp add: read_items.simps skip_ws_Cons join_comma_Cons)
  qed
qed simp

lemma denotes_hd: "denotes t v \<Longrightarrow> \<exists>c r. t = c # r \<and> \<not> is_ws c"
  by (cases t) (auto simp: denotes_def)

lemma denotes_not_bracket:
  assumes "denotes t v"
  shows "hd t \<noteq> CHR '']''"
proof
  assume a: "hd t = CHR '']''"
  obtain c r where t: "t = c # r" using denotes_hd [OF assms] by blast
  have "read_value (length t) (t @ []) = Some (v, [])" using denotesD [OF assms, of "length t" "[]"] by simp
  then show False using a t by (simp add: read_value.simps skip_ws_Cons read_number_def number_integer_def number_digits_def
        is_digit_def in_range_def)
qed

lemma join_comma_hd: "t \<noteq> [] \<Longrightarrow> join_comma (t # ts) = hd t # tl (join_comma (t # ts))"
  by (cases ts) (auto simp: neq_Nil_conv)

lemma denotes_array: "list_all2 denotes ts vs \<Longrightarrow> denotes (CHR ''['' # join_comma ts @ [CHR '']'']) (JArray vs)"
proof (rule denotesI)
  fix m rest assume d: "list_all2 denotes ts vs" and m: "length (join_comma ts @ [CHR '']'']) \<le> m" and f: "follow rest"
  show "read_value (Suc m) (CHR ''['' # (join_comma ts @ [CHR '']'']) @ rest) = Some (JArray vs, rest)"
  proof (cases ts)
    case Nil
    then show ?thesis using d by (simp add: read_value.simps skip_ws_Cons)
  next
    case (Cons t ts')
    then obtain v where t: "denotes t v" using d by (auto simp: list_all2_Cons1)
    then have h: "join_comma ts = hd t # tl (join_comma ts)" using Cons join_comma_hd [of t ts'] by fastforce
    have "\<not> is_ws (hd t)" "hd t \<noteq> CHR '']''" using t denotes_not_bracket denotes_hd by (auto simp: denotes_def)
    moreover have "read_items m (join_comma ts @ CHR '']'' # rest) = Some (vs, rest)"
      using read_items_join [OF d, of m rest] m Cons by simp
    moreover have "skip_ws (join_comma ts @ CHR '']'' # rest) = hd t # tl (join_comma ts) @ CHR '']'' # rest"
      using calculation(1) h by (metis append_Cons skip_ws_Cons)
    ultimately show ?thesis by (simp add: read_value.simps skip_ws_Cons)
  qed
qed simp

text \<open>The text of a member: the quoted name, a colon, the text of the value.\<close>

type_synonym member_text = "string \<times> string \<times> string \<times> json"

definition member_text :: "member_text \<Rightarrow> string" where
  "member_text m = (case m of (name, body, t, v) \<Rightarrow> CHR 0x22 # body @ CHR 0x22 # CHR '':'' # t)"

definition member_ok :: "member_text \<Rightarrow> bool" where
  "member_ok m = (case m of (name, body, t, v) \<Rightarrow> string_text body name \<and> denotes t v)"

definition member_of :: "member_text \<Rightarrow> string \<times> string \<times> json" where
  "member_of m = (case m of (name, body, t, v) \<Rightarrow> (name, t, v))"

lemma member_simps [simp]:
  "member_text (name, body, t, v) = CHR 0x22 # body @ CHR 0x22 # CHR '':'' # t"
  "member_ok (name, body, t, v) \<longleftrightarrow> string_text body name \<and> denotes t v"
  "member_of (name, body, t, v) = (name, t, v)"
  by (simp_all add: member_text_def member_ok_def member_of_def)

lemma read_members_join:
  "list_all member_ok ms \<Longrightarrow> ms \<noteq> [] \<Longrightarrow> length (join_comma (map member_text ms)) < n \<Longrightarrow>
   read_members n (join_comma (map member_text ms) @ CHR 0x7D # rest) = Some (map member_of ms, rest)"
proof (induction ms arbitrary: n)
  case (Cons x ms)
  obtain name body t v where x: "x = (name, body, t, v)" by (cases x) auto
  have ok: "string_text body name" "denotes t v" using Cons.prems(1) x by auto
  obtain m where m: "n = Suc m" using Cons.prems(3) by (cases n) auto
  have name: "read_string (body @ CHR 0x22 # r) = Some (name, r)" for r using ok(1) by (simp add: string_text_def)
  have skip: "skip_ws (t @ r) = t @ r" for r using denotes_skip [OF ok(2)] .
  show ?case
  proof (cases "ms = []")
    case True
    then have "length t \<le> m" using Cons.prems(3) m x by simp
    then show ?thesis using True x m name skip denotesD [OF ok(2), of m "CHR 0x7D # rest"]
      by (simp add: read_members.simps skip_ws_Cons Let_def)
  next
    case False
    let ?tail = "join_comma (map member_text ms) @ CHR 0x7D # rest"
    have l: "length t \<le> m" "length (join_comma (map member_text ms)) < m"
      using Cons.prems(3) m False x by (simp_all add: join_comma_Cons)
    have "read_members m ?tail = Some (map member_of ms, rest)" using Cons.IH [OF _ False l(2)] Cons.prems(1) by simp
    then show ?thesis using False x m name skip denotesD [OF ok(2) l(1), of "CHR '','' # ?tail"]
      by (simp add: read_members.simps skip_ws_Cons join_comma_Cons Let_def)
  qed
qed simp

lemma denotes_object:
  assumes "list_all member_ok ms"
  shows "denotes (CHR 0x7B # join_comma (map member_text ms) @ [CHR 0x7D]) (JObject (map member_of ms))"
proof (rule denotesI)
  fix m rest assume m: "length (join_comma (map member_text ms) @ [CHR 0x7D]) \<le> m" and f: "follow rest"
  show "read_value (Suc m) (CHR 0x7B # (join_comma (map member_text ms) @ [CHR 0x7D]) @ rest) = Some (JObject (map member_of ms), rest)"
  proof (cases ms)
    case Nil
    then show ?thesis by (simp add: read_value.simps skip_ws_Cons)
  next
    case (Cons x ms')
    then have "join_comma (map member_text ms) = CHR 0x22 # tl (join_comma (map member_text ms))"
      using join_comma_hd [of "member_text x" "map member_text ms'"] by (auto simp: member_text_def split: prod.splits)
    then have "skip_ws (join_comma (map member_text ms) @ CHR 0x7D # rest) =
        CHR 0x22 # tl (join_comma (map member_text ms)) @ CHR 0x7D # rest"
      by (metis append_Cons not_ws(1) skip_ws_Cons)
    moreover have "read_members m (join_comma (map member_text ms) @ CHR 0x7D # rest) = Some (map member_of ms, rest)"
      using read_members_join [OF assms, of m rest] m Cons by simp
    ultimately show ?thesis by (simp add: read_value.simps skip_ws_Cons)
  qed
qed simp

lemma read_document_line: "denotes t v \<Longrightarrow> read_document (t @ [CHR 0x0A]) = Some v"
  using denotesD [of t v "Suc (length (t @ [CHR 0x0A]))" "[CHR 0x0A]"] by (simp add: read_document_def skip_ws_def is_ws_def)

lemma read_document_bare: "denotes t v \<Longrightarrow> read_document t = Some v"
  using denotesD [of t v "Suc (length t)" "[]"] by (simp add: read_document_def skip_ws_def)

subsection \<open>Base64\<close>

lemma std_alphabet:
  "list_all (\<lambda>v. std_value (std_char v) = Some v \<and> std_char v \<noteq> CHR ''='' \<and> std_char v \<noteq> CHR 0x0A \<and> std_char v \<noteq> CHR 0x0D) [0..<64]"
  by code_simp

lemma std_value_char: "v < 64 \<Longrightarrow> std_value (std_char v) = Some v"
  and std_char_plain: "v < 64 \<Longrightarrow> std_char v \<noteq> CHR ''=''" "v < 64 \<Longrightarrow> std_char v \<noteq> CHR 0x0A" "v < 64 \<Longrightarrow> std_char v \<noteq> CHR 0x0D"
  using std_alphabet by (simp_all add: list_all_iff)

lemma padded_length: "(4 * n + 2) div 3 + (4 - (4 * n + 2) div 3 mod 4) mod 4 = (n + 2) div 3 * (4 :: nat)"
proof -
  obtain k where "n = 3 * k \<or> n = 3 * k + 1 \<or> n = 3 * k + 2" using that [of "n div 3"] by linarith
  then consider "n = 3 * k" | "n = 3 * k + 1" | "n = 3 * k + 2" by blast
  then show ?thesis
  proof cases
    case 1
    then have "(4 * n + 2) div 3 = 4 * k" "(n + 2) div 3 = k" by simp_all
    then show ?thesis by simp
  next
    case 2
    then have "(4 * n + 2) div 3 = k * 4 + 2" "(n + 2) div 3 = k + 1" by simp_all
    then show ?thesis using mod_mult_self3 [of k 4 2] by simp
  next
    case 3
    then have "(4 * n + 2) div 3 = k * 4 + 3" "(n + 2) div 3 = k + 1" by simp_all
    then show ?thesis using mod_mult_self3 [of k 4 3] by simp
  qed
qed

lemma length_base64_encode: "length (base64_encode bs) = (length bs + 2) div 3 * 4"
  using padded_length [of "length bs"] by (simp add: base64_encode_def std_padding_def length_b64_encode_nat Let_def)

lemma base64_decode_encode: "base64_decode (base64_encode bs) = Some bs"
proof -
  define v where "v = b64_encode_nat (map of_char bs)"
  have b: "list_all (\<lambda>x. x < 64) v" unfolding v_def by (rule b64_encode_nat_bound [OF bytes_bound])
  have e: "base64_encode bs = map std_char v @ replicate (std_padding (length v)) (CHR ''='')"
    by (simp add: base64_encode_def v_def Let_def)
  have f: "filter (\<lambda>c. c \<noteq> CHR 0x0A \<and> c \<noteq> CHR 0x0D) (base64_encode bs) = base64_encode bs"
    using b by (auto simp: e filter_id_conv list_all_iff std_char_plain)
  have t: "takeWhile (\<lambda>c. c \<noteq> CHR ''='') (base64_encode bs) = map std_char v"
    using b by (cases "std_padding (length v)") (auto simp: e list_all_iff std_char_plain takeWhile_append)
  have d: "drop (length (map std_char v)) (base64_encode bs) = replicate (std_padding (length v)) (CHR ''='')" by (simp add: e)
  have m: "map (the \<circ> std_value) (map std_char v) = v" using b by (auto simp: list_all_iff std_value_char intro!: map_idI)
  have a: "list_all (\<lambda>c. std_value c \<noteq> None) (map std_char v)" using b by (auto simp: list_all_iff std_value_char)
  have "b64_decode_nat v = Some (map of_char bs)" unfolding v_def by (rule b64_decode_encode_nat [OF bytes_bound])
  then show ?thesis using f t d m a by (simp add: base64_decode_def Let_def o_def)
qed

end
