(* ===== verification/StoreText.thy ===== *)
theory StoreText
  imports StoreCodec GoJsonLaws
begin

text \<open>
  What the store writes and when it can read it. A text is written for a value when the reader
  gives the value back; the canonical form the store asks for holds exactly when a condition on
  the strings and numbers of the value does. The documents are composed of such texts.
\<close>

subsection \<open>UTF-8 of composed texts\<close>

lemma go_chunks_append: "utf8_valid s \<Longrightarrow> go_chunks (s @ t) = go_chunks s @ go_chunks t"
proof (induction s rule: go_chunks.induct)
  case (2 c cs)
  obtain r n where rn: "utf8_next c cs = (r, n)" by fastforce
  have v: "chunk_valid (r, c # take n cs)" "utf8_valid (drop n cs)"
    using "2.prems" rn by (simp_all add: utf8_valid_def)
  note b = rune_bytes [OF rn v(1)]
  have n: "n \<le> length cs" using b(3) by simp
  have "utf8_next c (cs @ t) = (r, n)" using b(2) [of "drop n cs @ t"] by (metis append_assoc append_take_drop_id)
  moreover have "go_chunks (drop n cs @ t) = go_chunks (drop n cs) @ go_chunks t" using 2 rn v by auto
  ultimately show ?case using rn n by (simp add: Let_def)
qed simp

lemma utf8_valid_append: "utf8_valid s \<Longrightarrow> utf8_valid t \<Longrightarrow> utf8_valid (s @ t)"
  by (simp add: utf8_valid_def go_chunks_append)

definition ascii :: "string \<Rightarrow> bool" where "ascii s \<longleftrightarrow> list_all (\<lambda>c. (of_char c :: nat) < 128) s"

lemma ascii_simps [simp]: "ascii []" "ascii (c # s) \<longleftrightarrow> (of_char c :: nat) < 128 \<and> ascii s" "ascii (s @ t) \<longleftrightarrow> ascii s \<and> ascii t"
  by (auto simp: ascii_def)

lemma ascii_valid: "ascii s \<Longrightarrow> utf8_valid s"
  by (auto simp: ascii_def utf8_valid_def go_chunks_ascii chunk_valid_def list_all_iff)

lemma ascii_runes: "ascii s \<Longrightarrow> go_runes s = map of_char s"
  by (simp add: ascii_def go_runes_def go_chunks_ascii)

lemma utf8_valid_Cons: "(of_char c :: nat) < 128 \<Longrightarrow> utf8_valid s \<Longrightarrow> utf8_valid (c # s)"
  using utf8_valid_append [of "[c]" s] ascii_valid [of "[c]"] by simp

lemma utf8_valid_join: "list_all utf8_valid ts \<Longrightarrow> utf8_valid (join_comma ts)"
  by (induction ts rule: join_comma.induct)
     (auto intro!: utf8_valid_append utf8_valid_Cons simp: ascii_valid)

text \<open>A chunk is the UTF-8 form of its rune.\<close>

lemma chunk_in: "ch \<in> set (go_chunks s) \<Longrightarrow> \<exists>c cs r n. ch = (r, c # take n cs) \<and> utf8_next c cs = (r, n)"
proof (induction s rule: go_chunks.induct)
  case (2 c cs)
  then show ?case by (cases "utf8_next c cs") (auto simp: Let_def)
qed simp

lemma chunk_text: "utf8_valid s \<Longrightarrow> ch \<in> set (go_chunks s) \<Longrightarrow> chunk_valid ch \<and> snd ch = utf8_encode (fst ch)"
  using chunk_in [of ch s] rune_bytes(1) by (fastforce simp: utf8_valid_def list_all_iff)

lemma utf8_encode_valid: "utf8_valid s \<Longrightarrow> ch \<in> set (go_chunks s) \<Longrightarrow> utf8_valid (snd ch)"
proof -
  assume a: "utf8_valid s" "ch \<in> set (go_chunks s)"
  obtain c cs r n where ch: "ch = (r, c # take n cs)" "utf8_next c cs = (r, n)" using chunk_in [OF a(2)] by blast
  have v: "chunk_valid (r, c # take n cs)" using a ch by (auto simp: utf8_valid_def list_all_iff)
  note b = rune_bytes [OF ch(2) v]
  have "go_chunks (c # take n cs) = [(r, c # take n cs)]" using b(2) [of "[]"] b(3) by (simp add: Let_def)
  then show ?thesis using v ch by (simp add: utf8_valid_def)
qed

subsection \<open>Lexemes\<close>

text \<open>Whether a text passes the check of lexemes does not depend on what follows it.\<close>

definition lexes :: "string \<Rightarrow> bool \<Rightarrow> bool" where
  "lexes t good \<longleftrightarrow> (\<forall>rest. lexemes_ok False (t @ rest) \<longleftrightarrow> good \<and> lexemes_ok False rest)"

lemma lexes_append: "lexes s a \<Longrightarrow> lexes t b \<Longrightarrow> lexes (s @ t) (a \<and> b)"
  by (simp add: lexes_def)

lemma lexes_Cons: "c \<noteq> CHR 0x22 \<Longrightarrow> \<not> is_ws c \<Longrightarrow> lexes t b \<Longrightarrow> lexes (c # t) b"
  by (simp add: lexes_def)

lemma lexes_Nil: "lexes [] True"
  by (simp add: lexes_def)

lemma lexes_plain: "list_all (\<lambda>c. c \<noteq> CHR 0x22 \<and> \<not> is_ws c) s \<Longrightarrow> lexes s True"
  by (induction s) (auto intro: lexes_Nil lexes_Cons)

lemma lexes_join:
  "list_all2 lexes ts bs \<Longrightarrow> lexes (join_comma ts) (list_all id bs)"
proof (induction ts arbitrary: bs rule: join_comma.induct)
  case (2 x)
  then show ?case by (auto simp: list_all2_Cons1)
next
  case (3 x y r)
  then obtain b bs' where b: "bs = b # bs'" "lexes x b" "list_all2 lexes (y # r) bs'" by (auto simp: list_all2_Cons1)
  have "lexes (x @ '','' @ join_comma (y # r)) (b \<and> list_all id bs')"
    by (intro lexes_append b(2)) (simp add: lexes_Cons "3.IH" [OF b(3)])
  then show ?case using b(1) by (simp add: id_def)
qed (simp add: lexes_Nil)

text \<open>Within a string, a piece keeps the check inside the string or fails it.\<close>

definition lexes_in :: "string \<Rightarrow> bool \<Rightarrow> bool" where
  "lexes_in t good \<longleftrightarrow> (\<forall>rest. lexemes_ok True (t @ rest) \<longleftrightarrow> good \<and> lexemes_ok True rest)"

lemma lexes_in_concat: "(\<And>x. x \<in> set xs \<Longrightarrow> lexes_in (f x) (g x)) \<Longrightarrow> lexes_in (concat (map f xs)) (list_all g xs)"
  by (induction xs) (auto simp: lexes_in_def)

lemma lexes_string: "lexes_in body b \<Longrightarrow> lexes (CHR 0x22 # body @ [CHR 0x22]) b"
  by (simp add: lexes_def lexes_in_def)

lemma lexes_in_copied: "list_all (\<lambda>c. c \<noteq> CHR 0x22 \<and> c \<noteq> CHR 0x5C \<and> 32 \<le> (of_char c :: nat)) t \<Longrightarrow> lexes_in t True"
  by (induction t) (auto simp: lexes_in_def)

lemma utf8_encode_high: "128 \<le> r \<Longrightarrow> c \<in> set (utf8_encode r) \<Longrightarrow> 128 \<le> (of_char c :: nat)"
proof -
  assume r: "128 \<le> r" "c \<in> set (utf8_encode r)"
  have low: "128 \<le> (of_char (char_of (128 + x mod 64) :: char) :: nat)" for x :: nat
  proof -
    have "128 + x mod 64 < 256" using mod_less_divisor [of 64 x] by linarith
    then show ?thesis by simp
  qed
  have lead: "128 \<le> (of_char (char_of n :: char) :: nat)" if "128 \<le> n" "n < 256" for n :: nat using that by simp
  have "192 + r div 64 < 256" if "r < 2048" using that by linarith
  moreover have "224 + r div 4096 < 256" if "r < 65536" using that by linarith
  moreover have "240 + r div 262144 < 256" if "r \<le> 1114111" using that by linarith
  ultimately show ?thesis using r low lead [of "192 + r div 64"] lead [of "224 + r div 4096"] lead [of "240 + r div 262144"]
    by (auto simp: utf8_encode_def split: if_splits)
qed

lemma chunk_copied:
  assumes "utf8_valid s" "ch \<in> set (go_chunks s)" "32 \<le> fst ch" "fst ch \<noteq> 34" "fst ch \<noteq> 92"
  shows "lexes_in (snd ch) True"
proof (rule lexes_in_copied)
  have r: "snd ch = utf8_encode (fst ch)" using chunk_text [OF assms(1,2)] by blast
  have char: "c \<noteq> CHR 0x22 \<and> c \<noteq> CHR 0x5C \<and> 32 \<le> (of_char c :: nat)"
    if "of_char c = fst ch \<or> 128 \<le> (of_char c :: nat)" for c using that assms(3-5) by auto
  have "of_char c = fst ch \<or> 128 \<le> (of_char c :: nat)" if "c \<in> set (snd ch)" for c
    using that utf8_encode_high [of "fst ch" c] unfolding r by (cases "fst ch < 128") (auto simp: utf8_encode_def)
  then show "list_all (\<lambda>c. c \<noteq> CHR 0x22 \<and> c \<noteq> CHR 0x5C \<and> 32 \<le> (of_char c :: nat)) (snd ch)"
    using char by (auto simp: list_all_iff)
qed

subsection \<open>The tree of a document\<close>

text \<open>The canonical form of a tree, apart from its depth, and the depth.\<close>

fun tree_ok :: "slib \<Rightarrow> json \<Rightarrow> bool" where
  "tree_ok lib (JNumber t) \<longleftrightarrow> canonical_json_number t"
| "tree_ok lib (JString s) \<longleftrightarrow> validSchemaString lib s"
| "tree_ok lib (JArray vs) \<longleftrightarrow> list_all (tree_ok lib) vs"
| "tree_ok lib (JObject ms) \<longleftrightarrow> list_all (validSchemaString lib) (map fst ms) \<and> increasing (map fst ms) \<and>
     list_all (\<lambda>m. tree_ok lib (snd (snd m))) ms"
| "tree_ok lib _ \<longleftrightarrow> True"

fun within :: "nat \<Rightarrow> json \<Rightarrow> bool" where
  "within d (JArray vs) \<longleftrightarrow> d \<noteq> 0 \<and> list_all (within (d - 1)) vs"
| "within d (JObject ms) \<longleftrightarrow> d \<noteq> 0 \<and> list_all (\<lambda>m. within (d - 1) (snd (snd m))) ms"
| "within d _ \<longleftrightarrow> d \<noteq> 0"

lemma validate_tree: "validateJSONValue lib depth maximum v \<longleftrightarrow> within (maximum + 1 - depth) v \<and> tree_ok lib v"
proof (induction lib depth maximum v rule: validateJSONValue.induct)
  case (5 lib depth maximum vs)
  then show ?case by (auto simp: list_all_iff)
next
  case (6 lib depth maximum ms)
  then show ?case by (auto simp: list_all_iff)
qed auto

lemma skip_within: "skipPreflightJSONValue depth v \<longleftrightarrow> within (maxJSONDepth + 1 - depth) v"
proof (induction depth v rule: skipPreflightJSONValue.induct)
  case (1 depth vs)
  then show ?case by (auto simp: list_all_iff)
next
  case (2 depth ms)
  then show ?case by (auto simp: list_all_iff)
qed auto

subsection \<open>Texts written for values\<close>

definition lib_ok :: "slib \<Rightarrow> bool" where
  "lib_ok lib \<longleftrightarrow> (\<forall>b. length (sl_sha256 lib b) = 32) \<and> (\<forall>s. ascii s \<longrightarrow> sl_nfc lib s)"

definition written :: "slib \<Rightarrow> string \<Rightarrow> json \<Rightarrow> bool \<Rightarrow> bool" where
  "written lib t v good \<longleftrightarrow> denotes t v \<and> utf8_valid t \<and> (\<exists>l. lexes t l \<and> (l \<and> tree_ok lib v \<longleftrightarrow> good))"

lemma writtenI: "denotes t v \<Longrightarrow> utf8_valid t \<Longrightarrow> lexes t l \<Longrightarrow> (l \<and> tree_ok lib v \<longleftrightarrow> good) \<Longrightarrow> written lib t v good"
  unfolding written_def by blast

lemma written_cong: "written lib t v a \<Longrightarrow> a = b \<Longrightarrow> written lib t v b"
  by simp

lemma written_literals:
  "written lib ''null'' JNull True" "written lib ''true'' (JBool True) True" "written lib ''false'' (JBool False) True"
  by (rule writtenI [OF denotes_null], simp_all add: ascii_valid lexes_plain is_ws_def)
     (rule writtenI [OF denotes_true], simp_all add: ascii_valid lexes_plain is_ws_def,
      rule writtenI [OF denotes_false], simp_all add: ascii_valid lexes_plain is_ws_def)

lemma written_number: "written lib (dec_nat n) (JNumber (dec_nat n)) (n \<le> unat int64_max)"
proof (rule writtenI [OF denotes_number])
  have d: "list_all is_digit (dec_nat n)" by (rule decimal_digits)
  have digit: "is_digit c \<Longrightarrow> (of_char c :: nat) < 128 \<and> c \<noteq> CHR 0x22 \<and> \<not> is_ws c \<and> \<not> List.member ''+-.eE'' c" for c
    by (auto simp: is_digit_def in_range_def is_ws_def)
  show "utf8_valid (dec_nat n)" using d digit by (intro ascii_valid) (auto simp: ascii_def list_all_iff)
  show "lexes (dec_nat n) True" using d digit by (intro lexes_plain) (auto simp: list_all_iff)
  have "dec_nat n = ''0'' \<or> hd (dec_nat n) \<noteq> CHR ''0''" using hd_dec_nat [of n] by (cases "n = 0") auto
  moreover have "\<not> list_ex (\<lambda>c. List.member ''+-.eE'' c) (dec_nat n)" using d digit by (auto simp: list_all_iff list_ex_iff)
  ultimately show "(True \<and> tree_ok lib (JNumber (dec_nat n))) = (n \<le> unat int64_max)"
    by (simp add: canonical_json_number_def parse_decimal)
qed

lemma utf8_valid_concat: "list_all utf8_valid ts \<Longrightarrow> utf8_valid (concat ts)"
  by (induction ts) (auto intro: utf8_valid_append simp: ascii_valid)

text \<open>
  A quoted string: every chunk is escaped to valid UTF-8 that the check of lexemes takes or not.
\<close>

lemma written_quoted:
  assumes "escape_ok P esc" and s: "utf8_valid s" and "list_all P (go_runes s)"
    and valid: "\<And>ch. ch \<in> set (go_chunks s) \<Longrightarrow> utf8_valid (esc ch)"
    and lex: "\<And>ch. ch \<in> set (go_chunks s) \<Longrightarrow> lexes_in (esc ch) (plain (fst ch))"
  shows "written lib ([CHR 0x22] @ concat (map esc (go_chunks s)) @ [CHR 0x22]) (JString s)
    (validSchemaString lib s \<and> list_all plain (go_runes s))"
proof (rule writtenI)
  show "denotes ([CHR 0x22] @ concat (map esc (go_chunks s)) @ [CHR 0x22]) (JString s)"
    using denotes_string [OF string_text_escaped [OF assms(1) s assms(3)]] by simp
  have "utf8_valid (concat (map esc (go_chunks s)))" using valid by (intro utf8_valid_concat) (auto simp: list_all_iff)
  then show "utf8_valid ([CHR 0x22] @ concat (map esc (go_chunks s)) @ [CHR 0x22])"
    by (intro utf8_valid_append) (auto intro: ascii_valid)
  show "lexes ([CHR 0x22] @ concat (map esc (go_chunks s)) @ [CHR 0x22]) (list_all plain (go_runes s))"
    using lexes_string [OF lexes_in_concat [of "go_chunks s" esc "\<lambda>ch. plain (fst ch)"]] lex
    by (simp add: go_runes_def list.pred_map o_def)
qed auto

definition marshal_plain :: "nat \<Rightarrow> bool" where
  "marshal_plain r \<longleftrightarrow> 32 \<le> r \<and> \<not> List.member [38, 60, 62, 8232, 8233] r"

definition readable :: "slib \<Rightarrow> string \<Rightarrow> bool" where
  "readable lib s \<longleftrightarrow> validSchemaString lib s \<and> \<not> list_ex (\<lambda>r. List.member [38, 60, 62, 8232, 8233] r) (go_runes s)"

lemma lexes_in_escapes:
  "lexes_in [CHR 0x5C, CHR 0x22] True" "lexes_in [CHR 0x5C, CHR 0x5C] True"
  "e \<noteq> CHR 0x22 \<Longrightarrow> e \<noteq> CHR 0x5C \<Longrightarrow> lexes_in (CHR 0x5C # e # r) False"
  by (simp_all add: lexes_in_def)

lemma hex_digit_ascii: "d < 16 \<Longrightarrow> (of_char (hex_digit d) :: nat) < 128"
  by (auto simp: hex_digit_def)

lemma marshal_escape_special:
  assumes "\<not> marshal_plain (fst ch)" and "chunk_valid ch"
  shows "\<exists>e r. marshal_escape ch = CHR 0x5C # e # r \<and> e \<noteq> CHR 0x22 \<and> e \<noteq> CHR 0x5C \<and> ascii (marshal_escape ch)"
proof -
  have h: "(of_char (hex_digit (fst ch div 16)) :: nat) < 128 \<and> (of_char (hex_digit (fst ch mod 16)) :: nat) < 128" if "fst ch < 128"
  proof -
    have "fst ch div 16 < 16" using that by linarith
    then show ?thesis using hex_digit_ascii mod_less_divisor [of 16 "fst ch"] by simp
  qed
  show ?thesis
    using assms h by (auto simp: marshal_plain_def marshal_escape_def json_escape_def Let_def)
qed

lemma written_marshal:
  assumes s: "utf8_valid s"
  shows "written lib (marshal_string s) (JString s) (readable lib s)"
  unfolding marshal_string_def
proof (rule written_cong [OF written_quoted [OF escape_ok_marshal s]])
  show "list_all (\<lambda>_. True) (go_runes s)" by (simp add: list_all_iff)
next
  fix ch assume ch: "ch \<in> set (go_chunks s)"
  have v: "chunk_valid ch" using chunk_text [OF s ch] by blast
  have esc: "marshal_escape ch = snd ch" if "marshal_plain (fst ch)" "fst ch \<noteq> 34" "fst ch \<noteq> 92"
    using that v by (auto simp: marshal_plain_def marshal_escape_def json_escape_def)
  have quote: "marshal_escape ch = [CHR 0x5C, char_of (fst ch)]" if "fst ch = 34 \<or> fst ch = 92"
    using that v by (auto simp: marshal_escape_def json_escape_def)
  show "utf8_valid (marshal_escape ch)"
  proof (cases "marshal_plain (fst ch)")
    case True
    then show ?thesis using esc quote utf8_encode_valid [OF s ch] ascii_valid
      by (cases "fst ch = 34 \<or> fst ch = 92") (auto simp: control_chars)
  next
    case False
    then show ?thesis using marshal_escape_special [OF _ v] ascii_valid by blast
  qed
  show "lexes_in (marshal_escape ch) (marshal_plain (fst ch))"
  proof (cases "marshal_plain (fst ch)")
    case True
    then show ?thesis using esc quote chunk_copied [OF s ch] lexes_in_escapes(1,2)
      by (cases "fst ch = 34 \<or> fst ch = 92") (auto simp: control_chars marshal_plain_def)
  next
    case False
    then show ?thesis using marshal_escape_special [OF _ v] lexes_in_escapes(3) by fastforce
  qed
next
  show "(validSchemaString lib s \<and> list_all marshal_plain (go_runes s)) = readable lib s"
    by (auto simp: readable_def validSchemaString_def marshal_plain_def rune_control_def list_all_iff list_ex_iff not_less)
qed

lemma escape_ok_canonical: "escape_ok (\<lambda>r. 32 \<le> r) canonical_escape"
  unfolding escape_ok_def
proof (intro allI impI)
  fix c cs r n rest assume rn: "utf8_next c cs = (r, n)" "chunk_valid (r, c # take n cs)" and r: "32 \<le> r"
  show "read_string (canonical_escape (r, c # take n cs) @ rest) = map_option (apfst ((@) (c # take n cs))) (read_string rest)"
  proof (cases "r = 34 \<or> r = 92")
    case True
    then have "c # take n cs = [char_of r]" using read_ascii [OF rn] by auto
    moreover have "simple_escape (char_of r) = Some (char_of r)" "char_of r \<noteq> CHR ''u''"
      using True by (auto simp: control_chars simple_escape_def)
    ultimately show ?thesis using True read_simple_escape [of "char_of r" "char_of r" rest] by (auto simp: canonical_escape_def)
  next
    case False
    then show ?thesis using read_copied [OF rn r] rn(2) by (simp add: canonical_escape_def chunk_bytes_def)
  qed
qed

lemma written_canonical:
  assumes "validSchemaString lib s"
  shows "written lib (write_canonical s) (JString s) True"
  unfolding write_canonical_def
proof (rule written_cong [OF written_quoted [OF escape_ok_canonical]])
  show s: "utf8_valid s" and big: "list_all (\<lambda>r. 32 \<le> r) (go_runes s)"
    using assms by (auto simp: validSchemaString_def rune_control_def list_all_iff not_less)
  fix ch assume ch: "ch \<in> set (go_chunks s)"
  have v: "chunk_valid ch" using chunk_text [OF s ch] by blast
  have b: "32 \<le> fst ch" using big ch by (auto simp: list_all_iff go_runes_def)
  show "utf8_valid (canonical_escape ch)" using v utf8_encode_valid [OF s ch]
    by (auto simp: canonical_escape_def chunk_bytes_def control_chars intro: ascii_valid)
  show "lexes_in (canonical_escape ch) ((\<lambda>_. True) (fst ch))" using v chunk_copied [OF s ch b] lexes_in_escapes
    by (auto simp: canonical_escape_def chunk_bytes_def control_chars)
qed (use assms in \<open>auto simp: list_all_iff\<close>)

subsection \<open>Composition\<close>

lemma written_arr:
  assumes "\<And>x. x \<in> set xs \<Longrightarrow> written lib (f x) (h x) (g x)"
  shows "written lib (json_arr (map f xs)) (JArray (map h xs)) (list_all g xs)"
proof -
  obtain l where l: "\<And>x. x \<in> set xs \<Longrightarrow> lexes (f x) (l x) \<and> (l x \<and> tree_ok lib (h x) \<longleftrightarrow> g x)"
    using assms unfolding written_def by metis
  show ?thesis unfolding json_arr_def
  proof (rule writtenI)
    show "denotes (CHR ''['' # join_comma (map f xs) @ [CHR '']'']) (JArray (map h xs))"
      using assms by (intro denotes_array) (auto simp: list_all2_conv_all_nth written_def)
    show "utf8_valid (CHR ''['' # join_comma (map f xs) @ [CHR '']''])"
      using assms by (intro utf8_valid_Cons utf8_valid_append utf8_valid_join ascii_valid) (auto simp: list_all_iff written_def)
    have "lexes (join_comma (map f xs)) (list_all id (map l xs))"
      using l by (intro lexes_join) (auto simp: list_all2_conv_all_nth)
    then show "lexes (CHR ''['' # join_comma (map f xs) @ [CHR '']'']) (list_all l xs \<and> True)"
      by (intro lexes_Cons lexes_append lexes_plain) (simp_all add: is_ws_def list.pred_map)
  qed (use l in \<open>auto simp: list_all_iff\<close>)
qed

text \<open>The members of an object with the conditions of their values.\<close>

type_synonym written_member = "string \<times> string \<times> json \<times> bool"

definition key_ok :: "string \<Rightarrow> bool" where
  "key_ok k \<longleftrightarrow> list_all (\<lambda>c. is_lower c \<or> is_digit c \<or> c = CHR ''_'') k"

lemma key_char: "is_lower c \<or> is_digit c \<or> c = CHR ''_'' \<Longrightarrow>
   (of_char c :: nat) < 128 \<and> c \<noteq> CHR 0x22 \<and> c \<noteq> CHR 0x5C \<and> 32 \<le> (of_char c :: nat) \<and> \<not> rune_control (of_char c) \<and> \<not> rune_format (of_char c)"
  by (auto simp: is_lower_def is_digit_def in_range_def rune_control_def rune_format_def)

lemma schema_ascii:
  "lib_ok lib \<Longrightarrow> list_all (\<lambda>c. (of_char c :: nat) < 127 \<and> 32 \<le> (of_char c :: nat)) s \<Longrightarrow> validSchemaString lib s"
  unfolding validSchemaString_def
proof (intro conjI)
  assume lib: "lib_ok lib" and s: "list_all (\<lambda>c. (of_char c :: nat) < 127 \<and> 32 \<le> (of_char c :: nat)) s"
  then have a: "ascii s" by (auto simp: ascii_def list_all_iff)
  then show "utf8_valid s" "sl_nfc lib s" using lib by (auto simp: ascii_valid lib_ok_def)
  show "list_all (\<lambda>r. \<not> rune_control r \<and> \<not> rune_format r) (go_runes s)"
    using s by (auto simp: ascii_runes [OF a] list_all_iff rune_control_def rune_format_def)
qed

lemma key_schema: "lib_ok lib \<Longrightarrow> key_ok k \<Longrightarrow> validSchemaString lib k"
  by (rule schema_ascii) (auto simp: key_ok_def list_all_iff is_lower_def is_digit_def in_range_def)

lemma key_ascii: "key_ok k \<Longrightarrow> ascii k"
  using key_char by (simp add: key_ok_def ascii_def list_all_iff)

lemma key_text: "key_ok k \<Longrightarrow> string_text k k"
proof -
  assume k: "key_ok k"
  then have a: "ascii k" by (rule key_ascii)
  have "canonical_escape (of_char c, [c]) = [c]" if "c \<in> set k" for c
    using k that by (auto simp: canonical_escape_def chunk_bytes_def chunk_valid_def key_ok_def list_all_iff
        is_lower_def is_digit_def in_range_def)
  then have "map canonical_escape (go_chunks k) = map (\<lambda>c. [c]) k" using a by (auto simp: ascii_def go_chunks_ascii)
  then have "concat (map canonical_escape (go_chunks k)) = k" by simp
  then show ?thesis
    using string_text_escaped [OF escape_ok_canonical ascii_valid [OF a]] k
    using key_char by (simp add: ascii_runes [OF a] key_ok_def list_all_iff)
qed

lemma key_lexes: "key_ok k \<Longrightarrow> lexes (CHR 0x22 # k @ CHR 0x22 # CHR '':'' # t) = lexes (CHR '':'' # t)"
proof -
  assume k: "key_ok k"
  have "lexes_in k True" using k key_char by (intro lexes_in_copied) (simp add: key_ok_def list_all_iff)
  then show ?thesis by (auto simp: lexes_def lexes_in_def fun_eq_iff)
qed

definition object_text :: "written_member list \<Rightarrow> string" where
  "object_text ms = json_obj (map (\<lambda>(k, t, v, g). (k, t)) ms)"

definition object_tree :: "written_member list \<Rightarrow> json" where
  "object_tree ms = JObject (map (\<lambda>(k, t, v, g). (k, t, v)) ms)"

definition object_good :: "written_member list \<Rightarrow> bool" where
  "object_good ms \<longleftrightarrow> list_all (\<lambda>(k, t, v, g). g) ms"

lemma written_obj:
  assumes lib: "lib_ok lib" and keys: "list_all key_ok (map fst ms)" "increasing (map fst ms)"
    and vals: "list_all (\<lambda>(k, t, v, g). written lib t v g) ms"
  shows "written lib (object_text ms) (object_tree ms) (object_good ms)"
proof -
  have m: "key_ok k" "written lib t v g" if "(k, t, v, g) \<in> set ms" for k t v g
    using keys(1) vals that by (force simp: list_all_iff)+
  have "\<exists>l. case m of (k, t, v, g) \<Rightarrow> lexes t l \<and> (l \<and> tree_ok lib v \<longleftrightarrow> g)" if "m \<in> set ms" for m
    using vals that by (auto simp: list_all_iff written_def)
  then obtain l where l: "\<And>m. m \<in> set ms \<Longrightarrow> case m of (k, t, v, g) \<Rightarrow> lexes t (l m) \<and> (l m \<and> tree_ok lib v \<longleftrightarrow> g)" by metis
  let ?mt = "map (\<lambda>(k, t, v, g). (k, k, t, v)) ms"
  have texts: "map (\<lambda>(k, t). CHR 0x22 # k @ CHR 0x22 # CHR '':'' # t) (map (\<lambda>(k, t, v, g). (k, t)) ms) = map member_text ?mt"
    by auto
  show ?thesis
  proof (rule writtenI)
    have ok: "list_all member_ok ?mt" using m key_text by (auto simp: list_all_iff written_def)
    show "denotes (object_text ms) (object_tree ms)"
      using denotes_object [OF ok] texts by (simp add: object_text_def object_tree_def json_obj_def o_def case_prod_beta')
    have "list_all utf8_valid (map member_text ?mt)"
      using m(1) [THEN key_ascii, THEN ascii_valid] m(2) [unfolded written_def]
      by (auto simp: list_all_iff intro!: utf8_valid_Cons utf8_valid_append)
    then show "utf8_valid (object_text ms)"
      unfolding object_text_def json_obj_def texts
      by (intro utf8_valid_Cons utf8_valid_append utf8_valid_join ascii_valid) auto
    have lx: "lexes (member_text (k, k, t, v)) (l (k, t, v, g))" if i: "(k, t, v, g) \<in> set ms" for k t v g
      using lexes_Cons [of "CHR '':''" t] l [OF i] key_lexes [OF m(1) [OF i], of t] by (simp add: is_ws_def)
    have "list_all2 lexes (map member_text ?mt) (map l ms)"
      by (auto simp: list.rel_map simp del: member_simps intro!: list.rel_refl_strong lx)
    then have "lexes (join_comma (map member_text ?mt)) (list_all id (map l ms))" by (rule lexes_join)
    then show "lexes (object_text ms) (list_all l ms \<and> True)"
      unfolding object_text_def json_obj_def texts
      by (intro lexes_Cons lexes_append lexes_plain) (simp_all add: is_ws_def list.pred_map)
    have "list_all (validSchemaString lib) (map fst ms)" using keys(1) key_schema [OF lib] by (auto simp: list_all_iff)
    then show "((list_all l ms \<and> True) \<and> tree_ok lib (object_tree ms)) = object_good ms"
      using l keys(2) by (fastforce simp: object_tree_def object_good_def list_all_iff o_def case_prod_beta')
  qed
qed

end
