(* ===== verification/StoreControl.thy ===== *)
theory StoreControl
  imports StoreText "HOL-Library.Multiset"
begin

text \<open>
  Control records are read back as they were written. The text of a control record is in the
  canonical form of the store exactly when the strings of its attempts and its counters are.
\<close>

subsection \<open>Members\<close>

definition num_member :: "string \<Rightarrow> uint64 \<Rightarrow> written_member" where
  "num_member k x = (k, uint_text x, JNumber (uint_text x), x \<le> int64_max)"

definition int_member :: "string \<Rightarrow> int \<Rightarrow> written_member" where
  "int_member k i = (k, dec_int i, JNumber (dec_int i), True)"

definition opaque_member :: "string \<Rightarrow> bytes \<Rightarrow> written_member" where
  "opaque_member k b = (k, opaque_text b, JString (base64_encode b), True)"

definition string_member :: "slib \<Rightarrow> string \<Rightarrow> string \<Rightarrow> written_member" where
  "string_member lib k s = (k, marshal_string s, JString s, readable lib s)"

lemmas member_defs = num_member_def int_member_def opaque_member_def string_member_def

definition int64_nonneg :: "int \<Rightarrow> bool" where "int64_nonneg i \<longleftrightarrow> 0 \<le> i \<and> i < 2 ^ 63"

lemma unat_int64_max: "unat int64_max = 9223372036854775807"
  by (simp add: int64_max_def)

lemma written_uint: "written lib (uint_text x) (JNumber (uint_text x)) (x \<le> int64_max)"
  using written_number [of lib "unat x"] by (simp add: uint_text_def word_le_nat_alt)

lemma written_int: "int64_nonneg i \<Longrightarrow> written lib (dec_int i) (JNumber (dec_int i)) True"
  using written_number [of lib "nat i"] by (auto simp: int64_nonneg_def dec_int_def unat_int64_max elim!: written_cong)

text \<open>Base64 and hexadecimal text is plain.\<close>

definition plain_code :: "nat \<Rightarrow> bool" where
  "plain_code n \<longleftrightarrow> 32 < n \<and> n < 127 \<and> n \<noteq> 34 \<and> n \<noteq> 38 \<and> n \<noteq> 60 \<and> n \<noteq> 62 \<and> n \<noteq> 92"

definition plain :: "string \<Rightarrow> bool" where "plain s \<longleftrightarrow> list_all (\<lambda>c. plain_code (of_char c)) s"

lemma plain_simps [simp]: "plain []" "plain (c # s) \<longleftrightarrow> plain_code (of_char c) \<and> plain s" "plain (s @ t) \<longleftrightarrow> plain s \<and> plain t"
  by (auto simp: plain_def)

lemma plain_ascii: "plain s \<Longrightarrow> ascii s"
  unfolding plain_def ascii_def by (erule list.pred_mono_strong) (simp add: plain_code_def)

lemma schema_plain: "lib_ok lib \<Longrightarrow> plain s \<Longrightarrow> validSchemaString lib s"
  unfolding plain_def by (erule schema_ascii, erule list.pred_mono_strong) (simp add: plain_code_def)

lemma readable_plain: "lib_ok lib \<Longrightarrow> plain s \<Longrightarrow> readable lib s"
  using schema_plain [of lib s] ascii_runes [OF plain_ascii, of s]
  by (auto simp: readable_def plain_def plain_code_def list_all_iff list_ex_iff)

lemma plain_sextet: "v < 64 \<Longrightarrow> plain_code (of_char (std_char v))"
  by (auto simp: std_char_def b64_char_def plain_code_def)

lemma plain_base64: "plain (base64_encode b)"
proof -
  have "list_all (\<lambda>x. x < 64) (b64_encode_nat (map of_char b))" by (rule b64_encode_nat_bound [OF bytes_bound])
  then show ?thesis using plain_sextet by (auto simp: base64_encode_def plain_def list_all_iff Let_def plain_code_def [of 61])
qed

lemma plain_digest: "digestPattern s \<Longrightarrow> plain s"
  by (auto simp: digestPattern_def plain_def list_all_iff is_hex_lower_def is_digit_def in_range_def plain_code_def)

lemma plain_filename: "plain (generationFilename n)"
proof -
  have "plain (dec_nat m)" for m
    using decimal_digits [of m] by (auto simp: plain_def list_all_iff is_digit_def in_range_def plain_code_def)
  moreover have "plain (replicate m (CHR ''0''))" for m by (induction m) (simp_all add: plain_code_def)
  ultimately show ?thesis by (simp add: generationFilename_def pad_def Let_def plain_code_def)
qed

lemma written_plain: "lib_ok lib \<Longrightarrow> plain s \<Longrightarrow> written lib (marshal_string s) (JString s) True"
  using written_marshal [OF ascii_valid [OF plain_ascii], of s lib] readable_plain [of lib s] by simp

lemma written_opaque: "lib_ok lib \<Longrightarrow> written lib (opaque_text b) (JString (base64_encode b)) True"
  by (simp add: opaque_text_def written_plain plain_base64)

subsection \<open>Fields read back\<close>

lemma read_uint [simp]: "json_uint64 (JNumber (uint_text x)) = Some x"
proof -
  have "unat x < 2 ^ 64" using unsigned_less [of x] by simp
  then show ?thesis by (simp add: json_uint64_def json_uint_def uint_text_def parse_decimal)
qed

lemma read_int: "int64_nonneg i \<Longrightarrow> json_int64 (JNumber (dec_int i)) = Some i"
proof -
  assume i: "int64_nonneg i"
  obtain c r where d: "dec_nat (nat i) = c # r" by (cases "dec_nat (nat i)") auto
  have c: "is_digit c" using decimal_digits [of "nat i"] d by simp
  have "c \<noteq> CHR ''-'' \<and> c \<noteq> CHR ''+''" using c by (auto simp: is_digit_def in_range_def)
  then show ?thesis using i parse_decimal [of "nat i"] d
    by (simp add: json_int64_def dec_int_def int64_nonneg_def parse_int64_def Let_def)
qed

lemma read_base64: "minimum \<le> length b \<Longrightarrow> length b \<le> maximum \<Longrightarrow> decodeCanonicalBase64 (base64_encode b) minimum maximum = Some b"
proof -
  assume b: "minimum \<le> length b" "length b \<le> maximum"
  have "(length b + 2) div 3 * 4 \<le> (maximum + 2) div 3 * 4" using b(2) by (intro mult_right_mono div_le_mono) auto
  then show ?thesis using b by (simp add: decodeCanonicalBase64_def base64_decode_encode length_base64_encode)
qed

lemmas field_defs = field_with_def struct_field_def pointer_field_def base64_field_def json_str_def json_boolean_def closed_fields_def
  json_list_def

lemma object_tree_Cons: "object_tree (m # ms) = JObject (map (\<lambda>(k, t, v, g). (k, t, v)) (m # ms))"
  by (simp add: object_tree_def)

lemma object_tree_not_null: "object_tree ms \<noteq> JNull"
  by (simp add: object_tree_def)

subsection \<open>References\<close>

definition reference_members :: "generationReference \<Rightarrow> written_member list" where
  "reference_members r = [num_member ''generation'' (gf_generation r),
     (''generation_file'', marshal_string (gf_generationFile r), JString (gf_generationFile r), True),
     (''generation_sha256'', marshal_string (gf_generationSHA256 r), JString (gf_generationSHA256 r), True),
     num_member ''schema_version'' (gf_schemaVersion r)]"

abbreviation reference_tree :: "generationReference \<Rightarrow> json" where
  "reference_tree r \<equiv> object_tree (reference_members r)"

lemma reference_plain: "validateGenerationReference r \<Longrightarrow> plain (gf_generationFile r) \<and> plain (gf_generationSHA256 r)"
  using plain_filename plain_digest by (auto simp: validateGenerationReference_def)

lemma written_reference:
  assumes "lib_ok lib" "validateGenerationReference r"
  shows "written lib (reference_text r) (reference_tree r) True"
proof -
  have "written lib (object_text (reference_members r)) (reference_tree r) (object_good (reference_members r))"
    using reference_plain [OF assms(2)] assms
    by (intro written_obj) (simp_all add: reference_members_def member_defs key_ok_def is_lower_def is_digit_def in_range_def
        written_uint written_plain)
  moreover have "object_text (reference_members r) = reference_text r"
    by (simp add: reference_text_def reference_members_def member_defs object_text_def)
  moreover have "object_good (reference_members r)"
    using assms(2) by (simp add: reference_members_def member_defs object_good_def validateGenerationReference_def)
  ultimately show ?thesis by simp
qed

lemma decode_reference: "validateGenerationReference r \<Longrightarrow> decodeGenerationReference (reference_tree r) = Some r"
  by (cases r) (simp add: decodeGenerationReference_def object_tree_def reference_members_def member_defs field_defs check_def Let_def)

subsection \<open>Attempts\<close>

definition attempt_members :: "slib \<Rightarrow> controlAttempt \<Rightarrow> written_member list" where
  "attempt_members lib a = [opaque_member ''association_lineage'' (ka_associationLineage a),
     num_member ''attempt_count_before'' (ka_attemptCountBefore a), opaque_member ''attempt_id'' (ka_attemptID a),
     num_member ''cancellation_generation'' (ka_cancellationGeneration a), num_member ''control_epoch'' (ka_controlEpoch a),
     string_member lib ''endpoint_host'' (ka_endpointHost a),
     (''endpoint_port'', dec_nat (unat (ka_endpointPort a)), JNumber (dec_nat (unat (ka_endpointPort a))), True),
     string_member lib ''path'' (ka_path a), opaque_member ''remote_ski'' (ka_remoteSKI a),
     num_member ''reservation_order'' (ka_reservationOrder a), int_member ''reservation_timestamp'' (ka_reservationTimestamp a),
     opaque_member ''scope'' (ka_scope a), num_member ''state_code'' (ka_stateCode a)]"

abbreviation attempt_tree :: "slib \<Rightarrow> controlAttempt \<Rightarrow> json" where
  "attempt_tree lib a \<equiv> object_tree (attempt_members lib a)"

text \<open>What the canonical form asks of an attempt beyond its validity.\<close>

definition attempt_readable :: "slib \<Rightarrow> controlAttempt \<Rightarrow> bool" where
  "attempt_readable lib a \<longleftrightarrow> readable lib (ka_endpointHost a) \<and> readable lib (ka_path a) \<and>
     ka_cancellationGeneration a \<le> int64_max \<and> ka_reservationOrder a \<le> int64_max \<and> ka_controlEpoch a \<le> int64_max"

lemma small_counter: "x \<le> uint16_max \<Longrightarrow> x \<le> int64_max" "x \<le> 2 \<Longrightarrow> x \<le> int64_max"
proof -
  have "uint16_max \<le> int64_max" "2 \<le> int64_max" by (simp_all add: uint16_max_def int64_max_def)
  then show "x \<le> uint16_max \<Longrightarrow> x \<le> int64_max" "x \<le> 2 \<Longrightarrow> x \<le> int64_max" by (metis order.trans)+
qed

lemma written_port: "written lib (dec_nat (unat (p :: 16 word))) (JNumber (dec_nat (unat p))) True"
proof -
  have "unat p \<le> unat int64_max" using unsigned_less [of p, where 'a = nat] by (simp add: unat_int64_max)
  then show ?thesis using written_number [of lib "unat p"] by simp
qed

lemma written_attempt:
  assumes "lib_ok lib" "attempt_ok rec a" "int64_nonneg (ka_reservationTimestamp a)"
  shows "written lib (attempt_text a) (attempt_tree lib a) (attempt_readable lib a)"
proof -
  have u: "utf8_valid (ka_endpointHost a)" "utf8_valid (ka_path a)"
    using assms(2) by (auto simp: attempt_ok_def validControlEndpointHost_def validControlAttemptPath_def)
  have "written lib (object_text (attempt_members lib a)) (attempt_tree lib a) (object_good (attempt_members lib a))"
    using assms u
    by (intro written_obj) (simp_all add: attempt_members_def member_defs key_ok_def is_lower_def is_digit_def in_range_def
        written_uint written_opaque written_marshal written_int written_port)
  moreover have "object_text (attempt_members lib a) = attempt_text a"
    by (simp add: attempt_text_def attempt_members_def member_defs object_text_def)
  moreover have "object_good (attempt_members lib a) = attempt_readable lib a"
    using assms(2) small_counter [of "ka_attemptCountBefore a"] small_counter [of "ka_stateCode a"]
    by (auto simp: attempt_members_def member_defs object_good_def attempt_readable_def attempt_ok_def)
  ultimately show ?thesis by simp
qed

lemma read_port: "json_uint 65536 (JNumber (dec_nat (unat (p :: 16 word)))) = Some (unat p)"
  using unsigned_less [of p, where 'a = nat] by (simp add: json_uint_def parse_decimal)

lemma decode_attempt_tree:
  assumes "attempt_ok rec a" "int64_nonneg (ka_reservationTimestamp a)"
  shows "decode_attempt (attempt_tree lib a) = Some a"
  using assms
  by (simp add: decode_attempt_def object_tree_def attempt_members_def member_defs field_defs read_base64 read_int read_port
      attempt_ok_def controlOpaqueBytes_def)

subsection \<open>Tombstones, quarantines, receipts, publications\<close>

definition tombstone_members :: "controlTombstone \<Rightarrow> written_member list" where
  "tombstone_members t = [opaque_member ''association_ref'' (kt_associationRef t),
     (''effective_generation'', reference_text (kt_effectiveGeneration t), reference_tree (kt_effectiveGeneration t), True),
     opaque_member ''operation_id'' (kt_operationID t), num_member ''revocation_epoch'' (kt_revocationEpoch t)]"

definition quarantine_members :: "controlQuarantine \<Rightarrow> written_member list" where
  "quarantine_members q = [num_member ''attempt_count'' (kq_attemptCount q), num_member ''backoff_step'' (kq_backoffStep q),
     num_member ''last_control_epoch'' (kq_lastControlEpoch q), num_member ''reason_code'' (kq_reasonCode q),
     int_member ''remaining_delay'' (kq_remainingDelay q), int_member ''retention_budget'' (kq_retentionBudget q),
     opaque_member ''scope'' (kq_scope q), num_member ''state_code'' (kq_stateCode q)]"

definition receipt_members :: "controlReceipt \<Rightarrow> written_member list" where
  "receipt_members r = [opaque_member ''binding_sha256'' (kr_bindingSHA256 r), num_member ''operation_class'' (kr_operationClass r),
     opaque_member ''operation_id'' (kr_operationID r), num_member ''result_code'' (kr_resultCode r),
     (''terminal'', if kr_terminal r then ''true'' else ''false'', JBool (kr_terminal r), True)]"

definition publication_members :: "controlPublication \<Rightarrow> written_member list" where
  "publication_members p = [num_member ''operation_class'' (kp_operationClass p), opaque_member ''operation_id'' (kp_operationID p),
     num_member ''previous_control_epoch'' (kp_previousControlEpoch p),
     (''previous_generation'', reference_text (kp_previousGeneration p), reference_tree (kp_previousGeneration p), True),
     opaque_member ''store_instance'' (kp_storeInstance p), num_member ''target_control_epoch'' (kp_targetControlEpoch p),
     (''target_generation'', reference_text (kp_targetGeneration p), reference_tree (kp_targetGeneration p), True)]"

lemmas key_defs = key_ok_def is_lower_def is_digit_def in_range_def

text \<open>An epoch up to that of the record is a canonical number when the record's is.\<close>

lemma written_tombstone:
  assumes "lib_ok lib" "tombstone_ok rec t"
  shows "written lib (tombstone_text t) (object_tree (tombstone_members t)) (kt_revocationEpoch t \<le> int64_max)"
proof -
  have "written lib (object_text (tombstone_members t)) (object_tree (tombstone_members t)) (object_good (tombstone_members t))"
    using assms by (intro written_obj) (simp_all add: tombstone_members_def member_defs key_defs tombstone_ok_def
        written_uint written_opaque written_reference)
  then show ?thesis by (simp add: tombstone_text_def tombstone_members_def member_defs object_text_def object_good_def)
qed

lemma written_quarantine:
  assumes "lib_ok lib" "quarantine_ok rec q" "int64_nonneg (kq_remainingDelay q)" "int64_nonneg (kq_retentionBudget q)"
  shows "written lib (quarantine_text q) (object_tree (quarantine_members q)) (kq_lastControlEpoch q \<le> int64_max)"
proof -
  have "written lib (object_text (quarantine_members q)) (object_tree (quarantine_members q)) (object_good (quarantine_members q))"
    using assms by (intro written_obj) (simp_all add: quarantine_members_def member_defs key_defs
        written_uint written_opaque written_int)
  moreover have "object_good (quarantine_members q) \<longleftrightarrow> kq_lastControlEpoch q \<le> int64_max"
    using assms(2) small_counter by (auto simp: quarantine_members_def member_defs object_good_def quarantine_ok_def control_counter_def)
  ultimately show ?thesis by (simp add: quarantine_text_def quarantine_members_def member_defs object_text_def)
qed

lemma written_receipt:
  assumes "lib_ok lib" "receipt_ok r"
  shows "written lib (receipt_text r) (object_tree (receipt_members r)) True"
proof -
  have "written lib (object_text (receipt_members r)) (object_tree (receipt_members r)) (object_good (receipt_members r))"
    using assms by (intro written_obj) (simp_all add: receipt_members_def member_defs key_defs
        written_uint written_opaque written_literals)
  moreover have "object_good (receipt_members r)"
    using assms(2) small_counter by (auto simp: receipt_members_def member_defs object_good_def receipt_ok_def control_counter_def)
  ultimately show ?thesis by (simp add: receipt_text_def receipt_members_def member_defs object_text_def)
qed

lemma written_publication:
  assumes "lib_ok lib" "publication_ok rec p"
  shows "written lib (publication_text p) (object_tree (publication_members p)) (kp_previousControlEpoch p \<le> int64_max \<and> kp_targetControlEpoch p \<le> int64_max)"
proof -
  have "written lib (object_text (publication_members p)) (object_tree (publication_members p)) (object_good (publication_members p))"
    using assms by (intro written_obj) (simp_all add: publication_members_def member_defs key_defs publication_ok_def
        written_uint written_opaque written_reference)
  moreover have "object_good (publication_members p) \<longleftrightarrow> kp_previousControlEpoch p \<le> int64_max \<and> kp_targetControlEpoch p \<le> int64_max"
    using assms(2) small_counter by (auto simp: publication_members_def member_defs object_good_def publication_ok_def control_counter_def)
  ultimately show ?thesis by (simp add: publication_text_def publication_members_def member_defs object_text_def)
qed

lemma decode_trees:
  "tombstone_ok rec t \<Longrightarrow> decode_tombstone (object_tree (tombstone_members t)) = Some t"
  "quarantine_ok rec q \<Longrightarrow> int64_nonneg (kq_remainingDelay q) \<Longrightarrow> int64_nonneg (kq_retentionBudget q) \<Longrightarrow>
     decode_quarantine (object_tree (quarantine_members q)) = Some q"
  "receipt_ok r \<Longrightarrow> decode_receipt (object_tree (receipt_members r)) = Some r"
  "publication_ok rec p \<Longrightarrow> length (kc_storeInstance rec) = controlOpaqueBytes \<Longrightarrow>
     decode_publication (object_tree (publication_members p)) = Some p"
  by (simp_all add: decode_tombstone_def decode_quarantine_def decode_receipt_def decode_publication_def
      object_tree_Cons object_tree_not_null tombstone_members_def quarantine_members_def receipt_members_def publication_members_def
      member_defs field_defs read_base64 read_int decode_reference tombstone_ok_def receipt_ok_def publication_ok_def quarantine_ok_def
      controlOpaqueBytes_def)

subsection \<open>The record\<close>

definition publication_tree :: "controlPublication option \<Rightarrow> json" where
  "publication_tree p = (case p of None \<Rightarrow> JNull | Some q \<Rightarrow> object_tree (publication_members q))"

definition publication_readable :: "controlPublication option \<Rightarrow> bool" where
  "publication_readable p \<longleftrightarrow> (case p of None \<Rightarrow> True
     | Some q \<Rightarrow> kp_previousControlEpoch q \<le> int64_max \<and> kp_targetControlEpoch q \<le> int64_max)"

definition control_members :: "slib \<Rightarrow> controlRecordV3 \<Rightarrow> written_member list" where
  "control_members lib rec = (let attempts = sorted_attempts (kc_attempts rec) in
     [opaque_member ''association_lineage'' (kc_associationLineage rec),
      (''attempts'', json_arr (map attempt_text attempts), JArray (map (attempt_tree lib) attempts), list_all (attempt_readable lib) attempts),
      num_member ''control_epoch'' (kc_controlEpoch rec), num_member ''operation_high_water'' (kc_operationHighWater rec),
      (''publication'', optional_text publication_text (kc_publication rec), publication_tree (kc_publication rec),
         publication_readable (kc_publication rec)),
      (''quarantines'', json_arr (map quarantine_text (kc_quarantines rec)),
         JArray (map (\<lambda>q. object_tree (quarantine_members q)) (kc_quarantines rec)),
         list_all (\<lambda>q. kq_lastControlEpoch q \<le> int64_max) (kc_quarantines rec)),
      (''receipts'', json_arr (map receipt_text (kc_receipts rec)),
         JArray (map (\<lambda>r. object_tree (receipt_members r)) (kc_receipts rec)), list_all (\<lambda>_. True) (kc_receipts rec)),
      num_member ''repair_sequence'' (kc_repairSequence rec), opaque_member ''store_instance'' (kc_storeInstance rec),
      (''tombstones'', json_arr (map tombstone_text (kc_tombstones rec)),
         JArray (map (\<lambda>t. object_tree (tombstone_members t)) (kc_tombstones rec)),
         list_all (\<lambda>t. kt_revocationEpoch t \<le> int64_max) (kc_tombstones rec))])"

abbreviation control_tree :: "slib \<Rightarrow> controlRecordV3 \<Rightarrow> json" where
  "control_tree lib rec \<equiv> object_tree (control_members lib rec)"

text \<open>The signed fields hold what 64 bits hold.\<close>

definition control_range :: "controlRecordV3 \<Rightarrow> bool" where
  "control_range rec \<longleftrightarrow> list_all (\<lambda>a. ka_reservationTimestamp a < 2 ^ 63) (kc_attempts rec) \<and>
     list_all (\<lambda>q. kq_remainingDelay q < 2 ^ 63 \<and> kq_retentionBudget q < 2 ^ 63) (kc_quarantines rec)"

text \<open>What the canonical form asks of a control record beyond its validity.\<close>

definition control_readable :: "slib \<Rightarrow> controlRecordV3 \<Rightarrow> bool" where
  "control_readable lib rec \<longleftrightarrow> kc_controlEpoch rec \<le> int64_max \<and> list_all (attempt_readable lib) (kc_attempts rec)"

lemma attempts_loop_iff:
  "attempts_loop rec ids scopes orders as \<longleftrightarrow> list_all (attempt_ok rec) as \<and>
     distinct (map ka_attemptID as) \<and> set (map ka_attemptID as) \<inter> set ids = {} \<and>
     distinct (map ka_scope as) \<and> set (map ka_scope as) \<inter> set scopes = {} \<and>
     distinct (map ka_reservationOrder as) \<and> set (map ka_reservationOrder as) \<inter> set orders = {}"
  by (induction as arbitrary: ids scopes orders) auto

lemma set_sorted_attempts [simp]: "set (sorted_attempts as) = set as" "length (sorted_attempts as) = length as"
  by (simp_all add: sorted_attempts_def)

lemma mset_sorted_attempts: "mset (sorted_attempts as) = mset as"
  by (simp add: sorted_attempts_def)

lemma control_parts:
  assumes "validateControlRecordV3 rec" "control_range rec"
  shows "\<And>a. a \<in> set (kc_attempts rec) \<Longrightarrow> attempt_ok rec a \<and> int64_nonneg (ka_reservationTimestamp a)"
    and "\<And>q. q \<in> set (kc_quarantines rec) \<Longrightarrow> quarantine_ok rec q \<and> int64_nonneg (kq_remainingDelay q) \<and> int64_nonneg (kq_retentionBudget q)"
    and "\<And>r. r \<in> set (kc_receipts rec) \<Longrightarrow> receipt_ok r"
    and "\<And>t. t \<in> set (kc_tombstones rec) \<Longrightarrow> tombstone_ok rec t"
    and "\<And>p. kc_publication rec = Some p \<Longrightarrow> publication_ok rec p"
  using assms
  by (auto simp: validateControlRecordV3_def validateControlRecordBase_def validateControlAttempts_def attempts_loop_iff
      unique_loop_iff list_all_iff control_range_def int64_nonneg_def attempt_ok_def quarantine_ok_def)

lemma epoch_before: "x \<noteq> - 1 \<Longrightarrow> x + 1 \<le> y \<Longrightarrow> x \<le> (y :: uint64)"
  by (simp add: word_le_nat_alt word_succ_gt)

lemma written_control:
  assumes lib: "lib_ok lib" and v: "validateControlRecordV3 rec" "control_range rec"
  shows "written lib (encodeControlRecordV3Unchecked rec) (control_tree lib rec) (control_readable lib rec)"
proof -
  note parts = control_parts [OF v]
  have pub: "written lib (optional_text publication_text (kc_publication rec)) (publication_tree (kc_publication rec)) (publication_readable (kc_publication rec))"
    using written_publication [OF lib] parts(5)
    by (cases "kc_publication rec") (simp_all add: optional_text_def publication_tree_def publication_readable_def written_literals)
  have arrays:
    "written lib (json_arr (map attempt_text (sorted_attempts (kc_attempts rec)))) (JArray (map (attempt_tree lib) (sorted_attempts (kc_attempts rec))))
       (list_all (attempt_readable lib) (sorted_attempts (kc_attempts rec)))"
    "written lib (json_arr (map quarantine_text (kc_quarantines rec))) (JArray (map (\<lambda>q. object_tree (quarantine_members q)) (kc_quarantines rec)))
       (list_all (\<lambda>q. kq_lastControlEpoch q \<le> int64_max) (kc_quarantines rec))"
    "written lib (json_arr (map receipt_text (kc_receipts rec))) (JArray (map (\<lambda>r. object_tree (receipt_members r)) (kc_receipts rec)))
       (list_all (\<lambda>_. True) (kc_receipts rec))"
    "written lib (json_arr (map tombstone_text (kc_tombstones rec))) (JArray (map (\<lambda>t. object_tree (tombstone_members t)) (kc_tombstones rec)))
       (list_all (\<lambda>t. kt_revocationEpoch t \<le> int64_max) (kc_tombstones rec))"
    using written_attempt [OF lib, of rec] written_quarantine [OF lib, of rec] written_receipt [OF lib]
      written_tombstone [OF lib, of rec] parts(1-4)
    by (auto intro!: written_arr)
  have "written lib (object_text (control_members lib rec)) (control_tree lib rec) (object_good (control_members lib rec))"
  proof (rule written_obj [OF lib])
    show "list_all key_ok (map fst (control_members lib rec))" "increasing (map fst (control_members lib rec))"
      by (simp_all add: control_members_def member_defs key_defs Let_def)
    show "list_all (\<lambda>(k, t, v, g). written lib t v g) (control_members lib rec)"
      using lib pub arrays by (simp add: control_members_def member_defs Let_def written_uint written_opaque)
  qed
  moreover have "object_text (control_members lib rec) = encodeControlRecordV3Unchecked rec"
    by (simp add: control_members_def member_defs object_text_def encodeControlRecordV3Unchecked_def Let_def)
  moreover have "object_good (control_members lib rec) \<longleftrightarrow> control_readable lib rec"
  proof -
    have "publication_readable (kc_publication rec)" if "kc_controlEpoch rec \<le> int64_max"
      using parts(5) that epoch_before by (auto simp: publication_readable_def publication_ok_def split: option.splits)
    moreover have "kc_operationHighWater rec \<le> int64_max" "kc_repairSequence rec \<le> int64_max"
      using v(1) by (auto simp: validateControlRecordV3_def validateControlRecordBase_def)
    moreover have "kq_lastControlEpoch q \<le> kc_controlEpoch rec" if "q \<in> set (kc_quarantines rec)" for q
      using parts(2) [OF that] by (simp add: quarantine_ok_def)
    moreover have "kt_revocationEpoch t \<le> kc_controlEpoch rec" if "t \<in> set (kc_tombstones rec)" for t
      using parts(4) [OF that] by (simp add: tombstone_ok_def)
    ultimately show ?thesis
      by (auto simp: control_members_def member_defs object_good_def control_readable_def Let_def list_all_iff intro: order.trans)
  qed
  ultimately show ?thesis by simp
qed

definition attempts_sorted :: "controlRecordV3 \<Rightarrow> controlRecordV3" where
  "attempts_sorted rec = rec\<lparr>kc_attempts := sorted_attempts (kc_attempts rec)\<rparr>"

lemma decode_control_tree:
  assumes v: "validateControlRecordV3 rec" "control_range rec"
  shows "decode_control (control_tree lib rec) = Some (attempts_sorted rec)"
proof -
  note parts = control_parts [OF v]
  have l: "length (kc_storeInstance rec) = controlOpaqueBytes" "length (kc_associationLineage rec) = controlOpaqueBytes"
    using v(1) by (auto simp: validateControlRecordV3_def validateControlRecordBase_def)
  have "all_some (map decode_attempt (map (attempt_tree lib) (sorted_attempts (kc_attempts rec)))) = Some (sorted_attempts (kc_attempts rec))"
    using all_some_map [of "sorted_attempts (kc_attempts rec)" "decode_attempt \<circ> attempt_tree lib" id] decode_attempt_tree parts(1) by auto
  moreover have "all_some (map decode_quarantine (map (\<lambda>q. object_tree (quarantine_members q)) (kc_quarantines rec))) = Some (kc_quarantines rec)"
    using all_some_map [of "kc_quarantines rec" "\<lambda>q. decode_quarantine (object_tree (quarantine_members q))" id] decode_trees(2) parts(2)
    by (auto simp: o_def)
  moreover have "all_some (map decode_receipt (map (\<lambda>r. object_tree (receipt_members r)) (kc_receipts rec))) = Some (kc_receipts rec)"
    using all_some_map [of "kc_receipts rec" "\<lambda>r. decode_receipt (object_tree (receipt_members r))" id] decode_trees(3) parts(3)
    by (auto simp: o_def)
  moreover have "all_some (map decode_tombstone (map (\<lambda>t. object_tree (tombstone_members t)) (kc_tombstones rec))) = Some (kc_tombstones rec)"
    using all_some_map [of "kc_tombstones rec" "\<lambda>t. decode_tombstone (object_tree (tombstone_members t))" id] decode_trees(1) parts(4)
    by (auto simp: o_def)
  moreover have "pointer_field decode_publication [(''publication'', raw, publication_tree (kc_publication rec))] ''publication'' = Some (kc_publication rec)" for raw
    using decode_trees(4) [OF parts(5) l(1)] object_tree_not_null
    by (cases "kc_publication rec") (auto simp: pointer_field_def field_with_def publication_tree_def)
  ultimately show ?thesis using l
    by (simp add: decode_control_def object_tree_Cons control_members_def member_defs field_defs read_base64 Let_def attempts_sorted_def
        controlOpaqueBytes_def)
qed

lemma sorted_attempts_idem:
  assumes "distinct (map ka_reservationOrder as)"
  shows "sorted_attempts (sorted_attempts as) = sorted_attempts as"
proof -
  let ?k = "\<lambda>a. unat (ka_reservationOrder a)"
  have inj: "inj_on ?k (set as)" using assms by (auto simp: distinct_map inj_on_def word_unat_eq_iff)
  have "sort_key ?k (sort_key ka_attemptID (sorted_attempts as)) = sorted_attempts as"
    by (rule sort_key_inj_key_eq) (use inj in \<open>simp_all add: mset_sorted_attempts\<close>, simp add: sorted_attempts_def)
  then show ?thesis by (simp add: sorted_attempts_def [of "sorted_attempts as"])
qed

lemma attempts_sorted_valid:
  assumes "validateControlRecordV3 rec"
  shows "validateControlRecordV3 (attempts_sorted rec)"
proof -
  have d: "distinct (map f (sorted_attempts as)) = distinct (map f as)" for f :: "controlAttempt \<Rightarrow> 'b" and as
    using mset_sorted_attempts [of as] by (metis mset_eq_imp_distinct_iff mset_map)
  have ok: "attempt_ok (attempts_sorted rec) = attempt_ok rec" "tombstone_ok (attempts_sorted rec) = tombstone_ok rec"
    "quarantine_ok (attempts_sorted rec) = quarantine_ok rec" "publication_ok (attempts_sorted rec) = publication_ok rec"
    by (auto simp: fun_eq_iff attempts_sorted_def attempt_ok_def tombstone_ok_def quarantine_ok_def publication_ok_def)
  show ?thesis using assms
    unfolding validateControlRecordV3_def validateControlRecordBase_def validateControlAttempts_def attempts_loop_iff ok
    by (simp add: attempts_sorted_def d list_all_iff)
qed

text \<open>A control record is read back as it was written, its attempts in the order of the text.\<close>

lemma control_roundtrip:
  assumes "lib_ok lib" and v: "validateControlRecordV3 rec" "control_range rec"
  shows "decodeControlRecordV3 (encodeControlRecordV3Unchecked rec) = Some (attempts_sorted rec)"
proof -
  have "denotes (encodeControlRecordV3Unchecked rec) (control_tree lib rec)"
    using written_control [OF assms] by (simp add: written_def)
  moreover have "distinct (map ka_reservationOrder (kc_attempts rec))"
    using v(1) by (simp add: validateControlRecordV3_def validateControlAttempts_def attempts_loop_iff)
  then have "encodeControlRecordV3Unchecked (attempts_sorted rec) = encodeControlRecordV3Unchecked rec"
    by (simp add: encodeControlRecordV3Unchecked_def attempts_sorted_def sorted_attempts_idem)
  ultimately show ?thesis
    using decode_control_tree [OF v, of lib] attempts_sorted_valid [OF v(1)]
    by (simp add: decodeControlRecordV3_def read_document_bare check_def)
qed

end
