(* ===== verification/StoreGeneration.thy ===== *)
theory StoreGeneration
  imports StoreControl
begin

text \<open>
  Manifests, envelopes and generations are read back as they were written; a generation exactly
  when its control record is in the canonical form, which is checked on reading only.
\<close>

subsection \<open>Documents\<close>

lemma canonical_document:
  assumes "written lib t v good" and "last t = CHR 0x7D" and "within depth v"
  shows "validateCanonicalJSON lib (t @ [CHR 0x0A]) maximum depth =
    (if Suc (length t) \<le> maximum \<and> good then Some v else None)"
proof -
  obtain l where w: "denotes t v" "utf8_valid t" "lexes t l" "l \<and> tree_ok lib v \<longleftrightarrow> good"
    using assms(1) by (auto simp: written_def)
  have t: "t \<noteq> []" using w(1) by auto
  have u: "utf8_valid (t @ [CHR 0x0A])" by (intro utf8_valid_append [OF w(2)] ascii_valid) simp
  have n: "(t @ [CHR 0x0A]) ! (length (t @ [CHR 0x0A]) - 2) = last t" using t by (simp add: nth_append last_conv_nth)
  have x: "validateCanonicalJSONLexemes (t @ [CHR 0x0A]) \<longleftrightarrow> l"
    using w(3) [unfolded lexes_def, rule_format, of "[]"] by (simp add: validateCanonicalJSONLexemes_def)
  show ?thesis
    using t u n x assms(2,3) w(4) read_document_line [OF w(1)]
    by (auto simp: validateCanonicalJSON_def validate_tree)
qed

lemma within_object: "within d (object_tree ms) \<longleftrightarrow> d \<noteq> 0 \<and> list_all (\<lambda>(k, t, v, g). within (d - 1) v) ms"
  by (auto simp: object_tree_def list_all_iff)

lemma within_reference: "2 \<le> d \<Longrightarrow> within d (reference_tree r)"
  by (auto simp: within_object reference_members_def member_defs)

lemma last_object: "last (object_text ms) = CHR 0x7D"
  by (simp add: object_text_def json_obj_def)

lemma plain_text: "plain s \<Longrightarrow> marshal_string s = CHR 0x22 # s @ [CHR 0x22]" "plain s \<Longrightarrow> write_canonical s = CHR 0x22 # s @ [CHR 0x22]"
proof -
  assume p: "plain s"
  note a = plain_ascii [OF p]
  have m: "marshal_escape (of_char c, [c]) = [c] \<and> canonical_escape (of_char c, [c]) = [c]" if "c \<in> set s" for c
    using p that by (auto simp: plain_def list_all_iff plain_code_def marshal_escape_def json_escape_def canonical_escape_def
        chunk_bytes_def chunk_valid_def)
  then have "map marshal_escape (go_chunks s) = map (\<lambda>c. [c]) s" "map canonical_escape (go_chunks s) = map (\<lambda>c. [c]) s"
    using a by (auto simp: ascii_def go_chunks_ascii)
  then show "marshal_string s = CHR 0x22 # s @ [CHR 0x22]" "write_canonical s = CHR 0x22 # s @ [CHR 0x22]"
    by (simp_all add: marshal_string_def write_canonical_def)
qed

lemma canonical_is_marshal: "plain s \<Longrightarrow> write_canonical s = marshal_string s"
  by (simp add: plain_text)

lemma reference_canonical: "validateGenerationReference r \<Longrightarrow> writeGenerationReference r = reference_text r"
  using reference_plain [of r]
  by (simp add: writeGenerationReference_def reference_text_def json_obj_def canonical_is_marshal)

subsection \<open>Manifests\<close>

definition reference_option_tree :: "generationReference option \<Rightarrow> json" where
  "reference_option_tree p = (case p of None \<Rightarrow> JNull | Some r \<Rightarrow> reference_tree r)"

definition manifest_members :: "manifestPayloadV1 \<Rightarrow> written_member list" where
  "manifest_members m = [(''current'', reference_text (mp_current m), reference_tree (mp_current m), True),
     num_member ''manifest_version'' 1,
     (''parent'', optional_text reference_text (mp_parent m), reference_option_tree (mp_parent m), True)]"

lemma manifest_encoded:
  assumes "encodeManifestPayloadV1 m = Some t"
  shows "t = object_text (manifest_members m) @ [CHR 0x0A]" and "length t \<le> maxManifestPayloadBytes"
    and "mp_manifestVersion m = 1" and "validateGenerationReference (mp_current m)"
    and "\<And>p. mp_parent m = Some p \<Longrightarrow> validateGenerationReference p"
proof -
  show v: "mp_manifestVersion m = 1" "validateGenerationReference (mp_current m)" "length t \<le> maxManifestPayloadBytes"
    and p: "\<And>p. mp_parent m = Some p \<Longrightarrow> validateGenerationReference p"
    using assms by (auto simp: encodeManifestPayloadV1_def check_def Let_def currentManifestVersion_def split: if_splits)
  have one: "uint_text 1 = ''1''" by code_simp
  have "optional_text writeGenerationReference (mp_parent m) = optional_text reference_text (mp_parent m)"
    using p reference_canonical by (auto simp: optional_text_def split: option.split)
  then show "t = object_text (manifest_members m) @ [CHR 0x0A]"
    using assms v reference_canonical one
    by (auto simp: encodeManifestPayloadV1_def check_def Let_def currentManifestVersion_def manifest_members_def member_defs object_text_def
        json_obj_def split: if_splits)
qed

lemma written_manifest:
  assumes "lib_ok lib" "encodeManifestPayloadV1 m = Some t"
  shows "written lib (object_text (manifest_members m)) (object_tree (manifest_members m)) True"
proof -
  note v = manifest_encoded [OF assms(2)]
  have "written lib (optional_text reference_text (mp_parent m)) (reference_option_tree (mp_parent m)) True"
    using v(5) written_reference [OF assms(1)] written_literals
    by (auto simp: optional_text_def reference_option_tree_def split: option.split)
  moreover have "(1 :: uint64) \<le> int64_max" by (simp add: int64_max_def)
  ultimately have "written lib (object_text (manifest_members m)) (object_tree (manifest_members m)) (object_good (manifest_members m))"
    using assms(1) v(4) written_reference [OF assms(1)] written_uint [of lib 1]
    by (intro written_obj) (simp_all add: manifest_members_def member_defs key_defs)
  then show ?thesis using \<open>1 \<le> int64_max\<close> by (simp add: manifest_members_def member_defs object_good_def)
qed

lemma manifest_document:
  assumes "lib_ok lib" "encodeManifestPayloadV1 m = Some t"
  shows "validateCanonicalJSON lib t maxManifestPayloadBytes maxJSONDepth = Some (object_tree (manifest_members m))"
proof -
  note v = manifest_encoded [OF assms(2)]
  have "within maxJSONDepth (object_tree (manifest_members m))"
    using within_reference [of "maxJSONDepth - 1"]
    by (cases "mp_parent m") (simp_all only: within_object [of _ "manifest_members m"], simp_all add: manifest_members_def member_defs maxJSONDepth_def reference_option_tree_def)
  then show ?thesis using canonical_document [OF written_manifest [OF assms] last_object] v(1,2) by simp
qed

lemma reference_option_field:
  "(\<forall>p. mp_parent m = Some p \<longrightarrow> validateGenerationReference p) \<Longrightarrow>
   (if reference_option_tree (mp_parent m) = JNull then Some None
    else map_option Some (decodeGenerationReference (reference_option_tree (mp_parent m)))) = Some (mp_parent m)"
  using decode_reference object_tree_not_null by (auto simp: reference_option_tree_def split: option.split)

lemma manifest_roundtrip:
  assumes "lib_ok lib" "encodeManifestPayloadV1 m = Some t"
  shows "decodeManifestPayloadV1 lib t = Some m"
proof -
  note v = manifest_encoded [OF assms(2)]
  show ?thesis
    using manifest_document [OF assms] v(3,4) reference_option_field [of m] v(5) decode_reference [OF v(4)] assms(2) object_tree_not_null
    by (cases m, cases "mp_parent m") (simp_all add: reference_option_tree_def decodeManifestPayloadV1_def object_tree_Cons manifest_members_def member_defs field_defs check_def
        currentManifestVersion_def Let_def)
qed

subsection \<open>Envelopes\<close>

definition slot_members :: "slib \<Rightarrow> manifestEnvelope \<Rightarrow> written_member list" where
  "slot_members lib e = [num_member ''manifest_epoch'' (me_manifestEpoch e),
     (''manifest_payload'', opaque_text (me_manifestPayload e), JString (base64_encode (me_manifestPayload e)), True),
     (''manifest_sha256'', marshal_string (sha256Hex lib (me_manifestPayload e)), JString (sha256Hex lib (me_manifestPayload e)), True),
     num_member ''slot_format_version'' (me_slotFormatVersion e)]"

lemma digest_sha: "lib_ok lib \<Longrightarrow> digestPattern (sha256Hex lib b)"
  by (simp add: digestPattern_def sha256Hex_def hex_encode_lower length_hex_encode lib_ok_def)

lemma slot_encoded:
  assumes "lib_ok lib" "encodeManifestSlot lib e = Some t"
  shows "t = object_text (slot_members lib e) @ [CHR 0x0A]" and "length t \<le> maxManifestEnvelopeBytes"
    and "me_manifestEpoch e \<noteq> 0" and "me_manifestEpoch e \<le> int64_max" and "me_manifestPayload e \<noteq> []"
    and "length (me_manifestPayload e) \<le> maxManifestPayloadBytes"
  using assms plain_base64 [of "me_manifestPayload e"] plain_digest [OF digest_sha [OF assms(1)], of "me_manifestPayload e"]
  by (auto simp: encodeManifestSlot_def check_def Let_def slot_members_def member_defs object_text_def json_obj_def opaque_text_def
      canonical_is_marshal not_less split: if_splits)

lemma slot_roundtrip:
  assumes lib: "lib_ok lib" and e: "encodeManifestSlot lib e = Some t"
    and "me_manifestSHA256 e = sha256Hex lib (me_manifestPayload e)" and version: "me_slotFormatVersion e \<le> int64_max"
  shows "decodeManifestSlot lib t = Some e"
proof -
  note v = slot_encoded [OF lib e]
  have p: "plain (sha256Hex lib (me_manifestPayload e))" by (rule plain_digest [OF digest_sha [OF lib]])
  have "written lib (object_text (slot_members lib e)) (object_tree (slot_members lib e)) (object_good (slot_members lib e))"
    using lib p by (intro written_obj) (simp_all add: slot_members_def member_defs key_defs written_uint written_opaque written_plain)
  moreover have "object_good (slot_members lib e)" using v(4) version by (simp add: slot_members_def member_defs object_good_def)
  moreover have "within maxJSONDepth (object_tree (slot_members lib e))"
    by (simp add: within_object slot_members_def member_defs maxJSONDepth_def)
  ultimately have "validateCanonicalJSON lib t maxManifestEnvelopeBytes maxJSONDepth = Some (object_tree (slot_members lib e))"
    using canonical_document [OF _ last_object] v(1,2) by simp
  moreover have "1 \<le> length (me_manifestPayload e)" using v(5) by (cases "me_manifestPayload e") auto
  ultimately show ?thesis
    using v digest_sha [OF lib] assms(3) e
    by (cases e) (simp add: decodeManifestSlot_def object_tree_Cons slot_members_def member_defs field_defs check_def read_base64 Let_def)
qed

subsection \<open>Control records in a generation\<close>

lemma int_field_bound: "field_with json_int64 0 ms k = Some i \<Longrightarrow> i < 2 ^ 63"
  by (auto simp: field_with_def json_int64_def parse_int64_def Let_def split: option.splits json.splits if_splits prod.splits)

lemma all_some_all: "all_some xs = Some ys \<Longrightarrow> xs = map Some ys"
  by (induction xs arbitrary: ys) (auto split: option.splits)

lemma list_field_all: "list_field f ms k = Some xs \<Longrightarrow> (\<And>v x. f v = Some x \<Longrightarrow> P x) \<Longrightarrow> list_all P xs"
  by (auto simp: field_with_def json_list_def list_all_iff map_eq_conv split: option.splits if_splits json.splits prod.splits
      dest!: all_some_all) (metis in_set_conv_nth length_map nth_map)

text \<open>A record that was read holds signed fields of 64 bits.\<close>

lemma decoded_range:
  assumes "decodeControlRecordV3 t = Some rec"
  shows "control_range rec" and "validateControlRecordV3 rec" and "encodeControlRecordV3Unchecked rec = t"
proof -
  have a: "decode_attempt v = Some x \<Longrightarrow> ka_reservationTimestamp x < 2 ^ 63" for v x
    by (auto simp: decode_attempt_def bind_eq_Some_conv dest: int_field_bound)
  have q: "decode_quarantine v = Some x \<Longrightarrow> kq_remainingDelay x < 2 ^ 63 \<and> kq_retentionBudget x < 2 ^ 63" for v x
    by (auto simp: decode_quarantine_def bind_eq_Some_conv dest: int_field_bound)
  obtain v where v: "decode_control v = Some rec" "validateControlRecordV3 rec" "encodeControlRecordV3Unchecked rec = t"
    using assms by (auto simp: decodeControlRecordV3_def bind_eq_Some_conv check_def split: if_splits)
  then show "validateControlRecordV3 rec" "encodeControlRecordV3Unchecked rec = t" by simp_all
  show "control_range rec" using v(1) list_field_all [OF _ a] list_field_all [OF _ q]
    by (auto simp: control_range_def decode_control_def bind_eq_Some_conv)
qed

lemma within_control: "7 \<le> d \<Longrightarrow> within d (control_tree lib rec)"
  by (auto simp: within_object control_members_def Let_def member_defs list_all_iff attempt_members_def quarantine_members_def
      receipt_members_def tombstone_members_def publication_members_def publication_tree_def reference_members_def split: option.splits)

definition control_member :: "slib \<Rightarrow> stateV1 \<Rightarrow> written_member" where
  "control_member lib s = (case controlRecordV3FromStateV1 s of
      None \<Rightarrow> (''control'', ''null'', JNull, True)
    | Some rec \<Rightarrow> (''control'', sd_controlEnvelope s, control_tree lib rec, control_readable lib rec))"

text \<open>What the canonical form asks of a state beyond its validity.\<close>

definition state_readable :: "slib \<Rightarrow> stateV1 \<Rightarrow> bool" where
  "state_readable lib s \<longleftrightarrow> (case controlRecordV3FromStateV1 s of None \<Rightarrow> True | Some rec \<Rightarrow> control_readable lib rec)"

subsection \<open>Identities\<close>

definition key_members :: "protectedKeyReference \<Rightarrow> written_member list" where
  "key_members k =
     [(''certificate_spki_sha256'', marshal_string (pk_certificateSPKISHA256 k), JString (pk_certificateSPKISHA256 k), True),
      (''provider_id'', marshal_string (pk_providerID k), JString (pk_providerID k), True),
      num_member ''provider_version'' (pk_providerVersion k), opaque_member ''sealed_blob'' (pk_sealedBlob k)]"

definition local_members :: "localIdentityV1 \<Rightarrow> written_member list" where
  "local_members i = (let k = lid_keyReference i in
     [(''certificate_chain_der'', json_arr (map opaque_text (lid_certificateChainDER i)),
         JArray (map (\<lambda>c. JString (base64_encode c)) (lid_certificateChainDER i)), True),
      (''key_reference'', object_text (key_members k), object_tree (key_members k), True),
      opaque_member ''local_ski'' (lid_localSKI i)])"

definition remote_members :: "remoteIdentityV1 \<Rightarrow> written_member list" where
  "remote_members i = [opaque_member ''record_id'' (rid_recordID i),
     (''remote_ship_id'', write_canonical (rid_remoteSHIPID i), JString (rid_remoteSHIPID i), True),
     opaque_member ''remote_ski'' (rid_remoteSKI i)]"

lemma plain_provider: "providerIDPattern s \<Longrightarrow> plain s"
proof -
  have "is_lower c \<or> is_digit c \<or> c = CHR ''.'' \<or> c = CHR ''-'' \<Longrightarrow> plain_code (of_char c)" for c
    by (auto simp: is_lower_def is_digit_def in_range_def plain_code_def)
  then show "providerIDPattern s \<Longrightarrow> plain s" by (cases s) (auto simp: providerIDPattern_def plain_def list_all_iff)
qed

lemma canonical_opaque: "write_canonical (base64_encode b) = opaque_text b"
  by (simp add: opaque_text_def canonical_is_marshal plain_base64)

lemma local_plain: "local_identity_ok i \<Longrightarrow> plain (pk_certificateSPKISHA256 (lid_keyReference i)) \<and> plain (pk_providerID (lid_keyReference i))"
  by (simp add: local_identity_ok_def Let_def plain_digest plain_provider)

lemma local_written_as: "local_identity_ok i \<Longrightarrow> writeLocalIdentity i = object_text (local_members i)"
  using local_plain [of i]
  by (simp add: writeLocalIdentity_def local_members_def key_members_def member_defs object_text_def json_obj_def json_arr_def
      canonical_opaque canonical_is_marshal Let_def)

lemma remote_written_as: "writeRemoteIdentity i = object_text (remote_members i)"
  by (simp add: writeRemoteIdentity_def remote_members_def member_defs object_text_def json_obj_def canonical_opaque)

lemma written_local:
  assumes lib: "lib_ok lib" and ok: "local_identity_ok i"
  shows "written lib (writeLocalIdentity i) (object_tree (local_members i)) True"
proof -
  have v: "pk_providerVersion (lid_keyReference i) \<le> int64_max" using ok by (simp add: local_identity_ok_def Let_def)
  have "written lib (object_text (key_members (lid_keyReference i))) (object_tree (key_members (lid_keyReference i)))
     (object_good (key_members (lid_keyReference i)))"
    using local_plain [OF ok] lib by (intro written_obj) (simp_all add: key_members_def member_defs key_defs written_uint written_opaque written_plain)
  then have k: "written lib (object_text (key_members (lid_keyReference i))) (object_tree (key_members (lid_keyReference i))) True"
    using v by (simp add: key_members_def member_defs object_good_def)
  have "written lib (json_arr (map opaque_text (lid_certificateChainDER i))) (JArray (map (\<lambda>c. JString (base64_encode c)) (lid_certificateChainDER i)))
     (list_all (\<lambda>_. True) (lid_certificateChainDER i))"
    using lib by (intro written_arr written_opaque)
  then have "written lib (object_text (local_members i)) (object_tree (local_members i)) (object_good (local_members i))"
    using k lib by (intro written_obj) (simp_all add: local_members_def Let_def opaque_member_def key_defs written_opaque list_all_iff)
  then show ?thesis by (simp add: local_written_as [OF ok] local_members_def Let_def object_good_def opaque_member_def)
qed

lemma written_remote:
  assumes lib: "lib_ok lib" and ok: "remote_identity_ok lib i"
  shows "written lib (writeRemoteIdentity i) (object_tree (remote_members i)) True"
proof -
  have "written lib (object_text (remote_members i)) (object_tree (remote_members i)) (object_good (remote_members i))"
    using ok lib by (intro written_obj) (simp_all add: remote_members_def member_defs key_defs written_opaque written_canonical remote_identity_ok_def)
  then show ?thesis by (simp add: remote_written_as remote_members_def member_defs object_good_def)
qed

lemma nonempty_length: "b \<noteq> [] \<Longrightarrow> 1 \<le> length b"
  by (cases b) auto

lemma decode_local_tree:
  assumes ok: "local_identity_ok i"
  shows "decode_local (object_tree (local_members i)) = Some i"
proof -
  let ?chain = "lid_certificateChainDER i"
  note one = nonempty_length [simplified]
  have "length c \<le> maxCertificateBytes" if "c \<in> set ?chain" for c
    using ok that member_le_sum_list [of "length c" "map length ?chain"] by (force simp: local_identity_ok_def Let_def)
  then have c: "decodeCanonicalBase64 (base64_encode c) 1 maxCertificateBytes = Some c" if "c \<in> set ?chain" for c
    using ok that by (intro read_base64 nonempty_length) (auto simp: local_identity_ok_def Let_def list_all_iff)
  have "all_some (map (\<lambda>c. decodeCanonicalBase64 (base64_encode c) 1 maxCertificateBytes) ?chain) = Some ?chain"
    using all_some_map [of ?chain "\<lambda>c. decodeCanonicalBase64 (base64_encode c) 1 maxCertificateBytes" id] c by simp
  moreover have "1 \<le> length (lid_localSKI i)" "1 \<le> length (pk_sealedBlob (lid_keyReference i))"
    using ok by (simp_all add: local_identity_ok_def Let_def one)
  ultimately show ?thesis using ok
    by (cases i, cases "lid_keyReference i") (simp add: decode_local_def object_tree_Cons local_members_def key_members_def member_defs field_defs
        read_base64 Let_def local_identity_ok_def o_def)
qed

lemma decode_remote_tree: "remote_identity_ok lib i \<Longrightarrow> decode_remote (object_tree (remote_members i)) = Some i"
  using nonempty_length [of "rid_recordID i"] nonempty_length [of "rid_remoteSKI i"]
  by (cases i) (simp add: decode_remote_def object_tree_Cons remote_members_def member_defs field_defs read_base64 remote_identity_ok_def)

lemma within_identities: "4 \<le> d \<Longrightarrow> within d (object_tree (local_members i))" "2 \<le> d \<Longrightarrow> within d (object_tree (remote_members r))"
  by (auto simp: within_object local_members_def key_members_def remote_members_def member_defs Let_def list_all_iff)

subsection \<open>Generations\<close>

definition metadata_members :: "generationMetadata \<Rightarrow> written_member list" where
  "metadata_members m =
     [(''parent_sequence'', optional_text uint_text (gm_parentSequence m),
         (case gm_parentSequence m of None \<Rightarrow> JNull | Some p \<Rightarrow> JNumber (uint_text p)), True),
      (''parent_sha256'', optional_text write_canonical (gm_parentSHA256 m),
         (case gm_parentSHA256 m of None \<Rightarrow> JNull | Some d \<Rightarrow> JString d), True),
      num_member ''sequence'' (gm_sequence m)]"

definition local_option_tree :: "localIdentityV1 option \<Rightarrow> json" where
  "local_option_tree i = (case i of None \<Rightarrow> JNull | Some l \<Rightarrow> object_tree (local_members l))"

definition generation_members :: "slib \<Rightarrow> generationV1 \<Rightarrow> written_member list" where
  "generation_members lib g = (let s = gn_state g in
     [control_member lib s,
      (''generation'', object_text (metadata_members (gn_metadata g)), object_tree (metadata_members (gn_metadata g)), True),
      (''local_identity'', optional_text writeLocalIdentity (sd_localIdentity s), local_option_tree (sd_localIdentity s), True),
      (''remote_identities'', json_arr (map writeRemoteIdentity (sd_remoteIdentities s)),
         JArray (map (\<lambda>i. object_tree (remote_members i)) (sd_remoteIdentities s)), True),
      num_member ''schema_version'' (gn_schemaVersion g)])"

lemma remotes_loop_ok: "remotes_loop lib p a b c is \<Longrightarrow> list_all (remote_identity_ok lib) is"
  by (induction lib p a b c "is" rule: remotes_loop.induct) (auto split: if_splits)

lemma control_member_text:
  assumes "validateStateV1 lib s"
  shows "sd_controlEnvelope s = [] \<Longrightarrow> controlRecordV3FromStateV1 s = None"
    and "sd_controlEnvelope s \<noteq> [] \<Longrightarrow> \<exists>rec. controlRecordV3FromStateV1 s = Some rec \<and> encodeControlRecordV3 rec = Some (sd_controlEnvelope s)"
  using assms decoded_range
  by (auto simp: controlRecordV3FromStateV1_def validateStateV1_def validControlRecordV3Envelope_def encodeControlRecordV3_def check_def)

lemma generation_encoded:
  assumes "encodeGenerationV1 lib g = Some t"
  shows "t = object_text (generation_members lib g) @ [CHR 0x0A]" and "length t \<le> maxGenerationBytes"
    and "validateGenerationMetadata (gn_metadata g)" and "validateStateV1 lib (gn_state g)" and "gn_schemaVersion g = currentSchemaVersion"
proof -
  show v: "validateGenerationMetadata (gn_metadata g)" "validateStateV1 lib (gn_state g)" "gn_schemaVersion g = currentSchemaVersion"
    and "length t \<le> maxGenerationBytes"
    using assms by (auto simp: encodeGenerationV1_def check_def Let_def split: if_splits option.splits)
  note c = control_member_text [OF v(2)]
  show "t = object_text (generation_members lib g) @ [CHR 0x0A]"
  proof (cases "sd_controlEnvelope (gn_state g) = []")
    case True
    then show ?thesis using assms v c(1)
      by (auto simp: encodeGenerationV1_def check_def Let_def generation_members_def control_member_def metadata_members_def num_member_def
          object_text_def json_obj_def json_arr_def split: if_splits)
  next
    case False
    then show ?thesis using assms v c(2)
      by (auto simp: encodeGenerationV1_def check_def Let_def generation_members_def control_member_def metadata_members_def num_member_def
          object_text_def json_obj_def json_arr_def split: if_splits)
  qed
qed

lemma written_metadata:
  assumes lib: "lib_ok lib" and m: "validateGenerationMetadata m"
  shows "written lib (object_text (metadata_members m)) (object_tree (metadata_members m)) True"
proof -
  have "written lib (optional_text uint_text (gm_parentSequence m)) (case gm_parentSequence m of None \<Rightarrow> JNull | Some p \<Rightarrow> JNumber (uint_text p)) True"
    using m written_uint [of lib] written_literals
    by (auto simp: optional_text_def validateGenerationMetadata_def split: option.splits) (metis (full_types))+
  moreover have "written lib (optional_text write_canonical (gm_parentSHA256 m)) (case gm_parentSHA256 m of None \<Rightarrow> JNull | Some d \<Rightarrow> JString d) True"
    using m written_canonical [OF schema_plain [OF lib plain_digest]] written_literals
    by (auto simp: optional_text_def validateGenerationMetadata_def split: option.splits)
  ultimately have "written lib (object_text (metadata_members m)) (object_tree (metadata_members m)) (object_good (metadata_members m))"
    using lib by (intro written_obj) (simp_all add: metadata_members_def num_member_def key_defs written_uint)
  then show ?thesis using m by (simp add: metadata_members_def num_member_def object_good_def validateGenerationMetadata_def)
qed

lemma written_control_member:
  assumes "lib_ok lib" "validateStateV1 lib s"
  shows "case control_member lib s of (k, t, v, good) \<Rightarrow> k = ''control'' \<and> written lib t v good \<and> good = state_readable lib s"
proof (cases "controlRecordV3FromStateV1 s")
  case None
  then show ?thesis by (simp add: control_member_def written_literals state_readable_def)
next
  case (Some rec)
  then have "decodeControlRecordV3 (sd_controlEnvelope s) = Some rec" by (simp add: controlRecordV3FromStateV1_def split: if_splits)
  then show ?thesis using decoded_range [of _ rec] written_control [OF assms(1), of rec] Some by (auto simp: control_member_def state_readable_def)
qed

lemma written_generation:
  assumes lib: "lib_ok lib" and e: "encodeGenerationV1 lib g = Some t"
  shows "written lib (object_text (generation_members lib g)) (object_tree (generation_members lib g)) (state_readable lib (gn_state g))"
proof -
  let ?s = "gn_state g"
  note v = generation_encoded [OF e]
  obtain ct cv where c: "control_member lib ?s = (''control'', ct, cv, state_readable lib ?s)" "written lib ct cv (state_readable lib ?s)"
    using written_control_member [OF lib v(4)] by (cases "control_member lib ?s") auto
  have loc: "written lib (optional_text writeLocalIdentity (sd_localIdentity ?s)) (local_option_tree (sd_localIdentity ?s)) True"
    using v(4) written_local [OF lib] written_literals
    by (auto simp: optional_text_def local_option_tree_def validateStateV1_def split: option.splits)
  have "list_all (remote_identity_ok lib) (sd_remoteIdentities ?s)" using v(4) remotes_loop_ok by (auto simp: validateStateV1_def)
  then have "written lib (json_arr (map writeRemoteIdentity (sd_remoteIdentities ?s)))
     (JArray (map (\<lambda>i. object_tree (remote_members i)) (sd_remoteIdentities ?s))) (list_all (\<lambda>_. True) (sd_remoteIdentities ?s))"
    using written_remote [OF lib] by (intro written_arr) (simp add: list_all_iff)
  then have rem: "written lib (json_arr (map writeRemoteIdentity (sd_remoteIdentities ?s)))
     (JArray (map (\<lambda>i. object_tree (remote_members i)) (sd_remoteIdentities ?s))) True" by (simp add: list_all_iff)
  have "written lib (object_text (generation_members lib g)) (object_tree (generation_members lib g)) (object_good (generation_members lib g))"
    using c loc rem lib written_metadata [OF lib v(3)]
    by (intro written_obj) (simp_all add: generation_members_def Let_def num_member_def key_defs written_uint)
  moreover have "currentSchemaVersion \<le> int64_max" by (simp add: currentSchemaVersion_def int64_max_def)
  ultimately show ?thesis using c(1) v(5) by (simp add: generation_members_def Let_def num_member_def object_good_def)
qed

lemma within_members:
  "within 7 (case control_member lib s of (k, t, v, good) \<Rightarrow> v)" "within 7 (object_tree (metadata_members m))" "within 7 (local_option_tree l)"
  "within 7 (JArray (map (\<lambda>i. object_tree (remote_members i)) rs))"
proof -
  show "within 7 (case control_member lib s of (k, t, v, good) \<Rightarrow> v)"
    using within_control [of 7] by (simp add: control_member_def split: option.split)
  show "within 7 (object_tree (metadata_members m))"
    by (auto simp: within_object metadata_members_def num_member_def split: option.split)
  show "within 7 (local_option_tree l)" using within_identities(1) [of 7] by (simp add: local_option_tree_def split: option.split)
  show "within 7 (JArray (map (\<lambda>i. object_tree (remote_members i)) rs))"
    using within_identities(2) [of 6] by (simp add: list_all_iff)
qed

lemma control_member_shape: "\<exists>t v b. control_member lib s = (''control'', t, v, b) \<and> within 7 v"
  using within_members(1) [of lib s] by (auto simp: control_member_def split: option.splits)

lemma within_generation: "within maxJSONDepth (object_tree (generation_members lib g))"
proof -
  obtain t v b where c: "control_member lib (gn_state g) = (''control'', t, v, b)" "within 7 v" using control_member_shape by blast
  show ?thesis using c within_members(2) [of "gn_metadata g"] within_members(3) [of "sd_localIdentity (gn_state g)"]
      within_members(4) [of "sd_remoteIdentities (gn_state g)"]
    by (simp only: within_object [of _ "generation_members lib g"]) (simp add: generation_members_def Let_def num_member_def maxJSONDepth_def)
qed

lemma preflight_local:
  "local_identity_ok i \<Longrightarrow> preflightLocalIdentity (object_tree (local_members i))"
proof -
  assume ok: "local_identity_ok i"
  have "within 6 (object_tree (key_members k))" for k by (auto simp: within_object key_members_def member_defs)
  then show ?thesis using ok
    by (simp add: preflightLocalIdentity_def object_tree_Cons local_members_def Let_def opaque_member_def preflightBoundedArray_def
        skip_within maxJSONDepth_def local_identity_ok_def list_all_iff)
qed

lemma preflight_generation:
  assumes lib: "lib_ok lib" and e: "encodeGenerationV1 lib g = Some t"
  shows "preflightGenerationArrayBounds t"
proof -
  let ?s = "gn_state g"
  note v = generation_encoded [OF e]
  have "denotes (object_text (generation_members lib g)) (object_tree (generation_members lib g))"
    using written_generation [OF assms] by (simp add: written_def)
  then have r: "read_value (Suc (length t)) t = Some (object_tree (generation_members lib g), [CHR 0x0A])"
    using denotesD [of _ _ "Suc (length t)" "[CHR 0x0A]"] v(1) by simp
  obtain ct cv b where c: "control_member lib ?s = (''control'', ct, cv, b)" "within 7 cv" using control_member_shape by blast
  have loc: "preflightLocalIdentity (local_option_tree (sd_localIdentity ?s))"
    using v(4) preflight_local
    by (cases "sd_localIdentity ?s") (simp_all add: local_option_tree_def validateStateV1_def, simp add: preflightLocalIdentity_def)
  have rem: "preflightBoundedArray maxRemoteIdentityCount 2 (JArray (map (\<lambda>i. object_tree (remote_members i)) (sd_remoteIdentities ?s)))"
    using v(4) within_identities(2) [of 6]
    by (simp add: preflightBoundedArray_def skip_within maxJSONDepth_def validateStateV1_def list_all_iff)
  show ?thesis using v(1,2) r c loc rem within_members(2) [of "gn_metadata g"]
    by (simp add: preflightGenerationArrayBounds_def generation_members_def Let_def object_tree_Cons num_member_def skip_within maxJSONDepth_def)
qed

lemma decode_metadata_tree:
  assumes "validateGenerationMetadata m"
  shows "decodeGenerationMetadata (object_tree (metadata_members m)) = Some m"
  using assms
  by (cases m, cases "gm_parentSequence m"; cases "gm_parentSHA256 m")
     (simp_all add: decodeGenerationMetadata_def metadata_members_def num_member_def object_tree_Cons field_defs check_def Let_def)

lemma control_member_decoded:
  assumes "validateStateV1 lib s" and "map_of ms ''control'' = Some (t, v)" and "control_member lib s = (''control'', t, v, b)"
  shows "decode_generation_control ms = Some (controlRecordV3FromStateV1 s)"
    and "(case controlRecordV3FromStateV1 s of None \<Rightarrow> Some [] | Some rec \<Rightarrow> encodeControlRecordV3 rec) = Some (sd_controlEnvelope s)"
proof -
  note c = control_member_text [OF assms(1)]
  show "(case controlRecordV3FromStateV1 s of None \<Rightarrow> Some [] | Some rec \<Rightarrow> encodeControlRecordV3 rec) = Some (sd_controlEnvelope s)"
    using c by (cases "sd_controlEnvelope s = []") (auto simp: controlRecordV3FromStateV1_def)
  have null: "decodeControlRecordV3 ''null'' = None"
  proof -
    have "encodeControlRecordV3Unchecked rec \<noteq> ''null''" for rec by (simp add: encodeControlRecordV3Unchecked_def json_obj_def)
    then show ?thesis using decoded_range(3) by (cases "decodeControlRecordV3 ''null''") auto
  qed
  show "decode_generation_control ms = Some (controlRecordV3FromStateV1 s)"
    using assms c null by (auto simp: decode_generation_control_def control_member_def controlRecordV3FromStateV1_def split: option.splits if_splits)
qed

lemma decode_remotes:
  "list_all (remote_identity_ok lib) rs \<Longrightarrow> all_some (map decode_remote (map (\<lambda>i. object_tree (remote_members i)) rs)) = Some rs"
  using all_some_map [of rs "\<lambda>i. decode_remote (object_tree (remote_members i))" id] decode_remote_tree [of lib]
  by (simp add: list_all_iff o_def)

lemma generation_decoded:
  assumes lib: "lib_ok lib" and e: "encodeGenerationV1 lib g = Some t"
  shows "decodeGenerationV1 lib t = (if state_readable lib (gn_state g) then Some g else None)"
proof -
  let ?s = "gn_state g"
  note v = generation_encoded [OF e]
  have doc: "validateCanonicalJSON lib t maxGenerationBytes maxJSONDepth =
     (if state_readable lib ?s then Some (object_tree (generation_members lib g)) else None)"
    using canonical_document [OF written_generation [OF lib e] last_object within_generation] v(1,2) by simp
  have "denotes (object_text (generation_members lib g)) (object_tree (generation_members lib g))"
    using written_generation [OF assms] by (simp add: written_def)
  then have read: "read_document t = Some (object_tree (generation_members lib g))" using read_document_line v(1) by simp
  obtain ct cv b where c: "control_member lib ?s = (''control'', ct, cv, b)" using control_member_shape by blast
  note control = control_member_decoded [OF v(4) _ c]
  let ?ms = "[(''control'', ct, cv),
     (''generation'', object_text (metadata_members (gn_metadata g)), object_tree (metadata_members (gn_metadata g))),
     (''local_identity'', optional_text writeLocalIdentity (sd_localIdentity ?s), local_option_tree (sd_localIdentity ?s)),
     (''remote_identities'', json_arr (map writeRemoteIdentity (sd_remoteIdentities ?s)),
         JArray (map (\<lambda>i. object_tree (remote_members i)) (sd_remoteIdentities ?s))),
     (''schema_version'', uint_text (gn_schemaVersion g), JNumber (uint_text (gn_schemaVersion g)))]"
  have tree: "object_tree (generation_members lib g) = JObject ?ms"
    using c by (simp add: generation_members_def Let_def object_tree_Cons num_member_def)
  have version: "generationSchemaVersion t = currentSchemaVersion"
    using v(5) read tree by (simp add: generationSchemaVersion_def field_defs)
  have loc: "pointer_field decode_local ?ms ''local_identity'' = Some (sd_localIdentity ?s)"
    using v(4) decode_local_tree object_tree_not_null
    by (cases "sd_localIdentity ?s") (auto simp: field_defs local_option_tree_def validateStateV1_def)
  have rem: "list_field decode_remote ?ms ''remote_identities'' = Some (sd_remoteIdentities ?s)"
    using v(4) decode_remotes [OF remotes_loop_ok [of lib None "[]" "[]" "[]"]] by (simp add: field_defs validateStateV1_def)
  have meta: "struct_field decodeGenerationMetadata ?ms ''generation'' = Some (gn_metadata g)"
    using decode_metadata_tree [OF v(3)] by (simp add: field_defs)
  have closed: "closed_fields [''control'', ''generation'', ''local_identity'', ''remote_identities'', ''schema_version''] (JObject ?ms) = Some ?ms"
    by (simp add: closed_fields_def)
  have state: "decodeStateV1 lib (sd_localIdentity ?s) (sd_remoteIdentities ?s) = Some (?s\<lparr>sd_controlEnvelope := []\<rparr>)"
    using v(4) by (cases ?s) (simp add: decodeStateV1_def check_def validateStateV1_def Let_def)
  have self: "\<lparr>gn_metadata = gn_metadata g, gn_state = ?s\<lparr>sd_controlEnvelope := sd_controlEnvelope ?s\<rparr>, gn_schemaVersion = currentSchemaVersion\<rparr> = g"
    using v(5) by (cases g) simp
  have ctl: "decode_generation_control ?ms = Some (controlRecordV3FromStateV1 ?s)" using control(1) [of ?ms] by simp
  have env: "(case controlRecordV3FromStateV1 ?s of None \<Rightarrow> Some [] | Some rec \<Rightarrow> encodeControlRecordV3 rec) = Some (sd_controlEnvelope ?s)"
    using control(2) [of ?ms] by simp
  show ?thesis
    using preflight_generation [OF lib e] doc version e self
    by (simp add: decodeGenerationV1_def tree closed ctl env loc rem meta state check_def Let_def)
qed

subsection \<open>A generation with one attempt\<close>

definition sample_lib :: slib where "sample_lib = \<lparr>sl_sha256 = (\<lambda>_. replicate 32 (CHR 0x00)), sl_nfc = (\<lambda>_. True)\<rparr>"

definition sample_attempt :: "string \<Rightarrow> controlAttempt" where
  "sample_attempt path = \<lparr>ka_stateCode = 1, ka_attemptID = replicate 32 (CHR 0x01), ka_remoteSKI = replicate 20 (CHR 0x02),
     ka_scope = replicate 32 (CHR 0x03), ka_controlEpoch = 1, ka_associationLineage = replicate 32 (CHR 0x04), ka_endpointHost = ''h'',
     ka_endpointPort = 7, ka_path = path, ka_cancellationGeneration = 1, ka_reservationOrder = 1, ka_reservationTimestamp = 0,
     ka_attemptCountBefore = 0\<rparr>"

definition sample_record :: "string \<Rightarrow> controlRecordV3" where
  "sample_record path = \<lparr>kc_storeInstance = replicate 32 (CHR 0x05), kc_controlEpoch = 1, kc_associationLineage = replicate 32 (CHR 0x04),
     kc_tombstones = [], kc_quarantines = [], kc_receipts = [], kc_attempts = [sample_attempt path], kc_operationHighWater = 0,
     kc_repairSequence = 0, kc_publication = None\<rparr>"

definition sample_generation :: "string \<Rightarrow> generationV1" where
  "sample_generation path = \<lparr>gn_metadata = \<lparr>gm_sequence = 1, gm_parentSequence = None, gm_parentSHA256 = None\<rparr>,
     gn_state = withControlRecordV3 state_zero (sample_record path), gn_schemaVersion = currentSchemaVersion\<rparr>"


lemma sample_digits: "char_of (50 :: nat) = CHR ''2''" "char_of (54 :: nat) = CHR ''6''"
  by code_simp+

lemma sample_chunks: "go_chunks ''/a&b'' = [(47, ''/''), (97, ''a''), (38, ''&''), (98, ''b'')]"
  by (subst go_chunks_ascii) simp_all

lemma sample_escape:
  "marshal_escape (47, ''/'') = ''/''" "marshal_escape (97, ''a'') = ''a''" "marshal_escape (98, ''b'') = ''b''"
  "marshal_escape (38, ''&'') = CHR 0x5C # ''u0026''"
  by (simp_all add: marshal_escape_def json_escape_def hex_digit_def chunk_valid_def chunk_bytes_def Let_def sample_digits)

lemma sample_texts:
  "marshal_string ''/a&b'' = [CHR 0x22] @ ''/a'' @ [CHR 0x5C] @ ''u0026b'' @ [CHR 0x22]"
  "marshal_string ''/ship/'' = CHR 0x22 # ''/ship/'' @ [CHR 0x22]" "marshal_string ''h'' = CHR 0x22 # ''h'' @ [CHR 0x22]"
proof -
  show "marshal_string ''/a&b'' = [CHR 0x22] @ ''/a'' @ [CHR 0x5C] @ ''u0026b'' @ [CHR 0x22]"
    by (simp add: marshal_string_def sample_chunks sample_escape del: go_chunks.simps)
qed (simp_all add: plain_text plain_code_def)

lemma length_opaque: "length (opaque_text b) = (length b + 2) div 3 * 4 + 2"
  by (simp add: opaque_text_def plain_text(1) [OF plain_base64] length_base64_encode)

lemma sample_numbers: "uint_text 0 = ''0''" "uint_text 1 = ''1''" "uint_text 3 = ''3''" "dec_nat 7 = ''7''" "dec_int 0 = ''0''" by code_simp+

lemma sample_valid:
  assumes "path = ''/a&b'' \<or> path = ''/ship/''"
  shows "validateControlRecordV3 (sample_record path)" "control_range (sample_record path)"
proof -
  have p: "ascii path" "length path \<le> 6" "has_prefix ''/'' path" "\<not> List.member (map of_char path) (0::nat)" using assms by auto
  show "control_range (sample_record path)" by (simp add: control_range_def sample_record_def sample_attempt_def)
  have "validControlAttemptPath path" using p by (simp add: validControlAttemptPath_def ascii_valid ascii_runes maxControlAttemptPath_def)
  moreover have "go_chunks ''h'' = [(104, ''h'')]" by (subst go_chunks_ascii) simp_all
  then have "trim_space ''h'' = ''h''" by (simp add: trim_space_def is_space_def)
  then have "validControlEndpointHost ''h''"
    by (simp add: validControlEndpointHost_def ascii_valid ascii_runes maxControlEndpointHost_def)
  ultimately show "validateControlRecordV3 (sample_record path)"
    by (simp add: validateControlRecordV3_def validateControlRecordBase_def validateControlAttempts_def sample_record_def sample_attempt_def
        attempt_ok_def store_limits uint16_max_def int64_max_def)
qed

lemma sample_encoded:
  assumes "path = ''/a&b'' \<or> path = ''/ship/''"
  shows "encodeGenerationV1 sample_lib (sample_generation path) \<noteq> None"
proof -
  have lib: "lib_ok sample_lib" by (simp add: lib_ok_def sample_lib_def)
  have s: "attempts_sorted (sample_record path) = sample_record path" by (simp add: attempts_sorted_def sorted_attempts_def sample_record_def)
  have d: "decodeControlRecordV3 (encodeControlRecordV3Unchecked (sample_record path)) = Some (sample_record path)"
    using control_roundtrip [OF lib sample_valid [OF assms]] s by simp
  have l: "length (encodeControlRecordV3Unchecked (sample_record path)) \<le> 1000"
    using assms
    by (elim disjE) (simp_all add: encodeControlRecordV3Unchecked_def json_obj_def json_arr_def attempt_text_def sample_record_def sample_attempt_def sorted_attempts_def
        optional_text_def length_opaque sample_texts sample_numbers)
  have "encodeControlRecordV3Unchecked (sample_record path) \<noteq> []" by (simp add: encodeControlRecordV3Unchecked_def json_obj_def)
  then show ?thesis
    using d l sample_valid [OF assms]
    by (simp add: encodeGenerationV1_def sample_generation_def validateGenerationMetadata_def int64_max_def validateStateV1_def withControlRecordV3_def
        state_zero_def maxRemoteIdentityCount_def validControlRecordV3Envelope_def controlRecordV3FromStateV1_def encodeControlRecordV3_def check_def
        optional_text_def sample_numbers Let_def currentSchemaVersion_def maxGenerationBytes_def)
qed

lemma sample_readable:
  "state_readable sample_lib (gn_state (sample_generation path)) \<longleftrightarrow> \<not> list_ex (\<lambda>r. List.member [38, 60, 62, 8232, 8233] r) (go_runes path)"
  if "path = ''/a&b'' \<or> path = ''/ship/''"
proof -
  have lib: "lib_ok sample_lib" by (simp add: lib_ok_def sample_lib_def)
  have d: "controlRecordV3FromStateV1 (gn_state (sample_generation path)) = Some (sample_record path)"
    using control_roundtrip [OF lib sample_valid [OF that]]
    by (auto simp: controlRecordV3FromStateV1_def sample_generation_def withControlRecordV3_def attempts_sorted_def sorted_attempts_def sample_record_def
        encodeControlRecordV3Unchecked_def json_obj_def)
  have "readable sample_lib ''h''" using readable_plain [OF lib, of "''h''"] by (simp add: plain_code_def)
  moreover have "validSchemaString sample_lib path" using that by (intro schema_ascii lib) auto
  ultimately show ?thesis
    using d by (simp add: state_readable_def control_readable_def sample_record_def sample_attempt_def attempt_readable_def readable_def int64_max_def)
qed



end
