(* ===== verification/StoreSafety.thy ===== *)
theory StoreSafety
  imports StoreFiles StoreGeneration Canonical
begin

text \<open>
  Commits keep the store readable: at every moment a crash leaves the state that was committed
  before or the one that is being committed, with its manifest and its generation intact.
\<close>

subsection \<open>Maintenance\<close>

lemma remove_loop_held:
  "held C G z s \<Longrightarrow> (\<And>n. n \<in> set names \<Longrightarrow> doomed n \<Longrightarrow> \<not> protected role G n) \<Longrightarrow>
     wp (remove_loop role doomed names changed) (\<lambda>_. held C G z) s"
proof (induction names arbitrary: changed s)
  case (Cons n names)
  have "wp (attempt (fs_remove role n) (\<lambda>_. remove_loop role doomed names True)) (\<lambda>_. held C G z) s" if "doomed n"
    by (rule wp_attempt [OF fs_remove_held [OF Cons.prems(1)]]) (use Cons that in auto)
  then show ?case using Cons by auto
qed simp

lemma sync_if_held: "held C G z s \<Longrightarrow> wp (sync_if role changed) (\<lambda>_. held C G z) s"
  using syncDirectory_spec [of C G z s role] by (auto simp: sync_if_def elim!: wp_mono)

lemma attempt_held:
  "wp m (\<lambda>_. held C G z) s \<Longrightarrow> (\<And>x s'. held C G z s' \<Longrightarrow> wp (k x) (\<lambda>_. held C G z) s') \<Longrightarrow> wp (attempt m k) (\<lambda>_. held C G z) s"
  by (rule wp_attempt)

definition keeps_references :: "slib \<Rightarrow> (string \<times> bytes) set \<Rightarrow> store \<Rightarrow> bool" where
  "keeps_references lib G s \<longleftrightarrow> (\<forall>l refs. shows_slots s l \<longrightarrow> publicationGenerationReferences lib l True = Inr refs \<longrightarrow> fst ` G \<subseteq> set refs)"

lemma doomed_unprotected:
  assumes "held C G z s"
  shows "manifestTempPattern n \<Longrightarrow> \<not> protected directoryRoot G n"
    and "fst ` G \<subseteq> set preserve \<Longrightarrow> generationTempPattern n \<or> parseGenerationName n \<noteq> None \<and> \<not> List.member preserve n \<Longrightarrow>
      \<not> protected directoryGenerations G n"
  using temporary_not_protected [OF held_fit [OF assms], of directoryRoot n]
    temporary_not_protected [OF held_fit [OF assms], of directoryGenerations n]
  by (auto simp: temporary_def protected_def)

lemma maintenance_held:
  assumes "held C G z s" and k: "keeps_references lib G s"
  shows "wp (maintenance lib) (\<lambda>_. held C G z) s"
  unfolding maintenance_def
proof (rule wp_attempt [OF verifyLayout_spec], goal_cases)
  case (2 layout s1)
  have h1: "held C G z s1" using held_same [OF assms(1)] 2 by blast
  have names: "wp (directoryNames role) (\<lambda>_. held C G z) s'" if "held C G z s'" for role s'
    using directoryNames_spec [of role s'] held_same [OF that] by (auto elim!: wp_mono)
  have rest: "wp (attempt (directoryNames directoryRoot) (\<lambda>rootNames.
      attempt (remove_loop directoryRoot manifestTempPattern rootNames False) (\<lambda>rootChanged.
      attempt (directoryNames directoryGenerations) (\<lambda>names.
      attempt (remove_loop directoryGenerations
        (\<lambda>name. generationTempPattern name \<or> parseGenerationName name \<noteq> None \<and> \<not> List.member preserve name)
        names False) (\<lambda>generationChanged.
      attempt (sync_if directoryRoot rootChanged) (\<lambda>_. sync_if directoryGenerations generationChanged)))))) (\<lambda>_. held C G z) s1"
    if "fst ` G \<subseteq> set preserve" for preserve
    using doomed_unprotected [OF h1] that h1
    by (intro attempt_held names remove_loop_held sync_if_held) assumption+
  show ?case using rest k 2 h1
    by (auto simp: keeps_references_def split: option.split sum.split)
qed (use assms(1) held_same in auto)

subsection \<open>Publication\<close>

lemma publishGeneration_spec:
  assumes "held C G z s" and f: "parseGenerationName f \<noteq> None" "f \<notin> fst ` G" and "gf_generationFile reference = f"
  shows "wp (publishGeneration reference payload)
    (\<lambda>r s'. held C G z s' \<and> (cr_err r = None \<longrightarrow> held C (insert (f, payload) G) z s')) s"
proof -
  let ?R = directoryGenerations
  have prefix: "''.tmp-generation-'' = temp_prefix ?R" by (simp add: temp_prefix_def)
  have new: "\<not> protected ?R G f" "proper ?R f" using f by (auto simp: protected_def proper_def generation_name_def)
  have fin: "held C (insert (f, payload) G) z s5"
    if "held C G z s5" "lookup ?R f s4 = Some \<lparr>fl_data = payload, fl_synced = True\<rparr>" "dir_of ?R s5 = (dir_of ?R s4)\<lparr>dr_past := []\<rparr>" for s4 s5
  proof -
    have "among f {Some payload} (dir_of ?R s5)" using that(2,3) by (simp add: among_def lookup_def entry_def)
    then show ?thesis using that(1) f(1) by (auto simp: held_def guards_def fit_def split: directoryRole.splits)
  qed
  show ?thesis unfolding publishGeneration_def prefix assms(4)
  proof (rule wp_refusing [OF createTemporary_spec [OF assms(1)]], simp add: commitFailure_def, goal_cases)
    case (1 t s1)
    then have t: "temporary ?R t" "lookup ?R t s1 = Some \<lparr>fl_data = [], fl_synced = False\<rparr>" and h1: "held C G z s1" by auto
    show ?case
    proof (rule wp_refusing [OF writeAll_spec [OF h1 t]], simp add: commitFailure_def, goal_cases)
      case (1 u s2)
      then have h2: "held C G z s2" and l2: "lookup ?R t s2 = Some \<lparr>fl_data = payload, fl_synced = False\<rparr>" by auto
      show ?case
      proof (rule wp_refusing [OF syncFile_spec [OF h2]], simp add: commitFailure_def, goal_cases)
        case (1 u s3)
        then have h3: "held C G z s3" and l3: "lookup ?R t s3 = Some \<lparr>fl_data = payload, fl_synced = True\<rparr>" using l2 by auto
        show ?case
        proof (rule wp_refusing [OF fs_rename_spec [OF h3 t(1) new l3]], goal_cases)
          case (2 u s4)
          then have h4: "held C G z s4" and l4: "lookup ?R f s4 = Some \<lparr>fl_data = payload, fl_synced = True\<rparr>" by auto
          show ?case by (rule wp_refusing [OF syncDirectory_spec [OF h4]]) (use l4 fin in \<open>auto simp: commitFailure_def commitDurable_def\<close>)
        qed (simp add: commitFailure_def)
      qed
    qed
  qed
qed

text \<open>The slot holds its old or its new content until the root is synchronised.\<close>

abbreviation joined :: "(manifestSlot \<Rightarrow> bytes option set) \<Rightarrow> manifestSlot \<Rightarrow> bytes \<Rightarrow> manifestSlot \<Rightarrow> bytes option set" where
  "joined C slot b \<equiv> C(slot := insert (Some b) (C slot))"

lemma fs_rename_slot:
  assumes "held C G z s" "temporary directoryRoot n" "lookup directoryRoot n s = Some \<lparr>fl_data = b, fl_synced = True\<rparr>"
  shows "wp (fs_rename directoryRoot n (manifestSlotFilename slot)) (\<lambda>r s'. if r = Inr () then
     held (joined C slot b) G z s' \<and> lookup directoryRoot (manifestSlotFilename slot) s' = Some \<lparr>fl_data = b, fl_synced = True\<rparr>
     else held C G z s') s"
  unfolding fs_rename_def
proof (rule wp_attempt [OF guarded_same], goal_cases)
  case (2 x s')
  let ?R = directoryRoot
  let ?f = "\<lparr>fl_data = b, fl_synced = True\<rparr>"
  let ?d = "rename_entries (\<lambda>es. put_entry (manifestSlotFilename slot) ?f (drop_entry n es)) (os_root s')"
  have h: "held C G z s'" using held_same [OF assms(1) 2] .
  have j: "held (joined C slot b) G z s'" using h by (auto simp: held_def elim!: guards_mono)
  have l: "lookup ?R n s' = Some ?f" using same_dir(2) [OF 2] assms(3) by simp
  have fit: "fit ?R (joined C slot b) G (os_root s')" using held_fit [OF j, of ?R] by (simp add: dir_of_def)
  have n: "n \<noteq> manifestSlotFilename k" for k using temporary_not_protected [OF held_fit [OF h] assms(2)] by auto
  have "among (manifestSlotFilename k) (joined C slot b k) ?d" for k
  proof -
    have a: "among (manifestSlotFilename k) (joined C slot b k) (os_root s')" using fit by (simp add: fit_def)
    have "map_of (put_entry (manifestSlotFilename slot) ?f (drop_entry n (dr_now (os_root s')))) (manifestSlotFilename k)
        \<in> entry ` joined C slot b k"
      using among_now [OF a] n [of k] by (cases slot; cases k) (auto simp: map_of_put map_of_drop entry_def)
    then show ?thesis by (rule among_rename [OF a])
  qed
  moreover have "root_name (manifestSlotFilename slot)" by (cases slot) (simp_all add: root_name_def)
  then have "all_named root_name ?d"
    using fit now_names [of root_name "os_root s'"] by (intro all_named_rename) (auto simp: fit_def names_put names_drop)
  ultimately have "fit ?R (joined C slot b) G ?d" by (simp add: fit_def)
  then have "held (joined C slot b) G z (set_dir ?R ?d s')" by (rule held_set [OF j])
  then show ?case using l by (simp add: dir_of_def rename_entries_def map_of_put)
qed (use assms(1) held_same in auto)

lemma publishManifest_spec:
  assumes "held C G z s"
  shows "wp (publishManifest slot b) (\<lambda>r s'. if cr_err r = None then held (joined C slot b) G z s' \<and>
      lookup directoryRoot (manifestSlotFilename slot) s' = Some \<lparr>fl_data = b, fl_synced = True\<rparr> else held C G z s') s"
proof -
  let ?R = directoryRoot
  have prefix: "''.tmp-manifest-'' = temp_prefix ?R" by (simp add: temp_prefix_def)
  show ?thesis unfolding publishManifest_def prefix
  proof (rule wp_refusing [OF createTemporary_spec [OF assms(1)]], simp add: commitFailure_def, goal_cases)
    case (1 t s1)
    then have t: "temporary ?R t" "lookup ?R t s1 = Some \<lparr>fl_data = [], fl_synced = False\<rparr>" and h1: "held C G z s1" by auto
    show ?case
    proof (rule wp_refusing [OF writeAll_spec [OF h1 t]], simp add: commitFailure_def, goal_cases)
      case (1 u s2)
      then have h2: "held C G z s2" and l2: "lookup ?R t s2 = Some \<lparr>fl_data = b, fl_synced = False\<rparr>" by auto
      show ?case
      proof (rule wp_refusing [OF syncFile_spec [OF h2]], simp add: commitFailure_def, goal_cases)
        case (1 u s3)
        then have h3: "held C G z s3" and l3: "lookup ?R t s3 = Some \<lparr>fl_data = b, fl_synced = True\<rparr>" using l2 by auto
        show ?case by (rule wp_refusing [OF fs_rename_slot [OF h3 t(1) l3]]) (auto simp: commitFailure_def commitDurable_def)
      qed
    qed
  qed
qed

lemma root_synced:
  assumes "held C G z s" and l: "lookup directoryRoot (manifestSlotFilename slot) s = Some \<lparr>fl_data = b, fl_synced = True\<rparr>"
  shows "wp (syncDirectory directoryRoot) (\<lambda>r s'. held C G z s' \<and> (r = Inr () \<longrightarrow> held (C(slot := {Some b})) G z s')) s"
proof (rule wp_mono [OF syncDirectory_spec [OF assms(1)]], intro conjI impI, simp, goal_cases)
  case (1 r s')
  have "among (manifestSlotFilename slot) {Some b} (dir_of directoryRoot s')" using 1 l by (simp add: among_def entry_def lookup_def)
  then show ?case using 1 by (auto simp: held_def guards_def fit_def split: directoryRole.splits)
qed

subsection \<open>What opening the store finds\<close>

definition bytes_of :: "bytes option \<Rightarrow> bytes" where
  "bytes_of c = (case c of None \<Rightarrow> [] | Some b \<Rightarrow> b)"

text \<open>The slots \<open>c\<close> select a manifest whose current generation is \<open>payload\<close> and holds the state.\<close>

definition found ::
  "slib \<Rightarrow> keys \<Rightarrow> (manifestSlot \<Rightarrow> bytes option) \<Rightarrow> selectedManifest \<Rightarrow> manifestPayloadV1 \<Rightarrow> bytes \<Rightarrow> stateV1 \<Rightarrow> bool" where
  "found lib keys c sel m payload st \<longleftrightarrow>
     selectManifestSlots lib (bytes_of (c manifestSlotA)) (bytes_of (c manifestSlotB)) = Inr sel \<and>
     (\<forall>slot. length (bytes_of (c slot)) \<le> maxManifestEnvelopeBytes) \<and>
     me_slotFormatVersion (sm_envelope sel) = currentSlotVersion \<and> decodeSelectedManifest lib (sm_payload sel) = Inr m \<and>
     validateCurrentManifestSchemas m = None \<and> length payload \<le> maxGenerationBytes \<and>
     sha256Hex lib payload = gf_generationSHA256 (mp_current m) \<and> generationSchemaVersion payload = gf_schemaVersion (mp_current m) \<and>
     (\<exists>g. decodeGenerationV1 lib payload = Some g \<and> generationMatchesManifest g m \<and> gn_state g = st) \<and>
     validateProtectedKeys lib keys st = None"

lemma valid_slotE:
  assumes "publicationValidSlot lib slot raw = Some sel"
  obtains e where "raw \<noteq> []" "decodeManifestSlot lib raw = Some e" "sm_payload sel = me_manifestPayload e"
proof -
  obtain e where "raw \<noteq> []" "decodeManifestSlot lib raw = Some e"
    "\<lparr>sm_slot = slot, sm_epoch = me_manifestEpoch e, sm_payload = me_manifestPayload e, sm_envelope = e, sm_envelopeRaw = raw\<rparr> = sel"
    using assms by (auto simp: publicationValidSlot_def split: if_splits option.splits)
  then show thesis by (intro that [of e]) auto
qed

lemma selected_slot:
  assumes "selectManifestSlots lib a b = Inr sel"
  shows "publicationValidSlot lib (sm_slot sel) (if sm_slot sel = manifestSlotA then a else b) = Some sel"
proof -
  have s: "publicationValidSlot lib slot raw = Some x \<Longrightarrow> sm_slot x = slot" for slot raw x
    by (auto simp: publicationValidSlot_def split: if_splits option.splits)
  show ?thesis using assms s by (auto simp: selectManifestSlots_def split: option.splits if_splits)
qed

lemma generation_file:
  assumes "n \<noteq> 0" "n \<le> int64_max"
  shows "parseGenerationName (generationFilename n) = Some n"
proof -
  have u: "unat n \<le> 9223372036854775807" using assms(2) unat_int64_max by (simp add: word_le_nat_alt)
  have "length (dec_nat (unat n)) \<le> 20" using u by (intro dec_nat_length) simp_all
  then have l: "length (pad 20 (unat n)) = 20" by (simp add: pad_def Let_def)
  have zeros: "parse_digits 0 (replicate k (CHR ''0'') @ d) = parse_digits 0 d" for k d
    by (induction k) (simp_all add: is_digit_def in_range_def)
  have "list_all is_digit (replicate k (CHR ''0''))" for k by (induction k) (simp_all add: is_digit_def in_range_def)
  then have d: "list_all is_digit (pad 20 (unat n))" by (simp add: pad_def Let_def decimal_digits)
  have p: "parse_digits 0 (pad 20 (unat n)) = Some (unat n)" by (simp add: pad_def Let_def zeros parse_decimal)
  have "unat n \<noteq> 0" using assms(1) by (simp add: unat_eq_0)
  then show ?thesis using l d p u assms(2)
    by (simp add: parseGenerationName_def generationNamePattern_def generationFilename_def unat_int64_max)
qed

lemma valid_file: "validateGenerationReference r \<Longrightarrow> parseGenerationName (gf_generationFile r) = Some (gf_generation r)"
  by (auto simp: validateGenerationReference_def generation_file)

lemma decodeManifest_current: "decodeManifestPayloadV1 lib p = Some m \<Longrightarrow> encodeManifestPayloadV1 m = Some p"
  by (auto simp: decodeManifestPayloadV1_def bind_eq_Some_conv check_def Let_def split: if_splits)

lemma decodeSelected_payload: "decodeSelectedManifest lib p = Inr m \<Longrightarrow> decodeManifestPayloadV1 lib p = Some m"
  by (auto simp: decodeSelectedManifest_def split: if_splits option.splits)

lemma found_reference:
  assumes "found lib keys c sel m payload st"
  shows "validateGenerationReference (mp_current m)"
  using assms manifest_encoded(4) [OF decodeManifest_current [OF decodeSelected_payload]] by (auto simp: found_def)

text \<open>The references of a manifest that was selected name its current generation.\<close>

lemma forward_reference:
  "decodeGenerationReference v = Some r \<Longrightarrow> decodeForwardGenerationReference v = Some r' \<Longrightarrow> r' = r"
  by (cases v) (auto simp: decodeGenerationReference_def decodeForwardGenerationReference_def closed_fields_def bind_eq_Some_conv Let_def
      check_def split: if_splits)

lemma extracted_current:
  assumes "decodeManifestPayloadV1 lib p = Some m" "extractManifestGenerationReferences lib p = Some refs"
  shows "gf_generationFile (mp_current m) \<in> gf_generationFile ` set refs"
proof -
  obtain v where v: "validateCanonicalJSON lib p maxManifestPayloadBytes maxJSONDepth = Some v"
    using assms(1) by (auto simp: decodeManifestPayloadV1_def bind_eq_Some_conv)
  obtain ms where ms: "v = JObject ms" using assms(2) v
    by (cases v) (auto simp: extractManifestGenerationReferences_def bind_eq_Some_conv split: option.splits prod.splits)
  obtain raw x where x: "map_of ms ''current'' = Some (raw, x)" using assms(2) v ms
    by (auto simp: extractManifestGenerationReferences_def bind_eq_Some_conv split: option.splits prod.splits)
  have "decodeGenerationReference x = Some (mp_current m)" using assms(1) v ms x
    by (auto simp: decodeManifestPayloadV1_def bind_eq_Some_conv closed_fields_def struct_field_def check_def Let_def split: if_splits)
  moreover obtain r where "decodeForwardGenerationReference x = Some r" "r \<in> set refs" using assms(2) v ms x
    by (auto simp: extractManifestGenerationReferences_def bind_eq_Some_conv split: option.splits prod.splits if_splits)
  ultimately show ?thesis using forward_reference by blast
qed

lemma references_kept: "references_loop lib safe raws acc = Inr refs \<Longrightarrow> set acc \<subseteq> set refs"
proof (induction raws arbitrary: acc)
  case (Cons raw raws)
  then show ?case by (auto split: if_splits option.splits) fastforce+
qed simp

lemma references_include:
  "references_loop lib True raws acc = Inr refs \<Longrightarrow> raw \<in> set raws \<Longrightarrow> raw \<noteq> [] \<Longrightarrow> decodeManifestSlot lib raw = Some e \<Longrightarrow>
     extractManifestGenerationReferences lib (me_manifestPayload e) = Some rs \<Longrightarrow> gf_generationFile ` set rs \<subseteq> set refs"
proof (induction raws arbitrary: acc)
  case (Cons r raws)
  then show ?case using references_kept [of lib True raws _ refs] by (auto split: if_splits option.splits) fastforce+
qed simp

lemma references_safe:
  "references_loop lib True raws acc = Inr refs \<Longrightarrow> raw \<in> set raws \<Longrightarrow> raw \<noteq> [] \<Longrightarrow> decodeManifestSlot lib raw = Some e \<Longrightarrow>
     extractManifestGenerationReferences lib (me_manifestPayload e) \<noteq> None"
  by (induction raws arbitrary: acc) (auto split: if_splits option.splits)

lemma found_referenced:
  assumes f: "found lib keys c sel m payload st"
    and "publicationGenerationReferences lib l True = Inr refs" "ls_slotA l = bytes_of (c manifestSlotA)" "ls_slotB l = bytes_of (c manifestSlotB)"
  shows "gf_generationFile (mp_current m) \<in> set refs"
proof -
  let ?raw = "if sm_slot sel = manifestSlotA then ls_slotA l else ls_slotB l"
  have "publicationValidSlot lib (sm_slot sel) ?raw = Some sel" using f selected_slot assms(3,4) by (auto simp: found_def)
  then obtain e where e: "?raw \<noteq> []" "decodeManifestSlot lib ?raw = Some e" "sm_payload sel = me_manifestPayload e"
    by (rule valid_slotE)
  have r: "references_loop lib True [ls_slotA l, ls_slotB l] [] = Inr refs" using assms(2) by (simp add: publicationGenerationReferences_def)
  have raw: "?raw \<in> set [ls_slotA l, ls_slotB l]" by simp
  obtain rs where rs: "extractManifestGenerationReferences lib (me_manifestPayload e) = Some rs"
    using references_safe [OF r raw e(1,2)] by blast
  have "decodeManifestPayloadV1 lib (me_manifestPayload e) = Some m" using f e(3) decodeSelected_payload by (simp add: found_def)
  then show ?thesis using extracted_current [OF _ rs] references_include [OF r raw e(1,2) rs] by blast
qed

subsection \<open>The documents of a commit\<close>

lemma current_valid: "encodeManifestPayloadV1 m = Some b \<Longrightarrow> 1 \<le> length b"
  using manifest_encoded(1) [of m b] by simp

lemma word_step: "x + 1 \<noteq> 0 \<Longrightarrow> x < (x + 1 :: uint64)"
  using word_succ_gt [of x] by (cases "x = - 1") (simp_all add: word_less_nat_alt)

lemma manifest_selected:
  assumes "lib_ok lib" "encodeManifestPayloadV1 m = Some b"
  shows "decodeSelectedManifest lib b = Inr m"
proof -
  have doc: "decodeManifestPayloadV1 lib b = Some m"
    "validateCanonicalJSON lib b maxManifestPayloadBytes maxJSONDepth = Some (object_tree (manifest_members m))"
    using manifest_roundtrip [OF assms] manifest_document [OF assms] by auto
  then have "read_document b = Some (object_tree (manifest_members m))"
    by (auto simp: validateCanonicalJSON_def split: if_splits option.splits)
  then have "decodeManifestVersion b = Some 1"
    by (simp add: decodeManifestVersion_def object_tree_Cons manifest_members_def member_defs)
  then show ?thesis using doc by (simp add: decodeSelectedManifest_def currentManifestVersion_def)
qed

lemma envelope_valid:
  assumes lib: "lib_ok lib" and e: "encodeManifestSlot lib (commit_envelope lib epoch b) = Some raw"
  shows "publicationValidSlot lib slot raw = Some \<lparr>sm_slot = slot, sm_epoch = epoch, sm_payload = b,
      sm_envelope = commit_envelope lib epoch b, sm_envelopeRaw = raw\<rparr>"
    and "length raw \<le> maxManifestEnvelopeBytes" and "epoch \<noteq> 0"
proof -
  have "currentSlotVersion \<le> int64_max" by (simp add: currentSlotVersion_def int64_max_def)
  then have "decodeManifestSlot lib raw = Some (commit_envelope lib epoch b)"
    by (intro slot_roundtrip [OF lib e]) (simp_all add: commit_envelope_def)
  moreover have "raw \<noteq> []" using slot_encoded(1) [OF lib e] by simp
  ultimately show "publicationValidSlot lib slot raw = Some \<lparr>sm_slot = slot, sm_epoch = epoch, sm_payload = b,
      sm_envelope = commit_envelope lib epoch b, sm_envelopeRaw = raw\<rparr>"
    by (simp add: publicationValidSlot_def commit_envelope_def)
  show "length raw \<le> maxManifestEnvelopeBytes" "epoch \<noteq> 0"
    using slot_encoded(2,3) [OF lib e] by (simp_all add: commit_envelope_def)
qed

text \<open>The documents of a commit, once its manifest is selected.\<close>

lemma found_documents:
  assumes lib: "lib_ok lib" and g: "encodeGenerationV1 lib (commit_generation mo n state) = Some p"
    and m': "m' = commit_manifest lib mo n p" "encodeManifestPayloadV1 m' = Some b"
    and sel: "selectManifestSlots lib (bytes_of (c manifestSlotA)) (bytes_of (c manifestSlotB)) = Inr \<lparr>sm_slot = slot, sm_epoch = epoch,
      sm_payload = b, sm_envelope = commit_envelope lib epoch b, sm_envelopeRaw = raw\<rparr>"
    and lengths: "\<And>k. length (bytes_of (c k)) \<le> maxManifestEnvelopeBytes"
    and parent: "case mo of None \<Rightarrow> n = 1
      | Some m \<Rightarrow> gf_schemaVersion (mp_current m) = currentSchemaVersion \<and> gf_generation (mp_current m) < n \<and> n \<noteq> 1"
    and readable: "state_readable lib state" and keys: "validateProtectedKeys lib keys state = None"
  shows "found lib keys c \<lparr>sm_slot = slot, sm_epoch = epoch, sm_payload = b, sm_envelope = commit_envelope lib epoch b,
      sm_envelopeRaw = raw\<rparr> m' p state"
proof -
  have gen: "decodeGenerationV1 lib p = Some (commit_generation mo n state)"
    using generation_decoded [OF lib g] readable by (simp add: commit_generation_def)
  moreover have "generationSchemaVersion p = currentSchemaVersion"
    using gen by (auto simp: decodeGenerationV1_def bind_eq_Some_conv check_def split: if_splits)
  moreover have "generationMatchesManifest (commit_generation mo n state) m'"
    using parent m'(1)
    by (auto simp: generationMatchesManifest_def commit_generation_def commit_manifest_def hasDirectParentChronology_def Let_def
        split: option.splits)
  moreover have "validateCurrentManifestSchemas m' = None"
    using m'(1) parent by (auto simp: validateCurrentManifestSchemas_def commit_manifest_def split: option.splits)
  ultimately show ?thesis
    using sel manifest_selected [OF lib m'(2)] keys generation_encoded(2) [OF g] m'(1) lengths
    by (simp add: found_def commit_envelope_def commit_manifest_def commit_generation_def)
qed

lemma found_next:
  assumes lib: "lib_ok lib" and f: "found lib keys c sel m payload st"
    and g: "encodeGenerationV1 lib (commit_generation (Some m) (gf_generation (mp_current m) + 1) state) = Some p"
    and m': "m' = commit_manifest lib (Some m) (gf_generation (mp_current m) + 1) p" "encodeManifestPayloadV1 m' = Some b"
    and e: "encodeManifestSlot lib (commit_envelope lib (sm_epoch sel + 1) b) = Some raw"
    and readable: "state_readable lib state" and keys: "validateProtectedKeys lib keys state = None"
  shows "found lib keys (c(otherManifestSlot (sm_slot sel) := Some raw))
    \<lparr>sm_slot = otherManifestSlot (sm_slot sel), sm_epoch = sm_epoch sel + 1, sm_payload = b,
      sm_envelope = commit_envelope lib (sm_epoch sel + 1) b, sm_envelopeRaw = raw\<rparr> m' p state"
    (is "found lib keys ?c ?sel m' p state")
proof (rule found_documents [OF lib g m' _ _ _ readable keys])
  let ?n = "gf_generation (mp_current m)"
  note env = envelope_valid [OF lib e]
  have old: "publicationValidSlot lib (sm_slot sel) (bytes_of (c (sm_slot sel))) = Some sel"
    using selected_slot [of lib "bytes_of (c manifestSlotA)" "bytes_of (c manifestSlotB)" sel] f
    by (cases "sm_slot sel") (auto simp: found_def)
  show "selectManifestSlots lib (bytes_of (?c manifestSlotA)) (bytes_of (?c manifestSlotB)) = Inr ?sel"
    using env(1) old word_step [OF env(3)] by (cases "sm_slot sel") (simp_all add: selectManifestSlots_def otherManifestSlot_def bytes_of_def)
  show "length (bytes_of (?c k)) \<le> maxManifestEnvelopeBytes" for k
    using env(2) f by (simp add: found_def bytes_of_def)
  have ref: "validateGenerationReference (mp_current m)" by (rule found_reference [OF f])
  have "gf_schemaVersion (mp_current m) = currentSchemaVersion"
    using f by (auto simp: found_def validateCurrentManifestSchemas_def split: if_splits)
  moreover have "?n + 1 \<noteq> 0" using manifest_encoded(4) [OF m'(2)] m'(1) by (simp add: commit_manifest_def validateGenerationReference_def)
  moreover have "?n + 1 \<noteq> 1" using ref by (simp add: validateGenerationReference_def)
  ultimately show "case Some m of None \<Rightarrow> ?n + 1 = 1
      | Some m \<Rightarrow> gf_schemaVersion (mp_current m) = currentSchemaVersion \<and> gf_generation (mp_current m) < ?n + 1 \<and> ?n + 1 \<noteq> 1"
    using word_step by simp
qed

text \<open>The first commit to an empty store.\<close>

lemma found_first:
  assumes lib: "lib_ok lib" and g: "encodeGenerationV1 lib (commit_generation None 1 state) = Some p"
    and m': "m' = commit_manifest lib None 1 p" "encodeManifestPayloadV1 m' = Some b"
    and e: "encodeManifestSlot lib (commit_envelope lib 1 b) = Some raw"
    and readable: "state_readable lib state" and keys: "validateProtectedKeys lib keys state = None"
  shows "found lib keys (\<lambda>k. if k = manifestSlotA then Some raw else None)
    \<lparr>sm_slot = manifestSlotA, sm_epoch = 1, sm_payload = b, sm_envelope = commit_envelope lib 1 b, sm_envelopeRaw = raw\<rparr> m' p state"
  using envelope_valid(1,2) [OF lib e]
  by (intro found_documents [OF lib g m' _ _ _ readable keys])
     (simp_all add: selectManifestSlots_def bytes_of_def publicationValidSlot_def [of _ manifestSlotB])

end
