(* ===== verification/StoreCrash.thy ===== *)
theory StoreCrash
  imports StoreSafety
begin

text \<open>
  Crashes of the credential store. Whatever the calls on the files meet, and wherever the process
  dies, opening the store again finds the state of the last commit that was reported as durable, or
  the state of the one commit that was reported as possibly applied.
\<close>

subsection \<open>Commits\<close>

text \<open>The store that can be used holds its state; one that is poisoned leaves one of two states.\<close>

definition stands :: "slib \<Rightarrow> keys \<Rightarrow> store \<Rightarrow> bool" where
  "stands lib keys s \<longleftrightarrow> (\<exists>c sel m payload. guards (\<lambda>k. {c k}) {(gf_generationFile (mp_current m), payload)} s \<and>
     found lib keys c sel m payload (os_state s) \<and> os_selected s = Some sel \<and> os_manifest s = Some m)"

definition leaves :: "slib \<Rightarrow> keys \<Rightarrow> stateV1 set \<Rightarrow> store \<Rightarrow> bool" where
  "leaves lib keys X s \<longleftrightarrow> (\<exists>C G. guards C G s \<and> (\<forall>c. (\<forall>k. c k \<in> C k) \<longrightarrow>
     (\<exists>sel m payload st. found lib keys c sel m payload st \<and> (gf_generationFile (mp_current m), payload) \<in> G \<and> st \<in> X)))"

lemma stands_leaves: "stands lib keys s \<Longrightarrow> leaves lib keys {os_state s} s"
proof -
  assume "stands lib keys s"
  then obtain c sel m payload where a: "guards (\<lambda>k. {c k}) {(gf_generationFile (mp_current m), payload)} s"
    "found lib keys c sel m payload (os_state s)" by (auto simp: stands_def)
  have "c' = c" if "\<forall>k. c' k \<in> {c k}" for c' using that by (simp add: fun_eq_iff)
  then show ?thesis unfolding leaves_def using a by blast
qed

lemma leaves_mono: "leaves lib keys X s \<Longrightarrow> X \<subseteq> Y \<Longrightarrow> leaves lib keys Y s"
  unfolding leaves_def by (meson subsetD)

definition committed :: "slib \<Rightarrow> keys \<Rightarrow> stateV1 \<Rightarrow> store \<Rightarrow> commitResult \<Rightarrow> store \<Rightarrow> bool" where
  "committed lib keys state z r s \<longleftrightarrow> os_others s = os_others z \<and>
     (if cr_err r = None then stands lib keys s \<and> os_state s = state \<and> \<not> os_poisoned s
      else if os_poisoned s then List.member [outcomeCommitDurabilityUnknown, outcomeCommitAppliedMaintenanceFailed] (cr_outcome r) \<and>
        leaves lib keys {os_state z, state} s
      else stands lib keys s \<and> os_state s = os_state z)"

lemma held_slot:
  assumes "held C G z s" "C k = {c}"
  shows "slot_bytes k s = bytes_of c"
proof -
  have "among (manifestSlotFilename k) {c} (os_root s)" using held_fit [OF assms(1), of directoryRoot]
    by (simp add: fit_def dir_of_def flip: assms(2))
  then show ?thesis by (auto simp: among_def content_def lookup_def dir_of_def bytes_of_def entry_def split: option.split)
qed

lemma found_keeps_references:
  assumes "held (\<lambda>k. {c k}) G z s" "found lib keys c sel m payload st"
  shows "keeps_references lib {(gf_generationFile (mp_current m), payload)} s"
  using found_referenced [OF assms(2)] held_slot [OF assms(1), of manifestSlotA, OF refl] held_slot [OF assms(1), of manifestSlotB, OF refl]
  by (auto simp: keeps_references_def shows_slots_def)

lemma held_stands:
  assumes "held (\<lambda>k. {c k}) G z s" "(gf_generationFile (mp_current m), payload) \<in> G" "found lib keys c sel m payload (os_state z)"
    "os_selected z = Some sel" "os_manifest z = Some m"
  shows "stands lib keys s"
proof -
  have "guards (\<lambda>k. {c k}) {(gf_generationFile (mp_current m), payload)} s"
    using assms(1,2) by (auto simp: held_def elim!: guards_mono)
  moreover have "os_state s = os_state z" "os_selected s = Some sel" "os_manifest s = Some m"
    using assms(1,4,5) by (auto simp: held_def fields_of_def)
  ultimately show ?thesis using assms(3) by (auto simp: stands_def)
qed

text \<open>Nothing was published.\<close>

lemma held_committed:
  assumes "held (\<lambda>k. {c k}) G z s" "(gf_generationFile (mp_current m), payload) \<in> G" "found lib keys c sel m payload (os_state z)"
    "os_selected z = Some sel" "os_manifest z = Some m" "\<not> os_poisoned z" "cr_err r \<noteq> None"
  shows "committed lib keys state z r s"
  using held_stands [OF assms(1-5)] assms(1,6,7) by (auto simp: committed_def held_def fields_of_def)

lemma guards_fields: "guards C G (s\<lparr>os_selected := a, os_manifest := b, os_state := x\<rparr>) = guards C G s" "guards C G (s\<lparr>os_poisoned := p\<rparr>) = guards C G s"
  by (simp_all add: guards_def dir_of_def split: directoryRole.split)

lemma leaves_poison: "leaves lib keys X (s\<lparr>os_poisoned := p\<rparr>) = leaves lib keys X s"
  by (simp add: leaves_def guards_fields)

lemma post_maintenance:
  assumes "found lib keys c sel m payload state" and z: "os_others s = os_others z" "\<not> os_poisoned s"
    and "guards (\<lambda>k. {c k}) {(gf_generationFile (mp_current m), payload)} s"
    and "os_selected s = Some sel" "os_manifest s = Some m" "os_state s = state"
  shows "wp (orelse (maintenance lib)
      (\<lambda>_. poison (commitFailure outcomeCommitAppliedMaintenanceFailed ''commit_post_maintenance''))
      (\<lambda>_. State_Monad.return commitDurable)) (committed lib keys state z) s"
proof -
  let ?G = "{(gf_generationFile (mp_current m), payload)}"
  have h: "held (\<lambda>k. {c k}) ?G s s" using assms(4) by (simp add: held_def)
  note kept = maintenance_held [OF h found_keeps_references [OF h assms(1)]]
  have st: "stands lib keys s'" if "held (\<lambda>k. {c k}) ?G s s'" for s'
    by (rule held_stands [OF that]) (use assms in auto)
  show ?thesis
  proof (rule wp_orelse [OF kept], goal_cases)
    case (1 e s')
    have "leaves lib keys {os_state z, state} s'"
      using stands_leaves [OF st [OF 1]] 1 assms(7) by (auto simp: held_def fields_of_def elim!: leaves_mono)
    then show ?case using 1 z by (simp add: poison_def committed_def commitFailure_def leaves_poison held_def fields_of_def)
  next
    case (2 x s')
    then show ?case using st [OF 2] assms(7) z by (simp add: committed_def commitDurable_def held_def fields_of_def)
  qed
qed

lemma commit_published_spec:
  assumes f: "found lib keys c sel m payload (os_state z)" and z: "os_selected z = Some sel" "os_manifest z = Some m" "\<not> os_poisoned z"
    and h: "held (\<lambda>k. {c k}) {(gf_generationFile (mp_current m'), p), (gf_generationFile (mp_current m), payload)} z s"
    and new: "\<And>b raw. encodeManifestPayloadV1 m' = Some b \<Longrightarrow> encodeManifestSlot lib (commit_envelope lib epoch b) = Some raw \<Longrightarrow>
      found lib keys (c(slot := Some raw)) \<lparr>sm_slot = slot, sm_epoch = epoch, sm_payload = b,
        sm_envelope = commit_envelope lib epoch b, sm_envelopeRaw = raw\<rparr> m' p state"
  shows "wp (commit_published lib state m' epoch slot) (committed lib keys state z) s"
proof -
  let ?G = "{(gf_generationFile (mp_current m'), p), (gf_generationFile (mp_current m), payload)}"
  let ?C = "\<lambda>k. {c k}"
  have failed: "committed lib keys state z r s'" if "held ?C ?G z s'" "cr_err r \<noteq> None" for r s'
    by (rule held_committed [OF that(1) _ f z that(2)]) simp
  have body: "wp (do {
       published \<leftarrow> publishManifest slot raw;
       if cr_err published \<noteq> None then State_Monad.return published
       else orelse (syncDirectory directoryRoot)
         (\<lambda>_. poison (commitFailure outcomeCommitDurabilityUnknown ''commit_root_fsync''))
         (\<lambda>_. do {
           State_Monad.update (\<lambda>s. s\<lparr>os_selected := Some \<lparr>sm_slot = slot, sm_epoch = epoch, sm_payload = b,
               sm_envelope = commit_envelope lib epoch b, sm_envelopeRaw = raw\<rparr>, os_manifest := Some m', os_state := state\<rparr>);
           orelse (maintenance lib)
             (\<lambda>_. poison (commitFailure outcomeCommitAppliedMaintenanceFailed ''commit_post_maintenance''))
             (\<lambda>_. State_Monad.return commitDurable)
         })}) (committed lib keys state z) s"
    if enc: "encodeManifestPayloadV1 m' = Some b" "encodeManifestSlot lib (commit_envelope lib epoch b) = Some raw" for b raw
  proof (rule wp_seq [OF publishManifest_spec [OF h]], goal_cases)
    case (1 r s1)
    note new = new [OF enc]
    show ?case
    proof (cases "cr_err r = None")
      case True
      then have h1: "held (joined ?C slot raw) ?G z s1"
        and l1: "lookup directoryRoot (manifestSlotFilename slot) s1 = Some \<lparr>fl_data = raw, fl_synced = True\<rparr>" using 1 by auto
      have "wp (orelse (syncDirectory directoryRoot)
         (\<lambda>_. poison (commitFailure outcomeCommitDurabilityUnknown ''commit_root_fsync''))
         (\<lambda>_. do {
           State_Monad.update (\<lambda>s. s\<lparr>os_selected := Some \<lparr>sm_slot = slot, sm_epoch = epoch, sm_payload = b,
               sm_envelope = commit_envelope lib epoch b, sm_envelopeRaw = raw\<rparr>, os_manifest := Some m', os_state := state\<rparr>);
           orelse (maintenance lib)
             (\<lambda>_. poison (commitFailure outcomeCommitAppliedMaintenanceFailed ''commit_post_maintenance''))
             (\<lambda>_. State_Monad.return commitDurable)
         })) (committed lib keys state z) s1"
      proof (rule wp_orelse [OF root_synced [OF h1 l1]], goal_cases)
        case (1 e s2)
        have either: "c' = c \<or> c' = c(slot := Some raw)" if "\<forall>k. c' k \<in> joined ?C slot raw k" for c'
          using that by (auto simp: fun_eq_iff split: if_splits)
        have "\<exists>sel m x st. found lib keys c' sel m x st \<and> (gf_generationFile (mp_current m), x) \<in> ?G \<and> st \<in> {os_state z, state}"
          if "\<forall>k. c' k \<in> joined ?C slot raw k" for c' using either [OF that] f new by blast
        then have "leaves lib keys {os_state z, state} s2" unfolding leaves_def using 1
          by (intro exI [of _ "joined ?C slot raw"] exI [of _ ?G] conjI allI impI) (simp_all only: held_def)
        then show ?case using 1 by (simp add: poison_def committed_def commitFailure_def leaves_poison held_def fields_of_def)
      next
        case (2 x s2)
        have "?C(slot := {Some raw}) = (\<lambda>k. {(c(slot := Some raw)) k})" by (auto simp: fun_eq_iff)
        then have "guards (\<lambda>k. {(c(slot := Some raw)) k}) ?G s2" using 2 by (simp add: held_def)
        then have "guards (\<lambda>k. {(c(slot := Some raw)) k}) {(gf_generationFile (mp_current m'), p)} s2" by (rule guards_mono) auto
        then show ?case using 2 z(3)
          by (auto simp: guards_fields held_def fields_of_def intro!: post_maintenance [OF new])
      qed
      then show ?thesis using True by simp
    next
      case False
      then show ?thesis using 1 failed by simp
    qed
  qed
  show ?thesis unfolding commit_published_def
    using body failed [OF h] by (auto simp: Let_def commitFailure_def split: option.split)
qed

lemma commit_prepared_spec:
  assumes lib: "lib_ok lib" and f: "found lib keys c sel m payload (os_state z)"
    and z: "os_selected z = Some sel" "os_manifest z = Some m" "\<not> os_poisoned z"
    and h: "held (\<lambda>k. {c k}) {(gf_generationFile (mp_current m), payload)} z s"
    and readable: "state_readable lib state" and keys: "validateProtectedKeys lib keys state = None"
  shows "wp (commit_prepared lib state (gf_generation (mp_current m) + 1) (sm_epoch sel + 1)) (committed lib keys state z) s"
proof -
  let ?G = "{(gf_generationFile (mp_current m), payload)}" and ?n = "gf_generation (mp_current m)"
  have failed: "committed lib keys state z r s'" if "held (\<lambda>k. {c k}) ?G z s'" "cr_err r \<noteq> None" for r s'
    by (rule held_committed [OF that(1) _ f z that(2)]) simp
  show ?thesis unfolding commit_prepared_def
  proof (rule wp_refusing [OF maintenance_held [OF h found_keeps_references [OF h f]]], goal_cases)
    case (2 x s1)
    have fields: "os_manifest s1 = Some m" "os_selected s1 = Some sel" using 2 z by (auto simp: held_def fields_of_def)
    show ?case
    proof (cases "encodeGenerationV1 lib (commit_generation (Some m) (?n + 1) state)")
      case None
      then show ?thesis using 2 fields failed by (simp add: commitFailure_def)
    next
      case (Some p)
      let ?m = "commit_manifest lib (Some m) (?n + 1) p" and ?t = "otherManifestSlot (sm_slot sel)"
      have ref: "validateGenerationReference (mp_current m)" by (rule found_reference [OF f])
      have seq: "?n + 1 \<noteq> 0" "?n + 1 \<le> int64_max"
        using generation_encoded(3) [OF Some] by (auto simp: commit_generation_def validateGenerationMetadata_def)
      have fn: "parseGenerationName (generationFilename (?n + 1)) = Some (?n + 1)" by (rule generation_file [OF seq])
      have "generationFilename (?n + 1) \<noteq> gf_generationFile (mp_current m)" using fn valid_file [OF ref] by auto
      then have pub: "wp (publishGeneration (mp_current ?m) p) (\<lambda>r s'. held (\<lambda>k. {c k}) ?G z s' \<and>
          (cr_err r = None \<longrightarrow> held (\<lambda>k. {c k}) (insert (generationFilename (?n + 1), p) ?G) z s')) s1"
        using fn by (intro publishGeneration_spec 2) (simp_all add: commit_manifest_def)
      have "wp (do {published \<leftarrow> publishGeneration (mp_current ?m) p;
           if cr_err published \<noteq> None then State_Monad.return published else commit_published lib state ?m (sm_epoch sel + 1) ?t})
         (committed lib keys state z) s1"
      proof (rule wp_seq [OF pub], goal_cases)
        case (1 r s2)
        have "wp (commit_published lib state ?m (sm_epoch sel + 1) ?t) (committed lib keys state z) s2" if "cr_err r = None"
        proof (rule commit_published_spec [OF f z])
          show "held (\<lambda>k. {c k}) {(gf_generationFile (mp_current ?m), p), (gf_generationFile (mp_current m), payload)} z s2"
            using 1 that by (simp add: commit_manifest_def)
        qed (rule found_next [OF lib f Some refl _ _ readable keys])
        then show ?case using 1 failed by simp
      qed
      then show ?thesis using fields Some by (simp add: Let_def cong: if_cong)
    qed
  qed (simp add: failed commitFailure_def)
qed

lemma checks_held: "held C G z s \<Longrightarrow> wp (checks n) (\<lambda>_. held C G z) s"
proof (induction n arbitrary: s)
  case (Suc n)
  then show ?case by (auto intro!: attempt_held held_guarded)
qed simp

lemma commit_spec:
  assumes lib: "lib_ok lib" and s: "stands lib keys s" "\<not> os_poisoned s" and readable: "state_readable lib state"
  shows "wp (commit lib keys state) (committed lib keys state s) s"
proof -
  obtain c sel m payload where g: "guards (\<lambda>k. {c k}) {(gf_generationFile (mp_current m), payload)} s"
    and f: "found lib keys c sel m payload (os_state s)" and z: "os_selected s = Some sel" "os_manifest s = Some m"
    using s(1) by (auto simp: stands_def)
  let ?G = "{(gf_generationFile (mp_current m), payload)}"
  have h: "held (\<lambda>k. {c k}) ?G s s" using g by (simp add: held_def)
  have failed: "committed lib keys state s r s'" if "held (\<lambda>k. {c k}) ?G s s'" "cr_err r \<noteq> None" for r s'
    by (rule held_committed [OF that(1) _ f z s(2) that(2)]) simp
  have rest: "wp (do {
       sequence \<leftarrow> reading nextSequence;
       selected \<leftarrow> reading os_selected;
       case sequence of
         Inl e \<Rightarrow> State_Monad.return (commitError e)
       | Inr n \<Rightarrow>
           (case selected of
              None \<Rightarrow> commit_prepared lib state n 1
            | Some sel \<Rightarrow>
                if sm_epoch sel = int64_max then State_Monad.return (commitFailure outcomeCommitNotPublished ''commit_validate'')
                else commit_prepared lib state n (sm_epoch sel + 1))}) (committed lib keys state s) s1"
    if h1: "held (\<lambda>k. {c k}) ?G s s1" and k: "validateProtectedKeys lib keys state = None" for s1
  proof -
    have "os_manifest s1 = Some m" "os_selected s1 = Some sel" using h1 z by (auto simp: held_def fields_of_def)
    then show ?thesis using failed [OF h1] commit_prepared_spec [OF lib f z s(2) h1 readable k]
      by (simp add: nextSequence_def commitError_def commitFailure_def)
  qed
  have "wp (orelse revalidateWriterIdentity (\<lambda>e. State_Monad.return (commitError e)) (\<lambda>_.
       if \<not> validateStateV1 lib state then State_Monad.return (commitFailure outcomeCommitNotPublished ''commit_validate'')
       else case validateProtectedKeys lib keys state of
         Some e \<Rightarrow> State_Monad.return (commitError e)
       | None \<Rightarrow> do {
       sequence \<leftarrow> reading nextSequence;
       selected \<leftarrow> reading os_selected;
       case sequence of
         Inl e \<Rightarrow> State_Monad.return (commitError e)
       | Inr n \<Rightarrow>
           (case selected of
              None \<Rightarrow> commit_prepared lib state n 1
            | Some sel \<Rightarrow>
                if sm_epoch sel = int64_max then State_Monad.return (commitFailure outcomeCommitNotPublished ''commit_validate'')
                else commit_prepared lib state n (sm_epoch sel + 1))})) (committed lib keys state s) s"
    unfolding revalidateWriterIdentity_def
  proof (rule wp_orelse [OF checks_held [OF h]], goal_cases)
    case (2 x s1)
    show ?case
    proof (cases "validateProtectedKeys lib keys state")
      case None
      then show ?thesis using failed [OF 2] rest [OF 2] by (auto simp: commitFailure_def)
    next
      case (Some e)
      then show ?thesis using failed [OF 2] by (auto simp: commitFailure_def commitError_def)
    qed
  qed (simp add: failed commitError_def)
  moreover have "committed lib keys state s (commitFailure outcomeCommitNotPublished ''commit_state'') s"
    using failed [OF h] by (simp add: commitFailure_def)
  ultimately show ?thesis unfolding commit_def by simp
qed

end
