(* ===== verification/StoreReopen.thy ===== *)
theory StoreReopen
  imports StoreCrash
begin

text \<open>
  Opening the store, runs of commits, crashes, and opening the store again.
\<close>

subsection \<open>Opening\<close>

text \<open>The directories as they are after their capabilities were probed: synchronised, with names of the store only.\<close>

definition at_rest_dir :: "(string \<Rightarrow> bool) \<Rightarrow> directory \<Rightarrow> bool" where
  "at_rest_dir P d \<longleftrightarrow> dr_past d = [] \<and> list_all (\<lambda>(n, f). P n \<and> fl_synced f) (dr_now d)"

definition at_rest :: "store \<Rightarrow> bool" where
  "at_rest s \<longleftrightarrow> at_rest_dir root_name (os_root s) \<and> at_rest_dir generation_name (os_generations s) \<and> \<not> os_poisoned s"

lemma settled_among: "at_rest_dir P d \<Longrightarrow> among n {map_option fl_data (map_of (dr_now d) n)} d"
proof -
  assume s: "at_rest_dir P d"
  have "f = \<lparr>fl_data = fl_data f, fl_synced = True\<rparr>" if "map_of (dr_now d) n = Some f" for f
    using s map_of_SomeD [OF that] by (cases f) (auto simp: at_rest_dir_def list_all_iff)
  then show ?thesis using s by (cases "map_of (dr_now d) n") (auto simp: at_rest_dir_def among_def entry_def)
qed

lemma settled_named: "at_rest_dir P d \<Longrightarrow> all_named P d"
  by (auto simp: at_rest_dir_def all_named_def list_all_iff)

lemma settled_guards:
  assumes "at_rest s" "lookup directoryGenerations f s = Some x" "parseGenerationName f \<noteq> None"
  shows "guards (\<lambda>k. {map_option fl_data (lookup directoryRoot (manifestSlotFilename k) s)}) {(f, fl_data x)} s"
  using assms settled_among [of root_name "os_root s"] settled_among [of generation_name "os_generations s" f] settled_named
  by (auto simp: at_rest_def guards_def fit_def lookup_def dir_of_def split: directoryRole.split)

lemma wp_ifI: "(b \<Longrightarrow> wp m Q s) \<Longrightarrow> (\<not> b \<Longrightarrow> wp n Q s) \<Longrightarrow> wp (if b then m else n) Q s"
  by simp

lemma bytes_of_lookup: "bytes_of (map_option fl_data (lookup directoryRoot n s)) = content n s"
  by (simp add: bytes_of_def content_def split: option.split)

lemma load_spec:
  "wp (loadCurrentGeneration lib m) (\<lambda>r s'. same s s' \<and> (\<forall>g. r = Inr g \<longrightarrow>
     (\<exists>f. lookup directoryGenerations (gf_generationFile (mp_current m)) s = Some f \<and> length (fl_data f) \<le> maxGenerationBytes \<and>
       sha256Hex lib (fl_data f) = gf_generationSHA256 (mp_current m) \<and> decodeGenerationV1 lib (fl_data f) = Some g \<and>
       generationSchemaVersion (fl_data f) = gf_schemaVersion (mp_current m) \<and> generationMatchesManifest g m))) s"
  (is "wp _ ?post s")
proof -
  let ?f = "gf_generationFile (mp_current m)"
  have body: "wp (attempt (objectExistsAt directoryGenerations ?f) (\<lambda>exists.
       if \<not> exists then err (newStoreError outcomeNoValidCurrent ''read_current'')
       else attempt (readVerifiedFile directoryGenerations ?f maxGenerationBytes) (\<lambda>payload.
         if sha256Hex lib payload \<noteq> gf_generationSHA256 (mp_current m) then err (newStoreError outcomeNoValidCurrent ''read_current'')
         else case decodeGenerationV1 lib payload of
           None \<Rightarrow> err (newStoreError outcomeNoValidCurrent ''validate_current'')
         | Some g \<Rightarrow>
             if generationSchemaVersion payload \<noteq> gf_schemaVersion (mp_current m) \<or> \<not> generationMatchesManifest g m
             then err (newStoreError outcomeNoValidCurrent ''validate_current'')
             else ok g))) ?post s"
  proof (rule wp_attempt [OF objectExists_spec], simp, goal_cases)
    case (1 ex s1)
    then have a: "same s s1" by blast
    have "wp (attempt (readVerifiedFile directoryGenerations ?f maxGenerationBytes) (\<lambda>payload.
         if sha256Hex lib payload \<noteq> gf_generationSHA256 (mp_current m) then err (newStoreError outcomeNoValidCurrent ''read_current'')
         else case decodeGenerationV1 lib payload of
           None \<Rightarrow> err (newStoreError outcomeNoValidCurrent ''validate_current'')
         | Some g \<Rightarrow>
             if generationSchemaVersion payload \<noteq> gf_schemaVersion (mp_current m) \<or> \<not> generationMatchesManifest g m
             then err (newStoreError outcomeNoValidCurrent ''validate_current'')
             else ok g)) ?post s1"
    proof (rule wp_attempt [OF readVerified_spec], goal_cases)
      case (1 e s2)
      then show ?case using same_trans [OF a] by auto
    next
      case (2 payload s2)
      then show ?case using same_trans [OF a] same_dir [OF a] by (auto split: option.split)
    qed
    then show ?case using a by simp
  qed
  show ?thesis unfolding loadCurrentGeneration_def Let_def by (rule wp_ifI, simp, rule body)
qed

lemma refused_closed: "wp (refuse_open e) (\<lambda>r _. \<not> or_opened r) s"
  by (simp add: refuse_open_def abort_def openFailure_def)

lemma recovery_closed: "wp (classifyRecovery lib m e) (\<lambda>r _. \<not> or_opened r) s"
  unfolding classifyRecovery_def
  by (auto simp: refused_closed abort_def split: option.split intro!: wp_orelse [where P = "\<lambda>_ _. True"])

lemma empty_outcome: "wp (open_empty lib keys l) (\<lambda>r _. or_opened r \<longrightarrow> or_outcome r = outcomeOpenedEmpty) s"
proof -
  have "wp (do {
        committed \<leftarrow> commit lib keys state_zero;
        if cr_outcome committed \<noteq> outcomeCommitDurable
        then do {
          abort;
          State_Monad.return \<lparr>or_outcome = cr_outcome committed, or_err = cr_err committed, or_opened = False, or_state = None,
            or_recovery = None\<rparr>
        }
        else do {
          state \<leftarrow> reading os_state;
          State_Monad.return \<lparr>or_outcome = outcomeOpenedEmpty, or_err = None, or_opened = True, or_state = Some state, or_recovery = None\<rparr>
        }}) (\<lambda>r _. or_opened r \<longrightarrow> or_outcome r = outcomeOpenedEmpty) s"
    by (rule wp_seq [where P = "\<lambda>_ _. True"]) (simp_all add: abort_def)
  then show ?thesis by (simp add: open_empty_def refuse_open_def openFailure_def abort_def)
qed

lemma open_selected_spec:
  assumes s: "at_rest s" and l: "shows_slots s l" and same: "same s s'"
  shows "wp (open_selected lib keys False l) (\<lambda>r s'. or_opened r \<longrightarrow> stands lib keys s' \<and> \<not> os_poisoned s' \<and> os_others s' = os_others s \<and> or_state r = Some (os_state s')) s'"
proof -
  have no: "wp (refuse_open e) (\<lambda>r s'. or_opened r \<longrightarrow> stands lib keys s' \<and> \<not> os_poisoned s' \<and> os_others s' = os_others s \<and> or_state r = Some (os_state s')) t" for e t
    using refused_closed [of e t] by (auto elim!: wp_mono)
  have no2: "wp (classifyRecovery lib m e) (\<lambda>r s'. or_opened r \<longrightarrow> stands lib keys s' \<and> \<not> os_poisoned s' \<and> os_others s' = os_others s \<and> or_state r = Some (os_state s')) t" for m e t
    using recovery_closed [of lib m e t] by (auto elim!: wp_mono)
  show ?thesis
  proof (cases "selectManifestSlots lib (ls_slotA l) (ls_slotB l)")
    case (Inr sel)
    have body: "wp (orelse (loadCurrentGeneration lib m) (classifyRecovery lib m) (\<lambda>current.
                 case validateProtectedKeys lib keys (gn_state current) of
                   None \<Rightarrow> open_with sel m (gn_state current) outcomeOpenedCurrent None
                 | Some e \<Rightarrow>
                     if False \<and> (outcomeOf e = outcomeKeyProviderUnavailable \<or> outcomeOf e = outcomeKeyMaterialUnavailable)
                     then open_with sel m (gn_state current) (outcomeOf e) (Some e)
                     else refuse_open e))
        (\<lambda>r s'. or_opened r \<longrightarrow> stands lib keys s' \<and> \<not> os_poisoned s' \<and> os_others s' = os_others s \<and> or_state r = Some (os_state s')) s'"
      if "me_slotFormatVersion (sm_envelope sel) = currentSlotVersion" and m: "decodeSelectedManifest lib (sm_payload sel) = Inr m"
        and schema: "validateCurrentManifestSchemas m = None" for m
    proof (rule wp_orelse [OF load_spec], rule no2, goal_cases)
      case (1 g s1)
      let ?f = "gf_generationFile (mp_current m)" and ?c = "\<lambda>k. map_option fl_data (lookup directoryRoot (manifestSlotFilename k) s)"
      have s1: "same s s1" using 1 same same_trans by blast
      obtain x where x: "lookup directoryGenerations ?f s = Some x" "length (fl_data x) \<le> maxGenerationBytes"
        "sha256Hex lib (fl_data x) = gf_generationSHA256 (mp_current m)" "decodeGenerationV1 lib (fl_data x) = Some g"
        "generationSchemaVersion (fl_data x) = gf_schemaVersion (mp_current m)" "generationMatchesManifest g m"
        using 1 same_dir [OF same] by auto
      have "validateGenerationReference (mp_current m)"
        using manifest_encoded(4) [OF decodeManifest_current [OF decodeSelected_payload [OF m]]] .
      then have "guards (\<lambda>k. {?c k}) {(?f, fl_data x)} s" using valid_file by (intro settled_guards [OF s x(1)]) simp
      then have g1: "guards (\<lambda>k. {?c k}) {(?f, fl_data x)} s1" using guards_same [OF s1] by simp
      have p: "\<not> os_poisoned s1" "os_others s1 = os_others s" using s s1 by (auto simp: at_rest_def elim!: sameE)
      have "found lib keys ?c sel m (fl_data x) (gn_state g)" if "validateProtectedKeys lib keys (gn_state g) = None"
        using that x m schema Inr l \<open>me_slotFormatVersion _ = _\<close> by (simp add: found_def shows_slots_def bytes_of_lookup)
      then show ?case using no g1 p
        by (cases "validateProtectedKeys lib keys (gn_state g)") (auto simp: open_with_def stands_def guards_fields)
    qed
    show ?thesis unfolding open_selected_def using Inr no body
      by (auto split: sum.split option.split)
  qed (simp add: open_selected_def no)
qed

lemma open_spec:
  assumes "at_rest s"
  shows "wp (openStore lib keys False) (\<lambda>r s'. or_opened r \<and> or_outcome r = outcomeOpenedCurrent \<longrightarrow>
     stands lib keys s' \<and> \<not> os_poisoned s' \<and> os_others s' = os_others s \<and> or_state r = Some (os_state s')) s"
  unfolding openStore_def
proof (rule wp_orelse [OF verifyLayout_spec], goal_cases)
  case (1 e s')
  then show ?case using refused_closed [of e s'] by (auto elim!: wp_mono)
next
  case (2 l s')
  have "wp (open_empty lib keys l) (\<lambda>r s'. or_opened r \<and> or_outcome r = outcomeOpenedCurrent \<longrightarrow>
     stands lib keys s' \<and> \<not> os_poisoned s' \<and> os_others s' = os_others s \<and> or_state r = Some (os_state s')) s'"
    using empty_outcome [of lib keys l s'] by (auto elim!: wp_mono)
  moreover have "wp (open_selected lib keys False l) (\<lambda>r s'. or_opened r \<and> or_outcome r = outcomeOpenedCurrent \<longrightarrow>
     stands lib keys s' \<and> \<not> os_poisoned s' \<and> os_others s' = os_others s \<and> or_state r = Some (os_state s')) s'"
    using open_selected_spec [OF assms, of l s' lib keys] 2 by (auto elim!: wp_mono)
  moreover have "wp (refuse_open e) (\<lambda>r s'. or_opened r \<and> or_outcome r = outcomeOpenedCurrent \<longrightarrow>
     stands lib keys s' \<and> \<not> os_poisoned s' \<and> os_others s' = os_others s \<and> or_state r = Some (os_state s')) s'" for e
    using refused_closed [of e s'] by (auto elim!: wp_mono)
  ultimately show ?case by (auto split: option.split)
qed

subsection \<open>Opening without a fault\<close>

definition healthy :: "store \<Rightarrow> bool" where "healthy s \<longleftrightarrow> os_tape s = [] \<and> \<not> os_dead s"

definition few :: "store \<Rightarrow> bool" where
  "few s \<longleftrightarrow> length (os_others s) + length (dr_now (os_root s)) + length (dr_now (os_generations s)) \<le> maximumArtifactEntries"

definition tidy :: "store \<Rightarrow> bool" where
  "tidy s \<longleftrightarrow> healthy s \<and> few s \<and> all_named root_name (os_root s) \<and> all_named generation_name (os_generations s) \<and>
     set (os_others s) \<subseteq> {''LOCK'', ''generations'', mutationStateDirectory} \<and>
     (\<forall>slot. length (slot_bytes slot s) \<le> maxManifestEnvelopeBytes)"

lemma wp_called_healthy: "healthy s \<Longrightarrow> wp (guarded called) Q s = Q (Inr ()) s"
  by (simp add: guarded_def called_def next_verdict_def wp_State healthy_def)

lemma wp_attempt_healthy: "healthy s \<Longrightarrow> wp (attempt (guarded called) k) Q s = wp (k ()) Q s"
  "healthy s \<Longrightarrow> wp (orelse (guarded called) h j) R s = wp (j ()) R s"
  by (simp_all add: attempt_def orelse_def wp_called_healthy)

lemma open_healthy: "healthy s \<Longrightarrow> lookup role n s = Some f \<Longrightarrow> wp (openVerifiedAt role n) Q s = Q (Inr f) s"
  by (simp add: openVerifiedAt_def wp_attempt_healthy)

lemma read_healthy:
  "healthy s \<Longrightarrow> lookup role n s = Some f \<Longrightarrow> length (fl_data f) \<le> maximum \<Longrightarrow> wp (readVerifiedFile role n maximum) Q s = Q (Inr (fl_data f)) s"
  by (simp add: readVerifiedFile_def attempt_def orelse_def open_healthy wp_called_healthy)

lemma names_healthy:
  "healthy s \<Longrightarrow> few s \<Longrightarrow> wp (directoryNames role) Q s =
     Q (Inr (sort ((if role = directoryRoot then os_others s else []) @ map fst (dr_now (dir_of role s))))) s"
  by (cases role) (auto simp: directoryNames_def wp_attempt_healthy few_def maximumArtifactEntries_def dir_of_def)

lemma wp_attempt_eq: "wp (attempt m k) Q s = wp m (\<lambda>r. case r of Inl e \<Rightarrow> Q (Inl e) | Inr x \<Rightarrow> wp (k x) Q) s"
  unfolding attempt_def orelse_def by (auto simp: wp_def split: prod.split sum.split)

lemma root_loop_healthy:
  assumes s: "tidy s"
  shows "set names \<subseteq> {''LOCK'', ''generations'', mutationStateDirectory} \<union> fst ` set (dr_now (os_root s)) \<Longrightarrow>
    wp (root_loop snapshot names) (\<lambda>r s'. s' = s \<and> (\<exists>l. r = Inr l \<and> ls_temporaryEntries l \<le> ls_temporaryEntries snapshot + length names \<and>
      ls_generationEntries l = ls_generationEntries snapshot \<and> ls_generationNames l = ls_generationNames snapshot)) s"
proof (induction names arbitrary: snapshot)
  case (Cons n names)
  let ?post = "\<lambda>r s'. s' = s \<and> (\<exists>l. r = Inr l \<and> ls_temporaryEntries l \<le> ls_temporaryEntries snapshot + length (n # names) \<and>
      ls_generationEntries l = ls_generationEntries snapshot \<and> ls_generationNames l = ls_generationNames snapshot)"
  have h: "healthy s" using s by (simp add: tidy_def)
  have step: "wp (root_loop snap names) ?post s"
    if "ls_temporaryEntries snap \<le> ls_temporaryEntries snapshot + 1" "ls_generationEntries snap = ls_generationEntries snapshot"
      "ls_generationNames snap = ls_generationNames snapshot" for snap
    using Cons.IH [of snap] Cons.prems that by (auto elim!: wp_mono)
  show ?case
  proof (cases "n \<in> {''LOCK'', ''generations'', mutationStateDirectory}")
    case True
    then show ?thesis using step [of snapshot] h by (auto simp: wp_attempt_healthy mutationStateDirectory_def)
  next
    case False
    then obtain f where f: "lookup directoryRoot n s = Some f"
      using Cons.prems map_of_eq_None_iff [of "dr_now (os_root s)" n] by (auto simp: lookup_def dir_of_def)
    have name: "root_name n" using False Cons.prems now_names [of root_name "os_root s" n] s by (auto simp: tidy_def)
    have "length (fl_data f) \<le> maxManifestEnvelopeBytes" if "n = ''MANIFEST.A'' \<or> n = ''MANIFEST.B''"
      using s that f by (auto simp: tidy_def content_def all_slots)
    then show ?thesis using False name f h step [of "snapshot\<lparr>ls_slotA := fl_data f\<rparr>"] step [of "snapshot\<lparr>ls_slotB := fl_data f\<rparr>"]
        step [of "snapshot\<lparr>ls_temporaryEntries := Suc (ls_temporaryEntries snapshot)\<rparr>"]
      by (auto simp: root_name_def wp_attempt_eq read_healthy open_healthy)
  qed
qed simp

lemma generation_loop_healthy:
  assumes s: "tidy s"
  shows "set names \<subseteq> fst ` set (dr_now (os_generations s)) \<Longrightarrow>
    wp (generation_loop snapshot names) (\<lambda>r s'. s' = s \<and> (\<exists>l. r = Inr l \<and>
      ls_temporaryEntries l + ls_generationEntries l = ls_temporaryEntries snapshot + ls_generationEntries snapshot + length names \<and>
      ls_temporaryEntries l + length (ls_generationNames l) = ls_temporaryEntries snapshot + length (ls_generationNames snapshot) + length names)) s"
proof (induction names arbitrary: snapshot)
  case (Cons n names)
  have h: "healthy s" using s by (simp add: tidy_def)
  obtain f where f: "lookup directoryGenerations n s = Some f"
    using Cons.prems map_of_eq_None_iff [of "dr_now (os_generations s)" n] by (auto simp: lookup_def dir_of_def)
  have name: "generation_name n" using Cons.prems now_names [of generation_name "os_generations s" n] s by (auto simp: tidy_def)
  let ?next = "if generationTempPattern n then snapshot\<lparr>ls_temporaryEntries := ls_temporaryEntries snapshot + 1\<rparr>
     else snapshot\<lparr>ls_generationEntries := ls_generationEntries snapshot + 1, ls_generationNames := ls_generationNames snapshot @ [n]\<rparr>"
  have "wp (generation_loop ?next names) (\<lambda>r s'. s' = s \<and> (\<exists>l. r = Inr l \<and>
      ls_temporaryEntries l + ls_generationEntries l = ls_temporaryEntries snapshot + ls_generationEntries snapshot + length (n # names) \<and>
      ls_temporaryEntries l + length (ls_generationNames l) = ls_temporaryEntries snapshot + length (ls_generationNames snapshot) + length (n # names))) s"
    using Cons.IH [of ?next] Cons.prems by (auto elim!: wp_mono)
  then show ?case using name f h by (auto simp: generation_name_def wp_attempt_eq open_healthy)
qed simp

lemma verifyLayout_healthy:
  assumes s: "tidy s"
  shows "wp verifyLayout (\<lambda>r s'. s' = s \<and> (\<exists>l. r = Inr l \<and> ls_temporaryEntries l + length (ls_generationNames l) \<le> maximumArtifactEntries)) s"
proof -
  let ?root = "sort (os_others s @ map fst (dr_now (os_root s)))" and ?gens = "sort (map fst (dr_now (os_generations s)))"
  have h: "healthy s" "few s" using s by (auto simp: tidy_def)
  have sets: "set ?root \<subseteq> {''LOCK'', ''generations'', mutationStateDirectory} \<union> fst ` set (dr_now (os_root s))"
    "set ?gens \<subseteq> fst ` set (dr_now (os_generations s))" using s by (auto simp: tidy_def)
  have gens: "wp (attempt (generation_loop snapshot ?gens) (\<lambda>snapshot.
       if maximumArtifactEntries + maximumPublicationGenerationRefs < ls_temporaryEntries snapshot + ls_generationEntries snapshot
       then err (newStoreError outcomeLayoutRejected ''enumerate_layout'') else ok snapshot))
     (\<lambda>r s'. s' = s \<and> (\<exists>l. r = Inr l \<and> ls_temporaryEntries l + length (ls_generationNames l) \<le> maximumArtifactEntries)) s"
    if "ls_temporaryEntries snapshot \<le> length ?root" "ls_generationEntries snapshot = 0" "ls_generationNames snapshot = []" for snapshot
    by (rule wp_attempt [OF generation_loop_healthy [OF s sets(2)]]) (use that h(2) in \<open>auto simp: few_def\<close>)
  have "wp (attempt (root_loop emptySnapshot ?root) (\<lambda>snapshot.
     orelse (directoryNames directoryGenerations) (\<lambda>_. err (newStoreError outcomeIOFailed ''enumerate_generations'')) (\<lambda>names.
     attempt (generation_loop snapshot names) (\<lambda>snapshot.
       if maximumArtifactEntries + maximumPublicationGenerationRefs < ls_temporaryEntries snapshot + ls_generationEntries snapshot
       then err (newStoreError outcomeLayoutRejected ''enumerate_layout'')
       else ok snapshot))))
     (\<lambda>r s'. s' = s \<and> (\<exists>l. r = Inr l \<and> ls_temporaryEntries l + length (ls_generationNames l) \<le> maximumArtifactEntries)) s"
    by (rule wp_attempt [OF root_loop_healthy [OF s sets(1)]])
       (use gens h in \<open>auto simp: orelse_def names_healthy dir_of_def emptySnapshot_def\<close>)
  then show ?thesis using h
    by (simp add: verifyLayout_def wp_attempt_healthy) (simp add: orelse_def names_healthy dir_of_def)
qed

lemma layout_healthy:
  "tidy s \<Longrightarrow> wp verifyLayout (\<lambda>r s'. s' = s \<and> (\<exists>l. r = Inr l \<and> shows_slots s l \<and>
     ls_temporaryEntries l + length (ls_generationNames l) \<le> maximumArtifactEntries)) s"
  using wp_conjI [OF verifyLayout_healthy verifyLayout_spec, of s] by (rule wp_mono) auto

lemma bound_healthy: "ls_temporaryEntries l + length (ls_generationNames l) \<le> maximumArtifactEntries \<Longrightarrow> enforceArtifactBound lib l = None"
  using length_filter_le [of "\<lambda>n. \<not> List.member referenced n" "ls_generationNames l" for referenced]
  by (auto simp: enforceArtifactBound_def Let_def) (meson add_le_mono le_trans length_filter_le not_less order.refl)

lemma load_healthy:
  assumes "healthy s" "lookup directoryGenerations (gf_generationFile (mp_current m)) s = Some f" "found lib keys c sel m (fl_data f) st"
  shows "wp (loadCurrentGeneration lib m) (\<lambda>r s'. s' = s \<and> (\<exists>g. r = Inr g \<and> gn_state g = st)) s"
proof -
  have schema: "gf_schemaVersion (mp_current m) = currentSchemaVersion"
    using assms(3) by (auto simp: found_def validateCurrentManifestSchemas_def split: if_splits)
  show ?thesis using assms schema
    by (auto simp: loadCurrentGeneration_def Let_def wp_attempt_eq objectExistsAt_def wp_attempt_healthy read_healthy found_def)
qed

definition opened_current :: "stateV1 \<Rightarrow> openResult" where
  "opened_current st = \<lparr>or_outcome = outcomeOpenedCurrent, or_err = None, or_opened = True, or_state = Some st, or_recovery = None\<rparr>"

lemma reopen:
  assumes s: "tidy s" and f: "found lib keys c sel m (fl_data f) st" and slots: "\<And>k. slot_bytes k s = bytes_of (c k)"
    and l: "lookup directoryGenerations (gf_generationFile (mp_current m)) s = Some f"
  shows "wp (openStore lib keys False) (\<lambda>r s'. r = opened_current st \<and> s' = s\<lparr>os_selected := Some sel, os_manifest := Some m, os_state := st\<rparr>) s"
proof -
  have h: "healthy s" using s by (simp add: tidy_def)
  have body: "wp (open_selected lib keys False x) (\<lambda>r s'. r = opened_current st \<and> s' = s\<lparr>os_selected := Some sel, os_manifest := Some m, os_state := st\<rparr>) s" if "shows_slots s x" for x
  proof -
    have sel: "selectManifestSlots lib (ls_slotA x) (ls_slotB x) = Inr sel"
      using that f slots [of manifestSlotA] slots [of manifestSlotB] by (simp add: shows_slots_def found_def)
    show ?thesis unfolding open_selected_def sel
      using f load_healthy [OF h l f] by (auto simp: found_def orelse_def open_with_def opened_current_def elim!: wp_mono)
  qed
  have "\<not> (ls_slotA x = [] \<and> ls_slotB x = [])" if "shows_slots s x" for x
    using that f slots [of manifestSlotA] slots [of manifestSlotB]
    by (auto simp: shows_slots_def found_def selectManifestSlots_def publicationValidSlot_def)
  then show ?thesis unfolding openStore_def orelse_def using body layout_healthy [OF s] bound_healthy
    by (auto elim!: wp_mono)
qed

subsection \<open>Crashes\<close>

text \<open>
  What can be found in a directory after a crash: every name as it was at some moment since the
  directory was synchronised, a file that was not synchronised with any content.
\<close>

definition survives :: "directory \<Rightarrow> (string \<times> bytes) list \<Rightarrow> bool" where
  "survives d es \<longleftrightarrow> distinct (map fst es) \<and> (\<forall>n. \<exists>old \<in> set (dr_now d # dr_past d). case map_of old n of
      None \<Rightarrow> map_of es n = None
    | Some f \<Rightarrow> \<exists>b. map_of es n = Some b \<and> (fl_synced f \<longrightarrow> b = fl_data f))"

definition restored :: "(string \<times> bytes) list \<Rightarrow> directory" where
  "restored es = \<lparr>dr_now = map (\<lambda>(n, b). (n, \<lparr>fl_data = b, fl_synced = True\<rparr>)) es, dr_past = []\<rparr>"

definition rebooted :: "(string \<times> bytes) list \<Rightarrow> (string \<times> bytes) list \<Rightarrow> string list \<Rightarrow> bytes list \<Rightarrow> store" where
  "rebooted root gens others rnd = \<lparr>os_root = restored root, os_generations = restored gens, os_others = others, os_random = rnd,
     os_tape = [], os_dead = False, os_selected = None, os_manifest = None, os_state = state_zero, os_closed = False, os_poisoned = False\<rparr>"

lemma restored_now: "map_of (dr_now (restored es)) n = entry (map_of es n)"
  by (induction es) (auto simp: restored_def entry_def)

lemma survives_among: "survives d es \<Longrightarrow> among n C d \<Longrightarrow> map_of es n \<in> C"
proof -
  assume s: "survives d es" and a: "among n C d"
  obtain old where old: "old \<in> set (dr_now d # dr_past d)" "case map_of old n of None \<Rightarrow> map_of es n = None
      | Some f \<Rightarrow> \<exists>b. map_of es n = Some b \<and> (fl_synced f \<longrightarrow> b = fl_data f)" using s unfolding survives_def by blast
  obtain c where "c \<in> C" "map_of old n = entry c" using a old(1) by (auto simp: among_def)
  then show ?thesis using old(2) by (cases c) (auto simp: entry_def)
qed

lemma survives_named: "survives d es \<Longrightarrow> all_named P d \<Longrightarrow> all_named P (restored es)"
proof -
  assume s: "survives d es" and a: "all_named P d"
  have "P n" if "n \<in> fst ` set es" for n
  proof -
    have "map_of es n \<noteq> None" using that by (simp add: map_of_eq_None_iff)
    moreover obtain old where old: "old \<in> set (dr_now d # dr_past d)" "case map_of old n of None \<Rightarrow> map_of es n = None
        | Some f \<Rightarrow> \<exists>b. map_of es n = Some b \<and> (fl_synced f \<longrightarrow> b = fl_data f)" using s unfolding survives_def by blast
    ultimately have "n \<in> fst ` set old" by (cases "map_of old n") (auto dest!: map_of_SomeD intro: rev_image_eqI)
    then show ?thesis using a old(1) unfolding all_named_def by blast
  qed
  then show ?thesis by (force simp: all_named_def restored_def)
qed

lemma crash_reopen:
  assumes "leaves lib keys X s" and "survives (os_root s) root" "survives (os_generations s) gens"
    and others: "set (os_others s) \<subseteq> {''LOCK'', ''generations'', mutationStateDirectory}"
    and few: "length (os_others s) + length root + length gens \<le> maximumArtifactEntries"
  shows "\<exists>st \<in> X. fst (run_state (openStore lib keys False) (rebooted root gens (os_others s) rnd)) = opened_current st"
proof -
  obtain C G where g: "guards C G s" and all: "\<And>c. (\<forall>k. c k \<in> C k) \<Longrightarrow>
     \<exists>sel m payload st. found lib keys c sel m payload st \<and> (gf_generationFile (mp_current m), payload) \<in> G \<and> st \<in> X"
    using assms(1) by (auto simp: leaves_def)
  let ?s = "rebooted root gens (os_others s) rnd"
  let ?c = "\<lambda>k. map_of root (manifestSlotFilename k)"
  have fits: "fit directoryRoot C G (os_root s)" "fit directoryGenerations C G (os_generations s)"
    using g by (auto simp: guards_def dir_of_def dest: spec [of _ directoryRoot] spec [of _ directoryGenerations])
  have "?c k \<in> C k" for k using survives_among [OF assms(2)] fits(1) by (auto simp: fit_def)
  then obtain sel m payload st where f: "found lib keys ?c sel m payload st" "(gf_generationFile (mp_current m), payload) \<in> G" "st \<in> X"
    using all [of ?c] by blast
  have gen: "map_of gens (gf_generationFile (mp_current m)) = Some payload"
    using survives_among [OF assms(3), of _ "{Some payload}"] fits(2) f(2) by (auto simp: fit_def)
  have content: "content n ?s = bytes_of (map_of root n)" for n
    by (simp add: content_def lookup_def dir_of_def rebooted_def restored_now bytes_of_def entry_def split: option.split)
  have "all_named root_name (restored root)" "all_named generation_name (restored gens)"
    using fits survives_named [OF assms(2)] survives_named [OF assms(3)] by (auto simp: fit_def)
  then have "tidy ?s" using others few f(1) content
    by (simp add: tidy_def healthy_def few_def rebooted_def restored_def [of root] restored_def [of gens] found_def)
  moreover have "lookup directoryGenerations (gf_generationFile (mp_current m)) ?s = Some \<lparr>fl_data = payload, fl_synced = True\<rparr>"
    using gen by (simp add: lookup_def dir_of_def rebooted_def restored_now entry_def)
  ultimately have "wp (openStore lib keys False) (\<lambda>r s'. r = opened_current st \<and>
      s' = ?s\<lparr>os_selected := Some sel, os_manifest := Some m, os_state := st\<rparr>) ?s"
    using f(1) content by (intro reopen [where c = ?c]) simp_all
  then show ?thesis using f(3) by (auto simp: wp_iff_run)
qed

subsection \<open>Runs of commits\<close>

fun commits :: "slib \<Rightarrow> keys \<Rightarrow> stateV1 list \<Rightarrow> commitResult list fsop" where
  "commits lib keys [] = State_Monad.return []"
| "commits lib keys (x # xs) = do {r \<leftarrow> commit lib keys x; rs \<leftarrow> commits lib keys xs; State_Monad.return (r # rs)}"

text \<open>The state of the last commit that was reported as durable.\<close>

fun acknowledged :: "stateV1 \<Rightarrow> (stateV1 \<times> commitResult) list \<Rightarrow> stateV1" where
  "acknowledged st [] = st"
| "acknowledged st ((x, r) # ps) = acknowledged (if cr_err r = None then x else st) ps"

text \<open>The states of commits that may have been applied although an error was reported.\<close>

definition in_doubt :: "(stateV1 \<times> commitResult) list \<Rightarrow> stateV1 set" where
  "in_doubt ps = fst ` {p \<in> set ps. List.member [outcomeCommitDurabilityUnknown, outcomeCommitAppliedMaintenanceFailed] (cr_outcome (snd p))}"

lemma acknowledged_errors: "list_all (\<lambda>p. cr_err (snd p) \<noteq> None) ps \<Longrightarrow> acknowledged st ps = st"
  by (induction ps) auto

lemma poisoned_commits:
  "os_poisoned s \<Longrightarrow> wp (commits lib keys xs) (\<lambda>rs s'. s' = s \<and> length rs = length xs \<and> list_all (\<lambda>r. cr_err r \<noteq> None) rs) s"
proof (induction xs)
  case (Cons x xs)
  then show ?case by (simp add: commit_def commitFailure_def)
qed simp

lemma commits_spec:
  assumes lib: "lib_ok lib"
  shows "stands lib keys s \<Longrightarrow> \<not> os_poisoned s \<Longrightarrow> list_all (state_readable lib) xs \<Longrightarrow>
    wp (commits lib keys xs) (\<lambda>rs s'. os_others s' = os_others s \<and>
      leaves lib keys (insert (acknowledged (os_state s) (zip xs rs)) (in_doubt (zip xs rs))) s') s"
proof (induction xs arbitrary: s)
  case Nil
  then show ?case using leaves_mono [OF stands_leaves [OF Nil(1)]] by simp
next
  case (Cons x xs)
  let ?post = "\<lambda>rs s'. os_others s' = os_others s \<and>
      leaves lib keys (insert (acknowledged (os_state s) (zip (x # xs) rs)) (in_doubt (zip (x # xs) rs))) s'"
  have readable: "state_readable lib x" "list_all (state_readable lib) xs" using Cons.prems by auto
  show ?case unfolding commits.simps
  proof (rule wp_seq [OF commit_spec [OF lib Cons.prems(1,2) readable(1)]], goal_cases)
    case (1 r s1)
    have others: "os_others s1 = os_others s" using 1 by (simp add: committed_def)
    show ?case
    proof (cases "os_poisoned s1")
      case True
      then have d: "List.member [outcomeCommitDurabilityUnknown, outcomeCommitAppliedMaintenanceFailed] (cr_outcome r)"
        "leaves lib keys {os_state s, x} s1" "cr_err r \<noteq> None" using 1 by (auto simp: committed_def split: if_splits)
      have "wp (commits lib keys xs) (\<lambda>rs s'. ?post (r # rs) s') s1"
      proof (rule wp_mono [OF poisoned_commits [OF True, of lib keys xs]], goal_cases)
        case (1 rs s')
        have "list_all (\<lambda>p. cr_err (snd p) \<noteq> None) (zip xs rs)" using 1 by (auto simp: list_all_iff dest!: set_zip_rightD)
        then have "acknowledged (os_state s) (zip (x # xs) (r # rs)) = os_state s" using d(3) by (auto simp: acknowledged_errors)
        moreover have "x \<in> in_doubt (zip (x # xs) (r # rs))" using d(1) by (force simp: in_doubt_def)
        ultimately show ?case using 1 others d(2) by (auto elim!: leaves_mono)
      qed
      then show ?thesis by simp
    next
      case False
      then have s1: "stands lib keys s1" "os_state s1 = (if cr_err r = None then x else os_state s)"
        using 1 by (auto simp: committed_def split: if_splits)
      have "wp (commits lib keys xs) (\<lambda>rs s'. ?post (r # rs) s') s1"
        using Cons.IH [OF s1(1) False readable(2)] others s1(2)
        by (auto simp: in_doubt_def elim!: wp_mono leaves_mono)
      then show ?thesis by simp
    qed
  qed
qed

end
