(* ===== verification/StoreDurable.thy ===== *)
theory StoreDurable
  imports StoreReopen
begin

text \<open>
  What the credential store promises of the states it was given: after any run of commits, with
  faults and crashes anywhere, the store opens again.
\<close>

subsection \<open>A store after its first commit\<close>

definition sample_keys :: keys where "sample_keys = \<lparr>ky_certificate = (\<lambda>_. None), ky_providers = (\<lambda>_. None)\<rparr>"

definition first_generation :: bytes where
  "first_generation = the (encodeGenerationV1 sample_lib (commit_generation None 1 state_zero))"

definition first_manifest :: bytes where
  "first_manifest = the (encodeManifestPayloadV1 (commit_manifest sample_lib None 1 first_generation))"

definition first_slot :: bytes where
  "first_slot = the (encodeManifestSlot sample_lib (commit_envelope sample_lib 1 first_manifest))"

definition first_store :: store where
  "first_store = rebooted [(''MANIFEST.A'', first_slot)] [(generationFilename 1, first_generation)] [''LOCK'', ''generations''] [[], []]"

lemma sample_lib_ok: "lib_ok sample_lib"
  by (simp add: lib_ok_def sample_lib_def)

lemma zero_valid: "validateStateV1 sample_lib state_zero" "state_readable sample_lib state_zero"
    "validateProtectedKeys sample_lib sample_keys state_zero = None"
  by (simp_all add: validateStateV1_def state_zero_def maxRemoteIdentityCount_def state_readable_def controlRecordV3FromStateV1_def
      validateProtectedKeys_def)

lemma first_generation_encoded: "encodeGenerationV1 sample_lib (commit_generation None 1 state_zero) = Some first_generation"
proof -
  have "encodeGenerationV1 sample_lib (commit_generation None 1 state_zero) \<noteq> None"
    using zero_valid(1) by (simp add: encodeGenerationV1_def commit_generation_def validateGenerationMetadata_def int64_max_def state_zero_def
        optional_text_def sample_numbers Let_def check_def currentSchemaVersion_def maxGenerationBytes_def)
  then show ?thesis by (auto simp: first_generation_def)
qed

lemma first_reference: "validateGenerationReference (mp_current (commit_manifest sample_lib None 1 p))"
  using digest_sha [OF sample_lib_ok] by (simp add: validateGenerationReference_def commit_manifest_def int64_max_def currentSchemaVersion_def)

lemma length_canonical: "plain s \<Longrightarrow> length (write_canonical s) = length s + 2"
  by (simp add: plain_text)

lemma first_lengths: "length (generationFilename 1) = 27" "length (sha256Hex sample_lib b) = 64"
  using digest_sha [OF sample_lib_ok] by (simp_all add: digestPattern_def) code_simp

lemma first_manifest_encoded:
  "encodeManifestPayloadV1 (commit_manifest sample_lib None 1 first_generation) = Some first_manifest" "length first_manifest \<le> 300"
proof -
  let ?m = "commit_manifest sample_lib None 1 first_generation"
  let ?out = "''{\"current\":'' @ writeGenerationReference (mp_current ?m) @ '',\"manifest_version\":1,\"parent\":null}'' @ [CHR 0x0A]"
  have l: "length ?out \<le> 300"
    using first_lengths plain_filename plain_digest [OF digest_sha [OF sample_lib_ok]]
    by (simp add: writeGenerationReference_def commit_manifest_def length_canonical sample_numbers currentSchemaVersion_def)
  then have "encodeManifestPayloadV1 ?m = Some ?out"
    using first_reference
    by (simp add: encodeManifestPayloadV1_def Let_def check_def optional_text_def maxManifestPayloadBytes_def) (simp add: commit_manifest_def)
  then show "encodeManifestPayloadV1 ?m = Some first_manifest" "length first_manifest \<le> 300" using l by (simp_all add: first_manifest_def)
qed

lemma first_slot_encoded: "encodeManifestSlot sample_lib (commit_envelope sample_lib 1 first_manifest) = Some first_slot"
proof -
  have "first_manifest \<noteq> []" using first_manifest_encoded(1) by (auto simp: encodeManifestPayloadV1_def Let_def check_def split: if_splits)
  then have "encodeManifestSlot sample_lib (commit_envelope sample_lib 1 first_manifest) \<noteq> None"
    using first_manifest_encoded(2) first_lengths(2) plain_base64 plain_digest [OF digest_sha [OF sample_lib_ok]]
    by (simp add: encodeManifestSlot_def commit_envelope_def Let_def check_def int64_max_def maxManifestPayloadBytes_def maxManifestEnvelopeBytes_def
        length_canonical length_base64_encode sample_numbers currentSlotVersion_def)
  then show ?thesis by (auto simp: first_slot_def)
qed

lemma first_found:
  "found sample_lib sample_keys (\<lambda>k. if k = manifestSlotA then Some first_slot else None)
    \<lparr>sm_slot = manifestSlotA, sm_epoch = 1, sm_payload = first_manifest, sm_envelope = commit_envelope sample_lib 1 first_manifest,
     sm_envelopeRaw = first_slot\<rparr> (commit_manifest sample_lib None 1 first_generation) first_generation state_zero"
  by (rule found_first [OF sample_lib_ok first_generation_encoded refl first_manifest_encoded(1) first_slot_encoded zero_valid(2,3)])

lemma first_slot_length: "length first_slot \<le> maxManifestEnvelopeBytes"
  using first_found by (auto simp: found_def bytes_of_def dest!: spec [of _ manifestSlotA])

lemma first_content: "content n first_store = (if n = ''MANIFEST.A'' then first_slot else [])"
  by (simp add: first_store_def rebooted_def content_def lookup_def dir_of_def restored_now entry_def)

lemma first_tidy: "tidy first_store"
proof -
  have "generation_name (generationFilename 1)" by code_simp
  then show ?thesis using first_content first_slot_length
    by (simp add: tidy_def healthy_def few_def first_store_def rebooted_def restored_def all_named_def root_name_def maximumArtifactEntries_def)
qed

lemma first_opens:
  "run_state (openStore sample_lib sample_keys False) first_store = (opened_current state_zero, first_store
    \<lparr>os_selected := Some \<lparr>sm_slot = manifestSlotA, sm_epoch = 1, sm_payload = first_manifest, sm_envelope = commit_envelope sample_lib 1 first_manifest,
       sm_envelopeRaw = first_slot\<rparr>,
     os_manifest := Some (commit_manifest sample_lib None 1 first_generation), os_state := state_zero\<rparr>)"
proof -
  let ?f = "\<lparr>fl_data = first_generation, fl_synced = True\<rparr>"
  have "lookup directoryGenerations (gf_generationFile (mp_current (commit_manifest sample_lib None 1 first_generation))) first_store = Some ?f"
    by (simp add: lookup_def dir_of_def first_store_def rebooted_def restored_now entry_def commit_manifest_def)
  moreover have "slot_bytes k first_store = bytes_of (if k = manifestSlotA then Some first_slot else None)" for k
    by (cases k) (simp_all add: first_content bytes_of_def manifestSlotFilename_def)
  ultimately show ?thesis
    using reopen [OF first_tidy, where f = ?f] first_found by (fastforce simp: wp_iff_run prod_eq_iff)
qed

subsection \<open>Crash safety\<close>


text \<open>A store that was reopened after its first commit refuses a state whose control record cannot be read.\<close>

definition bad_state :: stateV1 where "bad_state = state_zero\<lparr>sd_controlEnvelope := ''x''\<rparr>"

lemma bad_control: "decodeControlRecordV3 ''x'' = None"
proof (rule ccontr)
  assume "decodeControlRecordV3 ''x'' \<noteq> None"
  then obtain rec where "encodeControlRecordV3Unchecked rec = ''x''" using decoded_range(3) by blast
  then show False by (simp add: encodeControlRecordV3Unchecked_def json_obj_def)
qed

lemma checks_healthy: "healthy s \<Longrightarrow> wp (checks n) Q s = Q (Inr ()) s"
  by (induction n) (simp_all add: wp_attempt_healthy)

lemma first_refuses:
  assumes "run_state (openStore sample_lib sample_keys False) first_store = (opened, s)"
  shows "run_state (commits sample_lib sample_keys [bad_state]) s = ([commitFailure outcomeCommitNotPublished ''commit_validate''], s)"
proof -
  have "healthy s" "\<not> os_closed s" "\<not> os_poisoned s" using assms first_opens by (auto simp: healthy_def first_store_def rebooted_def)
  then have "wp (commits sample_lib sample_keys [bad_state]) (\<lambda>rs s'. rs = [commitFailure outcomeCommitNotPublished ''commit_validate''] \<and> s' = s) s"
    by (simp add: commit_def revalidateWriterIdentity_def orelse_def checks_healthy bad_state_def validateStateV1_def
        validControlRecordV3Envelope_def bad_control)
  then show ?thesis unfolding wp_iff_run by (metis prod.collapse)
qed


end
