(* ===== verification/StoreLive.thy ===== *)
theory StoreLive
  imports StoreDurable
begin

text \<open>
  A commit of a valid state to an open store whose calls meet no fault succeeds: it is reported as
  durable, and every later crash leaves its state.
\<close>

subsection \<open>Calls without a fault\<close>

lemma remove_healthy:
  "healthy s \<Longrightarrow> lookup role n s \<noteq> None \<Longrightarrow> wp (fs_remove role n) Q s = Q (Inr ()) (set_dir role (rename_entries (drop_entry n) (dir_of role s)) s)"
  by (auto simp: fs_remove_def wp_attempt_healthy)

lemma rename_healthy:
  "healthy s \<Longrightarrow> lookup role n s = Some f \<Longrightarrow> wp (fs_rename role n new) Q s =
     Q (Inr ()) (set_dir role (rename_entries (\<lambda>es. put_entry new f (drop_entry n es)) (dir_of role s)) s)"
  by (simp add: fs_rename_def wp_attempt_healthy)

lemma sync_healthy:
  "healthy s \<Longrightarrow> wp (syncDirectory role) Q s = Q (Inr ()) (set_dir role ((dir_of role s)\<lparr>dr_past := []\<rparr>) s)"
  by (simp add: syncDirectory_def wp_attempt_healthy)

lemma syncFile_healthy:
  "healthy s \<Longrightarrow> wp (syncFile role n) Q s = Q (Inr ()) (set_dir role ((dir_of role s)\<lparr>dr_now :=
     map (\<lambda>(m, f). (m, if m = n then f\<lparr>fl_synced := True\<rparr> else f)) (dr_now (dir_of role s))\<rparr>) s)"
  by (simp add: syncFile_def wp_attempt_healthy)

lemma write_healthy: "healthy s \<Longrightarrow> wp (writeAll role n payload) Q s = Q (Inr ()) (set_dir role (append_data n payload (dir_of role s)) s)"
  by (simp add: writeAll_def next_verdict_def wp_State healthy_def)

lemma healthy_set [simp]: "healthy (set_dir role d s) = healthy s"
  by (cases role) (simp_all add: healthy_def set_dir_def)

lemma random_set [simp]: "os_random (set_dir role d s) = os_random s"
  by (cases role) (simp_all add: set_dir_def)

definition temp_name :: "directoryRole \<Rightarrow> bytes \<Rightarrow> string" where
  "temp_name role r = temp_prefix role @ hex_encode (take 12 (r @ replicate 12 (CHR 0x00)))"

lemma temp_name_temporary: "temporary role (temp_name role r)"
  unfolding temp_name_def by (rule temporary_made) simp

lemma create_healthy:
  assumes "healthy s" "os_random s = r # rs" "lookup role (temp_name role r) s = None"
  shows "wp (createTemporary role (temp_prefix role)) Q s = Q (Inr (temp_name role r))
      (set_dir role (rename_entries (put_entry (temp_name role r) \<lparr>fl_data = [], fl_synced = False\<rparr>) (dir_of role s)) (s\<lparr>os_random := rs\<rparr>))"
proof -
  have c: "wp called P t = P None t" if "healthy t" for P :: "storeError option \<Rightarrow> store \<Rightarrow> bool" and t
    using that by (simp add: called_def next_verdict_def wp_State healthy_def)
  have h: "healthy (s\<lparr>os_random := rs\<rparr>)" using assms(1) by (simp add: healthy_def)
  have d: "dir_of role (s\<lparr>os_random := rs\<rparr>) = dir_of role s" "lookup role n (s\<lparr>os_random := rs\<rparr>) = lookup role n s" for n
    by (simp_all add: dir_of_def lookup_def split: directoryRole.split)
  have r: "wp rand_Read P s = P (Some (take 12 (r @ replicate 12 (CHR 0x00)))) (s\<lparr>os_random := rs\<rparr>)" for P
    using assms(2) by (simp add: rand_Read_def wp_State)
  have "createTemporary role (temp_prefix role) = create_loop (Suc 15) role (temp_prefix role)"
    unfolding createTemporary_def by (rule arg_cong [of _ _ "\<lambda>n. create_loop n role (temp_prefix role)"]) simp
  then show ?thesis unfolding create_loop.simps using assms(3) h r
    by (simp add: create_exclusive_def c d verifyOpenedDescriptor_def wp_attempt_healthy temp_name_def)
qed

subsection \<open>Stores with room\<close>

text \<open>A store that meets no fault, with space for \<open>k\<close> more names, and slots whose references can be read.\<close>

definition slot_ok :: "slib \<Rightarrow> bytes \<Rightarrow> bool" where
  "slot_ok lib raw \<longleftrightarrow> length raw \<le> maxManifestEnvelopeBytes \<and> (case decodeManifestSlot lib raw of
      None \<Rightarrow> True | Some e \<Rightarrow> extractManifestGenerationReferences lib (me_manifestPayload e) \<noteq> None)"

definition roomy :: "slib \<Rightarrow> nat \<Rightarrow> store \<Rightarrow> bool" where
  "roomy lib k s \<longleftrightarrow> healthy s \<and> set (os_others s) \<subseteq> {''LOCK'', ''generations'', mutationStateDirectory} \<and>
     length (os_others s) + length (dr_now (os_root s)) + length (dr_now (os_generations s)) + k \<le> maximumArtifactEntries \<and>
     (\<forall>role. all_named (proper role) (dir_of role s) \<and> distinct (map fst (dr_now (dir_of role s)))) \<and>
     (\<forall>slot. slot_ok lib (slot_bytes slot s))"

lemma all_roles: "(\<forall>role. P role) \<longleftrightarrow> P directoryRoot \<and> P directoryGenerations"
  by (metis directoryRole.exhaust)

lemma proper_roles: "proper directoryRoot = root_name" "proper directoryGenerations = generation_name"
  by (simp_all add: fun_eq_iff proper_def)

lemma roomy_tidy: "roomy lib k s \<Longrightarrow> tidy s"
  by (simp add: roomy_def tidy_def few_def all_roles proper_roles dir_of_def slot_ok_def)

lemma roomy_healthy: "roomy lib k s \<Longrightarrow> healthy s"
  by (simp add: roomy_def)

lemma others_set [simp]: "os_others (set_dir role d s) = os_others s"
  by (cases role) (simp_all add: set_dir_def)

lemma roomy_set:
  assumes "roomy lib (k + j) s" "all_named (proper role) d" "distinct (map fst (dr_now d))"
    and "length (dr_now d) \<le> length (dr_now (dir_of role s)) + j"
    and "\<And>slot. role = directoryRoot \<Longrightarrow> slot_ok lib (bytes_of (map_option fl_data (map_of (dr_now d) (manifestSlotFilename slot))))"
  shows "roomy lib k (set_dir role d s)"
proof (cases role)
  case directoryRoot
  then show ?thesis using assms
    by (simp add: roomy_def all_roles dir_of_def set_dir_def healthy_def bytes_of_lookup [symmetric] lookup_def)
next
  case directoryGenerations
  then show ?thesis using assms
    by (auto simp: roomy_def all_roles dir_of_def set_dir_def healthy_def content_def lookup_def)
qed

lemma roomy_mono: "roomy lib k s \<Longrightarrow> j \<le> k \<Longrightarrow> roomy lib j s"
  by (auto simp: roomy_def)

lemma roomy_named: "roomy lib k s \<Longrightarrow> all_named (proper role) (dir_of role s)" "roomy lib k s \<Longrightarrow> distinct (map fst (dr_now (dir_of role s)))"
  by (simp_all add: roomy_def)

lemma roomy_slot: "roomy lib k s \<Longrightarrow> slot_ok lib (bytes_of (map_option fl_data (map_of (dr_now (dir_of directoryRoot s)) (manifestSlotFilename slot))))"
  by (simp add: roomy_def flip: bytes_of_lookup) (simp add: lookup_def)

lemma temporary_slot: "temporary directoryRoot n \<Longrightarrow> n \<noteq> manifestSlotFilename slot"
  by (cases slot) (auto simp: temporary_def manifestTempPattern_def)

lemma distinct_put: "distinct (map fst es) \<Longrightarrow> distinct (map fst (put_entry n f es))"
  by (auto simp: put_entry_def distinct_map_filter)

lemma distinct_drop: "distinct (map fst es) \<Longrightarrow> distinct (map fst (drop_entry n es))"
  by (auto simp: drop_entry_def distinct_map_filter)

lemma length_put: "length (put_entry n f es) \<le> Suc (length es)"
  by (simp add: put_entry_def)

lemma length_drop_entry: "length (drop_entry n es) \<le> length es"
  by (simp add: drop_entry_def)

lemma length_drop_present: "map_of es n \<noteq> None \<Longrightarrow> Suc (length (drop_entry n es)) \<le> length es"
proof (induction es)
  case (Cons e es)
  then show ?case using length_drop_entry [of n es] by (cases e) (auto simp: drop_entry_def)
qed simp

lemma roomy_drop:
  assumes "roomy lib k s" "role = directoryRoot \<Longrightarrow> temporary role n"
  shows "roomy lib k (set_dir role (rename_entries (drop_entry n) (dir_of role s)) s)"
proof (rule roomy_set [where j = 0], goal_cases)
  case 2
  show ?case using now_names [OF roomy_named(1) [OF assms(1)]] by (intro all_named_rename roomy_named [OF assms(1)]) (simp add: names_drop)
next
  case (5 slot)
  then show ?case using roomy_slot [OF assms(1)] temporary_slot assms(2) by (auto simp: rename_entries_def map_of_drop)
qed (use assms(1) roomy_named [OF assms(1)] in \<open>simp_all add: rename_entries_def distinct_drop length_drop_entry\<close>)

lemma roomy_each:
  assumes "roomy lib k s" "\<And>m f. role = directoryRoot \<Longrightarrow> \<not> temporary role m \<Longrightarrow> fl_data (g m f) = fl_data f"
  shows "roomy lib k (set_dir role ((dir_of role s)\<lparr>dr_now := map (\<lambda>(m, f). (m, g m f)) (dr_now (dir_of role s))\<rparr>) s)"
proof (rule roomy_set [where j = 0], goal_cases)
  case 2
  show ?case by (intro all_named_each roomy_named [OF assms(1)])
next
  case (5 slot)
  then have "fl_data (g (manifestSlotFilename slot) f) = fl_data f" for f using assms(2) temporary_slot by auto
  then show ?case using roomy_slot [OF assms(1), of slot] 5 by (simp add: map_of_each option.map_comp comp_def)
qed (use assms(1) roomy_named [OF assms(1)] in \<open>simp_all add: comp_def case_prod_unfold\<close>)

lemma roomy_sync: "roomy lib k s \<Longrightarrow> roomy lib k (set_dir role ((dir_of role s)\<lparr>dr_past := []\<rparr>) s)"
  using roomy_named [of lib k s role] roomy_slot [of lib k s] by (intro roomy_set [where j = 0]) (auto simp: all_named_def)

text \<open>What a call without effect on the fields leaves.\<close>

definition calm :: "store \<Rightarrow> store \<Rightarrow> bool" where
  "calm s s' \<longleftrightarrow> os_random s' = os_random s \<and> fields_of s' = fields_of s"

lemma calm_refl [simp]: "calm s s" and calm_set [simp]: "calm s (set_dir role d t) = calm s t"
  by (simp_all add: calm_def)

definition clean :: "directoryRole \<Rightarrow> store \<Rightarrow> bool" where
  "clean role s \<longleftrightarrow> (\<forall>n \<in> fst ` set (dr_now (dir_of role s)). \<not> temporary role n)"

lemma clean_now: "dr_now (dir_of role s') = dr_now (dir_of role s) \<Longrightarrow> clean role s' = clean role s"
  by (simp add: clean_def)

lemma remove_loop_healthy:
  "roomy lib k s \<Longrightarrow> calm z s \<Longrightarrow> distinct names \<Longrightarrow> (\<And>n. n \<in> set names \<Longrightarrow> doomed n \<Longrightarrow> n \<in> fst ` set (dr_now (dir_of role s))) \<Longrightarrow>
   (\<And>n. role = directoryRoot \<Longrightarrow> doomed n \<Longrightarrow> temporary role n) \<Longrightarrow>
   wp (remove_loop role doomed names c) (\<lambda>r s'. (\<exists>c'. r = Inr c') \<and> roomy lib k s' \<and> calm z s' \<and> (\<forall>role'. role' \<noteq> role \<longrightarrow> dir_of role' s' = dir_of role' s) \<and>
     fst ` set (dr_now (dir_of role s')) = fst ` set (dr_now (dir_of role s)) - {n \<in> set names. doomed n}) s"
proof (induction names arbitrary: s c)
  case (Cons n names)
  show ?case
  proof (cases "doomed n")
    case True
    let ?s = "set_dir role (rename_entries (drop_entry n) (dir_of role s)) s"
    have "lookup role n s \<noteq> None" using Cons.prems(4) [of n] True by (simp add: lookup_def map_of_eq_None_iff)
    then have "wp (fs_remove role n) (\<lambda>r s'. r = Inr () \<and> s' = ?s) s" using roomy_healthy [OF Cons.prems(1)] by (simp add: remove_healthy)
    moreover have "wp (remove_loop role doomed names True) (\<lambda>r s'. (\<exists>c'. r = Inr c') \<and> roomy lib k s' \<and> calm z s' \<and> (\<forall>role'. role' \<noteq> role \<longrightarrow> dir_of role' s' = dir_of role' s) \<and>
       fst ` set (dr_now (dir_of role s')) = fst ` set (dr_now (dir_of role s)) - {m \<in> set (n # names). doomed m}) ?s"
    proof (rule wp_mono [OF Cons.IH [of ?s True]], goal_cases)
      case 1
      show ?case using Cons.prems(1,5) True by (intro roomy_drop) auto
    next
      case (4 m)
      then show ?case using Cons.prems(3,4) by (auto simp: rename_entries_def names_drop)
    qed (use Cons.prems True in \<open>auto simp: rename_entries_def names_drop\<close>)
    ultimately show ?thesis using True by (auto simp: wp_attempt_eq elim!: wp_mono)
  next
    case False
    have "wp (remove_loop role doomed names c) (\<lambda>r s'. (\<exists>c'. r = Inr c') \<and> roomy lib k s' \<and> calm z s' \<and> (\<forall>role'. role' \<noteq> role \<longrightarrow> dir_of role' s' = dir_of role' s) \<and>
       fst ` set (dr_now (dir_of role s')) = fst ` set (dr_now (dir_of role s)) - {m \<in> set names. doomed m}) s"
      using Cons.prems by (intro Cons.IH) auto
    moreover have "{m \<in> set (n # names). doomed m} = {m \<in> set names. doomed m}" using False by auto
    ultimately show ?thesis using False by simp
  qed
qed simp

subsection \<open>Maintenance\<close>

lemma references_healthy:
  "\<forall>raw \<in> set raws. slot_ok lib raw \<Longrightarrow> \<exists>refs. references_loop lib True raws acc = Inr refs"
  by (induction raws arbitrary: acc) (auto simp: slot_ok_def split: option.splits)

lemma sync_if_healthy:
  "roomy lib k s \<Longrightarrow> wp (sync_if role c) (\<lambda>r s'. r = Inr () \<and> roomy lib k s' \<and> (calm z s \<longrightarrow> calm z s') \<and>
     (\<forall>role'. dr_now (dir_of role' s') = dr_now (dir_of role' s))) s"
  using roomy_sync [of lib k s role] by (simp add: sync_if_def sync_healthy roomy_healthy)

lemma names_roomy:
  assumes "roomy lib k s"
  shows "wp (directoryNames role) (\<lambda>r s'. s' = s \<and> (\<exists>names. r = Inr names \<and> distinct (filter (temporary role) names) \<and>
     (role = directoryGenerations \<longrightarrow> distinct names) \<and>
     set names = (if role = directoryRoot then set (os_others s) else {}) \<union> fst ` set (dr_now (dir_of role s)))) s"
proof -
  have o: "\<not> temporary directoryRoot x" if "x \<in> set (os_others s)" for x
    using assms that by (auto simp: roomy_def temporary_def manifestTempPattern_def mutationStateDirectory_def)
  then have e: "filter (temporary directoryRoot) (os_others s) = []" by (simp add: filter_empty_conv)
  have f: "filter P (sort xs) = sort (filter P xs)" for P and xs :: "string list" by (rule filter_sort)
  show ?thesis using roomy_named(2) [OF assms, of role] e roomy_tidy [OF assms]
    by (cases role) (simp_all add: names_healthy tidy_def f)
qed

lemma remove_doomed: "remove_loop role doomed names c = remove_loop role doomed (filter doomed names) c"
  by (induction names arbitrary: c) simp_all

lemma remove_all_healthy:
  assumes "roomy lib k s" "calm z s" "distinct (filter doomed names)"
    and "\<And>n. n \<in> set names \<Longrightarrow> doomed n \<Longrightarrow> n \<in> fst ` set (dr_now (dir_of role s))"
    and "\<And>n. role = directoryRoot \<Longrightarrow> doomed n \<Longrightarrow> temporary role n"
    and "fst ` set (dr_now (dir_of role s)) \<subseteq> set names" "\<And>n. temporary role n \<Longrightarrow> doomed n"
  shows "wp (remove_loop role doomed names c) (\<lambda>r s'. (\<exists>c'. r = Inr c') \<and> roomy lib k s' \<and> calm z s' \<and>
     (\<forall>role'. role' \<noteq> role \<longrightarrow> dir_of role' s' = dir_of role' s) \<and> clean role s') s"
proof -
  have "wp (remove_loop role doomed (filter doomed names) c) (\<lambda>r s'. (\<exists>c'. r = Inr c') \<and> roomy lib k s' \<and> calm z s' \<and>
     (\<forall>role'. role' \<noteq> role \<longrightarrow> dir_of role' s' = dir_of role' s) \<and>
     fst ` set (dr_now (dir_of role s')) = fst ` set (dr_now (dir_of role s)) - {n \<in> set (filter doomed names). doomed n}) s"
    using assms(3-5) by (intro remove_loop_healthy [OF assms(1,2)]) auto
  then show ?thesis unfolding remove_doomed [of role doomed names] clean_def
  proof (rule wp_mono, goal_cases)
    case (1 r s')
    have "\<not> temporary role n" if n: "n \<in> fst ` set (dr_now (dir_of role s'))" for n
    proof
      assume "temporary role n"
      then have "doomed n" by (rule assms(7))
      moreover have "n \<in> fst ` set (dr_now (dir_of role s)) - {n \<in> set (filter doomed names). doomed n}" using n 1 by simp
      ultimately show False using assms(6) by auto
    qed
    then show ?case using 1 by simp
  qed
qed

lemma maintenance_healthy:
  assumes "roomy lib k s"
  shows "wp (maintenance lib) (\<lambda>r s'. r = Inr () \<and> roomy lib k s' \<and> calm s s' \<and> (\<forall>role. clean role s')) s"
    (is "wp _ ?post s")
  unfolding maintenance_def
proof (rule wp_attempt [OF layout_healthy [OF roomy_tidy [OF assms]]], simp, goal_cases)
  case (1 l s')
  then have l: "shows_slots s l" "enforceArtifactBound lib l = None" "s' = s" using bound_healthy by auto
  have "\<forall>raw \<in> set [ls_slotA l, ls_slotB l]. slot_ok lib raw" using assms l(1) by (simp add: roomy_def shows_slots_def all_slots)
  then obtain preserve where p: "publicationGenerationReferences lib l True = Inr preserve"
    using references_healthy unfolding publicationGenerationReferences_def by blast
  let ?doomed = "\<lambda>name. generationTempPattern name \<or> parseGenerationName name \<noteq> None \<and> \<not> List.member preserve name"
  have fin: "wp (attempt (sync_if directoryRoot a) (\<lambda>_. sync_if directoryGenerations b)) ?post t"
    if "roomy lib k t" "calm s t" "\<forall>role. clean role t" for a b t
  proof (rule wp_attempt [OF sync_if_healthy [OF that(1), where z = s]], simp, goal_cases)
    case (1 x t')
    then have t': "roomy lib k t'" "calm s t'" "\<forall>role. dr_now (dir_of role t') = dr_now (dir_of role t)" using that(2) by auto
    show ?case by (rule wp_mono [OF sync_if_healthy [OF t'(1), where z = s]]) (use that(3) t'(2,3) in \<open>simp add: clean_def\<close>)
  qed
  have gens: "wp (attempt (directoryNames directoryGenerations) (\<lambda>names. attempt (remove_loop directoryGenerations ?doomed names False)
      (\<lambda>b. attempt (sync_if directoryRoot a) (\<lambda>_. sync_if directoryGenerations b)))) ?post t"
    if t: "roomy lib k t" "calm s t" "clean directoryRoot t" for a t
  proof (rule wp_attempt [OF names_roomy [OF t(1)]], simp, goal_cases)
    case (1 names t')
    then have n: "distinct names" "set names = fst ` set (dr_now (dir_of directoryGenerations t))" "t' = t" by auto
    have "wp (remove_loop directoryGenerations ?doomed names False) (\<lambda>r s'. (\<exists>c'. r = Inr c') \<and> roomy lib k s' \<and> calm s s' \<and>
       (\<forall>role'. role' \<noteq> directoryGenerations \<longrightarrow> dir_of role' s' = dir_of role' t) \<and> clean directoryGenerations s') t"
      using n by (intro remove_all_healthy [OF t(1,2)]) (auto simp: temporary_def)
    then show ?case unfolding n(3)
    proof (rule wp_attempt, simp, goal_cases)
      case (1 b t2)
      then show ?case using t(3) by (intro fin) (auto simp: all_roles clean_def)
    qed
  qed
  have "wp (attempt (directoryNames directoryRoot) (\<lambda>names. attempt (remove_loop directoryRoot manifestTempPattern names False) (\<lambda>a.
      attempt (directoryNames directoryGenerations) (\<lambda>names. attempt (remove_loop directoryGenerations ?doomed names False)
      (\<lambda>b. attempt (sync_if directoryRoot a) (\<lambda>_. sync_if directoryGenerations b)))))) ?post s"
  proof (rule wp_attempt [OF names_roomy [OF assms]], simp, goal_cases)
    case (1 names t)
    then have n: "distinct (filter (temporary directoryRoot) names)" "set names = set (os_others s) \<union> fst ` set (dr_now (dir_of directoryRoot s))" "t = s"
      by auto
    have temp: "temporary directoryRoot = manifestTempPattern" by (simp add: fun_eq_iff temporary_def)
    have o: "\<not> manifestTempPattern x" if "x \<in> set (os_others s)" for x
      using assms that by (auto simp: roomy_def manifestTempPattern_def mutationStateDirectory_def)
    have "wp (remove_loop directoryRoot manifestTempPattern names False) (\<lambda>r s'. (\<exists>c'. r = Inr c') \<and> roomy lib k s' \<and> calm s s' \<and>
       (\<forall>role'. role' \<noteq> directoryRoot \<longrightarrow> dir_of role' s' = dir_of role' s) \<and> clean directoryRoot s') s"
      using n o temp by (intro remove_all_healthy [OF assms]) auto
    then show ?case unfolding n(3)
      by (rule wp_attempt) (use gens in auto)
  qed
  then show ?case using l p by simp
qed

subsection \<open>Publication\<close>

definition moved :: "directoryRole \<Rightarrow> store \<Rightarrow> store \<Rightarrow> bool" where
  "moved role s s' \<longleftrightarrow> calm s s' \<and> (\<forall>role'. role' \<noteq> role \<longrightarrow> dir_of role' s' = dir_of role' s)"

lemma moved_set: "moved role s (set_dir role d s)"
  by (simp add: moved_def)

lemma moved_trans: "moved role s s' \<Longrightarrow> moved role s' s'' \<Longrightarrow> moved role s s''"
  by (simp add: moved_def calm_def)

lemma random_fields [simp]: "dir_of role (s\<lparr>os_random := rs\<rparr>) = dir_of role s" "fields_of (s\<lparr>os_random := rs\<rparr>) = fields_of s"
    "roomy lib k (s\<lparr>os_random := rs\<rparr>) = roomy lib k s" "lookup role n (s\<lparr>os_random := rs\<rparr>) = lookup role n s"
  by (simp_all add: dir_of_def fields_of_def roomy_def healthy_def content_def lookup_def split: directoryRole.split)

lemma create_roomy:
  assumes "roomy lib (Suc k) s" "clean role s" "os_random s = r # rs"
  shows "wp (createTemporary role (temp_prefix role)) (\<lambda>x s'. x = Inr (temp_name role r) \<and> roomy lib k s' \<and> moved role (s\<lparr>os_random := rs\<rparr>) s' \<and>
     lookup role (temp_name role r) s' = Some \<lparr>fl_data = [], fl_synced = False\<rparr>) s"
proof -
  let ?t = "temp_name role r" and ?f = "\<lparr>fl_data = [], fl_synced = False\<rparr>"
  let ?d = "rename_entries (put_entry ?t ?f) (dir_of role s)"
  have free: "lookup role ?t s = None"
    using assms(2) temp_name_temporary [of role r] by (auto simp: clean_def lookup_def map_of_eq_None_iff)
  have "roomy lib k (set_dir role ?d (s\<lparr>os_random := rs\<rparr>))"
  proof (rule roomy_set [where j = 1], goal_cases)
    case 2
    show ?case using now_names [OF roomy_named(1) [OF assms(1)]] temporary_proper [OF temp_name_temporary]
      by (intro all_named_rename roomy_named [OF assms(1)]) (auto simp: names_put)
  next
    case (5 slot)
    then show ?case using roomy_slot [OF assms(1), of slot] temporary_slot [of ?t slot] temp_name_temporary [of role r]
      by (auto simp: rename_entries_def map_of_put)
  qed (use assms(1) roomy_named [OF assms(1)] length_put in \<open>simp_all add: rename_entries_def distinct_put\<close>)
  then show ?thesis using create_healthy [OF roomy_healthy [OF assms(1)] assms(3) free] moved_set
    by (simp add: rename_entries_def map_of_put)
qed

lemma append_each: "append_data n data d = d\<lparr>dr_now := map (\<lambda>(m, f). (m, if m = n then \<lparr>fl_data = fl_data f @ data, fl_synced = False\<rparr> else f)) (dr_now d)\<rparr>"
  by (simp add: append_data_def)

lemma write_roomy:
  assumes "roomy lib k s" "temporary role n" "lookup role n s = Some f"
  shows "wp (writeAll role n payload) (\<lambda>x s'. x = Inr () \<and> roomy lib k s' \<and> moved role s s' \<and>
     lookup role n s' = Some \<lparr>fl_data = fl_data f @ payload, fl_synced = False\<rparr>) s"
  unfolding write_healthy [OF roomy_healthy [OF assms(1)]] append_each
  using assms(2,3) moved_set by (auto simp: lookup_def map_of_each intro!: roomy_each [OF assms(1)])

lemma syncFile_roomy:
  assumes "roomy lib k s" "lookup role n s = Some f"
  shows "wp (syncFile role n) (\<lambda>x s'. x = Inr () \<and> roomy lib k s' \<and> moved role s s' \<and> lookup role n s' = Some (f\<lparr>fl_synced := True\<rparr>)) s"
  unfolding syncFile_healthy [OF roomy_healthy [OF assms(1)]]
  using assms(2) moved_set by (auto simp: lookup_def map_of_each intro!: roomy_each [OF assms(1)])

lemma rename_roomy:
  assumes "roomy lib k s" "temporary role n" "lookup role n s = Some f" "proper role new"
    and "role = directoryRoot \<Longrightarrow> slot_ok lib (fl_data f)"
  shows "wp (fs_rename role n new) (\<lambda>x s'. x = Inr () \<and> roomy lib k s' \<and> moved role s s') s"
proof -
  let ?d = "rename_entries (\<lambda>es. put_entry new f (drop_entry n es)) (dir_of role s)"
  have "roomy lib k (set_dir role ?d s)"
  proof (rule roomy_set [where j = 0], goal_cases)
    case 2
    show ?case using now_names [OF roomy_named(1) [OF assms(1)]] assms(4)
      by (intro all_named_rename roomy_named [OF assms(1)]) (auto simp: names_put names_drop)
  next
    case 4
    show ?case using length_drop_present [of "dr_now (dir_of role s)" n] length_put [of new f "drop_entry n (dr_now (dir_of role s))"] assms(3)
      by (simp add: rename_entries_def lookup_def)
  next
    case (5 slot)
    then show ?case using roomy_slot [OF assms(1), of slot] temporary_slot [of n slot] assms(2,5)
      by (auto simp: rename_entries_def map_of_put map_of_drop bytes_of_def)
  qed (use assms(1) roomy_named [OF assms(1)] in \<open>simp_all add: rename_entries_def distinct_put distinct_drop\<close>)
  then show ?thesis using moved_set by (simp add: rename_healthy [OF roomy_healthy [OF assms(1)] assms(3)])
qed

text \<open>The steps that both publications share.\<close>

lemma publish_roomy:
  assumes "roomy lib (Suc k) s" "clean role s" "os_random s = r # rs" "proper role f" "role = directoryRoot \<Longrightarrow> slot_ok lib payload"
    and rest: "\<And>s'. roomy lib k s' \<Longrightarrow> moved role (s\<lparr>os_random := rs\<rparr>) s' \<Longrightarrow> wp (rest ()) Q s'"
  shows "wp (refusing e1 (createTemporary role (temp_prefix role)) (\<lambda>name. refusing e2 (writeAll role name payload) (\<lambda>_.
     refusing e3 (syncFile role name) (\<lambda>_. refusing e4 (fs_rename role name f) rest)))) Q s"
proof (rule wp_refusing [OF create_roomy [OF assms(1-3)]], simp, goal_cases)
  case (1 n s1)
  note t = temp_name_temporary [of role r]
  have n: "n = temp_name role r" and s1: "roomy lib k s1" "moved role (s\<lparr>os_random := rs\<rparr>) s1"
    "lookup role (temp_name role r) s1 = Some \<lparr>fl_data = [], fl_synced = False\<rparr>" using 1 by auto
  show ?case unfolding n
  proof (rule wp_refusing [OF write_roomy [OF s1(1) t s1(3)]], simp, goal_cases)
    case (1 u s2)
    then have s2: "roomy lib k s2" "moved role s1 s2" "lookup role (temp_name role r) s2 = Some \<lparr>fl_data = payload, fl_synced = False\<rparr>" by auto
    show ?case
    proof (rule wp_refusing [OF syncFile_roomy [OF s2(1,3)]], simp, goal_cases)
      case (1 u s3)
      then have s3: "roomy lib k s3" "moved role s2 s3" "lookup role (temp_name role r) s3 = Some \<lparr>fl_data = payload, fl_synced = True\<rparr>" by auto
      have slot: "role = directoryRoot \<Longrightarrow> slot_ok lib (fl_data \<lparr>fl_data = payload, fl_synced = True\<rparr>)" using assms(5) by simp
      show ?case
      proof (rule wp_refusing [OF rename_roomy [OF s3(1) t s3(3) assms(4) slot]], assumption, simp, goal_cases)
        case (1 u s4)
        then show ?case using rest moved_trans [OF moved_trans [OF moved_trans [OF s1(2) s2(2)] s3(2)], of s4] by simp
      qed
    qed
  qed
qed

lemma publishGeneration_healthy:
  assumes "roomy lib (Suc k) s" "clean directoryGenerations s" "os_random s = r # rs" "parseGenerationName (gf_generationFile reference) \<noteq> None"
  shows "wp (publishGeneration reference payload) (\<lambda>x s'. x = commitDurable \<and> roomy lib k s' \<and> moved directoryGenerations (s\<lparr>os_random := rs\<rparr>) s') s"
proof -
  have prefix: "''.tmp-generation-'' = temp_prefix directoryGenerations" by (simp add: temp_prefix_def)
  have sync: "wp (refusing e (syncDirectory directoryGenerations) (\<lambda>_. State_Monad.return commitDurable))
     (\<lambda>x s'. x = commitDurable \<and> roomy lib k s' \<and> moved directoryGenerations (s\<lparr>os_random := rs\<rparr>) s') s'"
    if "roomy lib k s'" "moved directoryGenerations (s\<lparr>os_random := rs\<rparr>) s'" for e s'
    using that roomy_sync [OF that(1), of directoryGenerations] moved_trans [OF that(2) moved_set]
    by (simp add: refusing_def orelse_def sync_healthy roomy_healthy)
  show ?thesis unfolding publishGeneration_def prefix
    using assms(4) by (intro publish_roomy [OF assms(1-3)] sync) (auto simp: proper_def generation_name_def)
qed

lemma publishManifest_healthy:
  assumes "roomy lib (Suc k) s" "clean directoryRoot s" "os_random s = r # rs" "slot_ok lib payload"
  shows "wp (publishManifest target payload) (\<lambda>x s'. x = commitDurable \<and> roomy lib k s' \<and> moved directoryRoot (s\<lparr>os_random := rs\<rparr>) s') s"
proof -
  have prefix: "''.tmp-manifest-'' = temp_prefix directoryRoot" by (simp add: temp_prefix_def)
  have "proper directoryRoot (manifestSlotFilename target)" by (cases target) (simp_all add: proper_def root_name_def)
  then show ?thesis unfolding publishManifest_def prefix
    using assms(4) by (intro publish_roomy [OF assms(1-3)]) auto
qed

subsection \<open>The sizes of the documents\<close>

lemma length_uint: "length (uint_text x) \<le> 20"
proof -
  have "unat x < 2 ^ 64" using unsigned_less [of x] by simp
  then have "unat x < 10 ^ 20" by simp
  then show ?thesis unfolding uint_text_def by (rule dec_nat_length) simp
qed

lemma length_reference:
  assumes "validateGenerationReference r"
  shows "length (writeGenerationReference r) \<le> 300"
proof -
  have "gf_generationFile r = generationFilename (gf_generation r)" "digestPattern (gf_generationSHA256 r)"
    using assms by (simp_all add: validateGenerationReference_def)
  moreover have "length (generationFilename (gf_generation r)) = 27"
    using generation_file [of "gf_generation r"] assms
    by (auto simp: validateGenerationReference_def parseGenerationName_def generationNamePattern_def split: if_splits)
  ultimately show ?thesis
    using length_uint [of "gf_generation r"] length_uint [of "gf_schemaVersion r"] plain_filename plain_digest
    by (simp add: writeGenerationReference_def length_canonical digestPattern_def)
qed

lemma manifest_fits:
  assumes "mp_manifestVersion m = currentManifestVersion" "validateGenerationReference (mp_current m)"
    and "\<And>p. mp_parent m = Some p \<Longrightarrow> validateGenerationReference p"
  obtains b where "encodeManifestPayloadV1 m = Some b" "length b \<le> 1000" "b \<noteq> []"
proof -
  let ?out = "''{\"current\":'' @ writeGenerationReference (mp_current m) @ '',\"manifest_version\":1,\"parent\":'' @
             optional_text writeGenerationReference (mp_parent m) @ ''}'' @ [CHR 0x0A]"
  have "length (optional_text writeGenerationReference (mp_parent m)) \<le> 300"
    using assms(3) length_reference by (auto simp: optional_text_def split: option.split)
  then have "length ?out \<le> 1000" using length_reference [OF assms(2)] by simp
  moreover from this have "encodeManifestPayloadV1 m = Some ?out" using assms
    by (auto simp: encodeManifestPayloadV1_def Let_def check_def maxManifestPayloadBytes_def split: option.splits)
  ultimately show ?thesis using that by blast
qed

lemma envelope_fits:
  assumes "lib_ok lib" "b \<noteq> []" "length b \<le> 1000" "epoch \<noteq> 0" "epoch \<le> int64_max"
  obtains raw where "encodeManifestSlot lib (commit_envelope lib epoch b) = Some raw"
proof -
  have "length (sha256Hex lib b) = 64" "plain (sha256Hex lib b)"
    using digest_sha [OF assms(1)] plain_digest by (simp_all add: digestPattern_def)
  moreover have "Suc (Suc (length b)) div 3 * 4 \<le> 4000" "\<not> int64_max < epoch" using assms(3,5) by auto
  ultimately have "encodeManifestSlot lib (commit_envelope lib epoch b) \<noteq> None"
    using assms length_uint [of epoch] length_uint [of currentSlotVersion] plain_base64 [of b]
    by (simp add: encodeManifestSlot_def commit_envelope_def Let_def check_def maxManifestPayloadBytes_def maxManifestEnvelopeBytes_def
        length_canonical length_base64_encode)
  then show ?thesis using that by blast
qed

lemma forward_read: "validateGenerationReference r \<Longrightarrow> decodeForwardGenerationReference (reference_tree r) = Some r"
  by (cases r) (simp add: decodeForwardGenerationReference_def object_tree_def reference_members_def member_defs field_defs check_def Let_def)

lemma references_read:
  assumes "lib_ok lib" "encodeManifestPayloadV1 m = Some b"
  shows "extractManifestGenerationReferences lib b \<noteq> None"
proof -
  have doc: "validateCanonicalJSON lib b maxManifestPayloadBytes maxJSONDepth = Some (object_tree (manifest_members m))"
    by (rule manifest_document [OF assms])
  have "decodeManifestVersion b \<noteq> None"
    using manifest_selected [OF assms] by (auto simp: decodeSelectedManifest_def split: if_splits option.splits)
  then show ?thesis using doc forward_read [OF manifest_encoded(4) [OF assms(2)]] forward_read [OF manifest_encoded(5) [OF assms(2)]]
    by (cases "mp_parent m") (auto simp: extractManifestGenerationReferences_def object_tree_Cons manifest_members_def member_defs optional_text_def
        reference_option_tree_def)
qed

lemma slot_written:
  assumes "lib_ok lib" "encodeManifestPayloadV1 m = Some b" "encodeManifestSlot lib (commit_envelope lib epoch b) = Some raw"
  shows "slot_ok lib raw"
proof -
  have "decodeManifestSlot lib raw = Some (commit_envelope lib epoch b)"
    using envelope_valid(1) [OF assms(1,3), of manifestSlotA] by (auto simp: publicationValidSlot_def split: if_splits option.splits)
  then show ?thesis using envelope_valid(2) [OF assms(1,3)] references_read [OF assms(1,2)] by (simp add: slot_ok_def commit_envelope_def)
qed

subsection \<open>Commits\<close>

lemma published_healthy:
  assumes lib: "lib_ok lib" and s: "roomy lib (Suc k) s" "clean directoryRoot s" "os_random s = r # rs"
    and m: "mp_manifestVersion m = currentManifestVersion" "validateGenerationReference (mp_current m)"
      "\<And>p. mp_parent m = Some p \<Longrightarrow> validateGenerationReference p"
    and epoch: "epoch \<noteq> 0" "epoch \<le> int64_max"
  shows "wp (commit_published lib state m epoch target) (\<lambda>x s'. x = commitDurable) s"
proof -
  obtain b where b: "encodeManifestPayloadV1 m = Some b" "length b \<le> 1000" "b \<noteq> []" using manifest_fits [OF m] by blast
  obtain raw where raw: "encodeManifestSlot lib (commit_envelope lib epoch b) = Some raw" using envelope_fits [OF lib b(3,2) epoch] by blast
  let ?f = "\<lambda>s. s\<lparr>os_selected := Some \<lparr>sm_slot = target, sm_epoch = epoch, sm_payload = b,
      sm_envelope = commit_envelope lib epoch b, sm_envelopeRaw = raw\<rparr>, os_manifest := Some m, os_state := state\<rparr>"
  have upd: "roomy lib k (?f t)" if "roomy lib k t" for t
    using that by (simp add: roomy_def healthy_def content_def lookup_def dir_of_def split: directoryRole.splits)
  have fin: "wp (orelse (maintenance lib) (\<lambda>_. poison e) (\<lambda>_. State_Monad.return commitDurable)) (\<lambda>x s'. x = commitDurable) t"
    if "roomy lib k t" for t e
    by (rule wp_orelse [OF maintenance_healthy [OF that]]) simp_all
  have "wp (publishManifest target raw) (\<lambda>x s'. x = commitDurable \<and> roomy lib k s') s"
    using publishManifest_healthy [OF s slot_written [OF lib b(1) raw]] by (rule wp_mono) simp
  then show ?thesis unfolding commit_published_def Let_def using b raw
    by (auto simp: commitDurable_def orelse_def [of "syncDirectory r" for r] sync_healthy roomy_healthy
        intro!: fin [unfolded commitDurable_def] upd roomy_sync elim!: wp_mono)
qed

lemma commit_healthy:
  assumes lib: "lib_ok lib" and s: "roomy lib 2 s" "os_random s = r1 # r2 # rs" "\<not> os_closed s" "\<not> os_poisoned s"
    and f: "os_selected s = Some sel" "os_manifest s = Some m" "found lib keys c sel m payload st"
    and state: "validateStateV1 lib state" "validateProtectedKeys lib keys state = None"
    and gen: "encodeGenerationV1 lib (commit_generation (Some m) (gf_generation (mp_current m) + 1) state) \<noteq> None"
    and bounds: "gf_generation (mp_current m) < int64_max" "sm_epoch sel < int64_max"
  shows "wp (commit lib keys state) (\<lambda>x s'. x = commitDurable) s"
proof -
  let ?n = "gf_generation (mp_current m) + 1" and ?e = "sm_epoch sel + 1"
  have step: "x + 1 \<noteq> 0 \<and> x + 1 \<le> int64_max" if "x < int64_max" for x :: uint64
    using that inc_le [OF that] by (auto simp: int64_max_def dest!: max_word_wrap)
  obtain p where p: "encodeGenerationV1 lib (commit_generation (Some m) ?n state) = Some p" using gen by blast
  let ?m = "commit_manifest lib (Some m) ?n p"
  have m: "mp_manifestVersion ?m = currentManifestVersion" "validateGenerationReference (mp_current ?m)"
    "\<And>q. mp_parent ?m = Some q \<Longrightarrow> validateGenerationReference q"
    using step [OF bounds(1)] digest_sha [OF lib] found_reference [OF f(3)]
    by (auto simp: commit_manifest_def validateGenerationReference_def currentSchemaVersion_def int64_max_def)
  have "wp (commit_prepared lib state ?n ?e) (\<lambda>x s'. x = commitDurable) s"
    unfolding commit_prepared_def
  proof (rule wp_refusing [OF maintenance_healthy [OF s(1)]], simp, goal_cases)
    case (1 u s1)
    then have s1: "roomy lib (Suc 1) s1" "clean directoryGenerations s1" "clean directoryRoot s1" "os_random s1 = r1 # r2 # rs"
      "os_selected s1 = Some sel" "os_manifest s1 = Some m" using s(2) f(1,2) by (auto simp: calm_def fields_of_def numeral_2_eq_2)
    have "wp (publishGeneration (mp_current ?m) p) (\<lambda>x s'. x = commitDurable \<and> roomy lib 1 s' \<and> moved directoryGenerations (s1\<lparr>os_random := r2 # rs\<rparr>) s') s1"
      using valid_file [OF m(2)] by (intro publishGeneration_healthy [OF s1(1,2,4)]) simp
    moreover have "wp (commit_published lib state ?m ?e target) (\<lambda>x s'. x = commitDurable) s2"
      if "roomy lib 1 s2" "moved directoryGenerations (s1\<lparr>os_random := r2 # rs\<rparr>) s2" for s2 target
      using that s1(3) step [OF bounds(2)]
      by (intro published_healthy [OF lib _ _ _ m, where k = 0 and r = r2 and rs = rs]) (auto simp: moved_def calm_def clean_def)
    ultimately show ?case using s1(5,6) p by (auto simp: Let_def commitDurable_def elim!: wp_mono)
  qed
  then show ?thesis using s state f(1,2) bounds roomy_healthy [OF s(1)]
    by (simp add: commit_def revalidateWriterIdentity_def orelse_def checks_healthy nextSequence_def)
qed


lemma second_encoded:
  "encodeGenerationV1 sample_lib (commit_generation (Some (commit_manifest sample_lib None 1 first_generation)) 2 state_zero) \<noteq> None"
  using zero_valid(1) first_lengths(2) plain_digest [OF digest_sha [OF sample_lib_ok]] length_uint [of 2] length_uint [of currentSchemaVersion]
    digest_sha [OF sample_lib_ok]
  by (simp add: encodeGenerationV1_def commit_generation_def commit_manifest_def validateGenerationMetadata_def int64_max_def state_zero_def
      optional_text_def sample_numbers Let_def check_def maxGenerationBytes_def length_canonical)


end
