(* ===== verification/StoreFirst.thy ===== *)
theory StoreFirst
  imports StoreDurable
begin

text \<open>
  The first opening of the credential store, which commits an empty state: when it is interrupted after
  it made a file, every later opening is refused.
\<close>

subsection \<open>The number of artefacts\<close>

lemma wp_attempt_any: "(\<And>e s. Q (Inl e) s) \<Longrightarrow> (\<And>x s. wp (k x) Q s) \<Longrightarrow> wp (attempt m k) Q s"
  by (rule wp_attempt [OF wp_True])

lemma root_loop_counts:
  "wp (root_loop snapshot names) (\<lambda>r _. \<forall>l. r = Inr l \<longrightarrow> ls_generationEntries l = ls_generationEntries snapshot \<and>
     ls_temporaryEntries l = ls_temporaryEntries snapshot + length (filter manifestTempPattern names)) s"
proof (induction names arbitrary: snapshot s)
  case (Cons n names)
  have no: "\<not> manifestTempPattern ''LOCK''" "\<not> manifestTempPattern ''generations''" "\<not> manifestTempPattern mutationStateDirectory"
    "\<not> manifestTempPattern ''MANIFEST.A''" "\<not> manifestTempPattern ''MANIFEST.B''"
    by (simp_all add: manifestTempPattern_def mutationStateDirectory_def)
  note ih = Cons.IH [THEN wp_mono]
  show ?case using no by (auto intro!: wp_attempt_any ih split: if_splits)
qed simp

definition artefacts :: "store \<Rightarrow> nat" where
  "artefacts s = length (filter manifestTempPattern (map fst (dr_now (os_root s)))) + length (dr_now (os_generations s))"

lemma layout_counts:
  assumes s: "tidy s"
  shows "wp verifyLayout (\<lambda>r s'. s' = s \<and> (\<exists>l. r = Inr l \<and> ls_temporaryEntries l + ls_generationEntries l = artefacts s)) s"
proof -
  have h: "healthy s" "few s" using s by (simp_all add: tidy_def)
  let ?root = "sort (os_others s @ map fst (dr_now (os_root s)))" and ?gens = "sort (map fst (dr_now (os_generations s)))"
  have "filter manifestTempPattern (os_others s) = []"
    using s by (auto simp: tidy_def filter_empty_conv manifestTempPattern_def mutationStateDirectory_def)
  then have c: "length (filter manifestTempPattern ?root) + length ?gens = artefacts s" by (simp add: artefacts_def filter_sort)
  have few: "artefacts s \<le> maximumArtifactEntries"
    using h(2) length_filter_le [of "manifestTempPattern \<circ> fst" "dr_now (os_root s)"]
    unfolding artefacts_def few_def filter_map length_map by linarith
  have sets: "set ?root \<subseteq> {''LOCK'', ''generations'', mutationStateDirectory} \<union> fst ` set (dr_now (os_root s))"
    "set ?gens \<subseteq> fst ` set (dr_now (os_generations s))" using s by (auto simp: tidy_def)
  have gens: "wp (attempt (generation_loop snapshot ?gens) (\<lambda>snapshot.
       if maximumArtifactEntries + maximumPublicationGenerationRefs < ls_temporaryEntries snapshot + ls_generationEntries snapshot
       then err (newStoreError outcomeLayoutRejected ''enumerate_layout'') else ok snapshot))
     (\<lambda>r s'. s' = s \<and> (\<exists>l. r = Inr l \<and> ls_temporaryEntries l + ls_generationEntries l = artefacts s)) s"
    if "ls_temporaryEntries snapshot = length (filter manifestTempPattern ?root)" "ls_generationEntries snapshot = 0" for snapshot
    by (rule wp_attempt [OF generation_loop_healthy [OF s sets(2)]]) (use that c few in auto)
  have "wp (attempt (root_loop emptySnapshot ?root) (\<lambda>snapshot.
      orelse (directoryNames directoryGenerations) (\<lambda>_. err (newStoreError outcomeIOFailed ''enumerate_generations'')) (\<lambda>names.
      attempt (generation_loop snapshot names) (\<lambda>snapshot.
        if maximumArtifactEntries + maximumPublicationGenerationRefs < ls_temporaryEntries snapshot + ls_generationEntries snapshot
        then err (newStoreError outcomeLayoutRejected ''enumerate_layout'') else ok snapshot))))
      (\<lambda>r s'. s' = s \<and> (\<exists>l. r = Inr l \<and> ls_temporaryEntries l + ls_generationEntries l = artefacts s)) s"
    by (rule wp_attempt [OF wp_conjI [OF root_loop_healthy [OF s sets(1)] root_loop_counts]])
       (use gens h in \<open>auto simp: orelse_def names_healthy dir_of_def emptySnapshot_def\<close>)
  then show ?thesis using h
    by (simp add: verifyLayout_def wp_attempt_healthy) (simp add: orelse_def names_healthy dir_of_def)
qed

lemma refused_first:
  assumes s: "tidy s" and slots: "\<And>slot. slot_bytes slot s = []" and a: "artefacts s \<noteq> 0"
  shows "wp (openStore lib keys retain) (\<lambda>r s'. r = openFailure (newStoreError outcomeNoValidManifest ''open_manifest'') \<and> s' = s\<lparr>os_closed := True\<rparr>) s"
  unfolding openStore_def
proof (rule wp_orelse [OF wp_conjI [OF layout_counts [OF s] layout_healthy [OF s]]], simp, goal_cases)
  case (1 l s')
  then have l: "ls_temporaryEntries l + ls_generationEntries l \<noteq> 0" "enforceArtifactBound lib l = None" "shows_slots s l" "s' = s"
    using a bound_healthy by auto
  then have "ls_slotA l = [] \<and> ls_slotB l = []" using slots [of manifestSlotA] slots [of manifestSlotB] by (simp add: shows_slots_def)
  then show ?case using l by (auto simp: open_empty_def refuse_open_def abort_def)
qed

subsection \<open>A first opening that is interrupted\<close>

definition empty_store :: "verdict list \<Rightarrow> store" where
  "empty_store tape = (rebooted [] [] [''LOCK'', ''generations''] [[]])\<lparr>os_tape := tape\<rparr>"

definition temp_file :: string where "temp_file = ''.tmp-generation-000000000000000000000000''"

lemma interrupted_files:
  "os_root (snd (run_state (openStore sample_lib sample_keys False) (empty_store (replicate 21 Good @ [Crash])))) = \<lparr>dr_now = [], dr_past = []\<rparr>"
  "os_generations (snd (run_state (openStore sample_lib sample_keys False) (empty_store (replicate 21 Good @ [Crash])))) =
     \<lparr>dr_now = [(temp_file, \<lparr>fl_data = [], fl_synced = False\<rparr>)], dr_past = [[]]\<rparr>"
  by code_simp+

text \<open>
  C40 Interrupted first opening. A store that holds a generation or a temporary file, but neither of the
  two manifests, is refused, whatever its files hold, and nothing is changed by the attempt, so that it is refused forever. The
  first opening of a new store leaves such files when it is interrupted between its first temporary
  file and its manifest.
\<close>

theorem interrupted_first_open:
  assumes "tidy s" and "\<forall>slot. slot_bytes slot s = []" and "artefacts s \<noteq> 0"
  shows "run_state (openStore lib keys retain) s =
    (openFailure (newStoreError outcomeNoValidManifest ''open_manifest''), s\<lparr>os_closed := True\<rparr>)"
  using refused_first [OF assms(1) _ assms(3), of lib keys retain] assms(2) by (auto simp: wp_iff_run prod_eq_iff)

theorem interrupted_first_open_witness:
  "survives (os_root (snd (run_state (openStore sample_lib sample_keys False) (empty_store (replicate 21 Good @ [Crash]))))) [] \<and>
   survives (os_generations (snd (run_state (openStore sample_lib sample_keys False) (empty_store (replicate 21 Good @ [Crash]))))) [(temp_file, [])] \<and>
   fst (run_state (openStore sample_lib sample_keys False) (rebooted [] [(temp_file, [])] [''LOCK'', ''generations''] [])) =
     openFailure (newStoreError outcomeNoValidManifest ''open_manifest'')"
proof -
  let ?s = "rebooted [] [(temp_file, [])] [''LOCK'', ''generations''] []"
  have "generation_name temp_file" by code_simp
  then have "tidy ?s" by (simp add: tidy_def healthy_def few_def rebooted_def restored_def all_named_def maximumArtifactEntries_def content_def lookup_def dir_of_def)
  moreover have "\<forall>slot. slot_bytes slot ?s = []" by (simp add: content_def lookup_def dir_of_def rebooted_def restored_def)
  moreover have "artefacts ?s \<noteq> 0" by (simp add: artefacts_def rebooted_def restored_def)
  ultimately show ?thesis using interrupted_first_open [of ?s sample_lib sample_keys False] interrupted_files by (simp add: survives_def)
qed

end
