(* ===== verification/Spec2Isabelle.thy ===== *)
theory Spec2Isabelle
  imports Requests Paths JournalLog AdminFraming Participation TrustCrash TrustRuns TrustDrain StoreLive StoreFirst
begin

text \<open>
  A verification development for helianthus-eebusreg, the registry of an eeBUS runtime written in Go.
  All paths below are relative to \<^verbatim>\<open>src/\<close>.

  \<^bold>\<open>The program.\<close> The runtime talks to energy devices through a third-party eeBUS service. Around it the
  sources add four things of their own: contracts for the data that leaves the runtime (\<^verbatim>\<open>eebusraw\<close>,
  \<^verbatim>\<open>eebusevidence\<close>, \<^verbatim>\<open>participation_*.go\<close>); a mutation subsystem that writes a value to a device, verifies it and
  rolls it back (\<^verbatim>\<open>internal/eebusmutation\<close>); a trust coordinator that decides which remote devices may become
  partners and publishes the decision (\<^verbatim>\<open>internal/eebusfacade\<close>); and a credential store that keeps identities and
  control records over crashes (\<^verbatim>\<open>internal/eebusstore\<close>). The mutation subsystem uses the contracts and its
  journal; the trust coordinator uses the store and an anchor outside it, the host witness, so that a store that was
  copied or set back is noticed.

  \<^bold>\<open>Style of the model.\<close> A Go structure is a record, an enumeration a datatype, a 64-bit integer a word, a string
  the list of its bytes, a Go map an association list or a function. A function with effects is a program of the state monad
  over the state of its component; \<^const>\<open>wp\<close> of \<^theory_text>\<open>StateHoare\<close> is its weakest precondition. Errors are
  values of options and sums. A panic of the trust coordinator is a value of its state. What the sources call and do not
  contain is a parameter: hash functions and Unicode tables (records \<open>golib\<close>, \<open>slib\<close>), the clock, randomness, the device
  and the other goroutines (records of dependencies), certificates and key providers (\<open>keys\<close>). Calls that may fail read what they
  meet from a tape of verdicts, or take it from the environment.

  \<^bold>\<open>Shared theories.\<close> \<^theory_text>\<open>Prelude\<close> (integers, options, maps, loops), \<^theory_text>\<open>GoText\<close> (UTF-8 and text functions of Go),
  \<^theory_text>\<open>HexText\<close>, \<^theory_text>\<open>StateHoare\<close>, \<^theory_text>\<open>GoJson\<close> and \<^theory_text>\<open>GoJsonLaws\<close> (the reader and the writers of
  \<^verbatim>\<open>encoding/json\<close> and \<^verbatim>\<open>encoding/base64\<close> that the store uses, and which text is read as which value).

  \<^bold>\<open>Contracts.\<close>
  \<^item> \<^theory_text>\<open>TypedValue\<close>: \<^verbatim>\<open>eebusraw/typed_value_v1.go\<close>, canonical form, canonical text and hashes of values; \<^theory_text>\<open>Canonical\<close>
    shows that canonical values are fixed points and that the text of an object does not depend on the order of a Go map (C14, C15).
  \<^item> \<^theory_text>\<open>RawContract\<close>, \<^theory_text>\<open>MutationContract\<close>: the structures and validators of \<^verbatim>\<open>raw_feature_v1.go\<close>, \<^verbatim>\<open>raw_mutation_v1.go\<close>,
    \<^verbatim>\<open>contract_validation_v1.go\<close>, with the state machine of audit trails.
  \<^item> \<^theory_text>\<open>Identity\<close>, \<^theory_text>\<open>Evidence\<close>: redacted identities and sealed envelopes of both contracts; redaction never shows a value, documents
    do not depend on the order of their parts, the data hash binds the content (C20 to C24).
  \<^item> \<^theory_text>\<open>Participation\<close>: configurations, contributions and the conditions under which control is allowed (C25 to C27).
  \<^item> \<^theory_text>\<open>AdminFraming\<close>: the frames of the administrator's socket (C18, C19).

  \<^bold>\<open>Mutations.\<close>
  \<^item> \<^theory_text>\<open>MutationGuards\<close> (\<^verbatim>\<open>types.go\<close>, \<^verbatim>\<open>validation.go\<close>), \<^theory_text>\<open>Journal\<close> (\<^verbatim>\<open>journal.go\<close>), \<^theory_text>\<open>Coordinator\<close> (\<^verbatim>\<open>coordinator.go\<close>: tables,
    writer lease, durable transitions, timers), \<^theory_text>\<open>Execution\<close> (\<^verbatim>\<open>execution.go\<close> and the rollback half of \<^verbatim>\<open>rollback.go\<close>),
    \<^theory_text>\<open>Handlers\<close> (the entry points).
  \<^item> \<^theory_text>\<open>WriteAhead\<close> states the laws of an invariant of one entry as locales (\<open>entry_invariant\<close>, \<open>execution_invariant\<close>) and proves
    once that the execution and recovery programs keep such an invariant; \<^theory_text>\<open>Safety\<close>, \<^theory_text>\<open>Requests\<close> and \<^theory_text>\<open>Paths\<close> interpret them.
    \<^theory_text>\<open>EntryPoints\<close> extends this to all entry points and \<^theory_text>\<open>Runs\<close> to all reachable states.
  \<^item> Shown: a remote write directly follows the durable record that announces it, the quarantine flag is exact, the lease
    is released (C1 to C3, \<^theory_text>\<open>Runs\<close>); refusals, retries, one write a request (C4 to C8, \<^theory_text>\<open>Requests\<close>); a reported success was read
    back (C9, C10, \<^theory_text>\<open>Outcomes\<close>); which programs record legal trails, and two that do not (C11 to C13, \<^theory_text>\<open>Paths\<close>); the journal refines
    a log (locale \<open>durable_log\<close>) and repairs a torn tail (C16, C17, \<^theory_text>\<open>JournalLog\<close>). \<^theory_text>\<open>Sample\<close> is the deployment of the witnesses.

  \<^bold>\<open>Trust.\<close>
  \<^item> \<^theory_text>\<open>TrustTypes\<close> (\<^verbatim>\<open>msp04c_types.go\<close>), \<^theory_text>\<open>TrustState\<close>, \<^theory_text>\<open>TrustChecks\<close>, \<^theory_text>\<open>TrustReplays\<close>, \<^theory_text>\<open>TrustProjection\<close>
    (\<^verbatim>\<open>trust_admin_projection.go\<close>), \<^theory_text>\<open>TrustRecovery\<close> (\<^verbatim>\<open>msp04c_coordinator.go\<close>, \<^verbatim>\<open>msp04c_backoff.go\<close>), \<^theory_text>\<open>TrustPairing\<close>
    (\<^verbatim>\<open>first_trust.go\<close>), \<^theory_text>\<open>TrustCandidates\<close> (\<^verbatim>\<open>first_trust_candidates.go\<close>), \<^theory_text>\<open>TrustAttempts\<close> (\<^verbatim>\<open>msp04cr2_predial.go\<close>),
    \<^theory_text>\<open>TrustReopen\<close>, \<^theory_text>\<open>TrustRevocation\<close> (\<^verbatim>\<open>msp04c_revocation_repair.go\<close>), \<^theory_text>\<open>TrustAnchor\<close>
    (\<^verbatim>\<open>runtime_protected_witness_native.go\<close>) and \<^theory_text>\<open>TrustPublication\<close>.
  \<^item> An operation runs under the mutex of the coordinator; where the code gives it up, \<open>d_others\<close> of the environment runs other
    operations. \<^theory_text>\<open>TrustRuns\<close> lets a scheduler interleave any operations there, to any depth.
  \<^item> The anchor is the locale \<open>anchor_provider\<close>, interpreted by the native witness file; \<^theory_text>\<open>TrustFrames\<close> has the locales
    \<open>bookkeeping\<close> and \<open>committing\<close> for what most operations leave alone, interpreted in \<^theory_text>\<open>TrustHonesty\<close> and \<^theory_text>\<open>TrustDrain\<close>.
  \<^item> Shown: the schedule of retries, when a start counts as trusted, what is shown as paired (C28 to C30, \<^theory_text>\<open>TrustSafety\<close>); the anchor
    file, publications that stay in step whatever fails, and the fault that is reported as something else (C31 to C33, \<^theory_text>\<open>TrustCrash\<close>);
    nothing is trusted or registered without a confirmation (C34, C35, \<^theory_text>\<open>TrustRuns\<close>); the queue of effects is worked off (C36, \<^theory_text>\<open>TrustDrain\<close>).

  \<^bold>\<open>Credential store.\<close>
  \<^item> \<^theory_text>\<open>StoreSchema\<close>, \<^theory_text>\<open>StoreCodec\<close>: \<^verbatim>\<open>schema.go\<close>, \<^verbatim>\<open>codec.go\<close>, \<^verbatim>\<open>control.go\<close>, \<^verbatim>\<open>control_v3.go\<close>; \<^theory_text>\<open>StoreText\<close>, \<^theory_text>\<open>StoreControl\<close> and
    \<^theory_text>\<open>StoreGeneration\<close> show which documents are read back as they were written (C37).
  \<^item> \<^theory_text>\<open>StoreDisk\<close>: the files and the calls on them (\<^verbatim>\<open>filesystem.go\<close>, \<^verbatim>\<open>outcome.go\<close>). A directory remembers every list of entries
    since it was synchronised; after a crash each name may be found as in any of them, and a file that was not synchronised
    with any content. \<^theory_text>\<open>StoreCommit\<close>: \<^verbatim>\<open>manifest.go\<close>, \<^verbatim>\<open>provider.go\<close>, \<^verbatim>\<open>commit.go\<close>, \<^verbatim>\<open>store.go\<close>.
  \<^item> \<^theory_text>\<open>StoreFiles\<close> says of every call what it keeps, \<^theory_text>\<open>StoreSafety\<close> the same of maintenance and the two publications, \<^theory_text>\<open>StoreCrash\<close>
    of a commit, \<^theory_text>\<open>StoreReopen\<close> of openings, runs of commits and crashes. \<^theory_text>\<open>StoreDurable\<close>: whatever fails, the store opens
    again with the last durable state or one reported as in doubt (C38). \<^theory_text>\<open>StoreLive\<close>: without faults a valid commit succeeds
    (C39). \<^theory_text>\<open>StoreFirst\<close>: a first opening that is interrupted makes the store unusable (C40).

  \<^bold>\<open>Bounds and fuel.\<close> The JSON reader has the length of its text as fuel, and every value it reads consumes a byte. The loops
  of the source that have a bound keep it: 16 attempts at a temporary name, 129 rounds of settling, two rounds of completing an attempt, the
  waits of a select. The drain of the effect queue has fuel in its definition; C36 shows that enough of it empties the queue. Every other
  loop is a structural recursion or has a termination proof. The depth of interleaving in \<^theory_text>\<open>TrustRuns\<close> is any number.

  \<^bold>\<open>Not modelled.\<close> The wiring to the third-party eeBUS service, its implementation of the interfaces above and the snapshots made
  of it; sockets, peer credentials, machine identities and the sealing of keys; of the store the making of its root, its locks, the
  probe of the capabilities of the file system and the checks of owners and modes, which are operating system calls whose answer is a verdict (the
  probe leaves both directories synchronised, which is the hypothesis \<open>at_rest\<close>); deep copies, which are the
  values themselves; formatting of structures for logs, which is constant text; the tools of the repository.
\<close>

end
